(* ===== verification/Js_Value.thy ===== *)
theory Js_Value
  imports Prelude
begin

text \<open>
  JavaScript values as the validators of \<open>packages/plugin-installer/src/execution.ts\<close>
  see them (\<open>unknown\<close> inputs), \<open>canonicalJson\<close> over them, and the host functions the
  plugin platform calls and this repository does not contain: SHA-256 and the date
  functions. The schemas of \<open>packages/plugin-sdk/src/common.ts\<close> are here too.
\<close>

section \<open>Values\<close>

text \<open>
  \<open>JInt i\<close> is a number for which \<open>Number.isInteger\<close> holds; \<open>JNonInt s\<close> is any other
  number, with the text \<open>String\<close> gives it (\<open>''0.5''\<close>, \<open>''NaN''\<close>, \<open>''Infinity''\<close>).
  An object is the list of its own enumerable properties.
\<close>

datatype jsval =
    JUndef
  | JNull
  | JBool bool
  | JInt int
  | JNonInt string
  | JStr string
  | JArr "jsval list"
  | JObj "(string \<times> jsval) list"

fun truthy :: "jsval \<Rightarrow> bool" where
  "truthy JUndef = False"
| "truthy JNull = False"
| "truthy (JBool b) = b"
| "truthy (JInt i) = (i \<noteq> 0)"
| "truthy (JNonInt s) = (s \<noteq> ''NaN'')"
| "truthy (JStr s) = (s \<noteq> [])"
| "truthy (JArr vs) = True"
| "truthy (JObj kvs) = True"

text \<open>\<open>value && typeof value === 'object' && !Array.isArray(value)\<close>\<close>

fun is_plain_object :: "jsval \<Rightarrow> bool" where
  "is_plain_object (JObj kvs) = True"
| "is_plain_object v = False"

text \<open>Property access \<open>v.k\<close> on an object.\<close>

fun getp :: "jsval \<Rightarrow> string \<Rightarrow> jsval" where
  "getp (JObj kvs) k = (case map_of kvs k of None \<Rightarrow> JUndef | Some v \<Rightarrow> v)"
| "getp v k = JUndef"

fun as_str :: "jsval \<Rightarrow> string option" where
  "as_str (JStr s) = Some s"
| "as_str v = None"

fun as_int :: "jsval \<Rightarrow> int option" where
  "as_int (JInt i) = Some i"
| "as_int v = None"

fun as_bool :: "jsval \<Rightarrow> bool option" where
  "as_bool (JBool b) = Some b"
| "as_bool v = None"

fun as_arr :: "jsval \<Rightarrow> jsval list option" where
  "as_arr (JArr vs) = Some vs"
| "as_arr v = None"

text \<open>An optional property of an interface: absent and \<open>undefined\<close> are the same.\<close>

fun opt_str :: "string option \<Rightarrow> jsval" where
  "opt_str None = JUndef"
| "opt_str (Some s) = JStr s"

lemma as_str_opt_str [simp]: "as_str (opt_str s) = s"
  by (cases s) simp_all

lemma opt_str_undef_iff [simp]: "opt_str s = JUndef \<longleftrightarrow> s = None"
  by (cases s) simp_all

lemma as_str_Some [simp]: "as_str v = Some s \<longleftrightarrow> v = JStr s"
  by (cases v) auto

lemma as_int_Some [simp]: "as_int v = Some i \<longleftrightarrow> v = JInt i"
  by (cases v) auto

lemma as_bool_Some [simp]: "as_bool v = Some b \<longleftrightarrow> v = JBool b"
  by (cases v) auto

lemma as_arr_Some [simp]: "as_arr v = Some vs \<longleftrightarrow> v = JArr vs"
  by (cases v) auto

section \<open>JSON text\<close>

definition hex_digit :: "nat \<Rightarrow> char" where
  "hex_digit d = (if d < 10 then char_of (48 + d) else char_of (87 + d))"

text \<open>\<open>JSON.stringify\<close> of a string.\<close>

definition json_char :: "char \<Rightarrow> string" where
  "json_char c =
     (let n = (of_char c :: nat) in
      if c = CHR 0x22 then [CHR 0x5C, CHR 0x22]
      else if c = CHR 0x5C then [CHR 0x5C, CHR 0x5C]
      else if n = 8 then [CHR 0x5C, CHR ''b'']
      else if n = 9 then [CHR 0x5C, CHR ''t'']
      else if n = 10 then [CHR 0x5C, CHR ''n'']
      else if n = 12 then [CHR 0x5C, CHR ''f'']
      else if n = 13 then [CHR 0x5C, CHR ''r'']
      else if n < 32 then CHR 0x5C # ''u00'' @ [hex_digit (n div 16), hex_digit (n mod 16)]
      else [c])"

definition json_string :: "string \<Rightarrow> string" where
  "json_string s = CHR 0x22 # concat (map json_char s) @ [CHR 0x22]"

definition json_number :: "string \<Rightarrow> string" where
  "json_number s = (if s = ''NaN'' \<or> s = ''Infinity'' \<or> s = ''-Infinity'' then ''null'' else s)"

text \<open>The own properties whose value is defined, sorted by key.\<close>

definition sorted_props :: "(string \<times> jsval) list \<Rightarrow> (string \<times> jsval) list" where
  "sorted_props kvs = sort_key fst (filter (\<lambda>(k, v). v \<noteq> JUndef) kvs)"

lemma set_sorted_props: "set (sorted_props kvs) \<subseteq> set kvs"
  by (auto simp: sorted_props_def)

lemma size_sorted_props:
  assumes "(k, v) \<in> set (sorted_props kvs)"
  shows "size v < size (JObj kvs)"
proof -
  from assms have "(k, v) \<in> set kvs"
    using set_sorted_props by blast
  then show ?thesis
    by (induction kvs) auto
qed

lemma size_in_list: "x \<in> set xs \<Longrightarrow> size x < size (JArr xs)"
  by (induction xs) auto

text \<open>
  \<open>canonicalJson\<close>: object keys sorted, properties that are \<open>undefined\<close> left out.
  \<open>JSON.stringify(undefined)\<close> is \<open>undefined\<close>, which \<open>join\<close> prints as the empty string.
\<close>

function canonicalJson :: "jsval \<Rightarrow> string" where
  "canonicalJson JUndef = []"
| "canonicalJson JNull = ''null''"
| "canonicalJson (JBool b) = (if b then ''true'' else ''false'')"
| "canonicalJson (JInt i) = show_int i"
| "canonicalJson (JNonInt s) = json_number s"
| "canonicalJson (JStr s) = json_string s"
| "canonicalJson (JArr vs) = ''['' @ join '','' (map canonicalJson vs) @ '']''"
| "canonicalJson (JObj kvs) =
     ''{'' @ join '',''
        (map (\<lambda>(k, v). json_string k @ '':'' @ canonicalJson v) (sorted_props kvs)) @ ''}''"
  by pat_completeness auto
termination
  by (relation "measure size") (auto dest: size_in_list size_sorted_props simp del: jsval.size)

text \<open>The order in which properties were stored does not matter to \<open>canonicalJson\<close>.\<close>

lemma sorted_props_perm:
  assumes "distinct (map fst kvs)" and "mset kvs = mset kvs'"
  shows "sorted_props kvs = sorted_props kvs'"
proof -
  have inj: "inj_on fst (set (filter (\<lambda>(k, v). v \<noteq> JUndef) kvs))"
    using assms(1) by (auto simp: distinct_map intro: inj_on_subset)
  have "mset (filter (\<lambda>(k, v). v \<noteq> JUndef) kvs) = mset (filter (\<lambda>(k, v). v \<noteq> JUndef) kvs')"
    using assms(2) by simp
  then show ?thesis
    unfolding sorted_props_def
    using inj by (intro sort_key_inj_key_eq) simp_all
qed

section \<open>The host functions\<close>

text \<open>
  Functions of Node.js the sources call: \<open>createHash('sha256').update(s).digest('hex')\<close>,
  \<open>Date.parse(s)\<close> (\<open>None\<close> for \<open>NaN\<close>) and \<open>new Date(ms).toISOString()\<close> for a time in
  range. They are arguments of the model.
\<close>

record host =
  sha256 :: "string \<Rightarrow> string"
  dateParse :: "string \<Rightarrow> int option"
  isoOfDate :: "int \<Rightarrow> string"

text \<open>The greatest magnitude of a time value (ECMA-262, 21.4.1.1).\<close>

definition max_time :: int where
  "max_time = 8640000000000000"

definition is_sha256_hex :: "string \<Rightarrow> bool" where
  "is_sha256_hex s = (length s = 64 \<and> list_all is_lower_hex s)"

text \<open>
  What is documented of them: a digest is 64 lower-case hexadecimal digits,
  \<open>Date.parse\<close> reads back what \<open>toISOString\<close> prints, a parsed time is in range, and the
  empty string is no date.
\<close>

definition host_ok :: "host \<Rightarrow> bool" where
  "host_ok h \<longleftrightarrow>
     (\<forall>s. is_sha256_hex (sha256 h s)) \<and>
     (\<forall>t. \<bar>t\<bar> \<le> max_time \<longrightarrow> dateParse h (isoOfDate h t) = Some t) \<and>
     (\<forall>s t. dateParse h s = Some t \<longrightarrow> \<bar>t\<bar> \<le> max_time) \<and> dateParse h [] = None"

text \<open>\<open>new Date(ms).toISOString()\<close> throws a \<open>RangeError\<close> out of range: \<open>None\<close>.\<close>

definition toISOString :: "host \<Rightarrow> int \<Rightarrow> string option" where
  "toISOString h ms = (if \<bar>ms\<bar> \<le> max_time then Some (isoOfDate h ms) else None)"

section \<open>Coercion to strings\<close>

text \<open>
  \<open>String(v)\<close>, which \<open>RegExp.test\<close> and \<open>Date.parse\<close> apply to their argument; \<open>nullish\<close> is
  \<open>v ?? ''\<close>.
\<close>

fun to_string :: "jsval \<Rightarrow> string" where
  "to_string JUndef = ''undefined''"
| "to_string JNull = ''null''"
| "to_string (JBool b) = (if b then ''true'' else ''false'')"
| "to_string (JInt i) = show_int i"
| "to_string (JNonInt s) = s"
| "to_string (JStr s) = s"
| "to_string (JArr vs) = join '','' (map (\<lambda>v. if v = JUndef \<or> v = JNull then [] else to_string v) vs)"
| "to_string (JObj kvs) = ''[object Object]''"

fun nullish :: "jsval \<Rightarrow> jsval" where
  "nullish JUndef = JStr []"
| "nullish JNull = JStr []"
| "nullish v = v"

section \<open>The identifier schemas\<close>

text \<open>\<open>pluginIdSchema\<close>: lower-case reverse-DNS names of 3 to 200 characters.\<close>

definition dns_label :: "string \<Rightarrow> bool" where
  "dns_label w = (w \<noteq> [] \<and> is_lower_alnum (hd w) \<and> is_lower_alnum (last w) \<and>
     list_all (\<lambda>c. is_lower_alnum c \<or> c = CHR ''-'') w)"

definition pluginIdPattern :: "string \<Rightarrow> bool" where
  "pluginIdPattern s =
     (let labels = split_on CHR ''.'' s in 2 \<le> length labels \<and> list_all dns_label labels)"

definition pluginIdSchema :: "string \<Rightarrow> bool" where
  "pluginIdSchema s = (3 \<le> length s \<and> length s \<le> 200 \<and> pluginIdPattern s)"

text \<open>\<open>semVerSchema\<close>: the regular expression splits at the first \<open>+\<close>, then at the first \<open>-\<close>.\<close>

definition semver_number :: "string \<Rightarrow> bool" where
  "semver_number w = (w \<noteq> [] \<and> list_all is_digit w \<and> (w = ''0'' \<or> hd w \<noteq> CHR ''0''))"

definition semver_idents :: "string \<Rightarrow> bool" where
  "semver_idents s = list_all (\<lambda>w. w \<noteq> [] \<and> list_all (\<lambda>c. is_alnum c \<or> c = CHR ''-'') w)
     (split_on CHR ''.'' s)"

definition semver_core :: "string \<Rightarrow> bool" where
  "semver_core s =
     (let ws = split_on CHR ''.'' s in length ws = 3 \<and> list_all semver_number ws)"

definition semVerPattern :: "string \<Rightarrow> bool" where
  "semVerPattern s =
     (let beforeBuild = takeWhile (\<lambda>c. c \<noteq> CHR ''+'') s;
          build = dropWhile (\<lambda>c. c \<noteq> CHR ''+'') s;
          core = takeWhile (\<lambda>c. c \<noteq> CHR ''-'') beforeBuild;
          pre = dropWhile (\<lambda>c. c \<noteq> CHR ''-'') beforeBuild
      in semver_core core \<and> (pre = [] \<or> semver_idents (tl pre)) \<and>
         (build = [] \<or> semver_idents (tl build)))"

definition semVerSchema :: "string \<Rightarrow> bool" where
  "semVerSchema s = (length s \<le> 100 \<and> semVerPattern s)"

text \<open>\<open>ociDigestReferenceSchema\<close>: a repository, then \<open>@sha256:\<close> and 64 hexadecimal digits.\<close>

definition oci_repo_char :: "char \<Rightarrow> bool" where
  "oci_repo_char c =
     (is_lower_alnum c \<or> c \<in> {CHR ''.'', CHR ''_'', CHR '':'', CHR ''/'', CHR ''-''})"

definition ociDigestReferenceSchema :: "string \<Rightarrow> bool" where
  "ociDigestReferenceSchema s =
     (let n = length s - 72; repo = take n s; suffix = drop n s in
      72 < length s \<and> length s \<le> 500 \<and>
      is_lower_alnum (hd repo) \<and> list_all oci_repo_char repo \<and>
      starts_with ''@sha256:'' suffix \<and> list_all is_lower_hex (drop 8 suffix))"

lemma semVerSchema_not_Nil: "semVerSchema s \<Longrightarrow> s \<noteq> []"
  by (auto simp: semVerSchema_def semVerPattern_def semver_core_def)

lemma ociDigestReference_not_Nil: "ociDigestReferenceSchema s \<Longrightarrow> s \<noteq> []"
  by (auto simp: ociDigestReferenceSchema_def Let_def)

end
