(* ===== verification/Manifest.thy ===== *)
theory Manifest
  imports Js_Value
begin

text \<open>
  The plugin manifest (\<open>packages/plugin-sdk/src/manifest.ts\<close>): the parsed data as records,
  and the cross-field checks of \<open>superRefine\<close> as functions that list the issues in the
  order the code adds them. The structural part of the schemas (string lengths, closed
  enumerations, literals such as \<open>healthPath\<close>) is what makes the parsed records well typed
  and is not repeated here.
\<close>

section \<open>The data\<close>

record schema_reference =
  sref_path :: string
  sref_sha256 :: string

record shared_runtime =
  sr_react :: string
  sr_reactDom :: string
  sr_router :: string
  sr_carbonReact :: string
  sr_pluginSdk :: string

datatype binding_kind = BkEngine | BkIncident | BkFailedJob | BkProcessInstance | BkProject
datatype binding_source = BsPath | BsBody

record resource_binding =
  rb_kind :: binding_kind
  rb_source :: binding_source
  rb_field :: string

datatype http_method = GET | POST | PUT | PATCH | DELETE
datatype streaming_mode = StreamNone | StreamSse | StreamUpload
datatype authorization_resource = PlatformSelf | EngineBinding

record operation_authorization =
  oa_actionId :: string
  oa_resource :: authorization_resource

record backend_operation =
  op_operationId :: string
  op_method :: http_method
  op_path :: string
  op_requestSchema :: schema_reference
  op_responseSchema :: schema_reference
  op_requiredPermissions :: "string list"
  op_resourceBinding :: "resource_binding option"
  op_authorization :: "operation_authorization option"
  op_maxRequestBytes :: int
  op_maxResponseBytes :: int
  op_timeoutMs :: int
  op_streaming :: streaming_mode

record frontend_deployment =
  fd_entry :: string
  fd_sha256 :: string
  fd_shared :: shared_runtime

record backend_deployment =
  bd_image :: string
  bd_operations :: "backend_operation list"

record migration_deployment =
  md_image :: string
  md_fromSchema :: int
  md_toSchema :: int
  md_rollbackThrough :: int

record resources_deployment =
  rd_descriptor :: string
  rd_sha256 :: string

datatype route_scope = RootScope | TenantScope
datatype nav_section = NavMain | NavTenant | NavSettings | NavAdministration
datatype nav_destination = ToVoyager | ToOperations | ToTenant | ToAdmin
datatype nav_parent = UnderMissionControl | UnderEngines | UnderPlatformSettings | UnderPlugins
datatype settings_scope = TenantSettings | DeploymentSettings

text \<open>
  \<open>Route id scope relativePath\<close>, \<open>Navigation id routeId section destination parentDestination\<close>,
  \<open>Slot id slot\<close> and \<open>Settings id routeId scope configurationSchema\<close>.
\<close>

datatype contribution =
    Route string route_scope string
  | Navigation string string nav_section "nav_destination option" "nav_parent option"
  | Slot string string
  | Settings string string settings_scope "schema_reference option"

record dependency =
  dep_id :: string
  dep_version :: string
  dep_optional :: bool

record conflict =
  con_id :: string
  con_version :: string

record event_subscription =
  es_type :: string
  es_deliveryOperationId :: string
  es_schema :: schema_reference
  es_permission :: string
  es_maxAttempts :: int

record fixed_schedule =
  fs_jobType :: string
  fs_deliveryOperationId :: string
  fs_allowedIntervalsSeconds :: "int list"
  fs_permission :: string
  fs_maxAttempts :: int

record availability_declaration =
  ad_refreshOperationId :: string
  ad_refreshIntervalSeconds :: int
  ad_maximumStalenessSeconds :: int
  ad_gatedContributionIds :: "string list"

datatype entitlement = NoEntitlement | PluginFeature string
datatype enablement_scope = ScopeDeployment | ScopeTenant

record metadata =
  md_id :: string
  md_version :: string
  md_displayName :: string
  md_publisher :: string

record compatibility =
  cp_host :: string
  cp_sdk :: string
  cp_frontendProtocol :: "int option"
  cp_backendProtocol :: "int option"
  cp_requiredSlots :: "string list"

record deployment =
  dp_frontend :: "frontend_deployment option"
  dp_backend :: "backend_deployment option"
  dp_migration :: "migration_deployment option"
  dp_resources :: "resources_deployment option"

record manifest =
  mf_metadata :: metadata
  mf_compatibility :: compatibility
  mf_deployment :: deployment
  mf_enablement :: enablement_scope
  mf_permissionsRequired :: "string list"
  mf_permissionsOptional :: "string list"
  mf_egressPolicy :: string
  mf_entitlement :: entitlement
  mf_dependencies :: "dependency list"
  mf_conflicts :: "conflict list"
  mf_subscriptions :: "event_subscription list"
  mf_fixedSchedules :: "fixed_schedule list"
  mf_contributionAvailability :: "availability_declaration option"
  mf_contributions :: "contribution list"

abbreviation mf_id :: "manifest \<Rightarrow> string" where
  "mf_id m \<equiv> md_id (mf_metadata m)"

abbreviation mf_version :: "manifest \<Rightarrow> string" where
  "mf_version m \<equiv> md_version (mf_metadata m)"

section \<open>Checks on the parts\<close>

text \<open>\<open>safeRelativePathSchema\<close> of \<open>common.ts\<close>: the two checks of its \<open>superRefine\<close>.\<close>

datatype path_issue =
    PathEscaped | PathDotSegments | PathNotV1 | SegmentNotOneParameter nat | ParameterRepeated nat

definition safeRelativePathIssues :: "string \<Rightarrow> path_issue list" where
  "safeRelativePathIssues path =
     (if starts_with ''/'' path \<or> CHR 0x5C \<in> set path \<or> CHR ''%'' \<in> set path \<or> CHR ''?'' \<in> set path \<or>
         CHR ''#'' \<in> set path
      then [PathEscaped] else []) @
     (if list_ex (\<lambda>segment. segment = [] \<or> segment = ''.'' \<or> segment = ''..'') (split_on CHR ''/'' path)
      then [PathDotSegments] else [])"

text \<open>\<open>backendOperationPathSchema\<close>: a segment with a colon is \<open>:name\<close>, and no name is repeated.\<close>

definition is_parameter :: "string \<Rightarrow> bool" where
  "is_parameter segment =
     (case segment of
        c0 # c1 # cs \<Rightarrow> c0 = CHR '':'' \<and> (is_upper c1 \<or> is_lower c1) \<and>
          list_all (\<lambda>c. is_alnum c \<or> c = CHR ''_'' \<or> c = CHR ''.'' \<or> c = CHR ''-'') cs
      | _ \<Rightarrow> False)"

fun segmentIssues :: "nat \<Rightarrow> string list \<Rightarrow> string list \<Rightarrow> path_issue list" where
  "segmentIssues index parameters [] = []"
| "segmentIssues index parameters (segment # segments) =
     (if CHR '':'' \<notin> set segment then segmentIssues (Suc index) parameters segments
      else if \<not> is_parameter segment
      then SegmentNotOneParameter index # segmentIssues (Suc index) parameters segments
      else (if tl segment \<in> set parameters then [ParameterRepeated index] else []) @
           segmentIssues (Suc index) (tl segment # parameters) segments)"

definition operationPathIssues :: "string \<Rightarrow> path_issue list" where
  "operationPathIssues path =
     safeRelativePathIssues path @ (if \<not> starts_with ''v1/'' path then [PathNotV1] else []) @
     segmentIssues 0 [] (split_on CHR ''/'' path)"

text \<open>\<open>pluginBackendOperationV1Schema\<close>: how the path parameter and the binding must agree.\<close>

datatype operation_issue =
    BodyBindingOnGet | EngineBindingRequired | PlatformSelfWithBinding
  | PathBindingUnnamed | PathParameterUnbound

definition path_parameters :: "string \<Rightarrow> string list" where
  "path_parameters path =
     map tl (filter (starts_with '':'') (split_on CHR ''/'' path))"

definition operationIssues :: "backend_operation \<Rightarrow> operation_issue list" where
  "operationIssues operation =
     (let binding = op_resourceBinding operation;
          authorization = op_authorization operation;
          pathParameters = path_parameters (op_path operation);
          fromPath = (case binding of None \<Rightarrow> False | Some b \<Rightarrow> rb_source b = BsPath)
      in (if (case binding of None \<Rightarrow> False | Some b \<Rightarrow> rb_source b = BsBody) \<and>
              (op_method operation = GET \<or> op_method operation = DELETE)
          then [BodyBindingOnGet] else []) @
         (if (case authorization of None \<Rightarrow> False | Some a \<Rightarrow> oa_resource a = EngineBinding) \<and>
              (case binding of None \<Rightarrow> True | Some b \<Rightarrow> rb_kind b \<noteq> BkEngine)
          then [EngineBindingRequired] else []) @
         (if (case authorization of None \<Rightarrow> False | Some a \<Rightarrow> oa_resource a = PlatformSelf) \<and>
              binding \<noteq> None
          then [PlatformSelfWithBinding] else []) @
         (if pathParameters = [] then (if fromPath then [PathBindingUnnamed] else [])
          else if length pathParameters \<noteq> 1 \<or> \<not> fromPath \<or>
                  (case binding of None \<Rightarrow> True | Some b \<Rightarrow> rb_field b \<noteq> hd pathParameters)
          then [PathParameterUnbound] else []))"

datatype migration_issue = TargetOlderThanSource | RollbackNewerThanTarget

definition migrationIssues :: "migration_deployment \<Rightarrow> migration_issue list" where
  "migrationIssues value =
     (if md_toSchema value < md_fromSchema value then [TargetOlderThanSource] else []) @
     (if md_rollbackThrough value > md_toSchema value then [RollbackNewerThanTarget] else [])"

definition migration_ok :: "migration_deployment \<Rightarrow> bool" where
  "migration_ok m \<longleftrightarrow> ociDigestReferenceSchema (md_image m) \<and> 0 \<le> md_fromSchema m \<and>
     0 < md_toSchema m \<and> 0 \<le> md_rollbackThrough m \<and> migrationIssues m = []"

text \<open>\<open>pluginFixedScheduleV1Schema\<close> and the availability declaration.\<close>

definition schedule_intervals_unique :: "fixed_schedule \<Rightarrow> bool" where
  "schedule_intervals_unique schedule \<longleftrightarrow>
     length (set_of_list (fs_allowedIntervalsSeconds schedule)) = length (fs_allowedIntervalsSeconds schedule)"

datatype declaration_issue = StalenessBelowRefresh | GatedRepeated

definition declarationIssues :: "availability_declaration \<Rightarrow> declaration_issue list" where
  "declarationIssues declaration =
     (if ad_maximumStalenessSeconds declaration < ad_refreshIntervalSeconds declaration
      then [StalenessBelowRefresh] else []) @
     (if length (set_of_list (ad_gatedContributionIds declaration)) \<noteq> length (ad_gatedContributionIds declaration)
      then [GatedRepeated] else [])"

section \<open>Cross-field checks of the manifest\<close>

datatype manifest_issue =
    ContributionNotNamespaced nat | ContributionDuplicate nat | ContributionRouteUndeclared nat
  | FrontendRequired | FrontendProtocolRequired | BackendProtocolRequired
  | PermissionsNotUnique
  | OperationNotNamespaced nat | OperationDuplicate nat | OperationPermissionUndeclared nat string
  | AvailabilityNotOwned | AvailabilityOperationInvalid
  | GatedNotOwned nat | GatedUndeclared nat | GatingNotShared nat
  | SubscriptionPermissionUndeclared nat | SubscriptionPermissionMismatch nat
  | SubscriptionNotOwned nat | SubscriptionOperationInvalid nat
  | JobNotOwned nat | JobDuplicate nat | JobPermissionUndeclared nat | JobOperationInvalid nat
  | SelfDependency nat | DependencyDuplicate nat
  | SelfConflict nat | ConflictWithDependency nat | ConflictDuplicate nat

fun contribution_id :: "contribution \<Rightarrow> string" where
  "contribution_id (Route i sc p) = i"
| "contribution_id (Navigation i r se de pa) = i"
| "contribution_id (Slot i s) = i"
| "contribution_id (Settings i r sc sch) = i"

fun is_route :: "contribution \<Rightarrow> bool" where
  "is_route (Route i sc p) = True"
| "is_route c = False"

text \<open>The route a navigation or settings contribution refers to.\<close>

fun contribution_route :: "contribution \<Rightarrow> string option" where
  "contribution_route (Navigation i r se de pa) = Some r"
| "contribution_route (Settings i r sc sch) = Some r"
| "contribution_route c = None"

definition permissionSet :: "manifest \<Rightarrow> string list" where
  "permissionSet m = mf_permissionsRequired m @ mf_permissionsOptional m"

definition backendOperations :: "manifest \<Rightarrow> backend_operation list" where
  "backendOperations m = (case dp_backend (mf_deployment m) of None \<Rightarrow> [] | Some b \<Rightarrow> bd_operations b)"

definition findOperation :: "manifest \<Rightarrow> string \<Rightarrow> backend_operation option" where
  "findOperation m i = find (\<lambda>operation. op_operationId operation = i) (backendOperations m)"

text \<open>
  The loop over \<open>contributions.entries()\<close> with its set of the ids met so far.
\<close>

fun contributionIssues ::
  "string \<Rightarrow> string list \<Rightarrow> nat \<Rightarrow> string list \<Rightarrow> contribution list \<Rightarrow> manifest_issue list" where
  "contributionIssues pluginPrefix routeIds index seen [] = []"
| "contributionIssues pluginPrefix routeIds index seen (c # cs) =
     (if \<not> starts_with pluginPrefix (contribution_id c) then [ContributionNotNamespaced index] else []) @
     (if contribution_id c \<in> set seen then [ContributionDuplicate index] else []) @
     (case contribution_route c of None \<Rightarrow> []
      | Some r \<Rightarrow> if r \<notin> set routeIds then [ContributionRouteUndeclared index] else []) @
     contributionIssues pluginPrefix routeIds (Suc index) (contribution_id c # seen) cs"

fun backendOperationIssues ::
  "string \<Rightarrow> string list \<Rightarrow> nat \<Rightarrow> string list \<Rightarrow> backend_operation list \<Rightarrow> manifest_issue list" where
  "backendOperationIssues pluginPrefix permissions index seen [] = []"
| "backendOperationIssues pluginPrefix permissions index seen (operation # ops) =
     (if \<not> starts_with pluginPrefix (op_operationId operation)
      then [OperationNotNamespaced index] else []) @
     (if op_operationId operation \<in> set seen then [OperationDuplicate index] else []) @
     map (OperationPermissionUndeclared index)
       (filter (\<lambda>p. p \<notin> set permissions) (op_requiredPermissions operation)) @
     backendOperationIssues pluginPrefix permissions (Suc index)
       (op_operationId operation # seen) ops"

fun gatedIssues :: "string \<Rightarrow> string list \<Rightarrow> nat \<Rightarrow> string list \<Rightarrow> manifest_issue list" where
  "gatedIssues pluginPrefix contributionIds index [] = []"
| "gatedIssues pluginPrefix contributionIds index (i # is) =
     (if \<not> starts_with pluginPrefix i then [GatedNotOwned index] else []) @
     (if i \<notin> set contributionIds then [GatedUndeclared index] else []) @
     gatedIssues pluginPrefix contributionIds (Suc index) is"

fun sharedGatingIssues :: "string list \<Rightarrow> nat \<Rightarrow> contribution list \<Rightarrow> manifest_issue list" where
  "sharedGatingIssues gatedIds index [] = []"
| "sharedGatingIssues gatedIds index (c # cs) =
     (case contribution_route c of None \<Rightarrow> []
      | Some r \<Rightarrow> if (contribution_id c \<in> set gatedIds) \<noteq> (r \<in> set gatedIds)
                  then [GatingNotShared index] else []) @
     sharedGatingIssues gatedIds (Suc index) cs"

definition availabilityIssues :: "manifest \<Rightarrow> manifest_issue list" where
  "availabilityIssues m =
     (case mf_contributionAvailability m of None \<Rightarrow> []
      | Some availability \<Rightarrow>
          let pluginPrefix = mf_id m @ ''.'' in
          (if \<not> starts_with pluginPrefix (ad_refreshOperationId availability)
           then [AvailabilityNotOwned] else []) @
          (if (case findOperation m (ad_refreshOperationId availability) of
                 None \<Rightarrow> True
               | Some operation \<Rightarrow> op_method operation \<noteq> POST \<or> op_streaming operation \<noteq> StreamNone \<or>
                                   op_resourceBinding operation \<noteq> None)
           then [AvailabilityOperationInvalid] else []) @
          gatedIssues pluginPrefix (map contribution_id (mf_contributions m)) 0
            (ad_gatedContributionIds availability) @
          sharedGatingIssues (ad_gatedContributionIds availability) 0 (mf_contributions m))"

definition expectedEventPermission :: "string \<Rightarrow> string" where
  "expectedEventPermission type =
     (if type = ''io.enterpriseglue.host.incident.v1'' then ''host.events.subscribe.incident''
      else if type = ''io.enterpriseglue.host.failed-job.v1''
      then ''host.events.subscribe.failed_job''
      else ''host.events.subscribe.engine_inventory'')"

text \<open>A delivery operation is a declared non-streaming POST that holds the permission.\<close>

definition deliveryOperationInvalid :: "manifest \<Rightarrow> string \<Rightarrow> string \<Rightarrow> bool" where
  "deliveryOperationInvalid m operationId permission =
     (case findOperation m operationId of
        None \<Rightarrow> True
      | Some operation \<Rightarrow> op_method operation \<noteq> POST \<or> op_streaming operation \<noteq> StreamNone \<or>
                          permission \<notin> set (op_requiredPermissions operation))"

fun subscriptionIssues :: "manifest \<Rightarrow> nat \<Rightarrow> event_subscription list \<Rightarrow> manifest_issue list" where
  "subscriptionIssues m index [] = []"
| "subscriptionIssues m index (s # ss) =
     (if es_permission s \<notin> set (permissionSet m)
      then [SubscriptionPermissionUndeclared index] else []) @
     (if es_permission s \<noteq> expectedEventPermission (es_type s)
      then [SubscriptionPermissionMismatch index] else []) @
     (if \<not> starts_with (mf_id m @ ''.'') (es_deliveryOperationId s)
      then [SubscriptionNotOwned index] else []) @
     (if deliveryOperationInvalid m (es_deliveryOperationId s) (es_permission s)
      then [SubscriptionOperationInvalid index] else []) @
     subscriptionIssues m (Suc index) ss"

fun scheduleIssues ::
  "manifest \<Rightarrow> nat \<Rightarrow> string list \<Rightarrow> fixed_schedule list \<Rightarrow> manifest_issue list" where
  "scheduleIssues m index jobTypes [] = []"
| "scheduleIssues m index jobTypes (s # ss) =
     (if \<not> starts_with (mf_id m @ ''.'') (fs_jobType s) then [JobNotOwned index] else []) @
     (if fs_jobType s \<in> set jobTypes then [JobDuplicate index] else []) @
     (if fs_permission s \<notin> set (permissionSet m) then [JobPermissionUndeclared index] else []) @
     (if deliveryOperationInvalid m (fs_deliveryOperationId s) (fs_permission s)
      then [JobOperationInvalid index] else []) @
     scheduleIssues m (Suc index) (fs_jobType s # jobTypes) ss"

fun dependencyIssues :: "string \<Rightarrow> nat \<Rightarrow> string list \<Rightarrow> dependency list \<Rightarrow> manifest_issue list" where
  "dependencyIssues self index seen [] = []"
| "dependencyIssues self index seen (d # ds) =
     (if dep_id d = self then [SelfDependency index] else []) @
     (if dep_id d \<in> set seen then [DependencyDuplicate index] else []) @
     dependencyIssues self (Suc index) (dep_id d # seen) ds"

fun conflictIssues ::
  "string \<Rightarrow> string list \<Rightarrow> nat \<Rightarrow> string list \<Rightarrow> conflict list \<Rightarrow> manifest_issue list" where
  "conflictIssues self dependencyIds index seen [] = []"
| "conflictIssues self dependencyIds index seen (c # cs) =
     (if con_id c = self then [SelfConflict index] else []) @
     (if con_id c \<in> set dependencyIds then [ConflictWithDependency index] else []) @
     (if con_id c \<in> set seen then [ConflictDuplicate index] else []) @
     conflictIssues self dependencyIds (Suc index) (con_id c # seen) cs"

text \<open>The whole \<open>superRefine\<close> of \<open>enterpriseGluePluginManifestV1Schema\<close>.\<close>

definition manifestIssues :: "manifest \<Rightarrow> manifest_issue list" where
  "manifestIssues m =
     (let pluginPrefix = mf_id m @ ''.'';
          routeIds = map contribution_id (filter is_route (mf_contributions m));
          allPermissions = permissionSet m
      in contributionIssues pluginPrefix routeIds 0 [] (mf_contributions m) @
         (if mf_contributions m \<noteq> [] \<and> dp_frontend (mf_deployment m) = None
          then [FrontendRequired] else []) @
         (if dp_frontend (mf_deployment m) \<noteq> None \<and> cp_frontendProtocol (mf_compatibility m) = None
          then [FrontendProtocolRequired] else []) @
         (if dp_backend (mf_deployment m) \<noteq> None \<and> cp_backendProtocol (mf_compatibility m) = None
          then [BackendProtocolRequired] else []) @
         (if length (set_of_list allPermissions) \<noteq> length allPermissions
          then [PermissionsNotUnique] else []) @
         backendOperationIssues pluginPrefix allPermissions 0 [] (backendOperations m) @
         availabilityIssues m @
         subscriptionIssues m 0 (mf_subscriptions m) @
         scheduleIssues m 0 [] (mf_fixedSchedules m) @
         dependencyIssues (mf_id m) 0 [] (mf_dependencies m) @
         conflictIssues (mf_id m) (map dep_id (mf_dependencies m)) 0 [] (mf_conflicts m))"

text \<open>The checks of the parts and of the whole: no rule of the schema adds an issue.\<close>

definition manifest_accepted :: "manifest \<Rightarrow> bool" where
  "manifest_accepted m \<longleftrightarrow>
     list_all (\<lambda>operation. operationPathIssues (op_path operation) = [] \<and> operationIssues operation = [])
       (backendOperations m) \<and>
     (case dp_migration (mf_deployment m) of None \<Rightarrow> True | Some migration \<Rightarrow> migrationIssues migration = []) \<and>
     list_all schedule_intervals_unique (mf_fixedSchedules m) \<and>
     (case mf_contributionAvailability m of None \<Rightarrow> True | Some a \<Rightarrow> declarationIssues a = []) \<and>
     manifestIssues m = []"

section \<open>What an accepted manifest guarantees\<close>

text \<open>The loops with their index and their set of names met, as statements about the lists.\<close>

lemma contributionIssues_Nil:
  "contributionIssues p rs i seen cs = [] \<longleftrightarrow>
     list_all (\<lambda>c. starts_with p (contribution_id c)) cs \<and>
     distinct (map contribution_id cs) \<and>
     set (map contribution_id cs) \<inter> set seen = {} \<and>
     list_all (\<lambda>c. \<forall>r. contribution_route c = Some r \<longrightarrow> r \<in> set rs) cs"
  by (induction p rs i seen cs rule: contributionIssues.induct)
     (auto split: option.splits)

lemma backendOperationIssues_Nil:
  "backendOperationIssues p ps i seen ops = [] \<longleftrightarrow>
     list_all (\<lambda>operation. starts_with p (op_operationId operation) \<and>
       set (op_requiredPermissions operation) \<subseteq> set ps) ops \<and>
     distinct (map op_operationId ops) \<and> set (map op_operationId ops) \<inter> set seen = {}"
  by (induction p ps i seen ops rule: backendOperationIssues.induct)
     (auto simp: filter_empty_conv)

lemma subscriptionIssues_Nil:
  "subscriptionIssues m i ss = [] \<longleftrightarrow>
     list_all (\<lambda>s. es_permission s \<in> set (permissionSet m) \<and>
       es_permission s = expectedEventPermission (es_type s) \<and>
       starts_with (mf_id m @ ''.'') (es_deliveryOperationId s) \<and>
       \<not> deliveryOperationInvalid m (es_deliveryOperationId s) (es_permission s)) ss"
  by (induction m i ss rule: subscriptionIssues.induct) auto

lemma scheduleIssues_Nil:
  "scheduleIssues m i seen ss = [] \<longleftrightarrow>
     list_all (\<lambda>s. starts_with (mf_id m @ ''.'') (fs_jobType s) \<and>
       fs_permission s \<in> set (permissionSet m) \<and>
       \<not> deliveryOperationInvalid m (fs_deliveryOperationId s) (fs_permission s)) ss \<and>
     distinct (map fs_jobType ss) \<and> set (map fs_jobType ss) \<inter> set seen = {}"
  by (induction m i seen ss rule: scheduleIssues.induct) auto

lemma segmentIssues_Nil:
  "segmentIssues i seen segments = [] \<longleftrightarrow>
     list_all (\<lambda>s. CHR '':'' \<in> set s \<longrightarrow> is_parameter s) segments \<and>
     distinct (map tl (filter is_parameter segments)) \<and>
     set (map tl (filter is_parameter segments)) \<inter> set seen = {}"
proof (induction i seen segments rule: segmentIssues.induct)
  case (2 index parameters segment segments)
  have "is_parameter segment \<Longrightarrow> CHR '':'' \<in> set segment"
    by (auto simp: is_parameter_def split: list.splits)
  with 2 show ?case by auto
qed simp

text \<open>An accepted operation has at most one path parameter, the one its binding names.\<close>

lemma parameter_bound:
  assumes path: "operationPathIssues (op_path operation) = []" and op: "operationIssues operation = []"
    and segment: "segment \<in> set (split_on CHR ''/'' (op_path operation))" "CHR '':'' \<in> set segment"
  shows "\<exists>b. op_resourceBinding operation = Some b \<and> rb_source b = BsPath \<and>
     segment = CHR '':'' # rb_field b \<and> path_parameters (op_path operation) = [rb_field b]"
proof -
  from path segment have "is_parameter segment"
    by (auto simp: operationPathIssues_def segmentIssues_Nil list_all_iff)
  then obtain name where s: "segment = CHR '':'' # name"
    by (auto simp: is_parameter_def split: list.splits)
  with segment(1) have mem: "name \<in> set (path_parameters (op_path operation))"
    by (force simp: path_parameters_def starts_with_def)
  then have "path_parameters (op_path operation) \<noteq> []" by auto
  with op have len: "length (path_parameters (op_path operation)) = 1"
    and b: "\<exists>b. op_resourceBinding operation = Some b \<and> rb_source b = BsPath \<and>
      rb_field b = hd (path_parameters (op_path operation))"
    by (auto simp: operationIssues_def Let_def split: option.splits if_splits)
  from len obtain x where "path_parameters (op_path operation) = [x]"
    by (cases "path_parameters (op_path operation)") auto
  with mem s b show ?thesis by auto
qed

lemma accepted_path_segments:
  "operationPathIssues path = [] \<Longrightarrow> segment \<in> set (split_on CHR ''/'' path) \<Longrightarrow> segment \<noteq> ''..''"
  by (auto simp: operationPathIssues_def safeRelativePathIssues_def list_ex_iff split: if_splits)

lemma dependencyIssues_Nil:
  "dependencyIssues self i seen ds = [] \<longleftrightarrow>
     distinct (map dep_id ds) \<and> self \<notin> set (map dep_id ds) \<and>
     set (map dep_id ds) \<inter> set seen = {}"
  by (induction self i seen ds rule: dependencyIssues.induct) auto

lemma conflictIssues_Nil:
  "conflictIssues self deps i seen cs = [] \<longleftrightarrow>
     distinct (map con_id cs) \<and> self \<notin> set (map con_id cs) \<and>
     set (map con_id cs) \<inter> (set deps \<union> set seen) = {}"
  by (induction self deps i seen cs rule: conflictIssues.induct) auto

lemmas issue_lists_Nil =
  contributionIssues_Nil backendOperationIssues_Nil subscriptionIssues_Nil scheduleIssues_Nil
  dependencyIssues_Nil conflictIssues_Nil length_set_of_list_eq

lemma findOperation_Some:
  "findOperation m i = Some operation \<Longrightarrow>
     operation \<in> set (backendOperations m) \<and> op_operationId operation = i"
  by (auto simp: findOperation_def find_Some_iff)

lemma deliveryOperation_valid:
  "\<not> deliveryOperationInvalid m i p \<Longrightarrow>
     \<exists>operation \<in> set (backendOperations m). op_operationId operation = i \<and>
       op_method operation = POST \<and> op_streaming operation = StreamNone \<and>
       p \<in> set (op_requiredPermissions operation)"
  by (auto simp: deliveryOperationInvalid_def split: option.splits dest: findOperation_Some)

end
