(* ===== verification/Resolver.thy ===== *)
theory Resolver
  imports Manifest
begin

text \<open>
  The plugin resolver (\<open>packages/plugin-runtime/src/resolver.ts\<close>): which set of plugin
  manifests can be active together, and in which order. \<open>validRange\<close> and \<open>satisfies\<close> of
  the package \<open>semver\<close> and the locale's collation are arguments (\<open>resolver_lib\<close>).
\<close>

section \<open>Data\<close>

datatype issue_code =
    DuplicatePlugin | UntrustedPublisher | InvalidVersionRange | IncompatibleHost
  | IncompatibleSdk | UnsupportedFrontendProtocol | UnsupportedBackendProtocol
  | IncompatibleSharedRuntime | MissingSlot | UnknownPermission | UnapprovedEgressPolicy
  | MissingDependency | IncompatibleDependency | DependencyCycle | PluginConflict

fun issue_code_str :: "issue_code \<Rightarrow> string" where
  "issue_code_str DuplicatePlugin = ''duplicate_plugin''"
| "issue_code_str UntrustedPublisher = ''untrusted_publisher''"
| "issue_code_str InvalidVersionRange = ''invalid_version_range''"
| "issue_code_str IncompatibleHost = ''incompatible_host''"
| "issue_code_str IncompatibleSdk = ''incompatible_sdk''"
| "issue_code_str UnsupportedFrontendProtocol = ''unsupported_frontend_protocol''"
| "issue_code_str UnsupportedBackendProtocol = ''unsupported_backend_protocol''"
| "issue_code_str IncompatibleSharedRuntime = ''incompatible_shared_runtime''"
| "issue_code_str MissingSlot = ''missing_slot''"
| "issue_code_str UnknownPermission = ''unknown_permission''"
| "issue_code_str UnapprovedEgressPolicy = ''unapproved_egress_policy''"
| "issue_code_str MissingDependency = ''missing_dependency''"
| "issue_code_str IncompatibleDependency = ''incompatible_dependency''"
| "issue_code_str DependencyCycle = ''dependency_cycle''"
| "issue_code_str PluginConflict = ''plugin_conflict''"

record resolution_issue =
  ri_code :: issue_code
  ri_pluginId :: string
  ri_field :: string
  ri_relatedPluginId :: "string option"
  ri_detail :: "string option"

record host_capabilities =
  hc_hostVersion :: string
  hc_sdkVersion :: string
  hc_supportedSdkVersions :: "string list"
  hc_frontendProtocol :: int
  hc_backendProtocol :: int
  hc_sharedFrontend :: shared_runtime
  hc_slots :: "string list"
  hc_permissions :: "string list"
  hc_egressPolicies :: "string list"
  hc_trustedPublishers :: "string list"

record resolution =
  rs_compatible :: bool
  rs_activationOrder :: "string list"
  rs_issues :: "resolution_issue list"

record isolated_resolution =
  ir_activationOrder :: "string list"
  ir_disabledPluginIds :: "string list"
  ir_issues :: "resolution_issue list"

record resolver_lib =
  validRange :: "string \<Rightarrow> string option"
  satisfies :: "string \<Rightarrow> string \<Rightarrow> bool"
  localeCompare :: "string \<Rightarrow> string \<Rightarrow> int"

section \<open>Version ranges and issue order\<close>

definition exactRuntimeMatches :: "shared_runtime \<Rightarrow> shared_runtime \<Rightarrow> bool" where
  "exactRuntimeMatches plugin host \<longleftrightarrow>
     sr_react plugin = sr_react host \<and> sr_reactDom plugin = sr_reactDom host \<and>
     sr_router plugin = sr_router host \<and> sr_carbonReact plugin = sr_carbonReact host"

definition rangeMatches :: "resolver_lib \<Rightarrow> string \<Rightarrow> string \<Rightarrow> bool option" where
  "rangeMatches lib version rng =
     (if \<not> truthy_str (validRange lib rng) then None else Some (satisfies lib version rng))"

definition or_else :: "int \<Rightarrow> int \<Rightarrow> int" where
  "or_else a b = (if a \<noteq> 0 then a else b)"

definition sortIssues :: "resolver_lib \<Rightarrow> resolution_issue \<Rightarrow> resolution_issue \<Rightarrow> int" where
  "sortIssues lib left right =
     or_else (localeCompare lib (ri_pluginId left) (ri_pluginId right))
     (or_else (localeCompare lib (issue_code_str (ri_code left)) (issue_code_str (ri_code right)))
     (or_else (localeCompare lib (ri_field left) (ri_field right))
       (localeCompare lib (case_option [] id (ri_relatedPluginId left))
          (case_option [] id (ri_relatedPluginId right)))))"

abbreviation issue_of :: "issue_code \<Rightarrow> string \<Rightarrow> string \<Rightarrow> resolution_issue" where
  "issue_of code pluginId field \<equiv>
     \<lparr>ri_code = code, ri_pluginId = pluginId, ri_field = field,
      ri_relatedPluginId = None, ri_detail = None\<rparr>"

abbreviation related_issue :: "issue_code \<Rightarrow> string \<Rightarrow> string \<Rightarrow> string \<Rightarrow> resolution_issue" where
  "related_issue code pluginId field related \<equiv>
     \<lparr>ri_code = code, ri_pluginId = pluginId, ri_field = field,
      ri_relatedPluginId = Some related, ri_detail = None\<rparr>"

abbreviation detail_issue :: "issue_code \<Rightarrow> string \<Rightarrow> string \<Rightarrow> string \<Rightarrow> resolution_issue" where
  "detail_issue code pluginId field detail \<equiv>
     \<lparr>ri_code = code, ri_pluginId = pluginId, ri_field = field,
      ri_relatedPluginId = None, ri_detail = Some detail\<rparr>"

section \<open>Indexing\<close>

type_synonym plugin_index = "(string \<times> manifest) list"

fun indexLoop ::
  "plugin_index \<Rightarrow> resolution_issue list \<Rightarrow> manifest list \<Rightarrow> plugin_index \<times> resolution_issue list" where
  "indexLoop byId issues [] = (byId, issues)"
| "indexLoop byId issues (m # ms) =
     (if map_of byId (mf_id m) \<noteq> None
      then indexLoop byId (issues @ [issue_of DuplicatePlugin (mf_id m) ''metadata.id'']) ms
      else indexLoop (put (mf_id m) m byId) issues ms)"

definition indexPluginManifests :: "manifest list \<Rightarrow> plugin_index \<times> resolution_issue list" where
  "indexPluginManifests manifests = indexLoop [] [] manifests"

section \<open>Relationships\<close>

definition dependencyIssue ::
  "resolver_lib \<Rightarrow> plugin_index \<Rightarrow> string \<Rightarrow> dependency \<Rightarrow> resolution_issue list" where
  "dependencyIssue lib byId pluginId d =
     (case map_of byId (dep_id d) of
        None \<Rightarrow> if dep_optional d then []
                else [related_issue MissingDependency pluginId ''dependencies'' (dep_id d)]
      | Some installed \<Rightarrow>
          (case rangeMatches lib (mf_version installed) (dep_version d) of
             None \<Rightarrow> [related_issue InvalidVersionRange pluginId ''dependencies.version'' (dep_id d)]
           | Some match \<Rightarrow>
               if \<not> match
               then [related_issue IncompatibleDependency pluginId ''dependencies.version'' (dep_id d)]
               else []))"

definition conflictIssue ::
  "resolver_lib \<Rightarrow> plugin_index \<Rightarrow> string \<Rightarrow> conflict \<Rightarrow> resolution_issue list" where
  "conflictIssue lib byId pluginId c =
     (case map_of byId (con_id c) of
        None \<Rightarrow> []
      | Some installed \<Rightarrow>
          (case rangeMatches lib (mf_version installed) (con_version c) of
             None \<Rightarrow> [related_issue InvalidVersionRange pluginId ''conflicts.version'' (con_id c)]
           | Some match \<Rightarrow>
               if match then [related_issue PluginConflict pluginId ''conflicts'' (con_id c)]
               else []))"

definition manifestRelationshipIssues ::
  "resolver_lib \<Rightarrow> plugin_index \<Rightarrow> manifest \<Rightarrow> resolution_issue list" where
  "manifestRelationshipIssues lib byId m =
     concat (map (dependencyIssue lib byId (mf_id m)) (mf_dependencies m)) @
     concat (map (conflictIssue lib byId (mf_id m)) (mf_conflicts m))"

section \<open>Depth-first search\<close>

record dfs_state =
  visiting :: "string list"
  visited :: "string list"
  activationOrder :: "string list"
  cyclic :: "string list"

text \<open>The installed dependencies of a plugin, sorted by id.\<close>

definition installedDependencies :: "plugin_index \<Rightarrow> string \<Rightarrow> string list" where
  "installedDependencies byId pluginId =
     (case map_of byId pluginId of
        None \<Rightarrow> []
      | Some m \<Rightarrow> sort (map dep_id (filter (\<lambda>d. map_of byId (dep_id d) \<noteq> None) (mf_dependencies m))))"

text \<open>\<open>path.slice(path.indexOf(id))\<close>; an index of \<open>-1\<close> slices the last element.\<close>

definition slice_from :: "string list \<Rightarrow> string \<Rightarrow> string list" where
  "slice_from path x =
     (if x \<in> set path then dropWhile (\<lambda>y. y \<noteq> x) path else drop (length path - 1) path)"

definition markCycle :: "string list \<Rightarrow> string \<Rightarrow> dfs_state \<Rightarrow> dfs_state" where
  "markCycle path x s = s\<lparr>cyclic := set_add x (fold set_add (slice_from path x) (cyclic s))\<rparr>"

definition enter :: "string \<Rightarrow> dfs_state \<Rightarrow> dfs_state" where
  "enter x s = s\<lparr>visiting := set_add x (visiting s)\<rparr>"

definition leave :: "string \<Rightarrow> dfs_state \<Rightarrow> dfs_state" where
  "leave x s = s\<lparr>visiting := removeAll x (visiting s), visited := set_add x (visited s),
                 activationOrder := activationOrder s @ [x]\<rparr>"

text \<open>
  \<open>visit(id, path)\<close> for each id of a list, in order: the recursive closure \<open>visit\<close> of the
  source and the two loops that call it.
\<close>

function visitAll :: "plugin_index \<Rightarrow> string list \<Rightarrow> string list \<Rightarrow> dfs_state \<Rightarrow> dfs_state" where
  "visitAll byId path [] s = s"
| "visitAll byId path (x # xs) s =
     visitAll byId path xs
       (if x \<in> set (visited s) then s
        else if x \<in> set (visiting s) then markCycle path x s
        else leave x (visitAll byId (path @ [x]) (installedDependencies byId x) (enter x s)))"
  by pat_completeness auto

definition open_nodes :: "plugin_index \<Rightarrow> dfs_state \<Rightarrow> string set" where
  "open_nodes byId s = set (map fst byId) - (set (visiting s) \<union> set (visited s))"

lemma dfs_step_sets [simp]:
  "set (visiting (enter x s)) = insert x (set (visiting s))"
  "visited (enter x s) = visited s"
  "visiting (markCycle path x s) = visiting s"
  "visited (markCycle path x s) = visited s"
  "set (visiting (leave x s)) = set (visiting s) - {x}"
  "set (visited (leave x s)) = insert x (set (visited s))"
  "activationOrder (enter x s) = activationOrder s"
  "activationOrder (markCycle path x s) = activationOrder s"
  "activationOrder (leave x s) = activationOrder s @ [x]"
  "cyclic (enter x s) = cyclic s"
  "cyclic (leave x s) = cyclic s"
  by (simp_all add: enter_def leave_def markCycle_def)

lemma visitAll_grows:
  "visitAll_dom (byId, path, xs, s) \<Longrightarrow>
     set (visiting s) \<union> set (visited s)
       \<subseteq> set (visiting (visitAll byId path xs s)) \<union> set (visited (visitAll byId path xs s))"
proof (induction byId path xs s rule: visitAll.pinduct)
  case (1 byId path s)
  then show ?case by (simp add: visitAll.psimps)
next
  case (2 byId path x xs s)
  let ?s' = "if x \<in> set (visited s) then s
        else if x \<in> set (visiting s) then markCycle path x s
        else leave x (visitAll byId (path @ [x]) (installedDependencies byId x) (enter x s))"
  have "set (visiting s) \<union> set (visited s) \<subseteq> set (visiting ?s') \<union> set (visited ?s')"
    using "2.IH"(1) by auto
  also have "\<dots> \<subseteq> set (visiting (visitAll byId path xs ?s')) \<union> set (visited (visitAll byId path xs ?s'))"
    by (rule "2.IH"(2))
  finally show ?case
    using "2.hyps" by (simp only: visitAll.psimps)
qed

lemma installedDependencies_absent:
  "x \<notin> set (map fst byId) \<Longrightarrow> installedDependencies byId x = []"
  by (simp add: installedDependencies_def map_of_eq_None_iff [THEN iffD2])

lemma open_nodes_enter:
  assumes "x \<notin> set (visited s)" and "x \<notin> set (visiting s)"
  shows "card (open_nodes byId (enter x s)) < card (open_nodes byId s)
    \<or> installedDependencies byId x = [] \<and> open_nodes byId (enter x s) = open_nodes byId s"
proof (cases "x \<in> set (map fst byId)")
  case True
  with assms have "open_nodes byId (enter x s) \<subset> open_nodes byId s"
    by (auto simp: open_nodes_def)
  then show ?thesis
    by (simp add: psubset_card_mono open_nodes_def)
next
  case False
  then show ?thesis
    by (auto simp: open_nodes_def installedDependencies_absent)
qed

lemma open_nodes_mono:
  "set (visiting s) \<union> set (visited s) \<subseteq> set (visiting t) \<union> set (visited t) \<Longrightarrow>
     card (open_nodes byId t) \<le> card (open_nodes byId s)"
  by (rule card_mono) (auto simp: open_nodes_def)

termination visitAll
proof (relation "measures [\<lambda>(byId, path, xs, s). card (open_nodes byId s), \<lambda>(byId, path, xs, s). length xs]",
    goal_cases)
  case 1
  show ?case by simp
next
  case (2 byId path x xs s)
  then show ?case
    using open_nodes_enter [of x s byId] by auto
next
  case (3 byId path x xs s)
  let ?s' = "if x \<in> set (visited s) then s
        else if x \<in> set (visiting s) then markCycle path x s
        else leave x (visitAll byId (path @ [x]) (installedDependencies byId x) (enter x s))"
  have "set (visiting s) \<union> set (visited s) \<subseteq> set (visiting ?s') \<union> set (visited ?s')"
    using 3 visitAll_grows [of byId "path @ [x]" "installedDependencies byId x" "enter x s"]
    by auto
  then have "card (open_nodes byId ?s') \<le> card (open_nodes byId s)"
    by (rule open_nodes_mono)
  then show ?case by auto
qed

definition dfs_init :: dfs_state where
  "dfs_init = \<lparr>visiting = [], visited = [], activationOrder = [], cyclic = []\<rparr>"

definition searchOrder :: "plugin_index \<Rightarrow> dfs_state" where
  "searchOrder byId = visitAll byId [] (sort (map fst byId)) dfs_init"

section \<open>Resolution\<close>

definition resolvePluginRelationshipsV1 :: "resolver_lib \<Rightarrow> manifest list \<Rightarrow> resolution" where
  "resolvePluginRelationshipsV1 lib manifests =
     (let (byId, duplicates) = indexPluginManifests manifests;
          s = searchOrder byId;
          issues = js_sort (sortIssues lib)
            (duplicates @ concat (map (\<lambda>(k, m). manifestRelationshipIssues lib byId m) byId) @
             map (\<lambda>pluginId. issue_of DependencyCycle pluginId ''dependencies'') (cyclic s))
      in if issues \<noteq> []
         then \<lparr>rs_compatible = False, rs_activationOrder = [], rs_issues = issues\<rparr>
         else \<lparr>rs_compatible = True, rs_activationOrder = activationOrder s, rs_issues = []\<rparr>)"

text \<open>The checks of one manifest against the host.\<close>

definition hostIssues ::
  "resolver_lib \<Rightarrow> host_capabilities \<Rightarrow> manifest \<Rightarrow> resolution_issue list" where
  "hostIssues lib host m =
     (let pluginId = mf_id m;
          compat = mf_compatibility m;
          frontend = dp_frontend (mf_deployment m);
          backend = dp_backend (mf_deployment m)
      in (if md_publisher (mf_metadata m) \<notin> set (hc_trustedPublishers host)
          then [issue_of UntrustedPublisher pluginId ''metadata.publisher''] else []) @
         (case rangeMatches lib (hc_hostVersion host) (cp_host compat) of
            None \<Rightarrow> [issue_of InvalidVersionRange pluginId ''compatibility.host'']
          | Some match \<Rightarrow> if \<not> match then [issue_of IncompatibleHost pluginId ''compatibility.host'']
                          else []) @
         (if \<not> truthy_str (validRange lib (cp_sdk compat))
          then [issue_of InvalidVersionRange pluginId ''compatibility.sdk'']
          else
            let sdkRange = the (validRange lib (cp_sdk compat));
                declaredFrontendSdk = map_option (\<lambda>f. sr_pluginSdk (fd_shared f)) frontend;
                sdkCandidates = (if truthy_str declaredFrontendSdk then [the declaredFrontendSdk]
                                 else hc_supportedSdkVersions host)
            in if \<not> list_ex (\<lambda>version. satisfies lib version sdkRange) sdkCandidates
               then [issue_of IncompatibleSdk pluginId ''compatibility.sdk''] else []) @
         (case frontend of None \<Rightarrow> []
          | Some f \<Rightarrow> if sr_pluginSdk (fd_shared f) \<notin> set (hc_supportedSdkVersions host)
                      then [issue_of IncompatibleSharedRuntime pluginId
                              ''deployment.frontend.shared.pluginSdk''] else []) @
         (if frontend \<noteq> None \<and> cp_frontendProtocol compat \<noteq> Some (hc_frontendProtocol host)
          then [issue_of UnsupportedFrontendProtocol pluginId ''compatibility.frontendProtocol'']
          else []) @
         (if backend \<noteq> None \<and> cp_backendProtocol compat \<noteq> Some (hc_backendProtocol host)
          then [issue_of UnsupportedBackendProtocol pluginId ''compatibility.backendProtocol'']
          else []) @
         (case frontend of None \<Rightarrow> []
          | Some f \<Rightarrow> if \<not> exactRuntimeMatches (fd_shared f) (hc_sharedFrontend host)
                      then [issue_of IncompatibleSharedRuntime pluginId
                              ''deployment.frontend.shared''] else []) @
         map (detail_issue MissingSlot pluginId ''compatibility.requiredSlots'')
           (filter (\<lambda>slot. slot \<notin> set (hc_slots host)) (cp_requiredSlots compat)) @
         map (detail_issue UnknownPermission pluginId ''permissions.required'')
           (filter (\<lambda>permission. permission \<notin> set (hc_permissions host)) (mf_permissionsRequired m)) @
         (if mf_egressPolicy m \<noteq> ''none'' \<and> mf_egressPolicy m \<notin> set (hc_egressPolicies host)
          then [issue_of UnapprovedEgressPolicy pluginId ''network.egressPolicy''] else []))"

definition resolvePluginSetV1 ::
  "resolver_lib \<Rightarrow> manifest list \<Rightarrow> host_capabilities \<Rightarrow> resolution" where
  "resolvePluginSetV1 lib manifests host =
     (let relationshipResolution = resolvePluginRelationshipsV1 lib manifests;
          byId = fst (indexPluginManifests manifests);
          issues = js_sort (sortIssues lib)
            (rs_issues relationshipResolution @ concat (map (\<lambda>(k, m). hostIssues lib host m) byId))
      in if issues \<noteq> []
         then \<lparr>rs_compatible = False, rs_activationOrder = [], rs_issues = issues\<rparr>
         else \<lparr>rs_compatible = True,
               rs_activationOrder = rs_activationOrder relationshipResolution, rs_issues = []\<rparr>)"

end
