(* ===== verification/Resolver_Order.thy ===== *)
theory Resolver_Order
  imports Resolver
begin

text \<open>
  Correctness of the relationship resolution: the depth-first search of \<open>Resolver\<close> ends
  with a topological order of the installed dependencies or with plugins that lie on a
  cycle, and the resolution is compatible exactly for the sets of manifests that meet the
  declarative condition \<open>consistent_set\<close>.
\<close>

section \<open>The index\<close>

text \<open>The manifests that \<open>byId\<close> keeps: the first of each id.\<close>

fun firsts :: "string list \<Rightarrow> manifest list \<Rightarrow> manifest list" where
  "firsts seen [] = []"
| "firsts seen (m # ms) =
     (if mf_id m \<in> set seen then firsts seen ms else m # firsts (mf_id m # seen) ms)"

fun repeats :: "string list \<Rightarrow> manifest list \<Rightarrow> manifest list" where
  "repeats seen [] = []"
| "repeats seen (m # ms) =
     (if mf_id m \<in> set seen then m # repeats seen ms else repeats (mf_id m # seen) ms)"

abbreviation keyed :: "manifest list \<Rightarrow> plugin_index" where
  "keyed ms \<equiv> map (\<lambda>m. (mf_id m, m)) ms"

lemma firsts_cong: "set seen = set seen' \<Longrightarrow> firsts seen ms = firsts seen' ms"
  by (induction seen ms arbitrary: seen' rule: firsts.induct) auto

lemma repeats_cong: "set seen = set seen' \<Longrightarrow> repeats seen ms = repeats seen' ms"
  by (induction seen ms arbitrary: seen' rule: repeats.induct) auto

lemma indexLoop_eq:
  "indexLoop byId issues ms =
     (byId @ keyed (firsts (map fst byId) ms),
      issues @ map (\<lambda>m. issue_of DuplicatePlugin (mf_id m) ''metadata.id'') (repeats (map fst byId) ms))"
proof (induction byId issues ms rule: indexLoop.induct)
  case (1 byId issues)
  then show ?case by simp
next
  case (2 byId issues m ms)
  show ?case
  proof (cases "mf_id m \<in> set (map fst byId)")
    case True
    then have "map_of byId (mf_id m) \<noteq> None" by (auto simp: map_of_eq_None_iff)
    with 2(1) True show ?thesis by simp
  next
    case False
    then have none: "map_of byId (mf_id m) = None" by (auto simp: map_of_eq_None_iff)
    have keys: "set (map fst (byId @ [(mf_id m, m)])) = set (mf_id m # map fst byId)" by auto
    from 2(2) none False show ?thesis
      using firsts_cong [OF keys] repeats_cong [OF keys] by (simp add: put_new)
  qed
qed

lemma index_eq:
  "indexPluginManifests ms =
     (keyed (firsts [] ms),
      map (\<lambda>m. issue_of DuplicatePlugin (mf_id m) ''metadata.id'') (repeats [] ms))"
  by (simp add: indexPluginManifests_def indexLoop_eq)

lemma firsts_subset: "set (firsts seen ms) \<subseteq> set ms"
  by (induction seen ms rule: firsts.induct) auto

lemma firsts_ids: "mf_id ` set (firsts seen ms) = mf_id ` set ms - set seen"
  by (induction seen ms rule: firsts.induct) auto

lemma distinct_firsts: "distinct (map mf_id (firsts seen ms))"
proof (induction seen ms rule: firsts.induct)
  case (1 seen)
  then show ?case by simp
next
  case (2 seen m ms)
  then show ?case
    using firsts_ids [of "mf_id m # seen" ms] by auto
qed

lemma repeats_Nil:
  "repeats seen ms = [] \<longleftrightarrow> distinct (map mf_id ms) \<and> set seen \<inter> mf_id ` set ms = {}"
  by (induction seen ms rule: repeats.induct) auto

lemma firsts_distinct:
  "distinct (map mf_id ms) \<Longrightarrow> set seen \<inter> mf_id ` set ms = {} \<Longrightarrow> firsts seen ms = ms"
proof (induction ms arbitrary: seen)
  case Nil
  then show ?case by simp
next
  case (Cons m ms)
  then have "firsts (mf_id m # seen) ms = ms" by (intro Cons.IH) auto
  with Cons.prems show ?case by simp
qed

lemma repeats_subset: "set (repeats seen ms) \<subseteq> set ms"
  by (induction seen ms rule: repeats.induct) auto

lemma map_of_keyed:
  assumes "distinct (map mf_id ms)"
  shows "map_of (keyed ms) k = Some m \<longleftrightarrow> m \<in> set ms \<and> mf_id m = k"
proof -
  have "distinct (map fst (keyed ms))" using assms by (simp add: comp_def)
  then have "map_of (keyed ms) k = Some m \<longleftrightarrow> (k, m) \<in> set (keyed ms)"
    by (simp only: map_of_eq_Some_iff)
  then show ?thesis by auto
qed

lemma map_of_keyed_None: "map_of (keyed ms) k = None \<longleftrightarrow> k \<notin> mf_id ` set ms"
  by (induction ms) auto

section \<open>Paths and orders\<close>

definition edges :: "plugin_index \<Rightarrow> (string \<times> string) set" where
  "edges byId = {(x, y). y \<in> set (installedDependencies byId x)}"

definition topological :: "plugin_index \<Rightarrow> string list \<Rightarrow> bool" where
  "topological byId order \<longleftrightarrow>
     (\<forall>ys x zs. order = ys @ x # zs \<longrightarrow> set (installedDependencies byId x) \<subseteq> set ys)"

lemma topological_Nil [simp]: "topological byId []"
  by (simp add: topological_def)

lemma topological_snoc:
  "topological byId (order @ [x]) \<longleftrightarrow>
     topological byId order \<and> set (installedDependencies byId x) \<subseteq> set order"
proof
  assume top: "topological byId (order @ [x])"
  have "set (installedDependencies byId y) \<subseteq> set ys" if "order = ys @ y # zs" for ys y zs
    using top that by (simp add: topological_def)
  moreover have "set (installedDependencies byId x) \<subseteq> set order"
    using top by (simp add: topological_def)
  ultimately show "topological byId order \<and> set (installedDependencies byId x) \<subseteq> set order"
    by (simp add: topological_def)
next
  assume top: "topological byId order \<and> set (installedDependencies byId x) \<subseteq> set order"
  have "set (installedDependencies byId y) \<subseteq> set ys" if eq: "order @ [x] = ys @ y # zs" for ys y zs
  proof (cases zs rule: rev_cases)
    case Nil
    with eq top show ?thesis by simp
  next
    case (snoc zs' z)
    with eq have "order = ys @ y # zs'" by simp
    with top show ?thesis by (simp add: topological_def)
  qed
  then show "topological byId (order @ [x])" by (simp add: topological_def)
qed

text \<open>Consecutive plugins of the path depend on each other.\<close>

definition chain :: "plugin_index \<Rightarrow> string list \<Rightarrow> bool" where
  "chain byId path \<longleftrightarrow> (\<forall>as a b bs. path = as @ a # b # bs \<longrightarrow> (a, b) \<in> edges byId)"

text \<open>The ids about to be visited are dependencies of the last plugin of the path.\<close>

definition follows :: "plugin_index \<Rightarrow> string list \<Rightarrow> string list \<Rightarrow> bool" where
  "follows byId path xs \<longleftrightarrow> path = [] \<or> (\<forall>x \<in> set xs. (last path, x) \<in> edges byId)"

lemma follows_Cons:
  "follows byId path (x # xs) \<longleftrightarrow> (path = [] \<or> (last path, x) \<in> edges byId) \<and> follows byId path xs"
  by (auto simp: follows_def)

lemma chain_snoc:
  assumes "chain byId path" and "follows byId path [x]"
  shows "chain byId (path @ [x])"
proof -
  have "(a, b) \<in> edges byId" if eq: "path @ [x] = as @ a # b # bs" for as a b bs
  proof (cases bs rule: rev_cases)
    case Nil
    with eq have "path = as @ [a]" "b = x" by auto
    with assms(2) show ?thesis by (simp add: follows_def)
  next
    case (snoc bs' c)
    with eq have "path = as @ a # b # bs'" by simp
    with assms(1) show ?thesis by (auto simp: chain_def)
  qed
  then show ?thesis by (auto simp: chain_def)
qed

lemma chain_reaches_last:
  "chain byId path \<Longrightarrow> path = as @ y # bs \<Longrightarrow> (y, last path) \<in> (edges byId)\<^sup>*"
proof (induction bs arbitrary: as y)
  case Nil
  then show ?case by simp
next
  case (Cons b bs)
  then have "(y, b) \<in> edges byId" by (auto simp: chain_def)
  moreover have "(b, last path) \<in> (edges byId)\<^sup>*"
    using Cons.IH [of "as @ [y]" b] Cons.prems by simp
  ultimately show ?case by (rule converse_rtrancl_into_rtrancl)
qed

lemma chain_reaches_from:
  "chain byId path \<Longrightarrow> path = as @ y # bs \<Longrightarrow> z \<in> set (y # bs) \<Longrightarrow> (y, z) \<in> (edges byId)\<^sup>*"
proof (induction bs arbitrary: as y)
  case Nil
  then show ?case by simp
next
  case (Cons b bs)
  then have "(y, b) \<in> edges byId" by (auto simp: chain_def)
  moreover have "z = y \<or> (b, z) \<in> (edges byId)\<^sup>*"
    using Cons.IH [of "as @ [y]" b] Cons.prems by auto
  ultimately show ?case by (auto intro: converse_rtrancl_into_rtrancl)
qed

text \<open>Every plugin of the slice that \<open>markCycle\<close> records lies on a cycle.\<close>

lemma slice_on_cycle:
  assumes chain: "chain byId path" and last: "(last path, x) \<in> edges byId"
    and x: "x \<in> set path" and z: "z \<in> insert x (set (slice_from path x))"
  shows "(z, z) \<in> (edges byId)\<^sup>+"
proof -
  obtain as bs where path: "path = as @ x # bs" and "x \<notin> set as"
    using x by (meson split_list_first)
  then have slice: "slice_from path x = x # bs"
    by (simp add: slice_from_def dropWhile_append)
  with z have z': "z \<in> set (x # bs)" by auto
  from z' obtain cs ds where "x # bs = cs @ z # ds" by (meson split_list)
  with path have "path = (as @ cs) @ z # ds" by simp
  with chain have "(z, last path) \<in> (edges byId)\<^sup>*" by (rule chain_reaches_last)
  from this last have "(z, x) \<in> (edges byId)\<^sup>+" by (rule rtrancl_into_trancl1)
  moreover have "(x, z) \<in> (edges byId)\<^sup>*"
    using chain path z' by (rule chain_reaches_from)
  ultimately show ?thesis by (rule trancl_rtrancl_trancl)
qed

section \<open>The search\<close>

lemma visitAll_cyclic_mono: "set (cyclic s) \<subseteq> set (cyclic (visitAll byId path xs s))"
proof (induction byId path xs s rule: visitAll.induct)
  case (1 byId path s)
  then show ?case by simp
next
  case (2 byId path x xs s)
  let ?s' = "if x \<in> set (visited s) then s
        else if x \<in> set (visiting s) then markCycle path x s
        else leave x (visitAll byId (path @ [x]) (installedDependencies byId x) (enter x s))"
  have "set (cyclic s) \<subseteq> set (cyclic ?s')"
    using "2.IH"(1) by (auto simp: markCycle_def)
  also have "\<dots> \<subseteq> set (cyclic (visitAll byId path xs ?s'))" by (rule "2.IH"(2))
  finally show ?case by simp
qed

lemma visitAll_cyclic_Nil:
  "cyclic (visitAll byId path xs s) = [] \<Longrightarrow> cyclic s = []"
  using visitAll_cyclic_mono [of s byId path xs] by auto

text \<open>
  The state between calls: the plugins being visited are the path, the visited plugins
  are the activation order.
\<close>

definition dfs_inv :: "string list \<Rightarrow> dfs_state \<Rightarrow> bool" where
  "dfs_inv path s \<longleftrightarrow> visiting s = path \<and> distinct path \<and> visited s = activationOrder s \<and>
     distinct (activationOrder s) \<and> set path \<inter> set (activationOrder s) = {}"

lemma dfs_inv_enter:
  "dfs_inv path s \<Longrightarrow> x \<notin> set (visited s) \<Longrightarrow> x \<notin> set (visiting s) \<Longrightarrow>
     dfs_inv (path @ [x]) (enter x s)"
  by (auto simp: dfs_inv_def enter_def set_add_def)

lemma dfs_inv_leave:
  "dfs_inv (path @ [x]) s \<Longrightarrow> dfs_inv path (leave x s)"
  by (auto simp: dfs_inv_def leave_def set_add_def)

lemma dfs_inv_mark: "dfs_inv path s \<Longrightarrow> dfs_inv path (markCycle path x s)"
  by (simp add: dfs_inv_def markCycle_def)

lemma visitAll_dfs_inv: "dfs_inv path s \<Longrightarrow> dfs_inv path (visitAll byId path xs s)"
proof (induction byId path xs s rule: visitAll.induct)
  case (1 byId path s)
  then show ?case by simp
next
  case (2 byId path x xs s)
  show ?case
  proof (cases "x \<in> set (visited s) \<or> x \<in> set (visiting s)")
    case True
    with 2 show ?thesis by (auto simp: dfs_inv_mark)
  next
    case False
    with "2.prems" have "dfs_inv (path @ [x]) (enter x s)" by (simp add: dfs_inv_enter)
    with False "2.IH"(1) have
      "dfs_inv path (leave x (visitAll byId (path @ [x]) (installedDependencies byId x) (enter x s)))"
      by (simp add: dfs_inv_leave)
    with False "2.IH"(2) show ?thesis by simp
  qed
qed

lemma visitAll_keeps_visited:
  "set (visited s) \<subseteq> set (visited (visitAll byId path xs s))"
proof (induction byId path xs s rule: visitAll.induct)
  case (1 byId path s)
  then show ?case by simp
next
  case (2 byId path x xs s)
  let ?s' = "if x \<in> set (visited s) then s
        else if x \<in> set (visiting s) then markCycle path x s
        else leave x (visitAll byId (path @ [x]) (installedDependencies byId x) (enter x s))"
  have "set (visited s) \<subseteq> set (visited ?s')"
    using "2.IH"(1) by auto
  also have "\<dots> \<subseteq> set (visited (visitAll byId path xs ?s'))" by (rule "2.IH"(2))
  finally show ?case by simp
qed

text \<open>A search that records no cycle visits everything it was given, in topological order.\<close>

lemma visitAll_topological:
  "cyclic (visitAll byId path xs s) = [] \<Longrightarrow> dfs_inv path s \<Longrightarrow> topological byId (activationOrder s) \<Longrightarrow>
     topological byId (activationOrder (visitAll byId path xs s)) \<and>
     set xs \<subseteq> set (activationOrder (visitAll byId path xs s))"
proof (induction byId path xs s rule: visitAll.induct)
  case (1 byId path s)
  then show ?case by simp
next
  case (2 byId path x xs s)
  let ?inner = "visitAll byId (path @ [x]) (installedDependencies byId x) (enter x s)"
  let ?s' = "if x \<in> set (visited s) then s
        else if x \<in> set (visiting s) then markCycle path x s else leave x ?inner"
  have res: "visitAll byId path (x # xs) s = visitAll byId path xs ?s'" by simp
  from "2.prems"(1) have nocycle: "cyclic ?s' = []"
    unfolding res by (rule visitAll_cyclic_Nil)
  have s': "dfs_inv path ?s' \<and> topological byId (activationOrder ?s') \<and> x \<in> set (visited ?s')"
  proof (cases "x \<in> set (visited s)")
    case True
    with "2.prems" show ?thesis by simp
  next
    case unvisited: False
    show ?thesis
    proof (cases "x \<in> set (visiting s)")
      case True
      with unvisited nocycle show ?thesis
        by (simp add: markCycle_def)
    next
      case False
      from unvisited False "2.prems"(2) have inv: "dfs_inv (path @ [x]) (enter x s)"
        by (simp add: dfs_inv_enter)
      from unvisited False nocycle have "cyclic ?inner = []" by simp
      with "2.IH"(1) unvisited False inv "2.prems"(3) have inner:
        "topological byId (activationOrder ?inner)"
        "set (installedDependencies byId x) \<subseteq> set (activationOrder ?inner)"
        by simp_all
      from inv have "dfs_inv path (leave x ?inner)"
        by (intro dfs_inv_leave visitAll_dfs_inv)
      with inner unvisited False show ?thesis by (simp add: topological_snoc)
    qed
  qed
  have rest: "topological byId (activationOrder (visitAll byId path xs ?s')) \<and>
      set xs \<subseteq> set (activationOrder (visitAll byId path xs ?s'))"
    using "2.IH"(2) "2.prems"(1) s' unfolding res by blast
  have "dfs_inv path (visitAll byId path xs ?s')"
    using s' by (intro visitAll_dfs_inv) blast
  with s' have "x \<in> set (activationOrder (visitAll byId path xs ?s'))"
    using visitAll_keeps_visited [of ?s' byId path xs] by (auto simp: dfs_inv_def)
  with rest show ?case unfolding res by simp
qed

text \<open>What the search visits is what it was given and what that reaches.\<close>

lemma installedDependencies_subset:
  "set (installedDependencies byId x) \<subseteq> set (map fst byId)"
proof
  fix y
  assume "y \<in> set (installedDependencies byId x)"
  then have "map_of byId y \<noteq> None"
    by (cases "map_of byId x") (auto simp: installedDependencies_def)
  then show "y \<in> set (map fst byId)" by (auto simp: map_of_eq_None_iff)
qed

lemma visitAll_within:
  "set xs \<subseteq> set (map fst byId) \<Longrightarrow> set (activationOrder s) \<subseteq> set (map fst byId) \<Longrightarrow>
     set (activationOrder (visitAll byId path xs s)) \<subseteq> set (map fst byId)"
proof (induction byId path xs s rule: visitAll.induct)
  case (1 byId path s)
  then show ?case by simp
next
  case (2 byId path x xs s)
  let ?s' = "if x \<in> set (visited s) then s
        else if x \<in> set (visiting s) then markCycle path x s
        else leave x (visitAll byId (path @ [x]) (installedDependencies byId x) (enter x s))"
  have "set (activationOrder ?s') \<subseteq> set (map fst byId)"
    using "2.IH"(1) "2.prems" installedDependencies_subset by auto
  with "2.IH"(2) "2.prems"(1) show ?case by simp
qed

text \<open>Every recorded plugin lies on a cycle of installed dependencies.\<close>

lemma visitAll_cyclic_sound:
  "chain byId path \<Longrightarrow> follows byId path xs \<Longrightarrow> dfs_inv path s \<Longrightarrow>
     \<forall>z \<in> set (cyclic s). (z, z) \<in> (edges byId)\<^sup>+ \<Longrightarrow>
     \<forall>z \<in> set (cyclic (visitAll byId path xs s)). (z, z) \<in> (edges byId)\<^sup>+"
proof (induction byId path xs s rule: visitAll.induct)
  case (1 byId path s)
  then show ?case by simp
next
  case (2 byId path x xs s)
  let ?inner = "visitAll byId (path @ [x]) (installedDependencies byId x) (enter x s)"
  let ?s' = "if x \<in> set (visited s) then s
        else if x \<in> set (visiting s) then markCycle path x s else leave x ?inner"
  from "2.prems"(2) have x: "follows byId path [x]" and xs: "follows byId path xs"
    by (auto simp: follows_def)
  have "dfs_inv path ?s' \<and> (\<forall>z \<in> set (cyclic ?s'). (z, z) \<in> (edges byId)\<^sup>+)"
  proof (cases "x \<in> set (visited s)")
    case True
    with "2.prems" show ?thesis by simp
  next
    case unvisited: False
    show ?thesis
    proof (cases "x \<in> set (visiting s)")
      case True
      with "2.prems"(3) have path: "x \<in> set path" "path \<noteq> []" by (auto simp: dfs_inv_def)
      with x have "(last path, x) \<in> edges byId" by (simp add: follows_def)
      with "2.prems"(1) path have "\<forall>z \<in> insert x (set (slice_from path x)). (z, z) \<in> (edges byId)\<^sup>+"
        using slice_on_cycle by blast
      with True unvisited "2.prems" show ?thesis
        by (auto simp: markCycle_def dfs_inv_mark [unfolded markCycle_def])
    next
      case False
      from unvisited False "2.prems"(3) have inv: "dfs_inv (path @ [x]) (enter x s)"
        by (simp add: dfs_inv_enter)
      have "follows byId (path @ [x]) (installedDependencies byId x)"
        by (simp add: follows_def edges_def)
      with "2.IH"(1) unvisited False "2.prems"(1,4) x inv
      have "\<forall>z \<in> set (cyclic ?inner). (z, z) \<in> (edges byId)\<^sup>+"
        by (simp add: chain_snoc)
      with inv unvisited False show ?thesis
        by (simp add: dfs_inv_leave visitAll_dfs_inv)
    qed
  qed
  with "2.IH"(2) "2.prems"(1) xs show ?case by simp
qed

lemma dfs_inv_init: "dfs_inv [] dfs_init"
  by (simp add: dfs_inv_def dfs_init_def)

lemma searchOrder_cycles: "z \<in> set (cyclic (searchOrder byId)) \<Longrightarrow> (z, z) \<in> (edges byId)\<^sup>+"
  using visitAll_cyclic_sound [of byId "[]" "sort (map fst byId)" dfs_init]
  by (auto simp: searchOrder_def chain_def follows_def dfs_inv_init) (simp add: dfs_init_def)

lemma searchOrder_topological:
  assumes "cyclic (searchOrder byId) = []"
  shows "topological byId (activationOrder (searchOrder byId))"
    and "set (activationOrder (searchOrder byId)) = set (map fst byId)"
    and "distinct (activationOrder (searchOrder byId))"
proof -
  let ?s = "visitAll byId [] (sort (map fst byId)) dfs_init"
  have top: "topological byId (activationOrder ?s) \<and>
      set (sort (map fst byId)) \<subseteq> set (activationOrder ?s)"
  proof (rule visitAll_topological)
    show "cyclic ?s = []" using assms by (simp add: searchOrder_def)
    show "dfs_inv [] dfs_init" by (rule dfs_inv_init)
    show "topological byId (activationOrder dfs_init)" by (simp add: dfs_init_def)
  qed
  moreover have "set (activationOrder ?s) \<subseteq> set (map fst byId)"
    by (rule visitAll_within) (simp_all add: dfs_init_def)
  moreover have "dfs_inv [] ?s"
    by (rule visitAll_dfs_inv) (rule dfs_inv_init)
  ultimately show "topological byId (activationOrder (searchOrder byId))"
    and "set (activationOrder (searchOrder byId)) = set (map fst byId)"
    and "distinct (activationOrder (searchOrder byId))"
    by (auto simp: searchOrder_def dfs_inv_def)
qed

lemma topological_acyclic:
  assumes top: "topological byId order" and all: "set (map fst byId) \<subseteq> set order"
  shows "acyclic (edges byId)"
proof (rule acyclicI_order [where f = "\<lambda>x. length (takeWhile (\<lambda>y. y \<noteq> x) order)"])
  fix a b
  assume e: "(a, b) \<in> edges byId"
  have "a \<in> set (map fst byId)"
  proof (rule ccontr)
    assume "a \<notin> set (map fst byId)"
    then have "installedDependencies byId a = []" by (rule installedDependencies_absent)
    with e show False by (simp add: edges_def)
  qed
  with all have "a \<in> set order" by blast
  then obtain ys zs where order: "order = ys @ a # zs" and "a \<notin> set ys"
    by (meson split_list_first)
  from order top e have b: "b \<in> set ys"
    by (auto simp: topological_def edges_def)
  have "takeWhile (\<lambda>y. y \<noteq> a) order = ys"
    unfolding order using \<open>a \<notin> set ys\<close> by (subst takeWhile_append2) auto
  moreover have "length (takeWhile (\<lambda>y. y \<noteq> b) order) < length ys"
  proof -
    obtain us vs where ys: "ys = us @ b # vs" and "b \<notin> set us"
      using b by (meson split_list_first)
    then have "takeWhile (\<lambda>y. y \<noteq> b) order = us"
      unfolding order using \<open>b \<notin> set us\<close> by (simp, subst takeWhile_append2) auto
    with ys show ?thesis by simp
  qed
  ultimately show "length (takeWhile (\<lambda>y. y \<noteq> b) order) < length (takeWhile (\<lambda>y. y \<noteq> a) order)"
    by simp
qed

section \<open>The declarative condition\<close>

definition depends :: "manifest list \<Rightarrow> (string \<times> string) set" where
  "depends ms = {(mf_id m, dep_id d) | m d.
     m \<in> set ms \<and> d \<in> set (mf_dependencies m) \<and> dep_id d \<in> mf_id ` set ms}"

definition dependency_met :: "resolver_lib \<Rightarrow> manifest list \<Rightarrow> dependency \<Rightarrow> bool" where
  "dependency_met lib ms d \<longleftrightarrow>
     (if dep_id d \<in> mf_id ` set ms
      then \<forall>n \<in> set ms. mf_id n = dep_id d \<longrightarrow> rangeMatches lib (mf_version n) (dep_version d) = Some True
      else dep_optional d)"

definition conflict_free :: "resolver_lib \<Rightarrow> manifest list \<Rightarrow> conflict \<Rightarrow> bool" where
  "conflict_free lib ms c \<longleftrightarrow>
     (\<forall>n \<in> set ms. mf_id n = con_id c \<longrightarrow> rangeMatches lib (mf_version n) (con_version c) = Some False)"

text \<open>
  A set of manifests that can be active together: no id twice, every dependency met by an
  installed version or optional and absent, no conflict, no dependency cycle.
\<close>

definition consistent_set :: "resolver_lib \<Rightarrow> manifest list \<Rightarrow> bool" where
  "consistent_set lib ms \<longleftrightarrow>
     distinct (map mf_id ms) \<and>
     (\<forall>m \<in> set ms. (\<forall>d \<in> set (mf_dependencies m). dependency_met lib ms d) \<and>
                    (\<forall>c \<in> set (mf_conflicts m). conflict_free lib ms c)) \<and>
     acyclic (depends ms)"

lemma edges_keyed:
  assumes "distinct (map mf_id ms)"
  shows "edges (keyed ms) = depends ms"
proof -
  have "y \<in> set (installedDependencies (keyed ms) x) \<longleftrightarrow> (x, y) \<in> depends ms" for x y
  proof (cases "map_of (keyed ms) x")
    case None
    then have "x \<notin> mf_id ` set ms" by (simp add: map_of_keyed_None)
    with None show ?thesis by (auto simp: installedDependencies_def depends_def)
  next
    case (Some m)
    with assms have m: "m \<in> set ms" "mf_id m = x" by (simp_all add: map_of_keyed)
    have uniq: "n = m" if "n \<in> set ms" "mf_id n = x" for n
      using m that assms by (auto simp: distinct_map inj_on_def)
    have "y \<in> set (installedDependencies (keyed ms) x) \<longleftrightarrow>
        y \<in> dep_id ` {d \<in> set (mf_dependencies m). map_of (keyed ms) (dep_id d) \<noteq> None}"
      using Some by (simp add: installedDependencies_def)
    also have "\<dots> \<longleftrightarrow> y \<in> dep_id ` set (mf_dependencies m) \<and> y \<in> mf_id ` set ms"
      by (auto simp only: map_of_keyed_None)
    also have "\<dots> \<longleftrightarrow> (x, y) \<in> depends ms"
      using m uniq unfolding depends_def by blast
    finally show ?thesis .
  qed
  then show ?thesis by (auto simp: edges_def)
qed

lemma dependencyIssue_Nil:
  assumes "distinct (map mf_id ms)"
  shows "dependencyIssue lib (keyed ms) k d = [] \<longleftrightarrow> dependency_met lib ms d"
proof (cases "map_of (keyed ms) (dep_id d)")
  case None
  then have "dep_id d \<notin> mf_id ` set ms" by (simp add: map_of_keyed_None)
  with None show ?thesis by (simp add: dependencyIssue_def dependency_met_def)
next
  case (Some n)
  with assms have n: "n \<in> set ms" "mf_id n = dep_id d" by (simp_all add: map_of_keyed)
  then have "dep_id d \<in> mf_id ` set ms" by (metis image_eqI)
  moreover have uniq: "n' = n" if "n' \<in> set ms" "mf_id n' = dep_id d" for n'
    using n that assms by (auto simp: distinct_map inj_on_def)
  ultimately have "dependency_met lib ms d \<longleftrightarrow>
      rangeMatches lib (mf_version n) (dep_version d) = Some True"
    unfolding dependency_met_def using n by metis
  then show ?thesis
    using Some by (simp add: dependencyIssue_def split: option.splits)
qed

lemma conflictIssue_Nil:
  assumes "distinct (map mf_id ms)"
  shows "conflictIssue lib (keyed ms) k c = [] \<longleftrightarrow> conflict_free lib ms c"
proof (cases "map_of (keyed ms) (con_id c)")
  case None
  then have "con_id c \<notin> mf_id ` set ms" by (simp add: map_of_keyed_None)
  then have "mf_id n \<noteq> con_id c" if "n \<in> set ms" for n
    using that by (metis image_eqI)
  with None show ?thesis by (simp add: conflictIssue_def conflict_free_def)
next
  case (Some n)
  with assms have n: "n \<in> set ms" "mf_id n = con_id c" by (simp_all add: map_of_keyed)
  moreover have uniq: "n' = n" if "n' \<in> set ms" "mf_id n' = con_id c" for n'
    using n that assms by (auto simp: distinct_map inj_on_def)
  ultimately have "conflict_free lib ms c \<longleftrightarrow>
      rangeMatches lib (mf_version n) (con_version c) = Some False"
    unfolding conflict_free_def by metis
  then show ?thesis
    using Some by (simp add: conflictIssue_def split: option.splits)
qed

lemma cyclic_Nil_iff: "cyclic (searchOrder byId) = [] \<longleftrightarrow> acyclic (edges byId)"
proof
  assume "cyclic (searchOrder byId) = []"
  note top = searchOrder_topological [OF this]
  show "acyclic (edges byId)" by (rule topological_acyclic [OF top(1)]) (simp add: top(2))
next
  assume "acyclic (edges byId)"
  then have "z \<notin> set (cyclic (searchOrder byId))" for z
    using searchOrder_cycles [of z byId] by (auto simp: acyclic_def)
  then show "cyclic (searchOrder byId) = []"
    by (metis list.set_intros(1) neq_Nil_conv)
qed

lemma relationship_issues_set:
  "set (rs_issues (resolvePluginRelationshipsV1 lib ms)) =
     set (map (\<lambda>m. issue_of DuplicatePlugin (mf_id m) ''metadata.id'') (repeats [] ms)) \<union>
     (\<Union>m \<in> set (firsts [] ms). set (manifestRelationshipIssues lib (keyed (firsts [] ms)) m)) \<union>
     (\<lambda>x. issue_of DependencyCycle x ''dependencies'') ` set (cyclic (searchOrder (keyed (firsts [] ms))))"
  unfolding resolvePluginRelationshipsV1_def index_eq Let_def split
  by (cases "repeats [] ms = [] \<and>
       (\<forall>m \<in> set (firsts [] ms). manifestRelationshipIssues lib (keyed (firsts [] ms)) m = []) \<and>
       cyclic (searchOrder (keyed (firsts [] ms))) = []")
     (auto simp: js_sort_def [symmetric])

lemma relationship_compatible_issues:
  "rs_compatible (resolvePluginRelationshipsV1 lib ms) \<longleftrightarrow>
     rs_issues (resolvePluginRelationshipsV1 lib ms) = []"
  by (simp add: resolvePluginRelationshipsV1_def index_eq Let_def)

lemma relationship_compatible_iff:
  "rs_compatible (resolvePluginRelationshipsV1 lib ms) \<longleftrightarrow> consistent_set lib ms"
proof (cases "distinct (map mf_id ms)")
  case True
  then have ms: "repeats [] ms = []" "firsts [] ms = ms"
    by (simp_all add: repeats_Nil firsts_distinct)
  have rel: "manifestRelationshipIssues lib (keyed ms) m = [] \<longleftrightarrow>
      (\<forall>d \<in> set (mf_dependencies m). dependency_met lib ms d) \<and>
      (\<forall>c \<in> set (mf_conflicts m). conflict_free lib ms c)" for m
    using True by (auto simp: manifestRelationshipIssues_def dependencyIssue_Nil conflictIssue_Nil)
  have "rs_compatible (resolvePluginRelationshipsV1 lib ms) \<longleftrightarrow>
      (\<forall>m \<in> set ms. manifestRelationshipIssues lib (keyed ms) m = []) \<and>
      cyclic (searchOrder (keyed ms)) = []"
    unfolding relationship_compatible_issues set_empty [symmetric] relationship_issues_set ms
    by simp
  also have "\<dots> \<longleftrightarrow> consistent_set lib ms"
    by (simp add: rel cyclic_Nil_iff edges_keyed True consistent_set_def)
  finally show ?thesis .
next
  case False
  then have "repeats [] ms \<noteq> []" by (simp add: repeats_Nil)
  then have "rs_issues (resolvePluginRelationshipsV1 lib ms) \<noteq> []"
    unfolding set_empty [symmetric] relationship_issues_set by simp
  with False show ?thesis
    by (simp add: relationship_compatible_issues consistent_set_def)
qed

lemma relationship_order:
  assumes "rs_compatible (resolvePluginRelationshipsV1 lib ms)"
  shows "rs_activationOrder (resolvePluginRelationshipsV1 lib ms) =
           activationOrder (searchOrder (keyed ms))"
    and "cyclic (searchOrder (keyed ms)) = []" and "distinct (map mf_id ms)"
proof -
  have cons: "consistent_set lib ms" using assms by (simp add: relationship_compatible_iff)
  then show dist: "distinct (map mf_id ms)" by (simp add: consistent_set_def)
  with cons show "cyclic (searchOrder (keyed ms)) = []"
    by (simp add: cyclic_Nil_iff edges_keyed consistent_set_def)
  have "firsts [] ms = ms" using dist by (simp add: firsts_distinct)
  with assms show "rs_activationOrder (resolvePluginRelationshipsV1 lib ms) =
      activationOrder (searchOrder (keyed ms))"
    by (auto simp: resolvePluginRelationshipsV1_def index_eq Let_def split: if_splits)
qed

text \<open>\<open>before xs a b\<close>: \<open>a\<close> occurs in \<open>xs\<close> at some place before an occurrence of \<open>b\<close>.\<close>

definition before :: "'a list \<Rightarrow> 'a \<Rightarrow> 'a \<Rightarrow> bool" where
  "before xs a b \<longleftrightarrow> (\<exists>ys zs. xs = ys @ b # zs \<and> a \<in> set ys)"

lemma relationship_activation_order:
  assumes "rs_compatible (resolvePluginRelationshipsV1 lib ms)"
  defines "order \<equiv> rs_activationOrder (resolvePluginRelationshipsV1 lib ms)"
  shows "distinct order" and "set order = mf_id ` set ms"
    and "m \<in> set ms \<Longrightarrow> d \<in> set (mf_dependencies m) \<Longrightarrow> dep_id d \<in> set order \<Longrightarrow>
           before order (dep_id d) (mf_id m)"
proof -
  note eq = relationship_order [OF assms(1)]
  note top = searchOrder_topological [OF eq(2)]
  show dist: "distinct order" using top(3) by (simp add: order_def eq(1))
  show ids: "set order = mf_id ` set ms"
    unfolding order_def eq(1) top(2) by (simp add: image_image)
  assume m: "m \<in> set ms" and d: "d \<in> set (mf_dependencies m)" and i: "dep_id d \<in> set order"
  from m d i ids have "(mf_id m, dep_id d) \<in> depends ms" unfolding depends_def by blast
  then have dep: "dep_id d \<in> set (installedDependencies (keyed ms) (mf_id m))"
    using edges_keyed [OF eq(3)] by (auto simp: edges_def)
  from m ids have "mf_id m \<in> set order" by simp
  then obtain ys zs where order: "order = ys @ mf_id m # zs" by (meson split_list)
  with top(1) dep have "dep_id d \<in> set ys"
    unfolding topological_def order_def eq(1) by blast
  with order show "before order (dep_id d) (mf_id m)" by (auto simp: before_def)
qed

section \<open>The contract of the resolver\<close>

text \<open>
  What the callers of the resolver rely on: it accepts a set exactly when the set is
  consistent, and a rejection names at least one issue.
\<close>

locale relationship_resolver =
  fixes resolve :: "manifest list \<Rightarrow> resolution" and consistent :: "manifest list \<Rightarrow> bool"
  assumes accepts_iff: "rs_compatible (resolve ms) \<longleftrightarrow> consistent ms"
    and accepts_issues: "rs_compatible (resolve ms) \<longleftrightarrow> rs_issues (resolve ms) = []"
    and order_complete: "rs_compatible (resolve ms) \<Longrightarrow>
          set (rs_activationOrder (resolve ms)) = mf_id ` set ms"
begin

lemma rejected_issue: "\<not> consistent ms \<Longrightarrow> rs_issues (resolve ms) \<noteq> []"
  using accepts_iff accepts_issues by blast

end

interpretation relationships: relationship_resolver "resolvePluginRelationshipsV1 lib" "consistent_set lib"
  for lib
  by unfold_locales
    (simp_all only: relationship_compatible_iff [symmetric] relationship_compatible_issues [symmetric]
      relationship_activation_order(2))

end
