(* ===== verification/Resolver_Isolated.thy ===== *)
theory Resolver_Isolated
  imports Resolver_Order
begin

text \<open>
  \<open>resolvePluginSetV1\<close> against its specification, and \<open>resolveIsolatedPluginSetV1\<close>, which
  drops rejected plugins until the rest is compatible: it terminates because every issue
  names a plugin of the set it was found in.
\<close>

section \<open>The resolution of a whole set\<close>

text \<open>The set is safe to activate on this host.\<close>

definition safe_set :: "resolver_lib \<Rightarrow> host_capabilities \<Rightarrow> manifest list \<Rightarrow> bool" where
  "safe_set lib host ms \<longleftrightarrow> consistent_set lib ms \<and> (\<forall>m \<in> set ms. hostIssues lib host m = [])"

lemma set_resolution_issues:
  "set (rs_issues (resolvePluginSetV1 lib ms host)) =
     set (rs_issues (resolvePluginRelationshipsV1 lib ms)) \<union>
     (\<Union>m \<in> set (firsts [] ms). set (hostIssues lib host m))"
  unfolding resolvePluginSetV1_def index_eq Let_def
  by (cases "rs_issues (resolvePluginRelationshipsV1 lib ms) = [] \<and>
       (\<forall>m \<in> set (firsts [] ms). hostIssues lib host m = [])")
     (auto simp: js_sort_def [symmetric])

lemma set_compatible_issues:
  "rs_compatible (resolvePluginSetV1 lib ms host) \<longleftrightarrow> rs_issues (resolvePluginSetV1 lib ms host) = []"
  by (simp add: resolvePluginSetV1_def index_eq Let_def)

lemma set_compatible_iff:
  "rs_compatible (resolvePluginSetV1 lib ms host) \<longleftrightarrow> safe_set lib host ms"
proof (cases "rs_compatible (resolvePluginRelationshipsV1 lib ms)")
  case True
  then have "distinct (map mf_id ms)" by (rule relationship_order)
  then have "firsts [] ms = ms" by (simp add: firsts_distinct)
  with True show ?thesis
    unfolding set_compatible_issues set_empty [symmetric] set_resolution_issues safe_set_def
      relationship_compatible_iff [symmetric]
    by (simp add: relationship_compatible_issues)
next
  case False
  then show ?thesis
    unfolding set_compatible_issues set_empty [symmetric] set_resolution_issues safe_set_def
      relationship_compatible_iff [symmetric]
    by (simp add: relationship_compatible_issues)
qed

lemma set_activation_order:
  "rs_compatible (resolvePluginSetV1 lib ms host) \<Longrightarrow>
     rs_activationOrder (resolvePluginSetV1 lib ms host) =
       rs_activationOrder (resolvePluginRelationshipsV1 lib ms) \<and>
     rs_compatible (resolvePluginRelationshipsV1 lib ms)"
  by (auto simp: resolvePluginSetV1_def index_eq Let_def relationship_compatible_issues
      split: if_splits)

section \<open>Every issue names a plugin of the set\<close>

text \<open>All issues of a list are about one plugin.\<close>

definition about :: "string \<Rightarrow> resolution_issue list \<Rightarrow> bool" where
  "about pluginId issues \<longleftrightarrow> list_all (\<lambda>i. ri_pluginId i = pluginId) issues"

lemma about_simps [simp]:
  "about x []"
  "about x (i # is) \<longleftrightarrow> ri_pluginId i = x \<and> about x is"
  "about x (is @ js) \<longleftrightarrow> about x is \<and> about x js"
  "about x (map (detail_issue code x field) ds)"
  by (auto simp: about_def list_all_iff)

lemma about_concat: "(\<And>d. d \<in> set ds \<Longrightarrow> about x (f d)) \<Longrightarrow> about x (concat (map f ds))"
  by (auto simp: about_def list_all_iff)

lemma manifestRelationshipIssues_id:
  "i \<in> set (manifestRelationshipIssues lib byId m) \<Longrightarrow> ri_pluginId i = mf_id m"
proof -
  have "about (mf_id m) (dependencyIssue lib byId (mf_id m) d)" for d
    by (simp add: dependencyIssue_def split: option.split)
  moreover have "about (mf_id m) (conflictIssue lib byId (mf_id m) c)" for c
    by (simp add: conflictIssue_def split: option.split)
  ultimately have "about (mf_id m) (manifestRelationshipIssues lib byId m)"
    by (simp add: manifestRelationshipIssues_def about_concat)
  then show "i \<in> set (manifestRelationshipIssues lib byId m) \<Longrightarrow> ri_pluginId i = mf_id m"
    by (simp add: about_def list_all_iff)
qed

lemma about_option:
  "about x (case r of None \<Rightarrow> xs | Some y \<Rightarrow> f y) \<longleftrightarrow>
     (r = None \<longrightarrow> about x xs) \<and> (\<forall>y. r = Some y \<longrightarrow> about x (f y))"
  by (cases r) auto

lemma about_if: "about x (if c then xs else ys) \<longleftrightarrow> (c \<longrightarrow> about x xs) \<and> (\<not> c \<longrightarrow> about x ys)"
  by simp

lemma hostIssues_id: "i \<in> set (hostIssues lib host m) \<Longrightarrow> ri_pluginId i = mf_id m"
proof -
  have "about (mf_id m) (hostIssues lib host m)"
    unfolding hostIssues_def Let_def by (simp only: about_simps about_option about_if) simp
  then show "i \<in> set (hostIssues lib host m) \<Longrightarrow> ri_pluginId i = mf_id m"
    by (simp add: about_def list_all_iff)
qed

lemma cyclic_ids: "z \<in> set (cyclic (searchOrder byId)) \<Longrightarrow> z \<in> set (map fst byId)"
proof -
  assume "z \<in> set (cyclic (searchOrder byId))"
  then have "(z, z) \<in> (edges byId)\<^sup>+" by (rule searchOrder_cycles)
  then obtain y where "(z, y) \<in> edges byId" by (meson tranclD)
  then show ?thesis
    using installedDependencies_absent [of z byId] by (cases "z \<in> set (map fst byId)") (auto simp: edges_def)
qed

lemma set_issue_ids:
  "ri_pluginId ` set (rs_issues (resolvePluginSetV1 lib ms host)) \<subseteq> mf_id ` set ms"
proof -
  have firsts: "mf_id ` set (firsts [] ms) = mf_id ` set ms" by (simp add: firsts_ids)
  have "ri_pluginId i \<in> mf_id ` set ms"
    if "i \<in> set (rs_issues (resolvePluginRelationshipsV1 lib ms))" for i
    using that firsts repeats_subset [of "[]" ms] cyclic_ids [of _ "keyed (firsts [] ms)"]
    unfolding relationship_issues_set
    by (auto dest!: manifestRelationshipIssues_id simp: image_image)
  moreover have "ri_pluginId i \<in> mf_id ` set ms"
    if "m \<in> set (firsts [] ms)" "i \<in> set (hostIssues lib host m)" for i m
    using that firsts by (metis hostIssues_id image_eqI)
  ultimately show ?thesis
    unfolding set_resolution_issues by blast
qed

section \<open>Isolated resolution\<close>

definition rejectedIds :: "resolution \<Rightarrow> string list" where
  "rejectedIds r = set_of_list (map ri_pluginId (rs_issues r))"

text \<open>An issue equal in all its fields to an earlier one is recorded once.\<close>

definition addIssue :: "resolution_issue \<Rightarrow> resolution_issue list \<Rightarrow> resolution_issue list" where
  "addIssue issue issues = (if list_ex (\<lambda>existing. existing = issue) issues then issues else issues @ [issue])"

definition isolatedResult ::
  "resolver_lib \<Rightarrow> string list \<Rightarrow> string list \<Rightarrow> resolution_issue list \<Rightarrow> isolated_resolution" where
  "isolatedResult lib order disabled issues =
     \<lparr>ir_activationOrder = order, ir_disabledPluginIds = sort disabled,
      ir_issues = js_sort (sortIssues lib) issues\<rparr>"

lemma set_fold_addIssue: "set (fold addIssue new issues) = set issues \<union> set new"
  by (induction new arbitrary: issues) (auto simp: addIssue_def list_ex_iff)

lemma rejected_nonempty:
  "\<not> rs_compatible (resolvePluginSetV1 lib ms host) \<Longrightarrow>
     rejectedIds (resolvePluginSetV1 lib ms host) \<noteq> []"
  unfolding set_compatible_issues rejectedIds_def set_empty [symmetric] set_set_of_list by simp

lemma rejected_shrinks:
  assumes "\<not> rs_compatible (resolvePluginSetV1 lib ms host)"
  shows "length (filter (\<lambda>m. mf_id m \<notin> set (rejectedIds (resolvePluginSetV1 lib ms host))) ms) < length ms"
proof -
  have "rejectedIds (resolvePluginSetV1 lib ms host) \<noteq> []"
    using assms by (rule rejected_nonempty)
  then obtain x where x: "x \<in> set (rejectedIds (resolvePluginSetV1 lib ms host))"
    by (meson last_in_set)
  then have "x \<in> mf_id ` set ms"
    using set_issue_ids [of lib ms host] by (auto simp: rejectedIds_def)
  then obtain m where "m \<in> set ms" "mf_id m = x" by blast
  with x show ?thesis by (intro length_filter_less) auto
qed

function isolatedLoop ::
  "resolver_lib \<Rightarrow> host_capabilities \<Rightarrow> manifest list \<Rightarrow> resolution_issue list \<Rightarrow> string list
    \<Rightarrow> isolated_resolution" where
  "isolatedLoop lib host remaining issues disabled =
     (if remaining = [] then isolatedResult lib [] disabled issues
      else
        let resolution = resolvePluginSetV1 lib remaining host;
            rejected = rejectedIds resolution
        in if rs_compatible resolution
           then isolatedResult lib (rs_activationOrder resolution) disabled issues
           else if rejected = [] then isolatedResult lib [] disabled issues
           else isolatedLoop lib host (filter (\<lambda>m. mf_id m \<notin> set rejected) remaining)
                  (fold addIssue (rs_issues resolution) issues)
                  (fold set_add (map ri_pluginId (rs_issues resolution)) disabled))"
  by pat_completeness auto
termination
  by (relation "measure (\<lambda>(lib, host, remaining, issues, disabled). length remaining)")
     (simp_all add: rejected_shrinks)

declare isolatedLoop.simps [simp del]

definition resolveIsolatedPluginSetV1 ::
  "resolver_lib \<Rightarrow> manifest list \<Rightarrow> host_capabilities \<Rightarrow> isolated_resolution" where
  "resolveIsolatedPluginSetV1 lib manifests host = isolatedLoop lib host manifests [] []"

definition survivors :: "manifest list \<Rightarrow> string list \<Rightarrow> manifest list" where
  "survivors ms disabled = filter (\<lambda>m. mf_id m \<notin> set disabled) ms"

lemma empty_set_resolution:
  "resolvePluginSetV1 lib [] host = \<lparr>rs_compatible = True, rs_activationOrder = [], rs_issues = []\<rparr>"
  by (simp add: resolvePluginSetV1_def resolvePluginRelationshipsV1_def indexPluginManifests_def
      searchOrder_def dfs_init_def)

text \<open>
  The loop ends with the manifests that no recorded plugin id names, and they are
  compatible.
\<close>

lemma isolatedLoop_result:
  assumes "remaining = survivors ms disabled"
  shows "let r = isolatedLoop lib host remaining issues disabled;
             rest = survivors ms (ir_disabledPluginIds r)
         in rs_compatible (resolvePluginSetV1 lib rest host) \<and>
            ir_activationOrder r = rs_activationOrder (resolvePluginSetV1 lib rest host) \<and>
            set disabled \<subseteq> set (ir_disabledPluginIds r) \<and>
            set (ir_disabledPluginIds r) \<subseteq> set disabled \<union> mf_id ` set remaining"
  using assms
proof (induction lib host remaining issues disabled rule: isolatedLoop.induct)
  case (1 lib host remaining issues disabled)
  let ?r = "resolvePluginSetV1 lib remaining host"
  show ?case
  proof (cases "remaining = [] \<or> rs_compatible ?r")
    case True
    with "1.prems" have "survivors ms (sort disabled) = remaining" by (simp add: survivors_def)
    with True show ?thesis
      by (auto simp: isolatedLoop.simps [of lib host remaining] isolatedResult_def empty_set_resolution Let_def)
  next
    case False
    then have nonempty: "rejectedIds ?r \<noteq> []" by (simp add: rejected_nonempty)
    let ?disabled = "fold set_add (map ri_pluginId (rs_issues ?r)) disabled"
    let ?rest = "filter (\<lambda>m. mf_id m \<notin> set (rejectedIds ?r)) remaining"
    have ids: "ri_pluginId ` set (rs_issues ?r) \<subseteq> mf_id ` set remaining" by (rule set_issue_ids)
    have rest: "?rest = survivors ms ?disabled"
      using "1.prems" by (auto simp: survivors_def rejectedIds_def intro!: filter_cong)
    have loop: "isolatedLoop lib host remaining issues disabled =
        isolatedLoop lib host ?rest (fold addIssue (rs_issues ?r) issues) ?disabled"
      using False nonempty by (simp add: isolatedLoop.simps [of lib host remaining] Let_def)
    have sub: "set disabled \<subseteq> set ?disabled"
      "set ?disabled \<union> mf_id ` set ?rest \<subseteq> set disabled \<union> mf_id ` set remaining"
      using ids by auto
    from "1.IH" [OF _ refl refl _ nonempty rest] False show ?thesis
      unfolding loop Let_def using sub by blast
  qed
qed

lemma isolatedLoop_issue_ids:
  "ri_pluginId ` set issues = set disabled \<Longrightarrow>
     ri_pluginId ` set (ir_issues (isolatedLoop lib host remaining issues disabled)) =
       set (ir_disabledPluginIds (isolatedLoop lib host remaining issues disabled))"
proof (induction lib host remaining issues disabled rule: isolatedLoop.induct)
  case (1 lib host remaining issues disabled)
  let ?r = "resolvePluginSetV1 lib remaining host"
  show ?case
  proof (cases "remaining = [] \<or> rs_compatible ?r")
    case True
    with "1.prems" show ?thesis
      by (auto simp: isolatedLoop.simps [of lib host remaining] isolatedResult_def Let_def)
  next
    case False
    then have nonempty: "rejectedIds ?r \<noteq> []" by (simp add: rejected_nonempty)
    have "ri_pluginId ` set (fold addIssue (rs_issues ?r) issues) =
        set (fold set_add (map ri_pluginId (rs_issues ?r)) disabled)"
      using "1.prems" by (auto simp: set_fold_addIssue)
    with "1.IH" [OF _ refl refl _ nonempty] False show ?thesis
      by (simp add: isolatedLoop.simps [of lib host remaining] Let_def nonempty)
  qed
qed

lemma isolated_result:
  fixes ms :: "manifest list" and lib :: resolver_lib and host :: host_capabilities
  defines "r \<equiv> resolveIsolatedPluginSetV1 lib ms host"
  shows "rs_compatible (resolvePluginSetV1 lib (survivors ms (ir_disabledPluginIds r)) host)"
    and "ir_activationOrder r =
           rs_activationOrder (resolvePluginSetV1 lib (survivors ms (ir_disabledPluginIds r)) host)"
    and "set (ir_disabledPluginIds r) \<subseteq> mf_id ` set ms"
    and "ri_pluginId ` set (ir_issues r) = set (ir_disabledPluginIds r)"
proof -
  have "ms = survivors ms []" by (simp add: survivors_def)
  note res = isolatedLoop_result [OF this, of lib host "[]"]
  from res show "rs_compatible (resolvePluginSetV1 lib (survivors ms (ir_disabledPluginIds r)) host)"
    and "ir_activationOrder r =
           rs_activationOrder (resolvePluginSetV1 lib (survivors ms (ir_disabledPluginIds r)) host)"
    and "set (ir_disabledPluginIds r) \<subseteq> mf_id ` set ms"
    by (simp_all add: r_def resolveIsolatedPluginSetV1_def Let_def)
  show "ri_pluginId ` set (ir_issues r) = set (ir_disabledPluginIds r)"
    unfolding r_def resolveIsolatedPluginSetV1_def by (rule isolatedLoop_issue_ids) simp
qed

end
