(* ===== verification/Lifecycle_Plan.thy ===== *)
theory Lifecycle_Plan
  imports Js_Value
begin

text \<open>
  Deployment lifecycle plans: the plan data of \<open>packages/plugin-installer/src/index.ts\<close>,
  its validator \<open>parsePluginDeploymentLifecyclePlanV1\<close> and the second validator of the
  plan semantics in \<open>execution.ts\<close>. The last section shows that the two agree on the
  phases and that a plan survives being written as JSON and parsed again.
\<close>

section \<open>Data\<close>

datatype operation = OpInstall | OpUpgrade | OpRollback | OpDisable | OpEnable | OpUninstall

datatype phase =
    Stage | Checkpoint | Migrate | Ready | Activate | Drain | Deactivate
  | RetainData | ExportData | DeleteData | Remove | Commit

datatype data_action = Retain | Export | Delete

fun operation_str :: "operation \<Rightarrow> string" where
  "operation_str OpInstall = ''install''"
| "operation_str OpUpgrade = ''upgrade''"
| "operation_str OpRollback = ''rollback''"
| "operation_str OpDisable = ''disable''"
| "operation_str OpEnable = ''enable''"
| "operation_str OpUninstall = ''uninstall''"

fun phase_str :: "phase \<Rightarrow> string" where
  "phase_str Stage = ''stage''"
| "phase_str Checkpoint = ''checkpoint''"
| "phase_str Migrate = ''migrate''"
| "phase_str Ready = ''ready''"
| "phase_str Activate = ''activate''"
| "phase_str Drain = ''drain''"
| "phase_str Deactivate = ''deactivate''"
| "phase_str RetainData = ''retain_data''"
| "phase_str ExportData = ''export_data''"
| "phase_str DeleteData = ''delete_data''"
| "phase_str Remove = ''remove''"
| "phase_str Commit = ''commit''"

fun data_action_str :: "data_action \<Rightarrow> string" where
  "data_action_str Retain = ''retain''"
| "data_action_str Export = ''export''"
| "data_action_str Delete = ''delete''"

definition lifecycleOperations :: "operation list" where
  "lifecycleOperations = [OpInstall, OpUpgrade, OpRollback, OpDisable, OpEnable, OpUninstall]"

definition lifecyclePhases :: "phase list" where
  "lifecyclePhases = [Stage, Checkpoint, Migrate, Ready, Activate, Drain, Deactivate,
     RetainData, ExportData, DeleteData, Remove, Commit]"

definition dataActions :: "data_action list" where
  "dataActions = [Retain, Export, Delete]"

text \<open>Membership of a value in a set of strings, as the member it names.\<close>

fun enum_of :: "('a \<Rightarrow> string) \<Rightarrow> 'a list \<Rightarrow> jsval \<Rightarrow> 'a option" where
  "enum_of str xs (JStr s) = find (\<lambda>x. str x = s) xs"
| "enum_of str xs v = None"

abbreviation operation_of :: "jsval \<Rightarrow> operation option" where
  "operation_of \<equiv> enum_of operation_str lifecycleOperations"

abbreviation phase_of :: "jsval \<Rightarrow> phase option" where
  "phase_of \<equiv> enum_of phase_str lifecyclePhases"

abbreviation data_action_of :: "jsval \<Rightarrow> data_action option" where
  "data_action_of \<equiv> enum_of data_action_str dataActions"

lemma operation_of_str [simp]: "operation_of (JStr (operation_str x)) = Some x"
  by (cases x) (simp_all add: lifecycleOperations_def)

lemma phase_of_str [simp]: "phase_of (JStr (phase_str x)) = Some x"
  by (cases x) (simp_all add: lifecyclePhases_def)

lemma data_action_of_str [simp]: "data_action_of (JStr (data_action_str x)) = Some x"
  by (cases x) (simp_all add: dataActions_def)

lemma enum_of_Some: "enum_of str xs v = Some x \<Longrightarrow> v = JStr (str x)"
  by (cases v) (auto simp: find_Some_iff)

declare enum_of.simps(1) [simp del]

text \<open>
  A plan as TypeScript types it; \<open>pl_extra\<close> holds properties beyond the interface, which
  \<open>structuredClone\<close> keeps and the plan hash covers.
\<close>

record plan =
  pl_operation :: operation
  pl_pluginId :: string
  pl_fromVersion :: "string option"
  pl_toVersion :: "string option"
  pl_fromDataSchema :: int
  pl_toDataSchema :: int
  pl_migrationImage :: "string option"
  pl_rollbackSupported :: bool
  pl_phases :: "phase list"
  pl_dataAction :: "data_action option"
  pl_extra :: "(string \<times> jsval) list"

definition plan_api :: string where
  "plan_api = ''lifecycle-plan.plugin.enterpriseglue.io/v1''"

definition plan_kind :: string where
  "plan_kind = ''EnterpriseGluePluginLifecyclePlan''"

section \<open>The phases of an operation\<close>

text \<open>What the semantic checks read of a plan.\<close>

record plan_view =
  pv_operation :: operation
  pv_migrate :: bool               \<comment> \<open>\<open>migrationImage\<close> is truthy\<close>
  pv_phases :: "phase list"
  pv_dataAction :: "data_action option"
  pv_hasFromVersion :: bool
  pv_hasToVersion :: bool
  pv_fromDataSchema :: int
  pv_toDataSchema :: int

definition view_of_plan :: "plan \<Rightarrow> plan_view" where
  "view_of_plan p =
     \<lparr>pv_operation = pl_operation p, pv_migrate = truthy_str (pl_migrationImage p),
      pv_phases = pl_phases p, pv_dataAction = pl_dataAction p,
      pv_hasFromVersion = (pl_fromVersion p \<noteq> None), pv_hasToVersion = (pl_toVersion p \<noteq> None),
      pv_fromDataSchema = pl_fromDataSchema p, pv_toDataSchema = pl_toDataSchema p\<rparr>"

definition migratePhase :: "bool \<Rightarrow> phase list" where
  "migratePhase migrate = (if migrate then [Migrate] else [])"

fun dataPhase :: "data_action \<Rightarrow> phase" where
  "dataPhase Retain = RetainData"
| "dataPhase Export = ExportData"
| "dataPhase Delete = DeleteData"

definition replaceWithoutRuntime :: "bool \<Rightarrow> phase list" where
  "replaceWithoutRuntime migrate = [Stage, Checkpoint] @ migratePhase migrate @ [Commit]"

definition replaceWithRuntime :: "bool \<Rightarrow> phase list" where
  "replaceWithRuntime migrate =
     [Stage, Drain, Deactivate, Checkpoint] @ migratePhase migrate @ [Activate, Ready, Commit]"

definition removeWithoutRuntime :: "data_action \<Rightarrow> phase list" where
  "removeWithoutRuntime a = [dataPhase a, Remove, Commit]"

definition removeWithRuntime :: "data_action \<Rightarrow> phase list" where
  "removeWithRuntime a = [Drain, Deactivate] @ removeWithoutRuntime a"

text \<open>\<open>index.ts\<close>: the length of the phases decides whether the runtime is involved.\<close>

fun expectedLifecyclePlanPhases :: "plan_view \<Rightarrow> phase list option" where
  "expectedLifecyclePlanPhases v =
     (case pv_operation v of
        OpInstall \<Rightarrow> Some ([Stage] @ migratePhase (pv_migrate v) @ [Commit])
      | OpUpgrade \<Rightarrow>
          Some (if length (pv_phases v) = length (replaceWithRuntime (pv_migrate v))
                then replaceWithRuntime (pv_migrate v) else replaceWithoutRuntime (pv_migrate v))
      | OpRollback \<Rightarrow>
          Some (if length (pv_phases v) = length (replaceWithRuntime (pv_migrate v))
                then replaceWithRuntime (pv_migrate v) else replaceWithoutRuntime (pv_migrate v))
      | OpEnable \<Rightarrow> Some [Activate, Ready, Commit]
      | OpDisable \<Rightarrow> Some [Drain, Deactivate, Commit]
      | OpUninstall \<Rightarrow>
          (case pv_dataAction v of None \<Rightarrow> None
           | Some a \<Rightarrow> Some (if length (pv_phases v) = length (removeWithRuntime a)
                            then removeWithRuntime a else removeWithoutRuntime a)))"

text \<open>\<open>execution.ts\<close>: the phases themselves decide.\<close>

fun expectedPhases :: "plan_view \<Rightarrow> phase list option" where
  "expectedPhases v =
     (case pv_operation v of
        OpInstall \<Rightarrow> Some ([Stage] @ migratePhase (pv_migrate v) @ [Commit])
      | OpUpgrade \<Rightarrow>
          Some (if pv_phases v = replaceWithRuntime (pv_migrate v)
                then replaceWithRuntime (pv_migrate v) else replaceWithoutRuntime (pv_migrate v))
      | OpRollback \<Rightarrow>
          Some (if pv_phases v = replaceWithRuntime (pv_migrate v)
                then replaceWithRuntime (pv_migrate v) else replaceWithoutRuntime (pv_migrate v))
      | OpEnable \<Rightarrow> Some [Activate, Ready, Commit]
      | OpDisable \<Rightarrow> Some [Drain, Deactivate, Commit]
      | OpUninstall \<Rightarrow>
          (case pv_dataAction v of None \<Rightarrow> None
           | Some a \<Rightarrow> Some (if pv_phases v = removeWithRuntime a
                            then removeWithRuntime a else removeWithoutRuntime a)))"

declare expectedLifecyclePlanPhases.simps [simp del] expectedPhases.simps [simp del]

text \<open>\<open>(operation === 'uninstall') !== (dataAction !== undefined)\<close>\<close>

definition dataActionMisplaced :: "plan_view \<Rightarrow> bool" where
  "dataActionMisplaced v \<longleftrightarrow> (pv_operation v = OpUninstall) \<noteq> (pv_dataAction v \<noteq> None)"

fun planSemanticsAreValid :: "plan_view \<Rightarrow> bool" where
  "planSemanticsAreValid v =
     (if expectedPhases v \<noteq> Some (pv_phases v) then False
      else if dataActionMisplaced v then False
      else case pv_operation v of
        OpInstall \<Rightarrow> \<not> pv_hasFromVersion v \<and> pv_hasToVersion v \<and> pv_fromDataSchema v = 0
      | OpUninstall \<Rightarrow> pv_hasFromVersion v \<and> \<not> pv_hasToVersion v \<and> pv_toDataSchema v = 0
      | _ \<Rightarrow> pv_hasFromVersion v \<and> pv_hasToVersion v)"

declare planSemanticsAreValid.simps [simp del]

section \<open>Plans as JavaScript values\<close>

definition plan_keys :: "string list" where
  "plan_keys = [''apiVersion'', ''kind'', ''operation'', ''pluginId'', ''fromVersion'', ''toVersion'',
     ''fromDataSchema'', ''toDataSchema'', ''migrationImage'', ''rollbackSupported'', ''phases'',
     ''dataAction'']"

definition opt_enum :: "('a \<Rightarrow> string) \<Rightarrow> 'a option \<Rightarrow> jsval" where
  "opt_enum str x = opt_str (map_option str x)"

definition plan_props :: "plan \<Rightarrow> (string \<times> jsval) list" where
  "plan_props p =
     [(''apiVersion'', JStr plan_api), (''kind'', JStr plan_kind),
      (''operation'', JStr (operation_str (pl_operation p))),
      (''pluginId'', JStr (pl_pluginId p)),
      (''fromVersion'', opt_str (pl_fromVersion p)), (''toVersion'', opt_str (pl_toVersion p)),
      (''fromDataSchema'', JInt (pl_fromDataSchema p)), (''toDataSchema'', JInt (pl_toDataSchema p)),
      (''migrationImage'', opt_str (pl_migrationImage p)),
      (''rollbackSupported'', JBool (pl_rollbackSupported p)),
      (''phases'', JArr (map (\<lambda>x. JStr (phase_str x)) (pl_phases p))),
      (''dataAction'', opt_enum data_action_str (pl_dataAction p))]"

definition plan_json :: "plan \<Rightarrow> jsval" where
  "plan_json p = JObj (plan_props p @ pl_extra p)"

fun props_of :: "jsval \<Rightarrow> (string \<times> jsval) list" where
  "props_of (JObj kvs) = kvs"
| "props_of v = []"

text \<open>The fields of an object, read at the types of the interface.\<close>

definition phases_of :: "jsval \<Rightarrow> phase list" where
  "phases_of v = (case v of JArr vs \<Rightarrow> map (\<lambda>x. the (phase_of x)) vs | _ \<Rightarrow> [])"

definition plan_of :: "jsval \<Rightarrow> plan" where
  "plan_of v =
     \<lparr>pl_operation = the (operation_of (getp v ''operation'')),
      pl_pluginId = the (as_str (getp v ''pluginId'')),
      pl_fromVersion = as_str (getp v ''fromVersion''),
      pl_toVersion = as_str (getp v ''toVersion''),
      pl_fromDataSchema = the (as_int (getp v ''fromDataSchema'')),
      pl_toDataSchema = the (as_int (getp v ''toDataSchema'')),
      pl_migrationImage = as_str (getp v ''migrationImage''),
      pl_rollbackSupported = the (as_bool (getp v ''rollbackSupported'')),
      pl_phases = phases_of (getp v ''phases''),
      pl_dataAction = data_action_of (getp v ''dataAction''),
      pl_extra = filter (\<lambda>(k, x). k \<notin> set plan_keys) (props_of v)\<rparr>"

text \<open>The view of a value whose optional fields are not checked yet.\<close>

definition view_of_js :: "jsval \<Rightarrow> plan_view" where
  "view_of_js v =
     \<lparr>pv_operation = the (operation_of (getp v ''operation'')),
      pv_migrate = truthy (getp v ''migrationImage''),
      pv_phases = phases_of (getp v ''phases''),
      pv_dataAction = data_action_of (getp v ''dataAction''),
      pv_hasFromVersion = (getp v ''fromVersion'' \<noteq> JUndef),
      pv_hasToVersion = (getp v ''toVersion'' \<noteq> JUndef),
      pv_fromDataSchema = the (as_int (getp v ''fromDataSchema'')),
      pv_toDataSchema = the (as_int (getp v ''toDataSchema''))\<rparr>"

fun nonneg_int :: "jsval \<Rightarrow> bool" where
  "nonneg_int (JInt i) = (0 \<le> i)"
| "nonneg_int v = False"

fun is_str :: "jsval \<Rightarrow> bool" where
  "is_str (JStr s) = True"
| "is_str v = False"

text \<open>\<open>schema.parse(v)\<close> for a schema of strings succeeds.\<close>

fun str_schema :: "(string \<Rightarrow> bool) \<Rightarrow> jsval \<Rightarrow> bool" where
  "str_schema s (JStr x) = s x"
| "str_schema s v = False"

definition phases_ok :: "jsval \<Rightarrow> bool" where
  "phases_ok v = (case v of
      JArr vs \<Rightarrow> vs \<noteq> [] \<and> list_all (\<lambda>x. phase_of x \<noteq> None) vs \<and>
                last vs = JStr (phase_str Commit)
    | _ \<Rightarrow> False)"

text \<open>The structural checks both validators make.\<close>

definition plan_structure_ok :: "jsval \<Rightarrow> bool" where
  "plan_structure_ok v \<longleftrightarrow>
     getp v ''apiVersion'' = JStr plan_api \<and> getp v ''kind'' = JStr plan_kind \<and>
     operation_of (getp v ''operation'') \<noteq> None \<and>
     nonneg_int (getp v ''fromDataSchema'') \<and> nonneg_int (getp v ''toDataSchema'') \<and>
     as_bool (getp v ''rollbackSupported'') \<noteq> None \<and>
     phases_ok (getp v ''phases'') \<and>
     (Migrate \<in> set (phases_of (getp v ''phases''))) = (getp v ''migrationImage'' \<noteq> JUndef) \<and>
     (getp v ''dataAction'' \<noteq> JUndef \<longrightarrow> data_action_of (getp v ''dataAction'') \<noteq> None)"

datatype plan_error =
  PlanNotObject | PlanInvalid | PlanPluginIdRejected | PlanImageRejected | PlanSemanticsInvalid

definition parsePluginDeploymentLifecyclePlanV1 :: "jsval \<Rightarrow> plan_error + plan" where
  "parsePluginDeploymentLifecyclePlanV1 v =
     (if \<not> is_plain_object v then Inl PlanNotObject
      else if \<not> plan_structure_ok v \<or>
              (getp v ''fromVersion'' \<noteq> JUndef \<and> \<not> is_str (getp v ''fromVersion'')) \<or>
              (getp v ''toVersion'' \<noteq> JUndef \<and> \<not> is_str (getp v ''toVersion''))
      then Inl PlanInvalid
      else if \<not> str_schema pluginIdSchema (getp v ''pluginId'') then Inl PlanPluginIdRejected
      else if getp v ''migrationImage'' \<noteq> JUndef \<and>
              \<not> str_schema ociDigestReferenceSchema (getp v ''migrationImage'')
      then Inl PlanImageRejected
      else if expectedLifecyclePlanPhases (view_of_js v) \<noteq> Some (pv_phases (view_of_js v)) \<or>
              dataActionMisplaced (view_of_js v)
      then Inl PlanSemanticsInvalid
      else Inr (plan_of v))"

section \<open>The two validators\<close>

lemma length_runtime [simp]:
  "length (replaceWithRuntime m) = length (replaceWithoutRuntime m) + 4"
  "length (removeWithRuntime a) = length (removeWithoutRuntime a) + 2"
  by (simp_all add: replaceWithRuntime_def replaceWithoutRuntime_def removeWithRuntime_def)

lemma expected_agree:
  "expectedLifecyclePlanPhases v = Some (pv_phases v) \<longleftrightarrow> expectedPhases v = Some (pv_phases v)"
  by (cases "pv_operation v")
     (auto simp: expectedLifecyclePlanPhases.simps expectedPhases.simps split: option.splits)

text \<open>The phases of each operation, in closed form.\<close>

lemma expectedPhases_iff:
  "expectedPhases v = Some (pv_phases v) \<longleftrightarrow>
     (case pv_operation v of
        OpInstall \<Rightarrow> pv_phases v = [Stage] @ migratePhase (pv_migrate v) @ [Commit]
      | OpEnable \<Rightarrow> pv_phases v = [Activate, Ready, Commit]
      | OpDisable \<Rightarrow> pv_phases v = [Drain, Deactivate, Commit]
      | OpUninstall \<Rightarrow> (\<exists>a. pv_dataAction v = Some a \<and>
          (pv_phases v = removeWithRuntime a \<or> pv_phases v = removeWithoutRuntime a))
      | _ \<Rightarrow> pv_phases v = replaceWithRuntime (pv_migrate v) \<or>
             pv_phases v = replaceWithoutRuntime (pv_migrate v))"
  by (cases "pv_operation v") (auto simp: expectedPhases.simps split: option.splits)

lemmas phase_list_defs = replaceWithRuntime_def replaceWithoutRuntime_def removeWithRuntime_def
  removeWithoutRuntime_def migratePhase_def

lemma expected_shape:
  assumes "expectedPhases v = Some (pv_phases v)"
  shows "pv_phases v \<noteq> []" and "last (pv_phases v) = Commit" and "distinct (pv_phases v)"
    and "Migrate \<in> set (pv_phases v) \<longrightarrow> pv_migrate v"
proof -
  have "pv_phases v \<noteq> [] \<and> last (pv_phases v) = Commit \<and> distinct (pv_phases v) \<and>
      (Migrate \<in> set (pv_phases v) \<longrightarrow> pv_migrate v)"
  proof (cases "pv_operation v")
    case OpUninstall
    then obtain a where "pv_phases v = removeWithRuntime a \<or> pv_phases v = removeWithoutRuntime a"
      using assms by (auto simp: expectedPhases_iff)
    then show ?thesis by (cases a) (auto simp: phase_list_defs)
  qed (use assms in \<open>auto simp: expectedPhases_iff phase_list_defs\<close>)
  then show "pv_phases v \<noteq> []" "last (pv_phases v) = Commit" "distinct (pv_phases v)"
    "Migrate \<in> set (pv_phases v) \<longrightarrow> pv_migrate v" by auto
qed

section \<open>Plans survive JSON\<close>

text \<open>What a plan must satisfy to pass both validators.\<close>

definition plan_fields_ok :: "plan \<Rightarrow> bool" where
  "plan_fields_ok p \<longleftrightarrow>
     pluginIdSchema (pl_pluginId p) \<and> 0 \<le> pl_fromDataSchema p \<and> 0 \<le> pl_toDataSchema p \<and>
     (\<forall>i. pl_migrationImage p = Some i \<longrightarrow> ociDigestReferenceSchema i) \<and>
     (Migrate \<in> set (pl_phases p)) = (pl_migrationImage p \<noteq> None) \<and>
     set (map fst (pl_extra p)) \<inter> set plan_keys = {}"

definition versions_ok :: "plan \<Rightarrow> bool" where
  "versions_ok p \<longleftrightarrow> (\<forall>s. pl_fromVersion p = Some s \<longrightarrow> semVerSchema s) \<and>
     (\<forall>s. pl_toVersion p = Some s \<longrightarrow> semVerSchema s)"

definition valid_plan :: "plan \<Rightarrow> bool" where
  "valid_plan p \<longleftrightarrow> plan_fields_ok p \<and> versions_ok p \<and> planSemanticsAreValid (view_of_plan p)"

lemma getp_plan_json [simp]:
  "getp (plan_json p) ''apiVersion'' = JStr plan_api"
  "getp (plan_json p) ''kind'' = JStr plan_kind"
  "getp (plan_json p) ''operation'' = JStr (operation_str (pl_operation p))"
  "getp (plan_json p) ''pluginId'' = JStr (pl_pluginId p)"
  "getp (plan_json p) ''fromVersion'' = opt_str (pl_fromVersion p)"
  "getp (plan_json p) ''toVersion'' = opt_str (pl_toVersion p)"
  "getp (plan_json p) ''fromDataSchema'' = JInt (pl_fromDataSchema p)"
  "getp (plan_json p) ''toDataSchema'' = JInt (pl_toDataSchema p)"
  "getp (plan_json p) ''migrationImage'' = opt_str (pl_migrationImage p)"
  "getp (plan_json p) ''rollbackSupported'' = JBool (pl_rollbackSupported p)"
  "getp (plan_json p) ''phases'' = JArr (map (\<lambda>x. JStr (phase_str x)) (pl_phases p))"
  "getp (plan_json p) ''dataAction'' = opt_enum data_action_str (pl_dataAction p)"
  by (simp_all add: plan_json_def plan_props_def)

lemma is_plain_object_plan_json [simp]: "is_plain_object (plan_json p)"
  by (simp add: plan_json_def)

lemma props_of_plan_json: "props_of (plan_json p) = plan_props p @ pl_extra p"
  by (simp add: plan_json_def)

lemma phases_of_json [simp]: "phases_of (JArr (map (\<lambda>x. JStr (phase_str x)) ps)) = ps"
  by (simp add: phases_of_def comp_def)

lemma data_action_of_opt [simp]: "data_action_of (opt_enum data_action_str a) = a"
  by (cases a) (simp_all add: opt_enum_def)

lemma opt_enum_undef [simp]: "opt_enum str a = JUndef \<longleftrightarrow> a = None"
  by (cases a) (simp_all add: opt_enum_def)

lemma truthy_opt_str [simp]: "truthy (opt_str s) = truthy_str s"
  by (cases s) simp_all

lemma str_schema_opt [simp]: "str_schema P (opt_str s) \<longleftrightarrow> (\<exists>x. s = Some x \<and> P x)"
  by (cases s) simp_all

lemma is_str_opt [simp]: "is_str (opt_str s) \<longleftrightarrow> s \<noteq> None"
  by (cases s) simp_all

lemma view_of_plan_json: "view_of_js (plan_json p) = view_of_plan p"
  by (simp add: view_of_js_def view_of_plan_def)

lemma keys_plan_props: "map fst (plan_props p) = plan_keys"
  by (simp add: plan_props_def plan_keys_def)

lemma plan_of_plan_json:
  assumes "set (map fst (pl_extra p)) \<inter> set plan_keys = {}"
  shows "plan_of (plan_json p) = p"
proof -
  have "fst ` set (plan_props p) = set plan_keys"
    by (metis keys_plan_props set_map)
  then have "\<forall>x \<in> set (plan_props p). fst x \<in> set plan_keys" by blast
  then have "filter (\<lambda>(k, x). k \<notin> set plan_keys) (plan_props p) = []"
    by (simp add: filter_empty_conv split_def)
  moreover have "\<forall>x \<in> set (pl_extra p). fst x \<notin> set plan_keys" using assms by auto
  then have "filter (\<lambda>(k, x). k \<notin> set plan_keys) (pl_extra p) = pl_extra p"
    by (simp add: filter_id_conv split_def)
  ultimately show ?thesis by (simp add: plan_of_def props_of_plan_json del: filter.simps)
qed

lemma plan_structure_json:
  assumes "plan_fields_ok p" and "expectedPhases (view_of_plan p) = Some (pl_phases p)"
  shows "plan_structure_ok (plan_json p)"
proof -
  have "pl_phases p \<noteq> []" "last (pl_phases p) = Commit"
    using expected_shape [of "view_of_plan p"] assms(2) by (simp_all add: view_of_plan_def)
  then have "phases_ok (JArr (map (\<lambda>x. JStr (phase_str x)) (pl_phases p)))"
    by (simp add: phases_ok_def list_all_iff last_map)
  with assms(1) show ?thesis by (simp add: plan_structure_ok_def plan_fields_ok_def)
qed

lemma semantics_parts:
  "planSemanticsAreValid v \<Longrightarrow> expectedPhases v = Some (pv_phases v) \<and> \<not> dataActionMisplaced v"
  by (auto simp: planSemanticsAreValid.simps split: if_splits)

lemma parse_plan_json:
  assumes "plan_fields_ok p" and "expectedPhases (view_of_plan p) = Some (pl_phases p)"
    and "\<not> dataActionMisplaced (view_of_plan p)"
  shows "parsePluginDeploymentLifecyclePlanV1 (plan_json p) = Inr p"
proof -
  have "plan_structure_ok (plan_json p)" using assms by (simp add: plan_structure_json)
  moreover have "expectedLifecyclePlanPhases (view_of_plan p) = Some (pl_phases p)"
    using assms(2) expected_agree [of "view_of_plan p"] by (simp add: view_of_plan_def)
  ultimately show ?thesis
    using assms
    by (auto simp: parsePluginDeploymentLifecyclePlanV1_def view_of_plan_json plan_of_plan_json
        plan_fields_ok_def view_of_plan_def)
qed

lemma valid_plan_parses: "valid_plan p \<Longrightarrow> parsePluginDeploymentLifecyclePlanV1 (plan_json p) = Inr p"
  using parse_plan_json [of p] semantics_parts [of "view_of_plan p"]
  by (simp add: valid_plan_def view_of_plan_def)

end
