(* ===== verification/Resources.thy ===== *)
theory Resources
  imports Manifest
begin

text \<open>
  The resource descriptor a plugin ships beside its manifest
  (\<open>pluginResourceDescriptorV1Schema\<close> of \<open>packages/plugin-sdk/src/distribution.ts\<close>): the
  parsed data and the uniqueness checks of its \<open>superRefine\<close>.
\<close>

record service_resources =
  sv_containerPort :: int
  sv_tmpfsMiB :: int
  sv_cpuLimit :: string
  sv_memoryLimitMiB :: int

datatype configuration_source = DeploymentConfig | DeploymentFile | SecretReference

record configuration_item =
  cf_name :: string
  cf_source :: configuration_source
  cf_reference :: string
  cf_required :: bool

record storage_item =
  st_name :: string
  st_mountPath :: string
  st_readOnly :: bool
  st_sizeMiB :: int

record probes =
  pr_initialDelaySeconds :: int
  pr_periodSeconds :: int
  pr_timeoutSeconds :: int
  pr_failureThreshold :: int

record resource_descriptor =
  res_service :: service_resources
  res_configuration :: "configuration_item list"
  res_storage :: "storage_item list"
  res_egressPolicy :: string
  res_probes :: probes

datatype resource_issue = ConfigurationDuplicate nat | StorageDuplicate nat

fun configurationIssues :: "string list \<Rightarrow> nat \<Rightarrow> configuration_item list \<Rightarrow> resource_issue list" where
  "configurationIssues names index [] = []"
| "configurationIssues names index (c # cs) =
     (if cf_name c \<in> set names then [ConfigurationDuplicate index] else []) @
     configurationIssues (cf_name c # names) (Suc index) cs"

fun storageIssues ::
  "string list \<Rightarrow> string list \<Rightarrow> nat \<Rightarrow> storage_item list \<Rightarrow> resource_issue list" where
  "storageIssues names paths index [] = []"
| "storageIssues names paths index (s # ss) =
     (if st_name s \<in> set names \<or> st_mountPath s \<in> set paths then [StorageDuplicate index] else []) @
     storageIssues (st_name s # names) (st_mountPath s # paths) (Suc index) ss"

definition descriptorIssues :: "resource_descriptor \<Rightarrow> resource_issue list" where
  "descriptorIssues d =
     configurationIssues [] 0 (res_configuration d) @ storageIssues [] [] 0 (res_storage d)"

lemma configurationIssues_Nil:
  "configurationIssues names i cs = [] \<longleftrightarrow>
     distinct (map cf_name cs) \<and> set (map cf_name cs) \<inter> set names = {}"
  by (induction names i cs rule: configurationIssues.induct) auto

lemma storageIssues_Nil:
  "storageIssues names paths i ss = [] \<longleftrightarrow>
     distinct (map st_name ss) \<and> set (map st_name ss) \<inter> set names = {} \<and>
     distinct (map st_mountPath ss) \<and> set (map st_mountPath ss) \<inter> set paths = {}"
  by (induction names paths i ss rule: storageIssues.induct) auto

lemma descriptorIssues_Nil:
  "descriptorIssues d = [] \<longleftrightarrow> distinct (map cf_name (res_configuration d)) \<and>
     distinct (map st_name (res_storage d)) \<and> distinct (map st_mountPath (res_storage d))"
  by (simp add: descriptorIssues_def configurationIssues_Nil storageIssues_Nil)

end
