(* ===== verification/Installer.thy ===== *)
theory Installer
  imports Resolver_Isolated Lifecycle_Plan Resources
begin

text \<open>
  The plugin installer (\<open>packages/plugin-installer/src/index.ts\<close>): verification of a
  release, the planners of each operation and the operations on the desired state. The
  JavaScript functions copy the state first (\<open>structuredClone\<close>), so they are functions of
  the old state.
\<close>

section \<open>Data\<close>

datatype installer_code =
    ManifestDigestInvalid | ManifestIdentityInvalid | ResourceDigestInvalid
  | ResourcePolicyMismatch | PermissionGrantInvalid | BackendRequired
  | PluginAlreadyInstalled | PluginNotInstalled | NoRollbackVersion
  | DependencyMissing | DependencyIncompatible | InstallDependencyCycle | InstallPluginConflict
  | PluginRelationshipInvalid | MigrationSchemaIncompatible | MigrationRollbackUnsupported
  | StorageLayoutIncompatible | UnsafeAssetPath

datatype installer_error =
    InstallerError installer_code "resolution_issue list"
  | SchemaError                       \<comment> \<open>a schema's \<open>parse\<close> throws\<close>

abbreviation fail_with :: "installer_code \<Rightarrow> installer_error" where
  "fail_with c \<equiv> InstallerError c []"

record release =
  rl_version :: string
  rl_bundle :: string
  rl_manifestSha256 :: string
  rl_hostCompatibility :: string
  rl_sdkCompatibility :: string

text \<open>
  The input of a verification. The unknown values \<open>manifest\<close> and \<open>resources\<close> are what the
  structural part of their schemas makes of them: \<open>None\<close> when it rejects them.
\<close>

record install_input =
  vi_release :: release
  vi_manifestBytes :: string
  vi_manifest :: "manifest option"
  vi_resourceBytes :: string
  vi_resources :: "resource_descriptor option"
  vi_grantedPermissions :: "string list"
  vi_stagedAssetPath :: string

record installed =
  in_pluginId :: string
  in_version :: string
  in_bundle :: string
  in_manifestSha256 :: string
  in_manifest :: manifest
  in_resources :: resource_descriptor
  in_grantedPermissions :: "string list"
  in_stagedAssetPath :: string
  in_dataSchemaVersion :: int
  in_enabled :: bool
  in_installedAt :: string

record history_event =
  he_operation :: operation
  he_pluginId :: string
  he_fromVersion :: "string option"
  he_toVersion :: "string option"
  he_dataAction :: "data_action option"
  he_occurredAt :: string

record installer_state =
  is_revision :: int
  is_imageMappings :: "(string \<times> string) list"
  is_plugins :: "(string \<times> installed) list"
  is_previous :: "(string \<times> installed list) list"
  is_history :: "history_event list"
  is_lifecyclePlan :: "plan option"

definition emptyPluginInstallerStateV1 :: installer_state where
  "emptyPluginInstallerStateV1 =
     \<lparr>is_revision = 0, is_imageMappings = [], is_plugins = [], is_previous = [],
      is_history = [], is_lifecyclePlan = None\<rparr>"

section \<open>Image mappings\<close>

text \<open>\<open>s.slice(s.lastIndexOf(p) + 8)\<close>; \<open>lastIndexOf\<close> is \<open>-1\<close> when there is none.\<close>

definition lastIndexOf :: "string \<Rightarrow> string \<Rightarrow> int" where
  "lastIndexOf p s =
     (case find (\<lambda>i. starts_with p (drop i s)) (rev [0..<Suc (length s)]) of
        None \<Rightarrow> -1 | Some i \<Rightarrow> int i)"

definition digestFromReference :: "string \<Rightarrow> string" where
  "digestFromReference reference = drop (nat (lastIndexOf ''@sha256:'' reference + 8)) reference"

datatype mapping_error = MappingReferenceRejected | MappingDigestDiffers

fun collectMappings ::
  "(string \<times> string) list \<Rightarrow> (string \<times> string) list \<Rightarrow> mapping_error + (string \<times> string) list" where
  "collectMappings mappings [] = Inr mappings"
| "collectMappings mappings ((source, target) # rest) =
     (if \<not> ociDigestReferenceSchema source \<or> \<not> ociDigestReferenceSchema target
      then Inl MappingReferenceRejected
      else if digestFromReference source \<noteq> digestFromReference target
      then Inl MappingDigestDiffers
      else collectMappings (put source target mappings) rest)"

definition validatePluginImageMappingsV1 ::
  "resolver_lib \<Rightarrow> (string \<times> string) list \<Rightarrow> mapping_error + (string \<times> string) list" where
  "validatePluginImageMappingsV1 lib input =
     map_sum id (js_sort (\<lambda>l r. localeCompare lib (fst l) (fst r))) (collectMappings [] input)"

definition withPluginImageMappingsV1 ::
  "resolver_lib \<Rightarrow> installer_state \<Rightarrow> (string \<times> string) list \<Rightarrow> mapping_error + installer_state" where
  "withPluginImageMappingsV1 lib s mappings =
     map_sum id (\<lambda>m. s\<lparr>is_imageMappings := m\<rparr>) (validatePluginImageMappingsV1 lib mappings)"

definition mappedImageReference :: "installer_state \<Rightarrow> string \<Rightarrow> string" where
  "mappedImageReference s source = (case map_of (is_imageMappings s) source of None \<Rightarrow> source | Some t \<Rightarrow> t)"

section \<open>Verification of a release\<close>

definition assertPermissionGrants :: "manifest \<Rightarrow> string list \<Rightarrow> installer_error + unit" where
  "assertPermissionGrants m grantedPermissions =
     throw_if (length (set_of_list grantedPermissions) \<noteq> length grantedPermissions \<or>
               list_ex (\<lambda>p. p \<notin> set grantedPermissions) (mf_permissionsRequired m) \<or>
               list_ex (\<lambda>p. p \<notin> set (permissionSet m)) grantedPermissions)
       (fail_with PermissionGrantInvalid)"

definition assertSafeStagedAssetPath :: "string \<Rightarrow> installer_error + unit" where
  "assertSafeStagedAssetPath path =
     throw_if (\<not> starts_with ''./'' path \<or> CHR 0x5C \<in> set path \<or> CHR 0x00 \<in> set path \<or>
               ''..'' \<in> set (split_on CHR ''/'' path))
       (fail_with UnsafeAssetPath)"

definition schemaOfMigration :: "manifest \<Rightarrow> int option" where
  "schemaOfMigration m = map_option md_toSchema (dp_migration (mf_deployment m))"

definition verifyPluginInstallInputV1 :: "host \<Rightarrow> install_input \<Rightarrow> installer_error + installed" where
  "verifyPluginInstallInputV1 h input =
     (if sha256 h (vi_manifestBytes input) \<noteq> rl_manifestSha256 (vi_release input)
      then Inl (fail_with ManifestDigestInvalid)
      else case vi_manifest input of None \<Rightarrow> Inl SchemaError | Some m \<Rightarrow>
        if \<not> manifest_accepted m then Inl SchemaError
        else if mf_version m \<noteq> rl_version (vi_release input) \<or>
                cp_host (mf_compatibility m) \<noteq> rl_hostCompatibility (vi_release input) \<or>
                cp_sdk (mf_compatibility m) \<noteq> rl_sdkCompatibility (vi_release input)
        then Inl (fail_with ManifestIdentityInvalid)
        else (case (dp_backend (mf_deployment m), dp_resources (mf_deployment m)) of
           (Some backend, Some declared) \<Rightarrow>
             if sha256 h (vi_resourceBytes input) \<noteq> rd_sha256 declared
             then Inl (fail_with ResourceDigestInvalid)
             else (case vi_resources input of None \<Rightarrow> Inl SchemaError | Some resources \<Rightarrow>
               if descriptorIssues resources \<noteq> [] then Inl SchemaError
               else if res_egressPolicy resources \<noteq> mf_egressPolicy m
               then Inl (fail_with ResourcePolicyMismatch)
               else bind_res (assertSafeStagedAssetPath (vi_stagedAssetPath input)) (\<lambda>_.
                 bind_res (assertPermissionGrants m (vi_grantedPermissions input)) (\<lambda>_.
                 Inr \<lparr>in_pluginId = mf_id m, in_version = mf_version m,
                      in_bundle = rl_bundle (vi_release input),
                      in_manifestSha256 = rl_manifestSha256 (vi_release input),
                      in_manifest = m, in_resources = resources,
                      in_grantedPermissions = sort (vi_grantedPermissions input),
                      in_stagedAssetPath = vi_stagedAssetPath input,
                      in_dataSchemaVersion = case_option 0 id (schemaOfMigration m),
                      in_enabled = False, in_installedAt = isoOfDate h 0\<rparr>)))
         | _ \<Rightarrow> Inl (fail_with BackendRequired)))"

section \<open>Planners\<close>

abbreviation in_migration :: "installed \<Rightarrow> migration_deployment option" where
  "in_migration r \<equiv> dp_migration (mf_deployment (in_manifest r))"

definition normalizeStorage :: "resolver_lib \<Rightarrow> installed \<Rightarrow> storage_item list" where
  "normalizeStorage lib r =
     js_sort (\<lambda>l r. localeCompare lib (st_name l) (st_name r)) (res_storage (in_resources r))"

definition assertStorageLayoutCompatible ::
  "resolver_lib \<Rightarrow> installed \<Rightarrow> installed \<Rightarrow> installer_error + unit" where
  "assertStorageLayoutCompatible lib source target =
     throw_if (normalizeStorage lib source \<noteq> normalizeStorage lib target)
       (fail_with StorageLayoutIncompatible)"

text \<open>\<open>migration && migration.fromSchema !== schema\<close>\<close>

definition migrationStartsElsewhere :: "migration_deployment option \<Rightarrow> int \<Rightarrow> bool" where
  "migrationStartsElsewhere migration schema =
     (case migration of None \<Rightarrow> False | Some m \<Rightarrow> md_fromSchema m \<noteq> schema)"

definition planPluginInstallV1 :: "installed \<Rightarrow> installer_error + plan" where
  "planPluginInstallV1 r =
     (if migrationStartsElsewhere (in_migration r) 0
      then Inl (fail_with MigrationSchemaIncompatible)
      else Inr
        \<lparr>pl_operation = OpInstall, pl_pluginId = in_pluginId r,
         pl_fromVersion = None, pl_toVersion = Some (in_version r),
         pl_fromDataSchema = 0, pl_toDataSchema = case_option 0 md_toSchema (in_migration r),
         pl_migrationImage = map_option md_image (in_migration r),
         pl_rollbackSupported = True,
         pl_phases = [Stage] @ migratePhase (in_migration r \<noteq> None) @ [Commit],
         pl_dataAction = None, pl_extra = []\<rparr>)"

text \<open>The phases of an upgrade or a rollback of a plugin that is running or not.\<close>

definition replacePhases :: "bool \<Rightarrow> bool \<Rightarrow> phase list" where
  "replacePhases running migrate =
     [Stage] @ (if running then [Drain, Deactivate] else []) @ [Checkpoint] @
     migratePhase migrate @ (if running then [Activate, Ready] else []) @ [Commit]"

definition planPluginUpgradeV1 ::
  "resolver_lib \<Rightarrow> installed \<Rightarrow> installed \<Rightarrow> installer_error + plan" where
  "planPluginUpgradeV1 lib current target =
     bind_res (assertStorageLayoutCompatible lib current target) (\<lambda>_.
     if migrationStartsElsewhere (in_migration target) (in_dataSchemaVersion current)
     then Inl (fail_with MigrationSchemaIncompatible)
     else
       let migration = in_migration target;
           toDataSchema = case_option (in_dataSchemaVersion current) md_toSchema migration
       in Inr
        \<lparr>pl_operation = OpUpgrade, pl_pluginId = in_pluginId target,
         pl_fromVersion = Some (in_version current), pl_toVersion = Some (in_version target),
         pl_fromDataSchema = in_dataSchemaVersion current, pl_toDataSchema = toDataSchema,
         pl_migrationImage = map_option md_image migration,
         pl_rollbackSupported =
           (toDataSchema = in_dataSchemaVersion current \<or>
            (case migration of None \<Rightarrow> False
             | Some m \<Rightarrow> md_rollbackThrough m \<le> in_dataSchemaVersion current)),
         pl_phases = replacePhases (in_enabled current) (migration \<noteq> None),
         pl_dataAction = None, pl_extra = []\<rparr>)"

definition planPluginRollbackV1 ::
  "resolver_lib \<Rightarrow> installed \<Rightarrow> installed \<Rightarrow> installer_error + plan" where
  "planPluginRollbackV1 lib current target =
     bind_res (assertStorageLayoutCompatible lib current target) (\<lambda>_.
     let schemaChanged = (in_dataSchemaVersion current \<noteq> in_dataSchemaVersion target);
         migration = in_migration current
     in if schemaChanged \<and>
           (case migration of None \<Rightarrow> True
            | Some m \<Rightarrow> in_dataSchemaVersion target < md_rollbackThrough m \<or>
                       in_dataSchemaVersion target > in_dataSchemaVersion current)
        then Inl (fail_with MigrationRollbackUnsupported)
        else Inr
          \<lparr>pl_operation = OpRollback, pl_pluginId = in_pluginId current,
           pl_fromVersion = Some (in_version current), pl_toVersion = Some (in_version target),
           pl_fromDataSchema = in_dataSchemaVersion current,
           pl_toDataSchema = in_dataSchemaVersion target,
           pl_migrationImage = (if schemaChanged then map_option md_image migration else None),
           pl_rollbackSupported = True,
           pl_phases = replacePhases (in_enabled current) schemaChanged,
           pl_dataAction = None, pl_extra = []\<rparr>)"

definition planPluginEnablementV1 :: "installed \<Rightarrow> bool \<Rightarrow> plan" where
  "planPluginEnablementV1 r enabled =
     \<lparr>pl_operation = (if enabled then OpEnable else OpDisable), pl_pluginId = in_pluginId r,
      pl_fromVersion = Some (in_version r), pl_toVersion = Some (in_version r),
      pl_fromDataSchema = in_dataSchemaVersion r, pl_toDataSchema = in_dataSchemaVersion r,
      pl_migrationImage = None, pl_rollbackSupported = True,
      pl_phases = (if enabled then [Activate, Ready, Commit] else [Drain, Deactivate, Commit]),
      pl_dataAction = None, pl_extra = []\<rparr>"

definition planPluginUninstallV1 :: "installed \<Rightarrow> data_action \<Rightarrow> plan" where
  "planPluginUninstallV1 r dataAction =
     \<lparr>pl_operation = OpUninstall, pl_pluginId = in_pluginId r,
      pl_fromVersion = Some (in_version r), pl_toVersion = None,
      pl_fromDataSchema = in_dataSchemaVersion r, pl_toDataSchema = 0,
      pl_migrationImage = None, pl_rollbackSupported = (dataAction \<noteq> Delete),
      pl_phases = (if in_enabled r then [Drain, Deactivate] else []) @
        [dataPhase dataAction, Remove, Commit],
      pl_dataAction = Some dataAction, pl_extra = []\<rparr>"

section \<open>Operations on the desired state\<close>

fun relationshipErrorCode :: "issue_code \<Rightarrow> installer_code" where
  "relationshipErrorCode MissingDependency = DependencyMissing"
| "relationshipErrorCode IncompatibleDependency = DependencyIncompatible"
| "relationshipErrorCode DependencyCycle = InstallDependencyCycle"
| "relationshipErrorCode PluginConflict = InstallPluginConflict"
| "relationshipErrorCode c = PluginRelationshipInvalid"

text \<open>The callers pass the resolver's \<open>resolvePluginRelationshipsV1\<close>.\<close>

definition assertPluginRelationships ::
  "(manifest list \<Rightarrow> resolution) \<Rightarrow> installed list \<Rightarrow> installer_error + unit" where
  "assertPluginRelationships resolve records =
     (let resolution = resolve (map in_manifest records)
      in if rs_compatible resolution then Inr ()
         else Inl (InstallerError (relationshipErrorCode (ri_code (hd (rs_issues resolution))))
                     (rs_issues resolution)))"

definition assertDesiredPluginState ::
  "(manifest list \<Rightarrow> resolution) \<Rightarrow> installer_state \<Rightarrow> installer_error + unit" where
  "assertDesiredPluginState resolve s =
     (let records = map snd (is_plugins s)
      in bind_res (assertPluginRelationships resolve records) (\<lambda>_.
         assertPluginRelationships resolve (filter in_enabled records)))"

definition addHistory :: "history_event \<Rightarrow> installer_state \<Rightarrow> installer_state" where
  "addHistory event s = s\<lparr>is_history :=
     (let history = is_history s @ [event]
      in if length history > 1000 then slice_last 1000 history else history)\<rparr>"

definition previousOf :: "installer_state \<Rightarrow> string \<Rightarrow> installed list" where
  "previousOf s pluginId = case_option [] id (map_of (is_previous s) pluginId)"

text \<open>
  The end of every operation: the checked desired state gets the plan, the next revision
  and the history event.
\<close>

definition commitDesired ::
  "resolver_lib \<Rightarrow> plan \<Rightarrow> history_event \<Rightarrow> installer_state \<Rightarrow> installer_error + installer_state" where
  "commitDesired lib plan event s =
     bind_res (assertDesiredPluginState (resolvePluginRelationshipsV1 lib) s) (\<lambda>_.
     Inr (addHistory event (s\<lparr>is_lifecyclePlan := Some plan, is_revision := is_revision s + 1\<rparr>)))"

definition installPluginV1 ::
  "resolver_lib \<Rightarrow> installer_state \<Rightarrow> installed \<Rightarrow> string \<Rightarrow> installer_error + installer_state" where
  "installPluginV1 lib s recordInput occurredAt =
     (if map_of (is_plugins s) (in_pluginId recordInput) \<noteq> None
      then Inl (fail_with PluginAlreadyInstalled)
      else bind_res (planPluginInstallV1 recordInput) (\<lambda>plan.
        let r = recordInput\<lparr>in_dataSchemaVersion := pl_toDataSchema plan,
                            in_installedAt := occurredAt\<rparr>
        in commitDesired lib plan
             \<lparr>he_operation = OpInstall, he_pluginId = in_pluginId r, he_fromVersion = None,
              he_toVersion = Some (in_version r), he_dataAction = None,
              he_occurredAt = occurredAt\<rparr>
             (s\<lparr>is_plugins := put (in_pluginId r) r (is_plugins s),
                is_previous := put (in_pluginId r) [] (is_previous s)\<rparr>)))"

definition upgradePluginV1 ::
  "resolver_lib \<Rightarrow> installer_state \<Rightarrow> installed \<Rightarrow> string \<Rightarrow> installer_error + installer_state" where
  "upgradePluginV1 lib s recordInput occurredAt =
     (case map_of (is_plugins s) (in_pluginId recordInput) of
        None \<Rightarrow> Inl (fail_with PluginNotInstalled)
      | Some current \<Rightarrow>
          bind_res (planPluginUpgradeV1 lib current recordInput) (\<lambda>plan.
          let pluginId = in_pluginId recordInput;
              previous = previousOf s pluginId @ [current];
              replacement = recordInput\<lparr>in_dataSchemaVersion := pl_toDataSchema plan,
                in_enabled := in_enabled current, in_installedAt := occurredAt\<rparr>
          in commitDesired lib plan
               \<lparr>he_operation = OpUpgrade, he_pluginId = pluginId,
                he_fromVersion = Some (in_version current),
                he_toVersion = Some (in_version replacement), he_dataAction = None,
                he_occurredAt = occurredAt\<rparr>
               (s\<lparr>is_plugins := put pluginId replacement (is_plugins s),
                  is_previous := put pluginId (slice_last 3 previous) (is_previous s)\<rparr>)))"

definition rollbackPluginV1 ::
  "resolver_lib \<Rightarrow> installer_state \<Rightarrow> string \<Rightarrow> string \<Rightarrow> installer_error + installer_state" where
  "rollbackPluginV1 lib s pluginId occurredAt =
     (case map_of (is_plugins s) pluginId of
        None \<Rightarrow> Inl (fail_with PluginNotInstalled)
      | Some current \<Rightarrow>
          (let stored = previousOf s pluginId in
           if stored = [] then Inl (fail_with NoRollbackVersion)
           else
             let previous = butlast stored; popped = last stored in
             bind_res (planPluginRollbackV1 lib current popped) (\<lambda>plan.
             let replacement = popped\<lparr>in_enabled := in_enabled current\<rparr>
             in commitDesired lib plan
                  \<lparr>he_operation = OpRollback, he_pluginId = pluginId,
                   he_fromVersion = Some (in_version current),
                   he_toVersion = Some (in_version replacement), he_dataAction = None,
                   he_occurredAt = occurredAt\<rparr>
                  (s\<lparr>is_plugins := put pluginId replacement (is_plugins s),
                     is_previous := put pluginId (slice_last 3 (previous @ [current]))
                       (is_previous s)\<rparr>))))"

definition setPluginEnabledV1 ::
  "resolver_lib \<Rightarrow> installer_state \<Rightarrow> string \<Rightarrow> bool \<Rightarrow> string \<Rightarrow> installer_error + installer_state" where
  "setPluginEnabledV1 lib s pluginId enabled occurredAt =
     (case map_of (is_plugins s) pluginId of
        None \<Rightarrow> Inl (fail_with PluginNotInstalled)
      | Some r \<Rightarrow> commitDesired lib (planPluginEnablementV1 r enabled)
          \<lparr>he_operation = (if enabled then OpEnable else OpDisable), he_pluginId = pluginId,
           he_fromVersion = Some (in_version r), he_toVersion = Some (in_version r),
           he_dataAction = None, he_occurredAt = occurredAt\<rparr>
          (s\<lparr>is_plugins := put pluginId (r\<lparr>in_enabled := enabled\<rparr>) (is_plugins s)\<rparr>))"

definition uninstallPluginV1 ::
  "resolver_lib \<Rightarrow> installer_state \<Rightarrow> string \<Rightarrow> data_action \<Rightarrow> string \<Rightarrow> installer_error + installer_state" where
  "uninstallPluginV1 lib s pluginId dataAction occurredAt =
     (case map_of (is_plugins s) pluginId of
        None \<Rightarrow> Inl (fail_with PluginNotInstalled)
      | Some current \<Rightarrow> commitDesired lib (planPluginUninstallV1 current dataAction)
          \<lparr>he_operation = OpUninstall, he_pluginId = pluginId,
           he_fromVersion = Some (in_version current), he_toVersion = None,
           he_dataAction = Some dataAction, he_occurredAt = occurredAt\<rparr>
          (s\<lparr>is_plugins := del pluginId (is_plugins s),
             is_previous := put pluginId
               (slice_last 3 (previousOf s pluginId @ [current])) (is_previous s)\<rparr>))"

section \<open>The desired state is consistent\<close>

context relationship_resolver
begin

lemma assert_records_iff:
  "assertPluginRelationships resolve records = Inr () \<longleftrightarrow> consistent (map in_manifest records)"
  by (simp add: assertPluginRelationships_def Let_def accepts_iff)

text \<open>A rejection carries the resolver's issues and the code of the first.\<close>

lemma assert_records_error:
  "assertPluginRelationships resolve records = Inl e \<Longrightarrow>
     \<exists>i is. rs_issues (resolve (map in_manifest records)) = i # is \<and>
       e = InstallerError (relationshipErrorCode (ri_code i)) (i # is)"
  using accepts_issues [of "map in_manifest records"]
  by (cases "rs_issues (resolve (map in_manifest records))")
     (auto simp: assertPluginRelationships_def Let_def split: if_splits)

lemma assert_state_iff:
  "assertDesiredPluginState resolve s = Inr u \<longleftrightarrow>
     consistent (map in_manifest (map snd (is_plugins s))) \<and>
     consistent (map in_manifest (filter in_enabled (map snd (is_plugins s))))"
  unfolding assertDesiredPluginState_def Let_def bind_res_Inr
  using assert_records_iff by (metis (full_types) old.unit.exhaust)

end

end
