(* ===== verification/Installer_Invariant.thy ===== *)
theory Installer_Invariant
  imports Installer
begin

text \<open>
  What the installer guarantees: its plans pass both plan validators, the desired state
  stays consistent under every operation (as an invariant of a step relation), and a
  rollback undoes the upgrade before it exactly when the upgrade plan says it can.
\<close>

section \<open>Plans\<close>

definition record_ok :: "installed \<Rightarrow> bool" where
  "record_ok r \<longleftrightarrow>
     pluginIdSchema (in_pluginId r) \<and> semVerSchema (in_version r) \<and>
     mf_id (in_manifest r) = in_pluginId r \<and> mf_version (in_manifest r) = in_version r \<and>
     0 \<le> in_dataSchemaVersion r \<and>
     (\<forall>m. in_migration r = Some m \<longrightarrow> migration_ok m \<and> in_dataSchemaVersion r = md_toSchema m)"

lemma migration_okD:
  "migration_ok m \<Longrightarrow> ociDigestReferenceSchema (md_image m) \<and> md_image m \<noteq> [] \<and>
     0 \<le> md_fromSchema m \<and> 0 < md_toSchema m \<and> md_fromSchema m \<le> md_toSchema m \<and>
     md_rollbackThrough m \<le> md_toSchema m"
  by (auto simp: migration_ok_def migrationIssues_def ociDigestReference_not_Nil split: if_splits)

lemma migrate_in_phases [simp]:
  "Migrate \<in> set (migratePhase b) \<longleftrightarrow> b"
  "Migrate \<in> set (replacePhases running b) \<longleftrightarrow> b"
  by (auto simp: migratePhase_def replacePhases_def)

lemma replacePhases_eq:
  "replacePhases running b = (if running then replaceWithRuntime b else replaceWithoutRuntime b)"
  by (simp add: replacePhases_def replaceWithRuntime_def replaceWithoutRuntime_def)

lemma truthy_image:
  "(\<And>m. g = Some m \<Longrightarrow> migration_ok m) \<Longrightarrow> truthy_str (map_option md_image g) \<longleftrightarrow> g \<noteq> None"
  by (cases g) (auto dest: migration_okD)

text \<open>The semantic check of a typed plan, operation by operation.\<close>

lemma semantics_iff:
  "planSemanticsAreValid (view_of_plan p) \<longleftrightarrow>
     (case pl_operation p of
        OpInstall \<Rightarrow> pl_phases p = [Stage] @ migratePhase (truthy_str (pl_migrationImage p)) @ [Commit] \<and>
          pl_dataAction p = None \<and> pl_fromVersion p = None \<and> pl_toVersion p \<noteq> None \<and>
          pl_fromDataSchema p = 0
      | OpUninstall \<Rightarrow> (\<exists>a. pl_dataAction p = Some a \<and>
            (pl_phases p = removeWithRuntime a \<or> pl_phases p = removeWithoutRuntime a)) \<and>
          pl_fromVersion p \<noteq> None \<and> pl_toVersion p = None \<and> pl_toDataSchema p = 0
      | OpEnable \<Rightarrow> pl_phases p = [Activate, Ready, Commit] \<and>
          pl_dataAction p = None \<and> pl_fromVersion p \<noteq> None \<and> pl_toVersion p \<noteq> None
      | OpDisable \<Rightarrow> pl_phases p = [Drain, Deactivate, Commit] \<and>
          pl_dataAction p = None \<and> pl_fromVersion p \<noteq> None \<and> pl_toVersion p \<noteq> None
      | _ \<Rightarrow> (\<exists>running. pl_phases p = replacePhases running (truthy_str (pl_migrationImage p))) \<and>
          pl_dataAction p = None \<and> pl_fromVersion p \<noteq> None \<and> pl_toVersion p \<noteq> None)"
proof -
  have phases: "pv_phases (view_of_plan p) = pl_phases p" by (simp add: view_of_plan_def)
  have ex: "(\<exists>running. ps = replacePhases running m) \<longleftrightarrow>
      ps = replaceWithRuntime m \<or> ps = replaceWithoutRuntime m" for ps m
    by (metis replacePhases_eq)
  show ?thesis
    unfolding planSemanticsAreValid.simps unfolding expectedPhases_iff unfolding phases ex
    by (cases "pl_operation p") (auto simp: view_of_plan_def dataActionMisplaced_def)
qed

lemma install_plan_valid:
  assumes r: "record_ok r" and p: "planPluginInstallV1 r = Inr p"
  shows "valid_plan p"
proof -
  have "truthy_str (map_option md_image (in_migration r)) \<longleftrightarrow> in_migration r \<noteq> None"
    using r by (intro truthy_image) (simp add: record_ok_def)
  then have "planSemanticsAreValid (view_of_plan p)"
    using p by (auto simp: semantics_iff planPluginInstallV1_def split: if_splits)
  then show ?thesis
    using r p by (cases "in_migration r")
      (auto simp: planPluginInstallV1_def valid_plan_def plan_fields_ok_def versions_ok_def record_ok_def
        dest!: migration_okD split: if_splits)
qed

lemma upgrade_plan_valid:
  assumes cur: "record_ok current" and tgt: "record_ok target"
    and p: "planPluginUpgradeV1 lib current target = Inr p"
  shows "valid_plan p"
proof -
  have "truthy_str (map_option md_image (in_migration target)) \<longleftrightarrow> in_migration target \<noteq> None"
    using tgt by (intro truthy_image) (simp add: record_ok_def)
  then have "planSemanticsAreValid (view_of_plan p)"
    using p by (auto simp: semantics_iff planPluginUpgradeV1_def Let_def split: if_splits)
  then show ?thesis
    using cur tgt p by (cases "in_migration target")
      (auto simp: planPluginUpgradeV1_def Let_def valid_plan_def plan_fields_ok_def versions_ok_def
        record_ok_def dest!: migration_okD split: if_splits)
qed

lemma rollback_plan_valid:
  assumes cur: "record_ok current" and tgt: "record_ok target"
    and p: "planPluginRollbackV1 lib current target = Inr p"
  shows "valid_plan p"
proof -
  have "truthy_str (map_option md_image (in_migration current)) \<longleftrightarrow> in_migration current \<noteq> None"
    using cur by (intro truthy_image) (simp add: record_ok_def)
  then have "planSemanticsAreValid (view_of_plan p)"
    using p by (auto simp: semantics_iff planPluginRollbackV1_def Let_def split: if_splits)
  then show ?thesis
    using cur tgt p by (cases "in_migration current")
      (auto simp: planPluginRollbackV1_def Let_def valid_plan_def plan_fields_ok_def versions_ok_def
        record_ok_def dest!: migration_okD split: if_splits)
qed

lemma enablement_plan_valid: "record_ok r \<Longrightarrow> valid_plan (planPluginEnablementV1 r b)"
  by (simp add: planPluginEnablementV1_def valid_plan_def plan_fields_ok_def versions_ok_def
      semantics_iff record_ok_def)

lemma uninstall_plan_valid: "record_ok r \<Longrightarrow> valid_plan (planPluginUninstallV1 r a)"
  by (cases a) (simp_all add: planPluginUninstallV1_def valid_plan_def plan_fields_ok_def versions_ok_def
      semantics_iff record_ok_def removeWithRuntime_def removeWithoutRuntime_def)

lemmas plans_valid = install_plan_valid upgrade_plan_valid rollback_plan_valid
  enablement_plan_valid uninstall_plan_valid

section \<open>The invariant of the desired state\<close>

definition records_keyed :: "(string \<times> installed) list \<Rightarrow> bool" where
  "records_keyed kvs \<longleftrightarrow> distinct (map fst kvs) \<and>
     (\<forall>k r. (k, r) \<in> set kvs \<longrightarrow> in_pluginId r = k \<and> record_ok r)"

definition previous_keyed :: "(string \<times> installed list) list \<Rightarrow> bool" where
  "previous_keyed kvs \<longleftrightarrow> distinct (map fst kvs) \<and>
     (\<forall>k rs. (k, rs) \<in> set kvs \<longrightarrow> length rs \<le> 3 \<and>
        (\<forall>r \<in> set rs. in_pluginId r = k \<and> record_ok r))"

definition desired_consistent :: "resolver_lib \<Rightarrow> installer_state \<Rightarrow> bool" where
  "desired_consistent lib s \<longleftrightarrow>
     consistent_set lib (map in_manifest (map snd (is_plugins s))) \<and>
     consistent_set lib (map in_manifest (filter in_enabled (map snd (is_plugins s))))"

definition installer_inv :: "resolver_lib \<Rightarrow> installer_state \<Rightarrow> bool" where
  "installer_inv lib s \<longleftrightarrow>
     records_keyed (is_plugins s) \<and> previous_keyed (is_previous s) \<and>
     length (is_history s) \<le> 1000 \<and> 0 \<le> is_revision s \<and>
     (\<forall>p. is_lifecyclePlan s = Some p \<longrightarrow> valid_plan p) \<and> desired_consistent lib s"

lemma records_keyed_put:
  "records_keyed kvs \<Longrightarrow> in_pluginId r = k \<Longrightarrow> record_ok r \<Longrightarrow> records_keyed (put k r kvs)"
  by (auto simp: records_keyed_def dest: in_set_put)

lemma records_keyed_del: "records_keyed kvs \<Longrightarrow> records_keyed (del k kvs)"
  by (auto simp: records_keyed_def dest: in_set_del)

lemma records_keyed_get: "records_keyed kvs \<Longrightarrow> map_of kvs k = Some r \<Longrightarrow> in_pluginId r = k \<and> record_ok r"
  by (auto simp: records_keyed_def dest: map_of_SomeD)

lemma previous_keyed_put:
  assumes "previous_keyed kvs" and "\<forall>r \<in> set rs. in_pluginId r = k \<and> record_ok r" and "length rs \<le> 3"
  shows "previous_keyed (put k rs kvs)"
  using assms by (fastforce simp: previous_keyed_def dest: in_set_put)

lemma previousOf_keyed:
  "previous_keyed (is_previous s) \<Longrightarrow> r \<in> set (previousOf s k) \<Longrightarrow> in_pluginId r = k \<and> record_ok r"
  by (cases "map_of (is_previous s) k") (auto simp: previousOf_def previous_keyed_def dest: map_of_SomeD)

lemma previous_keyed_push:
  assumes "previous_keyed (is_previous s)" and "in_pluginId r = k" and "record_ok r"
    and "set rs \<subseteq> set (previousOf s k)"
  shows "previous_keyed (put k (slice_last 3 (rs @ [r])) (is_previous s))"
proof (rule previous_keyed_put)
  show "\<forall>x \<in> set (slice_last 3 (rs @ [r])). in_pluginId x = k \<and> record_ok x"
    using set_slice_last [of 3 "rs @ [r]"] previousOf_keyed [OF assms(1), of _ k] assms(2-4) by auto
qed (use assms(1) in \<open>simp_all add: length_slice_last\<close>)

lemma addHistory_fields [simp]:
  "is_plugins (addHistory e s) = is_plugins s" "is_previous (addHistory e s) = is_previous s"
  "is_revision (addHistory e s) = is_revision s" "is_lifecyclePlan (addHistory e s) = is_lifecyclePlan s"
  "is_imageMappings (addHistory e s) = is_imageMappings s"
  by (simp_all add: addHistory_def)

lemma addHistory_bound: "length (is_history (addHistory e s)) \<le> 1000"
  by (simp add: addHistory_def Let_def length_slice_last)

lemma addHistory_last: "last (is_history (addHistory e s)) = e"
  by (simp add: addHistory_def Let_def slice_last_def)

lemma commitDesired_iff:
  "commitDesired lib p e s = Inr s' \<longleftrightarrow> desired_consistent lib s \<and>
     s' = addHistory e (s\<lparr>is_lifecyclePlan := Some p, is_revision := is_revision s + 1\<rparr>)"
  by (auto simp: commitDesired_def relationships.assert_state_iff desired_consistent_def)

lemma commitDesired_inv:
  assumes "commitDesired lib p e (s\<lparr>is_plugins := kvs, is_previous := prev\<rparr>) = Inr s'"
    and "installer_inv lib s" and "valid_plan p" and "records_keyed kvs" and "previous_keyed prev"
  shows "installer_inv lib s'"
  using assms by (simp add: commitDesired_iff installer_inv_def desired_consistent_def addHistory_bound)

lemma install_inv:
  assumes inv: "installer_inv lib s" and r: "record_ok r" and run: "installPluginV1 lib s r t = Inr s'"
  shows "installer_inv lib s'"
proof -
  from run obtain p where p: "planPluginInstallV1 r = Inr p"
    by (auto simp: installPluginV1_def split: if_splits)
  let ?r = "r\<lparr>in_dataSchemaVersion := pl_toDataSchema p, in_installedAt := t\<rparr>"
  have "record_ok ?r"
    using r p by (auto simp: record_ok_def planPluginInstallV1_def split: if_splits option.splits)
  then have "records_keyed (put (in_pluginId r) ?r (is_plugins s))"
    and "previous_keyed (put (in_pluginId r) [] (is_previous s))"
    using inv by (simp_all add: installer_inv_def records_keyed_put previous_keyed_put)
  moreover have "valid_plan p" using r p by (rule install_plan_valid)
  ultimately show ?thesis
    using run p by (intro commitDesired_inv [OF _ inv])
      (auto simp: installPluginV1_def Let_def split: if_splits)
qed

lemma current_ok:
  "installer_inv lib s \<Longrightarrow> map_of (is_plugins s) k = Some r \<Longrightarrow> in_pluginId r = k \<and> record_ok r"
  unfolding installer_inv_def by (elim conjE) (rule records_keyed_get)

lemma push_ok:
  assumes "installer_inv lib s" and "map_of (is_plugins s) k = Some r" and "set rs \<subseteq> set (previousOf s k)"
  shows "previous_keyed (put k (slice_last 3 (rs @ [r])) (is_previous s))"
  using assms current_ok [OF assms(1,2)] by (intro previous_keyed_push) (auto simp: installer_inv_def)

lemma upgrade_inv:
  assumes inv: "installer_inv lib s" and r: "record_ok r" and run: "upgradePluginV1 lib s r t = Inr s'"
  shows "installer_inv lib s'"
proof -
  from run obtain cur p where cur: "map_of (is_plugins s) (in_pluginId r) = Some cur"
    and p: "planPluginUpgradeV1 lib cur r = Inr p"
    by (auto simp: upgradePluginV1_def split: option.splits)
  note ok = current_ok [OF inv cur]
  let ?r = "r\<lparr>in_dataSchemaVersion := pl_toDataSchema p, in_enabled := in_enabled cur, in_installedAt := t\<rparr>"
  have "record_ok ?r"
    using r ok p
    by (cases "in_migration r") (auto simp: record_ok_def planPluginUpgradeV1_def Let_def split: if_splits)
  then have "records_keyed (put (in_pluginId r) ?r (is_plugins s))"
    using inv by (simp add: installer_inv_def records_keyed_put)
  moreover have "previous_keyed
      (put (in_pluginId r) (slice_last 3 (previousOf s (in_pluginId r) @ [cur])) (is_previous s))"
    by (rule push_ok [OF inv cur]) simp
  moreover have "valid_plan p" using ok r p by (blast intro: upgrade_plan_valid)
  ultimately show ?thesis
    using run p cur by (intro commitDesired_inv [OF _ inv]) (auto simp: upgradePluginV1_def Let_def)
qed

lemma rollback_inv:
  assumes inv: "installer_inv lib s" and run: "rollbackPluginV1 lib s k t = Inr s'"
  shows "installer_inv lib s'"
proof -
  let ?stored = "previousOf s k"
  from run obtain cur p where cur: "map_of (is_plugins s) k = Some cur"
    and stored: "?stored \<noteq> []" and p: "planPluginRollbackV1 lib cur (last ?stored) = Inr p"
    by (auto simp: rollbackPluginV1_def Let_def split: option.splits if_splits)
  note ok = current_ok [OF inv cur]
  have repl: "in_pluginId (last ?stored) = k \<and> record_ok (last ?stored)"
    using inv previousOf_keyed [of s "last ?stored" k] stored by (simp add: installer_inv_def)
  let ?r = "(last ?stored)\<lparr>in_enabled := in_enabled cur\<rparr>"
  have "record_ok ?r" using repl by (auto simp: record_ok_def)
  then have "records_keyed (put k ?r (is_plugins s))"
    using inv repl by (simp add: installer_inv_def records_keyed_put)
  moreover have "previous_keyed (put k (slice_last 3 (butlast ?stored @ [cur])) (is_previous s))"
    by (rule push_ok [OF inv cur]) (meson in_set_butlastD subsetI)
  moreover have "valid_plan p" using ok repl p by (blast intro: rollback_plan_valid)
  ultimately show ?thesis
    using run p cur stored by (intro commitDesired_inv [OF _ inv]) (auto simp: rollbackPluginV1_def Let_def)
qed

lemma enable_inv:
  assumes inv: "installer_inv lib s" and run: "setPluginEnabledV1 lib s k b t = Inr s'"
  shows "installer_inv lib s'"
proof -
  from run obtain r where r: "map_of (is_plugins s) k = Some r"
    by (auto simp: setPluginEnabledV1_def split: option.splits)
  note ok = current_ok [OF inv r]
  then have "record_ok (r\<lparr>in_enabled := b\<rparr>)" by (auto simp: record_ok_def)
  with inv ok have "records_keyed (put k (r\<lparr>in_enabled := b\<rparr>) (is_plugins s))"
    by (simp add: installer_inv_def records_keyed_put)
  moreover have "previous_keyed (is_previous s)" using inv by (simp add: installer_inv_def)
  moreover have "valid_plan (planPluginEnablementV1 r b)" using ok by (blast intro: enablement_plan_valid)
  ultimately show ?thesis
    using run r by (intro commitDesired_inv [OF _ inv, where prev = "is_previous s"])
      (simp_all add: setPluginEnabledV1_def)
qed

lemma uninstall_inv:
  assumes inv: "installer_inv lib s" and run: "uninstallPluginV1 lib s k a t = Inr s'"
  shows "installer_inv lib s'"
proof -
  from run obtain r where r: "map_of (is_plugins s) k = Some r"
    by (auto simp: uninstallPluginV1_def split: option.splits)
  note ok = current_ok [OF inv r]
  have "records_keyed (del k (is_plugins s))" using inv by (simp add: installer_inv_def records_keyed_del)
  moreover have "previous_keyed (put k (slice_last 3 (previousOf s k @ [r])) (is_previous s))"
    by (rule push_ok [OF inv r]) simp
  moreover have "valid_plan (planPluginUninstallV1 r a)" using ok by (simp add: uninstall_plan_valid)
  ultimately show ?thesis
    using run r by (intro commitDesired_inv [OF _ inv]) (auto simp: uninstallPluginV1_def)
qed

text \<open>The steps of the desired state: every operation that can succeed.\<close>

inductive installer_step :: "resolver_lib \<Rightarrow> installer_state \<Rightarrow> installer_state \<Rightarrow> bool"
  for lib :: resolver_lib where
  step_install: "record_ok r \<Longrightarrow> installPluginV1 lib s r t = Inr s' \<Longrightarrow> installer_step lib s s'"
| step_upgrade: "record_ok r \<Longrightarrow> upgradePluginV1 lib s r t = Inr s' \<Longrightarrow> installer_step lib s s'"
| step_rollback: "rollbackPluginV1 lib s k t = Inr s' \<Longrightarrow> installer_step lib s s'"
| step_enable: "setPluginEnabledV1 lib s k b t = Inr s' \<Longrightarrow> installer_step lib s s'"
| step_uninstall: "uninstallPluginV1 lib s k a t = Inr s' \<Longrightarrow> installer_step lib s s'"
| step_mappings: "withPluginImageMappingsV1 lib s ms = Inr s' \<Longrightarrow> installer_step lib s s'"

lemma mappings_inv:
  "installer_inv lib s \<Longrightarrow> withPluginImageMappingsV1 lib s ms = Inr s' \<Longrightarrow> installer_inv lib s'"
  by (cases "validatePluginImageMappingsV1 lib ms")
     (auto simp: withPluginImageMappingsV1_def installer_inv_def desired_consistent_def)

lemma installer_step_inv: "installer_step lib s s' \<Longrightarrow> installer_inv lib s \<Longrightarrow> installer_inv lib s'"
  by (induction rule: installer_step.induct)
     (blast intro: install_inv upgrade_inv rollback_inv enable_inv uninstall_inv mappings_inv)+

lemma consistent_set_Nil: "consistent_set lib []"
  by (simp add: consistent_set_def depends_def acyclic_def)

lemma installer_init_inv: "installer_inv lib emptyPluginInstallerStateV1"
  by (simp add: installer_inv_def emptyPluginInstallerStateV1_def records_keyed_def
      previous_keyed_def desired_consistent_def consistent_set_Nil)

lemma reachable_inv:
  "(installer_step lib)\<^sup>*\<^sup>* emptyPluginInstallerStateV1 s \<Longrightarrow> installer_inv lib s"
  by (induction rule: rtranclp_induct) (auto intro: installer_init_inv installer_step_inv)

text \<open>Every operation but the image mapping advances the revision by one.\<close>

lemma installer_step_revision:
  "installer_step lib s s' \<Longrightarrow> is_revision s' = is_revision s + 1 \<or>
     s' = s\<lparr>is_imageMappings := is_imageMappings s'\<rparr>"
  by (induction rule: installer_step.induct)
     (auto simp: installPluginV1_def upgradePluginV1_def rollbackPluginV1_def setPluginEnabledV1_def
       uninstallPluginV1_def withPluginImageMappingsV1_def Let_def commitDesired_iff
       map_sum_def split: if_splits option.splits sum.splits)


section \<open>Rollback\<close>

lemma last_slice_last: "0 < n \<Longrightarrow> last (slice_last n (xs @ [x])) = x \<and> slice_last n (xs @ [x]) \<noteq> []"
  by (simp add: slice_last_def)

lemma previousOf_put [simp]:
  "previousOf (addHistory e s) k = previousOf s k"
  "previousOf (s\<lparr>is_lifecyclePlan := p, is_revision := n\<rparr>) k = previousOf s k"
  "previousOf (s\<lparr>is_plugins := kvs, is_previous := put k rs prev\<rparr>) k = rs"
  by (simp_all add: previousOf_def)

lemma storage_compatible_sym:
  "assertStorageLayoutCompatible lib a b = Inr u \<longleftrightarrow> normalizeStorage lib a = normalizeStorage lib b"
  by (simp add: assertStorageLayoutCompatible_def)

lemma normalizeStorage_update [simp]:
  "normalizeStorage lib (r\<lparr>in_dataSchemaVersion := n, in_enabled := b, in_installedAt := t\<rparr>) =
     normalizeStorage lib r"
  by (simp add: normalizeStorage_def)

text \<open>The plan of the upgrade says whether the rollback planner will accept the way back.\<close>

lemma rollback_plan_iff:
  fixes t :: string
  assumes r: "record_ok r" and p: "planPluginUpgradeV1 lib cur r = Inr p"
  defines "new \<equiv> r\<lparr>in_dataSchemaVersion := pl_toDataSchema p, in_enabled := in_enabled cur,
             in_installedAt := t\<rparr>"
  shows "is_ok (planPluginRollbackV1 lib new cur) \<longleftrightarrow> pl_rollbackSupported p"
proof (cases "in_migration r")
  case None
  with p show ?thesis
    by (auto simp: planPluginUpgradeV1_def planPluginRollbackV1_def Let_def new_def is_ok_iff
        storage_compatible_sym split: if_splits)
next
  case (Some m)
  then have "md_fromSchema m \<le> md_toSchema m"
    using r by (auto simp: record_ok_def dest: migration_okD)
  with Some p show ?thesis
    by (auto simp: planPluginUpgradeV1_def planPluginRollbackV1_def Let_def new_def is_ok_iff
        storage_compatible_sym migrationStartsElsewhere_def split: if_splits)
qed

lemma upgrade_result:
  assumes "upgradePluginV1 lib s r t = Inr s1" and "map_of (is_plugins s) (in_pluginId r) = Some cur"
  shows "\<exists>p. planPluginUpgradeV1 lib cur r = Inr p \<and> is_lifecyclePlan s1 = Some p \<and>
     is_plugins s1 = put (in_pluginId r) (r\<lparr>in_dataSchemaVersion := pl_toDataSchema p,
        in_enabled := in_enabled cur, in_installedAt := t\<rparr>) (is_plugins s) \<and>
     previousOf s1 (in_pluginId r) = slice_last 3 (previousOf s (in_pluginId r) @ [cur])"
  using assms by (auto simp: upgradePluginV1_def Let_def commitDesired_iff)

text \<open>The condition under which a rollback succeeds, and the plugins it leaves.\<close>

lemma rollback_result:
  assumes "map_of (is_plugins s) k = Some new" and "previousOf s k \<noteq> []" and "last (previousOf s k) = old"
  shows "(\<exists>s2. rollbackPluginV1 lib s k t = Inr s2) \<longleftrightarrow>
      is_ok (planPluginRollbackV1 lib new old) \<and>
      desired_consistent lib (s\<lparr>is_plugins := put k (old\<lparr>in_enabled := in_enabled new\<rparr>) (is_plugins s)\<rparr>)"
    and "rollbackPluginV1 lib s k t = Inr s2 \<Longrightarrow>
      is_plugins s2 = put k (old\<lparr>in_enabled := in_enabled new\<rparr>) (is_plugins s)"
  using assms
  by (auto simp: rollbackPluginV1_def Let_def commitDesired_iff is_ok_iff desired_consistent_def)

lemma rollback_undoes:
  assumes inv: "installer_inv lib s" and r: "record_ok r"
    and cur: "map_of (is_plugins s) (in_pluginId r) = Some cur"
    and up: "upgradePluginV1 lib s r t = Inr s1" and plan: "is_lifecyclePlan s1 = Some p"
  shows "is_ok (rollbackPluginV1 lib s1 (in_pluginId r) t') \<longleftrightarrow> pl_rollbackSupported p"
    and "rollbackPluginV1 lib s1 (in_pluginId r) t' = Inr s2 \<Longrightarrow> is_plugins s2 = is_plugins s"
proof -
  let ?k = "in_pluginId r"
  let ?new = "r\<lparr>in_dataSchemaVersion := pl_toDataSchema p, in_enabled := in_enabled cur, in_installedAt := t\<rparr>"
  from upgrade_result [OF up cur] plan
  have p: "planPluginUpgradeV1 lib cur r = Inr p" and s1: "is_plugins s1 = put ?k ?new (is_plugins s)"
    and prev: "previousOf s1 ?k = slice_last 3 (previousOf s ?k @ [cur])" by auto
  have new: "map_of (is_plugins s1) ?k = Some ?new" by (simp add: s1)
  have last: "previousOf s1 ?k \<noteq> []" "last (previousOf s1 ?k) = cur"
    using last_slice_last [of 3 "previousOf s ?k" cur] by (simp_all add: prev)
  have restored: "put ?k (cur\<lparr>in_enabled := in_enabled ?new\<rparr>) (is_plugins s1) = is_plugins s"
    using cur by (simp add: s1 put_same)
  note roll = rollback_result [OF new last]
  show "is_ok (rollbackPluginV1 lib s1 ?k t') \<longleftrightarrow> pl_rollbackSupported p"
    using roll(1) [of lib t'] rollback_plan_iff [OF r p, of t] inv restored
    by (simp add: is_ok_iff installer_inv_def desired_consistent_def)
  show "is_plugins s2 = is_plugins s" if "rollbackPluginV1 lib s1 ?k t' = Inr s2"
    using roll(2) [OF that] restored by simp
qed

end
