(* ===== verification/Execution.thy ===== *)
theory Execution
  imports Lifecycle_Plan
begin

text \<open>
  Lifecycle executions (\<open>packages/plugin-installer/src/execution.ts\<close>): the plan envelope
  with its hash, the execution record with its lease, their parsers, and the operations
  create, claim, renew, complete, fail and recover.
\<close>

section \<open>Data\<close>

datatype exec_status = Queued | Running | Succeeded | Failed | ManualIntervention

datatype exec_reason = ReasonNone | PhaseFailed | ReasonLeaseExpired | ReasonPlanMismatch | RollbackUnavailable

fun exec_status_str :: "exec_status \<Rightarrow> string" where
  "exec_status_str Queued = ''queued''"
| "exec_status_str Running = ''running''"
| "exec_status_str Succeeded = ''succeeded''"
| "exec_status_str Failed = ''failed''"
| "exec_status_str ManualIntervention = ''manual_intervention''"

fun exec_reason_str :: "exec_reason \<Rightarrow> string" where
  "exec_reason_str ReasonNone = ''none''"
| "exec_reason_str PhaseFailed = ''phase_failed''"
| "exec_reason_str ReasonLeaseExpired = ''lease_expired''"
| "exec_reason_str ReasonPlanMismatch = ''plan_mismatch''"
| "exec_reason_str RollbackUnavailable = ''rollback_unavailable''"

definition executionStatusValues :: "exec_status list" where
  "executionStatusValues = [Queued, Running, Succeeded, Failed, ManualIntervention]"

definition executionReasonValues :: "exec_reason list" where
  "executionReasonValues =
     [ReasonNone, PhaseFailed, ReasonLeaseExpired, ReasonPlanMismatch, RollbackUnavailable]"

abbreviation status_of :: "jsval \<Rightarrow> exec_status option" where
  "status_of \<equiv> enum_of exec_status_str executionStatusValues"

abbreviation reason_of :: "jsval \<Rightarrow> exec_reason option" where
  "reason_of \<equiv> enum_of exec_reason_str executionReasonValues"

lemma status_of_str [simp]: "status_of (JStr (exec_status_str x)) = Some x"
  by (cases x) (simp_all add: executionStatusValues_def enum_of.simps)

lemma reason_of_str [simp]: "reason_of (JStr (exec_reason_str x)) = Some x"
  by (cases x) (simp_all add: executionReasonValues_def enum_of.simps)

record envelope =
  ev_desiredRevision :: int
  ev_plan :: "plan option"
  ev_planSha256 :: "string option"

record execution =
  ex_executionId :: string
  ex_revision :: int
  ex_desiredRevision :: int
  ex_planSha256 :: string
  ex_pluginId :: string
  ex_operation :: operation
  ex_status :: exec_status
  ex_completedPhases :: "phase list"
  ex_nextPhase :: "phase option"
  ex_leaseOwner :: "string option"
  ex_leaseExpiresAt :: "string option"
  ex_reasonCode :: exec_reason
  ex_createdAt :: string
  ex_updatedAt :: string

datatype exec_code =
    ExecutionTerminal | ExecutionNotClaimed | LeaseHeld | LeaseExpired | LeaseOwnerMismatch
  | PhaseOutOfOrder | PlanMismatch | ExecutionInvalid | ExecutionNotFound | ExecutionActive
  | RevisionConflict | StoreLocked | StoreCorrupt | PlanUnavailable

datatype exec_error =
    ExecError exec_code
  | ExecSchemaError      \<comment> \<open>a zod schema rejects\<close>
  | ExecRangeError       \<comment> \<open>\<open>toISOString\<close> of a time out of range\<close>

fun executionReasonMatchesStatus :: "exec_status \<Rightarrow> exec_reason \<Rightarrow> bool" where
  "executionReasonMatchesStatus Queued reason = (reason = ReasonNone \<or> reason = ReasonLeaseExpired)"
| "executionReasonMatchesStatus Failed reason = (reason = PhaseFailed)"
| "executionReasonMatchesStatus ManualIntervention reason = (reason = RollbackUnavailable)"
| "executionReasonMatchesStatus status reason = (reason = ReasonNone)"

section \<open>The plan envelope\<close>

definition hashPlanValue :: "host \<Rightarrow> jsval \<Rightarrow> string" where
  "hashPlanValue h v = sha256 h (canonicalJson v)"

definition hashPluginLifecyclePlanV1 :: "host \<Rightarrow> plan \<Rightarrow> string" where
  "hashPluginLifecyclePlanV1 h p = hashPlanValue h (plan_json p)"

text \<open>\<open>Number.isInteger(v) && v >= 0\<close>, as the value.\<close>

fun nonneg_of :: "jsval \<Rightarrow> int option" where
  "nonneg_of (JInt i) = (if 0 \<le> i then Some i else None)"
| "nonneg_of v = None"

definition createPluginLifecyclePlanEnvelopeV1 ::
  "host \<Rightarrow> jsval \<Rightarrow> plan option \<Rightarrow> exec_error + envelope" where
  "createPluginLifecyclePlanEnvelopeV1 h desiredRevision plan =
     (case nonneg_of desiredRevision of
        None \<Rightarrow> Inl (ExecError ExecutionInvalid)
      | Some revision \<Rightarrow> Inr \<lparr>ev_desiredRevision = revision, ev_plan = plan,
                       ev_planSha256 = map_option (hashPluginLifecyclePlanV1 h) plan\<rparr>)"

definition parsePluginLifecyclePlanEnvelopeV1 :: "host \<Rightarrow> jsval \<Rightarrow> exec_error + envelope" where
  "parsePluginLifecyclePlanEnvelopeV1 h v =
     (if \<not> is_plain_object v then Inl (ExecError ExecutionInvalid)
      else if getp v ''schemaVersion'' \<noteq> JInt 1 \<or> \<not> nonneg_int (getp v ''desiredRevision'')
      then Inl (ExecError ExecutionInvalid)
      else
        let revision = the (as_int (getp v ''desiredRevision''));
            p = getp v ''plan'';
            planSha256 = getp v ''planSha256''
        in if p = JNull \<and> planSha256 = JNull
           then Inr \<lparr>ev_desiredRevision = revision, ev_plan = None, ev_planSha256 = None\<rparr>
           else if \<not> plan_structure_ok p \<or> \<not> planSemanticsAreValid (view_of_js p) \<or>
                   \<not> is_sha256_hex (to_string (nullish planSha256))
           then Inl (ExecError ExecutionInvalid)
           else if \<not> str_schema pluginIdSchema (getp p ''pluginId'') \<or>
                   (getp p ''fromVersion'' \<noteq> JUndef \<and> \<not> str_schema semVerSchema (getp p ''fromVersion'')) \<or>
                   (getp p ''toVersion'' \<noteq> JUndef \<and> \<not> str_schema semVerSchema (getp p ''toVersion'')) \<or>
                   (getp p ''migrationImage'' \<noteq> JUndef \<and>
                    \<not> str_schema ociDigestReferenceSchema (getp p ''migrationImage''))
           then Inl ExecSchemaError
           else if planSha256 \<noteq> JStr (hashPlanValue h p) then Inl (ExecError PlanMismatch)
           else Inr \<lparr>ev_desiredRevision = revision, ev_plan = Some (plan_of p),
                     ev_planSha256 = as_str planSha256\<rparr>)"

fun null_or :: "('a \<Rightarrow> jsval) \<Rightarrow> 'a option \<Rightarrow> jsval" where
  "null_or f None = JNull"
| "null_or f (Some x) = f x"

definition envelope_json :: "envelope \<Rightarrow> jsval" where
  "envelope_json env = JObj
     [(''schemaVersion'', JInt 1), (''desiredRevision'', JInt (ev_desiredRevision env)),
      (''plan'', null_or plan_json (ev_plan env)), (''planSha256'', null_or JStr (ev_planSha256 env))]"

section \<open>Checks of the operations\<close>

definition assertExecutionId :: "string \<Rightarrow> exec_error + unit" where
  "assertExecutionId value = throw_if (\<not> opaque_id 8 200 value) (ExecError ExecutionInvalid)"

definition timestamp :: "host \<Rightarrow> string \<Rightarrow> exec_error + int" where
  "timestamp h value =
     (case dateParse h value of None \<Rightarrow> Inl (ExecError ExecutionInvalid) | Some t \<Rightarrow> Inr t)"

definition assertPlanMatches :: "host \<Rightarrow> execution \<Rightarrow> envelope \<Rightarrow> exec_error + plan" where
  "assertPlanMatches h ex env =
     (case ev_plan env of
        None \<Rightarrow> Inl (ExecError PlanMismatch)
      | Some p \<Rightarrow>
          if ev_desiredRevision env \<noteq> ex_desiredRevision ex \<or> pl_pluginId p \<noteq> ex_pluginId ex \<or>
             pl_operation p \<noteq> ex_operation ex \<or> ev_planSha256 env \<noteq> Some (ex_planSha256 ex) \<or>
             hashPluginLifecyclePlanV1 h p \<noteq> ex_planSha256 ex
          then Inl (ExecError PlanMismatch) else Inr p)"

definition assertMutable :: "execution \<Rightarrow> exec_error + unit" where
  "assertMutable ex =
     throw_if (ex_status ex = Succeeded \<or> ex_status ex = ManualIntervention) (ExecError ExecutionTerminal)"

definition assertLease :: "host \<Rightarrow> execution \<Rightarrow> string \<Rightarrow> string \<Rightarrow> exec_error + unit" where
  "assertLease h ex owner occurredAt =
     (if ex_status ex \<noteq> Running \<or> \<not> truthy_str (ex_leaseOwner ex) \<or> \<not> truthy_str (ex_leaseExpiresAt ex)
      then Inl (ExecError ExecutionNotClaimed)
      else if ex_leaseOwner ex \<noteq> Some owner then Inl (ExecError LeaseOwnerMismatch)
      else bind_res (timestamp h (the (ex_leaseExpiresAt ex))) (\<lambda>expires.
           bind_res (timestamp h occurredAt) (\<lambda>now.
           if expires \<le> now then Inl (ExecError LeaseExpired) else Inr ())))"

section \<open>Parsing an execution\<close>

definition exec_api :: string where
  "exec_api = ''lifecycle-execution.plugin.enterpriseglue.io/v1''"

definition exec_kind :: string where
  "exec_kind = ''EnterpriseGluePluginLifecycleExecution''"

definition execution_structure_ok :: "jsval \<Rightarrow> bool" where
  "execution_structure_ok v \<longleftrightarrow>
     getp v ''apiVersion'' = JStr exec_api \<and> getp v ''kind'' = JStr exec_kind \<and>
     nonneg_int (getp v ''desiredRevision'') \<and> nonneg_int (getp v ''revision'') \<and>
     is_sha256_hex (to_string (nullish (getp v ''planSha256''))) \<and>
     operation_of (getp v ''operation'') \<noteq> None \<and>
     status_of (getp v ''status'') \<noteq> None \<and> reason_of (getp v ''reasonCode'') \<noteq> None \<and>
     executionReasonMatchesStatus (the (status_of (getp v ''status''))) (the (reason_of (getp v ''reasonCode''))) \<and>
     (case getp v ''completedPhases'' of JArr vs \<Rightarrow> list_all (\<lambda>x. phase_of x \<noteq> None) vs | _ \<Rightarrow> False) \<and>
     (getp v ''nextPhase'' \<noteq> JUndef \<longrightarrow> phase_of (getp v ''nextPhase'') \<noteq> None)"

text \<open>
  The fields at the types of the interface. A field the code tests after coercion to a
  string is read as that string; one it compares with \<open>===\<close> to a string of the plan is
  the empty string, which equals none of them, when it is not a string.
\<close>

fun coerced :: "jsval \<Rightarrow> string option" where
  "coerced JUndef = None"
| "coerced v = Some (to_string v)"

definition execution_of :: "jsval \<Rightarrow> execution" where
  "execution_of v =
     \<lparr>ex_executionId = to_string (nullish (getp v ''executionId'')),
      ex_revision = the (as_int (getp v ''revision'')),
      ex_desiredRevision = the (as_int (getp v ''desiredRevision'')),
      ex_planSha256 = case_option [] id (as_str (getp v ''planSha256'')),
      ex_pluginId = case_option [] id (as_str (getp v ''pluginId'')),
      ex_operation = the (operation_of (getp v ''operation'')),
      ex_status = the (status_of (getp v ''status'')),
      ex_completedPhases = phases_of (getp v ''completedPhases''),
      ex_nextPhase = phase_of (getp v ''nextPhase''),
      ex_leaseOwner = coerced (getp v ''leaseOwner''),
      ex_leaseExpiresAt = coerced (getp v ''leaseExpiresAt''),
      ex_reasonCode = the (reason_of (getp v ''reasonCode'')),
      ex_createdAt = to_string (nullish (getp v ''createdAt'')),
      ex_updatedAt = to_string (nullish (getp v ''updatedAt''))\<rparr>"

definition nth_opt :: "'a list \<Rightarrow> nat \<Rightarrow> 'a option" where
  "nth_opt xs i = (if i < length xs then Some (xs ! i) else None)"

text \<open>
  The checkpoint test. \<open>some\<close> runs over \<open>expectedCompleted\<close>, the slice of the plan's
  phases, so completed phases past the end of the plan are not looked at.
\<close>

definition checkpointInconsistent :: "plan \<Rightarrow> execution \<Rightarrow> bool \<Rightarrow> bool" where
  "checkpointInconsistent p ex leased \<longleftrightarrow>
     (let n = length (ex_completedPhases ex); expectedCompleted = take n (pl_phases p) in
      take (length expectedCompleted) (ex_completedPhases ex) \<noteq> expectedCompleted \<or>
      ex_nextPhase ex \<noteq> nth_opt (pl_phases p) n \<or>
      (ex_status ex = Succeeded \<and> n \<noteq> length (pl_phases p)) \<or>
      (ex_status ex \<noteq> Succeeded \<and> n = length (pl_phases p)) \<or>
      (ex_status ex = Running) \<noteq> leased \<or>
      (ex_status ex \<noteq> Running \<and> (ex_leaseOwner ex \<noteq> None \<or> ex_leaseExpiresAt ex \<noteq> None)))"

definition parseExecutionIn :: "host \<Rightarrow> jsval \<Rightarrow> envelope \<Rightarrow> exec_error + execution" where
  "parseExecutionIn h v env =
     (if \<not> is_plain_object v \<or> \<not> execution_structure_ok v then Inl (ExecError ExecutionInvalid)
      else
        let ex = execution_of v;
            leased = (truthy (getp v ''leaseOwner'') \<and> truthy (getp v ''leaseExpiresAt''))
        in bind_res (assertExecutionId (ex_executionId ex)) (\<lambda>_.
           bind_res (timestamp h (ex_createdAt ex)) (\<lambda>created.
           bind_res (timestamp h (ex_updatedAt ex)) (\<lambda>updated.
           if updated < created then Inl (ExecError ExecutionInvalid)
           else bind_res (assertPlanMatches h ex env) (\<lambda>p.
             if checkpointInconsistent p ex leased then Inl (ExecError ExecutionInvalid)
             else if truthy (getp v ''leaseOwner'')
             then bind_res (assertExecutionId (the (ex_leaseOwner ex))) (\<lambda>_.
                  bind_res (timestamp h (the (ex_leaseExpiresAt ex))) (\<lambda>_. Inr ex))
             else Inr ex)))))"

definition parsePluginLifecycleExecutionV1 :: "host \<Rightarrow> jsval \<Rightarrow> jsval \<Rightarrow> exec_error + execution" where
  "parsePluginLifecycleExecutionV1 h v envelopeInput =
     bind_res (parsePluginLifecyclePlanEnvelopeV1 h envelopeInput) (parseExecutionIn h v)"

definition execution_json :: "execution \<Rightarrow> jsval" where
  "execution_json ex = JObj
     [(''apiVersion'', JStr exec_api), (''kind'', JStr exec_kind),
      (''executionId'', JStr (ex_executionId ex)), (''revision'', JInt (ex_revision ex)),
      (''desiredRevision'', JInt (ex_desiredRevision ex)), (''planSha256'', JStr (ex_planSha256 ex)),
      (''pluginId'', JStr (ex_pluginId ex)), (''operation'', JStr (operation_str (ex_operation ex))),
      (''status'', JStr (exec_status_str (ex_status ex))),
      (''completedPhases'', JArr (map (\<lambda>x. JStr (phase_str x)) (ex_completedPhases ex))),
      (''nextPhase'', opt_enum phase_str (ex_nextPhase ex)),
      (''leaseOwner'', opt_str (ex_leaseOwner ex)), (''leaseExpiresAt'', opt_str (ex_leaseExpiresAt ex)),
      (''reasonCode'', JStr (exec_reason_str (ex_reasonCode ex))),
      (''createdAt'', JStr (ex_createdAt ex)), (''updatedAt'', JStr (ex_updatedAt ex))]"

section \<open>Operations\<close>

definition createPluginLifecycleExecutionV1 ::
  "host \<Rightarrow> envelope \<Rightarrow> string \<Rightarrow> string \<Rightarrow> exec_error + execution" where
  "createPluginLifecycleExecutionV1 h env executionId occurredAt =
     (case ev_plan env of
        None \<Rightarrow> Inl (ExecError PlanMismatch)
      | Some p \<Rightarrow>
          if ev_planSha256 env \<noteq> Some (hashPluginLifecyclePlanV1 h p) then Inl (ExecError PlanMismatch)
          else bind_res (assertExecutionId executionId) (\<lambda>_.
               bind_res (timestamp h occurredAt) (\<lambda>_.
               Inr \<lparr>ex_executionId = executionId, ex_revision = 0,
                    ex_desiredRevision = ev_desiredRevision env,
                    ex_planSha256 = the (ev_planSha256 env), ex_pluginId = pl_pluginId p,
                    ex_operation = pl_operation p, ex_status = Queued, ex_completedPhases = [],
                    ex_nextPhase = nth_opt (pl_phases p) 0, ex_leaseOwner = None,
                    ex_leaseExpiresAt = None, ex_reasonCode = ReasonNone,
                    ex_createdAt = occurredAt, ex_updatedAt = occurredAt\<rparr>)))"

definition claimPluginLifecycleExecutionV1 ::
  "host \<Rightarrow> execution \<Rightarrow> envelope \<Rightarrow> string \<Rightarrow> string \<Rightarrow> jsval \<Rightarrow> exec_error + execution" where
  "claimPluginLifecycleExecutionV1 h ex env owner occurredAt leaseDurationMs =
     bind_res (assertMutable ex) (\<lambda>_.
     bind_res (assertPlanMatches h ex env) (\<lambda>_.
     bind_res (assertExecutionId owner) (\<lambda>_.
     bind_res (timestamp h occurredAt) (\<lambda>now.
     bind_res (if ex_status ex = Running \<and> truthy_str (ex_leaseExpiresAt ex)
               then bind_res (timestamp h (the (ex_leaseExpiresAt ex))) (\<lambda>expires. Inr (expires > now))
               else Inr False) (\<lambda>leaseLive.
     if leaseLive \<and> ex_leaseOwner ex \<noteq> Some owner then Inl (ExecError LeaseHeld)
     else case as_int leaseDurationMs of
       None \<Rightarrow> Inl (ExecError ExecutionInvalid)
     | Some duration \<Rightarrow>
         if duration < 1000 \<or> duration > 300000 then Inl (ExecError ExecutionInvalid)
         else case toISOString h (now + duration) of
           None \<Rightarrow> Inl ExecRangeError
         | Some expiresAt \<Rightarrow>
             Inr (ex\<lparr>ex_status := Running, ex_revision := ex_revision ex + 1,
                     ex_leaseOwner := Some owner, ex_leaseExpiresAt := Some expiresAt,
                     ex_reasonCode := ReasonNone, ex_updatedAt := occurredAt\<rparr>))))))"

definition renewPluginLifecycleExecutionLeaseV1 ::
  "host \<Rightarrow> execution \<Rightarrow> envelope \<Rightarrow> string \<Rightarrow> string \<Rightarrow> jsval \<Rightarrow> exec_error + execution" where
  "renewPluginLifecycleExecutionLeaseV1 h ex env owner occurredAt leaseDurationMs =
     bind_res (assertPlanMatches h ex env) (\<lambda>_.
     bind_res (assertLease h ex owner occurredAt) (\<lambda>_.
     claimPluginLifecycleExecutionV1 h ex env owner occurredAt leaseDurationMs))"

definition completePluginLifecyclePhaseV1 ::
  "host \<Rightarrow> execution \<Rightarrow> envelope \<Rightarrow> string \<Rightarrow> phase \<Rightarrow> string \<Rightarrow> exec_error + execution" where
  "completePluginLifecyclePhaseV1 h ex env owner phase occurredAt =
     bind_res (assertMutable ex) (\<lambda>_.
     bind_res (assertPlanMatches h ex env) (\<lambda>p.
     bind_res (assertLease h ex owner occurredAt) (\<lambda>_.
     if ex_nextPhase ex \<noteq> Some phase then Inl (ExecError PhaseOutOfOrder)
     else
       let completed = ex_completedPhases ex @ [phase];
           nextPhase = nth_opt (pl_phases p) (length completed);
           ex' = ex\<lparr>ex_completedPhases := completed, ex_revision := ex_revision ex + 1,
                   ex_nextPhase := nextPhase, ex_updatedAt := occurredAt\<rparr>
       in Inr (if nextPhase = None
               then ex'\<lparr>ex_status := Succeeded, ex_reasonCode := ReasonNone,
                       ex_leaseOwner := None, ex_leaseExpiresAt := None\<rparr>
               else ex'))))"

definition failPluginLifecycleExecutionV1 ::
  "host \<Rightarrow> execution \<Rightarrow> envelope \<Rightarrow> string \<Rightarrow> string \<Rightarrow> exec_error + execution" where
  "failPluginLifecycleExecutionV1 h ex env owner occurredAt =
     bind_res (assertMutable ex) (\<lambda>_.
     bind_res (assertPlanMatches h ex env) (\<lambda>p.
     bind_res (assertLease h ex owner occurredAt) (\<lambda>_.
     let irreversibleMigration = (Migrate \<in> set (ex_completedPhases ex) \<and> \<not> pl_rollbackSupported p)
     in Inr (ex\<lparr>ex_status := (if irreversibleMigration then ManualIntervention else Failed),
               ex_revision := ex_revision ex + 1,
               ex_reasonCode := (if irreversibleMigration then RollbackUnavailable else PhaseFailed),
               ex_updatedAt := occurredAt, ex_leaseOwner := None, ex_leaseExpiresAt := None\<rparr>))))"

definition recoverExpiredPluginLifecycleExecutionV1 ::
  "host \<Rightarrow> execution \<Rightarrow> envelope \<Rightarrow> string \<Rightarrow> exec_error + execution" where
  "recoverExpiredPluginLifecycleExecutionV1 h ex env occurredAt =
     bind_res (assertMutable ex) (\<lambda>_.
     bind_res (assertPlanMatches h ex env) (\<lambda>_.
     bind_res (timestamp h occurredAt) (\<lambda>now.
     if ex_status ex \<noteq> Running \<or> \<not> truthy_str (ex_leaseExpiresAt ex) then Inr ex
     else bind_res (timestamp h (the (ex_leaseExpiresAt ex))) (\<lambda>expires.
       if expires > now then Inr ex
       else Inr (ex\<lparr>ex_status := Queued, ex_revision := ex_revision ex + 1,
                   ex_reasonCode := ReasonLeaseExpired, ex_updatedAt := occurredAt,
                   ex_leaseOwner := None, ex_leaseExpiresAt := None\<rparr>)))))"

end
