(* ===== verification/Samples.thy ===== *)
theory Samples
  imports Installer_Invariant Execution
begin

text \<open>
  Concrete values at which the witnesses of the properties evaluate: a host whose clock
  text is a decimal number, a version library in which a range is a version or \<open>*\<close>, and
  small manifests, records and plans.
\<close>

definition sample_host :: host where
  "sample_host = \<lparr>sha256 = (\<lambda>s. replicate 64 (CHR ''0'')),
     dateParse = (\<lambda>s. case read_int s of None \<Rightarrow> None
        | Some t \<Rightarrow> if \<bar>t\<bar> \<le> max_time then Some t else None),
     isoOfDate = show_int\<rparr>"

lemma sample_host_ok: "host_ok sample_host"
proof -
  have "read_int [] = None" by (simp add: read_int_def)
  then show ?thesis
    by (auto simp: host_ok_def sample_host_def is_sha256_hex_def list_all_iff is_lower_hex_def is_digit_def
        split: option.splits if_splits)
qed

definition sample_lib :: resolver_lib where
  "sample_lib = \<lparr>validRange = (\<lambda>r. if r = [] then None else Some r),
     satisfies = (\<lambda>v r. r = ''*'' \<or> v = r),
     localeCompare = (\<lambda>a b. if a = b then 0 else if a < b then -1 else 1)\<rparr>"

definition sample_shared :: shared_runtime where
  "sample_shared = \<lparr>sr_react = ''19'', sr_reactDom = ''19'', sr_router = ''7'',
     sr_carbonReact = ''1'', sr_pluginSdk = ''1.0.0''\<rparr>"

definition sample_capabilities :: host_capabilities where
  "sample_capabilities = \<lparr>hc_hostVersion = ''1.0.0'', hc_sdkVersion = ''1.0.0'',
     hc_supportedSdkVersions = [''1.0.0''], hc_frontendProtocol = 1, hc_backendProtocol = 1,
     hc_sharedFrontend = sample_shared, hc_slots = [], hc_permissions = [], hc_egressPolicies = [],
     hc_trustedPublishers = [''io.acme'']\<rparr>"

definition sample_manifest ::
  "string \<Rightarrow> string \<Rightarrow> migration_deployment option \<Rightarrow> dependency list \<Rightarrow> manifest" where
  "sample_manifest i v migration deps =
     \<lparr>mf_metadata = \<lparr>md_id = i, md_version = v, md_displayName = i, md_publisher = ''io.acme''\<rparr>,
      mf_compatibility = \<lparr>cp_host = ''*'', cp_sdk = ''1.0.0'', cp_frontendProtocol = None,
        cp_backendProtocol = None, cp_requiredSlots = []\<rparr>,
      mf_deployment = \<lparr>dp_frontend = None, dp_backend = None, dp_migration = migration, dp_resources = None\<rparr>,
      mf_enablement = ScopeDeployment, mf_permissionsRequired = [], mf_permissionsOptional = [],
      mf_egressPolicy = ''none'', mf_entitlement = NoEntitlement, mf_dependencies = deps, mf_conflicts = [], mf_subscriptions = [],
      mf_fixedSchedules = [], mf_contributionAvailability = None, mf_contributions = []\<rparr>"

definition needs :: "string \<Rightarrow> string \<Rightarrow> bool \<Rightarrow> dependency" where
  "needs i v optional = \<lparr>dep_id = i, dep_version = v, dep_optional = optional\<rparr>"

definition sample_resources :: resource_descriptor where
  "sample_resources = \<lparr>res_service = \<lparr>sv_containerPort = 8080, sv_tmpfsMiB = 16, sv_cpuLimit = ''1'',
       sv_memoryLimitMiB = 64\<rparr>, res_configuration = [], res_storage = [], res_egressPolicy = ''none'',
     res_probes = \<lparr>pr_initialDelaySeconds = 0, pr_periodSeconds = 1, pr_timeoutSeconds = 1,
       pr_failureThreshold = 1\<rparr>\<rparr>"

definition sample_record ::
  "string \<Rightarrow> string \<Rightarrow> int \<Rightarrow> migration_deployment option \<Rightarrow> installed" where
  "sample_record i v schema migration =
     \<lparr>in_pluginId = i, in_version = v, in_bundle = ''b'', in_manifestSha256 = ''s'',
      in_manifest = sample_manifest i v migration [], in_resources = sample_resources,
      in_grantedPermissions = [], in_stagedAssetPath = ''./a'', in_dataSchemaVersion = schema,
      in_enabled = False, in_installedAt = ''0''\<rparr>"

definition sample_image :: string where
  "sample_image = ''r@sha256:'' @ replicate 64 (CHR ''0'')"

definition sample_migration :: "int \<Rightarrow> int \<Rightarrow> int \<Rightarrow> migration_deployment" where
  "sample_migration a b c = \<lparr>md_image = sample_image, md_fromSchema = a, md_toSchema = b, md_rollbackThrough = c\<rparr>"

definition sample_plan :: plan where
  "sample_plan = planPluginEnablementV1 (sample_record ''io.acme'' ''1.0.0'' 0 None) True"

definition sample_envelope :: envelope where
  "sample_envelope = \<lparr>ev_desiredRevision = 1, ev_plan = Some sample_plan,
     ev_planSha256 = Some (replicate 64 (CHR ''0''))\<rparr>"

definition sample_owner :: string where
  "sample_owner = ''worker-a''"

definition sample_execution :: execution where
  "sample_execution = \<lparr>ex_executionId = ''exec-001'', ex_revision = 0, ex_desiredRevision = 1,
     ex_planSha256 = replicate 64 (CHR ''0''), ex_pluginId = ''io.acme'', ex_operation = OpEnable,
     ex_status = Queued, ex_completedPhases = [], ex_nextPhase = Some Activate, ex_leaseOwner = None,
     ex_leaseExpiresAt = None, ex_reasonCode = ReasonNone, ex_createdAt = ''0'', ex_updatedAt = ''0''\<rparr>"

abbreviation acme :: "int \<Rightarrow> migration_deployment option \<Rightarrow> installed" where
  "acme schema migration \<equiv> sample_record ''io.acme'' ''1.0.0'' schema migration"

lemma acme_ok: "record_ok (acme 0 None)" "record_ok (acme 1 (Some (sample_migration 0 1 0)))"
  by (simp_all add: record_ok_def sample_record_def sample_manifest_def) code_simp+

lemma sample_plan_valid: "valid_plan sample_plan"
  unfolding sample_plan_def using acme_ok(1) by (rule enablement_plan_valid)

end
