(* ===== verification/Resolver_Properties.thy ===== *)
theory Resolver_Properties
  imports Samples
begin

text \<open>The properties of the resolver, with concrete sets of manifests.\<close>

text \<open>C1: \<open>resolvePluginSetV1\<close> accepts a set of manifests exactly when no plugin id occurs
  twice, every dependency is met by the installed version or optional and absent, no
  declared conflict applies, the dependencies have no cycle, and every manifest passes the
  host checks.\<close>

theorem resolver_accepts_exactly_safe_sets:
  "rs_compatible (resolvePluginSetV1 lib ms host) \<longleftrightarrow>
     distinct (map mf_id ms) \<and>
     (\<forall>m \<in> set ms. (\<forall>d \<in> set (mf_dependencies m). dependency_met lib ms d) \<and>
        (\<forall>c \<in> set (mf_conflicts m). conflict_free lib ms c) \<and> hostIssues lib host m = []) \<and>
     acyclic (depends ms)"
  unfolding set_compatible_iff safe_set_def consistent_set_def by blast

definition two_plugins :: "manifest list" where
  "two_plugins = [sample_manifest ''io.acme.app'' ''1.0.0'' None [needs ''io.acme.base'' ''2.0.0'' False],
     sample_manifest ''io.acme.base'' ''2.0.0'' None []]"

lemma two_plugins_accepted: "rs_compatible (resolvePluginSetV1 sample_lib two_plugins sample_capabilities)"
  by code_simp

theorem resolver_accepts_exactly_safe_sets_witness:
  "dependency_met sample_lib two_plugins (needs ''io.acme.base'' ''2.0.0'' False)"
  using two_plugins_accepted
  unfolding resolver_accepts_exactly_safe_sets [of sample_lib two_plugins sample_capabilities]
  by (auto simp: two_plugins_def sample_manifest_def)

text \<open>C2: The activation order of an accepted set lists every plugin once, and every installed
  dependency before the plugin that needs it.\<close>

theorem activation_order_sound:
  assumes "rs_compatible (resolvePluginSetV1 lib ms host)"
  defines "order \<equiv> rs_activationOrder (resolvePluginSetV1 lib ms host)"
  shows "distinct order \<and> set order = mf_id ` set ms \<and>
     (\<forall>m \<in> set ms. \<forall>d \<in> set (mf_dependencies m). dep_id d \<in> mf_id ` set ms \<longrightarrow>
        before order (dep_id d) (mf_id m))"
proof -
  from set_activation_order [OF assms(1)]
  have order: "order = rs_activationOrder (resolvePluginRelationshipsV1 lib ms)"
    and comp: "rs_compatible (resolvePluginRelationshipsV1 lib ms)" by (simp_all add: order_def)
  note rel = relationship_activation_order [OF comp]
  show ?thesis unfolding order using rel by auto
qed

theorem activation_order_sound_witness:
  "before (rs_activationOrder (resolvePluginSetV1 sample_lib two_plugins sample_capabilities))
     ''io.acme.base'' ''io.acme.app''"
  using activation_order_sound [OF two_plugins_accepted]
  by (auto simp: two_plugins_def sample_manifest_def needs_def)

text \<open>C3: A rejected set activates nothing and reports at least one issue, and every issue
  names a plugin of the set.\<close>

theorem rejected_set_reports:
  assumes "\<not> rs_compatible (resolvePluginSetV1 lib ms host)"
  shows "rs_activationOrder (resolvePluginSetV1 lib ms host) = [] \<and>
     rs_issues (resolvePluginSetV1 lib ms host) \<noteq> [] \<and>
     ri_pluginId ` set (rs_issues (resolvePluginSetV1 lib ms host)) \<subseteq> mf_id ` set ms"
  using assms set_issue_ids [of lib ms host] set_compatible_issues [of lib ms host]
  by (auto simp: resolvePluginSetV1_def index_eq Let_def split: if_splits)

theorem rejected_set_reports_witness:
  "rs_issues (resolvePluginSetV1 sample_lib [hd two_plugins] sample_capabilities) \<noteq> []"
proof -
  have "\<not> rs_compatible (resolvePluginSetV1 sample_lib [hd two_plugins] sample_capabilities)" by code_simp
  from rejected_set_reports [OF this] show ?thesis by blast
qed

text \<open>C4: The isolated resolution activates exactly the manifests whose plugin id it does not
  disable, that set is safe on the host, its order respects the dependencies, only given
  plugins are disabled, and the disabled plugins are exactly those an issue names.\<close>

theorem isolated_resolution_safe:
  fixes lib :: resolver_lib and ms :: "manifest list" and host :: host_capabilities
  defines "r \<equiv> resolveIsolatedPluginSetV1 lib ms host"
  defines "rest \<equiv> filter (\<lambda>m. mf_id m \<notin> set (ir_disabledPluginIds r)) ms"
  shows "safe_set lib host rest \<and> ir_activationOrder r = rs_activationOrder (resolvePluginSetV1 lib rest host) \<and>
     set (ir_activationOrder r) = mf_id ` set rest \<and>
     set (ir_disabledPluginIds r) \<subseteq> mf_id ` set ms \<and>
     ri_pluginId ` set (ir_issues r) = set (ir_disabledPluginIds r)"
proof -
  note res = isolated_result [of lib ms host, folded r_def]
  have rest: "rest = survivors ms (ir_disabledPluginIds r)" by (simp add: rest_def survivors_def)
  have comp: "rs_compatible (resolvePluginSetV1 lib rest host)" using res(1) by (simp add: rest)
  from set_activation_order [OF comp]
  have "set (rs_activationOrder (resolvePluginSetV1 lib rest host)) = mf_id ` set rest"
    using relationship_activation_order(2) [of lib rest] by simp
  moreover have "safe_set lib host rest" using comp by (simp add: set_compatible_iff)
  ultimately show ?thesis using res(2-4) by (simp add: rest)
qed

text \<open>
  A plugin with an optional dependency on a version that is not there, while the plugin it
  names is itself rejected for a missing dependency.
\<close>

definition optional_pair :: "manifest list" where
  "optional_pair =
     [sample_manifest ''io.acme.app'' ''1.0.0'' None [needs ''io.acme.base'' ''2.0.0'' True],
      sample_manifest ''io.acme.base'' ''1.0.0'' None [needs ''io.acme.core'' ''1.0.0'' False]]"

text \<open>The isolated resolution is not the largest safe subset: of these two manifests it
  disables both, although the first alone is safe to activate.\<close>

lemma isolated_resolution_not_largest:
  "ir_activationOrder (resolveIsolatedPluginSetV1 sample_lib optional_pair sample_capabilities) = [] \<and>
   safe_set sample_lib sample_capabilities [hd optional_pair]"
proof
  show "ir_activationOrder (resolveIsolatedPluginSetV1 sample_lib optional_pair sample_capabilities) = []"
    by code_simp
  have "rs_compatible (resolvePluginSetV1 sample_lib [hd optional_pair] sample_capabilities)" by code_simp
  then show "safe_set sample_lib sample_capabilities [hd optional_pair]" by (simp add: set_compatible_iff)
qed

end
