(* ===== verification/Execution_Lifecycle.thy ===== *)
theory Execution_Lifecycle
  imports Execution_Invariant
begin

text \<open>
  Well-formed executions and the operations on them: what the parser accepts, what each
  operation preserves, who can hold the lease, and the state machine of an execution.
\<close>

section \<open>Well-formed executions\<close>

definition checkpoint_ok :: "plan \<Rightarrow> execution \<Rightarrow> bool" where
  "checkpoint_ok p ex \<longleftrightarrow>
     (let n = length (ex_completedPhases ex) in
      n \<le> length (pl_phases p) \<and> ex_completedPhases ex = take n (pl_phases p) \<and>
      ex_nextPhase ex = nth_opt (pl_phases p) n \<and>
      (ex_status ex = Succeeded) = (n = length (pl_phases p)))"

definition lease_ok :: "host \<Rightarrow> execution \<Rightarrow> bool" where
  "lease_ok h ex \<longleftrightarrow>
     (if ex_status ex = Running
      then \<exists>owner expires. ex_leaseOwner ex = Some owner \<and> ex_leaseExpiresAt ex = Some expires \<and>
             opaque_id 8 200 owner \<and> dateParse h expires \<noteq> None
      else ex_leaseOwner ex = None \<and> ex_leaseExpiresAt ex = None)"

definition times_ok :: "host \<Rightarrow> execution \<Rightarrow> bool" where
  "times_ok h ex \<longleftrightarrow> (\<exists>c u. dateParse h (ex_createdAt ex) = Some c \<and>
     dateParse h (ex_updatedAt ex) = Some u \<and> c \<le> u)"

definition ids_ok :: "execution \<Rightarrow> bool" where
  "ids_ok ex \<longleftrightarrow> opaque_id 8 200 (ex_executionId ex) \<and> 0 \<le> ex_revision ex \<and>
     0 \<le> ex_desiredRevision ex \<and> is_sha256_hex (ex_planSha256 ex) \<and>
     executionReasonMatchesStatus (ex_status ex) (ex_reasonCode ex)"

definition execution_ok :: "host \<Rightarrow> envelope \<Rightarrow> execution \<Rightarrow> bool" where
  "execution_ok h env ex \<longleftrightarrow> ids_ok ex \<and> times_ok h ex \<and> lease_ok h ex \<and>
     (\<exists>p. assertPlanMatches h ex env = Inr p \<and> checkpoint_ok p ex)"

lemma getp_execution_json [simp]:
  "getp (execution_json ex) ''apiVersion'' = JStr exec_api"
  "getp (execution_json ex) ''kind'' = JStr exec_kind"
  "getp (execution_json ex) ''executionId'' = JStr (ex_executionId ex)"
  "getp (execution_json ex) ''revision'' = JInt (ex_revision ex)"
  "getp (execution_json ex) ''desiredRevision'' = JInt (ex_desiredRevision ex)"
  "getp (execution_json ex) ''planSha256'' = JStr (ex_planSha256 ex)"
  "getp (execution_json ex) ''pluginId'' = JStr (ex_pluginId ex)"
  "getp (execution_json ex) ''operation'' = JStr (operation_str (ex_operation ex))"
  "getp (execution_json ex) ''status'' = JStr (exec_status_str (ex_status ex))"
  "getp (execution_json ex) ''completedPhases'' = JArr (map (\<lambda>x. JStr (phase_str x)) (ex_completedPhases ex))"
  "getp (execution_json ex) ''nextPhase'' = opt_enum phase_str (ex_nextPhase ex)"
  "getp (execution_json ex) ''leaseOwner'' = opt_str (ex_leaseOwner ex)"
  "getp (execution_json ex) ''leaseExpiresAt'' = opt_str (ex_leaseExpiresAt ex)"
  "getp (execution_json ex) ''reasonCode'' = JStr (exec_reason_str (ex_reasonCode ex))"
  "getp (execution_json ex) ''createdAt'' = JStr (ex_createdAt ex)"
  "getp (execution_json ex) ''updatedAt'' = JStr (ex_updatedAt ex)"
  "is_plain_object (execution_json ex)"
  by (simp_all add: execution_json_def)

lemma phase_of_opt [simp]: "phase_of (opt_enum phase_str x) = x"
  by (cases x) (simp_all add: opt_enum_def)

lemma coerced_opt_str [simp]: "coerced (opt_str s) = s"
  by (cases s) simp_all

lemma execution_of_json [simp]: "execution_of (execution_json ex) = ex"
  by (simp add: execution_of_def)

lemma opaque_id_not_Nil: "opaque_id 8 200 s \<Longrightarrow> s \<noteq> []"
  by (auto simp: opaque_id_def)

lemma dateParse_not_Nil: "host_ok h \<Longrightarrow> dateParse h s = Some t \<Longrightarrow> s \<noteq> []"
  by (auto simp: host_ok_def)

lemma assertExecutionId_ok [simp]: "assertExecutionId s = Inr u \<longleftrightarrow> opaque_id 8 200 s"
  by (simp add: assertExecutionId_def)

lemma timestamp_ok [simp]: "timestamp h s = Inr t \<longleftrightarrow> dateParse h s = Some t"
  by (simp add: timestamp_def split: option.splits)

lemma structure_json:
  "execution_structure_ok (execution_json ex) \<longleftrightarrow> 0 \<le> ex_desiredRevision ex \<and> 0 \<le> ex_revision ex \<and>
     is_sha256_hex (ex_planSha256 ex) \<and> executionReasonMatchesStatus (ex_status ex) (ex_reasonCode ex)"
  by (simp add: execution_structure_ok_def list_all_iff comp_def)

text \<open>The checkpoint test accepts more than \<open>checkpoint_ok\<close>: completed phases past the end.\<close>

definition overlong :: "plan \<Rightarrow> execution \<Rightarrow> bool" where
  "overlong p ex \<longleftrightarrow> length (pl_phases p) < length (ex_completedPhases ex) \<and>
     take (length (pl_phases p)) (ex_completedPhases ex) = pl_phases p \<and>
     ex_nextPhase ex = None \<and> ex_status ex \<noteq> Succeeded"

lemma checkpointInconsistent_iff:
  "\<not> checkpointInconsistent p ex leased \<longleftrightarrow>
     (checkpoint_ok p ex \<or> overlong p ex) \<and> (ex_status ex = Running) = leased \<and>
     (ex_status ex \<noteq> Running \<longrightarrow> ex_leaseOwner ex = None \<and> ex_leaseExpiresAt ex = None)"
proof -
  let ?n = "length (ex_completedPhases ex)" and ?m = "length (pl_phases p)"
  consider "?n \<le> ?m" | "?m < ?n" by linarith
  then show ?thesis
  proof cases
    case 1
    then have "take (length (take ?n (pl_phases p))) (ex_completedPhases ex) = ex_completedPhases ex"
      by simp
    with 1 show ?thesis
      by (auto simp: checkpointInconsistent_def checkpoint_ok_def overlong_def Let_def)
  next
    case 2
    then show ?thesis
      by (auto simp: checkpointInconsistent_def checkpoint_ok_def overlong_def Let_def nth_opt_def)
  qed
qed

text \<open>What the parser accepts of a rendered execution.\<close>

lemma parseExecutionIn_json:
  assumes h: "host_ok h"
  shows "parseExecutionIn h (execution_json ex) env = Inr ex' \<longleftrightarrow> ex' = ex \<and>
     ids_ok ex \<and> times_ok h ex \<and> lease_ok h ex \<and>
     (\<exists>p. assertPlanMatches h ex env = Inr p \<and> (checkpoint_ok p ex \<or> overlong p ex))"
proof -
  have lease: "(ex_status ex = Running) = (truthy_str (ex_leaseOwner ex) \<and> truthy_str (ex_leaseExpiresAt ex)) \<and>
      (ex_status ex \<noteq> Running \<longrightarrow> ex_leaseOwner ex = None \<and> ex_leaseExpiresAt ex = None) \<and>
      (truthy_str (ex_leaseOwner ex) \<longrightarrow> opaque_id 8 200 (the (ex_leaseOwner ex)) \<and>
         (\<exists>t. dateParse h (the (ex_leaseExpiresAt ex)) = Some t)) \<longleftrightarrow> lease_ok h ex"
    using dateParse_not_Nil [OF h]
    by (cases "ex_leaseOwner ex"; cases "ex_leaseExpiresAt ex")
       (auto simp: lease_ok_def dest: opaque_id_not_Nil)
  show ?thesis
    unfolding lease [symmetric] parseExecutionIn_def Let_def
    by (auto simp: structure_json checkpointInconsistent_iff ids_ok_def times_ok_def not_less
        split: if_splits)
qed

lemma parse_execution_json:
  assumes "host_ok h" and "execution_ok h env ex"
  shows "parseExecutionIn h (execution_json ex) env = Inr ex"
  using assms by (auto simp: parseExecutionIn_json execution_ok_def)

section \<open>The operations keep executions well formed\<close>

lemma planMatches_update [simp]:
  "assertPlanMatches h (ex\<lparr>ex_status := st, ex_revision := r, ex_reasonCode := rc, ex_updatedAt := t,
     ex_leaseOwner := ow, ex_leaseExpiresAt := e\<rparr>) env = assertPlanMatches h ex env"
  "assertPlanMatches h (ex\<lparr>ex_status := st, ex_revision := r, ex_leaseOwner := ow, ex_leaseExpiresAt := e,
     ex_reasonCode := rc, ex_updatedAt := t\<rparr>) env = assertPlanMatches h ex env"
  "assertPlanMatches h (ex\<lparr>ex_completedPhases := c, ex_revision := r, ex_nextPhase := n, ex_updatedAt := t\<rparr>) env
     = assertPlanMatches h ex env"
  "assertPlanMatches h (ex\<lparr>ex_completedPhases := c, ex_revision := r, ex_nextPhase := n, ex_updatedAt := t,
     ex_status := st, ex_reasonCode := rc, ex_leaseOwner := ow, ex_leaseExpiresAt := e\<rparr>) env
     = assertPlanMatches h ex env"
  by (cases "ev_plan env"; simp add: assertPlanMatches_def)+

text \<open>The clock of the caller is not behind the creation of the execution.\<close>

definition not_before :: "host \<Rightarrow> execution \<Rightarrow> string \<Rightarrow> bool" where
  "not_before h ex occurredAt \<longleftrightarrow> (\<exists>c t. dateParse h (ex_createdAt ex) = Some c \<and>
     dateParse h occurredAt = Some t \<and> c \<le> t)"

text \<open>Nobody else holds a lease that is live at time \<open>t\<close>.\<close>

definition lease_free_for :: "host \<Rightarrow> execution \<Rightarrow> string \<Rightarrow> int \<Rightarrow> bool" where
  "lease_free_for h ex owner t \<longleftrightarrow>
     (ex_status ex = Running \<and> truthy_str (ex_leaseExpiresAt ex) \<longrightarrow>
       (\<exists>e. dateParse h (the (ex_leaseExpiresAt ex)) = Some e \<and> (t < e \<longrightarrow> ex_leaseOwner ex = Some owner)))"

definition claimed :: "host \<Rightarrow> execution \<Rightarrow> string \<Rightarrow> string \<Rightarrow> int \<Rightarrow> execution" where
  "claimed h ex owner now expires =
     ex\<lparr>ex_status := Running, ex_revision := ex_revision ex + 1, ex_leaseOwner := Some owner,
        ex_leaseExpiresAt := Some (isoOfDate h expires), ex_reasonCode := ReasonNone,
        ex_updatedAt := now\<rparr>"

lemma lease_live_res:
  "bind_res (if c then bind_res (timestamp h s) (\<lambda>expires. Inr (expires > t)) else Inr False) f = Inr y \<longleftrightarrow>
     (if c then \<exists>e. dateParse h s = Some e \<and> f (e > t) = Inr y else f False = Inr y)"
  by auto

lemma claim_tail:
  "(case as_int d of None \<Rightarrow> Inl e1
    | Some duration \<Rightarrow> if duration < 1000 \<or> duration > 300000 then Inl e2
        else case toISOString h (t + duration) of None \<Rightarrow> Inl e3 | Some s \<Rightarrow> Inr (g s)) = Inr y \<longleftrightarrow>
     (\<exists>duration. d = JInt duration \<and> 1000 \<le> duration \<and> duration \<le> 300000 \<and>
        \<bar>t + duration\<bar> \<le> max_time \<and> y = g (isoOfDate h (t + duration)))"
  by (cases d) (auto simp: toISOString_def not_less)

lemma claim_result:
  "claimPluginLifecycleExecutionV1 h ex env owner now d = Inr ex' \<longleftrightarrow>
     ex_status ex \<noteq> Succeeded \<and> ex_status ex \<noteq> ManualIntervention \<and>
     (\<exists>p. assertPlanMatches h ex env = Inr p) \<and> opaque_id 8 200 owner \<and>
     (\<exists>t duration. dateParse h now = Some t \<and> d = JInt duration \<and> 1000 \<le> duration \<and> duration \<le> 300000 \<and>
        \<bar>t + duration\<bar> \<le> max_time \<and> lease_free_for h ex owner t \<and>
        ex' = claimed h ex owner now (t + duration))"
proof (cases "ex_status ex = Running \<and> truthy_str (ex_leaseExpiresAt ex)")
  case True
  then show ?thesis
    unfolding claimPluginLifecycleExecutionV1_def lease_live_res
    by (auto simp: assertMutable_def lease_free_for_def claimed_def claim_tail if_distribR
        simp del: option.case_eq_if split: if_splits)
next
  case False
  then show ?thesis
    unfolding claimPluginLifecycleExecutionV1_def lease_live_res
    by (auto simp: assertMutable_def lease_free_for_def claimed_def claim_tail split: if_splits)
qed

lemma assertLease_ok:
  "assertLease h ex owner now = Inr u \<longleftrightarrow>
     ex_status ex = Running \<and> ex_leaseOwner ex = Some owner \<and> owner \<noteq> [] \<and>
     (\<exists>s e t. ex_leaseExpiresAt ex = Some s \<and> s \<noteq> [] \<and> dateParse h s = Some e \<and>
        dateParse h now = Some t \<and> t < e)"
  by (cases "ex_leaseOwner ex"; cases "ex_leaseExpiresAt ex") (auto simp: assertLease_def not_le)

lemma assertLease_running: "assertLease h ex owner now = Inr u \<Longrightarrow> ex_status ex = Running"
  by (simp add: assertLease_ok)

lemma claim_ok:
  assumes "host_ok h" and ok: "execution_ok h env ex" and nb: "not_before h ex now"
    and run: "claimPluginLifecycleExecutionV1 h ex env owner now d = Inr ex'"
  shows "execution_ok h env ex'"
proof -
  from run obtain t duration where "\<bar>t + duration\<bar> \<le> max_time" and "opaque_id 8 200 owner"
    and st: "ex_status ex \<noteq> Succeeded"
    and ex': "ex' = claimed h ex owner now (t + duration)"
    unfolding claim_result by blast
  then have "lease_ok h ex'" using assms(1) by (simp add: lease_ok_def host_ok_def claimed_def)
  moreover have "times_ok h ex'" using nb by (auto simp: ex' claimed_def times_ok_def not_before_def)
  moreover have "ids_ok ex'" using ok by (simp add: ex' claimed_def ids_ok_def execution_ok_def)
  moreover have "checkpoint_ok p ex'" if "checkpoint_ok p ex" for p
    using that st by (simp add: checkpoint_ok_def ex' claimed_def Let_def)
  ultimately show ?thesis using ok by (auto simp: execution_ok_def ex' claimed_def)
qed

lemma renew_result:
  "renewPluginLifecycleExecutionLeaseV1 h ex env owner now d = Inr ex' \<Longrightarrow>
     assertLease h ex owner now = Inr () \<and> claimPluginLifecycleExecutionV1 h ex env owner now d = Inr ex'"
  by (auto simp: renewPluginLifecycleExecutionLeaseV1_def)

definition phase_completed :: "plan \<Rightarrow> execution \<Rightarrow> phase \<Rightarrow> string \<Rightarrow> execution" where
  "phase_completed p ex phase now =
     (let nxt = nth_opt (pl_phases p) (Suc (length (ex_completedPhases ex)));
          ex1 = ex\<lparr>ex_completedPhases := ex_completedPhases ex @ [phase],
            ex_revision := ex_revision ex + 1, ex_nextPhase := nxt, ex_updatedAt := now\<rparr>
      in if nxt = None
         then ex1\<lparr>ex_status := Succeeded, ex_reasonCode := ReasonNone,
                 ex_leaseOwner := None, ex_leaseExpiresAt := None\<rparr> else ex1)"

definition phase_failed :: "plan \<Rightarrow> execution \<Rightarrow> string \<Rightarrow> execution" where
  "phase_failed p ex now =
     (let irreversible = (Migrate \<in> set (ex_completedPhases ex) \<and> \<not> pl_rollbackSupported p) in
      ex\<lparr>ex_status := (if irreversible then ManualIntervention else Failed),
        ex_revision := ex_revision ex + 1,
        ex_reasonCode := (if irreversible then RollbackUnavailable else PhaseFailed),
        ex_updatedAt := now, ex_leaseOwner := None, ex_leaseExpiresAt := None\<rparr>)"

text \<open>The guards of an operation that only the holder of a live lease may do.\<close>

lemma guarded_result:
  "bind_res (assertMutable ex) (\<lambda>_. bind_res (assertPlanMatches h ex env) (\<lambda>p.
     bind_res (assertLease h ex owner now) (\<lambda>_. f p))) = Inr y \<longleftrightarrow>
   assertLease h ex owner now = Inr () \<and> (\<exists>p. assertPlanMatches h ex env = Inr p \<and> f p = Inr y)"
  by (auto simp: assertMutable_def dest: assertLease_running)

lemma complete_result:
  "completePluginLifecyclePhaseV1 h ex env owner phase now = Inr ex' \<longleftrightarrow>
     assertLease h ex owner now = Inr () \<and> ex_nextPhase ex = Some phase \<and>
     (\<exists>p. assertPlanMatches h ex env = Inr p \<and> ex' = phase_completed p ex phase now)"
  unfolding completePluginLifecyclePhaseV1_def guarded_result
  by (cases "ex_nextPhase ex = Some phase") (auto simp: phase_completed_def Let_def)

lemma take_snoc: "n < length xs \<Longrightarrow> take n xs @ [xs ! n] = take (Suc n) xs"
  by (simp add: take_Suc_conv_app_nth)

lemma complete_ok:
  assumes ok: "execution_ok h env ex" and nb: "not_before h ex now"
    and run: "completePluginLifecyclePhaseV1 h ex env owner phase now = Inr ex'"
  shows "execution_ok h env ex'"
proof -
  from ok obtain p where p: "assertPlanMatches h ex env = Inr p" and cp: "checkpoint_ok p ex"
    by (auto simp: execution_ok_def)
  let ?n = "length (ex_completedPhases ex)"
  from run p have st: "ex_status ex = Running" and nxt: "ex_nextPhase ex = Some phase"
    by (auto simp: complete_result dest: assertLease_running)
  have ex': "ex' = phase_completed p ex phase now" using run p by (simp add: complete_result)
  from cp nxt have n: "?n < length (pl_phases p)" and phase: "phase = pl_phases p ! ?n"
    and prefix: "ex_completedPhases ex = take ?n (pl_phases p)"
    by (auto simp: checkpoint_ok_def nth_opt_def Let_def split: if_splits)
  have all: "ex_completedPhases ex @ [phase] = take (Suc ?n) (pl_phases p)"
    using prefix phase take_snoc [OF n] by simp
  have "ids_ok ex'" "times_ok h ex'" "lease_ok h ex'" "assertPlanMatches h ex' env = Inr p"
    using p ok nb st
    by (auto simp: ex' phase_completed_def Let_def ids_ok_def times_ok_def lease_ok_def
        not_before_def execution_ok_def)
  moreover have "checkpoint_ok p ex'"
    using st n all by (auto simp: ex' phase_completed_def Let_def checkpoint_ok_def nth_opt_def)
  ultimately show ?thesis by (auto simp: execution_ok_def)
qed

lemma fail_result:
  "failPluginLifecycleExecutionV1 h ex env owner now = Inr ex' \<longleftrightarrow>
     assertLease h ex owner now = Inr () \<and>
     (\<exists>p. assertPlanMatches h ex env = Inr p \<and> ex' = phase_failed p ex now)"
  unfolding failPluginLifecycleExecutionV1_def guarded_result phase_failed_def Let_def sum.inject
  by blast

lemma fail_ok:
  assumes ok: "execution_ok h env ex" and nb: "not_before h ex now"
    and run: "failPluginLifecycleExecutionV1 h ex env owner now = Inr ex'"
  shows "execution_ok h env ex'"
proof -
  from ok obtain p where p: "assertPlanMatches h ex env = Inr p" and cp: "checkpoint_ok p ex"
    by (auto simp: execution_ok_def)
  let ?irr = "Migrate \<in> set (ex_completedPhases ex) \<and> \<not> pl_rollbackSupported p"
  from run p have e: "ex' = phase_failed p ex now" and lease: "assertLease h ex owner now = Inr ()"
    by (simp_all add: fail_result)
  from lease have st: "ex_status ex = Running" by (rule assertLease_running)
  have ex': "ex' = ex\<lparr>
      ex_status := (if ?irr then ManualIntervention else Failed), ex_revision := ex_revision ex + 1,
      ex_reasonCode := (if ?irr then RollbackUnavailable else PhaseFailed),
      ex_updatedAt := now, ex_leaseOwner := None, ex_leaseExpiresAt := None\<rparr>"
    by (simp only: e phase_failed_def Let_def)
  have "ids_ok ex'" using ok by (simp add: ex' ids_ok_def execution_ok_def)
  moreover have "times_ok h ex'" using nb by (auto simp: ex' times_ok_def not_before_def)
  moreover have "lease_ok h ex'" by (simp add: ex' lease_ok_def)
  moreover have "checkpoint_ok p ex'" using cp st by (simp add: ex' checkpoint_ok_def Let_def)
  moreover have "assertPlanMatches h ex' env = Inr p" using p by (simp add: ex')
  ultimately show ?thesis by (auto simp: execution_ok_def)
qed

lemma recover_result:
  "recoverExpiredPluginLifecycleExecutionV1 h ex env now = Inr ex' \<longleftrightarrow>
     ex_status ex \<noteq> Succeeded \<and> ex_status ex \<noteq> ManualIntervention \<and>
     (\<exists>p. assertPlanMatches h ex env = Inr p) \<and>
     (\<exists>t. dateParse h now = Some t \<and>
        (if ex_status ex \<noteq> Running \<or> \<not> truthy_str (ex_leaseExpiresAt ex) then ex' = ex
         else \<exists>e. dateParse h (the (ex_leaseExpiresAt ex)) = Some e \<and>
           ex' = (if t < e then ex
             else ex\<lparr>ex_status := Queued, ex_revision := ex_revision ex + 1, ex_reasonCode := ReasonLeaseExpired,
                    ex_updatedAt := now, ex_leaseOwner := None, ex_leaseExpiresAt := None\<rparr>)))"
  by (auto simp: recoverExpiredPluginLifecycleExecutionV1_def assertMutable_def)

lemma recover_ok:
  assumes ok: "execution_ok h env ex" and nb: "not_before h ex now"
    and run: "recoverExpiredPluginLifecycleExecutionV1 h ex env now = Inr ex'"
  shows "execution_ok h env ex'"
  using assms
  by (auto simp: recover_result execution_ok_def ids_ok_def times_ok_def lease_ok_def not_before_def
      checkpoint_ok_def split: if_splits)

lemma create_ok:
  assumes "host_ok h" and env: "envelope_ok h env"
    and run: "createPluginLifecycleExecutionV1 h env executionId now = Inr ex"
  shows "execution_ok h env ex"
proof -
  from run obtain p where p: "ev_plan env = Some p" by (auto simp: createPluginLifecycleExecutionV1_def split: option.splits)
  then have valid: "valid_plan p" using env by (simp add: envelope_ok_def)
  then have "pl_phases p \<noteq> []"
    using expected_shape(1) [of "view_of_plan p"] semantics_parts [of "view_of_plan p"]
    by (simp add: valid_plan_def view_of_plan_def)
  with run p env hash_hex [OF assms(1), of p] show ?thesis
    by (auto simp: createPluginLifecycleExecutionV1_def execution_ok_def ids_ok_def times_ok_def lease_ok_def
        checkpoint_ok_def envelope_ok_def assertPlanMatches_def split: if_splits)
qed

end
