(* ===== verification/Installer_Properties.thy ===== *)
theory Installer_Properties
  imports Installer_Invariant Execution_Lifecycle Samples
begin

text \<open>The properties of manifests and of the installer.\<close>

text \<open>C6: An accepted manifest is closed: its contributions are named under the plugin id without
  repetition and refer to declared routes, its backend operations are named under the plugin
  id and use declared permissions only, every subscription and job is delivered by a
  declared POST operation that holds its permission, a path parameter of an operation is the
  one its resource binding names and no path leaves its directory, and no plugin is both a
  dependency and a conflict, or the plugin itself.\<close>

theorem accepted_manifest_closed:
  assumes "manifest_accepted m"
  shows "(\<forall>c \<in> set (mf_contributions m). starts_with (mf_id m @ ''.'') (contribution_id c) \<and>
       (\<forall>r. contribution_route c = Some r \<longrightarrow>
          (\<exists>d \<in> set (mf_contributions m). is_route d \<and> contribution_id d = r))) \<and>
     distinct (map contribution_id (mf_contributions m)) \<and>
     (\<forall>op \<in> set (backendOperations m). starts_with (mf_id m @ ''.'') (op_operationId op) \<and>
       set (op_requiredPermissions op) \<subseteq> set (permissionSet m) \<and>
       (\<forall>segment \<in> set (split_on CHR ''/'' (op_path op)). segment \<noteq> ''..'' \<and>
          (CHR '':'' \<in> set segment \<longrightarrow> (\<exists>b. op_resourceBinding op = Some b \<and> rb_source b = BsPath \<and>
             segment = CHR '':'' # rb_field b \<and> path_parameters (op_path op) = [rb_field b])))) \<and>
     distinct (map op_operationId (backendOperations m)) \<and>
     (\<forall>(i, p) \<in> set (map (\<lambda>s. (es_deliveryOperationId s, es_permission s)) (mf_subscriptions m) @
                  map (\<lambda>s. (fs_deliveryOperationId s, fs_permission s)) (mf_fixedSchedules m)).
        \<exists>op \<in> set (backendOperations m). op_operationId op = i \<and> op_method op = POST \<and>
          op_streaming op = StreamNone \<and> p \<in> set (op_requiredPermissions op)) \<and>
     distinct (map dep_id (mf_dependencies m) @ map con_id (mf_conflicts m)) \<and>
     mf_id m \<notin> set (map dep_id (mf_dependencies m) @ map con_id (mf_conflicts m))"
proof -
  let ?routes = "map contribution_id (filter is_route (mf_contributions m))"
  from assms have contributions: "contributionIssues (mf_id m @ ''.'') ?routes 0 [] (mf_contributions m) = []"
    and operations: "backendOperationIssues (mf_id m @ ''.'') (permissionSet m) 0 [] (backendOperations m) = []"
    and subscriptions: "subscriptionIssues m 0 (mf_subscriptions m) = []"
    and schedules: "scheduleIssues m 0 [] (mf_fixedSchedules m) = []"
    and deps: "dependencyIssues (mf_id m) 0 [] (mf_dependencies m) = []"
    and cons: "conflictIssues (mf_id m) (map dep_id (mf_dependencies m)) 0 [] (mf_conflicts m) = []"
    by (simp_all add: manifest_accepted_def manifestIssues_def Let_def)
  have paths: "\<forall>op \<in> set (backendOperations m). \<forall>segment \<in> set (split_on CHR ''/'' (op_path op)). segment \<noteq> ''..'' \<and>
      (CHR '':'' \<in> set segment \<longrightarrow> (\<exists>b. op_resourceBinding op = Some b \<and> rb_source b = BsPath \<and>
         segment = CHR '':'' # rb_field b \<and> path_parameters (op_path op) = [rb_field b]))"
    using assms parameter_bound accepted_path_segments by (force simp: manifest_accepted_def list_all_iff)
  have "\<forall>s \<in> set (mf_subscriptions m). \<not> deliveryOperationInvalid m (es_deliveryOperationId s) (es_permission s)"
    and "\<forall>s \<in> set (mf_fixedSchedules m). \<not> deliveryOperationInvalid m (fs_deliveryOperationId s) (fs_permission s)"
    using subscriptions schedules by (auto simp: subscriptionIssues_Nil scheduleIssues_Nil list_all_iff)
  then have delivered: "\<forall>(i, p) \<in> set (map (\<lambda>s. (es_deliveryOperationId s, es_permission s)) (mf_subscriptions m) @
                  map (\<lambda>s. (fs_deliveryOperationId s, fs_permission s)) (mf_fixedSchedules m)).
        \<exists>op \<in> set (backendOperations m). op_operationId op = i \<and> op_method op = POST \<and>
          op_streaming op = StreamNone \<and> p \<in> set (op_requiredPermissions op)"
    using deliveryOperation_valid by fastforce
  have routed: "\<forall>c \<in> set (mf_contributions m). \<forall>r. contribution_route c = Some r \<longrightarrow>
      (\<exists>d \<in> set (mf_contributions m). is_route d \<and> contribution_id d = r)"
    using contributions by (fastforce simp: contributionIssues_Nil list_all_iff)
  have disjoint: "set (map dep_id (mf_dependencies m)) \<inter> set (map con_id (mf_conflicts m)) = {}"
    using cons by (auto simp: conflictIssues_Nil)
  have ops: "\<forall>op \<in> set (backendOperations m). starts_with (mf_id m @ ''.'') (op_operationId op) \<and>
       set (op_requiredPermissions op) \<subseteq> set (permissionSet m) \<and>
       (\<forall>segment \<in> set (split_on CHR ''/'' (op_path op)). segment \<noteq> ''..'' \<and>
          (CHR '':'' \<in> set segment \<longrightarrow> (\<exists>b. op_resourceBinding op = Some b \<and> rb_source b = BsPath \<and>
             segment = CHR '':'' # rb_field b \<and> path_parameters (op_path op) = [rb_field b])))"
    using operations paths by (simp add: backendOperationIssues_Nil list_all_iff)
  show ?thesis
    using contributions operations deps cons routed disjoint
    by (intro conjI delivered ops) (auto simp: issue_lists_Nil list_all_iff)
qed

theorem accepted_manifest_closed_witness:
  "distinct (map dep_id (mf_dependencies (sample_manifest ''io.acme.app'' ''1.0.0'' None
     [needs ''io.acme.base'' ''2.0.0'' False])))"
proof -
  have "manifest_accepted (sample_manifest ''io.acme.app'' ''1.0.0'' None [needs ''io.acme.base'' ''2.0.0'' False])"
    by code_simp
  from accepted_manifest_closed [OF this] show ?thesis by simp
qed

text \<open>What makes a release trustworthy, and where a relative path leads from a directory: \<open>path.resolve\<close> on
  segments.\<close>

definition release_trusted :: "host \<Rightarrow> install_input \<Rightarrow> manifest \<Rightarrow> resource_descriptor \<Rightarrow> bool" where
  "release_trusted h input m resources \<longleftrightarrow>
     vi_manifest input = Some m \<and> vi_resources input = Some resources \<and>
     sha256 h (vi_manifestBytes input) = rl_manifestSha256 (vi_release input) \<and> manifest_accepted m \<and>
     mf_version m = rl_version (vi_release input) \<and> cp_host (mf_compatibility m) = rl_hostCompatibility (vi_release input) \<and>
     cp_sdk (mf_compatibility m) = rl_sdkCompatibility (vi_release input) \<and>
     dp_backend (mf_deployment m) \<noteq> None \<and>
     map_option rd_sha256 (dp_resources (mf_deployment m)) = Some (sha256 h (vi_resourceBytes input)) \<and>
     descriptorIssues resources = [] \<and> res_egressPolicy resources = mf_egressPolicy m \<and>
     distinct (vi_grantedPermissions input) \<and> set (mf_permissionsRequired m) \<subseteq> set (vi_grantedPermissions input) \<and>
     set (vi_grantedPermissions input) \<subseteq> set (mf_permissionsRequired m) \<union> set (mf_permissionsOptional m) \<and>
     (\<exists>segments. vi_stagedAssetPath input = ''./'' @ join ''/'' segments \<and> ''..'' \<notin> set segments \<and>
        (\<forall>s \<in> set segments. CHR ''/'' \<notin> set s \<and> CHR 0x5C \<notin> set s \<and> CHR 0x00 \<notin> set s))"

fun resolve_from :: "string list \<Rightarrow> string list \<Rightarrow> string list" where
  "resolve_from directory [] = directory"
| "resolve_from directory (s # ss) = resolve_from
     (if s = [] \<or> s = ''.'' then directory else if s = ''..'' then butlast directory else directory @ [s]) ss"

lemma resolve_below: "''..'' \<notin> set segments \<Longrightarrow> \<exists>below. resolve_from directory segments = directory @ below"
proof (induction segments arbitrary: directory)
  case (Cons s ss)
  from Cons.IH [of "if s = [] \<or> s = ''.'' then directory else directory @ [s]"] Cons.prems show ?case by auto
qed simp

lemma set_split_on: "w \<in> set (split_on c s) \<Longrightarrow> set w \<subseteq> set s"
proof (induction s arbitrary: w)
  case (Cons x xs)
  obtain v vs where vs: "split_on c xs = v # vs" by (cases "split_on c xs") auto
  with Cons.IH have "set v \<subseteq> set xs" "\<forall>u \<in> set vs. set u \<subseteq> set xs" by simp_all
  with Cons.prems vs show ?case by (cases "x = c") auto
qed simp

lemma safe_path_iff:
  "assertSafeStagedAssetPath path = Inr () \<longleftrightarrow>
     (\<exists>segments. path = ''./'' @ join ''/'' segments \<and> ''..'' \<notin> set segments \<and>
        (\<forall>s \<in> set segments. CHR ''/'' \<notin> set s \<and> CHR 0x5C \<notin> set s \<and> CHR 0x00 \<notin> set s))" (is "?l \<longleftrightarrow> ?r")
proof
  assume l: ?l
  then obtain rest where rest: "path = ''./'' @ rest" by (auto simp: assertSafeStagedAssetPath_def starts_with_iff)
  have chars: "CHR 0x5C \<notin> set w \<and> CHR 0x00 \<notin> set w" if "w \<in> set (split_on CHR ''/'' rest)" for w
    using l that set_split_on [of w "CHR ''/''" rest] rest by (auto simp: assertSafeStagedAssetPath_def)
  have "path = ''./'' @ join ''/'' (split_on CHR ''/'' rest)" using rest by (simp add: join_split_on)
  moreover have "''..'' \<notin> set (split_on CHR ''/'' rest)" using l rest by (auto simp: assertSafeStagedAssetPath_def)
  ultimately show ?r using chars split_on_no_sep by blast
next
  assume ?r
  then obtain segments where r: "path = ''./'' @ join ''/'' segments" "''..'' \<notin> set segments"
    "\<forall>s \<in> set segments. CHR ''/'' \<notin> set s \<and> CHR 0x5C \<notin> set s \<and> CHR 0x00 \<notin> set s" by blast
  have "split_on CHR ''/'' (join ''/'' segments) = (if segments = [] then [[]] else segments)"
    using split_on_join [of segments "CHR ''/''"] r(3) by auto
  moreover have "CHR 0x5C \<notin> set (join ''/'' segments) \<and> CHR 0x00 \<notin> set (join ''/'' segments)"
    using r(3) by (induction segments rule: induct_list012) auto
  ultimately show ?l using r by (auto simp: assertSafeStagedAssetPath_def starts_with_def)
qed

lemma grants_iff:
  "assertPermissionGrants m granted = Inr () \<longleftrightarrow> distinct granted \<and> set (mf_permissionsRequired m) \<subseteq> set granted \<and>
     set granted \<subseteq> set (mf_permissionsRequired m) \<union> set (mf_permissionsOptional m)"
  by (auto simp: assertPermissionGrants_def list_ex_iff permissionSet_def length_set_of_list_eq)

text \<open>C7: A release passes verification exactly when the manifest bytes have the digest of the catalog, the manifest is
  valid and has the catalog's version and compatibility ranges, it declares a backend and resources, the descriptor bytes
  have the manifest's digest, the descriptor is valid and has the same egress policy, the grants are
  distinct, cover every required permission and are all declared, and the staged path is relative without parent
  segments, backslashes and null characters. The record is of this manifest and this descriptor, disabled, with
  these grants, and its path leads from every directory to a place below it.\<close>

theorem verified_release_trusted:
  "((\<exists>r. verifyPluginInstallInputV1 h input = Inr r) \<longleftrightarrow> (\<exists>m resources. release_trusted h input m resources)) \<and>
   (\<forall>r. verifyPluginInstallInputV1 h input = Inr r \<longrightarrow>
      release_trusted h input (in_manifest r) (in_resources r) \<and> in_pluginId r = mf_id (in_manifest r) \<and>
      in_version r = rl_version (vi_release input) \<and> in_bundle r = rl_bundle (vi_release input) \<and>
      in_manifestSha256 r = sha256 h (vi_manifestBytes input) \<and>
      distinct (in_grantedPermissions r) \<and> set (in_grantedPermissions r) = set (vi_grantedPermissions input) \<and> \<not> in_enabled r \<and>
      (\<forall>directory. \<exists>below. resolve_from directory (split_on CHR ''/'' (in_stagedAssetPath r)) = directory @ below))"
proof -
  have sound: "release_trusted h input (in_manifest r) (in_resources r) \<and> in_pluginId r = mf_id (in_manifest r) \<and>
      in_version r = rl_version (vi_release input) \<and> in_bundle r = rl_bundle (vi_release input) \<and>
      in_manifestSha256 r = sha256 h (vi_manifestBytes input) \<and> in_grantedPermissions r = sort (vi_grantedPermissions input) \<and>
      \<not> in_enabled r \<and> ''..'' \<notin> set (split_on CHR ''/'' (in_stagedAssetPath r))"
    if "verifyPluginInstallInputV1 h input = Inr r" for r
    using that unfolding verifyPluginInstallInputV1_def release_trusted_def safe_path_iff [symmetric]
    by (auto simp: grants_iff assertSafeStagedAssetPath_def split: if_splits option.splits)
  have complete: "\<exists>r. verifyPluginInstallInputV1 h input = Inr r" if t: "release_trusted h input m resources" for m resources
  proof -
    have "assertSafeStagedAssetPath (vi_stagedAssetPath input) = Inr ()"
      "assertPermissionGrants m (vi_grantedPermissions input) = Inr ()"
      using t unfolding safe_path_iff grants_iff release_trusted_def by blast+
    with t show ?thesis by (auto simp: verifyPluginInstallInputV1_def release_trusted_def)
  qed
  have "distinct (in_grantedPermissions r) \<and> set (in_grantedPermissions r) = set (vi_grantedPermissions input)"
    "\<exists>below. resolve_from directory (split_on CHR ''/'' (in_stagedAssetPath r)) = directory @ below"
    if "verifyPluginInstallInputV1 h input = Inr r" for r directory
    using sound [OF that] resolve_below [of "split_on CHR ''/'' (in_stagedAssetPath r)"] by (simp_all add: release_trusted_def)
  with sound complete show ?thesis by blast
qed

definition sample_input :: install_input where
  "sample_input = (let m = sample_manifest ''io.acme.app'' ''1.0.0'' None [] in
     \<lparr>vi_release = \<lparr>rl_version = ''1.0.0'', rl_bundle = ''b'', rl_manifestSha256 = replicate 64 (CHR ''0''),
        rl_hostCompatibility = ''*'', rl_sdkCompatibility = ''1.0.0''\<rparr>,
      vi_manifestBytes = ''{}'',
      vi_manifest = Some (m\<lparr>mf_compatibility := (mf_compatibility m)\<lparr>cp_backendProtocol := Some 1\<rparr>,
        mf_deployment := \<lparr>dp_frontend = None, dp_backend = Some \<lparr>bd_image = sample_image, bd_operations = []\<rparr>,
          dp_migration = None,
          dp_resources = Some \<lparr>rd_descriptor = ''r'', rd_sha256 = replicate 64 (CHR ''0'')\<rparr>\<rparr>\<rparr>),
      vi_resourceBytes = ''{}'', vi_resources = Some sample_resources,
      vi_grantedPermissions = [], vi_stagedAssetPath = ''./a''\<rparr>)"

theorem verified_release_trusted_witness:
  "\<exists>r. verifyPluginInstallInputV1 sample_host sample_input = Inr r \<and> release_trusted sample_host sample_input (in_manifest r) (in_resources r)"
proof -
  have "is_ok (verifyPluginInstallInputV1 sample_host sample_input)" by code_simp
  then obtain r where "verifyPluginInstallInputV1 sample_host sample_input = Inr r" by (auto simp: is_ok_iff)
  with verified_release_trusted [of sample_host sample_input] show ?thesis by blast
qed

text \<open>C8: Every plan a planner makes of well-formed records passes the installer's plan validator
  unchanged, and the envelope made of it passes the execution's validator unchanged; the two
  validators of phases, one that goes by their number and one that compares them, accept the
  same phases for every plan.\<close>

theorem planned_plans_pass_both_validators:
  assumes "host_ok h" and "record_ok r" and "record_ok r'"
    and "planPluginInstallV1 r = Inr p \<or> planPluginUpgradeV1 lib r r' = Inr p \<or>
         planPluginRollbackV1 lib r r' = Inr p \<or> p = planPluginEnablementV1 r b \<or> p = planPluginUninstallV1 r a"
    and "createPluginLifecyclePlanEnvelopeV1 h (JInt rv) (Some p) = Inr env"
  shows "parsePluginDeploymentLifecyclePlanV1 (plan_json p) = Inr p \<and>
     parsePluginLifecyclePlanEnvelopeV1 h (envelope_json env) = Inr env \<and> ev_plan env = Some p \<and>
     (\<forall>v. expectedLifecyclePlanPhases v = Some (pv_phases v) \<longleftrightarrow> expectedPhases v = Some (pv_phases v))"
proof -
  have p: "valid_plan p" using assms(2-4) plans_valid by blast
  then have "envelope_ok h env" using assms(5) by (intro create_envelope_ok) auto
  moreover have "ev_plan env = Some p"
    using assms(5) by (auto simp: createPluginLifecyclePlanEnvelopeV1_def split: if_splits)
  ultimately show ?thesis using valid_plan_parses [OF p] parse_envelope_json [OF assms(1)] expected_agree by simp
qed

theorem planned_plans_pass_both_validators_witness:
  "is_ok (parsePluginDeploymentLifecyclePlanV1 (plan_json (planPluginEnablementV1 (acme 0 None) True)))"
  using planned_plans_pass_both_validators [OF sample_host_ok acme_ok(1) acme_ok(1),
      of "planPluginEnablementV1 (acme 0 None) True" sample_lib True Retain 0]
  by (simp add: createPluginLifecyclePlanEnvelopeV1_def)

theorem phase_validators_agree:
  "expectedLifecyclePlanPhases v = Some (pv_phases v) \<longleftrightarrow> expectedPhases v = Some (pv_phases v)"
  by (rule expected_agree)

text \<open>C10: Whatever sequence of installs, upgrades, rollbacks, enablements, uninstalls and image
  mappings of well-formed records leads to a state, the installed plugins and the enabled
  plugins are each a consistent set, at most three previous versions of a plugin and 1000
  history events are kept, and the recorded plan is valid.\<close>

theorem desired_state_invariant:
  assumes "(installer_step lib)\<^sup>*\<^sup>* emptyPluginInstallerStateV1 s"
  shows "consistent_set lib (map in_manifest (map snd (is_plugins s))) \<and>
     consistent_set lib (map in_manifest (filter in_enabled (map snd (is_plugins s)))) \<and>
     (\<forall>(k, r) \<in> set (is_plugins s). in_pluginId r = k \<and> record_ok r) \<and>
     (\<forall>(k, rs) \<in> set (is_previous s). length rs \<le> 3) \<and> length (is_history s) \<le> 1000 \<and>
     (\<forall>p. is_lifecyclePlan s = Some p \<longrightarrow> parsePluginDeploymentLifecyclePlanV1 (plan_json p) = Inr p)"
  using reachable_inv [OF assms] valid_plan_parses
  by (auto simp: installer_inv_def desired_consistent_def records_keyed_def previous_keyed_def)

definition installed_acme :: installer_state where
  "installed_acme = projr (installPluginV1 sample_lib emptyPluginInstallerStateV1 (acme 0 None) ''0'')"

lemma installed_acme_run:
  "installPluginV1 sample_lib emptyPluginInstallerStateV1 (acme 0 None) ''0'' = Inr installed_acme"
proof -
  have "is_ok (installPluginV1 sample_lib emptyPluginInstallerStateV1 (acme 0 None) ''0'')" by code_simp
  then show ?thesis by (auto simp: is_ok_iff installed_acme_def)
qed

lemma installed_acme_reachable: "(installer_step sample_lib)\<^sup>*\<^sup>* emptyPluginInstallerStateV1 installed_acme"
  by (rule r_into_rtranclp, rule step_install [OF acme_ok(1) installed_acme_run])

theorem desired_state_invariant_witness: "length (is_history installed_acme) \<le> 1000"
  using desired_state_invariant [OF installed_acme_reachable] by blast

text \<open>C11: Right after an upgrade a rollback succeeds exactly when the upgrade's plan says that
  rollback is supported, and then the installed plugins are those of before the upgrade.\<close>

theorem rollback_undoes_upgrade:
  assumes "(installer_step lib)\<^sup>*\<^sup>* emptyPluginInstallerStateV1 s" and "record_ok r"
    and "upgradePluginV1 lib s r t = Inr s1" and "is_lifecyclePlan s1 = Some p"
  shows "((\<exists>s2. rollbackPluginV1 lib s1 (in_pluginId r) t' = Inr s2) \<longleftrightarrow> pl_rollbackSupported p) \<and>
     (\<forall>s2. rollbackPluginV1 lib s1 (in_pluginId r) t' = Inr s2 \<longrightarrow> is_plugins s2 = is_plugins s)"
proof -
  from assms(3) obtain cur where "map_of (is_plugins s) (in_pluginId r) = Some cur"
    by (auto simp: upgradePluginV1_def split: option.splits)
  note undo = rollback_undoes [OF reachable_inv [OF assms(1)] assms(2) this assms(3,4)]
  show ?thesis using undo(1) [of t'] undo(2) [of t'] by (auto simp: is_ok_iff)
qed

definition upgraded_acme :: installer_state where
  "upgraded_acme = projr (upgradePluginV1 sample_lib installed_acme (acme 1 (Some (sample_migration 0 1 0))) ''1'')"

theorem rollback_undoes_upgrade_witness:
  "\<exists>s2. rollbackPluginV1 sample_lib upgraded_acme ''io.acme'' ''2'' = Inr s2 \<and>
     is_plugins s2 = is_plugins installed_acme"
proof -
  let ?up = "upgradePluginV1 sample_lib installed_acme (acme 1 (Some (sample_migration 0 1 0))) ''1''"
  have "is_ok ?up \<and> map_option pl_rollbackSupported (is_lifecyclePlan (projr ?up)) = Some True" by code_simp
  then obtain p where up: "?up = Inr upgraded_acme" and p: "is_lifecyclePlan upgraded_acme = Some p"
    "pl_rollbackSupported p" by (auto simp: is_ok_iff upgraded_acme_def)
  from rollback_undoes_upgrade [OF installed_acme_reachable acme_ok(2) up p(1), of "''2''"] p(2)
  show ?thesis by (auto simp: sample_record_def)
qed

text \<open>A validated image mapping only redirects a reference to one with the same digest, and
  leaves every other reference alone.\<close>

lemma image_mapping_keeps_digest:
  assumes "withPluginImageMappingsV1 lib s mappings = Inr s'"
  shows "digestFromReference (mappedImageReference s' source) = digestFromReference source"
proof -
  have collected: "\<forall>(a, b) \<in> set acc. digestFromReference a = digestFromReference b \<Longrightarrow>
      collectMappings acc ms = Inr out \<Longrightarrow> \<forall>(a, b) \<in> set out. digestFromReference a = digestFromReference b"
    for acc ms out
  proof (induction acc ms rule: collectMappings.induct)
    case (2 acc a b rest)
    then show ?case by (force split: if_splits dest: in_set_put)
  qed simp
  from assms obtain out where "collectMappings [] mappings = Inr out"
    and s': "is_imageMappings s' = js_sort (\<lambda>l r. localeCompare lib (fst l) (fst r)) out"
    by (cases "collectMappings [] mappings")
       (auto simp: withPluginImageMappingsV1_def validatePluginImageMappingsV1_def)
  with collected [of "[]" mappings out]
  have "digestFromReference a = digestFromReference b" if "(a, b) \<in> set out" for a b using that by auto
  then show ?thesis
    by (auto simp: mappedImageReference_def s' split: option.split dest!: map_of_SomeD)
qed

lemma image_mapping_keeps_digest_witness:
  "\<exists>s'. withPluginImageMappingsV1 sample_lib emptyPluginInstallerStateV1
       [(sample_image, ''m/'' @ sample_image)] = Inr s' \<and>
     mappedImageReference s' sample_image = ''m/'' @ sample_image \<and>
     digestFromReference (mappedImageReference s' sample_image) = digestFromReference sample_image"
proof -
  let ?run = "withPluginImageMappingsV1 sample_lib emptyPluginInstallerStateV1 [(sample_image, ''m/'' @ sample_image)]"
  have "is_ok ?run \<and> mappedImageReference (projr ?run) sample_image = ''m/'' @ sample_image" by code_simp
  then obtain s' where "?run = Inr s'" "mappedImageReference s' sample_image = ''m/'' @ sample_image"
    by (auto simp: is_ok_iff)
  with image_mapping_keeps_digest [OF this(1), of sample_image] show ?thesis by blast
qed

end
