(* ===== verification/Execution_Store.thy ===== *)
theory Execution_Store
  imports Execution_Lifecycle
begin

text \<open>
  The file store of lifecycle executions (\<open>executionStore.ts\<close>) and the observation it
  writes beside (\<open>executionObservation.ts\<close>). A file is absent, unreadable (not a regular
  file, too large, or not JSON) or holds a JSON value. The operations run under the lock
  of the store, which \<open>Store_Lock\<close> models; here each is one step. An operation returns its
  result and the store it leaves.
\<close>

section \<open>Data\<close>

datatype store_file = Absent | Unreadable | Json jsval

record summary =
  sm_executionId :: string
  sm_executionRevision :: int
  sm_desiredRevision :: int
  sm_planSha256 :: string
  sm_pluginId :: string
  sm_operation :: operation
  sm_status :: exec_status
  sm_completedPhases :: "phase list"
  sm_nextPhase :: "phase option"
  sm_reasonCode :: exec_reason
  sm_updatedAt :: string
  sm_leaseExpiresAt :: "string option"

record observation =
  ob_current :: bool          \<comment> \<open>\<open>current\<close> with reason \<open>none\<close>, or \<open>not_started\<close> with \<open>execution_not_found\<close>\<close>
  ob_desiredRevision :: int
  ob_planSha256 :: "string option"
  ob_execution :: "summary option"

record stored =
  sr_envelope :: envelope
  sr_execution :: execution
  sr_history :: "(envelope \<times> execution) list"

record file_store =
  fs_plan :: store_file
  fs_execution :: store_file
  fs_observation :: "observation option"

section \<open>The observation\<close>

text \<open>
  \<open>isDatetime\<close> is zod's \<open>string().datetime()\<close>. The checks of
  \<open>pluginDeploymentExecutionSummaryV1Schema\<close> beyond the types:
\<close>

definition summary_ok :: "(string \<Rightarrow> bool) \<Rightarrow> summary \<Rightarrow> bool" where
  "summary_ok isDatetime s \<longleftrightarrow>
     opaque_id 1 256 (sm_executionId s) \<and> 0 \<le> sm_executionRevision s \<and> 0 \<le> sm_desiredRevision s \<and>
     is_sha256_hex (sm_planSha256 s) \<and> pluginIdSchema (sm_pluginId s) \<and>
     length (sm_completedPhases s) \<le> length lifecyclePhases \<and>
     isDatetime (sm_updatedAt s) \<and> (\<forall>e. sm_leaseExpiresAt s = Some e \<longrightarrow> isDatetime e) \<and>
     length (set_of_list (sm_completedPhases s)) = length (sm_completedPhases s) \<and>
     (sm_status s = Running) = (sm_leaseExpiresAt s \<noteq> None) \<and>
     (sm_status s = Succeeded) = (sm_nextPhase s = None)"

definition summary_of :: "execution \<Rightarrow> summary" where
  "summary_of ex =
     \<lparr>sm_executionId = ex_executionId ex, sm_executionRevision = ex_revision ex,
      sm_desiredRevision = ex_desiredRevision ex, sm_planSha256 = ex_planSha256 ex,
      sm_pluginId = ex_pluginId ex, sm_operation = ex_operation ex, sm_status = ex_status ex,
      sm_completedPhases = ex_completedPhases ex, sm_nextPhase = ex_nextPhase ex,
      sm_reasonCode = ex_reasonCode ex, sm_updatedAt = ex_updatedAt ex,
      sm_leaseExpiresAt = ex_leaseExpiresAt ex\<rparr>"

definition observation_ok :: "(string \<Rightarrow> bool) \<Rightarrow> observation \<Rightarrow> bool" where
  "observation_ok isDatetime v \<longleftrightarrow>
     0 \<le> ob_desiredRevision v \<and>
     (\<forall>s. ob_planSha256 v = Some s \<longrightarrow> is_sha256_hex s) \<and>
     (case ob_execution v of None \<Rightarrow> \<not> ob_current v
      | Some s \<Rightarrow> summary_ok isDatetime s \<and> ob_current v \<and>
          sm_desiredRevision s = ob_desiredRevision v \<and> Some (sm_planSha256 s) = ob_planSha256 v)"

definition createPluginDeploymentExecutionObservationV1 ::
  "host \<Rightarrow> (string \<Rightarrow> bool) \<Rightarrow> envelope \<Rightarrow> execution option \<Rightarrow> exec_error + observation" where
  "createPluginDeploymentExecutionObservationV1 h isDatetime envelopeInput executionInput =
     bind_res (parsePluginLifecyclePlanEnvelopeV1 h (envelope_json envelopeInput)) (\<lambda>env.
     bind_res (case executionInput of
         None \<Rightarrow> Inr \<lparr>ob_current = False, ob_desiredRevision = ev_desiredRevision env,
                   ob_planSha256 = ev_planSha256 env, ob_execution = None\<rparr>
       | Some input \<Rightarrow> bind_res (parsePluginLifecycleExecutionV1 h (execution_json input) (envelope_json env)) (\<lambda>ex.
           Inr \<lparr>ob_current = True, ob_desiredRevision = ev_desiredRevision env,
               ob_planSha256 = ev_planSha256 env, ob_execution = Some (summary_of ex)\<rparr>)) (\<lambda>v.
     if observation_ok isDatetime v then Inr v else Inl ExecSchemaError))"

section \<open>Reading\<close>

definition readJson :: "store_file \<Rightarrow> exec_code \<Rightarrow> exec_error + jsval" where
  "readJson f missingCode =
     (case f of Absent \<Rightarrow> Inl (ExecError missingCode)
      | Unreadable \<Rightarrow> Inl (ExecError StoreCorrupt)
      | Json v \<Rightarrow> Inr v)"

definition readCurrentPlan :: "host \<Rightarrow> file_store \<Rightarrow> exec_error + envelope" where
  "readCurrentPlan h s =
     bind_res (readJson (fs_plan s) PlanUnavailable) (parsePluginLifecyclePlanEnvelopeV1 h)"

definition parseEntry :: "host \<Rightarrow> jsval \<Rightarrow> exec_error + envelope \<times> execution" where
  "parseEntry h item =
     (if \<not> is_plain_object item then Inl (ExecError StoreCorrupt)
      else bind_res (parsePluginLifecyclePlanEnvelopeV1 h (getp item ''envelope'')) (\<lambda>env.
           bind_res (parsePluginLifecycleExecutionV1 h (getp item ''execution'') (envelope_json env)) (\<lambda>ex.
           Inr (env, ex))))"

definition readStored :: "host \<Rightarrow> file_store \<Rightarrow> exec_error + stored option" where
  "readStored h s =
     (case readJson (fs_execution s) ExecutionNotFound of
        Inl e \<Rightarrow> if e = ExecError ExecutionNotFound then Inr None else Inl e
      | Inr input \<Rightarrow>
          if \<not> is_plain_object input then Inl (ExecError StoreCorrupt)
          else if getp input ''schemaVersion'' \<noteq> JInt 1 then Inl (ExecError StoreCorrupt)
          else bind_res (parsePluginLifecyclePlanEnvelopeV1 h (getp input ''envelope'')) (\<lambda>env.
               bind_res (parsePluginLifecycleExecutionV1 h (getp input ''execution'') (envelope_json env)) (\<lambda>ex.
               let historyInput = (if getp input ''history'' = JUndef then JArr [] else getp input ''history'')
               in case as_arr historyInput of
                    None \<Rightarrow> Inl (ExecError StoreCorrupt)
                  | Some items \<Rightarrow>
                      if length items > 100 then Inl (ExecError StoreCorrupt)
                      else bind_res (map_res (parseEntry h) items) (\<lambda>history.
                        Inr (Some \<lparr>sr_envelope = env, sr_execution = ex, sr_history = history\<rparr>)))))"

definition assertCurrentPlan :: "host \<Rightarrow> file_store \<Rightarrow> stored \<Rightarrow> exec_error + unit" where
  "assertCurrentPlan h s stored =
     bind_res (readCurrentPlan h s) (\<lambda>current.
     throw_if (ev_desiredRevision current \<noteq> ev_desiredRevision (sr_envelope stored) \<or>
               ev_planSha256 current \<noteq> ev_planSha256 (sr_envelope stored))
       (ExecError PlanMismatch))"

definition store_read :: "host \<Rightarrow> file_store \<Rightarrow> exec_error + execution" where
  "store_read h s =
     bind_res (readStored h s) (\<lambda>stored.
     case stored of None \<Rightarrow> Inl (ExecError ExecutionNotFound)
     | Some st \<Rightarrow> bind_res (assertCurrentPlan h s st) (\<lambda>_. Inr (sr_execution st)))"

section \<open>Writing\<close>

definition entry_json :: "envelope \<times> execution \<Rightarrow> jsval" where
  "entry_json e = JObj [(''envelope'', envelope_json (fst e)), (''execution'', execution_json (snd e))]"

definition stored_json :: "stored \<Rightarrow> jsval" where
  "stored_json st = JObj
     [(''schemaVersion'', JInt 1), (''envelope'', envelope_json (sr_envelope st)),
      (''execution'', execution_json (sr_execution st)),
      (''history'', JArr (map entry_json (sr_history st)))]"

text \<open>The execution file is replaced before the observation is made, which may still throw.\<close>

definition writeStored ::
  "host \<Rightarrow> (string \<Rightarrow> bool) \<Rightarrow> stored \<Rightarrow> file_store \<Rightarrow> (exec_error + unit) \<times> file_store" where
  "writeStored h isDatetime st s =
     (case parsePluginLifecycleExecutionV1 h (execution_json (sr_execution st)) (envelope_json (sr_envelope st)) of
        Inl e \<Rightarrow> (Inl e, s)
      | Inr _ \<Rightarrow>
          let s' = s\<lparr>fs_execution := Json (stored_json st)\<rparr> in
          (case createPluginDeploymentExecutionObservationV1 h isDatetime (sr_envelope st)
                  (Some (sr_execution st)) of
             Inl e \<Rightarrow> (Inl e, s')
           | Inr v \<Rightarrow> (Inr (), s'\<lparr>fs_observation := Some v\<rparr>)))"

text \<open>A non-succeeded execution that the caller may not supersede.\<close>

definition execution_active :: "execution \<Rightarrow> int option \<Rightarrow> bool" where
  "execution_active ex supersedeExecutionRevision \<longleftrightarrow>
     ex_status ex \<noteq> Succeeded \<and>
     \<not> (ex_status ex \<in> {Failed, ManualIntervention} \<and> supersedeExecutionRevision = Some (ex_revision ex))"

definition initialize ::
  "host \<Rightarrow> (string \<Rightarrow> bool) \<Rightarrow> string \<Rightarrow> string \<Rightarrow> int option \<Rightarrow> file_store
    \<Rightarrow> (exec_error + execution) \<times> file_store" where
  "initialize h isDatetime executionId occurredAt supersede s =
     (case readCurrentPlan h s of Inl e \<Rightarrow> (Inl e, s)
      | Inr env \<Rightarrow>
          if ev_plan env = None then (Inl (ExecError PlanUnavailable), s)
          else (case readStored h s of Inl e \<Rightarrow> (Inl e, s)
           | Inr existing \<Rightarrow>
               if (case existing of None \<Rightarrow> False | Some st \<Rightarrow>
                     ev_desiredRevision (sr_envelope st) = ev_desiredRevision env \<and>
                     ev_planSha256 (sr_envelope st) = ev_planSha256 env)
               then (Inr (sr_execution (the existing)), s)
               else if (case existing of None \<Rightarrow> False
                        | Some st \<Rightarrow> execution_active (sr_execution st) supersede)
               then (Inl (ExecError ExecutionActive), s)
               else (case createPluginLifecycleExecutionV1 h env executionId occurredAt of
                  Inl e \<Rightarrow> (Inl e, s)
                | Inr ex \<Rightarrow>
                    let history = (case existing of None \<Rightarrow> []
                          | Some st \<Rightarrow> slice_last 100 (sr_history st @ [(sr_envelope st, sr_execution st)]));
                        (r, s') = writeStored h isDatetime
                          \<lparr>sr_envelope = env, sr_execution = ex, sr_history = history\<rparr> s
                    in (bind_res r (\<lambda>_. Inr ex), s'))))"

definition mutate ::
  "host \<Rightarrow> (string \<Rightarrow> bool) \<Rightarrow> int \<Rightarrow> (execution \<Rightarrow> envelope \<Rightarrow> exec_error + execution) \<Rightarrow> file_store
    \<Rightarrow> (exec_error + execution) \<times> file_store" where
  "mutate h isDatetime expectedRevision mutation s =
     (case readStored h s of Inl e \<Rightarrow> (Inl e, s)
      | Inr None \<Rightarrow> (Inl (ExecError ExecutionNotFound), s)
      | Inr (Some st) \<Rightarrow>
          (case assertCurrentPlan h s st of Inl e \<Rightarrow> (Inl e, s)
           | Inr _ \<Rightarrow>
               if ex_revision (sr_execution st) \<noteq> expectedRevision
               then (Inl (ExecError RevisionConflict), s)
               else (case bind_res (mutation (sr_execution st) (sr_envelope st)) (\<lambda>ex.
                          bind_res (parsePluginLifecycleExecutionV1 h (execution_json ex)
                                     (envelope_json (sr_envelope st))) (\<lambda>_. Inr ex)) of
                  Inl e \<Rightarrow> (Inl e, s)
                | Inr ex \<Rightarrow>
                    if ex_revision ex = ex_revision (sr_execution st) then (Inr ex, s)
                    else if ex_revision ex \<noteq> ex_revision (sr_execution st) + 1
                    then (Inl (ExecError StoreCorrupt), s)
                    else let (r, s') = writeStored h isDatetime (st\<lparr>sr_execution := ex\<rparr>) s
                         in (bind_res r (\<lambda>_. Inr ex), s'))))"

definition store_claim ::
  "host \<Rightarrow> (string \<Rightarrow> bool) \<Rightarrow> int \<Rightarrow> string \<Rightarrow> string \<Rightarrow> jsval \<Rightarrow> file_store
    \<Rightarrow> (exec_error + execution) \<times> file_store" where
  "store_claim h isDatetime expectedRevision owner occurredAt leaseDurationMs =
     mutate h isDatetime expectedRevision (\<lambda>ex env.
       claimPluginLifecycleExecutionV1 h ex env owner occurredAt leaseDurationMs)"

definition store_renew ::
  "host \<Rightarrow> (string \<Rightarrow> bool) \<Rightarrow> int \<Rightarrow> string \<Rightarrow> string \<Rightarrow> jsval \<Rightarrow> file_store
    \<Rightarrow> (exec_error + execution) \<times> file_store" where
  "store_renew h isDatetime expectedRevision owner occurredAt leaseDurationMs =
     mutate h isDatetime expectedRevision (\<lambda>ex env.
       renewPluginLifecycleExecutionLeaseV1 h ex env owner occurredAt leaseDurationMs)"

definition store_complete ::
  "host \<Rightarrow> (string \<Rightarrow> bool) \<Rightarrow> int \<Rightarrow> string \<Rightarrow> phase \<Rightarrow> string \<Rightarrow> file_store
    \<Rightarrow> (exec_error + execution) \<times> file_store" where
  "store_complete h isDatetime expectedRevision owner phase occurredAt =
     mutate h isDatetime expectedRevision (\<lambda>ex env.
       completePluginLifecyclePhaseV1 h ex env owner phase occurredAt)"

definition store_fail ::
  "host \<Rightarrow> (string \<Rightarrow> bool) \<Rightarrow> int \<Rightarrow> string \<Rightarrow> string \<Rightarrow> file_store
    \<Rightarrow> (exec_error + execution) \<times> file_store" where
  "store_fail h isDatetime expectedRevision owner occurredAt =
     mutate h isDatetime expectedRevision (\<lambda>ex env.
       failPluginLifecycleExecutionV1 h ex env owner occurredAt)"

definition store_recover ::
  "host \<Rightarrow> (string \<Rightarrow> bool) \<Rightarrow> int \<Rightarrow> string \<Rightarrow> file_store
    \<Rightarrow> (exec_error + execution) \<times> file_store" where
  "store_recover h isDatetime expectedRevision occurredAt =
     mutate h isDatetime expectedRevision (\<lambda>ex env.
       recoverExpiredPluginLifecycleExecutionV1 h ex env occurredAt)"

end
