(* ===== verification/Store_Contract.thy ===== *)
theory Store_Contract
  imports Execution_Store
begin

text \<open>
  The contract of the file store: whatever the callers and their clocks do, the execution
  file holds a well-formed execution of its envelope; a mutation is applied to the
  revision the caller saw and advances it by one, or the file is left as it was.
\<close>

section \<open>What the execution file holds\<close>

definition entry_ok :: "host \<Rightarrow> envelope \<times> execution \<Rightarrow> bool" where
  "entry_ok h e \<longleftrightarrow> envelope_ok h (fst e) \<and> execution_ok h (fst e) (snd e)"

definition stored_ok :: "host \<Rightarrow> stored \<Rightarrow> bool" where
  "stored_ok h st \<longleftrightarrow> entry_ok h (sr_envelope st, sr_execution st) \<and>
     (\<forall>e \<in> set (sr_history st). entry_ok h e) \<and> length (sr_history st) \<le> 100"

definition holds :: "host \<Rightarrow> file_store \<Rightarrow> stored \<Rightarrow> bool" where
  "holds h s st \<longleftrightarrow> fs_execution s = Json (stored_json st) \<and> stored_ok h st"

definition store_inv :: "host \<Rightarrow> file_store \<Rightarrow> bool" where
  "store_inv h s \<longleftrightarrow> fs_execution s = Absent \<or> (\<exists>st. holds h s st)"

lemma parse_pair:
  assumes "host_ok h" and "envelope_ok h env"
  shows "parsePluginLifecycleExecutionV1 h v (envelope_json env) = parseExecutionIn h v env"
  using parse_envelope_json [OF assms] by (simp add: parsePluginLifecycleExecutionV1_def)

lemma parseEntry_json:
  assumes "host_ok h" and "entry_ok h e"
  shows "parseEntry h (entry_json e) = Inr e"
  using assms parse_pair [OF assms(1), of "fst e"]
  by (cases e) (simp add: parseEntry_def entry_json_def entry_ok_def parse_envelope_json parse_execution_json)

lemma map_res_parseEntry:
  "host_ok h \<Longrightarrow> \<forall>e \<in> set es. entry_ok h e \<Longrightarrow> map_res (parseEntry h) (map entry_json es) = Inr es"
  by (induction es) (simp_all add: parseEntry_json)

lemma getp_stored_json [simp]:
  "is_plain_object (stored_json st)"
  "getp (stored_json st) ''schemaVersion'' = JInt 1"
  "getp (stored_json st) ''envelope'' = envelope_json (sr_envelope st)"
  "getp (stored_json st) ''execution'' = execution_json (sr_execution st)"
  "getp (stored_json st) ''history'' = JArr (map entry_json (sr_history st))"
  by (simp_all add: stored_json_def)

lemma readStored_holds:
  assumes "host_ok h" and "holds h s st"
  shows "readStored h s = Inr (Some st)"
  using assms parse_pair [OF assms(1), of "sr_envelope st"]
  by (auto simp: readStored_def readJson_def holds_def stored_ok_def entry_ok_def Let_def
      parse_envelope_json parse_execution_json map_res_parseEntry)

lemma readStored_absent: "fs_execution s = Absent \<Longrightarrow> readStored h s = Inr None"
  by (simp add: readStored_def readJson_def)

section \<open>The observation of a well-formed execution is acceptable\<close>

definition datetimes_ok :: "(string \<Rightarrow> bool) \<Rightarrow> execution \<Rightarrow> bool" where
  "datetimes_ok isDatetime ex \<longleftrightarrow> isDatetime (ex_updatedAt ex) \<and>
     (\<forall>e. ex_leaseExpiresAt ex = Some e \<longrightarrow> isDatetime e)"

lemma matched_plan:
  assumes "envelope_ok h env" and "assertPlanMatches h ex env = Inr p"
  shows "ev_plan env = Some p" and "valid_plan p" and "distinct (pl_phases p)"
    and "ex_pluginId ex = pl_pluginId p" and "ev_planSha256 env = Some (ex_planSha256 ex)"
    and "ev_desiredRevision env = ex_desiredRevision ex"
proof -
  show p: "ev_plan env = Some p" and "ex_pluginId ex = pl_pluginId p"
    and "ev_planSha256 env = Some (ex_planSha256 ex)" and "ev_desiredRevision env = ex_desiredRevision ex"
    using assms(2) by (auto simp: assertPlanMatches_def split: option.splits if_splits)
  then show valid: "valid_plan p" using assms(1) by (simp add: envelope_ok_def)
  then show "distinct (pl_phases p)"
    using expected_shape(3) [of "view_of_plan p"] semantics_parts [of "view_of_plan p"]
    by (simp add: valid_plan_def view_of_plan_def)
qed

lemma length_phases: "distinct ps \<Longrightarrow> length ps \<le> length lifecyclePhases" for ps :: "phase list"
proof -
  assume "distinct ps"
  have "set ps \<subseteq> set lifecyclePhases"
  proof
    fix x :: phase
    show "x \<in> set lifecyclePhases" by (cases x) (simp_all add: lifecyclePhases_def)
  qed
  with \<open>distinct ps\<close> show ?thesis
    by (metis List.finite_set card_length card_mono distinct_card order_trans)
qed

lemma summary_of_ok:
  assumes env: "envelope_ok h env" and ok: "execution_ok h env ex" and dt: "datetimes_ok isDatetime ex"
  shows "summary_ok isDatetime (summary_of ex)"
proof -
  from ok obtain p where p: "assertPlanMatches h ex env = Inr p" and cp: "checkpoint_ok p ex"
    by (auto simp: execution_ok_def)
  note m = matched_plan [OF env p]
  have "distinct (ex_completedPhases ex)"
    using cp m(3) by (metis checkpoint_ok_def distinct_take)
  moreover have "pluginIdSchema (ex_pluginId ex)"
    using m by (simp add: valid_plan_def plan_fields_ok_def)
  moreover have "(ex_status ex = Succeeded) = (ex_nextPhase ex = None)"
    using cp by (auto simp: checkpoint_ok_def nth_opt_def Let_def)
  moreover have "(ex_status ex = Running) = (ex_leaseExpiresAt ex \<noteq> None)"
    using ok by (auto simp: execution_ok_def lease_ok_def split: if_splits)
  ultimately show ?thesis
    using ok dt length_phases [of "ex_completedPhases ex"]
    by (auto simp: summary_ok_def summary_of_def execution_ok_def ids_ok_def datetimes_ok_def
        length_set_of_list_eq opaque_id_def)
qed

lemma observation_created:
  assumes h: "host_ok h" and env: "envelope_ok h env" and ok: "execution_ok h env ex"
    and dt: "datetimes_ok isDatetime ex"
  shows "createPluginDeploymentExecutionObservationV1 h isDatetime env (Some ex) =
     Inr \<lparr>ob_current = True, ob_desiredRevision = ev_desiredRevision env,
         ob_planSha256 = ev_planSha256 env, ob_execution = Some (summary_of ex)\<rparr>"
proof -
  from ok obtain p where p: "assertPlanMatches h ex env = Inr p" by (auto simp: execution_ok_def)
  note m = matched_plan [OF env p]
  have "is_sha256_hex (ex_planSha256 ex)" "0 \<le> ev_desiredRevision env"
    using ok env by (simp_all add: execution_ok_def ids_ok_def envelope_ok_def)
  then have "observation_ok isDatetime \<lparr>ob_current = True, ob_desiredRevision = ev_desiredRevision env,
      ob_planSha256 = ev_planSha256 env, ob_execution = Some (summary_of ex)\<rparr>"
    using m summary_of_ok [OF env ok dt] by (simp add: observation_ok_def summary_of_def)
  then show ?thesis
    by (simp add: createPluginDeploymentExecutionObservationV1_def parse_envelope_json [OF h env]
        parse_pair [OF h env] parse_execution_json [OF h ok])
qed

section \<open>Writing\<close>

lemma writeStored_holds:
  assumes "host_ok h" and "stored_ok h st" and "writeStored h isDatetime st s = (r, s')"
  shows "holds h s' st" and "fs_plan s' = fs_plan s"
    and "r = Inr () \<longleftrightarrow> is_ok (createPluginDeploymentExecutionObservationV1 h isDatetime (sr_envelope st)
           (Some (sr_execution st)))"
    and "r = Inr () \<or> r = Inl ExecSchemaError"
  using assms parse_pair [OF assms(1), of "sr_envelope st"]
  by (auto simp: writeStored_def stored_ok_def entry_ok_def holds_def parse_execution_json Let_def
      createPluginDeploymentExecutionObservationV1_def parse_envelope_json
      split: sum.splits if_splits)

section \<open>Mutations\<close>

text \<open>
  What the store needs of an operation it applies: it stays with the plan, does not run
  past its end, and leaves the execution as it is or advances its revision by one.
\<close>

locale execution_mutation =
  fixes h :: host and run :: "execution \<Rightarrow> envelope \<Rightarrow> exec_error + execution"
  assumes same_plan: "run ex env = Inr ex' \<Longrightarrow> assertPlanMatches h ex' env = assertPlanMatches h ex env"
    and within: "run ex env = Inr ex' \<Longrightarrow> execution_ok h env ex \<Longrightarrow>
      assertPlanMatches h ex env = Inr p \<Longrightarrow> \<not> overlong p ex'"
    and advances: "run ex env = Inr ex' \<Longrightarrow> ex' = ex \<or> ex_revision ex' = ex_revision ex + 1"
begin

text \<open>The store parses the result, so nothing of the caller's clock is assumed.\<close>

lemma parsed_result_ok:
  assumes "host_ok h" and "envelope_ok h env" and "execution_ok h env ex" and "run ex env = Inr ex'"
    and "parsePluginLifecycleExecutionV1 h (execution_json ex') (envelope_json env) = Inr ex''"
  shows "execution_ok h env ex'"
proof -
  from assms(3) obtain p where p: "assertPlanMatches h ex env = Inr p" by (auto simp: execution_ok_def)
  then have p': "assertPlanMatches h ex' env = Inr p" using same_plan [OF assms(4)] by simp
  have "\<not> overlong p ex'" by (rule within [OF assms(4,3) p])
  with assms(5) p' show ?thesis
    unfolding parse_pair [OF assms(1,2)] parseExecutionIn_json [OF assms(1)]
    by (auto simp: execution_ok_def)
qed

lemma mutate_outcome:
  assumes h: "host_ok h" and st: "holds h s st"
    and run: "mutate h isDatetime expected run s = (r, s')"
  shows "s' = s \<and> (\<forall>ex'. r = Inr ex' \<longrightarrow> ex' = sr_execution st) \<or>
     (\<exists>ex'. run (sr_execution st) (sr_envelope st) = Inr ex' \<and> expected = ex_revision (sr_execution st) \<and>
        ex_revision ex' = expected + 1 \<and> holds h s' (st\<lparr>sr_execution := ex'\<rparr>) \<and> fs_plan s' = fs_plan s \<and>
        (r = Inr ex' \<or> r = Inl ExecSchemaError))"
proof -
  let ?ex = "sr_execution st" and ?env = "sr_envelope st"
  from st have ok: "envelope_ok h ?env" "execution_ok h ?env ?ex"
    by (simp_all add: holds_def stored_ok_def entry_ok_def)
  note read = readStored_holds [OF h st]
  show ?thesis
  proof (cases "is_ok (assertCurrentPlan h s st) \<and> ex_revision ?ex = expected")
    case False
    with run read show ?thesis by (auto simp: mutate_def split: sum.splits if_splits)
  next
    case True
    show ?thesis
    proof (cases "bind_res (run ?ex ?env) (\<lambda>ex. bind_res (parsePluginLifecycleExecutionV1 h
        (execution_json ex) (envelope_json ?env)) (\<lambda>_. Inr ex))")
      case (Inl e)
      with True run read show ?thesis by (auto simp: mutate_def is_ok_iff)
    next
      case (Inr ex')
      then obtain ex'' where op: "run ?ex ?env = Inr ex'"
        and parsed: "parsePluginLifecycleExecutionV1 h (execution_json ex') (envelope_json ?env) = Inr ex''"
        by auto
      have ex': "execution_ok h ?env ex'" by (rule parsed_result_ok [OF h ok op parsed])
      consider "ex' = ?ex" | "ex_revision ex' = ex_revision ?ex + 1" using advances [OF op] by blast
      then show ?thesis
      proof cases
        case 1
        with True run read Inr show ?thesis by (auto simp: mutate_def is_ok_iff)
      next
        case 2
        obtain w s1 where w: "writeStored h isDatetime (st\<lparr>sr_execution := ex'\<rparr>) s = (w, s1)" by fastforce
        have "stored_ok h (st\<lparr>sr_execution := ex'\<rparr>)"
          using st ex' ok by (simp add: holds_def stored_ok_def entry_ok_def)
        note written = writeStored_holds [OF h this w]
        from True run read Inr 2 w have "s' = s1" "r = bind_res w (\<lambda>_. Inr ex')"
          by (auto simp: mutate_def is_ok_iff)
        with written op True 2 show ?thesis by (intro disjI2 exI [of _ ex']) auto
      qed
    qed
  qed
qed

lemma mutate_inv:
  assumes "host_ok h" and "store_inv h s" and "mutate h isDatetime expected run s = (r, s')"
  shows "store_inv h s'"
proof (cases "fs_execution s = Absent")
  case True
  then show ?thesis using assms by (simp add: mutate_def readStored_absent)
next
  case False
  with assms(2) obtain st where "holds h s st" by (auto simp: store_inv_def)
  from mutate_outcome [OF assms(1) this assms(3)] assms(2) show ?thesis
    by (auto simp: store_inv_def)
qed

text \<open>A mutation of the current revision that yields a well-formed execution is stored.\<close>

lemma mutate_progress:
  assumes h: "host_ok h" and st: "holds h s st" and cur: "assertCurrentPlan h s st = Inr ()"
    and op: "run (sr_execution st) (sr_envelope st) = Inr ex'"
    and ex': "execution_ok h (sr_envelope st) ex'" and dt: "datetimes_ok isDatetime ex'"
  shows "\<exists>s'. mutate h isDatetime (ex_revision (sr_execution st)) run s = (Inr ex', s') \<and>
     holds h s' (st\<lparr>sr_execution := ex'\<rparr>) \<and> fs_plan s' = fs_plan s"
proof -
  let ?ex = "sr_execution st" and ?env = "sr_envelope st"
  from st have env: "envelope_ok h ?env" by (simp add: holds_def stored_ok_def entry_ok_def)
  have parsed: "parsePluginLifecycleExecutionV1 h (execution_json ex') (envelope_json ?env) = Inr ex'"
    using parse_pair [OF h env] parse_execution_json [OF h ex'] by simp
  consider "ex' = ?ex" | "ex_revision ex' = ex_revision ?ex + 1" using advances [OF op] by blast
  then show ?thesis
  proof cases
    case 1
    with readStored_holds [OF h st] cur op parsed st show ?thesis by (auto simp: mutate_def)
  next
    case 2
    obtain w s1 where w: "writeStored h isDatetime (st\<lparr>sr_execution := ex'\<rparr>) s = (w, s1)" by fastforce
    have "stored_ok h (st\<lparr>sr_execution := ex'\<rparr>)"
      using st ex' env by (simp add: holds_def stored_ok_def entry_ok_def)
    note written = writeStored_holds [OF h this w]
    have "w = Inr ()" using written(3) observation_created [OF h env ex' dt] by simp
    with readStored_holds [OF h st] cur op parsed 2 w written(1,2) show ?thesis
      by (auto simp: mutate_def)
  qed
qed

end

lemma not_overlong_same:
  assumes "execution_ok h env ex" and "assertPlanMatches h ex env = Inr p"
    and "ex_completedPhases ex' = ex_completedPhases ex"
  shows "\<not> overlong p ex'"
  using assms by (auto simp: execution_ok_def overlong_def checkpoint_ok_def Let_def)

lemma planMatches_cong:
  "ex_desiredRevision ex' = ex_desiredRevision ex \<Longrightarrow> ex_planSha256 ex' = ex_planSha256 ex \<Longrightarrow>
     ex_pluginId ex' = ex_pluginId ex \<Longrightarrow> ex_operation ex' = ex_operation ex \<Longrightarrow>
     assertPlanMatches h ex' env = assertPlanMatches h ex env"
  by (cases "ev_plan env") (simp_all add: assertPlanMatches_def)

text \<open>Operations that leave the phases alone.\<close>

definition same_phases :: "execution \<Rightarrow> execution \<Rightarrow> bool" where
  "same_phases ex ex' \<longleftrightarrow> ex_completedPhases ex' = ex_completedPhases ex \<and>
     ex_desiredRevision ex' = ex_desiredRevision ex \<and> ex_planSha256 ex' = ex_planSha256 ex \<and>
     ex_pluginId ex' = ex_pluginId ex \<and> ex_operation ex' = ex_operation ex \<and>
     ex_revision ex' = ex_revision ex + 1"

lemma same_phases_mutation:
  assumes "\<And>ex env ex'. run ex env = Inr ex' \<Longrightarrow> ex' = ex \<or> same_phases ex ex'"
  shows "execution_mutation h run"
proof
  fix ex env ex' p
  assume run: "run ex env = Inr ex'"
  have "ex' = ex \<or> same_phases ex ex'" by (rule assms [OF run])
  then show "assertPlanMatches h ex' env = assertPlanMatches h ex env"
    and "ex' = ex \<or> ex_revision ex' = ex_revision ex + 1"
    by (auto simp: same_phases_def intro: planMatches_cong)
  assume "execution_ok h env ex" and "assertPlanMatches h ex env = Inr p"
  with \<open>ex' = ex \<or> same_phases ex ex'\<close> show "\<not> overlong p ex'"
    by (intro not_overlong_same [of h env ex]) (auto simp: same_phases_def)
qed

lemma claim_same_phases: "same_phases ex (claimed h ex owner now t)"
  by (simp add: same_phases_def claimed_def)

lemma fail_same_phases: "same_phases ex (phase_failed p ex now)"
  by (simp add: same_phases_def phase_failed_def Let_def)

interpretation claim: execution_mutation h
  "\<lambda>ex env. claimPluginLifecycleExecutionV1 h ex env owner now d" for h owner now d
  by (rule same_phases_mutation) (auto simp: claim_result claim_same_phases)

interpretation renew: execution_mutation h
  "\<lambda>ex env. renewPluginLifecycleExecutionLeaseV1 h ex env owner now d" for h owner now d
  by (rule same_phases_mutation) (auto dest!: renew_result simp: claim_result claim_same_phases)

interpretation recover: execution_mutation h
  "\<lambda>ex env. recoverExpiredPluginLifecycleExecutionV1 h ex env now" for h now
  by (rule same_phases_mutation) (auto simp: recover_result same_phases_def split: if_splits)

interpretation fail: execution_mutation h
  "\<lambda>ex env. failPluginLifecycleExecutionV1 h ex env owner now" for h owner now
  by (rule same_phases_mutation) (auto simp: fail_result fail_same_phases)

lemma planMatches_completed: "assertPlanMatches h (phase_completed p ex phase now) env = assertPlanMatches h ex env"
  by (simp add: phase_completed_def Let_def)

interpretation complete: execution_mutation h
  "\<lambda>ex env. completePluginLifecyclePhaseV1 h ex env owner phase now" for h owner phase now
proof unfold_locales
  fix ex env ex' p
  assume run: "completePluginLifecyclePhaseV1 h ex env owner phase now = Inr ex'"
  then show "assertPlanMatches h ex' env = assertPlanMatches h ex env"
    by (auto simp: complete_result planMatches_completed)
  show "ex' = ex \<or> ex_revision ex' = ex_revision ex + 1"
    using run by (auto simp: complete_result phase_completed_def Let_def)
  assume "execution_ok h env ex" and p: "assertPlanMatches h ex env = Inr p"
  then have "checkpoint_ok p ex" by (auto simp: execution_ok_def)
  with run p show "\<not> overlong p ex'"
    by (auto simp: complete_result phase_completed_def Let_def overlong_def checkpoint_ok_def nth_opt_def
        split: if_splits)
qed

section \<open>The store over time\<close>

text \<open>\<open>JSON.parse\<close> gives an object each key once.\<close>

definition plan_file_keyed :: "store_file \<Rightarrow> bool" where
  "plan_file_keyed f = (case f of Json v \<Rightarrow> distinct (map fst (props_of (getp v ''plan''))) | _ \<Rightarrow> True)"

lemma readCurrentPlan_ok:
  "plan_file_keyed (fs_plan s) \<Longrightarrow> readCurrentPlan h s = Inr env \<Longrightarrow> envelope_ok h env"
  by (cases "fs_plan s") (auto simp: readCurrentPlan_def readJson_def plan_file_keyed_def parsed_envelope_ok)

lemma history_ok:
  "stored_ok h st \<Longrightarrow> e \<in> set (slice_last 100 (sr_history st @ [(sr_envelope st, sr_execution st)])) \<Longrightarrow> entry_ok h e"
  using set_slice_last [of 100 "sr_history st @ [(sr_envelope st, sr_execution st)]"]
  by (auto simp: stored_ok_def)

text \<open>What \<open>initialize\<close> does: nothing, or a fresh execution with the old one in the history.\<close>

lemma initialize_outcome:
  assumes h: "host_ok h" and keyed: "plan_file_keyed (fs_plan s)" and read: "readStored h s = Inr existing"
    and ok: "\<And>st. existing = Some st \<Longrightarrow> stored_ok h st"
    and run: "initialize h isDatetime executionId occurredAt supersede s = (r, s')"
  shows "s' = s \<or>
     (\<exists>env ex st. readCurrentPlan h s = Inr env \<and>
        createPluginLifecycleExecutionV1 h env executionId occurredAt = Inr ex \<and>
        holds h s' st \<and> sr_envelope st = env \<and> sr_execution st = ex \<and> fs_plan s' = fs_plan s \<and>
        (\<forall>old. existing = Some old \<longrightarrow> \<not> execution_active (sr_execution old) supersede \<and>
           last (sr_history st) = (sr_envelope old, sr_execution old)))"
proof (cases "s' = s")
  case False
  with run read obtain env ex where plan: "readCurrentPlan h s = Inr env"
    and create: "createPluginLifecycleExecutionV1 h env executionId occurredAt = Inr ex"
    and active: "\<And>old. existing = Some old \<Longrightarrow> \<not> execution_active (sr_execution old) supersede"
    and wrote: "s' = snd (writeStored h isDatetime \<lparr>sr_envelope = env, sr_execution = ex,
        sr_history = (case existing of None \<Rightarrow> []
          | Some st \<Rightarrow> slice_last 100 (sr_history st @ [(sr_envelope st, sr_execution st)]))\<rparr> s)"
    by (auto simp: initialize_def Let_def split: sum.splits if_splits option.splits prod.splits)
  have env: "envelope_ok h env" by (rule readCurrentPlan_ok [OF keyed plan])
  let ?history = "case existing of None \<Rightarrow> []
          | Some st \<Rightarrow> slice_last 100 (sr_history st @ [(sr_envelope st, sr_execution st)])"
  let ?st = "\<lparr>sr_envelope = env, sr_execution = ex, sr_history = ?history\<rparr>"
  have "\<forall>e \<in> set ?history. entry_ok h e"
    using ok history_ok by (cases existing) auto
  moreover have "entry_ok h (env, ex)" using create_ok [OF h env create] env by (simp add: entry_ok_def)
  moreover have "length ?history \<le> 100" by (simp add: length_slice_last split: option.split)
  ultimately have "stored_ok h ?st" by (simp add: stored_ok_def)
  moreover obtain w where "writeStored h isDatetime ?st s = (w, s')"
    by (rule that [of "fst (writeStored h isDatetime ?st s)"]) (simp add: wrote)
  ultimately have "holds h s' ?st" "fs_plan s' = fs_plan s"
    using writeStored_holds [OF h] by blast+
  moreover have "last ?history = (sr_envelope old, sr_execution old)" if "existing = Some old" for old
    using that by (simp add: slice_last_def)
  ultimately show ?thesis using plan create active
    by (intro disjI2 exI [of _ env] exI [of _ ex] exI [of _ ?st]) auto
qed simp

text \<open>
  Everything that changes the files: the store's own operations, and the installer
  writing another plan.
\<close>

inductive store_step :: "host \<Rightarrow> (string \<Rightarrow> bool) \<Rightarrow> file_store \<Rightarrow> file_store \<Rightarrow> bool"
  for h :: host and dt :: "string \<Rightarrow> bool" where
  step_initialize: "initialize h dt i t sp s = (r, s') \<Longrightarrow> store_step h dt s s'"
| step_claim: "store_claim h dt rv owner t d s = (r, s') \<Longrightarrow> store_step h dt s s'"
| step_renew: "store_renew h dt rv owner t d s = (r, s') \<Longrightarrow> store_step h dt s s'"
| step_complete: "store_complete h dt rv owner phase t s = (r, s') \<Longrightarrow> store_step h dt s s'"
| step_fail: "store_fail h dt rv owner t s = (r, s') \<Longrightarrow> store_step h dt s s'"
| step_recover: "store_recover h dt rv t s = (r, s') \<Longrightarrow> store_step h dt s s'"
| step_plan: "plan_file_keyed f \<Longrightarrow> store_step h dt s (s\<lparr>fs_plan := f\<rparr>)"

definition files_inv :: "host \<Rightarrow> file_store \<Rightarrow> bool" where
  "files_inv h s \<longleftrightarrow> plan_file_keyed (fs_plan s) \<and> store_inv h s"

lemma mutate_plan_file: "mutate h dt e m s = (r, s') \<Longrightarrow> fs_plan s' = fs_plan s"
  by (auto simp: mutate_def writeStored_def Let_def split: sum.splits option.splits if_splits prod.splits)

lemma initialize_inv:
  assumes h: "host_ok h" and inv: "files_inv h s"
    and run: "initialize h dt i t sp s = (r, s')"
  shows "files_inv h s'"
proof -
  obtain existing where read: "readStored h s = Inr existing"
    and ok: "\<And>st. existing = Some st \<Longrightarrow> stored_ok h st"
    using inv readStored_holds [OF h] readStored_absent
    by (auto simp: files_inv_def store_inv_def holds_def)
  from initialize_outcome [OF h _ read ok run] inv show ?thesis
    by (auto simp: files_inv_def store_inv_def)
qed

lemma store_step_inv: "store_step h dt s s' \<Longrightarrow> host_ok h \<Longrightarrow> files_inv h s \<Longrightarrow> files_inv h s'"
proof (induction rule: store_step.induct)
  case (step_initialize i t sp s r s')
  then show ?case by (blast intro: initialize_inv)
next
  case (step_plan f s)
  then show ?case by (simp add: files_inv_def store_inv_def holds_def)
qed (auto simp: files_inv_def store_claim_def store_renew_def store_complete_def store_fail_def
    store_recover_def dest: mutate_plan_file
    intro: claim.mutate_inv renew.mutate_inv complete.mutate_inv fail.mutate_inv recover.mutate_inv)

lemma store_reachable_inv:
  assumes "host_ok h" and "(store_step h dt)\<^sup>*\<^sup>* s s'" and "files_inv h s"
  shows "files_inv h s'"
  using assms(2,3) by (induction rule: rtranclp_induct) (auto intro: store_step_inv assms(1))

end
