(* ===== verification/Execution_Runner.thy ===== *)
theory Execution_Runner
  imports Store_Contract
begin

text \<open>
  The runner of lifecycle executions (\<open>executionRunner.ts\<close>) against its store port: it
  claims the execution and executes its phases one by one through a deployment adapter,
  which is not part of this repository and an argument here.
\<close>

section \<open>The store port\<close>

record 's store_port =
  sp_read :: "'s \<Rightarrow> exec_error + execution"
  sp_readPlan :: "'s \<Rightarrow> exec_error + envelope"
  sp_claim :: "int \<Rightarrow> string \<Rightarrow> string \<Rightarrow> jsval \<Rightarrow> 's \<Rightarrow> (exec_error + execution) \<times> 's"
  sp_renew :: "int \<Rightarrow> string \<Rightarrow> string \<Rightarrow> jsval \<Rightarrow> 's \<Rightarrow> (exec_error + execution) \<times> 's"
  sp_complete :: "int \<Rightarrow> string \<Rightarrow> phase \<Rightarrow> string \<Rightarrow> 's \<Rightarrow> (exec_error + execution) \<times> 's"
  sp_fail :: "int \<Rightarrow> string \<Rightarrow> string \<Rightarrow> 's \<Rightarrow> (exec_error + execution) \<times> 's"
  sp_recover :: "int \<Rightarrow> string \<Rightarrow> 's \<Rightarrow> (exec_error + execution) \<times> 's"

definition file_port :: "host \<Rightarrow> (string \<Rightarrow> bool) \<Rightarrow> file_store store_port" where
  "file_port h isDatetime =
     \<lparr>sp_read = store_read h, sp_readPlan = readCurrentPlan h,
      sp_claim = store_claim h isDatetime, sp_renew = store_renew h isDatetime,
      sp_complete = store_complete h isDatetime, sp_fail = store_fail h isDatetime,
      sp_recover = store_recover h isDatetime\<rparr>"

section \<open>The runner\<close>

record phase_context =
  ctx_executionId :: string
  ctx_idempotencyKey :: string
  ctx_desiredRevision :: int
  ctx_planSha256 :: string
  ctx_pluginId :: string
  ctx_operation :: operation
  ctx_phase :: phase
  ctx_leaseDurationMs :: jsval
  ctx_fromVersion :: "string option"
  ctx_toVersion :: "string option"
  ctx_fromDataSchema :: int
  ctx_toDataSchema :: int
  ctx_migrationImage :: "string option"
  ctx_dataAction :: "data_action option"

text \<open>
  The options of a run. \<open>ro_clock n\<close> is the \<open>n\<close>th reading of \<open>now().toISOString()\<close>. The
  adapter's \<open>executePhase\<close> calls \<open>renewLease\<close> some times and then returns or throws; it
  passes on an error of \<open>renewLease\<close>.
\<close>

record 's run_options =
  ro_store :: "'s store_port"
  ro_adapter :: "phase_context \<Rightarrow> nat \<times> bool"
  ro_owner :: string
  ro_leaseDurationMs :: jsval
  ro_clock :: "nat \<Rightarrow> string"

text \<open>The local variables and the world; \<open>rn_calls\<close> are the calls of the adapter so far.\<close>

record 's run_state =
  rn_store :: 's
  rn_tick :: nat
  rn_execution :: execution
  rn_calls :: "phase_context list"

definition exec_terminal :: "execution \<Rightarrow> bool" where
  "exec_terminal ex \<longleftrightarrow> ex_status ex = Succeeded \<or> ex_status ex = ManualIntervention"

text \<open>\<open>NaN\<close> compares as false.\<close>

definition exec_expired :: "host \<Rightarrow> execution \<Rightarrow> string \<Rightarrow> bool" where
  "exec_expired h ex occurredAt \<longleftrightarrow>
     truthy_str (ex_leaseExpiresAt ex) \<and>
     (case (dateParse h (the (ex_leaseExpiresAt ex)), dateParse h occurredAt) of
        (Some e, Some t) \<Rightarrow> e \<le> t | _ \<Rightarrow> False)"

definition read_clock :: "'s run_options \<Rightarrow> 's run_state \<Rightarrow> string" where
  "read_clock opts rs = ro_clock opts (rn_tick rs)"

definition ticked :: "'s run_state \<Rightarrow> 's run_state" where
  "ticked rs = rs\<lparr>rn_tick := Suc (rn_tick rs)\<rparr>"

definition context_of :: "'s run_options \<Rightarrow> plan \<Rightarrow> execution \<Rightarrow> phase \<Rightarrow> phase_context" where
  "context_of opts p ex phase =
     \<lparr>ctx_executionId = ex_executionId ex,
      ctx_idempotencyKey = ex_executionId ex @ '':'' @ phase_str phase,
      ctx_desiredRevision = ex_desiredRevision ex, ctx_planSha256 = ex_planSha256 ex,
      ctx_pluginId = ex_pluginId ex, ctx_operation = ex_operation ex, ctx_phase = phase,
      ctx_leaseDurationMs = ro_leaseDurationMs opts,
      ctx_fromVersion = pl_fromVersion p, ctx_toVersion = pl_toVersion p,
      ctx_fromDataSchema = pl_fromDataSchema p, ctx_toDataSchema = pl_toDataSchema p,
      ctx_migrationImage = pl_migrationImage p, ctx_dataAction = pl_dataAction p\<rparr>"

text \<open>One \<open>store.renew\<close> with a fresh reading of the clock, storing the execution.\<close>

definition renew_lease :: "'s run_options \<Rightarrow> 's run_state \<Rightarrow> (exec_error + unit) \<times> 's run_state" where
  "renew_lease opts rs =
     (case sp_renew (ro_store opts) (ex_revision (rn_execution rs)) (ro_owner opts)
             (read_clock opts rs) (ro_leaseDurationMs opts) (rn_store rs) of
        (Inl e, st) \<Rightarrow> (Inl e, (ticked rs)\<lparr>rn_store := st\<rparr>)
      | (Inr ex, st) \<Rightarrow> (Inr (), (ticked rs)\<lparr>rn_store := st, rn_execution := ex\<rparr>))"

fun renew_times :: "'s run_options \<Rightarrow> nat \<Rightarrow> 's run_state \<Rightarrow> bool \<times> 's run_state" where
  "renew_times opts 0 rs = (True, rs)"
| "renew_times opts (Suc n) rs =
     (case renew_lease opts rs of (Inl e, rs') \<Rightarrow> (False, rs') | (Inr u, rs') \<Rightarrow> renew_times opts n rs')"

text \<open>\<open>adapter.executePhase(context)\<close>: whether it returns.\<close>

definition execute_phase ::
  "'s run_options \<Rightarrow> phase_context \<Rightarrow> 's run_state \<Rightarrow> bool \<times> 's run_state" where
  "execute_phase opts ctx rs =
     (let (renewals, returns) = ro_adapter opts ctx;
          (renewed, rs') = renew_times opts renewals (rs\<lparr>rn_calls := rn_calls rs @ [ctx]\<rparr>)
      in (renewed \<and> returns, rs'))"

text \<open>The catch blocks: an expired lease is recovered, any other error is thrown.\<close>

definition or_recover ::
  "'s run_options \<Rightarrow> string \<Rightarrow> 's run_state \<Rightarrow> exec_error \<Rightarrow> (exec_error + execution) \<times> 's run_state" where
  "or_recover opts occurredAt rs e =
     (if e = ExecError LeaseExpired
      then (case sp_recover (ro_store opts) (ex_revision (rn_execution rs)) occurredAt (rn_store rs) of
              (r, st) \<Rightarrow> (r, rs\<lparr>rn_store := st\<rparr>))
      else (Inl e, rs))"

definition fail_phase :: "'s run_options \<Rightarrow> 's run_state \<Rightarrow> (exec_error + execution) \<times> 's run_state" where
  "fail_phase opts rs =
     (case sp_fail (ro_store opts) (ex_revision (rn_execution rs)) (ro_owner opts)
             (read_clock opts rs) (rn_store rs) of
        (Inr ex, st) \<Rightarrow> (Inr ex, (ticked rs)\<lparr>rn_store := st\<rparr>)
      | (Inl e, st) \<Rightarrow> or_recover opts (read_clock opts rs) ((ticked rs)\<lparr>rn_store := st\<rparr>) e)"

text \<open>One round of the loop; \<open>Inr\<close> continues, \<open>Inl\<close> leaves with the result.\<close>

definition run_round ::
  "'s run_options \<Rightarrow> plan \<Rightarrow> phase \<Rightarrow> 's run_state \<Rightarrow> ((exec_error + execution) + unit) \<times> 's run_state" where
  "run_round opts p phase rs =
     (case renew_lease opts rs of
        (Inl e, rs1) \<Rightarrow> (Inl (Inl e), rs1)
      | (Inr u, rs1) \<Rightarrow>
          (case execute_phase opts (context_of opts p (rn_execution rs1) phase) rs1 of
             (False, rs2) \<Rightarrow> (case fail_phase opts rs2 of (r, rs3) \<Rightarrow> (Inl r, rs3))
           | (True, rs2) \<Rightarrow>
               (case sp_complete (ro_store opts) (ex_revision (rn_execution rs2)) (ro_owner opts) phase
                       (read_clock opts rs2) (rn_store rs2) of
                  (Inr ex, st) \<Rightarrow> (Inr (), (ticked rs2)\<lparr>rn_store := st, rn_execution := ex\<rparr>)
                | (Inl e, st) \<Rightarrow>
                    (case or_recover opts (read_clock opts rs2) ((ticked rs2)\<lparr>rn_store := st\<rparr>) e of
                       (r, rs3) \<Rightarrow> (Inl r, rs3)))))"

text \<open>The loop with fuel: \<open>None\<close> when it runs out.\<close>

fun run_loop ::
  "'s run_options \<Rightarrow> plan \<Rightarrow> nat \<Rightarrow> 's run_state \<Rightarrow> (exec_error + execution) option \<times> 's run_state" where
  "run_loop opts p 0 rs = (None, rs)"
| "run_loop opts p (Suc fuel) rs =
     (if exec_terminal (rn_execution rs) then (Some (Inr (rn_execution rs)), rs)
      else case ex_nextPhase (rn_execution rs) of
        None \<Rightarrow> (Some (Inr (rn_execution rs)), rs)
      | Some phase \<Rightarrow>
          (case run_round opts p phase rs of
             (Inl r, rs') \<Rightarrow> (Some r, rs')
           | (Inr u, rs') \<Rightarrow> run_loop opts p fuel rs'))"

text \<open>Recovering and claiming before the loop.\<close>

definition recover_expired ::
  "host \<Rightarrow> 's run_options \<Rightarrow> string \<Rightarrow> 's run_state \<Rightarrow> (exec_error + unit) \<times> 's run_state" where
  "recover_expired h opts occurredAt rs =
     (if ex_status (rn_execution rs) = Running \<and> exec_expired h (rn_execution rs) occurredAt
      then (case sp_recover (ro_store opts) (ex_revision (rn_execution rs)) occurredAt (rn_store rs) of
              (Inl e, st) \<Rightarrow> (Inl e, rs\<lparr>rn_store := st\<rparr>)
            | (Inr ex, st) \<Rightarrow> (Inr (), rs\<lparr>rn_store := st, rn_execution := ex\<rparr>))
      else (Inr (), rs))"

definition claim_at ::
  "'s run_options \<Rightarrow> string \<Rightarrow> 's run_state \<Rightarrow> (exec_error + unit) \<times> 's run_state" where
  "claim_at opts occurredAt rs =
     (case sp_claim (ro_store opts) (ex_revision (rn_execution rs)) (ro_owner opts) occurredAt
             (ro_leaseDurationMs opts) (rn_store rs) of
        (Inl e, st) \<Rightarrow> (Inl e, rs\<lparr>rn_store := st\<rparr>)
      | (Inr ex, st) \<Rightarrow> (Inr (), rs\<lparr>rn_store := st, rn_execution := ex\<rparr>))"

definition prepare ::
  "host \<Rightarrow> 's run_options \<Rightarrow> 's run_state \<Rightarrow> (exec_error + unit) \<times> 's run_state" where
  "prepare h opts rs =
     (let occurredAt = read_clock opts rs
      in case recover_expired h opts occurredAt (ticked rs) of
           (Inl e, rs1) \<Rightarrow> (Inl e, rs1)
         | (Inr u, rs1) \<Rightarrow>
             if ex_status (rn_execution rs1) \<noteq> Running then claim_at opts (read_clock opts rs1) (ticked rs1)
             else if ex_leaseOwner (rn_execution rs1) \<noteq> Some (ro_owner opts) then claim_at opts occurredAt rs1
             else (Inr (), rs1))"

definition runPluginLifecycleExecutionV1 ::
  "host \<Rightarrow> 's run_options \<Rightarrow> nat \<Rightarrow> 's \<Rightarrow> (exec_error + execution) option \<times> phase_context list \<times> 's" where
  "runPluginLifecycleExecutionV1 h opts fuel st =
     (case sp_readPlan (ro_store opts) st of
        Inl e \<Rightarrow> (Some (Inl e), [], st)
      | Inr env \<Rightarrow>
          (case ev_plan env of
             None \<Rightarrow> (Some (Inl (ExecError PlanUnavailable)), [], st)
           | Some p \<Rightarrow>
               (case sp_read (ro_store opts) st of
                  Inl e \<Rightarrow> (Some (Inl e), [], st)
                | Inr ex \<Rightarrow>
                    if exec_terminal ex then (Some (Inr ex), [], st)
                    else
                      (case prepare h opts \<lparr>rn_store = st, rn_tick = 0, rn_execution = ex, rn_calls = []\<rparr> of
                         (Inl e, rs) \<Rightarrow> (Some (Inl e), rn_calls rs, rn_store rs)
                       | (Inr u, rs) \<Rightarrow>
                           (case run_loop opts p fuel rs of (r, rs') \<Rightarrow> (r, rn_calls rs', rn_store rs'))))))"

end
