(* ===== verification/Runner_Contract.thy ===== *)
theory Runner_Contract
  imports Execution_Runner
begin

text \<open>
  What the runner needs of its store, as a locale, and what it then guarantees: phases
  are executed in the order of the plan and only checkpointed after they were executed,
  the loop ends within as many rounds as the plan has phases left, and with a working
  adapter and a clock within the leases the execution succeeds.
\<close>

section \<open>The contract of the store\<close>

text \<open>
  \<open>stored_in s env ex\<close>: the store \<open>s\<close> holds the execution \<open>ex\<close> of \<open>env\<close>, which is still
  the current plan.
\<close>

locale execution_store =
  fixes h :: host and isDatetime :: "string \<Rightarrow> bool" and port :: "'s store_port"
    and stored_in :: "'s \<Rightarrow> envelope \<Rightarrow> execution \<Rightarrow> bool"
  assumes stored_ok: "stored_in s env ex \<Longrightarrow> envelope_ok h env \<and> execution_ok h env ex"
    and read_law: "stored_in s env ex \<Longrightarrow> sp_read port s = Inr ex"
    and renew_law: "stored_in s env ex \<Longrightarrow> sp_renew port rv owner t d s = (Inr ex', s') \<Longrightarrow>
      renewPluginLifecycleExecutionLeaseV1 h ex env owner t d = Inr ex' \<and> stored_in s' env ex'"
    and complete_law: "stored_in s env ex \<Longrightarrow> sp_complete port rv owner phase t s = (Inr ex', s') \<Longrightarrow>
      completePluginLifecyclePhaseV1 h ex env owner phase t = Inr ex' \<and> stored_in s' env ex'"
    and renew_error: "stored_in s env ex \<Longrightarrow> sp_renew port rv owner t d s = (Inl e, s') \<Longrightarrow>
      \<exists>ex'. stored_in s' env ex' \<and> ex_completedPhases ex' = ex_completedPhases ex"
    and fail_law: "stored_in s env ex \<Longrightarrow> sp_fail port rv owner t s = (Inr ex', s') \<Longrightarrow>
      failPluginLifecycleExecutionV1 h ex env owner t = Inr ex'"
    and recover_law: "stored_in s env ex \<Longrightarrow> sp_recover port rv t s = (Inr ex', s') \<Longrightarrow>
      recoverExpiredPluginLifecycleExecutionV1 h ex env t = Inr ex' \<and> stored_in s' env ex'"
    and claim_law: "stored_in s env ex \<Longrightarrow> sp_claim port rv owner t d s = (Inr ex', s') \<Longrightarrow>
      claimPluginLifecycleExecutionV1 h ex env owner t d = Inr ex' \<and> stored_in s' env ex'"
    and claim_live: "stored_in s env ex \<Longrightarrow>
      claimPluginLifecycleExecutionV1 h ex env owner t d = Inr ex' \<Longrightarrow> execution_ok h env ex' \<Longrightarrow>
      datetimes_ok isDatetime ex' \<Longrightarrow>
      \<exists>s'. sp_claim port (ex_revision ex) owner t d s = (Inr ex', s')"
    and fail_error: "stored_in s env ex \<Longrightarrow> sp_fail port rv owner t s = (Inl e, s') \<Longrightarrow>
      e \<noteq> ExecSchemaError \<Longrightarrow> s' = s"
    and complete_error: "stored_in s env ex \<Longrightarrow> sp_complete port rv owner phase t s = (Inl e, s') \<Longrightarrow>
      e \<noteq> ExecSchemaError \<Longrightarrow> s' = s"
    and renew_live: "stored_in s env ex \<Longrightarrow>
      renewPluginLifecycleExecutionLeaseV1 h ex env owner t d = Inr ex' \<Longrightarrow> execution_ok h env ex' \<Longrightarrow>
      datetimes_ok isDatetime ex' \<Longrightarrow>
      \<exists>s'. sp_renew port (ex_revision ex) owner t d s = (Inr ex', s')"
    and complete_live: "stored_in s env ex \<Longrightarrow>
      completePluginLifecyclePhaseV1 h ex env owner phase t = Inr ex' \<Longrightarrow> execution_ok h env ex' \<Longrightarrow>
      datetimes_ok isDatetime ex' \<Longrightarrow>
      \<exists>s'. sp_complete port (ex_revision ex) owner phase t s = (Inr ex', s')"

definition file_stored :: "host \<Rightarrow> file_store \<Rightarrow> envelope \<Rightarrow> execution \<Rightarrow> bool" where
  "file_stored h s env ex \<longleftrightarrow> host_ok h \<and> (\<exists>st. holds h s st \<and> sr_envelope st = env \<and> sr_execution st = ex \<and>
     assertCurrentPlan h s st = Inr ())"

lemma assertCurrentPlan_cong:
  "fs_plan s' = fs_plan s \<Longrightarrow> sr_envelope st' = sr_envelope st \<Longrightarrow>
     assertCurrentPlan h s' st' = assertCurrentPlan h s st"
  by (simp add: assertCurrentPlan_def readCurrentPlan_def)

lemma mutate_current:
  assumes "host_ok h" and "holds h s st" and "mutate h dt rv m s = (Inr ex', s')"
  shows "assertCurrentPlan h s st = Inr ()"
  using assms readStored_holds [OF assms(1,2)] by (auto simp: mutate_def split: sum.splits if_splits)

text \<open>A mutation that returned was applied to the stored execution.\<close>

lemma mutate_applied:
  assumes h: "host_ok h" and st: "holds h s st" and run: "mutate h dt rv m s = (Inr ex', s')"
  shows "m (sr_execution st) (sr_envelope st) = Inr ex'"
  using assms readStored_holds [OF h st]
  by (auto simp: mutate_def Let_def split: sum.splits if_splits prod.splits)

context execution_mutation
begin

lemma file_law:
  assumes "host_ok h" and "file_stored h s env ex" and "mutate h dt rv run s = (Inr ex', s')"
  shows "run ex env = Inr ex' \<and> file_stored h s' env ex'"
proof -
  from assms(2) obtain st where st: "holds h s st" "sr_envelope st = env" "sr_execution st = ex"
    and cur: "assertCurrentPlan h s st = Inr ()" by (auto simp: file_stored_def)
  have op: "run ex env = Inr ex'" using mutate_applied [OF assms(1) st(1) assms(3)] st by simp
  from mutate_outcome [OF assms(1) st(1) assms(3)]
  consider "s' = s" "ex' = ex" | "holds h s' (st\<lparr>sr_execution := ex'\<rparr>)" "fs_plan s' = fs_plan s"
    using st(3) by auto
  then show ?thesis
  proof cases
    case 1
    with op assms(2) show ?thesis by simp
  next
    case 2
    then have "assertCurrentPlan h s' (st\<lparr>sr_execution := ex'\<rparr>) = Inr ()"
      using cur assertCurrentPlan_cong [of s' s "st\<lparr>sr_execution := ex'\<rparr>" st] by simp
    with 2 op st assms(1) show ?thesis
      unfolding file_stored_def by (auto intro!: exI [of _ "st\<lparr>sr_execution := ex'\<rparr>"])
  qed
qed

lemma file_error:
  assumes "host_ok h" and "file_stored h s env ex" and "mutate h dt rv run s = (Inl e, s')"
    and "e \<noteq> ExecSchemaError"
  shows "s' = s"
proof -
  from assms(2) obtain st where st: "holds h s st" by (auto simp: file_stored_def)
  from mutate_outcome [OF assms(1) st assms(3)] assms(4) show ?thesis by auto
qed

text \<open>After an error the file holds the old execution or the result of the operation.\<close>

lemma file_kept:
  assumes "host_ok h" and "file_stored h s env ex" and "mutate h dt rv run s = (Inl e, s')"
  shows "file_stored h s' env ex \<or> (\<exists>ex'. run ex env = Inr ex' \<and> file_stored h s' env ex')"
proof -
  from assms(2) obtain st where st: "holds h s st" "sr_envelope st = env" "sr_execution st = ex"
    and cur: "assertCurrentPlan h s st = Inr ()" by (auto simp: file_stored_def)
  from mutate_outcome [OF assms(1) st(1) assms(3)] st
  consider "s' = s" | ex' where "run ex env = Inr ex'" "holds h s' (st\<lparr>sr_execution := ex'\<rparr>)" "fs_plan s' = fs_plan s"
    by auto
  then show ?thesis
  proof cases
    case 1
    with assms(2) show ?thesis by simp
  next
    case 2
    then have "assertCurrentPlan h s' (st\<lparr>sr_execution := ex'\<rparr>) = Inr ()"
      using cur assertCurrentPlan_cong [of s' s "st\<lparr>sr_execution := ex'\<rparr>" st] by simp
    with 2 st assms(1) have "file_stored h s' env ex'"
      unfolding file_stored_def by (auto intro!: exI [of _ "st\<lparr>sr_execution := ex'\<rparr>"])
    with 2 show ?thesis by blast
  qed
qed

lemma file_live:
  assumes "host_ok h" and "file_stored h s env ex" and "run ex env = Inr ex'"
    and "execution_ok h env ex'" and "datetimes_ok dt ex'"
  shows "\<exists>s'. mutate h dt (ex_revision ex) run s = (Inr ex', s')"
proof -
  from assms(2) obtain st where st: "holds h s st" "sr_envelope st = env" "sr_execution st = ex"
    and cur: "assertCurrentPlan h s st = Inr ()" by (auto simp: file_stored_def)
  show ?thesis using mutate_progress [OF assms(1) st(1) cur, of ex' dt] assms st by auto
qed

end

lemma renew_keeps_phases:
  "renewPluginLifecycleExecutionLeaseV1 h ex env owner t d = Inr ex' \<Longrightarrow>
     ex_completedPhases ex' = ex_completedPhases ex"
  by (auto dest!: renew_result simp: claim_result claimed_def)

lemma file_port_simps:
  "sp_read (file_port h dt) s = store_read h s"
  "sp_renew (file_port h dt) rv owner t d s =
     mutate h dt rv (\<lambda>ex env. renewPluginLifecycleExecutionLeaseV1 h ex env owner t d) s"
  "sp_complete (file_port h dt) rv owner phase t s =
     mutate h dt rv (\<lambda>ex env. completePluginLifecyclePhaseV1 h ex env owner phase t) s"
  "sp_claim (file_port h dt) rv owner t d s =
     mutate h dt rv (\<lambda>ex env. claimPluginLifecycleExecutionV1 h ex env owner t d) s"
  "sp_fail (file_port h dt) rv owner t s =
     mutate h dt rv (\<lambda>ex env. failPluginLifecycleExecutionV1 h ex env owner t) s"
  "sp_recover (file_port h dt) rv t s =
     mutate h dt rv (\<lambda>ex env. recoverExpiredPluginLifecycleExecutionV1 h ex env t) s"
  by (simp_all add: file_port_def store_renew_def store_complete_def store_fail_def store_recover_def store_claim_def)

lemma file_execution_store:
  "execution_store h dt (file_port h dt) (file_stored h)"
proof
  fix s env ex
  assume stored: "file_stored h s env ex"
  then have h: "host_ok h" by (simp add: file_stored_def)
  from stored show "envelope_ok h env \<and> execution_ok h env ex"
    by (auto simp: file_stored_def holds_def stored_ok_def entry_ok_def)
  show "sp_read (file_port h dt) s = Inr ex"
    using stored readStored_holds [OF h] by (auto simp: file_stored_def file_port_simps store_read_def)
  show "renewPluginLifecycleExecutionLeaseV1 h ex env owner t d = Inr ex' \<and> file_stored h s' env ex'"
    if "sp_renew (file_port h dt) rv owner t d s = (Inr ex', s')" for rv owner t d ex' s'
    using that unfolding file_port_simps by (rule renew.file_law [OF h stored])
  show "completePluginLifecyclePhaseV1 h ex env owner phase t = Inr ex' \<and> file_stored h s' env ex'"
    if "sp_complete (file_port h dt) rv owner phase t s = (Inr ex', s')" for rv owner phase t ex' s'
    using that unfolding file_port_simps by (rule complete.file_law [OF h stored])
  show "\<exists>ex'. file_stored h s' env ex' \<and> ex_completedPhases ex' = ex_completedPhases ex"
    if "sp_renew (file_port h dt) rv owner t d s = (Inl e, s')" for rv owner t d e s'
    using renew.file_kept [OF h stored, of dt rv owner t d e s'] that stored renew_keeps_phases
    unfolding file_port_simps by blast
  show "failPluginLifecycleExecutionV1 h ex env owner t = Inr ex'"
    if "sp_fail (file_port h dt) rv owner t s = (Inr ex', s')" for rv owner t ex' s'
    using that unfolding file_port_simps by (rule fail.file_law [OF h stored, THEN conjunct1])
  show "recoverExpiredPluginLifecycleExecutionV1 h ex env t = Inr ex' \<and> file_stored h s' env ex'"
    if "sp_recover (file_port h dt) rv t s = (Inr ex', s')" for rv t ex' s'
    using that unfolding file_port_simps by (rule recover.file_law [OF h stored])
  show "claimPluginLifecycleExecutionV1 h ex env owner t d = Inr ex' \<and> file_stored h s' env ex'"
    if "sp_claim (file_port h dt) rv owner t d s = (Inr ex', s')" for rv owner t d ex' s'
    using that unfolding file_port_simps by (rule claim.file_law [OF h stored])
  show "\<exists>s'. sp_claim (file_port h dt) (ex_revision ex) owner t d s = (Inr ex', s')"
    if "claimPluginLifecycleExecutionV1 h ex env owner t d = Inr ex'" "execution_ok h env ex'"
      "datetimes_ok dt ex'" for owner t d ex'
    unfolding file_port_simps by (rule claim.file_live [OF h stored that])
  show "s' = s" if "sp_fail (file_port h dt) rv owner t s = (Inl e, s')" "e \<noteq> ExecSchemaError" for rv owner t e s'
    using that unfolding file_port_simps by (rule fail.file_error [OF h stored])
  show "s' = s" if "sp_complete (file_port h dt) rv owner phase t s = (Inl e, s')" "e \<noteq> ExecSchemaError"
    for rv owner phase t e s'
    using that unfolding file_port_simps by (rule complete.file_error [OF h stored])
  show "\<exists>s'. sp_renew (file_port h dt) (ex_revision ex) owner t d s = (Inr ex', s')"
    if "renewPluginLifecycleExecutionLeaseV1 h ex env owner t d = Inr ex'" "execution_ok h env ex'"
      "datetimes_ok dt ex'" for owner t d ex'
    unfolding file_port_simps by (rule renew.file_live [OF h stored that])
  show "\<exists>s'. sp_complete (file_port h dt) (ex_revision ex) owner phase t s = (Inr ex', s')"
    if "completePluginLifecyclePhaseV1 h ex env owner phase t = Inr ex'" "execution_ok h env ex'"
      "datetimes_ok dt ex'" for owner phase t ex'
    unfolding file_port_simps by (rule complete.file_live [OF h stored that])
qed

section \<open>The loop\<close>

lemma fail_keeps_phases:
  assumes "failPluginLifecycleExecutionV1 h ex env owner t = Inr ex'"
  shows "ex_completedPhases ex' = ex_completedPhases ex \<and> ex_status ex' \<noteq> Succeeded"
proof -
  from assms obtain p where "ex' = phase_failed p ex t" by (auto simp: fail_result)
  then show ?thesis by (simp add: phase_failed_def Let_def)
qed

text \<open>Which calls of the adapter a step makes.\<close>

lemma calls_renew_lease: "renew_lease opts rs = (r, rs') \<Longrightarrow> rn_calls rs' = rn_calls rs"
  by (auto simp: renew_lease_def ticked_def split: prod.splits sum.splits)

lemma calls_renew_times: "renew_times opts n rs = (b, rs') \<Longrightarrow> rn_calls rs' = rn_calls rs"
proof (induction n arbitrary: rs)
  case (Suc n)
  obtain r rs1 where r: "renew_lease opts rs = (r, rs1)" by fastforce
  with Suc calls_renew_lease [OF r] show ?case by (cases r) auto
qed simp

lemma calls_execute_phase: "execute_phase opts ctx rs = (b, rs') \<Longrightarrow> rn_calls rs' = rn_calls rs @ [ctx]"
  by (auto simp: execute_phase_def split: prod.splits dest!: calls_renew_times)

lemma calls_or_recover: "or_recover opts t rs e = (r, rs') \<Longrightarrow> rn_calls rs' = rn_calls rs"
  by (auto simp: or_recover_def split: prod.splits if_splits)

lemma calls_fail_phase: "fail_phase opts rs = (r, rs') \<Longrightarrow> rn_calls rs' = rn_calls rs"
  by (auto simp: fail_phase_def ticked_def split: prod.splits sum.splits dest!: calls_or_recover)

context execution_store
begin

text \<open>What holds between the rounds: the local execution is the stored one.\<close>

definition in_step :: "envelope \<Rightarrow> plan \<Rightarrow> 's run_state \<Rightarrow> bool" where
  "in_step env p rs \<longleftrightarrow> stored_in (rn_store rs) env (rn_execution rs) \<and>
     assertPlanMatches h (rn_execution rs) env = Inr p \<and> checkpoint_ok p (rn_execution rs)"

definition completed_count :: "'s run_state \<Rightarrow> nat" where
  "completed_count rs = length (ex_completedPhases (rn_execution rs))"

lemma in_step_stored:
  assumes "stored_in s env ex" and "assertPlanMatches h ex env = Inr p"
  shows "checkpoint_ok p ex"
  using stored_ok [OF assms(1)] assms(2) by (auto simp: execution_ok_def)

lemma renew_lease_step:
  assumes port: "ro_store opts = port" and inv: "in_step env p rs"
    and run: "renew_lease opts rs = (Inr u, rs')"
  shows "in_step env p rs' \<and> completed_count rs' = completed_count rs \<and> rn_calls rs' = rn_calls rs \<and>
     ex_nextPhase (rn_execution rs') = ex_nextPhase (rn_execution rs) \<and>
     ex_completedPhases (rn_execution rs') = ex_completedPhases (rn_execution rs)"
proof -
  from inv have st: "stored_in (rn_store rs) env (rn_execution rs)"
    and p: "assertPlanMatches h (rn_execution rs) env = Inr p" by (simp_all add: in_step_def)
  from run obtain ex s' where re: "sp_renew port (ex_revision (rn_execution rs)) (ro_owner opts)
      (read_clock opts rs) (ro_leaseDurationMs opts) (rn_store rs) = (Inr ex, s')"
    and rs': "rs' = (ticked rs)\<lparr>rn_store := s', rn_execution := ex\<rparr>"
    by (auto simp: renew_lease_def port split: prod.splits sum.splits)
  from renew_law [OF st re] have "stored_in s' env ex"
    and cl: "claimPluginLifecycleExecutionV1 h (rn_execution rs) env (ro_owner opts) (read_clock opts rs)
      (ro_leaseDurationMs opts) = Inr ex"
    by (auto dest: renew_result)
  moreover have "assertPlanMatches h ex env = Inr p" using claim.same_plan [OF cl] p by simp
  ultimately show ?thesis
    using cl by (auto simp: rs' in_step_def ticked_def completed_count_def claim_result claimed_def
        intro: in_step_stored)
qed

lemma renew_times_step:
  assumes "ro_store opts = port"
  shows "in_step env p rs \<Longrightarrow> renew_times opts n rs = (True, rs') \<Longrightarrow>
     in_step env p rs' \<and> completed_count rs' = completed_count rs \<and> rn_calls rs' = rn_calls rs"
proof (induction n arbitrary: rs)
  case 0
  then show ?case by simp
next
  case (Suc n)
  then obtain u rs1 where r: "renew_lease opts rs = (Inr u, rs1)" and rest: "renew_times opts n rs1 = (True, rs')"
    by (auto split: prod.splits sum.splits)
  from renew_lease_step [OF assms Suc.prems(1) r] Suc.IH [OF _ rest] show ?case by auto
qed

text \<open>A round that continues has executed the next phase and checkpointed it.\<close>

lemma run_round_continues:
  assumes port: "ro_store opts = port" and inv: "in_step env p rs"
    and nxt: "ex_nextPhase (rn_execution rs) = Some phase"
    and run: "run_round opts q phase rs = (Inr u, rs')"
  shows "in_step env p rs' \<and> completed_count rs' = Suc (completed_count rs) \<and>
     (\<exists>ctx. rn_calls rs' = rn_calls rs @ [ctx] \<and> ctx_phase ctx = phase)"
proof -
  from run obtain u1 rs1 rs2 ex st where r1: "renew_lease opts rs = (Inr u1, rs1)"
    and r2: "execute_phase opts (context_of opts q (rn_execution rs1) phase) rs1 = (True, rs2)"
    and r3: "sp_complete port (ex_revision (rn_execution rs2)) (ro_owner opts) phase
        (read_clock opts rs2) (rn_store rs2) = (Inr ex, st)"
    and rs': "rs' = (ticked rs2)\<lparr>rn_store := st, rn_execution := ex\<rparr>"
    by (auto simp: run_round_def port split: prod.splits sum.splits bool.splits)
  note s1 = renew_lease_step [OF port inv r1]
  let ?ctx = "context_of opts q (rn_execution rs1) phase"
  from r2 obtain n where "renew_times opts n (rs1\<lparr>rn_calls := rn_calls rs1 @ [?ctx]\<rparr>) = (True, rs2)"
    by (auto simp: execute_phase_def split: prod.splits)
  from renew_times_step [OF port _ this, of env p] s1
  have s2: "in_step env p rs2" "completed_count rs2 = completed_count rs"
    "rn_calls rs2 = rn_calls rs @ [?ctx]"
    by (auto simp: in_step_def completed_count_def)
  from s2(1) have st2: "stored_in (rn_store rs2) env (rn_execution rs2)"
    and p: "assertPlanMatches h (rn_execution rs2) env = Inr p" by (simp_all add: in_step_def)
  from complete_law [OF st2 r3] have co: "completePluginLifecyclePhaseV1 h (rn_execution rs2) env
      (ro_owner opts) phase (read_clock opts rs2) = Inr ex" and "stored_in st env ex" by auto
  moreover have "assertPlanMatches h ex env = Inr p" using complete.same_plan [OF co] p by simp
  moreover have "length (ex_completedPhases ex) = Suc (completed_count rs2)"
    using co by (auto simp: complete_result phase_completed_def completed_count_def Let_def)
  ultimately show ?thesis
    using s2 by (auto simp: rs' in_step_def completed_count_def ticked_def context_of_def intro: in_step_stored)
qed

text \<open>A result of the catch blocks has the completed phases of the local execution.\<close>

lemma or_recover_result:
  assumes "ro_store opts = port" and "stored_in (rn_store rs) env ex"
    and "or_recover opts t rs e = (Inr ex', rs')"
  shows "ex_completedPhases ex' = ex_completedPhases ex \<and> ex_status ex' \<noteq> Succeeded"
  using assms recover_law by (fastforce simp: or_recover_def recover_result split: prod.splits if_splits)

lemma fail_phase_result:
  assumes port: "ro_store opts = port" and st: "stored_in (rn_store rs) env ex"
    and run: "fail_phase opts rs = (Inr ex', rs')"
  shows "ex_completedPhases ex' = ex_completedPhases ex \<and> ex_status ex' \<noteq> Succeeded"
proof -
  obtain r s' where f: "sp_fail port (ex_revision (rn_execution rs)) (ro_owner opts) (read_clock opts rs)
      (rn_store rs) = (r, s')" by fastforce
  show ?thesis
  proof (cases r)
    case (Inr ex1)
    with f have "failPluginLifecycleExecutionV1 h ex env (ro_owner opts) (read_clock opts rs) = Inr ex1"
      using fail_law [OF st] by blast
    moreover have "ex' = ex1" using run f Inr by (simp add: fail_phase_def port)
    ultimately show ?thesis using fail_keeps_phases by blast
  next
    case (Inl e)
    with run f have rec: "or_recover opts (read_clock opts rs) ((ticked rs)\<lparr>rn_store := s'\<rparr>) e = (Inr ex', rs')"
      by (simp add: fail_phase_def port)
    then have "e = ExecError LeaseExpired" by (auto simp: or_recover_def split: if_splits)
    then have "s' = rn_store rs" using fail_error [OF st] f Inl by blast
    with or_recover_result [OF port _ rec, of env ex] st show ?thesis by simp
  qed
qed

text \<open>Renewals, complete or broken off, leave the store with the same completed phases.\<close>

lemma renew_times_stored:
  assumes port: "ro_store opts = port"
  shows "in_step env p rs \<Longrightarrow> renew_times opts n rs = (b, rs') \<Longrightarrow>
     \<exists>ex. stored_in (rn_store rs') env ex \<and> ex_completedPhases ex = ex_completedPhases (rn_execution rs)"
proof (induction n arbitrary: rs)
  case 0
  then show ?case by (auto simp: in_step_def)
next
  case (Suc n)
  obtain r rs1 where r: "renew_lease opts rs = (r, rs1)" by fastforce
  show ?case
  proof (cases r)
    case (Inl e)
    with r Suc.prems show ?thesis
      by (auto simp: renew_lease_def port in_step_def dest: renew_error split: prod.splits sum.splits)
  next
    case (Inr u)
    with renew_lease_step [OF port Suc.prems(1)] r
    have step: "in_step env p rs1" "ex_completedPhases (rn_execution rs1) = ex_completedPhases (rn_execution rs)"
      by auto
    from Suc.IH [OF step(1)] Suc.prems(2) r Inr step(2) show ?thesis by simp
  qed
qed

text \<open>A round that leaves the loop called the adapter for the next phase, or not at all.\<close>

lemma run_round_leaves:
  assumes port: "ro_store opts = port" and inv: "in_step env p rs"
    and run: "run_round opts q phase rs = (Inl r, rs')"
  shows "(rn_calls rs' = rn_calls rs \<and> (\<exists>e. r = Inl e) \<or>
      (\<exists>ctx. rn_calls rs' = rn_calls rs @ [ctx] \<and> ctx_phase ctx = phase)) \<and>
     (\<forall>ex. r = Inr ex \<longrightarrow> ex_completedPhases ex = ex_completedPhases (rn_execution rs) \<and> ex_status ex \<noteq> Succeeded)"
proof -
  obtain r1 rs1 where r1: "renew_lease opts rs = (r1, rs1)" by fastforce
  show ?thesis
  proof (cases r1)
    case (Inl e)
    with run r1 calls_renew_lease [OF r1] show ?thesis by (auto simp: run_round_def)
  next
    case (Inr u)
    with r1 have "renew_lease opts rs = (Inr u, rs1)" by simp
    note s1 = renew_lease_step [OF port inv this]
    let ?ctx = "context_of opts q (rn_execution rs1) phase"
    obtain b rs2 where r2: "execute_phase opts ?ctx rs1 = (b, rs2)" by fastforce
    have calls: "rn_calls rs2 = rn_calls rs @ [?ctx]" using calls_execute_phase [OF r2] s1 by simp
    have "\<exists>ex. stored_in (rn_store rs2) env ex \<and> ex_completedPhases ex = ex_completedPhases (rn_execution rs1)"
      using r2 renew_times_stored [OF port, of env p "rs1\<lparr>rn_calls := rn_calls rs1 @ [?ctx]\<rparr>"] s1
      by (auto simp: execute_phase_def in_step_def split: prod.splits)
    then obtain ex2 where ex2: "stored_in (rn_store rs2) env ex2"
      "ex_completedPhases ex2 = ex_completedPhases (rn_execution rs)" using s1 by auto
    show ?thesis
    proof (cases b)
      case False
      with run r1 Inr r2 have f: "fail_phase opts rs2 = (r, rs')" by (auto simp: run_round_def split: prod.splits)
      with calls_fail_phase [OF f] calls fail_phase_result [OF port ex2(1)] ex2(2) show ?thesis
        by (auto simp: context_of_def)
    next
      case True
      obtain rc st where co: "sp_complete port (ex_revision (rn_execution rs2)) (ro_owner opts) phase
          (read_clock opts rs2) (rn_store rs2) = (rc, st)" by fastforce
      show ?thesis
      proof (cases rc)
        case (Inr ex)
        with run r1 \<open>r1 = Inr u\<close> r2 True co show ?thesis by (simp add: run_round_def port)
      next
        case (Inl e)
        with run r1 \<open>r1 = Inr u\<close> r2 True co
        have rec: "or_recover opts (read_clock opts rs2) ((ticked rs2)\<lparr>rn_store := st\<rparr>) e = (r, rs')"
          by (auto simp: run_round_def port split: prod.splits)
        have "ex_completedPhases ex = ex_completedPhases ex2 \<and> ex_status ex \<noteq> Succeeded" if "r = Inr ex" for ex
        proof -
          from that rec have "e = ExecError LeaseExpired" by (auto simp: or_recover_def split: if_splits)
          then have "st = rn_store rs2" using complete_error [OF ex2(1)] co Inl by blast
          with or_recover_result [OF port _ rec [unfolded that], of env ex2] ex2(1) show ?thesis by simp
        qed
        with calls_or_recover [OF rec] calls ex2(2) show ?thesis by (auto simp: context_of_def ticked_def)
      qed
    qed
  qed
qed

text \<open>
  The whole loop: the phases executed are those of the plan from the checkpoint on, and the
  result checkpoints none that was not executed.
\<close>

definition runs_from :: "plan \<Rightarrow> nat \<Rightarrow> phase list \<Rightarrow> (exec_error + execution) option \<Rightarrow> bool" where
  "runs_from p n executed r \<longleftrightarrow>
     (\<exists>k. n + k \<le> length (pl_phases p) \<and> executed = take k (drop n (pl_phases p)) \<and>
        (\<forall>ex. r = Some (Inr ex) \<longrightarrow>
           (\<exists>c. ex_completedPhases ex = take c (pl_phases p) \<and> c \<le> n + k \<and> n + k \<le> Suc c \<and>
              (ex_status ex = Succeeded \<longrightarrow> c = length (pl_phases p)))))"

lemma nextPhase_Some:
  "in_step env p rs \<Longrightarrow> ex_nextPhase (rn_execution rs) = Some phase \<Longrightarrow>
     completed_count rs < length (pl_phases p) \<and> phase = pl_phases p ! completed_count rs"
  by (auto simp: in_step_def checkpoint_ok_def nth_opt_def completed_count_def Let_def split: if_splits)

lemma runs_from_stop:
  assumes "in_step env p rs"
  shows "runs_from p (completed_count rs) [] (Some (Inr (rn_execution rs)))"
proof -
  have "checkpoint_ok p (rn_execution rs)" using assms by (simp add: in_step_def)
  then show ?thesis
    unfolding runs_from_def completed_count_def checkpoint_ok_def Let_def
    by (intro exI [of _ "0::nat"]) (auto intro!: exI [of _ "length (ex_completedPhases (rn_execution rs))"])
qed

lemma take_one_drop: "n < length xs \<Longrightarrow> take (Suc k) (drop n xs) = xs ! n # take k (drop (Suc n) xs)"
  by (simp add: Cons_nth_drop_Suc [symmetric])

lemma run_loop_order:
  assumes port: "ro_store opts = port"
  shows "in_step env p rs \<Longrightarrow> run_loop opts q fuel rs = (r, rs') \<Longrightarrow>
     \<exists>calls. rn_calls rs' = rn_calls rs @ calls \<and> runs_from p (completed_count rs) (map ctx_phase calls) r"
proof (induction fuel arbitrary: rs)
  case 0
  then have "completed_count rs \<le> length (pl_phases p)"
    by (simp add: in_step_def checkpoint_ok_def completed_count_def Let_def)
  with 0 show ?case by (auto simp: runs_from_def intro: exI [of _ "0::nat"])
next
  case (Suc fuel)
  show ?case
  proof (cases "exec_terminal (rn_execution rs) \<or> ex_nextPhase (rn_execution rs) = None")
    case True
    with Suc.prems(2) have "r = Some (Inr (rn_execution rs))" "rs' = rs" by (auto split: if_splits)
    with runs_from_stop [OF Suc.prems(1)] show ?thesis by simp
  next
    case False
    then obtain phase where nxt: "ex_nextPhase (rn_execution rs) = Some phase" by auto
    note here = nextPhase_Some [OF Suc.prems(1) nxt]
    obtain res rs1 where round: "run_round opts q phase rs = (res, rs1)" by fastforce
    show ?thesis
    proof (cases res)
      case (Inl r')
      with Suc.prems(2) False nxt round have eq: "r = Some r'" "rs' = rs1" by auto
      from round Inl have "run_round opts q phase rs = (Inl r', rs1)" by simp
      note leave = run_round_leaves [OF port Suc.prems(1) this]
      have "checkpoint_ok p (rn_execution rs)" using Suc.prems(1) by (simp add: in_step_def)
      then have prefix: "ex_completedPhases (rn_execution rs) = take (completed_count rs) (pl_phases p)"
        by (simp add: checkpoint_ok_def completed_count_def Let_def)
      from leave consider (none) e where "rn_calls rs1 = rn_calls rs" "r' = Inl e"
        | (one) ctx where "rn_calls rs1 = rn_calls rs @ [ctx]" "ctx_phase ctx = phase" by auto
      then show ?thesis
      proof cases
        case none
        with here eq show ?thesis by (auto simp: runs_from_def intro: exI [of _ "0::nat"])
      next
        case one
        have "runs_from p (completed_count rs) [phase] r"
          unfolding runs_from_def eq
          using here leave prefix take_one_drop [of "completed_count rs" "pl_phases p" 0]
          by (intro exI [of _ "1::nat"]) (auto intro!: exI [of _ "completed_count rs"])
        with one eq show ?thesis by auto
      qed
    next
      case (Inr u)
      with round have "run_round opts q phase rs = (Inr u, rs1)" by simp
      note cont = run_round_continues [OF port Suc.prems(1) nxt this]
      from Suc.prems(2) False nxt round Inr have "run_loop opts q fuel rs1 = (r, rs')" by simp
      with Suc.IH [OF _ this] cont obtain calls where calls: "rn_calls rs' = rn_calls rs1 @ calls"
        and rest: "runs_from p (Suc (completed_count rs)) (map ctx_phase calls) r" by auto
      from cont obtain ctx where ctx: "rn_calls rs1 = rn_calls rs @ [ctx]" "ctx_phase ctx = phase" by auto
      from rest obtain k where k: "Suc (completed_count rs) + k \<le> length (pl_phases p)"
        "map ctx_phase calls = take k (drop (Suc (completed_count rs)) (pl_phases p))"
        and res: "\<forall>ex. r = Some (Inr ex) \<longrightarrow>
           (\<exists>c. ex_completedPhases ex = take c (pl_phases p) \<and> c \<le> Suc (completed_count rs) + k \<and>
              Suc (completed_count rs) + k \<le> Suc c \<and> (ex_status ex = Succeeded \<longrightarrow> c = length (pl_phases p)))"
        unfolding runs_from_def by blast
      have "runs_from p (completed_count rs) (map ctx_phase (ctx # calls)) r"
        unfolding runs_from_def
        using k res here ctx take_one_drop [of "completed_count rs" "pl_phases p" k]
        by (intro exI [of _ "Suc k"]) auto
      with calls ctx show ?thesis by auto
    qed
  qed
qed

text \<open>The loop ends: one round per phase left is enough fuel.\<close>

lemma run_loop_ends:
  assumes port: "ro_store opts = port"
  shows "in_step env p rs \<Longrightarrow> length (pl_phases p) < completed_count rs + fuel \<Longrightarrow>
     fst (run_loop opts q fuel rs) \<noteq> None"
proof (induction fuel arbitrary: rs)
  case 0
  then show ?case by (simp add: in_step_def checkpoint_ok_def completed_count_def Let_def)
next
  case (Suc fuel)
  show ?case
  proof (cases "exec_terminal (rn_execution rs)")
    case False
    show ?thesis
    proof (cases "ex_nextPhase (rn_execution rs)")
      case (Some phase)
      obtain res rs1 where round: "run_round opts q phase rs = (res, rs1)" by fastforce
      show ?thesis
      proof (cases res)
        case (Inr u)
        with round have "run_round opts q phase rs = (Inr u, rs1)" by simp
        from run_round_continues [OF port Suc.prems(1) Some this] Suc.IH [of rs1] Suc.prems False Some round Inr
        show ?thesis by simp
      qed (use False Some round in simp)
    qed (use False in simp)
  qed simp
qed

section \<open>A working adapter and clock\<close>

text \<open>
  The readings of the clock are in order and no three of them span a lease; the lease
  duration is one the store accepts.
\<close>

definition good_clock :: "'s run_options \<Rightarrow> (nat \<Rightarrow> int) \<Rightarrow> int \<Rightarrow> bool" where
  "good_clock opts t d \<longleftrightarrow>
     host_ok h \<and> ro_leaseDurationMs opts = JInt d \<and> 1000 \<le> d \<and> d \<le> 300000 \<and> opaque_id 8 200 (ro_owner opts) \<and>
     (\<forall>n. dateParse h (ro_clock opts n) = Some (t n) \<and> isDatetime (ro_clock opts n) \<and>
        isDatetime (isoOfDate h (t n + d)) \<and> \<bar>t n + d\<bar> \<le> max_time \<and>
        t n \<le> t (Suc n) \<and> t (Suc (Suc n)) < t n + d)"

text \<open>The run holds the lease, for \<open>k\<close> more readings.\<close>

definition leased :: "'s run_options \<Rightarrow> (nat \<Rightarrow> int) \<Rightarrow> nat \<Rightarrow> 's run_state \<Rightarrow> bool" where
  "leased opts t k rs \<longleftrightarrow>
     ex_status (rn_execution rs) = Running \<and> ex_leaseOwner (rn_execution rs) = Some (ro_owner opts) \<and>
     (\<exists>s e c. ex_leaseExpiresAt (rn_execution rs) = Some s \<and> isDatetime s \<and> dateParse h s = Some e \<and>
        t (rn_tick rs + k) < e \<and> dateParse h (ex_createdAt (rn_execution rs)) = Some c \<and> c \<le> t (rn_tick rs))"

lemma good_clock_mono:
  assumes "good_clock opts t d"
  shows "t n \<le> t (n + k)"
proof (induction k)
  case (Suc k)
  have "t (n + k) \<le> t (Suc (n + k))" using assms by (simp add: good_clock_def)
  with Suc show ?case by simp
qed simp

lemma leased_lease:
  assumes "good_clock opts t d" and "leased opts t k rs"
  shows "assertLease h (rn_execution rs) (ro_owner opts) (read_clock opts rs) = Inr ()"
    and "not_before h (rn_execution rs) (read_clock opts rs)"
proof -
  have "t (rn_tick rs) \<le> t (rn_tick rs + k)" using good_clock_mono [OF assms(1)] by blast
  with assms show "assertLease h (rn_execution rs) (ro_owner opts) (read_clock opts rs) = Inr ()"
    using dateParse_not_Nil [of h]
    by (fastforce simp: leased_def good_clock_def assertLease_ok read_clock_def dest: opaque_id_not_Nil)
  show "not_before h (rn_execution rs) (read_clock opts rs)"
    using assms by (auto simp: leased_def good_clock_def not_before_def read_clock_def)
qed

lemma renew_lease_live:
  assumes port: "ro_store opts = port" and clock: "good_clock opts t d"
    and inv: "in_step env p rs" and lease: "leased opts t k rs"
  shows "\<exists>rs'. renew_lease opts rs = (Inr (), rs') \<and> leased opts t 1 rs'"
proof -
  let ?ex = "rn_execution rs" and ?now = "read_clock opts rs" and ?t = "t (rn_tick rs)"
  let ?ex' = "claimed h ?ex (ro_owner opts) ?now (?t + d)"
  note l = leased_lease [OF clock lease]
  have host: "host_ok h" using clock by (simp add: good_clock_def)
  from inv have st: "stored_in (rn_store rs) env ?ex" and p: "assertPlanMatches h ?ex env = Inr p"
    by (simp_all add: in_step_def)
  have "claimPluginLifecycleExecutionV1 h ?ex env (ro_owner opts) ?now (ro_leaseDurationMs opts) = Inr ?ex'"
    using clock p lease
    by (auto simp: claim_result leased_def good_clock_def read_clock_def lease_free_for_def)
  moreover from this have ok: "execution_ok h env ?ex'"
    using claim_ok [OF host _ l(2)] stored_ok [OF st] by blast
  ultimately have re: "renewPluginLifecycleExecutionLeaseV1 h ?ex env (ro_owner opts) ?now
      (ro_leaseDurationMs opts) = Inr ?ex'"
    using p l(1) by (simp add: renewPluginLifecycleExecutionLeaseV1_def)
  moreover have "datetimes_ok isDatetime ?ex'"
    using clock by (simp add: datetimes_ok_def claimed_def good_clock_def read_clock_def)
  ultimately obtain s' where "sp_renew port (ex_revision ?ex) (ro_owner opts) ?now (ro_leaseDurationMs opts)
      (rn_store rs) = (Inr ?ex', s')"
    using renew_live [OF st _ ok] by blast
  then have "renew_lease opts rs = (Inr (), (ticked rs)\<lparr>rn_store := s', rn_execution := ?ex'\<rparr>)"
    by (simp add: renew_lease_def port)
  moreover have "leased opts t 1 ((ticked rs)\<lparr>rn_store := s', rn_execution := ?ex'\<rparr>)"
  proof -
    from lease obtain c where "dateParse h (ex_createdAt ?ex) = Some c" "c \<le> ?t" by (auto simp: leased_def)
    moreover have "?t \<le> t (Suc (rn_tick rs))" "t (Suc (Suc (rn_tick rs))) < ?t + d"
      "dateParse h (isoOfDate h (?t + d)) = Some (?t + d)" "isDatetime (isoOfDate h (?t + d))"
      using clock host by (simp_all add: good_clock_def host_ok_def)
    ultimately show ?thesis by (simp add: leased_def claimed_def ticked_def)
  qed
  ultimately show ?thesis by blast
qed

lemma renew_times_live:
  assumes port: "ro_store opts = port" and clock: "good_clock opts t d"
  shows "in_step env p rs \<Longrightarrow> leased opts t 1 rs \<Longrightarrow>
     \<exists>rs'. renew_times opts n rs = (True, rs') \<and> leased opts t 1 rs'"
proof (induction n arbitrary: rs)
  case 0
  then show ?case by simp
next
  case (Suc n)
  from renew_lease_live [OF port clock Suc.prems] obtain rs1
    where r: "renew_lease opts rs = (Inr (), rs1)" and "leased opts t 1 rs1" by blast
  with Suc.IH [of rs1] renew_lease_step [OF port Suc.prems(1) r] show ?case by simp
qed

lemma run_round_live:
  assumes port: "ro_store opts = port" and clock: "good_clock opts t d"
    and adapter: "\<And>ctx. snd (ro_adapter opts ctx)"
    and inv: "in_step env p rs" and lease: "leased opts t 0 rs"
    and nxt: "ex_nextPhase (rn_execution rs) = Some phase"
  shows "\<exists>rs'. run_round opts q phase rs = (Inr (), rs') \<and>
     (leased opts t 0 rs' \<or> ex_status (rn_execution rs') = Succeeded)"
proof -
  from renew_lease_live [OF port clock inv lease] obtain rs1
    where r1: "renew_lease opts rs = (Inr (), rs1)" and l1: "leased opts t 1 rs1" by blast
  note s1 = renew_lease_step [OF port inv r1]
  let ?ctx = "context_of opts q (rn_execution rs1) phase"
  let ?rs1 = "rs1\<lparr>rn_calls := rn_calls rs1 @ [?ctx]\<rparr>"
  have inv1: "in_step env p ?rs1" and "leased opts t 1 ?rs1"
    using s1 l1 by (simp_all add: in_step_def leased_def)
  then obtain rs2 where rt: "renew_times opts (fst (ro_adapter opts ?ctx)) ?rs1 = (True, rs2)"
    and l2: "leased opts t 1 rs2" using renew_times_live [OF port clock] by blast
  then have r2: "execute_phase opts ?ctx rs1 = (True, rs2)"
    using adapter [of ?ctx] by (cases "ro_adapter opts ?ctx") (simp add: execute_phase_def)
  note s2 = renew_times_step [OF port inv1 rt]
  let ?ex = "rn_execution rs2" and ?now = "read_clock opts rs2"
  from s2 have st: "stored_in (rn_store rs2) env ?ex" and p: "assertPlanMatches h ?ex env = Inr p"
    and cp: "checkpoint_ok p ?ex" by (simp_all add: in_step_def)
  have "checkpoint_ok p (rn_execution rs)" using inv by (simp add: in_step_def)
  with cp s1 s2 nxt have nxt2: "ex_nextPhase ?ex = Some phase"
    by (simp add: checkpoint_ok_def completed_count_def Let_def)
  let ?ex' = "phase_completed p ?ex phase ?now"
  note l = leased_lease [OF clock l2]
  have co: "completePluginLifecyclePhaseV1 h ?ex env (ro_owner opts) phase ?now = Inr ?ex'"
    using l(1) p nxt2 by (simp add: complete_result)
  have ok: "execution_ok h env ?ex'" using complete_ok [OF _ l(2) co] stored_ok [OF st] by blast
  have "datetimes_ok isDatetime ?ex'"
    using clock l2 by (auto simp: datetimes_ok_def phase_completed_def Let_def good_clock_def read_clock_def leased_def)
  from complete_live [OF st co ok this] obtain s'
    where "sp_complete port (ex_revision ?ex) (ro_owner opts) phase ?now (rn_store rs2) = (Inr ?ex', s')" by blast
  with r1 r2 have round: "run_round opts q phase rs =
      (Inr (), (ticked rs2)\<lparr>rn_store := s', rn_execution := ?ex'\<rparr>)"
    by (simp add: run_round_def port)
  have "t (rn_tick rs2) \<le> t (Suc (rn_tick rs2))" using clock by (simp add: good_clock_def)
  with l2 have "leased opts t 0 ((ticked rs2)\<lparr>rn_store := s', rn_execution := ?ex'\<rparr>) \<or> ex_status ?ex' = Succeeded"
    by (auto simp: leased_def phase_completed_def ticked_def Let_def)
  with round show ?thesis by auto
qed

lemma run_loop_succeeds:
  assumes port: "ro_store opts = port" and clock: "good_clock opts t d"
    and adapter: "\<And>ctx. snd (ro_adapter opts ctx)"
  shows "in_step env p rs \<Longrightarrow> leased opts t 0 rs \<or> ex_status (rn_execution rs) = Succeeded \<Longrightarrow>
     length (pl_phases p) < completed_count rs + fuel \<Longrightarrow>
     \<exists>ex rs'. run_loop opts q fuel rs = (Some (Inr ex), rs') \<and> ex_status ex = Succeeded \<and>
       ex_completedPhases ex = pl_phases p \<and> stored_in (rn_store rs') env ex"
proof (induction fuel arbitrary: rs)
  case 0
  then show ?case by (simp add: in_step_def checkpoint_ok_def completed_count_def Let_def)
next
  case (Suc fuel)
  show ?case
  proof (cases "ex_status (rn_execution rs) = Succeeded")
    case True
    with Suc.prems(1) show ?thesis
      by (auto simp: exec_terminal_def in_step_def checkpoint_ok_def Let_def)
  next
    case False
    with Suc.prems(2) have lease: "leased opts t 0 rs" by simp
    then have live: "\<not> exec_terminal (rn_execution rs)" by (simp add: leased_def exec_terminal_def)
    from Suc.prems(1) False obtain phase where nxt: "ex_nextPhase (rn_execution rs) = Some phase"
      by (auto simp: in_step_def checkpoint_ok_def nth_opt_def Let_def)
    from run_round_live [OF port clock adapter Suc.prems(1) lease nxt] obtain rs1
      where round: "run_round opts q phase rs = (Inr (), rs1)"
        and next1: "leased opts t 0 rs1 \<or> ex_status (rn_execution rs1) = Succeeded" by blast
    from Suc.IH [OF _ next1] run_round_continues [OF port Suc.prems(1) nxt round] Suc.prems(3) live nxt round
    show ?thesis by simp
  qed
qed

section \<open>The whole run\<close>

text \<open>Recovering and claiming keep the local execution the stored one.\<close>

definition same_place :: "'s run_state \<Rightarrow> 's run_state \<Rightarrow> bool" where
  "same_place rs rs' \<longleftrightarrow> completed_count rs' = completed_count rs \<and> rn_calls rs' = rn_calls rs"

lemma ticked_step: "in_step env p (ticked rs) = in_step env p rs" "same_place rs (ticked rs)"
  by (simp_all add: in_step_def completed_count_def ticked_def same_place_def)

lemma same_place_trans: "same_place a b \<Longrightarrow> same_place b c \<Longrightarrow> same_place a c"
  by (simp add: same_place_def)

lemma claim_at_step:
  assumes port: "ro_store opts = port" and inv: "in_step env p rs" and run: "claim_at opts now rs = (Inr u, rs')"
  shows "in_step env p rs' \<and> same_place rs rs'"
proof -
  from run obtain ex' s' where c: "sp_claim port (ex_revision (rn_execution rs)) (ro_owner opts) now
      (ro_leaseDurationMs opts) (rn_store rs) = (Inr ex', s')"
    and rs': "rs' = rs\<lparr>rn_store := s', rn_execution := ex'\<rparr>"
    by (auto simp: claim_at_def port split: prod.splits sum.splits)
  from inv have st: "stored_in (rn_store rs) env (rn_execution rs)"
    and p: "assertPlanMatches h (rn_execution rs) env = Inr p" by (simp_all add: in_step_def)
  from claim_law [OF st c] have cl: "claimPluginLifecycleExecutionV1 h (rn_execution rs) env (ro_owner opts) now
      (ro_leaseDurationMs opts) = Inr ex'" and st': "stored_in s' env ex'" by simp_all
  have p': "assertPlanMatches h ex' env = Inr p" using claim.same_plan [OF cl] p by simp
  have "ex_completedPhases ex' = ex_completedPhases (rn_execution rs)"
    using cl by (auto simp: claim_result claimed_def)
  with p' st' in_step_stored [OF st' p'] show ?thesis
    by (simp add: in_step_def completed_count_def same_place_def rs')
qed

lemma recover_expired_step:
  assumes port: "ro_store opts = port" and inv: "in_step env p rs"
    and run: "recover_expired h opts now rs = (Inr u, rs')"
  shows "in_step env p rs' \<and> same_place rs rs'"
proof (cases "ex_status (rn_execution rs) = Running \<and> exec_expired h (rn_execution rs) now")
  case False
  with run inv show ?thesis by (auto simp: recover_expired_def same_place_def)
next
  case True
  with run obtain ex' s' where c: "sp_recover port (ex_revision (rn_execution rs)) now (rn_store rs) = (Inr ex', s')"
    and rs': "rs' = rs\<lparr>rn_store := s', rn_execution := ex'\<rparr>"
    by (auto simp: recover_expired_def port split: prod.splits sum.splits)
  from inv have st: "stored_in (rn_store rs) env (rn_execution rs)"
    and p: "assertPlanMatches h (rn_execution rs) env = Inr p" by (simp_all add: in_step_def)
  from recover_law [OF st c] have rc: "recoverExpiredPluginLifecycleExecutionV1 h (rn_execution rs) env now = Inr ex'"
    and st': "stored_in s' env ex'" by simp_all
  have p': "assertPlanMatches h ex' env = Inr p" using recover.same_plan [OF rc] p by simp
  have "ex_completedPhases ex' = ex_completedPhases (rn_execution rs)"
    using rc by (auto simp: recover_result split: if_splits)
  with p' st' in_step_stored [OF st' p'] show ?thesis
    by (simp add: in_step_def completed_count_def same_place_def rs')
qed

lemma prepare_step:
  assumes port: "ro_store opts = port" and inv: "in_step env p rs" and run: "prepare h opts rs = (Inr u, rs')"
  shows "in_step env p rs' \<and> same_place rs rs'"
proof -
  from run obtain rs1 where r: "recover_expired h opts (read_clock opts rs) (ticked rs) = (Inr (), rs1)"
    by (auto simp: prepare_def Let_def split: prod.splits sum.splits)
  have s0: "in_step env p (ticked rs)" using inv by (simp only: ticked_step(1))
  from recover_expired_step [OF port s0 r]
  have s1: "in_step env p rs1" "same_place (ticked rs) rs1" by simp_all
  have same: "same_place rs rs1" using same_place_trans [OF ticked_step(2) s1(2)] .
  consider (late) "claim_at opts (read_clock opts rs1) (ticked rs1) = (Inr u, rs')"
    | (same) "claim_at opts (read_clock opts rs) rs1 = (Inr u, rs')" | (owned) "rs' = rs1"
    using run unfolding prepare_def Let_def r by (simp only: prod.case sum.case split: if_split_asm) blast+
  then show ?thesis
  proof cases
    case late
    have "in_step env p (ticked rs1)" using s1(1) by (simp only: ticked_step(1))
    from claim_at_step [OF port this late] same_place_trans [OF same same_place_trans [OF ticked_step(2)]]
    show ?thesis by blast
  next
    case same
    from claim_at_step [OF port s1(1) same] same_place_trans [OF \<open>same_place rs rs1\<close>] show ?thesis by blast
  next
    case owned
    with s1(1) \<open>same_place rs rs1\<close> show ?thesis by simp
  qed
qed

text \<open>The state in which a run starts.\<close>

definition start_of :: "'s \<Rightarrow> execution \<Rightarrow> 's run_state" where
  "start_of s ex = \<lparr>rn_store = s, rn_tick = 0, rn_execution = ex, rn_calls = []\<rparr>"

text \<open>What a run does: it stops before the loop without calling the adapter, or it is the loop.\<close>

lemma run_cases:
  assumes port: "ro_store opts = port" and st: "stored_in s env ex" and p: "assertPlanMatches h ex env = Inr p"
    and run: "runPluginLifecycleExecutionV1 h opts fuel s = (r, calls, s')"
  shows "(calls = [] \<and> (\<exists>e. r = Some (Inl e))) \<or> (calls = [] \<and> exec_terminal ex \<and> r = Some (Inr ex)) \<or>
     (\<exists>q rs rs'. in_step env p rs \<and> completed_count rs = length (ex_completedPhases ex) \<and> rn_calls rs = [] \<and>
        run_loop opts q fuel rs = (r, rs') \<and> calls = rn_calls rs' \<and> s' = rn_store rs')"
proof -
  have start: "in_step env p (start_of s ex)" using st p in_step_stored [OF st p] by (simp add: in_step_def start_of_def)
  show ?thesis
  proof (cases "\<exists>cur q. sp_readPlan port s = Inr cur \<and> ev_plan cur = Some q")
    case False
    with run port show ?thesis
      by (auto simp: runPluginLifecycleExecutionV1_def split: sum.splits option.splits)
  next
    case True
    then obtain cur q where plan: "sp_readPlan port s = Inr cur" "ev_plan cur = Some q" by blast
    show ?thesis
    proof (cases "exec_terminal ex")
      case True
      with run port plan read_law [OF st] show ?thesis by (simp add: runPluginLifecycleExecutionV1_def)
    next
      case False
      obtain rp rs where prep: "prepare h opts (start_of s ex) = (rp, rs)" by fastforce
      show ?thesis
      proof (cases rp)
        case (Inl e)
        have "rn_calls rs = []"
          using prep by (auto simp: prepare_def recover_expired_def claim_at_def start_of_def ticked_def Let_def
              split: prod.splits sum.splits if_splits)
        with run port plan read_law [OF st] False prep Inl show ?thesis
          by (auto simp: runPluginLifecycleExecutionV1_def start_of_def)
      next
        case (Inr u)
        with prep have "prepare h opts (start_of s ex) = (Inr u, rs)" by simp
        from prepare_step [OF port start this]
        have "in_step env p rs" "completed_count rs = length (ex_completedPhases ex)" "rn_calls rs = []"
          by (auto simp: same_place_def completed_count_def start_of_def)
        moreover have "\<exists>rs'. run_loop opts q fuel rs = (r, rs') \<and> calls = rn_calls rs' \<and> s' = rn_store rs'"
          using run port plan read_law [OF st] False prep Inr
          by (auto simp: runPluginLifecycleExecutionV1_def start_of_def split: prod.splits)
        ultimately show ?thesis by blast
      qed
    qed
  qed
qed

text \<open>The order of a whole run, its end, and its success from an execution nobody works on.\<close>

lemma run_order:
  assumes port: "ro_store opts = port" and st: "stored_in s env ex" and p: "assertPlanMatches h ex env = Inr p"
    and run: "runPluginLifecycleExecutionV1 h opts fuel s = (r, calls, s')"
  shows "runs_from p (length (ex_completedPhases ex)) (map ctx_phase calls) r"
proof -
  have cp: "checkpoint_ok p ex" using in_step_stored [OF st p] .
  have start: "in_step env p (start_of s ex)" using st p cp by (simp add: in_step_def start_of_def)
  have n: "completed_count (start_of s ex) = length (ex_completedPhases ex)"
    by (simp add: completed_count_def start_of_def)
  from run_cases [OF port st p run]
  consider e where "calls = []" "r = Some (Inl e)" | "calls = []" "r = Some (Inr ex)"
    | q rs rs' where "in_step env p rs" "completed_count rs = length (ex_completedPhases ex)" "rn_calls rs = []"
      "run_loop opts q fuel rs = (r, rs')" "calls = rn_calls rs'" by blast
  then show ?thesis
  proof cases
    case 1
    with cp show ?thesis
      by (auto simp: runs_from_def checkpoint_ok_def Let_def intro: exI [of _ "0::nat"])
  next
    case 2
    with runs_from_stop [OF start] n show ?thesis by (simp add: start_of_def)
  next
    case 3
    from run_loop_order [OF port 3(1,4)] 3 show ?thesis by auto
  qed
qed

lemma run_ends:
  assumes port: "ro_store opts = port" and st: "stored_in s env ex" and p: "assertPlanMatches h ex env = Inr p"
    and fuel: "length (pl_phases p) < fuel"
  shows "fst (runPluginLifecycleExecutionV1 h opts fuel s) \<noteq> None"
proof -
  obtain r calls s' where run: "runPluginLifecycleExecutionV1 h opts fuel s = (r, calls, s')"
    by (metis prod_cases3)
  from run_cases [OF port st p run]
  consider "r \<noteq> None" | q rs rs' where "in_step env p rs" "run_loop opts q fuel rs = (r, rs')" by auto
  then show ?thesis
  proof cases
    case 2
    with run_loop_ends [OF port 2(1), of fuel q] fuel run show ?thesis by simp
  qed (simp add: run)
qed

lemma run_succeeds:
  assumes port: "ro_store opts = port" and st: "stored_in s env ex" and p: "assertPlanMatches h ex env = Inr p"
    and plan: "sp_readPlan port s = Inr cur" "ev_plan cur = Some q"
    and status: "ex_status ex \<in> {Queued, Failed}"
    and clock: "good_clock opts t d" and created: "dateParse h (ex_createdAt ex) = Some c" "c \<le> t 0"
    and adapter: "\<And>ctx. snd (ro_adapter opts ctx)" and fuel: "length (pl_phases p) < fuel"
  shows "\<exists>ex' calls s'. runPluginLifecycleExecutionV1 h opts fuel s = (Some (Inr ex'), calls, s') \<and>
     ex_status ex' = Succeeded \<and> ex_completedPhases ex' = pl_phases p \<and> stored_in s' env ex'"
proof -
  let ?rs = "ticked (ticked (start_of s ex))" and ?now = "ro_clock opts 1"
  have start: "in_step env p ?rs"
    using st p in_step_stored [OF st p] by (simp add: in_step_def start_of_def ticked_def)
  let ?ex' = "claimed h ex (ro_owner opts) ?now (t 1 + d)"
  have host: "host_ok h" and t1: "t 0 \<le> t (Suc 0)" using clock by (auto simp: good_clock_def)
  have now: "dateParse h ?now = Some (t 1)" using clock by (simp add: good_clock_def)
  from created(2) t1 have "c \<le> t 1" by simp
  then have nb: "not_before h ex ?now" using created(1) now by (simp add: not_before_def)
  have cl: "claimPluginLifecycleExecutionV1 h ex env (ro_owner opts) ?now (ro_leaseDurationMs opts) = Inr ?ex'"
    using clock p status by (auto simp: claim_result good_clock_def lease_free_for_def)
  have ok: "execution_ok h env ?ex'" using claim_ok [OF host _ nb cl] stored_ok [OF st] by blast
  have "datetimes_ok isDatetime ?ex'" using clock by (simp add: datetimes_ok_def claimed_def good_clock_def)
  from claim_live [OF st cl ok this] obtain s1 where
    c: "sp_claim port (ex_revision ex) (ro_owner opts) ?now (ro_leaseDurationMs opts) s = (Inr ?ex', s1)" by blast
  let ?rs1 = "?rs\<lparr>rn_store := s1, rn_execution := ?ex'\<rparr>"
  have at: "claim_at opts ?now ?rs = (Inr (), ?rs1)"
    using c by (simp add: claim_at_def port start_of_def ticked_def)
  have prep: "prepare h opts (start_of s ex) = (Inr (), ?rs1)"
    using at status by (auto simp: prepare_def recover_expired_def Let_def start_of_def ticked_def read_clock_def)
  from claim_at_step [OF port start at] have inv: "in_step env p ?rs1" by simp
  have "t (Suc 0) \<le> t 2" "t 2 < t 1 + d" "dateParse h (isoOfDate h (t 1 + d)) = Some (t 1 + d)"
    "isDatetime (isoOfDate h (t 1 + d))"
  proof -
    have "t 2 < t 0 + d" "t (Suc 0) \<le> t (Suc (Suc 0))"
      using clock unfolding good_clock_def by (metis Suc_1 One_nat_def, blast)
    then show "t (Suc 0) \<le> t 2" "t 2 < t 1 + d" using t1 by (simp_all add: numeral_2_eq_2)
    show "dateParse h (isoOfDate h (t 1 + d)) = Some (t 1 + d)" "isDatetime (isoOfDate h (t 1 + d))"
      using clock host by (auto simp: good_clock_def host_ok_def)
  qed
  then have "leased opts t 0 ?rs1"
    using created t1 by (simp add: leased_def claimed_def ticked_def start_of_def numeral_2_eq_2)
  with run_loop_succeeds [OF port clock adapter inv, of fuel q] fuel obtain ex' rs'
    where loop: "run_loop opts q fuel ?rs1 = (Some (Inr ex'), rs')" "ex_status ex' = Succeeded"
      "ex_completedPhases ex' = pl_phases p" "stored_in (rn_store rs') env ex'" by auto
  have "\<not> exec_terminal ex" using status by (auto simp: exec_terminal_def)
  with plan read_law [OF st] port prep loop show ?thesis
    by (simp add: runPluginLifecycleExecutionV1_def start_of_def)
qed

end

text \<open>The file store provides the contract.\<close>

interpretation file_runs: execution_store h dt "file_port h dt" "file_stored h" for h dt
  by (rule file_execution_store)

end
