(* ===== verification/Store_Lock.thy ===== *)
theory Store_Lock
  imports Prelude
begin

text \<open>
  The lock file of the execution store (\<open>withLock\<close> of \<open>executionStore.ts\<close>) with several
  processes interleaved at the file-system calls: \<open>open(path, 'wx')\<close>, \<open>lstat\<close>, \<open>rename\<close>
  of a stale lock, the second \<open>open\<close>, and the \<open>unlink\<close> when the work is done. A process
  may also die at work and leave its lock file.
\<close>

datatype lock_pc = Idle | SawStale | Renamed | Inside

text \<open>The lock file, with the process that created it and its modification time.\<close>

record lock_state =
  lk_file :: "(nat \<times> int) option"
  lk_pc :: "nat \<Rightarrow> lock_pc"
  lk_now :: int

definition at_pc :: "nat \<Rightarrow> lock_pc \<Rightarrow> lock_state \<Rightarrow> lock_state" where
  "at_pc p c s = s\<lparr>lk_pc := (lk_pc s)(p := c)\<rparr>"

text \<open>\<open>open(path, 'wx')\<close> succeeds when there is no file.\<close>

definition create_lock :: "nat \<Rightarrow> lock_state \<Rightarrow> lock_state" where
  "create_lock p s = at_pc p Inside (s\<lparr>lk_file := Some (p, lk_now s)\<rparr>)"

text \<open>The first attempt: enter, see a stale lock, or fail with \<open>store_locked\<close>.\<close>

definition first_attempt :: "int \<Rightarrow> nat \<Rightarrow> lock_state \<Rightarrow> lock_state" where
  "first_attempt staleLockMs p s =
     (case lk_file s of
        None \<Rightarrow> create_lock p s
      | Some (q, mtime) \<Rightarrow> if lk_now s - mtime > staleLockMs then at_pc p SawStale s else s)"

text \<open>\<open>rename(path, stalePath)\<close> and \<open>unlink(stalePath)\<close>; a missing file is ignored.\<close>

definition rename_stale :: "nat \<Rightarrow> lock_state \<Rightarrow> lock_state" where
  "rename_stale p s = at_pc p Renamed (s\<lparr>lk_file := None\<rparr>)"

definition second_attempt :: "nat \<Rightarrow> lock_state \<Rightarrow> lock_state" where
  "second_attempt p s =
     (case lk_file s of None \<Rightarrow> create_lock p s | Some l \<Rightarrow> at_pc p Idle s)"

text \<open>\<open>unlink(path)\<close> in the \<open>finally\<close> block, whoever's lock it is.\<close>

definition release_lock :: "nat \<Rightarrow> lock_state \<Rightarrow> lock_state" where
  "release_lock p s = at_pc p Idle (s\<lparr>lk_file := None\<rparr>)"

inductive lock_step :: "int \<Rightarrow> lock_state \<Rightarrow> lock_state \<Rightarrow> bool" for stale :: int where
  lock_first: "lk_pc s p = Idle \<Longrightarrow> lock_step stale s (first_attempt stale p s)"
| lock_rename: "lk_pc s p = SawStale \<Longrightarrow> lock_step stale s (rename_stale p s)"
| lock_second: "lk_pc s p = Renamed \<Longrightarrow> lock_step stale s (second_attempt p s)"
| lock_release: "lk_pc s p = Inside \<Longrightarrow> lock_step stale s (release_lock p s)"
| lock_crash: "lk_pc s p = Inside \<Longrightarrow> lock_step stale s (at_pc p Idle s)"
| lock_tick: "0 \<le> d \<Longrightarrow> lock_step stale s (s\<lparr>lk_now := lk_now s + d\<rparr>)"

definition lock_init :: lock_state where
  "lock_init = \<lparr>lk_file = None, lk_pc = (\<lambda>p. Idle), lk_now = 0\<rparr>"

definition exclusive :: "lock_state \<Rightarrow> bool" where
  "exclusive s \<longleftrightarrow> (\<forall>p q. lk_pc s p = Inside \<longrightarrow> lk_pc s q = Inside \<longrightarrow> p = q)"

section \<open>Exclusion while no holder overruns\<close>

text \<open>Steps in which nobody dies at work and everybody is done within the stale time.\<close>

inductive prompt_step :: "int \<Rightarrow> lock_state \<Rightarrow> lock_state \<Rightarrow> bool" for stale :: int where
  prompt_first: "lk_pc s p = Idle \<Longrightarrow> prompt_step stale s (first_attempt stale p s)"
| prompt_rename: "lk_pc s p = SawStale \<Longrightarrow> prompt_step stale s (rename_stale p s)"
| prompt_second: "lk_pc s p = Renamed \<Longrightarrow> prompt_step stale s (second_attempt p s)"
| prompt_release: "lk_pc s p = Inside \<Longrightarrow> prompt_step stale s (release_lock p s)"
| prompt_tick: "0 \<le> d \<Longrightarrow> (\<And>p t. lk_file s = Some (p, t) \<Longrightarrow> lk_now s + d - t \<le> stale) \<Longrightarrow>
    prompt_step stale s (s\<lparr>lk_now := lk_now s + d\<rparr>)"

lemma prompt_step_is_step: "prompt_step stale s s' \<Longrightarrow> lock_step stale s s'"
  by (induction rule: prompt_step.induct) (auto intro: lock_step.intros)

definition lock_inv :: "int \<Rightarrow> lock_state \<Rightarrow> bool" where
  "lock_inv stale s \<longleftrightarrow>
     (case lk_file s of
        None \<Rightarrow> (\<forall>q. lk_pc s q = Idle)
      | Some (p, t) \<Rightarrow> lk_pc s p = Inside \<and> (\<forall>q. q \<noteq> p \<longrightarrow> lk_pc s q = Idle) \<and> lk_now s - t \<le> stale)"

lemma lock_inv_exclusive: "lock_inv stale s \<Longrightarrow> exclusive s"
  by (auto simp: lock_inv_def exclusive_def split: option.splits) (metis lock_pc.distinct(5))+

lemmas lock_defs = first_attempt_def create_lock_def rename_stale_def second_attempt_def
  release_lock_def at_pc_def

lemma prompt_step_inv:
  assumes "prompt_step stale s s'" and "lock_inv stale s" and "0 \<le> stale"
  shows "lock_inv stale s'"
  using assms(1)
proof (cases rule: prompt_step.cases)
  case (prompt_first p)
  then show ?thesis
    using assms(2,3) by (auto simp: lock_inv_def lock_defs split: option.splits prod.splits)
next
  case (prompt_rename p)
  then show ?thesis
    using assms(2) by (auto simp: lock_inv_def split: option.splits prod.splits) (metis lock_pc.distinct)+
next
  case (prompt_second p)
  then show ?thesis
    using assms(2) by (auto simp: lock_inv_def split: option.splits prod.splits) (metis lock_pc.distinct)+
next
  case (prompt_release p)
  then show ?thesis
    using assms(2) by (auto simp: lock_inv_def lock_defs split: option.splits prod.splits) (metis lock_pc.distinct)+
next
  case (prompt_tick d)
  then show ?thesis
    using assms(2) by (auto simp: lock_inv_def split: option.splits prod.splits)
qed

lemma prompt_reachable_inv:
  assumes "(prompt_step stale)\<^sup>*\<^sup>* lock_init s" and "0 \<le> stale"
  shows "lock_inv stale s"
  using assms(1)
proof (induction rule: rtranclp_induct)
  case base
  then show ?case by (simp add: lock_inv_def lock_init_def)
next
  case (step s s')
  then show ?case using prompt_step_inv assms(2) by blast
qed

section \<open>Two processes taking over one stale lock\<close>

text \<open>
  Process 0 dies at work. Processes 1 and 2 both see its lock as stale; 1 takes over, and
  then 2 renames the new lock of 1 and enters too.
\<close>

definition takeover_run :: "int \<Rightarrow> lock_state list" where
  "takeover_run stale =
     (let s0 = lock_init; s1 = first_attempt stale 0 s0; s2 = at_pc 0 Idle s1;
          s3 = s2\<lparr>lk_now := lk_now s2 + (stale + 1)\<rparr>;
          s4 = first_attempt stale 1 s3; s5 = first_attempt stale 2 s4;
          s6 = rename_stale 1 s5; s7 = second_attempt 1 s6;
          s8 = rename_stale 2 s7; s9 = second_attempt 2 s8
      in [s0, s1, s2, s3, s4, s5, s6, s7, s8, s9])"

lemma successive_reachable:
  "successively (lock_step stale) (s # ss) \<Longrightarrow> (lock_step stale)\<^sup>*\<^sup>* s (last (s # ss))"
proof (induction ss arbitrary: s)
  case Nil
  then show ?case by simp
next
  case (Cons x xs)
  then show ?case by (auto intro: converse_rtranclp_into_rtranclp)
qed

lemma takeover_steps:
  assumes "0 \<le> stale"
  shows "(lock_step stale)\<^sup>*\<^sup>* lock_init (last (takeover_run stale))"
proof -
  have "successively (lock_step stale) (takeover_run stale)"
    unfolding takeover_run_def Let_def successively.simps
    using assms
    by (intro conjI TrueI lock_first lock_rename lock_second lock_crash lock_tick)
       (simp_all add: lock_defs lock_init_def)
  moreover obtain ss where "takeover_run stale = lock_init # ss"
    by (simp add: takeover_run_def Let_def)
  ultimately show ?thesis using successive_reachable [of stale lock_init ss] by simp
qed

lemma takeover_both_inside:
  "0 \<le> stale \<Longrightarrow> lk_pc (last (takeover_run stale)) 1 = Inside \<and> lk_pc (last (takeover_run stale)) 2 = Inside"
  by (simp add: takeover_run_def Let_def lock_defs lock_init_def)

lemma takeover_file: "0 \<le> stale \<Longrightarrow> \<exists>t. lk_file (last (takeover_run stale)) = Some (2, t)"
  by (simp add: takeover_run_def Let_def lock_defs lock_init_def)

end
