(* ===== verification/Execution_Properties.thy ===== *)
theory Execution_Properties
  imports Runner_Contract Store_Lock Samples
begin

text \<open>The properties of lifecycle executions, their store, its lock and the runner.\<close>

text \<open>C13: A plan envelope written as JSON parses back to itself, so does every well-formed execution of
  it, and every envelope the parser accepts has a valid plan and carries that plan's hash.\<close>

theorem envelope_roundtrip:
  assumes "host_ok h"
  shows "(envelope_ok h env \<longrightarrow> parsePluginLifecyclePlanEnvelopeV1 h (envelope_json env) = Inr env \<and>
        (\<forall>ex. execution_ok h env ex \<longrightarrow>
           parsePluginLifecycleExecutionV1 h (execution_json ex) (envelope_json env) = Inr ex)) \<and>
     (distinct (map fst (props_of (getp v ''plan''))) \<longrightarrow>
        parsePluginLifecyclePlanEnvelopeV1 h v = Inr env \<longrightarrow> envelope_ok h env)"
  using parse_envelope_json [OF assms] parsed_envelope_ok parse_pair [OF assms] parse_execution_json [OF assms] by simp

lemma sample_hash: "hashPluginLifecyclePlanV1 sample_host p = replicate 64 (CHR ''0'')"
  by (simp add: hashPluginLifecyclePlanV1_def hashPlanValue_def sample_host_def)

lemma sample_envelope_ok: "envelope_ok sample_host sample_envelope"
  by (simp add: envelope_ok_def sample_envelope_def sample_plan_valid sample_hash)

theorem envelope_roundtrip_witness:
  "parsePluginLifecyclePlanEnvelopeV1 sample_host (envelope_json sample_envelope) = Inr sample_envelope"
  using envelope_roundtrip [OF sample_host_ok] sample_envelope_ok by blast

lemma sample_parses: "dateParse sample_host (show_int t) = (if \<bar>t\<bar> \<le> max_time then Some t else None)"
  by (simp add: sample_host_def)

lemma sample_times: "dateParse sample_host ''0'' = Some 0" "dateParse sample_host ''5'' = Some 5"
  by code_simp+

lemma sample_execution_created:
  "createPluginLifecycleExecutionV1 sample_host sample_envelope ''exec-001'' ''0'' = Inr sample_execution"
  by code_simp

lemma sample_execution_ok: "execution_ok sample_host sample_envelope sample_execution"
  by (rule create_ok [OF sample_host_ok sample_envelope_ok sample_execution_created])

theorem execution_roundtrip:
  assumes "host_ok h" and "envelope_ok h env" and "execution_ok h env ex"
  shows "parsePluginLifecycleExecutionV1 h (execution_json ex) (envelope_json env) = Inr ex"
  using parse_pair [OF assms(1,2)] parse_execution_json [OF assms(1,3)] by simp

theorem execution_roundtrip_witness:
  "parsePluginLifecycleExecutionV1 sample_host (execution_json sample_execution) (envelope_json sample_envelope) =
     Inr sample_execution"
  by (rule execution_roundtrip [OF sample_host_ok sample_envelope_ok sample_execution_ok])

definition overrun_execution :: execution where
  "overrun_execution = sample_execution\<lparr>ex_completedPhases := [Activate, Ready, Commit, Commit],
     ex_nextPhase := None\<rparr>"

text \<open>The execution parser also accepts a queued execution that has completed more phases than
  its plan has: the check of the completed phases stops at the end of the plan.\<close>

lemma parser_accepts_overrun:
  "parsePluginLifecycleExecutionV1 sample_host (execution_json overrun_execution)
       (envelope_json sample_envelope) = Inr overrun_execution \<and>
     ex_status overrun_execution = Queued \<and>
     length (pl_phases sample_plan) < length (ex_completedPhases overrun_execution)"
proof -
  have "ids_ok overrun_execution" by code_simp
  moreover have "times_ok sample_host overrun_execution"
    by (simp add: times_ok_def overrun_execution_def sample_execution_def sample_times)
  moreover have "lease_ok sample_host overrun_execution"
    by (simp add: lease_ok_def overrun_execution_def sample_execution_def)
  moreover have "assertPlanMatches sample_host overrun_execution sample_envelope = Inr sample_plan" by code_simp
  moreover have "overlong sample_plan overrun_execution" by code_simp
  ultimately have "parseExecutionIn sample_host (execution_json overrun_execution) sample_envelope =
      Inr overrun_execution"
    unfolding parseExecutionIn_json [OF sample_host_ok] by blast
  then show ?thesis
    by (simp add: parse_pair [OF sample_host_ok sample_envelope_ok] overrun_execution_def sample_plan_def
        planPluginEnablementV1_def) (simp add: sample_execution_def)
qed

text \<open>C16: While a lease is live no other worker can claim the execution, and no other worker can
  renew the lease, complete a phase or fail the execution; nor can a recovery end it.\<close>

theorem live_lease_is_exclusive:
  assumes "ex_status ex = Running" and "ex_leaseOwner ex = Some owner" and "ex_leaseExpiresAt ex = Some s"
    and "dateParse h s = Some expires" and "dateParse h now = Some t" and "t < expires" and "s \<noteq> []"
    and "other \<noteq> owner"
  shows "\<not> is_ok (claimPluginLifecycleExecutionV1 h ex env other now d) \<and>
     \<not> is_ok (renewPluginLifecycleExecutionLeaseV1 h ex env other now d) \<and>
     \<not> is_ok (completePluginLifecyclePhaseV1 h ex env other phase now) \<and>
     \<not> is_ok (failPluginLifecycleExecutionV1 h ex env other now) \<and>
     (\<forall>ex'. recoverExpiredPluginLifecycleExecutionV1 h ex env now = Inr ex' \<longrightarrow> ex' = ex)"
proof -
  have claim: "claimPluginLifecycleExecutionV1 h ex env other now d \<noteq> Inr ex'" for ex'
    using assms by (auto simp: claim_result lease_free_for_def)
  moreover have "renewPluginLifecycleExecutionLeaseV1 h ex env other now d \<noteq> Inr ex'" for ex'
    using claim renew_result by blast
  moreover have "completePluginLifecyclePhaseV1 h ex env other phase now \<noteq> Inr ex'"
    "failPluginLifecycleExecutionV1 h ex env other now \<noteq> Inr ex'" for ex'
    using assms by (auto simp: complete_result fail_result assertLease_ok)
  moreover have "recoverExpiredPluginLifecycleExecutionV1 h ex env now = Inr ex' \<Longrightarrow> ex' = ex" for ex'
    using assms by (auto simp: recover_result)
  ultimately show ?thesis by (auto simp: is_ok_iff)
qed

definition leased_execution :: execution where
  "leased_execution = sample_execution\<lparr>ex_status := Running, ex_leaseOwner := Some sample_owner,
     ex_leaseExpiresAt := Some ''5''\<rparr>"

theorem live_lease_is_exclusive_witness:
  "\<not> is_ok (claimPluginLifecycleExecutionV1 sample_host leased_execution sample_envelope ''worker-b'' ''0'' (JInt 1000))"
  using live_lease_is_exclusive [of leased_execution sample_owner "''5''" sample_host 5 "''0''" 0 "''worker-b''"
      sample_envelope "JInt 1000" Activate]
  by (simp add: leased_execution_def sample_times sample_owner_def)

text \<open>A succeeded execution and one that needs manual intervention are final: every
  operation on them fails. A failure after a completed migration without a rollback leads
  there, and any other failure leaves an execution that can be claimed again at the same phase.\<close>

lemma terminal_is_final:
  "(ex_status ex \<in> {Succeeded, ManualIntervention} \<longrightarrow>
      \<not> is_ok (claimPluginLifecycleExecutionV1 h ex env owner now d) \<and>
      \<not> is_ok (renewPluginLifecycleExecutionLeaseV1 h ex env owner now d) \<and>
      \<not> is_ok (completePluginLifecyclePhaseV1 h ex env owner phase now) \<and>
      \<not> is_ok (failPluginLifecycleExecutionV1 h ex env owner now) \<and>
      \<not> is_ok (recoverExpiredPluginLifecycleExecutionV1 h ex env now)) \<and>
   (\<forall>ex' p. failPluginLifecycleExecutionV1 h ex env owner now = Inr ex' \<longrightarrow> ev_plan env = Some p \<longrightarrow>
      (if Migrate \<in> set (ex_completedPhases ex) \<and> \<not> pl_rollbackSupported p
       then ex_status ex' = ManualIntervention
       else ex_status ex' = Failed \<and> ex_leaseOwner ex' = None \<and> ex_nextPhase ex' = ex_nextPhase ex \<and>
            ex_completedPhases ex' = ex_completedPhases ex))"
proof -
  have final: "claimPluginLifecycleExecutionV1 h ex env owner now d \<noteq> Inr ex' \<and>
      recoverExpiredPluginLifecycleExecutionV1 h ex env now \<noteq> Inr ex' \<and>
      completePluginLifecyclePhaseV1 h ex env owner phase now \<noteq> Inr ex' \<and>
      failPluginLifecycleExecutionV1 h ex env owner now \<noteq> Inr ex'"
    if "ex_status ex \<in> {Succeeded, ManualIntervention}" for ex'
    using that by (auto simp: claim_result recover_result complete_result fail_result assertLease_ok)
  have renew: "renewPluginLifecycleExecutionLeaseV1 h ex env owner now d \<noteq> Inr ex'"
    if "ex_status ex \<in> {Succeeded, ManualIntervention}" for ex'
    using final [OF that] renew_result by blast
  have failed: "if Migrate \<in> set (ex_completedPhases ex) \<and> \<not> pl_rollbackSupported p
       then ex_status ex' = ManualIntervention
       else ex_status ex' = Failed \<and> ex_leaseOwner ex' = None \<and> ex_nextPhase ex' = ex_nextPhase ex \<and>
            ex_completedPhases ex' = ex_completedPhases ex"
    if run: "failPluginLifecycleExecutionV1 h ex env owner now = Inr ex'" and p: "ev_plan env = Some p" for ex' p
  proof -
    from run obtain q where "assertPlanMatches h ex env = Inr q" and ex': "ex' = phase_failed q ex now"
      by (auto simp: fail_result)
    then have "q = p" using p by (auto simp: assertPlanMatches_def split: if_splits)
    with ex' show ?thesis by (simp add: phase_failed_def Let_def)
  qed
  show ?thesis unfolding is_ok_iff using final renew failed by blast
qed

lemma terminal_is_final_witness:
  "\<not> is_ok (claimPluginLifecycleExecutionV1 sample_host (sample_execution\<lparr>ex_status := Succeeded\<rparr>)
     sample_envelope sample_owner ''0'' (JInt 1000))"
  using terminal_is_final [of "sample_execution\<lparr>ex_status := Succeeded\<rparr>"] by simp

text \<open>Whatever clients, clocks and plan changes do, the execution file of the store stays
  absent or holds a well-formed execution of a valid envelope, with at most 100 well-formed
  entries of history, and it reads back.\<close>

lemma store_always_well_formed:
  assumes "host_ok h" and "(store_step h dt)\<^sup>*\<^sup>* s s'" and "plan_file_keyed (fs_plan s)"
    and "fs_execution s = Absent"
  shows "fs_execution s' = Absent \<or>
     (\<exists>st. readStored h s' = Inr (Some st) \<and> envelope_ok h (sr_envelope st) \<and>
        execution_ok h (sr_envelope st) (sr_execution st) \<and> length (sr_history st) \<le> 100)"
proof -
  have "files_inv h s'"
    by (rule store_reachable_inv [OF assms(1,2)]) (simp add: files_inv_def store_inv_def assms(3,4))
  then show ?thesis
    using readStored_holds [OF assms(1)]
    by (auto simp: files_inv_def store_inv_def holds_def stored_ok_def entry_ok_def)
qed

definition sample_store :: file_store where
  "sample_store = \<lparr>fs_plan = Json (envelope_json sample_envelope), fs_execution = Absent, fs_observation = None\<rparr>"

lemma sample_plan_keyed: "plan_file_keyed (fs_plan sample_store)"
  by code_simp

definition started_store :: file_store where
  "started_store = snd (initialize sample_host (\<lambda>_. True) ''exec-001'' ''0'' None sample_store)"

lemma sample_readPlan: "readCurrentPlan sample_host sample_store = Inr sample_envelope"
  by (simp add: readCurrentPlan_def readJson_def sample_store_def
      parse_envelope_json [OF sample_host_ok sample_envelope_ok])

lemma sample_readStored: "readStored sample_host sample_store = Inr None"
  by (rule readStored_absent) (simp add: sample_store_def)

lemma sample_observed:
  "createPluginDeploymentExecutionObservationV1 sample_host (\<lambda>_. True) sample_envelope (Some sample_execution) =
     Inr \<lparr>ob_current = True, ob_desiredRevision = 1, ob_planSha256 = Some (replicate 64 (CHR ''0'')),
         ob_execution = Some (summary_of sample_execution)\<rparr>"
  using observation_created [OF sample_host_ok sample_envelope_ok sample_execution_ok, of "\<lambda>_. True"]
  by (simp add: datetimes_ok_def sample_envelope_def)

definition started :: stored where
  "started = \<lparr>sr_envelope = sample_envelope, sr_execution = sample_execution, sr_history = []\<rparr>"

lemma started_run:
  "initialize sample_host (\<lambda>_. True) ''exec-001'' ''0'' None sample_store = (Inr sample_execution, started_store)"
  "fs_execution started_store = Json (stored_json started)"
  "fs_plan started_store = fs_plan sample_store"
proof -
  have parse: "parsePluginLifecycleExecutionV1 sample_host (execution_json sample_execution)
      (envelope_json sample_envelope) = Inr sample_execution"
    by (simp add: parse_pair [OF sample_host_ok sample_envelope_ok]
        parse_execution_json [OF sample_host_ok sample_execution_ok])
  have "ev_plan sample_envelope = Some sample_plan" by (simp add: sample_envelope_def)
  then have run: "initialize sample_host (\<lambda>_. True) ''exec-001'' ''0'' None sample_store =
      (Inr sample_execution, sample_store\<lparr>fs_execution := Json (stored_json started),
        fs_observation := Some \<lparr>ob_current = True, ob_desiredRevision = 1,
          ob_planSha256 = Some (replicate 64 (CHR ''0'')), ob_execution = Some (summary_of sample_execution)\<rparr>\<rparr>)"
    by (simp add: initialize_def sample_readPlan sample_readStored sample_execution_created writeStored_def
        parse sample_observed started_def)
  then show "initialize sample_host (\<lambda>_. True) ''exec-001'' ''0'' None sample_store = (Inr sample_execution, started_store)"
    and "fs_execution started_store = Json (stored_json started)"
    and "fs_plan started_store = fs_plan sample_store"
    by (simp_all add: started_store_def)
qed

lemma store_always_well_formed_witness:
  "\<exists>st. readStored sample_host started_store = Inr (Some st) \<and> execution_ok sample_host (sr_envelope st) (sr_execution st)"
proof -
  have "(store_step sample_host (\<lambda>_. True))\<^sup>*\<^sup>* sample_store started_store"
    by (rule r_into_rtranclp, rule step_initialize [OF started_run(1)])
  from store_always_well_formed [OF sample_host_ok this sample_plan_keyed] started_run(2)
  show ?thesis by (auto simp: sample_store_def)
qed

text \<open>The caller named the stored revision, held the live lease and completed the next phase, and the file holds the
  result.\<close>

definition phase_swapped ::
  "host \<Rightarrow> stored \<Rightarrow> int \<Rightarrow> string \<Rightarrow> phase \<Rightarrow> string \<Rightarrow> file_store \<Rightarrow> execution \<Rightarrow> bool" where
  "phase_swapped h st expected owner phase now s' ex' \<longleftrightarrow> expected = ex_revision (sr_execution st) \<and>
     assertLease h (sr_execution st) owner now = Inr () \<and> ex_nextPhase (sr_execution st) = Some phase \<and>
     ex_completedPhases ex' = ex_completedPhases (sr_execution st) @ [phase] \<and>
     ex_revision ex' = ex_revision (sr_execution st) + 1 \<and> holds h s' (st\<lparr>sr_execution := ex'\<rparr>)"

text \<open>C19: A phase completion through the store is a compare and swap. It succeeds only if the caller named the
  stored revision and holds the live lease, the plan is still the current one and the phase is the next; then the file
  holds the result: the same envelope and history, exactly this phase added, the revision one higher. When it
  fails the file is as it was, unless only the observation could not be written after the swap. And it does
  succeed when all that holds, the clock is not before the creation and the times are datetimes.\<close>

theorem completion_is_compare_and_swap:
  assumes "host_ok h" and "holds h s st"
    and "store_complete h dt expected owner phase now s = (r, s')"
  shows "(\<forall>ex'. r = Inr ex' \<longrightarrow> phase_swapped h st expected owner phase now s' ex' \<and> assertCurrentPlan h s st = Inr ()) \<and>
     (\<forall>e. r = Inl e \<longrightarrow> s' = s \<or> e = ExecSchemaError \<and> (\<exists>ex'. phase_swapped h st expected owner phase now s' ex')) \<and>
     (\<forall>ex'. expected = ex_revision (sr_execution st) \<and> assertCurrentPlan h s st = Inr () \<and>
        completePluginLifecyclePhaseV1 h (sr_execution st) (sr_envelope st) owner phase now = Inr ex' \<and>
        not_before h (sr_execution st) now \<and> datetimes_ok dt ex' \<longrightarrow> r = Inr ex' \<and> phase_swapped h st expected owner phase now s' ex')"
proof -
  let ?ex = "sr_execution st"
  note run = assms(3) [unfolded store_complete_def]
  have made: "ex_completedPhases ex' = ex_completedPhases ?ex @ [phase] \<and> ex_revision ex' = ex_revision ?ex + 1 \<and>
      assertLease h ?ex owner now = Inr () \<and> ex_nextPhase ?ex = Some phase"
    if "completePluginLifecyclePhaseV1 h ?ex (sr_envelope st) owner phase now = Inr ex'" for ex'
    using that by (auto simp: complete_result phase_completed_def Let_def)
  then have other: "completePluginLifecyclePhaseV1 h ?ex (sr_envelope st) owner phase now \<noteq> Inr ?ex" by fastforce
  have won: "phase_swapped h st expected owner phase now s' ex' \<and> assertCurrentPlan h s st = Inr ()" if "r = Inr ex'" for ex'
  proof -
    from run that have run': "mutate h dt expected (\<lambda>ex env. completePluginLifecyclePhaseV1 h ex env owner phase now) s = (Inr ex', s')"
      by simp
    note op = mutate_applied [OF assms(1,2) run']
    with other have "ex' \<noteq> ?ex" by metis
    with complete.mutate_outcome [OF assms(1,2) run'] have "expected = ex_revision ?ex" "holds h s' (st\<lparr>sr_execution := ex'\<rparr>)"
      by blast+
    with made [OF op] mutate_current [OF assms(1,2) run'] show ?thesis unfolding phase_swapped_def by blast
  qed
  moreover have "s' = s \<or> e = ExecSchemaError \<and> (\<exists>ex'. phase_swapped h st expected owner phase now s' ex')" if "r = Inl e" for e
  proof -
    from complete.mutate_outcome [OF assms(1,2) run] that consider "s' = s" | ex' where
      "completePluginLifecyclePhaseV1 h ?ex (sr_envelope st) owner phase now = Inr ex'" "expected = ex_revision ?ex"
      "holds h s' (st\<lparr>sr_execution := ex'\<rparr>)" "e = ExecSchemaError" by fastforce
    then show ?thesis
    proof cases
      case 2
      with made [OF 2(1)] show ?thesis unfolding phase_swapped_def by blast
    qed simp
  qed
  moreover have "r = Inr ex'" if "expected = ex_revision ?ex" "assertCurrentPlan h s st = Inr ()"
      "completePluginLifecyclePhaseV1 h ?ex (sr_envelope st) owner phase now = Inr ex'" "not_before h ?ex now" "datetimes_ok dt ex'" for ex'
  proof -
    have "execution_ok h (sr_envelope st) ?ex" using assms(2) by (simp add: holds_def stored_ok_def entry_ok_def)
    from complete.mutate_progress [OF assms(1,2) that(2,3) complete_ok [OF this that(4,3)] that(5)] run that(1)
    show ?thesis by auto
  qed
  ultimately show ?thesis by blast
qed

lemma started_ok: "stored_ok sample_host started"
  by (simp add: stored_ok_def entry_ok_def started_def sample_envelope_ok sample_execution_ok)

lemma started_holds: "holds sample_host started_store started"
  by (simp add: holds_def started_run(2) started_ok)

definition leased :: stored where
  "leased = started\<lparr>sr_execution := leased_execution\<rparr>"

definition leased_store :: file_store where
  "leased_store = started_store\<lparr>fs_execution := Json (stored_json leased)\<rparr>"

lemma leased_ok: "execution_ok sample_host sample_envelope leased_execution"
proof -
  have owner: "opaque_id 8 200 sample_owner" by code_simp
  have "assertPlanMatches sample_host leased_execution sample_envelope = Inr sample_plan"
    "ids_ok leased_execution" "checkpoint_ok sample_plan leased_execution" by code_simp+
  then show ?thesis
    using owner sample_times by (simp add: execution_ok_def times_ok_def lease_ok_def leased_execution_def sample_execution_def)
qed

lemma leased_holds: "holds sample_host leased_store leased"
  using started_ok leased_ok
  by (simp add: holds_def leased_store_def leased_def stored_ok_def entry_ok_def started_def)

lemma leased_current: "assertCurrentPlan sample_host leased_store leased = Inr ()"
proof -
  have "readCurrentPlan sample_host leased_store = Inr sample_envelope"
    using sample_readPlan started_run(3) by (simp add: readCurrentPlan_def leased_store_def)
  then show ?thesis by (simp add: assertCurrentPlan_def leased_def started_def)
qed

theorem completion_is_compare_and_swap_witness:
  "\<exists>ex' s'. store_complete sample_host (\<lambda>_. True) 0 sample_owner Activate ''0'' leased_store = (Inr ex', s') \<and>
     ex_completedPhases ex' = [Activate] \<and> holds sample_host s' (leased\<lparr>sr_execution := ex'\<rparr>)"
proof -
  have st: "sr_execution leased = leased_execution" "sr_envelope leased = sample_envelope" by (simp_all add: leased_def started_def)
  have "is_ok (completePluginLifecyclePhaseV1 sample_host leased_execution sample_envelope sample_owner Activate ''0'')" by code_simp
  then obtain ex' where op: "completePluginLifecyclePhaseV1 sample_host leased_execution sample_envelope sample_owner Activate ''0'' = Inr ex'"
    by (auto simp: is_ok_iff)
  have clock: "not_before sample_host leased_execution ''0''"
    using sample_times by (simp add: not_before_def leased_execution_def sample_execution_def)
  obtain r s' where run: "store_complete sample_host (\<lambda>_. True) 0 sample_owner Activate ''0'' leased_store = (r, s')" by fastforce
  have "(0::int) = ex_revision leased_execution" by (simp add: leased_execution_def sample_execution_def)
  then have "r = Inr ex' \<and> phase_swapped sample_host leased 0 sample_owner Activate ''0'' s' ex'"
    using completion_is_compare_and_swap [OF sample_host_ok leased_holds run] leased_current op clock
    unfolding st by (metis datetimes_ok_def)
  with run show ?thesis by (simp add: phase_swapped_def st leased_execution_def sample_execution_def)
qed

text \<open>The observation for the administration pages can be made of every well-formed execution
  whose timestamps are ISO datetimes: the checks of its schema all hold.\<close>

lemma observation_always_acceptable:
  assumes "host_ok h" and "envelope_ok h env" and "execution_ok h env ex" and "datetimes_ok isDatetime ex"
  shows "\<exists>v. createPluginDeploymentExecutionObservationV1 h isDatetime env (Some ex) = Inr v \<and>
     observation_ok isDatetime v \<and> ob_execution v = Some (summary_of ex)"
proof -
  have "observation_ok isDatetime v"
    if "createPluginDeploymentExecutionObservationV1 h isDatetime env (Some ex) = Inr v" for v
    using that unfolding createPluginDeploymentExecutionObservationV1_def by (auto split: if_splits)
  with observation_created [OF assms] show ?thesis by simp
qed

lemma observation_always_acceptable_witness:
  "\<exists>v. createPluginDeploymentExecutionObservationV1 sample_host (\<lambda>_. True) sample_envelope (Some sample_execution) = Inr v"
  using observation_always_acceptable [OF sample_host_ok sample_envelope_ok sample_execution_ok, of "\<lambda>_. True"]
  by (auto simp: datetimes_ok_def)

text \<open>Initializing a plan replaces a stored execution only when that one has succeeded, or has
  failed or needs manual intervention and the caller names its revision; the replaced
  execution becomes the last entry of the history.\<close>

lemma initialize_keeps_active_executions:
  assumes "host_ok h" and "plan_file_keyed (fs_plan s)" and "holds h s old"
    and "initialize h dt executionId now supersede s = (r, s')" and "s' \<noteq> s"
  shows "(ex_status (sr_execution old) = Succeeded \<or>
       ex_status (sr_execution old) \<in> {Failed, ManualIntervention} \<and>
       supersede = Some (ex_revision (sr_execution old))) \<and>
     (\<exists>st. holds h s' st \<and> ex_status (sr_execution st) = Queued \<and>
        ex_completedPhases (sr_execution st) = [] \<and>
        last (sr_history st) = (sr_envelope old, sr_execution old))"
proof -
  have ok: "stored_ok h st" if "Some old = Some st" for st
    using assms(3) that by (simp add: holds_def)
  from initialize_outcome [OF assms(1,2) readStored_holds [OF assms(1,3)] ok assms(4)] assms(5)
  obtain env ex st where create: "createPluginLifecycleExecutionV1 h env executionId now = Inr ex"
    and st: "holds h s' st" "sr_execution st = ex" "last (sr_history st) = (sr_envelope old, sr_execution old)"
    and inactive: "\<not> execution_active (sr_execution old) supersede" by auto
  have "ex_status ex = Queued \<and> ex_completedPhases ex = []"
    using create by (auto simp: createPluginLifecycleExecutionV1_def split: option.splits if_splits)
  with st inactive show ?thesis by (auto simp: execution_active_def)
qed

definition next_envelope :: envelope where
  "next_envelope = sample_envelope\<lparr>ev_desiredRevision := 2\<rparr>"

definition failed_stored :: stored where
  "failed_stored = started\<lparr>sr_execution := sample_execution\<lparr>ex_status := Failed, ex_reasonCode := PhaseFailed\<rparr>\<rparr>"

definition failed_store :: file_store where
  "failed_store = \<lparr>fs_plan = Json (envelope_json next_envelope), fs_execution = Json (stored_json failed_stored),
     fs_observation = None\<rparr>"

lemma initialize_keeps_active_executions_witness:
  "\<exists>st. holds sample_host (snd (initialize sample_host (\<lambda>_. True) ''exec-002'' ''0'' (Some 0) failed_store)) st \<and>
     ex_status (sr_execution st) = Queued"
proof -
  let ?ex = "sample_execution\<lparr>ex_status := Failed, ex_reasonCode := PhaseFailed\<rparr>"
  have ids: "ids_ok ?ex" by code_simp
  have "execution_ok sample_host sample_envelope ?ex"
    using sample_execution_ok ids
    by (auto simp: execution_ok_def times_ok_def lease_ok_def checkpoint_ok_def Let_def sample_execution_def
        assertPlanMatches_def split: option.splits if_splits)
  then have "stored_ok sample_host failed_stored"
    by (simp add: stored_ok_def entry_ok_def failed_stored_def started_def sample_envelope_ok)
  then have old: "holds sample_host failed_store failed_stored" by (simp add: holds_def failed_store_def)
  have keyed: "plan_file_keyed (fs_plan failed_store)" by code_simp
  have env: "envelope_ok sample_host next_envelope"
    using sample_envelope_ok by (simp add: envelope_ok_def next_envelope_def sample_envelope_def)
  have plan: "readCurrentPlan sample_host failed_store = Inr next_envelope"
    by (simp add: readCurrentPlan_def readJson_def failed_store_def parse_envelope_json [OF sample_host_ok env])
  let ?ex2 = "sample_execution\<lparr>ex_executionId := ''exec-002'', ex_desiredRevision := 2\<rparr>"
  have create: "createPluginLifecycleExecutionV1 sample_host next_envelope ''exec-002'' ''0'' = Inr ?ex2"
    by code_simp
  let ?st = "\<lparr>sr_envelope = next_envelope, sr_execution = ?ex2, sr_history = [(sample_envelope, ?ex)]\<rparr>"
  have revisions: "ev_plan next_envelope = Some sample_plan"
    "ev_desiredRevision sample_envelope \<noteq> ev_desiredRevision next_envelope"
    "\<not> execution_active ?ex (Some 0)"
    by (simp_all add: next_envelope_def sample_envelope_def failed_stored_def started_def execution_active_def
        sample_execution_def)
  have entry: "sr_history failed_stored = []" "sr_envelope failed_stored = sample_envelope"
    "sr_execution failed_stored = ?ex" by (simp_all add: failed_stored_def started_def)
  obtain w s1 where w: "writeStored sample_host (\<lambda>_. True) ?st failed_store = (w, s1)" by fastforce
  have run: "initialize sample_host (\<lambda>_. True) ''exec-002'' ''0'' (Some 0) failed_store =
      (bind_res w (\<lambda>_. Inr ?ex2), s1)"
    using w unfolding initialize_def plan readStored_holds [OF sample_host_ok old]
    using revisions by (simp add: create entry slice_last_def)
  have "stored_ok sample_host ?st"
    using create_ok [OF sample_host_ok env create] env \<open>stored_ok sample_host failed_stored\<close>
    by (simp add: stored_ok_def entry_ok_def failed_stored_def started_def)
  from writeStored_holds(1) [OF sample_host_ok this w] have new: "holds sample_host s1 ?st" .
  have "s1 \<noteq> failed_store"
    using readStored_holds [OF sample_host_ok new] readStored_holds [OF sample_host_ok old]
    by (auto simp: failed_stored_def started_def sample_execution_def)
  from initialize_keeps_active_executions [OF sample_host_ok keyed old run this] run show ?thesis by auto
qed

text \<open>C22: A run calls the adapter for the phases of the plan in order from the stored checkpoint
  on, without skipping or repeating one. The execution it returns has checkpointed the
  phases before the one it stopped in, none that the adapter was not called for, and all of
  them if it succeeded.\<close>

theorem runner_executes_in_order:
  assumes "file_stored h s env ex" and "assertPlanMatches h ex env = Inr p"
    and "ro_store opts = file_port h dt"
    and "runPluginLifecycleExecutionV1 h opts fuel s = (r, calls, s')"
  defines "n \<equiv> length (ex_completedPhases ex)"
  shows "\<exists>k. n + k \<le> length (pl_phases p) \<and> map ctx_phase calls = take k (drop n (pl_phases p)) \<and>
     (\<forall>ex'. r = Some (Inr ex') \<longrightarrow>
        (\<exists>c. ex_completedPhases ex' = take c (pl_phases p) \<and> c \<le> n + k \<and> n + k \<le> Suc c \<and>
           (ex_status ex' = Succeeded \<longrightarrow> c = length (pl_phases p))))"
  using file_runs.run_order [OF assms(3,1,2,4)] unfolding file_runs.runs_from_def n_def .

definition sample_options :: "file_store run_options" where
  "sample_options = \<lparr>ro_store = file_port sample_host (\<lambda>_. True), ro_adapter = (\<lambda>ctx. (0, True)),
     ro_owner = sample_owner, ro_leaseDurationMs = JInt 1000, ro_clock = (\<lambda>n. ''0'')\<rparr>"

lemma started_current: "readCurrentPlan sample_host started_store = Inr sample_envelope"
proof -
  have "fs_plan started_store = fs_plan sample_store"
    using started_run(3) .
  then show ?thesis using sample_readPlan by (simp add: readCurrentPlan_def)
qed

lemma started_stored: "file_stored sample_host started_store sample_envelope sample_execution"
  unfolding file_stored_def
  using sample_host_ok started_holds started_current
  by (auto simp: assertCurrentPlan_def started_def intro!: exI [of _ started])

lemma sample_matches: "assertPlanMatches sample_host sample_execution sample_envelope = Inr sample_plan"
  by code_simp

lemma sample_phases: "pl_phases sample_plan = [Activate, Ready, Commit]"
  by code_simp

theorem runner_executes_in_order_witness:
  "\<exists>k. map ctx_phase (fst (snd (runPluginLifecycleExecutionV1 sample_host sample_options 5 started_store))) =
     take k [Activate, Ready, Commit]"
proof -
  obtain r calls s' where
    run: "runPluginLifecycleExecutionV1 sample_host sample_options 5 started_store = (r, calls, s')"
    by (metis prod_cases3)
  have "ro_store sample_options = file_port sample_host (\<lambda>_. True)" by (simp add: sample_options_def)
  from runner_executes_in_order [OF started_stored sample_matches this run] run show ?thesis
    by (auto simp: sample_phases sample_execution_def)
qed

text \<open>C23: A run ends: a number of rounds greater than the number of phases of the plan is enough.\<close>

theorem run_terminates:
  assumes "file_stored h s env ex" and "assertPlanMatches h ex env = Inr p"
    and "ro_store opts = file_port h dt" and "length (pl_phases p) < fuel"
  shows "\<exists>r calls s'. runPluginLifecycleExecutionV1 h opts fuel s = (Some r, calls, s')"
  using file_runs.run_ends [OF assms(3,1,2,4)]
  by (cases "runPluginLifecycleExecutionV1 h opts fuel s") auto

theorem run_terminates_witness:
  "\<exists>r calls s'. runPluginLifecycleExecutionV1 sample_host sample_options 4 started_store = (Some r, calls, s')"
proof -
  have "ro_store sample_options = file_port sample_host (\<lambda>_. True)" by (simp add: sample_options_def)
  from run_terminates [OF started_stored sample_matches this, of 4] show ?thesis by (simp add: sample_phases)
qed

lemma parsed_plan_hash:
  "parsePluginLifecyclePlanEnvelopeV1 h v = Inr env \<Longrightarrow> ev_plan env = None \<Longrightarrow> ev_planSha256 env = None"
  by (auto simp: parsePluginLifecyclePlanEnvelopeV1_def Let_def split: if_splits)

lemma file_stored_plan:
  assumes "file_stored h s env ex" and "assertPlanMatches h ex env = Inr p"
  shows "\<exists>cur. readCurrentPlan h s = Inr cur \<and> ev_plan cur \<noteq> None"
proof -
  obtain cur where cur: "readCurrentPlan h s = Inr cur" "ev_planSha256 cur = ev_planSha256 env"
    using assms(1) by (auto simp: file_stored_def assertCurrentPlan_def split: sum.splits if_splits)
  have "ev_planSha256 env \<noteq> None"
    using assms(2) by (auto simp: assertPlanMatches_def split: option.splits if_splits)
  with cur(2) have "ev_plan cur \<noteq> None" if "parsePluginLifecyclePlanEnvelopeV1 h v = Inr cur" for v
    using parsed_plan_hash [OF that] by (cases "ev_plan cur") auto
  with cur(1) show ?thesis by (auto simp: readCurrentPlan_def split: sum.splits)
qed

text \<open>C24: If the stored execution is queued or failed, the adapter does its work, and the clock
  gives ISO datetimes that never go back and stay within the lease for two readings, then
  the run succeeds: every phase of the plan is checkpointed in the store.\<close>

theorem working_run_succeeds:
  assumes "file_stored h s env ex" and "assertPlanMatches h ex env = Inr p"
    and "ro_store opts = file_port h dt" and "ex_status ex \<in> {Queued, Failed}"
    and "ro_leaseDurationMs opts = JInt d" and "1000 \<le> d" and "d \<le> 300000"
    and "opaque_id 8 200 (ro_owner opts)"
    and "\<And>n. dateParse h (ro_clock opts n) = Some (t n)" and "\<And>n. dt (ro_clock opts n)"
    and "\<And>n. dt (isoOfDate h (t n + d))" and "\<And>n. \<bar>t n + d\<bar> \<le> max_time"
    and "\<And>n. t n \<le> t (Suc n)" and "\<And>n. t (Suc (Suc n)) < t n + d"
    and "dateParse h (ex_createdAt ex) = Some c" and "c \<le> t 0"
    and "\<And>ctx. snd (ro_adapter opts ctx)" and "length (pl_phases p) < fuel"
  shows "\<exists>ex' calls s'. runPluginLifecycleExecutionV1 h opts fuel s = (Some (Inr ex'), calls, s') \<and>
     ex_status ex' = Succeeded \<and> ex_completedPhases ex' = pl_phases p \<and> store_read h s' = Inr ex'"
proof -
  have clock: "file_runs.good_clock h dt opts t d"
    using assms(1) unfolding file_runs.good_clock_def file_stored_def by (intro conjI allI) (use assms in auto)
  obtain cur where plan: "readCurrentPlan h s = Inr cur" "ev_plan cur \<noteq> None"
    using file_stored_plan [OF assms(1,2)] by blast
  have read: "sp_readPlan (file_port h dt) s = Inr cur" using plan(1) by (simp add: file_port_def)
  from plan(2) obtain q where q: "ev_plan cur = Some q" by blast
  from file_runs.run_succeeds [OF assms(3,1,2) read q assms(4) clock assms(15,16,17,18)]
  obtain ex' calls s' where run: "runPluginLifecycleExecutionV1 h opts fuel s = (Some (Inr ex'), calls, s')"
    "ex_status ex' = Succeeded" "ex_completedPhases ex' = pl_phases p" "file_stored h s' env ex'" by blast
  then show ?thesis using file_runs.read_law [OF run(4)] by (auto simp: file_port_def)
qed

theorem working_run_succeeds_witness:
  "\<exists>ex' calls s'. runPluginLifecycleExecutionV1 sample_host sample_options 4 started_store =
       (Some (Inr ex'), calls, s') \<and>
     ex_status ex' = Succeeded \<and> ex_completedPhases ex' = [Activate, Ready, Commit] \<and> store_read sample_host s' = Inr ex'"
proof -
  have owner: "opaque_id 8 200 sample_owner" by code_simp
  have opts: "ro_store sample_options = file_port sample_host (\<lambda>_. True)"
    "ro_leaseDurationMs sample_options = JInt 1000" "opaque_id 8 200 (ro_owner sample_options)"
    "\<And>n. dateParse sample_host (ro_clock sample_options n) = Some 0" "\<And>ctx. snd (ro_adapter sample_options ctx)"
    using owner sample_times(1) by (simp_all add: sample_options_def)
  have ex: "ex_status sample_execution \<in> {Queued, Failed}"
    "dateParse sample_host (ex_createdAt sample_execution) = Some 0"
    using sample_times(1) by (simp_all add: sample_execution_def)
  have len: "length (pl_phases sample_plan) < 4" by (simp add: sample_phases)
  have time: "(1000::int) \<le> 1000" "(1000::int) \<le> 300000" "(0::int) \<le> 0" "\<bar>0 + 1000 :: int\<bar> \<le> max_time"
    "(0::int) < 0 + 1000"
    by (simp_all add: max_time_def)
  show ?thesis
    using working_run_succeeds [OF started_stored sample_matches opts(1) ex(1) opts(2) time(1,2) opts(3,4)
        TrueI TrueI time(4) time(3) time(5) ex(2) time(3) opts(5) len]
    unfolding sample_phases .
qed

text \<open>C25: Several processes at the lock file of the store exclude each other, as long as none dies
  at work and each is done within the time after which its lock counts as stale.\<close>

theorem lock_excludes_prompt_processes:
  assumes "0 \<le> staleLockMs" and "(prompt_step staleLockMs)\<^sup>*\<^sup>* lock_init s"
  shows "exclusive s \<and> (\<forall>p. lk_pc s p = Inside \<longrightarrow> (\<exists>t. lk_file s = Some (p, t)))"
proof -
  have inv: "lock_inv staleLockMs s" using prompt_reachable_inv [OF assms(2,1)] .
  have "\<exists>t. lk_file s = Some (p, t)" if "lk_pc s p = Inside" for p
    using inv that by (cases "lk_file s"; cases "p = fst (the (lk_file s))") (auto simp: lock_inv_def)
  with lock_inv_exclusive [OF inv] show ?thesis by blast
qed

theorem lock_excludes_prompt_processes_witness:
  "exclusive (first_attempt 5 1 (first_attempt 5 0 lock_init)) \<and>
     lk_pc (first_attempt 5 1 (first_attempt 5 0 lock_init)) 0 = Inside"
proof -
  have "prompt_step 5 lock_init (first_attempt 5 0 lock_init)"
    by (rule prompt_first) (simp add: lock_init_def)
  moreover have "prompt_step 5 (first_attempt 5 0 lock_init) (first_attempt 5 1 (first_attempt 5 0 lock_init))"
    by (rule prompt_first) (simp add: lock_init_def lock_defs)
  ultimately have "(prompt_step 5)\<^sup>*\<^sup>* lock_init (first_attempt 5 1 (first_attempt 5 0 lock_init))"
    by simp
  from lock_excludes_prompt_processes [OF _ this] show ?thesis by (simp add: lock_init_def lock_defs)
qed

text \<open>After a process died at work, two others that both see its stale lock can enter together:
  the second one renames and removes the new lock of the first.\<close>

lemma stale_takeover_is_not_exclusive:
  assumes "0 \<le> staleLockMs"
  shows "\<exists>s. (lock_step staleLockMs)\<^sup>*\<^sup>* lock_init s \<and> \<not> exclusive s \<and>
     lk_pc s 1 = Inside \<and> lk_pc s 2 = Inside \<and> (\<exists>t. lk_file s = Some (2, t))"
  using takeover_steps [OF assms] takeover_both_inside [OF assms] takeover_file [OF assms]
  unfolding exclusive_def by (metis numeral_eq_one_iff semiring_norm(85))

lemma stale_takeover_is_not_exclusive_witness:
  "\<exists>s. (lock_step 30000)\<^sup>*\<^sup>* lock_init s \<and> \<not> exclusive s"
  using stale_takeover_is_not_exclusive [of 30000] by auto

end
