(* ===== verification/Gateway_Policy.thy ===== *)
theory Gateway_Policy
  imports Js_Value
begin

text \<open>
  The per-replica limits of the plugin gateway (\<open>packages/plugin-runtime/src/gateway.ts\<close>): the
  circuit breaker and the admission controller. Both keep JavaScript \<open>Map\<close>s keyed by the
  hash of what they count; the closures they return are the leases, as records with the
  variables the closure captures.
\<close>

datatype gateway_code =
    TokenMalformed | TokenAlgorithmInvalid | TokenSignatureInvalid | TokenClaimsInvalid
  | TokenAudienceInvalid | TokenOperationInvalid | TokenExpired | TokenNotYetValid
  | TokenLifetimeExceeded | TokenReplayed | OperationUnknown | OperationMethodInvalid
  | OperationPathInvalid | PermissionDenied | RequestTooLarge | SchemaDigestInvalid
  | SchemaDocumentInvalid | RequestSchemaInvalid | ResponseSchemaInvalid | RateLimited
  | ConcurrencyLimited | AdmissionUnavailable | CircuitOpen | CapabilitiesInvalid
  | CapabilitiesIdentityInvalid | CapabilitiesOperationMismatch

definition admissionHash :: "host \<Rightarrow> string list \<Rightarrow> string" where
  "admissionHash h parts = sha256 h (join [CHR 0x00] parts)"

section \<open>The circuit breaker\<close>

record circuit_policy =
  cp_failureThreshold :: int
  cp_openMs :: int
  cp_maxTrackedOperations :: nat

text \<open>The constructor's check.\<close>

definition circuit_policy_ok :: "circuit_policy \<Rightarrow> bool" where
  "circuit_policy_ok p \<longleftrightarrow> 0 < cp_failureThreshold p \<and> 0 < cp_openMs p \<and> 0 < cp_maxTrackedOperations p"

record circuit_state =
  ci_consecutiveFailures :: int
  ci_openedAt :: "int option"
  ci_probeInFlight :: bool
  ci_touchedAt :: int

type_synonym breaker = "(string \<times> circuit_state) list"

record circuit_lease =
  cl_key :: string
  cl_isProbe :: bool
  cl_explicitAt :: "int option"
  cl_completed :: bool

text \<open>The least recently touched closed state, the first of several.\<close>

fun oldestClosed :: "(string \<times> int) option \<Rightarrow> breaker \<Rightarrow> (string \<times> int) option" where
  "oldestClosed oldest [] = oldest"
| "oldestClosed oldest ((key, state) # states) =
     oldestClosed
       (if ci_openedAt state \<noteq> None \<or> ci_probeInFlight state then oldest
        else case oldest of
          None \<Rightarrow> Some (key, ci_touchedAt state)
        | Some (k, t) \<Rightarrow> if ci_touchedAt state < t then Some (key, ci_touchedAt state) else oldest)
       states"

definition evictClosedState :: "breaker \<Rightarrow> breaker" where
  "evictClosedState states =
     (case oldestClosed None states of None \<Rightarrow> states | Some (key, t) \<Rightarrow> del key states)"

definition fresh_circuit :: "int \<Rightarrow> circuit_state" where
  "fresh_circuit t = \<lparr>ci_consecutiveFailures = 0, ci_openedAt = None, ci_probeInFlight = False, ci_touchedAt = t\<rparr>"

text \<open>The lookup at the start of \<open>acquire\<close>: a state, new ones within the capacity.\<close>

definition trackedState ::
  "circuit_policy \<Rightarrow> string \<Rightarrow> int \<Rightarrow> breaker \<Rightarrow> (gateway_code + circuit_state) \<times> breaker" where
  "trackedState p key observedAt states =
     (case map_of states key of
        Some state \<Rightarrow> (Inr state, states)
      | None \<Rightarrow>
          let kept = (if cp_maxTrackedOperations p \<le> length states then evictClosedState states else states)
          in if cp_maxTrackedOperations p \<le> length kept then (Inl CircuitOpen, kept)
             else (Inr (fresh_circuit observedAt), put key (fresh_circuit observedAt) kept))"

text \<open>\<open>acquire(pluginId, operationId, nowMs)\<close>; \<open>clock\<close> is \<open>Date.now()\<close>.\<close>

definition circuit_acquire ::
  "host \<Rightarrow> circuit_policy \<Rightarrow> string \<Rightarrow> string \<Rightarrow> int option \<Rightarrow> int \<Rightarrow> breaker
    \<Rightarrow> (gateway_code + circuit_lease) \<times> breaker" where
  "circuit_acquire h p pluginId operationId nowMs clock states =
     (let observedAt = (case nowMs of None \<Rightarrow> clock | Some t \<Rightarrow> t);
          key = admissionHash h [''circuit'', pluginId, operationId]
      in case trackedState p key observedAt states of
           (Inl e, states1) \<Rightarrow> (Inl e, states1)
         | (Inr found, states1) \<Rightarrow>
             let state = found\<lparr>ci_touchedAt := observedAt\<rparr>;
                 isOpen = (ci_openedAt state \<noteq> None)
             in if isOpen \<and> (observedAt < the (ci_openedAt state) + cp_openMs p \<or> ci_probeInFlight state)
                then (Inl CircuitOpen, put key state states1)
                else (Inr \<lparr>cl_key = key, cl_isProbe = isOpen, cl_explicitAt = nowMs, cl_completed = False\<rparr>,
                      put key (if isOpen then state\<lparr>ci_probeInFlight := True\<rparr> else state) states1))"

text \<open>\<open>succeed()\<close> and \<open>fail()\<close> of a lease.\<close>

definition circuit_complete ::
  "circuit_policy \<Rightarrow> circuit_lease \<Rightarrow> bool \<Rightarrow> int \<Rightarrow> breaker \<Rightarrow> circuit_lease \<times> breaker" where
  "circuit_complete p lease succeeded clock states =
     (if cl_completed lease then (lease, states)
      else (lease\<lparr>cl_completed := True\<rparr>,
        case map_of states (cl_key lease) of
          None \<Rightarrow> states
        | Some current \<Rightarrow>
            let completedAt = (case cl_explicitAt lease of None \<Rightarrow> clock | Some t \<Rightarrow> t);
                failures = ci_consecutiveFailures current + 1
            in if succeeded then del (cl_key lease) states
               else put (cl_key lease)
                 \<lparr>ci_consecutiveFailures = failures,
                  ci_openedAt = (if cl_isProbe lease \<or> cp_failureThreshold p \<le> failures then Some completedAt
                                 else ci_openedAt current),
                  ci_probeInFlight = False, ci_touchedAt = completedAt\<rparr> states))"

text \<open>The breaker with the leases it has given out, in order.\<close>

inductive circuit_step ::
  "host \<Rightarrow> circuit_policy \<Rightarrow> breaker \<times> circuit_lease list \<Rightarrow> breaker \<times> circuit_lease list \<Rightarrow> bool"
  for h :: host and p :: circuit_policy where
  circuit_granted: "circuit_acquire h p i op nowMs clock states = (Inr lease, states') \<Longrightarrow>
    circuit_step h p (states, leases) (states', leases @ [lease])"
| circuit_refused: "circuit_acquire h p i op nowMs clock states = (Inl e, states') \<Longrightarrow>
    circuit_step h p (states, leases) (states', leases)"
| circuit_completes: "n < length leases \<Longrightarrow>
    circuit_complete p (leases ! n) succeeded clock states = (lease, states') \<Longrightarrow>
    circuit_step h p (states, leases) (states', leases[n := lease])"

subsection \<open>The invariant of the breaker\<close>

definition circuit_state_ok :: "circuit_policy \<Rightarrow> circuit_state \<Rightarrow> bool" where
  "circuit_state_ok p s \<longleftrightarrow> 0 \<le> ci_consecutiveFailures s \<and>
     (ci_openedAt s = None \<longrightarrow> \<not> ci_probeInFlight s \<and> ci_consecutiveFailures s < cp_failureThreshold p)"

definition breaker_inv :: "circuit_policy \<Rightarrow> breaker \<Rightarrow> bool" where
  "breaker_inv p states \<longleftrightarrow> distinct (map fst states) \<and> length states \<le> cp_maxTrackedOperations p \<and>
     (\<forall>key s. map_of states key = Some s \<longrightarrow> circuit_state_ok p s)"

lemma breaker_inv_del: "breaker_inv p states \<Longrightarrow> breaker_inv p (del key states)"
  using length_del [of key states] by (auto simp: breaker_inv_def split: if_splits)

lemma breaker_inv_put:
  "breaker_inv p states \<Longrightarrow> circuit_state_ok p s \<Longrightarrow>
     map_of states key \<noteq> None \<or> length states < cp_maxTrackedOperations p \<Longrightarrow> breaker_inv p (put key s states)"
  by (auto simp: breaker_inv_def length_put)

lemma breaker_inv_evict: "breaker_inv p states \<Longrightarrow> breaker_inv p (evictClosedState states)"
  by (auto simp: evictClosedState_def breaker_inv_del split: option.split)

lemma fresh_circuit_ok: "circuit_policy_ok p \<Longrightarrow> circuit_state_ok p (fresh_circuit t)"
  by (simp add: circuit_state_ok_def fresh_circuit_def circuit_policy_ok_def)

lemma trackedState_inv:
  assumes "circuit_policy_ok p" and "breaker_inv p states" and "trackedState p key t states = (r, states')"
  shows "breaker_inv p states' \<and> (\<forall>s. r = Inr s \<longrightarrow> map_of states' key = Some s \<and> circuit_state_ok p s)"
proof (cases "map_of states key")
  case None
  let ?kept = "if cp_maxTrackedOperations p \<le> length states then evictClosedState states else states"
  have kept: "breaker_inv p ?kept" using assms(2) breaker_inv_evict by auto
  show ?thesis
  proof (cases "cp_maxTrackedOperations p \<le> length ?kept")
    case True
    with None assms(3) kept show ?thesis unfolding trackedState_def Let_def by auto
  next
    case False
    then have "breaker_inv p (put key (fresh_circuit t) ?kept)"
      using breaker_inv_put [OF kept fresh_circuit_ok [OF assms(1)]] by simp
    moreover have "r = Inr (fresh_circuit t)" "states' = put key (fresh_circuit t) ?kept"
      using None False assms(3) unfolding trackedState_def Let_def by auto
    ultimately show ?thesis using fresh_circuit_ok [OF assms(1)] by simp
  qed
next
  case (Some s)
  with assms show ?thesis by (auto simp: trackedState_def breaker_inv_def)
qed

lemma circuit_acquire_inv:
  assumes p: "circuit_policy_ok p" and inv: "breaker_inv p states"
    and run: "circuit_acquire h p i op nowMs clock states = (r, states')"
  shows "breaker_inv p states'"
proof -
  let ?key = "admissionHash h [''circuit'', i, op]" and ?t = "case nowMs of None \<Rightarrow> clock | Some t \<Rightarrow> t"
  obtain found states1 where tracked: "trackedState p ?key ?t states = (found, states1)" by fastforce
  note t = trackedState_inv [OF p inv tracked]
  show ?thesis
  proof (cases found)
    case (Inl e)
    with run tracked t show ?thesis by (simp add: circuit_acquire_def Let_def)
  next
    case (Inr s)
    with t have s: "map_of states1 ?key = Some s" "circuit_state_ok p s" "breaker_inv p states1" by auto
    then have "circuit_state_ok p (s\<lparr>ci_touchedAt := ?t\<rparr>)"
      and "ci_openedAt s \<noteq> None \<Longrightarrow> circuit_state_ok p (s\<lparr>ci_touchedAt := ?t, ci_probeInFlight := True\<rparr>)"
      by (auto simp: circuit_state_ok_def)
    with s run tracked Inr show ?thesis
      by (auto simp: circuit_acquire_def Let_def intro!: breaker_inv_put split: if_splits)
  qed
qed

lemma circuit_complete_inv:
  assumes "breaker_inv p states" and "circuit_complete p lease b clock states = (lease', states')"
  shows "breaker_inv p states'"
proof (cases "cl_completed lease \<or> map_of states (cl_key lease) = None")
  case True
  with assms show ?thesis by (auto simp: circuit_complete_def split: option.splits if_splits)
next
  case False
  then obtain s where s: "map_of states (cl_key lease) = Some s" by blast
  with assms(1) have "circuit_state_ok p s" by (simp add: breaker_inv_def)
  with False s assms show ?thesis
    by (auto simp: circuit_complete_def Let_def circuit_state_ok_def breaker_inv_del
        intro!: breaker_inv_put split: if_splits)
qed

lemma circuit_step_inv:
  assumes "circuit_step h p (states, leases) (states', leases')" and "circuit_policy_ok p"
  shows "breaker_inv p states \<Longrightarrow> breaker_inv p states'"
  using assms
  by (cases rule: circuit_step.cases) (auto intro: circuit_acquire_inv circuit_complete_inv)

lemma circuit_reachable_inv:
  assumes "(circuit_step h p)\<^sup>*\<^sup>* ([], []) (states, leases)" and "circuit_policy_ok p"
  shows "breaker_inv p states"
  using assms(1)
proof (induction "(states, leases)" arbitrary: states leases rule: rtranclp_induct)
  case base
  then show ?case by (simp add: breaker_inv_def)
next
  case (step y)
  then show ?case using circuit_step_inv assms(2) by (cases y) blast
qed

subsection \<open>Opening and probing\<close>

text \<open>Calls of one operation that all fail, one after the other.\<close>

fun failing_calls ::
  "host \<Rightarrow> circuit_policy \<Rightarrow> string \<Rightarrow> string \<Rightarrow> int list \<Rightarrow> breaker \<Rightarrow> breaker" where
  "failing_calls h p i op [] states = states"
| "failing_calls h p i op (t # ts) states =
     (case circuit_acquire h p i op (Some t) t states of
        (Inl e, states1) \<Rightarrow> failing_calls h p i op ts states1
      | (Inr lease, states1) \<Rightarrow>
          failing_calls h p i op ts (snd (circuit_complete p lease False t states1)))"

abbreviation circuit_key :: "host \<Rightarrow> string \<Rightarrow> string \<Rightarrow> string" where
  "circuit_key h i op \<equiv> admissionHash h [''circuit'', i, op]"

lemma acquire_closed:
  assumes "map_of states (circuit_key h i op) = Some s" and "ci_openedAt s = None"
  shows "circuit_acquire h p i op (Some t) t states =
     (Inr \<lparr>cl_key = circuit_key h i op, cl_isProbe = False, cl_explicitAt = Some t, cl_completed = False\<rparr>,
      put (circuit_key h i op) (s\<lparr>ci_touchedAt := t\<rparr>) states)"
  using assms by (simp add: circuit_acquire_def trackedState_def Let_def)

lemma acquire_open:
  assumes "map_of states (circuit_key h i op) = Some s" and "ci_openedAt s = Some opened"
    and "\<not> ci_probeInFlight s"
  shows "circuit_acquire h p i op (Some t) t states =
     (if t < opened + cp_openMs p then (Inl CircuitOpen, put (circuit_key h i op) (s\<lparr>ci_touchedAt := t\<rparr>) states)
      else (Inr \<lparr>cl_key = circuit_key h i op, cl_isProbe = True, cl_explicitAt = Some t, cl_completed = False\<rparr>,
            put (circuit_key h i op) (s\<lparr>ci_touchedAt := t, ci_probeInFlight := True\<rparr>) states))"
  using assms by (simp add: circuit_acquire_def trackedState_def Let_def)

lemma failing_call_closed:
  assumes "map_of states (circuit_key h i op) = Some s" and "ci_openedAt s = None"
  shows "failing_calls h p i op (t # ts) states =
     failing_calls h p i op ts (put (circuit_key h i op)
       \<lparr>ci_consecutiveFailures = ci_consecutiveFailures s + 1,
        ci_openedAt = (if cp_failureThreshold p \<le> ci_consecutiveFailures s + 1 then Some t else None),
        ci_probeInFlight = False, ci_touchedAt = t\<rparr> states)"
  using assms by (simp add: acquire_closed circuit_complete_def)

lemma failing_calls_open:
  assumes "map_of states (circuit_key h i op) = Some s" and "ci_openedAt s = None"
    and "ci_consecutiveFailures s + int (length ts) = cp_failureThreshold p" and "ts \<noteq> []"
  shows "\<exists>s'. map_of (failing_calls h p i op ts states) (circuit_key h i op) = Some s' \<and>
     ci_openedAt s' = Some (last ts) \<and> \<not> ci_probeInFlight s'"
  using assms
proof (induction ts arbitrary: s states)
  case (Cons t ts)
  note step = failing_call_closed [OF Cons.prems(1,2)]
  show ?case
  proof (cases "ts = []")
    case True
    with Cons.prems(3) step show ?thesis by simp
  next
    case False
    with Cons.prems(3) have low: "\<not> cp_failureThreshold p \<le> ci_consecutiveFailures s + 1" by (cases ts) auto
    let ?s = "\<lparr>ci_consecutiveFailures = ci_consecutiveFailures s + 1, ci_openedAt = None,
        ci_probeInFlight = False, ci_touchedAt = t\<rparr>"
    have "ci_openedAt ?s = None" "ci_consecutiveFailures ?s + int (length ts) = cp_failureThreshold p"
      using Cons.prems(3) by simp_all
    from Cons.IH [OF _ this False, of "put (circuit_key h i op) ?s states"] show ?thesis
      unfolding step using low False by simp
  qed
qed simp

lemma failing_calls_start:
  assumes "circuit_policy_ok p"
  shows "failing_calls h p i op (t # ts) [] =
     failing_calls h p i op (t # ts) [(circuit_key h i op, fresh_circuit t)]"
  using assms by (simp add: circuit_acquire_def trackedState_def circuit_policy_ok_def fresh_circuit_def Let_def)

lemma threshold_failures_open:
  assumes "circuit_policy_ok p" and "int (length ts) = cp_failureThreshold p"
  shows "\<exists>s'. map_of (failing_calls h p i op ts []) (circuit_key h i op) = Some s' \<and>
     ci_openedAt s' = Some (last ts) \<and> \<not> ci_probeInFlight s'"
proof -
  from assms obtain t ts' where ts: "ts = t # ts'" by (cases ts) (auto simp: circuit_policy_ok_def)
  show ?thesis
    unfolding ts failing_calls_start [OF assms(1)]
    by (rule failing_calls_open [of _ h i op "fresh_circuit t"]) (use assms ts in \<open>simp_all add: fresh_circuit_def\<close>)
qed

end
