(* ===== verification/Gateway_Admission.thy ===== *)
theory Gateway_Admission
  imports Gateway_Policy
begin

text \<open>
  \<open>PluginGatewayAdmissionControllerV1\<close> of \<open>packages/plugin-runtime/src/gateway.ts\<close>: fixed
  windows of requests per subject and per plugin, and a ceiling of concurrent requests per
  operation. The step relation records what was admitted and which leases were given out.
\<close>

section \<open>The controller\<close>

record admission_policy =
  ap_windowMs :: int
  ap_maxRequestsPerSubjectOperation :: int
  ap_maxRequestsPerPlugin :: int
  ap_maxConcurrentPerOperation :: int
  ap_maxTrackedBuckets :: nat

definition admission_policy_ok :: "admission_policy \<Rightarrow> bool" where
  "admission_policy_ok p \<longleftrightarrow> 0 < ap_windowMs p \<and> 0 < ap_maxRequestsPerSubjectOperation p \<and>
     0 < ap_maxRequestsPerPlugin p \<and> 0 < ap_maxConcurrentPerOperation p \<and> 0 < ap_maxTrackedBuckets p"

record admission_input =
  am_pluginId :: string
  am_operationId :: string
  am_tenantRef :: "string option"
  am_subjectRef :: string

record rate_bucket =
  bk_windowStartedAt :: int
  bk_count :: int

record admission_state =
  ga_rateBuckets :: "(string \<times> rate_bucket) list"
  ga_concurrent :: "(string \<times> int) list"

text \<open>The lease: the variables its closure \<open>release\<close> captures.\<close>

record admission_lease =
  al_concurrentKey :: string
  al_released :: bool

definition removeExpiredBuckets :: "admission_policy \<Rightarrow> int \<Rightarrow> admission_state \<Rightarrow> admission_state" where
  "removeExpiredBuckets p now s = s\<lparr>ga_rateBuckets :=
     filter (\<lambda>(key, bucket). \<not> bk_windowStartedAt bucket + ap_windowMs p \<le> now) (ga_rateBuckets s)\<rparr>"

definition bucketCount :: "admission_state \<Rightarrow> string \<Rightarrow> int \<Rightarrow> int" where
  "bucketCount s key windowStartedAt =
     (case map_of (ga_rateBuckets s) key of
        None \<Rightarrow> 0
      | Some bucket \<Rightarrow> if bk_windowStartedAt bucket = windowStartedAt then bk_count bucket else 0)"

definition incrementBucket :: "string \<Rightarrow> int \<Rightarrow> admission_state \<Rightarrow> admission_state" where
  "incrementBucket key windowStartedAt s = s\<lparr>ga_rateBuckets :=
     put key \<lparr>bk_windowStartedAt = windowStartedAt, bk_count = bucketCount s key windowStartedAt + 1\<rparr>
       (ga_rateBuckets s)\<rparr>"

definition concurrentCount :: "admission_state \<Rightarrow> string \<Rightarrow> int" where
  "concurrentCount s key = case_option 0 id (map_of (ga_concurrent s) key)"

definition windowOf :: "admission_policy \<Rightarrow> int \<Rightarrow> int" where
  "windowOf p now = now div ap_windowMs p * ap_windowMs p"

definition subjectKey :: "host \<Rightarrow> admission_input \<Rightarrow> string" where
  "subjectKey h input = admissionHash h
     [''subject'', am_pluginId input, am_operationId input,
      (case am_tenantRef input of None \<Rightarrow> ''deployment'' | Some t \<Rightarrow> t), am_subjectRef input]"

definition pluginKey :: "host \<Rightarrow> admission_input \<Rightarrow> string" where
  "pluginKey h input = admissionHash h [''plugin'', am_pluginId input]"

definition concurrentKey :: "host \<Rightarrow> admission_input \<Rightarrow> string" where
  "concurrentKey h input = admissionHash h [''concurrent'', am_pluginId input, am_operationId input]"

definition admission_acquire ::
  "host \<Rightarrow> admission_policy \<Rightarrow> admission_input \<Rightarrow> int \<Rightarrow> admission_state
    \<Rightarrow> (gateway_code + admission_lease) \<times> admission_state" where
  "admission_acquire h p input now s0 =
     (let windowStartedAt = windowOf p now;
          s = (if ga_rateBuckets s0 = [] then s0 else removeExpiredBuckets p now s0);
          subject = subjectKey h input; plugin = pluginKey h input; concurrent = concurrentKey h input
      in if ap_maxRequestsPerSubjectOperation p \<le> bucketCount s subject windowStartedAt \<or>
            ap_maxRequestsPerPlugin p \<le> bucketCount s plugin windowStartedAt
         then (Inl RateLimited, s)
         else if ap_maxConcurrentPerOperation p \<le> concurrentCount s concurrent
         then (Inl ConcurrencyLimited, s)
         else if ap_maxTrackedBuckets p < length (ga_rateBuckets s) + 2 \<and>
                 (map_of (ga_rateBuckets s) subject = None \<or> map_of (ga_rateBuckets s) plugin = None)
         then (Inl RateLimited, s)
         else (Inr \<lparr>al_concurrentKey = concurrent, al_released = False\<rparr>,
               (incrementBucket plugin windowStartedAt (incrementBucket subject windowStartedAt s))
                 \<lparr>ga_concurrent := put concurrent (concurrentCount s concurrent + 1) (ga_concurrent s)\<rparr>))"

definition admission_release ::
  "admission_lease \<Rightarrow> admission_state \<Rightarrow> admission_lease \<times> admission_state" where
  "admission_release lease s =
     (if al_released lease then (lease, s)
      else (lease\<lparr>al_released := True\<rparr>,
            let count = concurrentCount s (al_concurrentKey lease)
            in s\<lparr>ga_concurrent := (if count \<le> 1 then del (al_concurrentKey lease) (ga_concurrent s)
                  else put (al_concurrentKey lease) (count - 1) (ga_concurrent s))\<rparr>))"

section \<open>The controller at work\<close>

text \<open>The controller, the last time read, the leases given out and the requests admitted.\<close>

record admission_world =
  aw_state :: admission_state
  aw_now :: int
  aw_leases :: "admission_lease list"
  aw_admitted :: "(int \<times> admission_input) list"

definition admission_start :: admission_world where
  "admission_start = \<lparr>aw_state = \<lparr>ga_rateBuckets = [], ga_concurrent = []\<rparr>, aw_now = 0, aw_leases = [],
     aw_admitted = []\<rparr>"

inductive admission_step :: "host \<Rightarrow> admission_policy \<Rightarrow> admission_world \<Rightarrow> admission_world \<Rightarrow> bool"
  for h :: host and p :: admission_policy where
  admission_granted: "aw_now w \<le> now \<Longrightarrow> admission_acquire h p input now (aw_state w) = (Inr lease, s) \<Longrightarrow>
    admission_step h p w \<lparr>aw_state = s, aw_now = now, aw_leases = aw_leases w @ [lease],
      aw_admitted = aw_admitted w @ [(now, input)]\<rparr>"
| admission_refused: "aw_now w \<le> now \<Longrightarrow> admission_acquire h p input now (aw_state w) = (Inl e, s) \<Longrightarrow>
    admission_step h p w (w\<lparr>aw_state := s, aw_now := now\<rparr>)"
| admission_released: "n < length (aw_leases w) \<Longrightarrow>
    admission_release (aw_leases w ! n) (aw_state w) = (lease, s) \<Longrightarrow>
    admission_step h p w (w\<lparr>aw_state := s, aw_leases := (aw_leases w)[n := lease]\<rparr>)"

text \<open>The requests admitted in a window for which a key holds, and the leases not yet released.\<close>

definition admitted ::
  "admission_policy \<Rightarrow> (admission_input \<Rightarrow> bool) \<Rightarrow> int \<Rightarrow> (int \<times> admission_input) list \<Rightarrow> nat" where
  "admitted p sel window entries = length (filter (\<lambda>(t, i). windowOf p t = window \<and> sel i) entries)"

definition outstanding :: "string \<Rightarrow> admission_lease list \<Rightarrow> nat" where
  "outstanding key leases = length (filter (\<lambda>l. al_concurrentKey l = key \<and> \<not> al_released l) leases)"

section \<open>Its invariant\<close>

definition buckets_ok :: "admission_policy \<Rightarrow> int \<Rightarrow> admission_state \<Rightarrow> bool" where
  "buckets_ok p now s \<longleftrightarrow> distinct (map fst (ga_rateBuckets s)) \<and>
     length (ga_rateBuckets s) \<le> ap_maxTrackedBuckets p \<and>
     (\<forall>(key, bucket) \<in> set (ga_rateBuckets s). bk_windowStartedAt bucket \<le> windowOf p now \<and> 0 \<le> bk_count bucket)"

definition rates_ok :: "host \<Rightarrow> admission_policy \<Rightarrow> admission_world \<Rightarrow> bool" where
  "rates_ok h p w \<longleftrightarrow>
     (\<forall>(t, i) \<in> set (aw_admitted w). t \<le> aw_now w) \<and>
     (\<forall>key. int (admitted p (\<lambda>i. subjectKey h i = key) (windowOf p (aw_now w)) (aw_admitted w))
              \<le> bucketCount (aw_state w) key (windowOf p (aw_now w)) \<and>
            int (admitted p (\<lambda>i. pluginKey h i = key) (windowOf p (aw_now w)) (aw_admitted w))
              \<le> bucketCount (aw_state w) key (windowOf p (aw_now w))) \<and>
     (\<forall>key window.
        int (admitted p (\<lambda>i. subjectKey h i = key) window (aw_admitted w)) \<le> ap_maxRequestsPerSubjectOperation p \<and>
        int (admitted p (\<lambda>i. pluginKey h i = key) window (aw_admitted w)) \<le> ap_maxRequestsPerPlugin p)"

definition leases_ok :: "admission_policy \<Rightarrow> admission_world \<Rightarrow> bool" where
  "leases_ok p w \<longleftrightarrow> (\<forall>key. concurrentCount (aw_state w) key = int (outstanding key (aw_leases w)) \<and>
     int (outstanding key (aw_leases w)) \<le> ap_maxConcurrentPerOperation p)"

definition admission_inv :: "host \<Rightarrow> admission_policy \<Rightarrow> admission_world \<Rightarrow> bool" where
  "admission_inv h p w \<longleftrightarrow> buckets_ok p (aw_now w) (aw_state w) \<and> rates_ok h p w \<and> leases_ok p w"

subsection \<open>Windows and buckets\<close>

lemma windowOf_mono: "admission_policy_ok p \<Longrightarrow> t \<le> t' \<Longrightarrow> windowOf p t \<le> windowOf p t'"
  by (simp add: windowOf_def admission_policy_ok_def zdiv_mono1)

lemma windowOf_bounds:
  assumes "admission_policy_ok p"
  shows "windowOf p t \<le> t" and "t < windowOf p t + ap_windowMs p"
proof -
  have "t div ap_windowMs p * ap_windowMs p + t mod ap_windowMs p = t" by (rule div_mult_mod_eq)
  moreover have "0 \<le> t mod ap_windowMs p" "t mod ap_windowMs p < ap_windowMs p"
    using assms by (simp_all add: admission_policy_ok_def)
  ultimately show "windowOf p t \<le> t" "t < windowOf p t + ap_windowMs p"
    unfolding windowOf_def by linarith+
qed

lemma bucketCount_increment:
  "bucketCount (incrementBucket key window s) key' window' =
     (if key' = key then (if window' = window then bucketCount s key window + 1 else 0)
      else bucketCount s key' window')"
  by (simp add: incrementBucket_def bucketCount_def)

lemma bucketCount_nonneg: "buckets_ok p now s \<Longrightarrow> 0 \<le> bucketCount s key window"
  by (auto simp: buckets_ok_def bucketCount_def split: option.split dest!: map_of_SomeD)

text \<open>Removing the expired buckets keeps the counts of the window the clock has reached.\<close>

lemma bucketCount_removed:
  assumes p: "admission_policy_ok p" and s: "distinct (map fst (ga_rateBuckets s))"
  shows "bucketCount (removeExpiredBuckets p now s) key (windowOf p now) = bucketCount s key (windowOf p now)"
proof (cases "map_of (ga_rateBuckets s) key")
  case None
  then have "map_of (filter P (ga_rateBuckets s)) key = None" for P
    by (auto simp: map_of_eq_None_iff)
  with None show ?thesis by (simp add: bucketCount_def removeExpiredBuckets_def)
next
  case (Some b)
  have filtered: "map_of (filter (\<lambda>(k, v). P v) m) k = (case map_of m k of None \<Rightarrow> None | Some v \<Rightarrow> if P v then Some v else None)"
    if "distinct (map fst m)" for P and m :: "(string \<times> rate_bucket) list" and k
    using that by (induction m) (auto simp: map_of_eq_None_iff image_iff split: option.splits)
  show ?thesis
    using Some windowOf_bounds(2) [OF p, of now]
    by (auto simp: bucketCount_def removeExpiredBuckets_def filtered [OF s])
qed

lemma buckets_ok_removed:
  assumes s: "buckets_ok p now s" and p: "admission_policy_ok p" and now: "now \<le> now'"
  shows "buckets_ok p now' (removeExpiredBuckets p now' s)"
proof -
  have "length (ga_rateBuckets (removeExpiredBuckets p now' s)) \<le> length (ga_rateBuckets s)"
    by (simp add: removeExpiredBuckets_def)
  then have "length (ga_rateBuckets (removeExpiredBuckets p now' s)) \<le> ap_maxTrackedBuckets p"
    using s by (simp add: buckets_ok_def)
  moreover have "set (ga_rateBuckets (removeExpiredBuckets p now' s)) \<subseteq> set (ga_rateBuckets s)"
    by (auto simp: removeExpiredBuckets_def)
  moreover have "distinct (map fst (ga_rateBuckets (removeExpiredBuckets p now' s)))"
    using s by (simp add: buckets_ok_def removeExpiredBuckets_def distinct_map_filter)
  ultimately show ?thesis
    using s windowOf_mono [OF p now] by (fastforce simp: buckets_ok_def)
qed

lemma buckets_ok_increment:
  assumes "buckets_ok p now s"
    and "map_of (ga_rateBuckets s) key \<noteq> None \<or> length (ga_rateBuckets s) < ap_maxTrackedBuckets p"
  shows "buckets_ok p now (incrementBucket key (windowOf p now) s)"
  using assms bucketCount_nonneg [OF assms(1)]
  by (auto simp: buckets_ok_def incrementBucket_def length_put dest!: in_set_put)

subsection \<open>Preservation\<close>

lemma cleaned_eq: "(if ga_rateBuckets s = [] then s else removeExpiredBuckets p now s) = removeExpiredBuckets p now s"
  by (cases s) (simp add: removeExpiredBuckets_def)

lemma admitted_snoc:
  "admitted p sel window (entries @ [(t, i)]) =
     admitted p sel window entries + (if windowOf p t = window \<and> sel i then 1 else 0)"
  by (simp add: admitted_def)

lemma admitted_later:
  assumes "admission_policy_ok p" and "\<forall>(t, i) \<in> set entries. t \<le> now" and "windowOf p now < window"
  shows "admitted p sel window entries = 0"
proof -
  have "windowOf p t < window" if "(t, i) \<in> set entries" for t i
    using assms that windowOf_mono [of p t now] by fastforce
  then show ?thesis by (auto simp: admitted_def filter_empty_conv)
qed

text \<open>After the clean-up the buckets of the reached window cover what was admitted in it.\<close>

lemma covered_after_cleaning:
  assumes p: "admission_policy_ok p" and b: "buckets_ok p (aw_now w) (aw_state w)"
    and times: "\<forall>(t, i) \<in> set (aw_admitted w). t \<le> aw_now w" and now: "aw_now w \<le> now"
    and cover: "int (admitted p sel (windowOf p (aw_now w)) (aw_admitted w)) \<le>
      bucketCount (aw_state w) key (windowOf p (aw_now w))"
  shows "int (admitted p sel (windowOf p now) (aw_admitted w)) \<le>
    bucketCount (removeExpiredBuckets p now (aw_state w)) key (windowOf p now)"
proof (cases "windowOf p now = windowOf p (aw_now w)")
  case True
  have "distinct (map fst (ga_rateBuckets (aw_state w)))" using b by (simp add: buckets_ok_def)
  from bucketCount_removed [OF p this, of now key] cover True show ?thesis by simp
next
  case False
  with windowOf_mono [OF p now] have "windowOf p (aw_now w) < windowOf p now" by simp
  from admitted_later [OF p times this] show ?thesis
    using bucketCount_nonneg [OF buckets_ok_removed [OF b p now]] by simp
qed

lemma acquire_result:
  "admission_acquire h p input now s0 = (r, s') \<Longrightarrow>
     (\<exists>e. r = Inl e) \<and> s' = removeExpiredBuckets p now s0 \<or>
     r = Inr \<lparr>al_concurrentKey = concurrentKey h input, al_released = False\<rparr> \<and>
     (let s = removeExpiredBuckets p now s0; win = windowOf p now
      in bucketCount s (subjectKey h input) win < ap_maxRequestsPerSubjectOperation p \<and>
         bucketCount s (pluginKey h input) win < ap_maxRequestsPerPlugin p \<and>
         concurrentCount s (concurrentKey h input) < ap_maxConcurrentPerOperation p \<and>
         (length (ga_rateBuckets s) + 2 \<le> ap_maxTrackedBuckets p \<or>
          map_of (ga_rateBuckets s) (subjectKey h input) \<noteq> None \<and>
          map_of (ga_rateBuckets s) (pluginKey h input) \<noteq> None) \<and>
         s' = (incrementBucket (pluginKey h input) win (incrementBucket (subjectKey h input) win s))
                \<lparr>ga_concurrent := put (concurrentKey h input)
                   (concurrentCount s (concurrentKey h input) + 1) (ga_concurrent s)\<rparr>)"
  unfolding admission_acquire_def cleaned_eq Let_def
  by (auto simp: not_le not_less split: if_split_asm)

lemma concurrentCount_simps [simp]:
  "concurrentCount (removeExpiredBuckets p now s) key = concurrentCount s key"
  "concurrentCount (incrementBucket k win s) key = concurrentCount s key"
  "concurrentCount (s\<lparr>ga_concurrent := put k n m\<rparr>) key = (if key = k then n else case_option 0 id (map_of m key))"
  "concurrentCount (s\<lparr>ga_concurrent := del k m\<rparr>) key = (if key = k then 0 else case_option 0 id (map_of m key))"
  "case_option 0 id (map_of (ga_concurrent s) key) = concurrentCount s key"
  by (simp_all add: concurrentCount_def removeExpiredBuckets_def incrementBucket_def)

lemma ga_concurrent_simps [simp]:
  "ga_concurrent (removeExpiredBuckets p now s) = ga_concurrent s"
  "ga_concurrent (incrementBucket k win s) = ga_concurrent s"
  by (simp_all add: removeExpiredBuckets_def incrementBucket_def)

lemma concurrent_irrelevant [simp]:
  "bucketCount (s\<lparr>ga_concurrent := m\<rparr>) key win = bucketCount s key win"
  "buckets_ok p now (s\<lparr>ga_concurrent := m\<rparr>) = buckets_ok p now s"
  by (simp_all add: bucketCount_def buckets_ok_def)

lemma outstanding_snoc:
  "outstanding key (leases @ [l]) =
     outstanding key leases + (if al_concurrentKey l = key \<and> \<not> al_released l then 1 else 0)"
  by (simp add: outstanding_def)

lemma outstanding_release:
  assumes "n < length leases" and "\<not> al_released (leases ! n)"
  shows "outstanding key leases = outstanding key (leases[n := (leases ! n)\<lparr>al_released := True\<rparr>]) +
     (if key = al_concurrentKey (leases ! n) then 1 else 0)"
proof -
  have "leases = take n leases @ leases ! n # drop (Suc n) leases" using assms(1) by (rule id_take_nth_drop)
  then have "outstanding key leases = outstanding key (take n leases @ leases ! n # drop (Suc n) leases)" by simp
  with assms show ?thesis by (auto simp: upd_conv_take_nth_drop outstanding_def)
qed

lemma refused_inv:
  assumes p: "admission_policy_ok p" and inv: "admission_inv h p w" and now: "aw_now w \<le> now"
  shows "admission_inv h p (w\<lparr>aw_state := removeExpiredBuckets p now (aw_state w), aw_now := now\<rparr>)"
proof -
  from inv have b: "buckets_ok p (aw_now w) (aw_state w)" and r: "rates_ok h p w" and l: "leases_ok p w"
    by (simp_all add: admission_inv_def)
  from r have times: "\<forall>(t, i) \<in> set (aw_admitted w). t \<le> aw_now w" by (simp add: rates_ok_def)
  note cover = covered_after_cleaning [OF p b times now]
  from times now have "\<forall>(t, i) \<in> set (aw_admitted w). t \<le> now" by fastforce
  with r cover have "rates_ok h p (w\<lparr>aw_state := removeExpiredBuckets p now (aw_state w), aw_now := now\<rparr>)"
    by (simp add: rates_ok_def)
  moreover have "leases_ok p (w\<lparr>aw_state := removeExpiredBuckets p now (aw_state w), aw_now := now\<rparr>)"
    using l unfolding leases_ok_def by simp
  ultimately show ?thesis using buckets_ok_removed [OF b p now] by (simp add: admission_inv_def)
qed

lemma granted_inv:
  assumes p: "admission_policy_ok p" and inv: "admission_inv h p w" and now: "aw_now w \<le> now"
    and run: "admission_acquire h p input now (aw_state w) = (Inr lease, s')"
  shows "admission_inv h p \<lparr>aw_state = s', aw_now = now, aw_leases = aw_leases w @ [lease],
      aw_admitted = aw_admitted w @ [(now, input)]\<rparr>"
proof -
  let ?s = "removeExpiredBuckets p now (aw_state w)" and ?win = "windowOf p now"
  let ?sub = "subjectKey h input" and ?plug = "pluginKey h input"
  let ?s1 = "incrementBucket ?sub ?win ?s"
  from refused_inv [OF p inv now] have b: "buckets_ok p now ?s"
    and r: "rates_ok h p (w\<lparr>aw_state := ?s, aw_now := now\<rparr>)" and l: "leases_ok p (w\<lparr>aw_state := ?s, aw_now := now\<rparr>)"
    by (simp_all add: admission_inv_def)
  from acquire_result [OF run]
  have lease: "lease = \<lparr>al_concurrentKey = concurrentKey h input, al_released = False\<rparr>"
    and limits: "bucketCount ?s ?sub ?win < ap_maxRequestsPerSubjectOperation p"
      "bucketCount ?s ?plug ?win < ap_maxRequestsPerPlugin p"
      "concurrentCount ?s (concurrentKey h input) < ap_maxConcurrentPerOperation p"
    and room: "length (ga_rateBuckets ?s) + 2 \<le> ap_maxTrackedBuckets p \<or>
      map_of (ga_rateBuckets ?s) ?sub \<noteq> None \<and> map_of (ga_rateBuckets ?s) ?plug \<noteq> None"
    and s': "s' = (incrementBucket ?plug ?win ?s1)\<lparr>ga_concurrent := put (concurrentKey h input)
      (concurrentCount ?s (concurrentKey h input) + 1) (ga_concurrent ?s)\<rparr>"
    by (simp_all add: Let_def)
  have count: "bucketCount s' key ?win = bucketCount ?s key ?win + (if key = ?sub then 1 else 0) + (if key = ?plug then 1 else 0)" for key
    by (simp add: s' bucketCount_increment)
  have "buckets_ok p now ?s1" using buckets_ok_increment [OF b] room by auto
  moreover have "map_of (ga_rateBuckets ?s1) ?plug \<noteq> None \<or> length (ga_rateBuckets ?s1) < ap_maxTrackedBuckets p"
    using room by (auto simp: incrementBucket_def length_put)
  ultimately have buckets: "buckets_ok p now s'" by (simp add: s' buckets_ok_increment)
  let ?log = "aw_admitted w @ [(now, input)]"
  from r have times: "\<forall>(t, i) \<in> set (aw_admitted w). t \<le> now"
    and cover: "int (admitted p (\<lambda>i. subjectKey h i = key) ?win (aw_admitted w)) \<le> bucketCount ?s key ?win"
      "int (admitted p (\<lambda>i. pluginKey h i = key) ?win (aw_admitted w)) \<le> bucketCount ?s key ?win"
    and within: "int (admitted p (\<lambda>i. subjectKey h i = key) window (aw_admitted w)) \<le> ap_maxRequestsPerSubjectOperation p"
      "int (admitted p (\<lambda>i. pluginKey h i = key) window (aw_admitted w)) \<le> ap_maxRequestsPerPlugin p" for key window
    by (simp_all add: rates_ok_def)
  have "int (admitted p (\<lambda>i. subjectKey h i = key) ?win ?log) \<le> bucketCount s' key ?win"
    "int (admitted p (\<lambda>i. pluginKey h i = key) ?win ?log) \<le> bucketCount s' key ?win" for key
    unfolding admitted_snoc count using cover [of key] by auto
  moreover have "int (admitted p (\<lambda>i. subjectKey h i = key) window ?log) \<le> ap_maxRequestsPerSubjectOperation p"
    "int (admitted p (\<lambda>i. pluginKey h i = key) window ?log) \<le> ap_maxRequestsPerPlugin p" for key window
    unfolding admitted_snoc using within [of key window] cover [of key] limits(1,2) by auto
  ultimately have "rates_ok h p \<lparr>aw_state = s', aw_now = now, aw_leases = aw_leases w @ [lease], aw_admitted = ?log\<rparr>"
    using times by (simp add: rates_ok_def)
  moreover have "leases_ok p \<lparr>aw_state = s', aw_now = now, aw_leases = aw_leases w @ [lease], aw_admitted = ?log\<rparr>"
  proof -
    have "concurrentCount s' key = int (outstanding key (aw_leases w @ [lease])) \<and>
        int (outstanding key (aw_leases w @ [lease])) \<le> ap_maxConcurrentPerOperation p" for key
      using l limits(3) by (auto simp: leases_ok_def outstanding_snoc lease s')
    then show ?thesis by (simp add: leases_ok_def)
  qed
  ultimately show ?thesis using buckets by (simp add: admission_inv_def)
qed

lemma released_inv:
  assumes inv: "admission_inv h p w" and n: "n < length (aw_leases w)"
    and run: "admission_release (aw_leases w ! n) (aw_state w) = (lease, s')"
  shows "admission_inv h p (w\<lparr>aw_state := s', aw_leases := (aw_leases w)[n := lease]\<rparr>)"
proof (cases "al_released (aw_leases w ! n)")
  case True
  with run have "lease = aw_leases w ! n" "s' = aw_state w" by (simp_all add: admission_release_def)
  with inv show ?thesis by simp
next
  case False
  let ?k = "al_concurrentKey (aw_leases w ! n)"
  from run False have lease: "lease = (aw_leases w ! n)\<lparr>al_released := True\<rparr>"
    and s': "s' = (aw_state w)\<lparr>ga_concurrent := (if concurrentCount (aw_state w) ?k \<le> 1 then del ?k (ga_concurrent (aw_state w))
                  else put ?k (concurrentCount (aw_state w) ?k - 1) (ga_concurrent (aw_state w)))\<rparr>"
    by (simp_all add: admission_release_def Let_def)
  note out = outstanding_release [OF n False, folded lease]
  from inv have l: "leases_ok p w" by (simp add: admission_inv_def)
  then have "concurrentCount (aw_state w) ?k = int (outstanding ?k (aw_leases w))" by (simp add: leases_ok_def)
  with out [of ?k] have pos: "1 \<le> concurrentCount (aw_state w) ?k" by simp
  have "concurrentCount s' key = concurrentCount (aw_state w) key - (if key = ?k then 1 else 0)" for key
    using pos by (simp add: s')
  then have "concurrentCount s' key = int (outstanding key ((aw_leases w)[n := lease])) \<and>
      int (outstanding key ((aw_leases w)[n := lease])) \<le> ap_maxConcurrentPerOperation p" for key
    using l out [of key] unfolding leases_ok_def by (smt (verit) of_nat_0 of_nat_1 of_nat_add)
  then have "leases_ok p (w\<lparr>aw_state := s', aw_leases := (aw_leases w)[n := lease]\<rparr>)"
    by (simp add: leases_ok_def)
  moreover have "buckets_ok p (aw_now w) s'" "rates_ok h p (w\<lparr>aw_state := s', aw_leases := (aw_leases w)[n := lease]\<rparr>)"
    using inv by (simp_all add: admission_inv_def rates_ok_def s')
  ultimately show ?thesis by (simp add: admission_inv_def)
qed

lemma admission_step_inv:
  assumes "admission_step h p w w'" and "admission_policy_ok p" and "admission_inv h p w"
  shows "admission_inv h p w'"
  using assms(1)
proof (cases rule: admission_step.cases)
  case (admission_granted now input lease s)
  then show ?thesis using granted_inv assms(2,3) by blast
next
  case (admission_refused now input e s)
  then show ?thesis using refused_inv [OF assms(2,3)] acquire_result by fastforce
next
  case (admission_released n lease s)
  then show ?thesis using released_inv [OF assms(3)] by blast
qed

lemma admission_reachable_inv:
  assumes "(admission_step h p)\<^sup>*\<^sup>* admission_start w" and "admission_policy_ok p"
  shows "admission_inv h p w"
  using assms(1)
proof (induction rule: rtranclp_induct)
  case base
  show ?case
    using assms(2)
    by (simp add: admission_inv_def buckets_ok_def rates_ok_def leases_ok_def admission_start_def admitted_def
        outstanding_def bucketCount_def concurrentCount_def admission_policy_ok_def)
next
  case (step w w')
  then show ?case using admission_step_inv assms(2) by blast
qed

end
