(* ===== verification/Gateway_Access.thy ===== *)
theory Gateway_Access
  imports Gateway_Policy Manifest Lifecycle_Plan
begin

text \<open>
  What the plugin gateway lets through (\<open>packages/plugin-runtime/src/gateway.ts\<close>): the match
  of a request path against a declared one, the authorization of an invocation against the
  signed manifest, the comparison of a backend's capabilities with the manifest
  (\<open>pluginBackendCapabilitiesV1Schema\<close> of \<open>plugin-sdk/src/backend.ts\<close>), and the
  verification of invocation tokens.
\<close>

section \<open>Request paths\<close>

definition safeRelativePath :: "string \<Rightarrow> bool" where
  "safeRelativePath path \<longleftrightarrow> 1 \<le> length path \<and> length path \<le> 500 \<and> safeRelativePathIssues path = []"

definition opaqueReferenceSchema :: "string \<Rightarrow> bool" where
  "opaqueReferenceSchema s \<longleftrightarrow> opaque_id 1 256 s"

text \<open>The loop over the segments; \<open>None\<close> is \<open>return null\<close>.\<close>

fun matchSegments ::
  "string list \<Rightarrow> string list \<Rightarrow> (string \<times> string) list \<Rightarrow> (string \<times> string) list option" where
  "matchSegments (declared # ds) (requested # rs) parameters =
     (if \<not> starts_with '':'' declared
      then (if declared \<noteq> requested then None else matchSegments ds rs parameters)
      else if tl declared = [] \<or> starts_with '':'' requested \<or> \<not> opaqueReferenceSchema requested then None
      else matchSegments ds rs (put (tl declared) requested parameters))"
| "matchSegments ds rs parameters = Some parameters"

definition matchPluginOperationPathV1 :: "string \<Rightarrow> string \<Rightarrow> (string \<times> string) list option" where
  "matchPluginOperationPathV1 declaredPath requestedPath =
     (if \<not> safeRelativePath requestedPath then None
      else let declaredSegments = split_on CHR ''/'' declaredPath;
               requestedSegments = split_on CHR ''/'' requestedPath
           in if length declaredSegments \<noteq> length requestedSegments then None
              else matchSegments declaredSegments requestedSegments [])"

text \<open>The path that parameters make of a declared path.\<close>

definition fill_segment :: "(string \<times> string) list \<Rightarrow> string \<Rightarrow> string" where
  "fill_segment ps segment = (if starts_with '':'' segment then the (map_of ps (tl segment)) else segment)"

lemma fill_segment_simps [simp]:
  "starts_with '':'' segment \<Longrightarrow> fill_segment ps segment = the (map_of ps (tl segment))"
  "\<not> starts_with '':'' segment \<Longrightarrow> fill_segment ps segment = segment"
  by (simp_all add: fill_segment_def)

definition fill_path :: "(string \<times> string) list \<Rightarrow> string \<Rightarrow> string" where
  "fill_path ps declared = join ''/'' (map (fill_segment ps) (split_on CHR ''/'' declared))"

abbreviation parameter_names :: "string list \<Rightarrow> string list" where
  "parameter_names segments \<equiv> map tl (filter (starts_with '':'') segments)"

lemma matchSegments_sound:
  assumes "matchSegments ds rs acc = Some ps" and "length ds = length rs"
    and "distinct (parameter_names ds)" and "set (parameter_names ds) \<inter> fst ` set acc = {}"
  shows "map (fill_segment ps) ds = rs \<and> map fst ps = map fst acc @ parameter_names ds \<and>
     (\<forall>k. k \<notin> set (parameter_names ds) \<longrightarrow> map_of ps k = map_of acc k) \<and>
     (\<forall>v \<in> snd ` set ps - snd ` set acc. opaqueReferenceSchema v \<and> \<not> starts_with '':'' v)"
  using assms
proof (induction ds rs acc rule: matchSegments.induct)
  case (1 d ds r rs acc)
  show ?case
  proof (cases "starts_with '':'' d")
    case False
    with 1 show ?thesis by (auto simp: fill_segment_def split: if_splits)
  next
    case True
    with "1.prems"(1) have r: "\<not> starts_with '':'' r" "opaqueReferenceSchema r" "tl d \<noteq> []"
      and run: "matchSegments ds rs (put (tl d) r acc) = Some ps" by (auto split: if_splits)
    from True "1.prems"(4) have fresh: "tl d \<notin> set (map fst acc)" by auto
    have put: "put (tl d) r acc = acc @ [(tl d, r)]" by (rule put_new [OF fresh])
    have "map (fill_segment ps) ds = rs \<and> map fst ps = map fst (put (tl d) r acc) @ parameter_names ds \<and>
       (\<forall>k. k \<notin> set (parameter_names ds) \<longrightarrow> map_of ps k = map_of (put (tl d) r acc) k) \<and>
       (\<forall>v \<in> snd ` set ps - snd ` set (put (tl d) r acc). opaqueReferenceSchema v \<and> \<not> starts_with '':'' v)"
      using True r "1.prems"(2-4) run by (intro "1.IH"(2)) (auto simp: put)
    note res = this
    have fill: "map (fill_segment ps) ds = rs" and keys: "map fst ps = map fst acc @ tl d # parameter_names ds"
      using res by (simp_all add: put)
    have old: "map_of ps k = ((map_of acc)(tl d \<mapsto> r)) k" if "k \<notin> set (parameter_names ds)" for k
    proof -
      from res that have "map_of ps k = map_of (put (tl d) r acc) k" by blast
      then show ?thesis by (simp only: map_of_put)
    qed
    have vals: "v = r \<or> opaqueReferenceSchema v \<and> \<not> starts_with '':'' v"
      if "v \<in> snd ` set ps" and "v \<notin> snd ` set acc" for v
      using res that by (auto simp: put)
    have "tl d \<notin> set (parameter_names ds)" using "1.prems"(3) True by simp
    with old have "map_of ps (tl d) = Some r" by simp
    with True fill have "map (fill_segment ps) (d # ds) = r # rs" by simp
    moreover have "k \<notin> set (parameter_names (d # ds)) \<Longrightarrow> map_of ps k = map_of acc k" for k
      using old True by simp
    moreover have "\<forall>v \<in> snd ` set ps - snd ` set acc. opaqueReferenceSchema v \<and> \<not> starts_with '':'' v"
      using vals r(1,2) by blast
    moreover have "map fst ps = map fst acc @ parameter_names (d # ds)" using keys True by simp
    ultimately show ?thesis by blast
  qed
qed auto

lemma matchSegments_complete:
  assumes "distinct (parameter_names ds)" and "set (parameter_names ds) \<inter> fst ` set acc = {}"
    and "\<And>n. n \<in> set (parameter_names ds) \<Longrightarrow> n \<noteq> [] \<and> opaqueReferenceSchema (the (map_of ps n)) \<and>
      \<not> starts_with '':'' (the (map_of ps n))"
  shows "matchSegments ds (map (fill_segment ps) ds) acc =
     Some (acc @ map (\<lambda>n. (n, the (map_of ps n))) (parameter_names ds))"
  using assms
proof (induction ds arbitrary: acc)
  case (Cons d ds)
  show ?case
  proof (cases "starts_with '':'' d")
    case True
    with Cons.prems have "tl d \<notin> fst ` set acc" and d: "tl d \<noteq> []" "opaqueReferenceSchema (the (map_of ps (tl d)))"
      "\<not> starts_with '':'' (the (map_of ps (tl d)))" by auto
    then have put: "put (tl d) (the (map_of ps (tl d))) acc = acc @ [(tl d, the (map_of ps (tl d)))]"
      by (simp add: put_new)
    have "matchSegments ds (map (fill_segment ps) ds) (acc @ [(tl d, the (map_of ps (tl d)))]) =
        Some ((acc @ [(tl d, the (map_of ps (tl d)))]) @ map (\<lambda>n. (n, the (map_of ps n))) (parameter_names ds))"
      by (rule Cons.IH) (use Cons.prems True in auto)
    with True d put show ?thesis by simp
  next
    case False
    have "matchSegments ds (map (fill_segment ps) ds) acc =
        Some (acc @ map (\<lambda>n. (n, the (map_of ps n))) (parameter_names ds))"
      by (rule Cons.IH) (use Cons.prems False in auto)
    with False show ?thesis by simp
  qed
qed simp

lemma map_of_keys: "distinct (map fst ps) \<Longrightarrow> map (\<lambda>n. (n, the (map_of ps n))) (map fst ps) = ps"
  by (auto intro!: map_idI)

text \<open>An accepted path has distinct parameter names, and no other segment has a colon.\<close>

lemma accepted_parameters:
  assumes "operationPathIssues declared = []"
  shows "distinct (parameter_names (split_on CHR ''/'' declared))"
    and "\<And>s. s \<in> set (split_on CHR ''/'' declared) \<Longrightarrow> starts_with '':'' s \<Longrightarrow> tl s \<noteq> []"
proof -
  let ?segs = "split_on CHR ''/'' declared"
  from assms have ok: "list_all (\<lambda>s. CHR '':'' \<in> set s \<longrightarrow> is_parameter s) ?segs"
    "distinct (map tl (filter is_parameter ?segs))"
    by (simp_all add: operationPathIssues_def segmentIssues_Nil)
  have colon: "starts_with '':'' s \<Longrightarrow> CHR '':'' \<in> set s" for s by (auto simp: starts_with_iff)
  have param: "is_parameter s \<Longrightarrow> starts_with '':'' s \<and> tl s \<noteq> []" for s
    by (auto simp: is_parameter_def starts_with_def split: list.splits)
  have "filter is_parameter ?segs = filter (starts_with '':'') ?segs"
    using ok(1) colon param by (auto simp: list_all_iff intro!: filter_cong)
  with ok(2) show "distinct (parameter_names ?segs)" by simp
  show "tl s \<noteq> []" if "s \<in> set ?segs" "starts_with '':'' s" for s
    using that ok(1) colon param by (auto simp: list_all_iff)
qed

lemma opaque_no_slash: "opaqueReferenceSchema v \<Longrightarrow> CHR ''/'' \<notin> set v"
proof
  assume "opaqueReferenceSchema v" "CHR ''/'' \<in> set v"
  then have "is_opaque_char CHR ''/''" by (simp add: opaqueReferenceSchema_def opaque_id_def list_all_iff)
  then show False by (simp add: is_opaque_char_def is_alnum_def is_digit_def is_lower_def is_upper_def)
qed

lemma path_match_iff:
  assumes ok: "operationPathIssues declared = []"
  shows "matchPluginOperationPathV1 declared requested = Some ps \<longleftrightarrow>
     map fst ps = path_parameters declared \<and>
     (\<forall>v \<in> snd ` set ps. opaqueReferenceSchema v \<and> \<not> starts_with '':'' v) \<and>
     requested = fill_path ps declared \<and> safeRelativePath requested"
proof
  let ?ds = "split_on CHR ''/'' declared" and ?rs = "split_on CHR ''/'' requested"
  note params = accepted_parameters [OF ok]
  {
    assume "matchPluginOperationPathV1 declared requested = Some ps"
    then have run: "matchSegments ?ds ?rs [] = Some ps" and len: "length ?ds = length ?rs"
      and safe: "safeRelativePath requested"
      by (auto simp: matchPluginOperationPathV1_def Let_def split: if_splits)
    from matchSegments_sound [OF run len params(1)]
    have "map (fill_segment ps) ?ds = ?rs" "map fst ps = parameter_names ?ds"
      "\<forall>v \<in> snd ` set ps. opaqueReferenceSchema v \<and> \<not> starts_with '':'' v" by auto
    with safe show "map fst ps = path_parameters declared \<and>
       (\<forall>v \<in> snd ` set ps. opaqueReferenceSchema v \<and> \<not> starts_with '':'' v) \<and>
       requested = fill_path ps declared \<and> safeRelativePath requested"
      by (simp add: fill_path_def path_parameters_def join_split_on)
  next
    assume r: "map fst ps = path_parameters declared \<and>
       (\<forall>v \<in> snd ` set ps. opaqueReferenceSchema v \<and> \<not> starts_with '':'' v) \<and>
       requested = fill_path ps declared \<and> safeRelativePath requested"
    then have keys: "map fst ps = parameter_names ?ds" by (simp add: path_parameters_def)
    with params(1) have dist: "distinct (map fst ps)" by simp
    have val: "n \<noteq> [] \<and> opaqueReferenceSchema (the (map_of ps n)) \<and> \<not> starts_with '':'' (the (map_of ps n))"
      if n: "n \<in> set (parameter_names ?ds)" for n
    proof -
      from n keys obtain v where "(n, v) \<in> set ps" by (metis (no_types, lifting) in_set_conv_nth length_map nth_map prod.collapse)
      with dist have "map_of ps n = Some v" by simp
      moreover from this have "v \<in> snd ` set ps" by (force dest: map_of_SomeD)
      ultimately show ?thesis using r n params(2) by auto
    qed
    have noslash: "CHR ''/'' \<notin> set w" if "w \<in> set (map (fill_segment ps) ?ds)" for w
      using that val opaque_no_slash split_on_no_sep [of _ "CHR ''/''" declared]
      by (fastforce simp: fill_segment_def)
    have "?rs = split_on CHR ''/'' (join ''/'' (map (fill_segment ps) ?ds))" using r by (simp add: fill_path_def)
    also have "\<dots> = map (fill_segment ps) ?ds" by (rule split_on_join) (simp, rule noslash)
    finally have rs: "?rs = map (fill_segment ps) ?ds" .
    have "matchSegments ?ds ?rs [] = Some (map (\<lambda>n. (n, the (map_of ps n))) (parameter_names ?ds))"
      unfolding rs using matchSegments_complete [OF params(1), of "[]" ps] val by simp
    then have "matchSegments ?ds ?rs [] = Some ps"
      unfolding keys [symmetric] map_of_keys [OF dist] .
    moreover have "safeRelativePath requested" using r by blast
    moreover have "length ?ds = length ?rs" using rs by simp
    ultimately show "matchPluginOperationPathV1 declared requested = Some ps"
      unfolding matchPluginOperationPathV1_def Let_def by simp
  }
qed

section \<open>Authorization of an invocation\<close>

fun http_method_str :: "http_method \<Rightarrow> string" where
  "http_method_str GET = ''GET''"
| "http_method_str POST = ''POST''"
| "http_method_str PUT = ''PUT''"
| "http_method_str PATCH = ''PATCH''"
| "http_method_str DELETE = ''DELETE''"

record gateway_call =
  gw_manifest :: manifest
  gw_pluginId :: string
  gw_operationId :: string
  gw_method :: string
  gw_relativePath :: string
  gw_requestBytes :: int
  gw_grantedPermissions :: "string list"

definition authorizePluginGatewayInvocationV1 :: "gateway_call \<Rightarrow> gateway_code + backend_operation" where
  "authorizePluginGatewayInvocationV1 input =
     (if mf_id (gw_manifest input) \<noteq> gw_pluginId input \<or>
         \<not> starts_with (gw_pluginId input @ ''.'') (gw_operationId input)
      then Inl OperationUnknown
      else case findOperation (gw_manifest input) (gw_operationId input) of
        None \<Rightarrow> Inl OperationUnknown
      | Some operation \<Rightarrow>
          if http_method_str (op_method operation) \<noteq> gw_method input then Inl OperationMethodInvalid
          else if matchPluginOperationPathV1 (op_path operation) (gw_relativePath input) = None
          then Inl OperationPathInvalid
          else if gw_requestBytes input < 0 \<or> gw_requestBytes input > op_maxRequestBytes operation
          then Inl RequestTooLarge
          else if list_ex (\<lambda>permission. permission \<notin> set (gw_grantedPermissions input))
                    (op_requiredPermissions operation)
          then Inl PermissionDenied
          else Inr operation)"

lemma authorize_iff:
  "authorizePluginGatewayInvocationV1 input = Inr operation \<longleftrightarrow>
     mf_id (gw_manifest input) = gw_pluginId input \<and>
     starts_with (gw_pluginId input @ ''.'') (gw_operationId input) \<and>
     findOperation (gw_manifest input) (gw_operationId input) = Some operation \<and>
     http_method_str (op_method operation) = gw_method input \<and>
     matchPluginOperationPathV1 (op_path operation) (gw_relativePath input) \<noteq> None \<and>
     0 \<le> gw_requestBytes input \<and> gw_requestBytes input \<le> op_maxRequestBytes operation \<and>
     set (op_requiredPermissions operation) \<subseteq> set (gw_grantedPermissions input)"
  by (auto simp: authorizePluginGatewayInvocationV1_def list_ex_iff not_less split: option.splits if_split_asm)

section \<open>Capabilities of a backend\<close>

record capability_operation =
  co_operationId :: string
  co_requestSchemaSha256 :: string
  co_responseSchemaSha256 :: string

record backend_capabilities =
  bc_pluginId :: string
  bc_pluginVersion :: string
  bc_operations :: "capability_operation list"

text \<open>The \<open>superRefine\<close> of the capability document.\<close>

datatype capability_issue = CapabilityNotNamespaced nat | CapabilityDuplicate nat

fun capabilityIssues :: "string \<Rightarrow> nat \<Rightarrow> string list \<Rightarrow> capability_operation list \<Rightarrow> capability_issue list" where
  "capabilityIssues pluginId index ids [] = []"
| "capabilityIssues pluginId index ids (operation # ops) =
     (if \<not> starts_with (pluginId @ ''.'') (co_operationId operation) then [CapabilityNotNamespaced index] else []) @
     (if co_operationId operation \<in> set ids then [CapabilityDuplicate index] else []) @
     capabilityIssues pluginId (Suc index) (co_operationId operation # ids) ops"

text \<open>
  The comparison with the manifest. The document is \<open>None\<close> when the structural part of its
  schema rejects it; both digests of a comparison are 64 hexadecimal digits, so that
  \<open>timingSafeEqual\<close> is equality.
\<close>

definition validatePluginBackendCapabilitiesV1 ::
  "manifest \<Rightarrow> backend_capabilities option \<Rightarrow> gateway_code + backend_capabilities" where
  "validatePluginBackendCapabilitiesV1 m input =
     (case input of
        None \<Rightarrow> Inl CapabilitiesInvalid
      | Some capabilities \<Rightarrow>
          if capabilityIssues (bc_pluginId capabilities) 0 [] (bc_operations capabilities) \<noteq> []
          then Inl CapabilitiesInvalid
          else if bc_pluginId capabilities \<noteq> mf_id m \<or> bc_pluginVersion capabilities \<noteq> mf_version m
          then Inl CapabilitiesIdentityInvalid
          else if length (backendOperations m) \<noteq> length (bc_operations capabilities)
          then Inl CapabilitiesOperationMismatch
          else
            let capabilitiesById = fold (\<lambda>operation. put (co_operationId operation) operation)
                  (bc_operations capabilities) []
            in if list_ex (\<lambda>declared. case map_of capabilitiesById (op_operationId declared) of
                    None \<Rightarrow> True
                  | Some actual \<Rightarrow>
                      co_requestSchemaSha256 actual \<noteq> sref_sha256 (op_requestSchema declared) \<or>
                      co_responseSchemaSha256 actual \<noteq> sref_sha256 (op_responseSchema declared))
                  (backendOperations m)
               then Inl CapabilitiesOperationMismatch
               else Inr capabilities)"

text \<open>What a backend must announce for a declared operation.\<close>

definition capability_of :: "backend_operation \<Rightarrow> capability_operation" where
  "capability_of declared =
     \<lparr>co_operationId = op_operationId declared,
      co_requestSchemaSha256 = sref_sha256 (op_requestSchema declared),
      co_responseSchemaSha256 = sref_sha256 (op_responseSchema declared)\<rparr>"

lemma fold_put_member:
  "map_of (fold (\<lambda>x. put (f x) x) xs m) k = Some y \<Longrightarrow> map_of m k = Some y \<or> (y \<in> set xs \<and> f y = k)"
proof (induction xs arbitrary: m)
  case (Cons x xs)
  from Cons.prems have "map_of (fold (\<lambda>x. put (f x) x) xs (put (f x) x m)) k = Some y" by simp
  from Cons.IH [OF this] show ?case by (auto split: if_splits)
qed simp

lemma capabilityIssues_Nil:
  "capabilityIssues p i ids ops = [] \<Longrightarrow> distinct (map co_operationId ops)"
proof -
  have "capabilityIssues p i ids ops = [] \<longrightarrow>
    distinct (map co_operationId ops) \<and> set (map co_operationId ops) \<inter> set ids = {}"
    by (induction p i ids ops rule: capabilityIssues.induct) auto
  then show "capabilityIssues p i ids ops = [] \<Longrightarrow> distinct (map co_operationId ops)" by blast
qed

lemma capabilities_announced:
  assumes "validatePluginBackendCapabilitiesV1 m (Some c) = Inr c'"
  shows "c' = c \<and> bc_pluginId c = mf_id m \<and> bc_pluginVersion c = mf_version m \<and>
     length (backendOperations m) = length (bc_operations c) \<and> distinct (map co_operationId (bc_operations c)) \<and>
     capability_of ` set (backendOperations m) \<subseteq> set (bc_operations c)"
proof -
  let ?byId = "fold (\<lambda>operation. put (co_operationId operation) operation) (bc_operations c) []"
  have found: "capability_of d \<in> set (bc_operations c)"
    if "map_of ?byId (op_operationId d) = Some a" and "co_requestSchemaSha256 a = sref_sha256 (op_requestSchema d)"
      and "co_responseSchemaSha256 a = sref_sha256 (op_responseSchema d)" for d a
  proof -
    from fold_put_member [OF that(1)] have a: "a \<in> set (bc_operations c)" "co_operationId a = op_operationId d"
      by auto
    with that(2,3) have "capability_of d = a" by (simp add: capability_of_def)
    with a(1) show ?thesis by simp
  qed
  from assms have "\<forall>d \<in> set (backendOperations m). \<exists>a. map_of ?byId (op_operationId d) = Some a \<and>
      co_requestSchemaSha256 a = sref_sha256 (op_requestSchema d) \<and>
      co_responseSchemaSha256 a = sref_sha256 (op_responseSchema d)"
    by (auto simp: validatePluginBackendCapabilitiesV1_def Let_def list_ex_iff split: if_split_asm option.splits)
  then have "capability_of ` set (backendOperations m) \<subseteq> set (bc_operations c)" using found by blast
  with assms show ?thesis
    by (auto simp: validatePluginBackendCapabilitiesV1_def Let_def split: if_split_asm
        intro: capabilityIssues_Nil)
qed

end
