(* ===== verification/Gateway_Token.thy ===== *)
theory Gateway_Token
  imports Gateway_Access
begin

text \<open>
  Invocation tokens of the plugin gateway (\<open>packages/plugin-runtime/src/gateway.ts\<close>): the claims
  schema of \<open>plugin-sdk/src/backend.ts\<close>, \<open>signPluginInvocationV1\<close> and
  \<open>verifyPluginInvocationV1\<close>. JSON in base64url and the Ed25519 functions of Node.js are
  arguments.
\<close>

section \<open>The claims schema\<close>

definition is_lower_ident_char :: "char \<Rightarrow> bool" where
  "is_lower_ident_char c \<longleftrightarrow> is_lower_alnum c \<or> c \<in> {CHR ''.'', CHR ''_'', CHR ''-''}"

definition namespacedIdentifierSchema :: "string \<Rightarrow> bool" where
  "namespacedIdentifierSchema s \<longleftrightarrow> 3 \<le> length s \<and> length s \<le> 250 \<and>
     is_lower_alnum (hd s) \<and> is_lower_alnum (last s) \<and> list_all is_lower_ident_char s"

definition pluginPermissionValues :: "string list" where
  "pluginPermissionValues =
     [''host.identity.read_safe'', ''host.engine.incidents.read_metadata'',
      ''host.engine.failed_jobs.read_metadata'', ''host.engine.process_instances.read_metadata'',
      ''host.engine.metadata.read'', ''host.engine.access.list_safe'',
      ''host.engine.diagnostics.collect_sanitized'', ''host.events.subscribe.incident'',
      ''host.events.subscribe.failed_job'', ''host.events.subscribe.engine_inventory'',
      ''host.plugin_storage.deployment'', ''host.plugin_storage.tenant'',
      ''host.secret.use_reference'', ''host.notifications.publish_safe'',
      ''host.jobs.schedule_fixed'']"

datatype resource_kind = RkEngine | RkIncident | RkFailedJob | RkProcessInstance | RkProject

fun resource_kind_str :: "resource_kind \<Rightarrow> string" where
  "resource_kind_str RkEngine = ''engine''"
| "resource_kind_str RkIncident = ''incident''"
| "resource_kind_str RkFailedJob = ''failed_job''"
| "resource_kind_str RkProcessInstance = ''process_instance''"
| "resource_kind_str RkProject = ''project''"

definition resource_kinds :: "resource_kind list" where
  "resource_kinds = [RkEngine, RkIncident, RkFailedJob, RkProcessInstance, RkProject]"

definition resource_kind_of :: "string \<Rightarrow> resource_kind option" where
  "resource_kind_of s = find (\<lambda>k. resource_kind_str k = s) resource_kinds"

record resource_ref =
  rr_kind :: resource_kind
  rr_ref :: string

record invocation_claims =
  ic_aud :: string
  ic_sub :: string
  ic_exp :: int
  ic_iat :: int
  ic_jti :: string
  ic_tenantRef :: "string option"
  ic_deploymentRef :: string
  ic_operationId :: string
  ic_grantedPermissions :: "string list"
  ic_resourceRefs :: "resource_ref list option"
  ic_correlationId :: string

text \<open>\<open>z.number().int().positive()\<close>: a safe integer above zero.\<close>

definition max_safe_integer :: int where
  "max_safe_integer = 9007199254740991"

fun positive_int :: "jsval \<Rightarrow> bool" where
  "positive_int (JInt i) = (0 < i \<and> i \<le> max_safe_integer)"
| "positive_int v = False"

text \<open>\<open>z.array(p).max(n)\<close>, and an optional property.\<close>

fun array_schema :: "nat \<Rightarrow> (jsval \<Rightarrow> bool) \<Rightarrow> jsval \<Rightarrow> bool" where
  "array_schema n p (JArr vs) = (length vs \<le> n \<and> list_all p vs)"
| "array_schema n p v = False"

definition optional_schema :: "(jsval \<Rightarrow> bool) \<Rightarrow> jsval \<Rightarrow> bool" where
  "optional_schema p v \<longleftrightarrow> v = JUndef \<or> p v"

text \<open>\<open>z.object(...).strict()\<close>: an object with no other keys.\<close>

fun strict_keys :: "string list \<Rightarrow> jsval \<Rightarrow> bool" where
  "strict_keys keys (JObj kvs) = list_all (\<lambda>(k, v). k \<in> set keys) kvs"
| "strict_keys keys v = False"

definition resourceReferenceV1Schema :: "jsval \<Rightarrow> bool" where
  "resourceReferenceV1Schema v \<longleftrightarrow> strict_keys [''kind'', ''ref''] v \<and>
     str_schema (\<lambda>s. resource_kind_of s \<noteq> None) (getp v ''kind'') \<and>
     str_schema opaqueReferenceSchema (getp v ''ref'')"

definition claim_keys :: "string list" where
  "claim_keys = [''iss'', ''aud'', ''sub'', ''exp'', ''iat'', ''jti'', ''tenantRef'', ''deploymentRef'',
     ''operationId'', ''grantedPermissions'', ''resourceRefs'', ''correlationId'']"

definition str_of :: "jsval \<Rightarrow> string" where
  "str_of v = the (as_str v)"

definition pluginInvocationClaimsV1Schema :: "jsval \<Rightarrow> bool" where
  "pluginInvocationClaimsV1Schema v \<longleftrightarrow> strict_keys claim_keys v \<and>
     getp v ''iss'' = JStr ''enterpriseglue-oss'' \<and>
     str_schema pluginIdSchema (getp v ''aud'') \<and>
     str_schema opaqueReferenceSchema (getp v ''sub'') \<and>
     positive_int (getp v ''exp'') \<and> positive_int (getp v ''iat'') \<and>
     str_schema opaqueReferenceSchema (getp v ''jti'') \<and>
     optional_schema (str_schema opaqueReferenceSchema) (getp v ''tenantRef'') \<and>
     str_schema opaqueReferenceSchema (getp v ''deploymentRef'') \<and>
     str_schema namespacedIdentifierSchema (getp v ''operationId'') \<and>
     array_schema 100 (str_schema (\<lambda>p. p \<in> set pluginPermissionValues)) (getp v ''grantedPermissions'') \<and>
     optional_schema (array_schema 20 resourceReferenceV1Schema) (getp v ''resourceRefs'') \<and>
     str_schema opaqueReferenceSchema (getp v ''correlationId'') \<and>
     the (as_int (getp v ''iat'')) < the (as_int (getp v ''exp'')) \<and>
     starts_with (str_of (getp v ''aud'') @ ''.'') (str_of (getp v ''operationId''))"

text \<open>The parsed value.\<close>

definition resource_ref_of :: "jsval \<Rightarrow> resource_ref" where
  "resource_ref_of v = \<lparr>rr_kind = the (resource_kind_of (str_of (getp v ''kind''))),
     rr_ref = str_of (getp v ''ref'')\<rparr>"

definition claims_of :: "jsval \<Rightarrow> invocation_claims" where
  "claims_of v =
     \<lparr>ic_aud = str_of (getp v ''aud''), ic_sub = str_of (getp v ''sub''),
      ic_exp = the (as_int (getp v ''exp'')), ic_iat = the (as_int (getp v ''iat'')),
      ic_jti = str_of (getp v ''jti''), ic_tenantRef = as_str (getp v ''tenantRef''),
      ic_deploymentRef = str_of (getp v ''deploymentRef''),
      ic_operationId = str_of (getp v ''operationId''),
      ic_grantedPermissions = map str_of (the (as_arr (getp v ''grantedPermissions''))),
      ic_resourceRefs = map_option (map resource_ref_of) (as_arr (getp v ''resourceRefs'')),
      ic_correlationId = str_of (getp v ''correlationId'')\<rparr>"

text \<open>A claims object as a JavaScript value; an absent optional property has no key.\<close>

definition resource_ref_value :: "resource_ref \<Rightarrow> jsval" where
  "resource_ref_value r = JObj [(''kind'', JStr (resource_kind_str (rr_kind r))), (''ref'', JStr (rr_ref r))]"

definition opt_prop :: "string \<Rightarrow> jsval option \<Rightarrow> (string \<times> jsval) list" where
  "opt_prop k v = (case v of None \<Rightarrow> [] | Some v \<Rightarrow> [(k, v)])"

definition claims_value :: "invocation_claims \<Rightarrow> jsval" where
  "claims_value c = JObj
     ([(''iss'', JStr ''enterpriseglue-oss''), (''aud'', JStr (ic_aud c)), (''sub'', JStr (ic_sub c)),
       (''exp'', JInt (ic_exp c)), (''iat'', JInt (ic_iat c)), (''jti'', JStr (ic_jti c))] @
      opt_prop ''tenantRef'' (map_option JStr (ic_tenantRef c)) @
      [(''deploymentRef'', JStr (ic_deploymentRef c)), (''operationId'', JStr (ic_operationId c)),
       (''grantedPermissions'', JArr (map JStr (ic_grantedPermissions c)))] @
      opt_prop ''resourceRefs'' (map_option (\<lambda>rs. JArr (map resource_ref_value rs)) (ic_resourceRefs c)) @
      [(''correlationId'', JStr (ic_correlationId c))])"

section \<open>Signing and verifying\<close>

text \<open>
  The parts of a token: \<open>tl_encode\<close> is \<open>JSON.stringify\<close> in base64url, \<open>tl_decode\<close> is
  \<open>JSON.parse\<close> of the base64url text (\<open>None\<close> when it throws), \<open>tl_sign\<close> and \<open>tl_verify\<close> are the
  Ed25519 functions with the private and the public key.
\<close>

record token_lib =
  tl_encode :: "jsval \<Rightarrow> string"
  tl_decode :: "string \<Rightarrow> jsval option"
  tl_sign :: "string \<Rightarrow> string"
  tl_verify :: "string \<Rightarrow> string \<Rightarrow> bool"

text \<open>Values that JSON text gives back.\<close>

fun json_value :: "jsval \<Rightarrow> bool" where
  "json_value JUndef = False"
| "json_value (JNonInt s) = False"
| "json_value (JArr vs) = list_all json_value vs"
| "json_value (JObj kvs) = (list_all (\<lambda>(k, v). json_value v) kvs \<and> distinct (map fst kvs))"
| "json_value v = True"

text \<open>
  What is documented of them, for the values in question: base64url has no dot and is not empty,
  it and JSON read back what they wrote, a signature made with the private key verifies with the
  public key.
\<close>

definition token_lib_ok :: "jsval list \<Rightarrow> token_lib \<Rightarrow> bool" where
  "token_lib_ok values t \<longleftrightarrow>
     (\<forall>v \<in> set values. json_value v \<longrightarrow> tl_decode t (tl_encode t v) = Some v \<and> tl_encode t v \<noteq> [] \<and>
        CHR ''.'' \<notin> set (tl_encode t v)) \<and>
     (\<forall>s. CHR ''.'' \<notin> set (tl_sign t s) \<and> tl_verify t s (tl_sign t s))"

definition tokenHeader :: jsval where
  "tokenHeader = JObj [(''alg'', JStr ''EdDSA''), (''typ'', JStr ''EG-PLUGIN-INVOCATION-V1'')]"

definition decodeJson :: "token_lib \<Rightarrow> string \<Rightarrow> gateway_code + jsval" where
  "decodeJson t segment =
     (if length segment = 0 \<or> length segment > 32768 then Inl TokenMalformed
      else case tl_decode t segment of None \<Rightarrow> Inl TokenMalformed | Some v \<Rightarrow> Inr v)"

text \<open>\<open>None\<close>: the schema's \<open>parse\<close> throws.\<close>

definition signPluginInvocationV1 :: "token_lib \<Rightarrow> invocation_claims \<Rightarrow> string option" where
  "signPluginInvocationV1 t claims =
     (if \<not> pluginInvocationClaimsV1Schema (claims_value claims) then None
      else let signingInput = tl_encode t tokenHeader @ ''.'' @ tl_encode t (claims_value claims)
           in Some (signingInput @ ''.'' @ tl_sign t signingInput))"

fun header_supported :: "jsval \<Rightarrow> bool" where
  "header_supported (JObj kvs) \<longleftrightarrow>
     getp (JObj kvs) ''alg'' = JStr ''EdDSA'' \<and>
     getp (JObj kvs) ''typ'' = JStr ''EG-PLUGIN-INVOCATION-V1'' \<and> length kvs = 2"
| "header_supported v \<longleftrightarrow> False"

text \<open>\<open>vi_now\<close> is \<open>nowEpochSeconds\<close>, or the clock when it is absent.\<close>

record verification_input =
  vi_token :: string
  vi_expectedAudience :: string
  vi_expectedOperationId :: string
  vi_now :: int
  vi_clockSkewSeconds :: "int option"
  vi_maximumLifetimeSeconds :: "int option"

definition skew_of :: "verification_input \<Rightarrow> int" where
  "skew_of input = (case vi_clockSkewSeconds input of None \<Rightarrow> 5 | Some s \<Rightarrow> s)"

definition lifetime_of :: "verification_input \<Rightarrow> int" where
  "lifetime_of input = (case vi_maximumLifetimeSeconds input of None \<Rightarrow> 60 | Some s \<Rightarrow> s)"

text \<open>The checks of the claims, up to the replay store.\<close>

definition check_claims :: "verification_input \<Rightarrow> invocation_claims \<Rightarrow> gateway_code + invocation_claims" where
  "check_claims input claims =
     (if ic_aud claims \<noteq> vi_expectedAudience input then Inl TokenAudienceInvalid
      else if ic_operationId claims \<noteq> vi_expectedOperationId input then Inl TokenOperationInvalid
      else if ic_exp claims < vi_now input - skew_of input then Inl TokenExpired
      else if ic_iat claims > vi_now input + skew_of input then Inl TokenNotYetValid
      else if ic_exp claims - ic_iat claims > lifetime_of input then Inl TokenLifetimeExceeded
      else Inr claims)"

definition read_claims :: "token_lib \<Rightarrow> string \<Rightarrow> gateway_code + invocation_claims" where
  "read_claims t token =
     (if length token = 0 \<or> length token > 64000 then Inl TokenMalformed
      else case split_on CHR ''.'' token of
        [headerSegment, payloadSegment, signatureSegment] \<Rightarrow>
          bind_res (decodeJson t headerSegment) (\<lambda>header.
            if \<not> header_supported header then Inl TokenAlgorithmInvalid
            else if \<not> tl_verify t (headerSegment @ ''.'' @ payloadSegment) signatureSegment
            then Inl TokenSignatureInvalid
            else bind_res (decodeJson t payloadSegment) (\<lambda>payload.
              if \<not> pluginInvocationClaimsV1Schema payload then Inl TokenClaimsInvalid
              else Inr (claims_of payload)))
      | _ \<Rightarrow> Inl TokenMalformed)"

text \<open>The replay store's \<open>consume\<close> is an argument, over a state of its own.\<close>

definition verifyPluginInvocationV1 ::
  "token_lib \<Rightarrow> (string \<Rightarrow> int \<Rightarrow> 's \<Rightarrow> bool \<times> 's) \<Rightarrow> verification_input \<Rightarrow> 's \<Rightarrow>
    (gateway_code + invocation_claims) \<times> 's" where
  "verifyPluginInvocationV1 t consume input s =
     (case bind_res (read_claims t (vi_token input)) (check_claims input) of
        Inl e \<Rightarrow> (Inl e, s)
      | Inr claims \<Rightarrow>
          (case consume (ic_jti claims) (ic_exp claims) s of
             (True, s') \<Rightarrow> (Inr claims, s')
           | (False, s') \<Rightarrow> (Inl TokenReplayed, s')))"

section \<open>What is signed is what is read\<close>

lemma claims_lifetime: "pluginInvocationClaimsV1Schema v \<Longrightarrow> ic_iat (claims_of v) < ic_exp (claims_of v)"
  by (simp add: pluginInvocationClaimsV1Schema_def claims_of_def)

lemma resource_kind_of_str [simp]: "resource_kind_of (resource_kind_str k) = Some k"
  by (cases k) (simp_all add: resource_kind_of_def resource_kinds_def)

lemma str_of_JStr [simp]: "str_of (JStr s) = s"
  by (simp add: str_of_def)

lemma resource_ref_of_value [simp]: "resource_ref_of (resource_ref_value r) = r"
  by (simp add: resource_ref_of_def resource_ref_value_def)

lemma claims_of_value [simp]: "claims_of (claims_value c) = c"
  by (cases "ic_tenantRef c"; cases "ic_resourceRefs c")
    (simp_all add: claims_of_def claims_value_def opt_prop_def comp_def)

lemma json_value_claims: "json_value (claims_value c)"
  by (cases "ic_tenantRef c"; cases "ic_resourceRefs c")
    (auto simp: claims_value_def opt_prop_def resource_ref_value_def list_all_iff)

lemma verify_result:
  "verifyPluginInvocationV1 t consume input s = (Inr c, s') \<longleftrightarrow>
     read_claims t (vi_token input) = Inr c \<and> check_claims input c = Inr c \<and>
     consume (ic_jti c) (ic_exp c) s = (True, s')"
proof -
  let ?r = "bind_res (read_claims t (vi_token input)) (check_claims input)"
  have same: "check_claims input d = Inr e \<Longrightarrow> e = d" for d e
    by (simp add: check_claims_def split: if_splits)
  have "?r = Inr c \<longleftrightarrow> read_claims t (vi_token input) = Inr c \<and> check_claims input c = Inr c"
    using same by auto
  moreover have "verifyPluginInvocationV1 t consume input s = (Inr c, s') \<longleftrightarrow>
      ?r = Inr c \<and> consume (ic_jti c) (ic_exp c) s = (True, s')"
  proof (cases ?r)
    case (Inl e)
    then show ?thesis by (simp add: verifyPluginInvocationV1_def del: bind_res_Inr)
  next
    case (Inr d)
    obtain b s'' where "consume (ic_jti d) (ic_exp d) s = (b, s'')" by fastforce
    with Inr show ?thesis by (cases b) (auto simp: verifyPluginInvocationV1_def simp del: bind_res_Inr)
  qed
  ultimately show ?thesis by blast
qed


lemma check_claims_ok:
  "check_claims input c = Inr c \<longleftrightarrow>
     ic_aud c = vi_expectedAudience input \<and> ic_operationId c = vi_expectedOperationId input \<and>
     vi_now input - skew_of input \<le> ic_exp c \<and> ic_iat c \<le> vi_now input + skew_of input \<and>
     ic_exp c - ic_iat c \<le> lifetime_of input"
  by (auto simp: check_claims_def)

lemma read_signed:
  assumes lib: "token_lib_ok [tokenHeader, claims_value c] t" and sig: "signPluginInvocationV1 t c = Some token"
    and size: "length token \<le> 64000" "length (tl_encode t tokenHeader) \<le> 32768"
      "length (tl_encode t (claims_value c)) \<le> 32768"
  shows "read_claims t token = Inr c"
proof -
  let ?h = "tl_encode t tokenHeader" and ?p = "tl_encode t (claims_value c)"
  have header: "json_value tokenHeader" by (simp add: tokenHeader_def)
  from sig have schema: "pluginInvocationClaimsV1Schema (claims_value c)"
    and token: "token = ?h @ ''.'' @ ?p @ ''.'' @ tl_sign t (?h @ ''.'' @ ?p)"
    by (auto simp: signPluginInvocationV1_def Let_def split: if_splits)
  have dots: "CHR ''.'' \<notin> set ?h" "CHR ''.'' \<notin> set ?p" "CHR ''.'' \<notin> set (tl_sign t s)" for s
    using lib header json_value_claims by (simp_all add: token_lib_ok_def)
  have "split_on CHR ''.'' (join ''.'' [?h, ?p, tl_sign t (?h @ ''.'' @ ?p)]) =
      [?h, ?p, tl_sign t (?h @ ''.'' @ ?p)]"
    by (rule split_on_join) (use dots in auto)
  then have segments: "split_on CHR ''.'' token = [?h, ?p, tl_sign t (?h @ ''.'' @ ?p)]"
    by (simp add: token)
  have "decodeJson t ?h = Inr tokenHeader" "decodeJson t ?p = Inr (claims_value c)"
    using lib header json_value_claims size(2,3) by (simp_all add: decodeJson_def token_lib_ok_def)
  moreover have "header_supported tokenHeader" by (simp add: tokenHeader_def)
  moreover have "tl_verify t (?h @ ''.'' @ ?p) (tl_sign t (?h @ ''.'' @ ?p))"
    using lib unfolding token_lib_ok_def by blast
  moreover have "token \<noteq> []" by (simp add: token)
  ultimately show ?thesis
    using schema size(1) by (simp add: read_claims_def segments)
qed

text \<open>Only what verifies under the public key is read.\<close>

lemma read_claims_verified:
  assumes "read_claims t token = Inr c"
  obtains h p signature payload where "split_on CHR ''.'' token = [h, p, signature]"
    and "tl_verify t (h @ ''.'' @ p) signature" and "tl_decode t p = Some payload"
    and "pluginInvocationClaimsV1Schema payload" and "c = claims_of payload"
  using assms
  by (auto simp: read_claims_def decodeJson_def split: if_splits list.splits option.splits)

end
