(* ===== verification/Replay_Store.thy ===== *)
theory Replay_Store
  imports Gateway_Token
begin

text \<open>
  The replay stores of invocation tokens: \<open>MemoryReplayStore\<close> and
  \<open>ReferenceFileReplayStoreV1\<close> of \<open>packages/plugin-reference/src\<close>, and
  \<open>DatabasePluginBrokerReplayStoreV1\<close> of \<open>packages/backend-host/src/plugins\<close>. Their contract is a
  locale; what it gives for sequences of verifications is proved there.
\<close>

section \<open>The stores\<close>

text \<open>The loop that deletes what has expired.\<close>

definition unexpired :: "int \<Rightarrow> ('k \<times> int) list \<Rightarrow> ('k \<times> int) list" where
  "unexpired now entries = filter (\<lambda>(key, expiry). \<not> expiry < now) entries"

definition memory_consume :: "int \<Rightarrow> string \<Rightarrow> int \<Rightarrow> (string \<times> int) list \<Rightarrow> bool \<times> (string \<times> int) list" where
  "memory_consume now jti expiresAt entries =
     (let entries = unexpired now entries
      in if jti \<in> fst ` set entries then (False, entries) else (True, put jti expiresAt entries))"

text \<open>
  The rows of the database table as pairs of \<open>keyHash\<close>, which is unique, and \<open>expiresAt\<close>. The insert
  fails when the key is there.
\<close>

definition replayKeyHash :: "host \<Rightarrow> string \<times> string \<times> string \<Rightarrow> string" where
  "replayKeyHash h = (\<lambda>(pluginId, jti, callId). sha256 h (join [CHR 0x00] [pluginId, jti, callId]))"

definition database_consume ::
  "host \<Rightarrow> int \<Rightarrow> string \<times> string \<times> string \<Rightarrow> int \<Rightarrow> (string \<times> int) list \<Rightarrow> bool \<times> (string \<times> int) list" where
  "database_consume h now key expiresAt rows =
     (let rows = unexpired now rows; keyHash = replayKeyHash h key
      in if keyHash \<in> fst ` set rows then (False, rows) else (True, rows @ [(keyHash, expiresAt)]))"

definition MAX_ENTRIES :: nat where
  "MAX_ENTRIES = 10000"

text \<open>
  The file store; its state is the content of the file, empty when there is none. A refused call
  leaves the file as it was. \<open>sort\<close> is stable.
\<close>

definition file_consume ::
  "host \<Rightarrow> int \<Rightarrow> string \<Rightarrow> int \<Rightarrow> (string \<times> int) list \<Rightarrow> bool \<times> (string \<times> int) list" where
  "file_consume h now jti expiresAt content =
     (if length jti < 1 \<or> length jti > 512 \<or> \<bar>expiresAt\<bar> > max_safe_integer \<or> expiresAt \<le> 0 then (False, content)
      else
        let key = sha256 h jti; state = unexpired now content
        in if key \<in> fst ` set state then (False, content)
           else
             let state = put key expiresAt state;
                 oldest = map fst (take (length state - MAX_ENTRIES) (sort_key snd state))
             in (True, if length state > MAX_ENTRIES
                       then filter (\<lambda>(digest, expiry). digest \<notin> set oldest) state else state))"

section \<open>Sequences of verifications\<close>

text \<open>
  A verification: how the store keys a token id, the store's clock, and the input of
  \<open>verifyPluginInvocationV1\<close>.
\<close>

record 'k verification_event =
  ve_key :: "string \<Rightarrow> 'k"
  ve_clock :: int
  ve_input :: verification_input

definition verify_event ::
  "token_lib \<Rightarrow> (int \<Rightarrow> 'k \<Rightarrow> int \<Rightarrow> 's \<Rightarrow> bool \<times> 's) \<Rightarrow> 'k verification_event \<Rightarrow> 's \<Rightarrow>
    (gateway_code + invocation_claims) \<times> 's" where
  "verify_event t consume e = verifyPluginInvocationV1 t (\<lambda>jti. consume (ve_clock e) (ve_key e jti)) (ve_input e)"

fun verify_run ::
  "token_lib \<Rightarrow> (int \<Rightarrow> 'k \<Rightarrow> int \<Rightarrow> 's \<Rightarrow> bool \<times> 's) \<Rightarrow> 'k verification_event list \<Rightarrow> 's \<Rightarrow>
    (gateway_code + invocation_claims) list" where
  "verify_run t consume [] s = []"
| "verify_run t consume (e # es) s =
     (case verify_event t consume e s of (r, s') \<Rightarrow> r # verify_run t consume es s')"

text \<open>The states before each verification.\<close>

fun verify_states ::
  "token_lib \<Rightarrow> (int \<Rightarrow> 'k \<Rightarrow> int \<Rightarrow> 's \<Rightarrow> bool \<times> 's) \<Rightarrow> 'k verification_event list \<Rightarrow> 's \<Rightarrow> 's list" where
  "verify_states t consume [] s = []"
| "verify_states t consume (e # es) s = s # verify_states t consume es (snd (verify_event t consume e s))"

lemma length_verify_run [simp]: "length (verify_run t consume es s) = length es"
  by (induction es arbitrary: s) (auto split: prod.splits)

section \<open>The contract\<close>

text \<open>
  \<open>recorded s k\<close> is the expiry under which \<open>k\<close> is recorded. A store with \<open>room\<close> refuses what is recorded
  and not expired, records what it accepts, and keeps every record until it has expired.
\<close>

locale replay_store =
  fixes consume :: "int \<Rightarrow> 'k \<Rightarrow> int \<Rightarrow> 's \<Rightarrow> bool \<times> 's"
    and recorded :: "'s \<Rightarrow> 'k \<Rightarrow> int option"
    and room :: "'s \<Rightarrow> bool"
  assumes refuses: "recorded s k = Some e \<Longrightarrow> now \<le> e \<Longrightarrow> \<not> fst (consume now k x s)"
    and records: "room s \<Longrightarrow> consume now k x s = (True, s') \<Longrightarrow> recorded s' k = Some x"
    and keeps: "room s \<Longrightarrow> recorded s j = Some e \<Longrightarrow> now \<le> e \<Longrightarrow> consume now k x s = (b, s') \<Longrightarrow>
      recorded s' j = Some e"
begin

lemma verify_records:
  "room s \<Longrightarrow> verify_event t consume e s = (Inr c, s') \<Longrightarrow> recorded s' (ve_key e (ic_jti c)) = Some (ic_exp c)"
  by (auto simp: verify_event_def verify_result intro: records)

lemma verify_keeps:
  assumes "room s" and "recorded s j = Some x" and "ve_clock e \<le> x"
  shows "recorded (snd (verify_event t consume e s)) j = Some x"
proof (cases "bind_res (read_claims t (vi_token (ve_input e))) (check_claims (ve_input e))")
  case (Inl err)
  with assms(2) show ?thesis
    by (simp add: verify_event_def verifyPluginInvocationV1_def del: bind_res_Inr)
next
  case (Inr c)
  obtain b s' where run: "consume (ve_clock e) (ve_key e (ic_jti c)) (ic_exp c) s = (b, s')" by fastforce
  from keeps [OF assms run] Inr run show ?thesis
    by (cases b) (simp_all add: verify_event_def verifyPluginInvocationV1_def del: bind_res_Inr)
qed

lemma verify_refuses:
  assumes "recorded s (ve_key e (ic_jti c)) = Some x" and "ve_clock e \<le> x"
  shows "fst (verify_event t consume e s) \<noteq> Inr c"
proof
  assume "fst (verify_event t consume e s) = Inr c"
  then obtain s' where "verify_event t consume e s = (Inr c, s')" by (metis prod.collapse)
  then have "fst (consume (ve_clock e) (ve_key e (ic_jti c)) (ic_exp c) s)"
    by (simp add: verify_event_def verify_result)
  with refuses [OF assms] show False by blast
qed

lemma refused_while_recorded:
  assumes "recorded s k = Some x" and "j < length es" and "\<And>i. i \<le> j \<Longrightarrow> ve_clock (es ! i) \<le> x"
    and "list_all room (verify_states t consume es s)" and "ve_key (es ! j) (ic_jti c) = k"
  shows "verify_run t consume es s ! j \<noteq> Inr c"
  using assms
proof (induction es arbitrary: s j)
  case (Cons e es)
  obtain r s' where step: "verify_event t consume e s = (r, s')" by fastforce
  show ?case
  proof (cases j)
    case 0
    with Cons.prems(1,3,5) verify_refuses [of s e c x t] step show ?thesis by auto
  next
    case (Suc i)
    have "ve_clock e \<le> x" using Cons.prems(3) [of 0] by simp
    then have "recorded s' k = Some x"
      using verify_keeps [of s k x e t] Cons.prems(1,4) step by simp
    then have "verify_run t consume es s' ! i \<noteq> Inr c"
      using Cons.prems(2,4,5) Cons.prems(3) [of "Suc n" for n] Suc step by (intro Cons.IH) auto
    with Suc step show ?thesis by simp
  qed
qed simp

lemma accepted_again_after_expiry:
  assumes "sorted (map ve_clock es)" and "i < j" and "j < length es"
    and "verify_run t consume es s ! i = Inr c" and "verify_run t consume es s ! j = Inr d"
    and "ve_key (es ! i) (ic_jti c) = ve_key (es ! j) (ic_jti d)"
    and "list_all room (verify_states t consume es s)"
  shows "ic_exp c < ve_clock (es ! j)"
  using assms
proof (induction es arbitrary: s i j)
  case (Cons e es)
  obtain r s' where step: "verify_event t consume e s = (r, s')" by fastforce
  obtain j' where j: "j = Suc j'" using Cons.prems(2) by (cases j) auto
  have room: "list_all room (verify_states t consume es s')" using Cons.prems(7) step by simp
  show ?case
  proof (cases i)
    case 0
    with Cons.prems(4) step have "verify_event t consume e s = (Inr c, s')" by simp
    then have rec: "recorded s' (ve_key e (ic_jti c)) = Some (ic_exp c)"
      using Cons.prems(7) by (auto intro: verify_records)
    show ?thesis
    proof (rule ccontr)
      assume "\<not> ic_exp c < ve_clock ((e # es) ! j)"
      then have "ve_clock (es ! i) \<le> ic_exp c" if "i \<le> j'" for i
        using that Cons.prems(1,3) j sorted_nth_mono [of "map ve_clock es" i j'] by simp
      from refused_while_recorded [OF rec _ this room] Cons.prems(3,5,6) j 0 step show False by simp
    qed
  next
    case (Suc i')
    with Cons.prems j step room show ?thesis by (auto intro: Cons.IH)
  qed
qed simp

end

section \<open>The stores keep the contract\<close>

lemma map_of_unexpired: "map_of s k = Some e \<Longrightarrow> now \<le> e \<Longrightarrow> map_of (unexpired now s) k = Some e"
  by (induction s) (auto simp: unexpired_def split: if_splits)

lemma map_of_not_key: "k \<notin> fst ` set s \<longleftrightarrow> map_of s k = None"
  by (simp add: map_of_eq_None_iff)

interpretation memory: replay_store memory_consume map_of "\<lambda>s. True"
proof
  show "\<not> fst (memory_consume now k x s)" if "map_of s k = Some e" "now \<le> e" for s k e now x
    using map_of_unexpired [OF that] by (auto simp: memory_consume_def Let_def dest!: map_of_SomeD split: if_splits)
      (force)
  show "map_of s' k = Some x" if "memory_consume now k x s = (True, s')" for now k x s s'
    using that by (auto simp: memory_consume_def Let_def split: if_splits)
  show "map_of s' j = Some e"
    if "map_of s j = Some e" "now \<le> e" "memory_consume now k x s = (b, s')" for s j e now k x b s'
    using map_of_unexpired [OF that(1,2)] that(3)
    by (auto simp: memory_consume_def Let_def map_of_not_key split: if_splits)
qed

interpretation database: replay_store "database_consume h" "\<lambda>rows key. map_of rows (replayKeyHash h key)"
  "\<lambda>rows. True" for h
proof
  show "\<not> fst (database_consume h now k x s)"
    if "map_of s (replayKeyHash h k) = Some e" "now \<le> e" for s k e now x
    using map_of_unexpired [OF that] by (auto simp: database_consume_def Let_def map_of_not_key)
  show "map_of s' (replayKeyHash h k) = Some x" if "database_consume h now k x s = (True, s')" for now k x s s'
    using that by (auto simp: database_consume_def Let_def map_of_not_key map_add_def split: if_splits option.splits)
  show "map_of s' (replayKeyHash h j) = Some e"
    if "map_of s (replayKeyHash h j) = Some e" "now \<le> e" "database_consume h now k x s = (b, s')"
    for s j e now k x b s'
    using map_of_unexpired [OF that(1,2)] that(3)
    by (auto simp: database_consume_def Let_def map_of_not_key map_add_def split: if_splits option.splits)
qed

lemma length_unexpired: "length (unexpired now s) \<le> length s"
  by (simp add: unexpired_def)

text \<open>Below the limit the file store drops nothing that has not expired.\<close>

interpretation file_store: replay_store "file_consume h" "\<lambda>content jti. map_of content (sha256 h jti)"
  "\<lambda>content. length content < MAX_ENTRIES" for h
proof
  show "\<not> fst (file_consume h now k x s)" if "map_of s (sha256 h k) = Some e" "now \<le> e" for s k e now x
    using map_of_unexpired [OF that] by (auto simp: file_consume_def Let_def map_of_not_key)
  have small: "file_consume h now k x s = (b, s') \<Longrightarrow> length s < MAX_ENTRIES \<Longrightarrow>
      (b \<longrightarrow> s' = put (sha256 h k) x (unexpired now s)) \<and> (\<not> b \<longrightarrow> s' = s) \<and>
      (b \<longrightarrow> sha256 h k \<notin> fst ` set (unexpired now s))" for now k x s b s'
    using length_unexpired [of now s] length_put [of "sha256 h k" x "unexpired now s"]
    by (auto simp: file_consume_def Let_def split: if_splits)
  show "map_of s' (sha256 h k) = Some x"
    if "length s < MAX_ENTRIES" "file_consume h now k x s = (True, s')" for now k x s s'
    using small [OF that(2,1)] by simp
  show "map_of s' (sha256 h j) = Some e"
    if "length s < MAX_ENTRIES" "map_of s (sha256 h j) = Some e" "now \<le> e" "file_consume h now k x s = (b, s')"
    for s j e now k x b s'
    using small [OF that(4,1)] map_of_unexpired [OF that(2,3)] that(2)
    by (cases b) (auto simp: map_of_not_key)
qed

end
