(* ===== verification/Gateway_Samples.thy ===== *)
theory Gateway_Samples
  imports Gateway_Admission Replay_Store Samples
begin

text \<open>
  Concrete values for the witnesses about the gateway: a plugin with one operation, a token
  library that knows two values, and the claims of one token.
\<close>

definition sample_operation :: backend_operation where
  "sample_operation = \<lparr>op_operationId = ''io.acme.read'', op_method = GET, op_path = ''v1/items/:itemRef'',
     op_requestSchema = \<lparr>sref_path = ''a'', sref_sha256 = replicate 64 (CHR ''0'')\<rparr>,
     op_responseSchema = \<lparr>sref_path = ''b'', sref_sha256 = replicate 64 (CHR ''1'')\<rparr>,
     op_requiredPermissions = [''host.engine.metadata.read''],
     op_resourceBinding = Some \<lparr>rb_kind = BkEngine, rb_source = BsPath, rb_field = ''itemRef''\<rparr>,
     op_authorization = None, op_maxRequestBytes = 1000, op_maxResponseBytes = 1000, op_timeoutMs = 1000,
     op_streaming = StreamNone\<rparr>"

definition sample_backend :: manifest where
  "sample_backend = (sample_manifest ''io.acme'' ''1.0.0'' None [])
     \<lparr>mf_compatibility := \<lparr>cp_host = ''*'', cp_sdk = ''1.0.0'', cp_frontendProtocol = None,
        cp_backendProtocol = Some 1, cp_requiredSlots = []\<rparr>,
      mf_permissionsRequired := [''host.engine.metadata.read''],
      mf_deployment := \<lparr>dp_frontend = None, dp_backend = Some \<lparr>bd_image = sample_image, bd_operations = [sample_operation]\<rparr>,
        dp_migration = None, dp_resources = None\<rparr>\<rparr>"

lemma sample_backend_accepted: "manifest_accepted sample_backend"
  by code_simp

definition sample_claims :: invocation_claims where
  "sample_claims = \<lparr>ic_aud = ''io.acme'', ic_sub = ''user'', ic_exp = 160, ic_iat = 100, ic_jti = ''token-1'',
     ic_tenantRef = Some ''tenant'', ic_deploymentRef = ''deployment'', ic_operationId = ''io.acme.read'',
     ic_grantedPermissions = [''host.engine.metadata.read''],
     ic_resourceRefs = Some [\<lparr>rr_kind = RkEngine, rr_ref = ''engine-1''\<rparr>], ic_correlationId = ''c''\<rparr>"

definition sample_tokens :: token_lib where
  "sample_tokens = \<lparr>tl_encode = (\<lambda>v. if v = tokenHeader then ''h'' else ''p''),
     tl_decode = (\<lambda>s. if s = ''h'' then Some tokenHeader else if s = ''p'' then Some (claims_value sample_claims) else None),
     tl_sign = (\<lambda>s. ''s''), tl_verify = (\<lambda>s t. t = ''s'')\<rparr>"

lemma sample_tokens_ok: "token_lib_ok [tokenHeader, claims_value sample_claims] sample_tokens"
proof -
  have "claims_value sample_claims \<noteq> tokenHeader" by (simp add: claims_value_def tokenHeader_def)
  then show ?thesis by (simp add: token_lib_ok_def sample_tokens_def)
qed

lemma sample_token_read: "read_claims sample_tokens ''h.p.s'' = Inr sample_claims"
proof -
  have "pluginInvocationClaimsV1Schema (claims_value sample_claims)" by code_simp
  then show ?thesis
    by (simp add: read_claims_def decodeJson_def sample_tokens_def tokenHeader_def)
qed

definition sample_verification :: "int \<Rightarrow> verification_input" where
  "sample_verification now = \<lparr>vi_token = ''h.p.s'', vi_expectedAudience = ''io.acme'',
     vi_expectedOperationId = ''io.acme.read'', vi_now = now, vi_clockSkewSeconds = None,
     vi_maximumLifetimeSeconds = None\<rparr>"

lemma sample_check: "95 \<le> now \<Longrightarrow> now \<le> 165 \<Longrightarrow> check_claims (sample_verification now) sample_claims = Inr sample_claims"
  by (simp add: check_claims_ok sample_verification_def sample_claims_def skew_of_def lifetime_of_def)

definition sample_gateway_call :: gateway_call where
  "sample_gateway_call = \<lparr>gw_manifest = sample_backend, gw_pluginId = ''io.acme'', gw_operationId = ''io.acme.read'',
     gw_method = ''GET'', gw_relativePath = ''v1/items/engine-1'', gw_requestBytes = 10,
     gw_grantedPermissions = [''host.engine.metadata.read'']\<rparr>"

abbreviation sample_key :: string where
  "sample_key \<equiv> replicate 64 (CHR ''0'')"

lemma sample_sha [simp]: "sha256 sample_host s = sample_key"
  by (simp add: sample_host_def)

end
