(* ===== verification/Gateway_Properties.thy ===== *)
theory Gateway_Properties
  imports Gateway_Samples
begin

text \<open>The properties of the plugin gateway.\<close>

section \<open>Authorization\<close>

lemma accepted_operations:
  assumes "manifest_accepted m"
  shows "list_all (\<lambda>operation. starts_with (mf_id m @ ''.'') (op_operationId operation)) (backendOperations m)"
    and "distinct (map op_operationId (backendOperations m))"
    and "operation \<in> set (backendOperations m) \<Longrightarrow> operationPathIssues (op_path operation) = []"
  using assms
  by (auto simp: manifest_accepted_def manifestIssues_def Let_def backendOperationIssues_Nil list_all_iff)

lemma findOperation_iff:
  assumes "distinct (map op_operationId (backendOperations m))"
  shows "findOperation m i = Some operation \<longleftrightarrow> operation \<in> set (backendOperations m) \<and> op_operationId operation = i"
proof -
  have "find (\<lambda>x. op_operationId x = i) ops = Some operation \<longleftrightarrow> operation \<in> set ops \<and> op_operationId operation = i"
    if "distinct (map op_operationId ops)" for ops
    using that by (induction ops) auto
  with assms show ?thesis by (simp add: findOperation_def)
qed

text \<open>C27: For an accepted manifest the gateway lets an invocation through exactly when it names the
  manifest's plugin and one of its operations, by the operation's method, with a path that is the
  declared path with opaque references for its parameters, a body within the operation's limit
  and every permission the operation requires.\<close>

theorem gateway_authorizes_exactly:
  assumes "manifest_accepted (gw_manifest input)"
  shows "authorizePluginGatewayInvocationV1 input = Inr operation \<longleftrightarrow>
     mf_id (gw_manifest input) = gw_pluginId input \<and> operation \<in> set (backendOperations (gw_manifest input)) \<and>
     op_operationId operation = gw_operationId input \<and> http_method_str (op_method operation) = gw_method input \<and>
     safeRelativePath (gw_relativePath input) \<and>
     (\<exists>ps. map fst ps = path_parameters (op_path operation) \<and>
        (\<forall>v \<in> snd ` set ps. opaqueReferenceSchema v \<and> \<not> starts_with '':'' v) \<and>
        gw_relativePath input = fill_path ps (op_path operation)) \<and>
     0 \<le> gw_requestBytes input \<and> gw_requestBytes input \<le> op_maxRequestBytes operation \<and>
     set (op_requiredPermissions operation) \<subseteq> set (gw_grantedPermissions input)"
proof -
  note ops = accepted_operations [OF assms]
  have named: "starts_with (mf_id (gw_manifest input) @ ''.'') (op_operationId operation)"
    if "operation \<in> set (backendOperations (gw_manifest input))"
    using ops(1) that by (simp add: list_all_iff)
  have path: "matchPluginOperationPathV1 (op_path operation) (gw_relativePath input) \<noteq> None \<longleftrightarrow>
      safeRelativePath (gw_relativePath input) \<and>
      (\<exists>ps. map fst ps = path_parameters (op_path operation) \<and>
        (\<forall>v \<in> snd ` set ps. opaqueReferenceSchema v \<and> \<not> starts_with '':'' v) \<and>
        gw_relativePath input = fill_path ps (op_path operation))"
    if "operation \<in> set (backendOperations (gw_manifest input))"
    using path_match_iff [OF ops(3) [OF that], of "gw_relativePath input"] by (auto simp del: not_None_eq simp: not_None_eq [symmetric])
  show ?thesis
    unfolding authorize_iff findOperation_iff [OF ops(2)] using named path by metis
qed

theorem gateway_authorizes_exactly_witness:
  "authorizePluginGatewayInvocationV1 sample_gateway_call = Inr sample_operation"
proof -
  have accepted: "manifest_accepted (gw_manifest sample_gateway_call)"
    using sample_backend_accepted by (simp add: sample_gateway_call_def)
  have fields: "gw_manifest sample_gateway_call = sample_backend" "gw_pluginId sample_gateway_call = ''io.acme''"
    "gw_operationId sample_gateway_call = ''io.acme.read''" "gw_method sample_gateway_call = ''GET''"
    "gw_relativePath sample_gateway_call = ''v1/items/engine-1''" "gw_requestBytes sample_gateway_call = 10"
    "gw_grantedPermissions sample_gateway_call = [''host.engine.metadata.read'']"
    by (simp_all add: sample_gateway_call_def)
  have ps: "map fst [(''itemRef'', ''engine-1'')] = path_parameters (op_path sample_operation)"
    "opaqueReferenceSchema ''engine-1''" "\<not> starts_with '':'' ''engine-1''"
    "''v1/items/engine-1'' = fill_path [(''itemRef'', ''engine-1'')] (op_path sample_operation)"
    "safeRelativePath ''v1/items/engine-1''"
    by code_simp+
  have op: "sample_operation \<in> set (backendOperations sample_backend)" "mf_id sample_backend = ''io.acme''"
    "op_operationId sample_operation = ''io.acme.read''" "http_method_str (op_method sample_operation) = ''GET''"
    "op_maxRequestBytes sample_operation = 1000" "op_requiredPermissions sample_operation = [''host.engine.metadata.read'']"
    by (simp_all add: sample_backend_def sample_operation_def backendOperations_def sample_manifest_def)
  show ?thesis
    unfolding gateway_authorizes_exactly [OF accepted] fields op
    by (intro conjI exI [of _ "[(''itemRef'', ''engine-1'')]"]) (use ps op in simp_all)
qed

text \<open>A backend passes the capability check only when it announces the manifest's plugin and
  version and, as a set, exactly the declared operations with the declared digests of their
  request and response schemas.\<close>

lemma capabilities_match_declarations:
  assumes "manifest_accepted m" and "validatePluginBackendCapabilitiesV1 m input = Inr c"
  shows "input = Some c \<and> bc_pluginId c = mf_id m \<and> bc_pluginVersion c = mf_version m \<and>
     set (bc_operations c) = capability_of ` set (backendOperations m) \<and>
     distinct (map co_operationId (bc_operations c))"
proof -
  from assms(2) obtain c' where input: "input = Some c'"
    by (cases input) (simp_all add: validatePluginBackendCapabilitiesV1_def)
  note facts = capabilities_announced [OF assms(2) [unfolded input]]
  from facts have sub: "capability_of ` set (backendOperations m) \<subseteq> set (bc_operations c')" by blast
  have "inj_on capability_of (set (backendOperations m))"
    using accepted_operations(2) [OF assms(1)] by (auto simp: inj_on_def distinct_map capability_of_def)
  then have "card (capability_of ` set (backendOperations m)) = card (set (backendOperations m))"
    by (rule card_image)
  also have "\<dots> = length (backendOperations m)"
    using accepted_operations(2) [OF assms(1)] by (simp add: distinct_card distinct_map)
  also have "\<dots> = card (set (bc_operations c'))"
    using facts by (simp add: distinct_card distinct_map)
  finally have "capability_of ` set (backendOperations m) = set (bc_operations c')"
    using sub by (intro card_subset_eq) simp_all
  with facts input show ?thesis by auto
qed

lemma capabilities_match_declarations_witness:
  "set [capability_of sample_operation] = capability_of ` set (backendOperations sample_backend)"
proof -
  have "validatePluginBackendCapabilitiesV1 sample_backend
      (Some \<lparr>bc_pluginId = ''io.acme'', bc_pluginVersion = ''1.0.0'', bc_operations = [capability_of sample_operation]\<rparr>) =
    Inr \<lparr>bc_pluginId = ''io.acme'', bc_pluginVersion = ''1.0.0'', bc_operations = [capability_of sample_operation]\<rparr>"
    by code_simp
  from capabilities_match_declarations [OF sample_backend_accepted this] show ?thesis by simp
qed

section \<open>Limits\<close>

text \<open>C29: In every run of the admission controller, in which times do not decrease, the requests
  admitted in one window never exceed the policy's limit for a subject's operation nor the one
  for a plugin, the leases not released never exceed the concurrency limit, and the number of
  tracked buckets stays within the policy.\<close>

theorem admission_ceilings:
  assumes "admission_policy_ok p" and "(admission_step h p)\<^sup>*\<^sup>* admission_start w"
  shows "int (admitted p (\<lambda>i. subjectKey h i = key) window (aw_admitted w)) \<le> ap_maxRequestsPerSubjectOperation p \<and>
     int (admitted p (\<lambda>i. pluginKey h i = key) window (aw_admitted w)) \<le> ap_maxRequestsPerPlugin p \<and>
     int (outstanding key (aw_leases w)) \<le> ap_maxConcurrentPerOperation p \<and>
     concurrentCount (aw_state w) key = int (outstanding key (aw_leases w)) \<and>
     length (ga_rateBuckets (aw_state w)) \<le> ap_maxTrackedBuckets p"
  using admission_reachable_inv [OF assms(2,1)]
  by (simp add: admission_inv_def buckets_ok_def rates_ok_def leases_ok_def)

definition sample_admission :: admission_policy where
  "sample_admission = \<lparr>ap_windowMs = 1000, ap_maxRequestsPerSubjectOperation = 2, ap_maxRequestsPerPlugin = 3,
     ap_maxConcurrentPerOperation = 1, ap_maxTrackedBuckets = 10\<rparr>"

definition sample_request :: admission_input where
  "sample_request = \<lparr>am_pluginId = ''io.acme'', am_operationId = ''io.acme.read'', am_tenantRef = None,
     am_subjectRef = ''user''\<rparr>"

theorem admission_ceilings_witness:
  "\<exists>w. (admission_step sample_host sample_admission)\<^sup>*\<^sup>* admission_start w \<and> length (aw_admitted w) = 1 \<and>
     int (outstanding (concurrentKey sample_host sample_request) (aw_leases w)) \<le> 1"
proof -
  have ok: "admission_policy_ok sample_admission" by code_simp
  have "is_ok (fst (admission_acquire sample_host sample_admission sample_request 5 (aw_state admission_start)))"
    by code_simp
  then obtain lease s where "admission_acquire sample_host sample_admission sample_request 5 (aw_state admission_start) = (Inr lease, s)"
    by (metis is_ok_iff prod.collapse)
  then have "admission_step sample_host sample_admission admission_start
      \<lparr>aw_state = s, aw_now = 5, aw_leases = aw_leases admission_start @ [lease],
       aw_admitted = aw_admitted admission_start @ [(5, sample_request)]\<rparr>"
    by (intro admission_granted) (simp_all add: admission_start_def)
  then obtain w where run: "(admission_step sample_host sample_admission)\<^sup>*\<^sup>* admission_start w"
    and w: "length (aw_admitted w) = 1"
    by (rule r_into_rtranclp [THEN that]) (simp add: admission_start_def)
  from admission_ceilings [OF ok run, of "concurrentKey sample_host sample_request"]
  have "int (outstanding (concurrentKey sample_host sample_request) (aw_leases w)) \<le> 1"
    by (simp add: sample_admission_def)
  with run w show ?thesis by blast
qed

text \<open>After as many failing calls in a row as the threshold, a circuit is open: until the time it
  stays open has passed every call is refused, then one call is granted as the probe, and while
  the probe runs the next call is refused.\<close>

lemma open_circuit_blocks:
  assumes "circuit_policy_ok p" and "int (length ts) = cp_failureThreshold p"
    and "states = failing_calls h p i operation ts []"
  shows "(t < last ts + cp_openMs p \<longrightarrow> fst (circuit_acquire h p i operation (Some t) t states) = Inl CircuitOpen) \<and>
     (last ts + cp_openMs p \<le> t \<longrightarrow>
        (\<exists>lease states'. circuit_acquire h p i operation (Some t) t states = (Inr lease, states') \<and> cl_isProbe lease \<and>
           fst (circuit_acquire h p i operation (Some t') t' states') = Inl CircuitOpen))"
proof -
  obtain s where s: "map_of states (circuit_key h i operation) = Some s" "ci_openedAt s = Some (last ts)"
    "\<not> ci_probeInFlight s"
    using threshold_failures_open [OF assms(1,2), of h i operation] assms(3) by blast
  note run = acquire_open [OF s, of p t]
  have probe: "fst (circuit_acquire h p i operation (Some t') t'
      (put (circuit_key h i operation) (s\<lparr>ci_touchedAt := t, ci_probeInFlight := True\<rparr>) states)) = Inl CircuitOpen"
    using s by (simp add: circuit_acquire_def trackedState_def Let_def)
  show ?thesis using run probe by auto
qed

definition sample_circuit :: circuit_policy where
  "sample_circuit = \<lparr>cp_failureThreshold = 2, cp_openMs = 30, cp_maxTrackedOperations = 5\<rparr>"

lemma open_circuit_blocks_witness:
  "fst (circuit_acquire sample_host sample_circuit ''io.acme'' ''io.acme.read'' (Some 20) 20
     (failing_calls sample_host sample_circuit ''io.acme'' ''io.acme.read'' [1, 2] [])) = Inl CircuitOpen"
proof -
  have ok: "circuit_policy_ok sample_circuit" "int (length [1::int, 2]) = cp_failureThreshold sample_circuit"
    by code_simp+
  from open_circuit_blocks [OF ok refl, of 20 sample_host "''io.acme''" "''io.acme.read''" 0] show ?thesis
    by (simp add: sample_circuit_def)
qed

definition sample_lease :: "bool \<Rightarrow> int \<Rightarrow> bool \<Rightarrow> circuit_lease" where
  "sample_lease probe t completed = \<lparr>cl_key = sample_key, cl_isProbe = probe, cl_explicitAt = Some t, cl_completed = completed\<rparr>"

definition sample_breaker :: "int \<Rightarrow> int option \<Rightarrow> bool \<Rightarrow> int \<Rightarrow> breaker" where
  "sample_breaker failures opened probe touched =
     [(sample_key, \<lparr>ci_consecutiveFailures = failures, ci_openedAt = opened, ci_probeInFlight = probe, ci_touchedAt = touched\<rparr>)]"

abbreviation sample_acquire :: "int \<Rightarrow> breaker \<Rightarrow> (gateway_code + circuit_lease) \<times> breaker" where
  "sample_acquire t \<equiv> circuit_acquire sample_host sample_circuit ''io.acme'' ''io.acme.read'' (Some t) t"

lemma sample_circuit_run:
  "sample_acquire 1 [] = (Inr (sample_lease False 1 False), sample_breaker 0 None False 1)"
  "sample_acquire 1 (sample_breaker 0 None False 1) = (Inr (sample_lease False 1 False), sample_breaker 0 None False 1)"
  "circuit_complete sample_circuit (sample_lease False 1 False) False 2 (sample_breaker 0 None False 1) =
     (sample_lease False 1 True, sample_breaker 1 None False 1)"
  "circuit_complete sample_circuit (sample_lease False 1 False) False 3 (sample_breaker 1 None False 1) =
     (sample_lease False 1 True, sample_breaker 2 (Some 1) False 1)"
  "sample_acquire 40 (sample_breaker 2 (Some 1) False 1) =
     (Inr (sample_lease True 40 False), sample_breaker 2 (Some 1) True 40)"
  "circuit_complete sample_circuit (sample_lease False 1 False) False 41 (sample_breaker 2 (Some 1) True 40) =
     (sample_lease False 1 True, sample_breaker 3 (Some 1) False 1)"
  "sample_acquire 42 (sample_breaker 3 (Some 1) False 1) =
     (Inr (sample_lease True 42 False), sample_breaker 3 (Some 1) True 42)"
  by code_simp+

text \<open>The breaker does not keep to one probe at a time: a call granted while the circuit was
  closed, which fails while the probe runs, ends the probe's mark, and a second probe is granted
  before the first has completed.\<close>

lemma second_probe_granted:
  "\<exists>states leases. (circuit_step sample_host sample_circuit)\<^sup>*\<^sup>* ([], []) (states, leases) \<and>
     length (filter (\<lambda>l. cl_isProbe l \<and> \<not> cl_completed l) leases) = 2"
proof -
  let ?step = "circuit_step sample_host sample_circuit" and ?L = "sample_lease"
  note granted = circuit_granted [of sample_host sample_circuit "''io.acme''" "''io.acme.read''"]
  note r = sample_circuit_run
  have "?step ([], []) (sample_breaker 0 None False 1, [?L False 1 False])"
    using granted [OF r(1), of "[]"] by simp
  moreover have "?step (sample_breaker 0 None False 1, [?L False 1 False])
      (sample_breaker 0 None False 1, [?L False 1 False, ?L False 1 False])"
    using granted [OF r(2), of "[?L False 1 False]"] by simp
  moreover have "?step (sample_breaker 0 None False 1, [?L False 1 False, ?L False 1 False])
      (sample_breaker 0 None False 1, [?L False 1 False, ?L False 1 False, ?L False 1 False])"
    using granted [OF r(2), of "[?L False 1 False, ?L False 1 False]"] by simp
  moreover have "?step (sample_breaker 0 None False 1, [?L False 1 False, ?L False 1 False, ?L False 1 False])
      (sample_breaker 1 None False 1, [?L False 1 True, ?L False 1 False, ?L False 1 False])"
    using circuit_completes [of 0 "[?L False 1 False, ?L False 1 False, ?L False 1 False]" sample_circuit False 2] r(3) by simp
  moreover have "?step (sample_breaker 1 None False 1, [?L False 1 True, ?L False 1 False, ?L False 1 False])
      (sample_breaker 2 (Some 1) False 1, [?L False 1 True, ?L False 1 True, ?L False 1 False])"
    using circuit_completes [of 1 "[?L False 1 True, ?L False 1 False, ?L False 1 False]" sample_circuit False 3] r(4) by simp
  moreover have "?step (sample_breaker 2 (Some 1) False 1, [?L False 1 True, ?L False 1 True, ?L False 1 False])
      (sample_breaker 2 (Some 1) True 40, [?L False 1 True, ?L False 1 True, ?L False 1 False, ?L True 40 False])"
    using granted [OF r(5), of "[?L False 1 True, ?L False 1 True, ?L False 1 False]"] by simp
  moreover have "?step (sample_breaker 2 (Some 1) True 40, [?L False 1 True, ?L False 1 True, ?L False 1 False, ?L True 40 False])
      (sample_breaker 3 (Some 1) False 1, [?L False 1 True, ?L False 1 True, ?L False 1 True, ?L True 40 False])"
    using circuit_completes [of 2 "[?L False 1 True, ?L False 1 True, ?L False 1 False, ?L True 40 False]" sample_circuit False 41]
      r(6) by simp
  moreover have "?step (sample_breaker 3 (Some 1) False 1, [?L False 1 True, ?L False 1 True, ?L False 1 True, ?L True 40 False])
      (sample_breaker 3 (Some 1) True 42,
       [?L False 1 True, ?L False 1 True, ?L False 1 True, ?L True 40 False, ?L True 42 False])"
    using granted [OF r(7), of "[?L False 1 True, ?L False 1 True, ?L False 1 True, ?L True 40 False]"] by simp
  ultimately have "?step\<^sup>*\<^sup>* ([], []) (sample_breaker 3 (Some 1) True 42,
       [?L False 1 True, ?L False 1 True, ?L False 1 True, ?L True 40 False, ?L True 42 False])"
    by (meson converse_rtranclp_into_rtranclp rtranclp.rtrancl_refl)
  then show ?thesis by (intro exI conjI, assumption) (simp add: sample_lease_def)
qed

section \<open>Invocation tokens\<close>

text \<open>C32: A token signed for claims verifies, under the matching key, to the same claims when it is
  used for its audience and operation within its lifetime, and the store has not seen its id.\<close>

theorem signed_token_verifies:
  assumes "token_lib_ok [tokenHeader, claims_value c] t" and "signPluginInvocationV1 t c = Some token"
    and "length token \<le> 64000" and "length (tl_encode t tokenHeader) \<le> 32768"
    and "length (tl_encode t (claims_value c)) \<le> 32768"
    and "vi_token input = token" and "vi_expectedAudience input = ic_aud c" and "vi_expectedOperationId input = ic_operationId c"
    and "ic_iat c - skew_of input \<le> vi_now input" and "vi_now input \<le> ic_exp c + skew_of input"
    and "ic_exp c - ic_iat c \<le> lifetime_of input"
    and "consume (ic_jti c) (ic_exp c) s = (True, s')"
  shows "verifyPluginInvocationV1 t consume input s = (Inr c, s')"
  unfolding verify_result check_claims_ok using read_signed [OF assms(1-5)] assms(6-12) by simp

theorem signed_token_verifies_witness:
  "verifyPluginInvocationV1 sample_tokens (memory_consume 120) (sample_verification 120) [] =
     (Inr sample_claims, [(''token-1'', 160)])"
proof -
  have signed: "signPluginInvocationV1 sample_tokens sample_claims = Some ''h.p.s''" by code_simp
  have len: "length ''h.p.s'' \<le> 64000" "length (tl_encode sample_tokens tokenHeader) \<le> 32768"
    "length (tl_encode sample_tokens (claims_value sample_claims)) \<le> 32768"
    by (simp_all add: sample_tokens_def)
  have consume: "memory_consume 120 (ic_jti sample_claims) (ic_exp sample_claims) [] = (True, [(''token-1'', 160)])"
    by code_simp
  show ?thesis
    by (rule signed_token_verifies [where consume = "memory_consume 120", OF sample_tokens_ok signed len _ _ _ _ _ _ consume])
      (simp_all add: sample_verification_def sample_claims_def skew_of_def lifetime_of_def)
qed

text \<open>C33: With the broker's database store, a token id that was accepted for a plugin and a call id
  is accepted again for them only when the store's clock has passed the first token's expiry,
  whatever other tokens are verified in between.\<close>

theorem replay_refused_until_expiry:
  assumes "sorted (map ve_clock es)" and "i < j" and "j < length es"
    and "verify_run t (database_consume h) es rows ! i = Inr c" and "verify_run t (database_consume h) es rows ! j = Inr d"
    and "ve_key (es ! i) (ic_jti c) = ve_key (es ! j) (ic_jti d)"
  shows "ic_exp c < ve_clock (es ! j)"
  using assms by (rule database.accepted_again_after_expiry) (simp add: list_all_iff)

definition sample_event :: "int \<Rightarrow> (string \<times> string \<times> string) verification_event" where
  "sample_event now = \<lparr>ve_key = (\<lambda>jti. (''io.acme'', jti, ''call-1'')), ve_clock = now, ve_input = sample_verification now\<rparr>"

lemma sample_event_run:
  assumes "95 \<le> now" and "now \<le> 165" and "database_consume h now (''io.acme'', ''token-1'', ''call-1'') 160 rows = (True, rows')"
  shows "verify_event sample_tokens (database_consume h) (sample_event now) rows = (Inr sample_claims, rows')"
proof -
  have input: "vi_token (sample_verification now) = ''h.p.s''" "ic_jti sample_claims = ''token-1''" "ic_exp sample_claims = 160"
    by (simp_all add: sample_verification_def sample_claims_def)
  show ?thesis
    using assms sample_check [OF assms(1,2)]
    by (simp add: verify_event_def sample_event_def verify_result input sample_token_read)
qed

theorem replay_refused_until_expiry_witness: "ic_exp sample_claims < 161"
proof -
  let ?key = "replayKeyHash sample_host (''io.acme'', ''token-1'', ''call-1'')"
  have one: "database_consume sample_host 120 (''io.acme'', ''token-1'', ''call-1'') 160 [] = (True, [(?key, 160)])"
    by (simp add: database_consume_def unexpired_def)
  have two: "database_consume sample_host 161 (''io.acme'', ''token-1'', ''call-1'') 160 [(?key, 160)] = (True, [(?key, 160)])"
    by (simp add: database_consume_def unexpired_def)
  have run: "verify_run sample_tokens (database_consume sample_host) [sample_event 120, sample_event 161] [] =
      [Inr sample_claims, Inr sample_claims]"
    using sample_event_run [OF _ _ one] sample_event_run [OF _ _ two] by simp
  have "ic_exp sample_claims < ve_clock ([sample_event 120, sample_event 161] ! 1)"
    by (rule replay_refused_until_expiry [of "[sample_event 120, sample_event 161]" 0 1 sample_tokens sample_host "[]"
          sample_claims sample_claims])
      (use run in \<open>simp_all add: sample_event_def\<close>)
  then show ?thesis by (simp add: sample_event_def)
qed

text \<open>With the default clock skew a token can be used twice: accepted at its expiry, it is
  accepted again one second later, since the store has dropped its id and the skew still
  covers it.\<close>

lemma skew_readmits_token:
  assumes "read_claims t token = Inr c" and "ic_exp c - ic_iat c \<le> 60"
  defines "use_at \<equiv> \<lambda>now. \<lparr>ve_key = id, ve_clock = now,
     ve_input = \<lparr>vi_token = token, vi_expectedAudience = ic_aud c, vi_expectedOperationId = ic_operationId c,
       vi_now = now, vi_clockSkewSeconds = None, vi_maximumLifetimeSeconds = None\<rparr>\<rparr>"
  shows "verify_run t memory_consume [use_at (ic_exp c), use_at (ic_exp c + 1)] [] = [Inr c, Inr c]"
proof -
  from read_claims_verified [OF assms(1)] claims_lifetime have life: "ic_iat c < ic_exp c" by metis
  have accepted: "verify_event t memory_consume (use_at now) s = (Inr c, s')"
    if "ic_exp c \<le> now" "now \<le> ic_exp c + 1" "memory_consume now (ic_jti c) (ic_exp c) s = (True, s')" for now s s'
    using that assms(1,2) life
    by (simp add: verify_event_def use_at_def verify_result check_claims_ok skew_of_def lifetime_of_def)
  have one: "memory_consume (ic_exp c) (ic_jti c) (ic_exp c) [] = (True, [(ic_jti c, ic_exp c)])"
    and two: "memory_consume (ic_exp c + 1) (ic_jti c) (ic_exp c) [(ic_jti c, ic_exp c)] = (True, [(ic_jti c, ic_exp c)])"
    by (simp_all add: memory_consume_def unexpired_def)
  show ?thesis using accepted [OF _ _ one] accepted [OF _ _ two] by simp
qed

lemma skew_readmits_token_witness:
  "verify_run sample_tokens memory_consume
     [\<lparr>ve_key = id, ve_clock = 160, ve_input = sample_verification 160\<rparr>,
      \<lparr>ve_key = id, ve_clock = 161, ve_input = sample_verification 161\<rparr>] [] = [Inr sample_claims, Inr sample_claims]"
proof -
  have "ic_exp sample_claims - ic_iat sample_claims \<le> 60" by (simp add: sample_claims_def)
  from skew_readmits_token [OF sample_token_read this] show ?thesis
    by (simp add: sample_claims_def sample_verification_def)
qed

end
