(* ===== verification/Broker_Schemas.thy ===== *)
theory Broker_Schemas
  imports Gateway_Token
begin

text \<open>
  The request and response schemas of the host broker (\<open>packages/plugin-sdk/src/brokers.ts\<close>) over
  JavaScript values. \<open>z.string().datetime()\<close> is an argument, \<open>dt\<close>: its pattern is zod's.
\<close>

section \<open>Combinators\<close>

definition one_of :: "string list \<Rightarrow> jsval \<Rightarrow> bool" where
  "one_of values = str_schema (\<lambda>s. s \<in> set values)"

fun int_between :: "int \<Rightarrow> int \<Rightarrow> jsval \<Rightarrow> bool" where
  "int_between lo hi (JInt i) = (lo \<le> i \<and> i \<le> hi)"
| "int_between lo hi v = False"

definition set_prop :: "string \<Rightarrow> jsval \<Rightarrow> jsval \<Rightarrow> jsval" where
  "set_prop k x v = (case v of JObj kvs \<Rightarrow> JObj (put k x kvs) | _ \<Rightarrow> v)"

definition prop_str :: "jsval \<Rightarrow> string \<Rightarrow> string" where
  "prop_str v k = str_of (getp v k)"

definition opaque_prop :: "jsval \<Rightarrow> string \<Rightarrow> bool" where
  "opaque_prop v k = str_schema opaqueReferenceSchema (getp v k)"

definition opt_opaque_prop :: "jsval \<Rightarrow> string \<Rightarrow> bool" where
  "opt_opaque_prop v k = optional_schema (str_schema opaqueReferenceSchema) (getp v k)"

definition safeMetadataCodeSchema :: "string \<Rightarrow> bool" where
  "safeMetadataCodeSchema s \<longleftrightarrow> opaque_id 1 200 s"

definition reasonCodeSchema :: "string \<Rightarrow> bool" where
  "reasonCodeSchema s \<longleftrightarrow> 1 \<le> length s \<and> length s \<le> 100 \<and> is_lower (hd s) \<and>
     list_all (\<lambda>c. is_lower c \<or> is_digit c \<or> c = CHR ''_'') s"

definition brokerCallShape :: "jsval \<Rightarrow> bool" where
  "brokerCallShape v \<longleftrightarrow> opaque_prop v ''callId'' \<and> str_schema namespacedIdentifierSchema (getp v ''operationId'')"

section \<open>Identity\<close>

definition pluginIdentityRequestV1Schema :: "jsval \<Rightarrow> bool" where
  "pluginIdentityRequestV1Schema v \<longleftrightarrow>
     strict_keys [''apiVersion'', ''callId'', ''operationId''] v \<and>
     getp v ''apiVersion'' = JStr ''identity-request.plugin.enterpriseglue.io/v1'' \<and> brokerCallShape v"

definition pluginIdentityResponseV1Schema :: "jsval \<Rightarrow> bool" where
  "pluginIdentityResponseV1Schema v \<longleftrightarrow>
     strict_keys [''apiVersion'', ''subjectRef'', ''tenantRef'', ''deploymentRef'', ''grantedPermissions''] v \<and>
     getp v ''apiVersion'' = JStr ''identity.plugin.enterpriseglue.io/v1'' \<and>
     opaque_prop v ''subjectRef'' \<and> opt_opaque_prop v ''tenantRef'' \<and> opaque_prop v ''deploymentRef'' \<and>
     array_schema 100 (one_of pluginPermissionValues) (getp v ''grantedPermissions'')"

section \<open>Readable engines\<close>

text \<open>\<open>/^v1:\d{1,9}$/\<close>\<close>

definition cursorSchema :: "string \<Rightarrow> bool" where
  "cursorSchema s \<longleftrightarrow> starts_with ''v1:'' s \<and> 1 \<le> length (drop 3 s) \<and> length (drop 3 s) \<le> 9 \<and>
     list_all is_digit (drop 3 s)"

text \<open>The parsed request has the default limit when none is given.\<close>

definition pluginReadableEngineAccessRequestV1Schema :: "jsval \<Rightarrow> jsval option" where
  "pluginReadableEngineAccessRequestV1Schema v =
     (if strict_keys [''apiVersion'', ''callId'', ''operationId'', ''cursor'', ''limit''] v \<and>
         getp v ''apiVersion'' = JStr ''engine-access-request.plugin.enterpriseglue.io/v1'' \<and> brokerCallShape v \<and>
         optional_schema (str_schema cursorSchema) (getp v ''cursor'') \<and>
         optional_schema (int_between 1 250) (getp v ''limit'')
      then Some (if getp v ''limit'' = JUndef then set_prop ''limit'' (JInt 100) v else v) else None)"

definition pluginReadableEngineAccessResponseV1Schema :: "jsval \<Rightarrow> bool" where
  "pluginReadableEngineAccessResponseV1Schema v \<longleftrightarrow>
     strict_keys [''apiVersion'', ''engineRefs'', ''nextCursor''] v \<and>
     getp v ''apiVersion'' = JStr ''engine-access.plugin.enterpriseglue.io/v1'' \<and>
     array_schema 250 (str_schema opaqueReferenceSchema) (getp v ''engineRefs'') \<and>
     optional_schema (str_schema cursorSchema) (getp v ''nextCursor'')"

section \<open>Resources\<close>

definition resourceCommonKeys :: "string list" where
  "resourceCommonKeys = [''apiVersion'', ''callId'', ''operationId'', ''engineRef'', ''kind'']"

definition pluginResourceMetadataRequestV1Schema :: "jsval \<Rightarrow> bool" where
  "pluginResourceMetadataRequestV1Schema v \<longleftrightarrow>
     getp v ''apiVersion'' = JStr ''resource-request.plugin.enterpriseglue.io/v1'' \<and> brokerCallShape v \<and>
     opaque_prop v ''engineRef'' \<and>
     (getp v ''kind'' = JStr ''incident'' \<and> opaque_prop v ''incidentRef'' \<and>
        strict_keys (''incidentRef'' # resourceCommonKeys) v \<or>
      getp v ''kind'' = JStr ''failed_job'' \<and> opaque_prop v ''jobRef'' \<and>
        strict_keys (''jobRef'' # resourceCommonKeys) v \<or>
      getp v ''kind'' = JStr ''process_instance'' \<and> opaque_prop v ''processInstanceRef'' \<and>
        strict_keys (''processInstanceRef'' # resourceCommonKeys) v \<or>
      getp v ''kind'' = JStr ''engine'' \<and> strict_keys resourceCommonKeys v)"

definition opt_code_prop :: "jsval \<Rightarrow> string \<Rightarrow> bool" where
  "opt_code_prop v k = optional_schema (str_schema safeMetadataCodeSchema) (getp v k)"

definition pluginIncidentMetadataResponseV1Schema :: "(string \<Rightarrow> bool) \<Rightarrow> jsval \<Rightarrow> bool" where
  "pluginIncidentMetadataResponseV1Schema dt v \<longleftrightarrow>
     strict_keys [''apiVersion'', ''engineRef'', ''kind'', ''incidentRef'', ''incidentType'', ''activityId'',
       ''errorCode'', ''processDefinitionRef'', ''processInstanceRef'', ''occurredAt''] v \<and>
     opaque_prop v ''incidentRef'' \<and> str_schema safeMetadataCodeSchema (getp v ''incidentType'') \<and>
     opt_code_prop v ''activityId'' \<and> opt_code_prop v ''errorCode'' \<and>
     opt_opaque_prop v ''processDefinitionRef'' \<and> opt_opaque_prop v ''processInstanceRef'' \<and>
     optional_schema (str_schema dt) (getp v ''occurredAt'')"

definition pluginFailedJobMetadataResponseV1Schema :: "(string \<Rightarrow> bool) \<Rightarrow> jsval \<Rightarrow> bool" where
  "pluginFailedJobMetadataResponseV1Schema dt v \<longleftrightarrow>
     strict_keys [''apiVersion'', ''engineRef'', ''kind'', ''jobRef'', ''activityId'', ''processDefinitionRef'',
       ''processInstanceRef'', ''retries'', ''exceptionClass'', ''dueAt''] v \<and>
     opaque_prop v ''jobRef'' \<and> opt_code_prop v ''activityId'' \<and>
     opt_opaque_prop v ''processDefinitionRef'' \<and> opt_opaque_prop v ''processInstanceRef'' \<and>
     int_between 0 1000000 (getp v ''retries'') \<and> opt_code_prop v ''exceptionClass'' \<and>
     optional_schema (str_schema dt) (getp v ''dueAt'')"

definition pluginProcessInstanceMetadataResponseV1Schema :: "(string \<Rightarrow> bool) \<Rightarrow> jsval \<Rightarrow> bool" where
  "pluginProcessInstanceMetadataResponseV1Schema dt v \<longleftrightarrow>
     strict_keys [''apiVersion'', ''engineRef'', ''kind'', ''processInstanceRef'', ''processDefinitionRef'',
       ''state'', ''startedAt'', ''endedAt''] v \<and>
     opaque_prop v ''processInstanceRef'' \<and> opaque_prop v ''processDefinitionRef'' \<and>
     one_of [''active'', ''suspended'', ''ended'', ''unknown''] (getp v ''state'') \<and>
     optional_schema (str_schema dt) (getp v ''startedAt'') \<and>
     optional_schema (str_schema dt) (getp v ''endedAt'')"

definition pluginEngineMetadataResponseV1Schema :: "(string \<Rightarrow> bool) \<Rightarrow> jsval \<Rightarrow> bool" where
  "pluginEngineMetadataResponseV1Schema dt v \<longleftrightarrow>
     strict_keys [''apiVersion'', ''engineRef'', ''kind'', ''product'', ''version'', ''connected'', ''lastSeenAt''] v \<and>
     one_of [''operaton'', ''camunda7''] (getp v ''product'') \<and>
     str_schema safeMetadataCodeSchema (getp v ''version'') \<and> as_bool (getp v ''connected'') \<noteq> None \<and>
     optional_schema (str_schema dt) (getp v ''lastSeenAt'')"

definition pluginResourceMetadataResponseV1Schema :: "(string \<Rightarrow> bool) \<Rightarrow> jsval \<Rightarrow> bool" where
  "pluginResourceMetadataResponseV1Schema dt v \<longleftrightarrow>
     getp v ''apiVersion'' = JStr ''resource.plugin.enterpriseglue.io/v1'' \<and> opaque_prop v ''engineRef'' \<and>
     (getp v ''kind'' = JStr ''incident'' \<and> pluginIncidentMetadataResponseV1Schema dt v \<or>
      getp v ''kind'' = JStr ''failed_job'' \<and> pluginFailedJobMetadataResponseV1Schema dt v \<or>
      getp v ''kind'' = JStr ''process_instance'' \<and> pluginProcessInstanceMetadataResponseV1Schema dt v \<or>
      getp v ''kind'' = JStr ''engine'' \<and> pluginEngineMetadataResponseV1Schema dt v)"

definition permissionForResourceKindV1 :: "string \<Rightarrow> string" where
  "permissionForResourceKindV1 kind =
     (if kind = ''incident'' then ''host.engine.incidents.read_metadata''
      else if kind = ''failed_job'' then ''host.engine.failed_jobs.read_metadata''
      else if kind = ''process_instance'' then ''host.engine.process_instances.read_metadata''
      else ''host.engine.metadata.read'')"

section \<open>Storage\<close>

definition pluginStorageKeyV1Schema :: "string \<Rightarrow> bool" where
  "pluginStorageKeyV1Schema s \<longleftrightarrow> 1 \<le> length s \<and> length s \<le> 256 \<and> is_lower_alnum (hd s) \<and>
     list_all (\<lambda>c. is_alnum c \<or> c \<in> {CHR ''.'', CHR ''_'', CHR ''/'', CHR ''-''}) s \<and>
     list_all (\<lambda>segment. segment \<noteq> [] \<and> segment \<noteq> ''..'') (split_on CHR ''/'' s)"

text \<open>\<open>/^r[1-9][0-9]*$/\<close>\<close>

definition pluginStorageRevisionV1Schema :: "string \<Rightarrow> bool" where
  "pluginStorageRevisionV1Schema s \<longleftrightarrow> starts_with ''r'' s \<and> tl s \<noteq> [] \<and> list_all is_digit (tl s) \<and>
     hd (tl s) \<noteq> CHR ''0''"

definition storageCommonKeys :: "string list" where
  "storageCommonKeys = [''apiVersion'', ''callId'', ''operationId'', ''scope'', ''key'', ''action'']"

definition pluginStorageRequestV1Schema :: "jsval \<Rightarrow> bool" where
  "pluginStorageRequestV1Schema v \<longleftrightarrow>
     getp v ''apiVersion'' = JStr ''storage-request.plugin.enterpriseglue.io/v1'' \<and> brokerCallShape v \<and>
     one_of [''deployment'', ''tenant''] (getp v ''scope'') \<and>
     str_schema pluginStorageKeyV1Schema (getp v ''key'') \<and>
     (getp v ''action'' = JStr ''get'' \<and> strict_keys storageCommonKeys v \<or>
      getp v ''action'' = JStr ''put'' \<and> strict_keys (storageCommonKeys @ [''value'', ''expectedRevision'']) v \<and>
        optional_schema (str_schema pluginStorageRevisionV1Schema) (getp v ''expectedRevision'') \<or>
      getp v ''action'' = JStr ''delete'' \<and> strict_keys (storageCommonKeys @ [''expectedRevision'']) v \<and>
        str_schema pluginStorageRevisionV1Schema (getp v ''expectedRevision''))"

definition pluginStorageResponseV1Schema :: "jsval \<Rightarrow> bool" where
  "pluginStorageResponseV1Schema v \<longleftrightarrow>
     getp v ''apiVersion'' = JStr ''storage-result.plugin.enterpriseglue.io/v1'' \<and>
     (getp v ''action'' = JStr ''get'' \<and> getp v ''found'' = JBool False \<and>
        strict_keys [''apiVersion'', ''action'', ''found''] v \<or>
      getp v ''action'' = JStr ''get'' \<and> getp v ''found'' = JBool True \<and>
        str_schema pluginStorageRevisionV1Schema (getp v ''revision'') \<and>
        strict_keys [''apiVersion'', ''action'', ''found'', ''value'', ''revision''] v \<or>
      getp v ''action'' = JStr ''put'' \<and> str_schema pluginStorageRevisionV1Schema (getp v ''revision'') \<and>
        strict_keys [''apiVersion'', ''action'', ''revision''] v \<or>
      getp v ''action'' = JStr ''delete'' \<and> getp v ''deleted'' = JBool True \<and>
        strict_keys [''apiVersion'', ''action'', ''deleted''] v)"

section \<open>Diagnostics\<close>

definition inferredEvidenceLevel :: "string \<Rightarrow> string" where
  "inferredEvidenceLevel mode =
     (if mode = ''metadata_auto'' \<or> mode = ''manual'' then ''context_only''
      else if mode = ''sanitized_full_log_bundle_confirmed'' then ''full_sanitized_logs''
      else ''sanitized_window'')"

definition diagnosticTriggerSchema :: "jsval \<Rightarrow> bool" where
  "diagnosticTriggerSchema v \<longleftrightarrow>
     getp v ''kind'' = JStr ''incident'' \<and> opaque_prop v ''incidentRef'' \<and> strict_keys [''kind'', ''incidentRef''] v \<or>
     getp v ''kind'' = JStr ''failed_job'' \<and> opaque_prop v ''jobRef'' \<and> strict_keys [''kind'', ''jobRef''] v \<or>
     getp v ''kind'' = JStr ''engine'' \<and> strict_keys [''kind''] v"

definition diagnosticTimeRangeSchema :: "(string \<Rightarrow> bool) \<Rightarrow> jsval \<Rightarrow> bool" where
  "diagnosticTimeRangeSchema dt v \<longleftrightarrow> strict_keys [''startAt'', ''endAt''] v \<and>
     str_schema dt (getp v ''startAt'') \<and> str_schema dt (getp v ''endAt'')"

text \<open>The \<open>superRefine\<close>: the issues it adds. A comparison with \<open>NaN\<close> is false.\<close>

datatype diagnostic_issue =
    FullLogUnconfirmed | FullLogMode | ConfirmationUnexpected | EvidenceLevelMismatch | TimeRangeInvalid

definition diagnosticIssues :: "host \<Rightarrow> jsval \<Rightarrow> diagnostic_issue list" where
  "diagnosticIssues h v =
     (let mode = prop_str v ''mode'';
          evidenceLevel = (case as_str (getp v ''evidenceLevel'') of None \<Rightarrow> inferredEvidenceLevel mode | Some l \<Rightarrow> l);
          fullLogRequest = (mode = ''sanitized_full_log_bundle_confirmed'' \<or> evidenceLevel = ''full_sanitized_logs'')
      in (if fullLogRequest \<and> getp v ''fullLogCollectionConfirmed'' \<noteq> JBool True then [FullLogUnconfirmed] else []) @
         (if fullLogRequest \<and> mode \<noteq> ''sanitized_full_log_bundle_confirmed'' then [FullLogMode] else []) @
         (if \<not> fullLogRequest \<and> getp v ''fullLogCollectionConfirmed'' \<noteq> JUndef then [ConfirmationUnexpected] else []) @
         (if getp v ''evidenceLevel'' \<noteq> JUndef \<and> getp v ''evidenceLevel'' \<noteq> JStr (inferredEvidenceLevel mode)
          then [EvidenceLevelMismatch] else []) @
         (if getp v ''timeRange'' \<noteq> JUndef then
            case (dateParse h (prop_str (getp v ''timeRange'') ''startAt''),
                  dateParse h (prop_str (getp v ''timeRange'') ''endAt'')) of
              (Some start, Some ending) \<Rightarrow>
                if start \<ge> ending \<or> ending - start > 24 * 60 * 60 * 1000 then [TimeRangeInvalid] else []
            | _ \<Rightarrow> []
          else []))"

definition pluginDiagnosticCollectionRequestV1Schema :: "host \<Rightarrow> (string \<Rightarrow> bool) \<Rightarrow> jsval \<Rightarrow> jsval option" where
  "pluginDiagnosticCollectionRequestV1Schema h dt v =
     (if strict_keys [''apiVersion'', ''callId'', ''operationId'', ''engineRef'', ''trigger'', ''profile'', ''mode'',
           ''evidenceLevel'', ''timeRange'', ''fullLogCollectionConfirmed'', ''idempotencyKey'', ''consumerContextRef''] v \<and>
         getp v ''apiVersion'' = JStr ''diagnostic-collection-request.plugin.enterpriseglue.io/v1'' \<and>
         brokerCallShape v \<and> opaque_prop v ''engineRef'' \<and> diagnosticTriggerSchema (getp v ''trigger'') \<and>
         one_of [''incident_minimal'', ''failed_job_minimal'', ''engine_health''] (getp v ''profile'') \<and>
         one_of [''manual'', ''metadata_auto'', ''sanitized_bundle_auto'', ''sanitized_full_log_bundle_confirmed'']
           (getp v ''mode'') \<and>
         optional_schema (one_of [''context_only'', ''sanitized_window'', ''full_sanitized_logs'']) (getp v ''evidenceLevel'') \<and>
         optional_schema (diagnosticTimeRangeSchema dt) (getp v ''timeRange'') \<and>
         optional_schema (\<lambda>x. x = JBool True) (getp v ''fullLogCollectionConfirmed'') \<and>
         opaque_prop v ''idempotencyKey'' \<and> opt_opaque_prop v ''consumerContextRef'' \<and>
         diagnosticIssues h v = []
      then Some (if getp v ''evidenceLevel'' = JUndef
                 then set_prop ''evidenceLevel'' (JStr (inferredEvidenceLevel (prop_str v ''mode''))) v else v)
      else None)"

definition pluginDiagnosticCollectionResponseV1Schema :: "jsval \<Rightarrow> bool" where
  "pluginDiagnosticCollectionResponseV1Schema v \<longleftrightarrow>
     strict_keys [''apiVersion'', ''intentRef'', ''status'', ''filteringBoundary'', ''rawUploadPermitted'',
       ''evidenceLevel'', ''reasonCode'', ''consumerContextRef'', ''artifactRef'', ''sanitizedBytes''] v \<and>
     getp v ''apiVersion'' = JStr ''diagnostic-collection-result.plugin.enterpriseglue.io/v1'' \<and>
     opaque_prop v ''intentRef'' \<and>
     one_of [''requires_confirmation'', ''metadata_ready'', ''collection_queued'', ''sanitized_bundle_ready'',
       ''rejected''] (getp v ''status'') \<and>
     one_of [''customer_adapter'', ''enterpriseglue_backend'', ''not_applicable''] (getp v ''filteringBoundary'') \<and>
     getp v ''rawUploadPermitted'' = JBool False \<and>
     optional_schema (one_of [''context_only'', ''sanitized_window'', ''full_sanitized_logs'']) (getp v ''evidenceLevel'') \<and>
     str_schema reasonCodeSchema (getp v ''reasonCode'') \<and> opt_opaque_prop v ''consumerContextRef'' \<and>
     opt_opaque_prop v ''artifactRef'' \<and>
     optional_schema (int_between 0 (10 * 1024 * 1024)) (getp v ''sanitizedBytes'')"

definition pluginDiagnosticCollectorStatusRequestV1Schema :: "jsval \<Rightarrow> bool" where
  "pluginDiagnosticCollectorStatusRequestV1Schema v \<longleftrightarrow>
     strict_keys [''apiVersion'', ''callId'', ''operationId''] v \<and>
     getp v ''apiVersion'' = JStr ''diagnostic-collector-status-request.plugin.enterpriseglue.io/v1'' \<and>
     brokerCallShape v"

definition pluginDiagnosticCollectorStatusResponseV1Schema :: "(string \<Rightarrow> bool) \<Rightarrow> jsval \<Rightarrow> bool" where
  "pluginDiagnosticCollectorStatusResponseV1Schema dt v \<longleftrightarrow>
     strict_keys [''apiVersion'', ''state'', ''reasonCode'', ''collectionPermission'', ''sourceClass'',
       ''filteringBoundary'', ''rawUploadPermitted'', ''browserEditable'', ''checkedAt''] v \<and>
     getp v ''apiVersion'' = JStr ''diagnostic-collector-status.plugin.enterpriseglue.io/v1'' \<and>
     one_of [''ready'', ''disabled'', ''degraded'', ''unavailable''] (getp v ''state'') \<and>
     str_schema reasonCodeSchema (getp v ''reasonCode'') \<and>
     one_of [''granted'', ''not_granted''] (getp v ''collectionPermission'') \<and>
     one_of [''none'', ''single'', ''multiple''] (getp v ''sourceClass'') \<and>
     one_of [''customer_adapter'', ''enterpriseglue_backend''] (getp v ''filteringBoundary'') \<and>
     getp v ''rawUploadPermitted'' = JBool False \<and> getp v ''browserEditable'' = JBool False \<and>
     str_schema dt (getp v ''checkedAt'')"

section \<open>Notifications\<close>

definition pluginNotificationTemplateValues :: "string list" where
  "pluginNotificationTemplateValues =
     [''host.plugin.action-required.v1'', ''host.plugin.operation-succeeded.v1'', ''host.plugin.operation-failed.v1'']"

definition pluginNotificationPublishRequestV1Schema :: "jsval \<Rightarrow> bool" where
  "pluginNotificationPublishRequestV1Schema v \<longleftrightarrow>
     strict_keys [''apiVersion'', ''callId'', ''operationId'', ''templateId'', ''reasonCode'', ''resource'',
       ''occurrenceCount'', ''idempotencyKey''] v \<and>
     getp v ''apiVersion'' = JStr ''notification-publish-request.plugin.enterpriseglue.io/v1'' \<and>
     brokerCallShape v \<and> one_of pluginNotificationTemplateValues (getp v ''templateId'') \<and>
     str_schema reasonCodeSchema (getp v ''reasonCode'') \<and>
     optional_schema resourceReferenceV1Schema (getp v ''resource'') \<and>
     optional_schema (int_between 1 1000000) (getp v ''occurrenceCount'') \<and> opaque_prop v ''idempotencyKey''"

definition pluginNotificationPublishResponseV1Schema :: "jsval \<Rightarrow> bool" where
  "pluginNotificationPublishResponseV1Schema v \<longleftrightarrow>
     strict_keys [''apiVersion'', ''notificationRef'', ''status''] v \<and>
     getp v ''apiVersion'' = JStr ''notification-publish-result.plugin.enterpriseglue.io/v1'' \<and>
     opaque_prop v ''notificationRef'' \<and> one_of [''published'', ''duplicate''] (getp v ''status'')"

section \<open>Fixed schedules\<close>

definition scheduleCommonKeys :: "string list" where
  "scheduleCommonKeys = [''apiVersion'', ''callId'', ''operationId'', ''jobType'', ''idempotencyKey'', ''action'']"

definition pluginFixedScheduleRequestV1Schema :: "jsval \<Rightarrow> bool" where
  "pluginFixedScheduleRequestV1Schema v \<longleftrightarrow>
     getp v ''apiVersion'' = JStr ''fixed-schedule-request.plugin.enterpriseglue.io/v1'' \<and> brokerCallShape v \<and>
     str_schema namespacedIdentifierSchema (getp v ''jobType'') \<and> opaque_prop v ''idempotencyKey'' \<and>
     (getp v ''action'' = JStr ''upsert'' \<and> strict_keys (''intervalSeconds'' # scheduleCommonKeys) v \<and>
        int_between 60 (31 * 24 * 60 * 60) (getp v ''intervalSeconds'') \<or>
      getp v ''action'' = JStr ''cancel'' \<and> strict_keys scheduleCommonKeys v)"

definition pluginFixedScheduleResponseV1Schema :: "(string \<Rightarrow> bool) \<Rightarrow> jsval \<Rightarrow> bool" where
  "pluginFixedScheduleResponseV1Schema dt v \<longleftrightarrow>
     strict_keys [''apiVersion'', ''jobRef'', ''status'', ''nextRunAt'', ''revision''] v \<and>
     getp v ''apiVersion'' = JStr ''fixed-schedule-result.plugin.enterpriseglue.io/v1'' \<and>
     opaque_prop v ''jobRef'' \<and> one_of [''scheduled'', ''cancelled'', ''duplicate''] (getp v ''status'') \<and>
     optional_schema (str_schema dt) (getp v ''nextRunAt'') \<and> positive_int (getp v ''revision'')"

end
