(* ===== verification/Host_Broker.thy ===== *)
theory Host_Broker
  imports Broker_Schemas
begin

text \<open>
  The host broker (\<open>packages/plugin-runtime/src/hostBroker.ts\<close>): the calls a plugin backend may make
  on the host under its invocation token. A call threads one state: the replay store's and the
  state of the stores, loaders and publishers the host passes in, which are arguments.
\<close>

section \<open>Results\<close>

datatype broker_code =
    RequestInvalid | PluginUnavailable | BrokerPermissionDenied | InvocationInvalid | InvocationReplayed
  | TenantRequired | DeploymentMismatch | ResourceDenied | ResourceNotFound | StorageValueInvalid
  | StorageValueTooLarge | StorageRevisionConflict | StorageQuotaExceeded | StorageUnavailable
  | NotificationUnavailable | ScheduleNotDeclared | ScheduleIntervalDenied | ScheduleUnavailable

text \<open>\<open>HostBrokerErrorV1\<close>, or any other error: of a schema or of a callback.\<close>

datatype broker_error = BrokerError int broker_code | SchemaError | CallbackError

type_synonym ('s, 'a) broker = "'s \<Rightarrow> (broker_error + 'a) \<times> 's"

definition broker_bind :: "('s, 'a) broker \<Rightarrow> ('a \<Rightarrow> ('s, 'b) broker) \<Rightarrow> ('s, 'b) broker" where
  "broker_bind m f s = (case m s of (Inl e, s') \<Rightarrow> (Inl e, s') | (Inr x, s') \<Rightarrow> f x s')"

definition broker_throw :: "int \<Rightarrow> broker_code \<Rightarrow> ('s, 'a) broker" where
  "broker_throw status code s = (Inl (BrokerError status code), s)"

definition broker_return :: "'a \<Rightarrow> ('s, 'a) broker" where
  "broker_return x s = (Inr x, s)"

text \<open>\<open>schema.parse(v)\<close>\<close>

definition broker_parse :: "(jsval \<Rightarrow> bool) \<Rightarrow> jsval \<Rightarrow> ('s, jsval) broker" where
  "broker_parse schema v s = (if schema v then Inr v else Inl SchemaError, s)"

text \<open>\<open>catch (error) { if (error instanceof HostBrokerErrorV1) throw error; throw new ... }\<close>\<close>

fun is_broker_error :: "broker_error \<Rightarrow> bool" where
  "is_broker_error (BrokerError status code) = True"
| "is_broker_error e = False"

definition broker_rescue :: "int \<Rightarrow> broker_code \<Rightarrow> ('s, 'a) broker \<Rightarrow> ('s, 'a) broker" where
  "broker_rescue status code m s =
     (case m s of
        (Inl e, s') \<Rightarrow> (Inl (if is_broker_error e then e else BrokerError status code), s')
      | (Inr x, s') \<Rightarrow> (Inr x, s'))"

lemma broker_bind_Inr:
  "broker_bind m f s = (Inr y, s'') \<longleftrightarrow> (\<exists>x s'. m s = (Inr x, s') \<and> f x s' = (Inr y, s''))"
  by (auto simp: broker_bind_def split: prod.splits sum.splits)

lemma broker_rescue_Inr: "broker_rescue st code m s = (Inr x, s') \<longleftrightarrow> m s = (Inr x, s')"
  by (auto simp: broker_rescue_def split: prod.splits sum.splits)

lemma broker_parse_Inr: "broker_parse schema v s = (Inr x, s') \<longleftrightarrow> schema v \<and> x = v \<and> s' = s"
  by (auto simp: broker_parse_def)

lemma broker_throw_Inr: "broker_throw st code s \<noteq> (Inr x, s')"
  by (simp add: broker_throw_def)

lemmas broker_simps = broker_bind_Inr broker_rescue_Inr broker_parse_Inr broker_throw_Inr broker_return_def

section \<open>Verification of an invocation\<close>

text \<open>
  What the broker calls share: the plugin record, the token, the replay store's \<open>consume\<close> (the route
  builds it for the call id) and the lifecycle check.
\<close>

record 's broker_input =
  bi_pluginId :: string
  bi_manifest :: manifest
  bi_grantedPermissions :: "string list"
  bi_invocationToken :: string
  bi_expectedDeploymentRef :: string
  bi_now :: int
  bi_consume :: "string \<Rightarrow> int \<Rightarrow> 's \<Rightarrow> bool \<times> 's"
  bi_isExecutionAllowed :: "(string option \<Rightarrow> 's \<Rightarrow> bool) option"

definition broker_verification :: "'s broker_input \<Rightarrow> string \<Rightarrow> verification_input" where
  "broker_verification input operationId =
     \<lparr>vi_token = bi_invocationToken input, vi_expectedAudience = bi_pluginId input,
      vi_expectedOperationId = operationId, vi_now = bi_now input, vi_clockSkewSeconds = None,
      vi_maximumLifetimeSeconds = Some 60\<rparr>"

definition operation_permitted :: "'s broker_input \<Rightarrow> string \<Rightarrow> string \<Rightarrow> bool" where
  "operation_permitted input operationId permission \<longleftrightarrow>
     (case findOperation (bi_manifest input) operationId of
        None \<Rightarrow> False
      | Some operation \<Rightarrow> permission \<in> set (op_requiredPermissions operation)) \<and>
     permission \<in> set (permissionSet (bi_manifest input)) \<and>
     permission \<in> set (bi_grantedPermissions input)"

definition verifyBrokerInvocationV1 ::
  "token_lib \<Rightarrow> 's broker_input \<Rightarrow> string \<Rightarrow> string \<Rightarrow> bool \<Rightarrow> ('s, invocation_claims) broker" where
  "verifyBrokerInvocationV1 t input operationId permission tenantRequired s =
     (if \<not> operation_permitted input operationId permission then (Inl (BrokerError 403 BrokerPermissionDenied), s)
      else case verifyPluginInvocationV1 t (bi_consume input) (broker_verification input operationId) s of
        (Inl e, s') \<Rightarrow>
          (Inl (BrokerError 401 (if e = TokenReplayed then InvocationReplayed else InvocationInvalid)), s')
      | (Inr claims, s') \<Rightarrow>
          (if permission \<notin> set (ic_grantedPermissions claims) then Inl (BrokerError 403 BrokerPermissionDenied)
           else if ic_deploymentRef claims \<noteq> bi_expectedDeploymentRef input
           then Inl (BrokerError 403 DeploymentMismatch)
           else if tenantRequired \<and> \<not> truthy_str (ic_tenantRef claims) then Inl (BrokerError 403 TenantRequired)
           else if (case bi_isExecutionAllowed input of None \<Rightarrow> False | Some allowed \<Rightarrow> \<not> allowed (ic_tenantRef claims) s')
           then Inl (BrokerError 404 PluginUnavailable)
           else Inr claims, s'))"

text \<open>What holds of the claims a broker call goes on with.\<close>

definition claims_authorized ::
  "token_lib \<Rightarrow> 's broker_input \<Rightarrow> string \<Rightarrow> string \<Rightarrow> bool \<Rightarrow> 's \<Rightarrow> invocation_claims \<Rightarrow> 's \<Rightarrow> bool" where
  "claims_authorized t input operationId permission tenantRequired s claims s' \<longleftrightarrow>
     operation_permitted input operationId permission \<and>
     read_claims t (bi_invocationToken input) = Inr claims \<and>
     ic_aud claims = bi_pluginId input \<and> ic_operationId claims = operationId \<and>
     bi_now input - 5 \<le> ic_exp claims \<and> ic_iat claims \<le> bi_now input + 5 \<and> ic_exp claims - ic_iat claims \<le> 60 \<and>
     bi_consume input (ic_jti claims) (ic_exp claims) s = (True, s') \<and>
     permission \<in> set (ic_grantedPermissions claims) \<and>
     ic_deploymentRef claims = bi_expectedDeploymentRef input \<and>
     (tenantRequired \<longrightarrow> truthy_str (ic_tenantRef claims)) \<and>
     (\<forall>allowed. bi_isExecutionAllowed input = Some allowed \<longrightarrow> allowed (ic_tenantRef claims) s')"

lemma broker_check:
  "check_claims (broker_verification input operationId) claims = Inr claims \<longleftrightarrow>
     ic_aud claims = bi_pluginId input \<and> ic_operationId claims = operationId \<and>
     bi_now input - 5 \<le> ic_exp claims \<and> ic_iat claims \<le> bi_now input + 5 \<and> ic_exp claims - ic_iat claims \<le> 60"
  by (simp add: check_claims_ok broker_verification_def skew_of_def lifetime_of_def)

lemma verify_broker_iff:
  "verifyBrokerInvocationV1 t input operationId permission tenantRequired s = (Inr claims, s') \<longleftrightarrow>
     claims_authorized t input operationId permission tenantRequired s claims s'"
proof (cases "operation_permitted input operationId permission")
  case False
  then show ?thesis by (simp add: verifyBrokerInvocationV1_def claims_authorized_def)
next
  case True
  obtain r s1 where run: "verifyPluginInvocationV1 t (bi_consume input) (broker_verification input operationId) s = (r, s1)"
    by fastforce
  have token: "vi_token (broker_verification input operationId) = bi_invocationToken input"
    by (simp add: broker_verification_def)
  show ?thesis
  proof (cases r)
    case (Inl e)
    have "\<not> claims_authorized t input operationId permission tenantRequired s claims s'"
    proof
      assume "claims_authorized t input operationId permission tenantRequired s claims s'"
      then have "verifyPluginInvocationV1 t (bi_consume input) (broker_verification input operationId) s = (Inr claims, s')"
        unfolding verify_result broker_check token by (simp add: claims_authorized_def)
      with run Inl show False by simp
    qed
    with True run Inl show ?thesis by (simp add: verifyBrokerInvocationV1_def)
  next
    case (Inr c)
    from run Inr have ok: "read_claims t (bi_invocationToken input) = Inr c"
        "check_claims (broker_verification input operationId) c = Inr c"
        "bi_consume input (ic_jti c) (ic_exp c) s = (True, s1)"
      using token by (simp_all add: verify_result)
    note ok' = ok(1,3) ok(2) [unfolded broker_check]
    show ?thesis
      using True run Inr ok'
      by (auto simp: verifyBrokerInvocationV1_def claims_authorized_def split: option.splits if_splits)
  qed
qed

section \<open>The broker calls\<close>

definition resource_refs :: "invocation_claims \<Rightarrow> resource_ref list" where
  "resource_refs claims = (case ic_resourceRefs claims of None \<Rightarrow> [] | Some rs \<Rightarrow> rs)"

definition has_ref :: "invocation_claims \<Rightarrow> string \<Rightarrow> string \<Rightarrow> bool" where
  "has_ref claims kind ref \<longleftrightarrow>
     list_ex (\<lambda>reference. resource_kind_str (rr_kind reference) = kind \<and> rr_ref reference = ref) (resource_refs claims)"

definition executePluginIdentityBrokerV1 :: "token_lib \<Rightarrow> 's broker_input \<Rightarrow> jsval \<Rightarrow> ('s, jsval) broker" where
  "executePluginIdentityBrokerV1 t input request =
     (if \<not> pluginIdentityRequestV1Schema request then broker_throw 400 RequestInvalid
      else broker_bind
        (verifyBrokerInvocationV1 t input (prop_str request ''operationId'') ''host.identity.read_safe'' False)
        (\<lambda>claims. broker_parse pluginIdentityResponseV1Schema (JObj
          [(''apiVersion'', JStr ''identity.plugin.enterpriseglue.io/v1''), (''subjectRef'', JStr (ic_sub claims)),
           (''tenantRef'', opt_str (ic_tenantRef claims)), (''deploymentRef'', JStr (ic_deploymentRef claims)),
           (''grantedPermissions'', JArr (map JStr (ic_grantedPermissions claims)))])))"

definition resource_target :: "jsval \<Rightarrow> string" where
  "resource_target request =
     (if getp request ''kind'' = JStr ''incident'' then prop_str request ''incidentRef''
      else if getp request ''kind'' = JStr ''failed_job'' then prop_str request ''jobRef''
      else if getp request ''kind'' = JStr ''process_instance'' then prop_str request ''processInstanceRef''
      else prop_str request ''engineRef'')"

definition resourceBoundToInvocation :: "jsval \<Rightarrow> invocation_claims \<Rightarrow> bool" where
  "resourceBoundToInvocation request claims \<longleftrightarrow>
     has_ref claims ''engine'' (prop_str request ''engineRef'') \<or>
     has_ref claims (prop_str request ''kind'') (resource_target request)"

text \<open>The loader answers \<open>undefined\<close> as \<open>JUndef\<close>.\<close>

definition executePluginResourceBrokerV1 ::
  "(string \<Rightarrow> bool) \<Rightarrow> token_lib \<Rightarrow> 's broker_input \<Rightarrow> (jsval \<Rightarrow> invocation_claims \<Rightarrow> ('s, jsval) broker) \<Rightarrow> jsval \<Rightarrow>
    ('s, jsval) broker" where
  "executePluginResourceBrokerV1 dt t input load request =
     (if \<not> pluginResourceMetadataRequestV1Schema request then broker_throw 400 RequestInvalid
      else broker_bind
        (verifyBrokerInvocationV1 t input (prop_str request ''operationId'')
          (permissionForResourceKindV1 (prop_str request ''kind'')) True)
        (\<lambda>claims.
          if \<not> resourceBoundToInvocation request claims then broker_throw 403 ResourceDenied
          else broker_bind (load request claims) (\<lambda>result.
            if \<not> truthy result then broker_throw 404 ResourceNotFound
            else if \<not> pluginResourceMetadataResponseV1Schema dt result \<or>
                    getp result ''kind'' \<noteq> getp request ''kind'' \<or>
                    getp result ''engineRef'' \<noteq> getp request ''engineRef''
            then broker_throw 503 PluginUnavailable
            else broker_return result)))"

definition executePluginReadableEngineAccessBrokerV1 ::
  "token_lib \<Rightarrow> 's broker_input \<Rightarrow> (jsval \<Rightarrow> invocation_claims \<Rightarrow> ('s, jsval) broker) \<Rightarrow> jsval \<Rightarrow> ('s, jsval) broker" where
  "executePluginReadableEngineAccessBrokerV1 t input listing raw =
     (case pluginReadableEngineAccessRequestV1Schema raw of
        None \<Rightarrow> broker_throw 400 RequestInvalid
      | Some request \<Rightarrow> broker_bind
          (verifyBrokerInvocationV1 t input (prop_str request ''operationId'') ''host.engine.access.list_safe'' True)
          (\<lambda>claims. broker_rescue 503 PluginUnavailable
            (broker_bind (listing request claims) (broker_parse pluginReadableEngineAccessResponseV1Schema))))"

subsection \<open>Storage\<close>

text \<open>
  \<open>JSON.stringify(v)\<close>. Numbers from 10^21 on, which JavaScript prints with an exponent, are \<open>JNonInt\<close>
  with their text here.
\<close>

function json_text :: "jsval \<Rightarrow> string" where
  "json_text JUndef = ''null''"
| "json_text JNull = ''null''"
| "json_text (JBool b) = (if b then ''true'' else ''false'')"
| "json_text (JInt i) = show_int i"
| "json_text (JNonInt s) = json_number s"
| "json_text (JStr s) = json_string s"
| "json_text (JArr vs) = ''['' @ join '','' (map json_text vs) @ '']''"
| "json_text (JObj kvs) =
     ''{'' @ join '','' (map (\<lambda>(k, v). json_string k @ '':'' @ json_text v) (filter (\<lambda>(k, v). v \<noteq> JUndef) kvs)) @ ''}''"
  by pat_completeness auto

lemma size_in_props: "(k, v) \<in> set kvs \<Longrightarrow> size v < size (JObj kvs)"
  by (induction kvs) auto

termination json_text
  by (relation "measure size") (auto dest: size_in_list size_in_props simp del: jsval.size)

definition stringify :: "jsval \<Rightarrow> string option" where
  "stringify v = (if v = JUndef then None else Some (json_text v))"

text \<open>\<open>Buffer.byteLength(s, 'utf8')\<close>\<close>

definition byteLength :: "string \<Rightarrow> nat" where
  "byteLength s = sum_list (map (\<lambda>c. if (of_char c :: nat) < 128 then 1 else 2) s)"

definition MAX_STORAGE_VALUE_BYTES :: nat where
  "MAX_STORAGE_VALUE_BYTES = 64 * 1024"

definition assertJsonStorageValue :: "jsval \<Rightarrow> ('s, unit) broker" where
  "assertJsonStorageValue v =
     (case stringify v of
        None \<Rightarrow> broker_throw 400 StorageValueInvalid
      | Some serialized \<Rightarrow>
          if byteLength serialized > MAX_STORAGE_VALUE_BYTES then broker_throw 413 StorageValueTooLarge
          else broker_return ())"

text \<open>The owner of a stored value, which the host adds to the request.\<close>

record storage_owner =
  so_pluginId :: string
  so_deploymentRef :: string
  so_tenantRef :: "string option"

definition executePluginStorageBrokerV1 ::
  "token_lib \<Rightarrow> 's broker_input \<Rightarrow> (jsval \<Rightarrow> storage_owner \<Rightarrow> ('s, jsval) broker) \<Rightarrow> jsval \<Rightarrow> ('s, jsval) broker" where
  "executePluginStorageBrokerV1 t input store request =
     (if \<not> pluginStorageRequestV1Schema request then broker_throw 400 RequestInvalid
      else
        let tenantScope = (getp request ''scope'' = JStr ''tenant'')
        in broker_bind
          (verifyBrokerInvocationV1 t input (prop_str request ''operationId'')
            (if tenantScope then ''host.plugin_storage.tenant'' else ''host.plugin_storage.deployment'') tenantScope)
          (\<lambda>claims. broker_bind
            (if getp request ''action'' = JStr ''put'' then assertJsonStorageValue (getp request ''value'')
             else broker_return ())
            (\<lambda>_. broker_rescue 503 StorageUnavailable
              (broker_bind
                (store request
                  \<lparr>so_pluginId = bi_pluginId input, so_deploymentRef = ic_deploymentRef claims,
                   so_tenantRef = (if tenantScope then ic_tenantRef claims else None)\<rparr>)
                (broker_parse pluginStorageResponseV1Schema)))))"

subsection \<open>Diagnostics\<close>

definition spread :: "jsval \<Rightarrow> (string \<times> jsval) list \<Rightarrow> (string \<times> jsval) list" where
  "spread v kvs = (case v of JObj ps \<Rightarrow> fold (\<lambda>(k, x). put k x) ps kvs | _ \<Rightarrow> kvs)"

definition diagnosticResponse :: "jsval \<Rightarrow> jsval \<Rightarrow> ('s, jsval) broker" where
  "diagnosticResponse result evidenceLevel =
     broker_parse pluginDiagnosticCollectionResponseV1Schema
       (JObj (put ''evidenceLevel'' evidenceLevel (put ''rawUploadPermitted'' (JBool False)
         (spread result [(''apiVersion'', JStr ''diagnostic-collection-result.plugin.enterpriseglue.io/v1'')]))))"

definition diagnosticCollectorStatusResponse :: "(string \<Rightarrow> bool) \<Rightarrow> jsval \<Rightarrow> ('s, jsval) broker" where
  "diagnosticCollectorStatusResponse dt result =
     broker_parse (pluginDiagnosticCollectorStatusResponseV1Schema dt)
       (JObj (put ''browserEditable'' (JBool False) (put ''rawUploadPermitted'' (JBool False)
         (spread result [(''apiVersion'', JStr ''diagnostic-collector-status.plugin.enterpriseglue.io/v1'')]))))"

definition diagnosticBoundToInvocation :: "jsval \<Rightarrow> invocation_claims \<Rightarrow> bool" where
  "diagnosticBoundToInvocation request claims =
     (let trigger = getp request ''trigger''
      in if has_ref claims ''engine'' (prop_str request ''engineRef'') then True
         else if getp trigger ''kind'' = JStr ''incident'' then has_ref claims ''incident'' (prop_str trigger ''incidentRef'')
         else if getp trigger ''kind'' = JStr ''failed_job'' then has_ref claims ''failed_job'' (prop_str trigger ''jobRef'')
         else False)"

definition diagnosticIntentRef :: "host \<Rightarrow> string \<Rightarrow> jsval \<Rightarrow> string" where
  "diagnosticIntentRef h pluginId request =
     ''diagnostic-'' @ sha256 h (join [CHR 0x00]
       [pluginId, prop_str request ''engineRef'', prop_str (getp request ''trigger'') ''kind'',
        prop_str request ''idempotencyKey'',
        case as_str (getp request ''consumerContextRef'') of None \<Rightarrow> [] | Some r \<Rightarrow> r])"

text \<open>The answers the host gives without a collector.\<close>

definition diagnosticAnswer :: "host \<Rightarrow> string \<Rightarrow> jsval \<Rightarrow> string \<Rightarrow> string \<Rightarrow> string \<Rightarrow> jsval" where
  "diagnosticAnswer h pluginId request status boundary reason = JObj
     ([(''intentRef'', JStr (diagnosticIntentRef h pluginId request)), (''status'', JStr status),
       (''filteringBoundary'', JStr boundary), (''reasonCode'', JStr reason)] @
      (if truthy (getp request ''consumerContextRef'')
       then [(''consumerContextRef'', getp request ''consumerContextRef'')] else []))"

record 's diagnostic_collector =
  dc_collect :: "string \<Rightarrow> invocation_claims \<Rightarrow> jsval \<Rightarrow> ('s, jsval) broker"
  dc_status :: "(string \<Rightarrow> invocation_claims \<Rightarrow> ('s, jsval) broker) option"

definition executePluginDiagnosticCollectionBrokerV1 ::
  "host \<Rightarrow> (string \<Rightarrow> bool) \<Rightarrow> token_lib \<Rightarrow> 's broker_input \<Rightarrow> 's diagnostic_collector option \<Rightarrow> bool \<Rightarrow> jsval \<Rightarrow>
    ('s, jsval) broker" where
  "executePluginDiagnosticCollectionBrokerV1 h dt t input collector allowSanitizedBundleAuto raw =
     (case pluginDiagnosticCollectionRequestV1Schema h dt raw of
        None \<Rightarrow> broker_throw 400 RequestInvalid
      | Some request \<Rightarrow> broker_bind
          (verifyBrokerInvocationV1 t input (prop_str request ''operationId'') ''host.engine.diagnostics.collect_sanitized'' True)
          (\<lambda>claims.
            let answer = diagnosticAnswer h (bi_pluginId input) request; mode = getp request ''mode'';
                evidenceLevel = getp request ''evidenceLevel''
            in if \<not> diagnosticBoundToInvocation request claims then broker_throw 403 ResourceDenied
               else if mode = JStr ''manual'' then
                 diagnosticResponse (answer ''requires_confirmation'' ''not_applicable'' ''confirmation_required'')
                   (JStr ''context_only'')
               else if mode = JStr ''metadata_auto'' then
                 diagnosticResponse (answer ''metadata_ready'' ''not_applicable'' ''metadata_only'') (JStr ''context_only'')
               else if \<not> allowSanitizedBundleAuto then
                 diagnosticResponse (answer ''rejected'' ''enterpriseglue_backend'' ''automatic_collection_disabled'')
                   evidenceLevel
               else case collector of
                 None \<Rightarrow> diagnosticResponse (answer ''rejected'' ''enterpriseglue_backend'' ''collector_unavailable'')
                           evidenceLevel
               | Some c \<Rightarrow> broker_bind (dc_collect c (bi_pluginId input) claims request) (\<lambda>result.
                   if getp result ''filteringBoundary'' = JStr ''not_applicable'' \<or>
                      getp result ''status'' = JStr ''requires_confirmation'' \<or>
                      getp result ''status'' = JStr ''metadata_ready''
                   then broker_throw 503 PluginUnavailable
                   else diagnosticResponse result evidenceLevel)))"

definition collector_state :: "string \<Rightarrow> string \<Rightarrow> string \<Rightarrow> string \<Rightarrow> jsval" where
  "collector_state state reason collectionPermission checkedAt = JObj
     [(''state'', JStr state), (''reasonCode'', JStr reason), (''collectionPermission'', JStr collectionPermission),
      (''sourceClass'', JStr ''none''), (''filteringBoundary'', JStr ''enterpriseglue_backend''),
      (''checkedAt'', JStr checkedAt)]"

text \<open>\<open>checkedAt\<close> is the clock's time in ISO form; the \<open>catch\<close> takes every error.\<close>

definition executePluginDiagnosticCollectorStatusBrokerV1 ::
  "(string \<Rightarrow> bool) \<Rightarrow> token_lib \<Rightarrow> 's broker_input \<Rightarrow> 's diagnostic_collector option \<Rightarrow> string \<Rightarrow> jsval \<Rightarrow>
    ('s, jsval) broker" where
  "executePluginDiagnosticCollectorStatusBrokerV1 dt t input collector checkedAt request =
     (if \<not> pluginDiagnosticCollectorStatusRequestV1Schema request then broker_throw 400 RequestInvalid
      else broker_bind
        (verifyBrokerInvocationV1 t input (prop_str request ''operationId'') ''host.identity.read_safe'' True)
        (\<lambda>claims.
          let permission = (if ''host.engine.diagnostics.collect_sanitized'' \<in> set (bi_grantedPermissions input)
                then ''granted'' else ''not_granted'')
          in case collector of
            None \<Rightarrow> diagnosticCollectorStatusResponse dt
              (collector_state ''disabled'' ''collector_not_configured'' permission checkedAt)
          | Some c \<Rightarrow> (case dc_status c of
              None \<Rightarrow> diagnosticCollectorStatusResponse dt
                (collector_state ''unavailable'' ''collector_status_unsupported'' permission checkedAt)
            | Some status \<Rightarrow> (\<lambda>s.
                case broker_bind (status (bi_pluginId input) claims)
                       (\<lambda>r. diagnosticCollectorStatusResponse dt
                         (JObj (put ''collectionPermission'' (JStr permission) (spread r [])))) s of
                  (Inr x, s') \<Rightarrow> (Inr x, s')
                | (Inl e, s') \<Rightarrow> diagnosticCollectorStatusResponse dt
                    (collector_state ''unavailable'' ''collector_status_unavailable'' permission checkedAt) s'))))"

subsection \<open>Notifications and schedules\<close>

text \<open>The subject a publisher or a schedule store acts for.\<close>

record broker_subject =
  bs_pluginId :: string
  bs_deploymentRef :: string
  bs_tenantRef :: string
  bs_subjectRef :: string

definition broker_subject_of :: "'s broker_input \<Rightarrow> invocation_claims \<Rightarrow> broker_subject" where
  "broker_subject_of input claims =
     \<lparr>bs_pluginId = bi_pluginId input, bs_deploymentRef = ic_deploymentRef claims,
      bs_tenantRef = the (ic_tenantRef claims), bs_subjectRef = ic_sub claims\<rparr>"

definition executePluginNotificationBrokerV1 ::
  "token_lib \<Rightarrow> 's broker_input \<Rightarrow> (broker_subject \<Rightarrow> jsval \<Rightarrow> ('s, jsval) broker) \<Rightarrow> jsval \<Rightarrow> ('s, jsval) broker" where
  "executePluginNotificationBrokerV1 t input publish request =
     (if \<not> pluginNotificationPublishRequestV1Schema request then broker_throw 400 RequestInvalid
      else broker_bind
        (verifyBrokerInvocationV1 t input (prop_str request ''operationId'') ''host.notifications.publish_safe'' True)
        (\<lambda>claims.
          let resource = getp request ''resource''
          in if resource \<noteq> JUndef \<and> \<not> has_ref claims (prop_str resource ''kind'') (prop_str resource ''ref'')
             then broker_throw 403 ResourceDenied
             else broker_rescue 503 NotificationUnavailable
               (broker_bind (publish (broker_subject_of input claims) request)
                 (broker_parse pluginNotificationPublishResponseV1Schema))))"

definition executePluginFixedScheduleBrokerV1 ::
  "(string \<Rightarrow> bool) \<Rightarrow> token_lib \<Rightarrow> 's broker_input \<Rightarrow> (broker_subject \<Rightarrow> fixed_schedule \<Rightarrow> jsval \<Rightarrow> ('s, jsval) broker) \<Rightarrow>
    jsval \<Rightarrow> ('s, jsval) broker" where
  "executePluginFixedScheduleBrokerV1 dt t input execute request =
     (if \<not> pluginFixedScheduleRequestV1Schema request then broker_throw 400 RequestInvalid
      else case find (\<lambda>schedule. JStr (fs_jobType schedule) = getp request ''jobType'') (mf_fixedSchedules (bi_manifest input)) of
        None \<Rightarrow> broker_throw 403 ScheduleNotDeclared
      | Some declaration \<Rightarrow>
          if getp request ''action'' = JStr ''upsert'' \<and>
             the (as_int (getp request ''intervalSeconds'')) \<notin> set (fs_allowedIntervalsSeconds declaration)
          then broker_throw 403 ScheduleIntervalDenied
          else broker_bind
            (verifyBrokerInvocationV1 t input (prop_str request ''operationId'') ''host.jobs.schedule_fixed'' True)
            (\<lambda>claims. broker_rescue 503 ScheduleUnavailable
              (broker_bind (execute (broker_subject_of input claims) declaration request)
                (broker_parse (pluginFixedScheduleResponseV1Schema dt)))))"

end
