(* ===== verification/Schedule_Store.thy ===== *)
theory Schedule_Store
  imports Host_Broker
begin

text \<open>
  The durable store of fixed schedules (\<open>packages/backend-host/src/plugins/pluginScheduleStore.ts\<close>): the
  commands of plugins, the claims of due jobs under a lease, the receipts of their delivery, and
  pausing. Every operation is one database transaction; a thrown error rolls it back. The tables
  are lists keyed by their unique columns.
\<close>

section \<open>Rows\<close>

datatype job_status = JsScheduled | JsDelivering | JsRetryWait | JsPaused | JsCancelled

record job =
  jb_pluginId :: string
  jb_deploymentRef :: string
  jb_tenantRef :: string
  jb_jobType :: string
  jb_operationId :: string
  jb_intervalSeconds :: int
  jb_maxAttempts :: int
  jb_status :: job_status
  jb_revision :: int
  jb_attempt :: int
  jb_nextRunAt :: int
  jb_leaseOwner :: "string option"
  jb_leaseExpiresAt :: "int option"
  jb_reasonCode :: string
  jb_scheduledByRef :: string
  jb_createdAt :: int
  jb_updatedAt :: int

text \<open>A command's row: the hash of its request and the response it got.\<close>

record command_row =
  cm_requestHash :: string
  cm_response :: jsval

record schedule_store =
  ss_jobs :: "(string \<times> job) list"
  ss_commands :: "(string \<times> command_row) list"

datatype schedule_error =
    SchedIntervalDenied | SchedIdempotencyConflict | SchedClaimInvalid | SchedLeaseLost
  | SchedRevisionConflict | SchedStateInvalid | SchedSchemaError | SchedRangeError

text \<open>\<open>integer(value)\<close>\<close>

definition integer :: "int \<Rightarrow> schedule_error + int" where
  "integer i = (if \<bar>i\<bar> > max_safe_integer \<or> i < 0 then Inl SchedStateInvalid else Inr i)"

lemma integer_Inr [simp]: "integer i = Inr j \<longleftrightarrow> j = i \<and> 0 \<le> i \<and> i \<le> max_safe_integer"
  by (auto simp: integer_def)

section \<open>Commands\<close>

definition commandKeyHash :: "host \<Rightarrow> broker_subject \<Rightarrow> jsval \<Rightarrow> string" where
  "commandKeyHash h who request = sha256 h (join [CHR 0x00]
     [bs_pluginId who, bs_deploymentRef who, bs_tenantRef who, prop_str request ''idempotencyKey''])"

definition jobRefOf :: "host \<Rightarrow> broker_subject \<Rightarrow> jsval \<Rightarrow> string" where
  "jobRefOf h who request = ''job-'' @ sha256 h (join [CHR 0x00]
     [bs_pluginId who, bs_deploymentRef who, bs_tenantRef who, prop_str request ''jobType''])"

definition is_upsert :: "jsval \<Rightarrow> bool" where
  "is_upsert request \<longleftrightarrow> getp request ''action'' = JStr ''upsert''"

definition intervalOf :: "jsval \<Rightarrow> int" where
  "intervalOf request = the (as_int (getp request ''intervalSeconds''))"

definition fixedScheduleResponse :: "(string \<Rightarrow> bool) \<Rightarrow> (string \<times> jsval) list \<Rightarrow> schedule_error + jsval" where
  "fixedScheduleResponse dt props =
     (let v = JObj ((''apiVersion'', JStr ''fixed-schedule-result.plugin.enterpriseglue.io/v1'') # props)
      in if pluginFixedScheduleResponseV1Schema dt v then Inr v else Inl SchedSchemaError)"

text \<open>\<open>duplicate\<close>: the stored response with another status.\<close>

definition duplicateResponse :: "(string \<Rightarrow> bool) \<Rightarrow> jsval \<Rightarrow> schedule_error + jsval" where
  "duplicateResponse dt prior =
     (if \<not> pluginFixedScheduleResponseV1Schema dt prior then Inl SchedSchemaError
      else let v = set_prop ''status'' (JStr ''duplicate'') prior
           in if pluginFixedScheduleResponseV1Schema dt v then Inr v else Inl SchedSchemaError)"

definition scheduleResult :: "host \<Rightarrow> (string \<Rightarrow> bool) \<Rightarrow> int \<Rightarrow> string \<Rightarrow> int \<Rightarrow> jsval \<Rightarrow> schedule_error + jsval" where
  "scheduleResult h dt now jobRef revision request =
     (if is_upsert request then
        (case toISOString h (now + intervalOf request * 1000) of
           None \<Rightarrow> Inl SchedRangeError
         | Some at \<Rightarrow> fixedScheduleResponse dt
             [(''jobRef'', JStr jobRef), (''status'', JStr ''scheduled''), (''nextRunAt'', JStr at),
              (''revision'', JInt revision)])
      else fixedScheduleResponse dt
        [(''jobRef'', JStr jobRef), (''status'', JStr ''cancelled''), (''revision'', JInt revision)])"

text \<open>The values a command writes into the job's row.\<close>

definition commandJob :: "int \<Rightarrow> broker_subject \<Rightarrow> fixed_schedule \<Rightarrow> jsval \<Rightarrow> job option \<Rightarrow> int \<Rightarrow> job" where
  "commandJob now who declaration request current revision =
     \<lparr>jb_pluginId = bs_pluginId who, jb_deploymentRef = bs_deploymentRef who, jb_tenantRef = bs_tenantRef who,
      jb_jobType = prop_str request ''jobType'', jb_operationId = fs_deliveryOperationId declaration,
      jb_intervalSeconds = (if is_upsert request then intervalOf request
        else case current of None \<Rightarrow> 0 | Some job \<Rightarrow> jb_intervalSeconds job),
      jb_maxAttempts = fs_maxAttempts declaration,
      jb_status = (if is_upsert request then JsScheduled else JsCancelled), jb_revision = revision, jb_attempt = 0,
      jb_nextRunAt = (if is_upsert request then now + intervalOf request * 1000 else 0),
      jb_leaseOwner = None, jb_leaseExpiresAt = None,
      jb_reasonCode = (if is_upsert request then ''scheduled'' else ''cancelled''),
      jb_scheduledByRef = bs_subjectRef who,
      jb_createdAt = (case current of None \<Rightarrow> now | Some job \<Rightarrow> jb_createdAt job), jb_updatedAt = now\<rparr>"

text \<open>The transaction of \<open>execute\<close>, for a command that has no row yet.\<close>

definition newCommand ::
  "host \<Rightarrow> (string \<Rightarrow> bool) \<Rightarrow> int \<Rightarrow> broker_subject \<Rightarrow> fixed_schedule \<Rightarrow> jsval \<Rightarrow> schedule_store \<Rightarrow>
    schedule_error + (jsval \<times> schedule_store)" where
  "newCommand h dt now who declaration request store =
     (let jobRef = jobRefOf h who request; current = map_of (ss_jobs store) jobRef
      in bind_res (case current of None \<Rightarrow> Inr 1 | Some job \<Rightarrow> bind_res (integer (jb_revision job)) (\<lambda>r. Inr (r + 1)))
        (\<lambda>revision. bind_res (scheduleResult h dt now jobRef revision request) (\<lambda>result.
          Inr (result,
            \<lparr>ss_jobs = put jobRef (commandJob now who declaration request current revision) (ss_jobs store),
             ss_commands = put (commandKeyHash h who request)
               \<lparr>cm_requestHash = sha256 h (json_text request), cm_response = result\<rparr> (ss_commands store)\<rparr>))))"

text \<open>
  \<open>execute\<close>. The \<open>catch\<close> around the transaction answers a command that is recorded meanwhile; in a
  sequence of operations it is the answer the transaction itself gives.
\<close>

definition schedule_execute ::
  "host \<Rightarrow> (string \<Rightarrow> bool) \<Rightarrow> int \<Rightarrow> broker_subject \<Rightarrow> fixed_schedule \<Rightarrow> jsval \<Rightarrow> schedule_store \<Rightarrow>
    schedule_error + (jsval \<times> schedule_store)" where
  "schedule_execute h dt now who declaration request store =
     (if is_upsert request \<and> intervalOf request \<notin> set (fs_allowedIntervalsSeconds declaration)
      then Inl SchedIntervalDenied
      else case map_of (ss_commands store) (commandKeyHash h who request) of
        Some existing \<Rightarrow>
          if cm_requestHash existing \<noteq> sha256 h (json_text request) then Inl SchedIdempotencyConflict
          else bind_res (duplicateResponse dt (cm_response existing)) (\<lambda>v. Inr (v, store))
      | None \<Rightarrow> newCommand h dt now who declaration request store)"

section \<open>Delivery\<close>

definition MAX_RETRY_SECONDS :: int where
  "MAX_RETRY_SECONDS = 3600"

definition retryDelayMs :: "int \<Rightarrow> int" where
  "retryDelayMs attempt = min (2 ^ nat (max 0 (attempt - 1))) MAX_RETRY_SECONDS * 1000"

definition deliveryRef :: "host \<Rightarrow> string \<Rightarrow> int \<Rightarrow> string" where
  "deliveryRef h jobRef scheduledFor = ''scheduled-'' @ sha256 h (jobRef @ [CHR 0x00] @ show_int scheduledFor)"

text \<open>\<open>recoverExpiredLeases\<close>, one row.\<close>

definition lease_expired :: "int \<Rightarrow> job \<Rightarrow> bool" where
  "lease_expired now job \<longleftrightarrow> jb_status job = JsDelivering \<and>
     (case jb_leaseExpiresAt job of None \<Rightarrow> False | Some e \<Rightarrow> e \<le> now)"

definition recovered :: "int \<Rightarrow> job \<Rightarrow> job" where
  "recovered now job =
     (let exhausted = (jb_attempt job \<ge> jb_maxAttempts job)
      in job\<lparr>jb_status := (if exhausted then JsPaused else JsRetryWait), jb_leaseOwner := None, jb_leaseExpiresAt := None,
           jb_nextRunAt := (if exhausted then jb_nextRunAt job else now + retryDelayMs (jb_attempt job)),
           jb_reasonCode := (if exhausted then ''attempts_exhausted'' else ''lease_expired''), jb_updatedAt := now\<rparr>)"

definition recoverExpiredLeases :: "int \<Rightarrow> (string \<times> job) list \<Rightarrow> schedule_error + (string \<times> job) list" where
  "recoverExpiredLeases now jobs =
     map_res (\<lambda>(jobRef, job).
       if lease_expired now job
       then bind_res (integer (jb_attempt job)) (\<lambda>_. bind_res (integer (jb_maxAttempts job)) (\<lambda>_.
         Inr (jobRef, recovered now job)))
       else Inr (jobRef, job)) jobs"

definition scheduleClaimEligible :: "int \<Rightarrow> job \<Rightarrow> bool" where
  "scheduleClaimEligible now job \<longleftrightarrow>
     (jb_status job = JsScheduled \<or> jb_status job = JsRetryWait) \<and> jb_nextRunAt job \<le> now \<and>
     (case jb_leaseExpiresAt job of None \<Rightarrow> True | Some e \<Rightarrow> e \<le> now)"

record claim_input =
  cn_workerRef :: string
  cn_limit :: int
  cn_leaseSeconds :: int

definition claim_input_ok :: "claim_input \<Rightarrow> bool" where
  "claim_input_ok input \<longleftrightarrow> opaque_id 1 256 (cn_workerRef input) \<and> 1 \<le> cn_limit input \<and> cn_limit input \<le> 100 \<and>
     1 \<le> cn_leaseSeconds input \<and> cn_leaseSeconds input \<le> 300"

record claimed_job =
  cj_jobRef :: string
  cj_pluginId :: string
  cj_deploymentRef :: string
  cj_tenantRef :: string
  cj_operationId :: string
  cj_attempt :: int
  cj_maxAttempts :: int
  cj_leaseOwner :: string
  cj_scheduledFor :: int
  cj_request :: jsval

definition pluginScheduledJobDeliveryV1Schema :: "(string \<Rightarrow> bool) \<Rightarrow> jsval \<Rightarrow> bool" where
  "pluginScheduledJobDeliveryV1Schema dt v \<longleftrightarrow>
     strict_keys [''apiVersion'', ''deliveryId'', ''jobRef'', ''jobType'', ''operationId'', ''scheduledFor'', ''attempt''] v \<and>
     getp v ''apiVersion'' = JStr ''scheduled-job-delivery.plugin.enterpriseglue.io/v1'' \<and>
     opaque_prop v ''deliveryId'' \<and> opaque_prop v ''jobRef'' \<and>
     str_schema namespacedIdentifierSchema (getp v ''jobType'') \<and>
     str_schema namespacedIdentifierSchema (getp v ''operationId'') \<and>
     str_schema dt (getp v ''scheduledFor'') \<and> int_between 1 100 (getp v ''attempt'')"

definition claimed_row :: "int \<Rightarrow> claim_input \<Rightarrow> job \<Rightarrow> job" where
  "claimed_row now input job =
     job\<lparr>jb_status := JsDelivering, jb_attempt := jb_attempt job + 1, jb_leaseOwner := Some (cn_workerRef input),
         jb_leaseExpiresAt := Some (now + cn_leaseSeconds input * 1000), jb_reasonCode := ''delivering'',
         jb_updatedAt := now\<rparr>"

text \<open>The delivery of one claimed row; the schema or a time out of range may throw.\<close>

definition claimed_delivery ::
  "host \<Rightarrow> (string \<Rightarrow> bool) \<Rightarrow> claim_input \<Rightarrow> string \<times> job \<Rightarrow> schedule_error + claimed_job" where
  "claimed_delivery h dt input = (\<lambda>(jobRef, job).
     bind_res (integer (jb_attempt job)) (\<lambda>_. bind_res (integer (jb_maxAttempts job)) (\<lambda>_.
     bind_res (integer (jb_nextRunAt job)) (\<lambda>_.
     case toISOString h (jb_nextRunAt job) of
       None \<Rightarrow> Inl SchedRangeError
     | Some at \<Rightarrow>
         (let request = JObj [(''apiVersion'', JStr ''scheduled-job-delivery.plugin.enterpriseglue.io/v1''),
                (''deliveryId'', JStr (deliveryRef h jobRef (jb_nextRunAt job))), (''jobRef'', JStr jobRef),
                (''jobType'', JStr (jb_jobType job)), (''operationId'', JStr (jb_operationId job)),
                (''scheduledFor'', JStr at), (''attempt'', JInt (jb_attempt job + 1))]
          in if \<not> pluginScheduledJobDeliveryV1Schema dt request then Inl SchedSchemaError
             else Inr \<lparr>cj_jobRef = jobRef, cj_pluginId = jb_pluginId job, cj_deploymentRef = jb_deploymentRef job,
                    cj_tenantRef = jb_tenantRef job, cj_operationId = jb_operationId job,
                    cj_attempt = jb_attempt job + 1, cj_maxAttempts = jb_maxAttempts job,
                    cj_leaseOwner = cn_workerRef input, cj_scheduledFor = jb_nextRunAt job,
                    cj_request = request\<rparr>)))))"

text \<open>
  \<open>claimDue\<close> with the query of the databases that lock rows in it: the due rows by time, then by
  creation, at most \<open>limit\<close> of them.
\<close>

definition due_jobs :: "int \<Rightarrow> claim_input \<Rightarrow> (string \<times> job) list \<Rightarrow> (string \<times> job) list" where
  "due_jobs now input jobs =
     take (nat (cn_limit input))
       (sort_key (\<lambda>(jobRef, job). jb_nextRunAt job) (sort_key (\<lambda>(jobRef, job). jb_createdAt job)
         (filter (\<lambda>(jobRef, job). scheduleClaimEligible now job) jobs)))"

definition claimDue ::
  "host \<Rightarrow> (string \<Rightarrow> bool) \<Rightarrow> int \<Rightarrow> claim_input \<Rightarrow> schedule_store \<Rightarrow>
    schedule_error + (claimed_job list \<times> schedule_store)" where
  "claimDue h dt now input store =
     (if \<not> claim_input_ok input then Inl SchedClaimInvalid
      else bind_res (recoverExpiredLeases now (ss_jobs store)) (\<lambda>jobs.
        bind_res (map_res (claimed_delivery h dt input) (due_jobs now input jobs)) (\<lambda>claimed.
          Inr (claimed,
            store\<lparr>ss_jobs := fold (\<lambda>(jobRef, job). put jobRef (claimed_row now input job)) (due_jobs now input jobs) jobs\<rparr>))))"

datatype receipt_status = RcAccepted | RcDuplicate | RcRetryableRejected | RcPermanentRejected

record schedule_receipt =
  rc_deliveryId :: string
  rc_status :: receipt_status
  rc_reasonCode :: string

definition receipt_ok :: "schedule_receipt \<Rightarrow> bool" where
  "receipt_ok receipt \<longleftrightarrow> opaqueReferenceSchema (rc_deliveryId receipt) \<and> reasonCodeSchema (rc_reasonCode receipt)"

text \<open>The row \<open>complete\<close> writes.\<close>

definition completed_row :: "int \<Rightarrow> schedule_receipt \<Rightarrow> job \<Rightarrow> job" where
  "completed_row now receipt job =
     (let accepted = (rc_status receipt = RcAccepted \<or> rc_status receipt = RcDuplicate);
          exhausted = (jb_attempt job \<ge> jb_maxAttempts job);
          paused = (rc_status receipt = RcPermanentRejected \<or> (\<not> accepted \<and> exhausted));
          status = (if accepted then JsScheduled else if paused then JsPaused else JsRetryWait);
          nextRunAt = (if accepted then now + jb_intervalSeconds job * 1000
            else if status = JsRetryWait then now + retryDelayMs (jb_attempt job) else jb_nextRunAt job)
      in job\<lparr>jb_status := status, jb_revision := jb_revision job + 1,
           jb_attempt := (if accepted then 0 else jb_attempt job), jb_nextRunAt := nextRunAt,
           jb_leaseOwner := None, jb_leaseExpiresAt := None, jb_reasonCode := rc_reasonCode receipt,
           jb_updatedAt := now\<rparr>)"

definition integers_ok :: "int list \<Rightarrow> bool" where
  "integers_ok is = list_all (\<lambda>i. is_ok (integer i)) is"

text \<open>The numbers of a row's summary.\<close>

definition summary_integers :: "job \<Rightarrow> int list" where
  "summary_integers job = [jb_revision job, jb_attempt job, jb_maxAttempts job, jb_nextRunAt job, jb_updatedAt job]"

text \<open>
  \<open>complete\<close>. The numbers it reads, and those of the row's summary, which it returns, go through
  \<open>integer\<close>; a failure rolls the transaction back.
\<close>

definition schedule_complete ::
  "host \<Rightarrow> int \<Rightarrow> string \<Rightarrow> string \<Rightarrow> schedule_receipt \<Rightarrow> schedule_store \<Rightarrow> schedule_error + (job \<times> schedule_store)" where
  "schedule_complete h now jobRef leaseOwner receipt store =
     (if \<not> receipt_ok receipt then Inl SchedSchemaError
      else case map_of (ss_jobs store) jobRef of
        None \<Rightarrow> Inl SchedLeaseLost
      | Some job \<Rightarrow>
          if jb_status job \<noteq> JsDelivering \<or> jb_leaseOwner job \<noteq> Some leaseOwner then Inl SchedLeaseLost
          else bind_res (integer (case jb_leaseExpiresAt job of None \<Rightarrow> 0 | Some e \<Rightarrow> e)) (\<lambda>expires.
            if expires \<le> now \<or> rc_deliveryId receipt \<noteq> deliveryRef h jobRef (jb_nextRunAt job) then Inl SchedLeaseLost
            else if \<not> integers_ok ([jb_attempt job, jb_maxAttempts job, jb_revision job] @
                     (if rc_status receipt = RcAccepted \<or> rc_status receipt = RcDuplicate
                      then [jb_intervalSeconds job] else []) @ summary_integers (completed_row now receipt job))
            then Inl SchedStateInvalid
            else Inr (completed_row now receipt job,
              store\<lparr>ss_jobs := put jobRef (completed_row now receipt job) (ss_jobs store)\<rparr>)))"

record pause_input =
  pa_jobRef :: string
  pa_paused :: bool
  pa_expectedRevision :: int
  pa_reasonCode :: string

definition paused_row :: "int \<Rightarrow> pause_input \<Rightarrow> job \<Rightarrow> job" where
  "paused_row now input job =
     job\<lparr>jb_status := (if pa_paused input then JsPaused else JsScheduled), jb_revision := jb_revision job + 1,
         jb_attempt := (if pa_paused input then jb_attempt job else 0),
         jb_nextRunAt := (if pa_paused input then jb_nextRunAt job else now + jb_intervalSeconds job * 1000),
         jb_leaseOwner := None, jb_leaseExpiresAt := None, jb_reasonCode := pa_reasonCode input, jb_updatedAt := now\<rparr>"

definition setPaused :: "int \<Rightarrow> pause_input \<Rightarrow> schedule_store \<Rightarrow> schedule_error + (job \<times> schedule_store)" where
  "setPaused now input store =
     (case map_of (ss_jobs store) (pa_jobRef input) of
        None \<Rightarrow> Inl SchedRevisionConflict
      | Some job \<Rightarrow>
          if jb_status job = JsCancelled then Inl SchedRevisionConflict
          else bind_res (integer (jb_revision job)) (\<lambda>revision.
            if revision \<noteq> pa_expectedRevision input then Inl SchedRevisionConflict
            else if \<not> integers_ok ((if pa_paused input then [jb_nextRunAt job] else [jb_intervalSeconds job]) @
                     summary_integers (paused_row now input job))
            then Inl SchedStateInvalid
            else Inr (paused_row now input job,
              store\<lparr>ss_jobs := put (pa_jobRef input) (paused_row now input job) (ss_jobs store)\<rparr>)))"

end
