(* ===== verification/Schedule_Invariant.thy ===== *)
theory Schedule_Invariant
  imports Schedule_Store
begin

text \<open>
  Runs of the schedule store: steps at times that do not decrease, with the list of all claims and
  of all accepted receipts. Every delivery is claimed once and completed at most once, and no
  claim goes beyond the attempts a job has.
\<close>

section \<open>Runs\<close>

text \<open>A delivery is named by its job and the time it was scheduled for, as \<open>deliveryRef\<close> does.\<close>

record schedule_world =
  sw_store :: schedule_store
  sw_clock :: int
  sw_claimed :: "(string \<times> int) list"
  sw_completed :: "(string \<times> int) list"

definition schedule_start :: "int \<Rightarrow> schedule_world" where
  "schedule_start now = \<lparr>sw_store = \<lparr>ss_jobs = [], ss_commands = []\<rparr>, sw_clock = now, sw_claimed = [], sw_completed = []\<rparr>"

inductive schedule_step :: "host \<Rightarrow> (string \<Rightarrow> bool) \<Rightarrow> schedule_world \<Rightarrow> schedule_world \<Rightarrow> bool"
  for h :: host and dt :: "string \<Rightarrow> bool" where
  step_execute:
    "sw_clock w \<le> now \<Longrightarrow> pluginFixedScheduleRequestV1Schema request \<Longrightarrow> 1 \<le> fs_maxAttempts declaration \<Longrightarrow>
     schedule_execute h dt now who declaration request (sw_store w) = Inr (response, store) \<Longrightarrow>
     schedule_step h dt w (w\<lparr>sw_store := store, sw_clock := now\<rparr>)"
| step_claim:
    "sw_clock w \<le> now \<Longrightarrow> claimDue h dt now input (sw_store w) = Inr (jobs, store) \<Longrightarrow>
     schedule_step h dt w (w\<lparr>sw_store := store, sw_clock := now,
       sw_claimed := sw_claimed w @ map (\<lambda>j. (cj_jobRef j, cj_scheduledFor j)) jobs\<rparr>)"
| step_complete:
    "sw_clock w \<le> now \<Longrightarrow> map_of (ss_jobs (sw_store w)) jobRef = Some job \<Longrightarrow>
     schedule_complete h now jobRef owner receipt (sw_store w) = Inr (row, store) \<Longrightarrow>
     schedule_step h dt w (w\<lparr>sw_store := store, sw_clock := now,
       sw_completed := sw_completed w @ [(jobRef, jb_nextRunAt job)]\<rparr>)"
| step_pause:
    "sw_clock w \<le> now \<Longrightarrow> setPaused now pinput (sw_store w) = Inr (row, store) \<Longrightarrow>
     schedule_step h dt w (w\<lparr>sw_store := store, sw_clock := now\<rparr>)"
| step_time: "sw_clock w \<le> now \<Longrightarrow> schedule_step h dt w (w\<lparr>sw_clock := now\<rparr>)"

abbreviation schedule_reachable :: "host \<Rightarrow> (string \<Rightarrow> bool) \<Rightarrow> schedule_world \<Rightarrow> bool" where
  "schedule_reachable h dt w \<equiv> \<exists>now. (schedule_step h dt)\<^sup>*\<^sup>* (schedule_start now) w"

section \<open>The retry delay\<close>

lemma retryDelay_bounds: "1000 \<le> retryDelayMs attempt \<and> retryDelayMs attempt \<le> 3600000"
  by (auto simp: retryDelayMs_def MAX_RETRY_SECONDS_def min_def)

lemma retryDelay_mono: "a \<le> b \<Longrightarrow> retryDelayMs a \<le> retryDelayMs b"
proof -
  assume "a \<le> b"
  then have "(2::int) ^ nat (max 0 (a - 1)) \<le> 2 ^ nat (max 0 (b - 1))"
    by (intro power_increasing) (auto simp: nat_le_iff)
  then show ?thesis unfolding retryDelayMs_def by (intro mult_right_mono min.mono) simp_all
qed

section \<open>The invariant of a row\<close>

text \<open>The attempts and the interval of a job.\<close>

definition job_ok :: "job \<Rightarrow> bool" where
  "job_ok job \<longleftrightarrow> 1 \<le> jb_maxAttempts job \<and> 0 \<le> jb_attempt job \<and> jb_attempt job \<le> jb_maxAttempts job \<and>
     (jb_status job = JsScheduled \<or> jb_status job = JsRetryWait \<longrightarrow> jb_attempt job < jb_maxAttempts job) \<and>
     (jb_status job = JsDelivering \<longrightarrow> 1 \<le> jb_attempt job) \<and>
     (jb_status job \<noteq> JsCancelled \<longrightarrow> 0 < jb_intervalSeconds job) \<and>
     (jb_status job = JsDelivering \<longleftrightarrow> jb_leaseOwner job \<noteq> None) \<and>
     (jb_leaseOwner job = None \<longleftrightarrow> jb_leaseExpiresAt job = None)"

text \<open>
  The place of a delivery \<open>n\<close> of the job among its deliveries: claimed before, or the one that is
  running, or the one a pause ended.
\<close>

definition claimed_before :: "job \<Rightarrow> int \<Rightarrow> bool" where
  "claimed_before job n \<longleftrightarrow> jb_status job = JsCancelled \<or> n < jb_nextRunAt job \<or>
     n = jb_nextRunAt job \<and> (jb_status job = JsDelivering \<or> jb_status job = JsPaused)"

definition completed_before :: "job \<Rightarrow> int \<Rightarrow> bool" where
  "completed_before job n \<longleftrightarrow> jb_status job = JsCancelled \<or> n < jb_nextRunAt job \<or>
     n = jb_nextRunAt job \<and> jb_status job = JsPaused"

definition row_ok :: "(string \<times> int) set \<Rightarrow> (string \<times> int) set \<Rightarrow> string \<Rightarrow> job \<Rightarrow> bool" where
  "row_ok claimed completed jobRef job \<longleftrightarrow> job_ok job \<and>
     (jb_status job = JsDelivering \<longrightarrow> (jobRef, jb_nextRunAt job) \<in> claimed) \<and>
     (\<forall>n. (jobRef, n) \<in> claimed \<longrightarrow> claimed_before job n) \<and>
     (\<forall>n. (jobRef, n) \<in> completed \<longrightarrow> completed_before job n)"

definition jobs_ok :: "int \<Rightarrow> (string \<times> int) set \<Rightarrow> (string \<times> int) set \<Rightarrow> (string \<times> job) list \<Rightarrow> bool" where
  "jobs_ok clock claimed completed jobs \<longleftrightarrow> distinct (map fst jobs) \<and> completed \<subseteq> claimed \<and>
     (\<forall>jobRef n. (jobRef, n) \<in> claimed \<longrightarrow> n \<le> clock) \<and>
     (\<forall>jobRef job. map_of jobs jobRef = Some job \<longrightarrow> row_ok claimed completed jobRef job)"

definition schedule_inv :: "schedule_world \<Rightarrow> bool" where
  "schedule_inv w \<longleftrightarrow> distinct (sw_claimed w) \<and> distinct (sw_completed w) \<and>
     jobs_ok (sw_clock w) (set (sw_claimed w)) (set (sw_completed w)) (ss_jobs (sw_store w))"


lemma jobs_okD:
  assumes "jobs_ok clock C D jobs"
  shows "distinct (map fst jobs)" and "D \<subseteq> C" and "(r, n) \<in> C \<Longrightarrow> n \<le> clock"
    and "map_of jobs r = Some job \<Longrightarrow> row_ok C D r job"
  using assms by (auto simp: jobs_ok_def)

lemma jobs_ok_later: "jobs_ok clock C D jobs \<Longrightarrow> clock \<le> now \<Longrightarrow> jobs_ok now C D jobs"
  unfolding jobs_ok_def by force

lemma jobs_ok_put:
  assumes "jobs_ok clock C D jobs" and "row_ok C D r job"
  shows "jobs_ok clock C D (put r job jobs)"
  using assms by (simp add: jobs_ok_def)

text \<open>Another delivery of job \<open>r\<close> among the claimed, or the completed, ones is no matter for other rows.\<close>

lemma row_ok_other: "q \<noteq> r \<Longrightarrow> row_ok (insert (r, n) C) D q job \<longleftrightarrow> row_ok C D q job"
  "q \<noteq> r \<Longrightarrow> row_ok C (insert (r, n) D) q job \<longleftrightarrow> row_ok C D q job"
  by (auto simp: row_ok_def)

section \<open>Each operation keeps it\<close>

lemma upsert_interval:
  assumes "pluginFixedScheduleRequestV1Schema request" and "is_upsert request"
  shows "60 \<le> intervalOf request"
proof -
  from assms have "int_between 60 (31 * 24 * 60 * 60) (getp request ''intervalSeconds'')"
    by (simp add: pluginFixedScheduleRequestV1Schema_def is_upsert_def)
  then show ?thesis by (cases "getp request ''intervalSeconds''") (simp_all add: intervalOf_def)
qed

lemma row_ok_command:
  assumes inv: "jobs_ok now C D jobs" and schema: "pluginFixedScheduleRequestV1Schema request"
    and attempts: "1 \<le> fs_maxAttempts decl"
  shows "row_ok C D r (commandJob now who decl request current revision)"
proof -
  have past: "n \<le> now" if "(r, n) \<in> C \<or> (r, n) \<in> D" for n
    using jobs_okD(2,3) [OF inv] that by blast
  show ?thesis
  proof (cases "is_upsert request")
    case True
    with upsert_interval [OF schema] have interval: "60 \<le> intervalOf request" by simp
    then have "n < now + intervalOf request * 1000" if "(r, n) \<in> C \<or> (r, n) \<in> D" for n
      using past [OF that] by simp
    with True attempts interval show ?thesis
      by (simp add: row_ok_def job_ok_def commandJob_def claimed_before_def completed_before_def)
  next
    case False
    with attempts show ?thesis
      by (simp add: row_ok_def job_ok_def commandJob_def claimed_before_def completed_before_def)
  qed
qed

lemma execute_inv:
  assumes inv: "jobs_ok now C D (ss_jobs store)" and schema: "pluginFixedScheduleRequestV1Schema request"
    and attempts: "1 \<le> fs_maxAttempts declaration"
    and run: "schedule_execute h dt now who declaration request store = Inr (response, store')"
  shows "jobs_ok now C D (ss_jobs store')"
proof (cases "map_of (ss_commands store) (commandKeyHash h who request)")
  case (Some existing)
  with run inv show ?thesis by (auto simp: schedule_execute_def split: if_splits)
next
  case None
  with run have "newCommand h dt now who declaration request store = Inr (response, store')"
    by (simp add: schedule_execute_def split: if_splits)
  then obtain revision where "ss_jobs store' =
      put (jobRefOf h who request)
        (commandJob now who declaration request (map_of (ss_jobs store) (jobRefOf h who request)) revision) (ss_jobs store)"
    by (auto simp: newCommand_def Let_def)
  with row_ok_command [OF inv schema attempts] jobs_ok_put [OF inv] show ?thesis by simp
qed

lemma row_ok_recovered:
  assumes row: "row_ok C D r job" and expired: "lease_expired now job"
    and past: "\<And>n. (r, n) \<in> C \<Longrightarrow> n \<le> now" and sub: "D \<subseteq> C"
  shows "row_ok C D r (recovered now job)"
proof -
  have delivering: "jb_status job = JsDelivering" using expired by (simp add: lease_expired_def)
  have "n < now + retryDelayMs (jb_attempt job)" if "(r, n) \<in> C" for n
    using past [OF that] retryDelay_bounds [of "jb_attempt job"] by simp
  then show ?thesis
    using row delivering sub
    by (auto simp: row_ok_def job_ok_def recovered_def Let_def claimed_before_def completed_before_def)
qed

lemma map_of_map_keyed: "map_of (map (\<lambda>(k, v). (k, f v)) xs) k = map_option f (map_of xs k)"
  by (induction xs) auto

lemma map_res_Inr_map:
  "map_res f xs = Inr ys \<Longrightarrow> (\<And>x y. x \<in> set xs \<Longrightarrow> f x = Inr y \<Longrightarrow> y = g x) \<Longrightarrow> ys = map g xs"
  by (induction xs arbitrary: ys) fastforce+

lemma recover_inv:
  assumes inv: "jobs_ok now C D jobs" and run: "recoverExpiredLeases now jobs = Inr jobs'"
  shows "jobs_ok now C D jobs'"
proof -
  let ?f = "\<lambda>job. if lease_expired now job then recovered now job else job"
  have jobs': "jobs' = map (\<lambda>(k, v). (k, ?f v)) jobs"
    by (rule map_res_Inr_map [OF run [unfolded recoverExpiredLeases_def]]) (auto split: if_splits)
  have keys: "map fst jobs' = map fst jobs" by (auto simp: jobs')
  have row: "row_ok C D r (?f job)" if "map_of jobs r = Some job" for r job
    using row_ok_recovered jobs_okD [OF inv] that by (cases "lease_expired now job") auto
  have "row_ok C D r job'" if found: "map_of jobs' r = Some job'" for r job'
  proof -
    from found obtain job where "map_of jobs r = Some job" "job' = ?f job"
      unfolding jobs' map_of_map_keyed by blast
    with row show ?thesis by blast
  qed
  with keys jobs_okD(1-3) [OF inv] show ?thesis unfolding jobs_ok_def by auto
qed

lemma claim_row_inv:
  assumes inv: "jobs_ok now C D jobs" and job: "map_of jobs r = Some job" and due: "scheduleClaimEligible now job"
  shows "jobs_ok now (insert (r, jb_nextRunAt job) C) D (put r (claimed_row now input job) jobs)"
    and "(r, jb_nextRunAt job) \<notin> C"
proof -
  note row = jobs_okD(4) [OF inv job]
  from row due show fresh: "(r, jb_nextRunAt job) \<notin> C"
    by (auto simp: row_ok_def claimed_before_def scheduleClaimEligible_def)
  have new: "row_ok (insert (r, jb_nextRunAt job) C) D r (claimed_row now input job)"
    using row due
    by (auto simp: row_ok_def job_ok_def claimed_row_def claimed_before_def completed_before_def scheduleClaimEligible_def)
  have "jb_nextRunAt job \<le> now" using due by (simp add: scheduleClaimEligible_def)
  with inv new show "jobs_ok now (insert (r, jb_nextRunAt job) C) D (put r (claimed_row now input job) jobs)"
    by (auto simp: jobs_ok_def row_ok_other)
qed

abbreviation delivery_of :: "string \<times> job \<Rightarrow> string \<times> int" where
  "delivery_of \<equiv> \<lambda>(jobRef, job). (jobRef, jb_nextRunAt job)"

lemma claim_rows_inv:
  assumes "jobs_ok now C D jobs" and "distinct (map fst due)"
    and "\<And>r job. (r, job) \<in> set due \<Longrightarrow> map_of jobs r = Some job \<and> scheduleClaimEligible now job"
  shows "jobs_ok now (C \<union> set (map delivery_of due)) D
           (fold (\<lambda>(jobRef, job). put jobRef (claimed_row now input job)) due jobs) \<and>
         distinct (map delivery_of due) \<and> set (map delivery_of due) \<inter> C = {}"
  using assms
proof (induction due arbitrary: C jobs)
  case (Cons d due)
  obtain r job where d: "d = (r, job)" by (cases d)
  let ?C = "insert (r, jb_nextRunAt job) C" and ?jobs = "put r (claimed_row now input job) jobs"
  note step = claim_row_inv [OF Cons.prems(1), of r job]
  have row: "map_of jobs r = Some job" "scheduleClaimEligible now job" using Cons.prems(3) d by auto
  have "jobs_ok now (?C \<union> set (map delivery_of due)) D
           (fold (\<lambda>(jobRef, job). put jobRef (claimed_row now input job)) due ?jobs) \<and>
         distinct (map delivery_of due) \<and> set (map delivery_of due) \<inter> ?C = {}"
  proof (rule Cons.IH)
    show "jobs_ok now ?C D ?jobs" by (rule step(1) [OF row])
    show "distinct (map fst due)" using Cons.prems(2) by simp
    show "map_of ?jobs q = Some job' \<and> scheduleClaimEligible now job'" if "(q, job') \<in> set due" for q job'
    proof -
      have "q \<noteq> r" using Cons.prems(2) d that by force
      with Cons.prems(3) that show ?thesis by auto
    qed
  qed
  moreover have "(r, jb_nextRunAt job) \<notin> C" by (rule step(2) [OF row])
  ultimately show ?case by (auto simp: d)
qed simp

lemma due_jobs_rows:
  assumes "distinct (map fst jobs)"
  shows "distinct (map fst (due_jobs now input jobs))"
    and "(r, job) \<in> set (due_jobs now input jobs) \<Longrightarrow> map_of jobs r = Some job \<and> scheduleClaimEligible now job"
proof -
  let ?sorted = "sort_key (\<lambda>(jobRef, job). jb_nextRunAt job) (sort_key (\<lambda>(jobRef, job). jb_createdAt job)
         (filter (\<lambda>(jobRef, job). scheduleClaimEligible now job) jobs))"
  have "mset (map fst ?sorted) = mset (map fst (filter (\<lambda>(jobRef, job). scheduleClaimEligible now job) jobs))"
    by (simp only: mset_map mset_sort)
  then have "distinct (map fst ?sorted)"
    using distinct_map_filter [OF assms] by (metis mset_eq_imp_distinct_iff)
  then show "distinct (map fst (due_jobs now input jobs))"
    by (simp add: due_jobs_def take_map [symmetric] distinct_take)
  show "map_of jobs r = Some job \<and> scheduleClaimEligible now job" if "(r, job) \<in> set (due_jobs now input jobs)"
    using that assms by (auto simp: due_jobs_def dest: in_set_takeD)
qed

lemma claimed_deliveries:
  assumes "map_res (claimed_delivery h dt input) due = Inr claimed"
  shows "map (\<lambda>j. (cj_jobRef j, cj_scheduledFor j)) claimed = map delivery_of due"
    and "j \<in> set claimed \<Longrightarrow> \<exists>r job. (r, job) \<in> set due \<and> cj_jobRef j = r \<and> cj_attempt j = jb_attempt job + 1 \<and>
      cj_maxAttempts j = jb_maxAttempts job \<and> cj_leaseOwner j = cn_workerRef input"
proof -
  have one: "cj_jobRef j = r \<and> cj_scheduledFor j = jb_nextRunAt job \<and> cj_attempt j = jb_attempt job + 1 \<and>
      cj_maxAttempts j = jb_maxAttempts job \<and> cj_leaseOwner j = cn_workerRef input"
    if "claimed_delivery h dt input (r, job) = Inr j" for r job j
    using that by (auto simp: claimed_delivery_def Let_def split: option.splits if_splits)
  from assms show "map (\<lambda>j. (cj_jobRef j, cj_scheduledFor j)) claimed = map delivery_of due"
    by (induction due arbitrary: claimed) (auto dest: one)
  from assms show "j \<in> set claimed \<Longrightarrow> \<exists>r job. (r, job) \<in> set due \<and> cj_jobRef j = r \<and> cj_attempt j = jb_attempt job + 1 \<and>
      cj_maxAttempts j = jb_maxAttempts job \<and> cj_leaseOwner j = cn_workerRef input"
    by (induction due arbitrary: claimed) (fastforce dest: one)+
qed

lemma schedule_claim_result:
  assumes run: "claimDue h dt now input store = Inr (claimed, store')"
  obtains jobs where "recoverExpiredLeases now (ss_jobs store) = Inr jobs"
    and "map_res (claimed_delivery h dt input) (due_jobs now input jobs) = Inr claimed"
    and "ss_jobs store' = fold (\<lambda>(jobRef, job). put jobRef (claimed_row now input job)) (due_jobs now input jobs) jobs"
  using run by (auto simp: claimDue_def split: if_splits)

lemma claim_inv:
  assumes inv: "jobs_ok now C D (ss_jobs store)" and run: "claimDue h dt now input store = Inr (claimed, store')"
  defines "new \<equiv> map (\<lambda>j. (cj_jobRef j, cj_scheduledFor j)) claimed"
  shows "jobs_ok now (C \<union> set new) D (ss_jobs store') \<and> distinct new \<and> set new \<inter> C = {}"
    and "j \<in> set claimed \<Longrightarrow> 1 \<le> cj_attempt j \<and> cj_attempt j \<le> cj_maxAttempts j"
proof -
  obtain jobs where rec: "recoverExpiredLeases now (ss_jobs store) = Inr jobs"
    and del: "map_res (claimed_delivery h dt input) (due_jobs now input jobs) = Inr claimed"
    and store': "ss_jobs store' = fold (\<lambda>(jobRef, job). put jobRef (claimed_row now input job)) (due_jobs now input jobs) jobs"
    by (rule schedule_claim_result [OF run])
  note jobs = recover_inv [OF inv rec]
  note rows = due_jobs_rows [OF jobs_okD(1) [OF jobs]]
  show "jobs_ok now (C \<union> set new) D (ss_jobs store') \<and> distinct new \<and> set new \<inter> C = {}"
    unfolding new_def store' claimed_deliveries(1) [OF del]
    by (rule claim_rows_inv [OF jobs rows(1)]) (rule rows(2))
  assume "j \<in> set claimed"
  from claimed_deliveries(2) [OF del this] obtain r job where "(r, job) \<in> set (due_jobs now input jobs)"
    and j: "cj_attempt j = jb_attempt job + 1" "cj_maxAttempts j = jb_maxAttempts job" by blast
  from rows(2) [OF this(1)] jobs_okD(4) [OF jobs] have "row_ok C D r job" "scheduleClaimEligible now job" by blast+
  with j show "1 \<le> cj_attempt j \<and> cj_attempt j \<le> cj_maxAttempts j"
    by (auto simp: row_ok_def job_ok_def scheduleClaimEligible_def)
qed

lemma schedule_complete_result:
  assumes "schedule_complete h now r owner receipt store = Inr (row, store')"
  obtains job where "map_of (ss_jobs store) r = Some job" and "jb_status job = JsDelivering"
    and "jb_leaseOwner job = Some owner" and "now < (case jb_leaseExpiresAt job of None \<Rightarrow> 0 | Some e \<Rightarrow> e)"
    and "rc_deliveryId receipt = deliveryRef h r (jb_nextRunAt job)" and "row = completed_row now receipt job"
    and "ss_jobs store' = put r (completed_row now receipt job) (ss_jobs store)"
proof -
  from assms obtain job where job: "map_of (ss_jobs store) r = Some job"
    by (auto simp: schedule_complete_def split: if_splits option.splits)
  with assms that [of job] show thesis by (auto simp: schedule_complete_def split: if_split_asm)
qed

lemma complete_inv:
  assumes inv: "jobs_ok now C D (ss_jobs store)" and job: "map_of (ss_jobs store) r = Some job"
    and run: "schedule_complete h now r owner receipt store = Inr (row, store')"
  shows "jobs_ok now C (insert (r, jb_nextRunAt job) D) (ss_jobs store')" and "(r, jb_nextRunAt job) \<notin> D"
proof -
  from schedule_complete_result [OF run] job have status: "jb_status job = JsDelivering"
    and store': "ss_jobs store' = put r (completed_row now receipt job) (ss_jobs store)"
    by (metis option.inject)+
  note row = jobs_okD(4) [OF inv job]
  from row status show "(r, jb_nextRunAt job) \<notin> D" by (auto simp: row_ok_def completed_before_def)
  have past: "n \<le> now" if "(r, n) \<in> C" for n using jobs_okD(3) [OF inv that] .
  have running: "(r, jb_nextRunAt job) \<in> C" using row status by (simp add: row_ok_def)
  have interval: "0 < jb_intervalSeconds job" using row status by (simp add: row_ok_def job_ok_def)
  have delay: "0 < retryDelayMs (jb_attempt job)" using retryDelay_bounds [of "jb_attempt job"] by simp
  have before: "completed_before (completed_row now receipt job) n \<and> claimed_before (completed_row now receipt job) n"
    if "(r, n) \<in> C" and "n < jb_nextRunAt job \<or> n = jb_nextRunAt job" for n
    using that past [OF that(1)] interval delay
    by (auto simp: completed_row_def Let_def completed_before_def claimed_before_def)
  have "job_ok (completed_row now receipt job)"
    using row status interval by (auto simp: row_ok_def job_ok_def completed_row_def Let_def)
  moreover have "jb_status (completed_row now receipt job) \<noteq> JsDelivering"
    by (simp add: completed_row_def Let_def)
  moreover have "n < jb_nextRunAt job \<or> n = jb_nextRunAt job" if "(r, n) \<in> C" for n
    using row status that by (auto simp: row_ok_def claimed_before_def)
  ultimately have "row_ok C (insert (r, jb_nextRunAt job) D) r (completed_row now receipt job)"
    using before running jobs_okD(2) [OF inv] unfolding row_ok_def by blast
  with inv running show "jobs_ok now C (insert (r, jb_nextRunAt job) D) (ss_jobs store')"
    by (auto simp: jobs_ok_def store' row_ok_other)
qed

lemma pause_inv:
  assumes inv: "jobs_ok now C D (ss_jobs store)" and run: "setPaused now pinput store = Inr (row, store')"
  shows "jobs_ok now C D (ss_jobs store')"
proof -
  let ?r = "pa_jobRef pinput"
  from run obtain job where job: "map_of (ss_jobs store) ?r = Some job" and status: "jb_status job \<noteq> JsCancelled"
    and store': "ss_jobs store' = put ?r (paused_row now pinput job) (ss_jobs store)"
    by (auto simp: setPaused_def split: option.splits if_splits)
  note row = jobs_okD(4) [OF inv job]
  have past: "n \<le> now" if "(?r, n) \<in> C \<or> (?r, n) \<in> D" for n using jobs_okD(2,3) [OF inv] that by blast
  have interval: "0 < jb_intervalSeconds job" using row status by (simp add: row_ok_def job_ok_def)
  have "job_ok (paused_row now pinput job)"
    using row interval by (auto simp: row_ok_def job_ok_def paused_row_def)
  moreover have "jb_status (paused_row now pinput job) \<noteq> JsDelivering" by (simp add: paused_row_def)
  moreover have "claimed_before (paused_row now pinput job) n" if "(?r, n) \<in> C" for n
    using row that past [of n] interval status by (auto simp: row_ok_def paused_row_def claimed_before_def)
  moreover have "completed_before (paused_row now pinput job) n" if "(?r, n) \<in> D" for n
    using row that past [of n] interval status by (auto simp: row_ok_def paused_row_def completed_before_def)
  ultimately have "row_ok C D ?r (paused_row now pinput job)" by (simp add: row_ok_def)
  with jobs_ok_put [OF inv] show ?thesis by (simp add: store')
qed

lemma schedule_inv_at:
  "schedule_inv w \<Longrightarrow> sw_clock w \<le> now \<Longrightarrow>
    jobs_ok now (set (sw_claimed w)) (set (sw_completed w)) (ss_jobs (sw_store w))"
  by (auto simp: schedule_inv_def intro: jobs_ok_later)

lemma schedule_step_inv: "schedule_step h dt w w' \<Longrightarrow> schedule_inv w \<Longrightarrow> schedule_inv w'"
proof (induction rule: schedule_step.induct)
  case (step_execute w now request decl who response store)
  note inv = schedule_inv_at [OF step_execute.prems step_execute.hyps(1)]
  from execute_inv [OF inv step_execute.hyps(2-4)] step_execute.prems show ?case by (simp add: schedule_inv_def)
next
  case (step_claim w now input jobs store)
  note inv = schedule_inv_at [OF step_claim.prems step_claim.hyps(1)]
  from claim_inv(1) [OF inv step_claim.hyps(2)] step_claim.prems show ?case by (auto simp: schedule_inv_def)
next
  case (step_complete w now jobRef job owner receipt row store)
  note inv = schedule_inv_at [OF step_complete.prems step_complete.hyps(1)]
  from complete_inv [OF inv step_complete.hyps(2,3)] step_complete.prems show ?case by (simp add: schedule_inv_def)
next
  case (step_pause w now pinput row store)
  note inv = schedule_inv_at [OF step_pause.prems step_pause.hyps(1)]
  from pause_inv [OF inv step_pause.hyps(2)] step_pause.prems show ?case by (simp add: schedule_inv_def)
next
  case (step_time w now)
  from schedule_inv_at [OF step_time.prems step_time.hyps] step_time.prems show ?case by (simp add: schedule_inv_def)
qed

lemma schedule_reachable_inv: "schedule_reachable h dt w \<Longrightarrow> schedule_inv w"
proof -
  assume "schedule_reachable h dt w"
  then obtain now where "(schedule_step h dt)\<^sup>*\<^sup>* (schedule_start now) w" by blast
  then show ?thesis
  proof (induction rule: rtranclp_induct)
    case base
    show ?case by (simp add: schedule_inv_def schedule_start_def jobs_ok_def)
  next
    case (step w w')
    then show ?case by (blast intro: schedule_step_inv)
  qed
qed

end
