(* ===== verification/Lifecycle_Registry.thy ===== *)
theory Lifecycle_Registry
  imports Manifest
begin

text \<open>
  The lifecycle registry (\<open>packages/plugin-runtime/src/lifecycle.ts\<close>): plugin records with
  optimistic revisions, the table of allowed transitions, tenant enablement, the kill switch and
  the audit log. What the log says is compared with what the registry holds.
\<close>

section \<open>States and transitions\<close>

datatype lifecycle_state =
    LsDiscovered | LsRejected | LsStaged | LsMigrating | LsInstalledDisabled | LsEnabling | LsEnabled
  | LsDegraded | LsDisabling | LsUpgrading | LsRollingBack | LsUninstalling | LsRemoved | LsFailed

fun allowedTransitions :: "lifecycle_state \<Rightarrow> lifecycle_state list" where
  "allowedTransitions LsDiscovered = [LsRejected, LsStaged]"
| "allowedTransitions LsRejected = [LsDiscovered, LsRemoved]"
| "allowedTransitions LsStaged = [LsMigrating, LsInstalledDisabled, LsRejected, LsFailed]"
| "allowedTransitions LsMigrating = [LsInstalledDisabled, LsFailed]"
| "allowedTransitions LsInstalledDisabled = [LsEnabling, LsUpgrading, LsUninstalling, LsRejected]"
| "allowedTransitions LsEnabling = [LsEnabled, LsDegraded, LsInstalledDisabled, LsFailed]"
| "allowedTransitions LsEnabled = [LsDegraded, LsDisabling, LsUpgrading]"
| "allowedTransitions LsDegraded = [LsEnabled, LsDisabling, LsUpgrading, LsFailed]"
| "allowedTransitions LsDisabling = [LsInstalledDisabled, LsFailed]"
| "allowedTransitions LsUpgrading = [LsEnabled, LsInstalledDisabled, LsRollingBack, LsFailed]"
| "allowedTransitions LsRollingBack = [LsEnabled, LsInstalledDisabled, LsFailed]"
| "allowedTransitions LsUninstalling = [LsRemoved, LsFailed]"
| "allowedTransitions LsRemoved = [LsDiscovered]"
| "allowedTransitions LsFailed = [LsRollingBack, LsUninstalling, LsStaged]"

datatype registry_error =
    PluginAlreadyExists | PluginNotFound | InvalidTransition | RegistryRevisionConflict
  | TenantEnablementNotSupported | TenantEnablementStateInvalid

text \<open>\<open>pluginSafeReasonCodeValues\<close> are kept as strings; the registry itself only writes two of them.\<close>

record lifecycle_record =
  lr_pluginId :: string
  lr_version :: string
  lr_displayName :: string
  lr_manifest :: manifest
  lr_state :: lifecycle_state
  lr_reasonCode :: string
  lr_revision :: int
  lr_enabledTenantRefs :: "string list"

datatype audit_type = PluginDiscovered | StateChanged | TenantEnabled | TenantDisabled | EmergencyDisableChanged

record audit_event =
  ae_sequence :: nat
  ae_type :: audit_type
  ae_pluginId :: "string option"
  ae_actorRef :: string
  ae_correlationId :: string
  ae_occurredAt :: string
  ae_fromState :: "lifecycle_state option"
  ae_toState :: "lifecycle_state option"
  ae_reasonCode :: string
  ae_tenantRef :: "string option"
  ae_emergencyDisabled :: "bool option"

text \<open>The context of a mutation; the time is \<open>occurredAt\<close>, or the clock's when it is absent.\<close>

record mutation_context =
  mc_actorRef :: string
  mc_correlationId :: string
  mc_occurredAt :: string

record registry =
  rg_records :: "(string \<times> lifecycle_record) list"
  rg_audit :: "audit_event list"
  rg_sequence :: nat
  rg_emergencyDisabled :: bool

definition empty_registry :: registry where
  "empty_registry = \<lparr>rg_records = [], rg_audit = [], rg_sequence = 0, rg_emergencyDisabled = False\<rparr>"

definition copyRecord :: "lifecycle_record \<Rightarrow> lifecycle_record" where
  "copyRecord record = record\<lparr>lr_enabledTenantRefs := sort (lr_enabledTenantRefs record)\<rparr>"

section \<open>The operations\<close>

text \<open>\<open>appendAudit\<close>; the event comes with its sequence number unset.\<close>

definition appendAudit :: "audit_event \<Rightarrow> registry \<Rightarrow> registry" where
  "appendAudit event r =
     r\<lparr>rg_sequence := rg_sequence r + 1,
       rg_audit := rg_audit r @ [event\<lparr>ae_sequence := rg_sequence r + 1\<rparr>]\<rparr>"

definition audit_of :: "audit_type \<Rightarrow> mutation_context \<Rightarrow> string \<Rightarrow> audit_event" where
  "audit_of type context reason =
     \<lparr>ae_sequence = 0, ae_type = type, ae_pluginId = None, ae_actorRef = mc_actorRef context,
      ae_correlationId = mc_correlationId context, ae_occurredAt = mc_occurredAt context,
      ae_fromState = None, ae_toState = None, ae_reasonCode = reason, ae_tenantRef = None,
      ae_emergencyDisabled = None\<rparr>"

definition discover ::
  "manifest \<Rightarrow> mutation_context \<Rightarrow> registry \<Rightarrow> registry_error + (lifecycle_record \<times> registry)" where
  "discover m context r =
     (if map_of (rg_records r) (mf_id m) \<noteq> None then Inl PluginAlreadyExists
      else
        let record = \<lparr>lr_pluginId = mf_id m, lr_version = mf_version m,
              lr_displayName = md_displayName (mf_metadata m), lr_manifest = m, lr_state = LsDiscovered,
              lr_reasonCode = ''none'', lr_revision = 0, lr_enabledTenantRefs = []\<rparr>
        in Inr (copyRecord record,
             appendAudit ((audit_of PluginDiscovered context ''none'')\<lparr>ae_pluginId := Some (mf_id m)\<rparr>)
               (r\<lparr>rg_records := put (mf_id m) record (rg_records r)\<rparr>)))"

record transition_input =
  tr_pluginId :: string
  tr_toState :: lifecycle_state
  tr_expectedRevision :: int
  tr_reasonCode :: "string option"
  tr_replacementManifest :: "manifest option"
  tr_context :: mutation_context

definition clears_tenants :: "lifecycle_state \<Rightarrow> bool" where
  "clears_tenants s \<longleftrightarrow> s = LsInstalledDisabled \<or> s = LsRemoved \<or> s = LsRejected"

text \<open>The record after the assignments of \<open>transition\<close>.\<close>

definition moved_record :: "transition_input \<Rightarrow> lifecycle_record \<Rightarrow> lifecycle_record" where
  "moved_record input record =
     (let record = record\<lparr>lr_state := tr_toState input,
            lr_reasonCode := (case tr_reasonCode input of None \<Rightarrow> ''none'' | Some c \<Rightarrow> c),
            lr_revision := lr_revision record + 1\<rparr>;
          record = (case tr_replacementManifest input of
              None \<Rightarrow> record
            | Some m \<Rightarrow> record\<lparr>lr_manifest := m, lr_version := mf_version m,
                lr_displayName := md_displayName (mf_metadata m)\<rparr>)
      in if clears_tenants (tr_toState input) then record\<lparr>lr_enabledTenantRefs := []\<rparr> else record)"

definition transition ::
  "transition_input \<Rightarrow> registry \<Rightarrow> registry_error + (lifecycle_record \<times> registry)" where
  "transition input r =
     (case map_of (rg_records r) (tr_pluginId input) of
        None \<Rightarrow> Inl PluginNotFound
      | Some record \<Rightarrow>
          if lr_revision record \<noteq> tr_expectedRevision input then Inl RegistryRevisionConflict
          else if tr_toState input \<notin> set (allowedTransitions (lr_state record)) then Inl InvalidTransition
          else if (case tr_replacementManifest input of None \<Rightarrow> False | Some m \<Rightarrow> mf_id m \<noteq> tr_pluginId input)
          then Inl InvalidTransition
          else Inr (copyRecord (moved_record input record),
            appendAudit
              ((audit_of StateChanged (tr_context input) (lr_reasonCode (moved_record input record)))
                \<lparr>ae_pluginId := Some (tr_pluginId input), ae_fromState := Some (lr_state record),
                 ae_toState := Some (tr_toState input)\<rparr>)
              (r\<lparr>rg_records := put (tr_pluginId input) (moved_record input record) (rg_records r)\<rparr>)))"

record tenant_input =
  te_pluginId :: string
  te_tenantRef :: string
  te_enabled :: bool
  te_expectedRevision :: int
  te_context :: mutation_context

definition enabled_record :: "tenant_input \<Rightarrow> lifecycle_record \<Rightarrow> lifecycle_record" where
  "enabled_record input record =
     record\<lparr>lr_enabledTenantRefs :=
         sort (if te_enabled input then set_add (te_tenantRef input) (set_of_list (lr_enabledTenantRefs record))
               else filter (\<lambda>t. t \<noteq> te_tenantRef input) (set_of_list (lr_enabledTenantRefs record))),
       lr_revision := lr_revision record + 1\<rparr>"

definition setTenantEnabled ::
  "tenant_input \<Rightarrow> registry \<Rightarrow> registry_error + (lifecycle_record \<times> registry)" where
  "setTenantEnabled input r =
     (case map_of (rg_records r) (te_pluginId input) of
        None \<Rightarrow> Inl PluginNotFound
      | Some record \<Rightarrow>
          if lr_revision record \<noteq> te_expectedRevision input then Inl RegistryRevisionConflict
          else if mf_enablement (lr_manifest record) \<noteq> ScopeTenant then Inl TenantEnablementNotSupported
          else if lr_state record \<noteq> LsEnabled \<and> lr_state record \<noteq> LsDegraded
          then Inl TenantEnablementStateInvalid
          else Inr (copyRecord (enabled_record input record),
            appendAudit
              ((audit_of (if te_enabled input then TenantEnabled else TenantDisabled) (te_context input) ''none'')
                \<lparr>ae_pluginId := Some (te_pluginId input), ae_tenantRef := Some (te_tenantRef input)\<rparr>)
              (r\<lparr>rg_records := put (te_pluginId input) (enabled_record input record) (rg_records r)\<rparr>)))"

definition setEmergencyDisabled :: "bool \<Rightarrow> mutation_context \<Rightarrow> registry \<Rightarrow> registry" where
  "setEmergencyDisabled disabled context r =
     (if rg_emergencyDisabled r = disabled then r
      else appendAudit
        ((audit_of EmergencyDisableChanged context (if disabled then ''emergency_disabled'' else ''none''))
          \<lparr>ae_emergencyDisabled := Some disabled\<rparr>)
        (r\<lparr>rg_emergencyDisabled := disabled\<rparr>))"

definition isExecutionAllowed :: "registry \<Rightarrow> string \<Rightarrow> string option \<Rightarrow> bool" where
  "isExecutionAllowed r pluginId tenantRef =
     (case map_of (rg_records r) pluginId of
        None \<Rightarrow> False
      | Some record \<Rightarrow>
          if rg_emergencyDisabled r \<or> (lr_state record \<noteq> LsEnabled \<and> lr_state record \<noteq> LsDegraded) then False
          else if mf_enablement (lr_manifest record) = ScopeDeployment then True
          else truthy_str tenantRef \<and> the tenantRef \<in> set (lr_enabledTenantRefs record))"

definition get_record :: "registry \<Rightarrow> string \<Rightarrow> lifecycle_record option" where
  "get_record r pluginId = map_option copyRecord (map_of (rg_records r) pluginId)"

text \<open>\<open>localeCompare\<close> is an argument.\<close>

definition list_records :: "(string \<Rightarrow> string \<Rightarrow> int) \<Rightarrow> registry \<Rightarrow> lifecycle_record list" where
  "list_records localeCompare r =
     map copyRecord (js_sort (\<lambda>a b. localeCompare (lr_pluginId a) (lr_pluginId b)) (map snd (rg_records r)))"

definition auditEvents :: "nat \<Rightarrow> registry \<Rightarrow> audit_event list" where
  "auditEvents afterSequence r = filter (\<lambda>event. ae_sequence event > afterSequence) (rg_audit r)"

section \<open>Runs of the registry\<close>

inductive registry_step :: "registry \<Rightarrow> registry \<Rightarrow> bool" where
  step_discover: "discover m context r = Inr (record, r') \<Longrightarrow> registry_step r r'"
| step_transition: "transition tinput r = Inr (record, r') \<Longrightarrow> registry_step r r'"
| step_tenant: "setTenantEnabled einput r = Inr (record, r') \<Longrightarrow> registry_step r r'"
| step_emergency: "registry_step r (setEmergencyDisabled disabled context r)"

abbreviation registry_reachable :: "registry \<Rightarrow> bool" where
  "registry_reachable r \<equiv> registry_step\<^sup>*\<^sup>* empty_registry r"

text \<open>What an audit log says: the state of a plugin, its tenants, and the kill switch.\<close>

definition audited_state1 :: "string \<Rightarrow> audit_event \<Rightarrow> lifecycle_state option \<Rightarrow> lifecycle_state option" where
  "audited_state1 p e s =
     (if ae_pluginId e \<noteq> Some p then s
      else case ae_type e of PluginDiscovered \<Rightarrow> Some LsDiscovered | StateChanged \<Rightarrow> ae_toState e | _ \<Rightarrow> s)"

definition audited_state :: "string \<Rightarrow> audit_event list \<Rightarrow> lifecycle_state option" where
  "audited_state p es = fold (audited_state1 p) es None"

definition audited_tenants1 :: "string \<Rightarrow> audit_event \<Rightarrow> string set \<Rightarrow> string set" where
  "audited_tenants1 p e ts =
     (if ae_pluginId e \<noteq> Some p then ts
      else case ae_type e of
        TenantEnabled \<Rightarrow> insert (the (ae_tenantRef e)) ts
      | TenantDisabled \<Rightarrow> ts - {the (ae_tenantRef e)}
      | StateChanged \<Rightarrow> if clears_tenants (the (ae_toState e)) then {} else ts
      | _ \<Rightarrow> ts)"

definition audited_tenants :: "string \<Rightarrow> audit_event list \<Rightarrow> string set" where
  "audited_tenants p es = fold (audited_tenants1 p) es {}"

definition audited_emergency :: "audit_event list \<Rightarrow> bool" where
  "audited_emergency es =
     fold (\<lambda>e d. if ae_type e = EmergencyDisableChanged then the (ae_emergencyDisabled e) else d) es False"

lemma audited_append [simp]:
  "audited_state p (es @ [e]) = audited_state1 p e (audited_state p es)"
  "audited_tenants p (es @ [e]) = audited_tenants1 p e (audited_tenants p es)"
  "audited_emergency (es @ [e]) =
     (if ae_type e = EmergencyDisableChanged then the (ae_emergencyDisabled e) else audited_emergency es)"
  by (simp_all add: audited_state_def audited_tenants_def audited_emergency_def)

text \<open>The state changes of a log are allowed ones, each from the state the log gives before it.\<close>

fun changes_allowed :: "audit_event list \<Rightarrow> audit_event list \<Rightarrow> bool" where
  "changes_allowed past [] \<longleftrightarrow> True"
| "changes_allowed past (e # es) \<longleftrightarrow>
     (ae_type e = StateChanged \<longrightarrow>
        audited_state (the (ae_pluginId e)) past = ae_fromState e \<and>
        (\<exists>s s'. ae_fromState e = Some s \<and> ae_toState e = Some s' \<and> s' \<in> set (allowedTransitions s))) \<and>
     changes_allowed (past @ [e]) es"

lemma changes_allowed_append:
  "changes_allowed past (es @ [e]) \<longleftrightarrow> changes_allowed past es \<and> changes_allowed (past @ es) [e]"
  by (induction es arbitrary: past) auto

text \<open>A plugin that is in one of these states has no tenant enabled.\<close>

definition tenantless :: "lifecycle_state \<Rightarrow> bool" where
  "tenantless s \<longleftrightarrow> s \<in> {LsDiscovered, LsRejected, LsInstalledDisabled, LsEnabling, LsRemoved}"

definition registry_inv :: "registry \<Rightarrow> bool" where
  "registry_inv r \<longleftrightarrow>
     map ae_sequence (rg_audit r) = [1..<Suc (rg_sequence r)] \<and>
     rg_emergencyDisabled r = audited_emergency (rg_audit r) \<and>
     changes_allowed [] (rg_audit r) \<and>
     (\<forall>p. map_option lr_state (map_of (rg_records r) p) = audited_state p (rg_audit r)) \<and>
     (\<forall>p record. map_of (rg_records r) p = Some record \<longrightarrow>
        lr_pluginId record = p \<and> mf_id (lr_manifest record) = p \<and> lr_version record = mf_version (lr_manifest record) \<and>
        set (lr_enabledTenantRefs record) = audited_tenants p (rg_audit r) \<and>
        distinct (lr_enabledTenantRefs record) \<and>
        (tenantless (lr_state record) \<longrightarrow> lr_enabledTenantRefs record = [])) \<and>
     (\<forall>p. map_of (rg_records r) p = None \<longrightarrow> audited_tenants p (rg_audit r) = {})"


section \<open>The log and the registry agree\<close>

lemma sequence_irrelevant [simp]:
  "audited_state1 p (e\<lparr>ae_sequence := n\<rparr>) = audited_state1 p e"
  "audited_tenants1 p (e\<lparr>ae_sequence := n\<rparr>) = audited_tenants1 p e"
  "changes_allowed past [e\<lparr>ae_sequence := n\<rparr>] = changes_allowed past [e]"
  by (cases "ae_type e"; simp add: audited_state1_def audited_tenants1_def fun_eq_iff)+

lemma other_plugin [simp]:
  "ae_pluginId e \<noteq> Some q \<Longrightarrow> audited_state1 q e s = s"
  "ae_pluginId e \<noteq> Some q \<Longrightarrow> audited_tenants1 q e ts = ts"
  by (simp_all add: audited_state1_def audited_tenants1_def)

lemma changes_allowed_snoc:
  "changes_allowed [] es \<Longrightarrow> changes_allowed es [e] \<Longrightarrow> changes_allowed [] (es @ [e\<lparr>ae_sequence := n\<rparr>])"
  unfolding changes_allowed_append by (simp del: changes_allowed.simps)

lemma inv_append_plugin:
  assumes inv: "registry_inv r" and e: "ae_pluginId e = Some p" "ae_type e \<noteq> EmergencyDisableChanged"
    and allowed: "changes_allowed (rg_audit r) [e]"
    and state: "audited_state1 p e (audited_state p (rg_audit r)) = Some (lr_state record)"
    and tenants: "set (lr_enabledTenantRefs record) = audited_tenants1 p e (audited_tenants p (rg_audit r))"
    and fields: "lr_pluginId record = p" "mf_id (lr_manifest record) = p"
      "lr_version record = mf_version (lr_manifest record)" "distinct (lr_enabledTenantRefs record)"
      "tenantless (lr_state record) \<Longrightarrow> lr_enabledTenantRefs record = []"
  shows "registry_inv (appendAudit e (r\<lparr>rg_records := put p record (rg_records r)\<rparr>))"
  unfolding registry_inv_def
proof (intro conjI allI impI)
  let ?r = "appendAudit e (r\<lparr>rg_records := put p record (rg_records r)\<rparr>)"
  have audit: "rg_audit ?r = rg_audit r @ [e\<lparr>ae_sequence := rg_sequence r + 1\<rparr>]"
    and recs: "rg_records ?r = put p record (rg_records r)"
    and rest: "rg_sequence ?r = rg_sequence r + 1" "rg_emergencyDisabled ?r = rg_emergencyDisabled r"
    by (simp_all add: appendAudit_def)
  have other: "ae_pluginId e \<noteq> Some q" if "q \<noteq> p" for q using e that by simp
  show "map ae_sequence (rg_audit ?r) = [1..<Suc (rg_sequence ?r)]"
    using inv by (simp add: registry_inv_def audit rest)
  show "rg_emergencyDisabled ?r = audited_emergency (rg_audit ?r)"
    using inv e by (simp add: registry_inv_def audit rest)
  show "changes_allowed [] (rg_audit ?r)"
    unfolding audit by (rule changes_allowed_snoc) (use inv allowed in \<open>simp_all add: registry_inv_def\<close>)
  fix q
  show "map_option lr_state (map_of (rg_records ?r) q) = audited_state q (rg_audit ?r)"
    using inv state other [of q] by (cases "q = p") (simp_all add: registry_inv_def audit recs)
  show "audited_tenants q (rg_audit ?r) = {}" if "map_of (rg_records ?r) q = None"
    using inv that other [of q] by (cases "q = p") (simp_all add: registry_inv_def audit recs)
  fix x assume x: "map_of (rg_records ?r) q = Some x"
  have "lr_pluginId x = q \<and> mf_id (lr_manifest x) = q \<and> lr_version x = mf_version (lr_manifest x) \<and>
      set (lr_enabledTenantRefs x) = audited_tenants q (rg_audit ?r) \<and> distinct (lr_enabledTenantRefs x) \<and>
      (tenantless (lr_state x) \<longrightarrow> lr_enabledTenantRefs x = [])"
  proof (cases "q = p")
    case True
    with x have "x = record" by (simp add: recs)
    with True fields tenants show ?thesis unfolding audit by simp
  next
    case False
    with x inv other [of q] show ?thesis by (simp add: registry_inv_def audit recs)
  qed
  then show "lr_pluginId x = q" "mf_id (lr_manifest x) = q" "lr_version x = mf_version (lr_manifest x)"
    "set (lr_enabledTenantRefs x) = audited_tenants q (rg_audit ?r)" "distinct (lr_enabledTenantRefs x)"
    "tenantless (lr_state x) \<Longrightarrow> lr_enabledTenantRefs x = []"
    by blast+
qed

lemma registry_inv_record:
  assumes "registry_inv r" and "map_of (rg_records r) p = Some record"
  shows "lr_pluginId record = p" and "mf_id (lr_manifest record) = p"
    and "lr_version record = mf_version (lr_manifest record)"
    and "set (lr_enabledTenantRefs record) = audited_tenants p (rg_audit r)"
    and "distinct (lr_enabledTenantRefs record)"
    and "tenantless (lr_state record) \<Longrightarrow> lr_enabledTenantRefs record = []"
    and "audited_state p (rg_audit r) = Some (lr_state record)"
proof -
  note inv = assms(1) [unfolded registry_inv_def]
  from inv assms(2) show "lr_pluginId record = p" "mf_id (lr_manifest record) = p"
    "lr_version record = mf_version (lr_manifest record)"
    "set (lr_enabledTenantRefs record) = audited_tenants p (rg_audit r)"
    "distinct (lr_enabledTenantRefs record)"
    "tenantless (lr_state record) \<Longrightarrow> lr_enabledTenantRefs record = []" by blast+
  from inv have "map_option lr_state (map_of (rg_records r) p) = audited_state p (rg_audit r)" by blast
  with assms(2) show "audited_state p (rg_audit r) = Some (lr_state record)" by simp
qed

lemma audit_of_simps [simp]:
  "ae_type (audit_of ty c x) = ty" "ae_pluginId (audit_of ty c x) = None"
  "ae_fromState (audit_of ty c x) = None" "ae_toState (audit_of ty c x) = None"
  "ae_tenantRef (audit_of ty c x) = None" "ae_emergencyDisabled (audit_of ty c x) = None"
  by (simp_all add: audit_of_def)

lemma discover_inv:
  assumes inv: "registry_inv r" and run: "discover m context r = Inr (record, r')"
  shows "registry_inv r'"
proof -
  from run have none: "map_of (rg_records r) (mf_id m) = None"
    by (simp add: discover_def split: if_splits)
  with inv have "audited_tenants (mf_id m) (rg_audit r) = {}" by (simp add: registry_inv_def)
  with run none show ?thesis
    by (auto simp: discover_def Let_def audited_state1_def audited_tenants1_def intro!: inv_append_plugin [OF inv])
qed

lemma moved_record_simps [simp]:
  "lr_state (moved_record input record) = tr_toState input"
  "lr_revision (moved_record input record) = lr_revision record + 1"
  "lr_pluginId (moved_record input record) = lr_pluginId record"
  "lr_enabledTenantRefs (moved_record input record) =
     (if clears_tenants (tr_toState input) then [] else lr_enabledTenantRefs record)"
  "lr_manifest (moved_record input record) =
     (case tr_replacementManifest input of None \<Rightarrow> lr_manifest record | Some m \<Rightarrow> m)"
  "lr_version (moved_record input record) =
     (case tr_replacementManifest input of None \<Rightarrow> lr_version record | Some m \<Rightarrow> mf_version m)"
  by (simp_all add: moved_record_def Let_def split: option.split)

lemma transition_inv:
  assumes inv: "registry_inv r" and run: "transition tinput r = Inr (result, r')"
  shows "registry_inv r'"
proof -
  let ?p = "tr_pluginId tinput"
  from run obtain cur where rec: "map_of (rg_records r) ?p = Some cur"
    by (auto simp: transition_def split: option.splits)
  define new where "new = moved_record tinput cur"
  have to: "tr_toState tinput \<in> set (allowedTransitions (lr_state cur))"
    using run rec by (simp add: transition_def split: if_split_asm)
  have manifest: "tr_replacementManifest tinput = Some m \<Longrightarrow> mf_id m = ?p" for m
    using run rec by (simp add: transition_def split: if_split_asm)
  have r': "r' = appendAudit
        ((audit_of StateChanged (tr_context tinput) (lr_reasonCode new))
          \<lparr>ae_pluginId := Some ?p, ae_fromState := Some (lr_state cur), ae_toState := Some (tr_toState tinput)\<rparr>)
        (r\<lparr>rg_records := put ?p new (rg_records r)\<rparr>)"
    using run rec by (simp add: transition_def new_def split: if_split_asm)
  note old = registry_inv_record [OF inv rec]
  have ident: "mf_id (lr_manifest new) = ?p" "lr_version new = mf_version (lr_manifest new)"
    using old(2,3) manifest by (auto simp: new_def split: option.split)
  have stays: "tenantless (lr_state cur)" if "tenantless (tr_toState tinput)" "\<not> clears_tenants (tr_toState tinput)"
    using that to by (cases "lr_state cur") (auto simp: tenantless_def clears_tenants_def)
  show ?thesis
    unfolding r'
  proof (rule inv_append_plugin [OF inv])
    show "lr_enabledTenantRefs new = []" if "tenantless (lr_state new)"
      using that stays old(6) by (auto simp: new_def)
  qed (use to old ident in \<open>auto simp: new_def audited_state1_def audited_tenants1_def\<close>)
qed

lemma tenant_inv:
  assumes inv: "registry_inv r" and run: "setTenantEnabled einput r = Inr (result, r')"
  shows "registry_inv r'"
proof -
  let ?p = "te_pluginId einput"
  from run obtain cur where rec: "map_of (rg_records r) ?p = Some cur"
    by (auto simp: setTenantEnabled_def split: option.splits)
  define new where "new = enabled_record einput cur"
  have state: "lr_state cur = LsEnabled \<or> lr_state cur = LsDegraded"
    using run rec by (simp add: setTenantEnabled_def split: if_split_asm)
  have r': "r' = appendAudit
        ((audit_of (if te_enabled einput then TenantEnabled else TenantDisabled) (te_context einput) ''none'')
          \<lparr>ae_pluginId := Some ?p, ae_tenantRef := Some (te_tenantRef einput)\<rparr>)
        (r\<lparr>rg_records := put ?p new (rg_records r)\<rparr>)"
    using run rec by (simp add: setTenantEnabled_def new_def split: if_split_asm)
  note old = registry_inv_record [OF inv rec]
  have new: "lr_state new = lr_state cur" "lr_pluginId new = lr_pluginId cur"
    "lr_manifest new = lr_manifest cur" "lr_version new = lr_version cur"
    "set (lr_enabledTenantRefs new) = (if te_enabled einput then insert (te_tenantRef einput) (set (lr_enabledTenantRefs cur))
        else set (lr_enabledTenantRefs cur) - {te_tenantRef einput})"
    "distinct (lr_enabledTenantRefs new)"
    by (auto simp: new_def enabled_record_def)
  show ?thesis
    unfolding r'
  proof (rule inv_append_plugin [OF inv])
    show "lr_enabledTenantRefs new = []" if "tenantless (lr_state new)"
      using that state new(1) by (auto simp: tenantless_def)
  qed (use new old in \<open>auto simp: audited_state1_def audited_tenants1_def\<close>)
qed

lemma emergency_inv:
  assumes inv: "registry_inv r"
  shows "registry_inv (setEmergencyDisabled disabled context r)"
proof (cases "rg_emergencyDisabled r = disabled")
  case True
  with inv show ?thesis by (simp add: setEmergencyDisabled_def)
next
  case False
  define e where "e = (audit_of EmergencyDisableChanged context (if disabled then ''emergency_disabled'' else ''none''))
      \<lparr>ae_emergencyDisabled := Some disabled\<rparr>"
  let ?e = "e\<lparr>ae_sequence := rg_sequence r + 1\<rparr>"
  have "changes_allowed [] (rg_audit r @ [?e])"
    using inv by (intro changes_allowed_snoc) (simp_all add: registry_inv_def e_def)
  moreover have "setEmergencyDisabled disabled context r = appendAudit e (r\<lparr>rg_emergencyDisabled := disabled\<rparr>)"
    using False by (simp add: setEmergencyDisabled_def e_def)
  moreover have "ae_type e = EmergencyDisableChanged" "ae_pluginId e = None" "ae_emergencyDisabled e = Some disabled"
    by (simp_all add: e_def)
  ultimately show ?thesis using inv by (simp add: appendAudit_def registry_inv_def)
qed

lemma registry_reachable_inv: "registry_reachable r \<Longrightarrow> registry_inv r"
proof (induction rule: rtranclp_induct)
  case base
  show ?case by (simp add: registry_inv_def empty_registry_def audited_emergency_def audited_state_def audited_tenants_def)
next
  case (step r r')
  from step(2,3) show ?case
    by (cases rule: registry_step.cases)
      (auto intro: discover_inv transition_inv tenant_inv emergency_inv)
qed

section \<open>Revisions\<close>

lemma transition_revision:
  assumes "transition tinput r = Inr (result, r')"
  shows "lr_revision result = tr_expectedRevision tinput + 1 \<and>
     map_option lr_revision (map_of (rg_records r') (tr_pluginId tinput)) = Some (tr_expectedRevision tinput + 1)"
  using assms by (auto simp: transition_def appendAudit_def copyRecord_def split: option.splits if_splits)

lemma tenant_revision:
  assumes "setTenantEnabled einput r = Inr (result, r')"
  shows "lr_revision result = te_expectedRevision einput + 1 \<and>
     map_option lr_revision (map_of (rg_records r') (te_pluginId einput)) = Some (te_expectedRevision einput + 1)"
  using assms
  by (auto simp: setTenantEnabled_def appendAudit_def copyRecord_def enabled_record_def split: option.splits if_splits)

end
