(* ===== verification/Frontend_Registry.thy ===== *)
theory Frontend_Registry
  imports Resolver
begin

text \<open>
  The frontend registry (\<open>packages/plugin-runtime/src/frontendRegistry.ts\<close>): a frontend's runtime
  contributions are checked against the signed manifest, filtered by what the host makes
  available, and listed by the host's shell.
\<close>

section \<open>Contributions\<close>

datatype frontend_error =
    PluginAlreadyActive | PluginNotActive | PluginIdentityMismatch | ContributionNotNamespaced
  | DuplicateContributionId | InvalidRoutePath | InvalidContributionAvailability
  | MissingRouteReference | ManifestContributionMismatch

record fe_route =
  fr_id :: string
  fr_scope :: route_scope
  fr_relativePath :: string

record fe_navigation =
  fn_id :: string
  fn_routeId :: string
  fn_section :: nav_section
  fn_destination :: "nav_destination option"
  fn_parentDestination :: "nav_parent option"
  fn_order :: "int option"

record fe_slot =
  fl_id :: string
  fl_slot :: string
  fl_order :: "int option"

record fe_settings =
  ft_id :: string
  ft_routeId :: string
  ft_scope :: settings_scope
  ft_order :: "int option"

record contribution_set =
  cs_routes :: "fe_route list"
  cs_navigation :: "fe_navigation list"
  cs_slots :: "fe_slot list"
  cs_settings :: "fe_settings list"

text \<open>A runtime contribution as the manifest would declare it; runtime settings carry no schema.\<close>

definition route_contribution :: "fe_route \<Rightarrow> contribution" where
  "route_contribution r = Route (fr_id r) (fr_scope r) (fr_relativePath r)"

definition navigation_contribution :: "fe_navigation \<Rightarrow> contribution" where
  "navigation_contribution n =
     Navigation (fn_id n) (fn_routeId n) (fn_section n) (fn_destination n) (fn_parentDestination n)"

definition slot_contribution :: "fe_slot \<Rightarrow> contribution" where
  "slot_contribution s = Slot (fl_id s) (fl_slot s)"

definition settings_contribution :: "fe_settings \<Rightarrow> contribution" where
  "settings_contribution s = Settings (ft_id s) (ft_routeId s) (ft_scope s) None"

definition allRuntimeContributions :: "contribution_set \<Rightarrow> contribution list" where
  "allRuntimeContributions c =
     map route_contribution (cs_routes c) @ map navigation_contribution (cs_navigation c) @
     map slot_contribution (cs_slots c) @ map settings_contribution (cs_settings c)"

definition runtime_ids :: "contribution_set \<Rightarrow> string list" where
  "runtime_ids c = map contribution_id (allRuntimeContributions c)"

text \<open>The \<open>matches\<close> of a runtime contribution and the declared one, of the same kind.\<close>

fun same_declaration :: "contribution \<Rightarrow> contribution \<Rightarrow> bool" where
  "same_declaration (Route i sc p) (Route j sc' p') \<longleftrightarrow> sc = sc' \<and> p = p'"
| "same_declaration (Navigation i r se de pa) (Navigation j r' se' de' pa') \<longleftrightarrow> r = r' \<and> se = se' \<and> de = de' \<and> pa = pa'"
| "same_declaration (Slot i s) (Slot j s') \<longleftrightarrow> s = s'"
| "same_declaration (Settings i r sc sch) (Settings j r' sc' sch') \<longleftrightarrow> r = r' \<and> sc = sc'"
| "same_declaration c d \<longleftrightarrow> False"

definition isSafeRoutePath :: "string \<Rightarrow> bool" where
  "isSafeRoutePath path \<longleftrightarrow> \<not> (length path = 0 \<or> length path > 500 \<or> starts_with ''/'' path \<or>
       CHR 0x5C \<in> set path \<or> CHR ''?'' \<in> set path \<or> CHR ''#'' \<in> set path) \<and>
     \<not> list_ex (\<lambda>segment. segment = [] \<or> segment = ''.'' \<or> segment = ''..'') (split_on CHR ''/'' path)"

section \<open>Activation\<close>

record activation =
  fa_pluginId :: string
  fa_version :: string
  fa_manifest :: manifest
  fa_contributions :: contribution_set
  fa_availableContributionIds :: "string list option"

text \<open>The first loop, with the set of the ids met so far.\<close>

fun runtimeIdsError :: "string \<Rightarrow> string list \<Rightarrow> string list \<Rightarrow> frontend_error option" where
  "runtimeIdsError prefix ids [] = None"
| "runtimeIdsError prefix ids (i # is) =
     (if \<not> starts_with prefix i then Some ContributionNotNamespaced
      else if i \<in> set ids then Some DuplicateContributionId
      else runtimeIdsError prefix (i # ids) is)"

definition declaredById :: "manifest \<Rightarrow> (string \<times> contribution) list" where
  "declaredById m = fold (\<lambda>c. put (contribution_id c) c) (mf_contributions m) []"

definition declaration_matches :: "manifest \<Rightarrow> contribution \<Rightarrow> bool" where
  "declaration_matches m runtime \<longleftrightarrow>
     (case map_of (declaredById m) (contribution_id runtime) of
        None \<Rightarrow> False
      | Some declared \<Rightarrow> same_declaration runtime declared)"

definition assertActivationValid :: "activation \<Rightarrow> frontend_error + contribution_set" where
  "assertActivationValid a =
     (let c = fa_contributions a; routeIds = map fr_id (cs_routes c)
      in if mf_id (fa_manifest a) \<noteq> fa_pluginId a \<or> mf_version (fa_manifest a) \<noteq> fa_version a
         then Inl PluginIdentityMismatch
         else case runtimeIdsError (fa_pluginId a @ ''.'') [] (runtime_ids c) of
           Some e \<Rightarrow> Inl e
         | None \<Rightarrow>
             if list_ex (\<lambda>r. \<not> isSafeRoutePath (fr_relativePath r)) (cs_routes c) then Inl InvalidRoutePath
             else if list_ex (\<lambda>n. fn_routeId n \<notin> set routeIds) (cs_navigation c) then Inl MissingRouteReference
             else if list_ex (\<lambda>s. ft_routeId s \<notin> set routeIds) (cs_settings c) then Inl MissingRouteReference
             else if length (declaredById (fa_manifest a)) \<noteq> length (allRuntimeContributions c)
             then Inl ManifestContributionMismatch
             else if list_ex (\<lambda>r. \<not> declaration_matches (fa_manifest a) r) (allRuntimeContributions c)
             then Inl ManifestContributionMismatch
             else Inr c)"

definition filterAvailableContributions ::
  "contribution_set \<Rightarrow> string list option \<Rightarrow> frontend_error + contribution_set" where
  "filterAvailableContributions c availableIds =
     (case availableIds of
        None \<Rightarrow> Inr c
      | Some ids \<Rightarrow>
          if length (set_of_list ids) \<noteq> length ids then Inl InvalidContributionAvailability
          else if list_ex (\<lambda>i. i \<notin> set (runtime_ids c)) (set_of_list ids) then Inl InvalidContributionAvailability
          else
            let routes = filter (\<lambda>r. fr_id r \<in> set ids) (cs_routes c); routeIds = map fr_id routes
            in Inr \<lparr>cs_routes = routes,
                 cs_navigation = filter (\<lambda>n. fn_id n \<in> set ids \<and> fn_routeId n \<in> set routeIds) (cs_navigation c),
                 cs_slots = filter (\<lambda>s. fl_id s \<in> set ids) (cs_slots c),
                 cs_settings = filter (\<lambda>s. ft_id s \<in> set ids \<and> ft_routeId s \<in> set routeIds) (cs_settings c)\<rparr>)"

record active_plugin =
  ap_pluginId :: string
  ap_version :: string
  ap_contributions :: contribution_set

type_synonym frontend_registry = "(string \<times> active_plugin) list"

definition activation_record :: "activation \<Rightarrow> frontend_error + active_plugin" where
  "activation_record a =
     bind_res (assertActivationValid a) (\<lambda>c.
     bind_res (filterAvailableContributions c (fa_availableContributionIds a)) (\<lambda>c.
       Inr \<lparr>ap_pluginId = fa_pluginId a, ap_version = fa_version a, ap_contributions = c\<rparr>))"

definition activate :: "activation \<Rightarrow> frontend_registry \<Rightarrow> frontend_error + (active_plugin \<times> frontend_registry)" where
  "activate a reg =
     (if map_of reg (fa_pluginId a) \<noteq> None then Inl PluginAlreadyActive
      else bind_res (activation_record a) (\<lambda>p. Inr (p, put (fa_pluginId a) p reg)))"

definition replace_plugin :: "activation \<Rightarrow> frontend_registry \<Rightarrow> frontend_error + (active_plugin \<times> frontend_registry)" where
  "replace_plugin a reg =
     (if map_of reg (fa_pluginId a) = None then Inl PluginNotActive
      else bind_res (activation_record a) (\<lambda>p. Inr (p, put (fa_pluginId a) p reg)))"

definition deactivate :: "string \<Rightarrow> frontend_registry \<Rightarrow> bool \<times> frontend_registry" where
  "deactivate pluginId reg = (map_of reg pluginId \<noteq> None, del pluginId reg)"

definition clear_plugins :: "frontend_registry \<Rightarrow> frontend_registry" where
  "clear_plugins reg = []"

definition getPlugin :: "frontend_registry \<Rightarrow> string \<Rightarrow> active_plugin option" where
  "getPlugin reg pluginId = map_of reg pluginId"

section \<open>Listing\<close>

definition by_plugin_and_id :: "resolver_lib \<Rightarrow> (string \<times> 'a) \<Rightarrow> (string \<times> 'a) \<Rightarrow> ('a \<Rightarrow> string) \<Rightarrow> int" where
  "by_plugin_and_id lib a b ident =
     or_else (localeCompare lib (fst a) (fst b)) (localeCompare lib (ident (snd a)) (ident (snd b)))"

definition compareOrdered ::
  "resolver_lib \<Rightarrow> ('a \<Rightarrow> string) \<Rightarrow> ('a \<Rightarrow> int option) \<Rightarrow> string \<times> 'a \<Rightarrow> string \<times> 'a \<Rightarrow> int" where
  "compareOrdered lib ident order a b =
     or_else ((case order (snd a) of None \<Rightarrow> 100 | Some n \<Rightarrow> n) - (case order (snd b) of None \<Rightarrow> 100 | Some n \<Rightarrow> n))
       (by_plugin_and_id lib a b ident)"

text \<open>\<open>[...active.values()].flatMap(...)\<close>: the items of every plugin with its id.\<close>

definition collect_items :: "(contribution_set \<Rightarrow> 'a list) \<Rightarrow> ('a \<Rightarrow> bool) \<Rightarrow> frontend_registry \<Rightarrow> (string \<times> 'a) list" where
  "collect_items items keep reg =
     concat (map (\<lambda>(k, p). map (Pair (ap_pluginId p)) (filter keep (items (ap_contributions p)))) reg)"

definition getRoutes :: "resolver_lib \<Rightarrow> route_scope \<Rightarrow> frontend_registry \<Rightarrow> (string \<times> fe_route) list" where
  "getRoutes lib scope reg =
     js_sort (\<lambda>a b. by_plugin_and_id lib a b fr_id) (collect_items cs_routes (\<lambda>r. fr_scope r = scope) reg)"

definition getNavigation :: "resolver_lib \<Rightarrow> nav_section \<Rightarrow> frontend_registry \<Rightarrow> (string \<times> fe_navigation) list" where
  "getNavigation lib sec reg =
     js_sort (compareOrdered lib fn_id fn_order) (collect_items cs_navigation (\<lambda>n. fn_section n = sec) reg)"

definition getSlotContributions :: "resolver_lib \<Rightarrow> string \<Rightarrow> frontend_registry \<Rightarrow> (string \<times> fe_slot) list" where
  "getSlotContributions lib slot reg =
     js_sort (compareOrdered lib fl_id fl_order) (collect_items cs_slots (\<lambda>s. fl_slot s = slot) reg)"

definition getSettings :: "resolver_lib \<Rightarrow> settings_scope \<Rightarrow> frontend_registry \<Rightarrow> (string \<times> fe_settings) list" where
  "getSettings lib scope reg =
     js_sort (compareOrdered lib ft_id ft_order) (collect_items cs_settings (\<lambda>s. ft_scope s = scope) reg)"

definition listPlugins :: "resolver_lib \<Rightarrow> frontend_registry \<Rightarrow> active_plugin list" where
  "listPlugins lib reg = js_sort (\<lambda>a b. localeCompare lib (ap_pluginId a) (ap_pluginId b)) (map snd reg)"

section \<open>What an activation exposes\<close>

lemma runtimeIdsError_None:
  "runtimeIdsError p met ids = None \<longleftrightarrow> list_all (starts_with p) ids \<and> distinct ids \<and> set ids \<inter> set met = {}"
  by (induction ids arbitrary: met) auto

lemma same_declaration_route: "same_declaration c d \<Longrightarrow> contribution_route c = contribution_route d"
  by (cases c; cases d) auto

lemma keys_fold_put: "fst ` set (fold (\<lambda>x. put (f x) x) xs m) = f ` set xs \<union> fst ` set m"
  by (induction xs arbitrary: m) (auto simp: keys_put)

lemma declaredById_keys: "fst ` set (declaredById m) = contribution_id ` set (mf_contributions m)"
  by (simp add: declaredById_def keys_fold_put)

lemma declaredById_distinct: "distinct (map fst (declaredById m))"
  by (simp add: declaredById_def distinct_fold_put)

text \<open>The routes an item of the set refers to are routes of the set.\<close>

definition no_dangling :: "contribution_set \<Rightarrow> bool" where
  "no_dangling c \<longleftrightarrow> (\<forall>r \<in> fn_routeId ` set (cs_navigation c) \<union> ft_routeId ` set (cs_settings c). r \<in> fr_id ` set (cs_routes c))"

lemma valid_activation:
  assumes "assertActivationValid a = Inr c"
  shows "c = fa_contributions a" and "distinct (runtime_ids c)" and "list_all (starts_with (fa_pluginId a @ ''.'')) (runtime_ids c)"
    and "set (runtime_ids c) = contribution_id ` set (mf_contributions (fa_manifest a))"
    and "r \<in> set (allRuntimeContributions c) \<Longrightarrow>
      \<exists>d. map_of (declaredById (fa_manifest a)) (contribution_id r) = Some d \<and> same_declaration r d"
    and "no_dangling c"
    and "mf_id (fa_manifest a) = fa_pluginId a" and "mf_version (fa_manifest a) = fa_version a"
proof -
  note run = assms [unfolded assertActivationValid_def Let_def]
  show c: "c = fa_contributions a" "mf_id (fa_manifest a) = fa_pluginId a" "mf_version (fa_manifest a) = fa_version a"
    using run by (auto split: if_splits option.splits)
  from run c(1) have ids: "runtimeIdsError (fa_pluginId a @ ''.'') [] (runtime_ids c) = None"
    and len: "length (declaredById (fa_manifest a)) = length (allRuntimeContributions c)"
    and found: "\<forall>r \<in> set (allRuntimeContributions c). declaration_matches (fa_manifest a) r"
    and routes: "no_dangling c"
    by (auto simp: list_ex_iff no_dangling_def split: if_splits option.splits)
  from ids show dist: "distinct (runtime_ids c)" and "list_all (starts_with (fa_pluginId a @ ''.'')) (runtime_ids c)"
    by (simp_all add: runtimeIdsError_None)
  from found show match: "\<exists>d. map_of (declaredById (fa_manifest a)) (contribution_id r) = Some d \<and> same_declaration r d"
    if "r \<in> set (allRuntimeContributions c)" for r
    using that by (force simp: declaration_matches_def split: option.splits)
  show "no_dangling c" by (rule routes)
  let ?D = "fst ` set (declaredById (fa_manifest a))"
  have sub: "set (runtime_ids c) \<subseteq> ?D"
    using match by (auto simp: runtime_ids_def dest!: map_of_SomeD) (force dest: map_of_SomeD)
  have "card (set (runtime_ids c)) = length (runtime_ids c)" by (rule distinct_card [OF dist])
  moreover have "card ?D = length (declaredById (fa_manifest a))"
    using distinct_card [OF declaredById_distinct [of "fa_manifest a"]] by simp
  ultimately have "set (runtime_ids c) = ?D"
    using len sub by (intro card_subset_eq) (simp_all add: runtime_ids_def)
  then show "set (runtime_ids c) = contribution_id ` set (mf_contributions (fa_manifest a))"
    by (simp only: declaredById_keys)
qed

text \<open>What is available of a contribution: its id, and its route when it has one.\<close>

definition shown :: "string list option \<Rightarrow> contribution \<Rightarrow> bool" where
  "shown availableIds c \<longleftrightarrow>
     (case availableIds of
        None \<Rightarrow> True
      | Some ids \<Rightarrow> contribution_id c \<in> set ids \<and>
          (case contribution_route c of None \<Rightarrow> True | Some r \<Rightarrow> r \<in> set ids))"

lemma contribution_simps [simp]:
  "contribution_id (route_contribution r) = fr_id r" "contribution_id (navigation_contribution n) = fn_id n"
  "contribution_id (slot_contribution s) = fl_id s" "contribution_id (settings_contribution t) = ft_id t"
  "contribution_route (route_contribution r) = None" "contribution_route (navigation_contribution n) = Some (fn_routeId n)"
  "contribution_route (slot_contribution s) = None" "contribution_route (settings_contribution t) = Some (ft_routeId t)"
  by (simp_all add: route_contribution_def navigation_contribution_def slot_contribution_def settings_contribution_def)

lemma filter_available:
  assumes "filterAvailableContributions c ids = Inr c'" and "no_dangling c"
  shows "set (allRuntimeContributions c') = {r \<in> set (allRuntimeContributions c). shown ids r}" and "no_dangling c'"
proof -
  have both: "set (allRuntimeContributions c') = {r \<in> set (allRuntimeContributions c). shown ids r} \<and> no_dangling c'"
  proof (cases ids)
    case None
    with assms show ?thesis by (auto simp: filterAvailableContributions_def shown_def)
  next
    case (Some av)
    have route: "fn_routeId n \<in> fr_id ` set (cs_routes c)" if "n \<in> set (cs_navigation c)" for n
      using assms(2) that by (simp add: no_dangling_def)
    have route': "ft_routeId t \<in> fr_id ` set (cs_routes c)" if "t \<in> set (cs_settings c)" for t
      using assms(2) that by (simp add: no_dangling_def)
    from assms(1) Some have c': "cs_routes c' = filter (\<lambda>r. fr_id r \<in> set av) (cs_routes c)"
        "cs_navigation c' = filter (\<lambda>n. fn_id n \<in> set av \<and> fn_routeId n \<in> fr_id ` set (cs_routes c')) (cs_navigation c)"
        "cs_slots c' = filter (\<lambda>s. fl_id s \<in> set av) (cs_slots c)"
        "cs_settings c' = filter (\<lambda>s. ft_id s \<in> set av \<and> ft_routeId s \<in> fr_id ` set (cs_routes c')) (cs_settings c)"
      by (auto simp: filterAvailableContributions_def Let_def split: if_splits)
    have avail: "r \<in> fr_id ` set (cs_routes c') \<longleftrightarrow> r \<in> set av" if "r \<in> fr_id ` set (cs_routes c)" for r
      using that by (auto simp: c'(1))
    have nav: "set (cs_navigation c') = {n \<in> set (cs_navigation c). fn_id n \<in> set av \<and> fn_routeId n \<in> set av}"
      using route avail unfolding c'(2) by auto
    have set: "set (cs_settings c') = {t \<in> set (cs_settings c). ft_id t \<in> set av \<and> ft_routeId t \<in> set av}"
      using route' avail unfolding c'(4) by auto
    have "no_dangling c'" unfolding no_dangling_def c'(2,4) by auto
    moreover have "set (allRuntimeContributions c') = {r \<in> set (allRuntimeContributions c). shown ids r}"
      unfolding allRuntimeContributions_def set_append set_map nav set c'(1,3) Some by (auto simp: shown_def)
    ultimately show ?thesis by blast
  qed
  then show "set (allRuntimeContributions c') = {r \<in> set (allRuntimeContributions c). shown ids r}" "no_dangling c'"
    by blast+
qed


lemma declaredById_found:
  assumes "distinct (map contribution_id (mf_contributions m))"
  shows "map_of (declaredById m) i = Some d \<longleftrightarrow> d \<in> set (mf_contributions m) \<and> contribution_id d = i"
proof -
  have "map_of (fold (\<lambda>c. put (contribution_id c) c) cs acc) i =
      (if i \<in> contribution_id ` set cs then find (\<lambda>c. contribution_id c = i) cs else map_of acc i)"
    if "distinct (map contribution_id cs)" for cs acc
    using that
  proof (induction cs arbitrary: acc)
    case (Cons c cs)
    then show ?case by (auto simp: image_iff)
  qed simp
  from this [OF assms, of "[]"] have "map_of (declaredById m) i =
      (if i \<in> contribution_id ` set (mf_contributions m)
       then find (\<lambda>c. contribution_id c = i) (mf_contributions m) else None)"
    by (simp add: declaredById_def)
  moreover have "find (\<lambda>c. contribution_id c = i) cs = Some d \<longleftrightarrow> d \<in> set cs \<and> contribution_id d = i"
    if "distinct (map contribution_id cs)" for cs
    using that by (induction cs) auto
  ultimately show ?thesis using assms by auto
qed

text \<open>
  An activation shows the declared contributions that are available, each as declared; every
  navigation and settings entry has its route.
\<close>

lemma activation_exposes:
  assumes run: "activation_record a = Inr p"
    and dist: "distinct (map contribution_id (mf_contributions (fa_manifest a)))"
  shows "contribution_id ` set (allRuntimeContributions (ap_contributions p)) =
      contribution_id ` {d \<in> set (mf_contributions (fa_manifest a)). shown (fa_availableContributionIds a) d}"
    and "r \<in> set (allRuntimeContributions (ap_contributions p)) \<Longrightarrow>
      \<exists>d \<in> set (mf_contributions (fa_manifest a)). contribution_id d = contribution_id r \<and> same_declaration r d"
    and "no_dangling (ap_contributions p)"
proof -
  let ?avail = "fa_availableContributionIds a" and ?m = "fa_manifest a"
  from run obtain c where valid: "assertActivationValid a = Inr c"
    and filt: "filterAvailableContributions c ?avail = Inr (ap_contributions p)"
    by (auto simp: activation_record_def)
  note v = valid_activation [OF valid] and f = filter_available [OF filt valid_activation(6) [OF valid]]
  have match: "\<exists>d \<in> set (mf_contributions ?m). contribution_id d = contribution_id r \<and> same_declaration r d \<and>
      (shown ?avail d \<longleftrightarrow> shown ?avail r)" if r: "r \<in> set (allRuntimeContributions c)" for r
  proof -
    from v(5) [OF r] obtain d where "d \<in> set (mf_contributions ?m)" "contribution_id d = contribution_id r"
      "same_declaration r d"
      using declaredById_found [OF dist] by blast
    with same_declaration_route [of r d] show ?thesis by (auto simp: shown_def split: option.splits)
  qed
  show "no_dangling (ap_contributions p)" by (rule f(2))
  show "r \<in> set (allRuntimeContributions (ap_contributions p)) \<Longrightarrow>
      \<exists>d \<in> set (mf_contributions ?m). contribution_id d = contribution_id r \<and> same_declaration r d"
    using match unfolding f(1) by blast
  have unique: "d = e" if "d \<in> set (mf_contributions ?m)" "e \<in> set (mf_contributions ?m)"
    "contribution_id d = contribution_id e" for d e
    using dist that by (auto simp: distinct_map inj_on_def)
  show "contribution_id ` set (allRuntimeContributions (ap_contributions p)) =
      contribution_id ` {d \<in> set (mf_contributions ?m). shown ?avail d}"
  proof (intro set_eqI iffI)
    fix i assume "i \<in> contribution_id ` set (allRuntimeContributions (ap_contributions p))"
    then show "i \<in> contribution_id ` {d \<in> set (mf_contributions ?m). shown ?avail d}"
      unfolding f(1) using match by (force simp: image_iff)
  next
    fix i assume "i \<in> contribution_id ` {d \<in> set (mf_contributions ?m). shown ?avail d}"
    then obtain d where d: "d \<in> set (mf_contributions ?m)" "shown ?avail d" "i = contribution_id d" by blast
    then have "i \<in> set (runtime_ids c)" using v(4) by blast
    then obtain r where r: "r \<in> set (allRuntimeContributions c)" "contribution_id r = i" by (auto simp: runtime_ids_def)
    from match [OF r(1)] d r(2) unique have "shown ?avail r" by metis
    with r show "i \<in> contribution_id ` set (allRuntimeContributions (ap_contributions p))"
      unfolding f(1) by blast
  qed
qed

end
