(* ===== verification/Plugin_Names.thy ===== *)
theory Plugin_Names
  imports Js_Value
begin

text \<open>
  The names a plugin gets in Compose and Kubernetes (\<open>packages/plugin-installer/src/index.ts\<close>) and
  the URL the host calls it under (\<open>packages/backend-host/src/plugins\<close>).
\<close>

definition slug :: "string \<Rightarrow> string" where
  "slug pluginId = map (\<lambda>c. if c = CHR ''.'' then CHR ''-'' else c) pluginId"

definition pluginComposeServiceNameV1 :: "string \<Rightarrow> string" where
  "pluginComposeServiceNameV1 pluginId = ''eg-plugin-'' @ slug pluginId"

text \<open>\<open>/^[a-z][a-z0-9-]*$/\<close>\<close>

definition storage_name_ok :: "string \<Rightarrow> bool" where
  "storage_name_ok s \<longleftrightarrow> s \<noteq> [] \<and> is_lower (hd s) \<and> list_all (\<lambda>c. is_lower_alnum c \<or> c = CHR ''-'') s"

definition schema_part :: "int \<Rightarrow> string" where
  "schema_part v = (if v = 0 then [] else ''-schema-'' @ show_int v)"

text \<open>\<open>None\<close>: an \<open>Error\<close> is thrown.\<close>

definition pluginComposeVolumeKeyV1 :: "string \<Rightarrow> int \<Rightarrow> string \<Rightarrow> string option" where
  "pluginComposeVolumeKeyV1 pluginId dataSchemaVersion storageName =
     (if dataSchemaVersion < 0 \<or> \<not> storage_name_ok storageName then None
      else Some (''eg-plugin-'' @ slug pluginId @ schema_part dataSchemaVersion @ ''-'' @ storageName))"

text \<open>\<open>base.slice(0, 52).replace(/-+$/g, '')\<close>\<close>

definition strip_dashes :: "string \<Rightarrow> string" where
  "strip_dashes s = rev (dropWhile (\<lambda>c. c = CHR ''-'') (rev s))"

definition kubernetesBoundedName :: "host \<Rightarrow> string \<Rightarrow> string \<Rightarrow> string" where
  "kubernetesBoundedName h base identity =
     (if length base \<le> 63 then base
      else strip_dashes (take 52 base) @ ''-'' @ take 10 (sha256 h identity))"

definition pluginKubernetesResourceNameV1 :: "host \<Rightarrow> string \<Rightarrow> string" where
  "pluginKubernetesResourceNameV1 h pluginId = kubernetesBoundedName h (''eg-plugin-'' @ slug pluginId) pluginId"

definition pluginKubernetesPvcNameV1 :: "host \<Rightarrow> string \<Rightarrow> int \<Rightarrow> string \<Rightarrow> string option" where
  "pluginKubernetesPvcNameV1 h pluginId dataSchemaVersion storageName =
     (if dataSchemaVersion < 0 \<or> \<not> storage_name_ok storageName then None
      else Some (kubernetesBoundedName h
        (pluginKubernetesResourceNameV1 h pluginId @ schema_part dataSchemaVersion @ ''-'' @ storageName)
        (pluginId @ '':'' @ show_int dataSchemaVersion @ '':'' @ storageName)))"

text \<open>The host name of \<open>pluginServiceBaseUrl\<close>.\<close>

definition pluginServiceHost :: "string \<Rightarrow> string" where
  "pluginServiceHost pluginId = ''eg-plugin-'' @ slug pluginId"

section \<open>Kubernetes names\<close>

text \<open>A DNS label: at most 63 characters, letters, digits and inner hyphens.\<close>

definition dns_1123_label :: "string \<Rightarrow> bool" where
  "dns_1123_label s \<longleftrightarrow> dns_label s \<and> length s \<le> 63"

lemma strip_dashes_prefix: "\<exists>ds. s = strip_dashes s @ ds"
proof -
  have "rev (takeWhile (\<lambda>c. c = CHR ''-'') (rev s) @ dropWhile (\<lambda>c. c = CHR ''-'') (rev s)) = s" by simp
  then have "s = strip_dashes s @ rev (takeWhile (\<lambda>c. c = CHR ''-'') (rev s))"
    by (simp only: rev_append strip_dashes_def)
  then show ?thesis by blast
qed

lemma length_strip_dashes: "length (strip_dashes s) \<le> length s"
  using length_dropWhile_le [of "\<lambda>c. c = CHR ''-''" "rev s"] by (simp add: strip_dashes_def)

lemma bounded_name_length: "length (kubernetesBoundedName h base identity) \<le> 63"
proof -
  have "length (strip_dashes (take 52 base)) \<le> 52"
    using length_strip_dashes [of "take 52 base"] by simp
  then show ?thesis by (auto simp: kubernetesBoundedName_def)
qed

lemma lower_hex_alnum: "is_lower_hex c \<Longrightarrow> is_lower_alnum c"
  by (auto simp: is_lower_hex_def is_lower_alnum_def is_lower_def)

lemma hd_strip: "hd s \<noteq> CHR ''-'' \<Longrightarrow> s \<noteq> [] \<Longrightarrow> strip_dashes s \<noteq> [] \<and> hd (strip_dashes s) = hd s"
proof -
  assume s: "hd s \<noteq> CHR ''-''" "s \<noteq> []"
  have "hd s \<in> set s" using s(2) by simp
  with s(1) have "\<exists>c \<in> set (rev s). c \<noteq> CHR ''-''" by auto
  then have ne: "strip_dashes s \<noteq> []" by (simp add: strip_dashes_def dropWhile_eq_Nil_conv)
  obtain ds where ds: "s = strip_dashes s @ ds" using strip_dashes_prefix by blast
  have "hd (strip_dashes s @ ds) = hd (strip_dashes s)" using ne by simp
  with ds ne show ?thesis by simp
qed

text \<open>A DNS label stays one when it is shortened.\<close>

lemma bounded_name_label:
  assumes hash: "is_sha256_hex (sha256 h identity)" and base: "dns_label base"
  shows "dns_1123_label (kubernetesBoundedName h base identity)"
proof (cases "length base \<le> 63")
  case True
  with base show ?thesis by (simp add: kubernetesBoundedName_def dns_1123_label_def)
next
  case False
  let ?s = "strip_dashes (take 52 base)" and ?t = "take 10 (sha256 h identity)"
  from base have b: "base \<noteq> []" "is_lower_alnum (hd base)" "list_all (\<lambda>c. is_lower_alnum c \<or> c = CHR ''-'') base"
    by (simp_all add: dns_label_def)
  have dash: "\<not> is_lower_alnum CHR ''-''" by code_simp
  have "hd (take 52 base) = hd base" "take 52 base \<noteq> []" using b(1) by (simp_all add: hd_take)
  moreover have "hd base \<noteq> CHR ''-''" using b(2) dash by metis
  ultimately have s: "?s \<noteq> []" "is_lower_alnum (hd ?s)"
    using hd_strip [of "take 52 base"] b(2) by simp_all
  obtain ds where "take 52 base = ?s @ ds" using strip_dashes_prefix by blast
  then have "set ?s \<subseteq> set base" by (metis set_append set_take_subset sup.cobounded1 subset_trans)
  with b(3) have all: "list_all (\<lambda>c. is_lower_alnum c \<or> c = CHR ''-'') ?s" by (auto simp: list_all_iff)
  from hash have t: "length ?t = 10" "list_all is_lower_alnum ?t"
    by (auto simp: is_sha256_hex_def list_all_iff lower_hex_alnum dest: in_set_takeD)
  then have "?t \<noteq> []" by auto
  then have t': "?t \<noteq> []" "is_lower_alnum (last ?t)" "list_all (\<lambda>c. is_lower_alnum c \<or> c = CHR ''-'') ?t"
    using t(2) last_in_set [of ?t] by (auto simp: list_all_iff)
  have "kubernetesBoundedName h base identity = ?s @ ''-'' @ ?t" using False by (simp add: kubernetesBoundedName_def)
  moreover have "dns_label (?s @ ''-'' @ ?t)"
    using s all t' by (simp add: dns_label_def)
  ultimately show ?thesis
    using bounded_name_length [of h base identity] unfolding dns_1123_label_def by metis
qed

lemma last_join:
  "ws \<noteq> [] \<Longrightarrow> last ws \<noteq> [] \<Longrightarrow> join sep ws \<noteq> [] \<and> last (join sep ws) = last (last ws)"
  by (induction sep ws rule: join.induct) (auto split: if_splits)

lemma slug_label_chars:
  assumes "pluginIdSchema pluginId"
  shows "list_all (\<lambda>c. is_lower_alnum c \<or> c = CHR ''-'') (slug pluginId)" and "slug pluginId \<noteq> []"
    and "is_lower_alnum (last (slug pluginId))"
proof -
  let ?labels = "split_on CHR ''.'' pluginId"
  from assms have labels: "list_all dns_label ?labels" and len: "3 \<le> length pluginId" "2 \<le> length ?labels"
    by (auto simp: pluginIdSchema_def pluginIdPattern_def Let_def)
  have id: "join ''.'' ?labels = pluginId" by (rule join_split_on)
  have chars: "c = CHR ''.'' \<or> (\<exists>w \<in> set ws. c \<in> set w)" if "c \<in> set (join ''.'' ws)" for c and ws :: "string list"
    using that by (induction "''.''" ws rule: join.induct) auto
  show "list_all (\<lambda>c. is_lower_alnum c \<or> c = CHR ''-'') (slug pluginId)"
    unfolding list_all_iff
  proof
    fix d assume "d \<in> set (slug pluginId)"
    then obtain c where c: "c \<in> set pluginId" "d = (if c = CHR ''.'' then CHR ''-'' else c)" by (auto simp: slug_def)
    have "c = CHR ''.'' \<or> (\<exists>w \<in> set ?labels. c \<in> set w)" using chars [of c ?labels] c(1) id by simp
    then show "is_lower_alnum d \<or> d = CHR ''-''"
      using labels c(2) by (auto simp: list_all_iff dns_label_def)
  qed
  show "slug pluginId \<noteq> []" using len(1) by (auto simp: slug_def)
  have lab: "dns_label (last ?labels)" "?labels \<noteq> []" using labels len(2) by (auto simp: list_all_iff)
  then have "last pluginId = last (last ?labels)" "is_lower_alnum (last (last ?labels))"
    using last_join [of ?labels "''.''"] id by (auto simp: dns_label_def)
  then have "is_lower_alnum (last pluginId)" by simp
  moreover have "\<not> is_lower_alnum CHR ''.''" by code_simp
  ultimately show "is_lower_alnum (last (slug pluginId))"
    using len(1) by (cases pluginId rule: rev_cases) (auto simp: slug_def)
qed

lemma resource_name_label:
  assumes "host_ok h" and "pluginIdSchema pluginId"
  shows "dns_1123_label (pluginKubernetesResourceNameV1 h pluginId)"
proof -
  note s = slug_label_chars [OF assms(2)]
  have e: "list_all (\<lambda>c. is_lower_alnum c \<or> c = CHR ''-'') ''eg-plugin-''" "is_lower_alnum CHR ''e''" by code_simp+
  have "dns_label (''eg-plugin-'' @ slug pluginId)"
    using s e by (simp add: dns_label_def)
  then show ?thesis
    using assms(1) unfolding pluginKubernetesResourceNameV1_def by (intro bounded_name_label) (simp_all add: host_ok_def)
qed

lemma pvc_name_label:
  assumes "host_ok h" and "pluginIdSchema pluginId" and "pluginKubernetesPvcNameV1 h pluginId v s = Some name"
    and "is_lower_alnum (last s)"
  shows "dns_1123_label name"
proof -
  let ?r = "pluginKubernetesResourceNameV1 h pluginId"
  from assms(3) have name: "name = kubernetesBoundedName h (?r @ schema_part v @ ''-'' @ s) (pluginId @ '':'' @ show_int v @ '':'' @ s)"
    and v: "0 \<le> v" and s: "storage_name_ok s"
    by (auto simp: pluginKubernetesPvcNameV1_def split: if_splits)
  have r: "dns_label ?r" using resource_name_label [OF assms(1,2)] by (simp add: dns_1123_label_def)
  have "list_all is_digit (show_int v)" using v by (simp add: show_int_def show_nat_digits)
  then have digits: "list_all (\<lambda>c. is_lower_alnum c \<or> c = CHR ''-'') (show_int v)"
    by (auto simp: list_all_iff is_lower_alnum_def)
  have sch: "list_all (\<lambda>c. is_lower_alnum c \<or> c = CHR ''-'') ''-schema-''" by code_simp
  have "dns_label (?r @ schema_part v @ ''-'' @ s)"
    using r s assms(4) digits sch by (auto simp: dns_label_def schema_part_def storage_name_ok_def)
  then show ?thesis
    unfolding name using assms(1) by (intro bounded_name_label) (simp_all add: host_ok_def)
qed

section \<open>Names that coincide\<close>

text \<open>The names only depend on the slug, and the slug forgets which separators were dots.\<close>

lemma names_of_slug:
  assumes "slug p = slug q"
  shows "pluginComposeServiceNameV1 p = pluginComposeServiceNameV1 q" and "pluginServiceHost p = pluginServiceHost q"
    and "pluginComposeVolumeKeyV1 p v s = pluginComposeVolumeKeyV1 q v s"
    and "length p \<le> 53 \<Longrightarrow> pluginKubernetesResourceNameV1 h p = pluginKubernetesResourceNameV1 h q"
proof -
  from assms have len: "length p = length q" by (metis slug_def length_map)
  show "pluginComposeServiceNameV1 p = pluginComposeServiceNameV1 q" "pluginServiceHost p = pluginServiceHost q"
    "pluginComposeVolumeKeyV1 p v s = pluginComposeVolumeKeyV1 q v s"
    using assms by (simp_all add: pluginComposeServiceNameV1_def pluginServiceHost_def pluginComposeVolumeKeyV1_def)
  have "length (slug p) = length p" by (simp add: slug_def)
  then show "length p \<le> 53 \<Longrightarrow> pluginKubernetesResourceNameV1 h p = pluginKubernetesResourceNameV1 h q"
    using assms len by (simp add: pluginKubernetesResourceNameV1_def kubernetesBoundedName_def)
qed

text \<open>A long plugin id has a Kubernetes service the host does not call.\<close>

lemma long_id_unreachable:
  assumes "53 < length pluginId"
  shows "pluginServiceHost pluginId \<noteq> pluginKubernetesResourceNameV1 h pluginId"
proof
  assume "pluginServiceHost pluginId = pluginKubernetesResourceNameV1 h pluginId"
  then have "length (pluginServiceHost pluginId) \<le> 63"
    using bounded_name_length by (simp add: pluginKubernetesResourceNameV1_def)
  with assms show False by (simp add: pluginServiceHost_def slug_def)
qed

end
