(* ===== verification/Host_Properties.thy ===== *)
theory Host_Properties
  imports Gateway_Samples Schedule_Invariant Lifecycle_Registry Frontend_Registry Plugin_Names
begin

text \<open>
  The properties of the host's side of the plugin platform: the broker, the lifecycle and the
  frontend registry, the schedule store, and the names of plugin services.
\<close>

section \<open>The broker\<close>

lemma resource_broker_Inr:
  assumes "executePluginResourceBrokerV1 dt t input load request s = (Inr result, s')"
  obtains claims s1 where
    "claims_authorized t input (prop_str request ''operationId'')
       (permissionForResourceKindV1 (prop_str request ''kind'')) True s claims s1"
    and "resourceBoundToInvocation request claims" and "load request claims s1 = (Inr result, s')"
    and "pluginResourceMetadataResponseV1Schema dt result" and "getp result ''kind'' = getp request ''kind''"
    and "getp result ''engineRef'' = getp request ''engineRef''"
proof -
  from assms obtain claims s1 where
    verified: "verifyBrokerInvocationV1 t input (prop_str request ''operationId'')
       (permissionForResourceKindV1 (prop_str request ''kind'')) True s = (Inr claims, s1)"
    and rest: "(if \<not> resourceBoundToInvocation request claims then broker_throw 403 ResourceDenied
          else broker_bind (load request claims) (\<lambda>result.
            if \<not> truthy result then broker_throw 404 ResourceNotFound
            else if \<not> pluginResourceMetadataResponseV1Schema dt result \<or>
                    getp result ''kind'' \<noteq> getp request ''kind'' \<or>
                    getp result ''engineRef'' \<noteq> getp request ''engineRef''
            then broker_throw 503 PluginUnavailable
            else broker_return result)) s1 = (Inr result, s')"
    by (auto simp: executePluginResourceBrokerV1_def broker_bind_Inr broker_throw_Inr split: if_split_asm)
  from rest have "resourceBoundToInvocation request claims" by (simp add: broker_throw_Inr split: if_split_asm)
  with rest verified that show thesis
    by (auto simp: broker_simps verify_broker_iff split: if_split_asm)
qed

lemma bound_reference:
  assumes "resourceBoundToInvocation request claims"
  shows "\<exists>reference \<in> set (resource_refs claims).
     resource_kind_str (rr_kind reference) = ''engine'' \<and> rr_ref reference = prop_str request ''engineRef'' \<or>
     resource_kind_str (rr_kind reference) = prop_str request ''kind'' \<and> rr_ref reference = resource_target request"
  using assms by (auto simp: resourceBoundToInvocation_def has_ref_def list_ex_iff)

definition at_time :: "host \<Rightarrow> string \<Rightarrow> int \<Rightarrow> int \<Rightarrow> (string \<times> int) list broker_input \<Rightarrow> (string \<times> int) list broker_input" where
  "at_time h callId now storeNow input =
     input\<lparr>bi_now := now, bi_consume := (\<lambda>jti. database_consume h storeNow (bi_pluginId input, jti, callId))\<rparr>"

text \<open>C35: A plugin reads host metadata only with a token signed for it and for a declared operation
  that requires the permission of the resource's kind, granted by manifest, record and token,
  for this deployment and a tenant, and bound to the resource or its engine; the answer is about
  that kind and engine; and the call cannot be made again with the token before it expires.\<close>

theorem broker_read_is_bound_and_consumed:
  assumes keeps: "\<And>r c rows. snd (load r c rows) = rows"
    and run: "executePluginResourceBrokerV1 dt t (at_time h callId now storeNow input) load request rows = (Inr result, rows')"
  shows "\<exists>claims operation. read_claims t (bi_invocationToken input) = Inr claims \<and>
     ic_aud claims = bi_pluginId input \<and>
     findOperation (bi_manifest input) (ic_operationId claims) = Some operation \<and>
     permissionForResourceKindV1 (prop_str request ''kind'') \<in> set (op_requiredPermissions operation) \<inter>
       set (permissionSet (bi_manifest input)) \<inter> set (bi_grantedPermissions input) \<inter> set (ic_grantedPermissions claims) \<and>
     ic_deploymentRef claims = bi_expectedDeploymentRef input \<and> truthy_str (ic_tenantRef claims) \<and>
     (\<exists>reference \<in> set (resource_refs claims).
       resource_kind_str (rr_kind reference) = ''engine'' \<and> rr_ref reference = prop_str request ''engineRef'' \<or>
       resource_kind_str (rr_kind reference) = prop_str request ''kind'' \<and> rr_ref reference = resource_target request) \<and>
     getp result ''kind'' = getp request ''kind'' \<and> getp result ''engineRef'' = getp request ''engineRef'' \<and>
     (\<forall>storeLater. storeLater \<le> ic_exp claims \<longrightarrow>
        (\<forall>later other. fst (executePluginResourceBrokerV1 dt t (at_time h callId later storeLater input) load request rows')
           \<noteq> Inr other))"
proof -
  obtain claims rows1 where auth: "claims_authorized t (at_time h callId now storeNow input) (prop_str request ''operationId'')
       (permissionForResourceKindV1 (prop_str request ''kind'')) True rows claims rows1"
    and bound: "resourceBoundToInvocation request claims" and load: "load request claims rows1 = (Inr result, rows')"
    and answer: "getp result ''kind'' = getp request ''kind''" "getp result ''engineRef'' = getp request ''engineRef''"
    by (rule resource_broker_Inr [OF run]) blast
  have consumed: "database_consume h storeNow (bi_pluginId input, ic_jti claims, callId) (ic_exp claims) rows = (True, rows1)"
    and read: "read_claims t (bi_invocationToken input) = Inr claims"
    using auth by (simp_all add: claims_authorized_def at_time_def)
  have "rows1 = rows'" using keeps [of request claims rows1] load by simp
  with database.records [OF TrueI consumed]
  have recorded: "map_of rows' (replayKeyHash h (bi_pluginId input, ic_jti claims, callId)) = Some (ic_exp claims)" by simp
  have again: "fst (executePluginResourceBrokerV1 dt t (at_time h callId later storeLater input) load request rows') \<noteq> Inr other"
    if "storeLater \<le> ic_exp claims" for later storeLater other
  proof
    assume "fst (executePluginResourceBrokerV1 dt t (at_time h callId later storeLater input) load request rows') = Inr other"
    then obtain rows2 where "executePluginResourceBrokerV1 dt t (at_time h callId later storeLater input) load request rows' = (Inr other, rows2)"
      by (metis prod.collapse)
    then obtain claims2 rows3 where "claims_authorized t (at_time h callId later storeLater input) (prop_str request ''operationId'')
       (permissionForResourceKindV1 (prop_str request ''kind'')) True rows' claims2 rows3"
      by (rule resource_broker_Inr) blast
    then have "claims2 = claims" and "database_consume h storeLater (bi_pluginId input, ic_jti claims2, callId) (ic_exp claims2) rows' = (True, rows3)"
      using read by (simp_all add: claims_authorized_def at_time_def)
    with database.refuses [OF recorded that, of "ic_exp claims"] show False by simp
  qed
  have parts: "operation_permitted input (prop_str request ''operationId'') (permissionForResourceKindV1 (prop_str request ''kind''))"
    "ic_aud claims = bi_pluginId input" "ic_operationId claims = prop_str request ''operationId''"
    "permissionForResourceKindV1 (prop_str request ''kind'') \<in> set (ic_grantedPermissions claims)"
    "ic_deploymentRef claims = bi_expectedDeploymentRef input" "truthy_str (ic_tenantRef claims)"
    using auth by (simp_all add: claims_authorized_def at_time_def operation_permitted_def)
  then obtain operation where "findOperation (bi_manifest input) (ic_operationId claims) = Some operation"
    "permissionForResourceKindV1 (prop_str request ''kind'') \<in> set (op_requiredPermissions operation) \<inter>
       set (permissionSet (bi_manifest input)) \<inter> set (bi_grantedPermissions input) \<inter> set (ic_grantedPermissions claims)"
    by (auto simp: operation_permitted_def split: option.splits)
  with parts read bound_reference [OF bound] answer again show ?thesis by blast
qed

definition sample_resource_request :: jsval where
  "sample_resource_request = JObj [(''apiVersion'', JStr ''resource-request.plugin.enterpriseglue.io/v1''),
     (''callId'', JStr ''call-1''), (''operationId'', JStr ''io.acme.read''), (''engineRef'', JStr ''engine-1''),
     (''kind'', JStr ''engine'')]"

definition sample_resource :: jsval where
  "sample_resource = JObj [(''apiVersion'', JStr ''resource.plugin.enterpriseglue.io/v1''), (''engineRef'', JStr ''engine-1''),
     (''kind'', JStr ''engine''), (''product'', JStr ''operaton''), (''version'', JStr ''1''), (''connected'', JBool True)]"

definition sample_broker :: "(string \<times> int) list broker_input" where
  "sample_broker = \<lparr>bi_pluginId = ''io.acme'', bi_manifest = sample_backend,
     bi_grantedPermissions = [''host.engine.metadata.read''], bi_invocationToken = ''h.p.s'',
     bi_expectedDeploymentRef = ''deployment'', bi_now = 0, bi_consume = (\<lambda>jti e s. (True, s)), bi_isExecutionAllowed = None\<rparr>"

theorem broker_read_is_bound_and_consumed_witness:
  "fst (executePluginResourceBrokerV1 (\<lambda>_. True) sample_tokens (at_time sample_host ''call-1'' 130 130 sample_broker)
     (\<lambda>r c s. (Inr sample_resource, s)) sample_resource_request [(sample_key, 160)]) \<noteq> Inr sample_resource"
proof -
  let ?input = "at_time sample_host ''call-1'' 120 120 sample_broker"
  have schemas: "pluginResourceMetadataRequestV1Schema sample_resource_request"
    "pluginResourceMetadataResponseV1Schema (\<lambda>_. True) sample_resource" "truthy sample_resource"
    "getp sample_resource ''kind'' = getp sample_resource_request ''kind''"
    "getp sample_resource ''engineRef'' = getp sample_resource_request ''engineRef''"
    "permissionForResourceKindV1 (prop_str sample_resource_request ''kind'') = ''host.engine.metadata.read''"
    "prop_str sample_resource_request ''operationId'' = ''io.acme.read''"
    "resourceBoundToInvocation sample_resource_request sample_claims"
    by code_simp+
  have fields: "bi_pluginId sample_broker = ''io.acme''" "bi_invocationToken sample_broker = ''h.p.s''"
    "bi_expectedDeploymentRef sample_broker = ''deployment''" "bi_isExecutionAllowed sample_broker = None"
    "ic_jti sample_claims = ''token-1''" "ic_exp sample_claims = 160" "ic_iat sample_claims = 100"
    "ic_aud sample_claims = ''io.acme''" "ic_operationId sample_claims = ''io.acme.read''"
    "ic_deploymentRef sample_claims = ''deployment''" "ic_tenantRef sample_claims = Some ''tenant''"
    "ic_grantedPermissions sample_claims = [''host.engine.metadata.read'']"
    by (simp_all add: sample_broker_def sample_claims_def)
  have permitted: "operation_permitted sample_broker ''io.acme.read'' ''host.engine.metadata.read''"
    by (simp add: operation_permitted_def sample_broker_def sample_backend_def sample_operation_def findOperation_def
        backendOperations_def permissionSet_def)
  have consume: "database_consume sample_host 120 (''io.acme'', ''token-1'', ''call-1'') 160 [] = (True, [(sample_key, 160)])"
    by (simp add: database_consume_def unexpired_def replayKeyHash_def)
  have "claims_authorized sample_tokens ?input ''io.acme.read'' ''host.engine.metadata.read'' True [] sample_claims [(sample_key, 160)]"
    using permitted consume sample_token_read
    by (simp add: claims_authorized_def at_time_def fields operation_permitted_def)
  then have run: "executePluginResourceBrokerV1 (\<lambda>_. True) sample_tokens ?input
     (\<lambda>r c s. (Inr sample_resource, s)) sample_resource_request [] = (Inr sample_resource, [(sample_key, 160)])"
    unfolding verify_broker_iff [symmetric]
    by (simp add: executePluginResourceBrokerV1_def schemas broker_bind_def broker_return_def)
  have keeps: "\<And>r c rows. snd ((\<lambda>r c s. (Inr sample_resource :: broker_error + jsval, s)) r c (rows :: (string \<times> int) list)) = rows" by simp
  have "bi_invocationToken sample_broker = ''h.p.s''" by (simp add: sample_broker_def)
  with broker_read_is_bound_and_consumed [OF keeps run] sample_token_read
  show ?thesis by (auto simp: sample_claims_def)
qed

section \<open>The registries\<close>

text \<open>C36: In every run of the lifecycle registry the audit log, numbered without gaps, replays to the
  registry: every recorded change is an allowed transition from the state the log gives, each
  plugin is in the state the log ends with and has the tenants the log leaves enabled, a plugin
  that is discovered, rejected, disabled, being enabled or removed has none, and a plugin may
  only run when the log says that it is on for the tenant and the kill switch is off.\<close>

theorem audit_log_replays:
  assumes "registry_reachable r"
  shows "map ae_sequence (rg_audit r) = [1..<Suc (rg_sequence r)] \<and> changes_allowed [] (rg_audit r) \<and>
     (\<forall>p. map_option lr_state (map_of (rg_records r) p) = audited_state p (rg_audit r)) \<and>
     (\<forall>p record. map_of (rg_records r) p = Some record \<longrightarrow>
        set (lr_enabledTenantRefs record) = audited_tenants p (rg_audit r) \<and>
        (tenantless (lr_state record) \<longrightarrow> lr_enabledTenantRefs record = []) \<and>
        (isExecutionAllowed r p tenant \<longrightarrow>
           \<not> audited_emergency (rg_audit r) \<and> audited_state p (rg_audit r) \<in> {Some LsEnabled, Some LsDegraded} \<and>
           (mf_enablement (lr_manifest record) = ScopeTenant \<longrightarrow> the tenant \<in> audited_tenants p (rg_audit r))))"
proof -
  note inv = registry_reachable_inv [OF assms]
  have emergency: "rg_emergencyDisabled r = audited_emergency (rg_audit r)" using inv by (simp add: registry_inv_def)
  have "isExecutionAllowed r p tenant \<longrightarrow>
           \<not> audited_emergency (rg_audit r) \<and> audited_state p (rg_audit r) \<in> {Some LsEnabled, Some LsDegraded} \<and>
           (mf_enablement (lr_manifest x) = ScopeTenant \<longrightarrow> the tenant \<in> audited_tenants p (rg_audit r))"
    if "map_of (rg_records r) p = Some x" for p x
    using registry_inv_record(4,7) [OF inv that] that emergency
    by (auto simp: isExecutionAllowed_def split: if_split_asm)
  with inv registry_inv_record(4,6) [OF inv] show ?thesis by (simp add: registry_inv_def)
qed

definition sample_context :: mutation_context where
  "sample_context = \<lparr>mc_actorRef = ''admin'', mc_correlationId = ''c'', mc_occurredAt = ''0''\<rparr>"

theorem audit_log_replays_witness:
  "\<exists>r. registry_reachable r \<and> audited_state ''io.acme'' (rg_audit r) = Some LsDiscovered"
proof -
  obtain x r where run: "discover sample_backend sample_context empty_registry = Inr (x, r)"
    by (simp add: discover_def Let_def empty_registry_def)
  have id: "mf_id sample_backend = ''io.acme''" by (simp add: sample_backend_def sample_manifest_def)
  have reach: "registry_reachable r" by (rule r_into_rtranclp, rule step_discover [OF run])
  have "map_option lr_state (map_of (rg_records r) ''io.acme'') = Some LsDiscovered"
    using run id by (auto simp: discover_def Let_def appendAudit_def split: if_splits)
  with audit_log_replays [OF reach] reach show ?thesis by metis
qed

text \<open>A frontend that is activated for an accepted manifest shows, of the declared contributions,
  exactly those that are available together with the route they refer to, each with the scope,
  path, placement or slot that was declared, and no navigation or settings entry without its
  route; nothing else in the registry changes.\<close>

lemma activation_shows_declared_contributions:
  assumes accepted: "manifest_accepted (fa_manifest a)" and run: "activate a reg = Inr (p, reg')"
  shows "contribution_id ` set (allRuntimeContributions (ap_contributions p)) =
      contribution_id ` {d \<in> set (mf_contributions (fa_manifest a)). shown (fa_availableContributionIds a) d} \<and>
    (\<forall>r \<in> set (allRuntimeContributions (ap_contributions p)).
      \<exists>d \<in> set (mf_contributions (fa_manifest a)). contribution_id d = contribution_id r \<and> same_declaration r d) \<and>
    no_dangling (ap_contributions p) \<and> map_of reg (mf_id (fa_manifest a)) = None \<and>
    map_of reg' = (map_of reg)(mf_id (fa_manifest a) \<mapsto> p)"
proof -
  have dist: "distinct (map contribution_id (mf_contributions (fa_manifest a)))"
    using accepted by (simp add: manifest_accepted_def manifestIssues_def Let_def contributionIssues_Nil)
  from run have none: "map_of reg (fa_pluginId a) = None" and act: "activation_record a = Inr p"
    and reg': "reg' = put (fa_pluginId a) p reg"
    by (auto simp: activate_def split: if_split_asm)
  from act obtain c where "assertActivationValid a = Inr c" by (auto simp: activation_record_def)
  from valid_activation(7) [OF this] have "fa_pluginId a = mf_id (fa_manifest a)" by simp
  with activation_exposes [OF act dist] none reg' show ?thesis by simp
qed

definition sample_frontend :: manifest where
  "sample_frontend = (sample_manifest ''io.acme'' ''1.0.0'' None [])
     \<lparr>mf_compatibility := \<lparr>cp_host = ''*'', cp_sdk = ''1.0.0'', cp_frontendProtocol = Some 1,
        cp_backendProtocol = None, cp_requiredSlots = []\<rparr>,
      mf_deployment := \<lparr>dp_frontend = Some \<lparr>fd_entry = ''e'', fd_sha256 = ''s'', fd_shared = sample_shared\<rparr>,
        dp_backend = None, dp_migration = None, dp_resources = None\<rparr>,
      mf_contributions := [Route ''io.acme.home'' RootScope ''home'',
        Navigation ''io.acme.nav'' ''io.acme.home'' NavMain None None, Slot ''io.acme.slot'' ''s'']\<rparr>"

definition sample_activation :: activation where
  "sample_activation = \<lparr>fa_pluginId = ''io.acme'', fa_version = ''1.0.0'', fa_manifest = sample_frontend,
     fa_contributions = \<lparr>cs_routes = [\<lparr>fr_id = ''io.acme.home'', fr_scope = RootScope, fr_relativePath = ''home''\<rparr>],
       cs_navigation = [\<lparr>fn_id = ''io.acme.nav'', fn_routeId = ''io.acme.home'', fn_section = NavMain,
         fn_destination = None, fn_parentDestination = None, fn_order = None\<rparr>],
       cs_slots = [\<lparr>fl_id = ''io.acme.slot'', fl_slot = ''s'', fl_order = None\<rparr>], cs_settings = []\<rparr>,
     fa_availableContributionIds = Some [''io.acme.nav'', ''io.acme.slot'']\<rparr>"

lemma activation_shows_declared_contributions_witness:
  "\<exists>p reg'. activate sample_activation [] = Inr (p, reg') \<and>
     contribution_id ` set (allRuntimeContributions (ap_contributions p)) = {''io.acme.slot''}"
proof -
  have manifest: "fa_manifest sample_activation = sample_frontend" by (simp add: sample_activation_def)
  have accepted: "manifest_accepted (fa_manifest sample_activation)" unfolding manifest by code_simp
  have "is_ok (activate sample_activation [])" by code_simp
  then obtain p reg' where run: "activate sample_activation [] = Inr (p, reg')" by (auto simp: is_ok_iff)
  have "map contribution_id (filter (shown (fa_availableContributionIds sample_activation)) (mf_contributions sample_frontend)) =
      [''io.acme.slot'']" by code_simp
  then have "contribution_id ` set (filter (shown (fa_availableContributionIds sample_activation)) (mf_contributions sample_frontend)) =
      {''io.acme.slot''}" by (metis list.simps(15) set_empty2 set_map)
  then have "contribution_id ` {d \<in> set (mf_contributions sample_frontend). shown (fa_availableContributionIds sample_activation) d} =
      {''io.acme.slot''}" by simp
  with activation_shows_declared_contributions [OF accepted run] manifest run show ?thesis by auto
qed

section \<open>The schedule store\<close>

text \<open>C38: In every run of the schedule store, at times that do not decrease, no delivery of a job is
  claimed twice and none is completed twice, only claimed deliveries are completed, and a job
  that is being delivered has an owner and a claimed delivery that is not yet completed.\<close>

theorem deliveries_happen_once:
  assumes "schedule_reachable h dt w"
  shows "distinct (sw_claimed w) \<and> distinct (sw_completed w) \<and> set (sw_completed w) \<subseteq> set (sw_claimed w) \<and>
     (\<forall>jobRef job. map_of (ss_jobs (sw_store w)) jobRef = Some job \<and> jb_status job = JsDelivering \<longrightarrow>
        jb_leaseOwner job \<noteq> None \<and> (jobRef, jb_nextRunAt job) \<in> set (sw_claimed w) - set (sw_completed w))"
proof -
  note inv = schedule_reachable_inv [OF assms, unfolded schedule_inv_def]
  then have jobs: "jobs_ok (sw_clock w) (set (sw_claimed w)) (set (sw_completed w)) (ss_jobs (sw_store w))" by blast
  have "jb_leaseOwner job \<noteq> None \<and> (jobRef, jb_nextRunAt job) \<in> set (sw_claimed w) - set (sw_completed w)"
    if "map_of (ss_jobs (sw_store w)) jobRef = Some job" "jb_status job = JsDelivering" for jobRef job
    using jobs_okD(4) [OF jobs that(1)] that(2) by (auto simp: row_ok_def job_ok_def completed_before_def)
  with inv jobs_okD(2) [OF jobs] show ?thesis by blast
qed

definition sample_schedule_request :: jsval where
  "sample_schedule_request = JObj [(''apiVersion'', JStr ''fixed-schedule-request.plugin.enterpriseglue.io/v1''),
     (''callId'', JStr ''c''), (''operationId'', JStr ''io.acme.op''), (''jobType'', JStr ''io.acme.job''),
     (''idempotencyKey'', JStr ''k''), (''action'', JStr ''upsert''), (''intervalSeconds'', JInt 60)]"

definition sample_schedule :: fixed_schedule where
  "sample_schedule = \<lparr>fs_jobType = ''io.acme.job'', fs_deliveryOperationId = ''io.acme.tick'',
     fs_allowedIntervalsSeconds = [60], fs_permission = ''host.jobs.schedule_fixed'', fs_maxAttempts = 3\<rparr>"

definition sample_subject :: broker_subject where
  "sample_subject = \<lparr>bs_pluginId = ''io.acme'', bs_deploymentRef = ''d'', bs_tenantRef = ''t'', bs_subjectRef = ''s''\<rparr>"

definition sample_claim :: claim_input where
  "sample_claim = \<lparr>cn_workerRef = ''w1'', cn_limit = 10, cn_leaseSeconds = 30\<rparr>"

lemma show_60000: "show_int 60000 = ''60000''"
  by (simp add: show_int_def show_nat.simps digit_char_def char_of_def bit_0)

definition sample_jobRef :: string where
  "sample_jobRef = ''job-'' @ sample_key"

definition sample_job :: job where
  "sample_job = commandJob 0 sample_subject sample_schedule sample_schedule_request None 1"

lemma sample_job_fields:
  "jb_status sample_job = JsScheduled" "jb_nextRunAt sample_job = 60000" "jb_leaseExpiresAt sample_job = None"
  "jb_attempt sample_job = 0" "jb_maxAttempts sample_job = 3" "jb_jobType sample_job = ''io.acme.job''"
  "jb_operationId sample_job = ''io.acme.tick''"
  by code_simp+

definition sample_response :: jsval where
  "sample_response = JObj [(''apiVersion'', JStr ''fixed-schedule-result.plugin.enterpriseglue.io/v1''),
     (''jobRef'', JStr sample_jobRef), (''status'', JStr ''scheduled''), (''nextRunAt'', JStr ''60000''),
     (''revision'', JInt 1)]"

definition scheduled_store :: schedule_store where
  "scheduled_store = \<lparr>ss_jobs = [(sample_jobRef, sample_job)],
     ss_commands = [(sample_key, \<lparr>cm_requestHash = sample_key, cm_response = sample_response\<rparr>)]\<rparr>"

lemma scheduled_run:
  "schedule_execute sample_host (\<lambda>_. True) 0 sample_subject sample_schedule sample_schedule_request
     \<lparr>ss_jobs = [], ss_commands = []\<rparr> = Inr (sample_response, scheduled_store)"
proof -
  have request: "is_upsert sample_schedule_request" "intervalOf sample_schedule_request = 60"
    "60 \<in> set (fs_allowedIntervalsSeconds sample_schedule)" by code_simp+
  have at: "toISOString sample_host 60000 = Some ''60000''"
    by (simp add: toISOString_def max_time_def sample_host_def show_60000)
  have "pluginFixedScheduleResponseV1Schema (\<lambda>_. True) sample_response" by code_simp
  then have result: "scheduleResult sample_host (\<lambda>_. True) 0 sample_jobRef 1 sample_schedule_request = Inr sample_response"
    using request at by (simp add: scheduleResult_def fixedScheduleResponse_def Let_def sample_response_def)
  have job: "jobRefOf sample_host sample_subject sample_schedule_request = sample_jobRef"
    by (simp add: jobRefOf_def sample_jobRef_def)
  show ?thesis
    using request result
    by (simp add: schedule_execute_def newCommand_def job scheduled_store_def sample_job_def commandKeyHash_def Let_def)
qed

lemma claimed_run:
  "\<exists>j store. claimDue sample_host (\<lambda>_. True) 60000 sample_claim scheduled_store = Inr ([j], store)"
proof -
  have input: "claim_input_ok sample_claim" "cn_limit sample_claim = 10" by code_simp+
  have rows: "recoverExpiredLeases 60000 (ss_jobs scheduled_store) = Inr [(sample_jobRef, sample_job)]"
    by (simp add: recoverExpiredLeases_def scheduled_store_def lease_expired_def sample_job_fields)
  have due: "due_jobs 60000 sample_claim [(sample_jobRef, sample_job)] = [(sample_jobRef, sample_job)]"
    by (simp add: due_jobs_def scheduleClaimEligible_def sample_job_fields input)
  have at: "toISOString sample_host 60000 = Some ''60000''"
    by (simp add: toISOString_def max_time_def sample_host_def show_60000)
  have "pluginScheduledJobDeliveryV1Schema (\<lambda>_. True)
      (JObj [(''apiVersion'', JStr ''scheduled-job-delivery.plugin.enterpriseglue.io/v1''),
        (''deliveryId'', JStr (''scheduled-'' @ sample_key)), (''jobRef'', JStr sample_jobRef),
        (''jobType'', JStr ''io.acme.job''), (''operationId'', JStr ''io.acme.tick''),
        (''scheduledFor'', JStr ''60000''), (''attempt'', JInt 1)])" by code_simp
  then obtain j where "claimed_delivery sample_host (\<lambda>_. True) sample_claim (sample_jobRef, sample_job) = Inr j"
    using at by (simp add: claimed_delivery_def Let_def sample_job_fields deliveryRef_def integer_def max_safe_integer_def)
  with input rows due show ?thesis by (simp add: claimDue_def)
qed

definition scheduled_world :: schedule_world where
  "scheduled_world = (schedule_start 0)\<lparr>sw_store := scheduled_store, sw_clock := 0\<rparr>"

lemma scheduled_world_reachable: "schedule_reachable sample_host (\<lambda>_. True) scheduled_world"
proof -
  have run: "schedule_execute sample_host (\<lambda>_. True) 0 sample_subject sample_schedule
      sample_schedule_request (sw_store (schedule_start 0)) = Inr (sample_response, scheduled_store)"
    using scheduled_run by (simp add: schedule_start_def)
  have "schedule_step sample_host (\<lambda>_. True) (schedule_start 0) scheduled_world"
    unfolding scheduled_world_def
    by (rule step_execute [OF _ _ _ run]) (simp_all add: schedule_start_def sample_schedule_def, code_simp)
  then show ?thesis by blast
qed

theorem deliveries_happen_once_witness:
  "\<exists>w. schedule_reachable sample_host (\<lambda>_. True) w \<and> length (sw_claimed w) = 1 \<and> distinct (sw_claimed w)"
proof -
  obtain j store where run: "claimDue sample_host (\<lambda>_. True) 60000 sample_claim (sw_store scheduled_world) = Inr ([j], store)"
    using claimed_run by (auto simp: scheduled_world_def)
  have "schedule_step sample_host (\<lambda>_. True) scheduled_world
      (scheduled_world\<lparr>sw_store := store, sw_clock := 60000,
         sw_claimed := sw_claimed scheduled_world @ map (\<lambda>j. (cj_jobRef j, cj_scheduledFor j)) [j]\<rparr>)"
    by (rule step_claim [OF _ run]) (simp add: scheduled_world_def)
  then obtain w where "schedule_step sample_host (\<lambda>_. True) scheduled_world w" and w: "length (sw_claimed w) = 1"
    by (rule that) (simp add: scheduled_world_def schedule_start_def)
  with scheduled_world_reachable have reach: "schedule_reachable sample_host (\<lambda>_. True) w"
    by (meson rtranclp.rtrancl_into_rtrancl)
  with deliveries_happen_once [OF reach] w show ?thesis by blast
qed

lemma fold_put_rows:
  assumes "distinct (map fst due)" and "(r, job) \<in> set due"
  shows "map_of (fold (\<lambda>(k, v). put k (f v)) due m) r = Some (f job)"
proof -
  have other: "map_of (fold (\<lambda>(k, v). put k (f v)) ds m) r = map_of m r" if "r \<notin> set (map fst ds)" for ds m
    using that by (induction ds arbitrary: m) auto
  from assms show ?thesis
  proof (induction due arbitrary: m)
    case (Cons d due)
    show ?case
    proof (cases "d = (r, job)")
      case True
      with Cons.prems(1) other [of due] show ?thesis by auto
    next
      case False
      with Cons show ?thesis by (auto split: prod.splits)
    qed
  qed simp
qed

text \<open>What a claim hands out is due, was never handed out before, and is at most the last
  attempt the job has; until its lease ends only the worker that claimed it can complete it, and
  not even that worker afterwards.\<close>

lemma claim_is_fenced_and_bounded:
  assumes reach: "schedule_reachable h dt w" and later: "sw_clock w \<le> now"
    and run: "claimDue h dt now input (sw_store w) = Inr (jobs, store)" and j: "j \<in> set jobs"
  shows "1 \<le> cj_attempt j \<and> cj_attempt j \<le> cj_maxAttempts j \<and> cj_scheduledFor j \<le> now \<and>
     (cj_jobRef j, cj_scheduledFor j) \<notin> set (sw_claimed w) \<and>
     (\<forall>time owner receipt row store'. schedule_complete h time (cj_jobRef j) owner receipt store = Inr (row, store') \<longrightarrow>
        owner = cn_workerRef input \<and> time < now + cn_leaseSeconds input * 1000)"
proof -
  note inv = schedule_inv_at [OF schedule_reachable_inv [OF reach] later]
  note claim = claim_inv [OF inv run]
  obtain rows where rec: "recoverExpiredLeases now (ss_jobs (sw_store w)) = Inr rows"
    and del: "map_res (claimed_delivery h dt input) (due_jobs now input rows) = Inr jobs"
    and store: "ss_jobs store = fold (\<lambda>(jobRef, job). put jobRef (claimed_row now input job)) (due_jobs now input rows) rows"
    by (rule schedule_claim_result [OF run])
  note due = due_jobs_rows [OF jobs_okD(1) [OF recover_inv [OF inv rec]]]
  from claimed_deliveries(2) [OF del j] obtain job where job: "(cj_jobRef j, job) \<in> set (due_jobs now input rows)" by blast
  have row: "map_of (ss_jobs store) (cj_jobRef j) = Some (claimed_row now input job)"
    unfolding store by (rule fold_put_rows [OF due(1) job])
  have fenced: "owner = cn_workerRef input \<and> time < now + cn_leaseSeconds input * 1000"
    if "schedule_complete h time (cj_jobRef j) owner receipt store = Inr (x, store')" for time owner receipt x store'
  proof -
    show ?thesis
    proof (rule schedule_complete_result [OF that])
      fix y assume "map_of (ss_jobs store) (cj_jobRef j) = Some y" "jb_leaseOwner y = Some owner"
        "time < (case jb_leaseExpiresAt y of None \<Rightarrow> 0 | Some e \<Rightarrow> e)"
      with row show ?thesis by (auto simp: claimed_row_def)
    qed
  qed
  have new: "(cj_jobRef j, cj_scheduledFor j) \<in> set (map (\<lambda>j. (cj_jobRef j, cj_scheduledFor j)) jobs)" using j by auto
  with claim(1) have "(cj_jobRef j, cj_scheduledFor j) \<notin> set (sw_claimed w)" by blast
  moreover have "cj_scheduledFor j \<le> now" using claim(1) new jobs_okD(3) by blast
  ultimately show ?thesis using claim(2) [OF j] fenced by blast
qed

lemma claim_is_fenced_and_bounded_witness:
  "\<exists>j store. claimDue sample_host (\<lambda>_. True) 60000 sample_claim scheduled_store = Inr ([j], store) \<and>
     cj_attempt j \<le> cj_maxAttempts j"
proof -
  obtain j store where run: "claimDue sample_host (\<lambda>_. True) 60000 sample_claim scheduled_store = Inr ([j], store)"
    using claimed_run by blast
  then have world: "claimDue sample_host (\<lambda>_. True) 60000 sample_claim (sw_store scheduled_world) = Inr ([j], store)"
    by (simp add: scheduled_world_def)
  have "cj_attempt j \<le> cj_maxAttempts j"
    using claim_is_fenced_and_bounded [OF scheduled_world_reachable _ world, of j] by (simp add: scheduled_world_def)
  with run show ?thesis by blast
qed

section \<open>Names\<close>

text \<open>Two different valid plugin ids can have the same Compose service, the same volume for every
  data schema and storage, the same Kubernetes name, and the same URL.\<close>

lemma plugin_names_collide:
  "\<exists>p q. p \<noteq> q \<and> pluginIdSchema p \<and> pluginIdSchema q \<and>
     pluginComposeServiceNameV1 p = pluginComposeServiceNameV1 q \<and>
     (\<forall>v storage. pluginComposeVolumeKeyV1 p v storage = pluginComposeVolumeKeyV1 q v storage) \<and>
     (\<forall>h. pluginKubernetesResourceNameV1 h p = pluginKubernetesResourceNameV1 h q) \<and>
     pluginServiceHost p = pluginServiceHost q"
proof -
  let ?p = "''io.acme-tools.app''" and ?q = "''io-acme.tools.app''"
  have slugs: "slug ?p = slug ?q" by code_simp
  have ids: "pluginIdSchema ?p" "pluginIdSchema ?q" by code_simp+
  have "length ?p \<le> 53" "?p \<noteq> ?q" by simp_all
  with ids names_of_slug [OF slugs] show ?thesis by (intro exI [of _ ?p] exI [of _ ?q] conjI allI) blast+
qed

end
