(* ===== verification/Storage_Store.thy ===== *)
theory Storage_Store
  imports Host_Broker
begin

text \<open>
  The storage of plugins (\<open>packages/backend-host/src/plugins/pluginStorageStore.ts\<close>): values under a key of a
  namespace, with revisions and quotas. The interface \<open>PluginStorageStoreV1\<close> of the broker is the
  locale \<open>versioned_store\<close>: an answered call is an update of a map of versioned values.
\<close>

section \<open>Rows\<close>

type_synonym storage_namespace = "string \<times> string \<times> string \<times> string"

record storage_entry =
  se_identityHash :: string
  se_namespace :: storage_namespace
  se_storageKey :: string
  se_valueJson :: string
  se_valueBytes :: int
  se_revision :: int
  se_createdAt :: int
  se_updatedAt :: int

text \<open>\<open>findPluginRowForUpdateV1\<close> of \<open>pluginDatabaseLock.ts\<close>: the row a unique predicate selects.\<close>

definition findPluginRowForUpdateV1 :: "('a \<Rightarrow> bool) \<Rightarrow> 'a list \<Rightarrow> broker_error + 'a option" where
  "findPluginRowForUpdateV1 selects rows =
     (case filter selects rows of [] \<Rightarrow> Inr None | [x] \<Rightarrow> Inr (Some x) | _ \<Rightarrow> Inl CallbackError)"

definition MAX_NAMESPACE_BYTES :: int where
  "MAX_NAMESPACE_BYTES = 10 * 1024 * 1024"

definition MAX_NAMESPACE_KEYS :: int where
  "MAX_NAMESPACE_KEYS = 10000"

definition DEPLOYMENT_SCOPE_KEY :: string where
  "DEPLOYMENT_SCOPE_KEY = ''-''"

definition requiredTenant :: "string option \<Rightarrow> broker_error + string" where
  "requiredTenant v = (if truthy_str v then Inr (the v) else Inl (BrokerError 403 TenantRequired))"

text \<open>\<open>identity(input)\<close>: the namespace and the key; the hash is computed from them.\<close>

definition storage_identity ::
  "jsval \<Rightarrow> storage_owner \<Rightarrow> broker_error + (storage_namespace \<times> string)" where
  "storage_identity request owner =
     bind_res
       (if getp request ''scope'' = JStr ''tenant'' then requiredTenant (so_tenantRef owner)
        else Inr DEPLOYMENT_SCOPE_KEY)
       (\<lambda>tenantRefKey. Inr ((so_pluginId owner, so_deploymentRef owner, prop_str request ''scope'', tenantRefKey),
          prop_str request ''key''))"

definition identityHash :: "host \<Rightarrow> storage_namespace \<times> string \<Rightarrow> string" where
  "identityHash h = (\<lambda>((pluginId, deploymentRef, scope, tenantRefKey), key).
     sha256 h (join [CHR 0x00] [pluginId, deploymentRef, scope, tenantRefKey, key]))"

definition entry_id :: "storage_entry \<Rightarrow> storage_namespace \<times> string" where
  "entry_id e = (se_namespace e, se_storageKey e)"

definition has_identity :: "host \<Rightarrow> storage_namespace \<times> string \<Rightarrow> storage_entry \<Rightarrow> bool" where
  "has_identity h i e \<longleftrightarrow> se_identityHash e = identityHash h i \<and> entry_id e = i"

text \<open>\<open>integer\<close> and \<open>revision\<close>\<close>

definition storage_integer :: "int \<Rightarrow> broker_error + int" where
  "storage_integer i = (if \<bar>i\<bar> > max_safe_integer \<or> i < 1 then Inl (BrokerError 503 StorageUnavailable) else Inr i)"

definition revision_text :: "int \<Rightarrow> string" where
  "revision_text i = CHR ''r'' # show_int i"

definition storage_revision :: "int \<Rightarrow> broker_error + string" where
  "storage_revision i = bind_res (storage_integer i) (\<lambda>i. Inr (revision_text i))"

section \<open>Operations\<close>

definition storage_get ::
  "host \<Rightarrow> (string \<Rightarrow> jsval option) \<Rightarrow> jsval \<Rightarrow> storage_owner \<Rightarrow> storage_entry list \<Rightarrow> broker_error + jsval" where
  "storage_get h jsonParse request owner rows =
     bind_res (storage_identity request owner) (\<lambda>i.
       case find (has_identity h i) rows of
         None \<Rightarrow> Inr (JObj [(''apiVersion'', JStr ''storage-result.plugin.enterpriseglue.io/v1''),
           (''action'', JStr ''get''), (''found'', JBool False)])
       | Some record \<Rightarrow>
           (case jsonParse (se_valueJson record) of
              None \<Rightarrow> Inl (BrokerError 503 StorageUnavailable)
            | Some v \<Rightarrow> bind_res (storage_revision (se_revision record)) (\<lambda>r.
                Inr (JObj [(''apiVersion'', JStr ''storage-result.plugin.enterpriseglue.io/v1''),
                  (''action'', JStr ''get''), (''found'', JBool True), (''value'', v), (''revision'', JStr r)]))))"

text \<open>
  \<open>put\<close> reads the row and the totals of the namespace, then writes. What it writes is a new row, or
  the row it read with a new value.
\<close>

datatype storage_write = InsertRow storage_entry | UpdateRow storage_entry storage_entry

definition namespace_rows :: "storage_namespace \<Rightarrow> storage_entry list \<Rightarrow> storage_entry list" where
  "namespace_rows ns rows = filter (\<lambda>e. se_namespace e = ns) rows"

definition namespace_bytes :: "storage_namespace \<Rightarrow> storage_entry list \<Rightarrow> int" where
  "namespace_bytes ns rows = sum_list (map se_valueBytes (namespace_rows ns rows))"

definition revision_expected :: "jsval \<Rightarrow> storage_entry option \<Rightarrow> broker_error + unit" where
  "revision_expected request existing =
     (case existing of
        None \<Rightarrow> (if getp request ''expectedRevision'' = JUndef then Inr ()
          else Inl (BrokerError 409 StorageRevisionConflict))
      | Some e \<Rightarrow> bind_res (storage_revision (se_revision e)) (\<lambda>r.
          if getp request ''expectedRevision'' = JStr r then Inr () else Inl (BrokerError 409 StorageRevisionConflict)))"

definition put_reads ::
  "host \<Rightarrow> int \<Rightarrow> jsval \<Rightarrow> storage_owner \<Rightarrow> storage_entry list \<Rightarrow> broker_error + storage_write" where
  "put_reads h now request owner rows =
     bind_res (storage_identity request owner) (\<lambda>i.
     bind_res (findPluginRowForUpdateV1 (has_identity h i) rows) (\<lambda>existing.
     bind_res (revision_expected request existing) (\<lambda>_.
       case stringify (getp request ''value'') of
         None \<Rightarrow> Inl CallbackError
       | Some valueJson \<Rightarrow>
           let valueBytes = int (byteLength valueJson);
               nextCount = int (length (namespace_rows (fst i) rows)) + (if existing = None then 1 else 0);
               nextBytes = namespace_bytes (fst i) rows -
                 (case existing of None \<Rightarrow> 0 | Some e \<Rightarrow> se_valueBytes e) + valueBytes
           in if nextCount > MAX_NAMESPACE_KEYS \<or> nextBytes > MAX_NAMESPACE_BYTES
              then Inl (BrokerError 409 StorageQuotaExceeded)
              else case existing of
                None \<Rightarrow> Inr (InsertRow
                  \<lparr>se_identityHash = identityHash h i, se_namespace = fst i, se_storageKey = snd i,
                   se_valueJson = valueJson, se_valueBytes = valueBytes, se_revision = 1, se_createdAt = now,
                   se_updatedAt = now\<rparr>)
              | Some e \<Rightarrow> bind_res (storage_integer (se_revision e)) (\<lambda>r.
                  Inr (UpdateRow e (e\<lparr>se_valueJson := valueJson, se_valueBytes := valueBytes, se_revision := r + 1,
                    se_updatedAt := now\<rparr>))))))"

text \<open>The statements that write; the unique index is on \<open>identityHash\<close>.\<close>

definition same_row :: "storage_entry \<Rightarrow> storage_entry \<Rightarrow> bool" where
  "same_row e f \<longleftrightarrow> se_identityHash f = se_identityHash e \<and> se_revision f = se_revision e"

definition put_answer :: "string \<Rightarrow> jsval" where
  "put_answer r = JObj [(''apiVersion'', JStr ''storage-result.plugin.enterpriseglue.io/v1''),
     (''action'', JStr ''put''), (''revision'', JStr r)]"

definition put_writes :: "storage_write \<Rightarrow> storage_entry list \<Rightarrow> broker_error + (jsval \<times> storage_entry list)" where
  "put_writes w rows =
     (case w of
        InsertRow e \<Rightarrow>
          if se_identityHash e \<in> se_identityHash ` set rows then Inl (BrokerError 409 StorageRevisionConflict)
          else Inr (put_answer ''r1'', rows @ [e])
      | UpdateRow e e' \<Rightarrow>
          if length (filter (same_row e) rows) \<noteq> 1 then Inl (BrokerError 409 StorageRevisionConflict)
          else bind_res (storage_revision (se_revision e')) (\<lambda>r.
            Inr (put_answer r, map (\<lambda>f. if same_row e f then e' else f) rows)))"

definition storage_put ::
  "host \<Rightarrow> int \<Rightarrow> jsval \<Rightarrow> storage_owner \<Rightarrow> storage_entry list \<Rightarrow> broker_error + (jsval \<times> storage_entry list)" where
  "storage_put h now request owner rows =
     bind_res (put_reads h now request owner rows) (\<lambda>w. put_writes w rows)"

definition storage_remove ::
  "host \<Rightarrow> jsval \<Rightarrow> storage_owner \<Rightarrow> storage_entry list \<Rightarrow> broker_error + (jsval \<times> storage_entry list)" where
  "storage_remove h request owner rows =
     bind_res (storage_identity request owner) (\<lambda>i.
     bind_res (findPluginRowForUpdateV1 (has_identity h i) rows) (\<lambda>existing.
       case existing of
         None \<Rightarrow> Inl (BrokerError 409 StorageRevisionConflict)
       | Some e \<Rightarrow> bind_res (storage_revision (se_revision e)) (\<lambda>r.
           if getp request ''expectedRevision'' \<noteq> JStr r \<or> length (filter (same_row e) rows) \<noteq> 1
           then Inl (BrokerError 409 StorageRevisionConflict)
           else Inr (JObj [(''apiVersion'', JStr ''storage-result.plugin.enterpriseglue.io/v1''),
             (''action'', JStr ''delete''), (''deleted'', JBool True)], filter (\<lambda>f. \<not> same_row e f) rows))))"

text \<open>\<open>execute\<close>: a transaction that throws is rolled back.\<close>

definition storage_execute ::
  "host \<Rightarrow> (string \<Rightarrow> jsval option) \<Rightarrow> int \<Rightarrow> jsval \<Rightarrow> storage_owner \<Rightarrow> (storage_entry list, jsval) broker" where
  "storage_execute h jsonParse now request owner rows =
     (if getp request ''action'' = JStr ''get''
      then (storage_get h jsonParse request owner rows, rows)
      else case (if getp request ''action'' = JStr ''put'' then storage_put h now request owner rows
                 else storage_remove h request owner rows) of
        Inl e \<Rightarrow> (Inl e, rows)
      | Inr (v, rows') \<Rightarrow> (Inr v, rows'))"

end
