(* ===== verification/Storage_Contract.thy ===== *)
theory Storage_Contract
  imports Storage_Store
begin

text \<open>
  What the storage of plugins promises: it is a map of versioned values, changed by compare-and-swap
  on the revision, and no namespace outgrows its quotas. The broker's storage call is proved in the
  locale of that interface.
\<close>

section \<open>Rows that a key selects\<close>

lemma find_unique:
  assumes "\<And>x y. x \<in> set xs \<Longrightarrow> y \<in> set xs \<Longrightarrow> P x \<Longrightarrow> P y \<Longrightarrow> x = y"
  shows "find P xs = Some x \<longleftrightarrow> x \<in> set xs \<and> P x"
  using assms by (induction xs) (auto split: if_split_asm)

lemma filter_unique:
  assumes "distinct xs" and "\<And>x y. x \<in> set xs \<Longrightarrow> y \<in> set xs \<Longrightarrow> P x \<Longrightarrow> P y \<Longrightarrow> x = y"
  shows "filter P xs = (case find P xs of None \<Rightarrow> [] | Some x \<Rightarrow> [x])"
  using assms
proof (induction xs)
  case (Cons a xs)
  have unique: "x = y" if "x \<in> set xs" "y \<in> set xs" "P x" "P y" for x y using Cons.prems(2) that by simp
  show ?case
  proof (cases "P a")
    case True
    have "\<not> P x" if "x \<in> set xs" for x using Cons.prems True that by force
    with True show ?thesis by (simp add: filter_empty_conv)
  next
    case False
    with Cons.IH [OF _ unique] Cons.prems(1) show ?thesis by simp
  qed
qed simp

definition storage_inv :: "host \<Rightarrow> storage_entry list \<Rightarrow> bool" where
  "storage_inv h rows \<longleftrightarrow> distinct (map se_identityHash rows) \<and>
     (\<forall>e \<in> set rows. se_identityHash e = identityHash h (entry_id e) \<and>
        se_valueBytes e = int (byteLength (se_valueJson e)) \<and> 1 \<le> se_revision e) \<and>
     (\<forall>ns. int (length (namespace_rows ns rows)) \<le> MAX_NAMESPACE_KEYS \<and> namespace_bytes ns rows \<le> MAX_NAMESPACE_BYTES)"

lemma storage_invD:
  assumes "storage_inv h rows"
  shows "distinct rows" and "\<And>e f. e \<in> set rows \<Longrightarrow> f \<in> set rows \<Longrightarrow> se_identityHash e = se_identityHash f \<Longrightarrow> e = f"
    and "\<And>e. e \<in> set rows \<Longrightarrow> se_identityHash e = identityHash h (entry_id e)"
    and "\<And>e. e \<in> set rows \<Longrightarrow> 1 \<le> se_revision e" and "\<And>e. e \<in> set rows \<Longrightarrow> 0 \<le> se_valueBytes e"
  using assms by (auto simp: storage_inv_def distinct_map inj_on_def)

lemma storage_inv_quota:
  assumes "storage_inv h rows"
  shows "int (length (namespace_rows ns rows)) \<le> MAX_NAMESPACE_KEYS" and "namespace_bytes ns rows \<le> MAX_NAMESPACE_BYTES"
  using assms unfolding storage_inv_def by blast+

lemma storage_inv_Nil: "storage_inv h []"
  by (simp add: storage_inv_def namespace_rows_def namespace_bytes_def MAX_NAMESPACE_KEYS_def MAX_NAMESPACE_BYTES_def)

lemma row_lookup:
  assumes "storage_inv h rows"
  shows "find (has_identity h i) rows = Some e \<longleftrightarrow> e \<in> set rows \<and> entry_id e = i"
proof -
  have "find (has_identity h i) rows = Some e \<longleftrightarrow> e \<in> set rows \<and> has_identity h i e"
    using storage_invD(2) [OF assms] by (intro find_unique) (auto simp: has_identity_def)
  with storage_invD(3) [OF assms] show ?thesis by (auto simp: has_identity_def)
qed

lemma row_lookup_None:
  "storage_inv h rows \<Longrightarrow> find (has_identity h i) rows = None \<longleftrightarrow> (\<forall>e \<in> set rows. entry_id e \<noteq> i)"
  using row_lookup [of h rows i] by (metis not_None_eq)

lemma row_for_update:
  assumes "storage_inv h rows"
  shows "findPluginRowForUpdateV1 (has_identity h i) rows = Inr (find (has_identity h i) rows)"
proof -
  have "filter (has_identity h i) rows = (case find (has_identity h i) rows of None \<Rightarrow> [] | Some x \<Rightarrow> [x])"
    using storage_invD(1,2) [OF assms] by (intro filter_unique) (auto simp: has_identity_def)
  then show ?thesis by (auto simp: findPluginRowForUpdateV1_def split: option.splits)
qed

lemma same_row_iff:
  assumes "storage_inv h rows" and "e \<in> set rows" and "f \<in> set rows"
  shows "same_row e f \<longleftrightarrow> f = e"
  using storage_invD(2) [OF assms(1)] assms(2,3) by (auto simp: same_row_def)

lemma same_row_once:
  assumes "storage_inv h rows" and "e \<in> set rows"
  shows "length (filter (same_row e) rows) = 1"
proof -
  have "filter (same_row e) rows = filter (\<lambda>f. f = e) rows"
    using same_row_iff [OF assms] by (intro filter_cong) auto
  also have "\<dots> = [e]" using storage_invD(1) [OF assms(1)] assms(2) by (induction rows) (auto simp: filter_empty_conv)
  finally show ?thesis by simp
qed

section \<open>The map of versioned values\<close>

type_synonym versioned = "storage_namespace \<times> string \<Rightarrow> (string \<times> int) option"

definition storage_view :: "host \<Rightarrow> storage_entry list \<Rightarrow> versioned" where
  "storage_view h rows i = map_option (\<lambda>e. (se_valueJson e, se_revision e)) (find (has_identity h i) rows)"

lemma storage_view_Some:
  "storage_inv h rows \<Longrightarrow>
    storage_view h rows i = Some x \<longleftrightarrow> (\<exists>e \<in> set rows. entry_id e = i \<and> x = (se_valueJson e, se_revision e))"
  by (auto simp: storage_view_def row_lookup)

lemma storage_view_None:
  "storage_inv h rows \<Longrightarrow> storage_view h rows i = None \<longleftrightarrow> (\<forall>e \<in> set rows. entry_id e \<noteq> i)"
  by (simp add: storage_view_def row_lookup_None)

text \<open>What a request says about the revision, and what an answered request does to the map.\<close>

definition revision_matches :: "jsval \<Rightarrow> (string \<times> int) option \<Rightarrow> bool" where
  "revision_matches request current \<longleftrightarrow>
     getp request ''expectedRevision'' = (case current of None \<Rightarrow> JUndef | Some (text, r) \<Rightarrow> JStr (revision_text r))"

definition next_revision :: "(string \<times> int) option \<Rightarrow> int" where
  "next_revision current = (case current of None \<Rightarrow> 1 | Some (text, r) \<Rightarrow> r + 1)"

definition versioned_answer ::
  "(string \<Rightarrow> jsval option) \<Rightarrow> jsval \<Rightarrow> storage_namespace \<times> string \<Rightarrow> versioned \<Rightarrow> jsval \<Rightarrow> versioned \<Rightarrow> bool" where
  "versioned_answer jsonParse request i m v m' \<longleftrightarrow>
     (if getp request ''action'' = JStr ''get'' then
        m' = m \<and> getp v ''found'' = JBool (m i \<noteq> None) \<and>
        (\<forall>text r. m i = Some (text, r) \<longrightarrow> jsonParse text = Some (getp v ''value'') \<and> getp v ''revision'' = JStr (revision_text r))
      else if getp request ''action'' = JStr ''put'' then
        revision_matches request (m i) \<and> getp v ''revision'' = JStr (revision_text (next_revision (m i))) \<and>
        m' = m(i \<mapsto> (json_text (getp request ''value''), next_revision (m i)))
      else m i \<noteq> None \<and> revision_matches request (m i) \<and> m' = m(i := None))"

section \<open>Writing keeps the invariant\<close>

lemma namespace_append:
  "namespace_rows ns (rows @ [e]) = namespace_rows ns rows @ (if se_namespace e = ns then [e] else [])"
  "namespace_bytes ns (rows @ [e]) = namespace_bytes ns rows + (if se_namespace e = ns then se_valueBytes e else 0)"
  by (simp_all add: namespace_rows_def namespace_bytes_def)

lemma insert_row:
  assumes "storage_inv h rows" and "se_identityHash e \<notin> se_identityHash ` set rows"
    and "se_identityHash e = identityHash h (entry_id e)" and "se_valueBytes e = int (byteLength (se_valueJson e))"
    and "1 \<le> se_revision e" and "int (length (namespace_rows (se_namespace e) rows)) + 1 \<le> MAX_NAMESPACE_KEYS"
    and "namespace_bytes (se_namespace e) rows + se_valueBytes e \<le> MAX_NAMESPACE_BYTES"
  shows "storage_inv h (rows @ [e])"
    and "storage_view h (rows @ [e]) = (storage_view h rows)(entry_id e \<mapsto> (se_valueJson e, se_revision e))"
proof -
  show inv: "storage_inv h (rows @ [e])"
    using assms by (auto simp: storage_inv_def namespace_append)
  have fresh: "entry_id f \<noteq> entry_id e" if "f \<in> set rows" for f
    using storage_invD(3) [OF assms(1) that] assms(2,3) that by force
  show "storage_view h (rows @ [e]) = (storage_view h rows)(entry_id e \<mapsto> (se_valueJson e, se_revision e))"
  proof
    fix i
    have "storage_view h (rows @ [e]) i = Some x \<longleftrightarrow>
        ((storage_view h rows)(entry_id e \<mapsto> (se_valueJson e, se_revision e))) i = Some x" for x
      using fresh by (auto simp: storage_view_Some [OF inv] storage_view_Some [OF assms(1)])
    then show "storage_view h (rows @ [e]) i =
        ((storage_view h rows)(entry_id e \<mapsto> (se_valueJson e, se_revision e))) i"
      by (metis not_None_eq)
  qed
qed

lemma replaced_rows:
  assumes "distinct rows" and "e \<in> set rows"
  shows "namespace_bytes ns (map (\<lambda>f. if f = e then e' else f) rows) =
     namespace_bytes ns rows - (if se_namespace e = ns then se_valueBytes e else 0) +
       (if se_namespace e' = ns then se_valueBytes e' else 0)"
  using assms
proof (induction rows)
  case (Cons a rows)
  have same: "map (\<lambda>f. if f = a then e' else f) rows = rows" if "a \<notin> set rows"
    using that by (intro map_idI) auto
  show ?case
  proof (cases "a = e")
    case True
    with Cons.prems same show ?thesis by (auto simp: namespace_bytes_def namespace_rows_def)
  next
    case False
    with Cons show ?thesis by (auto simp: namespace_bytes_def namespace_rows_def)
  qed
qed simp

lemma update_row:
  assumes inv: "storage_inv h rows" and e: "e \<in> set rows" and id: "entry_id e' = entry_id e"
    and hash: "se_identityHash e' = se_identityHash e" and bytes: "se_valueBytes e' = int (byteLength (se_valueJson e'))"
    and "1 \<le> se_revision e'"
    and quota: "namespace_bytes (se_namespace e) rows - se_valueBytes e + se_valueBytes e' \<le> MAX_NAMESPACE_BYTES"
  defines "rows' \<equiv> map (\<lambda>f. if same_row e f then e' else f) rows"
  shows "storage_inv h rows'" and "storage_view h rows' = (storage_view h rows)(entry_id e \<mapsto> (se_valueJson e', se_revision e'))"
proof -
  have rows': "rows' = map (\<lambda>f. if f = e then e' else f) rows"
    unfolding rows'_def using same_row_iff [OF inv e] by (intro map_cong) auto
  have ns: "se_namespace e' = se_namespace e" using id by (simp add: entry_id_def)
  have hashes: "map se_identityHash rows' = map se_identityHash rows" by (simp add: rows' hash)
  have counts: "length (namespace_rows x rows') = length (namespace_rows x rows)" for x
    unfolding rows' namespace_rows_def by (induction rows) (simp_all add: ns)
  have elems: "set rows' = insert e' (set rows - {e})" using e by (auto simp: rows')
  show inv': "storage_inv h rows'"
    unfolding storage_inv_def hashes counts
    using inv e id hash bytes assms(6) quota
    by (auto simp: storage_inv_def elems rows' ns replaced_rows [OF storage_invD(1) [OF inv] e])
  have other: "entry_id f = entry_id e \<longleftrightarrow> f = e" if "f \<in> set rows" for f
    using storage_invD(2,3) [OF inv] e that by metis
  show "storage_view h rows' = (storage_view h rows)(entry_id e \<mapsto> (se_valueJson e', se_revision e'))"
  proof
    fix i
    have "storage_view h rows' i = Some x \<longleftrightarrow>
        ((storage_view h rows)(entry_id e \<mapsto> (se_valueJson e', se_revision e'))) i = Some x" for x
      using other id by (auto simp: storage_view_Some [OF inv'] storage_view_Some [OF inv] elems)
    then show "storage_view h rows' i = ((storage_view h rows)(entry_id e \<mapsto> (se_valueJson e', se_revision e'))) i"
      by (metis not_None_eq)
  qed
qed

lemma remove_row:
  assumes inv: "storage_inv h rows" and e: "e \<in> set rows"
  defines "rows' \<equiv> filter (\<lambda>f. \<not> same_row e f) rows"
  shows "storage_inv h rows'" and "storage_view h rows' = (storage_view h rows)(entry_id e := None)"
proof -
  have elems: "set rows' = set rows - {e}" using same_row_iff [OF inv e] by (auto simp: rows'_def)
  have counts: "length (namespace_rows x rows') \<le> length (namespace_rows x rows)" for x
    unfolding rows'_def namespace_rows_def by (induction rows) auto
  have bytes: "namespace_bytes x rows' \<le> namespace_bytes x rows" for x
  proof -
    have "\<forall>f \<in> set rows. 0 \<le> se_valueBytes f" using storage_invD(5) [OF inv] by blast
    then show ?thesis unfolding rows'_def namespace_bytes_def namespace_rows_def
      by (induction rows) auto
  qed
  have quota: "int (length (namespace_rows x rows')) \<le> MAX_NAMESPACE_KEYS \<and> namespace_bytes x rows' \<le> MAX_NAMESPACE_BYTES" for x
  proof -
    have "int (length (namespace_rows x rows)) \<le> MAX_NAMESPACE_KEYS" "namespace_bytes x rows \<le> MAX_NAMESPACE_BYTES"
      using storage_inv_quota [OF inv] by blast+
    with counts [of x] bytes [of x] show ?thesis by linarith
  qed
  have "distinct (map se_identityHash rows')"
    using inv by (simp add: storage_inv_def rows'_def distinct_map_filter)
  with inv elems quota show inv': "storage_inv h rows'" by (simp add: storage_inv_def)
  have other: "entry_id f = entry_id e \<longleftrightarrow> f = e" if "f \<in> set rows" for f
    using storage_invD(2,3) [OF inv] e that by metis
  show "storage_view h rows' = (storage_view h rows)(entry_id e := None)"
  proof
    fix i
    have "storage_view h rows' i = Some x \<longleftrightarrow> ((storage_view h rows)(entry_id e := None)) i = Some x" for x
      using other by (auto simp: storage_view_Some [OF inv'] storage_view_Some [OF inv] elems)
    then show "storage_view h rows' i = ((storage_view h rows)(entry_id e := None)) i"
      by (metis not_None_eq)
  qed
qed

section \<open>The operations\<close>

lemma storage_integer_Inr [simp]: "storage_integer i = Inr j \<longleftrightarrow> j = i \<and> 1 \<le> i \<and> i \<le> max_safe_integer"
  by (auto simp: storage_integer_def)

lemma storage_revision_Inr: "storage_revision i = Inr r \<longleftrightarrow> r = revision_text i \<and> 1 \<le> i \<and> i \<le> max_safe_integer"
  by (auto simp: storage_revision_def)

lemma revision_expected_iff:
  assumes "storage_inv h rows" and "find (has_identity h i) rows = existing"
    and "revision_expected request existing = Inr u"
  shows "revision_matches request (storage_view h rows i)"
  using assms
  by (auto simp: revision_expected_def revision_matches_def storage_view_def storage_revision_Inr split: option.splits if_split_asm)

lemma stringify_Some: "stringify v = Some text \<Longrightarrow> text = json_text v"
  by (simp add: stringify_def split: if_split_asm)

lemma put_reads_result:
  assumes inv: "storage_inv h rows" and run: "put_reads h now request owner rows = Inr w"
  obtains i valueJson where "storage_identity request owner = Inr i" and "revision_matches request (storage_view h rows i)"
    and "valueJson = json_text (getp request ''value'')"
    and "w = InsertRow \<lparr>se_identityHash = identityHash h i, se_namespace = fst i, se_storageKey = snd i,
           se_valueJson = valueJson, se_valueBytes = int (byteLength valueJson), se_revision = 1, se_createdAt = now,
           se_updatedAt = now\<rparr> \<and> storage_view h rows i = None \<and>
         int (length (namespace_rows (fst i) rows)) + 1 \<le> MAX_NAMESPACE_KEYS \<and>
         namespace_bytes (fst i) rows + int (byteLength valueJson) \<le> MAX_NAMESPACE_BYTES \<or>
       (\<exists>e \<in> set rows. entry_id e = i \<and>
         w = UpdateRow e (e\<lparr>se_valueJson := valueJson, se_valueBytes := int (byteLength valueJson),
           se_revision := se_revision e + 1, se_updatedAt := now\<rparr>) \<and>
         namespace_bytes (fst i) rows - se_valueBytes e + int (byteLength valueJson) \<le> MAX_NAMESPACE_BYTES)"
proof -
  from run obtain i where i: "storage_identity request owner = Inr i"
    by (auto simp: put_reads_def)
  define existing where "existing = find (has_identity h i) rows"
  from run i row_for_update [OF inv] obtain u where exp: "revision_expected request existing = Inr u"
    by (auto simp: put_reads_def existing_def)
  note matches = revision_expected_iff [OF inv existing_def [symmetric] exp]
  from run i exp row_for_update [OF inv] obtain str where str: "stringify (getp request ''value'') = Some str"
    by (auto simp: put_reads_def existing_def [symmetric] split: option.splits)
  note val = stringify_Some [OF str]
  show thesis
  proof (cases existing)
    case None
    with run i exp row_for_update [OF inv] str
    have "w = InsertRow \<lparr>se_identityHash = identityHash h i, se_namespace = fst i, se_storageKey = snd i,
           se_valueJson = str, se_valueBytes = int (byteLength str), se_revision = 1, se_createdAt = now,
           se_updatedAt = now\<rparr>"
      and "int (length (namespace_rows (fst i) rows)) + 1 \<le> MAX_NAMESPACE_KEYS"
      and "namespace_bytes (fst i) rows + int (byteLength str) \<le> MAX_NAMESPACE_BYTES"
      by (auto simp: put_reads_def existing_def [symmetric] Let_def split: if_split_asm)
    moreover have "storage_view h rows i = None" using None by (simp add: storage_view_def existing_def)
    ultimately show thesis by (intro that [OF i matches val] disjI1 conjI)
  next
    case (Some e)
    then have e: "e \<in> set rows" "entry_id e = i" using row_lookup [OF inv] by (auto simp: existing_def)
    from Some run i exp row_for_update [OF inv] str
    have "w = UpdateRow e (e\<lparr>se_valueJson := str, se_valueBytes := int (byteLength str),
           se_revision := se_revision e + 1, se_updatedAt := now\<rparr>)"
      and "namespace_bytes (fst i) rows - se_valueBytes e + int (byteLength str) \<le> MAX_NAMESPACE_BYTES"
      by (auto simp: put_reads_def existing_def [symmetric] Let_def split: if_split_asm)
    with e show thesis by (intro that [OF i matches val] disjI2 bexI [of _ e] conjI)
  qed
qed

lemma put_versioned:
  assumes inv: "storage_inv h rows" and run: "storage_put h now request owner rows = Inr (v, rows')"
    and action: "getp request ''action'' = JStr ''put''"
  shows "storage_inv h rows' \<and> (\<exists>i r. storage_identity request owner = Inr i \<and> v = put_answer (revision_text r) \<and> 1 \<le> r \<and>
     versioned_answer jsonParse request i (storage_view h rows) v (storage_view h rows'))"
proof -
  from run obtain w where reads: "put_reads h now request owner rows = Inr w" and writes: "put_writes w rows = Inr (v, rows')"
    by (auto simp: storage_put_def)
  obtain i valueJson where i: "storage_identity request owner = Inr i" and
    matches: "revision_matches request (storage_view h rows i)" and val: "valueJson = json_text (getp request ''value'')"
    and w: "w = InsertRow \<lparr>se_identityHash = identityHash h i, se_namespace = fst i, se_storageKey = snd i,
           se_valueJson = valueJson, se_valueBytes = int (byteLength valueJson), se_revision = 1, se_createdAt = now,
           se_updatedAt = now\<rparr> \<and> storage_view h rows i = None \<and>
         int (length (namespace_rows (fst i) rows)) + 1 \<le> MAX_NAMESPACE_KEYS \<and>
         namespace_bytes (fst i) rows + int (byteLength valueJson) \<le> MAX_NAMESPACE_BYTES \<or>
       (\<exists>e \<in> set rows. entry_id e = i \<and>
         w = UpdateRow e (e\<lparr>se_valueJson := valueJson, se_valueBytes := int (byteLength valueJson),
           se_revision := se_revision e + 1, se_updatedAt := now\<rparr>) \<and>
         namespace_bytes (fst i) rows - se_valueBytes e + int (byteLength valueJson) \<le> MAX_NAMESPACE_BYTES)"
    by (rule put_reads_result [OF inv reads])
  from w show ?thesis
  proof (elim disjE bexE conjE)
    let ?e = "\<lparr>se_identityHash = identityHash h i, se_namespace = fst i, se_storageKey = snd i,
           se_valueJson = valueJson, se_valueBytes = int (byteLength valueJson), se_revision = 1, se_createdAt = now,
           se_updatedAt = now\<rparr>"
    assume w: "w = InsertRow ?e" and none: "storage_view h rows i = None"
      and quota: "int (length (namespace_rows (fst i) rows)) + 1 \<le> MAX_NAMESPACE_KEYS"
        "namespace_bytes (fst i) rows + int (byteLength valueJson) \<le> MAX_NAMESPACE_BYTES"
    have id: "entry_id ?e = i" by (simp add: entry_id_def)
    from writes w have fresh: "se_identityHash ?e \<notin> se_identityHash ` set rows" and v: "v = put_answer ''r1''" "rows' = rows @ [?e]"
      by (simp_all add: put_writes_def split: if_split_asm)
    have one: "''r1'' = revision_text 1" by code_simp
    have new: "storage_inv h rows'" "storage_view h rows' = (storage_view h rows)(i \<mapsto> (valueJson, 1))"
      unfolding v using insert_row [OF inv fresh] quota id by simp_all
    with i matches val none v(1) action show ?thesis
      by (auto simp: versioned_answer_def next_revision_def one put_answer_def intro!: exI [of _ 1])
  next
    fix e :: storage_entry
    let ?e = "e\<lparr>se_valueJson := valueJson, se_valueBytes := int (byteLength valueJson),
           se_revision := se_revision e + 1, se_updatedAt := now\<rparr>"
    assume e: "e \<in> set rows" and id: "entry_id e = i" and w: "w = UpdateRow e ?e"
      and quota: "namespace_bytes (fst i) rows - se_valueBytes e + int (byteLength valueJson) \<le> MAX_NAMESPACE_BYTES"
    have ids: "entry_id ?e = entry_id e" "se_namespace e = fst i" using id by (auto simp: entry_id_def)
    from writes w have v: "v = put_answer (revision_text (se_revision e + 1))"
      and rows': "rows' = map (\<lambda>f. if same_row e f then ?e else f) rows"
      by (auto simp: put_writes_def storage_revision_Inr split: if_split_asm)
    have rev: "1 \<le> se_revision e" by (rule storage_invD(4) [OF inv e])
    have new: "storage_inv h rows'" "storage_view h rows' = (storage_view h rows)(i \<mapsto> (valueJson, se_revision e + 1))"
      unfolding rows' using update_row [OF inv e ids(1)] rev quota id ids(2) by simp_all
    have current: "storage_view h rows i = Some (se_valueJson e, se_revision e)"
      using e id by (auto simp: storage_view_Some [OF inv])
    with new i matches val v rev action show ?thesis
      by (auto simp: versioned_answer_def next_revision_def put_answer_def intro!: exI [of _ "se_revision e + 1"])
  qed
qed

lemma remove_versioned:
  assumes inv: "storage_inv h rows" and run: "storage_remove h request owner rows = Inr (v, rows')"
    and action: "getp request ''action'' \<noteq> JStr ''get''" "getp request ''action'' \<noteq> JStr ''put''"
  shows "storage_inv h rows' \<and> pluginStorageResponseV1Schema v \<and> (\<exists>i. storage_identity request owner = Inr i \<and>
     versioned_answer jsonParse request i (storage_view h rows) v (storage_view h rows'))"
proof -
  from run obtain i where i: "storage_identity request owner = Inr i" by (auto simp: storage_remove_def)
  from run i row_for_update [OF inv, of i] obtain e where found: "find (has_identity h i) rows = Some e"
    by (auto simp: storage_remove_def split: option.splits)
  with row_lookup [OF inv] have e: "e \<in> set rows" "entry_id e = i" by auto
  from run i row_for_update [OF inv, of i] found have rev: "getp request ''expectedRevision'' = JStr (revision_text (se_revision e))"
    and rows': "rows' = filter (\<lambda>f. \<not> same_row e f) rows" and v: "pluginStorageResponseV1Schema v"
    by (auto simp: storage_remove_def storage_revision_Inr pluginStorageResponseV1Schema_def split: if_split_asm)
  have current: "storage_view h rows i = Some (se_valueJson e, se_revision e)"
    using e by (auto simp: storage_view_Some [OF inv])
  have "storage_inv h rows'" "storage_view h rows' = (storage_view h rows)(i := None)"
    unfolding rows' using remove_row [OF inv e(1)] e(2) by simp_all
  with i current rev v action show ?thesis by (simp add: versioned_answer_def revision_matches_def)
qed

lemma get_versioned:
  assumes inv: "storage_inv h rows" and run: "storage_get h jsonParse request owner rows = Inr v"
    and action: "getp request ''action'' = JStr ''get''"
  shows "\<exists>i. storage_identity request owner = Inr i \<and>
     versioned_answer jsonParse request i (storage_view h rows) v (storage_view h rows)"
proof -
  from run obtain i where i: "storage_identity request owner = Inr i" by (auto simp: storage_get_def)
  with run action show ?thesis
    by (auto simp: storage_get_def versioned_answer_def storage_view_def storage_revision_Inr split: option.splits)
qed

text \<open>The answers are those the broker's schema admits.\<close>

lemma show_nat_first: "1 \<le> n \<Longrightarrow> hd (show_nat n) \<noteq> CHR ''0''"
proof (induction n rule: show_nat.induct)
  case (1 n)
  show ?case
  proof (cases "n < 10")
    case True
    have "digit_val (digit_char n) = n" using True by simp
    with "1.prems" have "digit_char n \<noteq> CHR ''0''" by (auto simp: digit_val_def)
    with True show ?thesis by (simp add: show_nat.simps [of n])
  next
    case False
    with "1.IH" show ?thesis by (simp add: show_nat.simps [of n])
  qed
qed

lemma revision_text_valid: "1 \<le> r \<Longrightarrow> pluginStorageRevisionV1Schema (revision_text r)"
  using show_nat_first [of "nat r"] show_nat_digits [of "nat r"]
  by (simp add: pluginStorageRevisionV1Schema_def revision_text_def show_int_def starts_with_iff)

lemma get_valid:
  assumes "storage_get h jsonParse request owner rows = Inr v"
  shows "pluginStorageResponseV1Schema v"
proof -
  from assms obtain i where i: "storage_identity request owner = Inr i" by (auto simp: storage_get_def)
  show ?thesis
  proof (cases "find (has_identity h i) rows")
    case None
    with assms i show ?thesis by (auto simp: storage_get_def pluginStorageResponseV1Schema_def)
  next
    case (Some e)
    with assms i obtain x where x: "jsonParse (se_valueJson e) = Some x"
      by (auto simp: storage_get_def split: option.splits)
    with assms i Some obtain r where r: "storage_revision (se_revision e) = Inr r"
      by (cases "storage_revision (se_revision e)") (simp_all add: storage_get_def)
    then have "pluginStorageRevisionV1Schema r" by (simp add: storage_revision_Inr revision_text_valid)
    with assms i Some x r show ?thesis by (auto simp: storage_get_def pluginStorageResponseV1Schema_def)
  qed
qed

lemma execute_versioned:
  assumes inv: "storage_inv h rows" and run: "storage_execute h jsonParse now request owner rows = (Inr v, rows')"
  shows "storage_inv h rows' \<and> pluginStorageResponseV1Schema v \<and> (\<exists>i. storage_identity request owner = Inr i \<and>
     versioned_answer jsonParse request i (storage_view h rows) v (storage_view h rows'))"
proof (cases "getp request ''action'' = JStr ''get''")
  case True
  with run have get: "storage_get h jsonParse request owner rows = Inr v" and "rows' = rows"
    by (auto simp: storage_execute_def)
  with inv get_versioned [OF inv get True] get_valid [OF get] show ?thesis by simp
next
  case False
  show ?thesis
  proof (cases "getp request ''action'' = JStr ''put''")
    case True
    with run have put: "storage_put h now request owner rows = Inr (v, rows')"
      by (simp add: storage_execute_def split: sum.splits prod.splits)
    from put_versioned [OF inv put True, of jsonParse] show ?thesis
      by (auto simp: put_answer_def pluginStorageResponseV1Schema_def revision_text_valid)
  next
    case put: False
    with False run have "storage_remove h request owner rows = Inr (v, rows')"
      by (simp add: storage_execute_def split: sum.splits prod.splits)
    from remove_versioned [OF inv this False put] show ?thesis by blast
  qed
qed

section \<open>The broker over a store of versioned values\<close>

text \<open>
  The state of a storage call: what the replay store holds, and what the storage holds. A call to one
  of them leaves the other alone.
\<close>

definition on_storage :: "('s, 'a) broker \<Rightarrow> ('r \<times> 's, 'a) broker" where
  "on_storage m = (\<lambda>(r, s). case m s of (x, s') \<Rightarrow> (x, (r, s')))"

definition on_replays :: "(string \<Rightarrow> int \<Rightarrow> 'r \<Rightarrow> bool \<times> 'r) \<Rightarrow> string \<Rightarrow> int \<Rightarrow> 'r \<times> 's \<Rightarrow> bool \<times> ('r \<times> 's)" where
  "on_replays consume jti expiresAt = (\<lambda>(r, s). case consume jti expiresAt r of (b, r') \<Rightarrow> (b, (r', s)))"

lemma on_storage_Inr: "on_storage m (r, s) = (x, (r', s')) \<longleftrightarrow> r' = r \<and> m s = (x, s')"
  by (auto simp: on_storage_def split: prod.splits)

lemma verify_keeps_storage:
  assumes "bi_consume input = on_replays consume"
    and "verifyBrokerInvocationV1 t input operationId permission tenantRequired (r, s) = (x, (r', s'))"
  shows "s' = s"
proof -
  obtain y r1 s1 where run: "verifyPluginInvocationV1 t (on_replays consume) (broker_verification input operationId) (r, s) = (y, (r1, s1))"
    by (metis prod.collapse)
  have "s1 = s"
  proof (cases "bind_res (read_claims t (vi_token (broker_verification input operationId))) (check_claims (broker_verification input operationId))")
    case (Inl e)
    with run show ?thesis by (simp add: verifyPluginInvocationV1_def del: bind_res_Inl)
  next
    case (Inr c)
    obtain b r2 where "consume (ic_jti c) (ic_exp c) r = (b, r2)" by fastforce
    with run Inr show ?thesis
      by (cases b) (simp_all add: verifyPluginInvocationV1_def on_replays_def del: bind_res_Inr)
  qed
  with assms run show ?thesis
    by (auto simp: verifyBrokerInvocationV1_def split: if_split_asm sum.splits)
qed

text \<open>The entry a storage request is about, for the claims of its invocation.\<close>

definition tenant_scope :: "jsval \<Rightarrow> bool" where
  "tenant_scope request \<longleftrightarrow> getp request ''scope'' = JStr ''tenant''"

definition storage_permission :: "jsval \<Rightarrow> string" where
  "storage_permission request =
     (if tenant_scope request then ''host.plugin_storage.tenant'' else ''host.plugin_storage.deployment'')"

definition claimed_entry :: "string \<Rightarrow> invocation_claims \<Rightarrow> jsval \<Rightarrow> storage_namespace \<times> string" where
  "claimed_entry pluginId claims request =
     ((pluginId, ic_deploymentRef claims, prop_str request ''scope'',
       if tenant_scope request then the (ic_tenantRef claims) else DEPLOYMENT_SCOPE_KEY), prop_str request ''key'')"

lemma storage_identity_claimed:
  assumes "storage_identity request \<lparr>so_pluginId = p, so_deploymentRef = ic_deploymentRef claims,
     so_tenantRef = (if getp request ''scope'' = JStr ''tenant'' then ic_tenantRef claims else None)\<rparr> = Inr i"
  shows "i = claimed_entry p claims request"
  using assms
  by (auto simp: storage_identity_def claimed_entry_def requiredTenant_def tenant_scope_def split: if_split_asm)

text \<open>The interface \<open>PluginStorageStoreV1\<close>: every answer is an update of a map of versioned values.\<close>

locale versioned_store =
  fixes exec :: "jsval \<Rightarrow> storage_owner \<Rightarrow> ('s, jsval) broker"
    and view :: "'s \<Rightarrow> versioned"
    and good :: "'s \<Rightarrow> bool"
    and jsonParse :: "string \<Rightarrow> jsval option"
  assumes answered: "good s \<Longrightarrow> exec request owner s = (Inr v, s') \<Longrightarrow>
      good s' \<and> pluginStorageResponseV1Schema v \<and>
      (\<exists>i. storage_identity request owner = Inr i \<and> versioned_answer jsonParse request i (view s) v (view s'))"
    and failed: "exec request owner s = (Inl e, s') \<Longrightarrow> s' = s"
begin

definition call :: "token_lib \<Rightarrow> ('r \<times> 's) broker_input \<Rightarrow> jsval \<Rightarrow> ('r \<times> 's, jsval) broker" where
  "call t input request = executePluginStorageBrokerV1 t input (\<lambda>request owner. on_storage (exec request owner)) request"

lemma call_answered:
  assumes good: "good s" and consume: "bi_consume input = on_replays consume"
    and run: "call t input request (r, s) = (Inr v, (r', s'))"
  obtains claims where
    "claims_authorized t input (prop_str request ''operationId'') (storage_permission request) (tenant_scope request) (r, s) claims (r', s)"
    and "good s'" and "versioned_answer jsonParse request (claimed_entry (bi_pluginId input) claims request) (view s) v (view s')"
proof -
  let ?owner = "\<lambda>claims. \<lparr>so_pluginId = bi_pluginId input, so_deploymentRef = ic_deploymentRef claims,
     so_tenantRef = (if getp request ''scope'' = JStr ''tenant'' then ic_tenantRef claims else None)\<rparr>"
  from run obtain claims r1 s1 where
    auth: "claims_authorized t input (prop_str request ''operationId'') (storage_permission request) (tenant_scope request) (r, s) claims (r1, s1)"
    and exec: "on_storage (exec request (?owner claims)) (r1, s1) = (Inr v, (r', s'))"
    by (auto simp: call_def executePluginStorageBrokerV1_def Let_def broker_simps verify_broker_iff
        storage_permission_def tenant_scope_def assertJsonStorageValue_def split: if_split_asm option.splits)
  from auth consume have "s1 = s"
    by (auto simp: claims_authorized_def on_replays_def split: prod.splits)
  with exec have "exec request (?owner claims) s = (Inr v, s')" and "r1 = r'"
    by (auto simp: on_storage_def split: prod.splits)
  with answered [OF good this(1)] storage_identity_claimed auth \<open>s1 = s\<close> that show thesis by blast
qed

lemma call_refused:
  assumes good: "good s" and consume: "bi_consume input = on_replays consume"
    and run: "call t input request (r, s) = (Inl e, (r', s'))"
  shows "s' = s"
proof -
  let ?op = "prop_str request ''operationId''" and ?scope = "getp request ''scope'' = JStr ''tenant''"
  let ?perm = "if ?scope then ''host.plugin_storage.tenant'' else ''host.plugin_storage.deployment''"
  let ?owner = "\<lambda>claims. \<lparr>so_pluginId = bi_pluginId input, so_deploymentRef = ic_deploymentRef claims,
     so_tenantRef = (if ?scope then ic_tenantRef claims else None)\<rparr>"
  obtain x r1 s1 where verify: "verifyBrokerInvocationV1 t input ?op ?perm ?scope (r, s) = (x, (r1, s1))"
    by (metis prod.collapse)
  have s1: "s1 = s" by (rule verify_keeps_storage [OF consume verify])
  show ?thesis
  proof (cases x)
    case (Inl e)
    with run verify s1 show ?thesis
      by (auto simp: call_def executePluginStorageBrokerV1_def Let_def broker_bind_def broker_throw_def split: if_split_asm)
  next
    case (Inr claims)
    obtain y s2 where exec: "exec request (?owner claims) s = (y, s2)" by fastforce
    have "s2 = s" if "y = Inl e" for e using failed exec that by blast
    moreover have "pluginStorageResponseV1Schema v" if "y = Inr v" for v using answered [OF good] exec that by blast
    ultimately show ?thesis
      using run verify s1 Inr exec
      by (cases y)
        (auto simp: call_def executePluginStorageBrokerV1_def Let_def broker_bind_def broker_throw_def broker_return_def
          broker_rescue_def broker_parse_def assertJsonStorageValue_def on_storage_def split: if_split_asm option.splits)
  qed
qed

end

interpretation database_storage: versioned_store "storage_execute h jsonParse now" "storage_view h" "storage_inv h" jsonParse
  for h jsonParse now
proof
  show "storage_inv h s' \<and> pluginStorageResponseV1Schema v \<and> (\<exists>i. storage_identity request owner = Inr i \<and>
      versioned_answer jsonParse request i (storage_view h s) v (storage_view h s'))"
    if "storage_inv h s" "storage_execute h jsonParse now request owner s = (Inr v, s')" for s request owner v s'
    using that by (rule execute_versioned)
  show "s' = s" if "storage_execute h jsonParse now request owner s = (Inl e, s')" for request owner s e s'
    using that by (auto simp: storage_execute_def split: if_split_asm sum.splits prod.splits)
qed

end
