(* ===== verification/Rate_Limit.thy ===== *)
theory Rate_Limit
  imports Gateway_Admission
begin

text \<open>
  The interface \<open>PluginGatewayAdmissionV1\<close> as a rate limiter (\<open>packages/plugin-runtime/src/gateway.ts\<close>): what
  counters per window have to do so that the limits hold in every run. The controller in memory is
  one; the one in the database is another.
\<close>

text \<open>A limiter, the last time it was asked, and what it has let through; clocks do not go back.\<close>

inductive rate_step ::
  "('i \<Rightarrow> int \<Rightarrow> 's \<Rightarrow> ('e + 'l) \<times> 's) \<Rightarrow> ('s \<Rightarrow> 's \<Rightarrow> bool) \<Rightarrow>
    's \<times> int \<times> (int \<times> 'i) list \<Rightarrow> 's \<times> int \<times> (int \<times> 'i) list \<Rightarrow> bool"
  for acquire :: "'i \<Rightarrow> int \<Rightarrow> 's \<Rightarrow> ('e + 'l) \<times> 's" and release :: "'s \<Rightarrow> 's \<Rightarrow> bool" where
  rate_granted: "seen \<le> now \<Longrightarrow> acquire i now s = (Inr l, s') \<Longrightarrow>
    rate_step acquire release (s, seen, log) (s', now, log @ [(now, i)])"
| rate_refused: "seen \<le> now \<Longrightarrow> acquire i now s = (Inl e, s') \<Longrightarrow>
    rate_step acquire release (s, seen, log) (s', now, log)"
| rate_released: "release s s' \<Longrightarrow> rate_step acquire release (s, seen, log) (s', seen, log)"

text \<open>The same with callers that have clocks of their own: \<open>seen\<close> is the latest reading so far, and a call may be behind it.\<close>

inductive clock_step ::
  "('i \<Rightarrow> int \<Rightarrow> 's \<Rightarrow> ('e + 'l) \<times> 's) \<Rightarrow> ('s \<Rightarrow> 's \<Rightarrow> bool) \<Rightarrow>
    's \<times> int \<times> (int \<times> 'i) list \<Rightarrow> 's \<times> int \<times> (int \<times> 'i) list \<Rightarrow> bool"
  for acquire :: "'i \<Rightarrow> int \<Rightarrow> 's \<Rightarrow> ('e + 'l) \<times> 's" and release :: "'s \<Rightarrow> 's \<Rightarrow> bool" where
  clock_granted: "acquire i now s = (Inr l, s') \<Longrightarrow>
    clock_step acquire release (s, seen, log) (s', max seen now, log @ [(now, i)])"
| clock_refused: "acquire i now s = (Inl e, s') \<Longrightarrow>
    clock_step acquire release (s, seen, log) (s', max seen now, log)"
| clock_released: "release s s' \<Longrightarrow> clock_step acquire release (s, seen, log) (s', seen, log)"

text \<open>
  A limiter that a refusal does not change only sees the admitted calls. When their readings happen to be in order, the run
  is one of a single clock, from any time that is not after the first of them.
\<close>

lemma ordered_run:
  assumes "(clock_step acquire release)\<^sup>*\<^sup>* (s0, t0, []) (s, seen, log)"
    and "\<And>i now s e s'. acquire i now s = (Inl e, s') \<Longrightarrow> s' = s"
    and "sorted (map fst log)" and "\<forall>t \<in> set (map fst log). t1 \<le> t"
  shows "(rate_step acquire release)\<^sup>*\<^sup>* (s0, t1, []) (s, last (t1 # map fst log), log)"
  using assms(1,3,4)
proof (induction w \<equiv> "(s, seen, log)" arbitrary: s seen log rule: rtranclp_induct)
  case base
  then show ?case by simp
next
  case (step w)
  from step.hyps(2) show ?case
  proof (cases rule: clock_step.cases)
    case (clock_granted i now v l u before)
    with step.prems have "\<forall>t \<in> set (t1 # map fst before). t \<le> now" by (auto simp: sorted_append)
    then have "last (t1 # map fst before) \<le> now" using last_in_set [of "t1 # map fst before"] by blast
    moreover from step.prems clock_granted have "sorted (map fst before)" "\<forall>t \<in> set (map fst before). t1 \<le> t"
      by (auto simp: sorted_append)
    moreover from this step.hyps(3) clock_granted
    have "(rate_step acquire release)\<^sup>*\<^sup>* (s0, t1, []) (v, last (t1 # map fst before), before)" by blast
    ultimately have "(rate_step acquire release)\<^sup>*\<^sup>* (s0, t1, []) (s, now, before @ [(now, i)])"
      using rate_granted [of "last (t1 # map fst before)" now acquire i v l s release before] clock_granted
      by (auto intro: rtranclp.rtrancl_into_rtrancl)
    with clock_granted show ?thesis by simp
  next
    case (clock_refused i now v e u)
    with step assms(2) show ?thesis by blast
  next
    case (clock_released v)
    with step.hyps(3) step.prems
    have "(rate_step acquire release)\<^sup>*\<^sup>* (s0, t1, []) (v, last (t1 # map fst log), log)" by blast
    with clock_released show ?thesis by (auto intro: rtranclp.rtrancl_into_rtrancl rate_released)
  qed
qed

definition let_through :: "(int \<Rightarrow> int) \<Rightarrow> ('i \<Rightarrow> bool) \<Rightarrow> int \<Rightarrow> (int \<times> 'i) list \<Rightarrow> nat" where
  "let_through window sel w log = length (filter (\<lambda>(t, i). window t = w \<and> sel i) log)"

lemma let_through_simps [simp]:
  "let_through window sel w [] = 0"
  "let_through window sel w (log @ [(t, i)]) = let_through window sel w log + (if window t = w \<and> sel i then 1 else 0)"
  by (simp_all add: let_through_def)

lemma let_through_none: "(\<And>t i. (t, i) \<in> set log \<Longrightarrow> window t \<noteq> w) \<Longrightarrow> let_through window sel w log = 0"
  by (auto simp: let_through_def filter_empty_conv)

locale rate_limiter =
  fixes acquire :: "'i \<Rightarrow> int \<Rightarrow> 's \<Rightarrow> ('e + 'l) \<times> 's"
    and release :: "'s \<Rightarrow> 's \<Rightarrow> bool"
    and window :: "int \<Rightarrow> int"
    and uses :: "'i \<Rightarrow> 'k \<Rightarrow> bool"
    and limit :: "'k \<Rightarrow> int"
    and count :: "'s \<Rightarrow> 'k \<Rightarrow> int \<Rightarrow> int"
    and good :: "'s \<Rightarrow> bool"
  assumes windows: "good s \<Longrightarrow> t \<le> t' \<Longrightarrow> window t \<le> window t'"
    and bounds: "good s \<Longrightarrow> 0 \<le> limit k \<and> 0 \<le> count s k w"
    and keeps: "good s \<Longrightarrow> acquire i now s = (r, s') \<Longrightarrow> good s' \<and> count s k (window now) \<le> count s' k (window now)"
    and counts: "good s \<Longrightarrow> acquire i now s = (Inr l, s') \<Longrightarrow> uses i k \<Longrightarrow>
      count s k (window now) < limit k \<and> count s k (window now) + 1 \<le> count s' k (window now)"
    and releases: "good s \<Longrightarrow> release s s' \<Longrightarrow> good s' \<and> count s k w \<le> count s' k w"
begin

definition covered :: "'s \<times> int \<times> (int \<times> 'i) list \<Rightarrow> bool" where
  "covered = (\<lambda>(s, seen, log). good s \<and> (\<forall>(t, i) \<in> set log. t \<le> seen) \<and>
     (\<forall>k w. int (let_through window (\<lambda>i. uses i k) w log) \<le> limit k) \<and>
     (\<forall>k. int (let_through window (\<lambda>i. uses i k) (window seen) log) \<le> count s k (window seen)))"

text \<open>The counters cover what was let through in the window of any later time.\<close>

lemma covers_later:
  assumes "covered (s, seen, log)" and "seen \<le> now"
  shows "int (let_through window (\<lambda>i. uses i k) (window now) log) \<le> count s k (window now)"
proof (cases "window now = window seen")
  case True
  with assms show ?thesis by (simp add: covered_def)
next
  case False
  have good: "good s" and times: "(t, i) \<in> set log \<Longrightarrow> t \<le> seen" for t i using assms(1) by (auto simp: covered_def)
  have "window t \<noteq> window now" if "(t, i) \<in> set log" for t i
    using windows [OF good times [OF that]] windows [OF good assms(2)] False by linarith
  then show ?thesis using bounds [OF good] by (simp add: let_through_none)
qed

lemma step_covered:
  assumes "rate_step acquire release w w'" and "covered w"
  shows "covered w'"
  using assms
proof (induction rule: rate_step.induct)
  case (rate_granted seen now i s l s' log)
  have good: "good s" and times: "\<forall>(t, i) \<in> set log. t \<le> seen"
    and within: "int (let_through window (\<lambda>i. uses i k) v log) \<le> limit k" for k v
    using rate_granted.prems by (simp_all add: covered_def)
  note later = covers_later [OF rate_granted.prems rate_granted(1)]
  have "int (let_through window (\<lambda>i. uses i k) v (log @ [(now, i)])) \<le> limit k" for k v
    using within [of k v] later [of k] counts [OF good rate_granted(2), of k] by auto
  moreover have "int (let_through window (\<lambda>i. uses i k) (window now) (log @ [(now, i)])) \<le> count s' k (window now)" for k
    using later [of k] counts [OF good rate_granted(2), of k] keeps [OF good rate_granted(2), of k] by auto
  moreover have "\<forall>(t, i) \<in> set (log @ [(now, i)]). t \<le> now" using times rate_granted(1) by fastforce
  ultimately show ?case using keeps [OF good rate_granted(2)] by (simp add: covered_def)
next
  case (rate_refused seen now i s e s' log)
  have good: "good s" and times: "\<forall>(t, i) \<in> set log. t \<le> seen"
    and within: "\<forall>k v. int (let_through window (\<lambda>i. uses i k) v log) \<le> limit k"
    using rate_refused.prems by (simp_all add: covered_def)
  have "int (let_through window (\<lambda>i. uses i k) (window now) log) \<le> count s' k (window now)" for k
    using covers_later [OF rate_refused.prems rate_refused(1), of k] keeps [OF good rate_refused(2), of k] by simp
  moreover have "\<forall>(t, i) \<in> set log. t \<le> now" using times rate_refused(1) by fastforce
  ultimately show ?case using within keeps [OF good rate_refused(2)] by (simp add: covered_def)
next
  case (rate_released s s' seen log)
  have good: "good s" using rate_released.prems by (simp add: covered_def)
  have "int (let_through window (\<lambda>i. uses i k) (window seen) log) \<le> count s' k (window seen)" for k
    using covers_later [OF rate_released.prems order_refl, of k] releases [OF good rate_released(1), of k "window seen"] by simp
  then show ?case using rate_released.prems releases [OF good rate_released(1)] by (simp add: covered_def)
qed

theorem limit_holds:
  assumes "good s0" and "(rate_step acquire release)\<^sup>*\<^sup>* (s0, t0, []) (s, seen, log)"
  shows "int (let_through window (\<lambda>i. uses i k) w log) \<le> limit k" and "good s"
proof -
  have "covered (s, seen, log)"
    using assms(2)
  proof (induction rule: rtranclp_induct)
    case base
    show ?case using bounds [OF assms(1)] assms(1) by (simp add: covered_def)
  qed (rule step_covered)
  then show "int (let_through window (\<lambda>i. uses i k) w log) \<le> limit k" and "good s"
    by (simp_all add: covered_def)
qed

end

section \<open>The controller in memory\<close>

datatype rate_key = SubjectRate string | PluginRate string

fun rate_uses :: "host \<Rightarrow> admission_input \<Rightarrow> rate_key \<Rightarrow> bool" where
  "rate_uses h i (SubjectRate k) \<longleftrightarrow> subjectKey h i = k"
| "rate_uses h i (PluginRate k) \<longleftrightarrow> pluginKey h i = k"

fun rate_limit :: "admission_policy \<Rightarrow> rate_key \<Rightarrow> int" where
  "rate_limit p (SubjectRate k) = ap_maxRequestsPerSubjectOperation p"
| "rate_limit p (PluginRate k) = ap_maxRequestsPerPlugin p"

fun bucket_of :: "rate_key \<Rightarrow> string" where
  "bucket_of (SubjectRate k) = k"
| "bucket_of (PluginRate k) = k"

definition buckets_good :: "admission_policy \<Rightarrow> admission_state \<Rightarrow> bool" where
  "buckets_good p s \<longleftrightarrow> admission_policy_ok p \<and> distinct (map fst (ga_rateBuckets s)) \<and>
     (\<forall>(key, bucket) \<in> set (ga_rateBuckets s). 0 \<le> bk_count bucket)"

lemma buckets_good_count: "buckets_good p s \<Longrightarrow> 0 \<le> bucketCount s key window"
  by (auto simp: buckets_good_def bucketCount_def split: option.split dest!: map_of_SomeD)

lemma buckets_good_removed: "buckets_good p s \<Longrightarrow> buckets_good p (removeExpiredBuckets p now s)"
  by (auto simp: buckets_good_def removeExpiredBuckets_def distinct_map_filter)

lemma buckets_good_increment:
  assumes "buckets_good p s"
  shows "buckets_good p (incrementBucket key win s)"
  using assms buckets_good_count [OF assms, of key win]
  by (auto simp: buckets_good_def incrementBucket_def dest!: in_set_put)

lemma buckets_good_concurrent [simp]: "buckets_good p (s\<lparr>ga_concurrent := m\<rparr>) = buckets_good p s"
  by (simp add: buckets_good_def)

lemma memory_acquire_counts:
  assumes good: "buckets_good p s" and run: "admission_acquire h p i now s = (r, s')"
  shows "buckets_good p s'" and "bucketCount s key (windowOf p now) \<le> bucketCount s' key (windowOf p now)"
    and "r = Inr l \<Longrightarrow> rate_uses h i k \<Longrightarrow>
      bucketCount s (bucket_of k) (windowOf p now) < rate_limit p k \<and>
      bucketCount s (bucket_of k) (windowOf p now) + 1 \<le> bucketCount s' (bucket_of k) (windowOf p now)"
proof -
  let ?c = "removeExpiredBuckets p now s" and ?w = "windowOf p now"
  have same: "bucketCount ?c key ?w = bucketCount s key ?w" for key
    using bucketCount_removed good by (simp add: buckets_good_def)
  note clean = buckets_good_removed [OF good, of now]
  from acquire_result [OF run] show "buckets_good p s'"
    by (auto simp: Let_def clean buckets_good_increment)
  from acquire_result [OF run] show "bucketCount s key ?w \<le> bucketCount s' key ?w"
    by (auto simp: Let_def same bucketCount_increment)
  show "bucketCount s (bucket_of k) ?w < rate_limit p k \<and>
      bucketCount s (bucket_of k) ?w + 1 \<le> bucketCount s' (bucket_of k) ?w" if "r = Inr l" "rate_uses h i k"
    using acquire_result [OF run] that by (cases k) (auto simp: Let_def same bucketCount_increment)
qed

definition memory_released :: "admission_state \<Rightarrow> admission_state \<Rightarrow> bool" where
  "memory_released s s' \<longleftrightarrow> (\<exists>lease lease'. admission_release lease s = (lease', s'))"

lemma memory_released_counts:
  assumes "memory_released s s'"
  shows "bucketCount s' key w = bucketCount s key w" and "buckets_good p s' = buckets_good p s"
  using assms by (auto simp: memory_released_def admission_release_def Let_def split: if_split_asm)

interpretation memory_rates: rate_limiter "admission_acquire h p" memory_released "windowOf p" "rate_uses h" "rate_limit p"
  "\<lambda>s k. bucketCount s (bucket_of k)" "buckets_good p" for h p
proof
  fix s s' :: admission_state and t t' :: int and k :: rate_key and w now :: int and i r
    and l :: admission_lease
  show "windowOf p t \<le> windowOf p t'" if "buckets_good p s" "t \<le> t'"
    using that windowOf_mono by (simp add: buckets_good_def)
  show "0 \<le> rate_limit p k \<and> 0 \<le> bucketCount s (bucket_of k) w" if "buckets_good p s"
    using that buckets_good_count [OF that] by (cases k) (simp_all add: buckets_good_def admission_policy_ok_def)
  show "buckets_good p s' \<and> bucketCount s (bucket_of k) (windowOf p now) \<le> bucketCount s' (bucket_of k) (windowOf p now)"
    if "buckets_good p s" "admission_acquire h p i now s = (r, s')"
    using memory_acquire_counts(1,2) [OF that] by blast
  show "bucketCount s (bucket_of k) (windowOf p now) < rate_limit p k \<and>
      bucketCount s (bucket_of k) (windowOf p now) + 1 \<le> bucketCount s' (bucket_of k) (windowOf p now)"
    if "buckets_good p s" "admission_acquire h p i now s = (Inr l, s')" "rate_uses h i k"
    using memory_acquire_counts(3) [OF that(1,2) refl that(3)] .
  show "buckets_good p s' \<and> bucketCount s (bucket_of k) w \<le> bucketCount s' (bucket_of k) w"
    if "buckets_good p s" "memory_released s s'"
    using that memory_released_counts [OF that(2)] by simp
qed

end
