(* ===== verification/Admission_Store.thy ===== *)
theory Admission_Store
  imports Rate_Limit Gateway_Token
begin

text \<open>
  The admission of the plugin gateway that all replicas of the host share
  (\<open>packages/backend-host/src/plugins/pluginGatewayAdmissionStore.ts\<close>): a row per plugin, a row per subject
  bucket, and a row per lease. Every \<open>acquire\<close> is one transaction; one that throws is rolled back.
\<close>

section \<open>Tables\<close>

text \<open>The tables are keyed by their unique columns: the plugin, the bucket's hash, the lease.\<close>

record plugin_row =
  pr_windowStartedAt :: int
  pr_requestCount :: int

record subject_row =
  su_pluginId :: string
  su_operationId :: string
  su_windowStartedAt :: int
  su_requestCount :: int
  su_updatedAt :: int

record lease_row =
  le_pluginId :: string
  le_operationId :: string
  le_expiresAt :: int

record admission_tables =
  at_plugins :: "(string \<times> plugin_row) list"
  at_subjects :: "(string \<times> subject_row) list"
  at_leases :: "(string \<times> lease_row) list"

text \<open>A call: its input with the time a lease lives, and the random id its lease gets.\<close>

record admission_call =
  ad_input :: admission_input
  ad_leaseTtlMs :: "int option"
  ad_leaseId :: string

definition MIN_LEASE_TTL_MS :: int where
  "MIN_LEASE_TTL_MS = 1000"

definition MAX_LEASE_TTL_MS :: int where
  "MAX_LEASE_TTL_MS = 10 * 60000"

definition DEFAULT_LEASE_TTL_MS :: int where
  "DEFAULT_LEASE_TTL_MS = 60000"

definition lease_ttl :: "admission_call \<Rightarrow> int" where
  "lease_ttl call = (case ad_leaseTtlMs call of None \<Rightarrow> DEFAULT_LEASE_TTL_MS | Some t \<Rightarrow> t)"

text \<open>\<open>/^[^\u0000]{1,512}$/\<close>\<close>

definition plain_ref :: "string \<Rightarrow> bool" where
  "plain_ref s \<longleftrightarrow> 1 \<le> length s \<and> length s \<le> 512 \<and> CHR 0x00 \<notin> set s"

definition admission_call_ok :: "admission_call \<Rightarrow> int \<Rightarrow> bool" where
  "admission_call_ok call now \<longleftrightarrow> 0 \<le> now \<and> now \<le> max_safe_integer \<and> lease_ttl call \<le> max_safe_integer \<and>
     MIN_LEASE_TTL_MS \<le> lease_ttl call \<and> lease_ttl call \<le> MAX_LEASE_TTL_MS \<and>
     opaque_id 1 256 (am_operationId (ad_input call)) \<and> plain_ref (am_subjectRef (ad_input call)) \<and>
     (case am_tenantRef (ad_input call) of None \<Rightarrow> True | Some t \<Rightarrow> plain_ref t)"

section \<open>The transaction\<close>

text \<open>\<open>number(value)\<close>; the error it throws is no gateway error.\<close>

definition number_ok :: "int \<Rightarrow> bool" where
  "number_ok i \<longleftrightarrow> \<bar>i\<bar> \<le> max_safe_integer"

definition without_stale :: "string \<Rightarrow> int \<Rightarrow> (string \<times> subject_row) list \<Rightarrow> (string \<times> subject_row) list" where
  "without_stale pluginId cutoff rows = filter (\<lambda>(k, r). \<not> (su_pluginId r = pluginId \<and> su_updatedAt r \<le> cutoff)) rows"

definition without_expired :: "string \<Rightarrow> int \<Rightarrow> (string \<times> lease_row) list \<Rightarrow> (string \<times> lease_row) list" where
  "without_expired pluginId now rows = filter (\<lambda>(k, r). \<not> (le_pluginId r = pluginId \<and> le_expiresAt r \<le> now)) rows"

definition live_leases :: "string \<Rightarrow> string \<Rightarrow> int \<Rightarrow> (string \<times> lease_row) list \<Rightarrow> int" where
  "live_leases pluginId operationId now rows =
     int (length (filter (\<lambda>(k, r). le_pluginId r = pluginId \<and> le_operationId r = operationId \<and> now < le_expiresAt r) rows))"

definition tracked_subjects :: "string \<Rightarrow> (string \<times> subject_row) list \<Rightarrow> int" where
  "tracked_subjects pluginId rows = int (length (filter (\<lambda>(k, r). su_pluginId r = pluginId) rows))"

definition plugin_count :: "admission_tables \<Rightarrow> string \<Rightarrow> int \<Rightarrow> int" where
  "plugin_count s pluginId window =
     (case map_of (at_plugins s) pluginId of
        None \<Rightarrow> 0 | Some r \<Rightarrow> if pr_windowStartedAt r = window then pr_requestCount r else 0)"

definition subject_count :: "(string \<times> subject_row) list \<Rightarrow> string \<Rightarrow> int \<Rightarrow> int" where
  "subject_count rows bucketHash window =
     (case map_of rows bucketHash of
        None \<Rightarrow> 0 | Some r \<Rightarrow> if su_windowStartedAt r = window then su_requestCount r else 0)"

text \<open>The numbers that are read: of the plugin's row and of the subject's.\<close>

definition numbers_ok :: "int \<Rightarrow> plugin_row option \<Rightarrow> subject_row option \<Rightarrow> bool" where
  "numbers_ok window state subject \<longleftrightarrow>
     (case state of None \<Rightarrow> True
      | Some r \<Rightarrow> number_ok (pr_windowStartedAt r) \<and> (pr_windowStartedAt r = window \<longrightarrow> number_ok (pr_requestCount r))) \<and>
     (case subject of None \<Rightarrow> True
      | Some r \<Rightarrow> number_ok (su_windowStartedAt r) \<and> (su_windowStartedAt r = window \<longrightarrow> number_ok (su_requestCount r)))"

definition acquireInTransaction ::
  "host \<Rightarrow> admission_policy \<Rightarrow> admission_call \<Rightarrow> int \<Rightarrow> admission_tables \<Rightarrow> gateway_code + admission_tables" where
  "acquireInTransaction h p call now s =
     (let input = ad_input call; pluginId = am_pluginId input; operationId = am_operationId input;
          windowStartedAt = windowOf p now;
          subjects = without_stale pluginId (windowStartedAt - ap_windowMs p) (at_subjects s);
          leases = without_expired pluginId now (at_leases s);
          bucketHash = subjectKey h input;
          pluginCount = plugin_count s pluginId windowStartedAt;
          subjectCount = subject_count subjects bucketHash windowStartedAt
      in if \<not> numbers_ok windowStartedAt (map_of (at_plugins s) pluginId) (map_of subjects bucketHash)
         then Inl AdmissionUnavailable
         else if ap_maxRequestsPerPlugin p \<le> pluginCount \<or> ap_maxRequestsPerSubjectOperation p \<le> subjectCount
         then Inl RateLimited
         else if ap_maxConcurrentPerOperation p \<le> live_leases pluginId operationId now leases
         then Inl ConcurrencyLimited
         else if map_of subjects bucketHash = None \<and> int (ap_maxTrackedBuckets p) \<le> tracked_subjects pluginId subjects
         then Inl RateLimited
         else if map_of leases (ad_leaseId call) \<noteq> None then Inl AdmissionUnavailable
         else Inr
           \<lparr>at_plugins = put pluginId \<lparr>pr_windowStartedAt = windowStartedAt, pr_requestCount = pluginCount + 1\<rparr> (at_plugins s),
            at_subjects = put bucketHash
              \<lparr>su_pluginId = (case map_of subjects bucketHash of None \<Rightarrow> pluginId | Some r \<Rightarrow> su_pluginId r),
               su_operationId = operationId, su_windowStartedAt = windowStartedAt,
               su_requestCount = subjectCount + 1, su_updatedAt = now\<rparr> subjects,
            at_leases = put (ad_leaseId call)
              \<lparr>le_pluginId = pluginId, le_operationId = operationId, le_expiresAt = now + lease_ttl call\<rparr> leases\<rparr>)"

text \<open>\<open>acquire\<close>. An error that is none of the gateway's is tried again, on the same tables.\<close>

definition database_acquire ::
  "host \<Rightarrow> admission_policy \<Rightarrow> admission_call \<Rightarrow> int \<Rightarrow> admission_tables \<Rightarrow> (gateway_code + string) \<times> admission_tables" where
  "database_acquire h p call now s =
     (if \<not> admission_call_ok call now then (Inl AdmissionUnavailable, s)
      else case acquireInTransaction h p call now s of
        Inl e \<Rightarrow> (Inl e, s)
      | Inr s' \<Rightarrow> (Inr (ad_leaseId call), s'))"

text \<open>\<open>release()\<close> of a lease\<close>

definition database_release :: "string \<Rightarrow> admission_tables \<Rightarrow> admission_tables" where
  "database_release leaseId s = s\<lparr>at_leases := del leaseId (at_leases s)\<rparr>"

definition database_released :: "admission_tables \<Rightarrow> admission_tables \<Rightarrow> bool" where
  "database_released s s' \<longleftrightarrow> (\<exists>leaseId. s' = database_release leaseId s)"

definition empty_tables :: admission_tables where
  "empty_tables = \<lparr>at_plugins = [], at_subjects = [], at_leases = []\<rparr>"

section \<open>The limits hold for all replicas together\<close>

definition tables_good :: "admission_policy \<Rightarrow> admission_tables \<Rightarrow> bool" where
  "tables_good p s \<longleftrightarrow> admission_policy_ok p \<and> distinct (map fst (at_subjects s)) \<and> distinct (map fst (at_leases s)) \<and>
     (\<forall>(k, r) \<in> set (at_plugins s). 0 \<le> pr_requestCount r) \<and>
     (\<forall>(k, r) \<in> set (at_subjects s). 0 \<le> su_requestCount r \<and> su_windowStartedAt r \<le> su_updatedAt r)"

fun rate_count :: "admission_tables \<Rightarrow> rate_key \<Rightarrow> int \<Rightarrow> int" where
  "rate_count s (SubjectRate k) w = subject_count (at_subjects s) k w"
| "rate_count s (PluginRate k) w = plugin_count s k w"

fun call_uses :: "host \<Rightarrow> admission_call \<Rightarrow> rate_key \<Rightarrow> bool" where
  "call_uses h call (SubjectRate k) \<longleftrightarrow> subjectKey h (ad_input call) = k"
| "call_uses h call (PluginRate k) \<longleftrightarrow> am_pluginId (ad_input call) = k"

lemma map_of_filter_distinct:
  "distinct (map fst m) \<Longrightarrow>
     map_of (filter (\<lambda>(k, v). P k v) m) k = (case map_of m k of None \<Rightarrow> None | Some v \<Rightarrow> if P k v then Some v else None)"
  by (induction m) (auto simp: map_of_eq_None_iff image_iff split: option.splits)

lemma tables_good_counts: "tables_good p s \<Longrightarrow> 0 \<le> rate_count s k w"
  by (cases k) (auto simp: tables_good_def plugin_count_def subject_count_def split: option.split dest!: map_of_SomeD)

lemma stale_counts:
  assumes "tables_good p s"
  shows "subject_count (without_stale pluginId (windowOf p now - ap_windowMs p) (at_subjects s)) k (windowOf p now) =
     subject_count (at_subjects s) k (windowOf p now)"
proof -
  have d: "distinct (map fst (at_subjects s))" and w: "0 < ap_windowMs p"
    using assms by (simp_all add: tables_good_def admission_policy_ok_def)
  have "su_windowStartedAt r \<le> su_updatedAt r" if "map_of (at_subjects s) k = Some r" for r
    using assms map_of_SomeD [OF that] by (auto simp: tables_good_def)
  with w show ?thesis
    unfolding subject_count_def without_stale_def map_of_filter_distinct [OF d]
    by (force split: option.splits)
qed

lemma live_leases_kept: "live_leases pluginId operationId now (without_expired other now rows) = live_leases pluginId operationId now rows"
  unfolding live_leases_def without_expired_def by (induction rows) auto

lemma live_leases_later: "now \<le> later \<Longrightarrow> live_leases pluginId operationId later rows \<le> live_leases pluginId operationId now rows"
  unfolding live_leases_def by (induction rows) auto

lemma live_leases_del: "live_leases pluginId operationId now (del k rows) \<le> live_leases pluginId operationId now rows"
proof (induction rows)
  case (Cons a rows)
  then show ?case by (cases a; cases "k = fst a") (auto simp: live_leases_def)
qed (simp add: live_leases_def)

lemma live_leases_put:
  "map_of rows k = None \<Longrightarrow> live_leases pluginId operationId now (put k r rows) = live_leases pluginId operationId now rows +
     (if le_pluginId r = pluginId \<and> le_operationId r = operationId \<and> now < le_expiresAt r then 1 else 0)"
  by (simp add: live_leases_def put_new map_of_eq_None_iff)

text \<open>What a granted call does to the tables.\<close>

lemma granted_result:
  assumes "acquireInTransaction h p call now s = Inr s'"
  obtains subjects leases pluginId key w where
    "pluginId = am_pluginId (ad_input call)" and "key = subjectKey h (ad_input call)" and "w = windowOf p now"
    and "subjects = without_stale pluginId (w - ap_windowMs p) (at_subjects s)"
    and "leases = without_expired pluginId now (at_leases s)"
    and "plugin_count s pluginId w < ap_maxRequestsPerPlugin p"
    and "subject_count subjects key w < ap_maxRequestsPerSubjectOperation p"
    and "live_leases pluginId (am_operationId (ad_input call)) now (at_leases s) < ap_maxConcurrentPerOperation p"
    and "map_of subjects key \<noteq> None \<or> tracked_subjects pluginId subjects < int (ap_maxTrackedBuckets p)"
    and "map_of leases (ad_leaseId call) = None"
    and "at_plugins s' = put pluginId \<lparr>pr_windowStartedAt = w, pr_requestCount = plugin_count s pluginId w + 1\<rparr> (at_plugins s)"
    and "at_subjects s' = put key
       \<lparr>su_pluginId = (case map_of subjects key of None \<Rightarrow> pluginId | Some r \<Rightarrow> su_pluginId r),
        su_operationId = am_operationId (ad_input call), su_windowStartedAt = w,
        su_requestCount = subject_count subjects key w + 1, su_updatedAt = now\<rparr> subjects"
    and "at_leases s' = put (ad_leaseId call)
       \<lparr>le_pluginId = pluginId, le_operationId = am_operationId (ad_input call), le_expiresAt = now + lease_ttl call\<rparr> leases"
  using assms by (auto simp: acquireInTransaction_def Let_def not_le live_leases_kept split: if_split_asm intro!: that)

lemma transaction_counts:
  assumes good: "tables_good p s" and run: "acquireInTransaction h p call now s = Inr s'"
  shows "tables_good p s'" and "call_uses h call k \<Longrightarrow> rate_count s k (windowOf p now) < rate_limit p k"
    and "rate_count s' k (windowOf p now) = rate_count s k (windowOf p now) + (if call_uses h call k then 1 else 0)"
proof -
  obtain subjects leases pluginId key w where
    names: "pluginId = am_pluginId (ad_input call)" "key = subjectKey h (ad_input call)" "w = windowOf p now"
    and subjects: "subjects = without_stale pluginId (w - ap_windowMs p) (at_subjects s)"
    and leases: "leases = without_expired pluginId now (at_leases s)"
    and limits: "plugin_count s pluginId w < ap_maxRequestsPerPlugin p"
      "subject_count subjects key w < ap_maxRequestsPerSubjectOperation p"
    and s': "at_plugins s' = put pluginId \<lparr>pr_windowStartedAt = w, pr_requestCount = plugin_count s pluginId w + 1\<rparr> (at_plugins s)"
      "at_subjects s' = put key
       \<lparr>su_pluginId = (case map_of subjects key of None \<Rightarrow> pluginId | Some r \<Rightarrow> su_pluginId r),
        su_operationId = am_operationId (ad_input call), su_windowStartedAt = w,
        su_requestCount = subject_count subjects key w + 1, su_updatedAt = now\<rparr> subjects"
      "at_leases s' = put (ad_leaseId call)
       \<lparr>le_pluginId = pluginId, le_operationId = am_operationId (ad_input call), le_expiresAt = now + lease_ttl call\<rparr> leases"
    using run by (rule granted_result)
  have same: "subject_count subjects k w = subject_count (at_subjects s) k w" for k
    using stale_counts [OF good] by (simp add: subjects names)
  have nonneg: "0 \<le> plugin_count s pluginId w" "0 \<le> subject_count subjects key w"
    using tables_good_counts [OF good, of "PluginRate pluginId" w] tables_good_counts [OF good, of "SubjectRate key" w]
    by (simp_all add: same)
  have reached: "windowOf p now \<le> now" using good windowOf_bounds(1) by (simp add: tables_good_def)
  have dist: "distinct (map fst subjects)" "distinct (map fst leases)" "set subjects \<subseteq> set (at_subjects s)"
    using good by (auto simp: tables_good_def subjects leases without_stale_def without_expired_def distinct_map_filter)
  then have rows: "\<forall>(k, r) \<in> set (at_subjects s'). 0 \<le> su_requestCount r \<and> su_windowStartedAt r \<le> su_updatedAt r"
    using good nonneg reached by (auto simp: tables_good_def s' names dest!: in_set_put)
  have "\<forall>(k, r) \<in> set (at_plugins s'). 0 \<le> pr_requestCount r"
    using good nonneg by (auto simp: tables_good_def s' dest!: in_set_put)
  with rows dist good show "tables_good p s'" by (simp add: tables_good_def s')
  show "rate_count s k (windowOf p now) < rate_limit p k" if "call_uses h call k"
    using that limits same by (cases k) (auto simp: names)
  show "rate_count s' k (windowOf p now) = rate_count s k (windowOf p now) + (if call_uses h call k then 1 else 0)"
    using same
    by (cases k) (auto simp: s' names subject_count_def plugin_count_def)
qed

interpretation database_rates: rate_limiter "database_acquire h p" database_released "windowOf p" "call_uses h" "rate_limit p"
  rate_count "tables_good p" for h p
proof
  fix s s' :: admission_tables and t t' now w :: int and k :: rate_key and i r and l :: string
  show "windowOf p t \<le> windowOf p t'" if "tables_good p s" "t \<le> t'"
    using that windowOf_mono by (simp add: tables_good_def)
  show "0 \<le> rate_limit p k \<and> 0 \<le> rate_count s k w" if "tables_good p s"
    using that tables_good_counts [OF that, of k w] by (cases k) (auto simp: tables_good_def admission_policy_ok_def)
  show "tables_good p s' \<and> rate_count s k (windowOf p now) \<le> rate_count s' k (windowOf p now)"
    if "tables_good p s" "database_acquire h p i now s = (r, s')"
    using that transaction_counts(1,3) [OF that(1)]
    by (auto simp: database_acquire_def split: if_split_asm sum.splits)
  show "rate_count s k (windowOf p now) < rate_limit p k \<and> rate_count s k (windowOf p now) + 1 \<le> rate_count s' k (windowOf p now)"
    if "tables_good p s" "database_acquire h p i now s = (Inr l, s')" "call_uses h i k"
    using that transaction_counts(2,3) [OF that(1)]
    by (auto simp: database_acquire_def split: if_split_asm sum.splits)
  show "tables_good p s' \<and> rate_count s k w \<le> rate_count s' k w" if "tables_good p s" "database_released s s'"
    using that by (cases k)
      (auto simp: database_released_def database_release_def tables_good_def plugin_count_def)
qed

section \<open>Places in use\<close>

text \<open>
  From the last time on, no operation has more unexpired leases than the policy allows, and no plugin
  has more tracked subjects.
\<close>

definition places_ok :: "admission_policy \<Rightarrow> int \<Rightarrow> admission_tables \<Rightarrow> bool" where
  "places_ok p seen s \<longleftrightarrow>
     (\<forall>pluginId operationId. live_leases pluginId operationId seen (at_leases s) \<le> ap_maxConcurrentPerOperation p) \<and>
     (\<forall>pluginId. tracked_subjects pluginId (at_subjects s) \<le> int (ap_maxTrackedBuckets p))"

lemma tracked_kept: "tracked_subjects pluginId (without_stale other cutoff rows) \<le> tracked_subjects pluginId rows"
  unfolding tracked_subjects_def without_stale_def by (induction rows) auto

lemma tracked_new:
  "map_of rows k = None \<Longrightarrow>
     tracked_subjects pluginId (put k r rows) = tracked_subjects pluginId rows + (if su_pluginId r = pluginId then 1 else 0)"
  by (simp add: tracked_subjects_def put_new map_of_eq_None_iff)

lemma tracked_update:
  "map_of rows k = Some r0 \<Longrightarrow> su_pluginId r = su_pluginId r0 \<Longrightarrow>
     tracked_subjects pluginId (put k r rows) = tracked_subjects pluginId rows"
proof (induction rows)
  case (Cons a rows)
  then show ?case
    by (cases a) (auto simp: tracked_subjects_def split: if_split_asm)
qed simp

lemma live_leases_swept: "live_leases pluginId operationId later (without_expired other now rows) \<le> live_leases pluginId operationId later rows"
  unfolding live_leases_def without_expired_def by (induction rows) auto

text \<open>A granted call keeps this whatever its clock says: what has expired for the latest clock needs no place.\<close>

lemma granted_places:
  assumes inv: "places_ok p seen s" and run: "acquireInTransaction h p call now s = Inr s'"
  shows "places_ok p (max seen now) s'"
proof -
  obtain subjects leases pluginId key w where
    names: "pluginId = am_pluginId (ad_input call)" "key = subjectKey h (ad_input call)" "w = windowOf p now"
    and subjects: "subjects = without_stale pluginId (w - ap_windowMs p) (at_subjects s)"
    and leases: "leases = without_expired pluginId now (at_leases s)"
    and live: "live_leases pluginId (am_operationId (ad_input call)) now (at_leases s) < ap_maxConcurrentPerOperation p"
    and room: "map_of subjects key \<noteq> None \<or> tracked_subjects pluginId subjects < int (ap_maxTrackedBuckets p)"
    and fresh: "map_of leases (ad_leaseId call) = None"
    and s': "at_plugins s' = put pluginId \<lparr>pr_windowStartedAt = w, pr_requestCount = plugin_count s pluginId w + 1\<rparr> (at_plugins s)"
      "at_subjects s' = put key
       \<lparr>su_pluginId = (case map_of subjects key of None \<Rightarrow> pluginId | Some r \<Rightarrow> su_pluginId r),
        su_operationId = am_operationId (ad_input call), su_windowStartedAt = w,
        su_requestCount = subject_count subjects key w + 1, su_updatedAt = now\<rparr> subjects"
      "at_leases s' = put (ad_leaseId call)
       \<lparr>le_pluginId = pluginId, le_operationId = am_operationId (ad_input call), le_expiresAt = now + lease_ttl call\<rparr> leases"
    using run by (rule granted_result)
  have "live_leases q operation (max seen now) (at_leases s') \<le> ap_maxConcurrentPerOperation p" for q operation
  proof (cases "q = pluginId \<and> operation = am_operationId (ad_input call)")
    case True
    then have "live_leases q operation now (at_leases s') \<le> ap_maxConcurrentPerOperation p"
      using live by (simp add: s' live_leases_put [OF fresh]) (simp add: leases live_leases_kept)
    with live_leases_later [of now "max seen now" q operation "at_leases s'"] show ?thesis by simp
  next
    case False
    then have "live_leases q operation (max seen now) (at_leases s') = live_leases q operation (max seen now) leases"
      by (auto simp: s' live_leases_put [OF fresh])
    also have "\<dots> \<le> live_leases q operation (max seen now) (at_leases s)" unfolding leases by (rule live_leases_swept)
    also have "\<dots> \<le> live_leases q operation seen (at_leases s)" by (rule live_leases_later) simp
    also have "\<dots> \<le> ap_maxConcurrentPerOperation p" using inv by (simp add: places_ok_def)
    finally show ?thesis .
  qed
  moreover have "tracked_subjects q (at_subjects s') \<le> int (ap_maxTrackedBuckets p)" for q
  proof -
    have kept: "tracked_subjects q subjects \<le> int (ap_maxTrackedBuckets p)"
      using inv tracked_kept unfolding places_ok_def subjects
      by (meson order_trans)
    show ?thesis
    proof (cases "map_of subjects key")
      case None
      with kept room show ?thesis by (auto simp: s' tracked_new)
    next
      case (Some r0)
      with kept show ?thesis by (simp add: s' tracked_update [OF Some])
    qed
  qed
  ultimately show ?thesis by (simp add: places_ok_def)
qed

lemma places_later: "places_ok p seen s \<Longrightarrow> seen \<le> now \<Longrightarrow> places_ok p now s"
  unfolding places_ok_def using live_leases_later by (meson order_trans)

lemma refused_same: "database_acquire h p call now s = (Inl e, s') \<Longrightarrow> s' = s"
  by (auto simp: database_acquire_def split: if_split_asm sum.splits)

lemma step_places:
  assumes "clock_step (database_acquire h p) database_released w w'" and "places_ok p (fst (snd w)) (fst w)"
  shows "places_ok p (fst (snd w')) (fst w')"
  using assms
proof (induction rule: clock_step.induct)
  case (clock_granted call now s l s' seen log)
  then have "acquireInTransaction h p call now s = Inr s'"
    by (auto simp: database_acquire_def split: if_split_asm sum.splits)
  with clock_granted granted_places show ?case by simp
next
  case (clock_refused call now s e s' seen log)
  then have "s' = s" by (blast dest: refused_same)
  with clock_refused places_later [of p seen s "max seen now"] show ?case by simp
next
  case (clock_released s s' seen log)
  then obtain leaseId where s': "s' = s\<lparr>at_leases := del leaseId (at_leases s)\<rparr>"
    by (auto simp: database_released_def database_release_def)
  with clock_released show ?case
    using order_trans [OF live_leases_del] by (simp add: places_ok_def s')
qed

lemma steps_places:
  assumes "(clock_step (database_acquire h p) database_released)\<^sup>*\<^sup>* w w'" and "places_ok p (fst (snd w)) (fst w)"
  shows "places_ok p (fst (snd w')) (fst w')"
  using assms by (induction rule: rtranclp_induct) (simp_all add: step_places)

lemma database_places:
  assumes "admission_policy_ok p" and "(clock_step (database_acquire h p) database_released)\<^sup>*\<^sup>* (empty_tables, t0, []) (s, seen, log)"
  shows "places_ok p seen s"
proof -
  have "places_ok p t0 empty_tables"
    using assms(1) by (simp add: places_ok_def empty_tables_def live_leases_def tracked_subjects_def admission_policy_ok_def)
  with steps_places [OF assms(2)] show ?thesis by simp
qed

lemma database_good: "admission_policy_ok p \<Longrightarrow> tables_good p empty_tables"
  by (simp add: tables_good_def empty_tables_def)

text \<open>The rates hold when the readings of the clocks at the admitted calls are in the order of the transactions.\<close>

lemma ordered_rates:
  assumes "admission_policy_ok p" and "(clock_step (database_acquire h p) database_released)\<^sup>*\<^sup>* (empty_tables, t0, []) (s, seen, log)"
    and "sorted (map fst log)"
  shows "int (let_through (windowOf p) (\<lambda>call. call_uses h call k) w log) \<le> rate_limit p k"
proof -
  define t1 where "t1 = Min (insert 0 (set (map fst log)))"
  have "\<forall>t \<in> set (map fst log). t1 \<le> t" unfolding t1_def by (intro ballI Min_le) simp_all
  from ordered_run [OF assms(2) refused_same assms(3) this]
  show ?thesis by (rule database_rates.limit_holds(1) [OF database_good [OF assms(1)]])
qed

text \<open>A full operation has that many leases which have not expired: a crashed host's leases give way.\<close>

lemma full_operation:
  assumes "fst (database_acquire h p call now s) = Inl ConcurrencyLimited"
  shows "ap_maxConcurrentPerOperation p \<le>
     live_leases (am_pluginId (ad_input call)) (am_operationId (ad_input call)) now (at_leases s)"
  using assms
  by (auto simp: database_acquire_def acquireInTransaction_def Let_def live_leases_kept split: if_split_asm sum.splits)

end
