(* ===== verification/Store_Properties.thy ===== *)
theory Store_Properties
  imports Gateway_Samples Storage_Contract Admission_Store
begin

text \<open>
  The properties of the host's database stores that the gateway and the broker rely on: the storage of
  plugins and the admission that all replicas share; and what they do not promise when calls
  interleave or clocks differ.
\<close>

section \<open>Storage\<close>

text \<open>C9: A storage call of the broker over the database store either leaves the stored values as they
  are, or its token is verified and grants the permission of the scope, and it reads, writes or
  deletes just the entry of the token's plugin, deployment and tenant, as a compare-and-swap on
  the revision; and the quotas of every namespace are kept.\<close>

theorem storage_calls_compare_and_swap:
  assumes "storage_inv h rows" and "bi_consume input = on_replays consume"
    and "executePluginStorageBrokerV1 t input (\<lambda>request owner. on_storage (storage_execute h jsonParse now request owner))
      request (replays, rows) = (result, (replays', rows'))"
  shows "storage_inv h rows' \<and>
     (case result of
        Inl e \<Rightarrow> rows' = rows
      | Inr v \<Rightarrow> \<exists>claims.
          claims_authorized t input (prop_str request ''operationId'') (storage_permission request) (tenant_scope request)
            (replays, rows) claims (replays', rows) \<and>
          versioned_answer jsonParse request (claimed_entry (bi_pluginId input) claims request)
            (storage_view h rows) v (storage_view h rows'))"
proof (cases result)
  case (Inl e)
  then show ?thesis
    using database_storage.call_refused [OF assms(1,2), of jsonParse now t request replays e replays' rows'] assms(1,3)
    by (simp add: database_storage.call_def)
next
  case (Inr v)
  then obtain claims where
    "claims_authorized t input (prop_str request ''operationId'') (storage_permission request) (tenant_scope request)
       (replays, rows) claims (replays', rows)"
    and "storage_inv h rows'"
    and "versioned_answer jsonParse request (claimed_entry (bi_pluginId input) claims request)
       (storage_view h rows) v (storage_view h rows')"
    using database_storage.call_answered [OF assms(1,2), of jsonParse now t request replays v replays' rows'] assms(3)
    unfolding database_storage.call_def by blast
  with Inr show ?thesis by auto
qed

definition sample_storage_request :: jsval where
  "sample_storage_request = JObj [(''apiVersion'', JStr ''storage-request.plugin.enterpriseglue.io/v1''),
     (''callId'', JStr ''call-1''), (''operationId'', JStr ''io.acme.read''), (''scope'', JStr ''tenant''),
     (''key'', JStr ''k''), (''action'', JStr ''put''), (''value'', JBool True)]"

definition storage_claims :: invocation_claims where
  "storage_claims = sample_claims\<lparr>ic_grantedPermissions := [''host.plugin_storage.tenant'']\<rparr>"

definition storage_tokens :: token_lib where
  "storage_tokens = sample_tokens\<lparr>tl_decode := (\<lambda>s. if s = ''h'' then Some tokenHeader
     else if s = ''p'' then Some (claims_value storage_claims) else None)\<rparr>"

definition storage_backend :: manifest where
  "storage_backend = sample_backend
     \<lparr>mf_permissionsRequired := [''host.plugin_storage.tenant''],
      mf_deployment := \<lparr>dp_frontend = None, dp_backend = Some \<lparr>bd_image = sample_image,
          bd_operations = [sample_operation\<lparr>op_requiredPermissions := [''host.plugin_storage.tenant'']\<rparr>]\<rparr>,
        dp_migration = None, dp_resources = None\<rparr>\<rparr>"

definition storage_caller :: "(unit \<times> storage_entry list) broker_input" where
  "storage_caller = \<lparr>bi_pluginId = ''io.acme'', bi_manifest = storage_backend,
     bi_grantedPermissions = [''host.plugin_storage.tenant''], bi_invocationToken = ''h.p.s'',
     bi_expectedDeploymentRef = ''deployment'', bi_now = 120, bi_consume = on_replays (\<lambda>jti e s. (True, s)),
     bi_isExecutionAllowed = None\<rparr>"

lemma storage_token_read: "read_claims storage_tokens ''h.p.s'' = Inr storage_claims"
proof -
  have "pluginInvocationClaimsV1Schema (claims_value storage_claims)" by code_simp
  then show ?thesis
    by (simp add: read_claims_def decodeJson_def storage_tokens_def sample_tokens_def tokenHeader_def)
qed

lemma storage_caller_authorized:
  "claims_authorized storage_tokens storage_caller ''io.acme.read'' ''host.plugin_storage.tenant'' True ((), rows)
     storage_claims ((), rows)"
proof -
  have "operation_permitted storage_caller ''io.acme.read'' ''host.plugin_storage.tenant''"
    by (simp add: operation_permitted_def storage_caller_def storage_backend_def sample_operation_def findOperation_def
        backendOperations_def permissionSet_def)
  then show ?thesis
    using storage_token_read
    by (simp add: claims_authorized_def storage_caller_def storage_claims_def sample_claims_def on_replays_def)
qed

definition stored_rows :: "storage_entry list" where
  "stored_rows = projr (map_sum id snd (storage_put sample_host 0 sample_storage_request
     \<lparr>so_pluginId = ''io.acme'', so_deploymentRef = ''deployment'', so_tenantRef = Some ''tenant''\<rparr> []))"

lemma sample_put:
  "storage_execute sample_host (\<lambda>_. None) 0 sample_storage_request
     \<lparr>so_pluginId = ''io.acme'', so_deploymentRef = ''deployment'', so_tenantRef = Some ''tenant''\<rparr> [] =
   (Inr (put_answer ''r1''), stored_rows)"
proof -
  have "map_sum id fst (storage_put sample_host 0 sample_storage_request
     \<lparr>so_pluginId = ''io.acme'', so_deploymentRef = ''deployment'', so_tenantRef = Some ''tenant''\<rparr> []) =
     Inr (put_answer ''r1'')" by code_simp
  moreover have "getp sample_storage_request ''action'' = JStr ''put''" by code_simp
  ultimately show ?thesis
    by (auto simp: storage_execute_def stored_rows_def map_sum_def split: sum.splits)
qed

theorem storage_calls_compare_and_swap_witness:
  "storage_view sample_host stored_rows ((''io.acme'', ''deployment'', ''tenant'', ''tenant''), ''k'') = Some (''true'', 1)"
proof -
  have schemas: "pluginStorageRequestV1Schema sample_storage_request" "pluginStorageResponseV1Schema (put_answer ''r1'')"
    "prop_str sample_storage_request ''operationId'' = ''io.acme.read''" "getp sample_storage_request ''scope'' = JStr ''tenant''"
    "getp sample_storage_request ''action'' = JStr ''put''" "getp sample_storage_request ''value'' = JBool True"
    "byteLength ''true'' = 4" "prop_str sample_storage_request ''scope'' = ''tenant''" "prop_str sample_storage_request ''key'' = ''k''"
    "getp sample_storage_request ''expectedRevision'' = JUndef"
    by code_simp+
  have claims: "ic_deploymentRef storage_claims = ''deployment''" "ic_tenantRef storage_claims = Some ''tenant''"
    and caller: "bi_pluginId storage_caller = ''io.acme''" "bi_invocationToken storage_caller = ''h.p.s''"
    "bi_consume storage_caller = on_replays (\<lambda>jti e s. (True, s))"
    by (simp_all add: storage_claims_def sample_claims_def storage_caller_def)
  have run: "executePluginStorageBrokerV1 storage_tokens storage_caller
      (\<lambda>request owner. on_storage (storage_execute sample_host (\<lambda>_. None) 0 request owner)) sample_storage_request ((), []) =
      (Inr (put_answer ''r1''), ((), stored_rows))"
    using storage_caller_authorized [of "[]", folded verify_broker_iff] sample_put
    by (simp add: executePluginStorageBrokerV1_def schemas broker_bind_def broker_rescue_def broker_parse_def broker_return_def
        assertJsonStorageValue_def stringify_def MAX_STORAGE_VALUE_BYTES_def on_storage_def claims caller Let_def)
  from storage_calls_compare_and_swap [OF storage_inv_Nil caller(3) run]
  obtain c where c: "claims_authorized storage_tokens storage_caller ''io.acme.read'' (storage_permission sample_storage_request)
      (tenant_scope sample_storage_request) ((), []) c ((), [])"
    and answer: "versioned_answer (\<lambda>_. None) sample_storage_request (claimed_entry ''io.acme'' c sample_storage_request)
      (storage_view sample_host []) (put_answer ''r1'') (storage_view sample_host stored_rows)"
    by (auto simp: schemas caller)
  from c storage_token_read have "c = storage_claims" by (simp add: claims_authorized_def caller)
  then have "claimed_entry ''io.acme'' c sample_storage_request = ((''io.acme'', ''deployment'', ''tenant'', ''tenant''), ''k'')"
    by (simp add: claimed_entry_def schemas claims tenant_scope_def)
  with answer show ?thesis
    by (simp add: versioned_answer_def schemas next_revision_def storage_view_def)
qed

text \<open>
  The totals of a namespace are read in the transaction but not locked. Two transactions that read
  them before either writes can together go beyond the quota.
\<close>

lemma concurrent_puts_exceed_quota:
  assumes one: "put_reads h now q1 o1 rows = Inr (InsertRow e1)" and two: "put_reads h now q2 o2 rows = Inr (InsertRow e2)"
    and "se_identityHash e1 \<noteq> se_identityHash e2" and "se_namespace e1 = ns" and "se_namespace e2 = ns"
    and "se_identityHash e1 \<notin> se_identityHash ` set rows" and "se_identityHash e2 \<notin> se_identityHash ` set rows"
    and over: "MAX_NAMESPACE_BYTES < namespace_bytes ns rows + se_valueBytes e1 + se_valueBytes e2"
  shows "\<exists>rows1 rows2. put_writes (InsertRow e1) rows = Inr (put_answer ''r1'', rows1) \<and>
     put_writes (InsertRow e2) rows1 = Inr (put_answer ''r1'', rows2) \<and> MAX_NAMESPACE_BYTES < namespace_bytes ns rows2"
  using assms by (auto simp: put_writes_def namespace_bytes_def namespace_rows_def)

section \<open>Admission\<close>


definition shared_policy :: admission_policy where
  "shared_policy = \<lparr>ap_windowMs = 1000, ap_maxRequestsPerSubjectOperation = 1, ap_maxRequestsPerPlugin = 1,
     ap_maxConcurrentPerOperation = 10, ap_maxTrackedBuckets = 10\<rparr>"

definition sample_call :: "string \<Rightarrow> admission_call" where
  "sample_call lease = \<lparr>ad_input = \<lparr>am_pluginId = ''io.acme'', am_operationId = ''io.acme.read'', am_tenantRef = None,
     am_subjectRef = ''user''\<rparr>, ad_leaseTtlMs = None, ad_leaseId = lease\<rparr>"

abbreviation shared_acquire :: "string \<Rightarrow> int \<Rightarrow> admission_tables \<Rightarrow> (gateway_code + string) \<times> admission_tables" where
  "shared_acquire lease \<equiv> database_acquire sample_host shared_policy (sample_call lease)"


text \<open>
  The rates need the clocks of the replicas to agree: when one is a window behind, the counters start
  again with each call, and a window admits more than its limit.
\<close>

lemma skewed_replicas_exceed_rate:
  "fst (shared_acquire ''l1'' 1000 empty_tables) = Inr ''l1''"
  "fst (shared_acquire ''l2'' 999 (snd (shared_acquire ''l1'' 1000 empty_tables))) = Inr ''l2''"
  "fst (shared_acquire ''l3'' 1000 (snd (shared_acquire ''l2'' 999 (snd (shared_acquire ''l1'' 1000 empty_tables))))) = Inr ''l3''"
  "ap_maxRequestsPerPlugin shared_policy = 1"
  by code_simp+

end
