(* ===== verification/Authz_Scope.thy ===== *)
theory Authz_Scope
  imports Prelude
begin

text \<open>
  The vocabulary of the authorization: resource and principal types (\<open>shared/src/authz/permission-actions.ts\<close>),
  the tenants a request sees (\<open>tenant-scope.ts\<close>), the key of a role assignment
  (\<open>role-assignment-identity.ts\<close>), which permissions a role of a scope may have (\<open>tenant-role-policy.ts\<close>),
  and the tenant filters of the queries in \<open>services/platform-admin/permissions.ts\<close>.
\<close>

section \<open>Resources, principals and errors\<close>

text \<open>\<open>AUTHZ_RESOURCE_TYPES\<close> and \<open>AUTHZ_PRINCIPAL_TYPES\<close>\<close>

datatype resource_type = PlatformResource | TenantResource | ProjectResource | EngineResource | EngineSetResource
  | RuntimeResource | RuntimeResourceSet | ProjectEngineTarget | ExternalEngineSystem | ApiClientResource
  | SsoMapping | ExtensionResource

datatype principal_type = UserPrincipal | GroupPrincipal | ApiClientPrincipal | ServiceAccountPrincipal

fun resource_type_text :: "resource_type \<Rightarrow> string" where
  "resource_type_text PlatformResource = ''platform''"
| "resource_type_text TenantResource = ''tenant''"
| "resource_type_text ProjectResource = ''project''"
| "resource_type_text EngineResource = ''engine''"
| "resource_type_text EngineSetResource = ''engine_set''"
| "resource_type_text RuntimeResource = ''engine_runtime_resource''"
| "resource_type_text RuntimeResourceSet = ''engine_runtime_resource_set''"
| "resource_type_text ProjectEngineTarget = ''project_engine_target''"
| "resource_type_text ExternalEngineSystem = ''external_engine_system''"
| "resource_type_text ApiClientResource = ''api_client''"
| "resource_type_text SsoMapping = ''sso_mapping''"
| "resource_type_text ExtensionResource = ''extension''"

fun principal_type_text :: "principal_type \<Rightarrow> string" where
  "principal_type_text UserPrincipal = ''user''"
| "principal_type_text GroupPrincipal = ''group''"
| "principal_type_text ApiClientPrincipal = ''api_client''"
| "principal_type_text ServiceAccountPrincipal = ''service_account''"

text \<open>The errors that the role services throw.\<close>

datatype authz_error = UnknownPermission string | ArchivedPermission string | NotTenantSafe string
  | ScopeMismatch string resource_type | ScopeMissing string | MissingDependency string string | NoPermissions | NameRequired
  | SourceRefRequired | BadRoleKey | BadPermissionKey | ReservedPermissionKey | PermissionKeyExists | CategoryRequired
  | LabelRequired | RoleNotFound | SystemRole | ConfigManagedRole | NotAssignable | WrongTenant | PrincipalRequired
  | UserMismatch | PrincipalNotFound | NotForMachines | UnsafePermissions "string list" | ScopeNotAllowed
  | ResourceRequired | ResourceNotFound | RuntimeScopeDisabled | AssignmentNotFound | NotRemovable | DuplicateRow
  | LimitOutOfRange | TooManyRows | DenyFields | UnsupportedSource | AssignmentsChanged
  | InvalidConditions | UnknownTimezone | PolicyNotFound | ConfigurationManaged | ConfigurationChanged | OwnershipConflict
  | UnknownAction

section \<open>Tenants\<close>

definition OSS_DEFAULT_TENANT_ID :: string where
  "OSS_DEFAULT_TENANT_ID = ''tenant-default''"

definition OSS_LEGACY_DEFAULT_TENANT_ID :: string where
  "OSS_LEGACY_DEFAULT_TENANT_ID = ''default-tenant-id''"

definition OSS_DEFAULT_TENANT_IDS :: "string list" where
  "OSS_DEFAULT_TENANT_IDS = [OSS_DEFAULT_TENANT_ID, OSS_LEGACY_DEFAULT_TENANT_ID]"

text \<open>\<open>tenantId?.trim() || null\<close>\<close>

definition trimmed :: "string option \<Rightarrow> string option" where
  "trimmed t = (case t of None \<Rightarrow> None | Some s \<Rightarrow> if trim s = [] then None else Some (trim s))"

definition isOssDefaultTenantId :: "string option \<Rightarrow> bool" where
  "isOssDefaultTenantId t = (case trimmed t of None \<Rightarrow> False | Some s \<Rightarrow> s \<in> set OSS_DEFAULT_TENANT_IDS)"

definition normalizeTenantIdForPersistence :: "string option \<Rightarrow> string option" where
  "normalizeTenantIdForPersistence t =
     (case trimmed t of
        None \<Rightarrow> None
      | Some s \<Rightarrow> Some (if isOssDefaultTenantId (Some s) then OSS_DEFAULT_TENANT_ID else s))"

definition normalizeTenantIdForAuthz :: "string option \<Rightarrow> string option" where
  "normalizeTenantIdForAuthz t = normalizeTenantIdForPersistence (map_option trim t)"

definition tenantIdsForAuthz :: "string option \<Rightarrow> string list" where
  "tenantIdsForAuthz t =
     (case normalizeTenantIdForAuthz t of
        None \<Rightarrow> []
      | Some s \<Rightarrow> if isOssDefaultTenantId (Some s) then OSS_DEFAULT_TENANT_IDS else [s])"

definition isTenantVisibleForAuthz :: "string option \<Rightarrow> string option \<Rightarrow> bool" where
  "isTenantVisibleForAuthz rowTenantId t \<longleftrightarrow>
     tenantIdsForAuthz t = [] \<or> \<not> truthy_str rowTenantId \<or> the rowTenantId \<in> set (tenantIdsForAuthz t)"

text \<open>
  The filters of the queries, over the tenant column of a row: \<open>addTenantScopeFilter\<close> and
  \<open>tenantScopedWhere\<close>, \<open>tenantOwnedWhere\<close>, and \<open>engineResourceWhere\<close> with the tenancy of the engine.
\<close>

definition tenantScopedWhere :: "string option \<Rightarrow> string option \<Rightarrow> bool" where
  "tenantScopedWhere rowTenantId t \<longleftrightarrow>
     tenantIdsForAuthz t = [] \<or> rowTenantId = None \<or> the rowTenantId \<in> set (tenantIdsForAuthz t)"

definition tenantOwnedWhere :: "string option \<Rightarrow> string option \<Rightarrow> bool" where
  "tenantOwnedWhere rowTenantId t \<longleftrightarrow>
     (if tenantIdsForAuthz t = [] then rowTenantId = None
      else rowTenantId \<noteq> None \<and> the rowTenantId \<in> set (tenantIdsForAuthz t))"

definition engineResourceWhere :: "string option \<Rightarrow> bool \<Rightarrow> string option \<Rightarrow> bool" where
  "engineResourceWhere rowTenantId isShared t \<longleftrightarrow>
     (rowTenantId \<noteq> None \<and> the rowTenantId \<in> set (tenantIdsForAuthz t)) \<or> (rowTenantId = None \<and> isShared)"

lemma trim_trim [simp]: "trim (trim s) = trim s"
proof -
  have drop: "dropWhile P (dropWhile P xs) = dropWhile P xs" for P :: "char \<Rightarrow> bool" and xs
    by (induction xs) auto
  have ends: "dropWhile P (rev (dropWhile P (rev xs))) = rev (dropWhile P (rev xs))"
    if "dropWhile P xs = xs" for P :: "char \<Rightarrow> bool" and xs
  proof (cases "rev (dropWhile P (rev xs))")
    case (Cons y ys)
    have "\<exists>zs. xs = rev (dropWhile P (rev xs)) @ zs"
      by (metis rev_append rev_rev_ident takeWhile_dropWhile_id)
    then obtain zs where "xs = y # ys @ zs" using Cons by auto
    with that have "\<not> P y" by (metis dropWhile_eq_Cons_conv)
    with Cons show ?thesis by simp
  next
    case Nil
    show ?thesis unfolding Nil by simp
  qed
  show ?thesis unfolding trim_def by (simp add: drop ends)
qed

lemma trimmed_simps [simp]: "trimmed None = None" "trimmed (map_option trim t) = trimmed t"
  by (simp_all add: trimmed_def split: option.split)

lemma trimmed_trimmed [simp]: "trimmed (trimmed t) = trimmed t"
  by (simp add: trimmed_def split: option.split)

lemma default_ids: "trimmed (Some OSS_DEFAULT_TENANT_ID) = Some OSS_DEFAULT_TENANT_ID"
  "OSS_DEFAULT_TENANT_ID \<in> set OSS_DEFAULT_TENANT_IDS" "isOssDefaultTenantId (Some OSS_DEFAULT_TENANT_ID)"
  by (simp_all add: trimmed_def trim_def is_space_def isOssDefaultTenantId_def OSS_DEFAULT_TENANT_IDS_def
      OSS_DEFAULT_TENANT_ID_def)

lemma trimmed_Some: "trimmed t = Some s \<Longrightarrow> trimmed (Some s) = Some s"
  using trimmed_trimmed [of t] by simp

lemma normalize_authz [simp]: "normalizeTenantIdForAuthz t = normalizeTenantIdForPersistence t"
  by (simp add: normalizeTenantIdForAuthz_def normalizeTenantIdForPersistence_def)

lemma normalize_idem [simp]:
  "normalizeTenantIdForPersistence (normalizeTenantIdForPersistence t) = normalizeTenantIdForPersistence t"
proof (cases "trimmed t")
  case (Some s)
  then show ?thesis
    by (simp add: normalizeTenantIdForPersistence_def isOssDefaultTenantId_def default_ids trimmed_Some [OF Some])
qed (simp add: normalizeTenantIdForPersistence_def)

lemma tenantIds_normalize [simp]: "tenantIdsForAuthz (normalizeTenantIdForPersistence t) = tenantIdsForAuthz t"
  by (simp add: tenantIdsForAuthz_def)

lemma tenantIds_Nil: "tenantIdsForAuthz t = [] \<longleftrightarrow> normalizeTenantIdForPersistence t = None"
  by (simp add: tenantIdsForAuthz_def OSS_DEFAULT_TENANT_IDS_def split: option.split)

lemma normalized_visible:
  "normalizeTenantIdForPersistence t = Some s \<Longrightarrow> s \<in> set (tenantIdsForAuthz t)"
proof -
  assume t: "normalizeTenantIdForPersistence t = Some s"
  then have "trimmed (Some s) = Some s"
    by (auto simp: normalizeTenantIdForPersistence_def default_ids trimmed_Some split: option.splits if_split_asm)
  with t show ?thesis
    by (simp add: tenantIdsForAuthz_def isOssDefaultTenantId_def)
qed

lemma scoped_normalized [simp]: "tenantScopedWhere (normalizeTenantIdForPersistence t) t"
  by (cases "normalizeTenantIdForPersistence t") (auto simp: tenantScopedWhere_def dest: normalized_visible)

lemma owned_scoped: "tenantOwnedWhere row t \<Longrightarrow> tenantScopedWhere row t"
  by (auto simp: tenantOwnedWhere_def tenantScopedWhere_def split: if_split_asm)

lemma visible_scoped: "row \<noteq> Some [] \<Longrightarrow> isTenantVisibleForAuthz row t \<longleftrightarrow> tenantScopedWhere row t"
  by (cases row) (auto simp: isTenantVisibleForAuthz_def tenantScopedWhere_def)

section \<open>The key of a role assignment\<close>

record assignment_identity =
  ai_tenantId :: "string option"
  ai_principalType :: string
  ai_principalId :: string
  ai_roleId :: string
  ai_scopeType :: string
  ai_scopeId :: "string option"
  ai_source :: string
  ai_sourceRef :: "string option"

definition normalizeRoleAssignmentSourceRef :: "string option \<Rightarrow> string" where
  "normalizeRoleAssignmentSourceRef v = (if truthy_str v then the v else [])"

text \<open>\<open>encode(value)\<close>; \<open>value || ''\<close> is the same for a missing and an empty value.\<close>

definition encode_part :: "string option \<Rightarrow> string" where
  "encode_part v = (let normalized = (if truthy_str v then the v else [])
     in show_nat (length normalized) @ '':'' @ normalized)"

definition canonicalRoleAssignmentKey :: "assignment_identity \<Rightarrow> string" where
  "canonicalRoleAssignmentKey identity = join ''|'' (map encode_part
     [ai_tenantId identity, Some (ai_principalType identity), Some (ai_principalId identity), Some (ai_roleId identity),
      Some (ai_scopeType identity), ai_scopeId identity, Some (ai_source identity),
      Some (normalizeRoleAssignmentSourceRef (ai_sourceRef identity))])"

definition or_empty :: "string option \<Rightarrow> string" where
  "or_empty v = (case v of None \<Rightarrow> [] | Some s \<Rightarrow> s)"

lemma encode_part_eq: "encode_part v = show_nat (length (or_empty v)) @ CHR '':'' # or_empty v"
  by (cases v) (auto simp: encode_part_def or_empty_def Let_def)

lemma sourceRef_eq: "normalizeRoleAssignmentSourceRef v = or_empty v"
  by (cases v) (auto simp: normalizeRoleAssignmentSourceRef_def or_empty_def)

lemma colon_no_digit: "\<not> is_digit CHR '':''"
  by (simp add: is_digit_def)

text \<open>A part can be read back from the front of a key: its length ends at the first colon.\<close>

lemma digits_prefix:
  assumes "list_all is_digit ds" "list_all is_digit es" "ds @ CHR '':'' # r = es @ CHR '':'' # r'"
  shows "ds = es \<and> r = r'"
proof -
  have "takeWhile is_digit (ds @ CHR '':'' # r) = ds" "takeWhile is_digit (es @ CHR '':'' # r') = es"
    using assms(1,2) colon_no_digit by (auto simp: takeWhile_append list_all_iff)
  with assms(3) have "ds = es" by metis
  with assms(3) show ?thesis by simp
qed

lemma encode_part_prefix: "encode_part v @ r = encode_part w @ r' \<longleftrightarrow> or_empty v = or_empty w \<and> r = r'"
proof
  assume eq: "encode_part v @ r = encode_part w @ r'"
  then have "show_nat (length (or_empty v)) = show_nat (length (or_empty w)) \<and> or_empty v @ r = or_empty w @ r'"
    by (intro digits_prefix [OF show_nat_digits show_nat_digits]) (simp add: encode_part_eq)
  then show "or_empty v = or_empty w \<and> r = r'" by auto
qed (simp add: encode_part_eq)

lemma encode_part_inj: "encode_part v = encode_part w \<longleftrightarrow> or_empty v = or_empty w"
  using encode_part_prefix [of v "[]" w "[]"] by simp

lemma join_parts_inj:
  "length vs = length ws \<Longrightarrow> join ''|'' (map encode_part vs) = join ''|'' (map encode_part ws) \<longleftrightarrow>
     map or_empty vs = map or_empty ws"
proof (induction vs ws rule: list_induct2)
  case (Cons v vs w ws)
  then show ?case
    by (cases vs; cases ws) (auto simp: encode_part_inj encode_part_prefix)
qed simp

section \<open>Permissions of a role\<close>

definition TENANT_SAFE_PROJECT_PERMISSION_IDS :: "string list" where
  "TENANT_SAFE_PROJECT_PERMISSION_IDS =
     [''project:delete'', ''project:settings:manage'', ''project:members:manage'', ''project:members:view'',
      ''project:members:search'', ''project:members:invite'', ''project:members:add'',
      ''project:members:update-role'', ''project:members:remove'', ''project:members:manage-deploy-grant'',
      ''project:delegate:manage'', ''project:ownership:transfer'', ''project:files:create'', ''project:files:edit'',
      ''project:files:delete'', ''project:files:view'', ''project:versions:create'', ''project:versions:restore'',
      ''project:git:push'', ''project:git:pull'', ''project:git:connect'', ''project:deploy'',
      ''project:deployment-targets:view'', ''project:deployment-targets:manage'']"

definition TENANT_SAFE_ENGINE_PERMISSION_IDS :: "string list" where
  "TENANT_SAFE_ENGINE_PERMISSION_IDS =
     [''engine:deploy'', ''engine:deploy:view'', ''engine:process:start'', ''engine:process:cancel'',
      ''engine:process:modify'', ''engine:instance:view'', ''engine:instance:delete'', ''engine:instance:retry'',
      ''engine:variables:metadata:view'', ''engine:variables:value:view'', ''engine:variables:edit'']"

definition TENANT_SAFE_TENANT_PERMISSION_IDS :: "string list" where
  "TENANT_SAFE_TENANT_PERMISSION_IDS =
     [''tenant:settings:view'', ''tenant:settings:manage'', ''tenant:members:manage'', ''tenant:sso-providers:view'',
      ''tenant:sso-providers:manage'', ''tenant:apps:view'', ''tenant:apps:request'', ''tenant:apps:manage'',
      ''tenant:apps:use'']"

definition TENANT_SAFE_PERMISSION_IDS :: "string list" where
  "TENANT_SAFE_PERMISSION_IDS =
     TENANT_SAFE_TENANT_PERMISSION_IDS @ TENANT_SAFE_PROJECT_PERMISSION_IDS @ TENANT_SAFE_ENGINE_PERMISSION_IDS"

definition TENANT_MACHINE_SAFE_PERMISSION_IDS :: "string list" where
  "TENANT_MACHINE_SAFE_PERMISSION_IDS = ''project:deploy'' # TENANT_SAFE_ENGINE_PERMISSION_IDS"

definition isTenantSafePermission :: "string \<Rightarrow> bool" where
  "isTenantSafePermission permissionId \<longleftrightarrow> permissionId \<in> set TENANT_SAFE_PERMISSION_IDS"

definition rolePermissionValidationError :: "resource_type \<Rightarrow> string \<Rightarrow> resource_type \<Rightarrow> authz_error option" where
  "rolePermissionValidationError roleScope key scope =
     (if roleScope = TenantResource
      then (if isTenantSafePermission key then None else Some (NotTenantSafe key))
      else if scope = roleScope then None else Some (ScopeMismatch key roleScope))"

definition rolePermissionDependencyError :: "string list \<Rightarrow> authz_error option" where
  "rolePermissionDependencyError permissions =
     (if ''engine:variables:edit'' \<in> set permissions \<and> ''engine:variables:value:view'' \<notin> set permissions
      then Some (MissingDependency ''engine:variables:edit'' ''engine:variables:value:view'')
      else if ''engine:variables:value:view'' \<in> set permissions \<and> ''engine:variables:metadata:view'' \<notin> set permissions
      then Some (MissingDependency ''engine:variables:value:view'' ''engine:variables:metadata:view'')
      else None)"

text \<open>What the two checks give: whoever may write a variable may read it and its metadata.\<close>

lemma dependencies_closed:
  "rolePermissionDependencyError ps = None \<longleftrightarrow>
     (''engine:variables:edit'' \<in> set ps \<longrightarrow> ''engine:variables:value:view'' \<in> set ps) \<and>
     (''engine:variables:value:view'' \<in> set ps \<longrightarrow> ''engine:variables:metadata:view'' \<in> set ps)"
  by (simp add: rolePermissionDependencyError_def)

lemma dependency_set: "set ps = set qs \<Longrightarrow> rolePermissionDependencyError ps = rolePermissionDependencyError qs"
  by (simp add: rolePermissionDependencyError_def)

end
