(* ===== verification/Permission_Catalog.thy ===== *)
theory Permission_Catalog
  imports Authz_Scope
begin

text \<open>
  The tables of \<open>shared/src/services/platform-admin/permissions.ts\<close>: the permissions and their scopes, the
  permissions of each role, the system roles, and what machine principals may be given. Labels and
  descriptions, which are only shown, are left out.
\<close>

section \<open>Permissions\<close>

text \<open>The values of the objects that name the permissions, in their order.\<close>

definition PlatformPermissions :: "string list" where
  "PlatformPermissions =
     [''platform:dashboard:view'', ''project:create'', ''platform:engine:create'', ''platform:engine:delete'',
      ''platform:engine-registration:manage'', ''platform:engine-sets:view'', ''platform:engine-sets:manage'',
      ''platform:project-engine-targets:view'', ''platform:project-engine-targets:manage'', ''platform:user:manage'',
      ''platform:user:view'', ''platform:users:view'', ''platform:users:create'', ''platform:users:update'',
      ''platform:users:deactivate'', ''platform:users:delete'', ''platform:users:permanent-delete'',
      ''platform:users:unlock'', ''platform:settings:manage'', ''platform:tenants:view'',
      ''platform:tenants:manage'', ''platform:sso-providers:view'', ''platform:sso-providers:manage'',
      ''platform:sso-platform-role-mappings:view'', ''platform:sso-platform-role-mappings:manage'',
      ''platform:audit:view'', ''platform:audit:unredacted-view'', ''platform:git-provider:manage'',
      ''platform:authz:roles:view'', ''platform:authz:roles:manage'', ''platform:authz:check'',
      ''platform:config-bundles:view'', ''platform:config-bundles:preview'', ''platform:config-bundles:apply'',
      ''platform:config-bundles:export'', ''platform:camunda-native-grants:preview'',
      ''platform:camunda-native-grants:sensitive-view'', ''platform:camunda-native-grants:draft'',
      ''platform:camunda-native-grants:history-view'', ''platform:engine-backstop:view'',
      ''platform:engine-backstop:manage'', ''platform:engine-backstop:preview'',
      ''platform:engine-backstop:sensitive-view'', ''platform:engine-backstop:apply'',
      ''platform:engine-backstop:drift-check'', ''platform:sso-assignments:view'',
      ''platform:sso-assignments:manage'', ''platform:api-clients:view'', ''platform:api-clients:manage'',
      ''platform:service-accounts:view'', ''platform:service-accounts:manage'']"

definition TenantPermissions :: "string list" where
  "TenantPermissions =
     [''tenant:settings:view'', ''tenant:settings:manage'', ''tenant:members:manage'', ''tenant:sso-providers:view'',
      ''tenant:sso-providers:manage'', ''tenant:apps:view'', ''tenant:apps:request'', ''tenant:apps:manage'',
      ''tenant:apps:use'']"

definition ProjectPermissions :: "string list" where
  "ProjectPermissions =
     [''project:delete'', ''project:settings:manage'', ''project:members:manage'', ''project:members:view'',
      ''project:members:search'', ''project:members:invite'', ''project:members:add'',
      ''project:members:update-role'', ''project:members:remove'', ''project:members:manage-deploy-grant'',
      ''project:delegate:manage'', ''project:ownership:transfer'', ''project:files:create'', ''project:files:edit'',
      ''project:files:delete'', ''project:files:view'', ''project:versions:create'', ''project:versions:restore'',
      ''project:git:push'', ''project:git:pull'', ''project:git:connect'', ''project:deploy'',
      ''project:deployment-targets:view'', ''project:deployment-targets:manage'']"

definition EnginePermissions :: "string list" where
  "EnginePermissions =
     [''engine:edit'', ''engine:delete'', ''engine:activate'', ''engine:secrets:view'', ''engine:secrets:manage'',
      ''engine:environment:set'', ''engine:environment:lock'', ''engine:delegate:manage'',
      ''engine:ownership:transfer'', ''engine:members:manage'', ''engine:members:view'', ''engine:members:lookup'',
      ''engine:members:invite'', ''engine:members:add'', ''engine:members:update-role'', ''engine:members:remove'',
      ''engine:project-access:view'', ''engine:project-access:approve'', ''engine:project-access:deny'',
      ''engine:project-access:revoke'', ''engine:deploy'', ''engine:deploy:view'', ''engine:process:start'',
      ''engine:process:cancel'', ''engine:process:modify'', ''engine:instance:view'', ''engine:instance:delete'',
      ''engine:instance:retry'', ''engine:variables:metadata:view'', ''engine:variables:value:view'',
      ''engine:variables:edit'']"

definition ExternalEngineSystemPermissions :: "string list" where
  "ExternalEngineSystemPermissions =
     [''external-engine-system:engine-registration:manage'', ''external-engine-system:project-targets:manage'']"

record permission_definition =
  pd_key :: string
  pd_scope :: resource_type
  pd_category :: string
  pd_isCustom :: bool
  pd_isArchived :: bool

definition permissionDefinition :: "string \<Rightarrow> resource_type \<Rightarrow> string \<Rightarrow> permission_definition" where
  "permissionDefinition permission scope category =
     \<lparr>pd_key = permission, pd_scope = scope, pd_category = category, pd_isCustom = False, pd_isArchived = False\<rparr>"

text \<open>The catalog lists the platform permissions by category, the others by their scope.\<close>

definition platform_catalog :: "(string \<times> string list) list" where
  "platform_catalog = [
     (''Dashboard'',
       [''platform:dashboard:view'']),
     (''Projects'',
       [''project:create'']),
     (''Engine Management'',
       [''platform:engine:create'', ''platform:engine:delete'', ''platform:engine-registration:manage'']),
     (''Engine Sets'',
       [''platform:engine-sets:view'', ''platform:engine-sets:manage'']),
     (''Project Engine Targets'',
       [''platform:project-engine-targets:view'', ''platform:project-engine-targets:manage'']),
     (''User Management'',
       [''platform:user:manage'', ''platform:user:view'', ''platform:users:view'', ''platform:users:create'',
        ''platform:users:update'', ''platform:users:deactivate'', ''platform:users:delete'',
        ''platform:users:permanent-delete'', ''platform:users:unlock'']),
     (''Settings'',
       [''platform:settings:manage'']),
     (''Tenants'',
       [''platform:tenants:view'', ''platform:tenants:manage'']),
     (''SSO'',
       [''platform:sso-providers:view'', ''platform:sso-providers:manage'',
        ''platform:sso-platform-role-mappings:view'', ''platform:sso-platform-role-mappings:manage'']),
     (''Audit'',
       [''platform:audit:view'', ''platform:audit:unredacted-view'']),
     (''Git Providers'',
       [''platform:git-provider:manage'']),
     (''Access Control'',
       [''platform:authz:roles:view'', ''platform:authz:roles:manage'', ''platform:authz:check'']),
     (''Configuration Bundles'',
       [''platform:config-bundles:view'', ''platform:config-bundles:preview'', ''platform:config-bundles:apply'',
        ''platform:config-bundles:export'']),
     (''Camunda Native Grant Migration'',
       [''platform:camunda-native-grants:preview'', ''platform:camunda-native-grants:sensitive-view'',
        ''platform:camunda-native-grants:draft'', ''platform:camunda-native-grants:history-view'']),
     (''Mirrored Engine Backstop'',
       [''platform:engine-backstop:view'', ''platform:engine-backstop:manage'', ''platform:engine-backstop:preview'',
        ''platform:engine-backstop:sensitive-view'', ''platform:engine-backstop:apply'',
        ''platform:engine-backstop:drift-check'']),
     (''SSO Assignments'',
       [''platform:sso-assignments:view'', ''platform:sso-assignments:manage'']),
     (''API Clients'',
       [''platform:api-clients:view'', ''platform:api-clients:manage'']),
     (''Service Accounts'',
       [''platform:service-accounts:view'', ''platform:service-accounts:manage''])]"

definition PermissionCatalog :: "permission_definition list" where
  "PermissionCatalog =
     concat (map (\<lambda>(category, ps). map (\<lambda>p. permissionDefinition p PlatformResource category) ps) platform_catalog) @
     map (\<lambda>p. permissionDefinition p TenantResource ''Tenant Administration'') TenantPermissions @
     map (\<lambda>p. permissionDefinition p ExternalEngineSystem ''External Engine Systems'') ExternalEngineSystemPermissions @
     map (\<lambda>p. permissionDefinition p ProjectResource ''Project'') ProjectPermissions @
     map (\<lambda>p. permissionDefinition p EngineResource ''Engine'') EnginePermissions"

section \<open>Roles\<close>

definition PlatformRolePermissions :: "string \<Rightarrow> string list" where
  "PlatformRolePermissions role =
     (if role = ''admin'' then PlatformPermissions
      else if role = ''developer'' then
       [''platform:dashboard:view'', ''project:create'', ''platform:engine:create'', ''platform:user:view'',
        ''platform:users:view'']
      else if role = ''user'' then
       [''platform:dashboard:view'', ''project:create'']
      else [])"

definition ProjectRolePermissions :: "string \<Rightarrow> string list" where
  "ProjectRolePermissions role =
     (if role = ''owner'' then
       [''project:delete'', ''project:settings:manage'', ''project:members:manage'', ''project:members:view'',
        ''project:members:search'', ''project:members:invite'', ''project:members:add'',
        ''project:members:update-role'', ''project:members:remove'', ''project:members:manage-deploy-grant'',
        ''project:delegate:manage'', ''project:ownership:transfer'', ''project:files:create'',
        ''project:files:edit'', ''project:files:delete'', ''project:files:view'', ''project:versions:create'',
        ''project:versions:restore'', ''project:git:push'', ''project:git:pull'', ''project:git:connect'',
        ''project:deploy'', ''project:deployment-targets:view'', ''project:deployment-targets:manage'']
      else if role = ''delegate'' then
       [''project:settings:manage'', ''project:members:manage'', ''project:members:view'',
        ''project:members:search'', ''project:members:invite'', ''project:members:add'',
        ''project:members:update-role'', ''project:members:remove'', ''project:members:manage-deploy-grant'',
        ''project:files:create'', ''project:files:edit'', ''project:files:delete'', ''project:files:view'',
        ''project:versions:create'', ''project:versions:restore'', ''project:git:push'', ''project:git:pull'',
        ''project:git:connect'', ''project:deploy'', ''project:deployment-targets:view'',
        ''project:deployment-targets:manage'']
      else if role = ''developer'' then
       [''project:members:view'', ''project:files:create'', ''project:files:edit'', ''project:files:delete'',
        ''project:files:view'', ''project:versions:create'', ''project:versions:restore'', ''project:git:push'',
        ''project:git:pull'', ''project:deploy'']
      else if role = ''editor'' then
       [''project:members:view'', ''project:files:create'', ''project:files:edit'', ''project:files:view'',
        ''project:versions:create'']
      else if role = ''viewer'' then
       [''project:members:view'', ''project:files:view'']
      else [])"

definition EngineRolePermissions :: "string \<Rightarrow> string list" where
  "EngineRolePermissions role =
     (if role = ''owner'' then
       [''engine:edit'', ''engine:delete'', ''engine:activate'', ''engine:secrets:view'', ''engine:secrets:manage'',
        ''engine:environment:set'', ''engine:environment:lock'', ''engine:delegate:manage'',
        ''engine:ownership:transfer'', ''engine:members:manage'', ''engine:members:view'', ''engine:members:lookup'',
        ''engine:members:invite'', ''engine:members:add'', ''engine:members:update-role'', ''engine:members:remove'',
        ''engine:project-access:view'', ''engine:project-access:approve'', ''engine:project-access:deny'',
        ''engine:project-access:revoke'', ''engine:deploy'', ''engine:deploy:view'', ''engine:process:start'',
        ''engine:process:cancel'', ''engine:process:modify'', ''engine:instance:view'', ''engine:instance:delete'',
        ''engine:instance:retry'', ''engine:variables:metadata:view'', ''engine:variables:value:view'',
        ''engine:variables:edit'']
      else if role = ''delegate'' then
       [''engine:edit'', ''engine:activate'', ''engine:secrets:view'', ''engine:secrets:manage'',
        ''engine:environment:set'', ''engine:environment:lock'', ''engine:members:manage'', ''engine:members:view'',
        ''engine:members:lookup'', ''engine:members:invite'', ''engine:members:add'', ''engine:members:update-role'',
        ''engine:members:remove'', ''engine:project-access:view'', ''engine:project-access:approve'',
        ''engine:project-access:deny'', ''engine:project-access:revoke'', ''engine:deploy'', ''engine:deploy:view'',
        ''engine:process:start'', ''engine:process:cancel'', ''engine:process:modify'', ''engine:instance:view'',
        ''engine:instance:delete'', ''engine:instance:retry'', ''engine:variables:metadata:view'',
        ''engine:variables:value:view'', ''engine:variables:edit'']
      else if role = ''operator'' then
       [''engine:members:view'', ''engine:deploy'', ''engine:deploy:view'', ''engine:process:start'',
        ''engine:process:cancel'', ''engine:process:modify'', ''engine:instance:view'', ''engine:instance:delete'',
        ''engine:instance:retry'', ''engine:variables:metadata:view'', ''engine:variables:value:view'']
      else if role = ''deployer'' then
       [''engine:deploy'', ''engine:deploy:view'']
      else [])"

definition TenantRolePermissions :: "string \<Rightarrow> string list" where
  "TenantRolePermissions role =
     (if role = ''admin'' then
        TENANT_SAFE_TENANT_PERMISSION_IDS @ TENANT_SAFE_PROJECT_PERMISSION_IDS @ TENANT_SAFE_ENGINE_PERMISSION_IDS
      else if role = ''engineOperator'' then
        [''tenant:settings:view'', ''tenant:apps:view'', ''tenant:apps:request'', ''tenant:apps:use''] @
        filter (\<lambda>p. p \<noteq> ''engine:variables:edit'') TENANT_SAFE_ENGINE_PERMISSION_IDS
      else if role = ''viewer'' then
        [''tenant:settings:view'', ''tenant:apps:view'', ''tenant:apps:request'', ''tenant:apps:use'',
         ''project:members:view'', ''project:files:view'', ''project:deployment-targets:view'',
         ''engine:deploy:view'', ''engine:instance:view'', ''engine:variables:metadata:view'']
      else [])"

text \<open>A permission is also given by the permissions that include it.\<close>

definition CompatiblePermissionCandidates :: "(string \<times> string list) list" where
  "CompatiblePermissionCandidates = [
     (''platform:user:view'',
       [''platform:user:view'', ''platform:users:view'', ''platform:user:manage'']),
     (''platform:users:view'',
       [''platform:users:view'', ''platform:user:view'', ''platform:user:manage'']),
     (''platform:users:create'',
       [''platform:users:create'', ''platform:user:manage'']),
     (''platform:users:update'',
       [''platform:users:update'', ''platform:user:manage'']),
     (''platform:users:deactivate'',
       [''platform:users:deactivate'', ''platform:users:delete'', ''platform:user:manage'']),
     (''platform:users:delete'',
       [''platform:users:delete'', ''platform:user:manage'']),
     (''platform:users:permanent-delete'',
       [''platform:users:permanent-delete'', ''platform:user:manage'']),
     (''platform:users:unlock'',
       [''platform:users:unlock'', ''platform:user:manage'']),
     (''platform:sso-providers:view'',
       [''platform:sso-providers:view'', ''platform:sso-providers:manage'', ''platform:settings:manage'']),
     (''platform:sso-providers:manage'',
       [''platform:sso-providers:manage'', ''platform:settings:manage'']),
     (''platform:sso-platform-role-mappings:view'',
       [''platform:sso-platform-role-mappings:view'', ''platform:sso-platform-role-mappings:manage'',
        ''platform:settings:manage'']),
     (''platform:sso-platform-role-mappings:manage'',
       [''platform:sso-platform-role-mappings:manage'', ''platform:settings:manage'']),
     (''platform:authz:roles:view'',
       [''platform:authz:roles:view'', ''platform:authz:roles:manage'']),
     (''platform:engine-sets:view'',
       [''platform:engine-sets:view'', ''platform:engine-sets:manage'']),
     (''platform:project-engine-targets:view'',
       [''platform:project-engine-targets:view'', ''platform:project-engine-targets:manage'']),
     (''platform:sso-assignments:view'',
       [''platform:sso-assignments:view'', ''platform:sso-assignments:manage'']),
     (''platform:api-clients:view'',
       [''platform:api-clients:view'', ''platform:api-clients:manage'', ''platform:engine-registration:manage'']),
     (''platform:api-clients:manage'',
       [''platform:api-clients:manage'', ''platform:engine-registration:manage'']),
     (''platform:service-accounts:view'',
       [''platform:service-accounts:view'', ''platform:service-accounts:manage'',
        ''platform:engine-registration:manage'']),
     (''platform:service-accounts:manage'',
       [''platform:service-accounts:manage'', ''platform:engine-registration:manage'']),
     (''project:members:view'',
       [''project:members:view'', ''project:members:manage'']),
     (''project:members:search'',
       [''project:members:search'', ''project:members:manage'']),
     (''project:members:invite'',
       [''project:members:invite'', ''project:members:manage'']),
     (''project:members:add'',
       [''project:members:add'', ''project:members:manage'']),
     (''project:members:update-role'',
       [''project:members:update-role'', ''project:members:manage'']),
     (''project:members:remove'',
       [''project:members:remove'', ''project:members:manage'']),
     (''project:members:manage-deploy-grant'',
       [''project:members:manage-deploy-grant'', ''project:members:manage'']),
     (''project:deployment-targets:view'',
       [''project:deployment-targets:view'', ''project:deployment-targets:manage'']),
     (''engine:members:view'',
       [''engine:members:view'', ''engine:members:manage'', ''engine:members:lookup'', ''engine:instance:view'']),
     (''engine:members:lookup'',
       [''engine:members:lookup'', ''engine:members:manage'']),
     (''engine:members:invite'',
       [''engine:members:invite'', ''engine:members:manage'']),
     (''engine:members:add'',
       [''engine:members:add'', ''engine:members:manage'']),
     (''engine:members:update-role'',
       [''engine:members:update-role'', ''engine:members:manage'']),
     (''engine:members:remove'',
       [''engine:members:remove'', ''engine:members:manage'']),
     (''engine:instance:view'',
       [''engine:instance:view'', ''engine:edit'', ''engine:delete'', ''engine:members:view'',
        ''engine:members:manage'']),
     (''engine:secrets:view'',
       [''engine:secrets:view'', ''engine:secrets:manage'']),
     (''engine:environment:set'',
       [''engine:environment:set'', ''engine:edit'']),
     (''engine:environment:lock'',
       [''engine:environment:lock'', ''engine:edit'']),
     (''engine:project-access:view'',
       [''engine:project-access:view'', ''engine:members:manage'']),
     (''engine:project-access:approve'',
       [''engine:project-access:approve'', ''engine:members:manage'']),
     (''engine:project-access:deny'',
       [''engine:project-access:deny'', ''engine:members:manage'']),
     (''engine:project-access:revoke'',
       [''engine:project-access:revoke'', ''engine:members:manage''])]"

definition compatiblePermissionCandidates :: "string \<Rightarrow> string list" where
  "compatiblePermissionCandidates permission =
     set_of_list (case map_of CompatiblePermissionCandidates permission of None \<Rightarrow> [permission] | Some ps \<Rightarrow> ps)"

text \<open>\<open>SystemRoleDefinitions\<close>; the key of a system role is its id.\<close>

record system_role =
  sy_id :: string
  sy_name :: string
  sy_scope :: resource_type
  sy_isAssignable :: bool
  sy_permissions :: "string list"

definition platform_system_roles :: "system_role list" where
  "platform_system_roles = [
     system_role.make ''system.platform.admin'' ''Platform Admin'' PlatformResource True (PlatformRolePermissions ''admin''),
     system_role.make ''system.platform.user'' ''Platform User'' PlatformResource True (PlatformRolePermissions ''user''),
     system_role.make ''system.platform.developer'' ''Platform Developer'' PlatformResource False (PlatformRolePermissions ''developer''),
     system_role.make ''system.platform.access_admin'' ''Access Administrator'' PlatformResource True 
         [''platform:authz:roles:view'', ''platform:authz:roles:manage'', ''platform:authz:check'',
          ''platform:config-bundles:view'', ''platform:config-bundles:preview'', ''platform:config-bundles:apply'',
          ''platform:config-bundles:export'', ''platform:camunda-native-grants:preview'',
          ''platform:camunda-native-grants:draft'', ''platform:camunda-native-grants:history-view'',
          ''platform:engine-backstop:view'', ''platform:engine-backstop:manage'',
          ''platform:engine-backstop:preview'', ''platform:engine-backstop:sensitive-view'',
          ''platform:engine-backstop:apply'', ''platform:engine-backstop:drift-check'', ''platform:audit:view''],
     system_role.make ''system.platform.access_auditor'' ''Access Auditor'' PlatformResource True 
         [''platform:authz:roles:view'', ''platform:authz:check'', ''platform:audit:view'',
          ''platform:camunda-native-grants:history-view'', ''platform:engine-backstop:view''],
     system_role.make ''system.platform.user_admin'' ''User Administrator'' PlatformResource True 
         [''platform:user:view'', ''platform:users:view'', ''platform:users:create'', ''platform:users:update'',
          ''platform:users:deactivate'', ''platform:users:delete'', ''platform:users:unlock''],
     system_role.make ''system.platform.sso_admin'' ''SSO Administrator'' PlatformResource True 
         [''platform:sso-assignments:view'', ''platform:sso-assignments:manage'', ''platform:sso-providers:view'',
          ''platform:sso-providers:manage'', ''platform:sso-platform-role-mappings:view'',
          ''platform:sso-platform-role-mappings:manage''],
     system_role.make ''system.platform.engine_registry_admin'' ''Engine Registry Administrator'' PlatformResource True 
         [''platform:engine-registration:manage'', ''platform:engine-sets:view'', ''platform:engine-sets:manage'',
          ''platform:project-engine-targets:view'', ''platform:project-engine-targets:manage'',
          ''platform:engine:create'', ''platform:engine:delete''],
     system_role.make ''system.platform.api_client_admin'' ''API Client Administrator'' PlatformResource True 
         [''platform:api-clients:view'', ''platform:api-clients:manage'', ''platform:service-accounts:view'',
          ''platform:service-accounts:manage'']]"

definition tenant_system_roles :: "system_role list" where
  "tenant_system_roles = [
     system_role.make ''system.tenant.admin'' ''Tenant Administrator'' TenantResource True (TenantRolePermissions ''admin''),
     system_role.make ''system.tenant.engine_operator'' ''Tenant Engine Operator'' TenantResource True (TenantRolePermissions ''engineOperator''),
     system_role.make ''system.tenant.viewer'' ''Tenant Viewer'' TenantResource True (TenantRolePermissions ''viewer'')]"

definition project_system_roles :: "system_role list" where
  "project_system_roles = [
     system_role.make ''system.project.owner'' ''Project Owner'' ProjectResource True (ProjectRolePermissions ''owner''),
     system_role.make ''system.project.delegate'' ''Project Delegate'' ProjectResource True (ProjectRolePermissions ''delegate''),
     system_role.make ''system.project.developer'' ''Project Developer'' ProjectResource True (ProjectRolePermissions ''developer''),
     system_role.make ''system.project.deployer'' ''Project Deployer'' ProjectResource True 
         [''project:deploy''],
     system_role.make ''system.project.editor'' ''Project Editor'' ProjectResource True (ProjectRolePermissions ''editor''),
     system_role.make ''system.project.viewer'' ''Project Viewer'' ProjectResource True (ProjectRolePermissions ''viewer'')]"

definition engine_system_roles :: "system_role list" where
  "engine_system_roles = [
     system_role.make ''system.engine.owner'' ''Engine Owner'' EngineResource False (EngineRolePermissions ''owner''),
     system_role.make ''system.engine.delegate'' ''Engine Delegate'' EngineResource False (EngineRolePermissions ''delegate''),
     system_role.make ''system.engine.operator'' ''Engine Operator'' EngineResource True (EngineRolePermissions ''operator''),
     system_role.make ''system.engine.runtime_viewer'' ''Runtime Viewer'' EngineResource True 
         [''engine:instance:view'', ''engine:variables:metadata:view''],
     system_role.make ''system.engine.runtime_investigator'' ''Runtime Investigator'' EngineResource True 
         [''engine:instance:view'', ''engine:variables:metadata:view'', ''engine:variables:value:view''],
     system_role.make ''system.engine.variable_operator'' ''Variable Operator'' EngineResource True 
         [''engine:instance:view'', ''engine:variables:metadata:view'', ''engine:variables:value:view'',
          ''engine:variables:edit''],
     system_role.make ''system.engine.deployer'' ''Engine Deployer'' EngineResource True (EngineRolePermissions ''deployer'')]"

definition machine_system_roles :: "system_role list" where
  "machine_system_roles = [
     system_role.make ''system.api.engine_registrar'' ''API Engine Registrar'' PlatformResource True 
         [''platform:engine-registration:manage''],
     system_role.make ''system.api.external_engine_system_registrar'' ''API External System Registrar'' ExternalEngineSystem True 
         [''external-engine-system:engine-registration:manage''],
     system_role.make ''system.api.project_engine_target_registrar'' ''API Project Engine Target Registrar'' ExternalEngineSystem True 
         [''external-engine-system:project-targets:manage''],
     system_role.make ''system.api.identity_provisioning_admin'' ''API Identity Provisioning Administrator'' PlatformResource True 
         [''platform:sso-providers:view'', ''platform:sso-providers:manage'']]"

definition SystemRoleDefinitions :: "system_role list" where
  "SystemRoleDefinitions =
     platform_system_roles @
     tenant_system_roles @
     project_system_roles @
     engine_system_roles @
     machine_system_roles"

section \<open>Machine principals\<close>

definition MACHINE_PRINCIPAL_TYPES :: "principal_type list" where
  "MACHINE_PRINCIPAL_TYPES = [ApiClientPrincipal, ServiceAccountPrincipal]"

definition MACHINE_ASSIGNABLE_SYSTEM_ROLE_IDS :: "string list" where
  "MACHINE_ASSIGNABLE_SYSTEM_ROLE_IDS =
     [''system.api.engine_registrar'', ''system.api.external_engine_system_registrar'',
      ''system.api.project_engine_target_registrar'', ''system.api.identity_provisioning_admin'',
      ''system.tenant.engine_operator'', ''system.tenant.viewer'', ''system.project.deployer'',
      ''system.engine.operator'', ''system.engine.deployer'']"

definition MACHINE_ASSIGNABLE_CUSTOM_ROLE_PERMISSIONS :: "resource_type \<Rightarrow> string list option" where
  "MACHINE_ASSIGNABLE_CUSTOM_ROLE_PERMISSIONS scope =
     (case scope of
        PlatformResource \<Rightarrow> Some [''platform:engine-registration:manage'']
      | TenantResource \<Rightarrow> Some TENANT_MACHINE_SAFE_PERMISSION_IDS
      | ExternalEngineSystem \<Rightarrow> Some [''external-engine-system:engine-registration:manage'',
          ''external-engine-system:project-targets:manage'']
      | ProjectResource \<Rightarrow> Some [''project:deploy'']
      | EngineResource \<Rightarrow> Some (EngineRolePermissions ''operator'')
      | _ \<Rightarrow> None)"

section \<open>The tables fit together\<close>

text \<open>The catalog as a map: a later entry of the same key replaces an earlier one.\<close>

definition static_catalog :: "(string \<times> permission_definition) list" where
  "static_catalog = fold (\<lambda>d. put (pd_key d) d) PermissionCatalog []"

lemma map_of_catalog_keys: "map_of (rev (map (\<lambda>p. (p, f p)) ps)) p = (if p \<in> set ps then Some (f p) else None)"
  by (induction ps) (auto simp: map_add_def)

lemma engine_keys: "list_all (\<lambda>p. take 4 p = ''engi'') EnginePermissions" by code_simp
lemma project_keys: "list_all (\<lambda>p. take 4 p = ''proj'') ProjectPermissions" by code_simp
lemma external_keys: "list_all (\<lambda>p. take 4 p = ''exte'') ExternalEngineSystemPermissions" by code_simp
lemma tenant_keys: "list_all (\<lambda>p. take 4 p = ''tena'') TenantPermissions" by code_simp
lemma platform_keys: "list_all (\<lambda>p. take 4 p = ''plat'' \<or> p = ''project:create'') PlatformPermissions" by code_simp
lemma create_no_project: "''project:create'' \<notin> set ProjectPermissions" by code_simp
lemma platform_listed: "concat (map snd platform_catalog) = PlatformPermissions" by code_simp

lemma platform_definitions:
  "map (\<lambda>d. (pd_key d, d)) (concat (map (\<lambda>(category, ps). map (\<lambda>p. permissionDefinition p PlatformResource category) ps) cs)) =
     concat (map (\<lambda>(category, ps). map (\<lambda>p. (p, permissionDefinition p PlatformResource category)) ps) cs)"
  by (simp add: map_concat permissionDefinition_def comp_def case_prod_unfold)

lemma map_of_platform:
  "if p \<in> set (concat (map snd cs))
   then \<exists>c. map_of (rev (concat (map (\<lambda>(category, ps). map (\<lambda>p. (p, permissionDefinition p PlatformResource category)) ps) cs))) p =
     Some (permissionDefinition p PlatformResource c)
   else map_of (rev (concat (map (\<lambda>(category, ps). map (\<lambda>p. (p, permissionDefinition p PlatformResource category)) ps) cs))) p = None"
proof (induction cs)
  case (Cons c cs)
  obtain category ps where "c = (category, ps)" by (cases c)
  with Cons show ?case by (cases "p \<in> set (concat (map snd cs))") (auto simp: map_add_def map_of_catalog_keys)
qed simp

lemma static_lookup:
  "map_of static_catalog p =
     (if p \<in> set EnginePermissions then Some (permissionDefinition p EngineResource ''Engine'')
      else if p \<in> set ProjectPermissions then Some (permissionDefinition p ProjectResource ''Project'')
      else if p \<in> set ExternalEngineSystemPermissions
      then Some (permissionDefinition p ExternalEngineSystem ''External Engine Systems'')
      else if p \<in> set TenantPermissions then Some (permissionDefinition p TenantResource ''Tenant Administration'')
      else map_of (rev (concat (map (\<lambda>(category, ps). map (\<lambda>p. (p, permissionDefinition p PlatformResource category)) ps)
        platform_catalog))) p)"
proof -
  have key: "(\<lambda>d. (pd_key d, d)) \<circ> (\<lambda>p. permissionDefinition p rt c) = (\<lambda>p. (p, permissionDefinition p rt c))" for rt c
    by (simp add: fun_eq_iff permissionDefinition_def)
  show ?thesis
    unfolding static_catalog_def map_of_fold_put PermissionCatalog_def map_append rev_append platform_definitions
    by (simp add: key map_add_def map_of_catalog_keys)
qed

text \<open>Each permission has the scope of the object that names it.\<close>

lemma catalog_scopes:
  "p \<in> set EnginePermissions \<Longrightarrow> map_of static_catalog p = Some (permissionDefinition p EngineResource ''Engine'')"
  "p \<in> set ProjectPermissions \<Longrightarrow> map_of static_catalog p = Some (permissionDefinition p ProjectResource ''Project'')"
  "p \<in> set ExternalEngineSystemPermissions \<Longrightarrow>
     map_of static_catalog p = Some (permissionDefinition p ExternalEngineSystem ''External Engine Systems'')"
  "p \<in> set TenantPermissions \<Longrightarrow> map_of static_catalog p = Some (permissionDefinition p TenantResource ''Tenant Administration'')"
  "p \<in> set PlatformPermissions \<Longrightarrow> \<exists>c. map_of static_catalog p = Some (permissionDefinition p PlatformResource c)"
proof -
  have e: "take 4 p = ''engi''" if "p \<in> set EnginePermissions" for p using engine_keys that by (auto simp: list_all_iff)
  have j: "take 4 p = ''proj'' \<and> p \<noteq> ''project:create''" if "p \<in> set ProjectPermissions" for p
    using project_keys create_no_project that by (auto simp: list_all_iff)
  have x: "take 4 p = ''exte''" if "p \<in> set ExternalEngineSystemPermissions" for p using external_keys that by (auto simp: list_all_iff)
  have t: "take 4 p = ''tena''" if "p \<in> set TenantPermissions" for p using tenant_keys that by (auto simp: list_all_iff)
  have f: "take 4 p = ''plat'' \<or> p = ''project:create''" if "p \<in> set PlatformPermissions" for p
    using platform_keys that by (auto simp: list_all_iff)
  have c: "take 4 ''project:create'' = ''proj''" by simp
  show "p \<in> set EnginePermissions \<Longrightarrow> map_of static_catalog p = Some (permissionDefinition p EngineResource ''Engine'')"
    by (simp add: static_lookup)
  show "p \<in> set ProjectPermissions \<Longrightarrow> map_of static_catalog p = Some (permissionDefinition p ProjectResource ''Project'')"
    using e [of p] j [of p] by (auto simp: static_lookup)
  show "p \<in> set ExternalEngineSystemPermissions \<Longrightarrow>
      map_of static_catalog p = Some (permissionDefinition p ExternalEngineSystem ''External Engine Systems'')"
    using e [of p] j [of p] x [of p] by (auto simp: static_lookup)
  show "p \<in> set TenantPermissions \<Longrightarrow> map_of static_catalog p = Some (permissionDefinition p TenantResource ''Tenant Administration'')"
    using e [of p] j [of p] x [of p] t [of p] by (auto simp: static_lookup)
  assume p: "p \<in> set PlatformPermissions"
  then have "p \<notin> set EnginePermissions" "p \<notin> set ProjectPermissions" "p \<notin> set ExternalEngineSystemPermissions" "p \<notin> set TenantPermissions"
    using f [OF p] e [of p] j [of p] x [of p] t [of p] c by auto
  with map_of_platform [of p platform_catalog] p show "\<exists>c. map_of static_catalog p = Some (permissionDefinition p PlatformResource c)"
    by (simp add: static_lookup platform_listed del: set_concat)
qed

text \<open>The permissions of the system roles.\<close>

lemma engine_roles: "list_all (\<lambda>r. list_all (\<lambda>p. p \<in> set EnginePermissions) (sy_permissions r) \<and> sy_scope r = EngineResource) engine_system_roles"
  by code_simp
lemma project_roles: "list_all (\<lambda>r. list_all (\<lambda>p. p \<in> set ProjectPermissions) (sy_permissions r) \<and> sy_scope r = ProjectResource) project_system_roles"
  by code_simp
lemma platform_roles: "list_all (\<lambda>r. list_all (\<lambda>p. p \<in> set PlatformPermissions) (sy_permissions r) \<and> sy_scope r = PlatformResource) (tl platform_system_roles)"
  by code_simp
lemma admin_role: "sy_permissions (hd platform_system_roles) = PlatformPermissions" "sy_scope (hd platform_system_roles) = PlatformResource"
  "platform_system_roles \<noteq> []"
  by (simp_all add: platform_system_roles_def PlatformRolePermissions_def system_role.make_def)
lemma machine_roles:
  "list_all (\<lambda>r. list_all (\<lambda>p. p \<in> set (if sy_scope r = PlatformResource then PlatformPermissions else ExternalEngineSystemPermissions))
     (sy_permissions r) \<and> sy_scope r \<in> {PlatformResource, ExternalEngineSystem}) machine_system_roles"
  by code_simp
lemma tenant_safe_lists: "TENANT_SAFE_TENANT_PERMISSION_IDS = TenantPermissions"
  "list_all (\<lambda>p. p \<in> set ProjectPermissions) TENANT_SAFE_PROJECT_PERMISSION_IDS"
  "list_all (\<lambda>p. p \<in> set EnginePermissions) TENANT_SAFE_ENGINE_PERMISSION_IDS"
  by code_simp+
lemma tenant_viewer: "list_all isTenantSafePermission (TenantRolePermissions ''viewer'')"
  "list_all isTenantSafePermission [''tenant:settings:view'', ''tenant:apps:view'', ''tenant:apps:request'', ''tenant:apps:use'']"
  by code_simp+
lemma tenant_roles: "list_all (\<lambda>r. list_all isTenantSafePermission (sy_permissions r) \<and> sy_scope r = TenantResource) tenant_system_roles"
  using tenant_viewer
  by (auto simp: tenant_system_roles_def system_role.make_def TenantRolePermissions_def isTenantSafePermission_def
      TENANT_SAFE_PERMISSION_IDS_def list_all_iff)
lemma system_dependencies: "list_all (\<lambda>r. rolePermissionDependencyError (sy_permissions r) = None) SystemRoleDefinitions"
  by code_simp
lemma system_ids: "distinct (map sy_id SystemRoleDefinitions)"
  by code_simp
lemma system_nonempty: "list_all (\<lambda>r. sy_permissions r \<noteq> []) SystemRoleDefinitions"
  by code_simp
lemma candidates_include: "list_all (\<lambda>(k, ps). k \<in> set ps) CompatiblePermissionCandidates"
  by code_simp

lemma own_candidate: "p \<in> set (compatiblePermissionCandidates p)"
  using candidates_include map_of_SomeD [of CompatiblePermissionCandidates p]
  by (auto simp: compatiblePermissionCandidates_def list_all_iff split: option.split)

text \<open>Every permission of a system role is in the catalog and fits the role's scope.\<close>

lemma tenant_safe_known:
  assumes "isTenantSafePermission p"
  shows "\<exists>d. map_of static_catalog p = Some d \<and> pd_key d = p \<and> \<not> pd_isArchived d"
proof -
  consider "p \<in> set TenantPermissions" | "p \<in> set ProjectPermissions" | "p \<in> set EnginePermissions"
    using assms tenant_safe_lists(2,3)
    unfolding isTenantSafePermission_def TENANT_SAFE_PERMISSION_IDS_def tenant_safe_lists(1) list_all_iff by auto
  then show ?thesis
    by cases (simp_all add: catalog_scopes(1,2,4) permissionDefinition_def)
qed

lemma system_role_fits:
  assumes "r \<in> set SystemRoleDefinitions" and "p \<in> set (sy_permissions r)"
  shows "\<exists>d. map_of static_catalog p = Some d \<and> pd_key d = p \<and> \<not> pd_isArchived d \<and>
     rolePermissionValidationError (sy_scope r) p (pd_scope d) = None"
proof -
  consider "r \<in> set (tl platform_system_roles)" | "r = hd platform_system_roles" | "r \<in> set tenant_system_roles"
    | "r \<in> set project_system_roles" | "r \<in> set engine_system_roles" | "r \<in> set machine_system_roles"
  proof -
    have "set platform_system_roles = insert (hd platform_system_roles) (set (tl platform_system_roles))"
      by (metis admin_role(3) list.collapse list.simps(15))
    with assms(1) that show thesis unfolding SystemRoleDefinitions_def set_append by blast
  qed
  then show ?thesis
  proof cases
    case 1
    with platform_roles assms(2) have "p \<in> set PlatformPermissions" "sy_scope r = PlatformResource" by (auto simp: list_all_iff)
    with catalog_scopes(5) show ?thesis by (fastforce simp: permissionDefinition_def rolePermissionValidationError_def)
  next
    case 2
    with admin_role assms(2) have "p \<in> set PlatformPermissions" "sy_scope r = PlatformResource" by auto
    with catalog_scopes(5) show ?thesis by (fastforce simp: permissionDefinition_def rolePermissionValidationError_def)
  next
    case 3
    with tenant_roles assms(2) have "isTenantSafePermission p" "sy_scope r = TenantResource" by (auto simp: list_all_iff)
    with tenant_safe_known show ?thesis by (auto simp: rolePermissionValidationError_def)
  next
    case 4
    with project_roles assms(2) have "p \<in> set ProjectPermissions" "sy_scope r = ProjectResource" by (auto simp: list_all_iff)
    with catalog_scopes(2) show ?thesis by (auto simp: permissionDefinition_def rolePermissionValidationError_def)
  next
    case 5
    with engine_roles assms(2) have "p \<in> set EnginePermissions" "sy_scope r = EngineResource" by (auto simp: list_all_iff)
    with catalog_scopes(1) show ?thesis by (auto simp: permissionDefinition_def rolePermissionValidationError_def)
  next
    case 6
    with machine_roles assms(2) consider "p \<in> set PlatformPermissions" "sy_scope r = PlatformResource"
      | "p \<in> set ExternalEngineSystemPermissions" "sy_scope r = ExternalEngineSystem" by (fastforce simp: list_all_iff)
    then show ?thesis
      using catalog_scopes(3,5) by cases (fastforce simp: permissionDefinition_def rolePermissionValidationError_def)+
  qed
qed

end
