(* ===== verification/Permission_Store.thy ===== *)
theory Permission_Store
  imports Permission_Catalog
begin

text \<open>
  The tables of the authorization and the queries that evaluate a permission
  (\<open>PermissionServiceClass\<close> of \<open>shared/src/services/platform-admin/permissions.ts\<close>). A table is the list of
  its rows, keyed by id where it has one; a query builder is a filter over the rows, a join the
  existence of the joined row. Columns that only explain a decision (lineage, registration details)
  are left out.
\<close>

section \<open>Tables\<close>

record role_row =
  aro_tenantId :: "string option"
  aro_key :: string
  aro_name :: string
  aro_scope :: resource_type
  aro_isCustom :: bool
  aro_isEditable :: bool
  aro_isAssignable :: bool
  aro_isArchived :: bool
  aro_source :: string
  aro_sourceRef :: "string option"
  aro_ownershipMode :: string
  aro_driftStatus :: "string option"

record assignment_row =
  asg_tenantId :: "string option"
  asg_principalType :: principal_type
  asg_principalId :: string
  asg_assignmentKey :: string
  asg_roleId :: string
  asg_scopeType :: resource_type
  asg_scopeId :: "string option"
  asg_source :: string
  asg_sourceRef :: "string option"
  asg_ownershipMode :: string
  asg_expiresAt :: "int option"

record group_row =
  grp_tenantId :: "string option"
  grp_isArchived :: bool

record membership_row =
  mem_tenantId :: "string option"
  mem_groupId :: string
  mem_userId :: string
  mem_expiresAt :: "int option"

record grant_row =
  gnt_tenantId :: "string option"
  gnt_userId :: string
  gnt_permission :: string
  gnt_resourceType :: "resource_type option"
  gnt_resourceId :: "string option"
  gnt_expiresAt :: "int option"

record engine_row =
  eng_tenantId :: "string option"
  eng_isShared :: bool
  eng_isResourceAware :: bool

record runtime_row =
  rtm_tenantId :: "string option"
  rtm_isResolved :: bool
  rtm_isActive :: bool
  rtm_engineId :: string
  rtm_resourceKind :: string
  rtm_resourceKey :: string

record runtime_set_row =
  rts_tenantId :: "string option"
  rts_engineId :: string
  rts_isArchived :: bool

text \<open>A member of a materialized set: the row's tenant, the set, the member.\<close>

type_synonym set_member = "string option \<times> string \<times> string"

record authz_db =
  db_permissions :: "(string \<times> permission_definition) list"
  db_roles :: "(string \<times> role_row) list"
  db_rolePermissions :: "(string \<times> string) list"
  db_assignments :: "(string \<times> assignment_row) list"
  db_groups :: "(string \<times> group_row) list"
  db_memberships :: "membership_row list"
  db_grants :: "(string \<times> grant_row) list"
  db_users :: "string list"
  db_apiClients :: "(string \<times> bool) list"
  db_serviceAccounts :: "(string \<times> bool) list"
  db_projects :: "(string \<times> string option) list"
  db_engines :: "(string \<times> engine_row) list"
  db_engineSets :: "(string \<times> string option) list"
  db_engineSetMembers :: "set_member list"
  db_runtimeResources :: "(string \<times> runtime_row) list"
  db_runtimeSets :: "(string \<times> runtime_set_row) list"
  db_runtimeSetMembers :: "set_member list"
  db_externalSystems :: "(string \<times> (string option \<times> bool)) list"
  db_overrides :: "(string \<times> string) list"

text \<open>\<open>findOne\<close> by id under further conditions\<close>

definition find_row :: "('a \<Rightarrow> bool) \<Rightarrow> (string \<times> 'a) list \<Rightarrow> string \<Rightarrow> 'a option" where
  "find_row holds rows i = (case map_of rows i of None \<Rightarrow> None | Some r \<Rightarrow> if holds r then Some r else None)"

lemma find_row_Some [simp]: "find_row holds rows i = Some r \<longleftrightarrow> map_of rows i = Some r \<and> holds r"
  by (auto simp: find_row_def split: option.split)

text \<open>\<open>expiresAt IS NULL OR expiresAt > :now\<close>\<close>

definition unexpired_at :: "int \<Rightarrow> int option \<Rightarrow> bool" where
  "unexpired_at now e \<longleftrightarrow> (case e of None \<Rightarrow> True | Some t \<Rightarrow> now < t)"

section \<open>Principals\<close>

record permission_context =
  pcx_userId :: "string option"
  pcx_principalType :: "principal_type option"
  pcx_principalId :: "string option"
  pcx_tenantId :: "string option"
  pcx_resourceType :: "resource_type option"
  pcx_resourceId :: "string option"

type_synonym principal_ref = "principal_type \<times> string"

definition resolvePermissionPrincipal :: "permission_context \<Rightarrow> authz_error + principal_ref" where
  "resolvePermissionPrincipal ctx =
     (let principalType = (case pcx_principalType ctx of None \<Rightarrow> UserPrincipal | Some t \<Rightarrow> t);
          principalId = (case pcx_principalId ctx of None \<Rightarrow> pcx_userId ctx | Some i \<Rightarrow> Some i)
      in if \<not> truthy_str principalId then Inl PrincipalRequired
         else if principalType = UserPrincipal \<and> truthy_str (pcx_userId ctx) \<and> pcx_userId ctx \<noteq> principalId
         then Inl UserMismatch
         else Inr (principalType, the principalId))"

definition membership_active :: "authz_db \<Rightarrow> int \<Rightarrow> string \<Rightarrow> string option \<Rightarrow> membership_row \<Rightarrow> bool" where
  "membership_active db now userId tenantId m \<longleftrightarrow>
     mem_userId m = userId \<and> unexpired_at now (mem_expiresAt m) \<and> tenantScopedWhere (mem_tenantId m) tenantId \<and>
     find_row (\<lambda>g. \<not> grp_isArchived g \<and> tenantScopedWhere (grp_tenantId g) tenantId) (db_groups db) (mem_groupId m) \<noteq> None"

definition getUserGroupIdsForEvaluation :: "authz_db \<Rightarrow> int \<Rightarrow> string \<Rightarrow> string option \<Rightarrow> string list" where
  "getUserGroupIdsForEvaluation db now userId tenantId =
     sort (set_of_list (map mem_groupId (filter (membership_active db now userId tenantId) (db_memberships db))))"

text \<open>\<open>addPrincipalAssignmentFilter\<close> and \<open>addPermissionPrincipalAssignmentFilter\<close>\<close>

definition principalAssignmentFilter :: "string \<Rightarrow> string list \<Rightarrow> assignment_row \<Rightarrow> bool" where
  "principalAssignmentFilter userId groupIds a \<longleftrightarrow>
     (asg_principalType a = UserPrincipal \<and> asg_principalId a = userId) \<or>
     (groupIds \<noteq> [] \<and> asg_principalType a = GroupPrincipal \<and> asg_principalId a \<in> set groupIds)"

definition permissionPrincipalFilter ::
  "authz_db \<Rightarrow> int \<Rightarrow> principal_ref \<Rightarrow> string option \<Rightarrow> assignment_row \<Rightarrow> bool" where
  "permissionPrincipalFilter db now who tenantId a \<longleftrightarrow>
     (if fst who = UserPrincipal
      then principalAssignmentFilter (snd who) (getUserGroupIdsForEvaluation db now (snd who) tenantId) a
      else asg_principalType a = fst who \<and> asg_principalId a = snd who)"

section \<open>Role assignments that give a permission\<close>

definition role_allows :: "authz_db \<Rightarrow> string \<Rightarrow> string option \<Rightarrow> (role_row \<Rightarrow> bool) \<Rightarrow> assignment_row \<Rightarrow> bool" where
  "role_allows db permission tenantId scoped a \<longleftrightarrow>
     (asg_roleId a, permission) \<in> set (db_rolePermissions db) \<and>
     find_row (\<lambda>r. \<not> aro_isArchived r \<and> tenantScopedWhere (aro_tenantId r) tenantId \<and> scoped r)
       (db_roles db) (asg_roleId a) \<noteq> None"

text \<open>The conditions all queries for assignments share.\<close>

definition assignment_active ::
  "authz_db \<Rightarrow> int \<Rightarrow> principal_ref \<Rightarrow> string \<Rightarrow> string option \<Rightarrow> (role_row \<Rightarrow> bool) \<Rightarrow> assignment_row \<Rightarrow> bool" where
  "assignment_active db now who permission tenantId scoped a \<longleftrightarrow>
     role_allows db permission tenantId scoped a \<and> unexpired_at now (asg_expiresAt a) \<and>
     permissionPrincipalFilter db now who tenantId a \<and> tenantScopedWhere (asg_tenantId a) tenantId"

definition resolvedRuntimeResource :: "authz_db \<Rightarrow> string \<Rightarrow> string option \<Rightarrow> runtime_row option" where
  "resolvedRuntimeResource db resourceId tenantId =
     find_row (\<lambda>r. rtm_isActive r \<and> rtm_isResolved r \<and> tenantOwnedWhere (rtm_tenantId r) tenantId)
       (db_runtimeResources db) resourceId"

definition resolveTenantInheritanceScope ::
  "authz_db \<Rightarrow> string \<Rightarrow> resource_type option \<Rightarrow> string option \<Rightarrow> string option \<Rightarrow> runtime_row option \<Rightarrow> string option" where
  "resolveTenantInheritanceScope db permission resourceType resourceId tenantId runtimeResource =
     (case (normalizeTenantIdForPersistence tenantId, resourceType) of
        (Some tenant, Some rt) \<Rightarrow>
          if \<not> truthy_str resourceId \<or> \<not> isTenantSafePermission permission then None
          else if rt = TenantResource
          then (if normalizeTenantIdForPersistence resourceId = Some tenant then Some tenant else None)
          else if rt = RuntimeResource
          then (case runtimeResource of None \<Rightarrow> None
                | Some r \<Rightarrow> if normalizeTenantIdForPersistence (rtm_tenantId r) = Some tenant then Some tenant else None)
          else if rt = ProjectResource
          then (if find_row (\<lambda>t. tenantOwnedWhere t (Some tenant)) (db_projects db) (the resourceId) = None
                then None else Some tenant)
          else if rt = EngineResource
          then (if find_row (\<lambda>e. \<not> eng_isShared e \<and> tenantOwnedWhere (eng_tenantId e) (Some tenant))
                     (db_engines db) (the resourceId) = None
                then None else Some tenant)
          else if rt = RuntimeResourceSet
          then (if find_row (\<lambda>s. \<not> rts_isArchived s \<and> tenantOwnedWhere (rts_tenantId s) (Some tenant))
                     (db_runtimeSets db) (the resourceId) = None
                then None else Some tenant)
          else None
      | _ \<Rightarrow> None)"

definition in_tenant_scope :: "string option \<Rightarrow> assignment_row \<Rightarrow> bool" where
  "in_tenant_scope tenantScope a \<longleftrightarrow>
     tenantScope \<noteq> None \<and> asg_scopeType a = TenantResource \<and> asg_scopeId a = tenantScope"

text \<open>The scope clause of the first query.\<close>

definition direct_scope ::
  "resource_type option \<Rightarrow> string option \<Rightarrow> (runtime_row \<times> engine_row) option \<Rightarrow> string option \<Rightarrow> assignment_row \<Rightarrow> bool" where
  "direct_scope resourceType resourceId runtime tenantScope a \<longleftrightarrow>
     (case (resourceType, runtime) of
        (Some rt, Some (r, e)) \<Rightarrow>
          (asg_scopeType a = rt \<and> asg_scopeId a = resourceId) \<or>
          (\<not> eng_isShared e \<and> asg_scopeType a = EngineResource \<and>
             (asg_scopeId a = Some (rtm_engineId r) \<or> asg_scopeId a = None)) \<or>
          in_tenant_scope tenantScope a
      | (Some rt, None) \<Rightarrow>
          if truthy_str resourceId
          then (asg_scopeType a = rt \<and> (asg_scopeId a = resourceId \<or> asg_scopeId a = None)) \<or>
               in_tenant_scope tenantScope a
          else asg_scopeType a = rt \<and> asg_scopeId a = None
      | (None, _) \<Rightarrow> asg_scopeType a = PlatformResource \<and> asg_scopeId a = None)"

text \<open>The queries that join a materialized set.\<close>

definition set_scope ::
  "resource_type \<Rightarrow> set_member list \<Rightarrow> string \<Rightarrow> string option \<Rightarrow> assignment_row \<Rightarrow> bool" where
  "set_scope scopeType members member tenantId a \<longleftrightarrow>
     asg_scopeType a = scopeType \<and>
     list_ex (\<lambda>(t, s, m). Some s = asg_scopeId a \<and> m = member \<and> tenantScopedWhere t tenantId) members"

record permission_source =
  src_assignmentId :: string
  src_assignment :: assignment_row
  src_shadowed :: "string list"

definition source_of :: "string \<times> assignment_row \<Rightarrow> permission_source" where
  "source_of row = \<lparr>src_assignmentId = fst row, src_assignment = snd row, src_shadowed = []\<rparr>"

definition annotateRuntimeGrantShadowing :: "permission_source list \<Rightarrow> permission_source list" where
  "annotateRuntimeGrantShadowing sources =
     (let narrowAssignmentIds = map src_assignmentId
            (filter (\<lambda>s. asg_scopeType (src_assignment s) \<in> {RuntimeResource, RuntimeResourceSet} \<and>
               src_assignmentId s \<noteq> []) sources)
      in if narrowAssignmentIds = [] then sources
         else map (\<lambda>s. if asg_scopeType (src_assignment s) \<in> {EngineResource, TenantResource}
                then s\<lparr>src_shadowed := narrowAssignmentIds\<rparr> else s) sources)"

definition engine_role :: "role_row \<Rightarrow> bool" where
  "engine_role r \<longleftrightarrow> aro_scope r = EngineResource"

definition getRoleAssignmentPermissionSources ::
  "authz_db \<Rightarrow> int \<Rightarrow> principal_ref \<Rightarrow> string \<Rightarrow> resource_type option \<Rightarrow> string option \<Rightarrow> string option \<Rightarrow> permission_source list" where
  "getRoleAssignmentPermissionSources db now who permission resourceType resourceId tenantId =
     (let isRuntime = (resourceType = Some RuntimeResource \<and> truthy_str resourceId);
          runtimeResource = (if isRuntime then resolvedRuntimeResource db (the resourceId) tenantId else None);
          runtimeEngine = (case runtimeResource of None \<Rightarrow> None | Some r \<Rightarrow> map_of (db_engines db) (rtm_engineId r));
          tenantScope = resolveTenantInheritanceScope db permission resourceType resourceId tenantId runtimeResource;
          matching = (\<lambda>scoped scope. map source_of (filter
            (\<lambda>(i, a). assignment_active db now who permission tenantId scoped a \<and> scope a) (db_assignments db)))
      in if isRuntime
         then (case (runtimeResource, runtimeEngine) of
             (Some r, Some e) \<Rightarrow>
               if \<not> truthy_str (rtm_tenantId r) then []
               else annotateRuntimeGrantShadowing
                 (matching (\<lambda>_. True) (direct_scope resourceType resourceId (Some (r, e)) tenantScope) @
                  matching engine_role (set_scope RuntimeResourceSet (db_runtimeSetMembers db) (the resourceId) tenantId) @
                  (if eng_isShared e then []
                   else matching engine_role (set_scope EngineSetResource (db_engineSetMembers db) (rtm_engineId r) tenantId)))
           | _ \<Rightarrow> [])
         else
           matching (\<lambda>_. True) (direct_scope resourceType resourceId None tenantScope) @
           (if resourceType = Some EngineResource \<and> truthy_str resourceId
            then filter (\<lambda>s. truthy_str (asg_scopeId (src_assignment s)))
              (matching engine_role (set_scope EngineSetResource (db_engineSetMembers db) (the resourceId) tenantId))
            else []))"

section \<open>Explicit grants\<close>

definition grant_covers :: "resource_type option \<Rightarrow> string option \<Rightarrow> grant_row \<Rightarrow> bool" where
  "grant_covers resourceType resourceId g \<longleftrightarrow>
     (case resourceType of
        None \<Rightarrow> True
      | Some rt \<Rightarrow>
          if truthy_str resourceId
          then (gnt_resourceType g = Some rt \<and> (gnt_resourceId g = resourceId \<or> gnt_resourceId g = None)) \<or>
               gnt_resourceType g = None
          else gnt_resourceType g = Some rt \<or> gnt_resourceType g = None)"

definition grant_active :: "int \<Rightarrow> string \<Rightarrow> string option \<Rightarrow> grant_row \<Rightarrow> bool" where
  "grant_active now userId tenantId g \<longleftrightarrow>
     gnt_userId g = userId \<and> unexpired_at now (gnt_expiresAt g) \<and> tenantScopedWhere (gnt_tenantId g) tenantId"

definition hasExplicitGrant ::
  "authz_db \<Rightarrow> int \<Rightarrow> string \<Rightarrow> string \<Rightarrow> resource_type option \<Rightarrow> string option \<Rightarrow> string option \<Rightarrow> bool" where
  "hasExplicitGrant db now userId permission resourceType resourceId tenantId \<longleftrightarrow>
     list_ex (\<lambda>(i, g). gnt_permission g = permission \<and> grant_active now userId tenantId g \<and>
       grant_covers resourceType resourceId g) (db_grants db)"

text \<open>\<open>grantPermission\<close>. Rows that agree in all four columns of the unique constraint are refused; a
  \<open>NULL\<close> agrees with nothing. An expiry of zero counts as none.\<close>

record grant_input =
  gin_tenantId :: "string option"
  gin_userId :: string
  gin_permission :: string
  gin_resourceType :: "resource_type option"
  gin_resourceId :: "string option"
  gin_expiresAt :: "int option"

definition nonempty :: "string option \<Rightarrow> string option" where
  "nonempty v = (if truthy_str v then v else None)"

definition nonzero :: "int option \<Rightarrow> int option" where
  "nonzero v = (if v = Some 0 then None else v)"

definition new_grant :: "grant_input \<Rightarrow> grant_row" where
  "new_grant input =
     \<lparr>gnt_tenantId = normalizeTenantIdForPersistence (gin_tenantId input), gnt_userId = gin_userId input,
      gnt_permission = gin_permission input, gnt_resourceType = gin_resourceType input,
      gnt_resourceId = nonempty (gin_resourceId input), gnt_expiresAt = nonzero (gin_expiresAt input)\<rparr>"

definition same_grant :: "grant_row \<Rightarrow> grant_row \<Rightarrow> bool" where
  "same_grant g f \<longleftrightarrow> gnt_resourceType g \<noteq> None \<and> gnt_resourceId g \<noteq> None \<and> gnt_userId f = gnt_userId g \<and>
     gnt_permission f = gnt_permission g \<and> gnt_resourceType f = gnt_resourceType g \<and> gnt_resourceId f = gnt_resourceId g"

definition grantPermission :: "string \<Rightarrow> grant_input \<Rightarrow> authz_db \<Rightarrow> authz_error + authz_db" where
  "grantPermission newId input db =
     (if map_of (db_grants db) newId \<noteq> None \<or> list_ex (\<lambda>(i, g). same_grant (new_grant input) g) (db_grants db)
      then Inl DuplicateRow
      else Inr (db\<lparr>db_grants := db_grants db @ [(newId, new_grant input)]\<rparr>))"

definition revoked_grant ::
  "string \<Rightarrow> string \<Rightarrow> resource_type option \<Rightarrow> string option \<Rightarrow> string option \<Rightarrow> grant_row \<Rightarrow> bool" where
  "revoked_grant userId permission resourceType resourceId tenantId g \<longleftrightarrow>
     gnt_userId g = userId \<and> gnt_permission g = permission \<and>
     (case normalizeTenantIdForPersistence tenantId of
        None \<Rightarrow> True | Some t \<Rightarrow> gnt_tenantId g = Some t \<or> gnt_tenantId g = None) \<and>
     gnt_resourceType g = resourceType \<and> gnt_resourceId g = nonempty resourceId"

definition revokePermission ::
  "string \<Rightarrow> string \<Rightarrow> resource_type option \<Rightarrow> string option \<Rightarrow> string option \<Rightarrow> authz_db \<Rightarrow> authz_db" where
  "revokePermission userId permission resourceType resourceId tenantId db =
     db\<lparr>db_grants := filter (\<lambda>(i, g). \<not> revoked_grant userId permission resourceType resourceId tenantId g) (db_grants db)\<rparr>"

definition getUserGrants :: "authz_db \<Rightarrow> int \<Rightarrow> string \<Rightarrow> string option \<Rightarrow> (string \<times> grant_row) list" where
  "getUserGrants db now userId tenantId = filter (\<lambda>(i, g). grant_active now userId tenantId g) (db_grants db)"

text \<open>\<open>cleanupExpiredGrants\<close> and \<open>cleanupExpiredRoleAssignments\<close>, with the number of rows removed.\<close>

definition grant_expired :: "int \<Rightarrow> grant_row \<Rightarrow> bool" where
  "grant_expired now g \<longleftrightarrow> (case gnt_expiresAt g of None \<Rightarrow> False | Some t \<Rightarrow> 0 < t \<and> t < now)"

definition cleanupExpiredGrants :: "int \<Rightarrow> authz_db \<Rightarrow> nat \<times> authz_db" where
  "cleanupExpiredGrants now db =
     (length (filter (\<lambda>(i, g). grant_expired now g) (db_grants db)),
      db\<lparr>db_grants := filter (\<lambda>(i, g). \<not> grant_expired now g) (db_grants db)\<rparr>)"

definition assignment_expired :: "int \<Rightarrow> string list \<Rightarrow> string \<times> assignment_row \<Rightarrow> bool" where
  "assignment_expired now assignmentIds row \<longleftrightarrow>
     (case asg_expiresAt (snd row) of None \<Rightarrow> False | Some t \<Rightarrow> t \<le> now) \<and>
     (assignmentIds \<noteq> [] \<longrightarrow> fst row \<in> set assignmentIds)"

definition cleanupExpiredRoleAssignments :: "int \<Rightarrow> string list \<Rightarrow> authz_db \<Rightarrow> nat \<times> authz_db" where
  "cleanupExpiredRoleAssignments now assignmentIds db =
     (length (filter (assignment_expired now assignmentIds) (db_assignments db)),
      db\<lparr>db_assignments := filter (\<lambda>row. \<not> assignment_expired now assignmentIds row) (db_assignments db)\<rparr>)"

section \<open>Evaluation\<close>

record permission_evaluation =
  pev_allowed :: bool
  pev_reason :: string
  pev_sources :: "permission_source list"
  pev_grant :: "string option"

fun first_sources :: "(string \<Rightarrow> permission_source list) \<Rightarrow> string list \<Rightarrow> permission_source list" where
  "first_sources query [] = []"
| "first_sources query (p # ps) = (if query p \<noteq> [] then query p else first_sources query ps)"

definition evaluatePermission ::
  "authz_db \<Rightarrow> int \<Rightarrow> string \<Rightarrow> permission_context \<Rightarrow> authz_error + permission_evaluation" where
  "evaluatePermission db now permission ctx =
     bind_res (resolvePermissionPrincipal ctx) (\<lambda>who.
       let candidatePermissions = compatiblePermissionCandidates permission;
           rt = pcx_resourceType ctx; rid = pcx_resourceId ctx; tenantId = pcx_tenantId ctx;
           sources = first_sources
             (\<lambda>p. getRoleAssignmentPermissionSources db now who p rt rid tenantId) candidatePermissions
       in if sources \<noteq> []
          then Inr \<lparr>pev_allowed = True, pev_reason = ''role-assignment:'' @ asg_roleId (src_assignment (hd sources)),
            pev_sources = sources, pev_grant = None\<rparr>
          else case (if fst who = UserPrincipal
              then find (\<lambda>p. hasExplicitGrant db now (snd who) p rt rid tenantId) candidatePermissions else None) of
            Some p \<Rightarrow> Inr \<lparr>pev_allowed = True, pev_reason = ''grant:explicit'', pev_sources = [], pev_grant = Some p\<rparr>
          | None \<Rightarrow> Inr \<lparr>pev_allowed = False, pev_reason = ''no-permission'', pev_sources = [], pev_grant = None\<rparr>)"

definition hasPermission :: "authz_db \<Rightarrow> int \<Rightarrow> string \<Rightarrow> permission_context \<Rightarrow> authz_error + bool" where
  "hasPermission db now permission ctx =
     bind_res (evaluatePermission db now permission ctx) (\<lambda>e. Inr (pev_allowed e))"

end
