(* ===== verification/Permission_Contract.thy ===== *)
theory Permission_Contract
  imports Permission_Store
begin

text \<open>
  Who may do what, apart from how the queries find it: \<open>acts_for\<close> says for which principals of an
  assignment a caller stands, \<open>reaches\<close> which resources a scope includes, \<open>confers\<close> that an assignment
  gives a permission. The evaluation is shown to decide exactly this.
\<close>

section \<open>Callers\<close>

definition acts_for :: "authz_db \<Rightarrow> int \<Rightarrow> string option \<Rightarrow> principal_ref \<Rightarrow> principal_ref \<Rightarrow> bool" where
  "acts_for db now t who p \<longleftrightarrow> p = who \<or>
     (fst who = UserPrincipal \<and> fst p = GroupPrincipal \<and>
      (\<exists>m \<in> set (db_memberships db). membership_active db now (snd who) t m \<and> mem_groupId m = snd p))"

lemma set_user_groups:
  "set (getUserGroupIdsForEvaluation db now u t) =
     mem_groupId ` {m \<in> set (db_memberships db). membership_active db now u t m}"
  by (auto simp: getUserGroupIdsForEvaluation_def)

lemma principal_filter_iff:
  "permissionPrincipalFilter db now who t a \<longleftrightarrow> acts_for db now t who (asg_principalType a, asg_principalId a)"
proof -
  have nonempty: "xs \<noteq> [] \<and> asg_principalType a = GroupPrincipal \<and> g \<in> set xs \<longleftrightarrow>
      asg_principalType a = GroupPrincipal \<and> g \<in> set xs" for xs and g :: string
    by auto
  show ?thesis
    unfolding permissionPrincipalFilter_def principalAssignmentFilter_def acts_for_def nonempty
    by (cases who) (auto simp: set_user_groups image_iff)
qed

section \<open>Resources\<close>

text \<open>The tenant of the request owns the resource.\<close>

definition owned_resource :: "authz_db \<Rightarrow> string option \<Rightarrow> resource_type \<Rightarrow> string \<Rightarrow> bool" where
  "owned_resource db t rt i \<longleftrightarrow> normalizeTenantIdForPersistence t \<noteq> None \<and>
     (case rt of
        TenantResource \<Rightarrow> normalizeTenantIdForPersistence (Some i) = normalizeTenantIdForPersistence t
      | RuntimeResource \<Rightarrow> (\<exists>r. resolvedRuntimeResource db i t = Some r \<and>
          normalizeTenantIdForPersistence (rtm_tenantId r) = normalizeTenantIdForPersistence t)
      | ProjectResource \<Rightarrow> (\<exists>r. map_of (db_projects db) i = Some r \<and> tenantOwnedWhere r t)
      | EngineResource \<Rightarrow> (\<exists>r. map_of (db_engines db) i = Some r \<and> \<not> eng_isShared r \<and> tenantOwnedWhere (eng_tenantId r) t)
      | RuntimeResourceSet \<Rightarrow> (\<exists>r. map_of (db_runtimeSets db) i = Some r \<and> \<not> rts_isArchived r \<and>
          tenantOwnedWhere (rts_tenantId r) t)
      | _ \<Rightarrow> False)"

text \<open>A runtime resource that is active, resolved to the tenant, and on a known engine.\<close>

definition usable_runtime :: "authz_db \<Rightarrow> string option \<Rightarrow> string \<Rightarrow> runtime_row \<Rightarrow> engine_row \<Rightarrow> bool" where
  "usable_runtime db t i r e \<longleftrightarrow> map_of (db_runtimeResources db) i = Some r \<and> rtm_isActive r \<and> rtm_isResolved r \<and>
     tenantOwnedWhere (rtm_tenantId r) t \<and> truthy_str (rtm_tenantId r) \<and> map_of (db_engines db) (rtm_engineId r) = Some e"

definition member_of :: "set_member list \<Rightarrow> string option \<Rightarrow> string \<Rightarrow> string \<Rightarrow> bool" where
  "member_of members t s i \<longleftrightarrow> (\<exists>mt. (mt, s, i) \<in> set members \<and> tenantScopedWhere mt t)"

text \<open>
  A role \<open>role\<close>, assigned at a scope, reaches a resource \<open>(rt, i)\<close>: the resource itself or all of its type, the
  tenant that owns it if the permission is safe for tenants, and the sets it is in. A runtime resource is
  also reached by its engine, but only when the engine is not shared.
\<close>

inductive reaches :: "authz_db \<Rightarrow> string option \<Rightarrow> string \<Rightarrow> role_row \<Rightarrow> resource_type \<times> string \<Rightarrow> resource_type \<Rightarrow> string option \<Rightarrow> bool"
  for db t p role where
  reach_same: "rt \<noteq> RuntimeResource \<Longrightarrow> reaches db t p role (rt, i) rt (Some i)"
| reach_all: "rt \<noteq> RuntimeResource \<Longrightarrow> reaches db t p role (rt, i) rt None"
| reach_tenant: "rt \<noteq> RuntimeResource \<Longrightarrow> owned_resource db t rt i \<Longrightarrow> isTenantSafePermission p \<Longrightarrow>
    reaches db t p role (rt, i) TenantResource (normalizeTenantIdForPersistence t)"
| reach_engine_set: "member_of (db_engineSetMembers db) t s i \<Longrightarrow> s \<noteq> [] \<Longrightarrow> engine_role role \<Longrightarrow>
    reaches db t p role (EngineResource, i) EngineSetResource (Some s)"
| reach_runtime: "usable_runtime db t i r e \<Longrightarrow> reaches db t p role (RuntimeResource, i) RuntimeResource (Some i)"
| reach_runtime_tenant: "usable_runtime db t i r e \<Longrightarrow> owned_resource db t RuntimeResource i \<Longrightarrow> isTenantSafePermission p \<Longrightarrow>
    reaches db t p role (RuntimeResource, i) TenantResource (normalizeTenantIdForPersistence t)"
| reach_runtime_set: "usable_runtime db t i r e \<Longrightarrow> member_of (db_runtimeSetMembers db) t s i \<Longrightarrow> engine_role role \<Longrightarrow>
    reaches db t p role (RuntimeResource, i) RuntimeResourceSet (Some s)"
| reach_runtime_engine: "usable_runtime db t i r e \<Longrightarrow> \<not> eng_isShared e \<Longrightarrow> scope = None \<or> scope = Some (rtm_engineId r) \<Longrightarrow>
    reaches db t p role (RuntimeResource, i) EngineResource scope"
| reach_runtime_engine_set: "usable_runtime db t i r e \<Longrightarrow> \<not> eng_isShared e \<Longrightarrow>
    member_of (db_engineSetMembers db) t s (rtm_engineId r) \<Longrightarrow> engine_role role \<Longrightarrow>
    reaches db t p role (RuntimeResource, i) EngineSetResource (Some s)"

inductive_cases reaches_runtimeE: "reaches db t p role (RuntimeResource, i) scopeType scopeId"
inductive_simps reaches_engine_iff: "reaches db t p role (EngineResource, i) scopeType scopeId"

text \<open>An assignment gives a permission on a resource to a caller.\<close>

definition confers ::
  "authz_db \<Rightarrow> int \<Rightarrow> string option \<Rightarrow> principal_ref \<Rightarrow> string \<Rightarrow> resource_type \<times> string \<Rightarrow> assignment_row \<Rightarrow> bool" where
  "confers db now t who p res a \<longleftrightarrow>
     unexpired_at now (asg_expiresAt a) \<and> tenantScopedWhere (asg_tenantId a) t \<and>
     acts_for db now t who (asg_principalType a, asg_principalId a) \<and> (asg_roleId a, p) \<in> set (db_rolePermissions db) \<and>
     (\<exists>role. map_of (db_roles db) (asg_roleId a) = Some role \<and> \<not> aro_isArchived role \<and> tenantScopedWhere (aro_tenantId role) t \<and>
        reaches db t p role res (asg_scopeType a) (asg_scopeId a))"

section \<open>The queries find what confers\<close>

lemma resolved_usable:
  "usable_runtime db t i r e \<longleftrightarrow> resolvedRuntimeResource db i t = Some r \<and> truthy_str (rtm_tenantId r) \<and>
     map_of (db_engines db) (rtm_engineId r) = Some e"
  by (auto simp: usable_runtime_def resolvedRuntimeResource_def)

lemma inheritance_scope:
  assumes "i \<noteq> []" and "rt = RuntimeResource \<Longrightarrow> runtime = resolvedRuntimeResource db i t"
  shows "resolveTenantInheritanceScope db p (Some rt) (Some i) t runtime =
     (if owned_resource db t rt i \<and> isTenantSafePermission p then normalizeTenantIdForPersistence t else None)"
proof (cases "normalizeTenantIdForPersistence t")
  case (Some tenant)
  have ids: "tenantIdsForAuthz (Some tenant) = tenantIdsForAuthz t"
    by (metis Some tenantIds_normalize)
  have owned: "tenantOwnedWhere row (Some tenant) \<longleftrightarrow> tenantOwnedWhere row t" for row
    by (simp add: tenantOwnedWhere_def ids)
  have found: "find_row holds rows j = None \<longleftrightarrow> \<not> (\<exists>r. map_of rows j = Some r \<and> holds r)" for holds and rows :: "(string \<times> 'a) list" and j
    by (auto simp: find_row_def split: option.split)
  show ?thesis
    using assms Some
    by (cases rt) (auto simp: resolveTenantInheritanceScope_def owned_resource_def owned found split: option.split)
qed (simp add: resolveTenantInheritanceScope_def owned_resource_def)

lemma member_list_ex:
  "list_ex (\<lambda>(mt, s, m). Some s = scope \<and> m = member \<and> tenantScopedWhere mt t) members \<longleftrightarrow>
     (\<exists>s. scope = Some s \<and> member_of members t s member)"
  by (auto simp: list_ex_iff member_of_def)

lemma set_scope_iff:
  "set_scope scopeType members member t a \<longleftrightarrow>
     asg_scopeType a = scopeType \<and> (\<exists>s. asg_scopeId a = Some s \<and> member_of members t s member)"
  unfolding set_scope_def using member_list_ex [of "asg_scopeId a" member t members] by (simp add: eq_commute)

lemma active_iff:
  "assignment_active db now who p t scoped a \<longleftrightarrow>
     unexpired_at now (asg_expiresAt a) \<and> tenantScopedWhere (asg_tenantId a) t \<and>
     acts_for db now t who (asg_principalType a, asg_principalId a) \<and> (asg_roleId a, p) \<in> set (db_rolePermissions db) \<and>
     (\<exists>role. map_of (db_roles db) (asg_roleId a) = Some role \<and> \<not> aro_isArchived role \<and> tenantScopedWhere (aro_tenantId role) t \<and>
        scoped role)"
  by (auto simp: assignment_active_def role_allows_def principal_filter_iff find_row_def split: option.splits)

lemma annotate_assignments:
  "map (\<lambda>s. (src_assignmentId s, src_assignment s)) (annotateRuntimeGrantShadowing sources) =
     map (\<lambda>s. (src_assignmentId s, src_assignment s)) sources"
  by (auto simp: annotateRuntimeGrantShadowing_def Let_def)

definition source_rows :: "permission_source list \<Rightarrow> (string \<times> assignment_row) set" where
  "source_rows sources = set (map (\<lambda>s. (src_assignmentId s, src_assignment s)) sources)"

lemma source_rows_simps [simp]:
  "source_rows (annotateRuntimeGrantShadowing sources) = source_rows sources"
  "source_rows (xs @ ys) = source_rows xs \<union> source_rows ys"
  "source_rows (map source_of rows) = set rows"
  "source_rows [] = {}"
  by (simp_all add: source_rows_def annotate_assignments)
     (auto simp: source_of_def image_image)

lemma source_rows_filter:
  "source_rows (filter (\<lambda>s. truthy_str (asg_scopeId (src_assignment s))) xs) =
     {(i, a) \<in> source_rows xs. truthy_str (asg_scopeId a)}"
  by (auto simp: source_rows_def)

text \<open>The cases of \<open>reaches\<close>, for a resource of each kind.\<close>

lemma owned_tenant: "owned_resource db t rt i \<Longrightarrow> normalizeTenantIdForPersistence t \<noteq> None"
  by (simp add: owned_resource_def)

lemma reaches_plain:
  "rt \<noteq> RuntimeResource \<Longrightarrow> reaches db t p role (rt, i) ty scope \<longleftrightarrow>
     (ty = rt \<and> (scope = Some i \<or> scope = None)) \<or>
     (owned_resource db t rt i \<and> isTenantSafePermission p \<and> ty = TenantResource \<and> scope = normalizeTenantIdForPersistence t) \<or>
     (rt = EngineResource \<and> engine_role role \<and> ty = EngineSetResource \<and>
        (\<exists>s. scope = Some s \<and> s \<noteq> [] \<and> member_of (db_engineSetMembers db) t s i))"
  by (rule iffI) (auto intro: reaches.intros elim!: reaches.cases)

lemma reaches_runtime:
  assumes "usable_runtime db t i r e"
  shows "reaches db t p role (RuntimeResource, i) ty scope \<longleftrightarrow>
     (ty = RuntimeResource \<and> scope = Some i) \<or>
     (\<not> eng_isShared e \<and> ty = EngineResource \<and> (scope = Some (rtm_engineId r) \<or> scope = None)) \<or>
     (owned_resource db t RuntimeResource i \<and> isTenantSafePermission p \<and> ty = TenantResource \<and>
        scope = normalizeTenantIdForPersistence t) \<or>
     (engine_role role \<and> ty = RuntimeResourceSet \<and> (\<exists>s. scope = Some s \<and> member_of (db_runtimeSetMembers db) t s i)) \<or>
     (\<not> eng_isShared e \<and> engine_role role \<and> ty = EngineSetResource \<and>
        (\<exists>s. scope = Some s \<and> member_of (db_engineSetMembers db) t s (rtm_engineId r)))"
proof -
  have unique: "r' = r \<and> e' = e" if "usable_runtime db t i r' e'" for r' e'
    using that assms by (auto simp: usable_runtime_def)
  show ?thesis
    by (rule iffI) (auto intro: reaches.intros assms elim!: reaches_runtimeE dest!: unique)
qed

lemma reaches_runtime_usable: "reaches db t p role (RuntimeResource, i) ty scope \<Longrightarrow> \<exists>r e. usable_runtime db t i r e"
  by (erule reaches_runtimeE) auto

lemma direct_plain:
  assumes "i \<noteq> []" and "rt \<noteq> RuntimeResource"
  shows "direct_scope (Some rt) (Some i) None (resolveTenantInheritanceScope db p (Some rt) (Some i) t None) a \<longleftrightarrow>
     (asg_scopeType a = rt \<and> (asg_scopeId a = Some i \<or> asg_scopeId a = None)) \<or>
     (owned_resource db t rt i \<and> isTenantSafePermission p \<and> asg_scopeType a = TenantResource \<and>
        asg_scopeId a = normalizeTenantIdForPersistence t)"
proof -
  have "resolveTenantInheritanceScope db p (Some rt) (Some i) t None =
      (if owned_resource db t rt i \<and> isTenantSafePermission p then normalizeTenantIdForPersistence t else None)"
    using assms by (intro inheritance_scope) auto
  with assms show ?thesis
    by (auto simp: direct_scope_def in_tenant_scope_def dest: owned_tenant)
qed

lemma direct_runtime:
  assumes "i \<noteq> []" and "resolvedRuntimeResource db i t = Some r"
  shows "direct_scope (Some RuntimeResource) (Some i) (Some (r, e))
       (resolveTenantInheritanceScope db p (Some RuntimeResource) (Some i) t (Some r)) a \<longleftrightarrow>
     (asg_scopeType a = RuntimeResource \<and> asg_scopeId a = Some i) \<or>
     (\<not> eng_isShared e \<and> asg_scopeType a = EngineResource \<and> (asg_scopeId a = Some (rtm_engineId r) \<or> asg_scopeId a = None)) \<or>
     (owned_resource db t RuntimeResource i \<and> isTenantSafePermission p \<and> asg_scopeType a = TenantResource \<and>
        asg_scopeId a = normalizeTenantIdForPersistence t)"
proof -
  have "resolveTenantInheritanceScope db p (Some RuntimeResource) (Some i) t (Some r) =
      (if owned_resource db t RuntimeResource i \<and> isTenantSafePermission p then normalizeTenantIdForPersistence t else None)"
    using assms by (intro inheritance_scope) auto
  then show ?thesis
    by (auto simp: direct_scope_def in_tenant_scope_def dest: owned_tenant)
qed

lemma sources_Nil: "sources = [] \<longleftrightarrow> source_rows sources = {}"
  by (simp add: source_rows_def)

text \<open>The rows behind the sources are the assignments that confer the permission.\<close>

lemma confers_iff:
  "confers db now t who p res a \<longleftrightarrow> assignment_active db now who p t (\<lambda>role. reaches db t p role res (asg_scopeType a) (asg_scopeId a)) a"
  by (simp add: confers_def active_iff)

lemma active_split:
  assumes "\<And>role. Q role \<longleftrightarrow> D \<or> (S \<and> engine_role role)"
  shows "assignment_active db now who p t Q a \<longleftrightarrow>
     (assignment_active db now who p t (\<lambda>_. True) a \<and> D) \<or> (assignment_active db now who p t engine_role a \<and> S)"
  unfolding active_iff assms by blast

lemma plain_sources:
  assumes "i \<noteq> []" and "rt \<noteq> RuntimeResource"
  shows "source_rows (getRoleAssignmentPermissionSources db now who p (Some rt) (Some i) t) =
     {(k, a) \<in> set (db_assignments db). confers db now t who p (rt, i) a}"
proof -
  let ?D = "\<lambda>a. direct_scope (Some rt) (Some i) None (resolveTenantInheritanceScope db p (Some rt) (Some i) t None) a"
  let ?S = "\<lambda>a. rt = EngineResource \<and> set_scope EngineSetResource (db_engineSetMembers db) i t a \<and> truthy_str (asg_scopeId a)"
  have "reaches db t p role (rt, i) (asg_scopeType a) (asg_scopeId a) \<longleftrightarrow> ?D a \<or> (?S a \<and> engine_role role)" for role a
    unfolding reaches_plain [OF assms(2)] direct_plain [OF assms] set_scope_iff by auto
  from active_split [OF this] have iff: "confers db now t who p (rt, i) a \<longleftrightarrow>
      (assignment_active db now who p t (\<lambda>_. True) a \<and> ?D a) \<or> (assignment_active db now who p t engine_role a \<and> ?S a)" for a
    unfolding confers_iff .
  show ?thesis
    using assms unfolding iff
    by (auto simp: getRoleAssignmentPermissionSources_def Let_def source_rows_filter)
qed

lemma runtime_sources:
  assumes "i \<noteq> []"
  shows "source_rows (getRoleAssignmentPermissionSources db now who p (Some RuntimeResource) (Some i) t) =
     {(k, a) \<in> set (db_assignments db). confers db now t who p (RuntimeResource, i) a}"
proof (cases "\<exists>r e. usable_runtime db t i r e")
  case True
  then obtain r e where usable: "usable_runtime db t i r e" by blast
  then have rows: "resolvedRuntimeResource db i t = Some r" "truthy_str (rtm_tenantId r)"
      "map_of (db_engines db) (rtm_engineId r) = Some e"
    by (simp_all add: resolved_usable)
  let ?D = "\<lambda>a. direct_scope (Some RuntimeResource) (Some i) (Some (r, e))
    (resolveTenantInheritanceScope db p (Some RuntimeResource) (Some i) t (Some r)) a"
  let ?S = "\<lambda>a. set_scope RuntimeResourceSet (db_runtimeSetMembers db) i t a \<or>
    \<not> eng_isShared e \<and> set_scope EngineSetResource (db_engineSetMembers db) (rtm_engineId r) t a"
  have "reaches db t p role (RuntimeResource, i) (asg_scopeType a) (asg_scopeId a) \<longleftrightarrow> ?D a \<or> (?S a \<and> engine_role role)" for role a
    unfolding reaches_runtime [OF usable] direct_runtime [OF assms rows(1)] set_scope_iff by auto
  from active_split [OF this] have iff: "confers db now t who p (RuntimeResource, i) a \<longleftrightarrow>
      (assignment_active db now who p t (\<lambda>_. True) a \<and> ?D a) \<or> (assignment_active db now who p t engine_role a \<and> ?S a)" for a
    unfolding confers_iff .
  show ?thesis
    using assms rows unfolding iff
    by (auto simp: getRoleAssignmentPermissionSources_def Let_def)
next
  case False
  then have "getRoleAssignmentPermissionSources db now who p (Some RuntimeResource) (Some i) t = []"
    using assms by (auto simp: getRoleAssignmentPermissionSources_def Let_def resolved_usable split: option.split)
  moreover have "\<not> confers db now t who p (RuntimeResource, i) a" for a
    using False by (auto simp: confers_def dest: reaches_runtime_usable)
  ultimately show ?thesis by simp
qed

lemma assignment_sources:
  assumes "i \<noteq> []"
  shows "source_rows (getRoleAssignmentPermissionSources db now who p (Some rt) (Some i) t) =
     {(k, a) \<in> set (db_assignments db). confers db now t who p (rt, i) a}"
  using plain_sources [OF assms] runtime_sources [OF assms] by (cases "rt = RuntimeResource") blast+

lemma find_member: "find P xs = Some x \<Longrightarrow> x \<in> set xs \<and> P x"
  by (auto simp: find_Some_iff)

lemma first_sources_Nil: "first_sources query ps = [] \<longleftrightarrow> (\<forall>p \<in> set ps. query p = [])"
  by (induction ps) auto

lemma first_sources_from: "first_sources query ps \<noteq> [] \<Longrightarrow> \<exists>p \<in> set ps. first_sources query ps = query p"
  by (induction ps) auto

text \<open>An explicit grant gives a permission on a resource.\<close>

definition grant_gives :: "authz_db \<Rightarrow> int \<Rightarrow> string option \<Rightarrow> string \<Rightarrow> string \<Rightarrow> resource_type \<times> string \<Rightarrow> grant_row \<Rightarrow> bool" where
  "grant_gives db now t u p res g \<longleftrightarrow> gnt_userId g = u \<and> gnt_permission g = p \<and> unexpired_at now (gnt_expiresAt g) \<and>
     tenantScopedWhere (gnt_tenantId g) t \<and>
     (gnt_resourceType g = None \<or> gnt_resourceType g = Some (fst res) \<and> (gnt_resourceId g = None \<or> gnt_resourceId g = Some (snd res)))"

lemma explicit_grant_iff:
  "i \<noteq> [] \<Longrightarrow> hasExplicitGrant db now u p (Some rt) (Some i) t \<longleftrightarrow> (\<exists>(k, g) \<in> set (db_grants db). grant_gives db now t u p (rt, i) g)"
  by (fastforce simp: hasExplicitGrant_def grant_active_def grant_covers_def grant_gives_def list_ex_iff)

text \<open>The evaluation decides whether an assignment or a grant gives one of the compatible permissions.\<close>

definition has_access :: "authz_db \<Rightarrow> int \<Rightarrow> string option \<Rightarrow> principal_ref \<Rightarrow> string \<Rightarrow> resource_type \<times> string \<Rightarrow> bool" where
  "has_access db now t who permission res \<longleftrightarrow>
     (\<exists>p \<in> set (compatiblePermissionCandidates permission).
        (\<exists>(k, a) \<in> set (db_assignments db). confers db now t who p res a) \<or>
        (fst who = UserPrincipal \<and> (\<exists>(k, g) \<in> set (db_grants db). grant_gives db now t (snd who) p res g)))"

lemma evaluation_access:
  assumes "resolvePermissionPrincipal ctx = Inr who" and "pcx_resourceType ctx = Some rt" and "pcx_resourceId ctx = Some i"
    and "i \<noteq> []" and "evaluatePermission db now permission ctx = Inr e"
  shows "pev_allowed e \<longleftrightarrow> has_access db now (pcx_tenantId ctx) who permission (rt, i)"
    and "\<forall>(k, a) \<in> source_rows (pev_sources e). (k, a) \<in> set (db_assignments db) \<and>
      (\<exists>p \<in> set (compatiblePermissionCandidates permission). confers db now (pcx_tenantId ctx) who p (rt, i) a)"
proof -
  let ?q = "\<lambda>p. getRoleAssignmentPermissionSources db now who p (Some rt) (Some i) (pcx_tenantId ctx)"
  let ?sources = "first_sources ?q (compatiblePermissionCandidates permission)"
  have rows: "source_rows (?q p) = {(k, a) \<in> set (db_assignments db). confers db now (pcx_tenantId ctx) who p (rt, i) a}" for p
    by (rule assignment_sources [OF assms(4)])
  have empty: "?q p = [] \<longleftrightarrow> \<not> (\<exists>(k, a) \<in> set (db_assignments db). confers db now (pcx_tenantId ctx) who p (rt, i) a)" for p
    unfolding sources_Nil rows by auto
  show "pev_allowed e \<longleftrightarrow> has_access db now (pcx_tenantId ctx) who permission (rt, i)"
    using assms(1,2,3,5)
    by (auto simp: evaluatePermission_def Let_def has_access_def first_sources_Nil empty find_None_iff
        explicit_grant_iff [OF assms(4)] split: if_split_asm option.splits dest!: find_member)
  show "\<forall>(k, a) \<in> source_rows (pev_sources e). (k, a) \<in> set (db_assignments db) \<and>
      (\<exists>p \<in> set (compatiblePermissionCandidates permission). confers db now (pcx_tenantId ctx) who p (rt, i) a)"
  proof (cases "?sources = []")
    case True
    with assms(1,2,3,5) show ?thesis by (auto simp: evaluatePermission_def Let_def split: option.splits if_split_asm)
  next
    case False
    with assms(1,2,3,5) have "pev_sources e = ?sources" by (auto simp: evaluatePermission_def Let_def)
    with first_sources_from [OF False] rows show ?thesis by fastforce
  qed
qed

end
