(* ===== verification/Permission_Snapshot.thy ===== *)
theory Permission_Snapshot
  imports Permission_Contract
begin

text \<open>
  What a user sees (\<open>getKnownProjectIds\<close>, \<open>getKnownEngineIds\<close>, \<open>getVisibleRuntimeResources\<close>,
  \<open>getRuntimeNavigationPermissions\<close> and the snapshot of \<open>shared/src/services/platform-admin/permissions.ts\<close>), and
  that it agrees with what the evaluation allows.
\<close>

section \<open>Known resources\<close>

definition user_assignment :: "authz_db \<Rightarrow> int \<Rightarrow> string \<Rightarrow> string option \<Rightarrow> assignment_row \<Rightarrow> bool" where
  "user_assignment db now userId tenantId a \<longleftrightarrow> unexpired_at now (asg_expiresAt a) \<and>
     principalAssignmentFilter userId (getUserGroupIdsForEvaluation db now userId tenantId) a \<and>
     tenantScopedWhere (asg_tenantId a) tenantId"

definition user_assignments ::
  "authz_db \<Rightarrow> int \<Rightarrow> string \<Rightarrow> string option \<Rightarrow> resource_type \<Rightarrow> assignment_row list" where
  "user_assignments db now userId tenantId scopeType =
     filter (\<lambda>a. asg_scopeType a = scopeType \<and> user_assignment db now userId tenantId a) (map snd (db_assignments db))"

definition user_grants :: "authz_db \<Rightarrow> int \<Rightarrow> string \<Rightarrow> string option \<Rightarrow> resource_type \<Rightarrow> grant_row list" where
  "user_grants db now userId tenantId resourceType =
     filter (\<lambda>g. gnt_resourceType g = Some resourceType \<and> grant_active now userId tenantId g) (map snd (db_grants db))"

text \<open>The ids of a column that are neither missing nor empty.\<close>

definition present_ids :: "string option list \<Rightarrow> string list" where
  "present_ids xs = map the (filter truthy_str xs)"

definition hasActiveTenantAssignment :: "authz_db \<Rightarrow> int \<Rightarrow> string \<Rightarrow> string option \<Rightarrow> bool" where
  "hasActiveTenantAssignment db now userId tenantId \<longleftrightarrow>
     normalizeTenantIdForPersistence tenantId \<noteq> None \<and>
     list_ex (\<lambda>a. asg_scopeId a = normalizeTenantIdForPersistence tenantId)
       (user_assignments db now userId tenantId TenantResource)"

text \<open>\<open>[{ tenantId: normalizedTenantId }, { tenantId: IsNull() }]\<close>, without the alias of the default tenant.\<close>

definition exact_or_null :: "string option \<Rightarrow> string option \<Rightarrow> bool" where
  "exact_or_null tenant row \<longleftrightarrow> tenant = None \<or> row = tenant \<or> row = None"

definition getKnownProjectIds :: "authz_db \<Rightarrow> int \<Rightarrow> string \<Rightarrow> string option \<Rightarrow> string list" where
  "getKnownProjectIds db now userId tenantId =
     (let tenant = normalizeTenantIdForPersistence tenantId;
          grants = user_grants db now userId tenantId ProjectResource;
          ids = present_ids (map gnt_resourceId grants) @
            present_ids (map asg_scopeId (user_assignments db now userId tenantId ProjectResource)) @
            (if hasActiveTenantAssignment db now userId tenantId
             then map fst (filter (\<lambda>(i, t). tenantOwnedWhere t tenant) (db_projects db)) else []) @
            (if list_ex (\<lambda>g. gnt_resourceId g = None) grants
             then map fst (filter (\<lambda>(i, t). exact_or_null tenant t) (db_projects db)) else [])
      in if tenant = None then sort (set_of_list ids)
         else sort (map fst (filter (\<lambda>(i, t). i \<in> set ids \<and> exact_or_null tenant t) (db_projects db))))"

definition engine_visible :: "engine_row \<Rightarrow> string option \<Rightarrow> bool" where
  "engine_visible e tenantId \<longleftrightarrow> engineResourceWhere (eng_tenantId e) (eng_isShared e) tenantId"

definition set_members :: "set_member list \<Rightarrow> string option \<Rightarrow> string list \<Rightarrow> string list" where
  "set_members members tenant sets =
     map (\<lambda>(t, s, m). m) (filter (\<lambda>(t, s, m). s \<in> set sets \<and> exact_or_null tenant t) members)"

text \<open>The engines of active runtime resources that are resolved to the tenant.\<close>

definition runtime_engines :: "authz_db \<Rightarrow> string option \<Rightarrow> (string \<Rightarrow> bool) \<Rightarrow> string list" where
  "runtime_engines db tenant wanted = map (\<lambda>(i, r). rtm_engineId r)
     (filter (\<lambda>(i, r). wanted i \<and> rtm_isActive r \<and> rtm_isResolved r \<and> tenantOwnedWhere (rtm_tenantId r) tenant)
       (db_runtimeResources db))"

text \<open>The ids \<open>getKnownEngineIds\<close> collects; of them it lists those that are visible.\<close>

definition collectedEngineIds :: "authz_db \<Rightarrow> int \<Rightarrow> string \<Rightarrow> string option \<Rightarrow> string list" where
  "collectedEngineIds db now userId tenantId =
     (let tenant = normalizeTenantIdForPersistence tenantId;
          grants = user_grants db now userId tenantId EngineResource;
          assignments = user_assignments db now userId tenantId EngineResource;
          engineSetIds = present_ids (map asg_scopeId (user_assignments db now userId tenantId EngineSetResource));
          runtimeSetIds = present_ids (map asg_scopeId (user_assignments db now userId tenantId RuntimeResourceSet));
          runtimeResourceIds =
            present_ids (map asg_scopeId (user_assignments db now userId tenantId RuntimeResource)) @
            set_members (db_runtimeSetMembers db) tenant runtimeSetIds
      in present_ids (map gnt_resourceId grants) @ present_ids (map asg_scopeId assignments) @
            set_members (db_engineSetMembers db) tenant engineSetIds @
            runtime_engines db tenant (\<lambda>i. i \<in> set runtimeResourceIds) @
            (if hasActiveTenantAssignment db now userId tenantId
             then map fst (filter (\<lambda>(i, e). \<not> eng_isShared e \<and> tenantOwnedWhere (eng_tenantId e) tenant) (db_engines db)) @
               runtime_engines db tenant (\<lambda>i. True) else []) @
            (if list_ex (\<lambda>a. asg_scopeId a = None) assignments \<or> list_ex (\<lambda>g. gnt_resourceId g = None) grants
             then map fst (filter (\<lambda>(i, e). engine_visible e tenant) (db_engines db)) else []))"

definition getKnownEngineIds :: "authz_db \<Rightarrow> int \<Rightarrow> string \<Rightarrow> string option \<Rightarrow> string list" where
  "getKnownEngineIds db now userId tenantId =
     sort (map fst (filter (\<lambda>(i, e). i \<in> set (collectedEngineIds db now userId tenantId) \<and>
       engine_visible e (normalizeTenantIdForPersistence tenantId)) (db_engines db)))"

section \<open>Runtime resources\<close>

record runtime_query =
  rqy_userId :: string
  rqy_tenantId :: "string option"
  rqy_engineId :: string
  rqy_resourceKind :: string
  rqy_permission :: string
  rqy_limit :: "int option"

definition user_context :: "string \<Rightarrow> string option \<Rightarrow> resource_type \<Rightarrow> string option \<Rightarrow> permission_context" where
  "user_context userId tenantId resourceType resourceId =
     \<lparr>pcx_userId = Some userId, pcx_principalType = None, pcx_principalId = None, pcx_tenantId = tenantId,
      pcx_resourceType = Some resourceType, pcx_resourceId = resourceId\<rparr>"

definition inventory :: "authz_db \<Rightarrow> runtime_query \<Rightarrow> (string \<times> runtime_row) list" where
  "inventory db q = js_sort
     (\<lambda>(i, r) (j, s). if rtm_resourceKey r < rtm_resourceKey s \<or> rtm_resourceKey r = rtm_resourceKey s \<and> i < j then -1
        else if rtm_resourceKey r = rtm_resourceKey s \<and> i = j then 0 else 1)
     (filter (\<lambda>(i, r). rtm_engineId r = rqy_engineId q \<and> rtm_resourceKind r = rqy_resourceKind q \<and> rtm_isActive r \<and>
        rtm_isResolved r \<and> tenantOwnedWhere (rtm_tenantId r) (rqy_tenantId q)) (db_runtimeResources db))"

fun filter_res :: "('a \<Rightarrow> 'e + bool) \<Rightarrow> 'a list \<Rightarrow> 'e + 'a list" where
  "filter_res f [] = Inr []"
| "filter_res f (x # xs) = bind_res (f x) (\<lambda>b. bind_res (filter_res f xs) (\<lambda>ys. Inr (if b then x # ys else ys)))"

definition getVisibleRuntimeResources ::
  "authz_db \<Rightarrow> int \<Rightarrow> runtime_query \<Rightarrow> authz_error + (string \<times> runtime_row) list" where
  "getVisibleRuntimeResources db now q =
     (let maxRows = (case rqy_limit q of None \<Rightarrow> 500 | Some l \<Rightarrow> l)
      in if maxRows < 1 \<or> maxRows > 5000 then Inl LimitOutOfRange
         else if int (length (take (nat maxRows + 1) (inventory db q))) > maxRows then Inl TooManyRows
         else filter_res (\<lambda>(i, r). hasPermission db now (rqy_permission q)
             (user_context (rqy_userId q) (rqy_tenantId q) RuntimeResource (Some i)))
           (take (nat maxRows + 1) (inventory db q)))"

text \<open>\<open>getRuntimeNavigationPermissions\<close>: whether any row of the engine is reached, not which.\<close>

definition navigation_assignment :: "authz_db \<Rightarrow> int \<Rightarrow> string \<Rightarrow> string option \<Rightarrow> string list \<Rightarrow> assignment_row \<Rightarrow> bool" where
  "navigation_assignment db now userId tenantId permissions a \<longleftrightarrow> user_assignment db now userId tenantId a \<and>
     list_ex (\<lambda>p. role_allows db p tenantId engine_role a) permissions"

definition active_runtime :: "authz_db \<Rightarrow> string option \<Rightarrow> string \<Rightarrow> string \<Rightarrow> bool" where
  "active_runtime db tenantId engineId i \<longleftrightarrow> (case map_of (db_runtimeResources db) i of None \<Rightarrow> False
     | Some r \<Rightarrow> rtm_engineId r = engineId \<and> rtm_isActive r \<and> tenantScopedWhere (rtm_tenantId r) tenantId)"

definition getRuntimeNavigationPermissions :: "authz_db \<Rightarrow> int \<Rightarrow> string \<Rightarrow> string option \<Rightarrow> string \<Rightarrow> string list" where
  "getRuntimeNavigationPermissions db now userId tenantId engineId =
     (let permission = ''engine:instance:view''; candidates = compatiblePermissionCandidates permission;
          assignments = filter (navigation_assignment db now userId tenantId candidates) (map snd (db_assignments db));
          direct = list_ex (\<lambda>a. asg_scopeType a = RuntimeResource \<and> truthy_str (asg_scopeId a) \<and>
            active_runtime db tenantId engineId (the (asg_scopeId a))) assignments;
          sets = list_ex (\<lambda>a. asg_scopeType a = RuntimeResourceSet \<and> asg_scopeId a \<noteq> None \<and>
            (case map_of (db_runtimeSets db) (the (asg_scopeId a)) of None \<Rightarrow> False
             | Some s \<Rightarrow> rts_engineId s = engineId \<and> tenantScopedWhere (rts_tenantId s) tenantId) \<and>
            list_ex (\<lambda>(t, s, i). Some s = asg_scopeId a \<and> tenantScopedWhere t tenantId \<and>
              (case map_of (db_runtimeResources db) i of None \<Rightarrow> False
               | Some r \<Rightarrow> rtm_isActive r \<and> tenantScopedWhere (rtm_tenantId r) tenantId)) (db_runtimeSetMembers db)) assignments;
          grants = list_ex (\<lambda>g. gnt_permission g \<in> set candidates \<and> truthy_str (gnt_resourceId g) \<and>
            active_runtime db tenantId engineId (the (gnt_resourceId g))) (user_grants db now userId tenantId RuntimeResource)
      in if direct \<or> sets \<or> grants then [permission] else [])"

section \<open>The snapshot of a user\<close>

text \<open>\<open>getPermissionCatalog\<close>: the stored permissions override the static ones, archived ones are dropped. The
  order of the result, which goes by \<open>localeCompare\<close>, is left to the callers: they look up keys or sort again.\<close>

definition getPermissionCatalog :: "authz_db \<Rightarrow> permission_definition list" where
  "getPermissionCatalog db = filter (\<lambda>d. \<not> pd_isArchived d) (map snd
     (fold (\<lambda>(k, d). put k d) (db_permissions db) (fold (\<lambda>d. put (pd_key d) d) PermissionCatalog [])))"

definition evaluatePermissionSet ::
  "authz_db \<Rightarrow> int \<Rightarrow> string \<Rightarrow> resource_type \<Rightarrow> string option \<Rightarrow> string option \<Rightarrow> authz_error + string list" where
  "evaluatePermissionSet db now userId scope resourceId tenantId =
     bind_res (filter_res (\<lambda>p. hasPermission db now p (user_context userId tenantId scope resourceId))
       (map pd_key (filter (\<lambda>d. pd_scope d = scope) (getPermissionCatalog db)))) (\<lambda>ps. Inr (sort ps))"

record permission_snapshot =
  psn_platform :: "string list"
  psn_tenant :: "(string \<times> string list) option"
  psn_projects :: "(string \<times> string list) list"
  psn_engines :: "(string \<times> string list \<times> string list) list"

definition getCurrentUserPermissions :: "authz_db \<Rightarrow> int \<Rightarrow> string \<Rightarrow> string option \<Rightarrow> authz_error + permission_snapshot" where
  "getCurrentUserPermissions db now userId tenantId =
     bind_res (evaluatePermissionSet db now userId PlatformResource None tenantId) (\<lambda>platform.
     bind_res (if truthy_str tenantId
         then bind_res (evaluatePermissionSet db now userId TenantResource tenantId tenantId) (\<lambda>ps. Inr (Some (the tenantId, ps)))
         else Inr None) (\<lambda>tenant.
     bind_res (map_res (\<lambda>i. bind_res (evaluatePermissionSet db now userId ProjectResource (Some i) tenantId) (\<lambda>ps. Inr (i, ps)))
       (getKnownProjectIds db now userId tenantId)) (\<lambda>projects.
     bind_res (map_res (\<lambda>i. bind_res (evaluatePermissionSet db now userId EngineResource (Some i) tenantId)
         (\<lambda>ps. Inr (i, ps, getRuntimeNavigationPermissions db now userId tenantId i)))
       (getKnownEngineIds db now userId tenantId)) (\<lambda>engines.
     Inr \<lparr>psn_platform = platform, psn_tenant = tenant, psn_projects = projects, psn_engines = engines\<rparr>))))"

section \<open>What is allowed is shown\<close>

lemma user_principal_filter:
  "permissionPrincipalFilter db now (UserPrincipal, u) t a \<longleftrightarrow>
     principalAssignmentFilter u (getUserGroupIdsForEvaluation db now u t) a"
  by (simp add: permissionPrincipalFilter_def)

lemma confers_user:
  "confers db now t (UserPrincipal, u) p res a \<Longrightarrow> user_assignment db now u t a"
  by (simp add: confers_def user_assignment_def principal_filter_iff flip: user_principal_filter)

lemma in_user_assignments:
  "(k, a) \<in> set (db_assignments db) \<Longrightarrow> confers db now t (UserPrincipal, u) p res a \<Longrightarrow>
     a \<in> set (user_assignments db now u t (asg_scopeType a))"
  by (auto simp: user_assignments_def dest: confers_user intro: rev_image_eqI)

lemma in_present_ids: "Some i \<in> set xs \<Longrightarrow> i \<noteq> [] \<Longrightarrow> i \<in> set (present_ids xs)"
  by (auto simp: present_ids_def intro: rev_image_eqI)

text \<open>A tenant without an alias sees the same rows by both kinds of filter.\<close>

definition plain_tenant :: "string option \<Rightarrow> bool" where
  "plain_tenant t \<longleftrightarrow> (\<exists>tenant. normalizeTenantIdForPersistence t = Some tenant \<and> tenantIdsForAuthz t = [tenant])"

lemma plain_scoped: "plain_tenant t \<Longrightarrow> tenantScopedWhere row t \<longleftrightarrow> exact_or_null (normalizeTenantIdForPersistence t) row"
  by (cases row) (auto simp: plain_tenant_def tenantScopedWhere_def exact_or_null_def)

lemma owned_normalize [simp]: "tenantOwnedWhere row (normalizeTenantIdForPersistence t) \<longleftrightarrow> tenantOwnedWhere row t"
  by (simp add: tenantOwnedWhere_def)

lemma engine_visible_normalize [simp]: "engine_visible e (normalizeTenantIdForPersistence t) \<longleftrightarrow> engine_visible e t"
  by (simp add: engine_visible_def engineResourceWhere_def)

lemma member_set_members:
  "plain_tenant t \<Longrightarrow> member_of members t s i \<Longrightarrow> s \<in> set sets \<Longrightarrow>
     i \<in> set (set_members members (normalizeTenantIdForPersistence t) sets)"
  by (force simp: member_of_def set_members_def plain_scoped)

lemma present_map: "a \<in> set xs \<Longrightarrow> asg_scopeId a = Some i \<Longrightarrow> i \<noteq> [] \<Longrightarrow> i \<in> set (present_ids (map asg_scopeId xs))"
  by (rule in_present_ids) (auto intro: rev_image_eqI)

text \<open>The ways an engine is collected.\<close>

lemma collected_engine:
  assumes "a \<in> set (user_assignments db now u t EngineResource)"
  shows "asg_scopeId a = Some i \<Longrightarrow> i \<noteq> [] \<Longrightarrow> i \<in> set (collectedEngineIds db now u t)"
    and "asg_scopeId a = None \<Longrightarrow> (i, e) \<in> set (db_engines db) \<Longrightarrow> engine_visible e t \<Longrightarrow> i \<in> set (collectedEngineIds db now u t)"
proof -
  show "i \<in> set (collectedEngineIds db now u t)" if "asg_scopeId a = Some i" "i \<noteq> []"
    using present_map [OF assms that] by (simp add: collectedEngineIds_def Let_def)
  show "i \<in> set (collectedEngineIds db now u t)" if "asg_scopeId a = None" "(i, e) \<in> set (db_engines db)" "engine_visible e t"
  proof -
    have "list_ex (\<lambda>a. asg_scopeId a = None) (user_assignments db now u t EngineResource)"
      using assms that(1) by (auto simp: list_ex_iff)
    moreover have "i \<in> set (map fst (filter (\<lambda>(i, e). engine_visible e t) (db_engines db)))"
      using that(2,3) by force
    ultimately show ?thesis by (simp add: collectedEngineIds_def Let_def)
  qed
qed

lemma collected_engine_set:
  assumes "plain_tenant t" and "a \<in> set (user_assignments db now u t EngineSetResource)" and "asg_scopeId a = Some s" and "s \<noteq> []"
    and "member_of (db_engineSetMembers db) t s i"
  shows "i \<in> set (collectedEngineIds db now u t)"
  using member_set_members [OF assms(1,5) present_map [OF assms(2,3,4)]]
  by (simp add: collectedEngineIds_def Let_def)

lemma in_runtime_engines:
  "usable_runtime db t j r e \<Longrightarrow> wanted j \<Longrightarrow> rtm_engineId r \<in> set (runtime_engines db (normalizeTenantIdForPersistence t) wanted)"
  by (force simp: usable_runtime_def runtime_engines_def dest: map_of_SomeD)

lemma collected_runtime:
  assumes "usable_runtime db t j r e" and "j \<noteq> []"
  shows "a \<in> set (user_assignments db now u t RuntimeResource) \<Longrightarrow> asg_scopeId a = Some j \<Longrightarrow>
      rtm_engineId r \<in> set (collectedEngineIds db now u t)"
    and "plain_tenant t \<Longrightarrow> a \<in> set (user_assignments db now u t RuntimeResourceSet) \<Longrightarrow> asg_scopeId a = Some s \<Longrightarrow>
      s \<noteq> [] \<Longrightarrow> member_of (db_runtimeSetMembers db) t s j \<Longrightarrow> rtm_engineId r \<in> set (collectedEngineIds db now u t)"
proof -
  let ?ids = "present_ids (map asg_scopeId (user_assignments db now u t RuntimeResource)) @
    set_members (db_runtimeSetMembers db) (normalizeTenantIdForPersistence t)
      (present_ids (map asg_scopeId (user_assignments db now u t RuntimeResourceSet)))"
  have wanted: "rtm_engineId r \<in> set (collectedEngineIds db now u t)" if "j \<in> set ?ids"
    using in_runtime_engines [OF assms(1), of "\<lambda>i. i \<in> set ?ids"] that by (simp add: collectedEngineIds_def Let_def)
  show "rtm_engineId r \<in> set (collectedEngineIds db now u t)"
    if "a \<in> set (user_assignments db now u t RuntimeResource)" "asg_scopeId a = Some j"
    using present_map [OF that assms(2)] by (intro wanted) simp
  show "rtm_engineId r \<in> set (collectedEngineIds db now u t)"
    if "plain_tenant t" "a \<in> set (user_assignments db now u t RuntimeResourceSet)" "asg_scopeId a = Some s" "s \<noteq> []"
      "member_of (db_runtimeSetMembers db) t s j"
    using member_set_members [OF that(1,5) present_map [OF that(2,3,4)]] by (intro wanted) simp
qed

lemma collected_tenant:
  assumes "a \<in> set (user_assignments db now u t TenantResource)" and "asg_scopeId a = normalizeTenantIdForPersistence t"
    and "normalizeTenantIdForPersistence t \<noteq> None"
  shows "map_of (db_engines db) i = Some e \<Longrightarrow> \<not> eng_isShared e \<Longrightarrow> tenantOwnedWhere (eng_tenantId e) t \<Longrightarrow>
      i \<in> set (collectedEngineIds db now u t)"
    and "usable_runtime db t j r e \<Longrightarrow> rtm_engineId r \<in> set (collectedEngineIds db now u t)"
proof -
  have active: "hasActiveTenantAssignment db now u t"
    using assms by (auto simp: hasActiveTenantAssignment_def list_ex_iff)
  show "i \<in> set (collectedEngineIds db now u t)"
    if "map_of (db_engines db) i = Some e" "\<not> eng_isShared e" "tenantOwnedWhere (eng_tenantId e) t"
  proof -
    have "i \<in> set (map fst (filter (\<lambda>(i, e). \<not> eng_isShared e \<and> tenantOwnedWhere (eng_tenantId e) t) (db_engines db)))"
      using map_of_SomeD [OF that(1)] that(2,3) by force
    with active show ?thesis by (simp add: collectedEngineIds_def Let_def)
  qed
  show "rtm_engineId r \<in> set (collectedEngineIds db now u t)" if "usable_runtime db t j r e"
    using in_runtime_engines [OF that, of "\<lambda>_. True"] active by (simp add: collectedEngineIds_def Let_def)
qed

lemma known_engine:
  "i \<in> set (collectedEngineIds db now u t) \<Longrightarrow> map_of (db_engines db) i = Some e \<Longrightarrow> engine_visible e t \<Longrightarrow>
     i \<in> set (getKnownEngineIds db now u t)"
  by (force simp: getKnownEngineIds_def dest: map_of_SomeD)

text \<open>Every id in a table is some text; scopes of sets are never empty texts.\<close>

definition ids_nonempty :: "authz_db \<Rightarrow> bool" where
  "ids_nonempty db \<longleftrightarrow> (\<forall>(k, a) \<in> set (db_assignments db). asg_scopeId a \<noteq> Some [])"

lemma conferred_engine:
  assumes "plain_tenant t" and "(k, a) \<in> set (db_assignments db)" and c: "confers db now t (UserPrincipal, u) p (EngineResource, i) a"
    and "i \<noteq> []" and e: "map_of (db_engines db) i = Some e" "engine_visible e t"
  shows "i \<in> set (getKnownEngineIds db now u t)"
proof -
  have a: "a \<in> set (user_assignments db now u t (asg_scopeType a))" by (rule in_user_assignments [OF assms(2) c])
  have row: "(i, e) \<in> set (db_engines db)" by (rule map_of_SomeD [OF e(1)])
  from c obtain role where "reaches db t p role (EngineResource, i) (asg_scopeType a) (asg_scopeId a)"
    by (auto simp: confers_def)
  then consider "asg_scopeType a = EngineResource" "asg_scopeId a = Some i" | "asg_scopeType a = EngineResource" "asg_scopeId a = None"
    | "owned_resource db t EngineResource i" "asg_scopeType a = TenantResource" "asg_scopeId a = normalizeTenantIdForPersistence t"
    | s where "asg_scopeType a = EngineSetResource" "asg_scopeId a = Some s" "s \<noteq> []" "member_of (db_engineSetMembers db) t s i"
    by (auto simp: reaches_plain)
  then have "i \<in> set (collectedEngineIds db now u t)"
  proof cases
    case 1
    with a \<open>i \<noteq> []\<close> show ?thesis by (intro collected_engine(1) [of a]) simp_all
  next
    case 2
    with a row e(2) show ?thesis by (intro collected_engine(2) [of a]) simp_all
  next
    case 3
    from 3(1) e(1) have "\<not> eng_isShared e" "tenantOwnedWhere (eng_tenantId e) t" "normalizeTenantIdForPersistence t \<noteq> None"
      by (simp_all add: owned_resource_def)
    with a 3 e(1) show ?thesis by (intro collected_tenant(1) [of a]) simp_all
  next
    case 4
    with a assms(1) show ?thesis by (intro collected_engine_set [of t a]) simp_all
  qed
  with e show ?thesis by (intro known_engine)
qed

lemma conferred_runtime:
  assumes "plain_tenant t" and "ids_nonempty db" and k: "(k, a) \<in> set (db_assignments db)"
    and c: "confers db now t (UserPrincipal, u) p (RuntimeResource, j) a"
    and "j \<noteq> []" and usable: "usable_runtime db t j r e" and "engine_visible e t" and "rtm_engineId r \<noteq> []"
  shows "rtm_engineId r \<in> set (getKnownEngineIds db now u t)"
proof -
  have a: "a \<in> set (user_assignments db now u t (asg_scopeType a))" by (rule in_user_assignments [OF k c])
  have scope: "asg_scopeId a \<noteq> Some []" using k assms(2) by (auto simp: ids_nonempty_def)
  have e: "map_of (db_engines db) (rtm_engineId r) = Some e" using usable by (simp add: usable_runtime_def)
  from c obtain role where "reaches db t p role (RuntimeResource, j) (asg_scopeType a) (asg_scopeId a)"
    by (auto simp: confers_def)
  then consider "asg_scopeType a = RuntimeResource" "asg_scopeId a = Some j"
    | "asg_scopeType a = EngineResource" "asg_scopeId a = Some (rtm_engineId r)"
    | "asg_scopeType a = EngineResource" "asg_scopeId a = None"
    | "owned_resource db t RuntimeResource j" "asg_scopeType a = TenantResource" "asg_scopeId a = normalizeTenantIdForPersistence t"
    | s where "asg_scopeType a = RuntimeResourceSet" "asg_scopeId a = Some s" "s \<noteq> []" "member_of (db_runtimeSetMembers db) t s j"
    | s where "asg_scopeType a = EngineSetResource" "asg_scopeId a = Some s" "s \<noteq> []"
        "member_of (db_engineSetMembers db) t s (rtm_engineId r)"
    using scope by (auto simp: reaches_runtime [OF usable])
  then have "rtm_engineId r \<in> set (collectedEngineIds db now u t)"
  proof cases
    case 1
    with a show ?thesis by (intro collected_runtime(1) [OF usable \<open>j \<noteq> []\<close>, of a]) simp_all
  next
    case 2
    with a assms(8) show ?thesis by (intro collected_engine(1) [of a]) simp_all
  next
    case 3
    with a map_of_SomeD [OF e] assms(7) show ?thesis by (intro collected_engine(2) [of a]) simp_all
  next
    case 4
    with a owned_tenant [OF 4(1)] usable show ?thesis by (intro collected_tenant(2) [of a]) simp_all
  next
    case 5
    with a assms(1) show ?thesis by (intro collected_runtime(2) [OF usable \<open>j \<noteq> []\<close>, of a]) simp_all
  next
    case 6
    with a assms(1) show ?thesis by (intro collected_engine_set [of t a]) simp_all
  qed
  with e assms(7) show ?thesis by (intro known_engine)
qed

end
