(* ===== verification/Role_Admin.thy ===== *)
theory Role_Admin
  imports Permission_Snapshot
begin

text \<open>
  The administration of roles, permissions and assignments (\<open>seedRbacFoundation\<close> to
  \<open>normalizeAssignmentScope\<close> of \<open>shared/src/services/platform-admin/permissions.ts\<close>, with
  \<open>shared/src/utils/identifier-slug.ts\<close>). An operation takes the ids that it generates and the tables, and
  returns the tables, or the error it throws; one that throws changes nothing.
\<close>

section \<open>Names and keys\<close>

text \<open>\<open>slugifyIdentifier\<close>; the loop keeps the result and whether a separator is due.\<close>

fun slug_loop :: "string \<Rightarrow> nat \<Rightarrow> string \<Rightarrow> string \<Rightarrow> bool \<Rightarrow> string" where
  "slug_loop preserve maxLength [] result separatorPending = result"
| "slug_loop preserve maxLength (c # cs) result separatorPending =
     (if is_lower_alnum c \<or> c \<in> set preserve then
        if c = CHR ''-'' \<and> result = [] then slug_loop preserve maxLength cs result separatorPending
        else
          let dashed = (if separatorPending \<and> result \<noteq> [] \<and> length result < maxLength then result @ ''-'' else result);
              longer = (if length dashed < maxLength then dashed @ [c] else dashed)
          in if maxLength \<le> length longer then longer else slug_loop preserve maxLength cs longer False
      else slug_loop preserve maxLength cs result (result \<noteq> []))"

definition slugifyIdentifier :: "string \<Rightarrow> string \<Rightarrow> nat \<Rightarrow> string \<Rightarrow> string" where
  "slugifyIdentifier preserve fallback maxLength value =
     (let result = rev (dropWhile (\<lambda>c. c = CHR ''-'') (rev (slug_loop preserve maxLength (lower_case (trim value)) [] False)))
      in if result = [] then fallback else result)"

definition slugifyRoleName :: "string \<Rightarrow> string" where
  "slugifyRoleName name = slugifyIdentifier [] ''role'' 48 name"

text \<open>\<open>(?:[._-][a-z0-9]+)*\<close> after a letter or digit: separators stand alone and not at the end.\<close>

fun key_segments :: "char list \<Rightarrow> bool \<Rightarrow> string \<Rightarrow> bool" where
  "key_segments seps after [] = (\<not> after)"
| "key_segments seps after (c # cs) =
     (if is_lower_alnum c then key_segments seps False cs else c \<in> set seps \<and> \<not> after \<and> key_segments seps True cs)"

definition custom_role_key :: "string \<Rightarrow> bool" where
  "custom_role_key s \<longleftrightarrow> starts_with ''custom.'' s \<and>
     (case drop 7 s of [] \<Rightarrow> False | c # cs \<Rightarrow> is_lower c \<and> key_segments ''._-'' False cs)"

definition normalizeCustomRoleKey :: "string option \<Rightarrow> resource_type \<Rightarrow> string \<Rightarrow> string \<Rightarrow> authz_error + string" where
  "normalizeCustomRoleKey key scope name newId =
     (let normalized = (case trimmed key of
            Some k \<Rightarrow> k
          | None \<Rightarrow> ''custom.'' @ resource_type_text scope @ ''.'' @ slugifyRoleName name @ ''.'' @ take 8 newId)
      in if custom_role_key normalized then Inr normalized else Inl BadRoleKey)"

definition canonicalRoleKeyIdentity :: "string option \<Rightarrow> string \<Rightarrow> string" where
  "canonicalRoleKeyIdentity tenantId key =
     (case normalizeTenantIdForPersistence tenantId of None \<Rightarrow> ''platform'' | Some t \<Rightarrow> t) @ '':'' @ trim key"

text \<open>\<open>/^[a-z][a-z0-9-]*(?::[a-z][a-z0-9-]*){2,}$/\<close>\<close>

definition permission_key :: "string \<Rightarrow> bool" where
  "permission_key s \<longleftrightarrow> 3 \<le> length (split_on CHR '':'' s) \<and>
     list_all (\<lambda>w. case w of [] \<Rightarrow> False | c # cs \<Rightarrow> is_lower c \<and> list_all (\<lambda>c. is_lower_alnum c \<or> c = CHR ''-'') cs)
       (split_on CHR '':'' s)"

definition validateCustomPermissionKey :: "resource_type \<Rightarrow> string \<Rightarrow> authz_error + unit" where
  "validateCustomPermissionKey scope key =
     (if \<not> permission_key key \<or> \<not> starts_with (resource_type_text scope @ '':custom:'') key then Inl BadPermissionKey
      else throw_if (key \<in> set (map pd_key PermissionCatalog)) ReservedPermissionKey)"

text \<open>\<open>normalizeRoleSource\<close>\<close>

definition normalizeRoleSource :: "string option \<Rightarrow> authz_error + string" where
  "normalizeRoleSource source =
     (let normalized = (if truthy_str source then the source else ''manual'')
      in if normalized \<in> {''manual'', ''config'', ''api'', ''automation''} then Inr normalized else Inl UnsupportedSource)"

definition CUSTOM_ROLE_DENY_FIELD_NAMES :: "string list" where
  "CUSTOM_ROLE_DENY_FIELD_NAMES =
     [''denyPermissionIds'', ''deniedPermissionIds'', ''denyPermissions'', ''deniedPermissions'', ''permissionDenies'']"

text \<open>The names of the properties of the input are what the check looks at.\<close>

definition assertCustomRoleAllowOnlyInput :: "string list \<Rightarrow> authz_error + unit" where
  "assertCustomRoleAllowOnlyInput names = throw_if (list_ex (\<lambda>f. f \<in> set names) CUSTOM_ROLE_DENY_FIELD_NAMES) DenyFields"

section \<open>Permissions of roles\<close>

definition catalog_lookup :: "authz_db \<Rightarrow> string \<Rightarrow> permission_definition option" where
  "catalog_lookup db key = find (\<lambda>d. pd_key d = key) (getPermissionCatalog db)"

definition permission_issue :: "authz_db \<Rightarrow> resource_type \<Rightarrow> string \<Rightarrow> authz_error option" where
  "permission_issue db scope permissionId =
     (case catalog_lookup db permissionId of
        None \<Rightarrow> Some (UnknownPermission permissionId)
      | Some d \<Rightarrow> if pd_isArchived d then Some (ArchivedPermission permissionId)
          else rolePermissionValidationError scope (pd_key d) (pd_scope d))"

fun first_issue :: "('a \<Rightarrow> 'e option) \<Rightarrow> 'a list \<Rightarrow> 'e option" where
  "first_issue f [] = None"
| "first_issue f (x # xs) = (case f x of None \<Rightarrow> first_issue f xs | Some e \<Rightarrow> Some e)"

definition validateRolePermissions :: "authz_db \<Rightarrow> resource_type \<Rightarrow> string list \<Rightarrow> authz_error + string list" where
  "validateRolePermissions db scope permissionIds =
     (let uniquePermissionIds = set_of_list permissionIds
      in if uniquePermissionIds = [] then Inl NoPermissions
         else case first_issue (permission_issue db scope) uniquePermissionIds of
           Some e \<Rightarrow> Inl e
         | None \<Rightarrow> (case rolePermissionDependencyError uniquePermissionIds of
               Some e \<Rightarrow> Inl e | None \<Rightarrow> Inr uniquePermissionIds))"

definition replaceRolePermissions :: "string \<Rightarrow> string list \<Rightarrow> authz_db \<Rightarrow> authz_db" where
  "replaceRolePermissions roleId permissionIds db =
     db\<lparr>db_rolePermissions := filter (\<lambda>(r, p). r \<noteq> roleId) (db_rolePermissions db) @ map (Pair roleId) permissionIds\<rparr>"

section \<open>Roles\<close>

record custom_role_input =
  cri_fields :: "string list"
  cri_tenantId :: "string option"
  cri_key :: "string option"
  cri_name :: string
  cri_scope :: resource_type
  cri_permissionIds :: "string list"
  cri_source :: "string option"
  cri_sourceRef :: "string option"
  cri_ownershipMode :: "string option"
  cri_driftStatus :: "string option"

text \<open>The row that \<open>createCustomRole\<close> inserts.\<close>

definition new_role_row ::
  "custom_role_input \<Rightarrow> string option \<Rightarrow> string \<Rightarrow> string \<Rightarrow> string \<Rightarrow> string option \<Rightarrow> role_row" where
  "new_role_row input tenantId key name source sourceRef =
     \<lparr>aro_tenantId = tenantId, aro_key = key, aro_name = name, aro_scope = cri_scope input, aro_isCustom = True,
      aro_isEditable = True, aro_isAssignable = True, aro_isArchived = False, aro_source = source,
      aro_sourceRef = sourceRef,
      aro_ownershipMode = (case nonempty (cri_ownershipMode input) of Some m \<Rightarrow> m
        | None \<Rightarrow> if source = ''config'' then ''config_locked'' else ''manual''),
      aro_driftStatus = nonempty (cri_driftStatus input)\<rparr>"

definition createCustomRole :: "string \<Rightarrow> custom_role_input \<Rightarrow> authz_db \<Rightarrow> authz_error + authz_db" where
  "createCustomRole newId input db =
     bind_res (assertCustomRoleAllowOnlyInput (cri_fields input)) (\<lambda>_.
     bind_res (validateRolePermissions db (cri_scope input) (cri_permissionIds input)) (\<lambda>permissionIds.
     bind_res (normalizeRoleSource (cri_source input)) (\<lambda>source.
     let name = trim (cri_name input); sourceRef = trimmed (cri_sourceRef input);
         tenantId = normalizeTenantIdForPersistence (cri_tenantId input)
     in if name = [] then Inl NameRequired
        else if source = ''config'' \<and> sourceRef = None then Inl SourceRefRequired
        else bind_res (normalizeCustomRoleKey (cri_key input) (cri_scope input) name newId) (\<lambda>key.
          if map_of (db_roles db) newId \<noteq> None \<or>
            list_ex (\<lambda>(i, r). canonicalRoleKeyIdentity (aro_tenantId r) (aro_key r) = canonicalRoleKeyIdentity tenantId key)
              (db_roles db)
          then Inl DuplicateRow
          else Inr (replaceRolePermissions newId permissionIds
            (db\<lparr>db_roles := put newId (new_role_row input tenantId key name source sourceRef) (db_roles db)\<rparr>))))))"

record custom_permission_input =
  cpi_key :: string
  cpi_scope :: resource_type
  cpi_category :: string
  cpi_label :: string

definition createCustomPermission :: "custom_permission_input \<Rightarrow> authz_db \<Rightarrow> authz_error + authz_db" where
  "createCustomPermission input db =
     (let key = lower_case (trim (cpi_key input)); category = trim (cpi_category input)
      in bind_res (validateCustomPermissionKey (cpi_scope input) key) (\<lambda>_.
         if category = [] then Inl CategoryRequired
         else if trim (cpi_label input) = [] then Inl LabelRequired
         else if map_of (db_permissions db) key \<noteq> None then Inl PermissionKeyExists
         else Inr (db\<lparr>db_permissions := put key
           \<lparr>pd_key = key, pd_scope = cpi_scope input, pd_category = category, pd_isCustom = True, pd_isArchived = False\<rparr>
           (db_permissions db)\<rparr>)))"

record update_role_input =
  uri_fields :: "string list"
  uri_tenantId :: "string option"
  uri_name :: "string option"
  uri_permissionIds :: "string list option"
  uri_isAssignable :: "bool option"
  uri_isArchived :: "bool option"

text \<open>The update of the row, for a role that may be edited and a new name that is not empty.\<close>

definition updated_role :: "update_role_input \<Rightarrow> role_row \<Rightarrow> role_row" where
  "updated_role input role =
     (let isConfigWarn = (aro_source role = ''config'' \<and> aro_ownershipMode role = ''config_warn'')
      in role\<lparr>aro_name := (case uri_name input of None \<Rightarrow> aro_name role | Some n \<Rightarrow> trim n),
         aro_isArchived := (case uri_isArchived input of None \<Rightarrow> aro_isArchived role | Some b \<Rightarrow> b),
         aro_isAssignable := (case uri_isArchived input of
             Some True \<Rightarrow> False
           | _ \<Rightarrow> (case uri_isAssignable input of None \<Rightarrow> aro_isAssignable role | Some b \<Rightarrow> b)),
         aro_driftStatus := (if isConfigWarn then Some ''drifted'' else aro_driftStatus role)\<rparr>)"

definition updateCustomRole :: "string \<Rightarrow> update_role_input \<Rightarrow> authz_db \<Rightarrow> authz_error + authz_db" where
  "updateCustomRole i input db =
     bind_res (assertCustomRoleAllowOnlyInput (uri_fields input)) (\<lambda>_.
       case map_of (db_roles db) i of
         None \<Rightarrow> Inl RoleNotFound
       | Some role \<Rightarrow>
           let tenant = normalizeTenantIdForPersistence (uri_tenantId input)
           in if \<not> aro_isCustom role \<or> \<not> aro_isEditable role then Inl SystemRole
              else if aro_source role = ''config'' \<and> aro_ownershipMode role \<noteq> ''config_warn'' then Inl ConfigManagedRole
              else if tenant \<noteq> None \<and> truthy_str (aro_tenantId role) \<and> aro_tenantId role \<noteq> tenant then Inl RoleNotFound
              else if (case uri_name input of None \<Rightarrow> False | Some n \<Rightarrow> trim n = []) then Inl NameRequired
              else let changed = db\<lparr>db_roles := put i (updated_role input role) (db_roles db)\<rparr>
                in case uri_permissionIds input of
                  None \<Rightarrow> Inr changed
                | Some ids \<Rightarrow> bind_res (validateRolePermissions db (aro_scope role) ids)
                    (\<lambda>ps. Inr (replaceRolePermissions i ps changed)))"

definition archiveCustomRole :: "string \<Rightarrow> authz_db \<Rightarrow> authz_error + authz_db" where
  "archiveCustomRole i db = updateCustomRole i
     \<lparr>uri_fields = [''isArchived'', ''updatedById''], uri_tenantId = None, uri_name = None, uri_permissionIds = None,
      uri_isAssignable = None, uri_isArchived = Some True\<rparr> db"

text \<open>\<open>updateConfiguredCustomRole\<close>, in the transaction of the configuration it applies.\<close>

record configured_role_update =
  cru_name :: "string option"
  cru_scope :: "resource_type option"
  cru_permissionIds :: "string list option"
  cru_isArchived :: "bool option"
  cru_isAssignable :: "bool option"
  cru_ownershipMode :: "string option"
  cru_driftStatus :: "string option option"

definition configured_role :: "configured_role_update \<Rightarrow> role_row \<Rightarrow> role_row" where
  "configured_role input role = role
     \<lparr>aro_name := (case cru_name input of None \<Rightarrow> aro_name role | Some n \<Rightarrow> trim n),
      aro_scope := (case cru_scope input of None \<Rightarrow> aro_scope role | Some s \<Rightarrow> s),
      aro_isArchived := (case cru_isArchived input of None \<Rightarrow> aro_isArchived role | Some b \<Rightarrow> b),
      aro_isAssignable := (case cru_isAssignable input of None \<Rightarrow> aro_isAssignable role | Some b \<Rightarrow> b),
      aro_ownershipMode := (case cru_ownershipMode input of None \<Rightarrow> aro_ownershipMode role | Some m \<Rightarrow> m),
      aro_driftStatus := (case cru_driftStatus input of None \<Rightarrow> aro_driftStatus role | Some d \<Rightarrow> d)\<rparr>"

definition updateConfiguredCustomRole :: "string \<Rightarrow> configured_role_update \<Rightarrow> authz_db \<Rightarrow> authz_error + authz_db" where
  "updateConfiguredCustomRole i input db =
     (let changed = db\<lparr>db_roles := map (\<lambda>(k, r). (k, if k = i then configured_role input r else r)) (db_roles db)\<rparr>
      in case cru_permissionIds input of
        None \<Rightarrow> Inr changed
      | Some ids \<Rightarrow> (case cru_scope input of
            None \<Rightarrow> Inl (if ids = [] then NoPermissions else if catalog_lookup changed (hd ids) = None
              then UnknownPermission (hd ids) else ScopeMissing (hd ids))
          | Some scope \<Rightarrow> bind_res (validateRolePermissions changed scope ids) (\<lambda>ps. Inr (replaceRolePermissions i ps changed))))"

text \<open>
  The two changes of a role that the apply of a configuration bundle makes (\<open>ConfigBundleApplyService\<close>): an update to
  what the bundle desires, with the scope it desires, and the archiving of a role that is no longer in the bundle, which
  takes its permissions away.
\<close>

record desired_role =
  dro_name :: string
  dro_scope :: resource_type
  dro_ownershipMode :: "string option"

definition apply_role_update :: "string \<Rightarrow> desired_role \<Rightarrow> string list \<Rightarrow> authz_db \<Rightarrow> authz_error + authz_db" where
  "apply_role_update currentId desired permissions db = updateConfiguredCustomRole currentId
     \<lparr>cru_name = Some (dro_name desired), cru_scope = Some (dro_scope desired), cru_permissionIds = Some permissions,
      cru_isArchived = Some False, cru_isAssignable = Some True,
      cru_ownershipMode = Some (case nonempty (dro_ownershipMode desired) of None \<Rightarrow> ''config_locked'' | Some m \<Rightarrow> m),
      cru_driftStatus = Some (Some ''in_sync'')\<rparr> db"

definition apply_role_archive :: "string \<Rightarrow> authz_db \<Rightarrow> authz_error + authz_db" where
  "apply_role_archive currentId db = bind_res (updateConfiguredCustomRole currentId
     \<lparr>cru_name = None, cru_scope = None, cru_permissionIds = None, cru_isArchived = Some True, cru_isAssignable = Some False,
      cru_ownershipMode = None, cru_driftStatus = Some (Some ''in_sync'')\<rparr> db)
     (\<lambda>db'. Inr (db'\<lparr>db_rolePermissions := filter (\<lambda>(r, p). r \<noteq> currentId) (db_rolePermissions db')\<rparr>))"

section \<open>Seeding\<close>

definition system_role_row :: "system_role \<Rightarrow> role_row" where
  "system_role_row r =
     \<lparr>aro_tenantId = None, aro_key = sy_id r, aro_name = sy_name r, aro_scope = sy_scope r, aro_isCustom = False,
      aro_isEditable = False, aro_isAssignable = sy_isAssignable r, aro_isArchived = False, aro_source = ''system'',
      aro_sourceRef = Some ''rbac-foundation'', aro_ownershipMode = ''manual'', aro_driftStatus = None\<rparr>"

definition system_role_permissions :: "(string \<times> string) list" where
  "system_role_permissions = concat (map (\<lambda>r. map (Pair (sy_id r)) (sy_permissions r)) SystemRoleDefinitions)"

definition seedRbacFoundation :: "authz_db \<Rightarrow> authz_db" where
  "seedRbacFoundation db =
     (let systemRoleIds = map sy_id SystemRoleDefinitions;
          kept = filter (\<lambda>(r, p). r \<notin> set systemRoleIds \<or> (r, p) \<in> set system_role_permissions) (db_rolePermissions db)
      in db\<lparr>db_permissions := fold (\<lambda>d. put (pd_key d) d) PermissionCatalog (db_permissions db),
         db_roles := fold (\<lambda>r. put (sy_id r) (system_role_row r)) SystemRoleDefinitions (db_roles db),
         db_rolePermissions := fold set_add system_role_permissions kept\<rparr>)"

section \<open>Assignments\<close>

record assignment_input =
  ain_tenantId :: "string option"
  ain_userId :: "string option"
  ain_principalType :: "principal_type option"
  ain_principalId :: "string option"
  ain_roleId :: string
  ain_scopeType :: "resource_type option"
  ain_scopeId :: "string option"
  ain_source :: "string option"
  ain_sourceRef :: "string option"
  ain_ownershipMode :: "string option"
  ain_expiresAt :: "int option"

definition normalizeAssignmentPrincipal :: "assignment_input \<Rightarrow> authz_error + principal_ref" where
  "normalizeAssignmentPrincipal input =
     (let principalType = (case ain_principalType input of None \<Rightarrow> UserPrincipal | Some t \<Rightarrow> t);
          principalId = (case ain_principalId input of None \<Rightarrow> ain_userId input | Some i \<Rightarrow> Some i)
      in if \<not> truthy_str principalId then Inl PrincipalRequired
         else if principalType = UserPrincipal \<and> truthy_str (ain_userId input) \<and> ain_userId input \<noteq> principalId
         then Inl UserMismatch
         else Inr (principalType, the principalId))"

text \<open>The check for users in \<open>assignRole\<close>, then \<open>assertAssignablePrincipalExists\<close>.\<close>

definition assertAssignablePrincipalExists :: "authz_db \<Rightarrow> principal_ref \<Rightarrow> string option \<Rightarrow> authz_error + unit" where
  "assertAssignablePrincipalExists db who tenantId = throw_if
     (case fst who of
        UserPrincipal \<Rightarrow> snd who \<notin> set (db_users db)
      | ApiClientPrincipal \<Rightarrow> map_of (db_apiClients db) (snd who) \<noteq> Some True
      | ServiceAccountPrincipal \<Rightarrow> map_of (db_serviceAccounts db) (snd who) \<noteq> Some True
      | GroupPrincipal \<Rightarrow>
          find_row (\<lambda>g. \<not> grp_isArchived g \<and> tenantScopedWhere (grp_tenantId g) tenantId) (db_groups db) (snd who) = None)
     PrincipalNotFound"

definition role_permission_ids :: "authz_db \<Rightarrow> string \<Rightarrow> string list" where
  "role_permission_ids db roleId = map snd (filter (\<lambda>(r, p). r = roleId) (db_rolePermissions db))"

definition assertMachinePrincipalCanReceiveRole ::
  "authz_db \<Rightarrow> principal_ref \<Rightarrow> string \<Rightarrow> role_row \<Rightarrow> authz_error + unit" where
  "assertMachinePrincipalCanReceiveRole db who roleId role =
     (if fst who \<notin> set MACHINE_PRINCIPAL_TYPES then Inr ()
      else if \<not> aro_isCustom role
      then throw_if (roleId \<notin> set MACHINE_ASSIGNABLE_SYSTEM_ROLE_IDS \<or>
          (roleId \<in> {''system.api.engine_registrar'', ''system.api.external_engine_system_registrar'',
             ''system.api.identity_provisioning_admin''} \<and> fst who \<noteq> ApiClientPrincipal)) NotForMachines
      else if aro_scope role = PlatformResource \<and> fst who \<noteq> ApiClientPrincipal then Inl NotForMachines
      else case MACHINE_ASSIGNABLE_CUSTOM_ROLE_PERMISSIONS (aro_scope role) of
        None \<Rightarrow> Inl NotForMachines
      | Some allowed \<Rightarrow>
          let unsafe = filter (\<lambda>p. p \<notin> set allowed) (role_permission_ids db roleId)
          in throw_if (unsafe \<noteq> []) (UnsafePermissions unsafe))"

definition engine_target :: "resource_type \<Rightarrow> bool" where
  "engine_target scopeType \<longleftrightarrow> scopeType \<in> {EngineSetResource, RuntimeResource, RuntimeResourceSet}"

text \<open>\<open>normalizeAssignmentScope\<close>: the scope type and the scope id.\<close>

definition normalizeAssignmentScope ::
  "resource_type \<Rightarrow> resource_type option \<Rightarrow> string option \<Rightarrow> authz_error + (resource_type \<times> string option)" where
  "normalizeAssignmentScope roleScope requestedType requestedId =
     (let scopeType = (case requestedType of None \<Rightarrow> roleScope | Some t \<Rightarrow> t)
      in if scopeType \<noteq> roleScope \<and> \<not> (roleScope = EngineResource \<and> engine_target scopeType) then Inl ScopeNotAllowed
         else if roleScope = PlatformResource then Inr (PlatformResource, None)
         else if \<not> truthy_str requestedId then Inl ResourceRequired
         else Inr (scopeType, requestedId))"

definition assertResourceExists :: "authz_db \<Rightarrow> resource_type \<Rightarrow> string option \<Rightarrow> string option \<Rightarrow> authz_error + unit" where
  "assertResourceExists db resourceType resourceId tenantId =
     (let rid = or_empty resourceId
      in throw_if
       (case resourceType of
          PlatformResource \<Rightarrow> False
        | TenantResource \<Rightarrow> normalizeTenantIdForPersistence tenantId = None \<or>
            normalizeTenantIdForPersistence resourceId \<noteq> normalizeTenantIdForPersistence tenantId
        | ProjectResource \<Rightarrow> find_row (\<lambda>t. tenantScopedWhere t tenantId) (db_projects db) rid = None
        | EngineResource \<Rightarrow> find_row (\<lambda>e. engine_visible e tenantId) (db_engines db) rid = None
        | EngineSetResource \<Rightarrow> find_row (\<lambda>t. tenantScopedWhere t tenantId) (db_engineSets db) rid = None
        | RuntimeResource \<Rightarrow> resolvedRuntimeResource db rid tenantId = None
        | RuntimeResourceSet \<Rightarrow> find_row (\<lambda>s. \<not> rts_isArchived s \<and> tenantOwnedWhere (rts_tenantId s) tenantId)
            (db_runtimeSets db) rid = None
        | ExternalEngineSystem \<Rightarrow> find_row (\<lambda>(t, active). active \<and> tenantScopedWhere t tenantId)
            (db_externalSystems db) rid = None
        | _ \<Rightarrow> \<not> truthy_str resourceId)
       ResourceNotFound)"

definition assertRuntimeScopeEnabled ::
  "authz_db \<Rightarrow> resource_type \<Rightarrow> string option \<Rightarrow> string option \<Rightarrow> authz_error + unit" where
  "assertRuntimeScopeEnabled db scopeType scopeId tenantId =
     (let engineId =
        (if scopeType = RuntimeResource
         then map_option rtm_engineId (resolvedRuntimeResource db (or_empty scopeId) tenantId)
         else map_option rts_engineId (find_row (\<lambda>s. \<not> rts_isArchived s \<and> tenantOwnedWhere (rts_tenantId s) tenantId)
           (db_runtimeSets db) (or_empty scopeId)))
      in if scopeType \<noteq> RuntimeResource \<and> scopeType \<noteq> RuntimeResourceSet then Inr ()
         else case engineId of None \<Rightarrow> Inl ResourceNotFound
           | Some i \<Rightarrow> (case find_row (\<lambda>e. engine_visible e tenantId) (db_engines db) i of
               None \<Rightarrow> Inl ResourceNotFound
             | Some e \<Rightarrow> throw_if (\<not> eng_isResourceAware e) RuntimeScopeDisabled))"

definition assignment_key :: "string option \<Rightarrow> principal_ref \<Rightarrow> string \<Rightarrow> resource_type \<Rightarrow> string option \<Rightarrow> string \<Rightarrow> string option \<Rightarrow> string" where
  "assignment_key tenantId who roleId scopeType scopeId source sourceRef = canonicalRoleAssignmentKey
     \<lparr>ai_tenantId = tenantId, ai_principalType = principal_type_text (fst who), ai_principalId = snd who, ai_roleId = roleId,
      ai_scopeType = resource_type_text scopeType, ai_scopeId = scopeId, ai_source = source, ai_sourceRef = sourceRef\<rparr>"

text \<open>The row that \<open>createResolvedRoleAssignment\<close> inserts.\<close>

definition new_assignment ::
  "string option \<Rightarrow> principal_ref \<Rightarrow> string \<Rightarrow> resource_type \<Rightarrow> string option \<Rightarrow> string \<Rightarrow> assignment_input \<Rightarrow> assignment_row" where
  "new_assignment tenant who roleId scopeType scopeId source input =
     \<lparr>asg_tenantId = tenant, asg_principalType = fst who, asg_principalId = snd who,
      asg_assignmentKey = assignment_key (ain_tenantId input) who roleId scopeType scopeId source (ain_sourceRef input),
      asg_roleId = roleId, asg_scopeType = scopeType, asg_scopeId = scopeId, asg_source = source,
      asg_sourceRef = ain_sourceRef input,
      asg_ownershipMode = (case nonempty (ain_ownershipMode input) of Some m \<Rightarrow> m
        | None \<Rightarrow> if source = ''config'' then ''config_locked'' else ''manual''),
      asg_expiresAt = ain_expiresAt input\<rparr>"

text \<open>An assignment with the same key is returned as it is. The key is made of the tenant as it was given, the
  row holds the normalized tenant.\<close>

definition store_assignment ::
  "string \<Rightarrow> string option \<Rightarrow> principal_ref \<Rightarrow> resource_type \<Rightarrow> string option \<Rightarrow> string \<Rightarrow> assignment_input \<Rightarrow> authz_db \<Rightarrow>
     authz_error + (string \<times> authz_db)" where
  "store_assignment newId tenant who scopeType scopeId source input db =
     (let key = assignment_key (ain_tenantId input) who (ain_roleId input) scopeType scopeId source (ain_sourceRef input)
      in case find (\<lambda>row. asg_assignmentKey (snd row) = key) (db_assignments db) of
           Some row \<Rightarrow> Inr (fst row, db)
         | None \<Rightarrow>
             if map_of (db_assignments db) newId \<noteq> None then Inl DuplicateRow
             else Inr (newId, db\<lparr>db_assignments := db_assignments db @
               [(newId, new_assignment tenant who (ain_roleId input) scopeType scopeId source input)]\<rparr>))"

text \<open>\<open>assignRole\<close>: the id of the assignment and the tables.\<close>

definition assignRole :: "string \<Rightarrow> assignment_input \<Rightarrow> authz_db \<Rightarrow> authz_error + (string \<times> authz_db)" where
  "assignRole newId input db =
     (case map_of (db_roles db) (ain_roleId input) of
        None \<Rightarrow> Inl RoleNotFound
      | Some role \<Rightarrow>
          let tenant = normalizeTenantIdForPersistence (ain_tenantId input)
          in if aro_isArchived role \<or> \<not> aro_isAssignable role then Inl NotAssignable
             else if tenant \<noteq> None \<and> truthy_str (aro_tenantId role) \<and> aro_tenantId role \<noteq> tenant then Inl WrongTenant
             else
               bind_res (normalizeAssignmentPrincipal input) (\<lambda>who.
               bind_res (assertAssignablePrincipalExists db who tenant) (\<lambda>_.
               bind_res (assertMachinePrincipalCanReceiveRole db who (ain_roleId input) role) (\<lambda>_.
               bind_res (normalizeAssignmentScope (aro_scope role) (ain_scopeType input) (ain_scopeId input)) (\<lambda>(scopeType, scopeId).
               bind_res (assertResourceExists db scopeType scopeId tenant) (\<lambda>_.
               bind_res (assertRuntimeScopeEnabled db scopeType scopeId tenant) (\<lambda>_.
                 store_assignment newId tenant who scopeType scopeId
                   (case ain_source input of None \<Rightarrow> ''manual'' | Some s \<Rightarrow> s) input db)))))))"

definition removeRoleAssignment :: "string \<Rightarrow> bool \<Rightarrow> authz_db \<Rightarrow> authz_error + authz_db" where
  "removeRoleAssignment i allowSso db =
     (case map_of (db_assignments db) i of
        None \<Rightarrow> Inl AssignmentNotFound
      | Some a \<Rightarrow>
          let configWarning = (asg_source a = ''config'' \<and> asg_ownershipMode a = ''config_warn'');
              removed = db\<lparr>db_assignments := del i (db_assignments db)\<rparr>
          in if asg_source a \<noteq> ''manual'' \<and> \<not> configWarning \<and> \<not> (allowSso \<and> asg_source a = ''sso'') then Inl NotRemovable
             else if configWarning
             then Inr (removed\<lparr>db_overrides := set_add (asg_assignmentKey a, or_empty (asg_sourceRef a)) (db_overrides db)\<rparr>)
             else Inr removed)"

text \<open>\<open>updateResolvedRoleAssignment\<close> and \<open>deleteResolvedRoleAssignments\<close>\<close>

definition updateResolvedRoleAssignment :: "string \<Rightarrow> int option option \<Rightarrow> string option \<Rightarrow> authz_db \<Rightarrow> authz_db" where
  "updateResolvedRoleAssignment i expiresAt ownershipMode db =
     db\<lparr>db_assignments := map (\<lambda>(k, a). (k, if k = i
       then a\<lparr>asg_expiresAt := (case expiresAt of None \<Rightarrow> asg_expiresAt a | Some e \<Rightarrow> e),
          asg_ownershipMode := (case ownershipMode of None \<Rightarrow> asg_ownershipMode a | Some m \<Rightarrow> m)\<rparr> else a)) (db_assignments db)\<rparr>"

definition deleteResolvedRoleAssignments ::
  "string list \<Rightarrow> string option \<Rightarrow> string \<Rightarrow> string option \<Rightarrow> authz_db \<Rightarrow> authz_error + authz_db" where
  "deleteResolvedRoleAssignments ids tenantId source sourceRef db =
     (let selected = (\<lambda>(k, a). k \<in> set ids \<and> asg_tenantId a = nonempty tenantId \<and> asg_source a = source \<and>
            asg_sourceRef a = nonempty sourceRef)
      in if ids = [] then Inr db
         else if length (filter selected (db_assignments db)) \<noteq> length ids then Inl AssignmentsChanged
         else Inr (db\<lparr>db_assignments := filter (\<lambda>row. \<not> selected row) (db_assignments db)\<rparr>))"

end
