(* ===== verification/Role_Invariant.thy ===== *)
theory Role_Invariant
  imports Role_Admin
begin

text \<open>
  What holds of roles and assignments in every state the administration reaches: each role has only known
  permissions that fit its scope, the system roles stay as they are defined, and each assignment is of a
  role that exists, at a scope that fits it. Two things that a configuration does break this: it may move one of its
  roles to another scope, and it clears the permissions of a role that it archives. They are recorded as events.
\<close>

section \<open>The catalog\<close>

definition catalog_inv :: "authz_db \<Rightarrow> bool" where
  "catalog_inv db \<longleftrightarrow> distinct (map fst (db_permissions db)) \<and>
     (\<forall>k d. map_of (db_permissions db) k = Some d \<longrightarrow> pd_key d = k \<and> \<not> pd_isArchived d \<and>
        (\<forall>d'. map_of static_catalog k = Some d' \<longrightarrow> d = d'))"

lemma map_of_fold_put_pairs: "map_of (fold (\<lambda>(k, d). put k d) xs m) = map_of m ++ map_of (rev xs)"
  by (induction xs arbitrary: m) auto

lemma catalog_not_archived: "d \<in> set PermissionCatalog \<Longrightarrow> \<not> pd_isArchived d"
  by (auto simp: PermissionCatalog_def permissionDefinition_def)

lemma static_map: "map_of static_catalog = map_of (rev (map (\<lambda>d. (pd_key d, d)) PermissionCatalog))"
  by (simp add: static_catalog_def map_of_fold_put)

lemma static_entry: "map_of static_catalog k = Some d \<Longrightarrow> pd_key d = k \<and> \<not> pd_isArchived d \<and> d \<in> set PermissionCatalog"
  by (auto simp: static_map dest!: map_of_SomeD dest: catalog_not_archived)

lemma static_None: "k \<notin> set (map pd_key PermissionCatalog) \<Longrightarrow> map_of static_catalog k = None"
  by (auto simp: static_map map_of_eq_None_iff)

lemma distinct_static: "distinct (map fst static_catalog)"
  unfolding static_catalog_def by (rule distinct_fold_put) simp

lemma map_of_rev_distinct: "distinct (map fst m) \<Longrightarrow> map_of (rev m) = map_of m"
  by (rule map_of_eqI) (auto simp: rev_map [symmetric])

lemma find_keyed:
  "(\<forall>(k, d) \<in> set m. pd_key d = k \<and> \<not> pd_isArchived d) \<Longrightarrow>
     find (\<lambda>d. pd_key d = key) (filter (\<lambda>d. \<not> pd_isArchived d) (map snd m)) = map_of m key"
  by (induction m) auto

lemma catalog_lookup_eq:
  assumes "catalog_inv db"
  shows "catalog_lookup db k = (case map_of (db_permissions db) k of None \<Rightarrow> map_of static_catalog k | Some d \<Rightarrow> Some d)"
proof -
  let ?m = "fold (\<lambda>(k, d). put k d) (db_permissions db) static_catalog"
  have d: "distinct (map fst (db_permissions db))" using assms by (simp add: catalog_inv_def)
  have map: "map_of ?m = map_of static_catalog ++ map_of (db_permissions db)"
    by (simp add: map_of_fold_put_pairs map_of_rev_distinct [OF d])
  have dist: "distinct (map fst ?m)"
    using distinct_fold_put [OF distinct_static, of fst snd "db_permissions db"] by (simp add: case_prod_unfold)
  have "pd_key d = k \<and> \<not> pd_isArchived d" if "(k, d) \<in> set ?m" for k d
  proof -
    from that dist have "map_of ?m k = Some d" by simp
    then show ?thesis
      using assms static_entry [of k d] by (auto simp: map catalog_inv_def map_add_Some_iff)
  qed
  then have "find (\<lambda>d. pd_key d = k) (filter (\<lambda>d. \<not> pd_isArchived d) (map snd ?m)) = map_of ?m k"
    by (intro find_keyed) blast
  then show ?thesis
    unfolding catalog_lookup_def getPermissionCatalog_def static_catalog_def [symmetric]
    by (simp add: map map_add_def split: option.split)
qed

text \<open>A known permission stays what it is when the catalog grows.\<close>

definition catalog_le :: "authz_db \<Rightarrow> authz_db \<Rightarrow> bool" where
  "catalog_le db db' \<longleftrightarrow> (\<forall>k d. catalog_lookup db k = Some d \<longrightarrow> catalog_lookup db' k = Some d)"

lemma catalog_le_same: "db_permissions db' = db_permissions db \<Longrightarrow> catalog_le db db'"
  by (simp add: catalog_le_def catalog_lookup_def getPermissionCatalog_def)

lemma issue_mono: "catalog_le db db' \<Longrightarrow> permission_issue db scope p = None \<Longrightarrow> permission_issue db' scope p = None"
  by (auto simp: catalog_le_def permission_issue_def split: option.splits)

lemma catalog_create:
  assumes "catalog_inv db" and "map_of (db_permissions db) k = None" and "map_of static_catalog k = None"
    and "pd_key d = k" and "\<not> pd_isArchived d" and "db_permissions db' = put k d (db_permissions db)"
  shows "catalog_inv db'" and "catalog_le db db'"
proof -
  show inv: "catalog_inv db'"
    using assms by (auto simp: catalog_inv_def)
  show "catalog_le db db'"
    using assms by (auto simp: catalog_le_def catalog_lookup_eq [OF inv] catalog_lookup_eq [OF assms(1)] split: option.split)
qed

lemma catalog_seed:
  assumes "catalog_inv db"
  shows "catalog_inv (seedRbacFoundation db)" and "catalog_le db (seedRbacFoundation db)"
proof -
  have perms: "map_of (db_permissions (seedRbacFoundation db)) = map_of (db_permissions db) ++ map_of static_catalog"
    by (simp add: seedRbacFoundation_def Let_def map_of_fold_put static_map)
  show inv: "catalog_inv (seedRbacFoundation db)"
    using assms static_entry
    by (auto simp: catalog_inv_def perms map_add_Some_iff)
       (simp_all add: seedRbacFoundation_def Let_def distinct_fold_put)
  have "d' = d" if "map_of (db_permissions db) k = Some d" "map_of static_catalog k = Some d'" for k d d'
    using assms that unfolding catalog_inv_def by metis
  then show "catalog_le db (seedRbacFoundation db)"
    by (auto simp: catalog_le_def catalog_lookup_eq [OF inv] catalog_lookup_eq [OF assms] perms map_add_def simp del: map_of_eq_Some_iff
        split: option.splits)
qed

section \<open>Roles\<close>

text \<open>A set of permissions a role of a scope may have.\<close>

definition role_ok :: "authz_db \<Rightarrow> resource_type \<Rightarrow> string list \<Rightarrow> bool" where
  "role_ok db scope ps \<longleftrightarrow> ps \<noteq> [] \<and> distinct ps \<and> (\<forall>p \<in> set ps. permission_issue db scope p = None) \<and>
     rolePermissionDependencyError ps = None"

lemma first_issue_None: "first_issue f xs = None \<longleftrightarrow> (\<forall>x \<in> set xs. f x = None)"
  by (induction xs) (auto split: option.split)

lemma validate_ok:
  "validateRolePermissions db scope ids = Inr ps \<longleftrightarrow> ps = set_of_list ids \<and> role_ok db scope ps"
proof (cases "first_issue (permission_issue db scope) (set_of_list ids)")
  case None
  then show ?thesis
    using None [unfolded first_issue_None]
    by (auto simp: validateRolePermissions_def Let_def role_ok_def simp del: set_set_of_list split: option.splits)
next
  case (Some e)
  then have "\<not> (\<forall>p \<in> set (set_of_list ids). permission_issue db scope p = None)"
    by (metis first_issue_None option.distinct(1))
  with Some show ?thesis
    by (auto simp: validateRolePermissions_def Let_def role_ok_def simp del: set_set_of_list)
qed

lemma role_ok_mono: "catalog_le db db' \<Longrightarrow> role_ok db scope ps \<Longrightarrow> role_ok db' scope ps"
  by (auto simp: role_ok_def intro: issue_mono)

lemma ids_replace [simp]:
  "role_permission_ids (replaceRolePermissions r ps db) i = (if i = r then ps else role_permission_ids db i)"
proof -
  have "filter (\<lambda>(r', p). r' = i) (filter (\<lambda>(r', p). r' \<noteq> r) xs) = (if i = r then [] else filter (\<lambda>(r', p). r' = i) xs)"
    for xs :: "(string \<times> string) list"
    by (induction xs) auto
  moreover have "filter (\<lambda>(r', p). r' = i) (map (Pair r) ps) = (if i = r then map (Pair r) ps else [])"
    by (induction ps) auto
  ultimately show ?thesis by (simp add: role_permission_ids_def replaceRolePermissions_def comp_def)
qed

lemma replace_fields [simp]:
  "db_roles (replaceRolePermissions r ps db) = db_roles db"
  "db_permissions (replaceRolePermissions r ps db) = db_permissions db"
  "db_assignments (replaceRolePermissions r ps db) = db_assignments db"
  by (simp_all add: replaceRolePermissions_def)

text \<open>What configurations did to a role that others may rely on: the scope it had before, and that it lost its permissions.\<close>

datatype role_event = ScopeChanged string resource_type | PermissionsCleared string

definition permissions_ok :: "role_event list \<Rightarrow> authz_db \<Rightarrow> string \<Rightarrow> resource_type \<Rightarrow> string list \<Rightarrow> bool" where
  "permissions_ok h db i scope ps \<longleftrightarrow> role_ok db scope ps \<or> (PermissionsCleared i \<in> set h \<and> ps = [])"

lemma permissions_ok_mono: "catalog_le db db' \<Longrightarrow> permissions_ok h db i scope ps \<Longrightarrow> permissions_ok h db' i scope ps"
  by (auto simp: permissions_ok_def intro: role_ok_mono)

definition roles_inv :: "role_event list \<Rightarrow> authz_db \<Rightarrow> bool" where
  "roles_inv h db \<longleftrightarrow> distinct (map fst (db_roles db)) \<and> distinct (db_rolePermissions db) \<and>
     (\<forall>i r. map_of (db_roles db) i = Some r \<longrightarrow> permissions_ok h db i (aro_scope r) (role_permission_ids db i))"

text \<open>The system roles have the rows and the permissions of their definitions.\<close>

definition system_inv :: "authz_db \<Rightarrow> bool" where
  "system_inv db \<longleftrightarrow> (\<forall>s \<in> set SystemRoleDefinitions. map_of (db_roles db) (sy_id s) = Some (system_role_row s) \<and>
     set (role_permission_ids db (sy_id s)) = set (sy_permissions s))"

section \<open>Assignments\<close>

definition scope_fits :: "resource_type \<Rightarrow> resource_type \<Rightarrow> string option \<Rightarrow> bool" where
  "scope_fits roleScope scopeType scopeId \<longleftrightarrow>
     (if roleScope = PlatformResource then scopeType = PlatformResource \<and> scopeId = None
      else truthy_str scopeId \<and> (scopeType = roleScope \<or> roleScope = EngineResource \<and> engine_target scopeType))"

text \<open>An assignment fits the scope its role has, or one that it had before a configuration moved it.\<close>

definition assignment_fits :: "role_event list \<Rightarrow> role_row \<Rightarrow> assignment_row \<Rightarrow> bool" where
  "assignment_fits h role a \<longleftrightarrow> scope_fits (aro_scope role) (asg_scopeType a) (asg_scopeId a) \<or>
     (\<exists>s. ScopeChanged (asg_roleId a) s \<in> set h \<and> scope_fits s (asg_scopeType a) (asg_scopeId a))"

definition assignments_inv :: "role_event list \<Rightarrow> authz_db \<Rightarrow> bool" where
  "assignments_inv h db \<longleftrightarrow> distinct (map fst (db_assignments db)) \<and>
     distinct (map (asg_assignmentKey \<circ> snd) (db_assignments db)) \<and>
     (\<forall>(k, a) \<in> set (db_assignments db). \<exists>role. map_of (db_roles db) (asg_roleId a) = Some role \<and> assignment_fits h role a)"

definition role_inv :: "role_event list \<Rightarrow> authz_db \<Rightarrow> bool" where
  "role_inv h db \<longleftrightarrow> catalog_inv db \<and> roles_inv h db \<and> system_inv db \<and> assignments_inv h db"

lemma role_inv_later: "role_inv h db \<Longrightarrow> role_inv (h @ es) db"
  by (fastforce simp: role_inv_def roles_inv_def permissions_ok_def assignments_inv_def assignment_fits_def)

lemma normalize_scope_fits:
  "normalizeAssignmentScope roleScope rt rid = Inr (st, sid) \<Longrightarrow> scope_fits roleScope st sid"
  by (auto simp: normalizeAssignmentScope_def scope_fits_def Let_def split: if_split_asm)

text \<open>Fewer assignments, and changes that keep key, role and scope, keep the invariant.\<close>

lemma assignments_filter:
  "assignments_inv h db \<Longrightarrow> assignments_inv h (db\<lparr>db_assignments := filter P (db_assignments db)\<rparr>)"
  by (auto simp: assignments_inv_def distinct_map_filter)

lemma assignments_roles:
  assumes "assignments_inv h db" and "db_assignments db' = db_assignments db"
    and "\<And>i r. map_of (db_roles db) i = Some r \<Longrightarrow> \<exists>r'. map_of (db_roles db') i = Some r' \<and> aro_scope r' = aro_scope r"
  shows "assignments_inv h db'"
  using assms(1,2) unfolding assignments_inv_def assignment_fits_def by (fastforce dest: assms(3))


section \<open>The operations keep the invariant\<close>

lemma ids_same: "db_rolePermissions db' = db_rolePermissions db \<Longrightarrow> role_permission_ids db' i = role_permission_ids db i"
  by (simp add: role_permission_ids_def)

lemma ids_roles [simp]: "role_permission_ids (db\<lparr>db_roles := rs\<rparr>) i = role_permission_ids db i"
  by (rule ids_same) simp

lemma distinct_replace:
  "distinct (db_rolePermissions db) \<Longrightarrow> distinct ps \<Longrightarrow> distinct (db_rolePermissions (replaceRolePermissions r ps db))"
  by (auto simp: replaceRolePermissions_def distinct_map inj_on_def)

text \<open>A new row for one role, with its permissions.\<close>

lemma roles_put:
  assumes "roles_inv h db" and "catalog_le db db'" and "db_roles db' = put i r (db_roles db)"
    and "distinct (db_rolePermissions db')"
    and "\<And>j. j \<noteq> i \<Longrightarrow> role_permission_ids db' j = role_permission_ids db j"
    and "permissions_ok h db i (aro_scope r) (role_permission_ids db' i)"
  shows "roles_inv h db'"
  using assms by (auto simp: roles_inv_def intro: permissions_ok_mono)

lemma system_put:
  assumes "system_inv db" and "db_roles db' = put i r (db_roles db)"
    and "\<And>j. j \<noteq> i \<Longrightarrow> role_permission_ids db' j = role_permission_ids db j"
    and "i \<notin> sy_id ` set SystemRoleDefinitions"
  shows "system_inv db'"
proof -
  have "sy_id s \<noteq> i" if "s \<in> set SystemRoleDefinitions" for s using that assms(4) by blast
  with assms(1-3) show ?thesis by (simp add: system_inv_def)
qed

lemma custom_not_system:
  "system_inv db \<Longrightarrow> map_of (db_roles db) i = Some r \<Longrightarrow> aro_isCustom r \<Longrightarrow> i \<notin> sy_id ` set SystemRoleDefinitions"
  by (auto simp: system_inv_def system_role_row_def)

lemma new_not_system:
  "system_inv db \<Longrightarrow> map_of (db_roles db) i = None \<Longrightarrow> i \<notin> sy_id ` set SystemRoleDefinitions"
  by (auto simp: system_inv_def)

lemma assignments_put:
  assumes "assignments_inv h db" and "db_assignments db' = db_assignments db" and "db_roles db' = put i r (db_roles db)"
    and "\<And>old. map_of (db_roles db) i = Some old \<Longrightarrow> aro_scope r = aro_scope old \<or> ScopeChanged i (aro_scope old) \<in> set h"
  shows "assignments_inv h db'"
proof -
  have "\<exists>role. map_of (db_roles db') (asg_roleId a) = Some role \<and> assignment_fits h role a"
    if "(k, a) \<in> set (db_assignments db)" for k a
  proof -
    from that assms(1) obtain old where old: "map_of (db_roles db) (asg_roleId a) = Some old" "assignment_fits h old a"
      by (auto simp: assignments_inv_def)
    show ?thesis
    proof (cases "asg_roleId a = i")
      case True
      with old assms(4) [of old] have "assignment_fits h r a" by (auto simp: assignment_fits_def)
      with True show ?thesis by (simp add: assms(3))
    next
      case False
      with old show ?thesis by (simp add: assms(3))
    qed
  qed
  with assms(1,2) show ?thesis by (auto simp: assignments_inv_def)
qed

text \<open>One role written over a catalog that stays: what creation and the two updates share.\<close>

lemma role_inv_put:
  assumes "role_inv h db" and "db_permissions db' = db_permissions db" and "db_assignments db' = db_assignments db"
    and "db_roles db' = put i r (db_roles db)" and "i \<notin> sy_id ` set SystemRoleDefinitions"
    and "\<And>old. map_of (db_roles db) i = Some old \<Longrightarrow> aro_scope r = aro_scope old \<or> ScopeChanged i (aro_scope old) \<in> set h"
    and "distinct (db_rolePermissions db')"
    and "\<And>j. j \<noteq> i \<Longrightarrow> role_permission_ids db' j = role_permission_ids db j"
    and "permissions_ok h db i (aro_scope r) (role_permission_ids db' i)"
  shows "role_inv h db'"
proof -
  have inv: "catalog_inv db" "roles_inv h db" "system_inv db" "assignments_inv h db" using assms(1) by (simp_all add: role_inv_def)
  have "catalog_inv db'" using inv(1) assms(2) by (simp add: catalog_inv_def)
  moreover have "roles_inv h db'"
    using inv(2) catalog_le_same [OF assms(2)] assms(4,7,8,9) by (rule roles_put)
  moreover have "system_inv db'" using inv(3) assms(4,8,5) by (rule system_put)
  moreover have "assignments_inv h db'" using inv(4) assms(3,4,6) by (rule assignments_put)
  ultimately show ?thesis by (simp add: role_inv_def)
qed

lemma unless_Inl: "(if c then Inl e else m) = Inr y \<longleftrightarrow> \<not> c \<and> m = Inr y"
  by simp

lemma create_role_cases:
  assumes "createCustomRole newId input db = Inr db'"
  shows "\<exists>ps t key name source ref. validateRolePermissions db (cri_scope input) (cri_permissionIds input) = Inr ps \<and>
     map_of (db_roles db) newId = None \<and>
     db' = replaceRolePermissions newId ps (db\<lparr>db_roles := put newId (new_role_row input t key name source ref) (db_roles db)\<rparr>)"
proof -
  have "\<exists>ps key source. validateRolePermissions db (cri_scope input) (cri_permissionIds input) = Inr ps \<and>
     map_of (db_roles db) newId = None \<and>
     db' = replaceRolePermissions newId ps (db\<lparr>db_roles := put newId (new_role_row input
       (normalizeTenantIdForPersistence (cri_tenantId input)) key (trim (cri_name input)) source (trimmed (cri_sourceRef input))) (db_roles db)\<rparr>)"
    using assms unfolding createCustomRole_def Let_def
    unfolding bind_res_Inr unless_Inl sum.inject de_Morgan_disj not_not by blast
  then show ?thesis by blast
qed

lemma create_role_inv:
  assumes "role_inv h db" and "createCustomRole newId input db = Inr db'"
  shows "role_inv h db'"
proof -
  from create_role_cases [OF assms(2)] obtain ps t key name source ref
    where ps: "validateRolePermissions db (cri_scope input) (cri_permissionIds input) = Inr ps"
      and fresh: "map_of (db_roles db) newId = None"
      and db': "db' = replaceRolePermissions newId ps (db\<lparr>db_roles := put newId (new_role_row input t key name source ref) (db_roles db)\<rparr>)"
    by blast
  have scope: "aro_scope (new_role_row input t key name source ref) = cri_scope input" by (simp add: new_role_row_def)
  from ps [unfolded validate_ok] have ok: "role_ok db (cri_scope input) ps" by (rule conjunct2)
  from assms(1) have inv: "system_inv db" "distinct (db_rolePermissions db)" by (simp_all add: role_inv_def roles_inv_def)
  show ?thesis
    using assms(1)
  proof (rule role_inv_put)
    show "newId \<notin> sy_id ` set SystemRoleDefinitions" using inv(1) fresh by (rule new_not_system)
    show "distinct (db_rolePermissions db')"
      using inv(2) ok by (auto simp: db' role_ok_def intro: distinct_replace)
    show "permissions_ok h db newId (aro_scope (new_role_row input t key name source ref)) (role_permission_ids db' newId)"
      unfolding db' scope ids_replace permissions_ok_def using ok by simp
  qed (simp_all add: db' fresh)
qed

lemma update_role_cases:
  assumes "updateCustomRole i input db = Inr db'"
  shows "\<exists>role. map_of (db_roles db) i = Some role \<and> aro_isCustom role \<and>
     (db' = db\<lparr>db_roles := put i (updated_role input role) (db_roles db)\<rparr> \<or>
      (\<exists>ids ps. validateRolePermissions db (aro_scope role) ids = Inr ps \<and>
         db' = replaceRolePermissions i ps (db\<lparr>db_roles := put i (updated_role input role) (db_roles db)\<rparr>)))"
proof (cases "map_of (db_roles db) i")
  case None
  with assms show ?thesis by (simp add: updateCustomRole_def)
next
  case (Some role)
  then show ?thesis
    using assms unfolding updateCustomRole_def Let_def Some option.case bind_res_Inr unless_Inl de_Morgan_disj not_not
    by (cases "uri_permissionIds input") (simp_all only: option.case bind_res_Inr sum.inject option.inject, blast+)
qed

lemma update_role_inv:
  assumes "role_inv h db" and "updateCustomRole i input db = Inr db'"
  shows "role_inv h db'"
proof -
  from assms(1) have inv: "system_inv db" "roles_inv h db" by (simp_all add: role_inv_def)
  from update_role_cases [OF assms(2)] obtain role where role: "map_of (db_roles db) i = Some role" "aro_isCustom role"
      and cases: "db' = db\<lparr>db_roles := put i (updated_role input role) (db_roles db)\<rparr> \<or>
        (\<exists>ids ps. validateRolePermissions db (aro_scope role) ids = Inr ps \<and>
           db' = replaceRolePermissions i ps (db\<lparr>db_roles := put i (updated_role input role) (db_roles db)\<rparr>))"
    by blast
  have scope: "aro_scope (updated_role input role) = aro_scope role" by (simp add: updated_role_def Let_def)
  have sys: "i \<notin> sy_id ` set SystemRoleDefinitions" using inv(1) role by (rule custom_not_system)
  from inv(2) role(1) have old: "permissions_ok h db i (aro_scope role) (role_permission_ids db i)" "distinct (db_rolePermissions db)"
    by (auto simp: roles_inv_def)
  have same: "aro_scope (updated_role input role) = aro_scope r \<or> ScopeChanged i (aro_scope r) \<in> set h"
    if "map_of (db_roles db) i = Some r" for r
    using that role(1) scope by simp
  from cases show ?thesis
  proof (elim disjE exE conjE)
    assume db': "db' = db\<lparr>db_roles := put i (updated_role input role) (db_roles db)\<rparr>"
    have ids: "role_permission_ids db' j = role_permission_ids db j" for j
      by (rule ids_same) (simp add: db')
    show ?thesis
      using assms(1)
    proof (rule role_inv_put)
      show "permissions_ok h db i (aro_scope (updated_role input role)) (role_permission_ids db' i)"
        unfolding scope ids by (rule old(1))
      show "distinct (db_rolePermissions db')" using old(2) by (simp add: db')
    qed (fact sys same ids | simp add: db')+
  next
    fix ids ps
    assume v: "validateRolePermissions db (aro_scope role) ids = Inr ps"
      and db': "db' = replaceRolePermissions i ps (db\<lparr>db_roles := put i (updated_role input role) (db_roles db)\<rparr>)"
    from v [unfolded validate_ok] have ok: "role_ok db (aro_scope role) ps" by (rule conjunct2)
    show ?thesis
      using assms(1)
    proof (rule role_inv_put)
      show "distinct (db_rolePermissions db')"
        using old(2) ok by (auto simp: db' role_ok_def intro: distinct_replace)
      show "permissions_ok h db i (aro_scope (updated_role input role)) (role_permission_ids db' i)"
        unfolding scope db' ids_replace permissions_ok_def using ok by simp
    qed (fact sys same | simp add: db')+
  qed
qed


text \<open>What the administration of roles does not touch.\<close>

definition same_roles :: "authz_db \<Rightarrow> authz_db \<Rightarrow> bool" where
  "same_roles db db' \<longleftrightarrow> db_permissions db' = db_permissions db \<and> db_roles db' = db_roles db \<and>
     db_rolePermissions db' = db_rolePermissions db"

lemma role_inv_assignments:
  assumes "role_inv h db" and "same_roles db db'" and "assignments_inv h db'"
  shows "role_inv h db'"
proof -
  from assms(2) have tables: "db_permissions db' = db_permissions db" "db_roles db' = db_roles db"
      "db_rolePermissions db' = db_rolePermissions db" by (simp_all add: same_roles_def)
  have ids: "role_permission_ids db' i = role_permission_ids db i" for i by (rule ids_same) (rule tables(3))
  have le: "catalog_le db db'" by (rule catalog_le_same) (rule tables(1))
  from assms(1) have inv: "catalog_inv db" "roles_inv h db" "system_inv db" by (simp_all add: role_inv_def)
  have "roles_inv h db'" using inv(2) unfolding roles_inv_def tables ids by (auto intro: permissions_ok_mono [OF le])
  moreover have "system_inv db'" using inv(3) unfolding system_inv_def tables ids .
  moreover have "catalog_inv db'" using inv(1) unfolding catalog_inv_def tables .
  ultimately show ?thesis using assms(3) by (simp add: role_inv_def)
qed

lemma assignments_part:
  assumes "assignments_inv h db" and "db_assignments db' = filter P (db_assignments db)" and "db_roles db' = db_roles db"
  shows "assignments_inv h db'"
  using assms by (auto simp: assignments_inv_def distinct_map_filter)

lemma del_filter: "del k m = filter (\<lambda>row. fst row \<noteq> k) m"
  by (induction m) auto

lemma role_inv_filter:
  assumes "role_inv h db" and "same_roles db db'" and "db_assignments db' = filter P (db_assignments db)"
  shows "role_inv h db'"
proof (rule role_inv_assignments [OF assms(1,2)])
  show "assignments_inv h db'"
    using assms(1,2) by (intro assignments_part [OF _ assms(3)]) (simp_all add: role_inv_def same_roles_def)
qed

lemma remove_assignment_inv:
  assumes "role_inv h db" and "removeRoleAssignment i sso db = Inr db'"
  shows "role_inv h db'"
proof (rule role_inv_filter [OF assms(1)])
  have "same_roles db db' \<and> db_assignments db' = filter (\<lambda>row. fst row \<noteq> i) (db_assignments db)"
    using assms(2)
    by (auto simp: removeRoleAssignment_def Let_def same_roles_def del_filter split: option.split_asm if_split_asm)
  then show "same_roles db db'" and "db_assignments db' = filter (\<lambda>row. fst row \<noteq> i) (db_assignments db)"
    by simp_all
qed

lemma delete_assignments_inv:
  assumes "role_inv h db" and "deleteResolvedRoleAssignments ids t source ref db = Inr db'"
  shows "role_inv h db'"
proof (cases "ids = []")
  case True
  with assms show ?thesis by (simp add: deleteResolvedRoleAssignments_def)
next
  case False
  with assms(2) obtain P where db': "db' = db\<lparr>db_assignments := filter P (db_assignments db)\<rparr>"
    unfolding deleteResolvedRoleAssignments_def Let_def if_not_P [OF False] unless_Inl sum.inject by blast
  show ?thesis
    by (rule role_inv_filter [OF assms(1), of _ P]) (simp_all add: db' same_roles_def)
qed

lemma cleanup_assignments_inv:
  assumes "role_inv h db"
  shows "role_inv h (snd (cleanupExpiredRoleAssignments now ids db))"
  by (rule role_inv_filter [OF assms, of _ "\<lambda>row. \<not> assignment_expired now ids row"])
     (simp_all add: cleanupExpiredRoleAssignments_def same_roles_def)

lemma update_assignment_inv:
  assumes "role_inv h db"
  shows "role_inv h (updateResolvedRoleAssignment i e m db)"
proof (rule role_inv_assignments [OF assms])
  show "same_roles db (updateResolvedRoleAssignment i e m db)"
    by (simp add: updateResolvedRoleAssignment_def same_roles_def)
  show "assignments_inv h (updateResolvedRoleAssignment i e m db)"
    using assms unfolding role_inv_def assignments_inv_def assignment_fits_def updateResolvedRoleAssignment_def
    by (simp add: comp_def case_prod_unfold if_distrib [of asg_assignmentKey] if_distrib [of fst] cong: if_cong)
qed

text \<open>A new assignment fits its role, and no other has its key.\<close>

lemma assign_cases:
  assumes "assignRole newId input db = Inr (i, db')"
  shows "db' = db \<and> i \<in> set (map fst (db_assignments db)) \<or>
     (\<exists>role a. i = newId \<and> map_of (db_assignments db) newId = None \<and> db' = db\<lparr>db_assignments := db_assignments db @ [(newId, a)]\<rparr> \<and>
        map_of (db_roles db) (asg_roleId a) = Some role \<and> scope_fits (aro_scope role) (asg_scopeType a) (asg_scopeId a) \<and>
        asg_assignmentKey a \<notin> set (map (asg_assignmentKey \<circ> snd) (db_assignments db)))"
proof (cases "map_of (db_roles db) (ain_roleId input)")
  case None
  with assms show ?thesis by (simp add: assignRole_def)
next
  case (Some role)
  let ?tenant = "normalizeTenantIdForPersistence (ain_tenantId input)"
  let ?source = "case ain_source input of None \<Rightarrow> ''manual'' | Some s \<Rightarrow> s"
  from assms have "\<exists>who res. normalizeAssignmentScope (aro_scope role) (ain_scopeType input) (ain_scopeId input) = Inr res \<and>
      store_assignment newId ?tenant who (fst res) (snd res) ?source input db = Inr (i, db')"
    unfolding assignRole_def Let_def Some option.case bind_res_Inr unless_Inl case_prod_unfold by blast
  then obtain who st sid where fits: "scope_fits (aro_scope role) st sid"
      and store: "store_assignment newId ?tenant who st sid ?source input db = Inr (i, db')"
    using normalize_scope_fits by fastforce
  show ?thesis
  proof (cases "find (\<lambda>row. asg_assignmentKey (snd row) = assignment_key (ain_tenantId input) who (ain_roleId input) st sid ?source (ain_sourceRef input)) (db_assignments db)")
    case None
    then have "assignment_key (ain_tenantId input) who (ain_roleId input) st sid ?source (ain_sourceRef input)
        \<notin> set (map (asg_assignmentKey \<circ> snd) (db_assignments db))"
      unfolding find_None_iff by fastforce
    moreover from None store have "map_of (db_assignments db) newId = None \<and> i = newId \<and> db' = db\<lparr>db_assignments := db_assignments db @
        [(newId, new_assignment ?tenant who (ain_roleId input) st sid ?source input)]\<rparr>"
      unfolding store_assignment_def Let_def by (auto split: if_split_asm)
    ultimately show ?thesis
      using Some fits
      by (intro disjI2 exI [of _ role] exI [of _ "new_assignment ?tenant who (ain_roleId input) st sid ?source input"])
         (auto simp: new_assignment_def)
  next
    case (Some row)
    then have "row \<in> set (db_assignments db)" by (auto simp: find_Some_iff)
    with Some store show ?thesis unfolding store_assignment_def Let_def by auto
  qed
qed

lemma assign_inv:
  assumes "role_inv h db" and "assignRole newId input db = Inr (i, db')"
  shows "role_inv h db'"
  using assign_cases [OF assms(2)]
proof (elim disjE conjE exE)
  assume "db' = db"
  with assms(1) show ?thesis by simp
next
  fix role a
  assume new: "map_of (db_assignments db) newId = None" "db' = db\<lparr>db_assignments := db_assignments db @ [(newId, a)]\<rparr>"
    "map_of (db_roles db) (asg_roleId a) = Some role" "scope_fits (aro_scope role) (asg_scopeType a) (asg_scopeId a)"
    "asg_assignmentKey a \<notin> set (map (asg_assignmentKey \<circ> snd) (db_assignments db))"
  from assms(1) have inv: "assignments_inv h db" by (simp add: role_inv_def)
  have "newId \<notin> fst ` set (db_assignments db)" using new(1) by (simp add: map_of_eq_None_iff)
  then have "assignments_inv h db'"
    using inv new(3-5) by (auto simp: new(2) assignments_inv_def assignment_fits_def)
  moreover have "same_roles db db'" by (simp add: new(2) same_roles_def)
  ultimately show ?thesis using assms(1) by (blast intro: role_inv_assignments)
qed


text \<open>A configuration writes a role of its own: the update may move it to another scope.\<close>

lemma map_put:
  "distinct (map fst m) \<Longrightarrow> map_of m i = Some r \<Longrightarrow> map (\<lambda>(k, v). (k, if k = i then f v else v)) m = put i (f r) m"
proof (induction m)
  case (Cons row m)
  have "map (\<lambda>(k, v). (k, if k = i then f v else v)) m = m" if "i \<notin> fst ` set m"
    using that by (induction m) auto
  with Cons show ?case by (cases row) auto
qed simp

lemma issue_same: "db_permissions db' = db_permissions db \<Longrightarrow> permission_issue db' scope p = permission_issue db scope p"
  by (simp add: permission_issue_def catalog_lookup_def getPermissionCatalog_def)

lemma configured_cases:
  assumes "distinct (map fst (db_roles db))" and "map_of (db_roles db) i = Some role"
    and "updateConfiguredCustomRole i input db = Inr db'"
  shows "let changed = db\<lparr>db_roles := put i (configured_role input role) (db_roles db)\<rparr> in
     (cru_permissionIds input = None \<and> db' = changed) \<or>
     (\<exists>ids ps s. cru_permissionIds input = Some ids \<and> cru_scope input = Some s \<and>
        validateRolePermissions changed s ids = Inr ps \<and> db' = replaceRolePermissions i ps changed)"
  using assms(3) unfolding updateConfiguredCustomRole_def Let_def map_put [OF assms(1,2)]
  by (auto split: option.split_asm)

lemma config_not_system:
  "system_inv db \<Longrightarrow> map_of (db_roles db) i = Some r \<Longrightarrow> aro_source r = ''config'' \<Longrightarrow> i \<notin> sy_id ` set SystemRoleDefinitions"
  by (auto simp: system_inv_def system_role_row_def)

lemma apply_update_inv:
  assumes "role_inv h db" and "map_of (db_roles db) i = Some role" and "aro_source role = ''config''"
    and "apply_role_update i desired permissions db = Inr db'"
  shows "role_inv (h @ [ScopeChanged i (aro_scope role)]) db'"
    and "dro_scope desired = aro_scope role \<Longrightarrow> role_inv h db'"
proof -
  from assms(1) have inv: "system_inv db" "roles_inv h db" by (simp_all add: role_inv_def)
  have keys: "distinct (map fst (db_roles db))" and old: "distinct (db_rolePermissions db)" using inv(2) by (simp_all add: roles_inv_def)
  from configured_cases [OF keys assms(2) assms(4) [unfolded apply_role_update_def]]
  obtain ps new where v: "validateRolePermissions (db\<lparr>db_roles := put i new (db_roles db)\<rparr>) (dro_scope desired) permissions = Inr ps"
      and db': "db' = replaceRolePermissions i ps (db\<lparr>db_roles := put i new (db_roles db)\<rparr>)" and scope: "aro_scope new = dro_scope desired"
    by (auto simp: Let_def configured_role_def)
  have sys: "i \<notin> sy_id ` set SystemRoleDefinitions" using inv(1) assms(2,3) by (rule config_not_system)
  from v [unfolded validate_ok] have "role_ok (db\<lparr>db_roles := put i new (db_roles db)\<rparr>) (dro_scope desired) ps" by (rule conjunct2)
  moreover have "permission_issue (db\<lparr>db_roles := put i new (db_roles db)\<rparr>) s p = permission_issue db s p" for s p
    by (rule issue_same) simp
  ultimately have ok: "role_ok db (aro_scope new) ps" by (simp add: role_ok_def scope)
  have dist: "distinct (db_rolePermissions db')" using old ok by (auto simp: db' role_ok_def intro: distinct_replace)
  have put: "role_inv g db'" if "role_inv g db" and "aro_scope new = aro_scope role \<or> ScopeChanged i (aro_scope role) \<in> set g" for g
    using that(1)
  proof (rule role_inv_put)
    show "permissions_ok g db i (aro_scope new) (role_permission_ids db' i)"
      unfolding db' ids_replace permissions_ok_def using ok by simp
  qed (use that(2) assms(2) sys dist in \<open>simp_all add: db'\<close>)
  show "role_inv (h @ [ScopeChanged i (aro_scope role)]) db'" by (rule put) (simp_all add: role_inv_later [OF assms(1)])
  show "role_inv h db'" if "dro_scope desired = aro_scope role" by (rule put) (simp_all add: assms(1) scope that)
qed

text \<open>
  Such a move leaves the assignments of the role where they are: one at a project stays at the project although the role
  is now of another scope, which no assignment could be made for.
\<close>

lemma moved_role_strands:
  assumes "roles_inv h db" and "map_of (db_roles db) i = Some role" and "apply_role_update i desired permissions db = Inr db'"
    and "(k, a) \<in> set (db_assignments db)" and "asg_roleId a = i" and "asg_scopeType a = ProjectResource"
    and "dro_scope desired \<noteq> ProjectResource"
  shows "(k, a) \<in> set (db_assignments db')"
    and "\<exists>role'. map_of (db_roles db') i = Some role' \<and> \<not> scope_fits (aro_scope role') (asg_scopeType a) (asg_scopeId a)"
proof -
  have keys: "distinct (map fst (db_roles db))" using assms(1) by (simp add: roles_inv_def)
  from configured_cases [OF keys assms(2) assms(3) [unfolded apply_role_update_def]]
  obtain ps new where db': "db' = replaceRolePermissions i ps (db\<lparr>db_roles := put i new (db_roles db)\<rparr>)"
      and scope: "aro_scope new = dro_scope desired"
    by (auto simp: Let_def configured_role_def)
  show "(k, a) \<in> set (db_assignments db')" using assms(4) by (simp add: db')
  show "\<exists>role'. map_of (db_roles db') i = Some role' \<and> \<not> scope_fits (aro_scope role') (asg_scopeType a) (asg_scopeId a)"
    using assms(6,7) by (simp add: db' scope scope_fits_def engine_target_def)
qed

lemma apply_archive_inv:
  assumes "role_inv h db" and "map_of (db_roles db) i = Some role" and "aro_source role = ''config''"
    and "apply_role_archive i db = Inr db'"
  shows "role_inv (h @ [PermissionsCleared i]) db'"
proof -
  from assms(1) have inv: "system_inv db" "roles_inv h db" by (simp_all add: role_inv_def)
  have keys: "distinct (map fst (db_roles db))" and old: "distinct (db_rolePermissions db)" using inv(2) by (simp_all add: roles_inv_def)
  from assms(4) obtain mid where mid: "updateConfiguredCustomRole i
     \<lparr>cru_name = None, cru_scope = None, cru_permissionIds = None, cru_isArchived = Some True, cru_isAssignable = Some False,
      cru_ownershipMode = None, cru_driftStatus = Some (Some ''in_sync'')\<rparr> db = Inr mid"
      and end_state: "db' = replaceRolePermissions i [] mid"
    by (auto simp: apply_role_archive_def replaceRolePermissions_def)
  from configured_cases [OF keys assms(2) mid] obtain new where new: "mid = db\<lparr>db_roles := put i new (db_roles db)\<rparr>" "aro_scope new = aro_scope role"
    by (auto simp: Let_def configured_role_def)
  have sys: "i \<notin> sy_id ` set SystemRoleDefinitions" using inv(1) assms(2,3) by (rule config_not_system)
  have dist: "distinct (db_rolePermissions db')" using old by (auto simp: end_state new(1) intro: distinct_replace)
  show ?thesis
    using role_inv_later [OF assms(1), of "[PermissionsCleared i]"]
  proof (rule role_inv_put)
    show "permissions_ok (h @ [PermissionsCleared i]) db i (aro_scope new) (role_permission_ids db' i)"
      unfolding end_state ids_replace permissions_ok_def by simp
  qed (use new assms(2) sys dist in \<open>simp_all add: end_state\<close>)
qed

lemma create_permission_inv:
  assumes "role_inv h db" and "createCustomPermission input db = Inr db'"
  shows "role_inv h db'"
proof -
  let ?key = "lower_case (trim (cpi_key input))"
  let ?d = "\<lparr>pd_key = ?key, pd_scope = cpi_scope input, pd_category = trim (cpi_category input), pd_isCustom = True, pd_isArchived = False\<rparr>"
  from assms(2) have new: "?key \<notin> set (map pd_key PermissionCatalog)" "map_of (db_permissions db) ?key = None"
    and db': "db' = db\<lparr>db_permissions := put ?key ?d (db_permissions db)\<rparr>"
    unfolding createCustomPermission_def Let_def validateCustomPermissionKey_def bind_res_Inr unless_Inl throw_if_Inr
    by simp_all
  from assms(1) have inv: "catalog_inv db" "roles_inv h db" "system_inv db" "assignments_inv h db" by (simp_all add: role_inv_def)
  note new_catalog = catalog_create [OF inv(1) new(2) static_None [OF new(1)], of ?d db']
  have tables: "db_roles db' = db_roles db" "db_rolePermissions db' = db_rolePermissions db" "db_assignments db' = db_assignments db"
    by (simp_all add: db')
  have ids: "role_permission_ids db' i = role_permission_ids db i" for i by (rule ids_same) (rule tables(2))
  have "catalog_le db db'" "catalog_inv db'" using new_catalog by (simp_all add: db')
  moreover from this(1) inv(2) have "roles_inv h db'" unfolding roles_inv_def tables ids by (auto intro: permissions_ok_mono)
  ultimately show ?thesis
    using inv(3,4) unfolding role_inv_def system_inv_def assignments_inv_def tables ids by blast
qed


section \<open>Seeding\<close>

lemma map_of_fold_roles:
  "map_of (fold (\<lambda>r. put (f r) (g r)) xs m) k = (case map_of (rev (map (\<lambda>x. (f x, g x)) xs)) k of None \<Rightarrow> map_of m k | Some v \<Rightarrow> Some v)"
proof (induction xs arbitrary: m)
  case (Cons x xs)
  then show ?case by (auto split: option.split)
qed simp

lemma map_of_system:
  "map_of (rev (map (\<lambda>x. (sy_id x, system_role_row x)) SystemRoleDefinitions)) =
     map_of (map (\<lambda>x. (sy_id x, system_role_row x)) SystemRoleDefinitions)"
  by (rule map_of_rev_distinct) (use system_ids in \<open>simp add: comp_def\<close>)

lemma system_lookup:
  "s \<in> set SystemRoleDefinitions \<Longrightarrow> map_of (map (\<lambda>x. (sy_id x, system_role_row x)) SystemRoleDefinitions) (sy_id s) = Some (system_role_row s)"
  using system_ids by (intro map_of_is_SomeI) (auto simp: comp_def)

lemma seed_roles:
  "s \<in> set SystemRoleDefinitions \<Longrightarrow> map_of (db_roles (seedRbacFoundation db)) (sy_id s) = Some (system_role_row s)"
  "i \<notin> sy_id ` set SystemRoleDefinitions \<Longrightarrow> map_of (db_roles (seedRbacFoundation db)) i = map_of (db_roles db) i"
  by (simp_all add: seedRbacFoundation_def Let_def map_of_fold_roles map_of_system system_lookup)
     (auto split: option.split dest!: map_of_SomeD)

lemma in_system_permissions:
  "(sy_id s, p) \<in> set system_role_permissions \<longleftrightarrow> p \<in> set (sy_permissions s)" if "s \<in> set SystemRoleDefinitions"
proof -
  have "s' = s" if "s' \<in> set SystemRoleDefinitions" "sy_id s' = sy_id s" for s'
    using system_ids that \<open>s \<in> _\<close> by (simp add: distinct_map inj_on_def)
  moreover have "(sy_id s, p) \<in> set system_role_permissions \<longleftrightarrow> (\<exists>s' \<in> set SystemRoleDefinitions. sy_id s' = sy_id s \<and> p \<in> set (sy_permissions s'))"
    by (auto simp: system_role_permissions_def) (metis image_eqI)
  ultimately show ?thesis using that by blast
qed

lemma seed_permissions:
  "set (db_rolePermissions (seedRbacFoundation db)) =
     {(r, p) \<in> set (db_rolePermissions db). r \<notin> sy_id ` set SystemRoleDefinitions} \<union> set system_role_permissions"
  by (auto simp: seedRbacFoundation_def Let_def)

lemma set_ids: "set (role_permission_ids db i) = {p. (i, p) \<in> set (db_rolePermissions db)}"
  by (auto simp: role_permission_ids_def image_iff)

lemma seed_system_ids:
  "s \<in> set SystemRoleDefinitions \<Longrightarrow> set (role_permission_ids (seedRbacFoundation db) (sy_id s)) = set (sy_permissions s)"
  by (auto simp: set_ids seed_permissions in_system_permissions)

lemma seed_other_ids:
  assumes "i \<notin> sy_id ` set SystemRoleDefinitions"
  shows "set (role_permission_ids (seedRbacFoundation db) i) = set (role_permission_ids db i)"
proof -
  have "(i, p) \<notin> set system_role_permissions" for p using assms by (auto simp: system_role_permissions_def)
  with assms show ?thesis by (auto simp: set_ids seed_permissions)
qed

lemma distinct_ids: "distinct (db_rolePermissions db) \<Longrightarrow> distinct (role_permission_ids db i)"
  by (auto simp: role_permission_ids_def distinct_map inj_on_def)

lemma role_ok_set:
  "role_ok db scope ps \<longleftrightarrow> distinct ps \<and> set ps \<noteq> {} \<and> (\<forall>p \<in> set ps. permission_issue db scope p = None) \<and>
     rolePermissionDependencyError ps = None"
  by (auto simp: role_ok_def)

text \<open>The seeding makes the invariant hold where the system roles are missing or as they are defined.\<close>

lemma seed_inv:
  assumes "catalog_inv db" and "roles_inv h db" and "assignments_inv h db"
    and system: "\<And>s r. s \<in> set SystemRoleDefinitions \<Longrightarrow> map_of (db_roles db) (sy_id s) = Some r \<Longrightarrow> r = system_role_row s"
  shows "role_inv h (seedRbacFoundation db)"
proof -
  let ?db = "seedRbacFoundation db"
  have cat: "catalog_inv ?db" "catalog_le db ?db" using catalog_seed [OF assms(1)] .
  have dist: "distinct (db_rolePermissions ?db)"
    using assms(2) by (simp add: seedRbacFoundation_def Let_def roles_inv_def distinct_fold_set_add)
  have sys_ok: "role_ok ?db (sy_scope s) (role_permission_ids ?db (sy_id s))" if s: "s \<in> set SystemRoleDefinitions" for s
  proof -
    have known: "permission_issue ?db (sy_scope s) p = None" if "p \<in> set (sy_permissions s)" for p
    proof -
      obtain d where d: "map_of static_catalog p = Some d" "pd_key d = p" "\<not> pd_isArchived d"
          "rolePermissionValidationError (sy_scope s) p (pd_scope d) = None"
        using system_role_fits [OF s \<open>p \<in> _\<close>] by blast
      have "map_of (db_permissions ?db) p = Some d"
        using d(1) by (simp add: seedRbacFoundation_def Let_def map_of_fold_put flip: static_map)
      with d show ?thesis
        by (simp add: permission_issue_def catalog_lookup_eq [OF cat(1)])
    qed
    moreover have "rolePermissionDependencyError (role_permission_ids ?db (sy_id s)) = None"
      using dependency_set [OF seed_system_ids [OF s]] system_dependencies s by (simp add: list_all_iff)
    moreover have "sy_permissions s \<noteq> []" using system_nonempty s by (simp add: list_all_iff)
    ultimately show ?thesis
      by (simp add: role_ok_set seed_system_ids [OF s] distinct_ids [OF dist])
  qed
  have roles: "permissions_ok h ?db i (aro_scope r) (role_permission_ids ?db i)" if r: "map_of (db_roles ?db) i = Some r" for i r
  proof (cases "i \<in> sy_id ` set SystemRoleDefinitions")
    case True
    then obtain s where s: "s \<in> set SystemRoleDefinitions" "i = sy_id s" by blast
    with r seed_roles(1) [OF s(1)] have "r = system_role_row s" by simp
    with sys_ok [OF s(1)] s(2) show ?thesis by (simp add: system_role_row_def permissions_ok_def)
  next
    case False
    with r have "permissions_ok h db i (aro_scope r) (role_permission_ids db i)"
      using assms(2) by (auto simp: seed_roles(2) roles_inv_def)
    with permissions_ok_mono [OF cat(2)] have "permissions_ok h ?db i (aro_scope r) (role_permission_ids db i)" by blast
    moreover have "role_permission_ids ?db i = [] \<longleftrightarrow> role_permission_ids db i = []"
      using seed_other_ids [OF False] by (metis set_empty)
    ultimately show ?thesis
      using dependency_set [OF seed_other_ids [OF False]]
      by (auto simp: permissions_ok_def role_ok_set seed_other_ids [OF False] distinct_ids [OF dist])
  qed
  have "distinct (map fst (db_roles ?db))"
    using assms(2) by (simp add: seedRbacFoundation_def Let_def roles_inv_def distinct_fold_put)
  with roles dist have "roles_inv h ?db" by (simp add: roles_inv_def)
  moreover have "system_inv ?db" by (simp add: system_inv_def seed_roles(1) seed_system_ids)
  moreover have "assignments_inv h ?db"
    using assms(3)
  proof (rule assignments_roles)
    show "db_assignments ?db = db_assignments db" by (simp add: seedRbacFoundation_def Let_def)
    fix i r assume r: "map_of (db_roles db) i = Some r"
    show "\<exists>r'. map_of (db_roles ?db) i = Some r' \<and> aro_scope r' = aro_scope r"
      using r system seed_roles by (cases "i \<in> sy_id ` set SystemRoleDefinitions") auto
  qed
  ultimately show ?thesis using cat(1) by (simp add: role_inv_def)
qed

section \<open>Reachable states\<close>

text \<open>
  The administration of roles as a step relation. A configuration writes the roles that it made; \<open>other_tables\<close> stands for
  every change of the other tables (users, groups, grants, resources).
\<close>

inductive role_step :: "authz_db \<Rightarrow> role_event list \<Rightarrow> authz_db \<Rightarrow> bool" where
  seeds: "role_step db [] (seedRbacFoundation db)"
| creates_role: "createCustomRole newId role db = Inr db' \<Longrightarrow> role_step db [] db'"
| creates_permission: "createCustomPermission permission db = Inr db' \<Longrightarrow> role_step db [] db'"
| updates_role: "updateCustomRole i update db = Inr db' \<Longrightarrow> role_step db [] db'"
| configures_role: "map_of (db_roles db) i = Some r \<Longrightarrow> aro_source r = ''config'' \<Longrightarrow>
    apply_role_update i desired permissions db = Inr db' \<Longrightarrow>
    role_step db (if dro_scope desired = aro_scope r then [] else [ScopeChanged i (aro_scope r)]) db'"
| retires_role: "map_of (db_roles db) i = Some r \<Longrightarrow> aro_source r = ''config'' \<Longrightarrow>
    apply_role_archive i db = Inr db' \<Longrightarrow> role_step db [PermissionsCleared i] db'"
| assigns: "assignRole newId assignment db = Inr (i, db') \<Longrightarrow> role_step db [] db'"
| removes: "removeRoleAssignment i allowSso db = Inr db' \<Longrightarrow> role_step db [] db'"
| updates_assignment: "role_step db [] (updateResolvedRoleAssignment i expiry mode db)"
| deletes_assignments: "deleteResolvedRoleAssignments ids t source ref db = Inr db' \<Longrightarrow> role_step db [] db'"
| cleans_up: "role_step db [] (snd (cleanupExpiredRoleAssignments now ids db))"
| other_tables: "same_roles db db' \<Longrightarrow> db_assignments db' = db_assignments db \<Longrightarrow> role_step db [] db'"

text \<open>Migration seeds a database that has no roles; then the steps follow. \<open>h\<close> is what configurations did on the way.\<close>

definition no_roles :: "authz_db \<Rightarrow> bool" where
  "no_roles db \<longleftrightarrow> db_permissions db = [] \<and> db_roles db = [] \<and> db_rolePermissions db = [] \<and> db_assignments db = []"

inductive roles_reachable :: "role_event list \<Rightarrow> authz_db \<Rightarrow> bool" where
  migrated: "no_roles db \<Longrightarrow> roles_reachable [] (seedRbacFoundation db)"
| continued: "roles_reachable h db \<Longrightarrow> role_step db es db' \<Longrightarrow> roles_reachable (h @ es) db'"

lemma step_inv: "role_step db es db' \<Longrightarrow> role_inv h db \<Longrightarrow> role_inv (h @ es) db'"
proof (induction rule: role_step.induct)
  case (seeds db)
  then show ?case by (simp, intro seed_inv) (auto simp: role_inv_def system_inv_def)
next
  case (configures_role db i r desired permissions db')
  then show ?case using apply_update_inv by simp
next
  case (retires_role db i r db')
  then show ?case using apply_archive_inv by blast
next
  case (other_tables db db')
  then show ?case
    by (simp, intro role_inv_assignments [of h db db']) (auto simp: role_inv_def assignments_inv_def same_roles_def)
qed (simp_all, (blast intro: create_role_inv create_permission_inv update_role_inv assign_inv remove_assignment_inv
  update_assignment_inv delete_assignments_inv cleanup_assignments_inv)+)

lemma roles_reachable_inv: "roles_reachable h db \<Longrightarrow> role_inv h db"
proof (induction rule: roles_reachable.induct)
  case (migrated db)
  then show ?case
    by (intro seed_inv) (simp_all add: no_roles_def catalog_inv_def roles_inv_def assignments_inv_def)
qed (blast intro: step_inv)

end
