(* ===== verification/Config_Ownership.thy ===== *)
theory Config_Ownership
  imports Authz_Scope
begin

text \<open>
  Who owns an administrative object: \<open>AdminConfigObjectOwnershipService\<close> of
  \<open>shared/src/services/platform-admin/AdminConfigObjectOwnershipService.ts\<close>. An operation reads a row and writes it back
  under the generation it read; the two halves are definitions of their own, so that another writer can come
  between them. The columns of secret references are left out.
\<close>

section \<open>Rows and keys\<close>

record ownership_row =
  own_objectType :: string
  own_objectId :: string
  own_scopeKey :: string
  own_configKey :: string
  own_keyIdentity :: string
  own_sourceRef :: string
  own_mode :: string
  own_sourceHash :: string
  own_lastAppliedAt :: int
  own_driftStatus :: string
  own_active :: bool
  own_generation :: int
  own_updatedAt :: int

type_synonym ownership_table = "(string \<times> ownership_row) list"

definition adminConfigScopeKey :: "string option \<Rightarrow> string" where
  "adminConfigScopeKey tenantId = (case trimmed tenantId of None \<Rightarrow> ''platform'' | Some t \<Rightarrow> t)"

definition adminConfigKeyIdentity :: "string \<Rightarrow> string option \<Rightarrow> string \<Rightarrow> string" where
  "adminConfigKeyIdentity objectType tenantId configKey =
     objectType @ '':'' @ adminConfigScopeKey tenantId @ '':'' @ configKey"

record ownership_fields =
  owf_configKey :: "string option"
  owf_sourceRef :: "string option"
  owf_mode :: string
  owf_driftStatus :: "string option"

definition adminConfigOwnershipFields :: "ownership_row option \<Rightarrow> ownership_fields" where
  "adminConfigOwnershipFields ownership =
     (case ownership of
        Some o' \<Rightarrow> if own_active o'
          then \<lparr>owf_configKey = Some (own_configKey o'), owf_sourceRef = Some (own_sourceRef o'), owf_mode = own_mode o',
                owf_driftStatus = Some (own_driftStatus o')\<rparr>
          else \<lparr>owf_configKey = None, owf_sourceRef = None, owf_mode = ''manual'', owf_driftStatus = None\<rparr>
      | None \<Rightarrow> \<lparr>owf_configKey = None, owf_sourceRef = None, owf_mode = ''manual'', owf_driftStatus = None\<rparr>)"

section \<open>Queries\<close>

definition of_object :: "string \<Rightarrow> string \<Rightarrow> ownership_row \<Rightarrow> bool" where
  "of_object objectType objectId o' \<longleftrightarrow> own_objectType o' = objectType \<and> own_objectId o' = objectId"

definition findForObject :: "string \<Rightarrow> string \<Rightarrow> ownership_table \<Rightarrow> (string \<times> ownership_row) option" where
  "findForObject objectType objectId rows = find (\<lambda>(i, o'). of_object objectType objectId o') rows"

definition findForConfigKey :: "string \<Rightarrow> string option \<Rightarrow> string \<Rightarrow> ownership_table \<Rightarrow> (string \<times> ownership_row) option" where
  "findForConfigKey objectType tenantId configKey rows =
     find (\<lambda>(i, o'). own_keyIdentity o' = adminConfigKeyIdentity objectType tenantId configKey \<and> own_active o') rows"

definition listForSource ::
  "string \<Rightarrow> string option \<Rightarrow> string option \<Rightarrow> bool \<Rightarrow> ownership_table \<Rightarrow> (string \<times> ownership_row) list" where
  "listForSource sourceRef tenantId objectType includeInactive rows =
     sort_key (\<lambda>(i, o'). own_objectType o') (sort_key (\<lambda>(i, o'). own_configKey o')
       (filter (\<lambda>(i, o'). own_sourceRef o' = sourceRef \<and> own_scopeKey o' = adminConfigScopeKey tenantId \<and>
          (includeInactive \<or> own_active o') \<and> (truthy_str objectType \<longrightarrow> Some (own_objectType o') = objectType)) rows))"

definition listForObjectType :: "string \<Rightarrow> ownership_table \<Rightarrow> (string \<times> ownership_row) list" where
  "listForObjectType objectType rows = sort_key (\<lambda>(i, o'). own_configKey o')
     (filter (\<lambda>(i, o'). own_objectType o' = objectType \<and> own_active o') rows)"

section \<open>Updates under a generation\<close>

text \<open>\<open>update({ id, generation, ... }, values)\<close>: the table, or a conflict when no row was affected.\<close>

definition update_generation ::
  "string \<Rightarrow> int \<Rightarrow> bool \<Rightarrow> (ownership_row \<Rightarrow> ownership_row) \<Rightarrow> ownership_table \<Rightarrow> authz_error + ownership_table" where
  "update_generation i generation needsActive change rows =
     (case map_of rows i of
        Some o' \<Rightarrow> if own_generation o' = generation \<and> (needsActive \<longrightarrow> own_active o') then Inr (put i (change o') rows)
          else Inl ConfigurationChanged
      | None \<Rightarrow> Inl ConfigurationChanged)"

text \<open>\<open>claimManualMutation\<close>: what it reads, then what it does with it.\<close>

definition activeOwnership :: "string \<Rightarrow> string \<Rightarrow> ownership_table \<Rightarrow> (string \<times> ownership_row) option" where
  "activeOwnership objectType objectId rows = find (\<lambda>(i, o'). of_object objectType objectId o' \<and> own_active o') rows"

definition claim_seen :: "int \<Rightarrow> (string \<times> ownership_row) option \<Rightarrow> ownership_table \<Rightarrow> authz_error + ownership_table" where
  "claim_seen now seen rows =
     (case seen of
        None \<Rightarrow> Inr rows
      | Some (i, current) \<Rightarrow>
          if own_mode current = ''config_locked'' then Inl ConfigurationManaged
          else update_generation i (own_generation current) True
            (\<lambda>o'. o'\<lparr>own_generation := own_generation current + 1,
               own_driftStatus := (if own_mode current = ''config_warn'' then ''drifted'' else own_driftStatus current),
               own_updatedAt := now\<rparr>) rows)"

definition claimManualMutation :: "int \<Rightarrow> string \<Rightarrow> string \<Rightarrow> ownership_table \<Rightarrow> authz_error + ownership_table" where
  "claimManualMutation now objectType objectId rows = claim_seen now (activeOwnership objectType objectId rows) rows"

record configuration_claim =
  ccl_objectType :: string
  ccl_objectId :: string
  ccl_tenantId :: "string option"
  ccl_configKey :: string
  ccl_sourceRef :: string
  ccl_mode :: string
  ccl_sourceHash :: string
  ccl_appliedAt :: int
  ccl_expectedGeneration :: "int option"

definition claim_identity :: "configuration_claim \<Rightarrow> string" where
  "claim_identity c = adminConfigKeyIdentity (ccl_objectType c) (ccl_tenantId c) (ccl_configKey c)"

definition claim_matches :: "configuration_claim \<Rightarrow> ownership_table \<Rightarrow> (string \<times> ownership_row) list" where
  "claim_matches c rows =
     filter (\<lambda>(i, o'). of_object (ccl_objectType c) (ccl_objectId c) o' \<or> own_keyIdentity o' = claim_identity c) rows"

definition claimed_ownership :: "configuration_claim \<Rightarrow> int \<Rightarrow> ownership_row \<Rightarrow> ownership_row" where
  "claimed_ownership c generation o' = o'
     \<lparr>own_objectId := ccl_objectId c, own_scopeKey := adminConfigScopeKey (ccl_tenantId c), own_configKey := ccl_configKey c,
      own_keyIdentity := claim_identity c, own_sourceRef := ccl_sourceRef c, own_mode := ccl_mode c,
      own_sourceHash := ccl_sourceHash c, own_lastAppliedAt := ccl_appliedAt c, own_driftStatus := ''in_sync'',
      own_active := True, own_generation := generation, own_updatedAt := ccl_appliedAt c\<rparr>"

text \<open>The row \<open>created\<close>; the two unique constraints of the table refuse a second owner.\<close>

definition insert_ownership :: "string \<Rightarrow> ownership_row \<Rightarrow> ownership_table \<Rightarrow> authz_error + ownership_table" where
  "insert_ownership newId row rows =
     (if map_of rows newId \<noteq> None \<or>
        list_ex (\<lambda>(i, o'). of_object (own_objectType row) (own_objectId row) o' \<or> own_keyIdentity o' = own_keyIdentity row) rows
      then Inl DuplicateRow else Inr (rows @ [(newId, row)]))"

definition claim_configuration_seen ::
  "string \<Rightarrow> configuration_claim \<Rightarrow> (string \<times> ownership_row) list \<Rightarrow> ownership_table \<Rightarrow> authz_error + ownership_table" where
  "claim_configuration_seen newId c matches rows =
     (case matches of
        [] \<Rightarrow> insert_ownership newId
          \<lparr>own_objectType = ccl_objectType c, own_objectId = ccl_objectId c, own_scopeKey = adminConfigScopeKey (ccl_tenantId c),
           own_configKey = ccl_configKey c, own_keyIdentity = claim_identity c, own_sourceRef = ccl_sourceRef c,
           own_mode = ccl_mode c, own_sourceHash = ccl_sourceHash c, own_lastAppliedAt = ccl_appliedAt c,
           own_driftStatus = ''in_sync'', own_active = True, own_generation = 1, own_updatedAt = ccl_appliedAt c\<rparr> rows
      | (i, current) # others \<Rightarrow>
          if list_ex (\<lambda>(j, o'). j \<noteq> i) others then Inl OwnershipConflict
          else if own_sourceRef current \<noteq> [] \<and> own_sourceRef current \<noteq> ccl_sourceRef c then Inl OwnershipConflict
          else if own_objectId current \<noteq> ccl_objectId c \<or> own_keyIdentity current \<noteq> claim_identity c then Inl OwnershipConflict
          else if (case ccl_expectedGeneration c of None \<Rightarrow> False | Some g \<Rightarrow> own_generation current \<noteq> g)
          then Inl ConfigurationChanged
          else update_generation i (own_generation current) False (claimed_ownership c (own_generation current + 1)) rows)"

definition claimConfiguration :: "string \<Rightarrow> configuration_claim \<Rightarrow> ownership_table \<Rightarrow> authz_error + ownership_table" where
  "claimConfiguration newId c rows = claim_configuration_seen newId c (claim_matches c rows) rows"

text \<open>\<open>deactivateConfiguration\<close> of a row read before.\<close>

definition deactivateConfiguration ::
  "int \<Rightarrow> string \<times> ownership_row \<Rightarrow> ownership_table \<Rightarrow> authz_error + ownership_table" where
  "deactivateConfiguration appliedAt ownership rows =
     update_generation (fst ownership) (own_generation (snd ownership)) True
       (\<lambda>o'. o'\<lparr>own_active := False, own_generation := own_generation (snd ownership) + 1, own_updatedAt := appliedAt\<rparr>) rows"

section \<open>Writers that interleave\<close>

text \<open>
  The tables of a run, the latest first. Whoever writes has read a row, or the rows that match a claim, in
  some table of the run.
\<close>

definition seen_in :: "ownership_table list \<Rightarrow> (string \<times> ownership_row) option \<Rightarrow> bool" where
  "seen_in tables seen \<longleftrightarrow> (\<forall>i o'. seen = Some (i, o') \<longrightarrow> (\<exists>rows \<in> set tables. map_of rows i = Some o'))"

inductive ownership_run :: "ownership_table list \<Rightarrow> bool" where
  starts: "ownership_run [[]]"
| claims_object: "ownership_run (rows # past) \<Longrightarrow> seen_in (rows # past) seen \<Longrightarrow> claim_seen now seen rows = Inr rows' \<Longrightarrow>
    ownership_run (rows' # rows # past)"
| claims_configuration: "ownership_run (rows # past) \<Longrightarrow> read \<in> set (rows # past) \<Longrightarrow>
    claim_configuration_seen newId c (claim_matches c read) rows = Inr rows' \<Longrightarrow> ownership_run (rows' # rows # past)"
| deactivates: "ownership_run (rows # past) \<Longrightarrow> seen_in (rows # past) (Some seen) \<Longrightarrow>
    deactivateConfiguration appliedAt seen rows = Inr rows' \<Longrightarrow> ownership_run (rows' # rows # past)"

text \<open>No two rows own the same object, or have the same key.\<close>

definition ownership_inv :: "ownership_table \<Rightarrow> bool" where
  "ownership_inv rows \<longleftrightarrow> distinct (map fst rows) \<and>
     (\<forall>i j a b. map_of rows i = Some a \<longrightarrow> map_of rows j = Some b \<longrightarrow>
        own_objectType a = own_objectType b \<and> own_objectId a = own_objectId b \<or> own_keyIdentity a = own_keyIdentity b \<longrightarrow> i = j)"

lemma update_generation_cases:
  "update_generation i g act f rows = Inr rows' \<longleftrightarrow>
     (\<exists>o'. map_of rows i = Some o' \<and> own_generation o' = g \<and> (act \<longrightarrow> own_active o') \<and> rows' = put i (f o') rows)"
  by (auto simp: update_generation_def split: option.split)

text \<open>A later table: rows keep what they own, and a row under the same generation is the same row.\<close>

definition same_owner :: "ownership_row \<Rightarrow> ownership_row \<Rightarrow> bool" where
  "same_owner a b \<longleftrightarrow> own_objectType b = own_objectType a \<and> own_objectId b = own_objectId a \<and> own_keyIdentity b = own_keyIdentity a"

definition later :: "ownership_table \<Rightarrow> ownership_table \<Rightarrow> bool" where
  "later rows rows' \<longleftrightarrow> (\<forall>i a. map_of rows i = Some a \<longrightarrow> (\<exists>b. map_of rows' i = Some b \<and> same_owner a b \<and>
     own_generation a \<le> own_generation b \<and> (own_generation a = own_generation b \<longrightarrow> a = b)))"

lemma later_refl [simp]: "later rows rows"
  by (simp add: later_def same_owner_def)

lemma later_trans:
  assumes "later r1 r2" and "later r2 r3"
  shows "later r1 r3"
  unfolding later_def
proof (intro allI impI)
  fix i a assume "map_of r1 i = Some a"
  then obtain b where b: "map_of r2 i = Some b" "same_owner a b" "own_generation a \<le> own_generation b"
      "own_generation a = own_generation b \<longrightarrow> a = b"
    using assms(1) unfolding later_def by blast
  then obtain c where "map_of r3 i = Some c" "same_owner b c" "own_generation b \<le> own_generation c"
      "own_generation b = own_generation c \<longrightarrow> b = c"
    using assms(2) unfolding later_def by blast
  with b show "\<exists>c. map_of r3 i = Some c \<and> same_owner a c \<and> own_generation a \<le> own_generation c \<and>
      (own_generation a = own_generation c \<longrightarrow> a = c)"
    by (auto simp: same_owner_def)
qed

lemma later_put:
  "map_of rows i = Some a \<Longrightarrow> same_owner a b \<Longrightarrow> own_generation a < own_generation b \<Longrightarrow> later rows (put i b rows)"
  by (auto simp: later_def same_owner_def)

lemma inv_put:
  assumes "ownership_inv rows" and "map_of rows i = Some a"
    and "own_objectType b = own_objectType a" and "own_objectId b = own_objectId a" and "own_keyIdentity b = own_keyIdentity a"
  shows "ownership_inv (put i b rows)"
  using assms unfolding ownership_inv_def by (auto split: if_split_asm)

lemma inv_insert:
  assumes "ownership_inv rows" and "insert_ownership newId row rows = Inr rows'"
  shows "ownership_inv rows'"
proof -
  from assms(2) have new: "map_of rows newId = None" "rows' = rows @ [(newId, row)]"
    and free: "\<forall>(i, o') \<in> set rows. \<not> of_object (own_objectType row) (own_objectId row) o' \<and> own_keyIdentity o' \<noteq> own_keyIdentity row"
    by (auto simp: insert_ownership_def list_ex_iff split: if_split_asm)
  have other: "\<not> (own_objectType a = own_objectType row \<and> own_objectId a = own_objectId row) \<and> own_keyIdentity a \<noteq> own_keyIdentity row"
    if "map_of rows i = Some a" for i a
    using free map_of_SomeD [OF that] by (auto simp: of_object_def)
  have find: "map_of rows' i = (if i = newId then Some row else map_of rows i)" for i
    using new by (simp add: map_add_def split: option.split)
  have "newId \<notin> fst ` set rows" using new(1) by (simp add: map_of_eq_None_iff)
  then have "distinct (map fst rows')" using assms(1) by (simp add: new(2) ownership_inv_def)
  moreover have "i = j" if "map_of rows' i = Some a" "map_of rows' j = Some b"
      "own_objectType a = own_objectType b \<and> own_objectId a = own_objectId b \<or> own_keyIdentity a = own_keyIdentity b" for i j a b
  proof (cases "i = newId \<or> j = newId")
    case True
    with that other [of i a] other [of j b] show ?thesis unfolding find by (auto split: if_split_asm)
  next
    case False
    with that have "map_of rows i = Some a" "map_of rows j = Some b" unfolding find by simp_all
    with that(3) assms(1) show ?thesis unfolding ownership_inv_def by blast
  qed
  ultimately show ?thesis unfolding ownership_inv_def by blast
qed


text \<open>What the steps of a run do to the table.\<close>

definition good_run :: "ownership_table list \<Rightarrow> bool" where
  "good_run tables \<longleftrightarrow> (case tables of [] \<Rightarrow> True | rows # past \<Rightarrow> ownership_inv rows \<and> (\<forall>r \<in> set past. later r rows))"

lemma good_step:
  assumes "good_run (rows # past)" and "ownership_inv rows'" and "later rows rows'"
  shows "good_run (rows' # rows # past)"
  using assms by (auto simp: good_run_def intro: later_trans)

lemma seen_now:
  assumes "good_run (rows # past)" and "r \<in> set (rows # past)" and "map_of r i = Some a"
    and "map_of rows i = Some b" and "own_generation b = own_generation a"
  shows "b = a"
proof -
  have "later r rows" using assms(1,2) by (auto simp: good_run_def)
  with assms(3) obtain b' where "map_of rows i = Some b'" "own_generation a = own_generation b' \<longrightarrow> a = b'"
    unfolding later_def by blast
  with assms(4,5) show ?thesis by simp
qed

text \<open>An update under the generation of a row that was seen finds that very row.\<close>

lemma good_update:
  assumes "good_run (rows # past)" and "r \<in> set (rows # past)" and "map_of r i = Some a"
    and "update_generation i (own_generation a) act f rows = Inr rows'"
    and "same_owner a (f a)" and "own_generation (f a) = own_generation a + 1"
  shows "good_run (rows' # rows # past)" and "map_of rows i = Some a" and "rows' = put i (f a) rows"
proof -
  from assms(4) obtain b where b: "map_of rows i = Some b" "own_generation b = own_generation a" "rows' = put i (f b) rows"
    by (auto simp: update_generation_cases)
  have "b = a" using seen_now [OF assms(1-3) b(1,2)] .
  with b show now: "map_of rows i = Some a" and rows': "rows' = put i (f a) rows" by simp_all
  from assms(1) have "ownership_inv rows" by (simp add: good_run_def)
  then have "ownership_inv rows'"
    unfolding rows' using now assms(5) by (intro inv_put) (simp_all add: same_owner_def)
  moreover have "later rows rows'" unfolding rows' by (rule later_put [OF now assms(5)]) (simp add: assms(6))
  ultimately show "good_run (rows' # rows # past)" using assms(1) by (intro good_step)
qed

lemma good_claim:
  assumes "good_run (rows # past)" and "seen_in (rows # past) seen" and "claim_seen now seen rows = Inr rows'"
  shows "good_run (rows' # rows # past)"
proof (cases seen)
  case None
  with assms show ?thesis by (auto simp: claim_seen_def good_run_def)
next
  case (Some s)
  obtain i a where s: "s = (i, a)" by (cases s)
  with assms(2) Some obtain r where r: "r \<in> set (rows # past)" "map_of r i = Some a" unfolding seen_in_def by blast
  from assms(3) Some s have "update_generation i (own_generation a) True
      (\<lambda>o'. o'\<lparr>own_generation := own_generation a + 1,
         own_driftStatus := (if own_mode a = ''config_warn'' then ''drifted'' else own_driftStatus a), own_updatedAt := now\<rparr>) rows = Inr rows'"
    by (simp add: claim_seen_def split: if_split_asm)
  then show ?thesis by (rule good_update(1) [OF assms(1) r]) (simp_all add: same_owner_def)
qed

lemma later_insert: "insert_ownership newId row rows = Inr rows' \<Longrightarrow> later rows rows'"
  by (auto simp: insert_ownership_def later_def same_owner_def map_add_Some_iff split: if_split_asm)

lemma good_configuration:
  assumes "good_run (rows # past)" and "read \<in> set (rows # past)" and "\<forall>r \<in> set (rows # past). distinct (map fst r)"
    and "claim_configuration_seen newId c (claim_matches c read) rows = Inr rows'"
  shows "good_run (rows' # rows # past)"
proof (cases "claim_matches c read")
  case Nil
  with assms(1,4) show ?thesis
    by (intro good_step) (auto simp: claim_configuration_seen_def good_run_def intro: inv_insert later_insert)
next
  case (Cons s others)
  obtain i a where s: "s = (i, a)" by (cases s)
  from Cons have "s \<in> set read" unfolding claim_matches_def by (auto dest!: arg_cong [of _ _ set])
  moreover have "distinct (map fst read)" using assms(2,3) by blast
  ultimately have a: "map_of read i = Some a" using s by simp
  from assms(4) Cons s have same: "own_objectId a = ccl_objectId c" "own_keyIdentity a = claim_identity c"
    and upd: "update_generation i (own_generation a) False (claimed_ownership c (own_generation a + 1)) rows = Inr rows'"
    by (auto simp: claim_configuration_seen_def split: if_split_asm)
  show ?thesis
    by (rule good_update(1) [OF assms(1,2) a upd]) (simp_all add: claimed_ownership_def same_owner_def same)
qed

lemma good_deactivate:
  assumes "good_run (rows # past)" and "seen_in (rows # past) (Some seen)" and "deactivateConfiguration at seen rows = Inr rows'"
  shows "good_run (rows' # rows # past)"
proof -
  obtain i a where s: "seen = (i, a)" by (cases seen)
  with assms(2) obtain r where r: "r \<in> set (rows # past)" "map_of r i = Some a" unfolding seen_in_def by blast
  from assms(3) s have "update_generation i (own_generation a) True
      (\<lambda>o'. o'\<lparr>own_active := False, own_generation := own_generation a + 1, own_updatedAt := at\<rparr>) rows = Inr rows'"
    by (simp add: deactivateConfiguration_def)
  then show ?thesis by (rule good_update(1) [OF assms(1) r]) (simp_all add: same_owner_def)
qed

lemma run_good: "ownership_run tables \<Longrightarrow> good_run tables \<and> (\<forall>r \<in> set tables. distinct (map fst r)) \<and> tables \<noteq> []"
proof (induction rule: ownership_run.induct)
  case starts
  then show ?case by (simp add: good_run_def ownership_inv_def)
next
  case (claims_object rows past seen now rows')
  then have "good_run (rows' # rows # past)" by (blast intro: good_claim)
  with claims_object show ?case by (auto simp: good_run_def ownership_inv_def)
next
  case (claims_configuration rows past read newId c rows')
  then have "good_run (rows' # rows # past)" by (blast intro: good_configuration)
  with claims_configuration show ?case by (auto simp: good_run_def ownership_inv_def)
next
  case (deactivates rows past seen at rows')
  then have "good_run (rows' # rows # past)" by (blast intro: good_deactivate)
  with deactivates show ?case by (auto simp: good_run_def ownership_inv_def)
qed

end
