(* ===== verification/Ip_Range.thy ===== *)
theory Ip_Range
  imports Prelude "HOL-Library.Word"
begin

text \<open>
  Addresses and ranges of the policy conditions (\<open>parseIpv4\<close>, \<open>parseIpv6\<close>, \<open>parseIpAddress\<close> and
  \<open>ipAddressMatchesRange\<close> of \<open>shared/src/services/platform-admin/PolicyService.ts\<close>), with what they use of the
  platform: \<open>isIP\<close> of \<open>node:net\<close> and \<open>Number\<close> of a string. Then what a range matches: the addresses that agree
  with the network in the leading bits.
\<close>

unbundle bit_operations_syntax

section \<open>Numbers in strings\<close>

definition is_hex :: "char \<Rightarrow> bool" where
  "is_hex c = is_lower_hex (to_lower c)"

definition hex_val :: "char \<Rightarrow> nat" where
  "hex_val c = (if is_digit c then digit_val c else of_char (to_lower c) - 87)"

text \<open>\<open>Number.parseInt(s, 16)\<close> of hexadecimal digits, and \<open>n.toString(16)\<close>.\<close>

definition read_hex :: "string \<Rightarrow> nat" where
  "read_hex s = foldl (\<lambda>n c. 16 * n + hex_val c) 0 s"

fun show_hex :: "nat \<Rightarrow> string" where
  "show_hex n =
     (let d = n mod 16; c = (if d < 10 then digit_char d else char_of (87 + d))
      in if n < 16 then [c] else show_hex (n div 16) @ [c])"

declare show_hex.simps [simp del]

text \<open>A decimal literal without sign, as digits and an exponent of ten; \<open>Infinity\<close> is no integer.\<close>

definition exponent_part :: "string \<Rightarrow> int option" where
  "exponent_part s =
     (case s of
        [] \<Rightarrow> Some 0
      | c # cs \<Rightarrow>
          if cs \<noteq> [] \<and> hd cs = CHR ''-'' then map_option (\<lambda>n. - int n) (read_nat (tl cs))
          else if cs \<noteq> [] \<and> hd cs = CHR ''+'' then map_option int (read_nat (tl cs))
          else map_option int (read_nat cs))"

definition decimal_literal :: "string \<Rightarrow> (nat \<times> int) option" where
  "decimal_literal s =
     (let exponent_sign = (\<lambda>c. c = CHR ''e'' \<or> c = CHR ''E'');
          parts = split_on CHR ''.'' (takeWhile (\<lambda>c. \<not> exponent_sign c) s);
          digits = concat parts
      in if 2 < length parts \<or> digits = [] \<or> \<not> list_all is_digit digits then None
         else map_option (\<lambda>e. (read_digits digits, e - int (length (concat (tl parts)))))
           (exponent_part (dropWhile (\<lambda>c. \<not> exponent_sign c) s)))"

definition radix_literal :: "string \<Rightarrow> nat option" where
  "radix_literal s =
     (case s of
        z # r # ds \<Rightarrow>
          let radix = (if to_lower r = CHR ''x'' then 16 else if to_lower r = CHR ''o'' then 8 else 2)
          in if z = CHR ''0'' \<and> to_lower r \<in> {CHR ''x'', CHR ''o'', CHR ''b''} \<and> ds \<noteq> [] \<and>
               list_all (\<lambda>c. is_hex c \<and> hex_val c < radix) ds
             then Some (foldl (\<lambda>n c. radix * n + hex_val c) 0 ds) else None
      | _ \<Rightarrow> None)"

fun floor_log2 :: "nat \<Rightarrow> nat" where
  "floor_log2 n = (if n < 2 then 0 else Suc (floor_log2 (n div 2)))"

declare floor_log2.simps [simp del]

text \<open>
  The double nearest to \<open>m * 10 ^ e\<close> is the small number \<open>p\<close> (at most 256): it lies within half the distance to
  the doubles beside \<open>p\<close>, which are \<open>2 ^ (l - 52)\<close> above and half of it below a power of two, where
  \<open>l\<close> is the binary logarithm of \<open>p\<close>; ties go to \<open>p\<close>, whose last bit is 0.
\<close>

definition rounds_to :: "nat \<Rightarrow> int \<Rightarrow> nat \<Rightarrow> bool" where
  "rounds_to m e p \<longleftrightarrow>
     (let l = floor_log2 p; up = 10 ^ nat e; down = 10 ^ nat (- e);
          above = p * 2 ^ 54 + 2 ^ (l + 1);
          below = p * 2 ^ 54 - (if p = 2 ^ l then 2 ^ l else 2 ^ (l + 1))
      in if p = 0 then m * up * 2 ^ 1075 \<le> down
         else below * down \<le> m * up * 2 ^ 54 \<and> m * up * 2 ^ 54 \<le> above * down)"

text \<open>\<open>Number(s)\<close> is the number \<open>p\<close>.\<close>

definition number_equals :: "string \<Rightarrow> nat \<Rightarrow> bool" where
  "number_equals s p \<longleftrightarrow>
     (let t = trim s;
          magnitude = (\<lambda>s. case decimal_literal s of None \<Rightarrow> False | Some (m, e) \<Rightarrow> rounds_to m e p)
      in case t of
           [] \<Rightarrow> p = 0
         | c # cs \<Rightarrow>
             if c = CHR ''-'' then p = 0 \<and> magnitude cs
             else if c = CHR ''+'' then magnitude cs
             else case radix_literal t of Some n \<Rightarrow> rounds_to n 0 p | None \<Rightarrow> magnitude t)"

section \<open>Addresses\<close>

text \<open>\<open>isIP\<close>: the two grammars.\<close>

definition v4_octet :: "string \<Rightarrow> bool" where
  "v4_octet w \<longleftrightarrow> w \<noteq> [] \<and> list_all is_digit w \<and> (w = ''0'' \<or> hd w \<noteq> CHR ''0'') \<and> length w \<le> 3 \<and> read_digits w \<le> 255"

definition isIPv4 :: "string \<Rightarrow> bool" where
  "isIPv4 s \<longleftrightarrow> length (split_on CHR ''.'' s) = 4 \<and> list_all v4_octet (split_on CHR ''.'' s)"

definition v6_seg :: "string \<Rightarrow> bool" where
  "v6_seg w \<longleftrightarrow> w \<noteq> [] \<and> length w \<le> 4 \<and> list_all is_hex w"

text \<open>How many 16-bit groups a side of \<open>::\<close> has; the last of the whole address may be an IPv4 address.\<close>

definition v6_groups :: "bool \<Rightarrow> string \<Rightarrow> nat option" where
  "v6_groups v4 s =
     (let ws = split_on CHR '':'' s
      in if s = [] then Some 0
         else if \<not> list_all v6_seg (butlast ws) then None
         else if v6_seg (last ws) then Some (length ws)
         else if v4 \<and> isIPv4 (last ws) then Some (Suc (length ws)) else None)"

text \<open>What is before and after the first \<open>::\<close>.\<close>

fun split_colons :: "string \<Rightarrow> (string \<times> string) option" where
  "split_colons (a # b # s) =
     (if a = CHR '':'' \<and> b = CHR '':'' then Some ([], s)
      else map_option (\<lambda>(l, r). (a # l, r)) (split_colons (b # s)))"
| "split_colons s = None"

definition isIPv6 :: "string \<Rightarrow> bool" where
  "isIPv6 s \<longleftrightarrow>
     (let body = takeWhile (\<lambda>c. c \<noteq> CHR ''%'') s; zone = dropWhile (\<lambda>c. c \<noteq> CHR ''%'') s
      in (zone = [] \<or> tl zone \<noteq> [] \<and> list_all (\<lambda>c. is_alnum c \<or> c \<in> set ''-.:'') (tl zone)) \<and>
         (case split_colons body of
            None \<Rightarrow> v6_groups True body = Some 8
          | Some (l, r) \<Rightarrow> (case (v6_groups False l, v6_groups True r) of (Some m, Some n) \<Rightarrow> m + n \<le> 7 | _ \<Rightarrow> False)))"

definition isIP :: "string \<Rightarrow> nat" where
  "isIP s = (if isIPv4 s then 4 else if isIPv6 s then 6 else 0)"

text \<open>A \<open>bigint\<close> is an integer.\<close>

definition parseIpv4 :: "string \<Rightarrow> int" where
  "parseIpv4 s = foldl (\<lambda>result part. push_bit 8 result OR int (read_digits part)) 0 (split_on CHR ''.'' s)"

definition before_last_colon :: "string \<Rightarrow> string" where
  "before_last_colon s = rev (tl (dropWhile (\<lambda>c. c \<noteq> CHR '':'') (rev s)))"

definition after_last_colon :: "string \<Rightarrow> string" where
  "after_last_colon s = rev (takeWhile (\<lambda>c. c \<noteq> CHR '':'') (rev s))"

definition parseIpv6 :: "string \<Rightarrow> int" where
  "parseIpv6 value =
     (let plain = takeWhile (\<lambda>c. c \<noteq> CHR ''%'') (lower_case value);
          ipv4 = parseIpv4 (after_last_colon plain);
          source = (if CHR ''.'' \<in> set plain
            then before_last_colon plain @ '':'' @ show_hex (nat (drop_bit 16 ipv4 AND 65535)) @ '':'' @ show_hex (nat (ipv4 AND 65535))
            else plain);
          halves = (case split_colons source of None \<Rightarrow> (source, []) | Some h \<Rightarrow> h);
          groups_of = (\<lambda>h. if h = [] then [] else split_on CHR '':'' h);
          left = groups_of (fst halves); right = groups_of (snd halves);
          groups = left @ replicate (8 - length left - length right) ''0'' @ right
      in foldl (\<lambda>result group. push_bit 16 result OR int (read_hex group)) 0 groups)"

record parsed_address =
  ip_version :: nat
  ip_bits :: nat
  ip_value :: int

text \<open>\<open>replace(/^\[|\]$/g, '')\<close>\<close>

definition unbracket :: "string \<Rightarrow> string" where
  "unbracket s =
     (let t = (if s \<noteq> [] \<and> hd s = CHR ''['' then tl s else s)
      in if t \<noteq> [] \<and> last t = CHR '']'' then butlast t else t)"

text \<open>\<open>/^::ffff:(\d+\.\d+\.\d+\.\d+)$/i\<close>\<close>

definition mapped_ipv4 :: "string \<Rightarrow> string option" where
  "mapped_ipv4 s =
     (let ws = split_on CHR ''.'' (drop 7 s)
      in if take 7 (lower_case s) = ''::ffff:'' \<and> length ws = 4 \<and> list_all (\<lambda>w. w \<noteq> [] \<and> list_all is_digit w) ws
         then Some (drop 7 s) else None)"

definition parseIpAddress :: "string \<Rightarrow> parsed_address option" where
  "parseIpAddress raw =
     (let value = unbracket (trim raw); version = isIP value
      in if version = 4 then Some \<lparr>ip_version = 4, ip_bits = 32, ip_value = parseIpv4 value\<rparr>
         else if version = 6
         then (case mapped_ipv4 value of
             Some v4 \<Rightarrow> Some \<lparr>ip_version = 4, ip_bits = 32, ip_value = parseIpv4 v4\<rparr>
           | None \<Rightarrow> Some \<lparr>ip_version = 6, ip_bits = 128, ip_value = parseIpv6 value\<rparr>)
         else None)"

definition prefix_length :: "nat \<Rightarrow> string option \<Rightarrow> nat option" where
  "prefix_length bits prefixRaw =
     (case prefixRaw of None \<Rightarrow> Some bits | Some s \<Rightarrow> find (number_equals s) [0..<Suc bits])"

definition ipAddressMatchesRange :: "string \<Rightarrow> string \<Rightarrow> bool" where
  "ipAddressMatchesRange address rng =
     (let parts = split_on CHR ''/'' (trim rng)
      in length parts \<le> 2 \<and>
         (case (parseIpAddress address, parseIpAddress (hd parts)) of
            (Some candidate, Some network) \<Rightarrow>
              ip_version candidate = ip_version network \<and>
              (case prefix_length (ip_bits candidate) (if length parts = 2 then Some (parts ! 1) else None) of
                 None \<Rightarrow> False
               | Some prefix \<Rightarrow>
                   prefix = 0 \<or>
                   drop_bit (ip_bits candidate - prefix) (ip_value candidate) =
                   drop_bit (ip_bits candidate - prefix) (ip_value network))
          | _ \<Rightarrow> False))"


section \<open>Addresses as text\<close>

text \<open>The \<open>n\<close> digits of \<open>k\<close> bits of a number, the leading first.\<close>

fun digits_of :: "nat \<Rightarrow> nat \<Rightarrow> int \<Rightarrow> int list" where
  "digits_of k 0 x = []"
| "digits_of k (Suc n) x = digits_of k n (drop_bit k x) @ [take_bit k x]"

definition ipv4_text :: "32 word \<Rightarrow> string" where
  "ipv4_text a = join ''.'' (map (\<lambda>d. show_nat (nat d)) (digits_of 8 4 (uint a)))"

lemma length_digits [simp]: "length (digits_of k n x) = n"
  by (induction k n x rule: digits_of.induct) simp_all

lemma digits_bound: "d \<in> set (digits_of k n x) \<Longrightarrow> 0 \<le> d \<and> d < 2 ^ k"
  by (induction k n x rule: digits_of.induct) auto

lemma digits_fold: "foldl (\<lambda>r d. push_bit k r OR d) 0 (digits_of k n x) = take_bit (k * n) x"
proof (induction k n x rule: digits_of.induct)
  case (2 k n x)
  then show ?case
    by (simp, intro bit_eqI) (auto simp: bit_simps le_add_diff_inverse2 less_diff_conv2)
qed simp

lemma foldl_map_digits:
  assumes "\<forall>d \<in> set ds. f d = d"
  shows "foldl (\<lambda>r d. push_bit k r OR f d) a ds = foldl (\<lambda>r d. push_bit k r OR d) a ds"
  using assms by (induction ds arbitrary: a) simp_all

lemma show_nat_chars: "c \<in> set (show_nat n) \<Longrightarrow> is_digit c"
  using show_nat_digits [of n] by (simp add: list_all_iff)

lemma hd_show_nat: "0 < n \<Longrightarrow> hd (show_nat n) \<noteq> CHR ''0''"
proof (induction n rule: show_nat.induct)
  case (1 n)
  have "digit_char n \<noteq> CHR ''0''" if "n < 10"
  proof
    assume "digit_char n = CHR ''0''"
    then have "digit_val (digit_char n) = digit_val CHR ''0''" by simp
    with that \<open>0 < n\<close> show False by (simp add: digit_val_def [of "CHR ''0''"])
  qed
  with 1 show ?case by (cases "n < 10") (simp_all add: show_nat.simps [of n])
qed

lemma show_nat_0: "show_nat 0 = ''0''"
  by code_simp

lemma octet_text: "n < 256 \<Longrightarrow> v4_octet (show_nat n)"
proof -
  assume n: "n < 256"
  have "length (show_nat n) \<le> 3"
    using n by (simp add: show_nat.simps [of n] show_nat.simps [of "n div 10"] show_nat.simps [of "n div 10 div 10"])
  with n show ?thesis
    using hd_show_nat [of n] show_nat_0
    by (auto simp: v4_octet_def show_nat_digits read_digits_show_nat)
qed

lemma ipv4_words: "split_on CHR ''.'' (ipv4_text a) = map (\<lambda>d. show_nat (nat d)) (digits_of 8 4 (uint a))"
  unfolding ipv4_text_def
proof (rule split_on_join)
  have "digits_of 8 4 (uint a) \<noteq> []" by (metis length_digits list.size(3) zero_neq_numeral)
  then show "map (\<lambda>d. show_nat (nat d)) (digits_of 8 4 (uint a)) \<noteq> []" by simp
next
  fix w
  assume "w \<in> set (map (\<lambda>d. show_nat (nat d)) (digits_of 8 4 (uint a)))"
  then obtain n where "w = show_nat n" by auto
  then show "CHR ''.'' \<notin> set w" using show_nat_chars [of "CHR ''.''" n] by (auto simp: is_digit_def)
qed

lemma ipv4_isIPv4: "isIPv4 (ipv4_text a)"
proof -
  have "v4_octet (show_nat (nat d))" if "d \<in> set (digits_of 8 4 (uint a))" for d
    using digits_bound [OF that] by (intro octet_text) auto
  then show ?thesis by (simp add: isIPv4_def ipv4_words list_all_iff del: digits_of.simps)
qed

lemma ipv4_parse: "parseIpv4 (ipv4_text a) = uint a"
proof -
  have same: "int (read_digits (show_nat (nat d))) = d" if "d \<in> set (digits_of 8 4 (uint a))" for d
    using digits_bound [OF that] by (simp add: read_digits_show_nat)
  have "parseIpv4 (ipv4_text a) = foldl (\<lambda>r d. push_bit 8 r OR int (read_digits (show_nat (nat d)))) 0 (digits_of 8 4 (uint a))"
    by (simp add: parseIpv4_def ipv4_words foldl_map del: digits_of.simps)
  also have "\<dots> = foldl (\<lambda>r d. push_bit 8 r OR d) 0 (digits_of 8 4 (uint a))"
    by (rule foldl_map_digits) (use same in blast)
  also have "\<dots> = take_bit 32 (uint a)" by (simp only: digits_fold) simp
  also have "\<dots> = uint a" using uint_lt2p [of a] by (simp add: take_bit_int_eq_self_iff)
  finally show ?thesis .
qed


section \<open>Prefix lengths as text\<close>

lemma trim_no_space: "(\<And>c. c \<in> set s \<Longrightarrow> \<not> is_space c) \<Longrightarrow> trim s = s"
proof -
  assume none: "\<And>c. c \<in> set s \<Longrightarrow> \<not> is_space c"
  have "dropWhile is_space xs = xs" if "set xs \<subseteq> set s" for xs
    using none that by (cases xs) auto
  then show "trim s = s" by (simp add: trim_def)
qed

lemma digit_no_space: "is_digit c \<Longrightarrow> \<not> is_space c"
  by (auto simp: is_digit_def is_space_def)

lemma trim_show_nat: "trim (show_nat n) = show_nat n"
  by (rule trim_no_space) (auto dest: show_nat_chars digit_no_space)

lemma floor_log2_power: "0 < n \<Longrightarrow> 2 ^ floor_log2 n \<le> n"
proof (induction n rule: floor_log2.induct)
  case (1 n)
  then show ?case by (subst floor_log2.simps) (auto simp: Let_def)
qed

lemma rounds_to_nat:
  assumes "q \<le> 256"
  shows "rounds_to n 0 q \<longleftrightarrow> n = q"
proof (cases "q = 0")
  case True
  have "n * 2 ^ 1075 \<le> (1 :: nat) \<longleftrightarrow> n = 0"
  proof
    assume le: "n * 2 ^ 1075 \<le> (1 :: nat)"
    show "n = 0"
    proof (rule ccontr)
      assume "n \<noteq> 0"
      have "(1 :: nat) < 2 ^ 1075" by (rule one_less_power) simp_all
      also have "(2 :: nat) ^ 1075 \<le> n * 2 ^ 1075" using \<open>n \<noteq> 0\<close> by simp
      finally show False using le by simp
    qed
  qed simp
  then show ?thesis using True unfolding rounds_to_def Let_def by simp
next
  case False
  define d :: nat where "d = 2 ^ floor_log2 q"
  have d: "d \<le> 256" using floor_log2_power [of q] False assms by (simp add: d_def)
  have "rounds_to n 0 q \<longleftrightarrow>
      q * 2 ^ 54 - (if q = d then d else 2 * d) \<le> n * 2 ^ 54 \<and> n * 2 ^ 54 \<le> q * 2 ^ 54 + 2 * d"
    using False by (simp add: rounds_to_def Let_def d_def)
  also have "\<dots> \<longleftrightarrow> n = q" using d by auto
  finally show ?thesis .
qed

lemma digits_takeWhile: "list_all is_digit s \<Longrightarrow> (\<And>c. P c \<Longrightarrow> \<not> is_digit c) \<Longrightarrow>
    takeWhile (\<lambda>c. \<not> P c) s = s \<and> dropWhile (\<lambda>c. \<not> P c) s = []"
  by (induction s) auto

lemma decimal_show_nat: "decimal_literal (show_nat n) = Some (n, 0)"
proof -
  have no_exponent: "takeWhile (\<lambda>c. \<not> (c = CHR ''e'' \<or> c = CHR ''E'')) (show_nat n) = show_nat n \<and>
      dropWhile (\<lambda>c. \<not> (c = CHR ''e'' \<or> c = CHR ''E'')) (show_nat n) = []"
    by (rule digits_takeWhile [OF show_nat_digits]) (auto simp: is_digit_def)
  have "CHR ''.'' \<notin> set (show_nat n)" using show_nat_chars [of "CHR ''.''" n] by (auto simp: is_digit_def)
  then have "split_on CHR ''.'' (show_nat n) = [show_nat n]" by (rule split_on_word)
  then show ?thesis
    unfolding decimal_literal_def Let_def
    by (simp only: no_exponent) (simp add: show_nat_digits read_digits_show_nat exponent_part_def)
qed

lemma radix_show_nat: "radix_literal (show_nat n) = None"
proof -
  have "to_lower r \<notin> {CHR ''x'', CHR ''o'', CHR ''b''}" if "is_digit r" for r
    using that by (auto simp: is_digit_def to_lower_def is_upper_def)
  then show ?thesis
    using show_nat_digits [of n] by (auto simp: radix_literal_def Let_def split: list.split)
qed

lemma number_show_nat: "q \<le> 256 \<Longrightarrow> number_equals (show_nat n) q \<longleftrightarrow> n = q"
proof -
  assume q: "q \<le> 256"
  obtain c cs where s: "show_nat n = c # cs" by (cases "show_nat n") simp_all
  then have "is_digit c" using show_nat_chars [of c n] by simp
  then have "c \<noteq> CHR ''-''" "c \<noteq> CHR ''+''" by (auto simp: is_digit_def)
  then have "number_equals (show_nat n) q \<longleftrightarrow> rounds_to n 0 q"
    using radix_show_nat [of n] decimal_show_nat [of n] trim_show_nat [of n]
    unfolding number_equals_def Let_def s by simp
  with rounds_to_nat [OF q] show ?thesis by simp
qed

lemma find_snoc: "find P (xs @ [x]) = (case find P xs of None \<Rightarrow> if P x then Some x else None | Some y \<Rightarrow> Some y)"
  by (induction xs) auto

lemma prefix_show_nat:
  assumes "bits \<le> 256"
  shows "prefix_length bits (Some (show_nat p)) = (if p \<le> bits then Some p else None)"
proof -
  have same: "find (number_equals (show_nat p)) [0..<Suc bits] = find (\<lambda>q. p = q) [0..<Suc bits]"
    using assms by (intro find_cong) (auto simp: number_show_nat)
  have "find (\<lambda>q. p = q) [0..<n] = (if p < n then Some p else None)" for n
    by (induction n) (auto simp: find_snoc)
  from this [of "Suc bits"] same show ?thesis by (simp add: prefix_length_def less_Suc_eq_le del: upt_Suc)
qed


section \<open>What a range matches\<close>

lemma ipv4_chars: "c \<in> set (ipv4_text a) \<Longrightarrow> is_digit c \<or> c = CHR ''.''"
proof -
  have join: "c \<in> set (join ''.'' ws) \<Longrightarrow> c = CHR ''.'' \<or> (\<exists>w \<in> set ws. c \<in> set w)" for ws
    by (induction ws rule: induct_list012) auto
  show "c \<in> set (ipv4_text a) \<Longrightarrow> is_digit c \<or> c = CHR ''.''"
    unfolding ipv4_text_def using join show_nat_chars by fastforce
qed

lemma ipv4_clean:
  "trim (ipv4_text a) = ipv4_text a" "unbracket (ipv4_text a) = ipv4_text a" "CHR ''/'' \<notin> set (ipv4_text a)"
proof -
  have plain: "\<not> is_space c \<and> c \<noteq> CHR ''['' \<and> c \<noteq> CHR '']'' \<and> c \<noteq> CHR ''/''" if "c \<in> set (ipv4_text a)" for c
    using ipv4_chars [OF that] by (auto simp: is_space_def is_digit_def)
  show "trim (ipv4_text a) = ipv4_text a" by (rule trim_no_space) (simp add: plain)
  show "unbracket (ipv4_text a) = ipv4_text a"
    using plain by (auto simp: unbracket_def Let_def dest: hd_in_set last_in_set)
  show "CHR ''/'' \<notin> set (ipv4_text a)" using plain by blast
qed

lemma ipv4_address: "parseIpAddress (ipv4_text a) = Some \<lparr>ip_version = 4, ip_bits = 32, ip_value = uint a\<rparr>"
  by (simp add: parseIpAddress_def Let_def ipv4_clean isIP_def ipv4_isIPv4 ipv4_parse)

text \<open>A range is split at its slash.\<close>

lemma trim_snoc_digits: "trim s = s \<Longrightarrow> s \<noteq> [] \<Longrightarrow> t \<noteq> [] \<Longrightarrow> (\<And>c. c \<in> set t \<Longrightarrow> \<not> is_space c) \<Longrightarrow> trim (s @ u @ t) = s @ u @ t"
proof -
  assume s: "trim s = s" "s \<noteq> []" and t: "t \<noteq> []" "\<And>c. c \<in> set t \<Longrightarrow> \<not> is_space c"
  have "dropWhile is_space s = s"
  proof (cases s)
    case (Cons c cs)
    show ?thesis
    proof (cases "is_space c")
      case True
      then have "length (dropWhile is_space s) < length s" using length_dropWhile_le [of is_space cs] Cons by simp
      moreover have "length (trim s) \<le> length (dropWhile is_space s)"
        by (metis length_dropWhile_le length_rev trim_def)
      ultimately show ?thesis using s(1) by simp
    qed (simp add: Cons)
  qed simp
  then have "\<not> is_space (hd s)" using s(2) by (cases s) (auto split: if_split_asm, metis hd_dropWhile list.sel(1) list.distinct(1))
  then have front: "dropWhile is_space (s @ u @ t) = s @ u @ t" using s(2) by (cases s) auto
  obtain c cs where "rev t = c # cs" using t(1) by (cases "rev t") auto
  moreover from this have "\<not> is_space c" using t(2) by (metis in_set_conv_decomp list.set_intros(1) set_rev)
  ultimately have "dropWhile is_space (rev (s @ u @ t)) = rev (s @ u @ t)" by simp
  with front show ?thesis by (simp add: trim_def)
qed

definition cidr_text :: "string \<Rightarrow> nat \<Rightarrow> string" where
  "cidr_text network p = network @ ''/'' @ show_nat p"

lemma cidr_parts:
  assumes "trim network = network" and "network \<noteq> []" and "CHR ''/'' \<notin> set network"
  shows "split_on CHR ''/'' (trim (cidr_text network p)) = [network, show_nat p]"
proof -
  have "trim (cidr_text network p) = cidr_text network p"
    unfolding cidr_text_def using assms by (intro trim_snoc_digits) (auto dest: show_nat_chars digit_no_space)
  moreover have "CHR ''/'' \<notin> set (show_nat p)" using show_nat_chars [of "CHR ''/''" p] by (auto simp: is_digit_def)
  ultimately show ?thesis
    using assms(3) by (simp add: cidr_text_def split_on_append split_on_word)
qed

lemma range_value:
  assumes "trim network = network" and "network \<noteq> []" and "CHR ''/'' \<notin> set network"
    and "parseIpAddress address = Some x" and "parseIpAddress network = Some y"
    and "ip_version x = ip_version y" and "ip_bits x \<le> 256"
  shows "ipAddressMatchesRange address (cidr_text network p) \<longleftrightarrow>
     p \<le> ip_bits x \<and> (p = 0 \<or> drop_bit (ip_bits x - p) (ip_value x) = drop_bit (ip_bits x - p) (ip_value y))"
  using assms(4-7) unfolding ipAddressMatchesRange_def Let_def cidr_parts [OF assms(1-3)]
  by (simp add: prefix_show_nat)

lemma drop_word: "drop_bit n (uint a) = drop_bit n (uint b) \<longleftrightarrow> drop_bit n a = drop_bit n b" for a b :: "'a :: len word"
proof -
  have "drop_bit n (uint w) = uint (drop_bit n w)" for w :: "'a word"
    by (rule bit_eqI) (auto simp: bit_simps dest: bit_imp_le_length)
  then show ?thesis by (simp add: word_uint_eq_iff)
qed

lemma ipv4_not_Nil: "ipv4_text a \<noteq> []"
  by (metis ipv4_isIPv4 isIPv4_def length_Cons list.size(3) numeral_eq_one_iff One_nat_def split_on.simps(1) semiring_norm(83))

lemma drop_all: "drop_bit 32 a = drop_bit 32 b" for a b :: "32 word"
  by (rule bit_eqI) (simp add: bit_simps)

lemma ipv4_range:
  "ipAddressMatchesRange (ipv4_text a) (cidr_text (ipv4_text b) p) \<longleftrightarrow> p \<le> 32 \<and> drop_bit (32 - p) a = drop_bit (32 - p) b"
proof -
  have "ipAddressMatchesRange (ipv4_text a) (cidr_text (ipv4_text b) p) \<longleftrightarrow>
      p \<le> 32 \<and> (p = 0 \<or> drop_bit (32 - p) (uint a) = drop_bit (32 - p) (uint b))"
    using range_value [OF ipv4_clean(1) ipv4_not_Nil ipv4_clean(3) ipv4_address ipv4_address] by simp
  then show ?thesis by (auto simp: drop_word drop_all)
qed


text \<open>An IPv4 address inside an IPv6 one, which a dual-stack socket reports.\<close>

lemma ipv4_mapped: "parseIpAddress (''::ffff:'' @ ipv4_text a) = Some \<lparr>ip_version = 4, ip_bits = 32, ip_value = uint a\<rparr>"
proof -
  let ?s = "''::ffff:'' @ ipv4_text a"
  have plain: "\<not> is_space c \<and> c \<noteq> CHR '']'' \<and> c \<noteq> CHR ''%'' \<and> c \<noteq> CHR '':''" if "c \<in> set (ipv4_text a)" for c
    using ipv4_chars [OF that] by (auto simp: is_space_def is_digit_def)
  have "trim ?s = ?s" by (rule trim_no_space) (use plain in \<open>auto simp: is_space_def\<close>)
  moreover have "unbracket ?s = ?s"
    using plain ipv4_not_Nil by (auto simp: unbracket_def Let_def dest: last_in_set)
  moreover have "\<not> isIPv4 ?s"
  proof
    assume ip4: "isIPv4 ?s"
    have "split_on CHR ''.'' ?s = (''::ffff:'' @ hd (split_on CHR ''.'' (ipv4_text a))) # tl (split_on CHR ''.'' (ipv4_text a))"
      by (cases "split_on CHR ''.'' (ipv4_text a)") simp_all
    with ip4 have "v4_octet (''::ffff:'' @ hd (split_on CHR ''.'' (ipv4_text a)))" by (simp add: isIPv4_def)
    then show False by (simp add: v4_octet_def is_digit_def)
  qed
  moreover have "isIPv6 ?s"
  proof -
    have body: "takeWhile (\<lambda>c. c \<noteq> CHR ''%'') ?s = ?s \<and> dropWhile (\<lambda>c. c \<noteq> CHR ''%'') ?s = []"
      using plain by (auto simp: takeWhile_eq_all_conv dropWhile_eq_Nil_conv)
    have "split_on CHR '':'' (''ffff:'' @ ipv4_text a) = [''ffff'', ipv4_text a]"
      using plain split_on_word [of "CHR '':''" "ipv4_text a"] by auto
    moreover have "v6_seg ''ffff''" by code_simp
    ultimately have "v6_groups True (''ffff:'' @ ipv4_text a) \<in> {Some 2, Some 3}"
      using ipv4_isIPv4 by (simp add: v6_groups_def Let_def)
    moreover have "v6_groups False [] = Some 0" by (simp add: v6_groups_def)
    moreover have "split_colons ?s = Some ([], ''ffff:'' @ ipv4_text a)" by simp
    ultimately show ?thesis
      unfolding isIPv6_def Let_def by (simp only: body) auto
  qed
  moreover have "mapped_ipv4 ?s = Some (ipv4_text a)"
  proof -
    have "w \<noteq> [] \<and> list_all is_digit w" if "w \<in> set (split_on CHR ''.'' (ipv4_text a))" for w
      using ipv4_isIPv4 [of a] that by (auto simp: isIPv4_def list_all_iff v4_octet_def)
    moreover have "lower_case (take 7 ?s) = ''::ffff:''" by (simp add: lower_case_def to_lower_def is_upper_def)
    ultimately show ?thesis
      using ipv4_isIPv4 [of a] by (simp add: mapped_ipv4_def isIPv4_def list_all_iff lower_case_def)
  qed
  ultimately show ?thesis by (simp add: parseIpAddress_def isIP_def ipv4_parse)
qed

lemma mapped_range:
  "ipAddressMatchesRange (''::ffff:'' @ ipv4_text a) (cidr_text (ipv4_text b) p) \<longleftrightarrow> p \<le> 32 \<and> drop_bit (32 - p) a = drop_bit (32 - p) b"
proof -
  have "ipAddressMatchesRange (''::ffff:'' @ ipv4_text a) (cidr_text (ipv4_text b) p) \<longleftrightarrow>
      p \<le> 32 \<and> (p = 0 \<or> drop_bit (32 - p) (uint a) = drop_bit (32 - p) (uint b))"
    using range_value [OF ipv4_clean(1) ipv4_not_Nil ipv4_clean(3) ipv4_mapped ipv4_address] by simp
  then show ?thesis by (auto simp: drop_word drop_all)
qed

text \<open>A range whose prefix length is missing after the slash matches every address of its version.\<close>

lemma empty_prefix: "ipAddressMatchesRange (ipv4_text a) (ipv4_text b @ ''/'')"
proof -
  have "trim (ipv4_text b @ [] @ ''/'') = ipv4_text b @ [] @ ''/''"
    by (rule trim_snoc_digits [OF ipv4_clean(1) ipv4_not_Nil]) (auto simp: is_space_def)
  then have "split_on CHR ''/'' (trim (ipv4_text b @ ''/'')) = [ipv4_text b, []]"
    using ipv4_clean(3) by (simp add: split_on_append)
  moreover have "prefix_length 32 (Some []) = Some 0"
  proof -
    have "find (number_equals []) (0 # [1..<33]) = Some 0"
      by (simp add: number_equals_def trim_def)
    moreover have "[0..<Suc 32] = 0 # [1..<33]" by (subst upt_conv_Cons) simp_all
    ultimately show ?thesis by (simp only: prefix_length_def option.case)
  qed
  ultimately show ?thesis by (simp add: ipAddressMatchesRange_def Let_def ipv4_address)
qed


section \<open>IPv6 addresses\<close>

text \<open>The eight groups of an address, in full or with a run of zeros written as \<open>::\<close>.\<close>

definition group_texts :: "128 word \<Rightarrow> string list" where
  "group_texts a = map (\<lambda>d. show_hex (nat d)) (digits_of 16 8 (uint a))"

definition ipv6_text :: "128 word \<Rightarrow> string" where
  "ipv6_text a = join '':'' (group_texts a)"

definition short_text :: "128 word \<Rightarrow> nat \<Rightarrow> nat \<Rightarrow> string" where
  "short_text a m n = join '':'' (take m (group_texts a)) @ ''::'' @ join '':'' (drop n (group_texts a))"

lemma hex_char: "d < 16 \<Longrightarrow> is_hex (if d < 10 then digit_char d else char_of (87 + d)) \<and>
    hex_val (if d < 10 then digit_char d else char_of (87 + d)) = d \<and>
    to_lower (if d < 10 then digit_char d else char_of (87 + d)) = (if d < 10 then digit_char d else char_of (87 + d))"
proof -
  have "d \<in> {..<16} \<Longrightarrow> is_hex (if d < 10 then digit_char d else char_of (87 + d)) \<and>
    hex_val (if d < 10 then digit_char d else char_of (87 + d)) = d \<and>
    to_lower (if d < 10 then digit_char d else char_of (87 + d)) = (if d < 10 then digit_char d else char_of (87 + d))" for d :: nat
    by (auto simp: is_hex_def is_lower_hex_def hex_val_def to_lower_def is_upper_def is_digit_def digit_val_def digit_char_def)
  then show "d < 16 \<Longrightarrow> ?thesis" by simp
qed

lemma show_hex_props:
  "show_hex n \<noteq> []" "list_all is_hex (show_hex n)" "read_hex (show_hex n) = n" "lower_case (show_hex n) = show_hex n"
proof (induction n rule: show_hex.induct)
  case (1 n)
  define c where "c = (if n mod 16 < 10 then digit_char (n mod 16) else char_of (87 + n mod 16))"
  have c: "is_hex c" "hex_val c = n mod 16" "to_lower c = c" using hex_char [of "n mod 16"] by (simp_all add: c_def)
  have unfold: "show_hex n = (if n < 16 then [c] else show_hex (n div 16) @ [c])"
    by (simp add: show_hex.simps [of n] c_def Let_def)
  { case 1 show ?case by (simp add: unfold) }
  { case 2 show ?case using c 1 by (simp add: unfold) }
  { case 3 show ?case using c 1 by (auto simp: unfold read_hex_def) }
  { case 4 show ?case using c 1 by (auto simp: unfold lower_case_def) }
qed

lemma show_hex_length: "n < 65536 \<Longrightarrow> length (show_hex n) \<le> 4"
  by (simp add: show_hex.simps [of n] show_hex.simps [of "n div 16"] show_hex.simps [of "n div 16 div 16"]
      show_hex.simps [of "n div 16 div 16 div 16"] Let_def)

lemma hex_no_colon: "is_hex c \<Longrightarrow> c \<noteq> CHR '':'' \<and> c \<noteq> CHR ''.'' \<and> c \<noteq> CHR ''%'' \<and> c \<noteq> CHR ''/'' \<and> c \<noteq> CHR ''['' \<and> c \<noteq> CHR '']'' \<and> \<not> is_space c"
  by (auto simp: is_hex_def is_lower_hex_def is_digit_def to_lower_def is_upper_def is_space_def)

lemma group_text: "w \<in> set (group_texts a) \<Longrightarrow> v6_seg w \<and> lower_case w = w \<and> (\<forall>c \<in> set w. is_hex c)"
proof -
  assume "w \<in> set (group_texts a)"
  then obtain d where d: "w = show_hex (nat d)" "d \<in> set (digits_of 16 8 (uint a))" by (auto simp: group_texts_def)
  then have "nat d < 65536" using digits_bound [OF d(2)] by (simp add: nat_less_iff)
  with d(1) show ?thesis
    using show_hex_props [of "nat d"] by (auto simp: v6_seg_def show_hex_length list_all_iff)
qed

lemma length_groups [simp]: "length (group_texts a) = 8"
  by (simp add: group_texts_def del: digits_of.simps)

lemma fold_groups: "foldl (\<lambda>result group. push_bit 16 result OR int (read_hex group)) 0 (group_texts a) = uint a"
proof -
  have same: "int (read_hex (show_hex (nat d))) = d" if "d \<in> set (digits_of 16 8 (uint a))" for d
    using digits_bound [OF that] by (simp add: show_hex_props(3))
  have "foldl (\<lambda>result group. push_bit 16 result OR int (read_hex group)) 0 (group_texts a) =
      foldl (\<lambda>r d. push_bit 16 r OR int (read_hex (show_hex (nat d)))) 0 (digits_of 16 8 (uint a))"
    by (simp add: group_texts_def foldl_map del: digits_of.simps)
  also have "\<dots> = foldl (\<lambda>r d. push_bit 16 r OR d) 0 (digits_of 16 8 (uint a))"
    by (rule foldl_map_digits) (use same in blast)
  also have "\<dots> = take_bit 128 (uint a)" by (simp only: digits_fold) simp
  also have "\<dots> = uint a" using uint_lt2p [of a] by (simp add: take_bit_int_eq_self_iff)
  finally show ?thesis .
qed

text \<open>Groups joined by colons: no \<open>::\<close> appears where it is not written.\<close>

definition plain_groups :: "string list \<Rightarrow> bool" where
  "plain_groups ws \<longleftrightarrow> (\<forall>w \<in> set ws. v6_seg w \<and> lower_case w = w \<and> (\<forall>c \<in> set w. is_hex c))"

lemma join_chars: "plain_groups ws \<Longrightarrow> c \<in> set (join '':'' ws) \<Longrightarrow> is_hex c \<or> c = CHR '':''"
  by (induction ws rule: induct_list012) (auto simp: plain_groups_def)

lemma split_word: "\<forall>c \<in> set w. c \<noteq> CHR '':'' \<Longrightarrow> split_colons (w @ s) = map_option (\<lambda>(l, r). (w @ l, r)) (split_colons s)"
proof (induction w)
  case Nil
  show ?case by (cases "split_colons s") auto
next
  case (Cons a w)
  show ?case
  proof (cases "w @ s")
    case Nil
    then show ?thesis by simp
  next
    case (Cons b xs)
    with Cons.prems have "split_colons ((a # w) @ s) = map_option (\<lambda>(l, r). (a # l, r)) (split_colons (w @ s))" by simp
    with Cons.IH Cons.prems show ?thesis by (cases "split_colons s") auto
  qed
qed

lemma split_colon: "s \<noteq> [] \<Longrightarrow> hd s \<noteq> CHR '':'' \<Longrightarrow> split_colons (CHR '':'' # s) = map_option (\<lambda>(l, r). (CHR '':'' # l, r)) (split_colons s)"
  by (cases s) auto

lemma plain_word: "plain_groups (w # ws) \<Longrightarrow> w \<noteq> [] \<and> (\<forall>c \<in> set w. c \<noteq> CHR '':'') \<and> hd w \<noteq> CHR '':'' \<and> plain_groups ws"
  using hex_no_colon by (cases w) (auto simp: plain_groups_def v6_seg_def)

lemma hd_join: "plain_groups (w # ws) \<Longrightarrow> join '':'' (w # ws) \<noteq> [] \<and> hd (join '':'' (w # ws) @ s) \<noteq> CHR '':''"
  using plain_word [of w ws] by (cases ws) auto

lemma split_plain: "plain_groups ws \<Longrightarrow> split_colons (join '':'' ws) = None"
proof (induction ws rule: induct_list012)
  case (2 w)
  then show ?case using split_word [of w "[]"] plain_word [of w "[]"] by simp
next
  case (3 w v ws)
  then show ?case
    using split_word [of w "CHR '':'' # join '':'' (v # ws)"] plain_word [of w "v # ws"]
      split_colon [of "join '':'' (v # ws)"] hd_join [of v ws "[]"] by simp
qed simp

lemma split_short: "plain_groups ws \<Longrightarrow> split_colons (join '':'' ws @ ''::'' @ r) = Some (join '':'' ws, r)"
proof (induction ws rule: induct_list012)
  case (2 w)
  then show ?case using split_word [of w "''::'' @ r"] plain_word [of w "[]"] by simp
next
  case (3 w v ws)
  then show ?case
    using split_word [of w "CHR '':'' # join '':'' (v # ws) @ ''::'' @ r"] plain_word [of w "v # ws"]
      split_colon [of "join '':'' (v # ws) @ ''::'' @ r"] hd_join [of v ws "[]"] by simp
qed simp

lemma split_groups: "plain_groups ws \<Longrightarrow> ws \<noteq> [] \<Longrightarrow> split_on CHR '':'' (join '':'' ws) = ws"
  by (rule split_on_join) (auto simp: plain_groups_def dest: hex_no_colon)

lemma join_Nil: "plain_groups ws \<Longrightarrow> join '':'' ws = [] \<longleftrightarrow> ws = []"
  using hd_join by (cases ws) auto

lemma count_groups: "plain_groups ws \<Longrightarrow> v6_groups v4 (join '':'' ws) = Some (length ws)"
proof (cases "ws = []")
  case False
  moreover assume plain: "plain_groups ws"
  moreover from plain False have "list_all v6_seg (butlast ws)" "v6_seg (last ws)"
    by (auto simp: plain_groups_def list_all_iff dest: in_set_butlastD)
  ultimately show ?thesis by (simp add: v6_groups_def Let_def split_groups join_Nil)
qed (simp add: v6_groups_def)

lemma lower_join: "plain_groups ws \<Longrightarrow> lower_case (join '':'' ws) = join '':'' ws"
  by (induction ws rule: induct_list012) (auto simp: plain_groups_def lower_case_def to_lower_def is_upper_def)

lemma plain_group_texts: "plain_groups (group_texts a)" "plain_groups (take m (group_texts a))" "plain_groups (drop n (group_texts a))"
  using group_text [of _ a] by (auto simp: plain_groups_def dest: in_set_takeD in_set_dropD)

text \<open>The spellings of an address.\<close>

definition spells :: "128 word \<Rightarrow> string \<Rightarrow> bool" where
  "spells a s \<longleftrightarrow> s = ipv6_text a \<or>
     (\<exists>m n. m < n \<and> n \<le> 8 \<and> (\<forall>i. m \<le> i \<and> i < n \<longrightarrow> group_texts a ! i = ''0'') \<and> s = short_text a m n)"

lemma spell_chars: "spells a s \<Longrightarrow> c \<in> set s \<Longrightarrow> is_hex c \<or> c = CHR '':''"
proof -
  assume s: "spells a s" and c: "c \<in> set s"
  from s consider "s = ipv6_text a" | m n where "s = short_text a m n" by (auto simp: spells_def)
  then show "is_hex c \<or> c = CHR '':''"
  proof cases
    case 1
    with c show ?thesis using join_chars [OF plain_group_texts(1)] by (simp add: ipv6_text_def)
  next
    case 2
    with c show ?thesis
      using join_chars [OF plain_group_texts(2), of c m a] join_chars [OF plain_group_texts(3), of c n a]
      by (auto simp: short_text_def)
  qed
qed

lemma spell_clean:
  assumes "spells a s"
  shows "trim s = s" and "unbracket s = s" and "CHR ''/'' \<notin> set s" and "CHR ''.'' \<notin> set s" and "CHR ''%'' \<notin> set s"
    and "lower_case s = s" and "s \<noteq> []"
proof -
  have plain: "\<not> is_space c \<and> c \<notin> set ''[]/.%''" if "c \<in> set s" for c
    using spell_chars [OF assms that] hex_no_colon [of c] by (auto simp: is_space_def)
  show "trim s = s" by (rule trim_no_space) (simp add: plain)
  show "unbracket s = s" using plain by (auto simp: unbracket_def Let_def dest: hd_in_set last_in_set)
  show "CHR ''/'' \<notin> set s" "CHR ''.'' \<notin> set s" "CHR ''%'' \<notin> set s" using plain by fastforce+
  have "lower_case ''::'' = ''::''" by (simp add: lower_case_def to_lower_def is_upper_def)
  then show "lower_case s = s"
    using assms lower_join plain_group_texts
    by (auto simp: spells_def ipv6_text_def short_text_def lower_case_def)
  show "s \<noteq> []"
    using assms join_Nil [OF plain_group_texts(1), of a] length_groups [of a]
    by (auto simp: spells_def ipv6_text_def short_text_def simp del: length_groups)
qed


lemma no_percent: "CHR ''%'' \<notin> set s \<Longrightarrow> takeWhile (\<lambda>c. c \<noteq> CHR ''%'') s = s \<and> dropWhile (\<lambda>c. c \<noteq> CHR ''%'') s = []"
  by (auto simp: takeWhile_eq_all_conv dropWhile_eq_Nil_conv)

lemma spell_isIPv6: "spells a s \<Longrightarrow> isIPv6 s"
proof -
  assume s: "spells a s"
  have body: "takeWhile (\<lambda>c. c \<noteq> CHR ''%'') s = s" "dropWhile (\<lambda>c. c \<noteq> CHR ''%'') s = []"
    using no_percent [OF spell_clean(5) [OF s]] by simp_all
  from s show ?thesis
    unfolding spells_def
  proof (elim disjE exE conjE)
    assume full: "s = ipv6_text a"
    then have "split_colons s = None" "v6_groups True s = Some 8"
      using split_plain [OF plain_group_texts(1)] count_groups [OF plain_group_texts(1)] by (simp_all add: ipv6_text_def)
    then show ?thesis by (simp add: isIPv6_def Let_def body)
  next
    fix m n assume short: "m < n" "n \<le> 8" "s = short_text a m n"
    then have "split_colons s = Some (join '':'' (take m (group_texts a)), join '':'' (drop n (group_texts a)))"
      using split_short [OF plain_group_texts(2)] by (simp add: short_text_def)
    with short(1,2) show ?thesis
      using count_groups [OF plain_group_texts(2), of False m a] count_groups [OF plain_group_texts(3), of True n a]
      by (simp add: isIPv6_def Let_def body)
  qed
qed

definition half_groups :: "string \<Rightarrow> string list" where
  "half_groups h = (if h = [] then [] else split_on CHR '':'' h)"

lemma parse_plain:
  assumes "lower_case s = s" and "takeWhile (\<lambda>c. c \<noteq> CHR ''%'') s = s" and "CHR ''.'' \<notin> set s"
    and "(case split_colons s of None \<Rightarrow> (s, []) | Some h \<Rightarrow> h) = (l, r)"
  shows "parseIpv6 s = foldl (\<lambda>result group. push_bit 16 result OR int (read_hex group)) 0
     (half_groups l @ replicate (8 - length (half_groups l) - length (half_groups r)) ''0'' @ half_groups r)"
  unfolding parseIpv6_def Let_def assms(1,2) if_not_P [OF assms(3)] assms(4) fst_conv snd_conv half_groups_def ..

lemma spell_parse: "spells a s \<Longrightarrow> parseIpv6 s = uint a"
proof -
  assume s: "spells a s"
  have body: "takeWhile (\<lambda>c. c \<noteq> CHR ''%'') s = s" using no_percent [OF spell_clean(5) [OF s]] by simp
  note clean = spell_clean(4,6) [OF s]
  have groups: "half_groups (join '':'' ws) = ws" if "plain_groups ws" for ws
    using that split_groups join_Nil by (auto simp: half_groups_def)
  from s show ?thesis
    unfolding spells_def
  proof (elim disjE exE conjE)
    assume full: "s = ipv6_text a"
    have "split_colons s = None" using split_plain [OF plain_group_texts(1)] by (simp add: full ipv6_text_def)
    then have halves: "(case split_colons s of None \<Rightarrow> (s, []) | Some h \<Rightarrow> h) = (join '':'' (group_texts a), [])"
      by (simp add: full ipv6_text_def)
    have "half_groups [] = []" by (simp add: half_groups_def)
    then show ?thesis
      unfolding parse_plain [OF clean(2) body clean(1) halves] groups [OF plain_group_texts(1)] by (simp add: fold_groups)
  next
    fix m n assume short: "m < n" "n \<le> 8" "\<forall>i. m \<le> i \<and> i < n \<longrightarrow> group_texts a ! i = ''0''" "s = short_text a m n"
    let ?l = "take m (group_texts a)" and ?r = "drop n (group_texts a)"
    have halves: "(case split_colons s of None \<Rightarrow> (s, []) | Some h \<Rightarrow> h) = (join '':'' ?l, join '':'' ?r)"
      using split_short [OF plain_group_texts(2)] by (simp add: short(4) short_text_def)
    have "?l @ replicate (8 - length ?l - length ?r) ''0'' @ ?r = group_texts a"
      using short(1-3) by (intro nth_equalityI) (auto simp: nth_append)
    then show ?thesis
      unfolding parse_plain [OF clean(2) body clean(1) halves] groups [OF plain_group_texts(2)] groups [OF plain_group_texts(3)]
      by (simp only: fold_groups)
  qed
qed

lemma spell_address: "spells a s \<Longrightarrow> parseIpAddress s = Some \<lparr>ip_version = 6, ip_bits = 128, ip_value = uint a\<rparr>"
proof -
  assume s: "spells a s"
  have dots: "split_on CHR ''.'' s = [s]" "split_on CHR ''.'' (drop 7 s) = [drop 7 s]"
    using spell_clean(4) [OF s] by (auto intro!: split_on_word dest: in_set_dropD)
  then have "\<not> isIPv4 s" "mapped_ipv4 s = None" by (simp_all add: isIPv4_def mapped_ipv4_def)
  with s show ?thesis
    by (simp add: parseIpAddress_def Let_def spell_clean isIP_def spell_isIPv6 spell_parse)
qed

lemma ipv6_range:
  assumes "spells a s" and "spells b t"
  shows "ipAddressMatchesRange s (cidr_text t p) \<longleftrightarrow> p \<le> 128 \<and> drop_bit (128 - p) a = drop_bit (128 - p) b"
proof -
  have "ipAddressMatchesRange s (cidr_text t p) \<longleftrightarrow>
      p \<le> 128 \<and> (p = 0 \<or> drop_bit (128 - p) (uint a) = drop_bit (128 - p) (uint b))"
    using range_value [OF spell_clean(1,7,3) [OF assms(2)] spell_address [OF assms(1)] spell_address [OF assms(2)]] by simp
  moreover have "drop_bit 128 a = drop_bit 128 b" by (rule bit_eqI) (simp add: bit_simps)
  ultimately show ?thesis by (auto simp: drop_word)
qed

text \<open>An address of one version never matches a network of the other.\<close>

lemma versions_apart:
  assumes "spells b t"
  shows "\<not> ipAddressMatchesRange (ipv4_text a) (cidr_text t p)" and "\<not> ipAddressMatchesRange t (cidr_text (ipv4_text a) p)"
  using spell_address [OF assms] ipv4_address cidr_parts [OF spell_clean(1,7,3) [OF assms]]
    cidr_parts [OF ipv4_clean(1) ipv4_not_Nil ipv4_clean(3)]
  by (simp_all add: ipAddressMatchesRange_def Let_def)

end
