(* ===== verification/Policy_Service.thy ===== *)
theory Policy_Service
  imports Role_Invariant Config_Ownership Ip_Range Js_Value
begin

text \<open>
  Authorization policies with conditions: \<open>PolicyServiceClass\<close> of
  \<open>shared/src/services/platform-admin/PolicyService.ts\<close> and \<open>PolicyConditionSchema\<close> of
  \<open>shared/src/schemas/platform-admin/authz.ts\<close>. The stored conditions of a policy are the value that \<open>JSON.parse\<close>
  makes of them (\<open>None\<close> when the text is no JSON). The general audit log (\<open>logPolicyMutation\<close>) is left out; the
  log of the decisions is modelled.
\<close>

section \<open>Conditions\<close>

datatype expected_value = ExpStr string | ExpList "string list" | ExpBool bool

record time_window =
  tw_start :: "string option"
  tw_end :: "string option"
  tw_timezone :: "string option"
  tw_daysOfWeek :: "int list option"

record attribute_condition =
  atc_key :: string
  atc_operator :: string
  atc_value :: expected_value

record environment_condition =
  env_ipRange :: "string list option"
  env_requireMfa :: "bool option"

record policy_condition =
  pcn_timeWindow :: "time_window option"
  pcn_userAttribute :: "attribute_condition option"
  pcn_resourceAttribute :: "attribute_condition option"
  pcn_environment :: "environment_condition option"

text \<open>Schema combinators: a strict object has no other keys; an optional property may be missing.\<close>

definition strict_object :: "string list \<Rightarrow> jsval \<Rightarrow> bool" where
  "strict_object keys v \<longleftrightarrow> (case v of JObj kvs \<Rightarrow> list_all (\<lambda>(k, w). k \<in> set keys) kvs | _ \<Rightarrow> False)"

definition optional_field :: "(jsval \<Rightarrow> 'a option) \<Rightarrow> jsval \<Rightarrow> string \<Rightarrow> 'a option option" where
  "optional_field f v k = (if getp v k = JUndef then Some None else map_option Some (f (getp v k)))"

definition text_between :: "nat \<Rightarrow> nat \<Rightarrow> jsval \<Rightarrow> string option" where
  "text_between lo hi v = (case v of JStr s \<Rightarrow> if lo \<le> length s \<and> length s \<le> hi then Some s else None | _ \<Rightarrow> None)"

definition list_of :: "nat \<Rightarrow> (jsval \<Rightarrow> 'a option) \<Rightarrow> jsval \<Rightarrow> 'a list option" where
  "list_of hi f v =
     (case v of
        JArr vs \<Rightarrow> if length vs \<le> hi \<and> list_all (\<lambda>w. f w \<noteq> None) vs then Some (map (\<lambda>w. the (f w)) vs) else None
      | _ \<Rightarrow> None)"

text \<open>\<open>/^\d{2}:\d{2}$/\<close>\<close>

definition hhmm :: "jsval \<Rightarrow> string option" where
  "hhmm v =
     (case v of
        JStr s \<Rightarrow> if length s = 5 \<and> s ! 2 = CHR '':'' \<and> list_all is_digit (take 2 s @ drop 3 s) then Some s else None
      | _ \<Rightarrow> None)"

definition day_of_week :: "jsval \<Rightarrow> int option" where
  "day_of_week v = (case v of JInt i \<Rightarrow> if 0 \<le> i \<and> i \<le> 6 then Some i else None | _ \<Rightarrow> None)"

definition time_window_schema :: "jsval \<Rightarrow> time_window option" where
  "time_window_schema v =
     (if strict_object [''start'', ''end'', ''timezone'', ''daysOfWeek''] v
      then (case (optional_field hhmm v ''start'', optional_field hhmm v ''end'', optional_field (text_between 1 100) v ''timezone'',
              optional_field (list_of 7 day_of_week) v ''daysOfWeek'') of
          (Some a, Some b, Some z, Some d) \<Rightarrow> Some \<lparr>tw_start = a, tw_end = b, tw_timezone = z, tw_daysOfWeek = d\<rparr>
        | _ \<Rightarrow> None)
      else None)"

definition value_schema :: "bool \<Rightarrow> jsval \<Rightarrow> expected_value option" where
  "value_schema booleans v =
     (case v of
        JStr s \<Rightarrow> if length s \<le> 2000 then Some (ExpStr s) else None
      | JBool b \<Rightarrow> if booleans then Some (ExpBool b) else None
      | _ \<Rightarrow> map_option ExpList (list_of 100 (text_between 0 2000) v))"

definition attribute_schema :: "string list \<Rightarrow> bool \<Rightarrow> jsval \<Rightarrow> attribute_condition option" where
  "attribute_schema operators booleans v =
     (if strict_object [''key'', ''operator'', ''value''] v
      then (case (text_between 1 255 (getp v ''key''), as_str (getp v ''operator''), value_schema booleans (getp v ''value'')) of
          (Some k, Some op, Some e) \<Rightarrow>
            if op \<in> set operators then Some \<lparr>atc_key = k, atc_operator = op, atc_value = e\<rparr> else None
        | _ \<Rightarrow> None)
      else None)"

definition ip_range_schema :: "jsval \<Rightarrow> string option" where
  "ip_range_schema v = (case v of JStr s \<Rightarrow> text_between 1 100 (JStr (trim s)) | _ \<Rightarrow> None)"

definition environment_schema :: "jsval \<Rightarrow> environment_condition option" where
  "environment_schema v =
     (if strict_object [''ipRange'', ''requireMfa''] v
      then (case (optional_field (list_of 100 ip_range_schema) v ''ipRange'', optional_field as_bool v ''requireMfa'') of
          (Some r, Some m) \<Rightarrow> Some \<lparr>env_ipRange = r, env_requireMfa = m\<rparr>
        | _ \<Rightarrow> None)
      else None)"

definition PolicyConditionSchema :: "jsval \<Rightarrow> policy_condition option" where
  "PolicyConditionSchema v =
     (if strict_object [''timeWindow'', ''userAttribute'', ''resourceAttribute'', ''environment''] v
      then (case (optional_field time_window_schema v ''timeWindow'',
              optional_field (attribute_schema [''eq'', ''neq'', ''in'', ''notIn'', ''contains''] False) v ''userAttribute'',
              optional_field (attribute_schema [''eq'', ''neq'', ''in'', ''notIn''] True) v ''resourceAttribute'',
              optional_field environment_schema v ''environment'') of
          (Some t, Some u, Some r, Some e) \<Rightarrow> Some
            \<lparr>pcn_timeWindow = t, pcn_userAttribute = u, pcn_resourceAttribute = r, pcn_environment = e\<rparr>
        | _ \<Rightarrow> None)
      else None)"

text \<open>\<open>parseConditions\<close>\<close>

definition parseConditions :: "jsval option \<Rightarrow> authz_error + policy_condition" where
  "parseConditions stored =
     (case stored of
        None \<Rightarrow> Inl InvalidConditions
      | Some v \<Rightarrow> (case PolicyConditionSchema v of None \<Rightarrow> Inl InvalidConditions | Some c \<Rightarrow> Inr c))"

section \<open>Evaluation of conditions\<close>

text \<open>
  A value of an attribute of the context: what the comparisons see of it. Attributes are looked up by name,
  \<open>None\<close> where the property is \<open>undefined\<close>.
\<close>

datatype attribute_value = AStr string | ABool bool | AOther

record evaluation_context =
  ecx_permission :: permission_context
  ecx_ipAddress :: "string option"
  ecx_userAgent :: "string option"
  ecx_timestamp :: "int option"
  ecx_userAttributes :: "string \<Rightarrow> attribute_value option"
  ecx_resourceAttributes :: "string \<Rightarrow> attribute_value option"
  ecx_mfaVerified :: "bool option"

text \<open>
  The calendar of the platform, a parameter: the hour and the minute that \<open>toLocaleString('en-US', { timeZone, hour12:
  false })\<close> shows for an instant (\<open>None\<close> for a zone that does not exist, which throws), and \<open>getDay()\<close>, the
  day of the week in the zone of the process.
\<close>

record calendar =
  cal_time :: "string \<Rightarrow> int \<Rightarrow> (nat \<times> nat) option"
  cal_day :: "int \<Rightarrow> int"

definition clock_minutes :: "string \<Rightarrow> nat" where
  "clock_minutes s = (let parts = map read_digits (split_on CHR '':'' s) in parts ! 0 * 60 + parts ! 1)"

definition in_window :: "nat \<Rightarrow> nat \<Rightarrow> nat \<Rightarrow> bool" where
  "in_window startMinutes endMinutes currentMinutes \<longleftrightarrow>
     (if startMinutes \<le> endMinutes then \<not> (currentMinutes < startMinutes \<or> endMinutes < currentMinutes)
      else \<not> (currentMinutes < startMinutes \<and> endMinutes < currentMinutes))"

definition evaluateTimeCondition :: "calendar \<Rightarrow> time_window \<Rightarrow> int \<Rightarrow> authz_error + bool" where
  "evaluateTimeCondition cal condition timestamp =
     (let tz = (if truthy_str (tw_timezone condition) then the (tw_timezone condition) else ''UTC'')
      in case cal_time cal tz timestamp of
           None \<Rightarrow> Inl UnknownTimezone
         | Some (hours, minutes) \<Rightarrow> Inr
             (\<not> (case tw_daysOfWeek condition of None \<Rightarrow> False | Some ds \<Rightarrow> ds \<noteq> [] \<and> cal_day cal timestamp \<notin> set ds) \<and>
              (truthy_str (tw_start condition) \<and> truthy_str (tw_end condition) \<longrightarrow>
                 in_window (clock_minutes (the (tw_start condition))) (clock_minutes (the (tw_end condition))) (hours * 60 + minutes))))"

text \<open>\<open>compareValues\<close>; \<open>===\<close> never holds between two arrays here.\<close>

fun strict_equal :: "attribute_value \<Rightarrow> expected_value \<Rightarrow> bool" where
  "strict_equal (AStr a) (ExpStr b) = (a = b)"
| "strict_equal (ABool a) (ExpBool b) = (a = b)"
| "strict_equal a e = False"

fun listed :: "attribute_value \<Rightarrow> string list \<Rightarrow> bool" where
  "listed (AStr a) xs = (a \<in> set xs)"
| "listed a xs = False"

fun expected_text :: "expected_value \<Rightarrow> string" where
  "expected_text (ExpStr s) = s"
| "expected_text (ExpList xs) = join '','' xs"
| "expected_text (ExpBool b) = (if b then ''true'' else ''false'')"

definition compareValues :: "attribute_value \<Rightarrow> string \<Rightarrow> expected_value \<Rightarrow> bool" where
  "compareValues actual operator expected =
     (if operator = ''eq'' then strict_equal actual expected
      else if operator = ''neq'' then \<not> strict_equal actual expected
      else if operator = ''in'' then (case expected of ExpList xs \<Rightarrow> listed actual xs | _ \<Rightarrow> False)
      else if operator = ''notIn'' then (case expected of ExpList xs \<Rightarrow> \<not> listed actual xs | _ \<Rightarrow> False)
      else if operator = ''contains'' then (case actual of AStr a \<Rightarrow> str_includes (expected_text expected) a | _ \<Rightarrow> False)
      else False)"

text \<open>\<open>evaluateUserAttribute\<close> and \<open>evaluateResourceAttribute\<close>\<close>

definition evaluateAttribute :: "attribute_condition \<Rightarrow> (string \<Rightarrow> attribute_value option) \<Rightarrow> bool" where
  "evaluateAttribute condition attributes =
     (case attributes (atc_key condition) of
        None \<Rightarrow> False
      | Some v \<Rightarrow> compareValues v (atc_operator condition) (atc_value condition))"

definition evaluateEnvironment :: "environment_condition \<Rightarrow> evaluation_context \<Rightarrow> bool" where
  "evaluateEnvironment condition ctx \<longleftrightarrow>
     (case env_ipRange condition of
        None \<Rightarrow> True
      | Some ranges \<Rightarrow> ranges = [] \<or>
          (truthy_str (ecx_ipAddress ctx) \<and> list_ex (ipAddressMatchesRange (the (ecx_ipAddress ctx))) ranges)) \<and>
     \<not> (env_requireMfa condition = Some True \<and> ecx_mfaVerified ctx \<noteq> Some True)"

definition evaluateConditions :: "calendar \<Rightarrow> policy_condition \<Rightarrow> evaluation_context \<Rightarrow> int \<Rightarrow> authz_error + bool" where
  "evaluateConditions cal conditions ctx timestamp =
     bind_res (case pcn_timeWindow conditions of None \<Rightarrow> Inr True | Some w \<Rightarrow> evaluateTimeCondition cal w timestamp)
       (\<lambda>timely. Inr (timely \<and>
          (case pcn_userAttribute conditions of None \<Rightarrow> True | Some c \<Rightarrow> evaluateAttribute c (ecx_userAttributes ctx)) \<and>
          (case pcn_resourceAttribute conditions of None \<Rightarrow> True | Some c \<Rightarrow> evaluateAttribute c (ecx_resourceAttributes ctx)) \<and>
          (case pcn_environment conditions of None \<Rightarrow> True | Some c \<Rightarrow> evaluateEnvironment c ctx)))"

section \<open>Policies\<close>

record policy_row =
  pol_tenantId :: "string option"
  pol_name :: string
  pol_description :: "string option"
  pol_effect :: string
  pol_priority :: int
  pol_resourceType :: "string option"
  pol_action :: "string option"
  pol_conditions :: "jsval option"
  pol_isActive :: bool

record policy_definition =
  pdf_id :: string
  pdf_row :: policy_row
  pdf_conditions :: policy_condition

record decision_row =
  dec_tenantId :: "string option"
  dec_userId :: "string option"
  dec_action :: string
  dec_resourceType :: "string option"
  dec_resourceId :: "string option"
  dec_decision :: string
  dec_reason :: string
  dec_policyId :: "string option"
  dec_ipAddress :: "string option"
  dec_userAgent :: "string option"
  dec_timestamp :: int

record policy_store =
  pst_policies :: "(string \<times> policy_row) list"
  pst_ownership :: ownership_table
  pst_decisions :: "decision_row list"

text \<open>\<open>addTenantScopeFilter\<close>, which knows one spelling of a tenant only.\<close>

definition tenant_filter :: "string option \<Rightarrow> string option \<Rightarrow> bool" where
  "tenant_filter tenantId rowTenant \<longleftrightarrow> (case trimmed tenantId of None \<Rightarrow> True | Some t \<Rightarrow> rowTenant = Some t \<or> rowTenant = None)"

definition policy_applies :: "string \<Rightarrow> string option \<Rightarrow> string option \<Rightarrow> policy_row \<Rightarrow> bool" where
  "policy_applies action resourceType tenantId p \<longleftrightarrow>
     pol_isActive p \<and> (pol_action p = None \<or> pol_action p = Some action) \<and>
     (pol_resourceType p = None \<or> (truthy_str resourceType \<and> pol_resourceType p = resourceType)) \<and>
     tenant_filter tenantId (pol_tenantId p)"

definition to_definition :: "string \<times> policy_row \<Rightarrow> authz_error + policy_definition" where
  "to_definition row = bind_res (parseConditions (pol_conditions (snd row)))
     (\<lambda>c. Inr \<lparr>pdf_id = fst row, pdf_row = snd row, pdf_conditions = c\<rparr>)"

text \<open>By falling priority; among equals the table's order, which the database does not fix.\<close>

definition by_priority :: "(string \<times> policy_row) list \<Rightarrow> (string \<times> policy_row) list" where
  "by_priority rows = sort_key (\<lambda>row. - pol_priority (snd row)) rows"

definition getApplicablePolicies ::
  "policy_store \<Rightarrow> string \<Rightarrow> string option \<Rightarrow> string option \<Rightarrow> authz_error + policy_definition list" where
  "getApplicablePolicies st action resourceType tenantId =
     map_res to_definition (by_priority (filter (\<lambda>row. policy_applies action resourceType tenantId (snd row)) (pst_policies st)))"

record evaluation_result =
  evr_decision :: string
  evr_reason :: string
  evr_policyId :: "string option"
  evr_policyName :: "string option"

definition policy_result :: "string \<Rightarrow> policy_definition \<Rightarrow> evaluation_result" where
  "policy_result decision p = \<lparr>evr_decision = decision, evr_reason = ''policy:'' @ pol_name (pdf_row p),
     evr_policyId = Some (pdf_id p), evr_policyName = Some (pol_name (pdf_row p))\<rparr>"

definition plain_result :: "string \<Rightarrow> string \<Rightarrow> evaluation_result" where
  "plain_result decision reason =
     \<lparr>evr_decision = decision, evr_reason = reason, evr_policyId = None, evr_policyName = None\<rparr>"

text \<open>The loop of \<open>evaluate\<close>: the first policy that decides. \<open>met\<close> evaluates the conditions.\<close>

fun decide_first ::
  "(policy_condition \<Rightarrow> authz_error + bool) \<Rightarrow> bool \<Rightarrow> policy_definition list \<Rightarrow> authz_error + evaluation_result option" where
  "decide_first met hasBase [] = Inr None"
| "decide_first met hasBase (p # ps) =
     bind_res (met (pdf_conditions p)) (\<lambda>conditionsMet.
       if conditionsMet \<and> pol_effect (pdf_row p) = ''deny'' then Inr (Some (policy_result ''deny'' p))
       else if conditionsMet \<and> pol_effect (pdf_row p) = ''allow'' \<and> \<not> hasBase then Inr (Some (policy_result ''allow'' p))
       else decide_first met hasBase ps)"

text \<open>\<open>context.timestamp || Date.now()\<close>\<close>

definition decision_time :: "int \<Rightarrow> evaluation_context \<Rightarrow> int" where
  "decision_time now ctx = (case ecx_timestamp ctx of None \<Rightarrow> now | Some t \<Rightarrow> if t = 0 then now else t)"

definition context_type :: "evaluation_context \<Rightarrow> string option" where
  "context_type ctx = map_option resource_type_text (pcx_resourceType (ecx_permission ctx))"

definition context_policies :: "policy_store \<Rightarrow> string \<Rightarrow> evaluation_context \<Rightarrow> authz_error + policy_definition list" where
  "context_policies st action ctx = getApplicablePolicies st action (context_type ctx) (pcx_tenantId (ecx_permission ctx))"

definition evaluate ::
  "calendar \<Rightarrow> authz_db \<Rightarrow> policy_store \<Rightarrow> int \<Rightarrow> string \<Rightarrow> evaluation_context \<Rightarrow> authz_error + evaluation_result" where
  "evaluate cal db st now action ctx =
     bind_res (hasPermission db now action (ecx_permission ctx)) (\<lambda>hasBasePermission.
     bind_res (context_policies st action ctx) (\<lambda>policies.
     bind_res (decide_first (\<lambda>c. evaluateConditions cal c ctx (decision_time now ctx)) hasBasePermission policies) (\<lambda>decided.
       case decided of
         Some r \<Rightarrow> Inr r
       | None \<Rightarrow>
           if hasBasePermission
           then bind_res (evaluatePermission db now action (ecx_permission ctx)) (\<lambda>e. Inr (plain_result ''allow'' (pev_reason e)))
           else Inr (plain_result ''deny'' ''no-permission''))))"

text \<open>The loop of \<open>evaluateGate\<close>, with \<open>matchedAllow\<close> and \<open>hasConditionalAllow\<close>.\<close>

fun gate_loop ::
  "(policy_condition \<Rightarrow> authz_error + bool) \<Rightarrow> policy_definition option \<Rightarrow> bool \<Rightarrow> policy_definition list \<Rightarrow>
     authz_error + evaluation_result" where
  "gate_loop met matchedAllow hasConditionalAllow [] = Inr
     (case matchedAllow of
        Some p \<Rightarrow> policy_result ''allow'' p
      | None \<Rightarrow> if hasConditionalAllow then plain_result ''deny'' ''policy-conditions-not-satisfied''
          else plain_result ''allow'' ''no-policy-deny'')"
| "gate_loop met matchedAllow hasConditionalAllow (p # ps) =
     (let anyAllow = (hasConditionalAllow \<or> pol_effect (pdf_row p) = ''allow'')
      in bind_res (met (pdf_conditions p)) (\<lambda>conditionsMet.
           if \<not> conditionsMet then gate_loop met matchedAllow anyAllow ps
           else if pol_effect (pdf_row p) = ''deny'' then Inr (policy_result ''deny'' p)
           else gate_loop met (if pol_effect (pdf_row p) = ''allow'' \<and> matchedAllow = None then Some p else matchedAllow) anyAllow ps))"

definition evaluateGate ::
  "calendar \<Rightarrow> policy_store \<Rightarrow> int \<Rightarrow> string \<Rightarrow> evaluation_context \<Rightarrow> authz_error + evaluation_result" where
  "evaluateGate cal st now action ctx =
     bind_res (context_policies st action ctx)
       (gate_loop (\<lambda>c. evaluateConditions cal c ctx (decision_time now ctx)) None False)"

text \<open>\<open>evaluateAndLog\<close> with \<open>logDecision\<close>\<close>

definition decision_of :: "int \<Rightarrow> string \<Rightarrow> evaluation_context \<Rightarrow> evaluation_result \<Rightarrow> decision_row" where
  "decision_of now action ctx r =
     \<lparr>dec_tenantId = trimmed (pcx_tenantId (ecx_permission ctx)), dec_userId = pcx_userId (ecx_permission ctx),
      dec_action = action, dec_resourceType = context_type ctx,
      dec_resourceId = nonempty (pcx_resourceId (ecx_permission ctx)), dec_decision = evr_decision r, dec_reason = evr_reason r,
      dec_policyId = nonempty (evr_policyId r), dec_ipAddress = nonempty (ecx_ipAddress ctx),
      dec_userAgent = nonempty (ecx_userAgent ctx), dec_timestamp = now\<rparr>"

definition evaluateAndLog ::
  "calendar \<Rightarrow> authz_db \<Rightarrow> policy_store \<Rightarrow> int \<Rightarrow> string \<Rightarrow> evaluation_context \<Rightarrow> authz_error + (evaluation_result \<times> policy_store)" where
  "evaluateAndLog cal db st now action ctx =
     bind_res (evaluate cal db st now action ctx) (\<lambda>r.
       Inr (r, st\<lparr>pst_decisions := pst_decisions st @ [decision_of now action ctx r]\<rparr>))"


section \<open>Administration of policies\<close>

record policy_input =
  pin_tenantId :: "string option"
  pin_name :: string
  pin_description :: "string option"
  pin_effect :: string
  pin_priority :: "int option"
  pin_resourceType :: "string option"
  pin_action :: "string option"
  pin_conditions :: "jsval option"

definition createPolicy :: "string \<Rightarrow> policy_input \<Rightarrow> policy_store \<Rightarrow> authz_error + policy_store" where
  "createPolicy newId input st =
     (if map_of (pst_policies st) newId \<noteq> None then Inl DuplicateRow
      else Inr (st\<lparr>pst_policies := pst_policies st @ [(newId,
        \<lparr>pol_tenantId = trimmed (pin_tenantId input), pol_name = pin_name input, pol_description = nonempty (pin_description input),
         pol_effect = pin_effect input, pol_priority = (case pin_priority input of None \<Rightarrow> 0 | Some n \<Rightarrow> n),
         pol_resourceType = nonempty (pin_resourceType input), pol_action = nonempty (pin_action input),
         pol_conditions = Some (case pin_conditions input of None \<Rightarrow> JObj [] | Some c \<Rightarrow> c), pol_isActive = True\<rparr>)]\<rparr>))"

text \<open>A property of the update that is \<open>None\<close> is \<open>undefined\<close>.\<close>

record policy_update =
  pup_tenantId :: "string option option"
  pup_name :: "string option"
  pup_description :: "string option"
  pup_effect :: "string option"
  pup_priority :: "int option"
  pup_resourceType :: "string option"
  pup_action :: "string option"
  pup_conditions :: "jsval option"
  pup_isActive :: "bool option"

definition updated_policy :: "policy_update \<Rightarrow> policy_row \<Rightarrow> policy_row" where
  "updated_policy u p = p
     \<lparr>pol_name := (case pup_name u of None \<Rightarrow> pol_name p | Some n \<Rightarrow> n),
      pol_description := (case pup_description u of None \<Rightarrow> pol_description p | Some d \<Rightarrow> nonempty (Some d)),
      pol_effect := (case pup_effect u of None \<Rightarrow> pol_effect p | Some e \<Rightarrow> e),
      pol_priority := (case pup_priority u of None \<Rightarrow> pol_priority p | Some n \<Rightarrow> n),
      pol_resourceType := (case pup_resourceType u of None \<Rightarrow> pol_resourceType p | Some t \<Rightarrow> nonempty (Some t)),
      pol_action := (case pup_action u of None \<Rightarrow> pol_action p | Some a \<Rightarrow> nonempty (Some a)),
      pol_conditions := (case pup_conditions u of None \<Rightarrow> pol_conditions p | Some c \<Rightarrow> Some c),
      pol_isActive := (case pup_isActive u of None \<Rightarrow> pol_isActive p | Some b \<Rightarrow> b),
      pol_tenantId := (case pup_tenantId u of None \<Rightarrow> pol_tenantId p | Some t \<Rightarrow> trimmed t)\<rparr>"

definition updatePolicy :: "int \<Rightarrow> string \<Rightarrow> policy_update \<Rightarrow> policy_store \<Rightarrow> authz_error + policy_store" where
  "updatePolicy now i u st =
     (case map_of (pst_policies st) i of
        None \<Rightarrow> Inl PolicyNotFound
      | Some p \<Rightarrow> bind_res (claimManualMutation now ''authorization_policy'' i (pst_ownership st)) (\<lambda>ownership.
          Inr (st\<lparr>pst_ownership := ownership, pst_policies := put i (updated_policy u p) (pst_policies st)\<rparr>)))"

definition deletePolicy :: "int \<Rightarrow> string \<Rightarrow> policy_store \<Rightarrow> authz_error + policy_store" where
  "deletePolicy now i st =
     (case map_of (pst_policies st) i of
        None \<Rightarrow> Inl PolicyNotFound
      | Some p \<Rightarrow> bind_res (claimManualMutation now ''authorization_policy'' i (pst_ownership st)) (\<lambda>ownership.
          Inr (st\<lparr>pst_ownership := ownership, pst_policies := del i (pst_policies st)\<rparr>)))"

definition with_ownership :: "policy_store \<Rightarrow> policy_definition \<Rightarrow> policy_definition \<times> ownership_fields" where
  "with_ownership st p = (p, adminConfigOwnershipFields
     (map_of (rev (map (\<lambda>(i, o'). (own_objectId o', o')) (listForObjectType ''authorization_policy'' (pst_ownership st)))) (pdf_id p)))"

definition getAllPolicies :: "string option \<Rightarrow> policy_store \<Rightarrow> authz_error + (policy_definition \<times> ownership_fields) list" where
  "getAllPolicies tenantId st =
     bind_res (map_res to_definition (by_priority (filter (\<lambda>row. tenant_filter tenantId (pol_tenantId (snd row))) (pst_policies st))))
       (\<lambda>ps. Inr (map (with_ownership st) ps))"

definition getPolicy :: "string \<Rightarrow> policy_store \<Rightarrow> authz_error + (policy_definition \<times> ownership_fields) option" where
  "getPolicy i st =
     (case map_of (pst_policies st) i of
        None \<Rightarrow> Inr None
      | Some p \<Rightarrow> bind_res (to_definition (i, p)) (\<lambda>d. Inr (Some (d, adminConfigOwnershipFields
          (map_option snd (findForObject ''authorization_policy'' i (pst_ownership st)))))))"

record decision_query =
  dqu_tenantId :: "string option"
  dqu_userId :: "string option"
  dqu_action :: "string option"
  dqu_resourceType :: "string option"
  dqu_resourceId :: "string option"
  dqu_decision :: "string option"
  dqu_limit :: nat
  dqu_offset :: nat

text \<open>A filter that is missing or empty does not apply; a limit of zero, or none, is 100.\<close>

definition queried :: "string option \<Rightarrow> string option \<Rightarrow> bool" where
  "queried wanted column \<longleftrightarrow> \<not> truthy_str wanted \<or> column = wanted"

definition getAuditLog :: "decision_query \<Rightarrow> policy_store \<Rightarrow> decision_row list" where
  "getAuditLog q st =
     (let rows = filter (\<lambda>d. tenant_filter (dqu_tenantId q) (dec_tenantId d) \<and> queried (dqu_userId q) (dec_userId d) \<and>
            queried (dqu_action q) (Some (dec_action d)) \<and> queried (dqu_resourceType q) (dec_resourceType d) \<and>
            queried (dqu_resourceId q) (dec_resourceId d) \<and> queried (dqu_decision q) (Some (dec_decision d))) (pst_decisions st)
      in take (if dqu_limit q = 0 then 100 else dqu_limit q) (drop (dqu_offset q) (sort_key (\<lambda>d. - dec_timestamp d) rows)))"

section \<open>What the gate and the evaluation decide\<close>

text \<open>A policy of the table that applies to a request and whose conditions hold.\<close>

definition policy_matches :: "calendar \<Rightarrow> int \<Rightarrow> evaluation_context \<Rightarrow> policy_row \<Rightarrow> bool" where
  "policy_matches cal now ctx p \<longleftrightarrow>
     (\<exists>c. parseConditions (pol_conditions p) = Inr c \<and> evaluateConditions cal c ctx (decision_time now ctx) = Inr True)"

definition request_policies :: "policy_store \<Rightarrow> string \<Rightarrow> evaluation_context \<Rightarrow> policy_row set" where
  "request_policies st action ctx =
     {p \<in> snd ` set (pst_policies st). policy_applies action (context_type ctx) (pcx_tenantId (ecx_permission ctx)) p}"

definition matching :: "calendar \<Rightarrow> policy_store \<Rightarrow> int \<Rightarrow> string \<Rightarrow> evaluation_context \<Rightarrow> string \<Rightarrow> policy_row set" where
  "matching cal st now action ctx effect =
     {p \<in> request_policies st action ctx. pol_effect p = effect \<and> policy_matches cal now ctx p}"

lemma map_res_Inr: "map_res f xs = Inr ys \<longleftrightarrow> list_all2 (\<lambda>x y. f x = Inr y) xs ys"
  by (induction xs arbitrary: ys) (auto simp: list_all2_Cons1)

lemma map_res_Inl: "map_res f xs = Inl e \<Longrightarrow> \<exists>x \<in> set xs. f x = Inl e"
  by (induction xs) (auto simp: bind_res_Inl)

lemma map_res_ok: "(\<exists>ys. map_res f xs = Inr ys) \<longleftrightarrow> (\<forall>x \<in> set xs. \<exists>y. f x = Inr y)"
  by (induction xs) auto

lemma gate_loop_deny:
  assumes "gate_loop met m h ps = Inr r"
  shows "evr_decision r = ''deny'' \<longleftrightarrow>
     (\<exists>p \<in> set ps. pol_effect (pdf_row p) = ''deny'' \<and> met (pdf_conditions p) = Inr True) \<or>
     (m = None \<and> (h \<or> (\<exists>p \<in> set ps. pol_effect (pdf_row p) = ''allow'')) \<and>
      \<not> (\<exists>p \<in> set ps. pol_effect (pdf_row p) = ''allow'' \<and> met (pdf_conditions p) = Inr True))"
  using assms
proof (induction ps arbitrary: m h)
  case Nil
  then show ?case by (auto simp: policy_result_def plain_result_def split: option.split_asm if_split_asm)
next
  case (Cons p ps)
  obtain b where b: "met (pdf_conditions p) = Inr b" using Cons.prems by (cases "met (pdf_conditions p)") auto
  show ?case
  proof (cases "b \<and> pol_effect (pdf_row p) = ''deny''")
    case True
    with Cons.prems b show ?thesis by (auto simp: policy_result_def)
  next
    case False
    with Cons.prems b Cons.IH show ?thesis
      by (auto simp: Let_def split: if_split_asm)
  qed
qed


lemma to_definition_Inr:
  "to_definition row = Inr d \<longleftrightarrow> parseConditions (pol_conditions (snd row)) = Inr (pdf_conditions d) \<and>
     pdf_id d = fst row \<and> pdf_row d = snd row"
  by (auto simp: to_definition_def)

text \<open>The policies of a request, in the order of the loops, and the rows of the table that they are.\<close>

lemma context_rows:
  assumes "context_policies st action ctx = Inr ps"
  shows "pdf_row ` set ps = request_policies st action ctx"
    and "\<And>d. d \<in> set ps \<Longrightarrow> parseConditions (pol_conditions (pdf_row d)) = Inr (pdf_conditions d)"
    and "sorted_wrt (\<lambda>a b. pol_priority (pdf_row b) \<le> pol_priority (pdf_row a)) ps"
proof -
  define rows where "rows = by_priority (filter (\<lambda>row. policy_applies action (context_type ctx) (pcx_tenantId (ecx_permission ctx)) (snd row)) (pst_policies st))"
  have all: "list_all2 (\<lambda>row d. to_definition row = Inr d) rows ps"
    using assms by (simp add: context_policies_def getApplicablePolicies_def map_res_Inr rows_def)
  then have eq: "map pdf_row ps = map snd rows"
    by (induction rows ps rule: list_all2_induct) (auto simp: to_definition_Inr)
  then have "pdf_row ` set ps = snd ` set rows" by (metis set_map)
  then show "pdf_row ` set ps = request_policies st action ctx"
    by (auto simp: rows_def by_priority_def request_policies_def image_iff)
  show "parseConditions (pol_conditions (pdf_row d)) = Inr (pdf_conditions d)" if d: "d \<in> set ps" for d
  proof -
    obtain n where n: "n < length ps" "ps ! n = d" using d by (auto simp: in_set_conv_nth)
    with all have "to_definition (rows ! n) = Inr d" by (auto simp: list_all2_conv_all_nth)
    then show ?thesis by (simp add: to_definition_Inr)
  qed
  have "sorted (map (\<lambda>row. - pol_priority (snd row)) rows)" by (simp add: rows_def by_priority_def)
  then have "sorted (map (\<lambda>p. - pol_priority p) (map pdf_row ps))" unfolding eq by (simp add: comp_def)
  then show "sorted_wrt (\<lambda>a b. pol_priority (pdf_row b) \<le> pol_priority (pdf_row a)) ps"
    by (simp add: sorted_map comp_def)
qed

lemma matching_iff:
  assumes "context_policies st action ctx = Inr ps"
  shows "p \<in> matching cal st now action ctx effect \<longleftrightarrow>
     (\<exists>d \<in> set ps. pdf_row d = p \<and> pol_effect (pdf_row d) = effect \<and>
        evaluateConditions cal (pdf_conditions d) ctx (decision_time now ctx) = Inr True)"
  using context_rows(1,2) [OF assms] unfolding matching_def policy_matches_def by force

lemma gate_decision:
  assumes "evaluateGate cal st now action ctx = Inr r"
  shows "evr_decision r = ''deny'' \<longleftrightarrow>
     matching cal st now action ctx ''deny'' \<noteq> {} \<or>
     ((\<exists>p \<in> request_policies st action ctx. pol_effect p = ''allow'') \<and> matching cal st now action ctx ''allow'' = {})"
proof -
  from assms obtain ps where ps: "context_policies st action ctx = Inr ps"
    and loop: "gate_loop (\<lambda>c. evaluateConditions cal c ctx (decision_time now ctx)) None False ps = Inr r"
    by (auto simp: evaluateGate_def)
  have any: "(\<exists>d \<in> set ps. pol_effect (pdf_row d) = ''allow'') \<longleftrightarrow> (\<exists>p \<in> request_policies st action ctx. pol_effect p = ''allow'')"
    unfolding context_rows(1) [OF ps, symmetric] by simp
  have match: "(\<exists>d \<in> set ps. pol_effect (pdf_row d) = e \<and> evaluateConditions cal (pdf_conditions d) ctx (decision_time now ctx) = Inr True)
      \<longleftrightarrow> matching cal st now action ctx e \<noteq> {}" for e
    using matching_iff [OF ps, of _ cal now e] by blast
  show ?thesis unfolding gate_loop_deny [OF loop] any match by simp
qed

text \<open>The first policy that decides, for a request without and with the base permission.\<close>

lemma decide_first_base:
  "decide_first met True ps = Inr x \<Longrightarrow>
     (x = None \<and> \<not> (\<exists>p \<in> set ps. pol_effect (pdf_row p) = ''deny'' \<and> met (pdf_conditions p) = Inr True)) \<or>
     (\<exists>p \<in> set ps. x = Some (policy_result ''deny'' p) \<and> pol_effect (pdf_row p) = ''deny'' \<and> met (pdf_conditions p) = Inr True)"
proof (induction ps)
  case (Cons p ps)
  obtain b where b: "met (pdf_conditions p) = Inr b" using Cons.prems by (cases "met (pdf_conditions p)") auto
  with Cons show ?case by (auto split: if_split_asm)
qed simp

lemma decide_first_open:
  "decide_first met False ps = Inr x \<Longrightarrow> sorted_wrt (\<lambda>a b. pol_priority (pdf_row b) \<le> pol_priority (pdf_row a)) ps \<Longrightarrow>
     (\<exists>p \<in> set ps. x = Some (policy_result ''allow'' p) \<and> pol_effect (pdf_row p) = ''allow'' \<and> met (pdf_conditions p) = Inr True \<and>
        (\<forall>q \<in> set ps. pol_effect (pdf_row q) = ''deny'' \<and> met (pdf_conditions q) = Inr True \<longrightarrow>
           pol_priority (pdf_row q) \<le> pol_priority (pdf_row p))) \<or>
     ((x = None \<or> (\<exists>p. x = Some (policy_result ''deny'' p))) \<and>
        (\<forall>p \<in> set ps. pol_effect (pdf_row p) = ''allow'' \<and> met (pdf_conditions p) = Inr True \<longrightarrow>
           (\<exists>q \<in> set ps. pol_effect (pdf_row q) = ''deny'' \<and> met (pdf_conditions q) = Inr True \<and>
              pol_priority (pdf_row p) \<le> pol_priority (pdf_row q))))"
proof (induction ps)
  case (Cons p ps)
  obtain b where b: "met (pdf_conditions p) = Inr b" using Cons.prems by (cases "met (pdf_conditions p)") auto
  have below: "\<forall>q \<in> set ps. pol_priority (pdf_row q) \<le> pol_priority (pdf_row p)" using Cons.prems(2) by simp
  consider (deny) "b" "pol_effect (pdf_row p) = ''deny''" | (allow) "b" "pol_effect (pdf_row p) = ''allow''"
    | (skip) "\<not> (b \<and> pol_effect (pdf_row p) \<in> {''deny'', ''allow''})" by auto
  then show ?case
  proof cases
    case deny
    with Cons.prems(1) b have "x = Some (policy_result ''deny'' p)" by simp
    with deny b below show ?thesis by auto
  next
    case allow
    with Cons.prems(1) b have "x = Some (policy_result ''allow'' p)" by simp
    with allow b below show ?thesis by auto
  next
    case skip
    with Cons.prems(1) b have rest: "decide_first met False ps = Inr x" by auto
    from skip b have out: "pol_effect (pdf_row p) = e \<and> met (pdf_conditions p) = Inr True \<longleftrightarrow> False" if "e \<in> {''deny'', ''allow''}" for e
      using that by auto
    from Cons.IH [OF rest] Cons.prems(2) out [of "''deny''"] out [of "''allow''"] show ?thesis by (simp cong: conj_cong)
  qed
qed simp


lemma result_decisions [simp]: "evr_decision (policy_result d p) = d" "evr_decision (plain_result d r) = d"
  by (simp_all add: policy_result_def plain_result_def)

lemma evaluate_cases:
  assumes "evaluate cal db st now action ctx = Inr r" and "hasPermission db now action (ecx_permission ctx) = Inr base"
  shows "\<exists>ps x. context_policies st action ctx = Inr ps \<and>
     decide_first (\<lambda>c. evaluateConditions cal c ctx (decision_time now ctx)) base ps = Inr x \<and>
     evr_decision r = (case x of Some y \<Rightarrow> evr_decision y | None \<Rightarrow> if base then ''allow'' else ''deny'')"
proof -
  from assms obtain ps x where ps: "context_policies st action ctx = Inr ps"
    and x: "decide_first (\<lambda>c. evaluateConditions cal c ctx (decision_time now ctx)) base ps = Inr x"
    and rest: "(case x of Some r \<Rightarrow> Inr r
      | None \<Rightarrow> if base then bind_res (evaluatePermission db now action (ecx_permission ctx)) (\<lambda>e. Inr (plain_result ''allow'' (pev_reason e)))
          else Inr (plain_result ''deny'' ''no-permission'')) = Inr r"
    unfolding evaluate_def by auto
  from rest have "evr_decision r = (case x of Some y \<Rightarrow> evr_decision y | None \<Rightarrow> if base then ''allow'' else ''deny'')"
    by (cases x) (auto split: if_split_asm)
  with ps x show ?thesis by blast
qed

text \<open>With the base permission only a matching deny policy refuses.\<close>

lemma evaluate_with_base:
  assumes "evaluate cal db st now action ctx = Inr r" and "hasPermission db now action (ecx_permission ctx) = Inr True"
  shows "evr_decision r = ''allow'' \<longleftrightarrow> matching cal st now action ctx ''deny'' = {}"
proof -
  from assms obtain ps x where ps: "context_policies st action ctx = Inr ps"
    and d: "decide_first (\<lambda>c. evaluateConditions cal c ctx (decision_time now ctx)) True ps = Inr x"
    and r: "evr_decision r = (case x of Some y \<Rightarrow> evr_decision y | None \<Rightarrow> ''allow'')"
    using evaluate_cases [OF assms] by auto
  from decide_first_base [OF d] r matching_iff [OF ps, of _ cal now "''deny''"] show ?thesis by fastforce
qed

text \<open>Without it an allow policy grants when no matching deny policy has a higher priority; ties are open.\<close>

lemma evaluate_without_base:
  assumes "evaluate cal db st now action ctx = Inr r" and "hasPermission db now action (ecx_permission ctx) = Inr False"
  shows "evr_decision r = ''allow'' \<Longrightarrow> \<exists>p \<in> matching cal st now action ctx ''allow''.
      \<forall>q \<in> matching cal st now action ctx ''deny''. pol_priority q \<le> pol_priority p"
    and "evr_decision r \<noteq> ''allow'' \<Longrightarrow> \<forall>p \<in> matching cal st now action ctx ''allow''.
      \<exists>q \<in> matching cal st now action ctx ''deny''. pol_priority p \<le> pol_priority q"
proof -
  from assms obtain ps x where ps: "context_policies st action ctx = Inr ps"
    and d: "decide_first (\<lambda>c. evaluateConditions cal c ctx (decision_time now ctx)) False ps = Inr x"
    and r: "evr_decision r = (case x of Some y \<Rightarrow> evr_decision y | None \<Rightarrow> ''deny'')"
    using evaluate_cases [OF assms] by auto
  note m = matching_iff [OF ps, of _ cal now]
  have first: "(\<exists>p \<in> matching cal st now action ctx ''allow''. evr_decision r = ''allow'' \<and>
        (\<forall>q \<in> matching cal st now action ctx ''deny''. pol_priority q \<le> pol_priority p)) \<or>
     (evr_decision r = ''deny'' \<and> (\<forall>p \<in> matching cal st now action ctx ''allow''.
        \<exists>q \<in> matching cal st now action ctx ''deny''. pol_priority p \<le> pol_priority q))"
    using decide_first_open [OF d context_rows(3) [OF ps]]
  proof (elim disjE)
    assume "\<exists>p \<in> set ps. x = Some (policy_result ''allow'' p) \<and> pol_effect (pdf_row p) = ''allow'' \<and>
        evaluateConditions cal (pdf_conditions p) ctx (decision_time now ctx) = Inr True \<and>
        (\<forall>q \<in> set ps. pol_effect (pdf_row q) = ''deny'' \<and> evaluateConditions cal (pdf_conditions q) ctx (decision_time now ctx) = Inr True \<longrightarrow>
           pol_priority (pdf_row q) \<le> pol_priority (pdf_row p))"
    then obtain p where p: "p \<in> set ps" "x = Some (policy_result ''allow'' p)" "pol_effect (pdf_row p) = ''allow''"
        "evaluateConditions cal (pdf_conditions p) ctx (decision_time now ctx) = Inr True"
      and below: "\<forall>q \<in> set ps. pol_effect (pdf_row q) = ''deny'' \<and> evaluateConditions cal (pdf_conditions q) ctx (decision_time now ctx) = Inr True \<longrightarrow>
           pol_priority (pdf_row q) \<le> pol_priority (pdf_row p)" by blast
    have "pdf_row p \<in> matching cal st now action ctx ''allow''" using p by (auto simp: m)
    moreover have "\<forall>q \<in> matching cal st now action ctx ''deny''. pol_priority q \<le> pol_priority (pdf_row p)"
      using below by (auto simp: m)
    ultimately show ?thesis using p(2) r by auto
  next
    assume "(x = None \<or> (\<exists>p. x = Some (policy_result ''deny'' p))) \<and> (\<forall>p \<in> set ps. pol_effect (pdf_row p) = ''allow'' \<and>
        evaluateConditions cal (pdf_conditions p) ctx (decision_time now ctx) = Inr True \<longrightarrow>
        (\<exists>q \<in> set ps. pol_effect (pdf_row q) = ''deny'' \<and> evaluateConditions cal (pdf_conditions q) ctx (decision_time now ctx) = Inr True \<and>
           pol_priority (pdf_row p) \<le> pol_priority (pdf_row q)))"
    then have x: "x = None \<or> (\<exists>p. x = Some (policy_result ''deny'' p))"
      and above: "\<forall>p \<in> set ps. pol_effect (pdf_row p) = ''allow'' \<and> evaluateConditions cal (pdf_conditions p) ctx (decision_time now ctx) = Inr True \<longrightarrow>
        (\<exists>q \<in> set ps. pol_effect (pdf_row q) = ''deny'' \<and> evaluateConditions cal (pdf_conditions q) ctx (decision_time now ctx) = Inr True \<and>
           pol_priority (pdf_row p) \<le> pol_priority (pdf_row q))" by simp_all
    have "\<forall>p \<in> matching cal st now action ctx ''allow''. \<exists>q \<in> matching cal st now action ctx ''deny''. pol_priority p \<le> pol_priority q"
      using above by (simp add: Ball_def Bex_def m) blast
    moreover have "evr_decision r = ''deny''" using x r by auto
    ultimately show ?thesis by blast
  qed
  from first show "evr_decision r = ''allow'' \<Longrightarrow> \<exists>p \<in> matching cal st now action ctx ''allow''.
      \<forall>q \<in> matching cal st now action ctx ''deny''. pol_priority q \<le> pol_priority p" by auto
  from first show "evr_decision r \<noteq> ''allow'' \<Longrightarrow> \<forall>p \<in> matching cal st now action ctx ''allow''.
      \<exists>q \<in> matching cal st now action ctx ''deny''. pol_priority p \<le> pol_priority q" by auto
qed

text \<open>
  A stored text of conditions that is not valid, said without \<open>parseConditions\<close>: it is not JSON, or it is JSON that
  the schema of the conditions does not admit (another kind of value, a key the schema does not know, a field of a wrong
  shape). Nothing else makes the gate fail with the error of invalid conditions, and one such policy does, wherever it
  stands in the order of the policies and whatever the others decide.
\<close>

definition invalid_document :: "jsval option \<Rightarrow> bool" where
  "invalid_document stored \<longleftrightarrow> (\<forall>v. stored = Some v \<longrightarrow> PolicyConditionSchema v = None)"

lemma parse_refuses: "parseConditions stored = Inl e \<longleftrightarrow> invalid_document stored \<and> e = InvalidConditions"
  by (auto simp: parseConditions_def invalid_document_def split: option.split)

lemma definition_refused: "to_definition row = Inl e \<longleftrightarrow> invalid_document (pol_conditions (snd row)) \<and> e = InvalidConditions"
  by (auto simp: to_definition_def bind_res_Inl parse_refuses)

lemma context_refused:
  "context_policies st action ctx = Inl e \<longleftrightarrow>
     (\<exists>p \<in> request_policies st action ctx. invalid_document (pol_conditions p)) \<and> e = InvalidConditions"
proof -
  define rows where "rows = by_priority (filter (\<lambda>row. policy_applies action (context_type ctx) (pcx_tenantId (ecx_permission ctx)) (snd row)) (pst_policies st))"
  have eq: "context_policies st action ctx = map_res to_definition rows"
    by (simp add: context_policies_def getApplicablePolicies_def rows_def)
  have rows: "(\<exists>p \<in> request_policies st action ctx. invalid_document (pol_conditions p)) \<longleftrightarrow>
      (\<exists>row \<in> set rows. invalid_document (pol_conditions (snd row)))"
    unfolding rows_def by_priority_def request_policies_def by force
  have ok: "(\<exists>y. to_definition row = Inr y) \<longleftrightarrow> \<not> invalid_document (pol_conditions (snd row))" for row
  proof (cases "to_definition row")
    case (Inl e)
    with definition_refused [of row e] show ?thesis by simp
  next
    case (Inr d)
    with definition_refused [of row InvalidConditions] show ?thesis by simp
  qed
  show ?thesis unfolding eq rows
  proof
    assume "map_res to_definition rows = Inl e"
    then show "(\<exists>row \<in> set rows. invalid_document (pol_conditions (snd row))) \<and> e = InvalidConditions"
      by (metis map_res_Inl definition_refused)
  next
    assume bad: "(\<exists>row \<in> set rows. invalid_document (pol_conditions (snd row))) \<and> e = InvalidConditions"
    then have "\<not> (\<exists>ys. map_res to_definition rows = Inr ys)" unfolding map_res_ok ok by blast
    then obtain e' where e': "map_res to_definition rows = Inl e'" by (cases "map_res to_definition rows") auto
    then have "e' = InvalidConditions" by (metis map_res_Inl definition_refused)
    with e' bad show "map_res to_definition rows = Inl e" by simp
  qed
qed

lemma conditions_error: "evaluateConditions cal c ctx t = Inl e \<Longrightarrow> e = UnknownTimezone"
  by (auto simp: evaluateConditions_def evaluateTimeCondition_def bind_res_Inl Let_def split: option.split_asm prod.split_asm)

lemma gate_loop_error:
  assumes "\<And>c e. met c = Inl e \<Longrightarrow> e = UnknownTimezone"
  shows "gate_loop met m h ps = Inl e \<Longrightarrow> e = UnknownTimezone"
proof (induction ps arbitrary: m h)
  case (Cons p ps)
  then show ?case using assms by (cases "met (pdf_conditions p)") (auto simp: Let_def split: if_split_asm)
qed simp

lemma decide_first_error:
  assumes "\<And>c e. met c = Inl e \<Longrightarrow> e = UnknownTimezone"
  shows "decide_first met b ps = Inl e \<Longrightarrow> e = UnknownTimezone"
proof (induction ps)
  case (Cons p ps)
  then show ?case using assms by (cases "met (pdf_conditions p)") (auto split: if_split_asm)
qed simp

lemma gate_refuses_documents:
  "evaluateGate cal st now action ctx = Inl InvalidConditions \<longleftrightarrow>
     (\<exists>p \<in> request_policies st action ctx. invalid_document (pol_conditions p))"
proof
  assume "evaluateGate cal st now action ctx = Inl InvalidConditions"
  then consider "context_policies st action ctx = Inl InvalidConditions"
    | ps where "gate_loop (\<lambda>c. evaluateConditions cal c ctx (decision_time now ctx)) None False ps = Inl InvalidConditions"
    by (auto simp: evaluateGate_def bind_res_Inl)
  then show "\<exists>p \<in> request_policies st action ctx. invalid_document (pol_conditions p)"
  proof cases
    case 2
    then have "InvalidConditions = UnknownTimezone" by (rule gate_loop_error [rotated]) (rule conditions_error)
    then show ?thesis by simp
  qed (simp add: context_refused)
next
  assume "\<exists>p \<in> request_policies st action ctx. invalid_document (pol_conditions p)"
  with context_refused have "context_policies st action ctx = Inl InvalidConditions" by blast
  then show "evaluateGate cal st now action ctx = Inl InvalidConditions" by (simp add: evaluateGate_def)
qed

lemma evaluate_refuses_documents:
  assumes "hasPermission db now action (ecx_permission ctx) = Inr base"
  shows "evaluate cal db st now action ctx = Inl InvalidConditions \<longleftrightarrow>
     (\<exists>p \<in> request_policies st action ctx. invalid_document (pol_conditions p))"
proof
  assume "evaluate cal db st now action ctx = Inl InvalidConditions"
  then consider "context_policies st action ctx = Inl InvalidConditions"
    | ps where "decide_first (\<lambda>c. evaluateConditions cal c ctx (decision_time now ctx)) base ps = Inl InvalidConditions"
    | "base" "evaluatePermission db now action (ecx_permission ctx) = Inl InvalidConditions"
    using assms by (auto simp: evaluate_def bind_res_Inl split: option.split_asm if_split_asm)
  then show "\<exists>p \<in> request_policies st action ctx. invalid_document (pol_conditions p)"
  proof cases
    case 2
    then have "InvalidConditions = UnknownTimezone" by (rule decide_first_error [rotated]) (rule conditions_error)
    then show ?thesis by simp
  next
    case 3
    with assms show ?thesis by (simp add: hasPermission_def)
  qed (simp add: context_refused)
next
  assume "\<exists>p \<in> request_policies st action ctx. invalid_document (pol_conditions p)"
  with context_refused have "context_policies st action ctx = Inl InvalidConditions" by blast
  with assms show "evaluate cal db st now action ctx = Inl InvalidConditions" by (simp add: evaluate_def)
qed

lemma invalid_document_stops:
  assumes "p \<in> request_policies st action ctx" and "invalid_document (pol_conditions p)"
  shows "evaluateAndLog cal db st now action ctx \<noteq> Inr out"
proof -
  from assms context_refused have "context_policies st action ctx = Inl InvalidConditions" by blast
  then have "\<nexists>r. evaluate cal db st now action ctx = Inr r" by (auto simp: evaluate_def)
  then show ?thesis by (auto simp: evaluateAndLog_def)
qed

end
