(* ===== verification/Action_Registry.thy ===== *)
theory Action_Registry
  imports Permission_Catalog
begin

text \<open>
  The actions of the product and what they need (\<open>shared/src/authz/permission-actions.ts\<close> and
  \<open>shared/src/authz/permission-action-definitions/*.ts\<close>): their permission, the type of resource, the surfaces of
  the user interface and the routes. The texts for people (category, description, additional checks) and the
  marks of coverage are left out.
\<close>

section \<open>Definitions\<close>

record action_definition =
  act_actionId :: string
  act_permissionId :: string
  act_resourceType :: resource_type
  act_operation :: string
  act_risk :: string
  act_audit :: bool
  act_ui :: "(string \<times> string) list"
  act_routes :: "(string \<times> string \<times> string) list"

definition action ::
  "string \<Rightarrow> string \<Rightarrow> resource_type \<Rightarrow> string \<Rightarrow> string \<Rightarrow> bool \<Rightarrow> (string \<times> string) list \<Rightarrow> (string \<times> string \<times> string) list \<Rightarrow>
     action_definition" where
  "action i p t op risk audit ui routes =
     \<lparr>act_actionId = i, act_permissionId = p, act_resourceType = t, act_operation = op, act_risk = risk, act_audit = audit,
      act_ui = ui, act_routes = routes\<rparr>"

text \<open>A resolver of resources: its id, the type, the parameters that it needs.\<close>

definition AUTHZ_RESOURCE_RESOLVERS :: "(string \<times> resource_type \<times> string list) list" where
  "AUTHZ_RESOURCE_RESOLVERS =
     [(''platform.self'', PlatformResource, []),
      (''tenant.fromContext'', TenantResource, [''tenantId'']),
      (''project.byId'', ProjectResource, [''projectId'']),
      (''project.visibleCollection'', ProjectResource, []),
      (''project.byFileId'', ProjectResource, [''fileId'']),
      (''project.byFolderId'', ProjectResource, [''folderId'']),
      (''project.byVersionId'', ProjectResource, [''versionId'']),
      (''project.byGitRepositoryId'', ProjectResource, [''id'']),
      (''project.byGitDeploymentId'', ProjectResource, [''id'']),
      (''project.byGitLockId'', ProjectResource, [''lockId'']),
      (''engine.byId'', EngineResource, [''engineId'']),
      (''engine.visibleCollection'', EngineResource, []),
      (''engine.bySavedFilterId'', EngineResource, [''id'']),
      (''engineSet.byId'', EngineSetResource, [''engineSetId'']),
      (''projectEngineTarget.byId'', ProjectEngineTarget, [''projectEngineTargetId'']),
      (''projectEngineTarget.fromProjectAndEngine'', ProjectEngineTarget, [''projectId'', ''engineId'']),
      (''projectEngineTarget.byProjectAndEngine'', ProjectEngineTarget, [''projectId'', ''engineId'']),
      (''externalEngineSystem.byId'', ExternalEngineSystem, [''externalSystemId'']),
      (''apiClient.byId'', ApiClientResource, [''apiClientId'']),
      (''ssoMapping.byId'', SsoMapping, [''mappingId''])]"

text \<open>\<open>PLATFORM_AUTHZ_ACTIONS\<close>\<close>

definition platform_actions_1 :: "action_definition list" where
  "platform_actions_1 =
    [action ''platform.tenants.read'' ''platform:tenants:view'' PlatformResource ''read'' ''high'' False
       [(''admin.tenants'', ''hide'')]
       [(''GET'', ''/api/platform/tenants'', ''platform.self'')],
     action ''platform.tenants.manage'' ''platform:tenants:manage'' PlatformResource ''manage'' ''critical'' True
       [(''admin.tenants.actions'', ''disable'')]
       [(''POST'', ''/api/platform/tenants'', ''platform.self''),
        (''PATCH'', ''/api/platform/tenants/{tenantId}'', ''platform.self'')],
     action ''platform.tenants.workload.capabilities.read'' ''platform:tenants:view'' PlatformResource ''read'' ''high'' True
       [(''workload.tenants.capabilities'', ''hide'')]
       [(''GET'', ''/api/workloads/tenancy/capabilities'', ''platform.self'')],
     action ''platform.tenants.workload.provision'' ''platform:tenants:manage'' PlatformResource ''manage'' ''critical'' True
       [(''workload.tenants.provision'', ''disable'')]
       [(''POST'', ''/api/workloads/tenants'', ''platform.self'')],
     action ''platform.tenants.workload.lifecycle'' ''platform:tenants:manage'' PlatformResource ''manage'' ''critical'' True
       [(''workload.tenants.lifecycle'', ''disable'')]
       [(''POST'', ''/api/workloads/tenants/{tenantId}/suspend'', ''platform.self''),
        (''POST'', ''/api/workloads/tenants/{tenantId}/resume'', ''platform.self''),
        (''POST'', ''/api/workloads/tenants/{tenantId}/identity-provider-secret-reference'', ''platform.self''),
        (''PUT'', ''/api/workloads/tenants/{tenantId}/apps/{pluginId}/eligibility'', ''platform.self'')],
     action ''platform.tenants.workload.aliases.reconcile'' ''platform:tenants:manage'' PlatformResource ''manage'' ''critical'' True
       [(''workload.tenants.aliases'', ''disable'')]
       [(''PUT'', ''/api/workloads/tenants/{tenantId}/routing-aliases'', ''platform.self'')],
     action ''platform.authz.permissions.read'' ''platform:authz:roles:view'' PlatformResource ''read'' ''low'' False
       [(''admin.access-control.permissions'', ''hide'')]
       [(''GET'', ''/api/authz/permissions'', ''platform.self'')],
     action ''platform.authz.roles.read'' ''platform:authz:roles:view'' PlatformResource ''read'' ''low'' False
       [(''admin.access-control.roles'', ''hide'')]
       [(''GET'', ''/api/authz/roles'', ''platform.self''), (''GET'', ''/api/authz/roles/{id}'', ''platform.self'')],
     action ''platform.authz.roles.manage'' ''platform:authz:roles:manage'' PlatformResource ''manage'' ''high'' True
       [(''admin.access-control.roles.edit'', ''disable'')]
       [(''POST'', ''/api/authz/permissions'', ''platform.self''),
        (''POST'', ''/api/authz/roles'', ''platform.self''), (''PUT'', ''/api/authz/roles/{id}'', ''platform.self''),
        (''DELETE'', ''/api/authz/roles/{id}'', ''platform.self'')],
     action ''platform.config-bundles.view'' ''platform:config-bundles:view'' PlatformResource ''read'' ''low'' False
       [(''admin.configuration-bundles.history'', ''hide'')]
       [(''GET'', ''/api/authz/config-bundles/runs'', ''platform.self''),
        (''GET'', ''/api/authz/config-bundles/runs/{id}'', ''platform.self''),
        (''GET'', ''/api/authz/config-bundles/runs/{id}/identity-replay-tasks'', ''platform.self''),
        (''GET'', ''/api/authz/config-bundles/runs/{id}/runtime-reconciliation-tasks'', ''platform.self''),
        (''GET'', ''/api/authz/config-bundles/governance-ownership'', ''platform.self''),
        (''GET'', ''/api/authz/config-bundles/governance-ownership/receipts'', ''platform.self''),
        (''GET'', ''/api/authz/config-bundles/governance-ownership/receipts/{id}'', ''platform.self'')]]"

definition platform_actions_2 :: "action_definition list" where
  "platform_actions_2 =
    [action ''platform.config-bundles.preview'' ''platform:config-bundles:preview'' PlatformResource ''read'' ''medium'' True
       [(''admin.configuration-bundles.preview'', ''disable'')]
       [(''POST'', ''/api/authz/config-bundles/preview'', ''platform.self''),
        (''POST'', ''/api/authz/config-bundles/validate-secret-refs'', ''platform.self''),
        (''POST'', ''/api/authz/config-bundles/import-zip'', ''platform.self''),
        (''POST'', ''/api/authz/config-bundles/import-url'', ''platform.self''),
        (''POST'', ''/api/authz/config-bundles/diff'', ''platform.self''),
        (''POST'', ''/api/authz/config-bundles/governance-ownership/preview'', ''platform.self''),
        (''POST'', ''/engines-api/engines/{id}/camunda-native-grants/imports/{runId}/rollback/preview'', ''platform.self'')],
     action ''platform.config-bundles.apply'' ''platform:config-bundles:apply'' PlatformResource ''manage'' ''high'' True
       [(''admin.configuration-bundles.apply'', ''disable'')]
       [(''POST'', ''/api/authz/config-bundles/apply'', ''platform.self''),
        (''POST'', ''/api/authz/config-bundles/governance-ownership/apply'', ''platform.self''),
        (''POST'', ''/engines-api/engines/{id}/camunda-native-grants/imports/{runId}/apply'', ''platform.self''),
        (''POST'', ''/engines-api/engines/{id}/camunda-native-grants/imports/{runId}/rollback'', ''platform.self'')],
     action ''platform.config-bundles.export'' ''platform:config-bundles:export'' PlatformResource ''read'' ''medium'' True
       [(''admin.configuration-bundles.export'', ''disable'')]
       [(''GET'', ''/api/authz/config-bundles/export'', ''platform.self'')],
     action ''platform.camunda-native-grants.preview'' ''platform:camunda-native-grants:preview'' PlatformResource ''read'' ''high'' True
       [(''mission-control.engines.camunda-native-grants.preview'', ''disable'')]
       [(''POST'', ''/engines-api/engines/{id}/camunda-native-grants/imports/preview'', ''platform.self'')],
     action ''platform.camunda-native-grants.history.read'' ''platform:camunda-native-grants:history-view'' PlatformResource ''read'' ''medium'' True
       [(''mission-control.engines.camunda-native-grants.history'', ''hide'')]
       [(''GET'', ''/engines-api/engines/{id}/camunda-native-grants/imports'', ''platform.self''),
        (''GET'', ''/engines-api/engines/{id}/camunda-native-grants/imports/{runId}'', ''platform.self'')],
     action ''platform.camunda-native-grants.sensitive.read'' ''platform:camunda-native-grants:sensitive-view'' PlatformResource ''read'' ''high'' True
       [(''mission-control.engines.camunda-native-grants.detail'', ''hide'')]
       [(''GET'', ''/engines-api/engines/{id}/camunda-native-grants/imports/{runId}/detail'', ''platform.self'')],
     action ''platform.camunda-native-grants.draft'' ''platform:camunda-native-grants:draft'' PlatformResource ''manage'' ''high'' True
       [(''mission-control.engines.camunda-native-grants.draft'', ''disable'')]
       [(''POST'', ''/engines-api/engines/{id}/camunda-native-grants/imports/{runId}/draft'', ''platform.self'')],
     action ''platform.engine-backstop.read'' ''platform:engine-backstop:view'' PlatformResource ''read'' ''medium'' True
       [(''mission-control.engines.backstop.history'', ''hide'')]
       [(''GET'', ''/engines-api/engines/{id}/backstop/status'', ''platform.self''),
        (''GET'', ''/engines-api/engines/{id}/backstop/mappings'', ''platform.self''),
        (''GET'', ''/engines-api/engines/{id}/backstop/sync'', ''platform.self''),
        (''GET'', ''/engines-api/engines/{id}/backstop/sync/{runId}'', ''platform.self'')],
     action ''platform.engine-backstop.manage'' ''platform:engine-backstop:manage'' PlatformResource ''manage'' ''high'' True
       [(''mission-control.engines.backstop.mappings'', ''disable'')]
       [(''POST'', ''/engines-api/engines/{id}/backstop/mappings'', ''platform.self'')],
     action ''platform.engine-backstop.preview'' ''platform:engine-backstop:preview'' PlatformResource ''read'' ''high'' True
       [(''mission-control.engines.backstop.preview'', ''disable'')]
       [(''POST'', ''/engines-api/engines/{id}/backstop/sync/preview'', ''platform.self'')]]"

definition platform_actions_3 :: "action_definition list" where
  "platform_actions_3 =
    [action ''platform.engine-backstop.sensitive.read'' ''platform:engine-backstop:sensitive-view'' PlatformResource ''read'' ''high'' True
       [(''mission-control.engines.backstop.detail'', ''hide'')]
       [(''GET'', ''/engines-api/engines/{id}/backstop/sync/{runId}/detail'', ''platform.self'')],
     action ''platform.engine-backstop.apply'' ''platform:engine-backstop:apply'' PlatformResource ''manage'' ''high'' True
       [(''mission-control.engines.backstop.apply'', ''disable'')]
       [(''POST'', ''/engines-api/engines/{id}/backstop/sync/{runId}/apply'', ''platform.self''),
        (''POST'', ''/engines-api/engines/{id}/backstop/sync/{runId}/rollback'', ''platform.self'')],
     action ''platform.engine-backstop.drift-check'' ''platform:engine-backstop:drift-check'' PlatformResource ''read'' ''high'' True
       [(''mission-control.engines.backstop.drift-check'', ''disable'')]
       [(''POST'', ''/engines-api/engines/{id}/backstop/sync/{runId}/drift-check'', ''platform.self'')],
     action ''platform.authz.assignments.read'' ''platform:authz:roles:view'' PlatformResource ''read'' ''medium'' True
       [(''admin.access-control.assignments'', ''hide'')]
       [(''GET'', ''/api/authz/role-assignments'', ''platform.self'')],
     action ''platform.authz.assignments.create'' ''platform:authz:roles:manage'' PlatformResource ''create'' ''high'' True
       [(''admin.access-control.assignments.create'', ''disable'')]
       [(''POST'', ''/api/authz/role-assignments'', ''platform.self'')],
     action ''platform.authz.assignments.create.engine-access'' ''platform:authz:roles:manage'' PlatformResource ''create'' ''high'' False
       [(''admin.access-control.assignments.create.engine-access'', ''disable'')]
       [],
     action ''platform.authz.assignments.create.project-access'' ''platform:authz:roles:manage'' PlatformResource ''create'' ''high'' False
       [(''admin.access-control.assignments.create.project-access'', ''disable'')]
       [],
     action ''platform.authz.assignments.delete'' ''platform:authz:roles:manage'' PlatformResource ''delete'' ''high'' True
       [(''admin.access-control.assignments.delete'', ''disable'')]
       [(''DELETE'', ''/api/authz/role-assignments/:id'', ''platform.self'')],
     action ''platform.authz.assignments.delete.engine-access'' ''platform:authz:roles:manage'' PlatformResource ''delete'' ''high'' False
       [(''admin.access-control.assignments.delete.engine-access'', ''disable'')]
       [],
     action ''platform.authz.assignments.delete.project-access'' ''platform:authz:roles:manage'' PlatformResource ''delete'' ''high'' False
       [(''admin.access-control.assignments.delete.project-access'', ''disable'')]
       [],
     action ''platform.authz.groups.read'' ''platform:authz:roles:view'' PlatformResource ''read'' ''medium'' True
       [(''admin.access-control.groups'', ''hide'')]
       [(''GET'', ''/api/authz/groups'', ''platform.self''),
        (''GET'', ''/api/authz/group-memberships'', ''platform.self'')]]"

definition platform_actions_4 :: "action_definition list" where
  "platform_actions_4 =
    [action ''platform.authz.groups.manage'' ''platform:authz:roles:manage'' PlatformResource ''manage'' ''high'' True
       [(''admin.access-control.groups.edit'', ''disable'')]
       [(''POST'', ''/api/authz/groups'', ''platform.self''),
        (''PUT'', ''/api/authz/groups/:id'', ''platform.self''),
        (''DELETE'', ''/api/authz/groups/:id'', ''platform.self''),
        (''POST'', ''/api/authz/group-memberships'', ''platform.self''),
        (''DELETE'', ''/api/authz/group-memberships/:id'', ''platform.self'')],
     action ''platform.authz.policies.read'' ''platform:authz:roles:view'' PlatformResource ''read'' ''medium'' True
       [(''admin.access-control.policies'', ''hide'')]
       [(''GET'', ''/api/authz/policies'', ''platform.self'')],
     action ''platform.authz.policies.manage'' ''platform:authz:roles:manage'' PlatformResource ''manage'' ''high'' True
       [(''admin.access-control.policies.edit'', ''disable'')]
       [(''POST'', ''/api/authz/policies'', ''platform.self''),
        (''PUT'', ''/api/authz/policies/{id}'', ''platform.self''),
        (''DELETE'', ''/api/authz/policies/{id}'', ''platform.self'')],
     action ''platform.authz.evaluate'' ''platform:authz:check'' PlatformResource ''evaluate'' ''medium'' True
       [(''admin.access-control.effective-access'', ''hide'')]
       [(''POST'', ''/api/authz/evaluate'', ''platform.self'')],
     action ''platform.sso.engine-assignments.read'' ''platform:sso-assignments:view'' SsoMapping ''read'' ''medium'' True
       [(''admin.identity-providers.diagnostics'', ''hide'')]
       [(''GET'', ''/api/authz/sso-sync-runs'', ''platform.self''),
        (''GET'', ''/api/authz/sso-sync-runs/:id/events'', ''platform.self'')],
     action ''platform.sso.engine-assignments.manage'' ''platform:sso-assignments:manage'' SsoMapping ''manage'' ''high'' True
       [(''admin.identity-providers.diagnostics.actions'', ''disable'')]
       [(''POST'', ''/api/authz/sso-sync-runs/reconcile'', ''platform.self'')],
     action ''platform.sso.group-mappings.read'' ''platform:sso-assignments:view'' SsoMapping ''read'' ''medium'' True
       [(''admin.identity-mappings'', ''hide'')]
       [(''GET'', ''/api/identity/mappings'', ''platform.self'')],
     action ''platform.sso.group-mappings.manage'' ''platform:sso-assignments:manage'' SsoMapping ''manage'' ''high'' True
       [(''admin.identity-mappings.actions'', ''disable'')]
       [(''POST'', ''/api/identity/mappings'', ''platform.self''),
        (''POST'', ''/api/identity/mappings/provision-access'', ''platform.self''),
        (''POST'', ''/api/identity/mappings/{id}/access'', ''platform.self''),
        (''PUT'', ''/api/identity/mappings/{id}'', ''platform.self''),
        (''DELETE'', ''/api/identity/mappings/{id}'', ''platform.self''),
        (''POST'', ''/api/identity/mappings/test'', ''platform.self''),
        (''POST'', ''/api/identity/mappings/stored-snapshot-preview'', ''platform.self'')],
     action ''platform.engine-sets.read'' ''platform:engine-sets:view'' EngineSetResource ''read'' ''medium'' True
       [(''admin.access-control.engine-sets'', ''hide'')]
       [(''GET'', ''/api/authz/engine-sets'', ''platform.self''),
        (''GET'', ''/api/authz/engine-sets/:id'', ''engineSet.byId''),
        (''GET'', ''/api/authz/runtime-resources'', ''platform.self''),
        (''GET'', ''/api/authz/runtime-resource-sets'', ''platform.self'')]]"

definition platform_actions_5 :: "action_definition list" where
  "platform_actions_5 =
    [action ''platform.engine-sets.manage'' ''platform:engine-sets:manage'' EngineSetResource ''manage'' ''high'' True
       [(''admin.access-control.engine-sets.edit'', ''disable'')]
       [(''POST'', ''/api/authz/engine-sets'', ''platform.self''),
        (''PUT'', ''/api/authz/engine-sets/:id'', ''engineSet.byId''),
        (''DELETE'', ''/api/authz/engine-sets/:id'', ''engineSet.byId''),
        (''POST'', ''/api/authz/engine-sets/preview'', ''platform.self''),
        (''POST'', ''/api/authz/engine-sets/:id/materialize'', ''engineSet.byId''),
        (''POST'', ''/api/authz/runtime-resource-sets/:id/materialize'', ''platform.self''),
        (''POST'', ''/api/authz/runtime-resources/:id/reconcile'', ''engine.byId'')],
     action ''platform.project-engine-targets.read'' ''platform:project-engine-targets:view'' ProjectEngineTarget ''read'' ''medium'' True
       [(''admin.access-control.project-engine-targets'', ''hide'')]
       [(''GET'', ''/api/authz/project-engine-targets'', ''platform.self''),
        (''GET'', ''/api/authz/project-engine-targets/:id'', ''projectEngineTarget.byId'')],
     action ''platform.project-engine-targets.manage'' ''platform:project-engine-targets:manage'' ProjectEngineTarget ''manage'' ''high'' True
       [(''admin.access-control.project-engine-targets.edit'', ''disable'')]
       [(''POST'', ''/api/authz/project-engine-targets'', ''platform.self''),
        (''PUT'', ''/api/authz/project-engine-targets/:id'', ''projectEngineTarget.byId''),
        (''DELETE'', ''/api/authz/project-engine-targets/:id'', ''projectEngineTarget.byId''),
        (''POST'', ''/api/authz/project-engine-targets/sync-legacy'', ''platform.self'')],
     action ''platform.dashboard.read'' ''platform:dashboard:view'' PlatformResource ''read'' ''low'' False
       [(''dashboard.route'', ''hide'')]
       [(''GET'', ''/api/dashboard/context'', ''platform.self''),
        (''GET'', ''/api/dashboard/stats'', ''platform.self'')],
     action ''platform.users.read'' ''platform:users:view'' PlatformResource ''read'' ''low'' False
       [(''admin.users'', ''hide'')]
       [(''GET'', ''/api/users'', ''platform.self''), (''GET'', ''/api/users/{id}'', ''platform.self''),
        (''GET'', ''/api/users/directory'', ''platform.self''),
        (''GET'', ''/api/users/{id}/identity-context'', ''platform.self''),
        (''GET'', ''/api/users/{id}/effective-access'', ''platform.self''),
        (''GET'', ''/api/users/{id}/sessions'', ''platform.self''),
        (''GET'', ''/api/users/{id}/audit'', ''platform.self'')],
     action ''platform.users.create'' ''platform:users:create'' PlatformResource ''create'' ''high'' True
       [(''admin.users.create'', ''disable'')]
       [(''POST'', ''/api/users'', ''platform.self'')],
     action ''platform.users.update'' ''platform:users:update'' PlatformResource ''update'' ''high'' True
       [(''admin.users.edit'', ''disable'')]
       [(''PUT'', ''/api/users/{id}'', ''platform.self''),
        (''POST'', ''/api/users/{id}/reactivate'', ''platform.self''),
        (''POST'', ''/api/users/{id}/revoke-sessions'', ''platform.self'')]]"

definition platform_actions_6 :: "action_definition list" where
  "platform_actions_6 =
    [action ''platform.users.deactivate'' ''platform:users:deactivate'' PlatformResource ''delete'' ''high'' True
       [(''admin.users.deactivate'', ''disable'')]
       [(''DELETE'', ''/api/users/{id}'', ''platform.self''),
        (''POST'', ''/api/users/{id}/deactivate'', ''platform.self'')],
     action ''platform.users.permanent-delete'' ''platform:users:permanent-delete'' PlatformResource ''delete'' ''critical'' True
       [(''admin.users.permanent-delete'', ''disable'')]
       [(''DELETE'', ''/api/users/{id}/permanent'', ''platform.self'')],
     action ''platform.users.unlock'' ''platform:users:unlock'' PlatformResource ''execute'' ''high'' True
       [(''admin.users.unlock'', ''disable'')]
       [(''POST'', ''/api/users/{id}/unlock'', ''platform.self'')],
     action ''platform.users.manage'' ''platform:users:update'' PlatformResource ''manage'' ''high'' True
       [(''admin.users.actions'', ''disable'')]
       [],
     action ''invitations.create'' ''platform:users:create'' PlatformResource ''create'' ''high'' True
       [(''invitations.create'', ''disable'')]
       [(''POST'', ''/api/t/:tenantSlug/invitations'', ''platform.self'')],
     action ''platform.settings.read'' ''platform:settings:manage'' PlatformResource ''read'' ''medium'' False
       [(''admin.settings'', ''hide''), (''admin.settings.plugins'', ''hide'')]
       [(''GET'', ''/api/admin/setup-status'', ''platform.self''),
        (''GET'', ''/api/admin/settings'', ''platform.self''), (''GET'', ''/api/admin/branding'', ''platform.self''),
        (''GET'', ''/api/admin/environments'', ''platform.self''),
        (''GET'', ''/api/admin/email-configs'', ''platform.self''),
        (''GET'', ''/api/admin/email-configs/{id}'', ''platform.self''),
        (''GET'', ''/api/admin/email-platform-name'', ''platform.self''),
        (''GET'', ''/api/admin/email-templates'', ''platform.self''),
        (''GET'', ''/api/admin/email-templates/{id}'', ''platform.self''),
        (''POST'', ''/api/admin/email-templates/{id}/preview'', ''platform.self''),
        (''GET'', ''/api/plugin-platform/v1/capabilities'', ''platform.self''),
        (''GET'', ''/api/plugin-platform/v1/plugins'', ''platform.self''),
        (''GET'', ''/api/plugin-platform/v1/plugins/:pluginId'', ''platform.self''),
        (''GET'', ''/api/plugin-platform/v1/emergency-control'', ''platform.self''),
        (''GET'', ''/api/plugin-platform/v1/deployment-execution'', ''platform.self''),
        (''GET'', ''/api/plugin-platform/v1/audit'', ''platform.self''),
        (''GET'', ''/api/plugin-platform/v1/metrics/diagnostics'', ''platform.self''),
        (''GET'', ''/api/plugin-platform/v1/metrics/events'', ''platform.self''),
        (''GET'', ''/api/plugin-platform/v1/events/dead-letters'', ''platform.self''),
        (''GET'', ''/api/plugin-platform/v1/operations/:operationId'', ''platform.self''),
        (''GET'', ''/api/plugin-platform/v1/catalog'', ''platform.self''),
        (''GET'', ''/api/plugin-platform/v1/manager'', ''platform.self''),
        (''GET'', ''/api/plugin-platform/v1/installations'', ''platform.self''),
        (''GET'', ''/api/plugin-platform/v1/installations/:installationId'', ''platform.self''),
        (''GET'', ''/'', ''platform.self'')]]"

definition platform_actions_7 :: "action_definition list" where
  "platform_actions_7 =
    [action ''platform.settings.manage'' ''platform:settings:manage'' PlatformResource ''manage'' ''high'' True
       [(''admin.settings.actions'', ''disable''), (''admin.settings.plugins.actions'', ''disable'')]
       [(''POST'', ''/api/admin/mark-setup-complete'', ''platform.self''),
        (''PUT'', ''/api/admin/settings'', ''platform.self''), (''PUT'', ''/api/admin/branding'', ''platform.self''),
        (''DELETE'', ''/api/admin/branding'', ''platform.self''),
        (''POST'', ''/api/admin/environments'', ''platform.self''),
        (''PUT'', ''/api/admin/environments/{id}'', ''platform.self''),
        (''DELETE'', ''/api/admin/environments/{id}'', ''platform.self''),
        (''POST'', ''/api/admin/environments/reorder'', ''platform.self''),
        (''POST'', ''/api/admin/email-configs'', ''platform.self''),
        (''PATCH'', ''/api/admin/email-configs/{id}'', ''platform.self''),
        (''DELETE'', ''/api/admin/email-configs/{id}'', ''platform.self''),
        (''POST'', ''/api/admin/email-configs/{id}/set-default'', ''platform.self''),
        (''POST'', ''/api/admin/email-configs/{id}/test'', ''platform.self''),
        (''PUT'', ''/api/admin/email-platform-name'', ''platform.self''),
        (''PATCH'', ''/api/admin/email-templates/{id}'', ''platform.self''),
        (''POST'', ''/api/admin/email-templates/{id}/reset'', ''platform.self''),
        (''PUT'', ''/api/plugin-platform/v1/emergency-control'', ''platform.self''),
        (''POST'', ''/api/plugin-platform/v1/plugins/:pluginId/enable'', ''platform.self''),
        (''POST'', ''/api/plugin-platform/v1/plugins/:pluginId/disable'', ''platform.self''),
        (''POST'', ''/api/plugin-platform/v1/plugins/:pluginId/events/dead-letters/:deliveryId/requeue'', ''platform.self''),
        (''POST'', ''/api/plugin-platform/v1/installations'', ''platform.self''),
        (''POST'', ''/api/plugin-platform/v1/installations/:installationId/approval'', ''platform.self''),
        (''POST'', ''/api/plugin-platform/v1/installations/:installationId/cancel'', ''platform.self''),
        (''POST'', ''/api/plugin-platform/v1/installations/:installationId/retry'', ''platform.self''),
        (''PUT'', ''/'', ''platform.self''), (''DELETE'', ''/'', ''platform.self''),
        (''POST'', ''/'', ''platform.self''), (''PUT'', ''/{id}'', ''platform.self''),
        (''DELETE'', ''/{id}'', ''platform.self''), (''POST'', ''/reorder'', ''platform.self'')],
     action ''platform.governance.read'' ''platform:settings:manage'' PlatformResource ''read'' ''medium'' False
       [(''admin.governance'', ''hide'')]
       [(''GET'', ''/api/admin/users/search'', ''platform.self''),
        (''GET'', ''/api/admin/projects'', ''platform.self''), (''GET'', ''/api/admin/engines'', ''platform.self''),
        (''GET'', ''/users/search'', ''platform.self''), (''GET'', ''/projects'', ''platform.self''),
        (''GET'', ''/engines'', ''platform.self'')]]"

definition platform_actions_8 :: "action_definition list" where
  "platform_actions_8 =
    [action ''platform.governance.manage'' ''platform:settings:manage'' PlatformResource ''manage'' ''high'' True
       [(''admin.governance.actions'', ''disable'')]
       [(''POST'', ''/api/admin/projects/{projectId}/assign-owner'', ''platform.self''),
        (''POST'', ''/api/admin/projects/{projectId}/assign-delegate'', ''platform.self''),
        (''POST'', ''/api/admin/engines/{engineId}/assign-owner'', ''platform.self''),
        (''POST'', ''/api/admin/engines/{engineId}/assign-delegate'', ''platform.self''),
        (''POST'', ''/projects/{projectId}/assign-owner'', ''platform.self''),
        (''POST'', ''/projects/{projectId}/assign-delegate'', ''platform.self''),
        (''POST'', ''/engines/{engineId}/assign-owner'', ''platform.self''),
        (''POST'', ''/engines/{engineId}/assign-delegate'', ''platform.self'')],
     action ''platform.governance.settings.manage'' ''platform:settings:manage'' PlatformResource ''manage'' ''high'' False
       [(''admin.governance.settings'', ''disable'')]
       [],
     action ''platform.governance.engine-access.manage'' ''platform:settings:manage'' PlatformResource ''manage'' ''high'' False
       [(''admin.governance.engine-access'', ''disable'')]
       [],
     action ''platform.governance.project-access.manage'' ''platform:settings:manage'' PlatformResource ''manage'' ''high'' False
       [(''admin.governance.project-access'', ''disable'')]
       [],
     action ''platform.sso.providers.read'' ''platform:sso-providers:view'' PlatformResource ''read'' ''medium'' False
       [(''admin.sso.providers'', ''hide'')]
       [(''GET'', ''/api/identity/providers'', ''platform.self''),
        (''GET'', ''/api/identity/providers/{key}'', ''platform.self''),
        (''GET'', ''/api/identity/providers/{key}/sync-runs'', ''platform.self''),
        (''GET'', ''/api/identity/providers/{key}/sync-runs/{runId}/events'', ''platform.self''),
        (''GET'', ''/api/identity/provisioning-directories'', ''platform.self''),
        (''GET'', ''/api/identity/provisioning-directories/{key}'', ''platform.self''),
        (''GET'', ''/api/identity/provisioning-directories/{key}/credentials'', ''platform.self''),
        (''GET'', ''/api/identity/provisioning-directories/{key}/events'', ''platform.self'')],
     action ''platform.sso.providers.manage'' ''platform:sso-providers:manage'' PlatformResource ''manage'' ''critical'' True
       [(''admin.sso.providers.actions'', ''disable'')]
       [(''POST'', ''/api/identity/providers'', ''platform.self''),
        (''POST'', ''/api/identity/provider-secrets'', ''platform.self''),
        (''POST'', ''/api/identity/provider-secrets/retire'', ''platform.self''),
        (''POST'', ''/api/identity/providers/{key}/external-identities/unlink'', ''platform.self''),
        (''PUT'', ''/api/identity/providers/{key}/secrets/{purpose}'', ''platform.self''),
        (''GET'', ''/api/identity/providers/{key}/secrets/{purpose}/availability'', ''platform.self''),
        (''POST'', ''/api/identity/providers/{key}/secrets/{purpose}/retire'', ''platform.self''),
        (''PUT'', ''/api/identity/providers/{key}'', ''platform.self''),
        (''DELETE'', ''/api/identity/providers/{key}'', ''platform.self''),
        (''POST'', ''/api/identity/providers/{key}/reconcile'', ''platform.self''),
        (''POST'', ''/api/identity/providers/{key}/reconciliation-preview'', ''platform.self''),
        (''POST'', ''/api/identity/providers/{key}/replay-memberships'', ''platform.self''),
        (''POST'', ''/api/identity/providers/{key}/test-connection'', ''platform.self''),
        (''POST'', ''/api/identity/provisioning-directories'', ''platform.self''),
        (''PUT'', ''/api/identity/provisioning-directories/{key}'', ''platform.self''),
        (''DELETE'', ''/api/identity/provisioning-directories/{key}'', ''platform.self''),
        (''POST'', ''/api/identity/provisioning-directories/{key}/test'', ''platform.self''),
        (''POST'', ''/api/identity/provisioning-directories/{key}/credentials'', ''platform.self''),
        (''POST'', ''/api/identity/provisioning-directories/{key}/credentials/{credentialId}/rotate'', ''platform.self''),
        (''DELETE'', ''/api/identity/provisioning-directories/{key}/credentials/{credentialId}'', ''platform.self'')],
     action ''platform.api-clients.read'' ''platform:api-clients:view'' ApiClientResource ''read'' ''medium'' True
       [(''admin.access-control.api-clients'', ''hide'')]
       [(''GET'', ''/api/authz/api-clients'', ''platform.self'')]]"

definition platform_actions_9 :: "action_definition list" where
  "platform_actions_9 =
    [action ''platform.api-clients.manage'' ''platform:api-clients:manage'' ApiClientResource ''manage'' ''critical'' True
       [(''admin.access-control.api-clients'', ''disable'')]
       [(''POST'', ''/api/authz/api-clients'', ''platform.self''),
        (''POST'', ''/api/authz/api-clients/{id}/rotate'', ''apiClient.byId''),
        (''DELETE'', ''/api/authz/api-clients/{id}'', ''apiClient.byId'')],
     action ''platform.service-accounts.read'' ''platform:service-accounts:view'' PlatformResource ''read'' ''medium'' True
       [(''admin.access-control.service-accounts'', ''hide'')]
       [(''GET'', ''/api/authz/service-accounts'', ''platform.self'')],
     action ''platform.service-accounts.manage'' ''platform:service-accounts:manage'' PlatformResource ''manage'' ''critical'' True
       [(''admin.access-control.service-accounts'', ''disable'')]
       [(''POST'', ''/api/authz/service-accounts'', ''platform.self''),
        (''POST'', ''/api/authz/service-accounts/{id}/rotate'', ''platform.self''),
        (''DELETE'', ''/api/authz/service-accounts/{id}'', ''platform.self'')],
     action ''platform.external-engine-systems.read'' ''platform:engine-registration:manage'' PlatformResource ''read'' ''medium'' True
       [(''admin.access-control.external-engine-systems'', ''hide'')]
       [(''GET'', ''/api/authz/external-engine-systems'', ''platform.self'')],
     action ''platform.external-engine-systems.manage'' ''platform:engine-registration:manage'' PlatformResource ''manage'' ''critical'' True
       [(''admin.access-control.external-engine-systems.actions'', ''disable'')]
       [(''POST'', ''/api/authz/external-engine-systems'', ''platform.self''),
        (''PUT'', ''/api/authz/external-engine-systems/{id}'', ''platform.self''),
        (''DELETE'', ''/api/authz/external-engine-systems/{id}'', ''platform.self'')],
     action ''platform.external-engines.read'' ''platform:engine-registration:manage'' PlatformResource ''read'' ''medium'' True
       [(''admin.access-control.external-engines'', ''hide'')]
       [(''GET'', ''/api/authz/external-engines'', ''platform.self'')],
     action ''platform.external-engines.audit.read'' ''platform:engine-registration:manage'' PlatformResource ''read'' ''medium'' True
       [(''admin.access-control.external-engines.audit'', ''hide'')]
       [(''GET'', ''/api/authz/external-engines/{id}/audit'', ''platform.self'')],
     action ''platform.external-engines.reconcile'' ''platform:engine-registration:manage'' PlatformResource ''sync'' ''high'' True
       [(''admin.access-control.external-engines.reconcile'', ''disable'')]
       [(''POST'', ''/api/authz/external-engines/{id}/reconcile'', ''platform.self'')],
     action ''platform.external-engines.lifecycle.manage'' ''platform:engine-registration:manage'' PlatformResource ''manage'' ''critical'' True
       [(''admin.access-control.external-engines.lifecycle-actions'', ''disable'')]
       [(''POST'', ''/api/authz/external-engines/{id}/decommission'', ''platform.self''),
        (''POST'', ''/api/authz/external-engines/{id}/reactivate'', ''platform.self'')],
     action ''platform.git.providers.manage'' ''platform:git-provider:manage'' PlatformResource ''manage'' ''high'' True
       [(''admin.git-providers'', ''disable'')]
       [(''GET'', ''/git-api/admin/providers'', ''platform.self''),
        (''PUT'', ''/git-api/admin/providers/:id'', ''platform.self'')]]"

definition platform_actions_10 :: "action_definition list" where
  "platform_actions_10 =
    [action ''platform.audit.read'' ''platform:audit:view'' PlatformResource ''read'' ''medium'' False
       [(''admin.audit'', ''hide'')]
       [(''GET'', ''/api/audit/logs'', ''platform.self''),
        (''GET'', ''/api/audit/logs/user/{userId}'', ''platform.self''),
        (''GET'', ''/api/audit/logs/resource/{resourceType}/{resourceId}'', ''platform.self''),
        (''GET'', ''/api/audit/stats'', ''platform.self''), (''GET'', ''/api/audit/actions'', ''platform.self''),
        (''GET'', ''/api/authz/audit'', ''platform.self'')],
     action ''platform.audit.unredacted.read'' ''platform:audit:unredacted-view'' PlatformResource ''reveal'' ''critical'' True
       [(''admin.audit.unredacted-fields'', ''redact'')]
       []]"

definition PLATFORM_AUTHZ_ACTIONS :: "action_definition list" where
  "PLATFORM_AUTHZ_ACTIONS = platform_actions_1 @ platform_actions_2 @ platform_actions_3 @ platform_actions_4 @ platform_actions_5 @ platform_actions_6 @ platform_actions_7 @ platform_actions_8 @ platform_actions_9 @ platform_actions_10"

text \<open>\<open>TENANT_AUTHZ_ACTIONS\<close>\<close>

definition tenant_actions_1 :: "action_definition list" where
  "tenant_actions_1 =
    [action ''tenant.apps.read'' ''tenant:apps:view'' TenantResource ''read'' ''low'' False
       [(''tenant.apps'', ''hide'')]
       [(''GET'', ''/api/t/{tenantSlug}/apps'', ''tenant.fromContext''),
        (''GET'', ''/api/t/{tenantSlug}/apps/{pluginId}'', ''tenant.fromContext''),
        (''GET'', ''/api/t/{tenantSlug}/apps/{pluginId}/configuration'', ''tenant.fromContext''),
        (''GET'', ''/api/t/{tenantSlug}/apps/{pluginId}/audit'', ''tenant.fromContext''),
        (''GET'', ''/api/t/{tenantSlug}/apps/{pluginId}/eligibility'', ''tenant.fromContext''),
        (''GET'', ''/api/t/{tenantSlug}/plugin-platform/v1/plugins/{pluginId}/enablement'', ''tenant.fromContext''),
        (''GET'', ''/t/{tenantSlug}/api/plugin-platform/v1/plugins/{pluginId}/enablement'', ''tenant.fromContext'')],
     action ''tenant.apps.request'' ''tenant:apps:request'' TenantResource ''create'' ''medium'' True
       [(''tenant.apps.request'', ''disable'')]
       [(''POST'', ''/api/t/{tenantSlug}/apps/{pluginId}/activation-request'', ''tenant.fromContext'')],
     action ''tenant.apps.manage'' ''tenant:apps:manage'' TenantResource ''manage'' ''high'' True
       [(''tenant.apps.actions'', ''disable'')]
       [(''POST'', ''/api/t/{tenantSlug}/apps/{pluginId}/activate'', ''tenant.fromContext''),
        (''POST'', ''/api/t/{tenantSlug}/apps/{pluginId}/deactivate'', ''tenant.fromContext''),
        (''POST'', ''/api/t/{tenantSlug}/apps/{pluginId}/activation-request/decision'', ''tenant.fromContext''),
        (''PUT'', ''/api/t/{tenantSlug}/plugin-platform/v1/plugins/{pluginId}/enablement'', ''tenant.fromContext''),
        (''PUT'', ''/t/{tenantSlug}/api/plugin-platform/v1/plugins/{pluginId}/enablement'', ''tenant.fromContext'')],
     action ''tenant.apps.use'' ''tenant:apps:use'' TenantResource ''execute'' ''medium'' False
       [(''tenant.apps.runtime'', ''hide'')]
       [],
     action ''tenant.settings.read'' ''tenant:settings:view'' TenantResource ''read'' ''medium'' False
       [(''tenant.settings'', ''hide'')]
       [(''GET'', ''/api/t/{tenantSlug}/tenant'', ''tenant.fromContext'')],
     action ''tenant.settings.manage'' ''tenant:settings:manage'' TenantResource ''manage'' ''high'' True
       [(''tenant.settings.actions'', ''disable'')]
       [(''GET'', ''/api/t/{tenantSlug}/tenant/login-policy'', ''tenant.fromContext''),
        (''PUT'', ''/api/t/{tenantSlug}/tenant/login-policy'', ''tenant.fromContext''),
        (''GET'', ''/api/t/{tenantSlug}/tenant/domains'', ''tenant.fromContext''),
        (''POST'', ''/api/t/{tenantSlug}/tenant/domains'', ''tenant.fromContext''),
        (''POST'', ''/api/t/{tenantSlug}/tenant/domains/{domainId}/verify'', ''tenant.fromContext''),
        (''GET'', ''/api/t/{tenantSlug}/tenant/discovery-domains'', ''tenant.fromContext''),
        (''POST'', ''/api/t/{tenantSlug}/tenant/discovery-domains'', ''tenant.fromContext''),
        (''POST'', ''/api/t/{tenantSlug}/tenant/discovery-domains/{domainId}/verify'', ''tenant.fromContext''),
        (''DELETE'', ''/api/t/{tenantSlug}/tenant/discovery-domains/{domainId}'', ''tenant.fromContext'')],
     action ''tenant.members.manage'' ''tenant:members:manage'' TenantResource ''manage'' ''critical'' True
       [(''tenant.members'', ''disable'')]
       [(''GET'', ''/api/t/{tenantSlug}/tenant/members'', ''tenant.fromContext''),
        (''PUT'', ''/api/t/{tenantSlug}/tenant/members/{userId}'', ''tenant.fromContext''),
        (''DELETE'', ''/api/t/{tenantSlug}/tenant/members/{userId}'', ''tenant.fromContext'')],
     action ''tenant.sso.providers.read'' ''tenant:sso-providers:view'' TenantResource ''read'' ''high'' False
       [(''tenant.sso.providers'', ''hide'')]
       [(''GET'', ''/api/t/{tenantSlug}/identity/providers'', ''tenant.fromContext''),
        (''GET'', ''/api/t/{tenantSlug}/identity/providers/{key}'', ''tenant.fromContext''),
        (''GET'', ''/api/t/{tenantSlug}/identity/providers/{key}/sync-runs'', ''tenant.fromContext''),
        (''GET'', ''/api/t/{tenantSlug}/identity/providers/{key}/sync-runs/{runId}/events'', ''tenant.fromContext''),
        (''GET'', ''/t/{tenantSlug}/api/identity/providers'', ''tenant.fromContext''),
        (''GET'', ''/t/{tenantSlug}/api/identity/providers/{key}'', ''tenant.fromContext''),
        (''GET'', ''/t/{tenantSlug}/api/identity/providers/{key}/sync-runs'', ''tenant.fromContext''),
        (''GET'', ''/t/{tenantSlug}/api/identity/providers/{key}/sync-runs/{runId}/events'', ''tenant.fromContext'')]]"

definition tenant_actions_2 :: "action_definition list" where
  "tenant_actions_2 =
    [action ''tenant.sso.providers.manage'' ''tenant:sso-providers:manage'' TenantResource ''manage'' ''critical'' True
       [(''tenant.sso.providers.actions'', ''disable'')]
       [(''POST'', ''/api/t/{tenantSlug}/identity/providers'', ''tenant.fromContext''),
        (''POST'', ''/api/t/{tenantSlug}/identity/provider-secrets'', ''tenant.fromContext''),
        (''POST'', ''/api/t/{tenantSlug}/identity/provider-secrets/retire'', ''tenant.fromContext''),
        (''POST'', ''/api/t/{tenantSlug}/identity/providers/{key}/external-identities/unlink'', ''tenant.fromContext''),
        (''PUT'', ''/api/t/{tenantSlug}/identity/providers/{key}/secrets/{purpose}'', ''tenant.fromContext''),
        (''GET'', ''/api/t/{tenantSlug}/identity/providers/{key}/secrets/{purpose}/availability'', ''tenant.fromContext''),
        (''POST'', ''/api/t/{tenantSlug}/identity/providers/{key}/secrets/{purpose}/retire'', ''tenant.fromContext''),
        (''PUT'', ''/api/t/{tenantSlug}/identity/providers/{key}'', ''tenant.fromContext''),
        (''DELETE'', ''/api/t/{tenantSlug}/identity/providers/{key}'', ''tenant.fromContext''),
        (''POST'', ''/api/t/{tenantSlug}/identity/providers/{key}/reconcile'', ''tenant.fromContext''),
        (''POST'', ''/api/t/{tenantSlug}/identity/providers/{key}/reconciliation-preview'', ''tenant.fromContext''),
        (''POST'', ''/api/t/{tenantSlug}/identity/providers/{key}/replay-memberships'', ''tenant.fromContext''),
        (''POST'', ''/api/t/{tenantSlug}/identity/providers/{key}/test-connection'', ''tenant.fromContext''),
        (''POST'', ''/t/{tenantSlug}/api/identity/providers'', ''tenant.fromContext''),
        (''POST'', ''/t/{tenantSlug}/api/identity/provider-secrets'', ''tenant.fromContext''),
        (''POST'', ''/t/{tenantSlug}/api/identity/provider-secrets/retire'', ''tenant.fromContext''),
        (''POST'', ''/t/{tenantSlug}/api/identity/providers/{key}/external-identities/unlink'', ''tenant.fromContext''),
        (''PUT'', ''/t/{tenantSlug}/api/identity/providers/{key}/secrets/{purpose}'', ''tenant.fromContext''),
        (''GET'', ''/t/{tenantSlug}/api/identity/providers/{key}/secrets/{purpose}/availability'', ''tenant.fromContext''),
        (''POST'', ''/t/{tenantSlug}/api/identity/providers/{key}/secrets/{purpose}/retire'', ''tenant.fromContext''),
        (''PUT'', ''/t/{tenantSlug}/api/identity/providers/{key}'', ''tenant.fromContext''),
        (''DELETE'', ''/t/{tenantSlug}/api/identity/providers/{key}'', ''tenant.fromContext''),
        (''POST'', ''/t/{tenantSlug}/api/identity/providers/{key}/reconcile'', ''tenant.fromContext''),
        (''POST'', ''/t/{tenantSlug}/api/identity/providers/{key}/reconciliation-preview'', ''tenant.fromContext''),
        (''POST'', ''/t/{tenantSlug}/api/identity/providers/{key}/replay-memberships'', ''tenant.fromContext''),
        (''POST'', ''/t/{tenantSlug}/api/identity/providers/{key}/test-connection'', ''tenant.fromContext'')]]"

definition TENANT_AUTHZ_ACTIONS :: "action_definition list" where
  "TENANT_AUTHZ_ACTIONS = tenant_actions_1 @ tenant_actions_2"

text \<open>\<open>ENGINE_AUTHZ_ACTIONS\<close>\<close>

definition engine_actions_1 :: "action_definition list" where
  "engine_actions_1 =
    [action ''mission-control.bridge.starbase-edit.evaluate'' ''engine:instance:view'' EngineResource ''evaluate'' ''medium'' False
       [(''mission-control.bridge.starbase-edit'', ''disable'')]
       [(''POST'', ''/api/mission-control/bridge/starbase-edit/evaluate'', ''engine.byId'')],
     action ''engine.deploy.create'' ''engine:deploy'' EngineResource ''execute'' ''high'' True
       [(''engine.deploy.button'', ''disable'')]
       [(''POST'', ''/engines-api/engines/:engineId/deployments'', ''engine.byId''),
        (''POST'', ''/api/engines/:engineId/deployments'', ''engine.byId'')],
     action ''engine.deployments.read'' ''engine:deploy:view'' EngineResource ''read'' ''medium'' False
       [(''engine.deployments.list'', ''hide'')]
       [(''GET'', ''/starbase-api/deployments'', ''engine.byId''),
        (''GET'', ''/starbase-api/deployments/{id}'', ''engine.byId''),
        (''GET'', ''/starbase-api/process-definitions/{id}/diagram'', ''engine.byId''),
        (''GET'', ''/engines-api/engines/{engineId}/deployments'', ''engine.byId''),
        (''GET'', ''/engines-api/engines/{engineId}/deployments/{id}'', ''engine.byId''),
        (''GET'', ''/engines-api/engines/{engineId}/deployment-receipts'', ''engine.byId''),
        (''GET'', ''/engines-api/engines/{engineId}/deployment-history'', ''engine.byId''),
        (''GET'', ''/engines-api/engines/{engineId}/deployments/{deploymentId}/lineage'', ''engine.byId'')],
     action ''engine.deployments.delete'' ''engine:deploy'' EngineResource ''delete'' ''high'' True
       [(''engine.deployments.delete'', ''disable'')]
       [(''DELETE'', ''/starbase-api/deployments/{id}'', ''engine.byId''),
        (''DELETE'', ''/engines-api/engines/{engineId}/deployments/{id}'', ''engine.byId'')],
     action ''engine.deployment-receipts.create'' ''engine:deploy'' EngineResource ''create'' ''high'' True
       [(''engine.deployment-receipts.ingest'', ''disable'')]
       [
        (''POST'', ''/engines-api/external/engines/{engineId}/deployment-receipts'', ''projectEngineTarget.fromProjectAndEngine'')]]"

definition engine_actions_2 :: "action_definition list" where
  "engine_actions_2 =
    [action ''engine.inventory.read'' ''engine:instance:view'' EngineResource ''read'' ''medium'' False
       [(''engines.list'', ''hide''), (''engines.detail'', ''hide''),
        (''mission-control.engine-selector'', ''hide'')]
       [(''GET'', ''/engines-api/engines'', ''engine.visibleCollection''),
        (''GET'', ''/engines-api/engines/{id}'', ''engine.byId''),
        (''GET'', ''/engines-api/engines/{id}/health'', ''engine.byId''),
        (''GET'', ''/engines-api/engines/{id}/runtime-resources'', ''engine.byId''),
        (''GET'', ''/engines-api/engines/{id}/tenancy/diagnostics'', ''engine.byId'')],
     action ''engine.inventory.create'' ''platform:engine:create'' PlatformResource ''create'' ''high'' True
       [(''engines.create'', ''disable'')]
       [(''POST'', ''/engines-api/engines'', ''platform.self'')],
     action ''engine.tenancy.classification.read'' ''platform:engine:create'' PlatformResource ''read'' ''high'' False
       [(''engines.tenancy.classification-report'', ''hide'')]
       [(''GET'', ''/engines-api/engines/tenancy/classification-report'', ''platform.self'')],
     action ''engine.external-registration.upsert'' ''platform:engine-registration:manage'' PlatformResource ''sync'' ''critical'' True
       [(''admin.engine-registration.external-api'', ''disable'')]
       [(''POST'', ''/engines-api/external/engines'', ''platform.self''),
        (''PUT'', ''/engines-api/external/engines/{externalId}/tenant-mappings'', ''platform.self'')]]"

definition engine_actions_3 :: "action_definition list" where
  "engine_actions_3 =
    [action ''engine.external-registration.decommission'' ''platform:engine-registration:manage'' PlatformResource ''sync'' ''critical'' True
       [(''admin.engine-registration.external-api.decommission'', ''disable'')]
       [(''POST'', ''/engines-api/external/engines/decommission'', ''platform.self'')],
     action ''engine.inventory.update'' ''engine:edit'' EngineResource ''update'' ''high'' True
       [(''engines.edit'', ''disable'')]
       [(''PUT'', ''/engines-api/engines/{id}'', ''engine.byId''),
        (''POST'', ''/engines-api/engines/{id}/test'', ''engine.byId''),
        (''POST'', ''/engines-api/engines/{id}/runtime-resources/reconcile'', ''engine.byId''),
        (''POST'', ''/engines-api/engines/{id}/tenancy/preview'', ''engine.byId''),
        (''POST'', ''/engines-api/engines/{id}/tenancy/apply'', ''engine.byId''),
        (''GET'', ''/engines-api/engines/{id}/tenant-mappings'', ''engine.byId''),
        (''PUT'', ''/engines-api/engines/{id}/tenant-mappings'', ''engine.byId'')],
     action ''engine.inventory.configuration.update'' ''engine:edit'' EngineResource ''update'' ''high'' False
       [(''engines.edit.configuration'', ''disable'')]
       [],
     action ''engine.secrets.view'' ''engine:secrets:view'' EngineResource ''reveal'' ''high'' True
       [(''engines.auth-fields'', ''redact''), (''engines.connection-secrets'', ''redact'')]
       [],
     action ''engine.secrets.manage'' ''engine:secrets:manage'' EngineResource ''manage'' ''critical'' True
       [(''engines.auth-fields.edit'', ''disable''), (''engines.connection-secrets.edit'', ''disable'')]
       []]"

definition engine_actions_4 :: "action_definition list" where
  "engine_actions_4 =
    [action ''engine.inventory.delete'' ''engine:delete'' EngineResource ''delete'' ''critical'' True
       [(''engines.delete'', ''disable'')]
       [(''DELETE'', ''/engines-api/engines/{id}'', ''engine.byId'')],
     action ''engine.saved-filters.read'' ''engine:instance:view'' EngineResource ''read'' ''low'' False
       [(''mission-control.saved-filters'', ''hide'')]
       [(''GET'', ''/engines-api/saved-filters'', ''engine.visibleCollection''),
        (''GET'', ''/engines-api/saved-filters/{id}'', ''engine.bySavedFilterId'')],
     action ''engine.saved-filters.manage'' ''engine:instance:view'' EngineResource ''manage'' ''medium'' False
       [(''mission-control.saved-filters.manage'', ''disable'')]
       [(''POST'', ''/engines-api/saved-filters'', ''engine.byId''),
        (''PUT'', ''/engines-api/saved-filters/{id}'', ''engine.bySavedFilterId''),
        (''DELETE'', ''/engines-api/saved-filters/{id}'', ''engine.bySavedFilterId'')],
     action ''engine.runtime.batches.read'' ''engine:instance:view'' EngineResource ''read'' ''medium'' False
       [(''mission-control.batches.list'', ''hide'')]
       [(''GET'', ''/mission-control-api/batches'', ''engine.byId''),
        (''GET'', ''/mission-control-api/batches/{id}'', ''engine.byId'')],
     action ''engine.runtime.batches.process-instances.delete'' ''engine:instance:delete'' EngineResource ''delete'' ''critical'' True
       [(''mission-control.batches.delete-instances'', ''disable'')]
       [(''POST'', ''/mission-control-api/batches/process-instances/delete'', ''engine.byId'')],
     action ''engine.runtime.batches.process-instances.suspend'' ''engine:process:modify'' EngineResource ''update'' ''high'' True
       [(''mission-control.batches.suspend-instances'', ''disable'')]
       [(''POST'', ''/mission-control-api/batches/process-instances/suspend'', ''engine.byId'')]]"

definition engine_actions_5 :: "action_definition list" where
  "engine_actions_5 =
    [action ''engine.runtime.batches.process-instances.activate'' ''engine:process:modify'' EngineResource ''update'' ''high'' True
       [(''mission-control.batches.activate-instances'', ''disable'')]
       [(''POST'', ''/mission-control-api/batches/process-instances/activate'', ''engine.byId'')],
     action ''engine.runtime.batches.jobs.retry'' ''engine:instance:retry'' EngineResource ''execute'' ''high'' True
       [(''mission-control.batches.retry-jobs'', ''disable'')]
       [(''POST'', ''/mission-control-api/batches/jobs/retries'', ''engine.byId'')],
     action ''engine.runtime.batches.suspension.update'' ''engine:process:modify'' EngineResource ''update'' ''high'' True
       [(''mission-control.batches.suspension-toggle'', ''disable'')]
       [(''PUT'', ''/mission-control-api/batches/{id}/suspended'', ''engine.byId'')],
     action ''engine.runtime.batches.cancel'' ''engine:process:cancel'' EngineResource ''delete'' ''high'' True
       [(''mission-control.batches.cancel'', ''disable'')]
       [(''DELETE'', ''/mission-control-api/batches/{id}'', ''engine.byId'')],
     action ''engine.runtime.batches.record.delete'' ''engine:instance:delete'' EngineResource ''delete'' ''high'' True
       [(''mission-control.batches.delete-record'', ''disable'')]
       [(''DELETE'', ''/mission-control-api/batches/{id}/record'', ''engine.byId'')],
     action ''engine.runtime.decisions.read'' ''engine:instance:view'' EngineResource ''read'' ''medium'' False
       [(''mission-control.decisions.list'', ''hide'')]
       [(''GET'', ''/mission-control-api/decision-definitions'', ''engine.byId''),
        (''GET'', ''/mission-control-api/decision-definitions/{id}'', ''engine.byId''),
        (''GET'', ''/mission-control-api/decision-definitions/{id}/xml'', ''engine.byId'')],
     action ''engine.runtime.decisions.edit-target.read'' ''engine:instance:view'' EngineResource ''read'' ''medium'' False
       [(''mission-control.decisions.edit-target'', ''hide'')]
       [(''GET'', ''/mission-control-api/decision-definitions/edit-target'', ''engine.byId'')]]"

definition engine_actions_6 :: "action_definition list" where
  "engine_actions_6 =
    [action ''engine.runtime.decisions.evaluate'' ''engine:instance:view'' EngineResource ''evaluate'' ''high'' True
       [(''mission-control.decisions.evaluate'', ''disable'')]
       [(''POST'', ''/mission-control-api/decision-definitions/{id}/evaluate'', ''engine.byId''),
        (''POST'', ''/mission-control-api/decision-definitions/key/{key}/evaluate'', ''engine.byId'')],
     action ''engine.runtime.migrations.preview'' ''engine:instance:view'' EngineResource ''evaluate'' ''medium'' False
       [(''mission-control.migrations.preview'', ''disable'')]
       [(''POST'', ''/mission-control-api/migration/preview'', ''engine.byId'')],
     action ''engine.runtime.migrations.plan.generate'' ''engine:instance:view'' EngineResource ''evaluate'' ''medium'' False
       [(''mission-control.migrations.plan.generate'', ''disable'')]
       [(''POST'', ''/mission-control-api/migration/generate'', ''engine.byId''),
        (''POST'', ''/mission-control-api/migration/plan/generate'', ''engine.byId'')],
     action ''engine.runtime.migrations.plan.validate'' ''engine:instance:view'' EngineResource ''evaluate'' ''medium'' False
       [(''mission-control.migrations.plan.validate'', ''disable'')]
       [(''POST'', ''/mission-control-api/migration/plan/validate'', ''engine.byId'')],
     action ''engine.runtime.migrations.active-sources.read'' ''engine:instance:view'' EngineResource ''read'' ''medium'' False
       [(''mission-control.migrations.active-sources'', ''hide'')]
       [(''POST'', ''/mission-control-api/migration/active-sources'', ''engine.byId'')],
     action ''engine.runtime.migrations.execute-async'' ''engine:process:modify'' EngineResource ''execute'' ''critical'' True
       [(''mission-control.migrations.execute-async'', ''disable'')]
       [(''POST'', ''/mission-control-api/migration/execute-async'', ''engine.byId'')],
     action ''engine.runtime.migrations.execute-direct'' ''engine:process:modify'' EngineResource ''execute'' ''critical'' True
       [(''mission-control.migrations.execute-direct'', ''disable'')]
       [(''POST'', ''/mission-control-api/migration/execute-direct'', ''engine.byId'')]]"

definition engine_actions_7 :: "action_definition list" where
  "engine_actions_7 =
    [action ''engine.runtime.process-instances.read'' ''engine:instance:view'' EngineResource ''read'' ''medium'' False
       [(''mission-control.process-instances.list'', ''hide'')]
       [(''GET'', ''/mission-control-api/process-instances'', ''engine.byId''),
        (''GET'', ''/mission-control-api/process-instances/{id}'', ''engine.byId''),
        (''POST'', ''/mission-control-api/process-instances/preview-count'', ''engine.byId'')],
     action ''engine.runtime.process-instances.variables.read'' ''engine:variables:metadata:view'' EngineResource ''read'' ''high'' False
       [(''mission-control.process-instances.variables'', ''redact'')]
       [(''GET'', ''/mission-control-api/process-instances/{id}/variables'', ''engine.byId'')],
     action ''engine.runtime.process-instances.variable-history.read'' ''engine:variables:metadata:view'' EngineResource ''read'' ''high'' False
       [(''mission-control.process-instances.variable-history'', ''redact'')]
       [(''GET'', ''/mission-control-api/process-instances/{id}/variable-history'', ''engine.byId'')],
     action ''engine.runtime.process-instances.activity-tree.read'' ''engine:instance:view'' EngineResource ''read'' ''medium'' False
       [(''mission-control.process-instances.activity-tree'', ''hide'')]
       [(''GET'', ''/mission-control-api/process-instances/{id}/activity-instances'', ''engine.byId'')],
     action ''engine.runtime.process-instances.activity-history.read'' ''engine:instance:view'' EngineResource ''read'' ''high'' False
       [(''mission-control.process-instances.activity-history'', ''redact'')]
       [(''GET'', ''/mission-control-api/process-instances/{id}/history/activity-instances'', ''engine.byId'')],
     action ''engine.runtime.process-instances.execution-details.read'' ''engine:instance:view'' EngineResource ''read'' ''high'' False
       [(''mission-control.process-instances.execution-details'', ''redact'')]
       [(''GET'', ''/mission-control-api/process-instances/{id}/execution-details'', ''engine.byId'')]]"

definition engine_actions_8 :: "action_definition list" where
  "engine_actions_8 =
    [action ''engine.runtime.process-instances.incidents.read'' ''engine:instance:view'' EngineResource ''read'' ''high'' False
       [(''mission-control.process-instances.incidents'', ''redact'')]
       [(''GET'', ''/mission-control-api/process-instances/{id}/incidents'', ''engine.byId'')],
     action ''engine.runtime.process-instances.suspension.update'' ''engine:process:modify'' EngineResource ''update'' ''high'' True
       [(''mission-control.process-instances.suspension'', ''disable'')]
       [(''PUT'', ''/mission-control-api/process-instances/{id}/suspend'', ''engine.byId''),
        (''PUT'', ''/mission-control-api/process-instances/{id}/activate'', ''engine.byId'')],
     action ''engine.runtime.process-instances.retry'' ''engine:instance:retry'' EngineResource ''execute'' ''high'' True
       [(''mission-control.process-instances.retry'', ''disable'')]
       [(''POST'', ''/mission-control-api/process-instances/{id}/retry'', ''engine.byId'')],
     action ''engine.runtime.process-instances.modify'' ''engine:process:modify'' EngineResource ''execute'' ''critical'' True
       [(''mission-control.process-instances.modify'', ''disable'')]
       [(''POST'', ''/mission-control-api/process-instances/{id}/modify'', ''engine.byId'')],
     action ''engine.runtime.process-instances.delete'' ''engine:instance:delete'' EngineResource ''delete'' ''high'' True
       [(''mission-control.process-instances.delete'', ''disable'')]
       [(''DELETE'', ''/mission-control-api/process-instances/{id}'', ''engine.byId'')],
     action ''engine.runtime.process-instances.variables.update'' ''engine:variables:edit'' EngineResource ''update'' ''high'' True
       [(''mission-control.process-instances.variables.update'', ''disable'')]
       [(''POST'', ''/mission-control-api/process-instances/{id}/variables'', ''engine.byId'')]]"

definition engine_actions_9 :: "action_definition list" where
  "engine_actions_9 =
    [action ''engine.runtime.process-definitions.read'' ''engine:instance:view'' EngineResource ''read'' ''medium'' False
       [(''mission-control.process-definitions.list'', ''hide'')]
       [(''GET'', ''/mission-control-api/process-definitions'', ''engine.byId''),
        (''GET'', ''/mission-control-api/process-definitions/{id}'', ''engine.byId''),
        (''GET'', ''/mission-control-api/process-definitions/{id}/xml'', ''engine.byId''),
        (''GET'', ''/mission-control-api/process-definitions/resolve'', ''engine.byId''),
        (''GET'', ''/mission-control-api/process-definitions/{id}/active-activity-counts'', ''engine.byId''),
        (''GET'', ''/mission-control-api/process-definitions/{id}/activity-counts-by-state'', ''engine.byId''),
        (''GET'', ''/mission-control-api/process-definitions/key/{key}/statistics'', ''engine.byId'')],
     action ''engine.runtime.process-definitions.edit-target.read'' ''engine:instance:view'' EngineResource ''read'' ''medium'' False
       [(''mission-control.process-definitions.edit-target'', ''hide'')]
       [(''GET'', ''/mission-control-api/process-definitions/edit-target'', ''engine.byId'')],
     action ''engine.runtime.process-definitions.start'' ''engine:process:start'' EngineResource ''execute'' ''high'' True
       [(''mission-control.process-definitions.start'', ''disable'')]
       [(''POST'', ''/mission-control-api/process-definitions/key/{key}/start'', ''engine.byId'')],
     action ''engine.runtime.process-definitions.modification.execute-async'' ''engine:process:modify'' EngineResource ''execute'' ''critical'' True
       [(''mission-control.process-definitions.modification'', ''disable'')]
       [(''POST'', ''/mission-control-api/process-definitions/{id}/modification/execute-async'', ''engine.byId'')],
     action ''engine.runtime.process-definitions.restart.execute-async'' ''engine:process:modify'' EngineResource ''execute'' ''critical'' True
       [(''mission-control.process-definitions.restart'', ''disable'')]
       [(''POST'', ''/mission-control-api/process-definitions/{id}/restart/execute-async'', ''engine.byId'')]]"

definition engine_actions_10 :: "action_definition list" where
  "engine_actions_10 =
    [action ''engine.runtime.direct.process-instances.delete'' ''engine:instance:delete'' EngineResource ''delete'' ''critical'' True
       [(''mission-control.direct.process-instances.delete'', ''disable'')]
       [(''POST'', ''/mission-control-api/direct/process-instances/delete'', ''engine.byId'')],
     action ''engine.runtime.direct.process-instances.suspend'' ''engine:process:modify'' EngineResource ''execute'' ''high'' True
       [(''mission-control.direct.process-instances.suspend'', ''disable'')]
       [(''POST'', ''/mission-control-api/direct/process-instances/suspend'', ''engine.byId'')],
     action ''engine.runtime.direct.process-instances.activate'' ''engine:process:modify'' EngineResource ''execute'' ''high'' True
       [(''mission-control.direct.process-instances.activate'', ''disable'')]
       [(''POST'', ''/mission-control-api/direct/process-instances/activate'', ''engine.byId'')],
     action ''engine.runtime.direct.jobs.retry'' ''engine:instance:retry'' EngineResource ''execute'' ''high'' True
       [(''mission-control.direct.jobs.retry'', ''disable'')]
       [(''POST'', ''/mission-control-api/direct/jobs/retries'', ''engine.byId'')],
     action ''engine.runtime.tasks.read'' ''engine:instance:view'' EngineResource ''read'' ''medium'' False
       [(''mission-control.tasks.list'', ''hide'')]
       [(''GET'', ''/mission-control-api/tasks'', ''engine.byId''),
        (''GET'', ''/mission-control-api/tasks/count'', ''engine.byId''),
        (''GET'', ''/mission-control-api/tasks/{id}'', ''engine.byId''),
        (''GET'', ''/mission-control-api/tasks/{id}/form'', ''engine.byId'')],
     action ''engine.runtime.tasks.variables.read'' ''engine:variables:metadata:view'' EngineResource ''read'' ''high'' False
       [(''mission-control.tasks.variables'', ''redact'')]
       [(''GET'', ''/mission-control-api/tasks/{id}/variables'', ''engine.byId'')]]"

definition engine_actions_11 :: "action_definition list" where
  "engine_actions_11 =
    [action ''engine.runtime.tasks.variables.update'' ''engine:variables:edit'' EngineResource ''update'' ''high'' True
       [(''mission-control.tasks.variables.update'', ''disable'')]
       [(''PUT'', ''/mission-control-api/tasks/{id}/variables'', ''engine.byId'')],
     action ''engine.runtime.tasks.assignment.update'' ''engine:process:modify'' EngineResource ''update'' ''high'' True
       [(''mission-control.tasks.assignment'', ''disable'')]
       [(''POST'', ''/mission-control-api/tasks/{id}/claim'', ''engine.byId''),
        (''POST'', ''/mission-control-api/tasks/{id}/unclaim'', ''engine.byId''),
        (''POST'', ''/mission-control-api/tasks/{id}/assignee'', ''engine.byId'')],
     action ''engine.runtime.tasks.complete'' ''engine:process:modify'' EngineResource ''execute'' ''high'' True
       [(''mission-control.tasks.complete'', ''disable'')]
       [(''POST'', ''/mission-control-api/tasks/{id}/complete'', ''engine.byId'')],
     action ''engine.runtime.external-tasks.read'' ''engine:instance:view'' EngineResource ''read'' ''medium'' False
       [(''mission-control.external-tasks.list'', ''hide'')]
       [(''GET'', ''/mission-control-api/external-tasks'', ''engine.byId''),
        (''GET'', ''/mission-control-api/process-instances/{id}/failed-external-tasks'', ''engine.byId'')],
     action ''engine.runtime.external-tasks.fetch-and-lock'' ''engine:process:modify'' EngineResource ''execute'' ''high'' True
       [(''mission-control.external-tasks.fetch-and-lock'', ''disable'')]
       [(''POST'', ''/mission-control-api/external-tasks/fetchAndLock'', ''engine.byId'')],
     action ''engine.runtime.external-tasks.complete'' ''engine:process:modify'' EngineResource ''execute'' ''high'' True
       [(''mission-control.external-tasks.complete'', ''disable'')]
       [(''POST'', ''/mission-control-api/external-tasks/{id}/complete'', ''engine.byId'')]]"

definition engine_actions_12 :: "action_definition list" where
  "engine_actions_12 =
    [action ''engine.runtime.external-tasks.failure'' ''engine:process:modify'' EngineResource ''execute'' ''high'' True
       [(''mission-control.external-tasks.failure'', ''disable'')]
       [(''POST'', ''/mission-control-api/external-tasks/{id}/failure'', ''engine.byId'')],
     action ''engine.runtime.external-tasks.bpmn-error'' ''engine:process:modify'' EngineResource ''execute'' ''high'' True
       [(''mission-control.external-tasks.bpmn-error'', ''disable'')]
       [(''POST'', ''/mission-control-api/external-tasks/{id}/bpmnError'', ''engine.byId'')],
     action ''engine.runtime.external-tasks.extend-lock'' ''engine:process:modify'' EngineResource ''execute'' ''high'' True
       [(''mission-control.external-tasks.extend-lock'', ''disable'')]
       [(''POST'', ''/mission-control-api/external-tasks/{id}/extendLock'', ''engine.byId'')],
     action ''engine.runtime.external-tasks.unlock'' ''engine:process:modify'' EngineResource ''execute'' ''high'' True
       [(''mission-control.external-tasks.unlock'', ''disable'')]
       [(''POST'', ''/mission-control-api/external-tasks/{id}/unlock'', ''engine.byId'')],
     action ''engine.runtime.messages.correlate'' ''engine:process:modify'' EngineResource ''execute'' ''high'' True
       [(''mission-control.messages.correlate'', ''disable'')]
       [(''POST'', ''/mission-control-api/messages'', ''engine.byId'')],
     action ''engine.runtime.signals.deliver'' ''engine:process:modify'' EngineResource ''execute'' ''high'' True
       [(''mission-control.signals.deliver'', ''disable'')]
       [(''POST'', ''/mission-control-api/signals'', ''engine.byId'')],
     action ''engine.runtime.history.tasks.read'' ''engine:instance:view'' EngineResource ''read'' ''medium'' False
       [(''mission-control.history.tasks'', ''hide'')]
       [(''GET'', ''/mission-control-api/history/tasks'', ''engine.byId'')]]"

definition engine_actions_13 :: "action_definition list" where
  "engine_actions_13 =
    [action ''engine.runtime.history.variables.read'' ''engine:variables:metadata:view'' EngineResource ''read'' ''high'' False
       [(''mission-control.history.variables'', ''redact'')]
       [(''GET'', ''/mission-control-api/history/variables'', ''engine.byId''),
        (''GET'', ''/mission-control-api/history/variable-instances'', ''engine.byId'')],
     action ''engine.runtime.history.decisions.read'' ''engine:instance:view'' EngineResource ''read'' ''high'' False
       [(''mission-control.history.decisions'', ''redact'')]
       [(''GET'', ''/mission-control-api/history/decisions'', ''engine.byId'')],
     action ''engine.runtime.history.decisions.inputs.read'' ''engine:instance:view'' EngineResource ''read'' ''high'' False
       [(''mission-control.history.decisions.inputs'', ''redact'')]
       [(''GET'', ''/mission-control-api/history/decisions/{id}/inputs'', ''engine.byId'')],
     action ''engine.runtime.history.decisions.outputs.read'' ''engine:instance:view'' EngineResource ''read'' ''high'' False
       [(''mission-control.history.decisions.outputs'', ''redact'')]
       [(''GET'', ''/mission-control-api/history/decisions/{id}/outputs'', ''engine.byId'')],
     action ''engine.runtime.history.user-operations.read'' ''engine:instance:view'' EngineResource ''read'' ''high'' False
       [(''mission-control.history.user-operations'', ''redact'')]
       [(''GET'', ''/mission-control-api/history/user-operations'', ''engine.byId'')],
     action ''engine.runtime.history.process-instances.read'' ''engine:instance:view'' EngineResource ''read'' ''high'' False
       [(''mission-control.history.process-instances'', ''redact'')]
       [(''GET'', ''/mission-control-api/history/process-instances'', ''engine.byId''),
        (''GET'', ''/mission-control-api/history/process-instances/{id}'', ''engine.byId'')]]"

definition engine_actions_14 :: "action_definition list" where
  "engine_actions_14 =
    [action ''engine.runtime.jobs.read'' ''engine:instance:view'' EngineResource ''read'' ''medium'' False
       [(''mission-control.jobs.list'', ''hide'')]
       [(''GET'', ''/mission-control-api/jobs'', ''engine.byId''),
        (''GET'', ''/mission-control-api/jobs/{id}'', ''engine.byId''),
        (''GET'', ''/mission-control-api/process-instances/{id}/jobs'', ''engine.byId'')],
     action ''engine.runtime.jobs.execute'' ''engine:instance:retry'' EngineResource ''execute'' ''high'' True
       [(''mission-control.jobs.execute'', ''disable'')]
       [(''POST'', ''/mission-control-api/jobs/{id}/execute'', ''engine.byId'')],
     action ''engine.runtime.jobs.retries.update'' ''engine:instance:retry'' EngineResource ''update'' ''high'' True
       [(''mission-control.jobs.retries'', ''disable'')]
       [(''PUT'', ''/mission-control-api/jobs/{id}/retries'', ''engine.byId'')],
     action ''engine.runtime.jobs.suspension.update'' ''engine:process:modify'' EngineResource ''update'' ''high'' True
       [(''mission-control.jobs.suspension'', ''disable'')]
       [(''PUT'', ''/mission-control-api/jobs/{id}/suspended'', ''engine.byId'')],
     action ''engine.runtime.job-definitions.read'' ''engine:instance:view'' EngineResource ''read'' ''medium'' False
       [(''mission-control.job-definitions.list'', ''hide'')]
       [(''GET'', ''/mission-control-api/job-definitions'', ''engine.byId'')],
     action ''engine.runtime.job-definitions.retries.update'' ''engine:instance:retry'' EngineResource ''update'' ''high'' True
       [(''mission-control.job-definitions.retries'', ''disable'')]
       [(''PUT'', ''/mission-control-api/job-definitions/{id}/retries'', ''engine.byId'')],
     action ''engine.runtime.job-definitions.suspension.update'' ''engine:process:modify'' EngineResource ''update'' ''high'' True
       [(''mission-control.job-definitions.suspension'', ''disable'')]
       [(''PUT'', ''/mission-control-api/job-definitions/{id}/suspended'', ''engine.byId'')]]"

definition engine_actions_15 :: "action_definition list" where
  "engine_actions_15 =
    [action ''engine.runtime.metrics.read'' ''engine:instance:view'' EngineResource ''read'' ''medium'' False
       [(''mission-control.metrics'', ''hide'')]
       [(''GET'', ''/mission-control-api/metrics'', ''engine.byId''),
        (''GET'', ''/mission-control-api/metrics/{name}'', ''engine.byId'')],
     action ''engine.members.read'' ''engine:members:view'' EngineResource ''read'' ''medium'' False
       [(''engine.members.list'', ''hide''), (''engine.detail.access'', ''hide'')]
       [(''GET'', ''/engines-api/engines/{engineId}/members'', ''engine.byId''),
        (''GET'', ''/engines-api/engines/{engineId}/my-role'', ''engine.byId'')],
     action ''engine.members.lookup'' ''engine:members:lookup'' EngineResource ''read'' ''medium'' False
       [(''engine.members.lookup'', ''disable'')]
       [(''GET'', ''/engines-api/engines/{engineId}/members/lookup'', ''engine.byId'')],
     action ''engine.members.invite'' ''engine:members:invite'' EngineResource ''manage'' ''high'' True
       [(''engine.members.invite'', ''disable'')]
       [(''GET'', ''/engines-api/engines/{engineId}/members/capabilities'', ''engine.byId''),
        (''POST'', ''/engines-api/engines/{engineId}/members'', ''engine.byId''),
        (''POST'', ''/engines-api/engines/{engineId}/pending-invites/{invitationId}/reissue'', ''engine.byId'')],
     action ''engine.members.add'' ''engine:members:add'' EngineResource ''manage'' ''high'' True
       [(''engine.members.add'', ''disable'')]
       [(''POST'', ''/engines-api/engines/{engineId}/members'', ''engine.byId'')],
     action ''engine.members.update-role'' ''engine:members:update-role'' EngineResource ''manage'' ''high'' True
       [(''engine.members.update-role'', ''disable'')]
       [(''PATCH'', ''/engines-api/engines/{engineId}/members/{userId}'', ''engine.byId'')],
     action ''engine.members.remove'' ''engine:members:remove'' EngineResource ''manage'' ''high'' True
       [(''engine.members.remove'', ''disable'')]
       [(''DELETE'', ''/engines-api/engines/{engineId}/members/{userId}'', ''engine.byId'')],
     action ''engine.delegate.manage'' ''engine:delegate:manage'' EngineResource ''manage'' ''high'' True
       [(''engine.delegate.manage'', ''disable'')]
       [(''POST'', ''/engines-api/engines/{engineId}/delegate'', ''engine.byId'')]]"

definition engine_actions_16 :: "action_definition list" where
  "engine_actions_16 =
    [action ''engine.ownership.transfer'' ''engine:ownership:transfer'' EngineResource ''manage'' ''critical'' True
       [(''engine.ownership.transfer'', ''disable'')]
       [(''POST'', ''/engines-api/engines/{engineId}/transfer-ownership'', ''engine.byId'')],
     action ''engine.environment.set'' ''engine:environment:set'' EngineResource ''manage'' ''high'' True
       [(''engine.environment.tag'', ''disable'')]
       [(''POST'', ''/engines-api/engines/{engineId}/environment'', ''engine.byId'')],
     action ''engine.environment.lock'' ''engine:environment:lock'' EngineResource ''manage'' ''high'' True
       [(''engine.environment.lock'', ''disable'')]
       [(''POST'', ''/engines-api/engines/{engineId}/lock'', ''engine.byId'')],
     action ''engine.project-access.requests.read'' ''engine:project-access:view'' EngineResource ''read'' ''medium'' False
       [(''engine.project-access.requests'', ''hide''), (''engine.detail.deployment-targets'', ''hide'')]
       [(''GET'', ''/engines-api/engines/{engineId}/access-requests'', ''engine.byId''),
        (''GET'', ''/engines-api/engines/{id}/project-targets'', ''engine.byId'')],
     action ''engine.project-access.requests.approve'' ''engine:project-access:approve'' EngineResource ''manage'' ''high'' True
       [(''engine.project-access.approve'', ''disable'')]
       [(''POST'', ''/engines-api/engines/{engineId}/access-requests/{requestId}/approve'', ''engine.byId'')],
     action ''engine.project-access.requests.deny'' ''engine:project-access:deny'' EngineResource ''manage'' ''high'' True
       [(''engine.project-access.deny'', ''disable'')]
       [(''POST'', ''/engines-api/engines/{engineId}/access-requests/{requestId}/deny'', ''engine.byId'')],
     action ''engine.project-access.revoke'' ''engine:project-access:revoke'' EngineResource ''delete'' ''high'' True
       [(''engine.project-access.revoke'', ''disable'')]
       [(''DELETE'', ''/engines-api/engines/{engineId}/projects/{projectId}'', ''engine.byId'')],
     action ''engine.runtime.variables.value.read'' ''engine:variables:value:view'' EngineResource ''read'' ''high'' False
       [(''mission-control.variables.values'', ''redact'')]
       []]"

definition engine_actions_17 :: "action_definition list" where
  "engine_actions_17 =
    [action ''engine.variables.update'' ''engine:variables:edit'' EngineResource ''update'' ''high'' True
       [(''mission-control.variables.actions'', ''disable'')]
       [],
     action ''engine.instances.read'' ''engine:instance:view'' EngineResource ''read'' ''low'' False
       [(''mission-control.instances'', ''hide'')]
       [],
     action ''engine.instances.mutate'' ''engine:process:modify'' EngineResource ''execute'' ''high'' True
       [(''mission-control.instances.actions'', ''disable'')]
       []]"

definition ENGINE_AUTHZ_ACTIONS :: "action_definition list" where
  "ENGINE_AUTHZ_ACTIONS = engine_actions_1 @ engine_actions_2 @ engine_actions_3 @ engine_actions_4 @ engine_actions_5 @ engine_actions_6 @ engine_actions_7 @ engine_actions_8 @ engine_actions_9 @ engine_actions_10 @ engine_actions_11 @ engine_actions_12 @ engine_actions_13 @ engine_actions_14 @ engine_actions_15 @ engine_actions_16 @ engine_actions_17"

text \<open>\<open>PROJECT_AUTHZ_ACTIONS\<close>\<close>

definition project_actions_1 :: "action_definition list" where
  "project_actions_1 =
    [action ''project.deployment-eligibility.evaluate'' ''platform:project-engine-targets:view'' ProjectEngineTarget ''evaluate'' ''medium'' True
       [(''project.deploy.eligibility'', ''disable'')]
       [(''POST'', ''/api/authz/project-engine-targets/evaluate'', ''projectEngineTarget.byProjectAndEngine'')],
     action ''starbase.bridge.mission-control.evaluate'' ''project:files:view'' ProjectResource ''evaluate'' ''medium'' False
       [(''starbase.bridge.mission-control'', ''disable'')]
       [(''POST'', ''/api/starbase/bridge/mission-control/evaluate'', ''project.byId'')],
     action ''project.deploy.create'' ''project:deploy'' ProjectResource ''execute'' ''high'' True
       [(''project.deploy.button'', ''disable'')]
       [(''POST'', ''/git-api/deploy'', ''project.byId''),
        (''POST'', ''/api/projects/:projectId/deployments'', ''project.byId'')],
     action ''project-engine-target.external-registration.upsert'' ''external-engine-system:project-targets:manage'' ExternalEngineSystem ''sync'' ''critical'' True
       [(''admin.project-engine-targets.external-api'', ''disable'')]
       [(''POST'', ''/engines-api/external/project-engine-targets'', ''externalEngineSystem.byId'')],
     action ''project-engine-target.external-registration.decommission'' ''external-engine-system:project-targets:manage'' ExternalEngineSystem ''sync'' ''critical'' True
       [(''admin.project-engine-targets.external-api.decommission'', ''disable'')]
       [(''POST'', ''/engines-api/external/project-engine-targets/decommission'', ''externalEngineSystem.byId'')],
     action ''project-engine-target.access.request'' ''project:settings:manage'' ProjectResource ''create'' ''medium'' True
       [(''project.engine-access.request'', ''disable'')]
       [(''POST'', ''/engines-api/engines/{engineId}/request-access'', ''project.byId'')]]"

definition project_actions_2 :: "action_definition list" where
  "project_actions_2 =
    [action ''project-engine-target.deploy.use'' ''project:deploy'' ProjectEngineTarget ''execute'' ''high'' True
       [(''project.deploy.engine-selector.option'', ''hide'')]
       [(''POST'', ''/api/projects/:projectId/deployments'', ''projectEngineTarget.fromProjectAndEngine''),
        (''POST'', ''/engines-api/engines/:engineId/deployments/preview'', ''projectEngineTarget.fromProjectAndEngine''),
        (''POST'', ''/engines-api/engines/:engineId/deployments'', ''projectEngineTarget.fromProjectAndEngine''),
        (''POST'', ''/git-api/deploy'', ''projectEngineTarget.fromProjectAndEngine''),
        (''POST'', ''/engines-api/external/engines/:engineId/deployments'', ''projectEngineTarget.fromProjectAndEngine'')],
     action ''project.deployment-options.read'' ''project:files:view'' ProjectResource ''read'' ''medium'' False
       [(''project.deploy.engine-selector'', ''hide'')]
       [(''GET'', ''/starbase-api/projects/:projectId/engine-access'', ''project.byId'')],
     action ''project.deployments.read'' ''project:files:view'' ProjectResource ''read'' ''medium'' False
       [(''project.deployments.history'', ''hide''), (''project.files.deployment-history'', ''hide'')]
       [(''GET'', ''/starbase-api/projects/:projectId/engine-deployments'', ''project.byId''),
        (''GET'', ''/starbase-api/projects/:projectId/engine-deployments/latest'', ''project.byId''),
        (''GET'', ''/starbase-api/projects/:projectId/files/:fileId/deployments'', ''project.byId''),
        (''GET'', ''/starbase-api/projects/:projectId/files/:fileId/deployments/history'', ''project.byId''),
        (''GET'', ''/git-api/deployments'', ''project.byId''),
        (''GET'', ''/git-api/projects/:projectId/deployments'', ''project.byId''),
        (''GET'', ''/git-api/deployments/:id'', ''project.byGitDeploymentId''),
        (''GET'', ''/git-api/commits'', ''project.byId'')],
     action ''project.projects.read'' ''project:files:view'' ProjectResource ''read'' ''low'' False
       [(''starbase.projects.list'', ''hide'')]
       [(''GET'', ''/starbase-api/projects'', ''project.visibleCollection'')],
     action ''project.projects.create'' ''project:create'' PlatformResource ''create'' ''high'' True
       [(''starbase.projects.create'', ''disable'')]
       [(''POST'', ''/starbase-api/projects'', ''platform.self'')]]"

definition project_actions_3 :: "action_definition list" where
  "project_actions_3 =
    [action ''project.projects.update'' ''project:settings:manage'' ProjectResource ''update'' ''medium'' True
       [(''project.settings.rename'', ''disable'')]
       [(''PATCH'', ''/starbase-api/projects/{projectId}'', ''project.byId'')],
     action ''project.projects.delete'' ''project:delete'' ProjectResource ''delete'' ''critical'' True
       [(''project.settings.delete'', ''disable'')]
       [(''DELETE'', ''/starbase-api/projects/{projectId}'', ''project.byId'')],
     action ''project.members.read'' ''project:members:view'' ProjectResource ''read'' ''medium'' False
       [(''project.members.list'', ''hide'')]
       [(''GET'', ''/starbase-api/projects/{projectId}/members'', ''project.byId'')],
     action ''project.members.search'' ''project:members:search'' ProjectResource ''read'' ''medium'' False
       [(''project.members.search'', ''disable'')]
       [(''GET'', ''/starbase-api/projects/{projectId}/members/user-search'', ''project.byId''),
        (''GET'', ''/starbase-api/projects/{projectId}/members/lookup'', ''project.byId'')],
     action ''project.members.invite'' ''project:members:invite'' ProjectResource ''create'' ''high'' True
       [(''project.members.invite'', ''disable'')]
       [(''GET'', ''/starbase-api/projects/{projectId}/members/capabilities'', ''project.byId''),
        (''POST'', ''/starbase-api/projects/{projectId}/pending-invites/{invitationId}/reissue'', ''project.byId'')],
     action ''project.members.add'' ''project:members:add'' ProjectResource ''create'' ''high'' True
       [(''project.members.add'', ''disable'')]
       [(''POST'', ''/starbase-api/projects/{projectId}/members'', ''project.byId'')],
     action ''project.members.update-role'' ''project:members:update-role'' ProjectResource ''update'' ''high'' True
       [(''project.members.role'', ''disable'')]
       [(''PATCH'', ''/starbase-api/projects/{projectId}/members/{userId}'', ''project.byId'')],
     action ''project.members.remove'' ''project:members:remove'' ProjectResource ''delete'' ''high'' True
       [(''project.members.remove'', ''disable'')]
       [(''DELETE'', ''/starbase-api/projects/{projectId}/members/{userId}'', ''project.byId'')],
     action ''project.members.deploy-grant.manage'' ''project:members:manage-deploy-grant'' ProjectResource ''manage'' ''high'' True
       [(''project.members.deploy-grant'', ''disable'')]
       [(''PUT'', ''/starbase-api/projects/{projectId}/members/{userId}/deploy-permission'', ''project.byId'')]]"

definition project_actions_4 :: "action_definition list" where
  "project_actions_4 =
    [action ''project.ownership.transfer'' ''project:ownership:transfer'' ProjectResource ''manage'' ''critical'' True
       [(''project.members.transfer-ownership'', ''disable'')]
       [(''POST'', ''/starbase-api/projects/{projectId}/transfer-ownership'', ''project.byId'')],
     action ''project.deployment-targets.read'' ''project:deployment-targets:view'' ProjectResource ''read'' ''medium'' False
       [(''project.settings.deployment-targets'', ''hide'')]
       [(''GET'', ''/starbase-api/projects/{projectId}/deployment-targets'', ''project.byId'')],
     action ''project.deployment-targets.manage'' ''project:deployment-targets:manage'' ProjectResource ''manage'' ''high'' True
       [(''project.settings.deployment-targets.edit'', ''disable'')]
       [(''POST'', ''/starbase-api/projects/{projectId}/deployment-targets'', ''project.byId''),
        (''PUT'', ''/starbase-api/projects/{projectId}/deployment-targets/{targetId}'', ''project.byId''),
        (''DELETE'', ''/starbase-api/projects/{projectId}/deployment-targets/{targetId}'', ''project.byId''),
        (''POST'', ''/starbase-api/projects/{projectId}/deployment-targets/sync-legacy'', ''project.byId'')],
     action ''project.files.read'' ''project:files:view'' ProjectResource ''read'' ''medium'' False
       [(''project.files.list'', ''hide''), (''project.files.detail'', ''hide''),
        (''project.files.download'', ''hide'')]
       [(''GET'', ''/starbase-api/projects/{projectId}/files'', ''project.byId''),
        (''GET'', ''/starbase-api/files/{fileId}'', ''project.byFileId''),
        (''GET'', ''/starbase-api/projects/{projectId}/files/{fileId}/callers'', ''project.byId''),
        (''GET'', ''/starbase-api/files/{fileId}/download'', ''project.byFileId''),
        (''GET'', ''/starbase-api/files/{fileId}/comments'', ''project.byFileId''),
        (''GET'', ''/starbase-api/projects/{projectId}/contents'', ''project.byId''),
        (''GET'', ''/starbase-api/projects/{projectId}/folders'', ''project.byId''),
        (''GET'', ''/starbase-api/folders/{folderId}/download'', ''project.byFolderId''),
        (''GET'', ''/starbase-api/projects/{projectId}/download'', ''project.byId''),
        (''POST'', ''/starbase-api/projects/{projectId}/download-selection'', ''project.byId'')],
     action ''project.files.create'' ''project:files:create'' ProjectResource ''create'' ''high'' True
       [(''project.files.create'', ''disable''), (''project.folders.create'', ''disable''),
        (''project.files.import-zip'', ''disable'')]
       [(''POST'', ''/starbase-api/projects/{projectId}/files'', ''project.byId''),
        (''POST'', ''/starbase-api/projects/{projectId}/folders'', ''project.byId''),
        (''POST'', ''/starbase-api/projects/{projectId}/import-zip'', ''project.byId'')],
     action ''project.files.update'' ''project:files:edit'' ProjectResource ''update'' ''high'' True
       [(''project.files.edit'', ''disable''), (''project.folders.edit'', ''disable'')]
       [(''PUT'', ''/starbase-api/files/{fileId}'', ''project.byFileId''),
        (''PATCH'', ''/starbase-api/files/{fileId}'', ''project.byFileId''),
        (''PATCH'', ''/starbase-api/folders/{folderId}'', ''project.byFolderId'')],
     action ''project.files.delete'' ''project:files:delete'' ProjectResource ''delete'' ''high'' True
       [(''project.files.delete'', ''disable''), (''project.folders.delete'', ''disable'')]
       [(''DELETE'', ''/starbase-api/files/{fileId}'', ''project.byFileId''),
        (''GET'', ''/starbase-api/folders/{folderId}/delete-preview'', ''project.byFolderId''),
        (''DELETE'', ''/starbase-api/folders/{folderId}'', ''project.byFolderId'')],
     action ''project.files.restore'' ''project:versions:restore'' ProjectResource ''execute'' ''high'' True
       [(''project.files.restore'', ''disable'')]
       [(''POST'', ''/starbase-api/files/{fileId}/restore-from-commit'', ''project.byFileId'')]]"

definition project_actions_5 :: "action_definition list" where
  "project_actions_5 =
    [action ''project.versions.read'' ''project:files:view'' ProjectResource ''read'' ''medium'' False
       [(''project.versions.list'', ''hide'')]
       [(''GET'', ''/starbase-api/files/{fileId}/versions'', ''project.byFileId''),
        (''GET'', ''/starbase-api/files/{fileId}/versions/{versionId}'', ''project.byFileId''),
        (''GET'', ''/starbase-api/versions/{versionId}/compare/{otherVersionId}'', ''project.byVersionId'')],
     action ''project.versions.create'' ''project:versions:create'' ProjectResource ''create'' ''medium'' True
       [(''project.versions.create'', ''disable'')]
       [(''POST'', ''/starbase-api/files/{fileId}/versions'', ''project.byFileId'')],
     action ''project.versions.restore'' ''project:versions:restore'' ProjectResource ''execute'' ''high'' True
       [(''project.versions.restore'', ''disable'')]
       [(''POST'', ''/starbase-api/files/{fileId}/versions/{versionId}/restore'', ''project.byFileId'')],
     action ''project.vcs.status.read'' ''project:files:view'' ProjectResource ''read'' ''medium'' False
       [(''project.vcs.status'', ''hide'')]
       [(''GET'', ''/vcs-api/projects/uncommitted-status'', ''project.visibleCollection''),
        (''GET'', ''/vcs-api/projects/{projectId}/status'', ''project.byId''),
        (''GET'', ''/vcs-api/projects/{projectId}/uncommitted-files'', ''project.byId'')],
     action ''project.vcs.commits.read'' ''project:files:view'' ProjectResource ''read'' ''medium'' False
       [(''project.vcs.commits'', ''hide''), (''project.vcs.commit-files'', ''hide'')]
       [(''GET'', ''/vcs-api/projects/{projectId}/commits'', ''project.byId''),
        (''GET'', ''/vcs-api/projects/{projectId}/commits/{commitId}/files'', ''project.byId'')],
     action ''project.vcs.commit.create'' ''project:versions:create'' ProjectResource ''create'' ''medium'' True
       [(''project.vcs.commit.create'', ''disable'')]
       [(''POST'', ''/vcs-api/projects/{projectId}/commit'', ''project.byId'')],
     action ''project.vcs.publish'' ''project:versions:create'' ProjectResource ''execute'' ''high'' True
       [(''project.vcs.publish'', ''disable'')]
       [(''POST'', ''/vcs-api/projects/{projectId}/publish'', ''project.byId'')],
     action ''project.vcs.commit.restore'' ''project:versions:restore'' ProjectResource ''execute'' ''high'' True
       [(''project.vcs.commit.restore'', ''disable'')]
       [(''POST'', ''/vcs-api/projects/{projectId}/commits/{commitId}/restore'', ''project.byId'')],
     action ''project.import.preview'' ''engine:deploy:view'' EngineResource ''read'' ''medium'' False
       [(''project.create.import-engine-preview'', ''disable'')]
       [(''POST'', ''/starbase-api/projects/import-preview'', ''engine.byId'')]]"

definition project_actions_6 :: "action_definition list" where
  "project_actions_6 =
    [action ''project.create.git.inspect'' ''project:create'' PlatformResource ''read'' ''medium'' False
       [(''project.create.git.remote-inspection'', ''disable'')]
       [(''POST'', ''/git-api/repo-info'', ''platform.self''),
        (''POST'', ''/git-api/check-repo-exists'', ''platform.self'')],
     action ''project.create.git.create'' ''project:create'' PlatformResource ''create'' ''high'' True
       [(''project.create.git.submit'', ''disable'')]
       [(''POST'', ''/git-api/clone'', ''platform.self''), (''POST'', ''/git-api/create-online'', ''platform.self'')],
     action ''project.git.repositories.read'' ''project:files:view'' ProjectResource ''read'' ''medium'' False
       [(''project.git.repositories'', ''hide''), (''project.git.connection.status'', ''hide'')]
       [(''GET'', ''/git-api/repositories'', ''project.visibleCollection''),
        (''GET'', ''/git-api/repositories/:id'', ''project.byGitRepositoryId''),
        (''GET'', ''/git-api/project-connection'', ''project.byId'')],
     action ''project.git.repositories.manage'' ''project:git:connect'' ProjectResource ''manage'' ''high'' True
       [(''project.git.connection.manage'', ''disable'')]
       [(''POST'', ''/git-api/repositories/init'', ''project.byId''),
        (''POST'', ''/git-api/repositories/clone'', ''project.byId''),
        (''DELETE'', ''/git-api/repositories/:id'', ''project.byGitRepositoryId''),
        (''POST'', ''/git-api/project-connection'', ''project.byId''),
        (''PUT'', ''/git-api/project-connection/token'', ''project.byId''),
        (''DELETE'', ''/git-api/project-connection'', ''project.byId'')],
     action ''project.git.sync.status'' ''project:git:pull'' ProjectResource ''read'' ''medium'' False
       [(''project.git.sync.status'', ''hide'')]
       [(''GET'', ''/git-api/sync/status'', ''project.byId'')],
     action ''project.git.sync.run'' ''project:git:push'' ProjectResource ''sync'' ''high'' True
       [(''project.git.sync.action'', ''disable'')]
       [(''POST'', ''/git-api/sync'', ''project.byId'')]]"

definition project_actions_7 :: "action_definition list" where
  "project_actions_7 =
    [action ''project.git.rollback'' ''project:versions:restore'' ProjectResource ''execute'' ''high'' True
       [(''project.git.rollback'', ''disable'')]
       [(''POST'', ''/git-api/rollback'', ''project.byId'')],
     action ''project.git.locks.read'' ''project:files:view'' ProjectResource ''read'' ''low'' False
       [(''project.files.locks'', ''hide'')]
       [(''GET'', ''/git-api/locks'', ''project.byId''),
        (''GET'', ''/git-api/locks/:fileId/events'', ''project.byFileId'')],
     action ''project.git.locks.acquire'' ''project:files:edit'' ProjectResource ''manage'' ''medium'' True
       [(''project.files.lock.acquire'', ''disable'')]
       [(''POST'', ''/git-api/locks'', ''project.byFileId'')],
     action ''project.git.locks.release'' ''project:files:edit'' ProjectResource ''manage'' ''medium'' True
       [(''project.files.lock.release'', ''disable'')]
       [(''DELETE'', ''/git-api/locks/:lockId'', ''project.byGitLockId'')],
     action ''project.git.locks.heartbeat'' ''project:files:edit'' ProjectResource ''manage'' ''low'' False
       [(''project.files.lock.heartbeat'', ''disable'')]
       [(''PUT'', ''/git-api/locks/:lockId/heartbeat'', ''project.byGitLockId'')]]"

definition PROJECT_AUTHZ_ACTIONS :: "action_definition list" where
  "PROJECT_AUTHZ_ACTIONS = project_actions_1 @ project_actions_2 @ project_actions_3 @ project_actions_4 @ project_actions_5 @ project_actions_6 @ project_actions_7"

definition AUTHZ_ACTIONS :: "action_definition list" where
  "AUTHZ_ACTIONS = PLATFORM_AUTHZ_ACTIONS @ TENANT_AUTHZ_ACTIONS @ ENGINE_AUTHZ_ACTIONS @ PROJECT_AUTHZ_ACTIONS"


section \<open>Functions\<close>

datatype action_registry_error = DuplicateResolver string | DuplicateAction string | NoSurface string | UnknownResolver string string

text \<open>The two loops of \<open>validateAuthzActionRegistry\<close>; \<open>seen\<close> is the set of ids so far.\<close>

fun resolver_errors :: "string list \<Rightarrow> string list \<Rightarrow> action_registry_error list" where
  "resolver_errors seen [] = []"
| "resolver_errors seen (i # is) = (if i \<in> set seen then [DuplicateResolver i] else []) @ resolver_errors (i # seen) is"

definition action_errors :: "string list \<Rightarrow> action_definition \<Rightarrow> action_registry_error list" where
  "action_errors resolverIds a =
     (if act_ui a = [] then [NoSurface (act_actionId a)] else []) @
     map (\<lambda>(m, r, v). UnknownResolver (act_actionId a) v) (filter (\<lambda>(m, r, v). v \<notin> set resolverIds) (act_routes a))"

fun actions_errors :: "string list \<Rightarrow> string list \<Rightarrow> action_definition list \<Rightarrow> action_registry_error list" where
  "actions_errors resolverIds seen [] = []"
| "actions_errors resolverIds seen (a # as) =
     (if act_actionId a \<in> set seen then [DuplicateAction (act_actionId a)] else []) @ action_errors resolverIds a @
     actions_errors resolverIds (act_actionId a # seen) as"

definition validateAuthzActionRegistry ::
  "action_definition list \<Rightarrow> (string \<times> resource_type \<times> string list) list \<Rightarrow> action_registry_error list" where
  "validateAuthzActionRegistry actions resolvers =
     resolver_errors [] (map fst resolvers) @ actions_errors (map fst resolvers) [] actions"

text \<open>A \<open>Map\<close> keeps the last of equal keys.\<close>

definition getAuthzActionDefinition :: "string \<Rightarrow> action_definition option" where
  "getAuthzActionDefinition i = map_of (rev (map (\<lambda>a. (act_actionId a, a)) AUTHZ_ACTIONS)) i"

definition assertKnownAuthzAction :: "string \<Rightarrow> authz_error + action_definition" where
  "assertKnownAuthzAction i = (case getAuthzActionDefinition i of None \<Rightarrow> Inl UnknownAction | Some a \<Rightarrow> Inr a)"

definition getAuthzResourceResolver :: "string \<Rightarrow> (resource_type \<times> string list) option" where
  "getAuthzResourceResolver i = map_of (rev AUTHZ_RESOURCE_RESOLVERS) i"

definition ENGINE_PERMISSION_RESOURCE_TYPES :: "resource_type list" where
  "ENGINE_PERMISSION_RESOURCE_TYPES = [EngineResource, EngineSetResource, RuntimeResource, RuntimeResourceSet]"

definition isPermissionCompatibleWithResourceType :: "string \<Rightarrow> resource_type \<Rightarrow> bool \<Rightarrow> resource_type \<Rightarrow> bool" where
  "isPermissionCompatibleWithResourceType key scope tenantSafe resourceType \<longleftrightarrow>
     scope = resourceType \<or>
     (if resourceType = TenantResource then tenantSafe
      else (resourceType \<in> set ENGINE_PERMISSION_RESOURCE_TYPES \<and> scope = EngineResource) \<or>
        list_ex (\<lambda>a. act_permissionId a = key \<and> act_resourceType a = resourceType) AUTHZ_ACTIONS)"

end
