(* ===== verification/Action_Contract.thy ===== *)
theory Action_Contract
  imports Action_Registry
begin

text \<open>
  The registry of actions is closed: every action needs a permission of the catalog, is shown on some surface,
  and its routes use resolvers that exist; no two actions have the same id. The check that the module runs when it is
  loaded finds exactly the defects that it is about, for any lists of actions and resolvers.
\<close>

definition known_permission :: "string \<Rightarrow> bool" where
  "known_permission p \<longleftrightarrow> (\<exists>d. map_of static_catalog p = Some d \<and> \<not> pd_isArchived d)"

definition resolver_ids :: "string list" where
  "resolver_ids = map fst AUTHZ_RESOURCE_RESOLVERS"

definition action_sound :: "action_definition \<Rightarrow> bool" where
  "action_sound a \<longleftrightarrow> known_permission (act_permissionId a) \<and> act_ui a \<noteq> [] \<and>
     list_all (\<lambda>(m, r, v). v \<in> set resolver_ids) (act_routes a)"

lemma known_lists:
  "list_all known_permission EnginePermissions" "list_all known_permission ProjectPermissions"
  "list_all known_permission ExternalEngineSystemPermissions" "list_all known_permission TenantPermissions"
  "list_all known_permission PlatformPermissions"
  using catalog_scopes by (fastforce simp: list_all_iff known_permission_def permissionDefinition_def)+

lemma resolver_ids_eq: "resolver_ids =
    [''platform.self'',
     ''tenant.fromContext'',
     ''project.byId'',
     ''project.visibleCollection'',
     ''project.byFileId'',
     ''project.byFolderId'',
     ''project.byVersionId'',
     ''project.byGitRepositoryId'',
     ''project.byGitDeploymentId'',
     ''project.byGitLockId'',
     ''engine.byId'',
     ''engine.visibleCollection'',
     ''engine.bySavedFilterId'',
     ''engineSet.byId'',
     ''projectEngineTarget.byId'',
     ''projectEngineTarget.fromProjectAndEngine'',
     ''projectEngineTarget.byProjectAndEngine'',
     ''externalEngineSystem.byId'',
     ''apiClient.byId'',
     ''ssoMapping.byId'']"
  by (simp add: resolver_ids_def AUTHZ_RESOURCE_RESOLVERS_def)

text \<open>The names that the registry uses, as rewrite rules.\<close>

lemma resolver_known:
  "''platform.self'' \<in> set resolver_ids"
  "''tenant.fromContext'' \<in> set resolver_ids"
  "''project.byId'' \<in> set resolver_ids"
  "''project.visibleCollection'' \<in> set resolver_ids"
  "''project.byFileId'' \<in> set resolver_ids"
  "''project.byFolderId'' \<in> set resolver_ids"
  "''project.byVersionId'' \<in> set resolver_ids"
  "''project.byGitRepositoryId'' \<in> set resolver_ids"
  "''project.byGitDeploymentId'' \<in> set resolver_ids"
  "''project.byGitLockId'' \<in> set resolver_ids"
  "''engine.byId'' \<in> set resolver_ids"
  "''engine.visibleCollection'' \<in> set resolver_ids"
  "''engine.bySavedFilterId'' \<in> set resolver_ids"
  "''engineSet.byId'' \<in> set resolver_ids"
  "''projectEngineTarget.byId'' \<in> set resolver_ids"
  "''projectEngineTarget.fromProjectAndEngine'' \<in> set resolver_ids"
  "''projectEngineTarget.byProjectAndEngine'' \<in> set resolver_ids"
  "''externalEngineSystem.byId'' \<in> set resolver_ids"
  "''apiClient.byId'' \<in> set resolver_ids"
  "''ssoMapping.byId'' \<in> set resolver_ids"
  by (simp_all add: resolver_ids_eq)

lemma known_1:
  "known_permission ''engine:edit'' \<and>
   known_permission ''engine:delete'' \<and>
   known_permission ''engine:activate'' \<and>
   known_permission ''engine:secrets:view'' \<and>
   known_permission ''engine:secrets:manage'' \<and>
   known_permission ''engine:environment:set'' \<and>
   known_permission ''engine:environment:lock'' \<and>
   known_permission ''engine:delegate:manage'' \<and>
   known_permission ''engine:ownership:transfer'' \<and>
   known_permission ''engine:members:manage'' \<and>
   known_permission ''engine:members:view'' \<and>
   known_permission ''engine:members:lookup'' \<and>
   known_permission ''engine:members:invite'' \<and>
   known_permission ''engine:members:add'' \<and>
   known_permission ''engine:members:update-role'' \<and>
   known_permission ''engine:members:remove'' \<and>
   known_permission ''engine:project-access:view'' \<and>
   known_permission ''engine:project-access:approve'' \<and>
   known_permission ''engine:project-access:deny'' \<and>
   known_permission ''engine:project-access:revoke'' \<and>
   known_permission ''engine:deploy'' \<and>
   known_permission ''engine:deploy:view'' \<and>
   known_permission ''engine:process:start'' \<and>
   known_permission ''engine:process:cancel'' \<and>
   known_permission ''engine:process:modify'' \<and>
   known_permission ''engine:instance:view'' \<and>
   known_permission ''engine:instance:delete'' \<and>
   known_permission ''engine:instance:retry'' \<and>
   known_permission ''engine:variables:metadata:view'' \<and>
   known_permission ''engine:variables:value:view'' \<and>
   known_permission ''engine:variables:edit''"
  using known_lists(1) by (simp only: EnginePermissions_def list.pred_inject simp_thms)

lemma known_2:
  "known_permission ''project:delete'' \<and>
   known_permission ''project:settings:manage'' \<and>
   known_permission ''project:members:manage'' \<and>
   known_permission ''project:members:view'' \<and>
   known_permission ''project:members:search'' \<and>
   known_permission ''project:members:invite'' \<and>
   known_permission ''project:members:add'' \<and>
   known_permission ''project:members:update-role'' \<and>
   known_permission ''project:members:remove'' \<and>
   known_permission ''project:members:manage-deploy-grant'' \<and>
   known_permission ''project:delegate:manage'' \<and>
   known_permission ''project:ownership:transfer'' \<and>
   known_permission ''project:files:create'' \<and>
   known_permission ''project:files:edit'' \<and>
   known_permission ''project:files:delete'' \<and>
   known_permission ''project:files:view'' \<and>
   known_permission ''project:versions:create'' \<and>
   known_permission ''project:versions:restore'' \<and>
   known_permission ''project:git:push'' \<and>
   known_permission ''project:git:pull'' \<and>
   known_permission ''project:git:connect'' \<and>
   known_permission ''project:deploy'' \<and>
   known_permission ''project:deployment-targets:view'' \<and>
   known_permission ''project:deployment-targets:manage''"
  using known_lists(2) by (simp only: ProjectPermissions_def list.pred_inject simp_thms)

lemma known_3:
  "known_permission ''external-engine-system:engine-registration:manage'' \<and>
   known_permission ''external-engine-system:project-targets:manage''"
  using known_lists(3) by (simp only: ExternalEngineSystemPermissions_def list.pred_inject simp_thms)

lemma known_4:
  "known_permission ''tenant:settings:view'' \<and>
   known_permission ''tenant:settings:manage'' \<and>
   known_permission ''tenant:members:manage'' \<and>
   known_permission ''tenant:sso-providers:view'' \<and>
   known_permission ''tenant:sso-providers:manage'' \<and>
   known_permission ''tenant:apps:view'' \<and>
   known_permission ''tenant:apps:request'' \<and>
   known_permission ''tenant:apps:manage'' \<and>
   known_permission ''tenant:apps:use''"
  using known_lists(4) by (simp only: TenantPermissions_def list.pred_inject simp_thms)

lemma known_5:
  "known_permission ''platform:dashboard:view'' \<and>
   known_permission ''project:create'' \<and>
   known_permission ''platform:engine:create'' \<and>
   known_permission ''platform:engine:delete'' \<and>
   known_permission ''platform:engine-registration:manage'' \<and>
   known_permission ''platform:engine-sets:view'' \<and>
   known_permission ''platform:engine-sets:manage'' \<and>
   known_permission ''platform:project-engine-targets:view'' \<and>
   known_permission ''platform:project-engine-targets:manage'' \<and>
   known_permission ''platform:user:manage'' \<and>
   known_permission ''platform:user:view'' \<and>
   known_permission ''platform:users:view'' \<and>
   known_permission ''platform:users:create'' \<and>
   known_permission ''platform:users:update'' \<and>
   known_permission ''platform:users:deactivate'' \<and>
   known_permission ''platform:users:delete'' \<and>
   known_permission ''platform:users:permanent-delete'' \<and>
   known_permission ''platform:users:unlock'' \<and>
   known_permission ''platform:settings:manage'' \<and>
   known_permission ''platform:tenants:view'' \<and>
   known_permission ''platform:tenants:manage'' \<and>
   known_permission ''platform:sso-providers:view'' \<and>
   known_permission ''platform:sso-providers:manage'' \<and>
   known_permission ''platform:sso-platform-role-mappings:view'' \<and>
   known_permission ''platform:sso-platform-role-mappings:manage'' \<and>
   known_permission ''platform:audit:view'' \<and>
   known_permission ''platform:audit:unredacted-view'' \<and>
   known_permission ''platform:git-provider:manage'' \<and>
   known_permission ''platform:authz:roles:view'' \<and>
   known_permission ''platform:authz:roles:manage'' \<and>
   known_permission ''platform:authz:check'' \<and>
   known_permission ''platform:config-bundles:view'' \<and>
   known_permission ''platform:config-bundles:preview'' \<and>
   known_permission ''platform:config-bundles:apply'' \<and>
   known_permission ''platform:config-bundles:export'' \<and>
   known_permission ''platform:camunda-native-grants:preview'' \<and>
   known_permission ''platform:camunda-native-grants:sensitive-view'' \<and>
   known_permission ''platform:camunda-native-grants:draft'' \<and>
   known_permission ''platform:camunda-native-grants:history-view'' \<and>
   known_permission ''platform:engine-backstop:view'' \<and>
   known_permission ''platform:engine-backstop:manage'' \<and>
   known_permission ''platform:engine-backstop:preview'' \<and>
   known_permission ''platform:engine-backstop:sensitive-view'' \<and>
   known_permission ''platform:engine-backstop:apply'' \<and>
   known_permission ''platform:engine-backstop:drift-check'' \<and>
   known_permission ''platform:sso-assignments:view'' \<and>
   known_permission ''platform:sso-assignments:manage'' \<and>
   known_permission ''platform:api-clients:view'' \<and>
   known_permission ''platform:api-clients:manage'' \<and>
   known_permission ''platform:service-accounts:view'' \<and>
   known_permission ''platform:service-accounts:manage''"
  using known_lists(5) by (simp only: PlatformPermissions_def list.pred_inject simp_thms)

lemmas registry_names = resolver_known known_1 known_2 known_3 known_4 known_5

text \<open>Each part of the registry.\<close>

lemma platform_actions_1_sound: "list_all action_sound platform_actions_1"
  by (simp add: platform_actions_1_def action_def action_sound_def registry_names)
lemma platform_actions_2_sound: "list_all action_sound platform_actions_2"
  by (simp add: platform_actions_2_def action_def action_sound_def registry_names)
lemma platform_actions_3_sound: "list_all action_sound platform_actions_3"
  by (simp add: platform_actions_3_def action_def action_sound_def registry_names)
lemma platform_actions_4_sound: "list_all action_sound platform_actions_4"
  by (simp add: platform_actions_4_def action_def action_sound_def registry_names)
lemma platform_actions_5_sound: "list_all action_sound platform_actions_5"
  by (simp add: platform_actions_5_def action_def action_sound_def registry_names)
lemma platform_actions_6_sound: "list_all action_sound platform_actions_6"
  by (simp add: platform_actions_6_def action_def action_sound_def registry_names)
lemma platform_actions_7_sound: "list_all action_sound platform_actions_7"
  by (simp add: platform_actions_7_def action_def action_sound_def registry_names)
lemma platform_actions_8_sound: "list_all action_sound platform_actions_8"
  by (simp add: platform_actions_8_def action_def action_sound_def registry_names)
lemma platform_actions_9_sound: "list_all action_sound platform_actions_9"
  by (simp add: platform_actions_9_def action_def action_sound_def registry_names)
lemma platform_actions_10_sound: "list_all action_sound platform_actions_10"
  by (simp add: platform_actions_10_def action_def action_sound_def registry_names)
lemma tenant_actions_1_sound: "list_all action_sound tenant_actions_1"
  by (simp add: tenant_actions_1_def action_def action_sound_def registry_names)
lemma tenant_actions_2_sound: "list_all action_sound tenant_actions_2"
  by (simp add: tenant_actions_2_def action_def action_sound_def registry_names)
lemma engine_actions_1_sound: "list_all action_sound engine_actions_1"
  by (simp add: engine_actions_1_def action_def action_sound_def registry_names)
lemma engine_actions_2_sound: "list_all action_sound engine_actions_2"
  by (simp add: engine_actions_2_def action_def action_sound_def registry_names)
lemma engine_actions_3_sound: "list_all action_sound engine_actions_3"
  by (simp add: engine_actions_3_def action_def action_sound_def registry_names)
lemma engine_actions_4_sound: "list_all action_sound engine_actions_4"
  by (simp add: engine_actions_4_def action_def action_sound_def registry_names)
lemma engine_actions_5_sound: "list_all action_sound engine_actions_5"
  by (simp add: engine_actions_5_def action_def action_sound_def registry_names)
lemma engine_actions_6_sound: "list_all action_sound engine_actions_6"
  by (simp add: engine_actions_6_def action_def action_sound_def registry_names)
lemma engine_actions_7_sound: "list_all action_sound engine_actions_7"
  by (simp add: engine_actions_7_def action_def action_sound_def registry_names)
lemma engine_actions_8_sound: "list_all action_sound engine_actions_8"
  by (simp add: engine_actions_8_def action_def action_sound_def registry_names)
lemma engine_actions_9_sound: "list_all action_sound engine_actions_9"
  by (simp add: engine_actions_9_def action_def action_sound_def registry_names)
lemma engine_actions_10_sound: "list_all action_sound engine_actions_10"
  by (simp add: engine_actions_10_def action_def action_sound_def registry_names)
lemma engine_actions_11_sound: "list_all action_sound engine_actions_11"
  by (simp add: engine_actions_11_def action_def action_sound_def registry_names)
lemma engine_actions_12_sound: "list_all action_sound engine_actions_12"
  by (simp add: engine_actions_12_def action_def action_sound_def registry_names)
lemma engine_actions_13_sound: "list_all action_sound engine_actions_13"
  by (simp add: engine_actions_13_def action_def action_sound_def registry_names)
lemma engine_actions_14_sound: "list_all action_sound engine_actions_14"
  by (simp add: engine_actions_14_def action_def action_sound_def registry_names)
lemma engine_actions_15_sound: "list_all action_sound engine_actions_15"
  by (simp add: engine_actions_15_def action_def action_sound_def registry_names)
lemma engine_actions_16_sound: "list_all action_sound engine_actions_16"
  by (simp add: engine_actions_16_def action_def action_sound_def registry_names)
lemma engine_actions_17_sound: "list_all action_sound engine_actions_17"
  by (simp add: engine_actions_17_def action_def action_sound_def registry_names)
lemma project_actions_1_sound: "list_all action_sound project_actions_1"
  by (simp add: project_actions_1_def action_def action_sound_def registry_names)
lemma project_actions_2_sound: "list_all action_sound project_actions_2"
  by (simp add: project_actions_2_def action_def action_sound_def registry_names)
lemma project_actions_3_sound: "list_all action_sound project_actions_3"
  by (simp add: project_actions_3_def action_def action_sound_def registry_names)
lemma project_actions_4_sound: "list_all action_sound project_actions_4"
  by (simp add: project_actions_4_def action_def action_sound_def registry_names)
lemma project_actions_5_sound: "list_all action_sound project_actions_5"
  by (simp add: project_actions_5_def action_def action_sound_def registry_names)
lemma project_actions_6_sound: "list_all action_sound project_actions_6"
  by (simp add: project_actions_6_def action_def action_sound_def registry_names)
lemma project_actions_7_sound: "list_all action_sound project_actions_7"
  by (simp add: project_actions_7_def action_def action_sound_def registry_names)

lemma actions_sound: "list_all action_sound AUTHZ_ACTIONS"
  unfolding AUTHZ_ACTIONS_def PLATFORM_AUTHZ_ACTIONS_def TENANT_AUTHZ_ACTIONS_def ENGINE_AUTHZ_ACTIONS_def PROJECT_AUTHZ_ACTIONS_def list_all_append
  by (intro conjI) (rule platform_actions_1_sound
    | rule platform_actions_2_sound
    | rule platform_actions_3_sound
    | rule platform_actions_4_sound
    | rule platform_actions_5_sound
    | rule platform_actions_6_sound
    | rule platform_actions_7_sound
    | rule platform_actions_8_sound
    | rule platform_actions_9_sound
    | rule platform_actions_10_sound
    | rule tenant_actions_1_sound
    | rule tenant_actions_2_sound
    | rule engine_actions_1_sound
    | rule engine_actions_2_sound
    | rule engine_actions_3_sound
    | rule engine_actions_4_sound
    | rule engine_actions_5_sound
    | rule engine_actions_6_sound
    | rule engine_actions_7_sound
    | rule engine_actions_8_sound
    | rule engine_actions_9_sound
    | rule engine_actions_10_sound
    | rule engine_actions_11_sound
    | rule engine_actions_12_sound
    | rule engine_actions_13_sound
    | rule engine_actions_14_sound
    | rule engine_actions_15_sound
    | rule engine_actions_16_sound
    | rule engine_actions_17_sound
    | rule project_actions_1_sound
    | rule project_actions_2_sound
    | rule project_actions_3_sound
    | rule project_actions_4_sound
    | rule project_actions_5_sound
    | rule project_actions_6_sound
    | rule project_actions_7_sound)+

section \<open>The ids of the actions\<close>

lemma action_id: "act_actionId (action i p t op risk audit ui routes) = i"
  by (simp add: action_def)

text \<open>Within a part of the registry the ids differ behind their common beginning; between parts, in their first letters.\<close>

lemma platform_ids: "distinct (map (drop 9) (map act_actionId PLATFORM_AUTHZ_ACTIONS))"
  unfolding PLATFORM_AUTHZ_ACTIONS_def platform_actions_1_def platform_actions_2_def platform_actions_3_def platform_actions_4_def platform_actions_5_def platform_actions_6_def platform_actions_7_def platform_actions_8_def platform_actions_9_def platform_actions_10_def append.simps map_append list.map action_id by simp
lemma tenant_ids: "distinct (map (drop 7) (map act_actionId TENANT_AUTHZ_ACTIONS))"
  unfolding TENANT_AUTHZ_ACTIONS_def tenant_actions_1_def tenant_actions_2_def append.simps map_append list.map action_id by simp
lemma engine_ids: "distinct (map (drop 7) (map act_actionId ENGINE_AUTHZ_ACTIONS))"
  unfolding ENGINE_AUTHZ_ACTIONS_def engine_actions_1_def engine_actions_2_def engine_actions_3_def engine_actions_4_def engine_actions_5_def engine_actions_6_def engine_actions_7_def engine_actions_8_def engine_actions_9_def engine_actions_10_def engine_actions_11_def engine_actions_12_def engine_actions_13_def engine_actions_14_def engine_actions_15_def engine_actions_16_def engine_actions_17_def append.simps map_append list.map action_id by simp
lemma project_ids: "distinct (map (drop 8) (map act_actionId PROJECT_AUTHZ_ACTIONS))"
  unfolding PROJECT_AUTHZ_ACTIONS_def project_actions_1_def project_actions_2_def project_actions_3_def project_actions_4_def project_actions_5_def project_actions_6_def project_actions_7_def append.simps map_append list.map action_id by simp

lemma platform_family: "list_all (\<lambda>i. take 3 i \<in> {''pla'', ''inv''}) (map act_actionId PLATFORM_AUTHZ_ACTIONS)"
  unfolding PLATFORM_AUTHZ_ACTIONS_def platform_actions_1_def platform_actions_2_def platform_actions_3_def platform_actions_4_def platform_actions_5_def platform_actions_6_def platform_actions_7_def platform_actions_8_def platform_actions_9_def platform_actions_10_def append.simps map_append list.map action_id by simp
lemma tenant_family: "list_all (\<lambda>i. take 3 i \<in> {''ten''}) (map act_actionId TENANT_AUTHZ_ACTIONS)"
  unfolding TENANT_AUTHZ_ACTIONS_def tenant_actions_1_def tenant_actions_2_def append.simps map_append list.map action_id by simp
lemma engine_family: "list_all (\<lambda>i. take 3 i \<in> {''eng'', ''mis''}) (map act_actionId ENGINE_AUTHZ_ACTIONS)"
  unfolding ENGINE_AUTHZ_ACTIONS_def engine_actions_1_def engine_actions_2_def engine_actions_3_def engine_actions_4_def engine_actions_5_def engine_actions_6_def engine_actions_7_def engine_actions_8_def engine_actions_9_def engine_actions_10_def engine_actions_11_def engine_actions_12_def engine_actions_13_def engine_actions_14_def engine_actions_15_def engine_actions_16_def engine_actions_17_def append.simps map_append list.map action_id by simp
lemma project_family: "list_all (\<lambda>i. take 3 i \<in> {''pro'', ''sta''}) (map act_actionId PROJECT_AUTHZ_ACTIONS)"
  unfolding PROJECT_AUTHZ_ACTIONS_def project_actions_1_def project_actions_2_def project_actions_3_def project_actions_4_def project_actions_5_def project_actions_6_def project_actions_7_def append.simps map_append list.map action_id by simp

lemma families_apart:
  "list_all (\<lambda>i. f i \<in> A) xs \<Longrightarrow> list_all (\<lambda>i. f i \<in> B) ys \<Longrightarrow> A \<inter> B = {} \<Longrightarrow> set xs \<inter> set ys = {}"
  by (auto simp: list_all_iff)

lemma action_ids_distinct: "distinct (map act_actionId AUTHZ_ACTIONS)"
proof -
  let ?p = "map act_actionId PLATFORM_AUTHZ_ACTIONS" and ?t = "map act_actionId TENANT_AUTHZ_ACTIONS"
    and ?e = "map act_actionId ENGINE_AUTHZ_ACTIONS" and ?j = "map act_actionId PROJECT_AUTHZ_ACTIONS"
  have each: "distinct ?p" "distinct ?t" "distinct ?e" "distinct ?j"
    using platform_ids tenant_ids engine_ids project_ids by (simp_all only: distinct_map)
  have apart: "set ?p \<inter> set ?t = {}" "set ?p \<inter> set ?e = {}" "set ?p \<inter> set ?j = {}" "set ?t \<inter> set ?e = {}"
      "set ?t \<inter> set ?j = {}" "set ?e \<inter> set ?j = {}"
    by (rule families_apart [OF platform_family tenant_family], simp)
      (rule families_apart [OF platform_family engine_family], simp,
       rule families_apart [OF platform_family project_family], simp,
       rule families_apart [OF tenant_family engine_family], simp,
       rule families_apart [OF tenant_family project_family], simp,
       rule families_apart [OF engine_family project_family], simp)
  have "distinct (?p @ ?t @ ?e @ ?j)"
    unfolding distinct_append set_append using each apart by blast
  then show ?thesis by (simp only: AUTHZ_ACTIONS_def map_append)
qed

section \<open>What the check of the registry finds\<close>

definition repeated :: "'a list \<Rightarrow> 'a set" where
  "repeated xs = {x. 2 \<le> count_list xs x}"

lemma count_pos: "Suc 0 \<le> count_list xs x \<longleftrightarrow> x \<in> set xs"
  by (metis One_nat_def count_list_0_iff less_one not_less)

lemma repeated_Cons: "repeated (x # xs) = (if x \<in> set xs then insert x (repeated xs) else repeated xs)"
  by (auto simp: repeated_def numeral_2_eq_2 count_pos)

lemma repeated_Nil: "repeated [] = {}"
  by (simp add: repeated_def)

lemma repeated_distinct: "repeated xs = {} \<longleftrightarrow> distinct xs"
  by (induction xs) (auto simp: repeated_Nil repeated_Cons)

lemma repeated_in: "x \<in> repeated xs \<Longrightarrow> x \<in> set xs"
  by (induction xs) (auto simp: repeated_Nil repeated_Cons split: if_split_asm)

text \<open>The ids that a loop complains about which has seen some: those it has seen, and the repeated ones.\<close>

definition complained :: "'a list \<Rightarrow> 'a list \<Rightarrow> 'a set" where
  "complained seen xs = set xs \<inter> set seen \<union> repeated xs"

lemma complained_Cons: "complained seen (x # xs) = (if x \<in> set seen then {x} else {}) \<union> complained (x # seen) xs"
  by (auto simp: complained_def repeated_Cons)

lemma resolver_errors_set: "set (resolver_errors seen is) = DuplicateResolver ` complained seen is"
  by (induction "is" arbitrary: seen) (simp_all add: complained_Cons image_Un complained_def [of _ "[]"] repeated_Nil)

definition unusable :: "string list \<Rightarrow> action_definition list \<Rightarrow> action_registry_error set" where
  "unusable resolverIds actions =
     {NoSurface (act_actionId a) | a. a \<in> set actions \<and> act_ui a = []} \<union>
     {UnknownResolver (act_actionId a) v | a m r v. a \<in> set actions \<and> (m, r, v) \<in> set (act_routes a) \<and> v \<notin> set resolverIds}"

lemma action_errors_set: "set (action_errors rs a) = unusable rs [a]"
  by (auto simp: unusable_def action_errors_def image_iff split: if_split_asm) (blast, force)?

lemma unusable_Cons: "unusable rs (a # as) = set (action_errors rs a) \<union> unusable rs as"
  unfolding action_errors_set by (simp add: unusable_def) blast

lemma actions_errors_set:
  "set (actions_errors rs seen as) = DuplicateAction ` complained seen (map act_actionId as) \<union> unusable rs as"
proof (induction as arbitrary: seen)
  case Nil
  show ?case by (simp add: unusable_def complained_def repeated_Nil)
next
  case (Cons a as)
  show ?case
    unfolding actions_errors.simps set_append Cons.IH unusable_Cons list.map complained_Cons image_Un
    by (simp add: Un_ac)
qed

lemma registry_errors_set:
  "set (validateAuthzActionRegistry actions resolvers) =
     DuplicateResolver ` repeated (map fst resolvers) \<union> DuplicateAction ` repeated (map act_actionId actions) \<union>
     unusable (map fst resolvers) actions"
  by (simp add: validateAuthzActionRegistry_def resolver_errors_set actions_errors_set complained_def Un_assoc)

lemma sound_usable: "list_all action_sound as \<Longrightarrow> unusable resolver_ids as = {}"
  by (fastforce simp: unusable_def action_sound_def list_all_iff)

lemma registry_passes: "validateAuthzActionRegistry AUTHZ_ACTIONS AUTHZ_RESOURCE_RESOLVERS = []"
proof -
  have "distinct (map fst AUTHZ_RESOURCE_RESOLVERS)" by (simp add: AUTHZ_RESOURCE_RESOLVERS_def)
  then have "repeated (map fst AUTHZ_RESOURCE_RESOLVERS) = {}" "repeated (map act_actionId AUTHZ_ACTIONS) = {}"
    using action_ids_distinct by (simp_all only: repeated_distinct)
  moreover have "unusable (map fst AUTHZ_RESOURCE_RESOLVERS) AUTHZ_ACTIONS = {}"
    using sound_usable [OF actions_sound] unfolding resolver_ids_def .
  ultimately have "set (validateAuthzActionRegistry AUTHZ_ACTIONS AUTHZ_RESOURCE_RESOLVERS) = {}"
    unfolding registry_errors_set by simp
  then show ?thesis by (simp only: set_empty)
qed

text \<open>So the lookup of an action finds the action with that id, and no other.\<close>

lemma action_found: "a \<in> set AUTHZ_ACTIONS \<Longrightarrow> assertKnownAuthzAction (act_actionId a) = Inr a"
proof -
  assume a: "a \<in> set AUTHZ_ACTIONS"
  have keys: "distinct (map fst (rev (map (\<lambda>a. (act_actionId a, a)) AUTHZ_ACTIONS)))"
    using action_ids_distinct by (simp only: rev_map [symmetric] map_map comp_def fst_conv distinct_rev)
  have "(act_actionId a, a) \<in> set (rev (map (\<lambda>a. (act_actionId a, a)) AUTHZ_ACTIONS))" using a by (simp only: set_rev set_map) blast
  with keys have "map_of (rev (map (\<lambda>a. (act_actionId a, a)) AUTHZ_ACTIONS)) (act_actionId a) = Some a" by (rule map_of_is_SomeI)
  then show ?thesis by (simp only: assertKnownAuthzAction_def getAuthzActionDefinition_def option.case)
qed

end
