(* ===== verification/Action_Decision.thy ===== *)
theory Action_Decision
  imports Policy_Service Action_Contract
begin

text \<open>
  The guard of the routes: \<open>requireAction\<close>, the resolvers of its resources, \<open>evaluateResolvedAuthzAction\<close>
  and \<open>getRuntimeResourceActionDecision\<close> of \<open>shared/src/middleware/requireAction.ts\<close>. A guard takes the request and
  answers what it attaches to the request before the handler runs, or the error that it passes on. The
  tables of the product are read only for what belongs to which project or engine.
\<close>

section \<open>Requests and tables\<close>

datatype id_location = FromParams | FromBody | FromQuery | FromAny

record api_request =
  arq_userId :: "string option"
  arq_mfaVerified :: bool
  arq_tenantId :: "string option"
  arq_engineId :: "string option"
  arq_ip :: "string option"
  arq_userAgent :: "string option"
  arq_params :: jsval
  arq_body :: jsval
  arq_query :: jsval

record action_options =
  aop_resourceResolver :: "string option"
  aop_resourceIdFrom :: "id_location option"
  aop_resourceIdKey :: "string option"
  aop_collectionIdsFrom :: "id_location option"
  aop_collectionIdsKey :: "string option"
  aop_acceptedPermissions :: "string list"
  aop_migrationPermission :: "string option"

text \<open>The product tables: an id and the id of what it belongs to. \<open>pdb_migrating\<close> are the engines whose
  \<open>tenantResolutionStatus\<close> is \<open>migration_required\<close>.\<close>

record product_db =
  pdb_authz :: authz_db
  pdb_policies :: policy_store
  pdb_files :: "(string \<times> string) list"
  pdb_folders :: "(string \<times> string) list"
  pdb_versions :: "(string \<times> string) list"
  pdb_repositories :: "(string \<times> string) list"
  pdb_deployments :: "(string \<times> string) list"
  pdb_locks :: "(string \<times> string) list"
  pdb_filters :: "(string \<times> string) list"
  pdb_migrating :: "string list"

datatype guard_error = Unauthenticated | NoResolver | UnknownResolverId | ResolverNotImplemented | KeyRequired string
  | BadResourceType | NoSuch string | NotInTenant | AccessDenied | PolicyDenied string | ServiceFailed authz_error

text \<open>An error of a service passes through.\<close>

fun lifted :: "authz_error + 'a \<Rightarrow> guard_error + 'a" where
  "lifted (Inl e) = Inl (ServiceFailed e)"
| "lifted (Inr x) = Inr x"

lemma lifted_Inr [simp]: "lifted r = Inr x \<longleftrightarrow> r = Inr x"
  by (cases r) auto

definition request_sources :: "api_request \<Rightarrow> id_location \<Rightarrow> jsval list" where
  "request_sources req loc =
     (case loc of
        FromAny \<Rightarrow> [arq_params req, arq_body req, arq_query req]
      | FromParams \<Rightarrow> [arq_params req] | FromBody \<Rightarrow> [arq_body req] | FromQuery \<Rightarrow> [arq_query req])"

text \<open>\<open>readRequestValue\<close>: the first source with a text, of an array its first element.\<close>

definition source_value :: "string \<Rightarrow> jsval \<Rightarrow> string option" where
  "source_value key source =
     trimmed (case getp source key of JArr (v # vs) \<Rightarrow> as_str v | v \<Rightarrow> as_str v)"

fun first_value :: "('a \<Rightarrow> 'b option) \<Rightarrow> 'a list \<Rightarrow> 'b option" where
  "first_value f [] = None"
| "first_value f (x # xs) = (case f x of None \<Rightarrow> first_value f xs | Some y \<Rightarrow> Some y)"

definition readRequestValue :: "api_request \<Rightarrow> string \<Rightarrow> id_location \<Rightarrow> string option" where
  "readRequestValue req key loc = first_value (source_value key) (request_sources req loc)"

definition listed_parts :: "jsval \<Rightarrow> string list" where
  "listed_parts v = (case v of JStr s \<Rightarrow> filter (\<lambda>p. p \<noteq> []) (map trim (split_on CHR '','' s)) | _ \<Rightarrow> [])"

definition source_values :: "string \<Rightarrow> jsval \<Rightarrow> string list" where
  "source_values key source =
     (case getp source key of JArr vs \<Rightarrow> concat (map listed_parts vs) | v \<Rightarrow> listed_parts v)"

definition readRequestValues :: "api_request \<Rightarrow> string \<Rightarrow> id_location \<Rightarrow> string list" where
  "readRequestValues req key loc = set_of_list (concat (map (source_values key) (request_sources req loc)))"

section \<open>Visibility in the tenant\<close>

definition effectiveProjectTenantId :: "string option \<Rightarrow> string" where
  "effectiveProjectTenantId tenantId =
     (case normalizeTenantIdForPersistence tenantId of None \<Rightarrow> OSS_DEFAULT_TENANT_ID | Some t \<Rightarrow> t)"

definition isProjectTenantVisible :: "string option \<Rightarrow> string option \<Rightarrow> bool" where
  "isProjectTenantVisible rowTenantId tenantId \<longleftrightarrow>
     normalizeTenantIdForPersistence rowTenantId = Some (effectiveProjectTenantId tenantId)"

definition isEngineVisibleInTenant :: "engine_row \<Rightarrow> string option \<Rightarrow> bool" where
  "isEngineVisibleInTenant engine tenantId \<longleftrightarrow>
     (if eng_isShared engine then \<not> truthy_str (eng_tenantId engine)
      else truthy_str (eng_tenantId engine) \<and> the (eng_tenantId engine) \<in> set (tenantIdsForAuthz tenantId))"

text \<open>\<open>req.tenant?.tenantId || null\<close>\<close>

definition request_tenant :: "api_request \<Rightarrow> string option" where
  "request_tenant req = nonempty (arq_tenantId req)"

section \<open>Resources\<close>

text \<open>A resolved resource, what the resolver attaches to the request, and whether it is an engine in quarantine.\<close>

record resolved_resource =
  rsv_type :: resource_type
  rsv_id :: "string option"
  rsv_attached :: "(string \<times> string) list"
  rsv_unowned :: bool

definition resolved :: "resource_type \<Rightarrow> string option \<Rightarrow> (string \<times> string) list \<Rightarrow> resolved_resource" where
  "resolved t i attached = \<lparr>rsv_type = t, rsv_id = i, rsv_attached = attached, rsv_unowned = False\<rparr>"

definition resolverDefinition :: "string \<Rightarrow> guard_error + (string \<times> resource_type \<times> string list)" where
  "resolverDefinition resolverId =
     (case find (\<lambda>r. fst r = resolverId) AUTHZ_RESOURCE_RESOLVERS of None \<Rightarrow> Inl UnknownResolverId | Some r \<Rightarrow> Inr r)"

definition requiredResourceId ::
  "api_request \<Rightarrow> string list \<Rightarrow> action_options \<Rightarrow> guard_error + string" where
  "requiredResourceId req requiredParams options =
     (let key = (if truthy_str (aop_resourceIdKey options) then the (aop_resourceIdKey options) else hd requiredParams)
      in case readRequestValue req key (case aop_resourceIdFrom options of None \<Rightarrow> FromAny | Some l \<Rightarrow> l) of
           None \<Rightarrow> Inl (KeyRequired key)
         | Some i \<Rightarrow> Inr i)"

definition row_of :: "string \<Rightarrow> (string \<times> 'a) list \<Rightarrow> string \<Rightarrow> guard_error + 'a" where
  "row_of name rows i = (case map_of rows i of None \<Rightarrow> Inl (NoSuch name) | Some r \<Rightarrow> Inr r)"

lemma row_of_Inr [simp]: "row_of name rows i = Inr r \<longleftrightarrow> map_of rows i = Some r"
  by (simp add: row_of_def split: option.split)

definition resolveVisibleProjectById :: "product_db \<Rightarrow> string \<Rightarrow> string option \<Rightarrow> guard_error + unit" where
  "resolveVisibleProjectById db projectId tenantId =
     bind_res (row_of ''Project'' (db_projects (pdb_authz db)) projectId)
       (\<lambda>t. throw_if (\<not> isProjectTenantVisible t tenantId) NotInTenant)"

text \<open>The resolvers of \<open>resolveActionResource\<close>, one after the other. Those that go through a row that belongs to a
  project, or to a file of a project, differ in the table and in the names of the attached ids.\<close>

definition resolve_engine :: "product_db \<Rightarrow> api_request \<Rightarrow> action_options \<Rightarrow> string \<Rightarrow> guard_error + resolved_resource" where
  "resolve_engine db req options engineId =
     bind_res (row_of ''Engine'' (db_engines (pdb_authz db)) engineId) (\<lambda>engine.
       let unownedMigration = (\<not> eng_isShared engine \<and> \<not> truthy_str (eng_tenantId engine) \<and> engineId \<in> set (pdb_migrating db) \<and>
             truthy_str (aop_migrationPermission options))
       in if \<not> unownedMigration \<and> \<not> isEngineVisibleInTenant engine (request_tenant req) then Inl NotInTenant
          else Inr \<lparr>rsv_type = EngineResource, rsv_id = Some engineId,
            rsv_attached = (if unownedMigration then [(''unownedEngineMigrationId'', engineId)] else []) @ [(''engineId'', engineId)],
            rsv_unowned = unownedMigration\<rparr>)"

definition resolve_saved_filter :: "product_db \<Rightarrow> api_request \<Rightarrow> string \<Rightarrow> guard_error + resolved_resource" where
  "resolve_saved_filter db req savedFilterId =
     bind_res (row_of ''Saved filter'' (pdb_filters db) savedFilterId) (\<lambda>engineId.
     bind_res (row_of ''Engine'' (db_engines (pdb_authz db)) engineId) (\<lambda>engine.
       if \<not> isEngineVisibleInTenant engine (request_tenant req) then Inl NotInTenant
       else Inr (resolved EngineResource (Some engineId) [(''savedFilterId'', savedFilterId), (''engineId'', engineId)])))"

definition resolve_in_project ::
  "product_db \<Rightarrow> api_request \<Rightarrow> (string \<times> string) list \<Rightarrow> string \<Rightarrow> guard_error + resolved_resource" where
  "resolve_in_project db req attached projectId =
     bind_res (resolveVisibleProjectById db projectId (request_tenant req))
       (\<lambda>_. Inr (resolved ProjectResource (Some projectId) (attached @ [(''projectId'', projectId)])))"

definition resolve_of_project ::
  "product_db \<Rightarrow> api_request \<Rightarrow> string \<Rightarrow> (string \<times> string) list \<Rightarrow> string \<Rightarrow> string \<Rightarrow> guard_error + resolved_resource" where
  "resolve_of_project db req name rows key i =
     bind_res (row_of name rows i) (resolve_in_project db req [(key, i)])"

definition resolve_of_file ::
  "product_db \<Rightarrow> api_request \<Rightarrow> string \<Rightarrow> (string \<times> string) list \<Rightarrow> string \<Rightarrow> string \<Rightarrow> guard_error + resolved_resource" where
  "resolve_of_file db req name rows key i =
     bind_res (row_of name rows i) (\<lambda>fileId.
     bind_res (row_of ''File'' (pdb_files db) fileId) (resolve_in_project db req [(key, i), (''fileId'', fileId)]))"

definition resolveActionResource ::
  "product_db \<Rightarrow> api_request \<Rightarrow> string \<Rightarrow> action_options \<Rightarrow> guard_error + resolved_resource" where
  "resolveActionResource db req resolverId options =
     bind_res (resolverDefinition resolverId) (\<lambda>(rid, rt, requiredParams).
       let with_id = bind_res (requiredResourceId req requiredParams options)
       in if rid = ''platform.self'' then Inr (resolved PlatformResource None [])
          else if rid = ''tenant.fromContext''
          then (if \<not> truthy_str (arq_tenantId req) then Inl (NoSuch ''Tenant'') else Inr (resolved TenantResource (arq_tenantId req) []))
          else if rid = ''engine.byId'' then with_id (resolve_engine db req options)
          else if rid = ''engine.bySavedFilterId'' then with_id (resolve_saved_filter db req)
          else if rid = ''project.byId'' then with_id (resolve_in_project db req [])
          else if rid = ''project.byFileId'' then with_id (resolve_of_project db req ''File'' (pdb_files db) ''fileId'')
          else if rid = ''project.byFolderId'' then with_id (resolve_of_project db req ''Folder'' (pdb_folders db) ''folderId'')
          else if rid = ''project.byVersionId'' then with_id (resolve_of_file db req ''Version'' (pdb_versions db) ''versionId'')
          else if rid = ''project.byGitRepositoryId''
          then with_id (resolve_of_project db req ''Repository'' (pdb_repositories db) ''repositoryId'')
          else if rid = ''project.byGitDeploymentId''
          then with_id (resolve_of_project db req ''Deployment'' (pdb_deployments db) ''deploymentId'')
          else if rid = ''project.byGitLockId'' then with_id (resolve_of_file db req ''Lock'' (pdb_locks db) ''lockId'')
          else Inl ResolverNotImplemented)"

section \<open>Collections\<close>

record resolved_collection =
  rcl_type :: resource_type
  rcl_ids :: "string list"
  rcl_requestedIds :: "string list"
  rcl_deniedIds :: "string list"

definition permitted ::
  "product_db \<Rightarrow> int \<Rightarrow> string \<Rightarrow> permission_context \<Rightarrow> guard_error + bool" where
  "permitted db now permission ctx = lifted (hasPermission (pdb_authz db) now permission ctx)"

definition collection_of ::
  "resource_type \<Rightarrow> (string \<Rightarrow> bool) \<Rightarrow> string list \<Rightarrow> string list \<Rightarrow> resolved_collection" where
  "collection_of rt existing requestedIds allowedIds =
     \<lparr>rcl_type = rt, rcl_ids = filter (\<lambda>i. i \<in> set allowedIds) requestedIds, rcl_requestedIds = requestedIds,
      rcl_deniedIds = filter (\<lambda>i. existing i \<and> i \<notin> set allowedIds) requestedIds\<rparr>"

definition requested_ids :: "api_request \<Rightarrow> action_options \<Rightarrow> string \<Rightarrow> string list" where
  "requested_ids req options key = readRequestValues req
     (if truthy_str (aop_collectionIdsKey options) then the (aop_collectionIdsKey options) else key)
     (case aop_collectionIdsFrom options of None \<Rightarrow> FromQuery | Some l \<Rightarrow> l)"

definition project_candidates :: "product_db \<Rightarrow> int \<Rightarrow> string \<Rightarrow> string \<Rightarrow> string \<Rightarrow> guard_error + string list" where
  "project_candidates db now permission userId tenant =
     bind_res (permitted db now permission (user_context userId (Some tenant) ProjectResource None)) (\<lambda>wide.
       Inr (if wide
         then sort (map fst (filter (\<lambda>(i, t). t \<noteq> None \<and> the t \<in> set (tenantIdsForAuthz (Some tenant)) \<and>
           isProjectTenantVisible t (Some tenant)) (db_projects (pdb_authz db))))
         else getKnownProjectIds (pdb_authz db) now userId (Some tenant)))"

definition resolveProjectVisibleCollection ::
  "product_db \<Rightarrow> int \<Rightarrow> api_request \<Rightarrow> string \<Rightarrow> string \<Rightarrow> action_options \<Rightarrow> guard_error + resolved_collection" where
  "resolveProjectVisibleCollection db now req userId permission options =
     (let tenant = effectiveProjectTenantId (arq_tenantId req); rows = db_projects (pdb_authz db);
          given = requested_ids req options ''projectIds''
      in bind_res (if given = [] then project_candidates db now permission userId tenant else Inr given) (\<lambda>requestedIds.
         bind_res (filter_res (\<lambda>i. permitted db now permission (user_context userId (Some tenant) ProjectResource (Some i)))
             (filter (\<lambda>i. case map_of rows i of None \<Rightarrow> False | Some t \<Rightarrow> isProjectTenantVisible t (arq_tenantId req)) requestedIds))
           (\<lambda>allowedIds. Inr (collection_of ProjectResource (\<lambda>i. map_of rows i \<noteq> None) requestedIds allowedIds))))"

definition engine_candidates :: "product_db \<Rightarrow> int \<Rightarrow> string \<Rightarrow> string \<Rightarrow> string option \<Rightarrow> guard_error + string list" where
  "engine_candidates db now permission userId tenantId =
     bind_res (permitted db now permission (user_context userId tenantId EngineResource None)) (\<lambda>wide.
       Inr (if wide
         then sort (map fst (filter (\<lambda>(i, e). (eng_tenantId e \<noteq> None \<and> the (eng_tenantId e) \<in> set (tenantIdsForAuthz tenantId)) \<or>
           (eng_tenantId e = None \<and> eng_isShared e)) (db_engines (pdb_authz db))))
         else getKnownEngineIds (pdb_authz db) now userId tenantId))"

text \<open>Resources of the engine that the caller may see, of either kind; a failure of either query counts as none.\<close>

definition runtime_visible :: "product_db \<Rightarrow> int \<Rightarrow> string \<Rightarrow> string option \<Rightarrow> string \<Rightarrow> bool" where
  "runtime_visible db now userId tenantId engineId =
     (let query = (\<lambda>kind. getVisibleRuntimeResources (pdb_authz db) now
        \<lparr>rqy_userId = userId, rqy_tenantId = tenantId, rqy_engineId = engineId, rqy_resourceKind = kind,
         rqy_permission = ''engine:instance:view'', rqy_limit = Some 5000\<rparr>)
      in case (query ''process_definition'', query ''decision_definition'') of
           (Inr ps, Inr ds) \<Rightarrow> ps \<noteq> [] \<or> ds \<noteq> []
         | _ \<Rightarrow> False)"

definition engine_listed ::
  "product_db \<Rightarrow> int \<Rightarrow> string \<Rightarrow> string option \<Rightarrow> string \<Rightarrow> bool \<Rightarrow> string \<Rightarrow> engine_row \<Rightarrow> guard_error + bool" where
  "engine_listed db now userId tenantId permission includeManageableShared engineId engine =
     (let ctx = user_context userId tenantId EngineResource (Some engineId)
      in bind_res (permitted db now permission ctx) (\<lambda>allowed.
         if allowed \<and> \<not> eng_isShared engine then Inr True
         else bind_res (if eng_isShared engine \<and> includeManageableShared then permitted db now ''engine:edit'' ctx else Inr False)
           (\<lambda>manageable. Inr (manageable \<or>
              (eng_isResourceAware engine \<and> runtime_visible db now userId tenantId engineId)))))"

definition resolveEngineVisibleCollection ::
  "product_db \<Rightarrow> int \<Rightarrow> api_request \<Rightarrow> string \<Rightarrow> string \<Rightarrow> action_options \<Rightarrow> guard_error + resolved_collection" where
  "resolveEngineVisibleCollection db now req userId permission options =
     (let tenantId = request_tenant req; rows = db_engines (pdb_authz db);
          includeManageableShared = (getp (arq_query req) ''includeManageableShared'' = JStr ''true'');
          given = requested_ids req options ''engineIds''
      in bind_res (if given = [] then engine_candidates db now permission userId tenantId else Inr given) (\<lambda>requestedIds.
         bind_res (filter_res (\<lambda>i. engine_listed db now userId tenantId permission includeManageableShared i (the (map_of rows i)))
             (filter (\<lambda>i. case map_of rows i of None \<Rightarrow> False | Some e \<Rightarrow> isEngineVisibleInTenant e tenantId) requestedIds))
           (\<lambda>allowedIds. Inr (collection_of EngineResource (\<lambda>i. map_of rows i \<noteq> None) requestedIds allowedIds))))"

section \<open>The guard\<close>

record granted_action =
  gra_action :: action_definition
  gra_resource :: resolved_resource
  gra_collection :: "resolved_collection option"
  gra_context :: "permission_context option"

definition routeResolver :: "action_definition \<Rightarrow> action_options \<Rightarrow> guard_error + string" where
  "routeResolver act options =
     (if truthy_str (aop_resourceResolver options) then Inr (the (aop_resourceResolver options))
      else case act_routes act of
        [] \<Rightarrow> Inl NoResolver
      | (m, r, v) # rs \<Rightarrow> if v = [] then Inl NoResolver else Inr v)"

text \<open>What the gate learns of the request besides the caller and the resource.\<close>

definition request_context :: "api_request \<Rightarrow> permission_context \<Rightarrow> evaluation_context" where
  "request_context req ctx =
     \<lparr>ecx_permission = ctx, ecx_ipAddress = arq_ip req, ecx_userAgent = arq_userAgent req, ecx_timestamp = None,
      ecx_userAttributes = (\<lambda>k. None), ecx_resourceAttributes = (\<lambda>k. None), ecx_mfaVerified = Some (arq_mfaVerified req)\<rparr>"

definition pass_gate :: "calendar \<Rightarrow> product_db \<Rightarrow> int \<Rightarrow> string \<Rightarrow> evaluation_context \<Rightarrow> guard_error + unit" where
  "pass_gate cal db now permission ctx =
     bind_res (lifted (evaluateGate cal (pdb_policies db) now permission ctx))
       (\<lambda>policy. throw_if (evr_decision policy = ''deny'') (PolicyDenied (evr_reason policy)))"

definition guard_collection ::
  "calendar \<Rightarrow> product_db \<Rightarrow> int \<Rightarrow> api_request \<Rightarrow> string \<Rightarrow> action_definition \<Rightarrow> resource_type \<Rightarrow> string option \<Rightarrow>
     guard_error + resolved_collection \<Rightarrow> guard_error + granted_action" where
  "guard_collection cal db now req userId act rt tenantId resolution =
     bind_res resolution (\<lambda>collection.
     bind_res (pass_gate cal db now (act_permissionId act) (request_context req (user_context userId tenantId rt None))) (\<lambda>_.
       Inr \<lparr>gra_action = act, gra_resource = resolved rt None [], gra_collection = Some collection, gra_context = None\<rparr>))"

text \<open>The permission that lets the caller in and the context it was checked in.\<close>

definition entry_permission ::
  "product_db \<Rightarrow> int \<Rightarrow> api_request \<Rightarrow> string \<Rightarrow> action_definition \<Rightarrow> action_options \<Rightarrow> resolved_resource \<Rightarrow> permission_context \<Rightarrow>
     guard_error + (string \<times> permission_context)" where
  "entry_permission db now req userId act options resource ctx =
     (let accepted = (if aop_acceptedPermissions options \<noteq> [] then aop_acceptedPermissions options else [act_permissionId act]);
          platform = user_context userId (request_tenant req) PlatformResource None
      in bind_res (map_res (\<lambda>p. permitted db now p ctx) accepted) (\<lambda>held.
         if True \<in> set held then Inr (act_permissionId act, ctx)
         else if rsv_unowned resource \<and> truthy_str (aop_migrationPermission options)
         then bind_res (permitted db now (the (aop_migrationPermission options)) platform) (\<lambda>allowed.
           if allowed then Inr (the (aop_migrationPermission options), platform) else Inl AccessDenied)
         else Inl AccessDenied))"

definition resource_context :: "api_request \<Rightarrow> string \<Rightarrow> resolved_resource \<Rightarrow> permission_context" where
  "resource_context req userId resource = user_context userId
     (if rsv_type resource = ProjectResource then Some (effectiveProjectTenantId (arq_tenantId req)) else request_tenant req)
     (rsv_type resource) (nonempty (rsv_id resource))"

definition guard_resource ::
  "calendar \<Rightarrow> product_db \<Rightarrow> int \<Rightarrow> api_request \<Rightarrow> string \<Rightarrow> action_definition \<Rightarrow> action_options \<Rightarrow> string \<Rightarrow>
     guard_error + granted_action" where
  "guard_resource cal db now req userId act options resolverId =
     bind_res (resolveActionResource db req resolverId options) (\<lambda>resource.
     let ctx = resource_context req userId resource
     in bind_res (entry_permission db now req userId act options resource ctx) (\<lambda>(permission, pctx).
        bind_res (pass_gate cal db now permission (request_context req pctx)) (\<lambda>_.
          Inr \<lparr>gra_action = act, gra_resource = resource, gra_collection = None, gra_context = Some ctx\<rparr>)))"

definition requireAction ::
  "calendar \<Rightarrow> product_db \<Rightarrow> int \<Rightarrow> string \<Rightarrow> action_options \<Rightarrow> api_request \<Rightarrow> guard_error + granted_action" where
  "requireAction cal db now actionId options req =
     (case arq_userId req of
        None \<Rightarrow> Inl Unauthenticated
      | Some userId \<Rightarrow>
          bind_res (lifted (assertKnownAuthzAction actionId)) (\<lambda>act.
          bind_res (routeResolver act options) (\<lambda>resolverId.
            if resolverId = ''project.visibleCollection''
            then guard_collection cal db now req userId act ProjectResource (Some (effectiveProjectTenantId (arq_tenantId req)))
              (resolveProjectVisibleCollection db now req userId (act_permissionId act) options)
            else if resolverId = ''engine.visibleCollection''
            then guard_collection cal db now req userId act EngineResource (request_tenant req)
              (resolveEngineVisibleCollection db now req userId (act_permissionId act) options)
            else guard_resource cal db now req userId act options resolverId)))"

section \<open>Decisions without a request\<close>

text \<open>\<open>evaluateResolvedAuthzAction\<close>: every error is a refusal. The gate sees the caller and the resource only.\<close>

definition bare_context :: "permission_context \<Rightarrow> evaluation_context" where
  "bare_context ctx =
     \<lparr>ecx_permission = ctx, ecx_ipAddress = None, ecx_userAgent = None, ecx_timestamp = None,
      ecx_userAttributes = (\<lambda>k. None), ecx_resourceAttributes = (\<lambda>k. None), ecx_mfaVerified = None\<rparr>"

definition resolved_decision ::
  "calendar \<Rightarrow> product_db \<Rightarrow> int \<Rightarrow> string \<Rightarrow> string \<Rightarrow> string option \<Rightarrow> resource_type \<Rightarrow> string option \<Rightarrow> guard_error + unit" where
  "resolved_decision cal db now actionId userId tenantId rt i =
     bind_res (lifted (assertKnownAuthzAction actionId)) (\<lambda>act.
       let ctx = user_context userId
             (if rt = ProjectResource then Some (effectiveProjectTenantId tenantId) else nonempty tenantId) rt (nonempty i)
       in if act_resourceType act \<noteq> rt then Inl AccessDenied
          else bind_res (permitted db now (act_permissionId act) ctx) (\<lambda>held.
            if \<not> held then Inl AccessDenied else pass_gate cal db now (act_permissionId act) (bare_context ctx)))"

definition evaluateResolvedAuthzAction ::
  "calendar \<Rightarrow> product_db \<Rightarrow> int \<Rightarrow> string \<Rightarrow> string \<Rightarrow> string option \<Rightarrow> resource_type \<Rightarrow> string option \<Rightarrow> bool" where
  "evaluateResolvedAuthzAction cal db now actionId userId tenantId rt i =
     (case resolved_decision cal db now actionId userId tenantId rt i of Inl e \<Rightarrow> False | Inr u \<Rightarrow> True)"

text \<open>\<open>getRuntimeResourceActionDecision\<close>\<close>

definition runtime_row_id :: "product_db \<Rightarrow> string \<Rightarrow> string \<Rightarrow> string option \<Rightarrow> string \<Rightarrow> string option" where
  "runtime_row_id db engineId resourceKind tenantId resourceKey =
     (case find (\<lambda>(i, r). rtm_engineId r = engineId \<and> rtm_resourceKind r = resourceKind \<and> rtm_resourceKey r = resourceKey \<and>
         rtm_isActive r) (db_runtimeResources (pdb_authz db)) of
        None \<Rightarrow> None
      | Some (i, r) \<Rightarrow> if isTenantVisibleForAuthz (rtm_tenantId r) tenantId then Some i else None)"

definition getRuntimeResourceActionDecision ::
  "product_db \<Rightarrow> int \<Rightarrow> string \<Rightarrow> string \<Rightarrow> string option \<Rightarrow> string \<Rightarrow> string \<Rightarrow> string list \<Rightarrow> bool" where
  "getRuntimeResourceActionDecision db now actionId userId tenantId engineId resourceKind resourceKeys =
     (case assertKnownAuthzAction actionId of
        Inl e \<Rightarrow> False
      | Inr act \<Rightarrow>
          let holds = (\<lambda>rt i. hasPermission (pdb_authz db) now (act_permissionId act) (user_context userId tenantId rt (Some i)));
              keys = set_of_list (filter (\<lambda>k. k \<noteq> []) resourceKeys);
              ids = map (runtime_row_id db engineId resourceKind tenantId) keys
          in case holds EngineResource engineId of
               Inl e \<Rightarrow> False
             | Inr True \<Rightarrow> True
             | Inr False \<Rightarrow> keys \<noteq> [] \<and> None \<notin> set ids \<and> list_all (\<lambda>i. holds RuntimeResource (the i) = Inr True) ids)"

section \<open>Invitations and runtime collections\<close>

text \<open>\<open>requireInvitationCreateAction\<close>: the resource, the target and the permissions of which one is needed.\<close>

record invitation_target =
  ivt_resourceType :: string
  ivt_resourceId :: "string option"
  ivt_requiredPermissions :: "string list"

definition body_text :: "api_request \<Rightarrow> string \<Rightarrow> string" where
  "body_text req key = (case getp (arq_body req) key of JStr s \<Rightarrow> trim s | _ \<Rightarrow> [])"

definition resolveInvitationTarget ::
  "product_db \<Rightarrow> api_request \<Rightarrow> string \<Rightarrow> guard_error + (resolved_resource \<times> invitation_target \<times> permission_context)" where
  "resolveInvitationTarget db req userId =
     (let resourceType = body_text req ''resourceType''; resourceId = body_text req ''resourceId'';
          target = (\<lambda>i ps. \<lparr>ivt_resourceType = resourceType, ivt_resourceId = i, ivt_requiredPermissions = ps\<rparr>)
      in if resourceType \<notin> {''tenant'', ''project'', ''engine''} then Inl BadResourceType
         else if resourceType = ''tenant''
         then Inr (resolved PlatformResource None [], target None [''platform:user:manage'', ''platform:users:create''],
           user_context userId (request_tenant req) PlatformResource None)
         else if resourceId = [] then Inl (KeyRequired ''Resource ID'')
         else if resourceType = ''project''
         then bind_res (resolveVisibleProjectById db resourceId (request_tenant req)) (\<lambda>_.
           Inr (resolved ProjectResource (Some resourceId) [], target (Some resourceId) [''project:members:manage''],
             user_context userId (Some (effectiveProjectTenantId (arq_tenantId req))) ProjectResource (Some resourceId)))
         else bind_res (row_of ''Engine'' (db_engines (pdb_authz db)) resourceId) (\<lambda>engine.
           if \<not> isEngineVisibleInTenant engine (request_tenant req) then Inl NotInTenant
           else Inr (resolved EngineResource (Some resourceId) [], target (Some resourceId) [''engine:members:manage''],
             user_context userId (request_tenant req) EngineResource (Some resourceId))))"

definition requireInvitationCreateAction ::
  "product_db \<Rightarrow> int \<Rightarrow> string \<Rightarrow> api_request \<Rightarrow> guard_error + (granted_action \<times> invitation_target)" where
  "requireInvitationCreateAction db now actionId req =
     (case arq_userId req of
        None \<Rightarrow> Inl Unauthenticated
      | Some userId \<Rightarrow>
          bind_res (lifted (assertKnownAuthzAction actionId)) (\<lambda>act.
          bind_res (resolveInvitationTarget db req userId) (\<lambda>(resource, target, ctx).
          bind_res (map_res (\<lambda>p. permitted db now p ctx) (ivt_requiredPermissions target)) (\<lambda>held.
            if True \<notin> set held then Inl AccessDenied
            else Inr (\<lparr>gra_action = act, gra_resource = resource, gra_collection = None, gra_context = Some ctx\<rparr>, target)))))"

text \<open>\<open>requireRuntimeCollectionAction\<close>: the resources of the engine that the handler may show, or \<open>None\<close> for all.\<close>

record runtime_options =
  rop_resourceKind :: string
  rop_engineIdFrom :: "id_location option"
  rop_engineIdKey :: "string option"

definition requiresResolvedRuntimeResourceGuard :: "engine_row \<Rightarrow> bool \<Rightarrow> bool" where
  "requiresResolvedRuntimeResourceGuard engine hasBroadPermission \<longleftrightarrow>
     eng_isShared engine \<or> (\<not> hasBroadPermission \<and> eng_isResourceAware engine)"

definition visible_rows ::
  "product_db \<Rightarrow> int \<Rightarrow> string \<Rightarrow> string option \<Rightarrow> string \<Rightarrow> string \<Rightarrow> string \<Rightarrow> guard_error + (string \<times> runtime_row) list" where
  "visible_rows db now userId tenantId engineId kind permission = lifted (getVisibleRuntimeResources (pdb_authz db) now
     \<lparr>rqy_userId = userId, rqy_tenantId = tenantId, rqy_engineId = engineId, rqy_resourceKind = kind,
      rqy_permission = permission, rqy_limit = None\<rparr>)"

record runtime_grant =
  rgr_action :: action_definition
  rgr_engineId :: string
  rgr_rows :: "(string \<times> runtime_row) list option"
  rgr_resourceAware :: bool

definition requireRuntimeCollectionAction ::
  "product_db \<Rightarrow> int \<Rightarrow> string \<Rightarrow> runtime_options \<Rightarrow> api_request \<Rightarrow> guard_error + runtime_grant" where
  "requireRuntimeCollectionAction db now actionId options req =
     (case arq_userId req of
        None \<Rightarrow> Inl Unauthenticated
      | Some userId \<Rightarrow>
          bind_res (lifted (assertKnownAuthzAction actionId)) (\<lambda>act.
          let given = readRequestValue req (if truthy_str (rop_engineIdKey options) then the (rop_engineIdKey options) else ''engineId'')
                (case rop_engineIdFrom options of None \<Rightarrow> FromQuery | Some l \<Rightarrow> l)
          in case (case given of None \<Rightarrow> nonempty (arq_engineId req) | Some i \<Rightarrow> Some i) of
               None \<Rightarrow> Inl (KeyRequired ''engineId'')
             | Some engineId \<Rightarrow>
                 (case find_row (\<lambda>e. isEngineVisibleInTenant e (request_tenant req)) (db_engines (pdb_authz db)) engineId of
                    None \<Rightarrow> Inl (NoSuch ''Engine'')
                  | Some engine \<Rightarrow>
                      bind_res (permitted db now (act_permissionId act)
                          (user_context userId (request_tenant req) EngineResource (Some engineId))) (\<lambda>broad.
                        if requiresResolvedRuntimeResourceGuard engine broad
                        then bind_res (visible_rows db now userId (request_tenant req) engineId (rop_resourceKind options)
                            (act_permissionId act)) (\<lambda>rows.
                          if rows = [] then Inl AccessDenied else Inr \<lparr>rgr_action = act, rgr_engineId = engineId, rgr_rows = Some rows, rgr_resourceAware = eng_isResourceAware engine\<rparr>)
                        else if \<not> broad then Inl AccessDenied
                        else Inr \<lparr>rgr_action = act, rgr_engineId = engineId, rgr_rows = None, rgr_resourceAware = eng_isResourceAware engine\<rparr>))))"

end
