(* ===== verification/Guard_Contract.thy ===== *)
theory Guard_Contract
  imports Action_Decision
begin

text \<open>
  What a passed guard means: the resource is visible in the tenant of the request, or it is an engine in quarantine that
  the options admit; the caller has access to it in the sense of \<open>has_access\<close>, or holds the migration permission; and no
  policy refuses. The decisions without a request agree with the guard where the request tells the gate nothing more,
  the route accepts the permission of the action only, and the engine is not in quarantine.
\<close>

section \<open>Permissions as access\<close>

lemma caller_principal: "u \<noteq> [] \<Longrightarrow> resolvePermissionPrincipal (user_context u t rt i) = Inr (UserPrincipal, u)"
  by (simp add: resolvePermissionPrincipal_def user_context_def)

lemma permitted_caller: "permitted db now p (user_context u t rt i) = Inr b \<Longrightarrow> u \<noteq> []"
  by (auto simp: permitted_def hasPermission_def evaluatePermission_def resolvePermissionPrincipal_def user_context_def)

lemma evaluation_total: "resolvePermissionPrincipal ctx = Inr who \<Longrightarrow> \<exists>e. evaluatePermission db now p ctx = Inr e"
  by (simp add: evaluatePermission_def Let_def split: option.split)

lemma hasPermission_access:
  assumes "u \<noteq> []" and "i \<noteq> []"
  shows "hasPermission db now p (user_context u t rt (Some i)) = Inr (has_access db now t (UserPrincipal, u) p (rt, i))"
proof -
  let ?ctx = "user_context u t rt (Some i)"
  have who: "resolvePermissionPrincipal ?ctx = Inr (UserPrincipal, u)" by (rule caller_principal [OF assms(1)])
  then obtain e where e: "evaluatePermission db now p ?ctx = Inr e" using evaluation_total by blast
  have "pev_allowed e \<longleftrightarrow> has_access db now (pcx_tenantId ?ctx) (UserPrincipal, u) p (rt, i)"
    by (rule evaluation_access(1) [OF who _ _ assms(2) e]) (simp_all add: user_context_def)
  then show ?thesis unfolding hasPermission_def e by (simp add: user_context_def)
qed

lemma permitted_access:
  "permitted db now p (user_context u t rt (Some i)) = Inr b \<Longrightarrow> i \<noteq> [] \<Longrightarrow>
     b \<longleftrightarrow> has_access (pdb_authz db) now t (UserPrincipal, u) p (rt, i)"
  using permitted_caller [of db now p u t rt "Some i" b] by (auto simp: permitted_def hasPermission_access)

lemma permitted_True:
  "u \<noteq> [] \<Longrightarrow> i \<noteq> [] \<Longrightarrow> permitted db now p (user_context u t rt (Some i)) = Inr True \<longleftrightarrow>
     has_access (pdb_authz db) now t (UserPrincipal, u) p (rt, i)"
  by (simp add: permitted_def hasPermission_access)

section \<open>Actions and requests\<close>

lemma known_action: "assertKnownAuthzAction i = Inr a \<Longrightarrow> a \<in> set AUTHZ_ACTIONS \<and> act_actionId a = i"
  by (auto simp: assertKnownAuthzAction_def getAuthzActionDefinition_def dest!: map_of_SomeD split: option.splits)

lemma trimmed_nonempty [simp]: "trimmed t \<noteq> Some []"
  by (auto simp: trimmed_def split: option.splits if_splits)

lemma first_value_Some: "first_value f xs = Some y \<Longrightarrow> \<exists>x \<in> set xs. f x = Some y"
  by (induction xs) (auto split: option.splits)

lemma read_nonempty: "readRequestValue req key loc = Some v \<Longrightarrow> v \<noteq> []"
  by (auto simp: readRequestValue_def source_value_def dest!: first_value_Some)

lemma required_nonempty: "requiredResourceId req ps options = Inr i \<Longrightarrow> i \<noteq> []"
  by (auto simp: requiredResourceId_def Let_def dest: read_nonempty split: option.splits)

lemma listed_nonempty: "i \<in> set (listed_parts v) \<Longrightarrow> i \<noteq> []"
  by (cases v) (auto simp: listed_parts_def)

lemma source_values_nonempty: "i \<in> set (source_values key source) \<Longrightarrow> i \<noteq> []"
  by (cases "getp source key") (auto simp: source_values_def dest: listed_nonempty)

lemma read_values_nonempty: "i \<in> set (readRequestValues req key loc) \<Longrightarrow> i \<noteq> []"
  by (auto simp: readRequestValues_def dest: source_values_nonempty)

section \<open>Visible resources\<close>

text \<open>An engine that waits for its tenant and that the options admit.\<close>

definition quarantined :: "product_db \<Rightarrow> action_options \<Rightarrow> string \<Rightarrow> bool" where
  "quarantined db options i \<longleftrightarrow> i \<in> set (pdb_migrating db) \<and> truthy_str (aop_migrationPermission options) \<and>
     (\<exists>e. map_of (db_engines (pdb_authz db)) i = Some e \<and> \<not> eng_isShared e \<and> \<not> truthy_str (eng_tenantId e))"

definition visible_project :: "product_db \<Rightarrow> string option \<Rightarrow> string \<Rightarrow> bool" where
  "visible_project db tenantId i \<longleftrightarrow>
     (\<exists>t. map_of (db_projects (pdb_authz db)) i = Some t \<and> isProjectTenantVisible t tenantId)"

definition visible_engine :: "product_db \<Rightarrow> string option \<Rightarrow> string \<Rightarrow> bool" where
  "visible_engine db tenantId i \<longleftrightarrow>
     (\<exists>e. map_of (db_engines (pdb_authz db)) i = Some e \<and> isEngineVisibleInTenant e tenantId)"

definition visible_resource :: "product_db \<Rightarrow> api_request \<Rightarrow> resource_type \<times> string option \<Rightarrow> bool" where
  "visible_resource db req res \<longleftrightarrow>
     (case res of
        (PlatformResource, i) \<Rightarrow> i = None
      | (TenantResource, i) \<Rightarrow> truthy_str i \<and> i = arq_tenantId req
      | (ProjectResource, Some i) \<Rightarrow> i \<noteq> [] \<and> visible_project db (arq_tenantId req) i
      | (EngineResource, Some i) \<Rightarrow> i \<noteq> [] \<and> visible_engine db (request_tenant req) i
      | _ \<Rightarrow> False)"

text \<open>An engine in quarantine has no tenant: no tenant sees it.\<close>

lemma quarantine_invisible: "quarantined db options i \<Longrightarrow> \<not> visible_resource db req (EngineResource, Some i)"
  by (auto simp: quarantined_def visible_resource_def visible_engine_def isEngineVisibleInTenant_def)

lemma effective_nonempty [simp]: "effectiveProjectTenantId (nonempty t) = effectiveProjectTenantId t"
  by (cases t) (auto simp: effectiveProjectTenantId_def nonempty_def normalizeTenantIdForPersistence_def trimmed_def trim_def)

lemma project_visible_nonempty [simp]: "isProjectTenantVisible row (nonempty t) = isProjectTenantVisible row t"
  by (simp add: isProjectTenantVisible_def)

text \<open>Rows belong to something: the ids in the tables are no empty texts.\<close>

definition linked :: "(string \<times> string) list \<Rightarrow> bool" where
  "linked rows \<longleftrightarrow> list_all (\<lambda>(k, i). i \<noteq> []) rows"

definition links_nonempty :: "product_db \<Rightarrow> bool" where
  "links_nonempty db \<longleftrightarrow> list_all linked [pdb_files db, pdb_folders db, pdb_versions db, pdb_repositories db,
     pdb_deployments db, pdb_locks db, pdb_filters db]"

lemma linked_row: "linked rows \<Longrightarrow> map_of rows k = Some i \<Longrightarrow> i \<noteq> []"
  by (auto simp: linked_def list_all_iff dest: map_of_SomeD)

text \<open>What every resolver answers.\<close>

definition good_resource :: "product_db \<Rightarrow> api_request \<Rightarrow> action_options \<Rightarrow> resolved_resource \<Rightarrow> bool" where
  "good_resource db req options r \<longleftrightarrow>
     (if rsv_unowned r then rsv_type r = EngineResource \<and> (\<exists>i. rsv_id r = Some i \<and> i \<noteq> [] \<and> quarantined db options i)
      else visible_resource db req (rsv_type r, rsv_id r))"

lemma good_platform: "good_resource db req options (resolved PlatformResource None [])"
  by (simp add: good_resource_def visible_resource_def resolved_def)

lemma good_tenant: "truthy_str (arq_tenantId req) \<Longrightarrow> good_resource db req options (resolved TenantResource (arq_tenantId req) [])"
  by (simp add: good_resource_def visible_resource_def resolved_def)

lemma in_project_good: "resolve_in_project db req attached i = Inr r \<Longrightarrow> i \<noteq> [] \<Longrightarrow> good_resource db req options r"
  by (auto simp: resolve_in_project_def resolveVisibleProjectById_def request_tenant_def good_resource_def visible_resource_def
      visible_project_def resolved_def)

lemma of_project_good: "resolve_of_project db req name rows key k = Inr r \<Longrightarrow> linked rows \<Longrightarrow> good_resource db req options r"
  using in_project_good linked_row unfolding resolve_of_project_def bind_res_Inr row_of_Inr by blast

lemma of_file_good: "resolve_of_file db req name rows key k = Inr r \<Longrightarrow> linked (pdb_files db) \<Longrightarrow> good_resource db req options r"
  using in_project_good linked_row unfolding resolve_of_file_def bind_res_Inr row_of_Inr by blast

lemma engine_good: "resolve_engine db req options i = Inr r \<Longrightarrow> i \<noteq> [] \<Longrightarrow> good_resource db req options r"
  by (auto simp: resolve_engine_def Let_def good_resource_def visible_resource_def visible_engine_def quarantined_def split: if_splits)

lemma filter_good: "resolve_saved_filter db req k = Inr r \<Longrightarrow> linked (pdb_filters db) \<Longrightarrow> good_resource db req options r"
  by (auto simp: resolve_saved_filter_def good_resource_def visible_resource_def visible_engine_def resolved_def dest!: linked_row
      split: if_splits)

lemmas resolvers_good = good_platform good_tenant in_project_good of_project_good of_file_good engine_good filter_good

lemma action_resource_good:
  assumes "resolveActionResource db req resolverId options = Inr r" and "links_nonempty db"
  shows "good_resource db req options r"
proof -
  from assms(2) have l: "linked (pdb_files db)" "linked (pdb_folders db)" "linked (pdb_versions db)" "linked (pdb_repositories db)"
    "linked (pdb_deployments db)" "linked (pdb_locks db)" "linked (pdb_filters db)"
    by (simp_all add: links_nonempty_def)
  from assms(1) show ?thesis
    unfolding resolveActionResource_def Let_def
    by (auto intro: resolvers_good l dest: required_nonempty split: if_split_asm)
qed

section \<open>The guard\<close>

text \<open>The caller may use the action on a resource: a permission that the options accept is held there.\<close>

definition accepted_permissions :: "action_definition \<Rightarrow> action_options \<Rightarrow> string list" where
  "accepted_permissions act options =
     (if aop_acceptedPermissions options \<noteq> [] then aop_acceptedPermissions options else [act_permissionId act])"

lemma map_res_held: "map_res (\<lambda>p. permitted db now p ctx) ps = Inr held \<Longrightarrow> True \<in> set held \<longleftrightarrow> (\<exists>p \<in> set ps. permitted db now p ctx = Inr True)"
  by (induction ps arbitrary: held) auto

definition enters ::
  "product_db \<Rightarrow> int \<Rightarrow> api_request \<Rightarrow> string \<Rightarrow> action_definition \<Rightarrow> action_options \<Rightarrow> resolved_resource \<Rightarrow> string \<times> permission_context \<Rightarrow> bool" where
  "enters db now req u act options r entry \<longleftrightarrow>
     (entry = (act_permissionId act, resource_context req u r) \<and>
      (\<exists>q \<in> set (accepted_permissions act options). permitted db now q (resource_context req u r) = Inr True)) \<or>
     (rsv_unowned r \<and> entry = (the (aop_migrationPermission options), user_context u (request_tenant req) PlatformResource None) \<and>
      permitted db now (fst entry) (snd entry) = Inr True)"

lemma entry_enters:
  "entry_permission db now req u act options r (resource_context req u r) = Inr entry \<Longrightarrow> enters db now req u act options r entry"
  unfolding entry_permission_def Let_def enters_def accepted_permissions_def [symmetric]
  by (auto simp: map_res_held split: if_split_asm)

lemma gate_passed:
  "pass_gate cal db now p ctx = Inr x \<Longrightarrow> matching cal (pdb_policies db) now p ctx ''deny'' = {}"
  using gate_decision unfolding pass_gate_def bind_res_Inr lifted_Inr throw_if_Inr by blast

lemma guarded_resource:
  assumes "guard_resource cal db now req u act options resolverId = Inr g" and "links_nonempty db"
  shows "\<exists>entry. gra_action g = act \<and> gra_collection g = None \<and> gra_context g = Some (resource_context req u (gra_resource g)) \<and>
     good_resource db req options (gra_resource g) \<and> enters db now req u act options (gra_resource g) entry \<and>
     matching cal (pdb_policies db) now (fst entry) (request_context req (snd entry)) ''deny'' = {}"
  using assms action_resource_good entry_enters gate_passed unfolding guard_resource_def Let_def bind_res_Inr by fastforce

lemma requireAction_cases:
  assumes "requireAction cal db now actionId options req = Inr g"
  obtains (resource) u resolverId where "arq_userId req = Some u" "assertKnownAuthzAction actionId = Inr (gra_action g)"
      "guard_resource cal db now req u (gra_action g) options resolverId = Inr g"
    | (projects) u c where "arq_userId req = Some u" "assertKnownAuthzAction actionId = Inr (gra_action g)"
      "resolveProjectVisibleCollection db now req u (act_permissionId (gra_action g)) options = Inr c"
      "pass_gate cal db now (act_permissionId (gra_action g))
        (request_context req (user_context u (Some (effectiveProjectTenantId (arq_tenantId req))) ProjectResource None)) = Inr ()"
      "gra_resource g = resolved ProjectResource None []" "gra_collection g = Some c" "gra_context g = None"
    | (engines) u c where "arq_userId req = Some u" "assertKnownAuthzAction actionId = Inr (gra_action g)"
      "resolveEngineVisibleCollection db now req u (act_permissionId (gra_action g)) options = Inr c"
      "pass_gate cal db now (act_permissionId (gra_action g)) (request_context req (user_context u (request_tenant req) EngineResource None)) = Inr ()"
      "gra_resource g = resolved EngineResource None []" "gra_collection g = Some c" "gra_context g = None"
proof -
  from assms obtain u where u: "arq_userId req = Some u" by (auto simp: requireAction_def split: option.splits)
  with assms obtain act resolverId where act: "assertKnownAuthzAction actionId = Inr act"
    and run: "(if resolverId = ''project.visibleCollection''
       then guard_collection cal db now req u act ProjectResource (Some (effectiveProjectTenantId (arq_tenantId req)))
         (resolveProjectVisibleCollection db now req u (act_permissionId act) options)
       else if resolverId = ''engine.visibleCollection''
       then guard_collection cal db now req u act EngineResource (request_tenant req)
         (resolveEngineVisibleCollection db now req u (act_permissionId act) options)
       else guard_resource cal db now req u act options resolverId) = Inr g"
    unfolding requireAction_def by (auto simp del: if_split)
  have same: "gra_action g = act"
    using run by (auto simp: guard_collection_def guard_resource_def Let_def split: if_split_asm)
  from run consider "guard_collection cal db now req u act ProjectResource (Some (effectiveProjectTenantId (arq_tenantId req)))
         (resolveProjectVisibleCollection db now req u (act_permissionId act) options) = Inr g"
    | "guard_collection cal db now req u act EngineResource (request_tenant req)
         (resolveEngineVisibleCollection db now req u (act_permissionId act) options) = Inr g"
    | "guard_resource cal db now req u act options resolverId = Inr g"
    by (auto split: if_split_asm)
  then show thesis
  proof cases
    case 1
    then obtain c where "resolveProjectVisibleCollection db now req u (act_permissionId act) options = Inr c"
      "pass_gate cal db now (act_permissionId act)
        (request_context req (user_context u (Some (effectiveProjectTenantId (arq_tenantId req))) ProjectResource None)) = Inr ()"
      "g = \<lparr>gra_action = act, gra_resource = resolved ProjectResource None [], gra_collection = Some c, gra_context = None\<rparr>"
      by (auto simp: guard_collection_def)
    with u act show thesis by (intro projects) simp_all
  next
    case 2
    then obtain c where "resolveEngineVisibleCollection db now req u (act_permissionId act) options = Inr c"
      "pass_gate cal db now (act_permissionId act) (request_context req (user_context u (request_tenant req) EngineResource None)) = Inr ()"
      "g = \<lparr>gra_action = act, gra_resource = resolved EngineResource None [], gra_collection = Some c, gra_context = None\<rparr>"
      by (auto simp: guard_collection_def)
    with u act show thesis by (intro engines) simp_all
  next
    case 3
    with u act same show thesis by (intro resource) simp_all
  qed
qed

text \<open>A permission on a resolved resource, as access where the resource has an id.\<close>

definition resource_tenant :: "api_request \<Rightarrow> resolved_resource \<Rightarrow> string option" where
  "resource_tenant req r =
     (if rsv_type r = ProjectResource then Some (effectiveProjectTenantId (arq_tenantId req)) else request_tenant req)"

definition holds_on :: "product_db \<Rightarrow> int \<Rightarrow> api_request \<Rightarrow> string \<Rightarrow> string \<Rightarrow> resolved_resource \<Rightarrow> bool" where
  "holds_on db now req u q r \<longleftrightarrow>
     (case rsv_id r of
        Some i \<Rightarrow> has_access (pdb_authz db) now (resource_tenant req r) (UserPrincipal, u) q (rsv_type r, i)
      | None \<Rightarrow> hasPermission (pdb_authz db) now q (user_context u (resource_tenant req r) (rsv_type r) None) = Inr True)"

lemma visible_id: "visible_resource db req (rt, Some i) \<Longrightarrow> i \<noteq> []"
  by (cases rt) (auto simp: visible_resource_def)

lemma permitted_holds:
  assumes "permitted db now q (resource_context req u r) = Inr True" and "good_resource db req options r"
  shows "holds_on db now req u q r"
proof (cases "rsv_id r")
  case None
  with assms(1) show ?thesis by (simp add: holds_on_def permitted_def resource_context_def resource_tenant_def nonempty_def)
next
  case (Some i)
  with assms(2) have "i \<noteq> []" by (auto simp: good_resource_def dest: visible_id split: if_split_asm)
  moreover have "resource_context req u r = user_context u (resource_tenant req r) (rsv_type r) (Some i)"
    using Some \<open>i \<noteq> []\<close> by (simp add: resource_context_def resource_tenant_def nonempty_def)
  ultimately have held: "permitted db now q (user_context u (resource_tenant req r) (rsv_type r) (Some i)) = Inr True"
    using assms(1) by simp
  from permitted_access [OF held \<open>i \<noteq> []\<close>] show ?thesis by (simp add: holds_on_def Some)
qed

section \<open>Collections\<close>

lemma filter_res_Inr:
  "filter_res f xs = Inr ys \<Longrightarrow> ys = filter (\<lambda>x. f x = Inr True) xs \<and> (\<forall>x \<in> set xs. \<exists>b. f x = Inr b)"
  by (induction xs arbitrary: ys) (auto split: if_split_asm)

text \<open>No project or engine has the empty id.\<close>

definition ids_named :: "product_db \<Rightarrow> bool" where
  "ids_named db \<longleftrightarrow> map_of (db_projects (pdb_authz db)) [] = None \<and> map_of (db_engines (pdb_authz db)) [] = None"

lemma collection_ids:
  assumes "filter_res f (filter visible requestedIds) = Inr allowedIds"
  shows "rcl_ids (collection_of rt existing requestedIds allowedIds) = filter (\<lambda>i. visible i \<and> f i = Inr True) requestedIds"
    and "rcl_deniedIds (collection_of rt existing requestedIds allowedIds) =
      filter (\<lambda>i. existing i \<and> \<not> (visible i \<and> f i = Inr True)) requestedIds"
    and "rcl_requestedIds (collection_of rt existing requestedIds allowedIds) = requestedIds"
proof -
  have "allowedIds = filter (\<lambda>i. f i = Inr True) (filter visible requestedIds)" using filter_res_Inr [OF assms] by blast
  then have a: "i \<in> set allowedIds \<longleftrightarrow> visible i \<and> f i = Inr True" if "i \<in> set requestedIds" for i using that by auto
  show "rcl_ids (collection_of rt existing requestedIds allowedIds) = filter (\<lambda>i. visible i \<and> f i = Inr True) requestedIds"
    by (simp add: collection_of_def a cong: filter_cong)
  show "rcl_deniedIds (collection_of rt existing requestedIds allowedIds) =
      filter (\<lambda>i. existing i \<and> \<not> (visible i \<and> f i = Inr True)) requestedIds"
    by (simp add: collection_of_def a cong: filter_cong)
  show "rcl_requestedIds (collection_of rt existing requestedIds allowedIds) = requestedIds" by (simp add: collection_of_def)
qed

lemma visible_project_row:
  "(case map_of (db_projects (pdb_authz db)) i of None \<Rightarrow> False | Some t \<Rightarrow> isProjectTenantVisible t tenantId) = visible_project db tenantId i"
  by (simp add: visible_project_def split: option.split)

lemma visible_engine_row:
  "(case map_of (db_engines (pdb_authz db)) i of None \<Rightarrow> False | Some e \<Rightarrow> isEngineVisibleInTenant e tenantId) = visible_engine db tenantId i"
  by (simp add: visible_engine_def split: option.split)

text \<open>A project is listed when it was asked for, is visible, and the caller has access.\<close>

lemma project_collection:
  assumes "resolveProjectVisibleCollection db now req u p options = Inr c" and "ids_named db" and "u \<noteq> []"
  shows "rcl_ids c = filter (\<lambda>i. visible_project db (arq_tenantId req) i \<and>
      has_access (pdb_authz db) now (Some (effectiveProjectTenantId (arq_tenantId req))) (UserPrincipal, u) p (ProjectResource, i))
      (rcl_requestedIds c)"
    and "rcl_deniedIds c = filter (\<lambda>i. map_of (db_projects (pdb_authz db)) i \<noteq> None \<and> i \<notin> set (rcl_ids c)) (rcl_requestedIds c)"
proof -
  let ?f = "\<lambda>i. permitted db now p (user_context u (Some (effectiveProjectTenantId (arq_tenantId req))) ProjectResource (Some i))"
  let ?existing = "\<lambda>i. map_of (db_projects (pdb_authz db)) i \<noteq> None"
  from assms(1) obtain rs as where run: "filter_res ?f (filter (visible_project db (arq_tenantId req)) rs) = Inr as"
    and c: "c = collection_of ProjectResource ?existing rs as"
    unfolding resolveProjectVisibleCollection_def Let_def visible_project_row bind_res_Inr by blast
  have named: "visible_project db t i \<Longrightarrow> i \<noteq> []" for t i using assms(2) by (auto simp: ids_named_def visible_project_def)
  note ids = collection_ids [OF run, where rt = ProjectResource and existing = ?existing, folded c]
  show ids': "rcl_ids c = filter (\<lambda>i. visible_project db (arq_tenantId req) i \<and>
      has_access (pdb_authz db) now (Some (effectiveProjectTenantId (arq_tenantId req))) (UserPrincipal, u) p (ProjectResource, i))
      (rcl_requestedIds c)"
    unfolding ids(1,3) using named permitted_True [OF assms(3)] by (metis (no_types, lifting))
  show "rcl_deniedIds c = filter (\<lambda>i. ?existing i \<and> i \<notin> set (rcl_ids c)) (rcl_requestedIds c)"
    unfolding ids by (simp cong: filter_cong)
qed

text \<open>What lets an engine be listed.\<close>

inductive engine_reason :: "product_db \<Rightarrow> int \<Rightarrow> string option \<Rightarrow> string \<Rightarrow> string \<Rightarrow> bool \<Rightarrow> string \<Rightarrow> engine_row \<Rightarrow> bool"
  for db now t u p manageable i e where
  own_engine: "\<not> eng_isShared e \<Longrightarrow> has_access (pdb_authz db) now t (UserPrincipal, u) p (EngineResource, i) \<Longrightarrow>
    engine_reason db now t u p manageable i e"
| managed_engine: "eng_isShared e \<Longrightarrow> manageable \<Longrightarrow>
    has_access (pdb_authz db) now t (UserPrincipal, u) ''engine:edit'' (EngineResource, i) \<Longrightarrow> engine_reason db now t u p manageable i e"
| engine_of_resource: "eng_isResourceAware e \<Longrightarrow> (k, r) \<in> set (db_runtimeResources (pdb_authz db)) \<Longrightarrow> rtm_engineId r = i \<Longrightarrow>
    rtm_isActive r \<Longrightarrow> rtm_isResolved r \<Longrightarrow> tenantOwnedWhere (rtm_tenantId r) t \<Longrightarrow>
    has_access (pdb_authz db) now t (UserPrincipal, u) ''engine:instance:view'' (RuntimeResource, k) \<Longrightarrow>
    engine_reason db now t u p manageable i e"

lemma visible_runtime_row:
  assumes "getVisibleRuntimeResources adb now q = Inr rows" and "(k, r) \<in> set rows"
  shows "(k, r) \<in> set (db_runtimeResources adb)" and "rtm_engineId r = rqy_engineId q" and "rtm_isActive r" and "rtm_isResolved r"
    and "tenantOwnedWhere (rtm_tenantId r) (rqy_tenantId q)"
    and "k \<noteq> [] \<Longrightarrow> rqy_userId q \<noteq> [] \<Longrightarrow>
      has_access adb now (rqy_tenantId q) (UserPrincipal, rqy_userId q) (rqy_permission q) (RuntimeResource, k)"
proof -
  from assms(1) obtain n where run: "filter_res (\<lambda>(i, r). hasPermission adb now (rqy_permission q)
      (user_context (rqy_userId q) (rqy_tenantId q) RuntimeResource (Some i))) (take n (inventory adb q)) = Inr rows"
    unfolding getVisibleRuntimeResources_def Let_def by (metis sum.distinct(1))
  with assms(2) have "(k, r) \<in> set (take n (inventory adb q))"
    and held: "hasPermission adb now (rqy_permission q) (user_context (rqy_userId q) (rqy_tenantId q) RuntimeResource (Some k)) = Inr True"
    by (auto dest!: filter_res_Inr)
  then have "(k, r) \<in> set (inventory adb q)" by (meson in_set_takeD)
  then show "(k, r) \<in> set (db_runtimeResources adb)" "rtm_engineId r = rqy_engineId q" "rtm_isActive r" "rtm_isResolved r"
    "tenantOwnedWhere (rtm_tenantId r) (rqy_tenantId q)"
    by (auto simp: inventory_def)
  show "has_access adb now (rqy_tenantId q) (UserPrincipal, rqy_userId q) (rqy_permission q) (RuntimeResource, k)"
    if "k \<noteq> []" "rqy_userId q \<noteq> []"
    using held that by (simp add: hasPermission_access)
qed

lemma runtime_visible_row:
  assumes "runtime_visible db now u t i" and "u \<noteq> []" and "map_of (db_runtimeResources (pdb_authz db)) [] = None"
  shows "\<exists>k r. (k, r) \<in> set (db_runtimeResources (pdb_authz db)) \<and> rtm_engineId r = i \<and> rtm_isActive r \<and> rtm_isResolved r \<and>
    tenantOwnedWhere (rtm_tenantId r) t \<and> has_access (pdb_authz db) now t (UserPrincipal, u) ''engine:instance:view'' (RuntimeResource, k)"
proof -
  let ?q = "\<lambda>kind. \<lparr>rqy_userId = u, rqy_tenantId = t, rqy_engineId = i, rqy_resourceKind = kind,
    rqy_permission = ''engine:instance:view'', rqy_limit = Some 5000\<rparr>"
  from assms(1) obtain kind rows where rows: "getVisibleRuntimeResources (pdb_authz db) now (?q kind) = Inr rows" "rows \<noteq> []"
    by (auto simp: runtime_visible_def Let_def split: sum.split_asm)
  then obtain k r where kr: "(k, r) \<in> set rows" by (cases rows) auto
  note row = visible_runtime_row [OF rows(1) kr]
  from row(1) assms(3) have "k \<noteq> []" by (auto simp: map_of_eq_None_iff image_iff)
  with row assms(2) show ?thesis by (intro exI [of _ k] exI [of _ r]) simp
qed

lemma engine_listed_reason:
  assumes "engine_listed db now u t p m i e = Inr True" and "u \<noteq> []" and "i \<noteq> []"
    and "map_of (db_runtimeResources (pdb_authz db)) [] = None"
  shows "engine_reason db now t u p m i e"
proof -
  from assms(1) obtain a where a: "permitted db now p (user_context u t EngineResource (Some i)) = Inr a"
    and cases: "a \<and> \<not> eng_isShared e \<or> (\<exists>b. (if eng_isShared e \<and> m
        then permitted db now ''engine:edit'' (user_context u t EngineResource (Some i)) else Inr False) = Inr b \<and>
      (b \<or> (eng_isResourceAware e \<and> runtime_visible db now u t i)))"
    by (auto simp: engine_listed_def Let_def split: if_split_asm)
  from cases consider "a" "\<not> eng_isShared e" | "eng_isShared e" "m" "permitted db now ''engine:edit'' (user_context u t EngineResource (Some i)) = Inr True"
    | "eng_isResourceAware e" "runtime_visible db now u t i"
    by (auto split: if_split_asm)
  then show ?thesis
  proof cases
    case 1
    with a permitted_True [OF assms(2,3)] show ?thesis by (intro own_engine) simp_all
  next
    case 2
    with permitted_True [OF assms(2,3)] show ?thesis by (intro managed_engine) simp_all
  next
    case 3
    with runtime_visible_row [OF 3(2) assms(2,4)] show ?thesis by (blast intro: engine_of_resource)
  qed
qed

lemma engine_collection:
  assumes "resolveEngineVisibleCollection db now req u p options = Inr c" and "ids_named db" and "u \<noteq> []"
    and "map_of (db_runtimeResources (pdb_authz db)) [] = None" and "i \<in> set (rcl_ids c)"
  shows "\<exists>e. map_of (db_engines (pdb_authz db)) i = Some e \<and> isEngineVisibleInTenant e (request_tenant req) \<and>
    engine_reason db now (request_tenant req) u p (getp (arq_query req) ''includeManageableShared'' = JStr ''true'') i e"
proof -
  let ?m = "getp (arq_query req) ''includeManageableShared'' = JStr ''true''"
  let ?f = "\<lambda>i. engine_listed db now u (request_tenant req) p ?m i (the (map_of (db_engines (pdb_authz db)) i))"
  let ?existing = "\<lambda>i. map_of (db_engines (pdb_authz db)) i \<noteq> None"
  from assms(1) obtain rs as where run: "filter_res ?f (filter (visible_engine db (request_tenant req)) rs) = Inr as"
    and c: "c = collection_of EngineResource ?existing rs as"
    unfolding resolveEngineVisibleCollection_def Let_def visible_engine_row bind_res_Inr by blast
  from assms(5) have v: "visible_engine db (request_tenant req) i" and l: "?f i = Inr True"
    unfolding c collection_ids(1) [OF run] by simp_all
  from v obtain e where e: "map_of (db_engines (pdb_authz db)) i = Some e" "isEngineVisibleInTenant e (request_tenant req)"
    by (auto simp: visible_engine_def)
  moreover have "i \<noteq> []" using e(1) assms(2) by (auto simp: ids_named_def)
  ultimately show ?thesis using engine_listed_reason [OF _ assms(3) _ assms(4)] l by fastforce
qed

section \<open>Decisions without a request\<close>

text \<open>A request that tells the gate nothing beyond the caller and the resource.\<close>

definition plain_request :: "api_request \<Rightarrow> bool" where
  "plain_request req \<longleftrightarrow> \<not> truthy_str (arq_ip req) \<and> \<not> arq_mfaVerified req"

lemma plain_conditions:
  "plain_request req \<Longrightarrow> evaluateConditions cal c (request_context req ctx) now = evaluateConditions cal c (bare_context ctx) now"
  by (simp add: evaluateConditions_def evaluateEnvironment_def request_context_def bare_context_def plain_request_def
      cong: option.case_cong)

lemma plain_gate: "plain_request req \<Longrightarrow> pass_gate cal db now p (request_context req ctx) = pass_gate cal db now p (bare_context ctx)"
  by (simp add: pass_gate_def evaluateGate_def context_policies_def plain_conditions)
     (simp add: request_context_def bare_context_def decision_time_def context_type_def)

text \<open>What the decision without a request looks at: the type of the action, its own permission, and the gate.\<close>

lemma resolved_holds:
  assumes "assertKnownAuthzAction actionId = Inr act"
  shows "evaluateResolvedAuthzAction cal db now actionId u (arq_tenantId req) (rsv_type r) (rsv_id r) \<longleftrightarrow>
    rsv_type r = act_resourceType act \<and> permitted db now (act_permissionId act) (resource_context req u r) = Inr True \<and>
    pass_gate cal db now (act_permissionId act) (bare_context (resource_context req u r)) = Inr ()"
proof -
  let ?ctx = "resource_context req u r"
  have ctx: "user_context u (if rsv_type r = ProjectResource then Some (effectiveProjectTenantId (arq_tenantId req)) else nonempty (arq_tenantId req))
      (rsv_type r) (nonempty (rsv_id r)) = ?ctx"
    by (simp add: resource_context_def request_tenant_def)
  have "resolved_decision cal db now actionId u (arq_tenantId req) (rsv_type r) (rsv_id r) =
      (if act_resourceType act \<noteq> rsv_type r then Inl AccessDenied
       else bind_res (permitted db now (act_permissionId act) ?ctx) (\<lambda>held.
         if \<not> held then Inl AccessDenied else pass_gate cal db now (act_permissionId act) (bare_context ?ctx)))"
    unfolding resolved_decision_def assms(1) lifted.simps bind_res.simps Let_def ctx by simp
  then show ?thesis
    by (cases "permitted db now (act_permissionId act) ?ctx") (auto simp: evaluateResolvedAuthzAction_def split: sum.split)
qed

text \<open>What the guard of a plain request looks at: the permissions the route accepts, and the quarantine.\<close>

lemma permitted_total: "permitted db now p ctx = Inr b \<Longrightarrow> \<exists>b'. permitted db now q ctx = Inr b'"
proof -
  assume "permitted db now p ctx = Inr b"
  then obtain who where "resolvePermissionPrincipal ctx = Inr who"
    by (cases "resolvePermissionPrincipal ctx") (auto simp: permitted_def hasPermission_def evaluatePermission_def)
  then show ?thesis using evaluation_total [of ctx who "pdb_authz db" now q] by (auto simp: permitted_def hasPermission_def)
qed

lemma all_permitted: "permitted db now p ctx = Inr b \<Longrightarrow> \<exists>held. map_res (\<lambda>p. permitted db now p ctx) ps = Inr held"
  unfolding map_res_ok using permitted_total by blast

lemma guard_holds:
  assumes "resolveActionResource db req resolverId options = Inr r" and "plain_request req"
    and "q \<in> set (accepted_permissions act options)" and "permitted db now q (resource_context req u r) = Inr True"
  shows "(\<exists>g. guard_resource cal db now req u act options resolverId = Inr g) \<longleftrightarrow>
    pass_gate cal db now (act_permissionId act) (bare_context (resource_context req u r)) = Inr ()"
proof -
  let ?ctx = "resource_context req u r"
  obtain held where held: "map_res (\<lambda>p. permitted db now p ?ctx) (accepted_permissions act options) = Inr held"
    using all_permitted [OF assms(4)] by blast
  with assms(3,4) have "True \<in> set held" using map_res_held by blast
  with held have "entry_permission db now req u act options r ?ctx = Inr (act_permissionId act, ?ctx)"
    by (simp add: entry_permission_def Let_def accepted_permissions_def [symmetric])
  then show ?thesis by (simp add: guard_resource_def assms(1) Let_def plain_gate [OF assms(2)])
qed

text \<open>The quarantine does not keep out the ordinary permissions: one that the route accepts, held on the engine, opens it.\<close>

lemma quarantine_entered:
  assumes "row_of ''Engine'' (db_engines (pdb_authz db)) i = Inr e" and "quarantined db options i" and "i \<noteq> []"
    and "resolveActionResource db req resolverId options = resolve_engine db req options i"
    and "q \<in> set (accepted_permissions act options)"
    and "has_access (pdb_authz db) now (request_tenant req) (UserPrincipal, u) q (EngineResource, i)" and "u \<noteq> []"
    and "pass_gate cal db now (act_permissionId act) (request_context req (user_context u (request_tenant req) EngineResource (Some i))) = Inr ()"
  shows "\<exists>g. guard_resource cal db now req u act options resolverId = Inr g \<and> rsv_unowned (gra_resource g) \<and> rsv_id (gra_resource g) = Some i"
proof -
  from assms(1,2) have "\<exists>r. resolve_engine db req options i = Inr r \<and> rsv_type r = EngineResource \<and> rsv_id r = Some i \<and> rsv_unowned r"
    by (auto simp: resolve_engine_def quarantined_def row_of_def Let_def split: option.splits)
  then obtain r where r: "resolveActionResource db req resolverId options = Inr r" "rsv_type r = EngineResource" "rsv_id r = Some i" "rsv_unowned r"
    unfolding assms(4) by blast
  have ctx: "resource_context req u r = user_context u (request_tenant req) EngineResource (Some i)"
    using assms(3) by (simp add: resource_context_def r nonempty_def)
  have q: "permitted db now q (resource_context req u r) = Inr True"
    unfolding ctx by (simp add: permitted_True assms(3,6,7))
  obtain held where held: "map_res (\<lambda>p. permitted db now p (resource_context req u r)) (accepted_permissions act options) = Inr held"
    using all_permitted [OF q] by blast
  with assms(5) q have "True \<in> set held" using map_res_held by blast
  with held have "entry_permission db now req u act options r (resource_context req u r) = Inr (act_permissionId act, resource_context req u r)"
    by (simp add: entry_permission_def Let_def accepted_permissions_def [symmetric])
  with assms(8) r show ?thesis by (simp add: guard_resource_def Let_def ctx)
qed

lemma guard_entry:
  assumes "guard_resource cal db now req u act options resolverId = Inr g" and "resolveActionResource db req resolverId options = Inr r"
    and "\<And>q. q \<in> set (accepted_permissions act options) \<Longrightarrow> permitted db now q (resource_context req u r) \<noteq> Inr True"
  shows "rsv_unowned r"
    and "permitted db now (the (aop_migrationPermission options)) (user_context u (request_tenant req) PlatformResource None) = Inr True"
proof -
  from assms(1,2) obtain entry where "entry_permission db now req u act options r (resource_context req u r) = Inr entry"
    by (auto simp: guard_resource_def Let_def)
  from entry_enters [OF this] assms(3)
  have "rsv_unowned r \<and> permitted db now (the (aop_migrationPermission options)) (user_context u (request_tenant req) PlatformResource None) = Inr True"
    by (auto simp: enters_def)
  then show "rsv_unowned r"
    and "permitted db now (the (aop_migrationPermission options)) (user_context u (request_tenant req) PlatformResource None) = Inr True"
    by simp_all
qed

lemma resolved_versus_guard:
  fixes cal :: calendar and now :: int and u :: string
  assumes "assertKnownAuthzAction actionId = Inr act" and "resolveActionResource db req resolverId options = Inr r" and "plain_request req"
  defines "guarded \<equiv> \<exists>g. guard_resource cal db now req u act options resolverId = Inr g"
    and "decided \<equiv> evaluateResolvedAuthzAction cal db now actionId u (arq_tenantId req) (rsv_type r) (rsv_id r)"
    and "held \<equiv> \<lambda>q. permitted db now q (resource_context req u r) = Inr True"
  shows "decided \<Longrightarrow> rsv_type r = act_resourceType act"
    and "decided \<Longrightarrow> act_permissionId act \<in> set (accepted_permissions act options) \<Longrightarrow> guarded"
    and "guarded \<Longrightarrow> rsv_type r = act_resourceType act \<Longrightarrow> \<not> decided \<Longrightarrow>
      (\<exists>q \<in> set (accepted_permissions act options). q \<noteq> act_permissionId act \<and> held q \<and> \<not> held (act_permissionId act)) \<or>
      (rsv_unowned r \<and> permitted db now (the (aop_migrationPermission options)) (user_context u (request_tenant req) PlatformResource None) = Inr True)"
proof -
  note decided = resolved_holds [OF assms(1), where cal = cal and db = db and now = now and u = u and req = req and r = r, folded decided_def]
  note gate = guard_holds [OF assms(2,3), where act = act and now = now and u = u and cal = cal]
  show "rsv_type r = act_resourceType act" if decided using that decided by simp
  show "guarded" if decided "act_permissionId act \<in> set (accepted_permissions act options)"
    unfolding guarded_def using that decided gate by blast
  show "(\<exists>q \<in> set (accepted_permissions act options). q \<noteq> act_permissionId act \<and> held q \<and> \<not> held (act_permissionId act)) \<or>
      (rsv_unowned r \<and> permitted db now (the (aop_migrationPermission options)) (user_context u (request_tenant req) PlatformResource None) = Inr True)"
    if g: guarded and t: "rsv_type r = act_resourceType act" and d: "\<not> decided"
  proof (cases "\<exists>q \<in> set (accepted_permissions act options). held q")
    case True
    then obtain q where q: "q \<in> set (accepted_permissions act options)" "held q" by blast
    with g gate have "pass_gate cal db now (act_permissionId act) (bare_context (resource_context req u r)) = Inr ()"
      unfolding guarded_def held_def by blast
    with d t decided have "\<not> held (act_permissionId act)" unfolding held_def by blast
    with q show ?thesis by metis
  next
    case False
    from g obtain x where x: "guard_resource cal db now req u act options resolverId = Inr x" unfolding guarded_def by blast
    have "permitted db now q (resource_context req u r) \<noteq> Inr True" if "q \<in> set (accepted_permissions act options)" for q
      using that False unfolding held_def by blast
    from guard_entry [OF x assms(2) this] show ?thesis by blast
  qed
qed

lemma resolved_agrees:
  assumes "assertKnownAuthzAction actionId = Inr act" and "aop_acceptedPermissions options = []"
    and "resolveActionResource db req resolverId options = Inr r" and "\<not> rsv_unowned r" and "rsv_type r = act_resourceType act"
    and "plain_request req"
  shows "(\<exists>g. guard_resource cal db now req u act options resolverId = Inr g) \<longleftrightarrow>
    evaluateResolvedAuthzAction cal db now actionId u (arq_tenantId req) (rsv_type r) (rsv_id r)"
proof -
  have "set (accepted_permissions act options) = {act_permissionId act}" using assms(2) by (simp add: accepted_permissions_def)
  with resolved_versus_guard(2,3) [OF assms(1,3,6), where cal = cal and now = now and u = u] assms(4,5) show ?thesis by blast
qed

end
