(* ===== verification/Role_Queries.thy ===== *)
theory Role_Queries
  imports Role_Invariant
begin

text \<open>
  The queries about roles (\<open>getRoles\<close>, \<open>getRole\<close>, \<open>getRuntimeAssignmentWarnings\<close>, \<open>getAssignedEngineRole\<close> and
  \<open>getAssignedEngineRoles\<close> of \<open>shared/src/services/platform-admin/permissions.ts\<close>), and that an assignment which
  \<open>assignRole\<close> makes gives the principal the permissions of the role.
\<close>

section \<open>Roles\<close>

record role_detail =
  rdt_id :: string
  rdt_role :: role_row
  rdt_permissionCount :: nat
  rdt_permissions :: "string list"

text \<open>A summary has no list of permissions.\<close>

definition getRoles :: "string option \<Rightarrow> authz_db \<Rightarrow> role_detail list" where
  "getRoles tenantId db =
     (let tenant = normalizeTenantIdForPersistence tenantId;
          order = (\<lambda>(i, r) (j, s). if resource_type_text (aro_scope r) < resource_type_text (aro_scope s) \<or>
              (aro_scope r = aro_scope s \<and> aro_name r < aro_name s) then -1
            else if aro_scope r = aro_scope s \<and> aro_name r = aro_name s then 0 else 1)
      in map (\<lambda>(i, r). \<lparr>rdt_id = i, rdt_role = r, rdt_permissionCount = length (role_permission_ids db i), rdt_permissions = []\<rparr>)
           (js_sort order (filter (\<lambda>(i, r). exact_or_null tenant (aro_tenantId r)) (db_roles db))))"

definition getRole :: "string \<Rightarrow> string option \<Rightarrow> authz_db \<Rightarrow> role_detail option" where
  "getRole i tenantId db =
     (case map_of (db_roles db) i of
        None \<Rightarrow> None
      | Some role \<Rightarrow>
          let tenant = normalizeTenantIdForPersistence tenantId; permissions = sort (role_permission_ids db i)
          in if tenant \<noteq> None \<and> truthy_str (aro_tenantId role) \<and> aro_tenantId role \<noteq> tenant then None
             else Some \<lparr>rdt_id = i, rdt_role = role, rdt_permissionCount = length permissions, rdt_permissions = permissions\<rparr>)"

section \<open>Engine roles of a user\<close>

definition ENGINE_SYSTEM_ROLE_TO_LEGACY_ROLE :: "(string \<times> string) list" where
  "ENGINE_SYSTEM_ROLE_TO_LEGACY_ROLE =
     [(''system.engine.owner'', ''owner''), (''system.engine.delegate'', ''delegate''), (''system.engine.operator'', ''operator''),
      (''system.engine.deployer'', ''deployer'')]"

definition ENGINE_ROLE_PRECEDENCE :: "string list" where
  "ENGINE_ROLE_PRECEDENCE = [''owner'', ''delegate'', ''operator'', ''deployer'']"

text \<open>The engine assignments of a user whose role is visible and not archived.\<close>

definition engine_assignments :: "authz_db \<Rightarrow> int \<Rightarrow> string \<Rightarrow> string option \<Rightarrow> assignment_row list" where
  "engine_assignments db now userId tenantId = filter (\<lambda>a.
     find_row (\<lambda>r. \<not> aro_isArchived r \<and> tenantScopedWhere (aro_tenantId r) tenantId) (db_roles db) (asg_roleId a) \<noteq> None)
     (user_assignments db now userId tenantId EngineResource)"

definition legacy_role :: "assignment_row \<Rightarrow> string option" where
  "legacy_role a = map_of ENGINE_SYSTEM_ROLE_TO_LEGACY_ROLE (asg_roleId a)"

definition getAssignedEngineRole :: "authz_db \<Rightarrow> int \<Rightarrow> string \<Rightarrow> string \<Rightarrow> string option \<Rightarrow> string option" where
  "getAssignedEngineRole db now userId engineId tenantId =
     (let roles = List.map_filter legacy_role
            (filter (\<lambda>a. asg_scopeId a = Some engineId \<or> asg_scopeId a = None) (engine_assignments db now userId tenantId))
      in find (\<lambda>r. r \<in> set roles) ENGINE_ROLE_PRECEDENCE)"

definition getAssignedEngineRoles :: "authz_db \<Rightarrow> int \<Rightarrow> string \<Rightarrow> string option \<Rightarrow> (string option \<times> string) list" where
  "getAssignedEngineRoles db now userId tenantId =
     List.map_filter (\<lambda>a. map_option (Pair (asg_scopeId a)) (legacy_role a)) (engine_assignments db now userId tenantId)"

section \<open>Warnings\<close>

definition resolveRuntimeScopeEngineId :: "authz_db \<Rightarrow> resource_type \<Rightarrow> string option \<Rightarrow> string option \<Rightarrow> string option" where
  "resolveRuntimeScopeEngineId db scopeType scopeId tenantId = nonempty
     (if scopeType = RuntimeResource
      then map_option rtm_engineId (find_row (\<lambda>r. rtm_isActive r \<and> tenantScopedWhere (rtm_tenantId r) tenantId)
        (db_runtimeResources db) (or_empty scopeId))
      else if scopeType = RuntimeResourceSet
      then map_option rts_engineId (find_row (\<lambda>s. \<not> rts_isArchived s \<and> tenantOwnedWhere (rts_tenantId s) tenantId)
        (db_runtimeSets db) (or_empty scopeId))
      else None)"

text \<open>\<open>getRuntimeAssignmentWarnings\<close>: the permissions that the one warning names, none when there is no warning.\<close>

definition getRuntimeAssignmentWarnings ::
  "authz_db \<Rightarrow> int \<Rightarrow> principal_ref \<Rightarrow> string \<Rightarrow> resource_type \<Rightarrow> string option \<Rightarrow> string option \<Rightarrow> string list" where
  "getRuntimeAssignmentWarnings db now who roleId scopeType scopeId tenantId =
     (case resolveRuntimeScopeEngineId db scopeType scopeId tenantId of
        None \<Rightarrow> []
      | Some engineId \<Rightarrow>
          let requestedPermissions = role_permission_ids db roleId;
              principalRefs = who # (if fst who = UserPrincipal
                then map (Pair GroupPrincipal) (getUserGroupIdsForEvaluation db now (snd who) tenantId) else []);
              activeAssignments = filter (\<lambda>a. (asg_principalType a, asg_principalId a) \<in> set principalRefs \<and>
                asg_source a \<noteq> ''legacy'' \<and> (nonzero (asg_expiresAt a) = None \<or> now < the (asg_expiresAt a))) (map snd (db_assignments db));
              matching = (\<lambda>a. (asg_scopeType a = EngineResource \<and> asg_scopeId a = Some engineId) \<or>
                (asg_scopeType a = EngineSetResource \<and> truthy_str (asg_scopeId a) \<and>
                 list_ex (\<lambda>(t, s, m). Some s = asg_scopeId a \<and> m = engineId) (db_engineSetMembers db)));
              activeRoleIds = map asg_roleId (filter matching activeAssignments)
          in if (case map_of (db_engines db) engineId of None \<Rightarrow> False | Some e \<Rightarrow> eng_isShared e) then []
             else set_of_list (filter (\<lambda>p. p \<in> set requestedPermissions)
               (map snd (filter (\<lambda>(r, p). r \<in> set activeRoleIds) (db_rolePermissions db)))))"

section \<open>What a new assignment gives\<close>

lemma assigned_row:
  assumes "assignRole newId input db = Inr (newId, db')" and new: "map_of (db_assignments db) newId = None"
  obtains who role scopeType scopeId source where
    "map_of (db_roles db) (ain_roleId input) = Some role" and "\<not> aro_isArchived role"
    and "normalizeTenantIdForPersistence (ain_tenantId input) = None \<or> \<not> truthy_str (aro_tenantId role) \<or>
      aro_tenantId role = normalizeTenantIdForPersistence (ain_tenantId input)"
    and "normalizeAssignmentPrincipal input = Inr who"
    and "normalizeAssignmentScope (aro_scope role) (ain_scopeType input) (ain_scopeId input) = Inr (scopeType, scopeId)"
    and "assertResourceExists db scopeType scopeId (normalizeTenantIdForPersistence (ain_tenantId input)) = Inr ()"
    and "assertRuntimeScopeEnabled db scopeType scopeId (normalizeTenantIdForPersistence (ain_tenantId input)) = Inr ()"
    and "db' = db\<lparr>db_assignments := db_assignments db @ [(newId, new_assignment (normalizeTenantIdForPersistence (ain_tenantId input))
      who (ain_roleId input) scopeType scopeId source input)]\<rparr>"
proof -
  let ?tenant = "normalizeTenantIdForPersistence (ain_tenantId input)"
  let ?source = "case ain_source input of None \<Rightarrow> ''manual'' | Some s \<Rightarrow> s"
  from assms(1) obtain role where role: "map_of (db_roles db) (ain_roleId input) = Some role"
    by (auto simp: assignRole_def split: option.splits)
  have "\<exists>who st sid. \<not> aro_isArchived role \<and> (?tenant = None \<or> \<not> truthy_str (aro_tenantId role) \<or> aro_tenantId role = ?tenant) \<and>
      normalizeAssignmentPrincipal input = Inr who \<and>
      normalizeAssignmentScope (aro_scope role) (ain_scopeType input) (ain_scopeId input) = Inr (st, sid) \<and>
      assertResourceExists db st sid ?tenant = Inr () \<and> assertRuntimeScopeEnabled db st sid ?tenant = Inr () \<and>
      store_assignment newId ?tenant who st sid ?source input db = Inr (newId, db')"
    using assms(1) unfolding assignRole_def Let_def role option.case bind_res_Inr unless_Inl case_prod_unfold by fastforce
  then obtain who st sid where h: "\<not> aro_isArchived role" "?tenant = None \<or> \<not> truthy_str (aro_tenantId role) \<or> aro_tenantId role = ?tenant"
      "normalizeAssignmentPrincipal input = Inr who"
      "normalizeAssignmentScope (aro_scope role) (ain_scopeType input) (ain_scopeId input) = Inr (st, sid)"
      "assertResourceExists db st sid ?tenant = Inr ()" "assertRuntimeScopeEnabled db st sid ?tenant = Inr ()"
    and store: "store_assignment newId ?tenant who st sid ?source input db = Inr (newId, db')"
    by blast
  have "newId \<noteq> fst row" if "find P (db_assignments db) = Some row" for P row
  proof -
    have "row \<in> set (db_assignments db)" using that by (auto simp: find_Some_iff)
    with new show ?thesis by (cases row) (auto simp: map_of_eq_None_iff image_iff)
  qed
  with store have "db' = db\<lparr>db_assignments := db_assignments db @ [(newId, new_assignment ?tenant who (ain_roleId input) st sid ?source input)]\<rparr>"
    by (auto simp: store_assignment_def Let_def split: option.splits if_split_asm)
  from that [OF role h this] show thesis .
qed

text \<open>A scope that is one resource, by which the resource is reached.\<close>

definition single_scope :: "resource_type \<Rightarrow> bool" where
  "single_scope t \<longleftrightarrow> t \<notin> {PlatformResource, EngineSetResource, RuntimeResourceSet}"

lemma role_visible:
  assumes "normalizeTenantIdForPersistence t = None \<or> \<not> truthy_str (aro_tenantId role) \<or> aro_tenantId role = normalizeTenantIdForPersistence t"
    and "aro_tenantId role \<noteq> Some []"
  shows "tenantScopedWhere (aro_tenantId role) t"
proof (cases "aro_tenantId role")
  case None
  then show ?thesis by (simp add: tenantScopedWhere_def)
next
  case (Some r)
  with assms have "normalizeTenantIdForPersistence t = None \<or> aro_tenantId role = normalizeTenantIdForPersistence t" by auto
  then show ?thesis using scoped_normalized [of t] by (metis tenantIds_Nil tenantScopedWhere_def)
qed

lemma tenant_ids_nonempty: "[] \<notin> set (tenantIdsForAuthz t)"
proof -
  have "normalizeTenantIdForPersistence u \<noteq> Some []" for u
    by (auto simp: normalizeTenantIdForPersistence_def trimmed_def OSS_DEFAULT_TENANT_ID_def split: option.splits if_split_asm)
  from this [of t] this [of "map_option trim t"] show ?thesis
    by (auto simp: tenantIdsForAuthz_def normalizeTenantIdForAuthz_def OSS_DEFAULT_TENANT_IDS_def OSS_DEFAULT_TENANT_ID_def
        OSS_LEGACY_DEFAULT_TENANT_ID_def dest: sym split: option.splits if_split_asm)
qed

lemma existing_runtime:
  assumes "assertResourceExists db RuntimeResource (Some i) tenant = Inr ()" and "assertRuntimeScopeEnabled db RuntimeResource (Some i) tenant = Inr ()"
    and "tenantIdsForAuthz tenant = tenantIdsForAuthz t" and "tenantIdsForAuthz t \<noteq> []"
  shows "\<exists>r e. usable_runtime db t i r e"
proof -
  have owned: "tenantOwnedWhere row tenant = tenantOwnedWhere row t" for row by (simp add: tenantOwnedWhere_def assms(3))
  from assms(1) obtain r where r: "resolvedRuntimeResource db i tenant = Some r"
    by (auto simp: assertResourceExists_def Let_def or_empty_def)
  with assms(2) obtain e where e: "map_of (db_engines db) (rtm_engineId r) = Some e"
    by (auto simp: assertRuntimeScopeEnabled_def Let_def or_empty_def split: option.splits)
  from r have row: "map_of (db_runtimeResources db) i = Some r" "rtm_isActive r" "rtm_isResolved r" "tenantOwnedWhere (rtm_tenantId r) t"
    by (auto simp: resolvedRuntimeResource_def owned)
  then have "truthy_str (rtm_tenantId r)"
    using assms(4) tenant_ids_nonempty by (cases "rtm_tenantId r") (auto simp: tenantOwnedWhere_def)
  with row e show ?thesis by (auto simp: usable_runtime_def)
qed

lemma assigned_access:
  assumes "assignRole newId input db = Inr (newId, db')" and "map_of (db_assignments db) newId = None"
    and "p \<in> set (role_permission_ids db (ain_roleId input))" and "unexpired_at now (ain_expiresAt input)"
    and "\<And>role. map_of (db_roles db) (ain_roleId input) = Some role \<Longrightarrow> aro_tenantId role \<noteq> Some []"
  obtains who scopeType scopeId where "normalizeAssignmentPrincipal input = Inr who"
    and "\<exists>role. map_of (db_roles db) (ain_roleId input) = Some role \<and>
      normalizeAssignmentScope (aro_scope role) (ain_scopeType input) (ain_scopeId input) = Inr (scopeType, scopeId)"
    and "single_scope scopeType \<Longrightarrow> scopeType = RuntimeResource \<Longrightarrow> normalizeTenantIdForPersistence (ain_tenantId input) \<noteq> None \<Longrightarrow>
      has_access db' now (ain_tenantId input) who p (scopeType, the scopeId)"
    and "single_scope scopeType \<Longrightarrow> scopeType \<noteq> RuntimeResource \<Longrightarrow> has_access db' now (ain_tenantId input) who p (scopeType, the scopeId)"
proof -
  let ?t = "ain_tenantId input"
  let ?tenant = "normalizeTenantIdForPersistence ?t"
  from assigned_row [OF assms(1,2)] obtain who role st sid source where
    role: "map_of (db_roles db) (ain_roleId input) = Some role" "\<not> aro_isArchived role"
    and tenant: "?tenant = None \<or> \<not> truthy_str (aro_tenantId role) \<or> aro_tenantId role = ?tenant"
    and who: "normalizeAssignmentPrincipal input = Inr who"
    and scope: "normalizeAssignmentScope (aro_scope role) (ain_scopeType input) (ain_scopeId input) = Inr (st, sid)"
    and exists: "assertResourceExists db st sid ?tenant = Inr ()" "assertRuntimeScopeEnabled db st sid ?tenant = Inr ()"
    and db': "db' = db\<lparr>db_assignments := db_assignments db @ [(newId, new_assignment ?tenant who (ain_roleId input) st sid source input)]\<rparr>"
    by metis
  let ?a = "new_assignment ?tenant who (ain_roleId input) st sid source input"
  have fits: "scope_fits (aro_scope role) st sid" by (rule normalize_scope_fits [OF scope])
  have a: "(newId, ?a) \<in> set (db_assignments db')" by (simp add: db')
  have confers: "confers db' now ?t who p (st, the sid) ?a" if "reaches db' ?t p role (st, the sid) st sid"
    using that role assms(3,4) role_visible [OF tenant assms(5) [OF role(1)]]
    by (auto simp: confers_def new_assignment_def db' acts_for_def role_permission_ids_def)
  have access: "has_access db' now ?t who p (st, the sid)" if "reaches db' ?t p role (st, the sid) st sid"
    using confers [OF that] a own_candidate [of p] unfolding has_access_def by blast
  show thesis
  proof (rule that [OF who])
    show "\<exists>role. map_of (db_roles db) (ain_roleId input) = Some role \<and>
      normalizeAssignmentScope (aro_scope role) (ain_scopeType input) (ain_scopeId input) = Inr (st, sid)"
      using role scope by blast
    show "has_access db' now ?t who p (st, the sid)" if "single_scope st" "st \<noteq> RuntimeResource"
    proof -
      from fits that obtain i where "sid = Some i" by (cases sid) (auto simp: scope_fits_def single_scope_def split: if_split_asm)
      with that(2) show ?thesis by (intro access) (auto intro: reach_same)
    qed
    show "has_access db' now ?t who p (st, the sid)" if "single_scope st" "st = RuntimeResource" "?tenant \<noteq> None"
    proof -
      from fits that(2) obtain i where i: "sid = Some i" by (cases sid) (auto simp: scope_fits_def split: if_split_asm)
      have "\<exists>r e. usable_runtime db ?t i r e"
        by (rule existing_runtime [where tenant = ?tenant]) (use exists i that(2,3) in \<open>simp_all add: tenantIds_Nil\<close>)
      then have "\<exists>r e. usable_runtime db' ?t i r e" by (simp add: usable_runtime_def db')
      with i that(2) show ?thesis by (intro access) (auto intro: reach_runtime)
    qed
  qed
qed

end
