(* ===== verification/Authz_Properties.thy ===== *)
theory Authz_Properties
  imports Guard_Contract Role_Queries
begin

text \<open>
  The properties of the authorization: what the evaluation decides, what the administration of roles and of
  configuration ownership keeps, what policies and guards refuse. The samples at the start are the inputs of
  the witnesses.
\<close>

section \<open>Samples\<close>

definition no_authz :: authz_db where
  "no_authz =
     \<lparr>db_permissions = [], db_roles = [], db_rolePermissions = [], db_assignments = [], db_groups = [], db_memberships = [],
      db_grants = [], db_users = [], db_apiClients = [], db_serviceAccounts = [], db_projects = [], db_engines = [],
      db_engineSets = [], db_engineSetMembers = [], db_runtimeResources = [], db_runtimeSets = [], db_runtimeSetMembers = [],
      db_externalSystems = [], db_overrides = []\<rparr>"

text \<open>The user \<open>u\<close> may edit the files of the project \<open>p\<close> of the tenant \<open>t1\<close>; the role \<open>r\<close> may view them.\<close>

definition sample_authz :: authz_db where
  "sample_authz = no_authz
     \<lparr>db_users := [''u''], db_projects := [(''p'', Some ''t1'')],
      db_grants := [(''g'', \<lparr>gnt_tenantId = Some ''t1'', gnt_userId = ''u'', gnt_permission = ''project:files:edit'',
        gnt_resourceType = Some ProjectResource, gnt_resourceId = Some ''p'', gnt_expiresAt = None\<rparr>)],
      db_roles := [(''r'', \<lparr>aro_tenantId = Some ''t1'', aro_key = ''custom.viewer'', aro_name = ''Viewer'', aro_scope = ProjectResource,
        aro_isCustom = True, aro_isEditable = True, aro_isAssignable = True, aro_isArchived = False, aro_source = ''manual'',
        aro_sourceRef = None, aro_ownershipMode = ''manual'', aro_driftStatus = None\<rparr>)],
      db_rolePermissions := [(''r'', ''project:files:view'')]\<rparr>"

definition sample_policy :: "string \<Rightarrow> jsval option \<Rightarrow> policy_row" where
  "sample_policy effect conditions =
     \<lparr>pol_tenantId = None, pol_name = ''rule'', pol_description = None, pol_effect = effect, pol_priority = 1,
      pol_resourceType = None, pol_action = None, pol_conditions = conditions, pol_isActive = True\<rparr>"

lemma sample_policy_fields [simp]: "pol_tenantId (sample_policy e c) = None" "pol_effect (sample_policy e c) = e"
  "pol_resourceType (sample_policy e c) = None" "pol_action (sample_policy e c) = None" "pol_conditions (sample_policy e c) = c"
  "pol_isActive (sample_policy e c)" "pol_name (sample_policy e c) = ''rule''"
  by (simp_all add: sample_policy_def)

definition sample_store :: "policy_row list \<Rightarrow> policy_store" where
  "sample_store ps = \<lparr>pst_policies = map (Pair ''rule'') ps, pst_ownership = [], pst_decisions = []\<rparr>"

definition sample_product :: "policy_row list \<Rightarrow> product_db" where
  "sample_product ps =
     \<lparr>pdb_authz = sample_authz, pdb_policies = sample_store ps, pdb_files = [(''f'', ''p'')], pdb_folders = [], pdb_versions = [],
      pdb_repositories = [], pdb_deployments = [], pdb_locks = [(''l'', ''f'')], pdb_filters = [], pdb_migrating = []\<rparr>"

definition sample_request :: "string option \<Rightarrow> jsval \<Rightarrow> api_request" where
  "sample_request ip params =
     \<lparr>arq_userId = Some ''u'', arq_mfaVerified = False, arq_tenantId = Some ''t1'', arq_engineId = None, arq_ip = ip,
      arq_userAgent = None, arq_params = params, arq_body = JUndef, arq_query = JUndef\<rparr>"

definition no_options :: action_options where
  "no_options =
     \<lparr>aop_resourceResolver = None, aop_resourceIdFrom = None, aop_resourceIdKey = None, aop_collectionIdsFrom = None,
      aop_collectionIdsKey = None, aop_acceptedPermissions = [], aop_migrationPermission = None\<rparr>"

definition utc :: calendar where
  "utc = \<lparr>cal_time = (\<lambda>tz t. Some (nat (t div 3600000 mod 24), nat (t div 60000 mod 60))), cal_day = (\<lambda>t. (t div 86400000 + 4) mod 7)\<rparr>"

lemma sample_tenant [simp]: "tenantIdsForAuthz (Some ''t1'') = [''t1'']" "normalizeTenantIdForPersistence (Some ''t1'') = Some ''t1''"
  "effectiveProjectTenantId (Some ''t1'') = ''t1''"
  by (simp_all add: tenantIdsForAuthz_def normalizeTenantIdForAuthz_def normalizeTenantIdForPersistence_def trimmed_def trim_def
      is_space_def isOssDefaultTenantId_def OSS_DEFAULT_TENANT_IDS_def OSS_DEFAULT_TENANT_ID_def OSS_LEGACY_DEFAULT_TENANT_ID_def
      effectiveProjectTenantId_def)

lemma sample_access: "has_access sample_authz now (Some ''t1'') (UserPrincipal, ''u'') ''project:files:edit'' (ProjectResource, ''p'')"
proof -
  have "\<exists>(k, g) \<in> set (db_grants sample_authz). grant_gives sample_authz now (Some ''t1'') ''u'' ''project:files:edit'' (ProjectResource, ''p'') g"
    by (simp add: sample_authz_def no_authz_def grant_gives_def unexpired_at_def tenantScopedWhere_def)
  with own_candidate [of "''project:files:edit''"] show ?thesis unfolding has_access_def by auto
qed

lemma global_policy [simp]: "tenant_filter t None"
  by (simp add: tenant_filter_def split: option.split)


text \<open>The guard of the heartbeat of a lock, which the registry declares last.\<close>

definition heartbeat :: action_definition where
  "heartbeat = action ''project.git.locks.heartbeat'' ''project:files:edit'' ProjectResource ''manage'' ''low'' False
     [(''project.files.lock.heartbeat'', ''disable'')] [(''PUT'', ''/git-api/locks/:lockId/heartbeat'', ''project.byGitLockId'')]"

lemma heartbeat_fields [simp]: "act_permissionId heartbeat = ''project:files:edit''" "act_resourceType heartbeat = ProjectResource"
  "act_actionId heartbeat = ''project.git.locks.heartbeat''"
  "act_routes heartbeat = [(''PUT'', ''/git-api/locks/:lockId/heartbeat'', ''project.byGitLockId'')]"
  by (simp_all add: heartbeat_def action_def)

lemma heartbeat_last: "\<exists>as. AUTHZ_ACTIONS = as @ [heartbeat]"
proof -
  have "\<exists>as. project_actions_7 = as @ [heartbeat]"
    unfolding project_actions_7_def heartbeat_def by (metis append_Cons append_Nil)
  then show ?thesis unfolding AUTHZ_ACTIONS_def PROJECT_AUTHZ_ACTIONS_def by (metis append_assoc)
qed

lemma heartbeat_known: "assertKnownAuthzAction ''project.git.locks.heartbeat'' = Inr heartbeat"
proof -
  from heartbeat_last obtain as where eq: "AUTHZ_ACTIONS = as @ [heartbeat]" by blast
  show ?thesis unfolding assertKnownAuthzAction_def getAuthzActionDefinition_def eq by simp
qed


lemma heartbeat_permitted:
  "permitted (sample_product ps) now ''project:files:edit'' (user_context ''u'' (Some ''t1'') ProjectResource (Some ''p'')) = Inr True"
  by (simp add: permitted_True sample_access sample_product_def)

definition lock_request :: "string option \<Rightarrow> api_request" where
  "lock_request ip = sample_request ip (JObj [(''lockId'', JStr ''l'')])"

definition lock_resource :: resolved_resource where
  "lock_resource = resolved ProjectResource (Some ''p'') [(''lockId'', ''l''), (''fileId'', ''f''), (''projectId'', ''p'')]"

abbreviation lock_context :: permission_context where
  "lock_context \<equiv> user_context ''u'' (Some ''t1'') ProjectResource (Some ''p'')"

lemma lock_resource_fields [simp]: "rsv_type lock_resource = ProjectResource" "rsv_id lock_resource = Some ''p''"
  "\<not> rsv_unowned lock_resource"
  by (simp_all add: lock_resource_def resolved_def)

lemma lock_request_fields [simp]: "arq_userId (lock_request ip) = Some ''u''" "arq_tenantId (lock_request ip) = Some ''t1''"
  "arq_ip (lock_request ip) = ip" "\<not> arq_mfaVerified (lock_request ip)"
  by (simp_all add: lock_request_def sample_request_def)




section \<open>Permissions and roles\<close>

text \<open>C5: An evaluation allows exactly what some active assignment of the caller, or of a group the caller is in,
  confers on the resource, or an explicit grant gives; the sources it reports are assignments that confer it.\<close>

theorem permission_evaluation_is_access:
  assumes "resolvePermissionPrincipal ctx = Inr who" and "pcx_resourceType ctx = Some rt" and "pcx_resourceId ctx = Some i"
    and "i \<noteq> []" and "evaluatePermission db now permission ctx = Inr e"
  shows "(pev_allowed e \<longleftrightarrow> has_access db now (pcx_tenantId ctx) who permission (rt, i)) \<and>
    (\<forall>(k, a) \<in> source_rows (pev_sources e). (k, a) \<in> set (db_assignments db) \<and>
      (\<exists>p \<in> set (compatiblePermissionCandidates permission). confers db now (pcx_tenantId ctx) who p (rt, i) a))"
  using evaluation_access [OF assms] by blast

theorem permission_evaluation_is_access_witness:
  "\<exists>e. evaluatePermission sample_authz 0 ''project:files:edit'' (user_context ''u'' (Some ''t1'') ProjectResource (Some ''p'')) = Inr e \<and>
     pev_allowed e"
proof -
  let ?ctx = "user_context ''u'' (Some ''t1'') ProjectResource (Some ''p'')"
  have who: "resolvePermissionPrincipal ?ctx = Inr (UserPrincipal, ''u'')" by (rule caller_principal) simp
  then obtain e where e: "evaluatePermission sample_authz 0 ''project:files:edit'' ?ctx = Inr e" using evaluation_total by blast
  have "pev_allowed e"
    using permission_evaluation_is_access [OF who _ _ _ e, of ProjectResource "''p''"] sample_access [of 0] by (simp add: user_context_def)
  with e show ?thesis by blast
qed



text \<open>C15: A policy whose stored conditions are not a valid document stops the decision. The gate fails with the error of
  invalid conditions exactly when some active policy that applies to the request has a stored text that is not JSON or that
  the schema of the conditions does not admit, whatever its effect and priority and whatever the other policies decide; the
  evaluation, once it knows the base permission, fails with that error exactly then too; and nothing is logged. So such a
  policy is neither skipped nor taken for one without conditions.\<close>

theorem malformed_policy_stops_decisions:
  shows "(evaluateGate cal st now permission ctx = Inl InvalidConditions \<longleftrightarrow>
      (\<exists>p \<in> request_policies st permission ctx. invalid_document (pol_conditions p))) \<and>
    (\<forall>base. hasPermission db now permission (ecx_permission ctx) = Inr base \<longrightarrow>
      (evaluate cal db st now permission ctx = Inl InvalidConditions \<longleftrightarrow>
        (\<exists>p \<in> request_policies st permission ctx. invalid_document (pol_conditions p)))) \<and>
    (\<forall>p \<in> request_policies st permission ctx. invalid_document (pol_conditions p) \<longrightarrow>
      evaluateAndLog cal db st now permission ctx \<noteq> Inr out)"
  using gate_refuses_documents evaluate_refuses_documents invalid_document_stops by blast

theorem malformed_policy_stops_decisions_witness:
  "evaluateGate utc (sample_store [sample_policy ''allow'' (Some (JObj [])), sample_policy ''deny'' (Some (JObj [(''always'', JBool True)]))])
     0 ''project:files:edit'' (bare_context (user_context ''u'' None ProjectResource None)) = Inl InvalidConditions"
proof -
  let ?p = "sample_policy ''deny'' (Some (JObj [(''always'', JBool True)]))"
  have "?p \<in> request_policies (sample_store [sample_policy ''allow'' (Some (JObj [])), ?p]) ''project:files:edit''
      (bare_context (user_context ''u'' None ProjectResource None))"
    by (simp add: request_policies_def sample_store_def policy_applies_def)
  moreover have "invalid_document (pol_conditions ?p)"
    by (simp add: invalid_document_def PolicyConditionSchema_def strict_object_def)
  ultimately show ?thesis using malformed_policy_stops_decisions by blast
qed

text \<open>C17: When a role is newly assigned to a principal for one resource, the principal has every permission of the role
  on that resource, until the assignment expires. (A runtime resource needs the tenant of the assignment.)\<close>

theorem assigned_role_gives_access:
  assumes "assignRole newId input db = Inr (newId, db')" and "map_of (db_assignments db) newId = None"
    and "map_of (db_roles db) (ain_roleId input) = Some role" and "aro_tenantId role \<noteq> Some []"
    and "normalizeAssignmentPrincipal input = Inr who"
    and "normalizeAssignmentScope (aro_scope role) (ain_scopeType input) (ain_scopeId input) = Inr (scopeType, scopeId)"
    and "single_scope scopeType" and "scopeType = RuntimeResource \<Longrightarrow> normalizeTenantIdForPersistence (ain_tenantId input) \<noteq> None"
    and "p \<in> set (role_permission_ids db (ain_roleId input))" and "unexpired_at now (ain_expiresAt input)"
  shows "has_access db' now (ain_tenantId input) who p (scopeType, the scopeId)"
proof -
  from assigned_access [OF assms(1,2,9,10)] assms(3-6) obtain st sid where
    "normalizeAssignmentScope (aro_scope role) (ain_scopeType input) (ain_scopeId input) = Inr (st, sid)"
    and "single_scope st \<Longrightarrow> st = RuntimeResource \<Longrightarrow> normalizeTenantIdForPersistence (ain_tenantId input) \<noteq> None \<Longrightarrow>
      has_access db' now (ain_tenantId input) who p (st, the sid)"
    and "single_scope st \<Longrightarrow> st \<noteq> RuntimeResource \<Longrightarrow> has_access db' now (ain_tenantId input) who p (st, the sid)"
    by (metis Inr_inject option.inject)
  with assms(6-8) show ?thesis by (cases "st = RuntimeResource") simp_all
qed

definition sample_assignment :: assignment_input where
  "sample_assignment =
     \<lparr>ain_tenantId = Some ''t1'', ain_userId = Some ''u'', ain_principalType = None, ain_principalId = None, ain_roleId = ''r'',
      ain_scopeType = None, ain_scopeId = Some ''p'', ain_source = None, ain_sourceRef = None, ain_ownershipMode = None,
      ain_expiresAt = Some 1000\<rparr>"

theorem assigned_role_gives_access_witness:
  "\<exists>db'. assignRole ''a'' sample_assignment sample_authz = Inr (''a'', db') \<and>
     has_access db' 999 (Some ''t1'') (UserPrincipal, ''u'') ''project:files:view'' (ProjectResource, ''p'')"
proof -
  have "\<exists>db'. assignRole ''a'' sample_assignment sample_authz = Inr (''a'', db')"
    by (simp add: assignRole_def sample_assignment_def sample_authz_def no_authz_def Let_def normalizeAssignmentPrincipal_def
        assertAssignablePrincipalExists_def assertMachinePrincipalCanReceiveRole_def MACHINE_PRINCIPAL_TYPES_def
        normalizeAssignmentScope_def assertResourceExists_def assertRuntimeScopeEnabled_def or_empty_def store_assignment_def
        find_row_def tenantScopedWhere_def)
  then obtain db' where run: "assignRole ''a'' sample_assignment sample_authz = Inr (''a'', db')" by blast
  have "has_access db' 999 (ain_tenantId sample_assignment) (UserPrincipal, ''u'') ''project:files:view'' (ProjectResource, the (Some ''p''))"
    by (rule assigned_role_gives_access [OF run, where role = "snd (hd (db_roles sample_authz))"])
      (simp_all add: sample_assignment_def sample_authz_def no_authz_def normalizeAssignmentPrincipal_def normalizeAssignmentScope_def
        role_permission_ids_def unexpired_at_def single_scope_def Let_def)
  with run show ?thesis by (simp add: sample_assignment_def)
qed

section \<open>Actions, policies and guards\<close>

text \<open>C20: The check that the module of the actions runs when it is loaded finds, for any lists of actions and resolvers,
  exactly their defects: the resolver ids and the action ids that occur more than once, the actions without a surface, and
  the resolvers of routes that do not exist. The registry of the program has none; so the lookup of an action's id finds
  that action, and each action needs a permission of the catalog (which the check does not look at).\<close>

theorem action_registry_is_sound:
  "(\<forall>actions resolvers. set (validateAuthzActionRegistry actions resolvers) =
      DuplicateResolver ` {i. 2 \<le> count_list (map fst resolvers) i} \<union>
      DuplicateAction ` {i. 2 \<le> count_list (map act_actionId actions) i} \<union>
      {NoSurface (act_actionId a) | a. a \<in> set actions \<and> act_ui a = []} \<union>
      {UnknownResolver (act_actionId a) v | a m r v. a \<in> set actions \<and> (m, r, v) \<in> set (act_routes a) \<and> v \<notin> set (map fst resolvers)}) \<and>
   validateAuthzActionRegistry AUTHZ_ACTIONS AUTHZ_RESOURCE_RESOLVERS = [] \<and>
   (\<forall>a \<in> set AUTHZ_ACTIONS. assertKnownAuthzAction (act_actionId a) = Inr a \<and> known_permission (act_permissionId a))"
proof (intro conjI allI ballI)
  show "set (validateAuthzActionRegistry actions resolvers) =
      DuplicateResolver ` {i. 2 \<le> count_list (map fst resolvers) i} \<union>
      DuplicateAction ` {i. 2 \<le> count_list (map act_actionId actions) i} \<union>
      {NoSurface (act_actionId a) | a. a \<in> set actions \<and> act_ui a = []} \<union>
      {UnknownResolver (act_actionId a) v | a m r v. a \<in> set actions \<and> (m, r, v) \<in> set (act_routes a) \<and> v \<notin> set (map fst resolvers)}"
    for actions resolvers
    unfolding registry_errors_set repeated_def unusable_def by (rule Un_assoc [symmetric])
  show "known_permission (act_permissionId a)" if "a \<in> set AUTHZ_ACTIONS" for a
    using actions_sound that unfolding action_sound_def list_all_iff by blast
qed (fact registry_passes, rule action_found)

theorem action_registry_is_sound_witness:
  "{DuplicateAction ''project.git.locks.heartbeat'', UnknownResolver ''project.git.locks.heartbeat'' ''project.byGitLockId''}
     \<subseteq> set (validateAuthzActionRegistry [heartbeat, heartbeat] []) \<and>
   assertKnownAuthzAction ''project.git.locks.heartbeat'' = Inr heartbeat"
proof -
  note found = action_registry_is_sound [THEN conjunct1, rule_format, of "[heartbeat, heartbeat]" "[]"]
  have "2 \<le> count_list (map act_actionId [heartbeat, heartbeat]) ''project.git.locks.heartbeat''" by simp
  then have "DuplicateAction ''project.git.locks.heartbeat'' \<in> set (validateAuthzActionRegistry [heartbeat, heartbeat] [])"
    unfolding found by blast
  moreover have "UnknownResolver (act_actionId heartbeat) ''project.byGitLockId'' \<in> set (validateAuthzActionRegistry [heartbeat, heartbeat] [])"
    unfolding found by (rule UnI2) (force simp del: heartbeat_fields(3))
  moreover have "heartbeat \<in> set AUTHZ_ACTIONS" using heartbeat_last in_set_conv_decomp by metis
  with action_registry_is_sound have "assertKnownAuthzAction (act_actionId heartbeat) = Inr heartbeat" by blast
  ultimately show ?thesis by simp
qed

text \<open>C21: The gate, when it answers, refuses exactly if a deny policy of the request matches, or there is an allow
  policy of the request and none matches.\<close>

theorem gate_refuses_exactly:
  assumes "evaluateGate cal st now permission ctx = Inr r"
  shows "evr_decision r = ''deny'' \<longleftrightarrow>
    matching cal st now permission ctx ''deny'' \<noteq> {} \<or>
    ((\<exists>p \<in> request_policies st permission ctx. pol_effect p = ''allow'') \<and> matching cal st now permission ctx ''allow'' = {})"
  by (rule gate_decision [OF assms])

theorem gate_refuses_exactly_witness:
  "matching utc (sample_store [sample_policy ''deny'' (Some (JObj []))]) 0 ''project:files:edit''
     (bare_context (user_context ''u'' None ProjectResource None)) ''deny'' \<noteq> {}"
proof -
  let ?st = "sample_store [sample_policy ''deny'' (Some (JObj []))]" and ?ctx = "bare_context (user_context ''u'' None ProjectResource None)"
  have "\<exists>r. evaluateGate utc ?st 0 ''project:files:edit'' ?ctx = Inr r \<and> evr_decision r = ''deny''"
    by (simp add: evaluateGate_def context_policies_def getApplicablePolicies_def sample_store_def policy_applies_def
        by_priority_def to_definition_def parseConditions_def PolicyConditionSchema_def strict_object_def
        optional_field_def evaluateConditions_def)
  then obtain r where r: "evaluateGate utc ?st 0 ''project:files:edit'' ?ctx = Inr r" "evr_decision r = ''deny''" by blast
  from gate_refuses_exactly [OF r(1)] r(2) show ?thesis
    by (auto simp: request_policies_def sample_store_def)
qed

text \<open>C26: Whatever writers claim and release configured objects, in any interleaving and with rows they read at any
  earlier time, no two rows own the same object or key, rows keep what they own and are never lost, and a
  manual change that succeeds was made on the very row that its writer had read.\<close>

theorem configuration_has_one_owner:
  assumes "ownership_run (rows # past)"
  shows "ownership_inv rows \<and> (\<forall>r \<in> set past. later r rows) \<and>
    (\<forall>r \<in> set (rows # past). \<forall>i a rows'. map_of r i = Some a \<longrightarrow> claim_seen now (Some (i, a)) rows = Inr rows' \<longrightarrow>
       map_of rows i = Some a \<and> ownership_run (rows' # rows # past))"
proof (intro conjI ballI allI impI)
  from run_good [OF assms] have good: "good_run (rows # past)" by blast
  then show "ownership_inv rows" "\<And>r. r \<in> set past \<Longrightarrow> later r rows" by (simp_all add: good_run_def)
  fix r i a rows' assume r: "r \<in> set (rows # past)" "map_of r i = Some a" and c: "claim_seen now (Some (i, a)) rows = Inr rows'"
  from c obtain f where "update_generation i (own_generation a) True f rows = Inr rows'"
    by (auto simp: claim_seen_def split: if_split_asm)
  then obtain b where "map_of rows i = Some b" "own_generation b = own_generation a" by (auto simp: update_generation_cases)
  with seen_now [OF good r] show "map_of rows i = Some a" by simp
  have "seen_in (rows # past) (Some (i, a))" using r unfolding seen_in_def by blast
  from ownership_run.claims_object [OF assms this c] show "ownership_run (rows' # rows # past)" .
qed

definition sample_claim :: configuration_claim where
  "sample_claim =
     \<lparr>ccl_objectType = ''role'', ccl_objectId = ''r'', ccl_tenantId = None, ccl_configKey = ''k'', ccl_sourceRef = ''bundle'',
      ccl_mode = ''config_warn'', ccl_sourceHash = ''h'', ccl_appliedAt = 1, ccl_expectedGeneration = None\<rparr>"

theorem configuration_has_one_owner_witness:
  "\<exists>rows. claim_configuration_seen ''id'' sample_claim [] [] = Inr rows \<and> rows \<noteq> [] \<and> ownership_inv rows"
proof -
  have "\<exists>o'. claim_configuration_seen ''id'' sample_claim [] [] = Inr [(''id'', o')]"
    by (simp add: claim_configuration_seen_def insert_ownership_def)
  then obtain rows where rows: "claim_configuration_seen ''id'' sample_claim [] [] = Inr rows" "rows \<noteq> []" by blast
  have "ownership_run [rows, []]"
    by (rule claims_configuration [OF starts, of "[]"]) (use rows in \<open>simp_all add: claim_matches_def\<close>)
  with configuration_has_one_owner rows show ?thesis by blast
qed





lemma gate_total: "\<forall>p \<in> set ps. \<exists>b. met (pdf_conditions p) = Inr b \<Longrightarrow> \<exists>r. gate_loop met m h ps = Inr r"
proof (induction ps arbitrary: m h)
  case (Cons p ps)
  then obtain b where "met (pdf_conditions p) = Inr b" by auto
  with Cons show ?case by (cases b) (auto simp: Let_def)
qed simp

text \<open>A deny policy that looks at the address of the caller and at nothing else.\<close>

definition address_rule :: "policy_row \<Rightarrow> string list \<Rightarrow> bool" where
  "address_rule p ranges \<longleftrightarrow> pol_effect p = ''deny'' \<and> ranges \<noteq> [] \<and>
     parseConditions (pol_conditions p) = Inr \<lparr>pcn_timeWindow = None, pcn_userAttribute = None, pcn_resourceAttribute = None,
       pcn_environment = Some \<lparr>env_ipRange = Some ranges, env_requireMfa = None\<rparr>\<rparr>"

lemma address_rule_met:
  "address_rule p ranges \<Longrightarrow> policy_matches cal now ctx p \<longleftrightarrow>
     truthy_str (ecx_ipAddress ctx) \<and> list_ex (ipAddressMatchesRange (the (ecx_ipAddress ctx))) ranges"
  by (auto simp: address_rule_def policy_matches_def evaluateConditions_def evaluateEnvironment_def)

lemma address_gate:
  assumes "\<forall>p \<in> request_policies st permission ctx. \<exists>ranges. address_rule p ranges"
  obtains r where "evaluateGate cal st now permission ctx = Inr r"
    and "evr_decision r = ''deny'' \<longleftrightarrow> (\<exists>p \<in> request_policies st permission ctx. policy_matches cal now ctx p)"
proof -
  have parsed: "\<exists>d. to_definition row = Inr d" if "snd row \<in> request_policies st permission ctx" for row
    using assms that by (fastforce simp: to_definition_def address_rule_def)
  have "\<exists>ps. context_policies st permission ctx = Inr ps"
    unfolding context_policies_def getApplicablePolicies_def map_res_ok
    by (auto simp: by_priority_def request_policies_def image_iff intro!: parsed) force
  then obtain ps where ps: "context_policies st permission ctx = Inr ps" by blast
  have "\<exists>b. evaluateConditions cal (pdf_conditions d) ctx (decision_time now ctx) = Inr b" if "d \<in> set ps" for d
  proof -
    have "pdf_row d \<in> request_policies st permission ctx" using context_rows(1) [OF ps] that by blast
    with assms obtain ranges where "address_rule (pdf_row d) ranges" by blast
    with context_rows(2) [OF ps that] have "pcn_timeWindow (pdf_conditions d) = None" by (auto simp: address_rule_def)
    then show ?thesis by (simp add: evaluateConditions_def)
  qed
  then have "\<exists>r. gate_loop (\<lambda>c. evaluateConditions cal c ctx (decision_time now ctx)) None False ps = Inr r"
    by (intro gate_total) blast
  then obtain r where r: "evaluateGate cal st now permission ctx = Inr r" by (auto simp: evaluateGate_def ps)
  moreover have "pol_effect p = ''deny''" if "p \<in> request_policies st permission ctx" for p
    using assms that by (auto simp: address_rule_def)
  ultimately show thesis using that [OF r] gate_decision [OF r] by (force simp: matching_def)
qed

text \<open>C31: A deny policy that looks at addresses only binds requests only. If every policy of an action is of this kind, the
  decision without a request is made as if there were none, while the gate of the guard refuses a request from
  an address in one of the ranges.\<close>

theorem address_rules_bind_requests_only:
  assumes "assertKnownAuthzAction actionId = Inr act"
    and "ctx = user_context u (if act_resourceType act = ProjectResource then Some (effectiveProjectTenantId tenantId) else nonempty tenantId)
      (act_resourceType act) (nonempty i)"
    and "permitted db now (act_permissionId act) ctx = Inr True"
    and "\<forall>p \<in> request_policies (pdb_policies db) (act_permissionId act) (bare_context ctx). \<exists>ranges. address_rule p ranges"
  shows "evaluateResolvedAuthzAction cal db now actionId u tenantId (act_resourceType act) i \<and>
    (\<forall>(req :: api_request) p ranges ip. p \<in> request_policies (pdb_policies db) (act_permissionId act) (bare_context ctx) \<and> address_rule p ranges \<and>
       arq_ip req = Some ip \<and> ip \<noteq> [] \<and> list_ex (ipAddressMatchesRange ip) ranges \<longrightarrow>
       (\<exists>reason. pass_gate cal db now (act_permissionId act) (request_context req ctx) = Inl (PolicyDenied reason)))"
proof (intro conjI allI impI)
  let ?p = "act_permissionId act"
  have same: "request_policies (pdb_policies db) ?p (request_context req ctx) = request_policies (pdb_policies db) ?p (bare_context ctx)" for req :: api_request
    by (simp add: request_policies_def context_type_def request_context_def bare_context_def)
  obtain r where "evaluateGate cal (pdb_policies db) now ?p (bare_context ctx) = Inr r"
    and "evr_decision r = ''deny'' \<longleftrightarrow> (\<exists>p \<in> request_policies (pdb_policies db) ?p (bare_context ctx). policy_matches cal now (bare_context ctx) p)"
    using address_gate [OF assms(4)] by blast
  moreover have "\<not> policy_matches cal now (bare_context ctx) p"
    if "p \<in> request_policies (pdb_policies db) ?p (bare_context ctx)" for p
    using assms(4) that address_rule_met [of p _ cal now "bare_context ctx"] by (auto simp: bare_context_def)
  ultimately have "pass_gate cal db now ?p (bare_context ctx) = Inr ()" by (auto simp: pass_gate_def)
  then have "resolved_decision cal db now actionId u tenantId (act_resourceType act) i = Inr ()"
    using assms(3) by (simp add: resolved_decision_def assms(1) assms(2) [symmetric] Let_def)
  then show "evaluateResolvedAuthzAction cal db now actionId u tenantId (act_resourceType act) i"
    by (simp add: evaluateResolvedAuthzAction_def)
  fix req :: api_request and p ranges ip
  assume h: "p \<in> request_policies (pdb_policies db) ?p (bare_context ctx) \<and> address_rule p ranges \<and>
    arq_ip req = Some ip \<and> ip \<noteq> [] \<and> list_ex (ipAddressMatchesRange ip) ranges"
  obtain r where r: "evaluateGate cal (pdb_policies db) now ?p (request_context req ctx) = Inr r"
    and deny: "evr_decision r = ''deny'' \<longleftrightarrow> (\<exists>p \<in> request_policies (pdb_policies db) ?p (request_context req ctx).
      policy_matches cal now (request_context req ctx) p)"
    using address_gate [of "pdb_policies db" ?p "request_context req ctx"] assms(4) unfolding same by blast
  from h have "policy_matches cal now (request_context req ctx) p"
    using address_rule_met [of p ranges cal now "request_context req ctx"] by (simp add: request_context_def)
  with h deny have "evr_decision r = ''deny''" unfolding same by blast
  with r show "\<exists>reason. pass_gate cal db now ?p (request_context req ctx) = Inl (PolicyDenied reason)"
    by (simp add: pass_gate_def)
qed

text \<open>The addresses 10.1.2.3 and 10.0.0.0 as words.\<close>

lemma digits_3: "digits_of k 3 x = [take_bit k (drop_bit k (drop_bit k x)), take_bit k (drop_bit k x), take_bit k x]"
  by (simp add: numeral_3_eq_3)

lemma digits_4: "digits_of k 4 x = digits_of k 3 (drop_bit k x) @ [take_bit k x]"
  using digits_of.simps(2) [of k 3 x] by simp

lemma show_sample: "show_nat 10 = ''10''" "show_nat 0 = ''0''" "show_nat (Suc 0) = ''1''" "show_nat 2 = ''2''" "show_nat 3 = ''3''"
  "show_nat 8 = ''8''"
  by code_simp+

lemma sample_addresses: "ipv4_text 167838211 = ''10.1.2.3''" "ipv4_text 167772160 = ''10.0.0.0''"
  by (simp_all add: ipv4_text_def digits_3 digits_4 drop_bit_eq_div take_bit_eq_mod show_sample)

lemma office_match: "ipAddressMatchesRange ''10.1.2.3'' ''10.0.0.0/8''"
  using ipv4_range [of 167838211 167772160 8] by (simp add: sample_addresses cidr_text_def show_sample)

definition office_rule :: policy_row where
  "office_rule = sample_policy ''deny'' (Some (JObj [(''environment'', JObj [(''ipRange'', JArr [JStr ''10.0.0.0/8''])])]))"

lemma office_conditions: "PolicyConditionSchema (JObj [(''environment'', JObj [(''ipRange'', JArr [JStr ''10.0.0.0/8''])])]) =
    Some \<lparr>pcn_timeWindow = None, pcn_userAttribute = None, pcn_resourceAttribute = None,
      pcn_environment = Some \<lparr>env_ipRange = Some [''10.0.0.0/8''], env_requireMfa = None\<rparr>\<rparr>"
  by (simp add: PolicyConditionSchema_def strict_object_def optional_field_def environment_schema_def list_of_def ip_range_schema_def
      text_between_def trim_def is_space_def)

lemma office_address: "address_rule office_rule [''10.0.0.0/8'']"
  by (simp add: address_rule_def office_rule_def parseConditions_def office_conditions)

lemma office_policies: "request_policies (pdb_policies (sample_product [office_rule])) q (bare_context lock_context) = {office_rule}"
  by (auto simp: request_policies_def sample_product_def sample_store_def office_rule_def policy_applies_def)

theorem address_rules_bind_requests_only_witness:
  "evaluateResolvedAuthzAction utc (sample_product [office_rule]) 0 ''project.git.locks.heartbeat'' ''u'' (Some ''t1'') ProjectResource (Some ''p'') \<and>
     (\<exists>reason. pass_gate utc (sample_product [office_rule]) 0 ''project:files:edit'' (request_context (lock_request (Some ''10.1.2.3'')) lock_context) =
        Inl (PolicyDenied reason))"
proof -
  have "\<forall>p \<in> request_policies (pdb_policies (sample_product [office_rule])) ''project:files:edit'' (bare_context lock_context).
      \<exists>ranges. address_rule p ranges"
    using office_address unfolding office_policies by blast
  with address_rules_bind_requests_only [OF heartbeat_known, of lock_context "''u''" "Some ''t1''" "Some ''p''" "sample_product [office_rule]" 0 utc]
  have "evaluateResolvedAuthzAction utc (sample_product [office_rule]) 0 ''project.git.locks.heartbeat'' ''u'' (Some ''t1'') ProjectResource (Some ''p'') \<and>
    (\<forall>req p ranges ip. p = office_rule \<and> address_rule p ranges \<and> arq_ip req = Some ip \<and> ip \<noteq> [] \<and> list_ex (ipAddressMatchesRange ip) ranges \<longrightarrow>
       (\<exists>reason. pass_gate utc (sample_product [office_rule]) 0 ''project:files:edit'' (request_context req lock_context) =
          Inl (PolicyDenied reason)))"
    by (simp add: heartbeat_permitted office_policies nonempty_def)
  moreover have "list_ex (ipAddressMatchesRange ''10.1.2.3'') [''10.0.0.0/8'']" using office_match by simp
  ultimately show ?thesis using office_address lock_request_fields(3) by blast
qed



text \<open>C37: The projects that a collection guard lists are exactly those that were asked for, that the tenant of the request sees
  and that the caller has access to; the existing projects that it does not list are reported as denied.\<close>

theorem listed_projects_are_accessible:
  assumes "resolveProjectVisibleCollection db now req u p options = Inr c" and "ids_named db" and "u \<noteq> []"
  shows "rcl_ids c = filter (\<lambda>i. visible_project db (arq_tenantId req) i \<and>
      has_access (pdb_authz db) now (Some (effectiveProjectTenantId (arq_tenantId req))) (UserPrincipal, u) p (ProjectResource, i))
      (rcl_requestedIds c) \<and>
    rcl_deniedIds c = filter (\<lambda>i. map_of (db_projects (pdb_authz db)) i \<noteq> None \<and> i \<notin> set (rcl_ids c)) (rcl_requestedIds c)"
  using project_collection [OF assms] by blast

lemma list_request: "requested_ids (sample_request None (JObj [(''projectIds'', JArr [JStr ''p,x'', JStr ''p''])]))
    (no_options\<lparr>aop_collectionIdsFrom := Some FromParams\<rparr>) ''projectIds'' = [''p'', ''x'']"
  by (simp add: requested_ids_def no_options_def readRequestValues_def request_sources_def source_values_def sample_request_def
      listed_parts_def trim_def is_space_def set_of_list_def set_add_def)

theorem listed_projects_are_accessible_witness:
  "\<exists>c. resolveProjectVisibleCollection (sample_product []) 0 (sample_request None (JObj [(''projectIds'', JArr [JStr ''p,x'', JStr ''p''])]))
      ''u'' ''project:files:edit'' (no_options\<lparr>aop_collectionIdsFrom := Some FromParams\<rparr>) = Inr c \<and>
    rcl_requestedIds c = [''p'', ''x''] \<and> rcl_ids c = [''p''] \<and> rcl_deniedIds c = []"
proof -
  let ?req = "sample_request None (JObj [(''projectIds'', JArr [JStr ''p,x'', JStr ''p''])])"
  let ?options = "no_options\<lparr>aop_collectionIdsFrom := Some FromParams\<rparr>"
  have t: "arq_tenantId ?req = Some ''t1''" by (simp add: sample_request_def)
  have rows: "db_projects (pdb_authz (sample_product [])) = [(''p'', Some ''t1'')]" by (simp add: sample_product_def sample_authz_def)
  have authz: "pdb_authz (sample_product []) = sample_authz" by (simp add: sample_product_def)
  obtain c where c: "resolveProjectVisibleCollection (sample_product []) 0 ?req ''u'' ''project:files:edit'' ?options = Inr c"
      "rcl_requestedIds c = [''p'', ''x'']"
    by (simp add: resolveProjectVisibleCollection_def Let_def list_request t rows isProjectTenantVisible_def heartbeat_permitted
        collection_of_def)
  have "ids_named (sample_product [])" by (simp add: ids_named_def sample_product_def sample_authz_def no_authz_def)
  from listed_projects_are_accessible [OF c(1) this] c(2)
  have "rcl_ids c = [''p''] \<and> rcl_deniedIds c = []"
    by (simp add: t rows [unfolded authz] authz visible_project_def isProjectTenantVisible_def sample_access)
  with c show ?thesis by blast
qed

end
