(* ===== verification/Engine_Targets.thy ===== *)
theory Engine_Targets
  imports Action_Decision Host_Broker Resolver
begin

text \<open>
  Which projects may be deployed to which engines: the targets
  (\<open>shared/src/services/platform-admin/ProjectEngineTargetService.ts\<close>), the access grants and requests that older
  parts of the product use (\<open>EngineAccessService.ts\<close>), and which engines a tenant sees
  (\<open>shared/src/engine-tenancy/visibility.ts\<close>). An operation takes the ids it generates, the time and the tables, and
  returns the tables, or the error it throws; the operations with several statements are transactions.
\<close>

section \<open>Tables\<close>

datatype deploy_mode = ManualMode | CiMode | ApiMode | ImportMode

datatype deploy_error = ConcreteEngineRequired | SourceOwned | ExternalOnly | TargetElsewhere | TargetNotFound
  | ProjectNotFound | EngineNotFound | DiagnosticsInvalid | NotSameTenant | ActiveTargetRequired | RequestNotPending
  | EngineUnknown | ProjectUnknown | PermissionFailed

record target_row =
  tgt_tenantId :: string
  tgt_projectId :: string
  tgt_engineId :: string
  tgt_status :: string
  tgt_source :: string
  tgt_sourceRef :: "string option"
  tgt_ownershipMode :: string
  tgt_sourceHash :: "string option"
  tgt_lastAppliedAt :: "int option"
  tgt_driftStatus :: "string option"
  tgt_externalSystemId :: "string option"
  tgt_externalProjectId :: "string option"
  tgt_externalEngineId :: "string option"
  tgt_externalTargetId :: "string option"
  tgt_allowManualDeploy :: bool
  tgt_allowCiDeploy :: bool
  tgt_allowApiDeploy :: bool
  tgt_allowImport :: bool
  tgt_createdById :: "string option"
  tgt_approvedById :: "string option"
  tgt_approvalStatus :: string
  tgt_approvedAt :: "int option"
  tgt_policyTags :: "string list"
  tgt_diagnostics :: "jsval option"
  tgt_lastSeenAt :: "int option"
  tgt_createdAt :: int
  tgt_updatedAt :: int

record access_row =
  acc_projectId :: string
  acc_engineId :: string
  acc_grantedById :: "string option"
  acc_autoApproved :: bool
  acc_createdAt :: int

record access_request =
  acr_projectId :: string
  acr_engineId :: string
  acr_requestedById :: string
  acr_status :: string
  acr_reviewedById :: "string option"
  acr_reviewedAt :: "int option"
  acr_createdAt :: int

text \<open>The columns of an engine beyond those of \<open>engine_row\<close>, and the environments that engines are tagged with.\<close>

record engine_info =
  eni_name :: string
  eni_type :: "string option"
  eni_baseUrl :: string
  eni_lifecycleStatus :: "string option"
  eni_deploymentIntegration :: string
  eni_connectionMode :: string
  eni_authType :: "string option"
  eni_environmentTagId :: "string option"
  eni_environmentLocked :: bool

record environment_row =
  evt_name :: string
  evt_color :: string
  evt_manualDeployAllowed :: bool

text \<open>\<open>ddb_targetMode\<close> is the \<open>projectEngineTargetMode\<close> of the platform settings, \<open>None\<close> if they cannot be read.\<close>

record deploy_db =
  ddb_product :: product_db
  ddb_projectNames :: "(string \<times> string) list"
  ddb_engineInfo :: "(string \<times> engine_info) list"
  ddb_environments :: "(string \<times> environment_row) list"
  ddb_targets :: "(string \<times> target_row) list"
  ddb_access :: "(string \<times> access_row) list"
  ddb_requests :: "(string \<times> access_request) list"
  ddb_targetMode :: "string option"

definition project_row :: "deploy_db \<Rightarrow> string \<Rightarrow> string option option" where
  "project_row db i = map_of (db_projects (pdb_authz (ddb_product db))) i"

definition full_engine :: "deploy_db \<Rightarrow> string \<Rightarrow> (engine_row \<times> engine_info) option" where
  "full_engine db i =
     (case (map_of (db_engines (pdb_authz (ddb_product db))) i, map_of (ddb_engineInfo db) i) of
        (Some e, Some d) \<Rightarrow> Some (e, d)
      | _ \<Rightarrow> None)"

definition active_engine :: "deploy_db \<Rightarrow> string \<Rightarrow> engine_row option" where
  "active_engine db i =
     (case full_engine db i of
        None \<Rightarrow> None
      | Some (e, d) \<Rightarrow> if eni_lifecycleStatus d = Some ''active'' then Some e else None)"

section \<open>Visibility\<close>

definition isEngineVisibleInTenancyContext :: "engine_row \<Rightarrow> string option \<Rightarrow> bool" where
  "isEngineVisibleInTenancyContext engine tenantId \<longleftrightarrow>
     (if eng_isShared engine then \<not> truthy_str (eng_tenantId engine)
      else truthy_str (eng_tenantId engine) \<and> (trimmed tenantId = None \<or> eng_tenantId engine = trimmed tenantId))"

definition engineTenancyVisibilityWhere :: "string option \<Rightarrow> engine_row \<Rightarrow> bool" where
  "engineTenancyVisibilityWhere tenantId engine \<longleftrightarrow>
     (case trimmed tenantId of None \<Rightarrow> eng_tenantId engine \<noteq> None | Some t \<Rightarrow> eng_tenantId engine = Some t) \<or>
     (eng_tenantId engine = None \<and> eng_isShared engine)"

definition effectiveTenantId :: "string option \<Rightarrow> string" where
  "effectiveTenantId tenantId =
     (case normalizeTenantIdForPersistence tenantId of None \<Rightarrow> OSS_DEFAULT_TENANT_ID | Some t \<Rightarrow> t)"

definition isTenantVisible :: "string option \<Rightarrow> string option \<Rightarrow> bool" where
  "isTenantVisible rowTenantId tenantId \<longleftrightarrow> normalizeTenantIdForPersistence rowTenantId = Some (effectiveTenantId tenantId)"

text \<open>The engine is shared, or belongs to the tenant of the project.\<close>

definition topologyMatchesProject :: "engine_row \<Rightarrow> string option \<Rightarrow> bool" where
  "topologyMatchesProject engine projectTenantId \<longleftrightarrow>
     (if eng_isShared engine then \<not> truthy_str (eng_tenantId engine)
      else truthy_str (eng_tenantId engine) \<and> projectTenantId = eng_tenantId engine)"

section \<open>Fields of a target\<close>

definition SOURCE_OWNED_TARGET_SOURCES :: "string list" where
  "SOURCE_OWNED_TARGET_SOURCES = [''ci'', ''api'', ''external'', ''system'', ''automation'', ''config'']"

definition isSourceOwnedProjectEngineTarget :: "string \<Rightarrow> bool" where
  "isSourceOwnedProjectEngineTarget source \<longleftrightarrow> source \<in> set SOURCE_OWNED_TARGET_SOURCES"

fun modeAllowed :: "target_row \<Rightarrow> deploy_mode \<Rightarrow> bool" where
  "modeAllowed t ManualMode = (tgt_status t = ''active'' \<and> tgt_allowManualDeploy t)"
| "modeAllowed t CiMode = (tgt_status t = ''active'' \<and> tgt_allowCiDeploy t)"
| "modeAllowed t ApiMode = (tgt_status t = ''active'' \<and> tgt_allowApiDeploy t)"
| "modeAllowed t ImportMode = (tgt_status t = ''active'' \<and> tgt_allowImport t)"

text \<open>The tags as they are stored: trimmed, without duplicates, in order.\<close>

definition normalizePolicyTags :: "resolver_lib \<Rightarrow> string list \<Rightarrow> string list" where
  "normalizePolicyTags lib tags = js_sort (localeCompare lib) (set_of_list (filter (\<lambda>t. t \<noteq> []) (map trim tags)))"

definition defaultApprovalStatus :: "string \<Rightarrow> string" where
  "defaultApprovalStatus source = (if isSourceOwnedProjectEngineTarget source then ''approved'' else ''not_required'')"

definition normalizeApprovalStatus :: "string option \<Rightarrow> string \<Rightarrow> string" where
  "normalizeApprovalStatus v source =
     (case v of
        Some s \<Rightarrow> if s \<in> {''pending'', ''approved'', ''rejected'', ''not_required''} then s else defaultApprovalStatus source
      | None \<Rightarrow> defaultApprovalStatus source)"

text \<open>An optional column that an input may leave out (\<open>None\<close>) or set to null (\<open>Some None\<close>).\<close>

definition resolveApprovedAt :: "string \<Rightarrow> int option option \<Rightarrow> int option \<Rightarrow> int \<Rightarrow> int option" where
  "resolveApprovedAt status inputApprovedAt existingApprovedAt now =
     (case inputApprovedAt of
        Some a \<Rightarrow> a
      | None \<Rightarrow> if status = ''approved'' then Some (case existingApprovedAt of None \<Rightarrow> now | Some a \<Rightarrow> a) else None)"

text \<open>\<open>ProjectEngineTargetDiagnosticsSchema\<close>\<close>

definition diagnostic_value :: "jsval \<Rightarrow> jsval option" where
  "diagnostic_value v =
     (case v of
        JStr s \<Rightarrow>
          if trim s \<noteq> [] \<and> length (trim s) \<le> 255 \<and>
            \<not> list_ex (\<lambda>p. starts_with p (lower_case (trim s))) [''http://'', ''https://'', ''ldap://'', ''ldaps://'']
          then Some (JStr (trim s)) else None
      | _ \<Rightarrow> None)"

definition nullable_value :: "jsval \<Rightarrow> jsval option" where
  "nullable_value v = (if v = JNull then Some JNull else diagnostic_value v)"

definition enum_value :: "string list \<Rightarrow> jsval \<Rightarrow> jsval option" where
  "enum_value xs v = (case v of JStr s \<Rightarrow> if s \<in> set xs then Some v else None | _ \<Rightarrow> None)"

definition DIAGNOSTIC_FIELDS :: "(string \<times> (jsval \<Rightarrow> jsval option)) list" where
  "DIAGNOSTIC_FIELDS =
     [(''source'', enum_value [''external_registration_api'', ''config_bundle'', ''manual'', ''ci'', ''api'', ''import'', ''system'', ''automation'']),
      (''owner'', diagnostic_value), (''confidence'', enum_value [''low'', ''medium'', ''high'']),
      (''externalSystemId'', diagnostic_value), (''externalProjectId'', nullable_value),
      (''externalEngineId'', nullable_value), (''externalTargetId'', nullable_value)]"

definition json_fields :: "(string \<times> jsval) list \<Rightarrow> string" where
  "json_fields kvs = ''{'' @ join '','' (map (\<lambda>(k, v). json_string k @ '':'' @
     (case v of JStr s \<Rightarrow> json_string s | _ \<Rightarrow> ''null'')) kvs) @ ''}''"

definition ProjectEngineTargetDiagnosticsSchema :: "jsval \<Rightarrow> jsval option" where
  "ProjectEngineTargetDiagnosticsSchema v =
     (let given = filter (\<lambda>(k, f). getp v k \<noteq> JUndef) DIAGNOSTIC_FIELDS;
          parsed = map (\<lambda>(k, f). (k, f (getp v k))) given;
          kvs = map (\<lambda>(k, r). (k, the r)) parsed
      in if \<not> strict_object (map fst DIAGNOSTIC_FIELDS) v then None
         else if list_ex (\<lambda>(k, r). r = None) parsed then None
         else if 4096 < byteLength (json_fields kvs) then None
         else Some (JObj kvs))"

definition stringifyDiagnostics :: "jsval option \<Rightarrow> deploy_error + jsval option" where
  "stringifyDiagnostics v =
     (case v of
        None \<Rightarrow> Inr None
      | Some d \<Rightarrow> (case ProjectEngineTargetDiagnosticsSchema d of None \<Rightarrow> Inl DiagnosticsInvalid | Some p \<Rightarrow> Inr (Some p)))"

section \<open>Targets\<close>

record target_input =
  tin_tenantId :: "string option"
  tin_projectId :: string
  tin_engineId :: string
  tin_status :: "string option"
  tin_source :: "string option"
  tin_sourceRef :: "string option"
  tin_externalSystemId :: "string option option"
  tin_externalProjectId :: "string option option"
  tin_externalEngineId :: "string option option"
  tin_externalTargetId :: "string option option"
  tin_allowManualDeploy :: "bool option"
  tin_allowCiDeploy :: "bool option"
  tin_allowApiDeploy :: "bool option"
  tin_allowImport :: "bool option"
  tin_createdById :: "string option"
  tin_approvedById :: "string option"
  tin_approvalStatus :: "string option"
  tin_approvedAt :: "int option option"
  tin_policyTags :: "string list option"
  tin_diagnostics :: "jsval option option"
  tin_ownershipMode :: "string option"
  tin_sourceHash :: "string option"
  tin_lastAppliedAt :: "int option"
  tin_driftStatus :: "string option"
  tin_allowSourceOwnedMutation :: bool

record target_update =
  tup_tenantId :: "string option"
  tup_status :: "string option"
  tup_source :: "string option"
  tup_sourceRef :: "string option option"
  tup_externalSystemId :: "string option option"
  tup_externalProjectId :: "string option option"
  tup_externalEngineId :: "string option option"
  tup_externalTargetId :: "string option option"
  tup_allowManualDeploy :: "bool option"
  tup_allowCiDeploy :: "bool option"
  tup_allowApiDeploy :: "bool option"
  tup_allowImport :: "bool option"
  tup_approvedById :: "string option option"
  tup_approvalStatus :: "string option"
  tup_approvedAt :: "int option option"
  tup_policyTags :: "string list option option"
  tup_diagnostics :: "jsval option option"
  tup_ownershipMode :: "string option"
  tup_sourceHash :: "string option"
  tup_lastAppliedAt :: "int option"
  tup_driftStatus :: "string option"
  tup_lastSeenAt :: "int option"
  tup_allowSourceOwnedMutation :: bool

text \<open>\<open>a ?? b\<close>, \<open>a || b\<close> of texts, and \<open>a !== undefined ? f(a) : b\<close>\<close>

definition given_or :: "'a option \<Rightarrow> 'a \<Rightarrow> 'a" where
  "given_or a b = (case a of None \<Rightarrow> b | Some x \<Rightarrow> x)"

definition first_of :: "'a option \<Rightarrow> 'a option \<Rightarrow> 'a option" where
  "first_of a b = (case a of None \<Rightarrow> b | Some x \<Rightarrow> Some x)"

definition text_or :: "string option \<Rightarrow> string \<Rightarrow> string" where
  "text_or a b = (if truthy_str a then the a else b)"

definition target_for :: "deploy_db \<Rightarrow> string \<Rightarrow> string \<Rightarrow> (string \<times> target_row) option" where
  "target_for db projectId engineId =
     find (\<lambda>(i, t). tgt_projectId t = projectId \<and> tgt_engineId t = engineId) (ddb_targets db)"

definition findTargetForPair :: "deploy_db \<Rightarrow> string \<Rightarrow> string \<Rightarrow> string option \<Rightarrow> (string \<times> target_row) option" where
  "findTargetForPair db projectId engineId tenantId =
     (case target_for db projectId engineId of
        None \<Rightarrow> None
      | Some (i, t) \<Rightarrow> if isTenantVisible (Some (tgt_tenantId t)) tenantId then Some (i, t) else None)"

definition assertCanChangeTarget :: "target_row \<Rightarrow> bool \<Rightarrow> deploy_error + unit" where
  "assertCanChangeTarget t allowSourceOwnedMutation = throw_if
     (\<not> (allowSourceOwnedMutation \<or> \<not> isSourceOwnedProjectEngineTarget (tgt_source t) \<or>
         (tgt_source t = ''config'' \<and> tgt_ownershipMode t = ''config_warn''))) SourceOwned"

definition assertCanSetTargetSource :: "string option \<Rightarrow> bool \<Rightarrow> deploy_error + unit" where
  "assertCanSetTargetSource source allowSourceOwnedMutation = throw_if
     (truthy_str source \<and> \<not> allowSourceOwnedMutation \<and> isSourceOwnedProjectEngineTarget (the source)) SourceOwned"

definition getProjectEngineTargetPolicyMode :: "deploy_db \<Rightarrow> string" where
  "getProjectEngineTargetPolicyMode db = given_or (ddb_targetMode db) ''manual_allowed''"

definition assertManualTargetManagementAllowed :: "deploy_db \<Rightarrow> bool \<Rightarrow> deploy_error + unit" where
  "assertManualTargetManagementAllowed db allowSourceOwnedMutation = throw_if
     (\<not> allowSourceOwnedMutation \<and> getProjectEngineTargetPolicyMode db = ''external_only'') ExternalOnly"

text \<open>The tenant of the project, if the request sees the project and the engine, and these fit together.\<close>

definition assertProjectAndEngineVisible ::
  "deploy_db \<Rightarrow> string \<Rightarrow> string \<Rightarrow> string option \<Rightarrow> deploy_error + string" where
  "assertProjectAndEngineVisible db projectId engineId tenantId =
     (case project_row db projectId of
        None \<Rightarrow> Inl ProjectNotFound
      | Some projectTenant \<Rightarrow>
          if normalizeTenantIdForPersistence projectTenant \<noteq> Some (effectiveTenantId tenantId) then Inl ProjectNotFound
          else (case active_engine db engineId of
              None \<Rightarrow> Inl EngineNotFound
            | Some engine \<Rightarrow>
                if \<not> isEngineVisibleInTenancyContext engine (Some (effectiveTenantId tenantId)) \<or>
                  \<not> topologyMatchesProject engine projectTenant
                then Inl EngineNotFound else Inr (effectiveTenantId tenantId)))"

definition replaced_target ::
  "resolver_lib \<Rightarrow> int \<Rightarrow> target_input \<Rightarrow> string \<Rightarrow> jsval option \<Rightarrow> target_row \<Rightarrow> target_row" where
  "replaced_target lib now input tenant diagnostics t =
     (let source = text_or (tin_source input) (if tgt_source t = [] then ''manual'' else tgt_source t);
          approvalStatus = normalizeApprovalStatus (tin_approvalStatus input) source;
          kept = (\<lambda>a b. case a of None \<Rightarrow> b | Some v \<Rightarrow> trimmed v)
      in t\<lparr>tgt_tenantId := tenant, tgt_status := text_or (tin_status input) ''active'', tgt_source := source,
        tgt_sourceRef := first_of (tin_sourceRef input) (tgt_sourceRef t),
        tgt_externalSystemId := kept (tin_externalSystemId input) (tgt_externalSystemId t),
        tgt_externalProjectId := kept (tin_externalProjectId input) (tgt_externalProjectId t),
        tgt_externalEngineId := kept (tin_externalEngineId input) (tgt_externalEngineId t),
        tgt_externalTargetId := kept (tin_externalTargetId input) (tgt_externalTargetId t),
        tgt_allowManualDeploy := given_or (tin_allowManualDeploy input) (tgt_allowManualDeploy t),
        tgt_allowCiDeploy := given_or (tin_allowCiDeploy input) (tgt_allowCiDeploy t),
        tgt_allowApiDeploy := given_or (tin_allowApiDeploy input) (tgt_allowApiDeploy t),
        tgt_allowImport := given_or (tin_allowImport input) (tgt_allowImport t),
        tgt_approvedById := first_of (tin_approvedById input) (tgt_approvedById t),
        tgt_approvalStatus := approvalStatus,
        tgt_approvedAt := resolveApprovedAt approvalStatus (tin_approvedAt input) (tgt_approvedAt t) now,
        tgt_policyTags := (case tin_policyTags input of None \<Rightarrow> tgt_policyTags t | Some tags \<Rightarrow> normalizePolicyTags lib tags),
        tgt_diagnostics := (if tin_diagnostics input = None then tgt_diagnostics t else diagnostics),
        tgt_lastSeenAt := Some now, tgt_updatedAt := now\<rparr>)"

definition new_target :: "resolver_lib \<Rightarrow> int \<Rightarrow> target_input \<Rightarrow> string \<Rightarrow> jsval option \<Rightarrow> target_row" where
  "new_target lib now input tenant diagnostics =
     (let source = text_or (tin_source input) ''manual'';
          approvalStatus = normalizeApprovalStatus (tin_approvalStatus input) source;
          external = (\<lambda>a. trimmed (given_or a None))
      in \<lparr>tgt_tenantId = tenant, tgt_projectId = tin_projectId input, tgt_engineId = tin_engineId input,
        tgt_status = text_or (tin_status input) ''active'', tgt_source = source, tgt_sourceRef = nonempty (tin_sourceRef input),
        tgt_ownershipMode = text_or (tin_ownershipMode input) (if source = ''config'' then ''config_locked'' else ''manual''),
        tgt_sourceHash = tin_sourceHash input, tgt_lastAppliedAt = tin_lastAppliedAt input, tgt_driftStatus = tin_driftStatus input,
        tgt_externalSystemId = external (tin_externalSystemId input), tgt_externalProjectId = external (tin_externalProjectId input),
        tgt_externalEngineId = external (tin_externalEngineId input), tgt_externalTargetId = external (tin_externalTargetId input),
        tgt_allowManualDeploy = given_or (tin_allowManualDeploy input) True, tgt_allowCiDeploy = given_or (tin_allowCiDeploy input) False,
        tgt_allowApiDeploy = given_or (tin_allowApiDeploy input) False, tgt_allowImport = given_or (tin_allowImport input) True,
        tgt_createdById = nonempty (tin_createdById input),
        tgt_approvedById = first_of (tin_approvedById input)
          (if approvalStatus = ''approved'' then nonempty (tin_createdById input) else None),
        tgt_approvalStatus = approvalStatus, tgt_approvedAt = resolveApprovedAt approvalStatus (tin_approvedAt input) None now,
        tgt_policyTags = (case tin_policyTags input of None \<Rightarrow> [] | Some tags \<Rightarrow> normalizePolicyTags lib tags),
        tgt_diagnostics = diagnostics, tgt_lastSeenAt = Some now, tgt_createdAt = now, tgt_updatedAt = now\<rparr>)"

definition createTarget ::
  "resolver_lib \<Rightarrow> string \<Rightarrow> int \<Rightarrow> target_input \<Rightarrow> deploy_db \<Rightarrow> deploy_error + (string \<times> deploy_db)" where
  "createTarget lib newId now input db =
     bind_res (throw_if (tin_engineId input = ''__env__'') ConcreteEngineRequired) (\<lambda>_.
     bind_res (assertCanSetTargetSource (tin_source input) (tin_allowSourceOwnedMutation input)) (\<lambda>_.
     bind_res (assertManualTargetManagementAllowed db (tin_allowSourceOwnedMutation input)) (\<lambda>_.
     bind_res (assertProjectAndEngineVisible db (tin_projectId input) (tin_engineId input) (tin_tenantId input)) (\<lambda>tenant.
     bind_res (case target_for db (tin_projectId input) (tin_engineId input) of
         None \<Rightarrow> Inr ()
       | Some (i, t) \<Rightarrow> bind_res (throw_if (\<not> isTenantVisible (Some (tgt_tenantId t)) (tin_tenantId input)) TargetElsewhere)
           (\<lambda>_. assertCanChangeTarget t (tin_allowSourceOwnedMutation input))) (\<lambda>_.
     bind_res (stringifyDiagnostics (given_or (tin_diagnostics input) None)) (\<lambda>diagnostics.
       case target_for db (tin_projectId input) (tin_engineId input) of
         Some (i, t) \<Rightarrow> Inr (i, db\<lparr>ddb_targets := put i (replaced_target lib now input tenant diagnostics t) (ddb_targets db)\<rparr>)
       | None \<Rightarrow> Inr (newId, db\<lparr>ddb_targets := ddb_targets db @ [(newId, new_target lib now input tenant diagnostics)]\<rparr>)))))))"

definition updated_target :: "resolver_lib \<Rightarrow> int \<Rightarrow> target_update \<Rightarrow> jsval option \<Rightarrow> target_row \<Rightarrow> target_row" where
  "updated_target lib now input diagnostics t =
     (let source = text_or (tup_source input) (tgt_source t);
          approvalStatus = normalizeApprovalStatus (first_of (tup_approvalStatus input) (Some (tgt_approvalStatus t))) source;
          isConfigWarn = (tgt_source t = ''config'' \<and> tgt_ownershipMode t = ''config_warn'');
          kept = (\<lambda>a b. case a of None \<Rightarrow> b | Some v \<Rightarrow> trimmed v)
      in t\<lparr>tgt_status := text_or (tup_status input) (tgt_status t), tgt_source := source,
        tgt_sourceRef := given_or (tup_sourceRef input) (tgt_sourceRef t),
        tgt_externalSystemId := kept (tup_externalSystemId input) (tgt_externalSystemId t),
        tgt_externalProjectId := kept (tup_externalProjectId input) (tgt_externalProjectId t),
        tgt_externalEngineId := kept (tup_externalEngineId input) (tgt_externalEngineId t),
        tgt_externalTargetId := kept (tup_externalTargetId input) (tgt_externalTargetId t),
        tgt_allowManualDeploy := given_or (tup_allowManualDeploy input) (tgt_allowManualDeploy t),
        tgt_allowCiDeploy := given_or (tup_allowCiDeploy input) (tgt_allowCiDeploy t),
        tgt_allowApiDeploy := given_or (tup_allowApiDeploy input) (tgt_allowApiDeploy t),
        tgt_allowImport := given_or (tup_allowImport input) (tgt_allowImport t),
        tgt_approvedById := given_or (tup_approvedById input) (tgt_approvedById t), tgt_approvalStatus := approvalStatus,
        tgt_approvedAt := resolveApprovedAt approvalStatus (tup_approvedAt input) (tgt_approvedAt t) now,
        tgt_policyTags := (case tup_policyTags input of
            None \<Rightarrow> tgt_policyTags t | Some None \<Rightarrow> [] | Some (Some tags) \<Rightarrow> normalizePolicyTags lib tags),
        tgt_diagnostics := (if tup_diagnostics input = None then tgt_diagnostics t else diagnostics),
        tgt_ownershipMode := given_or (tup_ownershipMode input) (tgt_ownershipMode t),
        tgt_sourceHash := first_of (tup_sourceHash input) (tgt_sourceHash t),
        tgt_lastAppliedAt := first_of (tup_lastAppliedAt input) (tgt_lastAppliedAt t),
        tgt_driftStatus := first_of (tup_driftStatus input) (if isConfigWarn then Some ''drifted'' else tgt_driftStatus t),
        tgt_lastSeenAt := first_of (tup_lastSeenAt input) (tgt_lastSeenAt t), tgt_updatedAt := now\<rparr>)"

definition updateTarget ::
  "resolver_lib \<Rightarrow> int \<Rightarrow> string \<Rightarrow> target_update \<Rightarrow> deploy_db \<Rightarrow> deploy_error + deploy_db" where
  "updateTarget lib now i input db =
     (case find_row (\<lambda>t. isTenantVisible (Some (tgt_tenantId t)) (tup_tenantId input)) (ddb_targets db) i of
        None \<Rightarrow> Inl TargetNotFound
      | Some t \<Rightarrow>
          bind_res (assertCanChangeTarget t (tup_allowSourceOwnedMutation input)) (\<lambda>_.
          bind_res (assertCanSetTargetSource (tup_source input) (tup_allowSourceOwnedMutation input)) (\<lambda>_.
          bind_res (assertManualTargetManagementAllowed db (tup_allowSourceOwnedMutation input)) (\<lambda>_.
          bind_res (stringifyDiagnostics (given_or (tup_diagnostics input) None)) (\<lambda>diagnostics.
            Inr (db\<lparr>ddb_targets := put i (updated_target lib now input diagnostics t) (ddb_targets db)\<rparr>))))))"

definition no_update :: target_update where
  "no_update =
     \<lparr>tup_tenantId = None, tup_status = None, tup_source = None, tup_sourceRef = None, tup_externalSystemId = None,
      tup_externalProjectId = None, tup_externalEngineId = None, tup_externalTargetId = None, tup_allowManualDeploy = None,
      tup_allowCiDeploy = None, tup_allowApiDeploy = None, tup_allowImport = None, tup_approvedById = None,
      tup_approvalStatus = None, tup_approvedAt = None, tup_policyTags = None, tup_diagnostics = None, tup_ownershipMode = None,
      tup_sourceHash = None, tup_lastAppliedAt = None, tup_driftStatus = None, tup_lastSeenAt = None,
      tup_allowSourceOwnedMutation = False\<rparr>"

definition archiveTarget ::
  "resolver_lib \<Rightarrow> int \<Rightarrow> string \<Rightarrow> string option \<Rightarrow> bool \<Rightarrow> deploy_db \<Rightarrow> deploy_error + deploy_db" where
  "archiveTarget lib now i tenantId allowSourceOwnedMutation db = updateTarget lib now i
     (no_update\<lparr>tup_tenantId := tenantId, tup_status := Some ''archived'', tup_allowSourceOwnedMutation := allowSourceOwnedMutation\<rparr>) db"

definition legacy_ref :: "string \<Rightarrow> string \<Rightarrow> string" where
  "legacy_ref projectId engineId = ''engine_project_access:'' @ projectId @ '':'' @ engineId"

definition legacy_input :: "string option \<Rightarrow> string \<Rightarrow> string \<Rightarrow> string option \<Rightarrow> bool \<Rightarrow> target_input" where
  "legacy_input tenantId projectId engineId grantedById autoApproved =
     \<lparr>tin_tenantId = tenantId, tin_projectId = projectId, tin_engineId = engineId, tin_status = None, tin_source = Some ''legacy'',
      tin_sourceRef = Some (legacy_ref projectId engineId), tin_externalSystemId = None, tin_externalProjectId = None,
      tin_externalEngineId = None, tin_externalTargetId = None, tin_allowManualDeploy = Some True, tin_allowCiDeploy = Some False,
      tin_allowApiDeploy = Some False, tin_allowImport = Some True, tin_createdById = nonempty grantedById,
      tin_approvedById = (if autoApproved then nonempty grantedById else None), tin_approvalStatus = None, tin_approvedAt = None,
      tin_policyTags = None, tin_diagnostics = None, tin_ownershipMode = None, tin_sourceHash = None, tin_lastAppliedAt = None,
      tin_driftStatus = None, tin_allowSourceOwnedMutation = False\<rparr>"

definition concrete_engine :: "string \<Rightarrow> bool" where
  "concrete_engine engineId \<longleftrightarrow> engineId \<noteq> [] \<and> engineId \<noteq> ''__env__''"

definition ensureTargetFromLegacyAccess ::
  "resolver_lib \<Rightarrow> string \<Rightarrow> int \<Rightarrow> string \<Rightarrow> string \<Rightarrow> string option \<Rightarrow> bool \<Rightarrow> string option \<Rightarrow> deploy_db \<Rightarrow>
     deploy_error + (string option \<times> deploy_db)" where
  "ensureTargetFromLegacyAccess lib newId now projectId engineId grantedById autoApproved tenantId db =
     (if \<not> concrete_engine engineId \<or> getProjectEngineTargetPolicyMode db = ''external_only'' \<or>
        (case findTargetForPair db projectId engineId tenantId of
           None \<Rightarrow> False | Some (i, t) \<Rightarrow> isSourceOwnedProjectEngineTarget (tgt_source t))
      then Inr (None, db)
      else map_sum id (map_prod Some id)
        (createTarget lib newId now (legacy_input tenantId projectId engineId grantedById autoApproved) db))"

definition archiveLegacyTarget :: "int \<Rightarrow> string \<Rightarrow> string \<Rightarrow> string option \<Rightarrow> deploy_db \<Rightarrow> deploy_db" where
  "archiveLegacyTarget now projectId engineId tenantId db =
     (if \<not> concrete_engine engineId then db
      else case findTargetForPair db projectId engineId tenantId of
        None \<Rightarrow> db
      | Some (i, t) \<Rightarrow>
          if tgt_source t \<noteq> ''legacy'' \<and>
            \<not> (case tgt_sourceRef t of None \<Rightarrow> False | Some r \<Rightarrow> starts_with ''engine_project_access:'' r)
          then db
          else db\<lparr>ddb_targets := put i (t\<lparr>tgt_status := ''archived'', tgt_updatedAt := now\<rparr>) (ddb_targets db)\<rparr>)"

definition access_for :: "deploy_db \<Rightarrow> string \<Rightarrow> string \<Rightarrow> (string \<times> access_row) option" where
  "access_for db projectId engineId =
     find (\<lambda>(i, a). acc_projectId a = projectId \<and> acc_engineId a = engineId) (ddb_access db)"

text \<open>A missing target is made from the access grant, if there is one.\<close>

definition hasActiveTarget ::
  "resolver_lib \<Rightarrow> string \<Rightarrow> int \<Rightarrow> string \<Rightarrow> string \<Rightarrow> deploy_mode \<Rightarrow> string option \<Rightarrow> deploy_db \<Rightarrow>
     deploy_error + (bool \<times> deploy_db)" where
  "hasActiveTarget lib newId now projectId engineId mode tenantId db =
     (if projectId = [] \<or> \<not> concrete_engine engineId then Inr (False, db)
      else case findTargetForPair db projectId engineId tenantId of
        Some (i, t) \<Rightarrow> Inr
          (if getProjectEngineTargetPolicyMode db = ''external_only'' \<and> \<not> isSourceOwnedProjectEngineTarget (tgt_source t)
           then False else modeAllowed t mode, db)
      | None \<Rightarrow>
          (case access_for db projectId engineId of
             None \<Rightarrow> Inr (False, db)
           | Some (i, a) \<Rightarrow>
               if getProjectEngineTargetPolicyMode db = ''external_only'' then Inr (False, db)
               else bind_res (ensureTargetFromLegacyAccess lib newId now projectId engineId (acc_grantedById a) (acc_autoApproved a)
                   tenantId db) (\<lambda>(r, db'). Inr (mode = ManualMode \<or> mode = ImportMode, db'))))"

definition getProjectEngineIds :: "deploy_db \<Rightarrow> string \<Rightarrow> string option \<Rightarrow> string list" where
  "getProjectEngineIds db projectId tenantId =
     (let requestTenantId = effectiveTenantId tenantId;
          candidates = filter concrete_engine (set_of_list
            (map acc_engineId (filter (\<lambda>a. acc_projectId a = projectId) (map snd (ddb_access db))) @
             map tgt_engineId (filter (\<lambda>t. tgt_projectId t = projectId \<and> tgt_status t = ''active'' \<and>
               isTenantVisible (Some (tgt_tenantId t)) (Some requestTenantId)) (map snd (ddb_targets db)))))
      in case project_row db projectId of
           Some (Some tenant) \<Rightarrow>
             if tenant \<noteq> requestTenantId then []
             else filter (\<lambda>i. i \<in> set candidates \<and>
                 (case active_engine db i of
                    None \<Rightarrow> False
                  | Some e \<Rightarrow> isEngineVisibleInTenancyContext e (Some requestTenantId) \<and>
                      (if eng_isShared e then \<not> truthy_str (eng_tenantId e) else eng_tenantId e = Some tenant)))
               (map fst (db_engines (pdb_authz (ddb_product db))))
         | _ \<Rightarrow> [])"

definition getEngineProjectIds :: "deploy_db \<Rightarrow> string \<Rightarrow> string option \<Rightarrow> string list" where
  "getEngineProjectIds db engineId tenantId =
     (let requestTenantId = effectiveTenantId tenantId;
          candidates = set_of_list
            (map acc_projectId (filter (\<lambda>a. acc_engineId a = engineId) (map snd (ddb_access db))) @
             map tgt_projectId (filter (\<lambda>t. tgt_engineId t = engineId \<and> tgt_status t = ''active'' \<and>
               isTenantVisible (Some (tgt_tenantId t)) (Some requestTenantId)) (map snd (ddb_targets db))))
      in case active_engine db engineId of
           None \<Rightarrow> []
         | Some e \<Rightarrow>
             if \<not> isEngineVisibleInTenancyContext e (Some requestTenantId) then []
             else map fst (filter (\<lambda>(i, t). i \<in> set candidates \<and> t = Some requestTenantId \<and>
               (if eng_isShared e then \<not> truthy_str (eng_tenantId e) else eng_tenantId e = t))
               (db_projects (pdb_authz (ddb_product db)))))"

text \<open>\<open>syncLegacyAccessForProject\<close>: one row after the other; what was done before an error stays.\<close>

fun sync_rows ::
  "resolver_lib \<Rightarrow> int \<Rightarrow> string option \<Rightarrow> string list \<Rightarrow> access_row list \<Rightarrow> nat \<Rightarrow> deploy_db \<Rightarrow>
     (deploy_error + nat) \<times> deploy_db" where
  "sync_rows lib now tenantId ids [] n db = (Inr n, db)"
| "sync_rows lib now tenantId ids (a # as) n db =
     (case ensureTargetFromLegacyAccess lib (hd ids) now (acc_projectId a) (acc_engineId a) (acc_grantedById a)
         (acc_autoApproved a) tenantId db of
        Inl e \<Rightarrow> (Inl e, db)
      | Inr (made, db') \<Rightarrow> sync_rows lib now tenantId (tl ids) as (if made = None then n else Suc n) db')"

definition syncLegacyAccessForProject ::
  "resolver_lib \<Rightarrow> string list \<Rightarrow> int \<Rightarrow> string \<Rightarrow> string option \<Rightarrow> deploy_db \<Rightarrow> (deploy_error + nat) \<times> deploy_db" where
  "syncLegacyAccessForProject lib ids now projectId tenantId db =
     (if getProjectEngineTargetPolicyMode db = ''external_only'' then (Inr 0, db)
      else sync_rows lib now tenantId ids (filter (\<lambda>a. acc_projectId a = projectId) (map snd (ddb_access db))) 0 db)"

text \<open>What the readers of targets see: names and the environment, never the connection of the engine.\<close>

record target_view =
  tvw_id :: string
  tvw_target :: target_row
  tvw_projectName :: "string option"
  tvw_engineName :: "string option"
  tvw_environment :: "environment_row option"

definition toTargetView :: "deploy_db \<Rightarrow> string \<times> target_row \<Rightarrow> target_view" where
  "toTargetView db row =
     (let engine = map_of (ddb_engineInfo db) (tgt_engineId (snd row));
          tag = (case engine of None \<Rightarrow> None | Some d \<Rightarrow> nonempty (eni_environmentTagId d))
      in \<lparr>tvw_id = fst row,
          tvw_target = (snd row)\<lparr>tgt_ownershipMode := (if tgt_ownershipMode (snd row) \<noteq> [] then tgt_ownershipMode (snd row)
              else if tgt_source (snd row) = ''config'' then ''config_locked'' else ''manual''),
            tgt_sourceHash := nonempty (tgt_sourceHash (snd row)), tgt_driftStatus := nonempty (tgt_driftStatus (snd row)),
            tgt_approvalStatus := normalizeApprovalStatus (Some (tgt_approvalStatus (snd row))) (tgt_source (snd row))\<rparr>,
          tvw_projectName = nonempty (map_of (ddb_projectNames db) (tgt_projectId (snd row))),
          tvw_engineName = nonempty (map_option eni_name engine),
          tvw_environment = (case tag of None \<Rightarrow> None | Some i \<Rightarrow> map_of (ddb_environments db) i)\<rparr>)"

definition decorateTargets :: "deploy_db \<Rightarrow> (string \<times> target_row) list \<Rightarrow> target_view list" where
  "decorateTargets db rows = map (toTargetView db) (filter (\<lambda>(i, t).
     (case full_engine db (tgt_engineId t) of None \<Rightarrow> False | Some (e, d) \<Rightarrow> engineTenancyVisibilityWhere None e)) rows)"

record target_filters =
  tfl_tenantId :: "string option"
  tfl_projectId :: "string option"
  tfl_engineId :: "string option"
  tfl_status :: "string option"
  tfl_source :: "string option"

definition listTargets :: "deploy_db \<Rightarrow> target_filters \<Rightarrow> target_view list" where
  "listTargets db filters =
     (let wants = (\<lambda>f v. truthy_str f \<longrightarrow> f = Some v);
          order = (\<lambda>(i, a) (j, b). if tgt_projectId a < tgt_projectId b \<or>
              (tgt_projectId a = tgt_projectId b \<and> tgt_engineId a < tgt_engineId b) then -1
            else if tgt_projectId a = tgt_projectId b \<and> tgt_engineId a = tgt_engineId b then 0 else 1)
      in decorateTargets db (filter (\<lambda>(i, t). isTenantVisible (Some (tgt_tenantId t)) (tfl_tenantId filters))
          (js_sort order (filter (\<lambda>(i, t). wants (tfl_projectId filters) (tgt_projectId t) \<and> wants (tfl_engineId filters) (tgt_engineId t) \<and>
             (tfl_status filters = Some ''all'' \<or> wants (tfl_status filters) (tgt_status t)) \<and>
             wants (tfl_source filters) (tgt_source t)) (ddb_targets db)))))"

definition getTarget :: "deploy_db \<Rightarrow> string \<Rightarrow> string option \<Rightarrow> target_view option" where
  "getTarget db i tenantId =
     (case find_row (\<lambda>t. isTenantVisible (Some (tgt_tenantId t)) tenantId) (ddb_targets db) i of
        None \<Rightarrow> None
      | Some t \<Rightarrow> (case decorateTargets db [(i, t)] of [] \<Rightarrow> None | v # vs \<Rightarrow> Some v))"

end
