(* ===== verification/Engine_Access.thy ===== *)
theory Engine_Access
  imports Engine_Targets
begin

text \<open>
  Access of projects to engines as requests and grants (\<open>shared/src/services/platform-admin/EngineAccessService.ts\<close>).
  A grant is kept beside the target that it stands for; granting makes or opens the target.
\<close>

definition assertVisibleTopology :: "deploy_db \<Rightarrow> string \<Rightarrow> string \<Rightarrow> string option \<Rightarrow> deploy_error + string" where
  "assertVisibleTopology db projectId engineId tenantId =
     (case (project_row db projectId, active_engine db engineId) of
        (Some (Some tenant), Some engine) \<Rightarrow>
          if tenant = effectiveTenantId tenantId \<and> isEngineVisibleInTenancyContext engine (Some (effectiveTenantId tenantId)) \<and>
            topologyMatchesProject engine (Some tenant)
          then Inr tenant else Inl NotSameTenant
      | _ \<Rightarrow> Inl NotSameTenant)"

text \<open>The claims touch the rows of the project and of the engine, so that they cannot change until the transaction ends.\<close>

definition claimVisibleTopology :: "deploy_db \<Rightarrow> string \<Rightarrow> string \<Rightarrow> string \<Rightarrow> deploy_error + unit" where
  "claimVisibleTopology db projectId engineId tenantId =
     bind_res (throw_if (project_row db projectId \<noteq> Some (Some tenantId)) NotSameTenant) (\<lambda>_.
     bind_res (throw_if (active_engine db engineId = None) NotSameTenant) (\<lambda>_.
     bind_res (assertVisibleTopology db projectId engineId (Some tenantId)) (\<lambda>_. Inr ())))"

text \<open>\<open>hasProjectAccess\<close>: every error counts as no access and leaves the tables.\<close>

definition hasProjectAccess ::
  "resolver_lib \<Rightarrow> string \<Rightarrow> int \<Rightarrow> string \<Rightarrow> string \<Rightarrow> string option \<Rightarrow> deploy_db \<Rightarrow> bool \<times> deploy_db" where
  "hasProjectAccess lib newId now projectId engineId tenantId db =
     (case bind_res (assertVisibleTopology db projectId engineId tenantId)
         (\<lambda>tenant. hasActiveTarget lib newId now projectId engineId ManualMode (Some tenant) db) of
        Inl e \<Rightarrow> (False, db)
      | Inr r \<Rightarrow> r)"

definition grantAccessWithManager ::
  "resolver_lib \<Rightarrow> string \<times> string \<Rightarrow> int \<Rightarrow> string \<Rightarrow> string \<Rightarrow> string \<Rightarrow> bool \<Rightarrow> string \<Rightarrow> deploy_db \<Rightarrow>
     deploy_error + (string \<times> deploy_db)" where
  "grantAccessWithManager lib ids now projectId engineId grantedById autoApproved tenantId db =
     bind_res (claimVisibleTopology db projectId engineId tenantId) (\<lambda>_.
     let i = (case access_for db projectId engineId of None \<Rightarrow> fst ids | Some (j, a) \<Rightarrow> j);
         db1 = (case access_for db projectId engineId of
             Some row \<Rightarrow> db
           | None \<Rightarrow> db\<lparr>ddb_access := ddb_access db @ [(fst ids, \<lparr>acc_projectId = projectId, acc_engineId = engineId,
               acc_grantedById = Some grantedById, acc_autoApproved = autoApproved, acc_createdAt = now\<rparr>)]\<rparr>)
     in bind_res (ensureTargetFromLegacyAccess lib (snd ids) now projectId engineId (Some grantedById) autoApproved (Some tenantId) db1)
       (\<lambda>(materialized, db2).
          bind_res (throw_if (materialized = None \<and>
              (case target_for db2 projectId engineId of
                 None \<Rightarrow> True
               | Some (j, t) \<Rightarrow> \<not> (tgt_tenantId t = tenantId \<and> tgt_status t = ''active'' \<and> tgt_allowManualDeploy t)))
            ActiveTargetRequired) (\<lambda>_. Inr (i, db2))))"

definition grantAccess ::
  "resolver_lib \<Rightarrow> string \<times> string \<Rightarrow> int \<Rightarrow> string \<Rightarrow> string \<Rightarrow> string \<Rightarrow> bool \<Rightarrow> string option \<Rightarrow> deploy_db \<Rightarrow>
     deploy_error + (string \<times> deploy_db)" where
  "grantAccess lib ids now projectId engineId grantedById autoApproved tenantId db =
     grantAccessWithManager lib ids now projectId engineId grantedById autoApproved (effectiveTenantId tenantId) db"

definition revokeAccess :: "int \<Rightarrow> string \<Rightarrow> string \<Rightarrow> string option \<Rightarrow> deploy_db \<Rightarrow> deploy_error + deploy_db" where
  "revokeAccess now projectId engineId tenantId db =
     bind_res (claimVisibleTopology db projectId engineId (effectiveTenantId tenantId)) (\<lambda>_.
       Inr (archiveLegacyTarget now projectId engineId (Some (effectiveTenantId tenantId))
         (db\<lparr>ddb_access := filter (\<lambda>(i, a). \<not> (acc_projectId a = projectId \<and> acc_engineId a = engineId)) (ddb_access db)\<rparr>)))"

text \<open>\<open>requestAccess\<close>: the answer \<open>Some i\<close> is the request that waits, \<open>None\<close> that access is there, \<open>True\<close> with it that it
  was granted just now. A caller that the evaluation refuses to evaluate makes it fail.\<close>

definition requestAccess ::
  "resolver_lib \<Rightarrow> string \<times> string \<Rightarrow> string \<Rightarrow> int \<Rightarrow> string \<Rightarrow> string \<Rightarrow> string \<Rightarrow> deploy_db \<Rightarrow>
     (deploy_error + (string option \<times> bool)) \<times> deploy_db" where
  "requestAccess lib ids requestId now projectId engineId requestedById db =
     (case (full_engine db engineId, project_row db projectId) of
        (None, _) \<Rightarrow> (Inl EngineUnknown, db)
      | (Some engine, Some (Some tenant)) \<Rightarrow>
          if tenant = [] then (Inl ProjectUnknown, db)
          else if \<not> isEngineVisibleInTenancyContext (fst engine) (Some tenant) then (Inl NotSameTenant, db)
          else (case hasProjectAccess lib (snd ids) now projectId engineId (Some tenant) db of
              (True, db1) \<Rightarrow> (Inr (None, False), db1)
            | (False, db1) \<Rightarrow>
                (case find (\<lambda>(i, r). acr_projectId r = projectId \<and> acr_engineId r = engineId \<and> acr_status r = ''pending'')
                    (ddb_requests db1) of
                   Some (i, r) \<Rightarrow> (Inr (Some i, False), db1)
                 | None \<Rightarrow>
                     let may = (\<lambda>p rt i. hasPermission (pdb_authz (ddb_product db1)) now p (user_context requestedById (Some tenant) rt (Some i)));
                         manage = map_res id [may ''project:settings:manage'' ProjectResource projectId, may ''engine:edit'' EngineResource engineId]
                     in case manage of
                          Inl e \<Rightarrow> (Inl PermissionFailed, db1)
                        | Inr held \<Rightarrow>
                            if False \<notin> set held
                            then (case grantAccess lib ids now projectId engineId requestedById True (Some tenant) db1 of
                                Inl e \<Rightarrow> (Inl e, db1)
                              | Inr (i, db2) \<Rightarrow> (Inr (None, True), db2))
                            else (Inr (Some requestId, False), db1\<lparr>ddb_requests := ddb_requests db1 @ [(requestId,
                              \<lparr>acr_projectId = projectId, acr_engineId = engineId, acr_requestedById = requestedById,
                               acr_status = ''pending'', acr_reviewedById = None, acr_reviewedAt = None, acr_createdAt = now\<rparr>)]\<rparr>)))
      | _ \<Rightarrow> (Inl ProjectUnknown, db))"

definition reviewed :: "string \<Rightarrow> string \<Rightarrow> int \<Rightarrow> string \<Rightarrow> access_request \<Rightarrow> deploy_db \<Rightarrow> deploy_db" where
  "reviewed requestId reviewedById now status r db = db\<lparr>ddb_requests := put requestId
     (r\<lparr>acr_status := status, acr_reviewedById := Some reviewedById, acr_reviewedAt := Some now\<rparr>) (ddb_requests db)\<rparr>"

definition approveRequest ::
  "resolver_lib \<Rightarrow> string \<times> string \<Rightarrow> int \<Rightarrow> string \<Rightarrow> string \<Rightarrow> string \<Rightarrow> string option \<Rightarrow> deploy_db \<Rightarrow> deploy_error + deploy_db" where
  "approveRequest lib ids now requestId engineId reviewedById tenantId db =
     (case find_row (\<lambda>r. acr_engineId r = engineId) (ddb_requests db) requestId of
        None \<Rightarrow> Inl RequestNotPending
      | Some r \<Rightarrow>
          bind_res (claimVisibleTopology db (acr_projectId r) engineId (effectiveTenantId tenantId)) (\<lambda>_.
            if acr_status r = ''approved'' then Inr db
            else if acr_status r \<noteq> ''pending'' then Inl RequestNotPending
            else bind_res (grantAccessWithManager lib ids now (acr_projectId r) engineId reviewedById False (effectiveTenantId tenantId) db)
              (\<lambda>(i, db'). Inr (reviewed requestId reviewedById now ''approved'' r db'))))"

definition denyRequest ::
  "int \<Rightarrow> string \<Rightarrow> string \<Rightarrow> string \<Rightarrow> string option \<Rightarrow> deploy_db \<Rightarrow> deploy_error + deploy_db" where
  "denyRequest now requestId engineId reviewedById tenantId db =
     (case find_row (\<lambda>r. acr_engineId r = engineId) (ddb_requests db) requestId of
        None \<Rightarrow> Inl RequestNotPending
      | Some r \<Rightarrow>
          bind_res (claimVisibleTopology db (acr_projectId r) engineId (effectiveTenantId tenantId)) (\<lambda>_.
            if acr_status r = ''denied'' then Inr db
            else if acr_status r \<noteq> ''pending'' then Inl RequestNotPending
            else Inr (reviewed requestId reviewedById now ''denied'' r db)))"

definition getPendingRequests :: "deploy_db \<Rightarrow> string \<Rightarrow> string option \<Rightarrow> (string \<times> access_request) list" where
  "getPendingRequests db engineId tenantId =
     (case active_engine db engineId of
        None \<Rightarrow> []
      | Some e \<Rightarrow>
          if \<not> isEngineVisibleInTenancyContext e (Some (effectiveTenantId tenantId)) then []
          else filter (\<lambda>(i, r). acr_engineId r = engineId \<and> acr_status r = ''pending'' \<and>
            project_row db (acr_projectId r) = Some (Some (effectiveTenantId tenantId)) \<and>
            (if eng_isShared e then \<not> truthy_str (eng_tenantId e) else eng_tenantId e = Some (effectiveTenantId tenantId)))
            (ddb_requests db))"

end
