(* ===== verification/Deployment_Guard.thy ===== *)
theory Deployment_Guard
  imports Engine_Access
begin

text \<open>
  Whether a principal may deploy a project to an engine (\<open>DeploymentEligibilityService.ts\<close> of
  \<open>shared/src/services/platform-admin\<close>), and the guard of the routes that deploy (\<open>requireCompositeAction\<close> of
  \<open>shared/src/middleware/requireAction.ts\<close>). A check has an id and says whether it passed; the texts of its reason and
  its remediation are left out. Looking for the target can make it, so the evaluation returns the tables.
\<close>

section \<open>Eligibility\<close>

record eligibility_input =
  ein_userId :: "string option"
  ein_principalType :: "principal_type option"
  ein_principalId :: "string option"
  ein_tenantId :: "string option"
  ein_ipAddress :: "string option"
  ein_userAgent :: "string option"
  ein_timestamp :: "int option"
  ein_userAttributes :: "string \<Rightarrow> attribute_value option"
  ein_projectId :: string
  ein_engineId :: string
  ein_mode :: "deploy_mode option"

type_synonym eligibility_check = "string \<times> bool"

record eligibility =
  elg_allowed :: bool
  elg_mode :: deploy_mode
  elg_checks :: "eligibility_check list"

definition resolveDeploymentPrincipal :: "eligibility_input \<Rightarrow> authz_error + principal_ref" where
  "resolveDeploymentPrincipal input =
     (let principalType = given_or (ein_principalType input) UserPrincipal;
          principalId = first_of (ein_principalId input) (ein_userId input)
      in if \<not> truthy_str principalId then Inl PrincipalRequired
         else if principalType = UserPrincipal \<and> truthy_str (ein_userId input) \<and> ein_userId input \<noteq> principalId then Inl UserMismatch
         else Inr (principalType, the principalId))"

definition deployment_context :: "string \<Rightarrow> principal_ref \<Rightarrow> resource_type \<Rightarrow> string \<Rightarrow> permission_context" where
  "deployment_context tenantId who rt i =
     (if fst who = UserPrincipal then user_context (snd who) (Some tenantId) rt (Some i)
      else \<lparr>pcx_userId = None, pcx_principalType = Some (fst who), pcx_principalId = Some (snd who), pcx_tenantId = Some tenantId,
        pcx_resourceType = Some rt, pcx_resourceId = Some i\<rparr>)"

definition policyContext ::
  "eligibility_input \<Rightarrow> string \<Rightarrow> principal_ref \<Rightarrow> resource_type \<Rightarrow> string \<Rightarrow> (string \<Rightarrow> attribute_value option) \<Rightarrow> evaluation_context" where
  "policyContext input tenantId who rt i attributes =
     \<lparr>ecx_permission = deployment_context tenantId who rt i, ecx_ipAddress = ein_ipAddress input,
      ecx_userAgent = ein_userAgent input, ecx_timestamp = ein_timestamp input, ecx_userAttributes = ein_userAttributes input,
      ecx_resourceAttributes = attributes, ecx_mfaVerified = None\<rparr>"

definition ENGINE_OPERATION_CAPABILITIES :: "string list" where
  "ENGINE_OPERATION_CAPABILITIES = [''engine.read'', ''engine.deploy'', ''engine.instance.mutate'', ''engine.task.mutate'',
     ''engine.job.mutate'', ''engine.batch.admin'', ''engine.admin'']"

definition requiredEngineCapabilityForMode :: "deploy_mode \<Rightarrow> string" where
  "requiredEngineCapabilityForMode mode = (if mode = ImportMode then ''engine.read'' else ''engine.deploy'')"

definition engineCapabilityCheckId :: "string \<Rightarrow> string" where
  "engineCapabilityCheckId capability =
     (if capability = ''engine.read'' then ''engine.capability.read'' else ''engine.capability.deploy'')"

fun mode_text :: "deploy_mode \<Rightarrow> string" where
  "mode_text ManualMode = ''manual''"
| "mode_text CiMode = ''ci''"
| "mode_text ApiMode = ''api''"
| "mode_text ImportMode = ''import''"

definition project_permission :: "deploy_mode \<Rightarrow> string" where
  "project_permission mode = (if mode = ImportMode then ''project:files:create'' else ''project:deploy'')"

definition engine_permission :: "deploy_mode \<Rightarrow> string" where
  "engine_permission mode = (if mode = ImportMode then ''engine:deploy:view'' else ''engine:deploy'')"

text \<open>The checks on the row of the engine alone.\<close>

definition engine_checks :: "deploy_mode \<Rightarrow> engine_info \<Rightarrow> eligibility_check list" where
  "engine_checks mode d =
     [(''engine.integration.proxy'', \<not> (mode \<in> {ManualMode, CiMode} \<and> eni_deploymentIntegration d = ''direct_engine'')),
      (''engine.lifecycle.active'', trim (eni_baseUrl d) \<noteq> []),
      (engineCapabilityCheckId (requiredEngineCapabilityForMode mode),
       requiredEngineCapabilityForMode mode \<in> set ENGINE_OPERATION_CAPABILITIES)]"

text \<open>The environment: its name, and whether it admits a manual deployment, when this is asked.\<close>

definition environment_of :: "deploy_db \<Rightarrow> deploy_mode \<Rightarrow> engine_info \<Rightarrow> (string option \<times> bool) option" where
  "environment_of db mode d =
     (if mode = ManualMode \<and> truthy_str (eni_environmentTagId d)
      then Some (case map_of (ddb_environments db) (the (eni_environmentTagId d)) of
          None \<Rightarrow> (None, True)
        | Some e \<Rightarrow> (Some (evt_name e), evt_manualDeployAllowed e))
      else None)"

definition environment_checks :: "deploy_db \<Rightarrow> deploy_mode \<Rightarrow> engine_info \<Rightarrow> eligibility_check list" where
  "environment_checks db mode d = (''engine.environment.locked'', \<not> eni_environmentLocked d) #
     (case environment_of db mode d of None \<Rightarrow> [] | Some (n, ok) \<Rightarrow> [(''engine.environment.manual_deploy'', ok)])"

fun attribute_text :: "string option \<Rightarrow> attribute_value" where
  "attribute_text (Some s) = AStr s"
| "attribute_text None = AOther"

definition deployment_attributes ::
  "deploy_db \<Rightarrow> eligibility_input \<Rightarrow> deploy_mode \<Rightarrow> engine_info \<Rightarrow> bool \<Rightarrow> string \<Rightarrow> attribute_value option" where
  "deployment_attributes db input mode d hasTarget = map_of
     [(''deploymentMode'', AStr (mode_text mode)), (''projectId'', AStr (ein_projectId input)), (''engineId'', AStr (ein_engineId input)),
      (''projectEngineTargetActive'', ABool hasTarget), (''engineLifecycleActive'', ABool (trim (eni_baseUrl d) \<noteq> [])),
      (''engineRequiredCapability'', AStr (requiredEngineCapabilityForMode mode)),
      (''engineCapabilitySupported'', ABool (requiredEngineCapabilityForMode mode \<in> set ENGINE_OPERATION_CAPABILITIES)),
      (''engineType'', attribute_text (eni_type d)),
      (''engineConnectionMode'', AStr (if eni_connectionMode d = ''customer_sidecar'' then ''customer_sidecar'' else ''direct'')),
      (''engineEndpointAuthentication'', AStr (given_or (eni_authType d) ''none'')),
      (''environmentLocked'', ABool (eni_environmentLocked d)), (''environmentTagId'', attribute_text (eni_environmentTagId d)),
      (''environmentName'', attribute_text (case environment_of db mode d of None \<Rightarrow> None | Some (n, ok) \<Rightarrow> n)),
      (''manualDeployAllowed'', case environment_of db mode d of None \<Rightarrow> AOther | Some (n, ok) \<Rightarrow> ABool ok)]"

definition deny :: "deploy_mode \<Rightarrow> eligibility_check list \<Rightarrow> eligibility" where
  "deny mode checks = \<lparr>elg_allowed = False, elg_mode = mode, elg_checks = checks\<rparr>"

definition conclude :: "deploy_mode \<Rightarrow> eligibility_check list \<Rightarrow> eligibility" where
  "conclude mode checks = \<lparr>elg_allowed = list_all snd checks, elg_mode = mode, elg_checks = checks\<rparr>"

text \<open>What the \<open>catch\<close> answers for an error after these checks.\<close>

definition attempt ::
  "deploy_db \<Rightarrow> deploy_mode \<Rightarrow> eligibility_check list \<Rightarrow> 'e + 'a \<Rightarrow> ('a \<Rightarrow> eligibility \<times> deploy_db) \<Rightarrow> eligibility \<times> deploy_db" where
  "attempt db mode checks r k =
     (case r of Inl e \<Rightarrow> (deny mode (checks @ [(''authorization.resolver'', False)]), db) | Inr x \<Rightarrow> k x)"

text \<open>The part of \<open>evaluate\<close> once both rows are there.\<close>

definition evaluate_found ::
  "resolver_lib \<Rightarrow> calendar \<Rightarrow> string \<Rightarrow> int \<Rightarrow> eligibility_input \<Rightarrow> principal_ref \<Rightarrow> engine_info \<Rightarrow> deploy_db \<Rightarrow> eligibility \<times> deploy_db" where
  "evaluate_found lib cal newId now input who d db =
     (let mode = given_or (ein_mode input) ManualMode; tenant = effectiveTenantId (ein_tenantId input);
          authz = pdb_authz (ddb_product db); st = pdb_policies (ddb_product db);
          checks0 = [(''project.exists'', True), (''engine.exists'', True)] @ engine_checks mode d
      in attempt db mode checks0
           (hasPermission authz now (project_permission mode) (deployment_context tenant who ProjectResource (ein_projectId input)))
         (\<lambda>mayProject. let checks1 = checks0 @
             [(if mode = ImportMode then ''project.permission.files_create'' else ''project.permission.deploy'', mayProject)]
         in attempt db mode checks1
           (hasPermission authz now (engine_permission mode) (deployment_context tenant who EngineResource (ein_engineId input)))
         (\<lambda>mayEngine. let checks2 = checks1 @
             [(if mode = ImportMode then ''engine.permission.deploy_view'' else ''engine.permission.deploy'', mayEngine)]
         in attempt db mode checks2
           (hasActiveTarget lib newId now (ein_projectId input) (ein_engineId input) mode (Some tenant) db)
         (\<lambda>(hasTarget, db').
           let checks3 = checks2 @ [(''project_engine_target.active'', hasTarget)] @ environment_checks db mode d;
               ctx = (\<lambda>rt i. policyContext input tenant who rt i (deployment_attributes db input mode d hasTarget))
           in attempt db' mode checks3 (evaluateGate cal st now (project_permission mode) (ctx ProjectResource (ein_projectId input)))
         (\<lambda>projectPolicy.
           let checks4 = checks3 @ [(''policy.project'', evr_decision projectPolicy \<noteq> ''deny'')]
           in attempt db' mode checks4 (evaluateGate cal st now (engine_permission mode) (ctx EngineResource (ein_engineId input)))
         (\<lambda>enginePolicy. (conclude mode (checks4 @ [(''policy.engine'', evr_decision enginePolicy \<noteq> ''deny'')]), db')))))))"

definition evaluate_deployment ::
  "resolver_lib \<Rightarrow> calendar \<Rightarrow> string \<Rightarrow> int \<Rightarrow> eligibility_input \<Rightarrow> deploy_db \<Rightarrow> eligibility \<times> deploy_db" where
  "evaluate_deployment lib cal newId now input db =
     (let mode = given_or (ein_mode input) ManualMode; tenant = effectiveTenantId (ein_tenantId input)
      in attempt db mode [] (resolveDeploymentPrincipal input) (\<lambda>who.
           case project_row db (ein_projectId input) of
             None \<Rightarrow> (deny mode [(''project.exists'', False)], db)
           | Some projectTenant \<Rightarrow>
               if \<not> isTenantVisible projectTenant (Some tenant) then (deny mode [(''project.exists'', False)], db)
               else (case full_engine db (ein_engineId input) of
                   None \<Rightarrow> (deny mode [(''project.exists'', True), (''engine.exists'', False)], db)
                 | Some (e, d) \<Rightarrow>
                     if \<not> isEngineVisibleInTenancyContext e (Some tenant)
                     then (deny mode [(''project.exists'', True), (''engine.exists'', False)], db)
                     else evaluate_found lib cal newId now input who d db)))"

text \<open>\<open>evaluateModes\<close>: one mode after the other, each over the tables the one before left.\<close>

fun evaluate_each ::
  "resolver_lib \<Rightarrow> calendar \<Rightarrow> string list \<Rightarrow> int \<Rightarrow> eligibility_input \<Rightarrow> deploy_mode list \<Rightarrow>
     (deploy_mode \<times> eligibility) list \<Rightarrow> deploy_db \<Rightarrow> (deploy_mode \<times> eligibility) list \<times> deploy_db" where
  "evaluate_each lib cal ids now input [] results db = (results, db)"
| "evaluate_each lib cal ids now input (m # ms) results db =
     (let (r, db') = evaluate_deployment lib cal (hd ids) now (input\<lparr>ein_mode := Some m\<rparr>) db
      in evaluate_each lib cal (tl ids) now input ms (put m r results) db')"

definition evaluateModes ::
  "resolver_lib \<Rightarrow> calendar \<Rightarrow> string list \<Rightarrow> int \<Rightarrow> eligibility_input \<Rightarrow> deploy_mode list \<Rightarrow> deploy_db \<Rightarrow>
     (deploy_mode \<times> eligibility) list \<times> deploy_db" where
  "evaluateModes lib cal ids now input modes db = evaluate_each lib cal ids now input modes [] db"

section \<open>The guard\<close>

record composite_options =
  cop_projectIdFrom :: "id_location option"
  cop_projectIdKey :: "string option"
  cop_engineIdFrom :: "id_location option"
  cop_engineIdKey :: "string option"
  cop_mode :: "deploy_mode option"
  cop_optionalWhenMissingEngineId :: bool
  cop_legacyAutoGrant :: "bool option"
  cop_attachDeployContext :: "bool option"
  cop_hideUnauthorizedEngine :: "bool option"

datatype composite_error = GuardFailed guard_error | GrantFailed deploy_error

record deploy_grant =
  dgr_action :: action_definition
  dgr_projectId :: string
  dgr_engineId :: string
  dgr_mode :: deploy_mode
  dgr_context :: "(string \<times> string option) option"

datatype composite_outcome = NoEngineGiven | DeploymentGranted deploy_grant | DeploymentRefused eligibility

definition hasDeniedCheck :: "eligibility \<Rightarrow> string \<Rightarrow> bool" where
  "hasDeniedCheck result checkId \<longleftrightarrow> (checkId, False) \<in> set (elg_checks result)"

definition deniedCheckIds :: "eligibility \<Rightarrow> string list" where
  "deniedCheckIds result = map fst (filter (\<lambda>(i, ok). \<not> ok) (elg_checks result))"

definition engine_held :: "deploy_db \<Rightarrow> int \<Rightarrow> string \<Rightarrow> string \<Rightarrow> string option \<Rightarrow> string \<Rightarrow> composite_error + bool" where
  "engine_held db now permission userId tenantId engineId =
     map_sum GuardFailed id (permitted (ddb_product db) now permission (user_context userId tenantId EngineResource (Some engineId)))"

definition canViewEngineForDeploy :: "deploy_db \<Rightarrow> int \<Rightarrow> string \<Rightarrow> string \<Rightarrow> string option \<Rightarrow> composite_error + bool" where
  "canViewEngineForDeploy db now userId engineId tenantId =
     bind_res (engine_held db now ''engine:deploy:view'' userId tenantId engineId)
       (\<lambda>ok. if ok then Inr True else engine_held db now ''engine:instance:view'' userId tenantId engineId)"

definition composite_input :: "string \<Rightarrow> string option \<Rightarrow> string \<Rightarrow> string \<Rightarrow> deploy_mode \<Rightarrow> eligibility_input" where
  "composite_input userId tenantId projectId engineId mode =
     \<lparr>ein_userId = Some userId, ein_principalType = None, ein_principalId = None, ein_tenantId = tenantId, ein_ipAddress = None,
      ein_userAgent = None, ein_timestamp = None, ein_userAttributes = (\<lambda>k. None), ein_projectId = projectId,
      ein_engineId = engineId, ein_mode = Some mode\<rparr>"

text \<open>The ids are those of a target made by the first evaluation, of the grant and its target, and of a target made by the second.\<close>

record fresh_ids =
  fid_first :: string
  fid_grant :: "string \<times> string"
  fid_second :: string

definition evaluateDeploymentComposite ::
  "resolver_lib \<Rightarrow> calendar \<Rightarrow> fresh_ids \<Rightarrow> int \<Rightarrow> string \<Rightarrow> string option \<Rightarrow> string \<Rightarrow> string \<Rightarrow> deploy_mode \<Rightarrow> bool \<Rightarrow> deploy_db \<Rightarrow>
     (composite_error + eligibility) \<times> deploy_db" where
  "evaluateDeploymentComposite lib cal ids now userId tenantId projectId engineId mode legacyAutoGrant db =
     (let input = composite_input userId tenantId projectId engineId mode;
          (result, db1) = evaluate_deployment lib cal (fid_first ids) now input db
      in if elg_allowed result \<or> \<not> legacyAutoGrant \<or> mode \<noteq> ManualMode then (Inr result, db1)
         else if deniedCheckIds result = [''project_engine_target.active'']
         then (case engine_held db1 now ''engine:project-access:approve'' userId tenantId engineId of
             Inl e \<Rightarrow> (Inl e, db1)
           | Inr may \<Rightarrow>
               if \<not> may then (Inr result, db1)
               else (case grantAccess lib (fid_grant ids) now projectId engineId userId True tenantId db1 of
                   Inl e \<Rightarrow> (Inl (GrantFailed e), db1)
                 | Inr (i, db2) \<Rightarrow> (let (again, db3) = evaluate_deployment lib cal (fid_second ids) now input db2 in (Inr again, db3))))
         else (Inr result, db1))"

definition loadDeployActionContext :: "deploy_db \<Rightarrow> string \<Rightarrow> composite_error + (string \<times> string option)" where
  "loadDeployActionContext db engineId =
     (case full_engine db engineId of
        None \<Rightarrow> Inl (GuardFailed (NoSuch ''Engine''))
      | Some (e, d) \<Rightarrow> Inr (eni_name d,
          if truthy_str (eni_environmentTagId d)
          then nonempty (map_option evt_name (map_of (ddb_environments db) (the (eni_environmentTagId d)))) else None))"

text \<open>The answer of the guard to a refused deployment: what it hides, or the refusal with its checks.\<close>

definition refuse_deployment ::
  "deploy_db \<Rightarrow> int \<Rightarrow> composite_options \<Rightarrow> string \<Rightarrow> string option \<Rightarrow> string \<Rightarrow> eligibility \<Rightarrow> composite_error + composite_outcome" where
  "refuse_deployment db now options userId tenantId engineId result =
     (if hasDeniedCheck result ''project.exists'' then Inl (GuardFailed (NoSuch ''Project''))
      else if hasDeniedCheck result ''engine.exists'' then Inl (GuardFailed (NoSuch ''Engine''))
      else if cop_hideUnauthorizedEngine options \<noteq> Some False \<and> hasDeniedCheck result ''engine.permission.deploy''
      then bind_res (canViewEngineForDeploy db now userId engineId tenantId)
        (\<lambda>ok. if ok then Inr (DeploymentRefused result) else Inl (GuardFailed (NoSuch ''Engine'')))
      else Inr (DeploymentRefused result))"

definition grant_deployment ::
  "deploy_db \<Rightarrow> composite_options \<Rightarrow> action_definition \<Rightarrow> string \<Rightarrow> string \<Rightarrow> deploy_mode \<Rightarrow> composite_error + composite_outcome" where
  "grant_deployment db options act projectId engineId mode =
     bind_res (if cop_attachDeployContext options = Some False then Inr None
         else bind_res (loadDeployActionContext db engineId) (\<lambda>c. Inr (Some c)))
       (\<lambda>c. Inr (DeploymentGranted \<lparr>dgr_action = act, dgr_projectId = projectId, dgr_engineId = engineId, dgr_mode = mode, dgr_context = c\<rparr>))"

definition requireCompositeAction ::
  "resolver_lib \<Rightarrow> calendar \<Rightarrow> fresh_ids \<Rightarrow> int \<Rightarrow> action_definition \<Rightarrow> composite_options \<Rightarrow> api_request \<Rightarrow> deploy_db \<Rightarrow>
     (composite_error + composite_outcome) \<times> deploy_db" where
  "requireCompositeAction lib cal ids now act options req db =
     (let read = (\<lambda>key from name. readRequestValue req (text_or key name) (given_or from FromBody));
          projectId = read (cop_projectIdKey options) (cop_projectIdFrom options) ''projectId'';
          engineId = read (cop_engineIdKey options) (cop_engineIdFrom options) ''engineId'';
          mode = given_or (cop_mode options) ManualMode; tenantId = request_tenant req
      in case arq_userId req of
           None \<Rightarrow> (Inl (GuardFailed Unauthenticated), db)
         | Some userId \<Rightarrow>
             if engineId = None \<and> cop_optionalWhenMissingEngineId options then (Inr NoEngineGiven, db)
             else (case (projectId, engineId) of
                 (Some p, Some e) \<Rightarrow>
                   (case evaluateDeploymentComposite lib cal ids now userId tenantId p e mode
                       (cop_legacyAutoGrant options \<noteq> Some False) db of
                      (Inl err, db') \<Rightarrow> (Inl err, db')
                    | (Inr result, db') \<Rightarrow>
                        (if \<not> elg_allowed result then refuse_deployment db' now options userId tenantId e result
                         else grant_deployment db' options act p e mode, db'))
               | _ \<Rightarrow> (Inl (GuardFailed (KeyRequired ''projectId and engineId'')), db)))"

end
