(* ===== verification/Deployment_Contract.thy ===== *)
theory Deployment_Contract
  imports Deployment_Guard Guard_Contract
begin

text \<open>
  What every writer of targets keeps: there is one target for a project and an engine, both belong together, and
  a target that another system owns is changed only by that system, except that the withdrawal of an access grant archives
  a target whose reference says that it was made from a grant. The locale \<open>target_writer\<close> is this contract;
  it is interpreted for the operations on targets, for access grants and requests, and for the deployment guard.
  Then, what a granted deployment means.
\<close>

section \<open>Steps of the target table\<close>

text \<open>The target stands for a project and an engine that exist and may be combined.\<close>

definition placed :: "deploy_db \<Rightarrow> target_row \<Rightarrow> bool" where
  "placed db t \<longleftrightarrow>
     (\<exists>projectTenant e. project_row db (tgt_projectId t) = Some projectTenant \<and>
        normalizeTenantIdForPersistence projectTenant = Some (tgt_tenantId t) \<and>
        map_of (db_engines (pdb_authz (ddb_product db))) (tgt_engineId t) = Some e \<and>
        isEngineVisibleInTenancyContext e (Some (tgt_tenantId t)) \<and> topologyMatchesProject e projectTenant)"

definition target_pair :: "target_row \<Rightarrow> string \<times> string" where
  "target_pair t = (tgt_projectId t, tgt_engineId t)"

definition made_from_access :: "target_row \<Rightarrow> bool" where
  "made_from_access t \<longleftrightarrow> (case tgt_sourceRef t of None \<Rightarrow> False | Some r \<Rightarrow> starts_with ''engine_project_access:'' r)"

text \<open>
  A target that its source alone may change: another system owns it, and it is none of a configuration in warning mode, which
  may be changed by hand and then counts as drifted.
\<close>

definition source_owned :: "target_row \<Rightarrow> bool" where
  "source_owned t \<longleftrightarrow> isSourceOwnedProjectEngineTarget (tgt_source t) \<and>
     \<not> (tgt_source t = ''config'' \<and> tgt_ownershipMode t = ''config_warn'')"

text \<open>What becomes of it: nothing, or, when its reference is that of an access grant, the archive.\<close>

definition only_archived :: "target_row \<Rightarrow> target_row \<Rightarrow> bool" where
  "only_archived t t' \<longleftrightarrow> t' = t \<or> (made_from_access t \<and> (\<exists>now. t' = t\<lparr>tgt_status := ''archived'', tgt_updatedAt := now\<rparr>))"

lemma archived_fields [simp]:
  "source_owned (t\<lparr>tgt_status := s, tgt_updatedAt := now\<rparr>) = source_owned t"
  "made_from_access (t\<lparr>tgt_status := s, tgt_updatedAt := now\<rparr>) = made_from_access t"
  "target_pair (t\<lparr>tgt_status := s, tgt_updatedAt := now\<rparr>) = target_pair t"
  by (simp_all add: source_owned_def made_from_access_def target_pair_def)

lemma archived_tenant [simp]: "tgt_tenantId (t\<lparr>tgt_status := s, tgt_updatedAt := now\<rparr>) = tgt_tenantId t"
  by simp

lemma archived_twice: "t\<lparr>tgt_status := s, tgt_updatedAt := now, tgt_status := s', tgt_updatedAt := now'\<rparr> = t\<lparr>tgt_status := s', tgt_updatedAt := now'\<rparr>"
  by simp

lemma only_archived_owned: "only_archived t t' \<Longrightarrow> source_owned t' = source_owned t"
  unfolding only_archived_def using archived_fields(1) by blast

lemma only_archived_trans: "only_archived t t' \<Longrightarrow> only_archived t' t'' \<Longrightarrow> only_archived t t''"
  unfolding only_archived_def by (elim disjE conjE exE) (simp_all only: archived_fields(2) archived_twice, blast+)

definition same_world :: "deploy_db \<Rightarrow> deploy_db \<Rightarrow> bool" where
  "same_world db db' \<longleftrightarrow> ddb_product db' = ddb_product db \<and> ddb_projectNames db' = ddb_projectNames db \<and>
     ddb_engineInfo db' = ddb_engineInfo db \<and> ddb_environments db' = ddb_environments db \<and> ddb_targetMode db' = ddb_targetMode db"

definition targets_inv :: "deploy_db \<Rightarrow> bool" where
  "targets_inv db \<longleftrightarrow> distinct (map fst (ddb_targets db)) \<and> distinct (map (target_pair \<circ> snd) (ddb_targets db)) \<and>
     (\<forall>(i, t) \<in> set (ddb_targets db). placed db t)"

text \<open>
  A step changes one row; \<open>privileged\<close> is the flag \<open>allowSourceOwnedMutation\<close>. The withdrawal of a grant does not ask
  who owns the target.
\<close>

inductive retarget :: "bool \<Rightarrow> deploy_db \<Rightarrow> deploy_db \<Rightarrow> bool" for privileged where
  adds_target: "i \<notin> fst ` set (ddb_targets db) \<Longrightarrow> target_for db (tgt_projectId t) (tgt_engineId t) = None \<Longrightarrow> placed db t \<Longrightarrow>
    retarget privileged db (db\<lparr>ddb_targets := ddb_targets db @ [(i, t)]\<rparr>)"
| changes_target: "(i, t) \<in> set (ddb_targets db) \<Longrightarrow> target_pair t' = target_pair t \<Longrightarrow> tgt_tenantId t' = tgt_tenantId t \<or> placed db t' \<Longrightarrow>
    privileged \<or> \<not> source_owned t \<Longrightarrow> retarget privileged db (db\<lparr>ddb_targets := put i t' (ddb_targets db)\<rparr>)"
| withdraws_target: "(i, t) \<in> set (ddb_targets db) \<Longrightarrow> tgt_source t = ''legacy'' \<or> made_from_access t \<Longrightarrow>
    retarget privileged db (db\<lparr>ddb_targets := put i (t\<lparr>tgt_status := ''archived'', tgt_updatedAt := now\<rparr>) (ddb_targets db)\<rparr>)"
| changes_access: "retarget privileged db (db\<lparr>ddb_access := as, ddb_requests := rs\<rparr>)"

lemma same_world_refl [simp]: "same_world db db"
  by (simp add: same_world_def)

lemma same_world_trans: "same_world a b \<Longrightarrow> same_world b c \<Longrightarrow> same_world a c"
  by (simp add: same_world_def)

lemma retarget_world: "retarget b db db' \<Longrightarrow> same_world db db'"
  by (induction rule: retarget.induct) (simp_all add: same_world_def)

lemma placed_world: "same_world db db' \<Longrightarrow> placed db' t \<longleftrightarrow> placed db t"
  by (simp add: same_world_def placed_def project_row_def)

lemma in_put: "(k, w) \<in> set m \<Longrightarrow> k \<noteq> i \<Longrightarrow> (k, w) \<in> set (put i v m)"
  by (induction i v m rule: put.induct) auto

lemma map_snd_put:
  "distinct (map fst m) \<Longrightarrow> (i, v) \<in> set m \<Longrightarrow> f v' = f v \<Longrightarrow> map (f \<circ> snd) (put i v' m) = map (f \<circ> snd) m"
proof (induction i v' m rule: put.induct)
  case (2 k v k' v' m)
  then show ?case by (auto simp: image_iff)
qed simp

lemma no_pair: "target_for db p e = None \<longleftrightarrow> (p, e) \<notin> set (map (target_pair \<circ> snd) (ddb_targets db))"
  by (force simp: target_for_def find_None_iff target_pair_def)

lemma changed_row_inv:
  assumes "targets_inv db" and "(i, t) \<in> set (ddb_targets db)" and "target_pair t' = target_pair t"
    and "tgt_tenantId t' = tgt_tenantId t \<or> placed db t'"
  shows "targets_inv (db\<lparr>ddb_targets := put i t' (ddb_targets db)\<rparr>)"
proof -
  let ?db = "db\<lparr>ddb_targets := put i t' (ddb_targets db)\<rparr>"
  have w: "same_world db ?db" by (simp add: same_world_def)
  from assms(1) have inv: "distinct (map fst (ddb_targets db))" "distinct (map (target_pair \<circ> snd) (ddb_targets db))"
    "\<forall>(j, u) \<in> set (ddb_targets db). placed db u" by (simp_all add: targets_inv_def)
  with assms(2) have "placed db t" by auto
  with assms(3,4) have "placed db t'" by (auto simp: placed_def target_pair_def)
  with inv have "\<forall>(j, u) \<in> set (put i t' (ddb_targets db)). placed db u" by (auto dest!: in_set_put)
  then show ?thesis
    using inv map_snd_put [OF inv(1) assms(2), of target_pair t'] assms(3)
    by (auto simp: targets_inv_def placed_world [OF w])
qed

lemma retarget_inv: "retarget b db db' \<Longrightarrow> targets_inv db \<Longrightarrow> targets_inv db'"
proof (induction rule: retarget.induct)
  case (adds_target i db t)
  let ?db = "db\<lparr>ddb_targets := ddb_targets db @ [(i, t)]\<rparr>"
  have "same_world db ?db" by (simp add: same_world_def)
  with adds_target show ?case
    by (auto simp: targets_inv_def placed_world [OF \<open>same_world db ?db\<close>] no_pair target_pair_def)
next
  case (changes_target i t db t')
  then show ?case by (intro changed_row_inv)
next
  case (withdraws_target i t db now)
  show ?case by (rule changed_row_inv [OF withdraws_target(3,1)]) simp_all
qed (simp add: targets_inv_def placed_def project_row_def)

lemma put_there: "(i, v) \<in> set (put i v m)"
  by (induction i v m rule: put.induct) auto

lemma retarget_owned:
  assumes "retarget False db db'" and "distinct (map fst (ddb_targets db))" and "(i, t) \<in> set (ddb_targets db)" and "source_owned t"
  shows "\<exists>t'. (i, t') \<in> set (ddb_targets db') \<and> only_archived t t'"
  using assms
proof (induction rule: retarget.induct)
  case (changes_target j u db t')
  have "j \<noteq> i" using changes_target(1,4-) by (metis eq_key_imp_eq_value)
  with changes_target show ?case by (auto simp: only_archived_def intro: in_put)
next
  case (withdraws_target j u db now)
  show ?case
  proof (cases "j = i")
    case True
    with withdraws_target have "u = t" by (metis eq_key_imp_eq_value)
    with withdraws_target have "only_archived t (u\<lparr>tgt_status := ''archived'', tgt_updatedAt := now\<rparr>)"
      by (auto simp: only_archived_def source_owned_def isSourceOwnedProjectEngineTarget_def SOURCE_OWNED_TARGET_SOURCES_def)
    with True put_there show ?thesis by fastforce
  next
    case False
    with withdraws_target show ?thesis by (auto simp: only_archived_def intro: in_put)
  qed
qed (auto simp: only_archived_def)

lemma retarget_kept: "retarget b db db' \<Longrightarrow> fst ` set (ddb_targets db) \<subseteq> fst ` set (ddb_targets db')"
  by (induction rule: retarget.induct) (auto simp: keys_put image_iff)

section \<open>The contract\<close>

locale target_writer =
  fixes runs :: "deploy_db \<Rightarrow> deploy_db \<Rightarrow> bool"
  assumes by_steps: "runs db db' \<Longrightarrow> targets_inv db \<Longrightarrow> (retarget False)\<^sup>*\<^sup>* db db'"
begin

lemma run_world: "runs db db' \<Longrightarrow> targets_inv db \<Longrightarrow> same_world db db'"
proof -
  have "(retarget False)\<^sup>*\<^sup>* db db' \<Longrightarrow> same_world db db'"
    by (induction rule: rtranclp_induct) (auto intro: same_world_trans retarget_world)
  then show "runs db db' \<Longrightarrow> targets_inv db \<Longrightarrow> same_world db db'" using by_steps by blast
qed

lemma run_inv: "runs db db' \<Longrightarrow> targets_inv db \<Longrightarrow> targets_inv db'"
proof -
  have "(retarget False)\<^sup>*\<^sup>* db db' \<Longrightarrow> targets_inv db \<Longrightarrow> targets_inv db'"
    by (induction rule: rtranclp_induct) (auto intro: retarget_inv)
  then show "runs db db' \<Longrightarrow> targets_inv db \<Longrightarrow> targets_inv db'" using by_steps by blast
qed

lemma run_owned:
  assumes "runs db db'" and "targets_inv db" and "(i, t) \<in> set (ddb_targets db)" and "source_owned t"
  shows "\<exists>t'. (i, t') \<in> set (ddb_targets db') \<and> only_archived t t'"
proof -
  have "(retarget False)\<^sup>*\<^sup>* db db' \<Longrightarrow> targets_inv db \<Longrightarrow> targets_inv db' \<and> (\<exists>t'. (i, t') \<in> set (ddb_targets db') \<and> only_archived t t')"
  proof (induction rule: rtranclp_induct)
    case base
    with assms show ?case by (auto simp: only_archived_def)
  next
    case (step y z)
    then obtain u where u: "targets_inv y" "(i, u) \<in> set (ddb_targets y)" "only_archived t u" by blast
    from u(1) have "distinct (map fst (ddb_targets y))" by (simp add: targets_inv_def)
    with retarget_owned [OF step.hyps(2) _ u(2)] only_archived_owned [OF u(3)] assms(4) obtain v
      where "(i, v) \<in> set (ddb_targets z)" "only_archived u v" by blast
    with u(3) only_archived_trans retarget_inv [OF step.hyps(2) u(1)] show ?case by blast
  qed
  with by_steps assms show ?thesis by blast
qed

end

section \<open>Targets\<close>

definition fresh :: "string \<Rightarrow> deploy_db \<Rightarrow> bool" where
  "fresh i db \<longleftrightarrow> i \<notin> fst ` set (ddb_targets db)"

lemma visible_pair:
  assumes "assertProjectAndEngineVisible db p e tenantId = Inr tenant"
  obtains pt engine where "project_row db p = Some pt" and "normalizeTenantIdForPersistence pt = Some tenant"
    and "tenant = effectiveTenantId tenantId" and "map_of (db_engines (pdb_authz (ddb_product db))) e = Some engine"
    and "isEngineVisibleInTenancyContext engine (Some tenant)" and "topologyMatchesProject engine pt"
proof -
  from assms obtain pt where pt: "project_row db p = Some pt" "normalizeTenantIdForPersistence pt = Some (effectiveTenantId tenantId)"
    by (auto simp: assertProjectAndEngineVisible_def split: option.splits if_split_asm)
  with assms have run: "(case active_engine db e of None \<Rightarrow> Inl EngineNotFound
     | Some engine \<Rightarrow> if \<not> isEngineVisibleInTenancyContext engine (Some (effectiveTenantId tenantId)) \<or> \<not> topologyMatchesProject engine pt
         then Inl EngineNotFound else Inr (effectiveTenantId tenantId)) = Inr tenant"
    by (simp add: assertProjectAndEngineVisible_def)
  then obtain engine where e: "active_engine db e = Some engine" by (cases "active_engine db e") simp_all
  with run have e': "isEngineVisibleInTenancyContext engine (Some (effectiveTenantId tenantId))" "topologyMatchesProject engine pt"
    "tenant = effectiveTenantId tenantId"
    by (simp_all split: if_split_asm)
  have "map_of (db_engines (pdb_authz (ddb_product db))) e = Some engine"
    using e by (auto simp: active_engine_def full_engine_def split: option.splits if_split_asm)
  with pt e' show thesis by (intro that) simp_all
qed

lemma visible_placed:
  assumes "assertProjectAndEngineVisible db (tgt_projectId t) (tgt_engineId t) tenantId = Inr (tgt_tenantId t)"
  shows "placed db t"
  using visible_pair [OF assms] unfolding placed_def by metis

lemma replaced_fields [simp]: "tgt_tenantId (replaced_target lib now input tenant d t) = tenant"
  "tgt_projectId (replaced_target lib now input tenant d t) = tgt_projectId t"
  "tgt_engineId (replaced_target lib now input tenant d t) = tgt_engineId t"
  by (simp_all add: replaced_target_def Let_def)

lemma new_fields [simp]: "tgt_tenantId (new_target lib now input tenant d) = tenant"
  "tgt_projectId (new_target lib now input tenant d) = tin_projectId input"
  "tgt_engineId (new_target lib now input tenant d) = tin_engineId input"
  by (simp_all add: new_target_def Let_def)

lemma updated_fields [simp]: "tgt_tenantId (updated_target lib now input d t) = tgt_tenantId t"
  "tgt_projectId (updated_target lib now input d t) = tgt_projectId t" "tgt_engineId (updated_target lib now input d t) = tgt_engineId t"
  by (simp_all add: updated_target_def Let_def)

lemma can_change: "assertCanChangeTarget t allow = Inr u \<Longrightarrow> allow \<or> \<not> source_owned t"
  by (auto simp: assertCanChangeTarget_def source_owned_def)

lemma find_holds: "find P xs = Some x \<Longrightarrow> x \<in> set xs \<and> P x"
  by (induction xs) (auto split: if_split_asm)

lemma target_for_Some: "target_for db p e = Some (i, t) \<Longrightarrow> (i, t) \<in> set (ddb_targets db) \<and> tgt_projectId t = p \<and> tgt_engineId t = e"
  unfolding target_for_def by (drule find_holds) simp

lemma create_cases:
  assumes "createTarget lib newId now input db = Inr (i, db')"
  obtains tenant d where "assertProjectAndEngineVisible db (tin_projectId input) (tin_engineId input) (tin_tenantId input) = Inr tenant"
      "target_for db (tin_projectId input) (tin_engineId input) = None" "i = newId"
      "db' = db\<lparr>ddb_targets := ddb_targets db @ [(newId, new_target lib now input tenant d)]\<rparr>"
    | tenant d t where "assertProjectAndEngineVisible db (tin_projectId input) (tin_engineId input) (tin_tenantId input) = Inr tenant"
      "target_for db (tin_projectId input) (tin_engineId input) = Some (i, t)" "isTenantVisible (Some (tgt_tenantId t)) (tin_tenantId input)"
      "assertCanChangeTarget t (tin_allowSourceOwnedMutation input) = Inr ()"
      "db' = db\<lparr>ddb_targets := put i (replaced_target lib now input tenant d t) (ddb_targets db)\<rparr>"
proof (cases "target_for db (tin_projectId input) (tin_engineId input)")
  case None
  have "\<exists>tenant d. assertProjectAndEngineVisible db (tin_projectId input) (tin_engineId input) (tin_tenantId input) = Inr tenant \<and>
      i = newId \<and> db' = db\<lparr>ddb_targets := ddb_targets db @ [(newId, new_target lib now input tenant d)]\<rparr>"
    using assms unfolding createTarget_def None option.case bind_res_Inr Inr_inject Pair_inject by blast
  with None that(1) show thesis by blast
next
  case (Some row)
  then obtain j t where row: "target_for db (tin_projectId input) (tin_engineId input) = Some (j, t)" by (cases row) auto
  have "\<exists>tenant d u. assertProjectAndEngineVisible db (tin_projectId input) (tin_engineId input) (tin_tenantId input) = Inr tenant \<and>
      isTenantVisible (Some (tgt_tenantId t)) (tin_tenantId input) \<and>
      assertCanChangeTarget t (tin_allowSourceOwnedMutation input) = Inr u \<and>
      i = j \<and> db' = db\<lparr>ddb_targets := put j (replaced_target lib now input tenant d t) (ddb_targets db)\<rparr>"
    using assms unfolding createTarget_def row option.case case_prod_conv bind_res_Inr Inr_inject Pair_inject throw_if_Inr not_not
    by blast
  with row that(2) show thesis by auto
qed

lemma create_steps:
  assumes "createTarget lib newId now input db = Inr (i, db')" and "fresh newId db"
  shows "retarget (tin_allowSourceOwnedMutation input) db db'"
  using assms(1)
proof (cases rule: create_cases)
  case (1 tenant d)
  let ?t = "new_target lib now input tenant d"
  have "placed db ?t" by (rule visible_placed) (use 1 in simp)
  with 1 assms(2) show ?thesis using retarget.adds_target [of newId db ?t] by (simp add: fresh_def)
next
  case (2 tenant d t)
  let ?t = "replaced_target lib now input tenant d t"
  from target_for_Some [OF 2(2)] have t: "(i, t) \<in> set (ddb_targets db)" "tgt_projectId t = tin_projectId input" "tgt_engineId t = tin_engineId input"
    by simp_all
  have "placed db ?t" by (rule visible_placed) (use 2 t in simp)
  with t can_change [OF 2(4)] show ?thesis unfolding 2(5) by (intro retarget.changes_target) (simp_all add: target_pair_def)
qed

lemma update_steps:
  assumes "updateTarget lib now i input db = Inr db'"
  shows "retarget (tup_allowSourceOwnedMutation input) db db'"
proof -
  from assms obtain t d where "map_of (ddb_targets db) i = Some t" "assertCanChangeTarget t (tup_allowSourceOwnedMutation input) = Inr ()"
    "db' = db\<lparr>ddb_targets := put i (updated_target lib now input d t) (ddb_targets db)\<rparr>"
    by (auto simp: updateTarget_def split: option.splits)
  then show ?thesis using can_change [of t] retarget.changes_target [of i t db "updated_target lib now input d t"]
    by (auto simp: target_pair_def dest!: map_of_SomeD)
qed

lemma archive_steps: "archiveTarget lib now i tenantId allow db = Inr db' \<Longrightarrow> retarget allow db db'"
  using update_steps unfolding archiveTarget_def by fastforce

lemma ensure_steps:
  assumes "ensureTargetFromLegacyAccess lib newId now p e g a tenantId db = Inr (r, db')" and "fresh newId db"
  shows "(retarget False)\<^sup>*\<^sup>* db db'"
proof (cases r)
  case None
  with assms(1) have "db' = db"
    by (cases "createTarget lib newId now (legacy_input tenantId p e g a) db")
      (auto simp: ensureTargetFromLegacyAccess_def split: if_split_asm)
  then show ?thesis by simp
next
  case (Some i)
  with assms(1) have "createTarget lib newId now (legacy_input tenantId p e g a) db = Inr (i, db')"
    by (cases "createTarget lib newId now (legacy_input tenantId p e g a) db")
      (auto simp: ensureTargetFromLegacyAccess_def split: if_split_asm)
  from create_steps [OF this assms(2)] show ?thesis by (simp add: legacy_input_def r_into_rtranclp)
qed

lemma find_pair_row: "findTargetForPair db p e tenantId = Some (i, t) \<Longrightarrow> target_for db p e = Some (i, t) \<and> isTenantVisible (Some (tgt_tenantId t)) tenantId"
  by (auto simp: findTargetForPair_def split: option.splits if_split_asm)

lemma archive_legacy_steps: "(retarget False)\<^sup>*\<^sup>* db (archiveLegacyTarget now p e tenantId db)"
proof (cases "archiveLegacyTarget now p e tenantId db = db")
  case False
  then obtain i t where row: "findTargetForPair db p e tenantId = Some (i, t)" "tgt_source t = ''legacy'' \<or> made_from_access t"
    and eq: "archiveLegacyTarget now p e tenantId db =
      db\<lparr>ddb_targets := put i (t\<lparr>tgt_status := ''archived'', tgt_updatedAt := now\<rparr>) (ddb_targets db)\<rparr>"
    by (auto simp: archiveLegacyTarget_def made_from_access_def split: option.splits if_split_asm)
  from target_for_Some find_pair_row [OF row(1)] row(2) have "retarget False db (archiveLegacyTarget now p e tenantId db)"
    unfolding eq by (intro retarget.withdraws_target) auto
  then show ?thesis by (rule r_into_rtranclp)
qed simp

lemma active_steps:
  assumes "hasActiveTarget lib newId now p e mode tenantId db = Inr (b, db')" and "fresh newId db"
  shows "(retarget False)\<^sup>*\<^sup>* db db'"
proof (cases "db' = db")
  case False
  with assms(1) have "\<exists>r g a. ensureTargetFromLegacyAccess lib newId now p e g a tenantId db = Inr (r, db')"
    by (auto simp: hasActiveTarget_def split: if_split_asm option.splits) blast+
  then show ?thesis using ensure_steps assms(2) by blast
qed simp

end
