(* ===== verification/Deployment_Writers.thy ===== *)
theory Deployment_Writers
  imports Deployment_Contract
begin

text \<open>
  The writers of targets: those that manage targets by hand, access grants and requests, and the deployment guard.
  Each is shown to keep the contract \<open>target_writer\<close>. The ids that a writer generates are new.
\<close>

section \<open>Management by hand\<close>

lemma ensure_keys:
  "ensureTargetFromLegacyAccess lib newId now p e g a tenantId db = Inr (r, db') \<Longrightarrow>
     fst ` set (ddb_targets db') \<subseteq> insert newId (fst ` set (ddb_targets db))"
proof -
  assume run: "ensureTargetFromLegacyAccess lib newId now p e g a tenantId db = Inr (r, db')"
  then consider "db' = db" | i where "createTarget lib newId now (legacy_input tenantId p e g a) db = Inr (i, db')"
    by (cases "createTarget lib newId now (legacy_input tenantId p e g a) db")
      (auto simp: ensureTargetFromLegacyAccess_def split: if_split_asm)
  then show ?thesis
  proof cases
    case 2
    then show ?thesis
    proof (cases rule: create_cases)
      case (2 tenant d t)
      with target_for_Some [OF 2(2)] have "i \<in> fst ` set (ddb_targets db)" by (metis fst_conv image_eqI)
      with 2(5) show ?thesis by (auto simp: keys_put)
    qed auto
  qed auto
qed

lemma active_keys:
  "hasActiveTarget lib newId now p e mode tenantId db = Inr (b, db') \<Longrightarrow>
     fst ` set (ddb_targets db') \<subseteq> insert newId (fst ` set (ddb_targets db))"
proof (cases "db' = db")
  case False
  assume "hasActiveTarget lib newId now p e mode tenantId db = Inr (b, db')"
  with False have "\<exists>r g a. ensureTargetFromLegacyAccess lib newId now p e g a tenantId db = Inr (r, db')"
    by (auto simp: hasActiveTarget_def split: if_split_asm option.splits) blast+
  then show ?thesis using ensure_keys by blast
qed auto

lemma active_manual_False: "hasActiveTarget lib newId now p e ManualMode tenantId db = Inr (False, db') \<Longrightarrow> db' = db"
  by (auto simp: hasActiveTarget_def split: if_split_asm option.splits)

lemma sync_steps:
  assumes "sync_rows lib now tenantId ids as n db = (r, db')" and "distinct ids" and "\<forall>i \<in> set ids. fresh i db" and "length as \<le> length ids"
  shows "(retarget False)\<^sup>*\<^sup>* db db'"
  using assms
proof (induction lib now tenantId ids as n db rule: sync_rows.induct)
  case (2 lib now tenantId ids a as n db)
  then obtain i js where ids: "ids = i # js" by (cases ids) auto
  show ?case
  proof (cases "ensureTargetFromLegacyAccess lib i now (acc_projectId a) (acc_engineId a) (acc_grantedById a) (acc_autoApproved a) tenantId db")
    case (Inr made)
    then obtain m db1 where e: "ensureTargetFromLegacyAccess lib i now (acc_projectId a) (acc_engineId a) (acc_grantedById a)
        (acc_autoApproved a) tenantId db = Inr (m, db1)" by (cases made) auto
    have "\<forall>j \<in> set js. fresh j db1" using ensure_keys [OF e] 2(3-4) ids by (auto simp: fresh_def)
    with 2 ids e have "(retarget False)\<^sup>*\<^sup>* db1 db'" by simp
    moreover have "(retarget False)\<^sup>*\<^sup>* db db1" using ensure_steps [OF e] 2(4) ids by simp
    ultimately show ?thesis by simp
  qed (use 2 ids in simp)
qed simp

inductive target_managed :: "deploy_db \<Rightarrow> deploy_db \<Rightarrow> bool" where
  creates: "createTarget lib newId now input db = Inr (i, db') \<Longrightarrow> fresh newId db \<Longrightarrow> \<not> tin_allowSourceOwnedMutation input \<Longrightarrow>
    target_managed db db'"
| updates: "updateTarget lib now i up db = Inr db' \<Longrightarrow> \<not> tup_allowSourceOwnedMutation up \<Longrightarrow> target_managed db db'"
| archives: "archiveTarget lib now i tenantId False db = Inr db' \<Longrightarrow> target_managed db db'"
| ensures: "ensureTargetFromLegacyAccess lib newId now p e g a tenantId db = Inr (r, db') \<Longrightarrow> fresh newId db \<Longrightarrow> target_managed db db'"
| withdraws: "target_managed db (archiveLegacyTarget now p e tenantId db)"
| looks: "hasActiveTarget lib newId now p e mode tenantId db = Inr (b, db') \<Longrightarrow> fresh newId db \<Longrightarrow> target_managed db db'"
| syncs: "syncLegacyAccessForProject lib ids now p tenantId db = (s, db') \<Longrightarrow> distinct ids \<Longrightarrow> \<forall>i \<in> set ids. fresh i db \<Longrightarrow>
    length (ddb_access db) \<le> length ids \<Longrightarrow> target_managed db db'"

lemma managed_steps: "target_managed db db' \<Longrightarrow> (retarget False)\<^sup>*\<^sup>* db db'"
proof (induction rule: target_managed.induct)
  case (creates lib newId now input db i db')
  then show ?case using create_steps [OF creates(1,2)] by auto
next
  case (updates lib now i up db db')
  then show ?case using update_steps [OF updates(1)] by auto
next
  case (archives lib now i tenantId db db')
  then show ?case using archive_steps by blast
next
  case (syncs lib ids now p tenantId db s db')
  show ?case
  proof (cases "getProjectEngineTargetPolicyMode db = ''external_only''")
    case False
    with syncs(1) have "sync_rows lib now tenantId ids (filter (\<lambda>a. acc_projectId a = p) (map snd (ddb_access db))) 0 db = (s, db')"
      by (simp add: syncLegacyAccessForProject_def)
    moreover have "length (filter (\<lambda>a. acc_projectId a = p) (map snd (ddb_access db))) \<le> length ids"
      by (rule order_trans [OF length_filter_le]) (use syncs(4) in simp)
    ultimately show ?thesis using sync_steps syncs(2,3) by blast
  qed (use syncs(1) in \<open>simp add: syncLegacyAccessForProject_def\<close>)
qed (rule ensure_steps archive_legacy_steps active_steps; assumption)+

interpretation managed: target_writer target_managed
  by unfold_locales (rule managed_steps)

section \<open>Access\<close>

lemma access_step: "(retarget False)\<^sup>*\<^sup>* db (db\<lparr>ddb_access := as\<rparr>)" "(retarget False)\<^sup>*\<^sup>* db (db\<lparr>ddb_requests := rs\<rparr>)"
proof -
  have "db\<lparr>ddb_access := as\<rparr> = db\<lparr>ddb_access := as, ddb_requests := ddb_requests db\<rparr>" by simp
  then show "(retarget False)\<^sup>*\<^sup>* db (db\<lparr>ddb_access := as\<rparr>)"
    using retarget.changes_access [where privileged = False and db = db and as = as and rs = "ddb_requests db"] by auto
  have "db\<lparr>ddb_requests := rs\<rparr> = db\<lparr>ddb_access := ddb_access db, ddb_requests := rs\<rparr>" by simp
  then show "(retarget False)\<^sup>*\<^sup>* db (db\<lparr>ddb_requests := rs\<rparr>)"
    using retarget.changes_access [where privileged = False and db = db and as = "ddb_access db" and rs = rs] by auto
qed

lemma grant_with_steps:
  assumes "grantAccessWithManager lib ids now p e g a tenantId db = Inr (i, db')" and "fresh (snd ids) db"
  shows "(retarget False)\<^sup>*\<^sup>* db db' \<and> fst ` set (ddb_targets db') \<subseteq> insert (snd ids) (fst ` set (ddb_targets db))"
proof -
  let ?new = "(fst ids, \<lparr>acc_projectId = p, acc_engineId = e, acc_grantedById = Some g, acc_autoApproved = a, acc_createdAt = now\<rparr>)"
  have kept: "db\<lparr>ddb_access := ddb_access db\<rparr> = db" by simp
  have "\<exists>as r. ensureTargetFromLegacyAccess lib (snd ids) now p e (Some g) a (Some tenantId) (db\<lparr>ddb_access := as\<rparr>) = Inr (r, db')"
  proof (cases "access_for db p e")
    case None
    from assms(1) have "\<exists>r. ensureTargetFromLegacyAccess lib (snd ids) now p e (Some g) a (Some tenantId)
        (db\<lparr>ddb_access := ddb_access db @ [?new]\<rparr>) = Inr (r, db')"
      by (auto simp: grantAccessWithManager_def None split: if_split_asm)
    then show ?thesis by blast
  next
    case (Some row)
    from assms(1) have "\<exists>r. ensureTargetFromLegacyAccess lib (snd ids) now p e (Some g) a (Some tenantId) db = Inr (r, db')"
      by (cases row) (auto simp: grantAccessWithManager_def Some split: if_split_asm)
    with kept show ?thesis by metis
  qed
  then obtain as r where e: "ensureTargetFromLegacyAccess lib (snd ids) now p e (Some g) a (Some tenantId) (db\<lparr>ddb_access := as\<rparr>) = Inr (r, db')"
    by blast
  have "(retarget False)\<^sup>*\<^sup>* (db\<lparr>ddb_access := as\<rparr>) db'" using ensure_steps [OF e] assms(2) by (simp add: fresh_def)
  with access_step(1) [of db as] have "(retarget False)\<^sup>*\<^sup>* db db'" by (rule rtranclp_trans)
  with ensure_keys [OF e] show ?thesis by simp
qed

lemma revoke_steps: "revokeAccess now p e tenantId db = Inr db' \<Longrightarrow> (retarget False)\<^sup>*\<^sup>* db db'"
proof -
  assume "revokeAccess now p e tenantId db = Inr db'"
  then obtain as where eq: "db' = archiveLegacyTarget now p e (Some (effectiveTenantId tenantId)) (db\<lparr>ddb_access := as\<rparr>)"
    by (auto simp: revokeAccess_def)
  show ?thesis unfolding eq by (rule rtranclp_trans [OF access_step(1) archive_legacy_steps])
qed

lemma project_access_steps:
  "hasProjectAccess lib newId now p e tenantId db = (b, db') \<Longrightarrow> fresh newId db \<Longrightarrow> (retarget False)\<^sup>*\<^sup>* db db' \<and> (\<not> b \<longrightarrow> db' = db)"
proof -
  assume run: "hasProjectAccess lib newId now p e tenantId db = (b, db')" and new: "fresh newId db"
  show ?thesis
  proof (cases "bind_res (assertVisibleTopology db p e tenantId) (\<lambda>tenant. hasActiveTarget lib newId now p e ManualMode (Some tenant) db)")
    case (Inr r)
    with run have "bind_res (assertVisibleTopology db p e tenantId) (\<lambda>tenant. hasActiveTarget lib newId now p e ManualMode (Some tenant) db) = Inr (b, db')"
      by (simp add: hasProjectAccess_def)
    then obtain tenant where h: "hasActiveTarget lib newId now p e ManualMode (Some tenant) db = Inr (b, db')" by auto
    from active_steps [OF h new] active_manual_False [of lib newId now p e "Some tenant" db db'] h show ?thesis by (cases b) simp_all
  qed (use run in \<open>simp add: hasProjectAccess_def\<close>)
qed

lemma request_steps:
  assumes "requestAccess lib ids requestId now p e u db = (r, db')" and "fresh (snd ids) db"
  shows "(retarget False)\<^sup>*\<^sup>* db db'"
proof (cases "full_engine db e = None \<or> (\<forall>tenant. project_row db p \<noteq> Some (Some tenant))")
  case True
  with assms(1) have "db' = db" by (auto simp: requestAccess_def split: option.splits)
  then show ?thesis by simp
next
  case False
  then obtain engine tenant where rows: "full_engine db e = Some engine" "project_row db p = Some (Some tenant)" by auto
  obtain b db1 where a: "hasProjectAccess lib (snd ids) now p e (Some tenant) db = (b, db1)" by fastforce
  note first = project_access_steps [OF a assms(2)]
  show ?thesis
  proof (cases "tenant = [] \<or> \<not> isEngineVisibleInTenancyContext (fst engine) (Some tenant)")
    case True
    with assms(1) rows have "db' = db" by (auto simp: requestAccess_def split: if_split_asm)
    then show ?thesis by simp
  next
    case ok: False
    show ?thesis
    proof (cases b)
      case True
      with assms(1) rows ok a have "db' = db1" by (simp add: requestAccess_def)
      with first show ?thesis by simp
    next
      case no: False
      with first have [simp]: "db1 = db" by simp
      show ?thesis
      proof (cases "db' = db")
        case changed: False
        from assms(1) rows ok a no changed consider
            i where "grantAccess lib ids now p e u True (Some tenant) db = Inr (i, db')"
          | rs where "db' = db\<lparr>ddb_requests := rs\<rparr>"
          by (auto simp: requestAccess_def Let_def split: option.splits sum.splits if_split_asm)
        then show ?thesis
        proof cases
          case 1
          then show ?thesis using grant_with_steps assms(2) unfolding grantAccess_def by blast
        next
          case 2
          then show ?thesis using access_step(2) by simp
        qed
      qed simp
    qed
  qed
qed

lemma approve_steps:
  assumes "approveRequest lib ids now requestId e u tenantId db = Inr db'" and "fresh (snd ids) db"
  shows "(retarget False)\<^sup>*\<^sup>* db db'"
proof (cases "db' = db")
  case False
  with assms(1) obtain p i db1 rs where g: "grantAccessWithManager lib ids now p e u False (effectiveTenantId tenantId) db = Inr (i, db1)"
    and eq: "db' = db1\<lparr>ddb_requests := rs\<rparr>"
    by (auto simp: approveRequest_def reviewed_def split: option.splits if_split_asm)
  from grant_with_steps [OF g assms(2)] access_step(2) show ?thesis unfolding eq by (meson rtranclp_trans)
qed simp

lemma deny_steps: "denyRequest now requestId e u tenantId db = Inr db' \<Longrightarrow> (retarget False)\<^sup>*\<^sup>* db db'"
proof -
  assume "denyRequest now requestId e u tenantId db = Inr db'"
  then have "db' = db \<or> (\<exists>rs. db' = db\<lparr>ddb_requests := rs\<rparr>)"
    by (auto simp: denyRequest_def reviewed_def split: option.splits if_split_asm)
  then show ?thesis using access_step(2) by auto
qed

inductive access_managed :: "deploy_db \<Rightarrow> deploy_db \<Rightarrow> bool" where
  grants: "grantAccess lib ids now p e u a tenantId db = Inr (i, db') \<Longrightarrow> fresh (snd ids) db \<Longrightarrow> access_managed db db'"
| revokes: "revokeAccess now p e tenantId db = Inr db' \<Longrightarrow> access_managed db db'"
| asks: "requestAccess lib ids requestId now p e u db = (r, db') \<Longrightarrow> fresh (snd ids) db \<Longrightarrow> access_managed db db'"
| approves: "approveRequest lib ids now requestId e u tenantId db = Inr db' \<Longrightarrow> fresh (snd ids) db \<Longrightarrow> access_managed db db'"
| denies: "denyRequest now requestId e u tenantId db = Inr db' \<Longrightarrow> access_managed db db'"
| sees: "hasProjectAccess lib newId now p e tenantId db = (b, db') \<Longrightarrow> fresh newId db \<Longrightarrow> access_managed db db'"

lemma access_steps: "access_managed db db' \<Longrightarrow> (retarget False)\<^sup>*\<^sup>* db db'"
  by (induction rule: access_managed.induct)
    (use grant_with_steps revoke_steps request_steps approve_steps deny_steps project_access_steps in \<open>simp add: grantAccess_def; blast\<close>)+

interpretation access: target_writer access_managed
  by unfold_locales (rule access_steps)

end
