(* ===== verification/Deployment_Properties.thy ===== *)
theory Deployment_Properties
  imports Deployment_Writers Authz_Properties
begin

text \<open>
  What a granted deployment means, that the guard keeps the contract of the writers of targets, and the
  properties of targets and deployments.
\<close>

section \<open>The evaluation\<close>

lemma attempt_Inr [simp]: "attempt db mode checks (Inr x) k = k x"
  and attempt_Inl [simp]: "attempt db mode checks (Inl e) k = (deny mode (checks @ [(''authorization.resolver'', False)]), db)"
  by (simp_all add: attempt_def)

lemma deny_refuses [simp]: "\<not> elg_allowed (deny mode checks)"
  by (simp add: deny_def)

abbreviation deployment_policy_context ::
  "deploy_db \<Rightarrow> eligibility_input \<Rightarrow> principal_ref \<Rightarrow> engine_info \<Rightarrow> resource_type \<Rightarrow> string \<Rightarrow> bool \<Rightarrow> evaluation_context" where
  "deployment_policy_context db input who d rt i hasTarget \<equiv> policyContext input (effectiveTenantId (ein_tenantId input)) who rt i
     (deployment_attributes db input (given_or (ein_mode input) ManualMode) d hasTarget)"

lemma found_cases:
  assumes "evaluate_found lib cal newId now input who d db = (r, db')"
  obtains (untouched) "db' = db" and "\<not> elg_allowed r"
    | (looked) hasTarget where
      "hasPermission (pdb_authz (ddb_product db)) now (project_permission (given_or (ein_mode input) ManualMode))
        (deployment_context (effectiveTenantId (ein_tenantId input)) who ProjectResource (ein_projectId input)) = Inr True \<or> \<not> elg_allowed r"
      "hasPermission (pdb_authz (ddb_product db)) now (engine_permission (given_or (ein_mode input) ManualMode))
        (deployment_context (effectiveTenantId (ein_tenantId input)) who EngineResource (ein_engineId input)) = Inr True \<or> \<not> elg_allowed r"
      "hasActiveTarget lib newId now (ein_projectId input) (ein_engineId input) (given_or (ein_mode input) ManualMode)
        (Some (effectiveTenantId (ein_tenantId input))) db = Inr (hasTarget, db')"
      "elg_allowed r \<Longrightarrow> hasTarget \<and> list_all snd (engine_checks (given_or (ein_mode input) ManualMode) d) \<and>
        list_all snd (environment_checks db (given_or (ein_mode input) ManualMode) d) \<and>
        (\<exists>p. evaluateGate cal (pdb_policies (ddb_product db)) now (project_permission (given_or (ein_mode input) ManualMode))
          (deployment_policy_context db input who d ProjectResource (ein_projectId input) True) = Inr p \<and> evr_decision p \<noteq> ''deny'') \<and>
        (\<exists>p. evaluateGate cal (pdb_policies (ddb_product db)) now (engine_permission (given_or (ein_mode input) ManualMode))
          (deployment_policy_context db input who d EngineResource (ein_engineId input) True) = Inr p \<and> evr_decision p \<noteq> ''deny'')"
proof -
  let ?mode = "given_or (ein_mode input) ManualMode" and ?tenant = "effectiveTenantId (ein_tenantId input)"
  let ?project = "hasPermission (pdb_authz (ddb_product db)) now (project_permission ?mode)
        (deployment_context ?tenant who ProjectResource (ein_projectId input))"
  let ?engine = "hasPermission (pdb_authz (ddb_product db)) now (engine_permission ?mode)
        (deployment_context ?tenant who EngineResource (ein_engineId input))"
  let ?target = "hasActiveTarget lib newId now (ein_projectId input) (ein_engineId input) ?mode (Some ?tenant) db"
  note def = evaluate_found_def Let_def
  show thesis
  proof (cases ?project)
    case (Inl e)
    then show thesis using assms untouched by (auto simp: def)
  next
    case project: (Inr may_project)
    show thesis
    proof (cases ?engine)
      case (Inl e)
      then show thesis using assms project untouched by (auto simp: def)
    next
      case engine: (Inr may_engine)
      show thesis
      proof (cases ?target)
        case (Inl e)
        then show thesis using assms project engine untouched by (auto simp: def)
      next
        case target: (Inr found)
        obtain hasTarget db1 where found: "found = (hasTarget, db1)" by (cases found)
        let ?gate = "\<lambda>permission rt i. evaluateGate cal (pdb_policies (ddb_product db)) now permission
          (deployment_policy_context db input who d rt i hasTarget)"
        note known = project engine target found
        show thesis
        proof (cases "?gate (project_permission ?mode) ProjectResource (ein_projectId input)")
          case (Inl e)
          then have "db' = db1" "\<not> elg_allowed r" using assms known by (auto simp: def)
          then show thesis using looked known by simp
        next
          case gate1: (Inr p1)
          show thesis
          proof (cases "?gate (engine_permission ?mode) EngineResource (ein_engineId input)")
            case (Inl e)
            then have "db' = db1" "\<not> elg_allowed r" using assms known gate1 by (auto simp: def)
            then show thesis using looked known by simp
          next
            case gate2: (Inr p2)
            have "evaluate_found lib cal newId now input who d db = (conclude ?mode ((((([(''project.exists'', True), (''engine.exists'', True)] @
                engine_checks ?mode d) @ [(if ?mode = ImportMode then ''project.permission.files_create'' else ''project.permission.deploy'', may_project)]) @
                [(if ?mode = ImportMode then ''engine.permission.deploy_view'' else ''engine.permission.deploy'', may_engine)]) @
                [(''project_engine_target.active'', hasTarget)] @ environment_checks db ?mode d) @
                [(''policy.project'', evr_decision p1 \<noteq> ''deny'')] @ [(''policy.engine'', evr_decision p2 \<noteq> ''deny'')]), db1)"
              unfolding evaluate_found_def Let_def project engine target found gate1 gate2 attempt_Inr case_prod_conv append_assoc by (rule refl)
            with assms have same: "db' = db1" and allowed: "elg_allowed r \<longleftrightarrow> list_all snd (engine_checks ?mode d) \<and> may_project \<and> may_engine \<and> hasTarget \<and>
                list_all snd (environment_checks db ?mode d) \<and> evr_decision p1 \<noteq> ''deny'' \<and> evr_decision p2 \<noteq> ''deny''"
              by (auto simp: conclude_def)
            show thesis
            proof (rule looked [of hasTarget])
              show "?project = Inr True \<or> \<not> elg_allowed r" using allowed project by (cases may_project) simp_all
              show "?engine = Inr True \<or> \<not> elg_allowed r" using allowed engine by (cases may_engine) simp_all
              show "?target = Inr (hasTarget, db')" using target found same by simp
              assume "elg_allowed r"
              with allowed have all: "list_all snd (engine_checks ?mode d)" hasTarget "list_all snd (environment_checks db ?mode d)"
                "evr_decision p1 \<noteq> ''deny''" "evr_decision p2 \<noteq> ''deny''" by blast+
              from all(2) have "hasTarget = True" by simp
              with gate1 gate2 have "?gate (project_permission ?mode) ProjectResource (ein_projectId input) = Inr p1"
                "?gate (engine_permission ?mode) EngineResource (ein_engineId input) = Inr p2" by blast+
              with all \<open>hasTarget = True\<close> show "hasTarget \<and> list_all snd (engine_checks ?mode d) \<and> list_all snd (environment_checks db ?mode d) \<and>
                (\<exists>p. evaluateGate cal (pdb_policies (ddb_product db)) now (project_permission ?mode)
                  (deployment_policy_context db input who d ProjectResource (ein_projectId input) True) = Inr p \<and> evr_decision p \<noteq> ''deny'') \<and>
                (\<exists>p. evaluateGate cal (pdb_policies (ddb_product db)) now (engine_permission ?mode)
                  (deployment_policy_context db input who d EngineResource (ein_engineId input) True) = Inr p \<and> evr_decision p \<noteq> ''deny'')"
                by metis
            qed
          qed
        qed
      qed
    qed
  qed
qed

lemma eligibility_cases:
  assumes "evaluate_deployment lib cal newId now input db = (r, db')"
  obtains (unseen) "db' = db" and "\<not> elg_allowed r"
    | (seen) who projectTenant e d where "resolveDeploymentPrincipal input = Inr who"
      "project_row db (ein_projectId input) = Some projectTenant"
      "isTenantVisible projectTenant (Some (effectiveTenantId (ein_tenantId input)))"
      "full_engine db (ein_engineId input) = Some (e, d)"
      "isEngineVisibleInTenancyContext e (Some (effectiveTenantId (ein_tenantId input)))"
      "evaluate_found lib cal newId now input who d db = (r, db')"
  using assms unfolding evaluate_deployment_def Let_def attempt_def
  by (auto split: sum.split_asm option.split_asm if_split_asm)

lemma evaluate_tables:
  assumes "evaluate_deployment lib cal newId now input db = (r, db')"
  shows "db' = db \<or> (\<exists>p e mode tenantId b. hasActiveTarget lib newId now p e mode tenantId db = Inr (b, db'))"
  using assms
proof (cases rule: eligibility_cases)
  case (seen who projectTenant e d)
  from seen(6) show ?thesis by (cases rule: found_cases) blast+
qed simp

lemma evaluate_steps:
  assumes "evaluate_deployment lib cal newId now input db = (r, db')" and "fresh newId db"
  shows "(retarget False)\<^sup>*\<^sup>* db db' \<and> fst ` set (ddb_targets db') \<subseteq> insert newId (fst ` set (ddb_targets db))"
  using evaluate_tables [OF assms(1)] active_steps [OF _ assms(2)] active_keys by (metis rtranclp.rtrancl_refl subset_insertI)

lemma evaluate_each_steps:
  assumes "evaluate_each lib cal ids now input modes results db = (rs, db')" and "distinct ids" and "\<forall>i \<in> set ids. fresh i db"
    and "length modes \<le> length ids"
  shows "(retarget False)\<^sup>*\<^sup>* db db'"
  using assms
proof (induction lib cal ids now input modes results db rule: evaluate_each.induct)
  case (2 lib cal ids now input m ms results db)
  then obtain i js where ids: "ids = i # js" by (cases ids) auto
  obtain r db1 where e: "evaluate_deployment lib cal i now (input\<lparr>ein_mode := Some m\<rparr>) db = (r, db1)" by fastforce
  have "fresh i db" using 2(4) ids by simp
  note first = evaluate_steps [OF e this]
  have "\<forall>j \<in> set js. fresh j db1" using first 2(3-4) ids by (auto simp: fresh_def)
  with 2 ids e have "(retarget False)\<^sup>*\<^sup>* db1 db'" by simp
  with first show ?case by (meson rtranclp_trans)
qed simp

definition fresh_for :: "fresh_ids \<Rightarrow> deploy_db \<Rightarrow> bool" where
  "fresh_for ids db \<longleftrightarrow> distinct [fid_first ids, snd (fid_grant ids), fid_second ids] \<and>
     fresh (fid_first ids) db \<and> fresh (snd (fid_grant ids)) db \<and> fresh (fid_second ids) db"

text \<open>The guard evaluates once, or twice with a grant in between.\<close>

lemma composite_cases:
  assumes "evaluateDeploymentComposite lib cal ids now u t p e mode legacyAutoGrant db = (r, db')"
  obtains (once) result where "evaluate_deployment lib cal (fid_first ids) now (composite_input u t p e mode) db = (result, db')"
      "\<And>q. r = Inr q \<Longrightarrow> q = result"
    | (twice) result db1 i db2 again where
      "evaluate_deployment lib cal (fid_first ids) now (composite_input u t p e mode) db = (result, db1)"
      "engine_held db1 now ''engine:project-access:approve'' u t e = Inr True"
      "grantAccess lib (fid_grant ids) now p e u True t db1 = Inr (i, db2)"
      "evaluate_deployment lib cal (fid_second ids) now (composite_input u t p e mode) db2 = (again, db')" "r = Inr again"
proof -
  obtain result db1 where first: "evaluate_deployment lib cal (fid_first ids) now (composite_input u t p e mode) db = (result, db1)"
    by fastforce
  show thesis
  proof (cases "\<exists>i db2. grantAccess lib (fid_grant ids) now p e u True t db1 = Inr (i, db2)")
    case False
    with assms first have "db' = db1" "\<And>q. r = Inr q \<Longrightarrow> q = result"
      by (auto simp: evaluateDeploymentComposite_def Let_def split: if_split_asm sum.split_asm)
    with once first show thesis by blast
  next
    case True
    then obtain i db2 where grant: "grantAccess lib (fid_grant ids) now p e u True t db1 = Inr (i, db2)" by blast
    obtain again db3 where second: "evaluate_deployment lib cal (fid_second ids) now (composite_input u t p e mode) db2 = (again, db3)"
      by fastforce
    show thesis
    proof (cases "elg_allowed result \<or> \<not> legacyAutoGrant \<or> mode \<noteq> ManualMode \<or> deniedCheckIds result \<noteq> [''project_engine_target.active''] \<or>
        engine_held db1 now ''engine:project-access:approve'' u t e \<noteq> Inr True")
      case True
      with assms first grant second have "db' = db1" "\<And>q. r = Inr q \<Longrightarrow> q = result"
        by (auto simp: evaluateDeploymentComposite_def Let_def split: if_split_asm sum.split_asm)
      with once first show thesis by blast
    next
      case False
      with assms first grant second have "r = Inr again" "db' = db3" by (auto simp: evaluateDeploymentComposite_def Let_def)
      with twice first grant second False show thesis by blast
    qed
  qed
qed

lemma composite_steps:
  assumes "evaluateDeploymentComposite lib cal ids now u t p e mode legacyAutoGrant db = (r, db')" and "fresh_for ids db"
  shows "(retarget False)\<^sup>*\<^sup>* db db'"
  using assms(1)
proof (cases rule: composite_cases)
  case (once result)
  then show ?thesis using evaluate_steps assms(2) by (simp add: fresh_for_def)
next
  case (twice result db1 i db2 again)
  from evaluate_steps [OF twice(1)] assms(2) have a: "(retarget False)\<^sup>*\<^sup>* db db1" "fresh (snd (fid_grant ids)) db1" "fresh (fid_second ids) db1"
    by (auto simp: fresh_for_def fresh_def)
  from grant_with_steps [OF twice(3) [unfolded grantAccess_def] a(2)] a(3) assms(2)
  have b: "(retarget False)\<^sup>*\<^sup>* db1 db2" "fresh (fid_second ids) db2" by (auto simp: fresh_for_def fresh_def)
  from evaluate_steps [OF twice(4) b(2)] a(1) b(1) show ?thesis by (meson rtranclp_trans)
qed

lemma guard_tables:
  assumes "requireCompositeAction lib cal ids now act options req db = (r, db')"
  shows "db' = db \<or> (\<exists>u t p e mode grantable q. evaluateDeploymentComposite lib cal ids now u t p e mode grantable db = (q, db'))"
proof (cases "arq_userId req")
  case (Some u)
  with assms show ?thesis
    unfolding requireCompositeAction_def Let_def
    by (simp split: if_split_asm option.split_asm prod.split_asm sum.split_asm) blast+
qed (use assms in \<open>simp add: requireCompositeAction_def\<close>)

inductive deployment_decided :: "deploy_db \<Rightarrow> deploy_db \<Rightarrow> bool" where
  guards: "requireCompositeAction lib cal ids now act options req db = (r, db') \<Longrightarrow> fresh_for ids db \<Longrightarrow> deployment_decided db db'"
| evaluates: "evaluateModes lib cal ids now input modes db = (rs, db') \<Longrightarrow> distinct ids \<Longrightarrow> \<forall>i \<in> set ids. fresh i db \<Longrightarrow>
    length modes \<le> length ids \<Longrightarrow> deployment_decided db db'"

lemma decided_steps: "deployment_decided db db' \<Longrightarrow> (retarget False)\<^sup>*\<^sup>* db db'"
proof (induction rule: deployment_decided.induct)
  case (guards lib cal ids now act options req db r db')
  then show ?case using guard_tables [OF guards(1)] composite_steps by (metis rtranclp.rtrancl_refl)
next
  case (evaluates lib cal ids now input modes db rs db')
  then show ?case using evaluate_each_steps unfolding evaluateModes_def by blast
qed

interpretation decisions: target_writer deployment_decided
  by unfold_locales (rule decided_steps)

section \<open>What an allowed deployment means\<close>

lemma effective_twice [simp]: "effectiveTenantId (Some (effectiveTenantId t)) = effectiveTenantId t"
  "normalizeTenantIdForPersistence (Some (effectiveTenantId t)) = Some (effectiveTenantId t)"
proof -
  show n: "normalizeTenantIdForPersistence (Some (effectiveTenantId t)) = Some (effectiveTenantId t)"
  proof (cases "normalizeTenantIdForPersistence t")
    case None
    then show ?thesis by (simp add: effectiveTenantId_def) (simp add: normalizeTenantIdForPersistence_def OSS_DEFAULT_TENANT_ID_def
        trimmed_def trim_def is_space_def isOssDefaultTenantId_def OSS_DEFAULT_TENANT_IDS_def)
  next
    case (Some s)
    have "normalizeTenantIdForPersistence (normalizeTenantIdForPersistence t) = normalizeTenantIdForPersistence t" by simp
    with Some show ?thesis by (simp add: effectiveTenantId_def)
  qed
  then show "effectiveTenantId (Some (effectiveTenantId t)) = effectiveTenantId t"
    by (simp add: effectiveTenantId_def [of "Some (effectiveTenantId t)"])
qed

text \<open>The rights a principal needs to deploy: both rows belong to the tenant, the engine takes the deployment, the
  principal has access to both, and no policy denies.\<close>

definition deployment_rights :: "calendar \<Rightarrow> deploy_db \<Rightarrow> int \<Rightarrow> eligibility_input \<Rightarrow> principal_ref \<Rightarrow> bool" where
  "deployment_rights cal db now input who \<longleftrightarrow>
     (let mode = given_or (ein_mode input) ManualMode; tenant = effectiveTenantId (ein_tenantId input);
          p = ein_projectId input; i = ein_engineId input; authz = pdb_authz (ddb_product db); st = pdb_policies (ddb_product db)
      in \<exists>projectTenant e d. project_row db p = Some projectTenant \<and> normalizeTenantIdForPersistence projectTenant = Some tenant \<and>
        full_engine db i = Some (e, d) \<and> isEngineVisibleInTenancyContext e (Some tenant) \<and>
        \<not> eni_environmentLocked d \<and> trim (eni_baseUrl d) \<noteq> [] \<and>
        (mode \<in> {ManualMode, CiMode} \<longrightarrow> eni_deploymentIntegration d \<noteq> ''direct_engine'') \<and>
        (\<forall>tag env. mode = ManualMode \<and> tag \<noteq> [] \<and> eni_environmentTagId d = Some tag \<and> map_of (ddb_environments db) tag = Some env \<longrightarrow>
           evt_manualDeployAllowed env) \<and>
        has_access authz now (Some tenant) who (project_permission mode) (ProjectResource, p) \<and>
        has_access authz now (Some tenant) who (engine_permission mode) (EngineResource, i) \<and>
        matching cal st now (project_permission mode) (deployment_policy_context db input who d ProjectResource p True) ''deny'' = {} \<and>
        matching cal st now (engine_permission mode) (deployment_policy_context db input who d EngineResource i True) ''deny'' = {})"

definition open_target :: "deploy_db \<Rightarrow> string \<Rightarrow> string \<Rightarrow> deploy_mode \<Rightarrow> bool" where
  "open_target db p e mode \<longleftrightarrow> (\<exists>(i, t) \<in> set (ddb_targets db). target_pair t = (p, e) \<and> modeAllowed t mode)"

lemma legacy_target_open:
  assumes "createTarget lib newId now (legacy_input tenantId p e g a) db = Inr (i, db')" and "target_for db p e = None"
    and "mode = ManualMode \<or> mode = ImportMode"
  shows "open_target db' p e mode"
  using assms(1)
proof (cases rule: create_cases)
  case (1 tenant d)
  let ?t = "new_target lib now (legacy_input tenantId p e g a) tenant d"
  have "target_pair ?t = (p, e) \<and> modeAllowed ?t mode"
    using assms(3) by (auto simp: target_pair_def legacy_input_def new_target_def Let_def text_or_def given_or_def)
  with 1 show ?thesis by (force simp: open_target_def)
next
  case 2
  with assms(2) show ?thesis by (simp add: legacy_input_def)
qed

lemma active_open:
  assumes "hasActiveTarget lib newId now p e mode tenantId db = Inr (True, db')"
  shows "p \<noteq> [] \<and> e \<noteq> [] \<and> open_target db' p e mode"
proof -
  from assms have ids: "p \<noteq> []" "concrete_engine e" by (auto simp: hasActiveTarget_def split: if_split_asm)
  have "open_target db' p e mode"
  proof (cases "findTargetForPair db p e tenantId")
    case (Some row)
    then obtain i t where row: "findTargetForPair db p e tenantId = Some (i, t)" by (cases row) auto
    from target_for_Some [of db p e i t] find_pair_row [OF row] have "(i, t) \<in> set (ddb_targets db)" "target_pair t = (p, e)"
      by (auto simp: target_pair_def)
    moreover have "db' = db" "modeAllowed t mode" using assms ids row by (auto simp: hasActiveTarget_def split: if_split_asm)
    ultimately show ?thesis by (force simp: open_target_def)
  next
    case None
    with assms ids have "\<exists>r g a. ensureTargetFromLegacyAccess lib newId now p e g a tenantId db = Inr (r, db')"
      and mode: "mode = ManualMode \<or> mode = ImportMode" and policy: "getProjectEngineTargetPolicyMode db \<noteq> ''external_only''"
      by (auto simp: hasActiveTarget_def split: if_split_asm option.split_asm) blast+
    then obtain r g a where e: "ensureTargetFromLegacyAccess lib newId now p e g a tenantId db = Inr (r, db')" by blast
    with ids policy None obtain i where c: "createTarget lib newId now (legacy_input tenantId p e g a) db = Inr (i, db')"
      by (cases "createTarget lib newId now (legacy_input tenantId p e g a) db") (auto simp: ensureTargetFromLegacyAccess_def)
    have "target_for db p e = None"
    proof (cases "target_for db p e")
      case (Some row)
      with c None show ?thesis by (cases row) (auto simp: createTarget_def findTargetForPair_def legacy_input_def split: if_split_asm)
    qed simp
    with legacy_target_open c mode show ?thesis by blast
  qed
  with ids show ?thesis by (auto simp: concrete_engine_def)
qed

lemma deployment_principal: "snd who \<noteq> [] \<Longrightarrow> resolvePermissionPrincipal (deployment_context t who rt i) = Inr who"
  by (cases who) (auto simp: deployment_context_def resolvePermissionPrincipal_def user_context_def)

lemma deployment_access:
  assumes "hasPermission db now p (deployment_context t who rt i) = Inr True" and "snd who \<noteq> []" and "i \<noteq> []"
  shows "has_access db now (Some t) who p (rt, i)"
proof -
  have fields: "pcx_resourceType (deployment_context t who rt i) = Some rt" "pcx_resourceId (deployment_context t who rt i) = Some i"
    "pcx_tenantId (deployment_context t who rt i) = Some t" by (simp_all add: deployment_context_def user_context_def)
  from assms(1) obtain e where e: "evaluatePermission db now p (deployment_context t who rt i) = Inr e" "pev_allowed e"
    by (auto simp: hasPermission_def)
  from evaluation_access(1) [OF deployment_principal [OF assms(2)] fields(1,2) assms(3) e(1)] e(2) fields(3) show ?thesis by simp
qed

lemma allowed_rights:
  assumes "evaluate_deployment lib cal newId now input db = (r, db')" and "elg_allowed r"
  shows "\<exists>who. resolveDeploymentPrincipal input = Inr who \<and> deployment_rights cal db now input who \<and>
    open_target db' (ein_projectId input) (ein_engineId input) (given_or (ein_mode input) ManualMode)"
  using assms(1)
proof (cases rule: eligibility_cases)
  case (seen who projectTenant e d)
  let ?mode = "given_or (ein_mode input) ManualMode" and ?tenant = "effectiveTenantId (ein_tenantId input)"
  from seen(1) have who: "snd who \<noteq> []"
    by (cases "first_of (ein_principalId input) (ein_userId input)") (auto simp: resolveDeploymentPrincipal_def Let_def split: if_split_asm)
  from seen(6) show ?thesis
  proof (cases rule: found_cases)
    case (looked hasTarget)
    note checks = looked(4) [OF assms(2)]
    with looked(3) have active: "hasActiveTarget lib newId now (ein_projectId input) (ein_engineId input) ?mode (Some ?tenant) db = Inr (True, db')"
      by simp
    note target = active_open [OF active]
    have access: "has_access (pdb_authz (ddb_product db)) now (Some ?tenant) who (project_permission ?mode) (ProjectResource, ein_projectId input)"
      "has_access (pdb_authz (ddb_product db)) now (Some ?tenant) who (engine_permission ?mode) (EngineResource, ein_engineId input)"
      using deployment_access looked(1,2) assms(2) who target by blast+
    have gates: "matching cal (pdb_policies (ddb_product db)) now (project_permission ?mode)
        (deployment_policy_context db input who d ProjectResource (ein_projectId input) True) ''deny'' = {}"
      "matching cal (pdb_policies (ddb_product db)) now (engine_permission ?mode)
        (deployment_policy_context db input who d EngineResource (ein_engineId input) True) ''deny'' = {}"
      using checks gate_decision by blast+
    have tenant: "normalizeTenantIdForPersistence projectTenant = Some ?tenant" using seen(3) by (simp add: isTenantVisible_def)
    have engine: "\<not> eni_environmentLocked d" "trim (eni_baseUrl d) \<noteq> []"
      "?mode \<in> {ManualMode, CiMode} \<longrightarrow> eni_deploymentIntegration d \<noteq> ''direct_engine''"
      using checks by (auto simp: engine_checks_def environment_checks_def)
    have env: "\<forall>tag env. ?mode = ManualMode \<and> tag \<noteq> [] \<and> eni_environmentTagId d = Some tag \<and> map_of (ddb_environments db) tag = Some env \<longrightarrow>
        evt_manualDeployAllowed env"
      using checks by (auto simp: environment_checks_def environment_of_def)
    have "deployment_rights cal db now input who"
      unfolding deployment_rights_def Let_def using seen(2,4,5) tenant engine env access gates by blast
    with seen(1) target show ?thesis by blast
  qed (use assms(2) in simp)
qed (use assms(2) in simp)

lemma rights_world:
  assumes "same_world db db'"
  shows "deployment_rights cal db' now input who \<longleftrightarrow> deployment_rights cal db now input who"
proof -
  have p: "ddb_product db' = ddb_product db" and e: "ddb_environments db' = ddb_environments db" and i: "ddb_engineInfo db' = ddb_engineInfo db"
    using assms by (simp_all add: same_world_def)
  have "project_row db' = project_row db" "full_engine db' = full_engine db" "environment_of db' = environment_of db"
    by (simp_all add: fun_eq_iff project_row_def full_engine_def environment_of_def p e i)
  moreover from this(3) have "deployment_attributes db' = deployment_attributes db" by (simp add: fun_eq_iff deployment_attributes_def)
  ultimately show ?thesis by (simp only: deployment_rights_def p e)
qed

section \<open>Samples\<close>

definition sample_grant :: "string \<Rightarrow> resource_type \<Rightarrow> string \<Rightarrow> string \<times> grant_row" where
  "sample_grant p rt i = (p, \<lparr>gnt_tenantId = Some ''t1'', gnt_userId = ''u'', gnt_permission = p,
     gnt_resourceType = Some rt, gnt_resourceId = Some i, gnt_expiresAt = None\<rparr>)"

definition deploy_authz :: authz_db where
  "deploy_authz = sample_authz\<lparr>db_engines := [(''e'', \<lparr>eng_tenantId = Some ''t1'', eng_isShared = False, eng_isResourceAware = False\<rparr>)],
     db_grants := [sample_grant ''project:deploy'' ProjectResource ''p'', sample_grant ''engine:deploy'' EngineResource ''e'']\<rparr>"

definition sample_target :: "string \<Rightarrow> target_row" where
  "sample_target source =
     \<lparr>tgt_tenantId = ''t1'', tgt_projectId = ''p'', tgt_engineId = ''e'', tgt_status = ''active'', tgt_source = source,
      tgt_sourceRef = None, tgt_ownershipMode = ''manual'', tgt_sourceHash = None, tgt_lastAppliedAt = None, tgt_driftStatus = None,
      tgt_externalSystemId = None, tgt_externalProjectId = None, tgt_externalEngineId = None, tgt_externalTargetId = None,
      tgt_allowManualDeploy = True, tgt_allowCiDeploy = False, tgt_allowApiDeploy = False, tgt_allowImport = False,
      tgt_createdById = None, tgt_approvedById = None, tgt_approvalStatus = ''not_required'', tgt_approvedAt = None,
      tgt_policyTags = [], tgt_diagnostics = None, tgt_lastSeenAt = None, tgt_createdAt = 0, tgt_updatedAt = 0\<rparr>"

definition deploy_sample :: "string \<Rightarrow> deploy_db" where
  "deploy_sample source =
     \<lparr>ddb_product = (sample_product [])\<lparr>pdb_authz := deploy_authz\<rparr>, ddb_projectNames = [(''p'', ''Orders'')],
      ddb_engineInfo = [(''e'', \<lparr>eni_name = ''Staging'', eni_type = None, eni_baseUrl = ''http://e'', eni_lifecycleStatus = Some ''active'',
        eni_deploymentIntegration = ''enterpriseglue_proxy'', eni_connectionMode = ''direct'', eni_authType = None,
        eni_environmentTagId = None, eni_environmentLocked = False\<rparr>)],
      ddb_environments = [], ddb_targets = [(''t'', sample_target source)], ddb_access = [], ddb_requests = [], ddb_targetMode = None\<rparr>"

lemma deploy_sample_fields [simp]: "pdb_authz (ddb_product (deploy_sample s)) = deploy_authz"
  "ddb_targets (deploy_sample s) = [(''t'', sample_target s)]" "ddb_environments (deploy_sample s) = []"
  "ddb_access (deploy_sample s) = []" "ddb_targetMode (deploy_sample s) = None"
  "pdb_policies (ddb_product (deploy_sample s)) = sample_store []"
  by (simp_all add: deploy_sample_def sample_product_def)

lemma sample_target_fields [simp]: "tgt_tenantId (sample_target s) = ''t1''" "tgt_projectId (sample_target s) = ''p''"
  "tgt_engineId (sample_target s) = ''e''" "tgt_status (sample_target s) = ''active''" "tgt_source (sample_target s) = s"
  "tgt_allowManualDeploy (sample_target s)" "tgt_ownershipMode (sample_target s) = ''manual''" "tgt_sourceRef (sample_target s) = None"
  by (simp_all add: sample_target_def)

lemma effective_sample [simp]: "effectiveTenantId (Some ''t1'') = ''t1''"
  by (simp add: effectiveTenantId_def)

lemma sample_rows: "project_row (deploy_sample s) ''p'' = Some (Some ''t1'')"
  "\<exists>d. full_engine (deploy_sample s) ''e'' = Some (\<lparr>eng_tenantId = Some ''t1'', eng_isShared = False, eng_isResourceAware = False\<rparr>, d)"
  by (simp_all add: project_row_def full_engine_def deploy_authz_def deploy_sample_def sample_product_def sample_authz_def)

lemma sample_inv: "targets_inv (deploy_sample s)"
  using sample_rows [of s]
  by (simp add: targets_inv_def placed_def project_row_def deploy_authz_def isEngineVisibleInTenancyContext_def topologyMatchesProject_def
      trimmed_def trim_def is_space_def sample_authz_def)

lemma sample_deploy_access:
  "has_access deploy_authz now (Some ''t1'') (UserPrincipal, ''u'') ''project:deploy'' (ProjectResource, ''p'')"
  "has_access deploy_authz now (Some ''t1'') (UserPrincipal, ''u'') ''engine:deploy'' (EngineResource, ''e'')"
proof -
  have "\<exists>(k, g) \<in> set (db_grants deploy_authz). grant_gives deploy_authz now (Some ''t1'') ''u'' ''project:deploy'' (ProjectResource, ''p'') g"
    "\<exists>(k, g) \<in> set (db_grants deploy_authz). grant_gives deploy_authz now (Some ''t1'') ''u'' ''engine:deploy'' (EngineResource, ''e'') g"
    by (simp_all add: deploy_authz_def sample_grant_def grant_gives_def unexpired_at_def tenantScopedWhere_def)
  with own_candidate [of "''project:deploy''"] own_candidate [of "''engine:deploy''"]
  show "has_access deploy_authz now (Some ''t1'') (UserPrincipal, ''u'') ''project:deploy'' (ProjectResource, ''p'')"
    "has_access deploy_authz now (Some ''t1'') (UserPrincipal, ''u'') ''engine:deploy'' (EngineResource, ''e'')"
    unfolding has_access_def by auto
qed

section \<open>Properties\<close>

inductive deploy_run :: "deploy_db \<Rightarrow> deploy_db \<Rightarrow> bool" for start where
  run_starts: "deploy_run start start"
| run_manages: "deploy_run start db \<Longrightarrow> target_managed db db' \<Longrightarrow> deploy_run start db'"
| run_accesses: "deploy_run start db \<Longrightarrow> access_managed db db' \<Longrightarrow> deploy_run start db'"
| run_decides: "deploy_run start db \<Longrightarrow> deployment_decided db db' \<Longrightarrow> deploy_run start db'"
| run_creates: "deploy_run start db \<Longrightarrow> createTarget lib newId now input db = Inr (i, db') \<Longrightarrow> fresh newId db \<Longrightarrow> deploy_run start db'"
| run_updates: "deploy_run start db \<Longrightarrow> updateTarget lib now i up db = Inr db' \<Longrightarrow> deploy_run start db'"

text \<open>C18: Whatever administrators, integrations, access requests and deployment guards do, in any order, a project and an engine
  have at most one target, and every target joins a project and an engine that exist: the tenant is that of the
  project, and the engine is shared or belongs to it. Nothing but targets, grants and requests changes.\<close>

theorem targets_stay_placed:
  assumes "deploy_run start db" and "targets_inv start"
  shows "targets_inv db \<and> same_world start db"
  using assms
proof (induction rule: deploy_run.induct)
  case (run_manages db db')
  then show ?case using managed.run_inv managed.run_world same_world_trans by blast
next
  case (run_accesses db db')
  then show ?case using access.run_inv access.run_world same_world_trans by blast
next
  case (run_decides db db')
  then show ?case using decisions.run_inv decisions.run_world same_world_trans by blast
next
  case (run_creates db lib newId now input i db')
  then show ?case using create_steps retarget_inv retarget_world same_world_trans by meson
next
  case (run_updates db lib now i up db')
  then show ?case using update_steps retarget_inv retarget_world same_world_trans by meson
qed simp

theorem targets_stay_placed_witness:
  "targets_inv (archiveLegacyTarget 5 ''p'' ''e'' (Some ''t1'') (deploy_sample ''legacy'')) \<and>
     ddb_targets (archiveLegacyTarget 5 ''p'' ''e'' (Some ''t1'') (deploy_sample ''legacy'')) \<noteq> ddb_targets (deploy_sample ''legacy'')"
proof -
  have "deploy_run (deploy_sample ''legacy'') (archiveLegacyTarget 5 ''p'' ''e'' (Some ''t1'') (deploy_sample ''legacy''))"
    by (rule run_manages [OF run_starts withdraws])
  from targets_stay_placed [OF this sample_inv]
  have inv: "targets_inv (archiveLegacyTarget 5 ''p'' ''e'' (Some ''t1'') (deploy_sample ''legacy''))" by simp
  have "ddb_targets (archiveLegacyTarget 5 ''p'' ''e'' (Some ''t1'') (deploy_sample ''legacy'')) =
      [(''t'', (sample_target ''legacy'')\<lparr>tgt_status := ''archived'', tgt_updatedAt := 5\<rparr>)]"
    by (simp add: archiveLegacyTarget_def concrete_engine_def findTargetForPair_def target_for_def isTenantVisible_def)
  moreover have "(sample_target ''legacy'')\<lparr>tgt_status := ''archived'', tgt_updatedAt := 5\<rparr> \<noteq> sample_target ''legacy''"
    by (simp add: sample_target_def)
  ultimately show ?thesis using inv by simp
qed




text \<open>C34: When the deployment guard lets a request through, the caller has the rights to deploy: the project belongs to the
  tenant of the request and the engine is visible in it, the engine is not locked and takes deployments of this
  mode, the caller has access to the deploy permission on both, and no policy denies on either. Afterwards there is a
  target of the project and the engine that is open for the mode.\<close>

theorem deployment_guard_grants_rights:
  assumes "requireCompositeAction lib cal ids now act options req db = (Inr (DeploymentGranted g), db')"
    and "fresh_for ids db"
  shows "\<exists>u. arq_userId req = Some u \<and> dgr_action g = act \<and>
    deployment_rights cal db now (composite_input u (request_tenant req) (dgr_projectId g) (dgr_engineId g) (dgr_mode g)) (UserPrincipal, u) \<and>
    open_target db' (dgr_projectId g) (dgr_engineId g) (dgr_mode g)"
proof -
  from assms(1) obtain u p e mode grantable result where u: "arq_userId req = Some u"
    and run: "evaluateDeploymentComposite lib cal ids now u (request_tenant req) p e mode grantable db = (Inr result, db')"
    and ok: "elg_allowed result" and g: "grant_deployment db' options act p e mode = Inr (DeploymentGranted g)"
    unfolding requireCompositeAction_def Let_def refuse_deployment_def
    by (auto split: option.split_asm if_split_asm prod.split_asm sum.split_asm)
  from g have fields: "dgr_action g = act" "dgr_projectId g = p" "dgr_engineId g = e" "dgr_mode g = mode"
    by (auto simp: grant_deployment_def)
  let ?input = "composite_input u (request_tenant req) p e mode"
  have input: "ein_projectId ?input = p" "ein_engineId ?input = e" "given_or (ein_mode ?input) ManualMode = mode"
    by (simp_all add: composite_input_def given_or_def)
  have who: "resolveDeploymentPrincipal ?input = Inr who \<Longrightarrow> who = (UserPrincipal, u)" for who
    by (auto simp: resolveDeploymentPrincipal_def composite_input_def given_or_def first_of_def Let_def split: if_split_asm)
  from run have "deployment_rights cal db now ?input (UserPrincipal, u) \<and> open_target db' p e mode"
  proof (cases rule: composite_cases)
    case (once result')
    then have "result' = result" by blast
    with allowed_rights [OF once(1)] ok who show ?thesis unfolding input by blast
  next
    case (twice result' db1 i db2 again)
    have "(retarget False)\<^sup>*\<^sup>* db db1" "fresh (snd (fid_grant ids)) db1"
      using evaluate_steps [OF twice(1)] assms(2) by (auto simp: fresh_for_def fresh_def)
    with grant_with_steps [OF twice(3) [unfolded grantAccess_def]] have "(retarget False)\<^sup>*\<^sup>* db db2" by (meson rtranclp_trans)
    then have world: "same_world db db2" by (induction rule: rtranclp_induct) (auto intro: same_world_trans retarget_world)
    from twice(5) have "again = result" by simp
    with allowed_rights [OF twice(4)] ok who rights_world [OF world] show ?thesis unfolding input by blast
  qed
  with u fields show ?thesis by simp
qed

definition deploy_request :: api_request where
  "deploy_request = (sample_request None JUndef)\<lparr>arq_body := JObj [(''projectId'', JStr ''p''), (''engineId'', JStr ''e'')]\<rparr>"

definition composite_defaults :: composite_options where
  "composite_defaults =
     \<lparr>cop_projectIdFrom = None, cop_projectIdKey = None, cop_engineIdFrom = None, cop_engineIdKey = None, cop_mode = None,
      cop_optionalWhenMissingEngineId = False, cop_legacyAutoGrant = None, cop_attachDeployContext = Some False,
      cop_hideUnauthorizedEngine = None\<rparr>"

lemma sample_engine:
  "\<exists>d. full_engine (deploy_sample s) ''e'' = Some (\<lparr>eng_tenantId = Some ''t1'', eng_isShared = False, eng_isResourceAware = False\<rparr>, d) \<and>
     eni_deploymentIntegration d = ''enterpriseglue_proxy'' \<and> trim (eni_baseUrl d) \<noteq> [] \<and> eni_environmentTagId d = None \<and>
     \<not> eni_environmentLocked d"
  by (simp add: full_engine_def deploy_authz_def deploy_sample_def sample_product_def sample_authz_def trim_def is_space_def)

lemma sample_active:
  "hasActiveTarget lib i now ''p'' ''e'' ManualMode (Some ''t1'') (deploy_sample s) = Inr (True, deploy_sample s)"
  by (simp add: hasActiveTarget_def concrete_engine_def findTargetForPair_def target_for_def isTenantVisible_def
      getProjectEngineTargetPolicyMode_def given_or_def)

lemma sample_gate: "\<exists>r. evaluateGate cal (sample_store []) now p ctx = Inr r \<and> evr_decision r \<noteq> ''deny''"
  by (simp add: evaluateGate_def context_policies_def getApplicablePolicies_def sample_store_def by_priority_def plain_result_def)

lemma sample_evaluation:
  "\<exists>r. evaluate_deployment lib cal i now (composite_input ''u'' (Some ''t1'') ''p'' ''e'' ManualMode) (deploy_sample s) =
     (r, deploy_sample s) \<and> elg_allowed r"
proof -
  let ?input = "composite_input ''u'' (Some ''t1'') ''p'' ''e'' ManualMode" and ?who = "(UserPrincipal, ''u'')"
  have input: "ein_projectId ?input = ''p''" "ein_engineId ?input = ''e''" "given_or (ein_mode ?input) ManualMode = ManualMode"
    "ein_tenantId ?input = Some ''t1''" "resolveDeploymentPrincipal ?input = Inr ?who"
    by (simp_all add: composite_input_def given_or_def resolveDeploymentPrincipal_def first_of_def)
  obtain d where d: "full_engine (deploy_sample s) ''e'' = Some (\<lparr>eng_tenantId = Some ''t1'', eng_isShared = False, eng_isResourceAware = False\<rparr>, d)"
    "eni_deploymentIntegration d = ''enterpriseglue_proxy''" "trim (eni_baseUrl d) \<noteq> []" "eni_environmentTagId d = None"
    "\<not> eni_environmentLocked d" using sample_engine [of s] by blast
  have checks: "list_all snd (engine_checks ManualMode d)" "list_all snd (environment_checks (deploy_sample s) ManualMode d)"
    using d(2-5) by (simp_all add: engine_checks_def environment_checks_def environment_of_def requiredEngineCapabilityForMode_def
        ENGINE_OPERATION_CAPABILITIES_def)
  have may: "hasPermission deploy_authz now ''project:deploy'' (deployment_context ''t1'' ?who ProjectResource ''p'') = Inr True"
    "hasPermission deploy_authz now ''engine:deploy'' (deployment_context ''t1'' ?who EngineResource ''e'') = Inr True"
    using sample_deploy_access by (simp_all add: deployment_context_def hasPermission_access)
  have permissions: "project_permission ManualMode = ''project:deploy''" "engine_permission ManualMode = ''engine:deploy''"
    by (simp_all add: project_permission_def engine_permission_def)
  let ?ctx = "\<lambda>rt i. policyContext ?input ''t1'' ?who rt i (deployment_attributes (deploy_sample s) ?input ManualMode d True)"
  obtain r1 r2 where gates: "evaluateGate cal (sample_store []) now ''project:deploy'' (?ctx ProjectResource ''p'') = Inr r1"
      "evaluateGate cal (sample_store []) now ''engine:deploy'' (?ctx EngineResource ''e'') = Inr r2"
      "evr_decision r1 \<noteq> ''deny''" "evr_decision r2 \<noteq> ''deny''" using sample_gate by meson
  have "evaluate_found lib cal i now ?input ?who d (deploy_sample s) =
      (conclude ManualMode ([(''project.exists'', True), (''engine.exists'', True)] @ engine_checks ManualMode d @
         [(''project.permission.deploy'', True), (''engine.permission.deploy'', True), (''project_engine_target.active'', True)] @
         environment_checks (deploy_sample s) ManualMode d @ [(''policy.project'', True), (''policy.engine'', True)]), deploy_sample s)"
    by (simp add: evaluate_found_def attempt_def input permissions may sample_active gates)
  moreover have "evaluate_deployment lib cal i now ?input (deploy_sample s) = evaluate_found lib cal i now ?input ?who d (deploy_sample s)"
    by (simp add: evaluate_deployment_def attempt_def input sample_rows d(1) isTenantVisible_def isEngineVisibleInTenancyContext_def
        trimmed_def trim_def is_space_def)
  ultimately show ?thesis using checks by (simp add: conclude_def)
qed

text \<open>The caller of the sample request holds both deploy permissions and the target is open, so the guard lets it through.\<close>

lemma sample_granted:
  "\<exists>g. requireCompositeAction lib cal ids now act composite_defaults deploy_request (deploy_sample s) =
     (Inr (DeploymentGranted g), deploy_sample s) \<and> dgr_projectId g = ''p'' \<and> dgr_engineId g = ''e'' \<and> dgr_mode g = ManualMode"
proof -
  obtain r where r: "evaluate_deployment lib cal (fid_first ids) now (composite_input ''u'' (Some ''t1'') ''p'' ''e'' ManualMode) (deploy_sample s) =
      (r, deploy_sample s)" "elg_allowed r" using sample_evaluation by blast
  then have "evaluateDeploymentComposite lib cal ids now ''u'' (Some ''t1'') ''p'' ''e'' ManualMode b (deploy_sample s) = (Inr r, deploy_sample s)" for b
    by (simp add: evaluateDeploymentComposite_def)
  with r(2) show ?thesis
    by (simp add: requireCompositeAction_def deploy_request_def composite_defaults_def sample_request_def request_tenant_def
        readRequestValue_def request_sources_def source_value_def text_or_def given_or_def trimmed_def trim_def is_space_def nonempty_def
        grant_deployment_def)
qed

theorem deployment_guard_grants_rights_witness:
  "open_target (deploy_sample ''manual'') ''p'' ''e'' ManualMode \<and>
   deployment_rights utc (deploy_sample ''manual'') 0 (composite_input ''u'' (request_tenant deploy_request) ''p'' ''e'' ManualMode) (UserPrincipal, ''u'')"
proof -
  let ?ids = "\<lparr>fid_first = ''a'', fid_grant = (''b'', ''c''), fid_second = ''d''\<rparr>"
  obtain g where g: "requireCompositeAction sample_lib utc ?ids 0 heartbeat composite_defaults deploy_request (deploy_sample ''manual'') =
      (Inr (DeploymentGranted g), deploy_sample ''manual'')" "dgr_projectId g = ''p''" "dgr_engineId g = ''e''" "dgr_mode g = ManualMode"
    using sample_granted by blast
  have "fresh_for ?ids (deploy_sample ''manual'')" by (simp add: fresh_for_def fresh_def)
  from deployment_guard_grants_rights [OF g(1) this] show ?thesis
    unfolding g(2-4) by (auto simp: deploy_request_def sample_request_def)
qed

end
