(* ===== verification/Spec2Isabelle.thy ===== *)
theory Spec2Isabelle
  imports Resolver_Properties Installer_Properties Execution_Properties Gateway_Properties Host_Properties
    Store_Properties Authz_Properties Deployment_Properties
begin

text \<open>
  The plugin platform, the authorization and the deployments of EnterpriseGlue.

  A plugin is a signed release: a manifest, a resource descriptor and images. The installer
  verifies it and plans its deployment; the plan is carried out phase by phase by a runner over a
  durable store; the lifecycle registry records its state; the resolver decides which set of
  plugins may be active together; the frontend registry admits its user interface. At run time
  the gateway lets requests through to the plugin's backend with a signed token, and the broker
  lets the backend call the host with that token.

  The host itself decides every request with one authorization: roles, assignments and grants say what a
  principal may do on a resource, policies with conditions refuse beyond that, and the guards of the routes
  find the resource of a request and ask both. Deployments of a project to an engine need a target that joins
  them, rights on both, and an engine that is open for the mode of the deployment.

  This development models these parts as they are written in TypeScript under \<open>src/packages\<close>, and proves
  what they promise.

  \<^bold>\<open>Conventions.\<close> A function that throws returns \<open>Inl\<close> of its error code, or \<open>None\<close> where the error
  has no code. A class is a record or a list that its methods take and return. A JavaScript
  \<open>Map\<close> or \<open>Set\<close> is the list of its entries in insertion order (\<open>put\<close>, \<open>del\<close>, \<open>set_add\<close> of \<open>Prelude\<close>).
  Numbers are \<open>int\<close>; where the code limits them to safe integers, so do the definitions. Values of
  type \<open>unknown\<close> are \<open>jsval\<close>, and schemas over them are predicates. A closure that is returned
  (a lease) is a record of the variables it captures. Definitions have the names of the source; a
  text before a definition says what it stands for where the name does not.

  \<^bold>\<open>The theories and their sources.\<close>
  \<^item> \<open>Prelude\<close>: results, strings, maps in insertion order, stable sorting, regular expressions of the
    SDK as predicates. \<open>Js_Value\<close>: JavaScript values, property access, \<open>String(v)\<close>, canonical JSON,
    and the record \<open>host\<close>.
  \<^item> \<open>Manifest\<close>, \<open>Resources\<close>: \<open>plugin-sdk/src/manifest.ts\<close>, \<open>common.ts\<close> and the descriptor of
    \<open>distribution.ts\<close>; the parsed data and every rule of every \<open>superRefine\<close> as the list of its issues.
  \<^item> \<open>Resolver\<close>, \<open>Resolver_Order\<close>, \<open>Resolver_Isolated\<close>: \<open>plugin-runtime/src/resolver.ts\<close>. The depth-first
    search is shown to compute a dependency order or to report a cycle, and the code's three
    phases to decide \<open>consistent_set\<close> and \<open>safe_set\<close>, which do not mention it. Its interface to the
    installer is the locale \<open>relationship_resolver\<close>.
  \<^item> \<open>Lifecycle_Plan\<close>, \<open>Installer\<close>, \<open>Installer_Invariant\<close>, \<open>Plugin_Names\<close>: \<open>plugin-installer/src/index.ts\<close>;
    verification of releases, planners, validators, the desired state with the step relation of its
    five operations, and the names of services and volumes.
  \<^item> \<open>Execution\<close>, \<open>Execution_Lifecycle\<close>, \<open>Execution_Invariant\<close>: \<open>execution.ts\<close>; envelopes, executions with
    leases and revisions, their parsers and what they accept.
  \<^item> \<open>Execution_Store\<close>, \<open>Store_Contract\<close>, \<open>Store_Lock\<close>: \<open>executionStore.ts\<close> and \<open>executionObservation.ts\<close>. The
    locale \<open>execution_mutation\<close> is what the store needs of an operation; it is interpreted for the
    five operations of \<open>Execution\<close>. \<open>Store_Lock\<close> is the lock file with interleaved processes.
  \<^item> \<open>Execution_Runner\<close>, \<open>Runner_Contract\<close>: \<open>executionRunner.ts\<close>. The locale \<open>execution_store\<close> is the port the
    runner relies on; it is interpreted for the file store.
  \<^item> \<open>Gateway_Policy\<close>, \<open>Gateway_Admission\<close>, \<open>Gateway_Access\<close>, \<open>Gateway_Token\<close>: \<open>plugin-runtime/src/gateway.ts\<close>
    and the schemas of \<open>plugin-sdk/src/backend.ts\<close> it uses; the circuit breaker, the admission
    controller, path matching and authorization, capabilities, and invocation tokens.
  \<^item> \<open>Replay_Store\<close>: the replay stores of \<open>plugin-reference/src\<close> and \<open>secretBrokerReplayStore.ts\<close>. The locale
    \<open>replay_store\<close> is the contract the token verification relies on; it is interpreted for the
    three stores.
  \<^item> \<open>Broker_Schemas\<close>, \<open>Host_Broker\<close>: \<open>plugin-sdk/src/brokers.ts\<close> and \<open>plugin-runtime/src/hostBroker.ts\<close>; the
    messages and the seven calls, as functions over the state that the callbacks act on.
  \<^item> \<open>Lifecycle_Registry\<close>, \<open>Frontend_Registry\<close>: \<open>lifecycle.ts\<close> and \<open>frontendRegistry.ts\<close> of \<open>plugin-runtime\<close>.
  \<^item> \<open>Schedule_Store\<close>, \<open>Schedule_Invariant\<close>: \<open>backend-host/src/plugins/pluginScheduleStore.ts\<close>; each method is
    one transaction over the tables, and runs are sequences of transactions at times that do not
    decrease.
  \<^item> \<open>Storage_Store\<close>, \<open>Storage_Contract\<close>: \<open>pluginStorageStore.ts\<close> and the row lookup of \<open>pluginDatabaseLock.ts\<close>. The
    locale \<open>versioned_store\<close> is the store as a map of versioned values, which the broker relies on; it is
    interpreted for the database store.
  \<^item> \<open>Rate_Limit\<close>, \<open>Admission_Store\<close>: the locale \<open>rate_limiter\<close>, under which no window admits more than its
    limit, interpreted for the controller in memory of \<open>gateway.ts\<close> and for the admission that replicas
    share (\<open>pluginGatewayAdmissionStore.ts\<close>).
  \<^item> \<open>Samples\<close>, \<open>Gateway_Samples\<close>: concrete values for the witnesses.

  The authorization is in \<open>shared/src\<close>:
  \<^item> \<open>Authz_Scope\<close>: \<open>authz/tenant-scope.ts\<close>, \<open>tenant-role-policy.ts\<close>, \<open>role-assignment-identity.ts\<close>; resource and
    principal types, tenants and the filters of rows by tenant.
  \<^item> \<open>Permission_Catalog\<close>, \<open>Permission_Store\<close>, \<open>Permission_Snapshot\<close>: \<open>services/platform-admin/permissions.ts\<close>; the
    permissions and system roles as data, the tables as lists of rows with their ids, the evaluation of a
    permission, and what a user sees. \<open>Permission_Contract\<close> says who has access without the queries
    (\<open>has_access\<close>) and shows that the evaluation decides it.
  \<^item> \<open>Role_Admin\<close>, \<open>Role_Queries\<close>, \<open>Role_Invariant\<close>: the administration of the same file, its queries, and the
    invariant that it keeps.
  \<^item> \<open>Config_Ownership\<close>: \<open>AdminConfigObjectOwnershipService.ts\<close>; each operation as what it reads and what it
    writes later, so that writers interleave.
  \<^item> \<open>Ip_Range\<close>, \<open>Policy_Service\<close>: \<open>PolicyService.ts\<close> and the schema of policy conditions; addresses, conditions,
    the evaluation, the gate and the log of decisions.
  \<^item> \<open>Action_Registry\<close>, \<open>Action_Contract\<close>: \<open>authz/permission-actions.ts\<close> and the definitions it collects; every
    action as data, and that the registry is closed.
  \<^item> \<open>Action_Decision\<close>, \<open>Guard_Contract\<close>: \<open>middleware/requireAction.ts\<close>; the guards with their resolvers, and what a
    passed guard means in terms of \<open>has_access\<close>.

  The deployments are in \<open>shared/src\<close> as well:
  \<^item> \<open>Engine_Targets\<close>, \<open>Engine_Access\<close>: \<open>ProjectEngineTargetService.ts\<close>, \<open>EngineAccessService.ts\<close> and
    \<open>engine-tenancy/visibility.ts\<close>; targets, access grants and requests.
  \<^item> \<open>Deployment_Guard\<close>: \<open>DeploymentEligibilityService.ts\<close> and \<open>requireCompositeAction\<close>; the checks of a deployment and
    the guard with its automatic grant.
  \<^item> \<open>Deployment_Contract\<close>, \<open>Deployment_Writers\<close>: the locale \<open>target_writer\<close>, what every writer of targets keeps, and
    its interpretations for the management by hand and for access requests; the one for the guard is in
    \<open>Deployment_Properties\<close>.

  \<^bold>\<open>The properties\<close> are the theorems with a number:
  \<^item> \<open>Resolver_Properties\<close>, C1 to C4: acceptance is equivalent to safety, the order, errors, the isolated
    resolution.
  \<^item> \<open>Installer_Properties\<close>, C6 to C8, C10 and C11: what an accepted manifest guarantees, trust in a release, plans
    and their validators, the invariant of the desired state, rollback.
  \<^item> \<open>Store_Properties\<close>, C9 and C14: storage calls, shared admission.
  \<^item> \<open>Execution_Properties\<close>, C13, C16, C19 and C22 to C25: round trips, leases, the store as compare-and-swap,
    the runner's order, termination and success, the lock.
  \<^item> \<open>Gateway_Properties\<close>, C27, C29, C32 and C33: authorization, ceilings, tokens and replay.
  \<^item> \<open>Host_Properties\<close>, C35, C36 and C38: the broker, the audit log, schedules.
  \<^item> \<open>Authz_Properties\<close>, C5, C12, C15, C17, C20, C21, C26, C28, C31, C37, C39 and C40: the evaluation, roles,
    policies and their gate, assignments, the registry, ownership, the guards, collections, address ranges.
  \<^item> \<open>Deployment_Properties\<close>, C18, C30 and C34: targets stay placed, targets of other systems stay, and what a
    granted deployment means.

  These theories hold further results without a number. Behaviour that differs from what the code's comments or
  its purpose say is shown by \<open>isolated_resolution_not_largest\<close>, \<open>parser_accepts_overrun\<close>,
  \<open>stale_takeover_is_not_exclusive\<close>, \<open>second_probe_granted\<close>, \<open>skew_readmits_token\<close>, \<open>plugin_names_collide\<close>, two lemmas of
  \<open>Store_Properties\<close> on concurrent transactions and skewed clocks, and by C31.

  \<^bold>\<open>Recursion.\<close> The search of the resolver ends because each call visits a new plugin, the isolated
  resolution because each round removes a manifest; both are total functions with a measure.
  The loop of the runner has fuel, since its store and adapter are arguments; C23 shows that one
  more than the number of phases is enough.

  \<^bold>\<open>Parameters.\<close> Code outside the repository is an argument: \<open>host\<close> has SHA-256 and the two date
  functions, \<open>resolver_lib\<close> has semver and \<open>localeCompare\<close>, \<open>token_lib\<close> has Ed25519 and JSON in base64url, and
  \<open>isDatetime\<close> is zod's \<open>datetime()\<close>; \<open>calendar\<close> has the
  time of day in a time zone and the day of the week for the conditions of policies. Where a property relies on their documentation it says so as a
  hypothesis (\<open>host_ok\<close>, \<open>token_lib_ok\<close>), which the sample values of the witnesses satisfy. The clock is an
  argument of every operation that reads it.

  \<^bold>\<open>Not modelled.\<close> In the modelled files: the parser of the installer's state and the rendering of
  Compose and Helm overlays; the catalog and matrix schemas of \<open>distribution.ts\<close>; the control-plane
  schemas of \<open>control.ts\<close> other than the execution's; the schemas of secrets, health, events and
  sanitized bundles; the query variants for Oracle and Spanner and the delivery coordinator of the
  schedule store; reading and writing JSON text of files. In the authorization: the synchronisation of roles
  from older columns and the list of assignments, the version number of the tables and the lineage of
  assignments, audit entries of mutations, and the guards of definitions, process instances, deployments and
  migrations, which ask the REST API of an engine; the texts of reasons and remediations. Each operation of the
  deployments that the code runs in a transaction is one step; reading and writing between other requests is
  modelled for the ownership of configuration only. Other parts: the secret broker, the
  remaining database stores of the backend host, its HTTP routes and proxies, the process-engine
  modules, the administration of groups, engine sets and runtime resources, persistence migrations, OpenAPI
  documents, the frontend and the command lines, which are input and output, user interface or declarations.
\<close>

end
